(* ===== verification/Go_Prelude.thy ===== *)
theory Go_Prelude
  imports Main "HOL-Library.Monad_Syntax"
begin

text \<open>
  The part of Go and of its standard library that the modelled services use, and the generic
  lemmas their proofs share.

  \<^item> Errors: \<open>goerr\<close> is the \<open>error\<close> interface as the services build it, with
    \<open>errors.New\<close> sentinels (\<open>ErrVar\<close>), \<open>fmt.Errorf\<close> messages (\<open>Errorf\<close>) and \<open>%w\<close>
    wrapping (\<open>Wrap\<close>); \<open>errors_is\<close> is \<open>errors.Is\<close> and \<open>err_msg\<close> is \<open>err.Error()\<close>.
  \<^item> Effects: an \<open>('s, 'a) io\<close> operation takes the state and returns a result, \<open>Inl\<close> for
    a non-nil error and \<open>Inr\<close> for a value, with the state it left, on both paths: a Go
    function that returns an error keeps what it changed before.
  \<^item> Strings are byte lists; the letter functions treat the ASCII letters only.
  \<^item> Hoare-style rules (\<open>keeps\<close>, \<open>triple\<close>) with one rule per combinator.
\<close>

section \<open>Named collections\<close>

named_theorems go_simps "unfolding of the io combinators"
named_theorems keeps_intros "introduction rules for keeps"
named_theorems go_eval "definitions that run an operation on a concrete state"

section \<open>Errors\<close>

datatype goerr =
    Errorf string
  | ErrVar string string \<comment> \<open>a package-level sentinel: its name and its message\<close>
  | Wrap string goerr    \<comment> \<open>\<^verbatim>\<open>fmt.Errorf("p: %w", err)\<close>\<close>
  | Tag goerr string     \<comment> \<open>\<^verbatim>\<open>fmt.Errorf("%w: s", err)\<close>\<close>

fun err_msg :: "goerr \<Rightarrow> string" where
  "err_msg (Errorf s) = s"
| "err_msg (ErrVar n s) = s"
| "err_msg (Wrap p e) = p @ '': '' @ err_msg e"
| "err_msg (Tag e s) = err_msg e @ '': '' @ s"

fun errors_is :: "goerr \<Rightarrow> goerr \<Rightarrow> bool" where
  "errors_is (Wrap p e) t = (Wrap p e = t \<or> errors_is e t)"
| "errors_is (Tag e s) t = (Tag e s = t \<or> errors_is e t)"
| "errors_is e t = (e = t)"

section \<open>Operations: state, value or error\<close>

type_synonym ('s, 'a) io = "'s \<Rightarrow> (goerr + 'a) \<times> 's"

definition ok :: "'a \<Rightarrow> ('s, 'a) io" where
  "ok x = (\<lambda>w. (Inr x, w))"

definition fail :: "goerr \<Rightarrow> ('s, 'a) io" where
  "fail e = (\<lambda>w. (Inl e, w))"

text \<open>\<^verbatim>\<open>x, err := m; if err != nil { return nil, err }; ...\<close>\<close>

definition andThen :: "('s, 'a) io \<Rightarrow> ('a \<Rightarrow> ('s, 'b) io) \<Rightarrow> ('s, 'b) io" where
  "andThen m f = (\<lambda>w. case m w of (Inl e, w') \<Rightarrow> (Inl e, w') | (Inr x, w') \<Rightarrow> f x w')"

text \<open>\<^verbatim>\<open>x, err := m\<close> with both outcomes inspected by what follows.\<close>

definition attempt :: "('s, 'a) io \<Rightarrow> (goerr + 'a \<Rightarrow> ('s, 'b) io) \<Rightarrow> ('s, 'b) io" where
  "attempt m k = (\<lambda>w. case m w of (r, w') \<Rightarrow> k r w')"

text \<open>\<^verbatim>\<open>if err := m; err != nil { slog.Warn(...) }\<close>: the error is only logged.\<close>

definition logged :: "('s, 'a) io \<Rightarrow> ('s, unit) io" where
  "logged m = (\<lambda>w. case m w of (r, w') \<Rightarrow> (Inr (), w'))"

definition wrapErr :: "string \<Rightarrow> ('s, 'a) io \<Rightarrow> ('s, 'a) io" where
  "wrapErr p m = (\<lambda>w. case m w of (Inl e, w') \<Rightarrow> (Inl (Wrap p e), w') | (Inr x, w') \<Rightarrow> (Inr x, w'))"

text \<open>\<^verbatim>\<open>if !c { return nil, e }; ...\<close>\<close>

definition require :: "bool \<Rightarrow> goerr \<Rightarrow> ('s, 'a) io \<Rightarrow> ('s, 'a) io" where
  "require c e m = (if c then m else fail e)"

definition get :: "('s \<Rightarrow> 'a) \<Rightarrow> ('s, 'a) io" where
  "get f = (\<lambda>w. (Inr (f w), w))"

definition modify :: "('s \<Rightarrow> 's) \<Rightarrow> ('s, unit) io" where
  "modify f = (\<lambda>w. (Inr (), f w))"

lemmas io_defs [go_simps, go_eval] =
  ok_def fail_def andThen_def attempt_def logged_def wrapErr_def require_def get_def modify_def

text \<open>\<^verbatim>\<open>for _, x := range xs { s = body(x, s) }\<close> where the body cannot leave the loop.\<close>

fun for_each :: "'a list \<Rightarrow> ('a \<Rightarrow> 'b \<Rightarrow> ('s, 'b) io) \<Rightarrow> 'b \<Rightarrow> ('s, 'b) io" where
  "for_each [] body acc = ok acc"
| "for_each (x # xs) body acc = andThen (body x acc) (for_each xs body)"

section \<open>Hoare-style rules\<close>

definition keeps :: "('s \<Rightarrow> bool) \<Rightarrow> ('s, 'a) io \<Rightarrow> bool" where
  "keeps I m \<longleftrightarrow> (\<forall>w. I w \<longrightarrow> I (snd (m w)))"

definition triple :: "('s \<Rightarrow> bool) \<Rightarrow> ('s, 'a) io \<Rightarrow> ('a \<Rightarrow> 's \<Rightarrow> bool) \<Rightarrow> (goerr \<Rightarrow> 's \<Rightarrow> bool) \<Rightarrow> bool" where
  "triple P m Q E \<longleftrightarrow>
     (\<forall>w. P w \<longrightarrow> (case m w of (Inl e, w') \<Rightarrow> E e w' | (Inr x, w') \<Rightarrow> Q x w'))"

lemma keepsD: "keeps I m \<Longrightarrow> I w \<Longrightarrow> I (snd (m w))"
  by (simp add: keeps_def)

lemma keepsD2: "keeps I m \<Longrightarrow> I w \<Longrightarrow> m w = (r, w') \<Longrightarrow> I w'"
  by (metis keepsD snd_conv)

lemma keepsI: "(\<And>w r w'. I w \<Longrightarrow> m w = (r, w') \<Longrightarrow> I w') \<Longrightarrow> keeps I m"
  by (metis keeps_def prod.collapse)

lemma keeps_ok [keeps_intros]: "keeps I (ok x)"
  and keeps_fail [keeps_intros]: "keeps I (fail e)"
  and keeps_get [keeps_intros]: "keeps I (get f)"
  by (simp_all add: keeps_def go_simps)

lemma keeps_modify: "(\<And>w. I w \<Longrightarrow> I (f w)) \<Longrightarrow> keeps I (modify f)"
  by (simp add: keeps_def go_simps)

lemma keeps_andThen [keeps_intros]:
  "keeps I m \<Longrightarrow> (\<And>x. keeps I (f x)) \<Longrightarrow> keeps I (andThen m f)"
  by (rule keepsI) (auto simp: andThen_def split: prod.splits sum.splits dest: keepsD2)

lemma keeps_attempt [keeps_intros]:
  "keeps I m \<Longrightarrow> (\<And>r. keeps I (k r)) \<Longrightarrow> keeps I (attempt m k)"
  by (rule keepsI) (auto simp: attempt_def split: prod.splits dest: keepsD2)

lemma keeps_logged [keeps_intros]: "keeps I m \<Longrightarrow> keeps I (logged m)"
  by (rule keepsI) (auto simp: logged_def split: prod.splits dest: keepsD2)

lemma keeps_wrapErr [keeps_intros]: "keeps I m \<Longrightarrow> keeps I (wrapErr p m)"
  by (rule keepsI) (auto simp: wrapErr_def split: prod.splits sum.splits dest: keepsD2)

lemma keeps_require [keeps_intros]: "(c \<Longrightarrow> keeps I m) \<Longrightarrow> keeps I (require c e m)"
  by (simp add: require_def keeps_fail)

lemma keeps_if [keeps_intros]:
  "(c \<Longrightarrow> keeps I m) \<Longrightarrow> (\<not> c \<Longrightarrow> keeps I m') \<Longrightarrow> keeps I (if c then m else m')"
  by simp

lemma keeps_option [keeps_intros]:
  "(x = None \<Longrightarrow> keeps I m) \<Longrightarrow> (\<And>y. x = Some y \<Longrightarrow> keeps I (f y)) \<Longrightarrow>
     keeps I (case x of None \<Rightarrow> m | Some y \<Rightarrow> f y)"
  by (cases x) auto

lemma keeps_sum [keeps_intros]:
  "(\<And>e. x = Inl e \<Longrightarrow> keeps I (f e)) \<Longrightarrow> (\<And>y. x = Inr y \<Longrightarrow> keeps I (g y)) \<Longrightarrow>
     keeps I (case x of Inl e \<Rightarrow> f e | Inr y \<Rightarrow> g y)"
  by (cases x) auto

lemma keeps_for_each [keeps_intros]:
  "(\<And>x acc. x \<in> set xs \<Longrightarrow> keeps I (body x acc)) \<Longrightarrow> keeps I (for_each xs body acc)"
  by (induction xs arbitrary: acc) (auto intro: keeps_intros)

lemma tripleI:
  "(\<And>w r w'. P w \<Longrightarrow> m w = (Inr r, w') \<Longrightarrow> Q r w') \<Longrightarrow>
   (\<And>w e w'. P w \<Longrightarrow> m w = (Inl e, w') \<Longrightarrow> E e w') \<Longrightarrow> triple P m Q E"
  by (auto simp: triple_def split: prod.splits sum.splits)

lemma tripleD_ok: "triple P m Q E \<Longrightarrow> P w \<Longrightarrow> m w = (Inr r, w') \<Longrightarrow> Q r w'"
  and tripleD_err: "triple P m Q E \<Longrightarrow> P w \<Longrightarrow> m w = (Inl e, w') \<Longrightarrow> E e w'"
  by (auto simp: triple_def split: prod.splits sum.splits dest: spec [of _ w])

lemma triple_andThen:
  "triple P m R E \<Longrightarrow> (\<And>x. triple (R x) (f x) Q E) \<Longrightarrow> triple P (andThen m f) Q E"
  by (rule tripleI)
    (auto simp: andThen_def split: prod.splits sum.splits dest: tripleD_ok tripleD_err)

lemma triple_wrapErr:
  "triple P m Q (\<lambda>e. E (Wrap p e)) \<Longrightarrow> triple P (wrapErr p m) Q E"
  by (rule tripleI)
    (auto simp: wrapErr_def split: prod.splits sum.splits dest: tripleD_ok tripleD_err)

lemma triple_require:
  "(c \<Longrightarrow> triple P m Q E) \<Longrightarrow> (\<And>w. P w \<Longrightarrow> E e w) \<Longrightarrow> triple P (require c e m) Q E"
  by (auto simp: require_def) (auto simp: triple_def fail_def)

lemma triple_logged:
  "triple P m (\<lambda>_. I) (\<lambda>_. I) \<Longrightarrow> triple P (logged m) (\<lambda>_. I) E"
  by (rule tripleI)
    (auto simp: logged_def split: prod.splits, metis sum.exhaust tripleD_err tripleD_ok)

lemma triple_conseq:
  "triple P' m Q' E' \<Longrightarrow> (\<And>w. P w \<Longrightarrow> P' w) \<Longrightarrow> (\<And>x w. Q' x w \<Longrightarrow> Q x w) \<Longrightarrow>
     (\<And>e w. E' e w \<Longrightarrow> E e w) \<Longrightarrow> triple P m Q E"
  by (rule tripleI) (blast dest: tripleD_ok tripleD_err)+

lemma keeps_triple: "triple I m (\<lambda>_. I) (\<lambda>_. I) \<longleftrightarrow> keeps I m"
  by (auto simp: triple_def keeps_def split: prod.splits sum.splits) (metis snd_conv sum.exhaust surj_pair)+

lemma keeps_triple_True: "keeps I m \<Longrightarrow> triple I m (\<lambda>_. I) (\<lambda>_ _. True)"
  by (rule triple_conseq [of I m "\<lambda>_. I" "\<lambda>_. I"]) (simp_all add: keeps_triple)

lemma triple_then_done:
  assumes "keeps I m" "\<And>w. I w \<Longrightarrow> E w" "\<And>w. I w \<Longrightarrow> Q w"
  shows "triple I m (\<lambda>_. Q) (\<lambda>_. E)"
  by (rule triple_conseq [OF assms(1) [folded keeps_triple]]) (use assms(2,3) in auto)

lemma triple_step:
  assumes "keeps I m" "\<And>w. I w \<Longrightarrow> E w" "\<And>x. triple I (f x) Q (\<lambda>_. E)"
  shows "triple I (andThen m f) Q (\<lambda>_. E)"
  by (rule triple_andThen [OF triple_then_done [where Q = I, OF assms(1,2)]]) (use assms(3) in simp_all)

lemma attemptE:
  assumes "attempt m k w = (r, w')"
  obtains r1 w1 where "m w = (r1, w1)" "k r1 w1 = (r, w')"
  using assms by (cases "m w") (simp add: attempt_def)

lemma triple_attempt_split:
  assumes "triple P m R E1" "\<And>x. triple (R x) (k (Inr x)) Q E" "\<And>e. triple (E1 e) (k (Inl e)) Q E"
  shows "triple P (attempt m k) Q E"
proof (rule tripleI; elim attemptE)
  fix w r w' r1 w1 assume w: "P w" "m w = (r1, w1)" and k: "k r1 w1 = (Inr r, w')"
  show "Q r w'"
  proof (cases r1)
    case (Inl e)
    then show ?thesis using tripleD_ok [OF assms(3)] tripleD_err [OF assms(1)] w k by blast
  next
    case (Inr x)
    then show ?thesis using tripleD_ok [OF assms(2)] tripleD_ok [OF assms(1)] w k by blast
  qed
next
  fix w e w' r1 w1 assume w: "P w" "m w = (r1, w1)" and k: "k r1 w1 = (Inl e, w')"
  show "E e w'"
  proof (cases r1)
    case (Inl e)
    then show ?thesis using tripleD_err [OF assms(3)] tripleD_err [OF assms(1)] w k by blast
  next
    case (Inr x)
    then show ?thesis using tripleD_err [OF assms(2)] tripleD_ok [OF assms(1)] w k by blast
  qed
qed

lemma triple_attempt:
  "triple P m (\<lambda>_. R) (\<lambda>_. R) \<Longrightarrow> (\<And>r. triple R (k r) Q E) \<Longrightarrow> triple P (attempt m k) Q E"
  by (rule triple_attempt_split)

lemma triple_ok: "(\<And>w. P w \<Longrightarrow> Q x w) \<Longrightarrow> triple P (ok x) Q E"
  by (simp add: triple_def ok_def)

lemma triple_fail: "(\<And>w. P w \<Longrightarrow> E e w) \<Longrightarrow> triple P (fail e) Q E"
  by (simp add: triple_def fail_def)

lemma triple_pure: "(c \<Longrightarrow> triple P m Q E) \<Longrightarrow> triple (\<lambda>w. P w \<and> c) m Q E"
  by (auto simp: triple_def)

lemma keeps_disj: "keeps P m \<Longrightarrow> keeps Q m \<Longrightarrow> keeps (\<lambda>w. P w \<or> Q w) m"
  by (auto simp: keeps_def)

end
