(* ===== verification/Go_Strings.thy ===== *)
theory Go_Strings
  imports Go_Prelude "HOL-Library.Word"
begin

text \<open>
  Strings, numbers and identifiers: the functions of \<^verbatim>\<open>strings\<close>, \<^verbatim>\<open>fmt\<close> and
  \<^verbatim>\<open>regexp\<close> that the services call, and the textual form of a \<^verbatim>\<open>uuid.UUID\<close>. A string is
  the list of its bytes. The case and white-space functions act on the ASCII range.
\<close>

section \<open>Prefixes and replacement\<close>

definition has_prefix :: "string \<Rightarrow> string \<Rightarrow> bool" where
  "has_prefix s p \<longleftrightarrow> take (length p) s = p"

definition trim_prefix :: "string \<Rightarrow> string \<Rightarrow> string" where
  "trim_prefix s p = (if has_prefix s p then drop (length p) s else s)"

definition cut_prefix :: "string \<Rightarrow> string \<Rightarrow> string option" where
  "cut_prefix s p = (if has_prefix s p then Some (drop (length p) s) else None)"

text \<open>\<^verbatim>\<open>strings.ReplaceAll(s, c, "")\<close> for a one-byte \<open>c\<close>.\<close>

definition remove_char :: "char \<Rightarrow> string \<Rightarrow> string" where
  "remove_char c s = filter (\<lambda>x. x \<noteq> c) s"

lemma has_prefix_append [simp]: "has_prefix (p @ s) p"
  by (simp add: has_prefix_def)

lemma cut_prefix_Some: "cut_prefix s p = Some r \<longleftrightarrow> s = p @ r"
  by (auto simp: cut_prefix_def has_prefix_def) (metis append_take_drop_id)

lemma set_trim_prefix: "set (trim_prefix s p) \<subseteq> set s"
  by (auto simp: trim_prefix_def dest: in_set_dropD)

lemma set_remove_char: "set (remove_char c s) = set s - {c}"
  by (auto simp: remove_char_def)

section \<open>Letter case and white space\<close>

definition code :: "char \<Rightarrow> nat" where
  "code c = of_char c"

definition is_lower :: "char \<Rightarrow> bool" where
  "is_lower c \<longleftrightarrow> 97 \<le> code c \<and> code c \<le> 122"

definition is_upper :: "char \<Rightarrow> bool" where
  "is_upper c \<longleftrightarrow> 65 \<le> code c \<and> code c \<le> 90"

definition is_digit :: "char \<Rightarrow> bool" where
  "is_digit c \<longleftrightarrow> 48 \<le> code c \<and> code c \<le> 57"

definition is_space :: "char \<Rightarrow> bool" where
  "is_space c \<longleftrightarrow> code c = 32 \<or> (9 \<le> code c \<and> code c \<le> 13)"

definition to_upper :: "string \<Rightarrow> string" where
  "to_upper = map (\<lambda>c. if is_lower c then char_of (code c - 32) else c)"

definition to_lower :: "string \<Rightarrow> string" where
  "to_lower = map (\<lambda>c. if is_upper c then char_of (code c + 32) else c)"

definition trim_space :: "string \<Rightarrow> string" where
  "trim_space s = rev (dropWhile is_space (rev (dropWhile is_space s)))"

section \<open>Decimal and hexadecimal text\<close>

definition digit_char :: "nat \<Rightarrow> char" where
  "digit_char d = char_of (if d < 10 then 48 + d else 87 + d)"

fun show_nat :: "nat \<Rightarrow> string" where
  "show_nat n = (if n < 10 then [digit_char n] else show_nat (n div 10) @ [digit_char (n mod 10)])"

declare show_nat.simps [simp del]

definition show_int :: "int \<Rightarrow> string" where
  "show_int i = (if i < 0 then ''-'' @ show_nat (nat (- i)) else show_nat (nat i))"

text \<open>The \<open>k\<close> low hexadecimal digits of \<open>n\<close>, most significant first.\<close>

fun hex_digits :: "nat \<Rightarrow> nat \<Rightarrow> string" where
  "hex_digits 0 n = []"
| "hex_digits (Suc k) n = hex_digits k (n div 16) @ [digit_char (n mod 16)]"

lemma length_hex_digits [simp]: "length (hex_digits k n) = k"
  by (induction k arbitrary: n) auto

lemma digit_char_inj: "a < 16 \<Longrightarrow> b < 16 \<Longrightarrow> digit_char a = digit_char b \<Longrightarrow> a = b"
  by (auto simp: digit_char_def split: if_splits dest!: arg_cong [where f = "of_char :: char \<Rightarrow> nat"])

lemma hex_digits_inj:
  "a < 16 ^ k \<Longrightarrow> b < 16 ^ k \<Longrightarrow> hex_digits k a = hex_digits k b \<Longrightarrow> a = b"
proof (induction k arbitrary: a b)
  case 0
  then show ?case by simp
next
  case (Suc k)
  from Suc.prems(3) have "a mod 16 = b mod 16"
    by (auto intro: digit_char_inj)
  moreover have "a div 16 = b div 16"
    using Suc.prems by (intro Suc.IH) (auto simp: less_mult_imp_div_less mult.commute)
  ultimately show ?case by (metis div_mult_mod_eq)
qed

text \<open>\<^verbatim>\<open>%q\<close> of a printable string.\<close>

definition go_quote :: "string \<Rightarrow> string" where
  "go_quote s =
     CHR 0x22 # concat (map (\<lambda>c. if code c = 34 \<or> code c = 92 then [CHR 0x5C, c] else [c]) s) @ [CHR 0x22]"

text \<open>\<^verbatim>\<open>[6-9][0-9]{9}\<close>, the ten digits of an Indian mobile number.\<close>

definition mobile10 :: "string \<Rightarrow> bool" where
  "mobile10 s \<longleftrightarrow> length s = 10 \<and> hd s \<in> set ''6789'' \<and> list_all is_digit s"

section \<open>Query strings\<close>

text \<open>\<^verbatim>\<open>url.QueryEscape\<close>, and \<^verbatim>\<open>url.Values.Encode\<close> of pairs listed in key order.\<close>

definition unreserved :: "char \<Rightarrow> bool" where
  "unreserved c \<longleftrightarrow> is_lower c \<or> is_upper c \<or> is_digit c \<or> c \<in> set ''-_.~''"

definition query_escape :: "string \<Rightarrow> string" where
  "query_escape s = concat (map (\<lambda>c. if unreserved c then [c]
     else if c = CHR '' '' then ''+'' else ''%'' @ to_upper (hex_digits 2 (code c))) s)"

fun url_encode :: "(string \<times> string) list \<Rightarrow> string" where
  "url_encode [] = []"
| "url_encode [(k, v)] = query_escape k @ ''='' @ query_escape v"
| "url_encode ((k, v) # kv # kvs) =
     query_escape k @ ''='' @ query_escape v @ ''&'' @ url_encode (kv # kvs)"

text \<open>\<^verbatim>\<open>url.PathEscape\<close>.\<close>

definition path_escape :: "string \<Rightarrow> string" where
  "path_escape s = concat (map (\<lambda>c. if unreserved c \<or> c \<in> set ''$&+=:@'' then [c]
     else ''%'' @ to_upper (hex_digits 2 (code c))) s)"

definition trim_right :: "char \<Rightarrow> string \<Rightarrow> string" where
  "trim_right c s = rev (dropWhile (\<lambda>x. x = c) (rev s))"

section \<open>UUIDs\<close>

text \<open>
  A \<^verbatim>\<open>uuid.UUID\<close> is 16 bytes, here the 128-bit word they spell; \<^verbatim>\<open>uuid.Nil\<close> is 0.
\<close>

type_synonym uuid = "128 word"

definition uuid_string :: "uuid \<Rightarrow> string" where
  "uuid_string u =
     (let h = hex_digits 32 (unat u) in
      take 8 h @ ''-'' @ take 4 (drop 8 h) @ ''-'' @ take 4 (drop 12 h) @ ''-'' @
      take 4 (drop 16 h) @ ''-'' @ drop 20 h)"

lemma length_uuid_string: "length (uuid_string u) = 36"
  by (simp add: uuid_string_def Let_def)

lemma uuid_string_nonempty [simp]: "uuid_string u \<noteq> []"
  using length_uuid_string [of u] by auto

lemma uuid_string_inj:
  assumes "uuid_string a = uuid_string b"
  shows "a = b"
proof -
  define ha hb where "ha = hex_digits 32 (unat a)" and "hb = hex_digits 32 (unat b)"
  have len: "length ha = 32" "length hb = 32" by (simp_all add: ha_def hb_def)
  have d: "drop n h = take 4 (drop n h) @ drop (4 + n) h" for n and h :: string
    by (metis append_take_drop_id drop_drop)
  have split: "h = take 8 h @ take 4 (drop 8 h) @ take 4 (drop 12 h) @ take 4 (drop 16 h) @ drop 20 h"
    for h :: string
    using append_take_drop_id [of 8 h] d [of 8 h] d [of 12 h] d [of 16 h] by simp
  have "take 8 ha = take 8 hb \<and> take 4 (drop 8 ha) = take 4 (drop 8 hb)
      \<and> take 4 (drop 12 ha) = take 4 (drop 12 hb) \<and> take 4 (drop 16 ha) = take 4 (drop 16 hb)
      \<and> drop 20 ha = drop 20 hb"
    using assms len by (simp add: uuid_string_def Let_def flip: ha_def hb_def)
  then have "ha = hb" by (metis split)
  moreover have "unat a < 16 ^ 32" "unat b < 16 ^ 32"
    using unsigned_less [of a, where 'a = nat] unsigned_less [of b, where 'a = nat] by simp_all
  ultimately show ?thesis
    using hex_digits_inj [of "unat a" 32 "unat b"] by (simp add: ha_def hb_def word_unat_eq_iff)
qed

section \<open>Lists of rows\<close>

text \<open>Updating the rows that match, and the sums the ledger invariants use.\<close>

definition update_rows :: "('r \<Rightarrow> bool) \<Rightarrow> ('r \<Rightarrow> 'r) \<Rightarrow> 'r list \<Rightarrow> 'r list" where
  "update_rows p f = map (\<lambda>r. if p r then f r else r)"

definition sum_rows :: "('r \<Rightarrow> int) \<Rightarrow> 'r list \<Rightarrow> int" where
  "sum_rows f rs = sum_list (map f rs)"

lemma sum_rows_Nil [simp]: "sum_rows f [] = 0"
  and sum_rows_append [simp]: "sum_rows f (xs @ ys) = sum_rows f xs + sum_rows f ys"
  and sum_rows_Cons [simp]: "sum_rows f (x # xs) = f x + sum_rows f xs"
  by (simp_all add: sum_rows_def)

lemma sum_rows_nonneg: "(\<And>r. r \<in> set rs \<Longrightarrow> 0 \<le> f r) \<Longrightarrow> 0 \<le> sum_rows f rs"
  by (induction rs) (auto simp: sum_rows_def intro: add_nonneg_nonneg)

lemma sum_rows_member_le:
  "r \<in> set rs \<Longrightarrow> (\<And>r. r \<in> set rs \<Longrightarrow> 0 \<le> f r) \<Longrightarrow> f r \<le> sum_rows f rs"
  by (induction rs) (fastforce intro: sum_rows_nonneg add_increasing add_increasing2)+

lemma sum_rows_cong: "(\<And>r. r \<in> set rs \<Longrightarrow> f r = g r) \<Longrightarrow> sum_rows f rs = sum_rows g rs"
  by (induction rs) auto

lemma update_rows_id: "(\<And>r. r \<in> set rs \<Longrightarrow> \<not> p r) \<Longrightarrow> update_rows p f rs = rs"
  by (simp add: update_rows_def map_idI)

lemma update_rows_append [simp]:
  "update_rows p f (xs @ ys) = update_rows p f xs @ update_rows p f ys"
  and update_rows_Nil [simp]: "update_rows p f [] = []"
  and update_rows_Cons [simp]:
    "update_rows p f (x # xs) = (if p x then f x else x) # update_rows p f xs"
  by (simp_all add: update_rows_def)

lemma in_update_rows:
  "r \<in> set (update_rows p f rs) \<longleftrightarrow> (\<exists>r0 \<in> set rs. r = (if p r0 then f r0 else r0))"
  by (auto simp: update_rows_def)

lemma map_update_rows:
  "(\<And>r. p r \<Longrightarrow> g (f r) = g r) \<Longrightarrow> map g (update_rows p f rs) = map g rs"
  by (induction rs) auto

text \<open>Changing the one row with a given key changes a sum by that row's difference.\<close>

lemma sum_update_rows:
  assumes "distinct (map k rs)" "r \<in> set rs" "p r"
    and "\<And>x. x \<in> set rs \<Longrightarrow> p x \<Longrightarrow> k x = k r"
  shows "sum_rows g (update_rows p f rs) = sum_rows g rs - g r + g (f r)"
  using assms
proof (induction rs)
  case Nil
  then show ?case by simp
next
  case (Cons x xs)
  show ?case
  proof (cases "p x")
    case True
    with Cons.prems(4) [of x] have kx: "k x = k r" by simp
    have x: "x = r"
    proof (rule ccontr)
      assume "x \<noteq> r"
      with Cons.prems(2) have "r \<in> set xs" by simp
      then have "k x \<in> k ` set xs" unfolding kx by (rule imageI)
      with Cons.prems(1) show False by simp
    qed
    have "\<not> p y" if "y \<in> set xs" for y
    proof
      assume "p y"
      with Cons.prems(4) [of y] that have "k y = k r" by simp
      with that x have "k x \<in> k ` set xs" by (metis imageI)
      with Cons.prems(1) show False by simp
    qed
    then show ?thesis using True x by (simp add: update_rows_id)
  next
    case False
    with Cons.prems(2,3) have r: "r \<in> set xs" by auto
    have "sum_rows g (update_rows p f xs) = sum_rows g xs - g r + g (f r)"
    proof (rule Cons.IH)
      show "distinct (map k xs)" using Cons.prems(1) by simp
      show "k y = k r" if "y \<in> set xs" "p y" for y
        using Cons.prems(4) [of y] that by simp
    qed (use r Cons.prems(3) in simp_all)
    then show ?thesis using False by simp
  qed
qed

end
