(* ===== verification/Postgres.thy ===== *)
theory Postgres
  imports Go_Strings
begin

text \<open>
  The database seen from a service: what a statement, a transaction and the driver can do.

  \<^item> \<open>env\<close> is the part of every service's state that is not its own: the outcomes the
    network has in store for the coming round trips (\<open>net\<close>, one per statement, \<open>BEGIN\<close>,
    \<open>COMMIT\<close> or event publication; an empty list means that everything gets through), the
    clock in microseconds, and the identifiers \<open>gen_random_uuid()\<close> will hand out. No
    freshness is assumed of the latter: a primary key that is already taken is an error.
  \<^item> A round trip gets through (\<open>Up\<close>), fails before the server sees it (\<open>Refused\<close>), or
    takes effect with the reply lost (\<open>Lost\<close>), in which case the driver reports an error
    for a statement that ran.
  \<^item> A transaction that returns an error, or whose \<open>COMMIT\<close> is refused, leaves the tables as
    they were at \<open>BEGIN\<close>; one whose \<open>COMMIT\<close> reply is lost reports an error after all of it
    took effect.
  \<^item> \<open>BIGINT\<close> arithmetic is checked: leaving the 64-bit range is an error of the statement.
\<close>

datatype outcome = Up | Refused string | Lost string

record env =
  net :: "outcome list"
  clock :: int
  idgen :: "nat \<Rightarrow> uuid"
  idctr :: nat

definition db_call :: "('z env_scheme, 'a) io \<Rightarrow> ('z env_scheme, 'a) io" where
  "db_call m = (\<lambda>w. case net w of
       [] \<Rightarrow> m w
     | oc # ns \<Rightarrow> (case oc of
           Up \<Rightarrow> m (w\<lparr>net := ns\<rparr>)
         | Refused s \<Rightarrow> (Inl (Errorf s), w\<lparr>net := ns\<rparr>)
         | Lost s \<Rightarrow> (Inl (Errorf s), snd (m (w\<lparr>net := ns\<rparr>)))))"

definition rollback :: "'z env_scheme \<Rightarrow> 'z env_scheme \<Rightarrow> 'z env_scheme" where
  "rollback w w' = w\<lparr>net := net w', idctr := idctr w'\<rparr>"

definition commit :: "string \<Rightarrow> 'z env_scheme \<Rightarrow> 'a \<Rightarrow> ('z env_scheme, 'a) io" where
  "commit lbl w0 x = (\<lambda>w. case net w of
       [] \<Rightarrow> (Inr x, w)
     | oc # ns \<Rightarrow> (case oc of
           Up \<Rightarrow> (Inr x, w\<lparr>net := ns\<rparr>)
         | Refused s \<Rightarrow> (Inl (Wrap lbl (Errorf s)), rollback w0 (w\<lparr>net := ns\<rparr>))
         | Lost s \<Rightarrow> (Inl (Wrap lbl (Errorf s)), w\<lparr>net := ns\<rparr>)))"

text \<open>\<^verbatim>\<open>tx, err := db.Begin(); defer tx.Rollback(); ...; tx.Commit()\<close>, with the labels
  of the two wrapped errors.\<close>

definition in_tx :: "string \<Rightarrow> ('z env_scheme, 'a) io \<Rightarrow> string \<Rightarrow> ('z env_scheme, 'a) io" where
  "in_tx lb body lc = andThen (wrapErr lb (db_call (ok ()))) (\<lambda>_ w0.
     case body w0 of
       (Inl e, w) \<Rightarrow> (Inl e, rollback w0 w)
     | (Inr x, w) \<Rightarrow> commit lc w0 x w)"

text \<open>Strings are the UTF-8 bytes Go holds; \<^verbatim>\<open>VARCHAR(n)\<close> limits the number of characters, so
  that continuation bytes do not count. (Excess characters that are all spaces, which the server
  cuts off, are an error here like any other excess.)\<close>

definition char_length :: "string \<Rightarrow> nat" where
  "char_length s = length (filter (\<lambda>c. \<not> (128 \<le> (of_char c :: nat) \<and> (of_char c :: nat) < 192)) s)"

lemma char_length_simps [simp]:
  "char_length [] = 0"
  "char_length (c # s) = (if 128 \<le> (of_char c :: nat) \<and> (of_char c :: nat) < 192 then char_length s else Suc (char_length s))"
  by (simp_all add: char_length_def)

lemma char_length_le: "char_length s \<le> length s"
  by (simp add: char_length_def)

definition gen_random_uuid :: "('z env_scheme, uuid) io" where
  "gen_random_uuid = (\<lambda>w. (Inr (idgen w (idctr w)), w\<lparr>idctr := Suc (idctr w)\<rparr>))"

section \<open>64-bit arithmetic\<close>

definition int64 :: "int \<Rightarrow> bool" where
  "int64 x \<longleftrightarrow> - (2 ^ 63) \<le> x \<and> x < 2 ^ 63"

definition bigadd :: "int \<Rightarrow> int \<Rightarrow> int option" where
  "bigadd a b = (if int64 (a + b) then Some (a + b) else None)"

definition bigsub :: "int \<Rightarrow> int \<Rightarrow> int option" where
  "bigsub a b = (if int64 (a - b) then Some (a - b) else None)"

text \<open>Go's own \<^verbatim>\<open>int64\<close> arithmetic wraps around instead.\<close>

definition wrap64 :: "int \<Rightarrow> int" where
  "wrap64 x = (x + 2 ^ 63) mod 2 ^ 64 - 2 ^ 63"

text \<open>\<^verbatim>\<open>int64(x)\<close> of a \<^verbatim>\<open>float64\<close> with an integral value. Out of range the result is left to
  the implementation; on amd64 it is the least \<^verbatim>\<open>int64\<close>.\<close>

definition float_to_int64 :: "int \<Rightarrow> int" where
  "float_to_int64 n = (if int64 n then n else - (2 ^ 63))"

definition bigint_out_of_range :: goerr where
  "bigint_out_of_range = Errorf ''ERROR: bigint out of range (SQLSTATE 22003)''"

lemma bigadd_Some: "bigadd a b = Some c \<longleftrightarrow> c = a + b \<and> int64 c"
  by (auto simp: bigadd_def)

lemma bigsub_Some: "bigsub a b = Some c \<longleftrightarrow> c = a - b \<and> int64 c"
  by (auto simp: bigsub_def)

lemma wrap64_id: "int64 x \<Longrightarrow> wrap64 x = x"
  by (simp add: wrap64_def int64_def)

lemma int64_wrap64: "int64 (wrap64 x)"
proof -
  have "0 \<le> (x + 2 ^ 63) mod 2 ^ 64" "(x + 2 ^ 63) mod 2 ^ 64 < (2::int) ^ 64"
    by simp_all
  then show ?thesis by (simp add: wrap64_def int64_def)
qed

section \<open>Predicates the environment does not touch\<close>

text \<open>Invariants speak of tables, not of the network or of the identifier counter.\<close>

definition env_free :: "('z env_scheme \<Rightarrow> bool) \<Rightarrow> bool" where
  "env_free I \<longleftrightarrow> (\<forall>w ns n. I (w\<lparr>net := ns\<rparr>) = I w \<and> I (w\<lparr>idctr := n\<rparr>) = I w)"

lemma env_free_net: "env_free I \<Longrightarrow> I (w\<lparr>net := ns\<rparr>) = I w"
  unfolding env_free_def by blast

lemma env_free_idctr: "env_free I \<Longrightarrow> I (w\<lparr>idctr := n\<rparr>) = I w"
  unfolding env_free_def by blast

lemma env_free_rollback: "env_free I \<Longrightarrow> I (rollback w w') = I w"
proof -
  assume I: "env_free I"
  have "rollback w w' = (w\<lparr>net := net w'\<rparr>)\<lparr>idctr := idctr w'\<rparr>"
    by (simp add: rollback_def)
  then show ?thesis
    by (simp only: env_free_net [OF I] env_free_idctr [OF I])
qed

lemma env_free_conj: "env_free I \<Longrightarrow> env_free J \<Longrightarrow> env_free (\<lambda>w. I w \<and> J w)"
  unfolding env_free_def by blast

lemma db_call_cases:
  assumes "db_call m w = (r, w')"
  obtains ns e where "r = Inl e" "w' = w\<lparr>net := ns\<rparr>"
  | ns r' where "m (w\<lparr>net := ns\<rparr>) = (r', w')" "r = r' \<or> (\<exists>s. r = Inl (Errorf s))"
proof -
  have "w = w\<lparr>net := net w\<rparr>" by simp
  then have nil: "\<exists>ns. m (w\<lparr>net := ns\<rparr>) = m w" by metis
  show ?thesis
  proof (cases "net w")
    case Nil
    with assms nil that(2) show ?thesis by (auto simp: db_call_def)
  next
    case (Cons oc ns)
    with assms that show ?thesis
      by (cases oc; cases "m (w\<lparr>net := ns\<rparr>)") (auto simp: db_call_def)
  qed
qed

lemma keeps_db_call:
  assumes "env_free I" "keeps I m"
  shows "keeps I (db_call m)"
proof (rule keepsI)
  fix w r w'
  assume "I w" and m: "db_call m w = (r, w')"
  then have I: "I (w\<lparr>net := ns\<rparr>)" for ns by (simp only: env_free_net [OF assms(1)])
  show "I w'"
    using m I keepsD [OF assms(2) \<open>I w\<close>] keepsD [OF assms(2) I]
    by (auto simp: db_call_def split: list.splits outcome.splits) (metis snd_conv)+
qed

lemma triple_db_call:
  assumes "env_free P" "triple P m Q E"
    and "\<And>x w. Q x w \<Longrightarrow> E' w" "\<And>e w. E e w \<Longrightarrow> E' w" "\<And>w. P w \<Longrightarrow> E' w"
  shows "triple P (db_call m) Q (\<lambda>_. E')"
proof (rule tripleI)
  fix w r w'
  assume "P w" and m: "db_call m w = (Inr r, w')"
  then have "P (w\<lparr>net := ns\<rparr>)" for ns by (simp only: env_free_net [OF assms(1)])
  with m \<open>P w\<close> assms(2) show "Q r w'"
    by (auto simp: db_call_def split: list.splits outcome.splits dest: tripleD_ok)
next
  fix w e w'
  assume "P w" and m: "db_call m w = (Inl e, w')"
  have P: "P (w\<lparr>net := ns\<rparr>)" for ns
    using \<open>P w\<close> by (simp only: env_free_net [OF assms(1)])
  have any: "E' (snd (m v))" if "P v" for v
  proof (cases "m v")
    case (Pair r v')
    then show ?thesis
      using that assms(2-4) by (cases r) (auto dest: tripleD_ok tripleD_err)
  qed
  from m show "E' w'"
    using any [OF \<open>P w\<close>] any [OF P] assms(5) [OF P]
    by (auto simp: db_call_def split: list.splits outcome.splits) (metis snd_conv)+
qed

text \<open>A transaction's body has to re-establish the invariant only where it succeeds.\<close>

lemma keeps_in_tx:
  assumes "env_free I" "triple I body (\<lambda>_. I) (\<lambda>_ _. True)"
  shows "keeps I (in_tx lb body lc)"
proof -
  have "keeps I (wrapErr lb (db_call (ok ())))"
    by (intro keeps_wrapErr keeps_db_call keeps_ok assms(1))
  moreover have "keeps I (\<lambda>w0. case body w0 of
       (Inl e, w) \<Rightarrow> (Inl e, rollback w0 w) | (Inr x, w) \<Rightarrow> commit lc w0 x w)"
    by (rule keepsI)
      (use assms(2) in \<open>auto simp: commit_def env_free_rollback [OF assms(1)] env_free_net [OF assms(1)]
        split: prod.splits sum.splits list.splits outcome.splits dest: tripleD_ok\<close>)
  ultimately show ?thesis
    unfolding in_tx_def by (intro keeps_andThen)
qed

lemma triple_in_tx:
  assumes "env_free P" "triple P body Q (\<lambda>_ _. True)" "\<And>x. env_free (Q x)"
    and "\<And>w. P w \<Longrightarrow> E w" "\<And>x w. Q x w \<Longrightarrow> E w"
  shows "triple P (in_tx lb body lc) Q (\<lambda>_. E)"
proof -
  have 1: "triple P (wrapErr lb (db_call (ok ()))) (\<lambda>_. P) (\<lambda>_. E)"
    by (rule triple_wrapErr, rule triple_db_call [where Q = "\<lambda>_. P" and E = "\<lambda>_. P"])
      (use assms in \<open>auto simp: triple_def ok_def\<close>)
  have 2: "triple P (\<lambda>w0. case body w0 of
       (Inl e, w) \<Rightarrow> (Inl e, rollback w0 w) | (Inr x, w) \<Rightarrow> commit lc w0 x w) Q (\<lambda>_. E)"
  proof (rule tripleI)
    fix w r w'
    assume "P w" and "(case body w of
       (Inl e, v) \<Rightarrow> (Inl e, rollback w v) | (Inr x, v) \<Rightarrow> commit lc w x v) = (Inr r, w')"
    then show "Q r w'"
      using assms(2)
      by (auto simp: commit_def env_free_net [OF assms(3)] split: prod.splits sum.splits list.splits outcome.splits dest: tripleD_ok)
  next
    fix w e w'
    assume "P w" and "(case body w of
       (Inl e, v) \<Rightarrow> (Inl e, rollback w v) | (Inr x, v) \<Rightarrow> commit lc w x v) = (Inl e, w')"
    moreover have "E (rollback w v)" for v
      using assms(4) [of "rollback w v"] \<open>P w\<close> by (simp add: env_free_rollback [OF assms(1)])
    moreover have "E (v\<lparr>net := ns\<rparr>)" if "body w = (Inr x, v)" for x v ns
      using assms(5) [of x "v\<lparr>net := ns\<rparr>"] tripleD_ok [OF assms(2) \<open>P w\<close> that]
      by (simp add: env_free_net [OF assms(3)])
    ultimately show "E w'"
      by (auto simp: commit_def split: prod.splits sum.splits list.splits outcome.splits)
  qed
  show ?thesis
    unfolding in_tx_def by (rule triple_andThen [OF 1]) (rule 2)
qed

lemma keeps_gen_random_uuid: "env_free I \<Longrightarrow> keeps I gen_random_uuid"
  by (simp add: keeps_def gen_random_uuid_def env_free_idctr)

section \<open>Operations that leave a part of the state alone\<close>

definition stable :: "('s \<Rightarrow> 'k) \<Rightarrow> ('s, 'a) io \<Rightarrow> bool" where
  "stable part m \<longleftrightarrow> (\<forall>w. part (snd (m w)) = part w)"

definition env_blind :: "('z env_scheme \<Rightarrow> 'k) \<Rightarrow> bool" where
  "env_blind part \<longleftrightarrow> (\<forall>w ns n. part (w\<lparr>net := ns\<rparr>) = part w \<and> part (w\<lparr>idctr := n\<rparr>) = part w)"

named_theorems stable_intros "introduction rules for stable"

lemma stable_iff_keeps: "stable part m \<longleftrightarrow> (\<forall>k. keeps (\<lambda>w. part w = k) m)"
  by (auto simp: stable_def keeps_def)

lemma stableD: "stable part m \<Longrightarrow> m w = (r, w') \<Longrightarrow> part w' = part w"
  unfolding stable_def by (metis snd_conv)

lemma stableI: "(\<And>w r w'. m w = (r, w') \<Longrightarrow> part w' = part w) \<Longrightarrow> stable part m"
  unfolding stable_def by (metis prod.collapse)

lemma env_blind_free: "env_blind part \<Longrightarrow> env_free (\<lambda>w. part w = k)"
  by (simp add: env_blind_def env_free_def)

lemma stable_basic [stable_intros]:
  "stable part (ok x)" "stable part (fail e)" "stable part (get f)"
  by (auto simp: stable_def go_simps)

lemma stable_steps [stable_intros]:
  "stable part m \<Longrightarrow> (\<And>x. stable part (f x)) \<Longrightarrow> stable part (andThen m f)"
  "stable part m \<Longrightarrow> (\<And>r. stable part (k r)) \<Longrightarrow> stable part (attempt m k)"
  "stable part m \<Longrightarrow> stable part (logged m)"
  "stable part m \<Longrightarrow> stable part (wrapErr p m)"
  "(c \<Longrightarrow> stable part m) \<Longrightarrow> stable part (require c e m)"
  "(c \<Longrightarrow> stable part m) \<Longrightarrow> (\<not> c \<Longrightarrow> stable part m') \<Longrightarrow> stable part (if c then m else m')"
  "stable part m1 \<Longrightarrow> (\<And>y. stable part (g y)) \<Longrightarrow> stable part (case x of None \<Rightarrow> m1 | Some y \<Rightarrow> g y)"
  "(\<And>e. stable part (a e)) \<Longrightarrow> (\<And>y. stable part (b y)) \<Longrightarrow> stable part (case z of Inl e \<Rightarrow> a e | Inr y \<Rightarrow> b y)"
  "(\<And>x acc. stable part (body x acc)) \<Longrightarrow> stable part (for_each xs body acc)"
  unfolding stable_iff_keeps by (auto intro!: keeps_intros)

lemma stable_db_call: "env_blind part \<Longrightarrow> stable part m \<Longrightarrow> stable part (db_call m)"
  unfolding stable_iff_keeps by (auto intro!: keeps_db_call env_blind_free)

lemma stable_gen_random_uuid: "env_blind part \<Longrightarrow> stable part gen_random_uuid"
  by (simp add: stable_def gen_random_uuid_def env_blind_def)

lemma stable_modify: "(\<And>w. part (f w) = part w) \<Longrightarrow> stable part (modify f)"
  by (simp add: stable_def modify_def)

text \<open>With nothing in the network's way a round trip is the operation itself.\<close>

lemma db_call_up [simp]: "net w = [] \<Longrightarrow> db_call m w = m w"
  by (simp add: db_call_def)

lemma in_tx_up:
  "net w = [] \<Longrightarrow> in_tx lb body lc w =
     (case body w of (Inl e, v) \<Rightarrow> (Inl e, rollback w v)
      | (Inr x, v) \<Rightarrow> commit lc w x v)"
  by (simp add: in_tx_def andThen_def wrapErr_def ok_def)

lemma commit_up [simp]: "net w = [] \<Longrightarrow> commit lbl w0 x w = (Inr x, w)"
  by (simp add: commit_def)

lemmas postgres_eval [go_eval] =
  db_call_def rollback_def commit_def in_tx_def gen_random_uuid_def bigadd_def bigsub_def
  int64_def Let_def

definition pgx_ErrNoRows :: goerr where
  "pgx_ErrNoRows = ErrVar ''ErrNoRows'' ''no rows in result set''"

section \<open>Unlabelled transactions\<close>

text \<open>Transactions whose errors of \<^verbatim>\<open>Begin\<close> and \<^verbatim>\<open>Commit\<close> are returned as they are.\<close>

definition unlabelled :: "goerr \<Rightarrow> goerr" where
  "unlabelled e = (case e of Wrap p e' \<Rightarrow> if p = [] then e' else e | _ \<Rightarrow> e)"

definition plain_tx :: "('z env_scheme, 'a) io \<Rightarrow> ('z env_scheme, 'a) io" where
  "plain_tx body = (\<lambda>w. case in_tx [] body [] w of
     (Inl e, w') \<Rightarrow> (Inl (unlabelled e), w') | (Inr x, w') \<Rightarrow> (Inr x, w'))"

lemma keeps_plain_tx:
  "env_free I \<Longrightarrow> triple I body (\<lambda>_. I) (\<lambda>_ _. True) \<Longrightarrow> keeps I (plain_tx body)"
  using keeps_in_tx [where I = I and body = body and lb = "[]" and lc = "[]"]
  by (auto simp: keeps_def plain_tx_def split: prod.splits sum.splits)

lemma stable_plain_tx: "env_blind part \<Longrightarrow> stable part body \<Longrightarrow> stable part (plain_tx body)"
  unfolding stable_iff_keeps by (intro allI keeps_plain_tx env_blind_free keeps_triple_True) auto

lemma triple_plain_tx:
  assumes "env_free P" "triple P body Q (\<lambda>_ _. True)" "\<And>x. env_free (Q x)"
    and "\<And>w. P w \<Longrightarrow> E w" "\<And>x w. Q x w \<Longrightarrow> E w"
  shows "triple P (plain_tx body) Q (\<lambda>_. E)"
  using triple_in_tx [OF assms, where lb = "[]" and lc = "[]"]
  by (fastforce simp: triple_def plain_tx_def split: prod.splits sum.splits)

lemma plain_tx_up:
  "net w = [] \<Longrightarrow> body w = (Inr x, v) \<Longrightarrow> net v = [] \<Longrightarrow> plain_tx body w = (Inr x, v)"
  "net w = [] \<Longrightarrow> body w = (Inl e, v) \<Longrightarrow> plain_tx body w = (Inl (unlabelled e), rollback w v)"
  by (simp_all add: plain_tx_def in_tx_up)

section \<open>Successful statements\<close>

lemma andThen_InrE:
  assumes "andThen m f w = (Inr x, w')"
  obtains y w1 where "m w = (Inr y, w1)" "f y w1 = (Inr x, w')"
  using assms by (auto simp: andThen_def split: prod.splits sum.splits)

lemma andThen_get: "andThen (get f) k w = k (f w) w"
  by (simp add: andThen_def get_def)

lemma attempt_InrE:
  assumes "attempt m k w = (Inr x, w')"
  obtains r w1 where "m w = (r, w1)" "k r w1 = (Inr x, w')"
  using assms by (auto simp: attempt_def split: prod.splits)

lemma stable_tail: "(\<And>x. stable part (f x)) \<Longrightarrow> part (snd (andThen m f w)) = part (snd (m w))"
  by (simp add: andThen_def stable_def split: prod.split sum.split)

lemma require_InrE:
  assumes "require c e m w = (Inr x, w')"
  obtains "c" "m w = (Inr x, w')"
  using assms by (auto simp: require_def fail_def split: if_splits)

lemma db_call_InrE:
  assumes "db_call m w = (Inr x, w')"
  obtains ns where "m (w\<lparr>net := ns\<rparr>) = (Inr x, w')"
proof -
  have w: "m (w\<lparr>net := net w\<rparr>) = m w" by simp
  show ?thesis
  proof (cases "net w")
    case Nil
    with assms that [of "net w"] w show ?thesis by (simp add: db_call_def)
  next
    case (Cons oc ns)
    with assms that [of ns] show ?thesis by (cases oc) (auto simp: db_call_def)
  qed
qed

lemma env_blind_rollback: "env_blind part \<Longrightarrow> part (rollback w w') = part w"
  by (simp add: env_blind_def rollback_def)

text \<open>A transaction leaves a part of the state alone or has the effect of its body, and an answer
  that is not an error is the body's.\<close>

lemma plain_tx_effect:
  assumes "plain_tx body w = (r, w')" "env_blind part"
  obtains "\<exists>e. r = Inl e" "part w' = part w"
  | ns x w1 where "body (w\<lparr>net := ns\<rparr>) = (Inr x, w1)" "part w' = part w1" "r = Inr x \<or> (\<exists>e. r = Inl e)"
proof -
  have part: "part (rollback w v) = part w" "part (v\<lparr>net := ns\<rparr>) = part v" "part (w\<lparr>net := ns\<rparr>) = part w" for v ns
    using env_blind_rollback [OF assms(2)] assms(2) by (simp_all add: env_blind_def)
  obtain r0 v where tx: "in_tx [] body [] w = (r0, v)" by force
  with assms(1) have w': "w' = v" and r: "r = (case r0 of Inl e \<Rightarrow> Inl (unlabelled e) | Inr x \<Rightarrow> Inr x)"
    by (auto simp: plain_tx_def split: sum.splits)
  obtain rb wb where b: "wrapErr [] (db_call (ok ())) w = (rb, wb)" by force
  then have wb: "\<exists>ns. wb = w\<lparr>net := ns\<rparr>"
  proof -
    from b have "wb = w \<or> (\<exists>ns. wb = w\<lparr>net := ns\<rparr>)"
      by (auto simp: wrapErr_def db_call_def ok_def split: list.splits outcome.splits)
    moreover have "w = w\<lparr>net := net w\<rparr>" by simp
    ultimately show ?thesis by metis
  qed
  show ?thesis
  proof (cases rb)
    case (Inl e)
    with b tx w' r wb part show ?thesis by (intro that(1)) (auto simp: in_tx_def andThen_def)
  next
    case (Inr u)
    obtain ns where ns: "wb = w\<lparr>net := ns\<rparr>" using wb by blast
    obtain rc wc where c: "body wb = (rc, wc)" by force
    show ?thesis
    proof (cases rc)
      case (Inl e)
      have "part (rollback wb wc) = part w"
        using env_blind_rollback [OF assms(2)] part(3) ns by simp
      with b c Inl Inr tx w' r show ?thesis by (intro that(1)) (auto simp: in_tx_def andThen_def)
    next
      case (Inr x)
      with b c \<open>rb = Inr u\<close> tx have "commit [] wb x wc = (r0, v)"
        by (simp add: in_tx_def andThen_def)
      then have "(part v = part wc \<and> (r0 = Inr x \<or> (\<exists>e. r0 = Inl e))) \<or> (part v = part wb \<and> (\<exists>e. r0 = Inl e))"
        using env_blind_rollback [OF assms(2)] part(2)
        by (auto simp: commit_def split: list.splits outcome.splits)
      then show ?thesis
      proof
        assume "part v = part wc \<and> (r0 = Inr x \<or> (\<exists>e. r0 = Inl e))"
        then show ?thesis using c Inr ns w' r by (intro that(2) [of ns x wc]) auto
      next
        assume "part v = part wb \<and> (\<exists>e. r0 = Inl e)"
        then show ?thesis using ns w' r part(3) by (intro that(1)) auto
      qed
    qed
  qed
qed

end
