(* ===== verification/Go_Json.thy ===== *)
theory Go_Json
  imports Go_Strings
begin

text \<open>
  JSON as the services exchange and store it (\<^verbatim>\<open>encoding/json\<close>): documents, and the decoding of
  one field into a struct. The text of a document is not modelled: what is written is what is read.
\<close>

text \<open>A JSON document as \<^verbatim>\<open>json.Marshal\<close> builds it from a response; a leaf keeps the Go
  value it prints.\<close>

datatype json = JUUID uuid | JStr string | JInt int | JTime int | JBool bool | JArray "json list" | JDec int \<comment> \<open>in hundredths\<close>
  | JObject "(string \<times> json) list"

text \<open>\<^verbatim>\<open>json.Unmarshal\<close> into a struct: a missing field keeps its zero value, a field of another
  type is an error.\<close>

definition json_field :: "string \<Rightarrow> (json \<Rightarrow> 'a option) \<Rightarrow> 'a \<Rightarrow> json \<Rightarrow> 'a option" where
  "json_field k d zero j = (case j of
     JObject fs \<Rightarrow> (case map_of fs k of None \<Rightarrow> Some zero | Some v \<Rightarrow> d v)
   | _ \<Rightarrow> None)"

definition as_uuid :: "json \<Rightarrow> uuid option" where
  "as_uuid j = (case j of JUUID u \<Rightarrow> Some u | _ \<Rightarrow> None)"

definition as_str :: "json \<Rightarrow> string option" where
  "as_str j = (case j of JStr s \<Rightarrow> Some s | _ \<Rightarrow> None)"

definition as_int :: "json \<Rightarrow> int option" where
  "as_int j = (case j of JInt i \<Rightarrow> Some i | _ \<Rightarrow> None)"

definition as_bool :: "json \<Rightarrow> bool option" where
  "as_bool j = (case j of JBool b \<Rightarrow> Some b | _ \<Rightarrow> None)"

definition as_time :: "json \<Rightarrow> int option" where
  "as_time j = (case j of JTime t \<Rightarrow> Some t | _ \<Rightarrow> None)"

definition as_dec :: "json \<Rightarrow> int option" where
  "as_dec j = (case j of JInt i \<Rightarrow> Some (100 * i) | JDec d \<Rightarrow> Some d | _ \<Rightarrow> None)"

definition as_list :: "(json \<Rightarrow> 'a option) \<Rightarrow> json \<Rightarrow> 'a list option" where
  "as_list d j = (case j of JArray js \<Rightarrow> those (map d js) | _ \<Rightarrow> None)"

definition string_map :: "(string \<times> string) list \<Rightarrow> json" where
  "string_map kvs = JObject (map (\<lambda>(k, v). (k, JStr v)) kvs)"

lemmas go_json_eval =
  json_field_def as_uuid_def as_str_def as_int_def as_bool_def as_time_def

end
