(* ===== verification/Go_Time.thy ===== *)
theory Go_Time
  imports Go_Strings
begin

text \<open>
  Dates, as \<^verbatim>\<open>time\<close> formats and parses them with the layout \<^verbatim>\<open>2006-01-02\<close>. A time is a number of
  microseconds and a date a number of days, both since the beginning of 1970 in UTC, the time zone
  of the servers and of the database sessions. The calendar is the Gregorian one.
\<close>

definition day_us :: int where "day_us = 86400000000"

definition date_of :: "int \<Rightarrow> int" where
  "date_of t = t div day_us"

section \<open>The calendar\<close>

definition leap :: "int \<Rightarrow> bool" where
  "leap y \<longleftrightarrow> y mod 4 = 0 \<and> (y mod 100 \<noteq> 0 \<or> y mod 400 = 0)"

definition month_days :: "int \<Rightarrow> int \<Rightarrow> int" where
  "month_days y m = (if m = 2 then (if leap y then 29 else 28)
     else if m \<in> {4, 6, 9, 11} then 30 else 31)"

text \<open>Days from 1 January of the year 1 to 1 January of the year \<open>y\<close>, and from then to the first
  of the month \<open>m\<close>; 1 January 1970 is day 719162 of that count.\<close>

definition days_before_year :: "int \<Rightarrow> int" where
  "days_before_year y = 365 * (y - 1) + (y - 1) div 4 - (y - 1) div 100 + (y - 1) div 400"

definition days_before_month :: "int \<Rightarrow> int \<Rightarrow> int" where
  "days_before_month y m = sum_list (map (month_days y) [1..m - 1])"

definition epoch_day :: int where "epoch_day = 719162"

definition day_number :: "int \<Rightarrow> int \<Rightarrow> int \<Rightarrow> int" where
  "day_number y m d = days_before_year y + days_before_month y m + d - 1 - epoch_day"

definition year_of :: "int \<Rightarrow> int" where
  "year_of n =
     (let k = n + epoch_day; c = (400 * k) div 146097 + 1
      in if days_before_year (c + 1) \<le> k then c + 1 else if k < days_before_year c then c - 1 else c)"

definition month_of :: "int \<Rightarrow> int" where
  "month_of n = int (length (filter (\<lambda>m. days_before_month (year_of n) m
      \<le> n + epoch_day - days_before_year (year_of n)) [1..12]))"

definition mday_of :: "int \<Rightarrow> int" where
  "mday_of n = n + epoch_day - days_before_year (year_of n) - days_before_month (year_of n) (month_of n) + 1"

text \<open>\<^verbatim>\<open>AddDate(0, k, 0)\<close> on a date: a day the target month does not have runs over into the next
  month. \<^verbatim>\<open>time.Time{}\<close>, the time for which \<^verbatim>\<open>IsZero\<close> holds, is 1 January of the year 1.\<close>

definition add_months :: "int \<Rightarrow> int \<Rightarrow> int" where
  "add_months k n =
     (let z = month_of n - 1 + k
      in day_number (year_of n + z div 12) (z mod 12 + 1) (mday_of n))"

definition zero_date :: int where "zero_date = - epoch_day"

definition zero_time :: int where "zero_time = zero_date * day_us"

section \<open>The textual form\<close>

text \<open>The \<open>k\<close> low decimal digits of a number.\<close>

fun dec_digits :: "nat \<Rightarrow> nat \<Rightarrow> string" where
  "dec_digits 0 n = []"
| "dec_digits (Suc k) n = dec_digits k (n div 10) @ [digit_char (n mod 10)]"

definition dec_value :: "string \<Rightarrow> nat" where
  "dec_value s = foldl (\<lambda>n c. 10 * n + (code c - 48)) 0 s"

definition formatDate :: "int \<Rightarrow> string" where
  "formatDate n = dec_digits 4 (nat (year_of n)) @ ''-'' @ dec_digits 2 (nat (month_of n)) @ ''-''
     @ dec_digits 2 (nat (mday_of n))"

definition parseDate :: "string \<Rightarrow> int option" where
  "parseDate s =
     (let ys = take 4 s; ms = take 2 (drop 5 s); ds = drop 8 s;
          y = int (dec_value ys); m = int (dec_value ms); d = int (dec_value ds)
      in if length s = 10 \<and> s ! 4 = CHR ''-'' \<and> s ! 7 = CHR ''-''
            \<and> list_all is_digit ys \<and> list_all is_digit ms \<and> list_all is_digit ds
            \<and> 1 \<le> m \<and> m \<le> 12 \<and> 1 \<le> d \<and> d \<le> month_days y m
         then Some (day_number y m d) else None)"

section \<open>Reading back what was written\<close>

lemma length_dec_digits [simp]: "length (dec_digits k n) = k"
  by (induction k arbitrary: n) auto

lemma code_digit_char: "d < 10 \<Longrightarrow> code (digit_char d) = 48 + d"
  by (simp add: code_def digit_char_def)

lemma dec_digits_digits: "list_all is_digit (dec_digits k n)"
  by (induction k arbitrary: n) (auto simp: is_digit_def code_digit_char)

lemma dec_value_digits: "n < 10 ^ k \<Longrightarrow> dec_value (dec_digits k n) = n"
proof (induction k arbitrary: n)
  case 0
  then show ?case by (simp add: dec_value_def)
next
  case (Suc k)
  then have "n div 10 < 10 ^ k" by (simp add: less_mult_imp_div_less mult.commute)
  with Suc.IH show ?case by (simp add: dec_value_def code_digit_char)
qed

lemma div_step:
  assumes "0 < n"
  shows "(y::int) div n - (y - 1) div n = (if y mod n = 0 then 1 else 0)"
proof (cases "y mod n = 0")
  case True
  then have "y - 1 = n * (y div n - 1) + (n - 1)" using mult_div_mod_eq [of n y] by (simp add: algebra_simps)
  then have "(y - 1) div n = y div n - 1" using assms by (intro int_div_pos_eq [of _ _ _ "n - 1"]) auto
  with True show ?thesis by simp
next
  case False
  then have "y mod n > 0" using assms by (simp add: order_less_le)
  moreover have "y - 1 = n * (y div n) + (y mod n - 1)" using mult_div_mod_eq [of n y] by simp
  moreover have "y mod n - 1 < n" using pos_mod_bound [OF assms, of y] by linarith
  ultimately have "(y - 1) div n = y div n" by (intro int_div_pos_eq [of _ _ _ "y mod n - 1"]) auto
  with False show ?thesis by simp
qed

lemma mod_mod_zero: "(y::int) mod 400 = 0 \<Longrightarrow> y mod 100 = 0" "(y::int) mod 100 = 0 \<Longrightarrow> y mod 4 = 0"
  using dvd_trans [of 100 400 y] dvd_trans [of 4 100 y] by (auto simp: mod_eq_0_iff_dvd)

lemma days_before_year_step:
  "days_before_year (y + 1) = days_before_year y + (if leap y then 366 else 365)"
proof -
  have "days_before_year (y + 1) - days_before_year y = 365 + (y div 4 - (y - 1) div 4)
      - (y div 100 - (y - 1) div 100) + (y div 400 - (y - 1) div 400)"
    by (simp add: days_before_year_def)
  also have "\<dots> = 365 + (if y mod 4 = 0 then 1 else 0) - (if y mod 100 = 0 then 1 else 0)
      + (if y mod 400 = 0 then 1 else 0)"
    by (simp only: div_step zero_less_numeral)
  also have "\<dots> = (if leap y then 366 else 365)"
    unfolding leap_def using mod_mod_zero [of y]
    by (cases "y mod 4 = 0"; cases "y mod 100 = 0"; cases "y mod 400 = 0") (simp_all (no_asm_simp))
  finally show ?thesis by simp
qed

lemma days_before_year_bounds:
  "146097 * q - 699 \<le> 400 * days_before_year (q + 1)" "400 * days_before_year (q + 1) \<le> 146097 * q + 396"
proof -
  have d: "days_before_year (q + 1) = 365 * q + q div 4 - q div 100 + q div 400"
    by (simp add: days_before_year_def)
  have lin: "146097 * q - 699 \<le> 400 * (365 * q + x - y + z) \<and> 400 * (365 * q + x - y + z) \<le> 146097 * q + 396"
    if "4 * x \<le> q" "q \<le> 4 * x + 3" "100 * y \<le> q" "q \<le> 100 * y + 99" "400 * z \<le> q" "q \<le> 400 * z + 399"
    for x y z :: int
    using that by simp
  have m: "n * (q div n) \<le> q \<and> q \<le> n * (q div n) + (n - 1)" if "0 < n" for n
    using mult_div_mod_eq [of n q] pos_mod_sign [OF that, of q] pos_mod_bound [OF that, of q] by linarith
  show "146097 * q - 699 \<le> 400 * days_before_year (q + 1)" "400 * days_before_year (q + 1) \<le> 146097 * q + 396"
    unfolding d using lin [of "q div 4" "q div 100" "q div 400"] m [of 4] m [of 100] m [of 400] by simp_all
qed

lemma year_of_bounds:
  "days_before_year (year_of n) \<le> n + epoch_day \<and> n + epoch_day < days_before_year (year_of n + 1)"
proof -
  define k q where "k = n + epoch_day" and "q = (400 * k) div 146097"
  have q: "146097 * q \<le> 400 * k" "400 * k < 146097 * (q + 1)"
    using mult_div_mod_eq [of 146097 "400 * k"] pos_mod_sign [of 146097 "400 * k"]
      pos_mod_bound [of 146097 "400 * k"] by (simp_all add: q_def)
  have "days_before_year q \<le> k" using days_before_year_bounds(2) [of "q - 1"] q by simp
  moreover have "k < days_before_year (q + 3)" using days_before_year_bounds(1) [of "q + 2"] q by (simp add: add.assoc)
  ultimately show ?thesis
    by (simp add: year_of_def Let_def add.assoc flip: k_def q_def)
qed

lemma year_of_unique:
  assumes "days_before_year y \<le> n + epoch_day" "n + epoch_day < days_before_year (y + 1)"
  shows "year_of n = y"
proof -
  have step: "days_before_year z < days_before_year (z + 1)" for z
    by (simp add: days_before_year_step)
  have mono: "z \<le> z' \<Longrightarrow> days_before_year z \<le> days_before_year z'" for z z'
    by (rule int_ge_induct [of z z']) (use step in \<open>auto intro: order_trans less_imp_le\<close>)
  show ?thesis
    using assms year_of_bounds [of n] mono [of "y + 1" "year_of n"] mono [of "year_of n + 1" y] by linarith
qed

lemma days_before_month_sum: "days_before_month y m = (\<Sum>k\<in>{1..m - 1}. month_days y k)"
  by (simp add: days_before_month_def sum_list_distinct_conv_sum_set)

lemma days_before_month_mono: "i \<le> j \<Longrightarrow> days_before_month y i \<le> days_before_month y j"
  unfolding days_before_month_sum by (rule sum_mono2) (auto simp: month_days_def)

lemma days_before_month_step:
  assumes "1 \<le> m"
  shows "days_before_month y (m + 1) = days_before_month y m + month_days y m"
proof -
  have "{1..m + 1 - 1} = insert m {1..m - 1}" using assms by auto
  then show ?thesis by (simp add: days_before_month_sum)
qed

lemma days_before_month_year: "days_before_month y 13 = (if leap y then 366 else 365)"
  by (simp add: days_before_month_def month_days_def upto_rec1)

lemma count_below:
  fixes f :: "int \<Rightarrow> int"
  assumes mono: "\<And>i j. i \<le> j \<Longrightarrow> f i \<le> f j" and f: "f 1 \<le> r" "r < f (int N + 1)"
  shows "\<exists>M. int (length (filter (\<lambda>m. f m \<le> r) [1..int N])) = M \<and> 1 \<le> M \<and> M \<le> int N
    \<and> f M \<le> r \<and> r < f (M + 1)"
proof -
  have "\<exists>M \<ge> 1. M \<le> int N \<and> f M \<le> r \<and> r < f (M + 1)"
    using f
  proof (induction N)
    case 0
    then show ?case by simp
  next
    case (Suc N)
    then show ?case by (cases "r < f (int N + 1)") (force, auto intro!: exI [of _ "int N + 1"] simp: add_ac)
  qed
  then obtain M where M: "1 \<le> M" "M \<le> int N" "f M \<le> r" "r < f (M + 1)" by blast
  have "filter (\<lambda>m. f m \<le> r) [1..M] = [1..M]" using order_trans [OF mono M(3)] by (auto intro!: filter_True)
  moreover have "filter (\<lambda>m. f m \<le> r) [M + 1..int N] = []"
    using M(4) mono by (fastforce intro!: filter_False)
  moreover have "[1..int N] = [1..M] @ [M + 1..int N]" using upto_split2 [of 1 M "int N"] M(1,2) by simp
  ultimately show ?thesis using M by simp
qed

lemma month_of_bounds:
  "1 \<le> month_of n \<and> month_of n \<le> 12 \<and> 1 \<le> mday_of n \<and> mday_of n \<le> month_days (year_of n) (month_of n)"
proof -
  define r where "r = n + epoch_day - days_before_year (year_of n)"
  have "days_before_month (year_of n) 1 \<le> r" "r < days_before_month (year_of n) (int 12 + 1)"
    using year_of_bounds [of n]
    by (simp_all add: r_def days_before_month_def [of _ 1] days_before_month_year days_before_year_step split: if_splits)
  from count_below [OF days_before_month_mono this]
  obtain M where M: "month_of n = M" "1 \<le> M" "M \<le> 12" "days_before_month (year_of n) M \<le> r"
    "r < days_before_month (year_of n) (M + 1)"
    by (auto simp: month_of_def r_def)
  then show ?thesis using days_before_month_step [OF M(2), of "year_of n"] by (simp add: mday_of_def r_def)
qed

lemma parse_format_date:
  assumes "0 \<le> year_of n" "year_of n \<le> 9999"
  shows "parseDate (formatDate n) = Some n"
proof -
  note b = month_of_bounds [of n]
  have "month_days (year_of n) (month_of n) \<le> 31" by (simp add: month_days_def)
  with b have "nat (month_of n) < 10 ^ 2" "nat (mday_of n) < 10 ^ 2" by (auto simp: nat_less_iff)
  then have v: "dec_value (dec_digits 4 (nat (year_of n))) = nat (year_of n)"
    "dec_value (dec_digits 2 (nat (month_of n))) = nat (month_of n)"
    "dec_value (dec_digits 2 (nat (mday_of n))) = nat (mday_of n)"
    using assms by (simp_all add: dec_value_digits)
  have "day_number (year_of n) (month_of n) (mday_of n) = n" by (simp add: day_number_def mday_of_def)
  then show ?thesis
    using b assms by (simp add: parseDate_def formatDate_def Let_def v dec_digits_digits nth_append nat_le_iff Suc_le_eq)
qed

end
