(* ===== verification/Wallet_Store.thy ===== *)
theory Wallet_Store
  imports Postgres Go_Json Go_Time
begin

text \<open>
  The store layer of wallet-service (\<^verbatim>\<open>internal/store\<close>) over the tables of
  \<^verbatim>\<open>database/setup.sql\<close>: balances (the mirror of the partner bank), transactions,
  idempotency keys, KYC records and recipients. One definition per method; the SQL text of the
  method is the update it performs. Amounts are paise in \<open>BIGINT\<close> columns; times are
  microseconds; a nullable column is an \<open>option\<close>.
\<close>

section \<open>Rows\<close>

definition KYCMinimal :: string where "KYCMinimal = ''minimal''"
definition KYCFull :: string where "KYCFull = ''full''"
definition KYCEnhanced :: string where "KYCEnhanced = ''enhanced''"

definition MonthlyLimitForTier :: "string \<Rightarrow> int" where
  "MonthlyLimitForTier tier =
     (if tier = KYCFull then 20000000
      else if tier = KYCEnhanced then 50000000
      else 1000000)"

record Balance =
  balUserID :: uuid
  balBankAccountRef :: string
  balAvailablePaise :: int
  balPendingInPaise :: int
  balPendingOutPaise :: int
  balKYCTier :: string
  balMonthlyLimitPaise :: int
  balIsFrozen :: bool
  balFrozenReason :: "string option"
  balLastSyncedAt :: int
  balCreatedAt :: int
  balUpdatedAt :: int

record Transaction =
  txID :: uuid
  txUserID :: uuid
  txType :: string
  txDirection :: string
  txAmountPaise :: int
  txCounterpartyUserID :: "uuid option"
  txCounterpartyPhone :: "string option"
  txCounterpartyLabel :: "string option"
  txMerchantService :: "string option"
  txMerchantRef :: "string option"
  txStatus :: string
  txBankTxnRef :: "string option"
  txUPITxnRef :: "string option"
  txFailureReason :: "string option"
  txIdempotencyKey :: "string option"
  txMetadata :: "(string \<times> string) list"
  txCreatedAt :: int
  txSettledAt :: "int option"

record IdempotencyRecord =
  idemKey :: string
  idemUserID :: uuid
  idemOperation :: string
  idemTransactionID :: "uuid option"
  idemResponseBody :: "json option"
  idemCreatedAt :: int
  idemExpiresAt :: int

record KYCRecord =
  kycUserID :: uuid
  kycTier :: string
  kycAadhaarStatus :: "string option"
  kycDigiLockerRef :: "string option"
  kycPANStatus :: "string option"
  kycPANMasked :: "string option"
  kycAddressProofRef :: "string option"
  kycSubmittedAt :: "int option"
  kycVerifiedAt :: "int option"
  kycRejectionReason :: "string option"

record Recipient =
  rcpUserID :: uuid
  rcpRecipientUserID :: "uuid option"
  rcpRecipientPhone :: "string option"
  rcpLabel :: "string option"
  rcpLastSentAt :: "int option"
  rcpSendCount :: int

text \<open>Events of the wallet-events topic (\<^verbatim>\<open>EventPublisher\<close>), with their arguments.\<close>

datatype wallet_event =
    TopUpStarted uuid uuid int
  | TopUpSucceeded uuid uuid int string string
  | TopUpFailed uuid uuid int string
  | SendStarted uuid uuid int "uuid option" string
  | SendSucceeded uuid uuid int "uuid option" string string
  | SendFailed uuid uuid int string
  | ReceiveCredited uuid uuid uuid int
  | MerchantDebited uuid uuid int string string
  | RefundIssued uuid uuid uuid int string
  | KYCCompleted uuid string

text \<open>The state of one wallet-service: its tables, the events published so far, the balance
  refreshes it has spawned and not yet run, and the partner bank behind it.\<close>

record 'b wallet = env +
  balances :: "uuid \<rightharpoonup> Balance"
  transactions :: "Transaction list"
  idempotency :: "string \<rightharpoonup> IdempotencyRecord"
  kyc_records :: "uuid \<rightharpoonup> KYCRecord"
  recipients :: "Recipient list"
  events :: "wallet_event list"
  goroutines :: "(uuid \<times> string) list"
  bank :: 'b

section \<open>Balances (balances.go)\<close>

definition ErrBalanceNotFound :: goerr where
  "ErrBalanceNotFound = ErrVar ''ErrBalanceNotFound'' ''balance: not found''"

definition ErrInsufficientBalance :: goerr where
  "ErrInsufficientBalance = ErrVar ''ErrInsufficientBalance'' ''balance: insufficient funds''"

text \<open>\<^verbatim>\<open>UPDATE wallet.balances SET f WHERE user_id = u AND p\<close>: the rows it affected, or the
  error of an overflowing column.\<close>

definition update_balance ::
  "uuid \<Rightarrow> (Balance \<Rightarrow> bool) \<Rightarrow> (Balance \<Rightarrow> Balance option) \<Rightarrow> ('b wallet, nat) io" where
  "update_balance u p f = db_call (\<lambda>w. case balances w u of
       None \<Rightarrow> (Inr 0, w)
     | Some b \<Rightarrow>
         if p b
         then (case f b of
                 None \<Rightarrow> (Inl bigint_out_of_range, w)
               | Some b' \<Rightarrow>
                   (Inr 1, w\<lparr>balances := (balances w)(u \<mapsto> b'\<lparr>balUpdatedAt := clock w\<rparr>)\<rparr>))
         else (Inr 0, w))"

text \<open>\<^verbatim>\<open>if tag.RowsAffected() == 0 { return ErrBalanceNotFound }\<close>\<close>

definition balance_affected :: "nat \<Rightarrow> ('b wallet, unit) io" where
  "balance_affected n = (if n = 0 then fail ErrBalanceNotFound else ok ())"

definition EnsureBalance :: "uuid \<Rightarrow> string \<Rightarrow> ('b wallet, Balance) io" where
  "EnsureBalance u ref = db_call (\<lambda>w.
     let b = (case balances w u of
                None \<Rightarrow> \<lparr>balUserID = u, balBankAccountRef = ref, balAvailablePaise = 0,
                   balPendingInPaise = 0, balPendingOutPaise = 0, balKYCTier = ''minimal'',
                   balMonthlyLimitPaise = 1000000, balIsFrozen = False, balFrozenReason = None,
                   balLastSyncedAt = clock w, balCreatedAt = clock w, balUpdatedAt = clock w\<rparr>
              | Some b0 \<Rightarrow> b0\<lparr>balUpdatedAt := clock w\<rparr>)
     in (Inr b, w\<lparr>balances := (balances w)(u \<mapsto> b)\<rparr>))"

definition store_GetBalance :: "uuid \<Rightarrow> ('b wallet, Balance) io" where
  "store_GetBalance u =
     andThen (db_call (get (\<lambda>w. balances w u))) (\<lambda>r.
       case r of None \<Rightarrow> fail ErrBalanceNotFound | Some b \<Rightarrow> ok b)"

definition SetSynced :: "uuid \<Rightarrow> int \<Rightarrow> ('b wallet, unit) io" where
  "SetSynced u availablePaise = (\<lambda>w0.
     andThen (wrapErr ''set synced'' (update_balance u (\<lambda>_. True)
       (\<lambda>b. Some (b\<lparr>balAvailablePaise := availablePaise, balLastSyncedAt := clock w0\<rparr>))))
     balance_affected w0)"

definition AdjustPendingIn :: "uuid \<Rightarrow> int \<Rightarrow> ('b wallet, unit) io" where
  "AdjustPendingIn u delta =
     andThen (wrapErr ''adjust pending_in'' (update_balance u (\<lambda>_. True)
       (\<lambda>b. do { p \<leftarrow> bigadd (balPendingInPaise b) delta; Some (b\<lparr>balPendingInPaise := p\<rparr>) })))
     balance_affected"

definition CreditAvailable :: "uuid \<Rightarrow> int \<Rightarrow> ('b wallet, unit) io" where
  "CreditAvailable u amountPaise =
     require (amountPaise > 0) (Errorf ''credit available: amount must be positive'')
     (andThen (wrapErr ''credit available'' (update_balance u (\<lambda>_. True)
       (\<lambda>b. do {
          a \<leftarrow> bigadd (balAvailablePaise b) amountPaise;
          p \<leftarrow> bigsub (balPendingInPaise b) amountPaise;
          Some (b\<lparr>balAvailablePaise := a, balPendingInPaise := max p 0\<rparr>) })))
     balance_affected)"

definition DebitAvailableTx :: "uuid \<Rightarrow> int \<Rightarrow> ('b wallet, unit) io" where
  "DebitAvailableTx u amountPaise =
     require (amountPaise > 0) (Errorf ''debit available: amount must be positive'')
     (andThen (wrapErr ''debit available'' (update_balance u
         (\<lambda>b. balAvailablePaise b \<ge> amountPaise \<and> \<not> balIsFrozen b)
         (\<lambda>b. do {
            a \<leftarrow> bigsub (balAvailablePaise b) amountPaise;
            p \<leftarrow> bigadd (balPendingOutPaise b) amountPaise;
            Some (b\<lparr>balAvailablePaise := a, balPendingOutPaise := p\<rparr>) }))) (\<lambda>n.
      if n = 0 then
        andThen (wrapErr ''probe balance'' (db_call (get (\<lambda>w. balances w u)))) (\<lambda>r.
          case r of
            None \<Rightarrow> fail ErrBalanceNotFound
          | Some b \<Rightarrow>
              if balIsFrozen b then fail (Errorf ''balance: account frozen'')
              else fail ErrInsufficientBalance)
      else ok ()))"

definition SettleDebitTx :: "uuid \<Rightarrow> int \<Rightarrow> ('b wallet, unit) io" where
  "SettleDebitTx u amountPaise =
     andThen (wrapErr ''settle debit'' (update_balance u (\<lambda>_. True)
       (\<lambda>b. do { p \<leftarrow> bigsub (balPendingOutPaise b) amountPaise;
                 Some (b\<lparr>balPendingOutPaise := max p 0\<rparr>) })))
     balance_affected"

definition ReverseDebitTx :: "uuid \<Rightarrow> int \<Rightarrow> ('b wallet, unit) io" where
  "ReverseDebitTx u amountPaise =
     andThen (wrapErr ''reverse debit'' (update_balance u (\<lambda>_. True)
       (\<lambda>b. do {
          a \<leftarrow> bigadd (balAvailablePaise b) amountPaise;
          p \<leftarrow> bigsub (balPendingOutPaise b) amountPaise;
          Some (b\<lparr>balAvailablePaise := a, balPendingOutPaise := max p 0\<rparr>) })))
     balance_affected"

definition CreditAvailableTx :: "uuid \<Rightarrow> int \<Rightarrow> ('b wallet, unit) io" where
  "CreditAvailableTx u amountPaise =
     require (amountPaise > 0) (Errorf ''credit available: amount must be positive'')
     (andThen (wrapErr ''credit available tx'' (update_balance u (\<lambda>_. True)
       (\<lambda>b. do { a \<leftarrow> bigadd (balAvailablePaise b) amountPaise;
                 Some (b\<lparr>balAvailablePaise := a\<rparr>) })))
     balance_affected)"

text \<open>The schema's \<^verbatim>\<open>CHECK (kyc_tier IN ('minimal','full','enhanced'))\<close> refuses the row, if there is one.\<close>

definition kyc_tiers :: "string list" where
  "kyc_tiers = [KYCMinimal, KYCFull, KYCEnhanced]"

definition tier_refused :: "uuid \<Rightarrow> ('b wallet, nat) io" where
  "tier_refused u = db_call (\<lambda>w.
     (if balances w u = None then Inr 0 else Inl (Errorf ''ERROR: check constraint (SQLSTATE 23514)''), w))"

definition SetKYCTier :: "uuid \<Rightarrow> string \<Rightarrow> ('b wallet, unit) io" where
  "SetKYCTier u tier =
     andThen (wrapErr ''set kyc tier'' (if tier \<in> set kyc_tiers
       then update_balance u (\<lambda>_. True)
         (\<lambda>b. Some (b\<lparr>balKYCTier := tier, balMonthlyLimitPaise := MonthlyLimitForTier tier\<rparr>))
       else tier_refused u))
     balance_affected"

definition Freeze :: "uuid \<Rightarrow> string \<Rightarrow> ('b wallet, unit) io" where
  "Freeze u reason =
     andThen (wrapErr ''freeze'' (update_balance u (\<lambda>_. True)
       (\<lambda>b. Some (b\<lparr>balIsFrozen := True, balFrozenReason := Some reason\<rparr>))))
     balance_affected"

definition Unfreeze :: "uuid \<Rightarrow> ('b wallet, unit) io" where
  "Unfreeze u =
     andThen (wrapErr ''unfreeze'' (update_balance u (\<lambda>_. True)
       (\<lambda>b. Some (b\<lparr>balIsFrozen := False, balFrozenReason := None\<rparr>))))
     balance_affected"

lemmas wallet_store_eval [go_eval] =
  update_balance_def balance_affected_def EnsureBalance_def store_GetBalance_def SetSynced_def
  AdjustPendingIn_def CreditAvailable_def DebitAvailableTx_def SettleDebitTx_def ReverseDebitTx_def
  CreditAvailableTx_def SetKYCTier_def kyc_tiers_def tier_refused_def Freeze_def Unfreeze_def ErrBalanceNotFound_def
  ErrInsufficientBalance_def KYCMinimal_def KYCFull_def KYCEnhanced_def MonthlyLimitForTier_def

end
