(* ===== verification/Wallet_Transactions.thy ===== *)
theory Wallet_Transactions
  imports Wallet_Store "HOL-Library.Product_Lexorder"
begin

text \<open>
  The rest of wallet-service's store layer: \<^verbatim>\<open>transactions.go\<close>, \<^verbatim>\<open>idempotency.go\<close>,
  \<^verbatim>\<open>kyc.go\<close> and \<^verbatim>\<open>recipients.go\<close>, with the functional behaviour of the statements whose
  guards matter (a settled row stays settled, an identifier is never used twice, a recorded key
  is found again by its user and operation only).
\<close>

section \<open>Transactions (transactions.go)\<close>

definition ErrTransactionNotFound :: goerr where
  "ErrTransactionNotFound = ErrVar ''ErrTransactionNotFound'' ''transaction: not found''"

record CreateTransactionInput =
  ctiUserID :: uuid
  ctiType :: string
  ctiDirection :: string
  ctiAmountPaise :: int
  ctiCounterpartyUserID :: "uuid option"
  ctiCounterpartyPhone :: "string option"
  ctiCounterpartyLabel :: "string option"
  ctiMerchantService :: "string option"
  ctiMerchantRef :: "string option"
  ctiStatus :: string
  ctiBankTxnRef :: "string option"
  ctiUPITxnRef :: "string option"
  ctiIdempotencyKey :: "string option"
  ctiMetadata :: "(string \<times> string) list"

text \<open>The struct literal \<^verbatim>\<open>CreateTransactionInput{UserID: u, ...}\<close> before its other fields are
  set: Go's zero values.\<close>

definition new_transaction_input :: "uuid \<Rightarrow> string \<Rightarrow> string \<Rightarrow> int \<Rightarrow> CreateTransactionInput" where
  "new_transaction_input u ty dir amt =
     \<lparr>ctiUserID = u, ctiType = ty, ctiDirection = dir, ctiAmountPaise = amt,
      ctiCounterpartyUserID = None, ctiCounterpartyPhone = None, ctiCounterpartyLabel = None,
      ctiMerchantService = None, ctiMerchantRef = None, ctiStatus = [], ctiBankTxnRef = None,
      ctiUPITxnRef = None, ctiIdempotencyKey = None, ctiMetadata = []\<rparr>"

text \<open>The \<open>CHECK\<close> constraints and the primary key of \<^verbatim>\<open>wallet.transactions\<close>.\<close>

definition txn_types :: "string list" where
  "txn_types = [''top_up'', ''send'', ''receive'', ''merchant_pay'', ''refund'', ''adjustment'', ''reversal'']"

definition txn_statuses :: "string list" where
  "txn_statuses = [''pending'', ''succeeded'', ''failed'', ''reversed'', ''pending_invite'']"

definition txn_row_ok :: "Transaction \<Rightarrow> bool" where
  "txn_row_ok t \<longleftrightarrow> txType t \<in> set txn_types \<and> txDirection t \<in> {''credit'', ''debit''}
     \<and> 0 < txAmountPaise t \<and> txStatus t \<in> set txn_statuses"

definition sql_insert_transaction :: "Transaction \<Rightarrow> ('b wallet, unit) io" where
  "sql_insert_transaction t = (\<lambda>w.
     if \<not> txn_row_ok t then (Inl (Errorf ''ERROR: check constraint (SQLSTATE 23514)''), w)
     else if txID t \<in> txID ` set (transactions w)
     then (Inl (Errorf ''ERROR: duplicate key (SQLSTATE 23505)''), w)
     else (Inr (), w\<lparr>transactions := transactions w @ [t]\<rparr>))"

definition txn_of_input :: "CreateTransactionInput \<Rightarrow> uuid \<Rightarrow> int \<Rightarrow> Transaction" where
  "txn_of_input i id0 now0 =
     \<lparr>txID = id0, txUserID = ctiUserID i, txType = ctiType i, txDirection = ctiDirection i,
      txAmountPaise = ctiAmountPaise i, txCounterpartyUserID = ctiCounterpartyUserID i,
      txCounterpartyPhone = ctiCounterpartyPhone i, txCounterpartyLabel = ctiCounterpartyLabel i,
      txMerchantService = ctiMerchantService i, txMerchantRef = ctiMerchantRef i,
      txStatus = (if ctiStatus i = [] then ''pending'' else ctiStatus i),
      txBankTxnRef = ctiBankTxnRef i, txUPITxnRef = ctiUPITxnRef i, txFailureReason = None,
      txIdempotencyKey = ctiIdempotencyKey i, txMetadata = ctiMetadata i, txCreatedAt = now0,
      txSettledAt = None\<rparr>"

definition InsertTransaction :: "CreateTransactionInput \<Rightarrow> ('b wallet, Transaction) io" where
  "InsertTransaction i =
     require (ctiDirection i = ''credit'' \<or> ctiDirection i = ''debit'')
       (Errorf (''invalid direction: '' @ go_quote (ctiDirection i)))
     (require (ctiAmountPaise i > 0) (Errorf ''amount must be positive'')
     (wrapErr ''insert transaction'' (db_call (
        andThen gen_random_uuid (\<lambda>id0 w.
          let t = txn_of_input i id0 (clock w)
          in andThen (sql_insert_transaction t) (\<lambda>_. ok (t\<lparr>txMetadata := []\<rparr>)) w)))))"

definition MarkSettled ::
  "uuid \<Rightarrow> string \<Rightarrow> string option \<Rightarrow> string option \<Rightarrow> ('b wallet, unit) io" where
  "MarkSettled id0 status bankRef failureReason =
     require (status \<in> {''succeeded'', ''failed'', ''reversed'', ''pending_invite''})
       (Errorf (''invalid terminal status: '' @ go_quote status))
     (andThen (wrapErr ''mark settled'' (db_call (\<lambda>w.
        let hit = (\<lambda>t. txID t = id0 \<and> txStatus t = ''pending'');
            rows = update_rows hit (\<lambda>t. t\<lparr>txStatus := status,
              txBankTxnRef := (case bankRef of None \<Rightarrow> txBankTxnRef t | Some r \<Rightarrow> Some r),
              txFailureReason := failureReason, txSettledAt := Some (clock w)\<rparr>) (transactions w)
        in (Inr (length (filter hit (transactions w))), w\<lparr>transactions := rows\<rparr>)))) (\<lambda>n.
      if n = 0 then
        andThen (wrapErr ''probe transaction'' (db_call (get (\<lambda>w. id0 \<in> txID ` set (transactions w)))))
          (\<lambda>found. if found then ok () else fail ErrTransactionNotFound)
      else ok ()))"

definition SetUPIRef :: "uuid \<Rightarrow> string \<Rightarrow> ('b wallet, unit) io" where
  "SetUPIRef id0 upiRef =
     andThen (wrapErr ''set upi ref'' (db_call (\<lambda>w.
        let hit = (\<lambda>t. txID t = id0 \<and> (txUPITxnRef t = None \<or> txUPITxnRef t = Some upiRef));
            rows = update_rows hit (\<lambda>t. t\<lparr>txUPITxnRef := Some upiRef\<rparr>) (transactions w)
        in (Inr (length (filter hit (transactions w))), w\<lparr>transactions := rows\<rparr>)))) (\<lambda>n.
      if n = 0 then
        andThen (db_call (get (\<lambda>w. find (\<lambda>t. txID t = id0) (transactions w)))) (\<lambda>r.
          case r of
            None \<Rightarrow> fail ErrTransactionNotFound
          | Some t \<Rightarrow>
              (case txUPITxnRef t of
                 Some e \<Rightarrow> if e \<noteq> upiRef
                           then fail (Errorf ''upi ref conflict: row already has different ref'')
                           else ok ()
               | None \<Rightarrow> ok ()))
      else ok ())"

text \<open>The \<open>SELECT\<close>s do not read the metadata column.\<close>

definition scanTransaction :: "Transaction \<Rightarrow> Transaction" where
  "scanTransaction t = t\<lparr>txMetadata := []\<rparr>"

definition store_GetTransaction :: "uuid \<Rightarrow> uuid \<Rightarrow> ('b wallet, Transaction) io" where
  "store_GetTransaction u id0 =
     andThen (db_call (get (\<lambda>w. find (\<lambda>t. txID t = id0 \<and> txUserID t = u) (transactions w)))) (\<lambda>r.
       case r of None \<Rightarrow> fail ErrTransactionNotFound | Some t \<Rightarrow> ok (scanTransaction t))"

definition GetTransactionByID :: "uuid \<Rightarrow> ('b wallet, Transaction) io" where
  "GetTransactionByID id0 =
     andThen (db_call (get (\<lambda>w. find (\<lambda>t. txID t = id0) (transactions w)))) (\<lambda>r.
       case r of None \<Rightarrow> fail ErrTransactionNotFound | Some t \<Rightarrow> ok (scanTransaction t))"

text \<open>\<^verbatim>\<open>time.Format\<close> and \<^verbatim>\<open>time.Parse\<close> with \<^verbatim>\<open>time.RFC3339Nano\<close> are the two functions
  of \<open>codec\<close>. Rows with the same \<^verbatim>\<open>created_at\<close> come in the order of insertion.\<close>

record codec =
  formatTime :: "int \<Rightarrow> string"
  parseTime :: "string \<Rightarrow> int option"

definition ListTransactions_rows ::
  "uuid \<Rightarrow> string \<Rightarrow> string \<Rightarrow> int option \<Rightarrow> Transaction list \<Rightarrow> Transaction list" where
  "ListTransactions_rows u txType0 direction before ts =
     sort_key (\<lambda>t. - txCreatedAt t)
       (filter (\<lambda>t. txUserID t = u \<and> (txType0 \<noteq> [] \<longrightarrow> txType t = txType0)
          \<and> (direction \<noteq> [] \<longrightarrow> txDirection t = direction)
          \<and> (case before of None \<Rightarrow> True | Some c \<Rightarrow> txCreatedAt t < c)) ts)"

definition page_limit :: "int \<Rightarrow> int" where
  "page_limit limit0 = (if limit0 \<le> 0 \<or> limit0 > 100 then 50 else limit0)"

definition store_ListTransactions ::
  "codec \<Rightarrow> uuid \<Rightarrow> string \<Rightarrow> string \<Rightarrow> string \<Rightarrow> int \<Rightarrow> ('b wallet, Transaction list \<times> string) io" where
  "store_ListTransactions cd u txType0 direction cursor limit0 =
     (let n = nat (page_limit limit0) in
      andThen (if cursor = [] then ok None
               else (case parseTime cd cursor of
                       None \<Rightarrow> fail (Wrap ''invalid cursor'' (Errorf ''parsing time''))
                     | Some c \<Rightarrow> ok (Some c))) (\<lambda>before.
      andThen (wrapErr ''list transactions'' (db_call (get (\<lambda>w.
         map scanTransaction
           (take (n + 1) (ListTransactions_rows u txType0 direction before (transactions w))))))) (\<lambda>out.
      if length out > n
      then ok (take n out, formatTime cd (txCreatedAt (out ! (n - 1))))
      else ok (out, []))))"

definition stale_topups :: "int \<Rightarrow> int \<Rightarrow> Transaction list \<Rightarrow> Transaction list" where
  "stale_topups cutoff limit0 ts =
     map scanTransaction (take (nat (if limit0 \<le> 0 \<or> limit0 > 1000 then 200 else limit0))
       (sort_key txCreatedAt
          (filter (\<lambda>t. txType t = ''top_up'' \<and> txStatus t = ''pending'' \<and> txCreatedAt t < cutoff) ts)))"

definition ListPendingTopUpsOlderThan :: "int \<Rightarrow> int \<Rightarrow> ('b wallet, Transaction list) io" where
  "ListPendingTopUpsOlderThan cutoff limit0 =
     wrapErr ''list pending top-ups''
       (db_call (get (\<lambda>w. stale_topups cutoff limit0 (transactions w))))"

lemma in_stale_topups:
  "t \<in> set (stale_topups cutoff limit0 ts) \<Longrightarrow>
     \<exists>t' \<in> set ts. t = scanTransaction t' \<and> txType t' = ''top_up'' \<and> txStatus t' = ''pending''
       \<and> txCreatedAt t' < cutoff"
  by (auto simp: stale_topups_def dest!: in_set_takeD)

section \<open>Idempotency keys (idempotency.go)\<close>

definition ErrIdempotencyMismatch :: goerr where
  "ErrIdempotencyMismatch =
     ErrVar ''ErrIdempotencyMismatch'' ''idempotency: key reused with different operation''"

definition ErrIdempotencyKeyNotFound :: goerr where
  "ErrIdempotencyKeyNotFound = ErrVar ''ErrIdempotencyKeyNotFound'' ''idempotency: key not found''"

definition FindIdempotency :: "string \<Rightarrow> uuid \<Rightarrow> string \<Rightarrow> ('b wallet, IdempotencyRecord) io" where
  "FindIdempotency key u operation =
     andThen (wrapErr ''find idempotency'' (db_call (get (\<lambda>w.
        case idempotency w key of
          None \<Rightarrow> None | Some r \<Rightarrow> if idemExpiresAt r > clock w then Some r else None)))) (\<lambda>r.
      case r of
        None \<Rightarrow> fail ErrIdempotencyKeyNotFound
      | Some r \<Rightarrow>
          if idemUserID r \<noteq> u then fail ErrIdempotencyMismatch
          else if idemOperation r \<noteq> operation then fail ErrIdempotencyMismatch
          else ok r)"

definition RecordIdempotency ::
  "string \<Rightarrow> uuid \<Rightarrow> string \<Rightarrow> uuid option \<Rightarrow> json \<Rightarrow> ('b wallet, unit) io" where
  "RecordIdempotency key u operation tx body =
     wrapErr ''record idempotency'' (db_call (\<lambda>w.
       case idempotency w key of
         Some r \<Rightarrow> (Inr (), w)
       | None \<Rightarrow> (Inr (), w\<lparr>idempotency := (idempotency w)(key \<mapsto>
           \<lparr>idemKey = key, idemUserID = u, idemOperation = operation, idemTransactionID = tx,
            idemResponseBody = Some body, idemCreatedAt = clock w,
            idemExpiresAt = clock w + day_us\<rparr>)\<rparr>)))"

definition PurgeExpiredIdempotency :: "('b wallet, unit) io" where
  "PurgeExpiredIdempotency =
     wrapErr ''purge expired idempotency'' (db_call (modify (\<lambda>w.
       w\<lparr>idempotency := (\<lambda>k. case idempotency w k of
            None \<Rightarrow> None | Some r \<Rightarrow> if idemExpiresAt r < clock w then None else Some r)\<rparr>)))"

section \<open>KYC records (kyc.go)\<close>

definition ErrKYCNotFound :: goerr where
  "ErrKYCNotFound = ErrVar ''ErrKYCNotFound'' ''kyc: not found''"

definition store_GetKYC :: "uuid \<Rightarrow> ('b wallet, KYCRecord) io" where
  "store_GetKYC u =
     andThen (wrapErr ''get kyc'' (db_call (get (\<lambda>w. kyc_records w u)))) (\<lambda>r.
       case r of None \<Rightarrow> fail ErrKYCNotFound | Some k \<Rightarrow> ok k)"

text \<open>The row an \<open>INSERT\<close> creates before its columns are set, and the
  \<open>ON CONFLICT (user_id) DO UPDATE\<close> form the four writers share.\<close>

definition kyc_row :: "uuid \<Rightarrow> string \<Rightarrow> KYCRecord" where
  "kyc_row u tier =
     \<lparr>kycUserID = u, kycTier = tier, kycAadhaarStatus = None, kycDigiLockerRef = None,
      kycPANStatus = None, kycPANMasked = None, kycAddressProofRef = None, kycSubmittedAt = None,
      kycVerifiedAt = None, kycRejectionReason = None\<rparr>"

definition upsert_kyc ::
  "uuid \<Rightarrow> (int \<Rightarrow> KYCRecord) \<Rightarrow> (int \<Rightarrow> KYCRecord \<Rightarrow> KYCRecord) \<Rightarrow> ('b wallet, unit) io" where
  "upsert_kyc u ins upd = db_call (modify (\<lambda>w.
     w\<lparr>kyc_records := (kyc_records w)(u \<mapsto>
        (case kyc_records w u of None \<Rightarrow> ins (clock w) | Some k \<Rightarrow> upd (clock w) k))\<rparr>))"

definition UpsertAadhaarVerified :: "uuid \<Rightarrow> string \<Rightarrow> ('b wallet, unit) io" where
  "UpsertAadhaarVerified u digilockerRef = wrapErr ''upsert aadhaar verified'' (upsert_kyc u
     (\<lambda>now0. (kyc_row u ''full'')\<lparr>kycAadhaarStatus := Some ''verified'',
        kycDigiLockerRef := Some digilockerRef, kycSubmittedAt := Some now0, kycVerifiedAt := Some now0\<rparr>)
     (\<lambda>now0 k. k\<lparr>kycTier := (if kycTier k = ''enhanced'' then ''enhanced'' else ''full''),
        kycAadhaarStatus := Some ''verified'', kycDigiLockerRef := Some digilockerRef,
        kycVerifiedAt := Some now0\<rparr>))"

definition SetPANStatus :: "uuid \<Rightarrow> string \<Rightarrow> string \<Rightarrow> ('b wallet, unit) io" where
  "SetPANStatus u masked status = wrapErr ''set pan status'' (upsert_kyc u
     (\<lambda>now0. (kyc_row u ''minimal'')\<lparr>kycPANMasked := Some masked, kycPANStatus := Some status,
        kycSubmittedAt := Some now0\<rparr>)
     (\<lambda>now0 k. k\<lparr>kycPANMasked := Some masked, kycPANStatus := Some status,
        kycSubmittedAt := Some now0\<rparr>))"

definition MarkAadhaarPending :: "uuid \<Rightarrow> ('b wallet, unit) io" where
  "MarkAadhaarPending u = wrapErr ''mark aadhaar pending'' (upsert_kyc u
     (\<lambda>now0. (kyc_row u ''minimal'')\<lparr>kycAadhaarStatus := Some ''pending'', kycSubmittedAt := Some now0\<rparr>)
     (\<lambda>now0 k. k\<lparr>kycAadhaarStatus := Some ''pending'', kycSubmittedAt := Some now0\<rparr>))"

definition SetRejection :: "uuid \<Rightarrow> string \<Rightarrow> ('b wallet, unit) io" where
  "SetRejection u reason = wrapErr ''set rejection'' (upsert_kyc u
     (\<lambda>now0. (kyc_row u ''minimal'')\<lparr>kycAadhaarStatus := Some ''failed'',
        kycRejectionReason := Some reason, kycSubmittedAt := Some now0\<rparr>)
     (\<lambda>now0 k. k\<lparr>kycAadhaarStatus := Some ''failed'', kycRejectionReason := Some reason\<rparr>))"

definition CurrentTier :: "uuid \<Rightarrow> ('b wallet, string) io" where
  "CurrentTier u = andThen (db_call (get (\<lambda>w. kyc_records w u))) (\<lambda>r.
     case r of None \<Rightarrow> ok KYCMinimal | Some k \<Rightarrow> ok (kycTier k))"

definition SubmittedRecently :: "uuid \<Rightarrow> int \<Rightarrow> ('b wallet, bool) io" where
  "SubmittedRecently u within =
     andThen (db_call (get (\<lambda>w. kyc_records w u))) (\<lambda>r.
       case r of
         None \<Rightarrow> ok False
       | Some k \<Rightarrow> (case kycSubmittedAt k of
                       None \<Rightarrow> ok False
                     | Some at \<Rightarrow> get (\<lambda>w. clock w - at < within)))"

section \<open>Recipients (recipients.go)\<close>

text \<open>The unique index is on \<^verbatim>\<open>(user_id, COALESCE(recipient_user_id::text, recipient_phone))\<close>.\<close>

definition recipient_key :: "uuid option \<Rightarrow> string option \<Rightarrow> string option" where
  "recipient_key ru rp = (case ru of Some i \<Rightarrow> Some (uuid_string i) | None \<Rightarrow> rp)"

definition BumpRecipient ::
  "uuid \<Rightarrow> uuid option \<Rightarrow> string option \<Rightarrow> string option \<Rightarrow> ('b wallet, unit) io" where
  "BumpRecipient u ru rp label =
     require (\<not> (ru = None \<and> (rp = None \<or> rp = Some [])))
       (Errorf ''recipient: at least one of user_id / phone required'')
     (wrapErr ''bump recipient'' (db_call (\<lambda>w.
        let hit = (\<lambda>r. rcpUserID r = u \<and>
              recipient_key (rcpRecipientUserID r) (rcpRecipientPhone r) = recipient_key ru rp)
        in if \<exists>r \<in> set (recipients w). hit r \<and> rcpSendCount r + 1 \<ge> 2 ^ 31
           then (Inl (Errorf ''ERROR: integer out of range (SQLSTATE 22003)''), w)
           else if \<exists>r \<in> set (recipients w). hit r
           then (Inr (), w\<lparr>recipients := update_rows hit (\<lambda>r. r\<lparr>
                  rcpLabel := (case label of None \<Rightarrow> rcpLabel r | Some l \<Rightarrow> Some l),
                  rcpLastSentAt := Some (clock w), rcpSendCount := rcpSendCount r + 1\<rparr>) (recipients w)\<rparr>)
           else (Inr (), w\<lparr>recipients := recipients w @ [\<lparr>rcpUserID = u, rcpRecipientUserID = ru,
                  rcpRecipientPhone = rp, rcpLabel = label, rcpLastSentAt = Some (clock w),
                  rcpSendCount = 1\<rparr>]\<rparr>))))"

text \<open>\<^verbatim>\<open>ORDER BY send_count DESC, last_sent_at DESC NULLS LAST\<close>: a stable sort by the second
  key and then by the first.\<close>

definition store_ListRecipients :: "uuid \<Rightarrow> int \<Rightarrow> ('b wallet, Recipient list) io" where
  "store_ListRecipients u limit0 =
     (let n = nat (if limit0 \<le> 0 \<or> limit0 > 100 then 20 else limit0) in
      wrapErr ''list recipients'' (db_call (get (\<lambda>w.
        take n (sort_key (\<lambda>r. - rcpSendCount r)
          (sort_key (\<lambda>r. case rcpLastSentAt r of None \<Rightarrow> (1, 0) | Some t \<Rightarrow> (0::int, - t))
            (filter (\<lambda>r. rcpUserID r = u) (recipients w))))))))"

lemmas wallet_transactions_eval [go_eval] =
  InsertTransaction_def sql_insert_transaction_def txn_of_input_def txn_row_ok_def txn_types_def
  txn_statuses_def new_transaction_input_def MarkSettled_def SetUPIRef_def scanTransaction_def
  store_GetTransaction_def GetTransactionByID_def ErrTransactionNotFound_def
  ErrIdempotencyMismatch_def ErrIdempotencyKeyNotFound_def FindIdempotency_def
  RecordIdempotency_def PurgeExpiredIdempotency_def day_us_def ErrKYCNotFound_def store_GetKYC_def
  kyc_row_def upsert_kyc_def UpsertAadhaarVerified_def SetPANStatus_def MarkAadhaarPending_def
  SetRejection_def BumpRecipient_def recipient_key_def

end
