(* ===== verification/Wallet_Bank.thy ===== *)
theory Wallet_Bank
  imports Wallet_Transactions
begin

text \<open>
  The partner bank of wallet-service (\<^verbatim>\<open>internal/bank\<close>): the \<^verbatim>\<open>BankClient\<close> interface as a
  record of operations over the bank's own state, the in-memory \<^verbatim>\<open>MockClient\<close> that implements
  it, and the locale \<open>partner_bank\<close> with the contract the wallet relies on: a transfer that
  reports success moved exactly its amount and is the last entry of the bank's log of transfers, one
  that reports an error moved nothing, and no other operation moves money or adds to the log. \<^verbatim>\<open>MockClient\<close> is an instance of it.
\<close>

section \<open>The interface (client.go)\<close>

record 'b BankClient =
  OpenSubAccount :: "uuid \<Rightarrow> ('b, string) io"
  BankGetBalance :: "string \<Rightarrow> ('b, int) io"
  Transfer :: "string \<Rightarrow> string \<Rightarrow> int \<Rightarrow> string \<Rightarrow> ('b, unit) io"
  VerifyUPIInbound :: "string \<Rightarrow> int \<Rightarrow> ('b, bool) io"
  BankRefund :: "string \<Rightarrow> int \<Rightarrow> ('b, unit) io"

text \<open>A call of the bank from the service.\<close>

definition on_bank :: "('b, 'a) io \<Rightarrow> ('b wallet, 'a) io" where
  "on_bank m = (\<lambda>w. case m (bank w) of (r, b) \<Rightarrow> (r, w\<lparr>bank := b\<rparr>))"

section \<open>MockClient (mock.go)\<close>

record MockTransfer =
  mtFrom :: string
  mtTo :: string
  mtPaise :: int
  mtTxnRef :: string

record MockClient =
  mbBalances :: "string \<rightharpoonup> int"
  mbFailNext :: "string set"
  mbTransfers :: "MockTransfer list"

text \<open>Reading a Go map: the zero value where there is no entry.\<close>

definition mock_bal :: "MockClient \<Rightarrow> string \<Rightarrow> int" where
  "mock_bal m ref = (case mbBalances m ref of None \<Rightarrow> 0 | Some x \<Rightarrow> x)"

definition NewMockClient :: MockClient where
  "NewMockClient = \<lparr>mbBalances = Map.empty, mbFailNext = {}, mbTransfers = []\<rparr>"

definition SeedBalance :: "string \<Rightarrow> int \<Rightarrow> MockClient \<Rightarrow> MockClient" where
  "SeedBalance ref paise m = m\<lparr>mbBalances := (mbBalances m)(ref \<mapsto> paise)\<rparr>"

definition FailNext :: "string \<Rightarrow> MockClient \<Rightarrow> MockClient" where
  "FailNext ref m = m\<lparr>mbFailNext := insert ref (mbFailNext m)\<rparr>"

definition mock_OpenSubAccount :: "uuid \<Rightarrow> (MockClient, string) io" where
  "mock_OpenSubAccount u =
     require (u \<noteq> 0) (Errorf ''bank mock: invalid user id'') (\<lambda>m.
       let ref = ''mock-ppi-'' @ uuid_string u in
       (Inr ref, if mbBalances m ref = None then m\<lparr>mbBalances := (mbBalances m)(ref \<mapsto> 0)\<rparr> else m))"

definition mock_GetBalance :: "string \<Rightarrow> (MockClient, int) io" where
  "mock_GetBalance ref = (\<lambda>m.
     if ref \<in> mbFailNext m
     then (Inl (Errorf ''bank mock: simulated GetBalance failure''), m\<lparr>mbFailNext := mbFailNext m - {ref}\<rparr>)
     else (Inr (mock_bal m ref), m))"

definition mock_Transfer :: "string \<Rightarrow> string \<Rightarrow> int \<Rightarrow> string \<Rightarrow> (MockClient, unit) io" where
  "mock_Transfer fromRef toRef amountPaise txnRef =
     require (amountPaise > 0) (Errorf ''bank mock: invalid amount'') (\<lambda>m.
       if fromRef \<in> mbFailNext m
       then (Inl (Errorf ''bank mock: simulated transfer failure''),
             m\<lparr>mbFailNext := mbFailNext m - {fromRef}\<rparr>)
       else if mock_bal m fromRef < amountPaise
       then (Inl (Errorf (''bank mock: insufficient balance at partner bank for '' @ fromRef)), m)
       else
         let m1 = m\<lparr>mbBalances := (mbBalances m)(fromRef \<mapsto> wrap64 (mock_bal m fromRef - amountPaise))\<rparr>;
             m2 = m1\<lparr>mbBalances := (mbBalances m1)(toRef \<mapsto> wrap64 (mock_bal m1 toRef + amountPaise))\<rparr>
         in (Inr (), m2\<lparr>mbTransfers := mbTransfers m2 @
               [\<lparr>mtFrom = fromRef, mtTo = toRef, mtPaise = amountPaise, mtTxnRef = txnRef\<rparr>]\<rparr>))"

definition mock_VerifyUPIInbound :: "string \<Rightarrow> int \<Rightarrow> (MockClient, bool) io" where
  "mock_VerifyUPIInbound upiTxnRef expectedAmountPaise =
     (if upiTxnRef = ''fail-upi'' then fail (Errorf ''bank mock: simulated UPI verify failure'')
      else if upiTxnRef = ''missing-upi'' then ok False
      else if expectedAmountPaise \<le> 0 then fail (Errorf ''bank mock: invalid expected amount'')
      else ok True)"

definition mock_Refund :: "string \<Rightarrow> int \<Rightarrow> (MockClient, unit) io" where
  "mock_Refund originalTxnRef amountPaise =
     (if originalTxnRef = ''fail-refund'' then fail (Errorf ''bank mock: simulated refund failure'')
      else if amountPaise \<le> 0 then fail (Errorf ''bank mock: invalid amount'')
      else ok ())"

definition mock_client :: "MockClient BankClient" where
  "mock_client = \<lparr>OpenSubAccount = mock_OpenSubAccount, BankGetBalance = mock_GetBalance,
     Transfer = mock_Transfer, VerifyUPIInbound = mock_VerifyUPIInbound, BankRefund = mock_Refund\<rparr>"

section \<open>The contract the wallet relies on\<close>

definition moved :: "(string \<Rightarrow> int) \<Rightarrow> string \<Rightarrow> string \<Rightarrow> int \<Rightarrow> string \<Rightarrow> int" where
  "moved bal f t a = (\<lambda>x. bal x - (if x = f then a else 0) + (if x = t then a else 0))"

text \<open>The bank's books: the balance of each sub-account, and the transfers it has executed (from, to,
  amount), in order. The log tells a transfer of an account to itself from none at all.\<close>

type_synonym books = "(string \<Rightarrow> int) \<times> (string \<times> string \<times> int) list"

definition transferred :: "books \<Rightarrow> string \<Rightarrow> string \<Rightarrow> int \<Rightarrow> books" where
  "transferred \<beta> f t a = (moved (fst \<beta>) f t a, snd \<beta> @ [(f, t, a)])"

locale partner_bank =
  fixes bk :: "'b BankClient"
    and binv :: "'b \<Rightarrow> bool"
    and bal :: "'b \<Rightarrow> books"
  assumes transfer_ok: "binv b \<Longrightarrow> Transfer bk f t a r b = (Inr u, b') \<Longrightarrow>
      f \<noteq> t \<longrightarrow> int64 (fst (bal b) t + a) \<Longrightarrow> 0 < a \<and> a \<le> fst (bal b) f \<and> bal b' = transferred (bal b) f t a \<and> binv b'"
    and transfer_err: "binv b \<Longrightarrow> Transfer bk f t a r b = (Inl e, b') \<Longrightarrow> bal b' = bal b \<and> binv b'"
    and open_keeps: "binv b \<Longrightarrow> OpenSubAccount bk u0 b = (ro, b') \<Longrightarrow> bal b' = bal b \<and> binv b'"
    and balance_keeps: "binv b \<Longrightarrow> BankGetBalance bk ref b = (rb, b') \<Longrightarrow> bal b' = bal b \<and> binv b'"
    and verify_keeps: "binv b \<Longrightarrow> VerifyUPIInbound bk up a b = (rv, b') \<Longrightarrow> bal b' = bal b \<and> binv b'"
    and refund_keeps: "binv b \<Longrightarrow> BankRefund bk ref a b = (rr, b') \<Longrightarrow> bal b' = bal b \<and> binv b'"
begin

text \<open>What a transfer leaves of the money in any set of accounts that holds both ends of it.\<close>

lemma transfer_conserves:
  assumes "binv b" "Transfer bk f t a r b = (res, b')" "f \<noteq> t \<longrightarrow> int64 (fst (bal b) t + a)"
    and "finite A" "f \<in> A" "t \<in> A"
  shows "(\<Sum>x\<in>A. fst (bal b') x) = (\<Sum>x\<in>A. fst (bal b) x)"
proof (cases res)
  case (Inl e)
  then show ?thesis using transfer_err [OF assms(1)] assms(2) by auto
next
  case (Inr u)
  then have "bal b' = transferred (bal b) f t a"
    using transfer_ok [OF assms(1) _ assms(3)] assms(2) by auto
  then show ?thesis
    using assms(4-6) by (simp add: transferred_def moved_def sum.distrib sum_subtractf)
qed

end

definition mock_inv :: "MockClient \<Rightarrow> bool" where
  "mock_inv m \<longleftrightarrow> (\<forall>r x. mbBalances m r = Some x \<longrightarrow> int64 x)"

lemma mock_inv_bal: "mock_inv m \<Longrightarrow> int64 (mock_bal m r)"
  by (auto simp: mock_inv_def mock_bal_def int64_def split: option.splits)

lemma mock_transfer_cases:
  assumes "mock_Transfer f t a r m = (res, m')"
  shows "(\<exists>e. res = Inl e) \<and> mbBalances m' = mbBalances m
    \<or> res = Inr () \<and> 0 < a \<and> a \<le> mock_bal m f \<and> mbBalances m' =
        ((mbBalances m)(f \<mapsto> wrap64 (mock_bal m f - a)))
          (t \<mapsto> wrap64 ((if t = f then wrap64 (mock_bal m f - a) else mock_bal m t) + a))"
  using assms
  by (auto simp: mock_Transfer_def go_simps Let_def mock_bal_def split: if_splits)

lemma mock_transfer_bal:
  assumes "mock_inv m" "mock_Transfer f t a r m = (Inr u, m')" "f \<noteq> t \<longrightarrow> int64 (mock_bal m t + a)"
  shows "0 < a \<and> a \<le> mock_bal m f \<and> mock_bal m' = moved (mock_bal m) f t a"
proof -
  from mock_transfer_cases [OF assms(2)] have c: "0 < a" "a \<le> mock_bal m f" and
    m': "mbBalances m' = ((mbBalances m)(f \<mapsto> wrap64 (mock_bal m f - a)))
          (t \<mapsto> wrap64 ((if t = f then wrap64 (mock_bal m f - a) else mock_bal m t) + a))"
    by auto
  have f: "wrap64 (mock_bal m f - a) = mock_bal m f - a"
    using c mock_inv_bal [OF assms(1), of f] by (intro wrap64_id) (simp add: int64_def)
  have t: "wrap64 ((if t = f then wrap64 (mock_bal m f - a) else mock_bal m t) + a)
      = (if t = f then mock_bal m f else mock_bal m t + a)"
    using assms(3) mock_inv_bal [OF assms(1), of f] by (auto simp: f wrap64_id)
  have "mock_bal m' = moved (mock_bal m) f t a"
    by (rule ext, simp only: mock_bal_def [of m'] m' [unfolded t] f)
      (auto simp: moved_def, simp_all add: mock_bal_def [of m])
  with c show ?thesis by simp
qed

lemma mock_transfer_inv:
  "mock_inv m \<Longrightarrow> mock_Transfer f t a r m = (res, m') \<Longrightarrow> mock_inv m'"
  by (drule mock_transfer_cases) (auto simp: mock_inv_def int64_wrap64 split: if_splits)

text \<open>The mock's books.\<close>

definition mock_books :: "MockClient \<Rightarrow> books" where
  "mock_books m = (mock_bal m, map (\<lambda>x. (mtFrom x, mtTo x, mtPaise x)) (mbTransfers m))"

lemma mock_transfer_log:
  "mock_Transfer f t a r m = (Inr u, m') \<Longrightarrow> snd (mock_books m') = snd (mock_books m) @ [(f, t, a)]"
  "mock_Transfer f t a r m = (Inl e, m') \<Longrightarrow> mock_books m' = mock_books m"
  by (auto simp: mock_Transfer_def go_simps Let_def mock_books_def mock_bal_def [abs_def] split: if_splits)

interpretation mock: partner_bank mock_client mock_inv mock_books
proof unfold_locales
  fix b b' :: MockClient and f t r a u e u0 ro ref rb up rv rr
  assume inv: "mock_inv b"
  show "0 < a \<and> a \<le> fst (mock_books b) f \<and> mock_books b' = transferred (mock_books b) f t a \<and> mock_inv b'"
    if "Transfer mock_client f t a r b = (Inr u, b')" "f \<noteq> t \<longrightarrow> int64 (fst (mock_books b) t + a)"
    using mock_transfer_bal [OF inv] mock_transfer_inv [OF inv] mock_transfer_log(1) that
    by (fastforce simp: mock_client_def mock_books_def transferred_def)
  show "mock_books b' = mock_books b \<and> mock_inv b'"
    if "Transfer mock_client f t a r b = (Inl e, b')"
    using mock_transfer_log(2) that mock_transfer_inv [OF inv] by (simp add: mock_client_def)
  show "mock_books b' = mock_books b \<and> mock_inv b'"
    if "OpenSubAccount mock_client u0 b = (ro, b')"
    using inv that
    by (auto simp: mock_client_def mock_OpenSubAccount_def go_simps Let_def mock_books_def mock_bal_def
        mock_inv_def int64_def fun_eq_iff split: if_splits)
  show "mock_books b' = mock_books b \<and> mock_inv b'"
    if "BankGetBalance mock_client ref b = (rb, b')"
    using inv that
    by (auto simp: mock_client_def mock_GetBalance_def mock_books_def mock_bal_def mock_inv_def fun_eq_iff
        split: if_splits)
  show "mock_books b' = mock_books b \<and> mock_inv b'"
    if "VerifyUPIInbound mock_client up a b = (rv, b')"
    using inv that
    by (auto simp: mock_client_def mock_VerifyUPIInbound_def go_simps split: if_splits)
  show "mock_books b' = mock_books b \<and> mock_inv b'"
    if "BankRefund mock_client ref a b = (rr, b')"
    using inv that by (auto simp: mock_client_def mock_Refund_def go_simps split: if_splits)
qed

lemmas wallet_bank_eval [go_eval] =
  on_bank_def mock_client_def mock_OpenSubAccount_def mock_GetBalance_def mock_Transfer_def
  mock_VerifyUPIInbound_def mock_Refund_def mock_bal_def wrap64_def NewMockClient_def SeedBalance_def

end
