(* ===== verification/Go_Float.thy ===== *)
theory Go_Float
  imports Complex_Main Go_Strings
begin

text \<open>
  IEEE 754 double arithmetic as Go's \<^verbatim>\<open>float64\<close> does it, on rationals: \<open>fl64\<close> rounds an exact
  result to the nearest number with a 53-bit significand, ties to even. Overflow, subnormal
  numbers, infinities and NaN are outside the model; the amounts the services convert are
  between 0.01 and a few million rupees. \<open>sprintf_2f\<close> is \<^verbatim>\<open>%.2f\<close>, which rounds the exact
  binary value, and \<open>math_Round\<close> is \<^verbatim>\<open>math.Round\<close>, ties away from zero.
\<close>

section \<open>Rounding to an integer\<close>

definition half_even :: "rat \<Rightarrow> int" where
  "half_even x =
     (let f = \<lfloor>x\<rfloor>; d = x - of_int f
      in if d < 1 / 2 then f else if d > 1 / 2 then f + 1 else if even f then f else f + 1)"

definition math_Round :: "rat \<Rightarrow> int" where
  "math_Round x = (if x < 0 then - \<lfloor>- x + 1 / 2\<rfloor> else \<lfloor>x + 1 / 2\<rfloor>)"

lemma half_even_close: "\<bar>of_int (half_even x) - x\<bar> \<le> 1 / 2"
  using of_int_floor_le [of x] floor_correct [of x]
  by (auto simp: half_even_def Let_def abs_le_iff)

lemma half_even_unique:
  assumes "\<bar>x - of_int n\<bar> < 1 / 2"
  shows "half_even x = n"
proof -
  have "\<bar>of_int (half_even x) - of_int n\<bar> < (1::rat)"
    using half_even_close [of x] assms by linarith
  then have "\<bar>half_even x - n\<bar> < 1"
    by (metis of_int_abs of_int_diff of_int_less_1_iff)
  then show ?thesis by linarith
qed

lemma half_even_of_int [simp]: "half_even (of_int n) = n"
  by (rule half_even_unique) simp

lemma math_Round_unique:
  assumes "\<bar>x - of_int n\<bar> < 1 / 2"
  shows "math_Round x = n"
proof (cases "x < 0")
  case True
  have "x < of_int n + 1 / 2" "of_int n - 1 / 2 < x" using assms by linarith+
  then have "\<lfloor>- x + 1 / 2\<rfloor> = - n"
    by (simp add: floor_eq_iff)
  then show ?thesis using True by (simp add: math_Round_def)
next
  case False
  have "\<lfloor>x + 1 / 2\<rfloor> = n"
    using assms by (intro floor_unique) linarith+
  then show ?thesis using False by (simp add: math_Round_def)
qed

section \<open>Rounding to a double\<close>

fun bits :: "nat \<Rightarrow> nat" where
  "bits n = (if n = 0 then 0 else Suc (bits (n div 2)))"

declare bits.simps [simp del]

lemma less_bits: "n < 2 ^ bits n"
proof (induction n rule: bits.induct)
  case (1 n)
  show ?case
  proof (cases "n = 0")
    case False
    have "n div 2 < 2 ^ bits (n div 2)" using 1 False by simp
    moreover have "bits n = Suc (bits (n div 2))" using False by (simp add: bits.simps [of n])
    ultimately show ?thesis by simp
  qed (simp add: bits.simps)
qed

lemma bits_le: "0 < n \<Longrightarrow> 2 ^ (bits n - 1) \<le> n"
proof (induction n rule: bits.induct)
  case (1 n)
  have b: "bits n = Suc (bits (n div 2))" using 1(2) by (simp add: bits.simps [of n])
  show ?case
  proof (cases "n div 2 = 0")
    case True
    with 1(2) b show ?thesis by (simp add: bits.simps [of 0])
  next
    case False
    then have "2 ^ (bits (n div 2) - 1) \<le> n div 2" using 1 by simp
    moreover have "0 < bits (n div 2)" using False by (simp add: bits.simps [of "n div 2"])
    ultimately have "2 * 2 ^ (bits (n div 2) - 1) \<le> n" by simp
    then show ?thesis using b \<open>0 < bits (n div 2)\<close> by (cases "bits (n div 2)") auto
  qed
qed

text \<open>The weight of the last of the 53 bits of a positive number.\<close>

definition pow2 :: "int \<Rightarrow> rat" where
  "pow2 e = (if e \<ge> 0 then 2 ^ nat e else 1 / 2 ^ nat (- e))"

definition ulp_exp :: "rat \<Rightarrow> int" where
  "ulp_exp x =
     (if x \<ge> 1 then int (bits (nat \<lfloor>x\<rfloor>)) - 53 else - int (bits (nat (\<lceil>1 / x\<rceil> - 1))) - 52)"

definition fl64_pos :: "rat \<Rightarrow> rat" where
  "fl64_pos x = (let u = pow2 (ulp_exp x) in of_int (half_even (x / u)) * u)"

definition fl64 :: "rat \<Rightarrow> rat" where
  "fl64 x = (if x = 0 then 0 else if x < 0 then - fl64_pos (- x) else fl64_pos x)"

lemma pow2_pos [simp]: "0 < pow2 e"
  by (simp add: pow2_def)

lemma pow2_add: "pow2 (a + b) = pow2 a * pow2 b"
proof -
  have "pow2 e = 2 powi e" for e
    by (simp add: pow2_def power_int_def inverse_eq_divide power_one_over)
  then show ?thesis by (simp add: power_int_add)
qed

lemma ulp_exp_le:
  assumes "0 < x"
  shows "2 ^ 52 * pow2 (ulp_exp x) \<le> x"
proof (cases "x \<ge> 1")
  case True
  define n where "n = nat \<lfloor>x\<rfloor>"
  have "0 < n" using True by (simp add: n_def)
  have "2 ^ 52 * pow2 (ulp_exp x) = pow2 52 * pow2 (int (bits n) - 53)"
    using True by (simp add: ulp_exp_def n_def pow2_def [of 52])
  also have "\<dots> = pow2 (int (bits n) - 1)" by (simp flip: pow2_add)
  also have "\<dots> = 2 ^ (bits n - 1)"
    using \<open>0 < n\<close> by (cases "bits n") (simp_all add: bits.simps [of n] pow2_def nat_diff_distrib)
  also have "\<dots> \<le> of_nat n"
    using bits_le [OF \<open>0 < n\<close>] by (metis of_nat_le_iff of_nat_numeral of_nat_power)
  also have "\<dots> \<le> x" using True by (simp add: n_def)
  finally show ?thesis .
next
  case False
  define k where "k = bits (nat (\<lceil>1 / x\<rceil> - 1))"
  have "1 / x \<le> of_int \<lceil>1 / x\<rceil>" by simp
  moreover have "\<lceil>1 / x\<rceil> \<le> 2 ^ k"
  proof -
    have "0 \<le> \<lceil>1 / x\<rceil> - 1" using assms by (simp add: le_ceiling_iff less_ceiling_iff)
    then have "\<lceil>1 / x\<rceil> - 1 = int (nat (\<lceil>1 / x\<rceil> - 1))" by simp
    also have "\<dots> < 2 ^ k"
      using less_bits [of "nat (\<lceil>1 / x\<rceil> - 1)"] unfolding k_def [symmetric]
      by (metis of_nat_less_iff of_nat_numeral of_nat_power)
    finally show ?thesis by linarith
  qed
  ultimately have "1 / x \<le> 2 ^ k"
    by (metis (mono_tags, lifting) of_int_le_iff of_int_numeral of_int_power order.trans)
  then have "1 / 2 ^ k \<le> x" using assms by (simp add: field_simps)
  moreover have "2 ^ 52 * pow2 (ulp_exp x) = pow2 52 * pow2 (- int k - 52)"
    using False by (simp add: ulp_exp_def k_def pow2_def [of 52])
  then have "2 ^ 52 * pow2 (ulp_exp x) = pow2 (- int k)"
    by (simp flip: pow2_add)
  moreover have "pow2 (- int k) = 1 / 2 ^ k"
    by (cases "k = 0") (simp_all add: pow2_def)
  ultimately show ?thesis by simp
qed

text \<open>The relative error of one rounding.\<close>

lemma fl64_close:
  assumes "0 < x"
  shows "\<bar>fl64 x - x\<bar> \<le> x / 2 ^ 53"
proof -
  define u where "u = pow2 (ulp_exp x)"
  have "0 < u" by (simp add: u_def)
  have "fl64 x = of_int (half_even (x / u)) * u"
    using assms by (simp add: fl64_def fl64_pos_def Let_def u_def)
  then have "fl64 x - x = (of_int (half_even (x / u)) - x / u) * u"
    using \<open>0 < u\<close> by (simp add: left_diff_distrib)
  then have "\<bar>fl64 x - x\<bar> = \<bar>of_int (half_even (x / u)) - x / u\<bar> * u"
    using \<open>0 < u\<close> by (simp add: abs_mult)
  also have "\<dots> \<le> 1 / 2 * u"
    by (rule mult_right_mono [OF half_even_close]) (simp add: u_def less_imp_le)
  also have "\<dots> \<le> x / 2 ^ 53"
    using ulp_exp_le [OF assms] by (simp add: u_def)
  finally show ?thesis .
qed

text \<open>\<^verbatim>\<open>float64(n)\<close> is exact below \<open>2 ^ 53\<close>.\<close>

lemma fl64_of_int:
  assumes "0 \<le> n" "n < 2 ^ 53"
  shows "fl64 (of_int n) = of_int n"
proof (cases "n = 0")
  case False
  with assms have "1 \<le> n" by simp
  have b: "bits (nat n) \<le> 53"
  proof (rule ccontr)
    assume "\<not> bits (nat n) \<le> 53"
    then have "(2::nat) ^ 53 \<le> 2 ^ (bits (nat n) - 1)" by (intro power_increasing) auto
    also have "\<dots> \<le> nat n" using bits_le [of "nat n"] \<open>1 \<le> n\<close> by simp
    finally show False using assms(2) by (simp add: nat_le_iff le_nat_iff)
  qed
  define j where "j = 53 - bits (nat n)"
  have u: "pow2 (ulp_exp (of_int n)) = 1 / 2 ^ j"
    using b \<open>1 \<le> n\<close> by (cases "bits (nat n) = 53") (auto simp: ulp_exp_def pow2_def j_def nat_diff_distrib)
  have "of_int n / (1 / 2 ^ j) = (of_int (n * 2 ^ j) :: rat)" by simp
  then show ?thesis
    using \<open>1 \<le> n\<close> by (simp add: fl64_def fl64_pos_def u Let_def del: of_int_mult of_int_power)
      (simp add: field_simps)
qed (simp add: fl64_def)

section \<open>Formatting\<close>

definition two_digits :: "int \<Rightarrow> string" where
  "two_digits n = show_nat (nat (n div 100)) @ ''.'' @
     [digit_char (nat (n div 10 mod 10)), digit_char (nat (n mod 10))]"

definition sprintf_2f :: "rat \<Rightarrow> string" where
  "sprintf_2f x = (if x < 0 then ''-'' @ two_digits (half_even (- x * 100)) else two_digits (half_even (x * 100)))"

text \<open>\<^verbatim>\<open>fmt.Sprintf("%.2f", float64(n)/100.0)\<close>.\<close>

definition paise_as_rupees :: "int \<Rightarrow> string" where
  "paise_as_rupees n = sprintf_2f (fl64 (fl64 (of_int n) / 100))"

lemma paise_as_rupees_exact:
  assumes "0 \<le> n" "n < 2 ^ 52"
  shows "paise_as_rupees n = two_digits n"
proof (cases "n = 0")
  case False
  define x :: rat where "x = of_int n / 100"
  have "0 < x" using assms False by (simp add: x_def)
  have x: "of_int n < (2::rat) ^ 52"
    using assms(2) by (metis of_int_less_iff of_int_numeral of_int_power)
  have c: "\<bar>fl64 x - x\<bar> * 100 \<le> of_int n / 2 ^ 53"
    using fl64_close [OF \<open>0 < x\<close>] by (simp add: x_def)
  also have "\<dots> < 1 / 2" using x by simp
  finally have "\<bar>fl64 x * 100 - of_int n\<bar> < 1 / 2"
    by (simp add: x_def abs_if split: if_splits)
  then have "half_even (fl64 x * 100) = n" by (rule half_even_unique)
  moreover have "\<not> fl64 x < 0"
    using fl64_close [OF \<open>0 < x\<close>] \<open>0 < x\<close> by (simp add: abs_if split: if_splits)
  ultimately show ?thesis
    using assms fl64_of_int [of n] by (simp add: paise_as_rupees_def sprintf_2f_def x_def)
qed (simp add: paise_as_rupees_def sprintf_2f_def fl64_def half_even_def)

end
