(* ===== verification/Wallet_Service.thy ===== *)
theory Wallet_Service
  imports Wallet_Bank Go_Float
begin

text \<open>
  The business layer of wallet-service (\<^verbatim>\<open>internal/service\<close>), translated method by method with
  every guard, early return, transaction boundary and best-effort step. The service moves the
  rows of the mirror and asks the bank to move the money; \<open>sv\<close> holds its configuration and
  its bank client. The sagas are cut where the code commits: the debit transaction, the bank
  call, the settlement transaction and the compensation are definitions of their own.
\<close>

section \<open>Configuration (wallet.go)\<close>

record Config =
  PartnerBankVPA :: string
  AppDisplayName :: string
  PoolBankRef :: string
  TopUpExpirySeconds :: int

definition service_New :: "Config \<Rightarrow> Config" where
  "service_New cfg = \<lparr>
     PartnerBankVPA = (if PartnerBankVPA cfg = [] then ''atpostwallet@partnerbank'' else PartnerBankVPA cfg),
     AppDisplayName = (if AppDisplayName cfg = [] then ''AtPost Wallet'' else AppDisplayName cfg),
     PoolBankRef = PoolBankRef cfg,
     TopUpExpirySeconds = (if TopUpExpirySeconds cfg \<le> 0 then 1800 else TopUpExpirySeconds cfg)\<rparr>"

record 'b Service =
  svBank :: "'b BankClient"
  svCfg :: Config

text \<open>\<^verbatim>\<open>if err := s.producer.PublishX(...); err != nil { slog.Warn(...) }\<close>\<close>

definition publish :: "wallet_event \<Rightarrow> ('b wallet, unit) io" where
  "publish e = logged (db_call (modify (\<lambda>w. w\<lparr>events := events w @ [e]\<rparr>)))"

section \<open>Balances (balance.go)\<close>

definition balanceLazyRefreshAge :: int where
  "balanceLazyRefreshAge = 60000000"

definition GetBalance :: "'b Service \<Rightarrow> uuid \<Rightarrow> ('b wallet, Balance) io" where
  "GetBalance sv u =
     andThen (attempt (store_GetBalance u) (\<lambda>r.
       case r of
         Inr b \<Rightarrow> ok b
       | Inl e \<Rightarrow>
           if \<not> errors_is e ErrBalanceNotFound then fail (Wrap ''get balance'' e)
           else andThen (wrapErr ''open sub-account'' (on_bank (OpenSubAccount (svBank sv) u)))
                  (\<lambda>ref. wrapErr ''ensure balance'' (EnsureBalance u ref)))) (\<lambda>b.
     andThen (modify (\<lambda>w. if clock w - balLastSyncedAt b > balanceLazyRefreshAge
                          then w\<lparr>goroutines := goroutines w @ [(balUserID b, balBankAccountRef b)]\<rparr>
                          else w)) (\<lambda>_. ok b))"

definition refreshFromBank :: "'b Service \<Rightarrow> uuid \<Rightarrow> string \<Rightarrow> ('b wallet, unit) io" where
  "refreshFromBank sv u ref =
     attempt (on_bank (BankGetBalance (svBank sv) ref)) (\<lambda>r.
       case r of Inl e \<Rightarrow> ok () | Inr paise \<Rightarrow> logged (SetSynced u paise))"

text \<open>The scheduler runs one of the refreshes that were spawned.\<close>

definition run_goroutine :: "'b Service \<Rightarrow> nat \<Rightarrow> ('b wallet, unit) io" where
  "run_goroutine sv i = (\<lambda>w.
     if i < length (goroutines w)
     then (case goroutines w ! i of (u, ref) \<Rightarrow>
             refreshFromBank sv u ref
               (w\<lparr>goroutines := take i (goroutines w) @ drop (Suc i) (goroutines w)\<rparr>))
     else (Inr (), w))"

definition AssertWithinMonthlyLimit :: "'b Service \<Rightarrow> uuid \<Rightarrow> int \<Rightarrow> ('b wallet, unit) io" where
  "AssertWithinMonthlyLimit sv u amountPaise =
     andThen (GetBalance sv u) (\<lambda>b.
       if balIsFrozen b then fail (Errorf ''forbidden: wallet frozen'')
       else if amountPaise > balMonthlyLimitPaise b
       then fail (Errorf (''invalid: amount exceeds KYC tier limit (limit_paise='' @
                          show_int (balMonthlyLimitPaise b) @ '')''))
       else ok ())"

section \<open>Cached responses\<close>

record TopUpResult =
  turTransactionID :: uuid
  turUPIIntentURL :: string
  turExpiresAt :: int
  turStatus :: string
  turAmountPaise :: int

record SendResult =
  srTransactionID :: uuid
  srStatus :: string
  srAmountPaise :: int

definition marshal_TopUpResult :: "TopUpResult \<Rightarrow> json" where
  "marshal_TopUpResult r = JObject
     [(''transaction_id'', JUUID (turTransactionID r)), (''upi_intent_url'', JStr (turUPIIntentURL r)),
      (''expires_at'', JTime (turExpiresAt r)), (''status'', JStr (turStatus r)),
      (''amount_paise'', JInt (turAmountPaise r))]"

definition unmarshal_TopUpResult :: "json \<Rightarrow> TopUpResult option" where
  "unmarshal_TopUpResult j = do {
     i \<leftarrow> json_field ''transaction_id'' as_uuid 0 j;
     l \<leftarrow> json_field ''upi_intent_url'' as_str [] j;
     x \<leftarrow> json_field ''expires_at'' as_time 0 j;
     s \<leftarrow> json_field ''status'' as_str [] j;
     a \<leftarrow> json_field ''amount_paise'' as_int 0 j;
     Some \<lparr>turTransactionID = i, turUPIIntentURL = l, turExpiresAt = x, turStatus = s, turAmountPaise = a\<rparr> }"

definition marshal_SendResult :: "SendResult \<Rightarrow> json" where
  "marshal_SendResult r = JObject
     [(''transaction_id'', JUUID (srTransactionID r)), (''status'', JStr (srStatus r)),
      (''amount_paise'', JInt (srAmountPaise r))]"

definition unmarshal_SendResult :: "json \<Rightarrow> SendResult option" where
  "unmarshal_SendResult j = do {
     i \<leftarrow> json_field ''transaction_id'' as_uuid 0 j;
     s \<leftarrow> json_field ''status'' as_str [] j;
     a \<leftarrow> json_field ''amount_paise'' as_int 0 j;
     Some \<lparr>srTransactionID = i, srStatus = s, srAmountPaise = a\<rparr> }"

lemma unmarshal_marshal_TopUpResult [simp]: "unmarshal_TopUpResult (marshal_TopUpResult r) = Some r"
  by (simp add: unmarshal_TopUpResult_def marshal_TopUpResult_def json_field_def as_uuid_def
      as_str_def as_int_def as_time_def)

lemma unmarshal_marshal_SendResult [simp]: "unmarshal_SendResult (marshal_SendResult r) = Some r"
  by (simp add: unmarshal_SendResult_def marshal_SendResult_def json_field_def as_uuid_def
      as_str_def as_int_def)

text \<open>The replay prelude the four paying operations share: \<open>hit\<close> handles a record that was
  found, and \<open>run\<close> executes when the key is new or its record answers nothing.\<close>

definition idempotent ::
  "string \<Rightarrow> uuid \<Rightarrow> string \<Rightarrow> (IdempotencyRecord \<Rightarrow> ('b wallet, 'r) io option) \<Rightarrow>
     ('b wallet, 'r) io \<Rightarrow> ('b wallet, 'r) io" where
  "idempotent key u operation hit run =
     attempt (FindIdempotency key u operation) (\<lambda>r.
       case r of
         Inr existing \<Rightarrow> (case hit existing of Some m \<Rightarrow> m | None \<Rightarrow> run)
       | Inl e \<Rightarrow> if \<not> errors_is e ErrIdempotencyKeyNotFound then fail e else run)"

definition decode_cached :: "(json \<Rightarrow> 'r option) \<Rightarrow> json \<Rightarrow> ('b wallet, 'r) io" where
  "decode_cached dec body = (case dec body of
     None \<Rightarrow> fail (Wrap ''decode cached idempotency body'' (Errorf ''json: cannot unmarshal''))
   | Some r \<Rightarrow> ok r)"

section \<open>Top-ups (topup.go)\<close>

definition topUpOperation :: string where "topUpOperation = ''top_up''"

definition buildUPIIntentURL :: "string \<Rightarrow> string \<Rightarrow> int \<Rightarrow> uuid \<Rightarrow> string" where
  "buildUPIIntentURL vpa displayName amountPaise txID0 =
     ''upi://pay?'' @ url_encode [(''am'', paise_as_rupees amountPaise), (''cu'', ''INR''),
        (''pa'', vpa), (''pn'', displayName), (''tn'', uuid_string txID0)]"

definition seconds_us :: "int \<Rightarrow> int" where
  "seconds_us n = n * 1000000"

definition topup_result :: "Config \<Rightarrow> Transaction \<Rightarrow> string \<Rightarrow> TopUpResult" where
  "topup_result cfg t status =
     \<lparr>turTransactionID = txID t,
      turUPIIntentURL = buildUPIIntentURL (PartnerBankVPA cfg) (AppDisplayName cfg) (txAmountPaise t) (txID t),
      turExpiresAt = txCreatedAt t + seconds_us (TopUpExpirySeconds cfg),
      turStatus = status, turAmountPaise = txAmountPaise t\<rparr>"

definition topUpResultFromTransaction :: "'b Service \<Rightarrow> uuid \<Rightarrow> ('b wallet, TopUpResult) io" where
  "topUpResultFromTransaction sv id0 =
     andThen (GetTransactionByID id0) (\<lambda>t. ok (topup_result (svCfg sv) t (txStatus t)))"

definition topup_replay ::
  "'b Service \<Rightarrow> IdempotencyRecord \<Rightarrow> ('b wallet, TopUpResult) io option" where
  "topup_replay sv existing = (case idemResponseBody existing of
     Some body \<Rightarrow> Some (decode_cached unmarshal_TopUpResult body)
   | None \<Rightarrow> (case idemTransactionID existing of
       Some id0 \<Rightarrow> Some (topUpResultFromTransaction sv id0)
     | None \<Rightarrow> None))"

definition topup_input :: "uuid \<Rightarrow> int \<Rightarrow> string \<Rightarrow> CreateTransactionInput" where
  "topup_input u amountPaise key =
     (new_transaction_input u ''top_up'' ''credit'' amountPaise)\<lparr>ctiStatus := ''pending'',
        ctiIdempotencyKey := Some key, ctiMetadata := [(''source'', ''upi_intent'')]\<rparr>"

definition StartTopUp :: "'b Service \<Rightarrow> uuid \<Rightarrow> int \<Rightarrow> string \<Rightarrow> ('b wallet, TopUpResult) io" where
  "StartTopUp sv u amountPaise idempotencyKey =
     require (amountPaise > 0) (Errorf ''invalid: amount must be positive'')
     (require (idempotencyKey \<noteq> []) (Errorf ''invalid: idempotency_key required'')
     (idempotent idempotencyKey u topUpOperation (topup_replay sv)
       (andThen (AssertWithinMonthlyLimit sv u amountPaise) (\<lambda>_.
        andThen (GetBalance sv u) (\<lambda>_.
        andThen (wrapErr ''insert top-up tx'' (InsertTransaction (topup_input u amountPaise idempotencyKey))) (\<lambda>t.
        andThen (wrapErr ''bump pending_in'' (AdjustPendingIn u amountPaise)) (\<lambda>_.
        let res = (topup_result (svCfg sv) t ''pending'')\<lparr>
                    turUPIIntentURL := buildUPIIntentURL (PartnerBankVPA (svCfg sv))
                      (AppDisplayName (svCfg sv)) amountPaise (txID t),
                    turAmountPaise := amountPaise\<rparr>
        in andThen (logged (RecordIdempotency idempotencyKey u topUpOperation (Some (txID t))
                      (marshal_TopUpResult res))) (\<lambda>_.
           andThen (publish (TopUpStarted u (txID t) amountPaise)) (\<lambda>_.
           ok res)))))))))"

text \<open>What follows the read of a top-up \<open>t\<close> that is still open.\<close>

definition confirm_commit ::
  "'b Service \<Rightarrow> uuid \<Rightarrow> uuid \<Rightarrow> string \<Rightarrow> Transaction \<Rightarrow> ('b wallet, Transaction) io" where
  "confirm_commit sv u id0 upiTxnRef t =
     andThen (wrapErr ''record upi ref'' (SetUPIRef id0 upiTxnRef)) (\<lambda>_.
     andThen (wrapErr ''bank verify upi''
       (on_bank (VerifyUPIInbound (svBank sv) upiTxnRef (txAmountPaise t)))) (\<lambda>verified.
     if \<not> verified then ok t
     else
       andThen (wrapErr ''mark settled'' (MarkSettled id0 ''succeeded'' (Some upiTxnRef) None)) (\<lambda>_.
       andThen (wrapErr ''credit available'' (CreditAvailable u (txAmountPaise t))) (\<lambda>_.
       andThen (publish (TopUpSucceeded u id0 (txAmountPaise t) upiTxnRef upiTxnRef)) (\<lambda>_.
       store_GetTransaction u id0)))))"

definition ConfirmTopUp ::
  "'b Service \<Rightarrow> uuid \<Rightarrow> uuid \<Rightarrow> string \<Rightarrow> ('b wallet, Transaction) io" where
  "ConfirmTopUp sv u id0 upiTxnRef =
     require (upiTxnRef \<noteq> []) (Errorf ''invalid: upi_txn_ref required'')
     (andThen (store_GetTransaction u id0) (\<lambda>t.
      if txType t \<noteq> ''top_up'' then fail (Errorf ''invalid: transaction is not a top-up'')
      else if txStatus t = ''succeeded'' then ok t
      else if txStatus t = ''failed'' then fail (Errorf ''invalid: top-up already failed'')
      else confirm_commit sv u id0 upiTxnRef t))"

definition expire_one :: "Transaction \<Rightarrow> nat \<Rightarrow> ('b wallet, nat) io" where
  "expire_one t expired =
     attempt (MarkSettled (txID t) ''failed'' None (Some ''expired_no_upi_credit'')) (\<lambda>r.
       case r of
         Inl e \<Rightarrow> ok expired
       | Inr _ \<Rightarrow>
         attempt (AdjustPendingIn (txUserID t) (- txAmountPaise t)) (\<lambda>r.
           case r of
             Inl e \<Rightarrow> ok expired
           | Inr _ \<Rightarrow>
             andThen (publish (TopUpFailed (txUserID t) (txID t) (txAmountPaise t) ''expired_no_upi_credit''))
               (\<lambda>_. ok (Suc expired))))"

definition ExpireStaleTopUps :: "'b Service \<Rightarrow> ('b wallet, nat) io" where
  "ExpireStaleTopUps sv = (\<lambda>w.
     (let cutoff = clock w - seconds_us (TopUpExpirySeconds (svCfg sv)) in
      andThen (wrapErr ''list stale top-ups'' (ListPendingTopUpsOlderThan cutoff 200))
        (\<lambda>stale. for_each stale expire_one 0)) w)"

section \<open>Telephone numbers and labels (send.go)\<close>

text \<open>\<^verbatim>\<open>^(?:\+?91|0)?[6-9][0-9]{9}$\<close>\<close>

definition indianPhoneRE :: "string \<Rightarrow> bool" where
  "indianPhoneRE s \<longleftrightarrow> list_ex (\<lambda>p. has_prefix s p \<and> mobile10 (drop (length p) s)) [''+91'', ''91'', ''0'', []]"

definition normalisePhone :: "string \<Rightarrow> string" where
  "normalisePhone raw =
     (if raw = [] then []
      else
        let s = remove_char (CHR '' '') raw;
            s = remove_char (CHR ''-'') s;
            s = trim_prefix s ''+91'';
            s = trim_prefix s ''0091''
        in if has_prefix s ''0'' then tl s else s)"

text \<open>\<^verbatim>\<open>string(first)\<close> of a byte is the UTF-8 text of that code point.\<close>

definition utf8_byte :: "char \<Rightarrow> string" where
  "utf8_byte c = (if code c < 128 then [c]
     else [char_of (192 + code c div 64), char_of (128 + code c mod 64)])"

definition titleCase :: "string \<Rightarrow> string" where
  "titleCase s = (case s of [] \<Rightarrow> [] | c # cs \<Rightarrow>
     utf8_byte (if is_lower c then char_of (code c - 32) else c) @ cs)"

section \<open>Sends (send.go)\<close>

record SendRequest =
  reqRecipientUserID :: "uuid option"
  reqRecipientPhone :: string
  reqAmountPaise :: int
  reqLabel :: string
  reqIdempotencyKey :: string

definition sendOperation :: string where "sendOperation = ''send''"

definition label_ptr :: "string \<Rightarrow> string option" where
  "label_ptr s = (if s = [] then None else Some s)"

text \<open>\<^verbatim>\<open>&SendResult{TransactionID: id, Status: status, AmountPaise: amt}\<close>\<close>

definition send_result :: "uuid \<Rightarrow> string \<Rightarrow> int \<Rightarrow> SendResult" where
  "send_result i s a = \<lparr>srTransactionID = i, srStatus = s, srAmountPaise = a\<rparr>"

definition compensateSendFailure :: "uuid \<Rightarrow> uuid \<Rightarrow> int \<Rightarrow> string \<Rightarrow> ('b wallet, unit) io" where
  "compensateSendFailure u id0 amountPaise reason =
     logged (in_tx ''compensate begin''
       (andThen (ReverseDebitTx u amountPaise) (\<lambda>_.
        MarkSettled id0 ''failed'' None (Some reason))) ''compensate commit'')"

definition invite_input :: "uuid \<Rightarrow> string \<Rightarrow> SendRequest \<Rightarrow> CreateTransactionInput" where
  "invite_input u phone req =
     (new_transaction_input u ''send'' ''debit'' (reqAmountPaise req))\<lparr>
        ctiCounterpartyPhone := Some phone, ctiCounterpartyLabel := label_ptr (reqLabel req),
        ctiStatus := ''pending_invite'', ctiIdempotencyKey := Some (reqIdempotencyKey req),
        ctiMetadata := [(''escrow_days'', ''7''), (''flow'', ''external_phone_invite'')]\<rparr>"

definition sendToExternalPhone ::
  "uuid \<Rightarrow> string \<Rightarrow> SendRequest \<Rightarrow> ('b wallet, SendResult) io" where
  "sendToExternalPhone senderID phone req =
     andThen (in_tx ''begin invite tx''
       (andThen (DebitAvailableTx senderID (reqAmountPaise req)) (\<lambda>_.
        wrapErr ''insert invite tx'' (InsertTransaction (invite_input senderID phone req))))
       ''commit invite tx'') (\<lambda>t.
     andThen (logged (BumpRecipient senderID None (Some phone) (label_ptr (reqLabel req)))) (\<lambda>_.
     andThen (publish (SendStarted senderID (txID t) (reqAmountPaise req) None phone)) (\<lambda>_.
     let res = send_result (txID t) ''pending_invite'' (reqAmountPaise req)
     in andThen (logged (RecordIdempotency (reqIdempotencyKey req) senderID sendOperation (Some (txID t))
                  (marshal_SendResult res))) (\<lambda>_.
        ok res))))"

definition send_replay :: "uuid \<Rightarrow> IdempotencyRecord \<Rightarrow> ('b wallet, SendResult) io option" where
  "send_replay u existing = (case idemResponseBody existing of
     Some body \<Rightarrow> Some (decode_cached unmarshal_SendResult body)
   | None \<Rightarrow> (case idemTransactionID existing of
       Some id0 \<Rightarrow> Some (andThen (store_GetTransaction u id0) (\<lambda>t.
         ok (send_result (txID t) (txStatus t) (txAmountPaise t))))
     | None \<Rightarrow> None))"

definition send_input :: "uuid \<Rightarrow> SendRequest \<Rightarrow> CreateTransactionInput" where
  "send_input u req =
     (new_transaction_input u ''send'' ''debit'' (reqAmountPaise req))\<lparr>
        ctiCounterpartyUserID := reqRecipientUserID req,
        ctiCounterpartyLabel := label_ptr (reqLabel req),
        ctiStatus := ''pending'', ctiIdempotencyKey := Some (reqIdempotencyKey req)\<rparr>"

definition receive_input :: "uuid \<Rightarrow> uuid \<Rightarrow> SendRequest \<Rightarrow> string \<Rightarrow> CreateTransactionInput" where
  "receive_input senderID rcpt req bankRef =
     (new_transaction_input rcpt ''receive'' ''credit'' (reqAmountPaise req))\<lparr>
        ctiCounterpartyUserID := Some senderID, ctiCounterpartyLabel := label_ptr (reqLabel req),
        ctiStatus := ''succeeded'', ctiBankTxnRef := Some bankRef\<rparr>"

text \<open>Step 3 of the saga: debit the sender and record the pending row.\<close>

definition send_debit :: "uuid \<Rightarrow> SendRequest \<Rightarrow> ('b wallet, Transaction) io" where
  "send_debit senderID req = in_tx ''begin tx''
     (andThen (wrapErr ''debit sender'' (DebitAvailableTx senderID (reqAmountPaise req))) (\<lambda>_.
      wrapErr ''insert sender tx'' (InsertTransaction (send_input senderID req))))
     ''commit sender debit''"

text \<open>Step 5: settle the sender and credit the recipient.\<close>

definition send_settle :: "uuid \<Rightarrow> uuid \<Rightarrow> uuid \<Rightarrow> SendRequest \<Rightarrow> ('b wallet, Transaction) io" where
  "send_settle senderID rcpt id0 req =
     (let bankRef = uuid_string id0 in in_tx ''begin settle tx''
       (andThen (wrapErr ''mark sender succeeded'' (MarkSettled id0 ''succeeded'' (Some bankRef) None)) (\<lambda>_.
        andThen (wrapErr ''settle sender debit'' (SettleDebitTx senderID (reqAmountPaise req))) (\<lambda>_.
        andThen (wrapErr ''credit recipient'' (CreditAvailableTx rcpt (reqAmountPaise req))) (\<lambda>_.
        wrapErr ''insert recipient tx'' (InsertTransaction (receive_input senderID rcpt req bankRef))))))
       ''commit settle tx'')"

text \<open>After the bank has moved the money: settle, remember the recipient, publish, record.\<close>

definition send_finish ::
  "uuid \<Rightarrow> uuid \<Rightarrow> string \<Rightarrow> SendRequest \<Rightarrow> Transaction \<Rightarrow> ('b wallet, SendResult) io" where
  "send_finish senderID rcpt phone req senderTx =
     andThen (send_settle senderID rcpt (txID senderTx) req) (\<lambda>receiveTx.
     andThen (logged (BumpRecipient senderID (Some rcpt) None (label_ptr (reqLabel req)))) (\<lambda>_.
     andThen (publish (SendSucceeded senderID (txID senderTx) (reqAmountPaise req) (Some rcpt) phone
                 (uuid_string (txID senderTx)))) (\<lambda>_.
     andThen (publish (ReceiveCredited rcpt senderID (txID receiveTx) (reqAmountPaise req))) (\<lambda>_.
     let res = send_result (txID senderTx) ''succeeded'' (reqAmountPaise req)
     in andThen (logged (RecordIdempotency (reqIdempotencyKey req) senderID sendOperation
                  (Some (txID senderTx)) (marshal_SendResult res))) (\<lambda>_.
        ok res)))))"

definition send_to_user ::
  "'b Service \<Rightarrow> uuid \<Rightarrow> uuid \<Rightarrow> Balance \<Rightarrow> Balance \<Rightarrow> string \<Rightarrow> SendRequest \<Rightarrow> ('b wallet, SendResult) io" where
  "send_to_user sv senderID rcpt senderBalance recipientBalance phone req =
     andThen (send_debit senderID req) (\<lambda>senderTx.
     andThen (publish (SendStarted senderID (txID senderTx) (reqAmountPaise req) (Some rcpt) phone)) (\<lambda>_.
     attempt (on_bank (Transfer (svBank sv) (balBankAccountRef senderBalance)
         (balBankAccountRef recipientBalance) (reqAmountPaise req) (uuid_string (txID senderTx)))) (\<lambda>bankRes.
     case bankRes of
       Inl bankErr \<Rightarrow>
         andThen (compensateSendFailure senderID (txID senderTx) (reqAmountPaise req) (err_msg bankErr)) (\<lambda>_.
         andThen (publish (SendFailed senderID (txID senderTx) (reqAmountPaise req) (err_msg bankErr))) (\<lambda>_.
         fail (Wrap ''bank transfer'' bankErr)))
     | Inr _ \<Rightarrow> send_finish senderID rcpt phone req senderTx)))"

definition Send :: "'b Service \<Rightarrow> uuid \<Rightarrow> SendRequest \<Rightarrow> ('b wallet, SendResult) io" where
  "Send sv senderID req =
     require (reqIdempotencyKey req \<noteq> []) (Errorf ''invalid: idempotency_key required'')
     (require (reqAmountPaise req > 0) (Errorf ''invalid: amount must be positive'')
     (let phone = normalisePhone (reqRecipientPhone req) in
      require (\<not> (reqRecipientUserID req = None \<and> phone = []))
        (Errorf ''invalid: recipient_user_id or recipient_phone required'')
     (require (\<not> (phone \<noteq> [] \<and> \<not> indianPhoneRE phone))
        (Errorf ''invalid: recipient_phone must be a 10-digit Indian mobile'')
     (require (reqRecipientUserID req \<noteq> Some senderID) (Errorf ''invalid: cannot send to self'')
     (idempotent (reqIdempotencyKey req) senderID sendOperation (send_replay senderID)
       (andThen (AssertWithinMonthlyLimit sv senderID (reqAmountPaise req)) (\<lambda>_.
        andThen (GetBalance sv senderID) (\<lambda>senderBalance.
        require (\<not> balAvailablePaise senderBalance < reqAmountPaise req)
          (Errorf ''invalid: insufficient balance'')
        (case reqRecipientUserID req of
           None \<Rightarrow> sendToExternalPhone senderID phone req
         | Some rcpt \<Rightarrow>
             andThen (wrapErr ''resolve recipient'' (GetBalance sv rcpt)) (\<lambda>recipientBalance.
             send_to_user sv senderID rcpt senderBalance recipientBalance phone req))))))))))"

section \<open>Merchant debits and refunds (send.go)\<close>

definition merchant_replay :: "uuid \<Rightarrow> IdempotencyRecord \<Rightarrow> ('b wallet, SendResult) io option" where
  "merchant_replay u existing = (case idemTransactionID existing of
     Some id0 \<Rightarrow> Some (andThen (store_GetTransaction u id0) (\<lambda>t.
       ok (send_result (txID t) (txStatus t) (txAmountPaise t))))
   | None \<Rightarrow> None)"

definition merchant_input ::
  "uuid \<Rightarrow> int \<Rightarrow> string \<Rightarrow> string \<Rightarrow> string \<Rightarrow> CreateTransactionInput" where
  "merchant_input u amountPaise merchantService merchantRef idempotencyKey =
     (new_transaction_input u ''merchant_pay'' ''debit'' amountPaise)\<lparr>
        ctiMerchantService := Some merchantService, ctiMerchantRef := Some merchantRef,
        ctiCounterpartyLabel := Some (titleCase merchantService),
        ctiStatus := ''pending'', ctiIdempotencyKey := Some idempotencyKey\<rparr>"

definition merchant_debit_tx ::
  "uuid \<Rightarrow> int \<Rightarrow> string \<Rightarrow> string \<Rightarrow> string \<Rightarrow> ('b wallet, Transaction) io" where
  "merchant_debit_tx u amountPaise merchantService merchantRef idempotencyKey =
     in_tx ''begin merchant tx''
       (andThen (wrapErr ''debit merchant'' (DebitAvailableTx u amountPaise)) (\<lambda>_.
        wrapErr ''insert merchant tx''
          (InsertTransaction (merchant_input u amountPaise merchantService merchantRef idempotencyKey))))
       ''commit merchant tx''"

definition merchant_settle_tx :: "uuid \<Rightarrow> uuid \<Rightarrow> int \<Rightarrow> ('b wallet, unit) io" where
  "merchant_settle_tx u id0 amountPaise =
     in_tx ''begin settle merchant tx''
       (andThen (wrapErr ''mark merchant succeeded''
          (MarkSettled id0 ''succeeded'' (Some (uuid_string id0)) None)) (\<lambda>_.
        wrapErr ''settle merchant debit'' (SettleDebitTx u amountPaise)))
       ''commit settle merchant tx''"

text \<open>After the bank has moved the money: settle, publish, record the key.\<close>

definition merchant_finish ::
  "uuid \<Rightarrow> int \<Rightarrow> string \<Rightarrow> string \<Rightarrow> string \<Rightarrow> Transaction \<Rightarrow> ('b wallet, SendResult) io" where
  "merchant_finish u amountPaise merchantService merchantRef idempotencyKey t =
     andThen (merchant_settle_tx u (txID t) amountPaise) (\<lambda>_.
     andThen (publish (MerchantDebited u (txID t) amountPaise merchantService merchantRef)) (\<lambda>_.
     let res = send_result (txID t) ''succeeded'' amountPaise
     in andThen (logged (RecordIdempotency idempotencyKey u ''merchant_pay'' (Some (txID t))
                  (marshal_SendResult res))) (\<lambda>_.
        ok res)))"

definition merchant_run ::
  "'b Service \<Rightarrow> uuid \<Rightarrow> int \<Rightarrow> string \<Rightarrow> string \<Rightarrow> string \<Rightarrow> ('b wallet, SendResult) io" where
  "merchant_run sv u amountPaise merchantService merchantRef idempotencyKey =
     andThen (AssertWithinMonthlyLimit sv u amountPaise) (\<lambda>_.
     andThen (GetBalance sv u) (\<lambda>balance.
     require (\<not> balAvailablePaise balance < amountPaise) (Errorf ''invalid: insufficient balance'')
    (andThen (merchant_debit_tx u amountPaise merchantService merchantRef idempotencyKey) (\<lambda>t.
     attempt (on_bank (Transfer (svBank sv) (balBankAccountRef balance) (PoolBankRef (svCfg sv))
         amountPaise (uuid_string (txID t)))) (\<lambda>bankRes.
     case bankRes of
       Inl bankErr \<Rightarrow>
         andThen (compensateSendFailure u (txID t) amountPaise (err_msg bankErr)) (\<lambda>_.
         fail (Wrap ''bank transfer'' bankErr))
     | Inr _ \<Rightarrow> merchant_finish u amountPaise merchantService merchantRef idempotencyKey t)))))"

definition MerchantDebit ::
  "'b Service \<Rightarrow> uuid \<Rightarrow> int \<Rightarrow> string \<Rightarrow> string \<Rightarrow> string \<Rightarrow> ('b wallet, SendResult) io" where
  "MerchantDebit sv u amountPaise merchantService merchantRef idempotencyKey =
     require (idempotencyKey \<noteq> []) (Errorf ''invalid: idempotency_key required'')
     (require (amountPaise > 0) (Errorf ''invalid: amount must be positive'')
     (require (\<not> (merchantService = [] \<or> merchantRef = []))
        (Errorf ''invalid: merchant_service and merchant_ref required'')
     (idempotent idempotencyKey u ''merchant_pay'' (merchant_replay u)
       (merchant_run sv u amountPaise merchantService merchantRef idempotencyKey))))"

definition refund_input :: "Transaction \<Rightarrow> uuid \<Rightarrow> int \<Rightarrow> string \<Rightarrow> CreateTransactionInput" where
  "refund_input original originalTxID amountPaise reason =
     (new_transaction_input (txUserID original) ''refund'' ''credit'' amountPaise)\<lparr>
        ctiMerchantService := txMerchantService original, ctiMerchantRef := txMerchantRef original,
        ctiStatus := ''succeeded'',
        ctiMetadata := [(''original_transaction_id'', uuid_string originalTxID), (''reason'', reason)]\<rparr>"

definition refund_tx :: "Transaction \<Rightarrow> uuid \<Rightarrow> int \<Rightarrow> string \<Rightarrow> ('b wallet, Transaction) io" where
  "refund_tx original originalTxID amountPaise reason =
     in_tx ''begin refund tx''
       (andThen (wrapErr ''credit refund'' (CreditAvailableTx (txUserID original) amountPaise)) (\<lambda>_.
        wrapErr ''insert refund tx'' (InsertTransaction (refund_input original originalTxID amountPaise reason))))
       ''commit refund tx''"

definition Refund :: "'b Service \<Rightarrow> uuid \<Rightarrow> int \<Rightarrow> string \<Rightarrow> ('b wallet, SendResult) io" where
  "Refund sv originalTxID amountPaise reason =
     require (amountPaise > 0) (Errorf ''invalid: amount must be positive'')
     (andThen (GetTransactionByID originalTxID) (\<lambda>original.
      if txStatus original \<noteq> ''succeeded''
      then fail (Errorf (''invalid: original transaction is not succeeded (status='' @ txStatus original @ '')''))
      else if amountPaise > txAmountPaise original
      then fail (Errorf ''invalid: refund exceeds original amount'')
      else
        let originalRef = (case txBankTxnRef original of None \<Rightarrow> [] | Some r \<Rightarrow> r)
        in andThen (wrapErr ''bank refund'' (on_bank (BankRefund (svBank sv) originalRef amountPaise))) (\<lambda>_.
           andThen (refund_tx original originalTxID amountPaise reason) (\<lambda>t.
           andThen (publish (RefundIssued (txUserID original) (txID t) originalTxID amountPaise reason)) (\<lambda>_.
           ok (send_result (txID t) ''succeeded'' amountPaise))))))"

lemmas wallet_service_eval [go_eval] =
  service_New_def publish_def balanceLazyRefreshAge_def GetBalance_def AssertWithinMonthlyLimit_def
  idempotent_def decode_cached_def topUpOperation_def seconds_us_def topup_result_def
  topup_replay_def topup_input_def StartTopUp_def confirm_commit_def ConfirmTopUp_def sendOperation_def label_ptr_def
  send_result_def compensateSendFailure_def invite_input_def sendToExternalPhone_def send_replay_def
  send_input_def receive_input_def send_debit_def send_settle_def send_finish_def send_to_user_def
  Send_def merchant_replay_def merchant_input_def merchant_debit_tx_def merchant_settle_tx_def
  merchant_finish_def merchant_run_def MerchantDebit_def refund_input_def refund_tx_def Refund_def

end
