(* ===== verification/Wallet_KYC.thy ===== *)
theory Wallet_KYC
  imports Wallet_Service
begin

text \<open>
  KYC and history of wallet-service (\<^verbatim>\<open>service/kyc.go\<close>, \<^verbatim>\<open>service/history.go\<close>), method by method.
  What they promise is proved where the histories and the pages are: \<open>Wallet_History\<close> (tier and
  limit agree), \<open>Wallet_Behaviour\<close> (the PAN is masked) and \<open>Wallet_Listing\<close> (the pages).
\<close>

section \<open>KYC (kyc.go)\<close>

text \<open>\<^verbatim>\<open>^[A-Z]{5}[0-9]{4}[A-Z]$\<close>\<close>

definition panRE :: "string \<Rightarrow> bool" where
  "panRE s \<longleftrightarrow> length s = 10 \<and> list_all is_upper (take 5 s) \<and> list_all is_digit (take 4 (drop 5 s))
     \<and> is_upper (s ! 9)"

record AadhaarStartResult =
  asrAuthorizeURL :: string
  asrState :: string

record AadhaarAssertion =
  aaReference :: string
  aaDocumentType :: string

text \<open>\<^verbatim>\<open>randomHex(16)\<close>: \<open>rand\<close> is what \<^verbatim>\<open>rand.Read\<close> delivers, 16 bytes or an error.\<close>

definition randomHex :: "goerr + nat list \<Rightarrow> goerr + string" where
  "randomHex rand = (case rand of Inl e \<Rightarrow> Inl e | Inr bs \<Rightarrow> Inr (concat (map (hex_digits 2) bs)))"

definition StartAadhaar ::
  "goerr + nat list \<Rightarrow> uuid \<Rightarrow> string \<Rightarrow> string \<Rightarrow> ('b wallet, AadhaarStartResult) io" where
  "StartAadhaar rand u digilockerBaseURL redirectURI =
     require (digilockerBaseURL \<noteq> []) (Errorf ''invalid: digilocker not configured'')
     (case randomHex rand of
        Inl e \<Rightarrow> fail (Wrap ''generate state'' e)
      | Inr state \<Rightarrow>
          andThen (wrapErr ''mark aadhaar pending'' (MarkAadhaarPending u)) (\<lambda>_.
          ok \<lparr>asrAuthorizeURL = trim_right (CHR ''/'') digilockerBaseURL @ ''/oauth/authorize?'' @
                url_encode [(''client_id'', ''atpost-wallet''), (''redirect_uri'', redirectURI),
                  (''response_type'', ''code''), (''scope'', ''aadhaar.profile''), (''state'', state)],
              asrState = state\<rparr>))"

text \<open>The DigiLocker partner is a function from the code and the state.\<close>

type_synonym verifier = "string \<Rightarrow> string \<Rightarrow> goerr + AadhaarAssertion"

definition CompleteAadhaar ::
  "uuid \<Rightarrow> string \<Rightarrow> string \<Rightarrow> verifier option \<Rightarrow> ('b wallet, KYCRecord) io" where
  "CompleteAadhaar u code0 state verifier = (case verifier of
     None \<Rightarrow> fail (Errorf ''invalid: digilocker not configured'')
   | Some exchange \<Rightarrow>
       require (\<not> (code0 = [] \<or> state = [])) (Errorf ''invalid: code and state required'')
       (case exchange code0 state of
          Inl e \<Rightarrow>
            andThen (logged (SetRejection u ''digilocker_exchange_failed'')) (\<lambda>_.
            fail (Wrap ''digilocker exchange'' e))
        | Inr assertion \<Rightarrow>
            if aaReference assertion = [] then
              andThen (logged (SetRejection u ''digilocker_empty_reference'')) (\<lambda>_.
              fail (Errorf ''digilocker: empty reference''))
            else
              andThen (wrapErr ''upsert aadhaar'' (UpsertAadhaarVerified u (aaReference assertion))) (\<lambda>_.
              andThen (wrapErr ''set tier'' (SetKYCTier u KYCFull)) (\<lambda>_.
              andThen (publish (KYCCompleted u KYCFull)) (\<lambda>_.
              store_GetKYC u)))))"

definition mask_pan :: "string \<Rightarrow> string" where
  "mask_pan pan = ''XXXXXX'' @ drop (length pan - 4) pan"

definition SubmitPAN :: "uuid \<Rightarrow> string \<Rightarrow> ('b wallet, KYCRecord) io" where
  "SubmitPAN u panNumber =
     (let pan = to_upper (trim_space panNumber) in
      require (panRE pan) (Errorf ''invalid: pan must match AAAAA9999A'')
      (andThen (wrapErr ''set pan'' (SetPANStatus u (mask_pan pan) ''pending'')) (\<lambda>_.
       store_GetKYC u)))"

definition GetKYC :: "uuid \<Rightarrow> ('b wallet, KYCRecord) io" where
  "GetKYC u = attempt (store_GetKYC u) (\<lambda>r.
     case r of Inl e \<Rightarrow> ok (kyc_row u KYCMinimal) | Inr k \<Rightarrow> ok k)"

section \<open>History (history.go)\<close>

record HistoryFilter =
  hfType :: string
  hfDirection :: string
  hfCursor :: string
  hfLimit :: int

record HistoryPage =
  hpItems :: "Transaction list"
  hpNextCursor :: string

definition ListHistory :: "codec \<Rightarrow> uuid \<Rightarrow> HistoryFilter \<Rightarrow> ('b wallet, HistoryPage) io" where
  "ListHistory cd u f =
     andThen (wrapErr ''list history''
       (store_ListTransactions cd u (hfType f) (hfDirection f) (hfCursor f) (hfLimit f)))
       (\<lambda>(items, nxt). ok \<lparr>hpItems = items, hpNextCursor = nxt\<rparr>)"

definition GetTransactionDetail :: "uuid \<Rightarrow> uuid \<Rightarrow> ('b wallet, Transaction) io" where
  "GetTransactionDetail u id0 = store_GetTransaction u id0"

definition ListFrequentRecipients :: "uuid \<Rightarrow> ('b wallet, Recipient list) io" where
  "ListFrequentRecipients u = store_ListRecipients u 20"

end
