(* ===== verification/Wallet_Ledger.thy ===== *)
theory Wallet_Ledger
  imports Wallet_KYC
begin

text \<open>
  The ledger invariant of wallet-service: for every user, \<^verbatim>\<open>pending_out_paise\<close> is the sum of
  the debits of that user that are still open. It is stated with a defect \<open>d\<close>, the amount by
  which a user's column runs ahead of the open rows inside a transaction, so that every statement
  of the store has a rule of its own; each operation of the service then keeps the invariant with
  defect zero whatever the network does (a statement or a commit that fails, or that takes effect
  with its reply lost) and whatever the bank answers.
\<close>

section \<open>The invariant\<close>

definition open_amount :: "Transaction \<Rightarrow> int" where
  "open_amount t = (if txDirection t = ''debit'' \<and> txStatus t \<in> {''pending'', ''pending_invite''}
     then txAmountPaise t else 0)"

definition open_out :: "Transaction list \<Rightarrow> uuid \<Rightarrow> int" where
  "open_out ts u = sum_rows (\<lambda>t. if txUserID t = u then open_amount t else 0) ts"

definition pending_out :: "'b wallet \<Rightarrow> uuid \<Rightarrow> int" where
  "pending_out w u = (case balances w u of None \<Rightarrow> 0 | Some b \<Rightarrow> balPendingOutPaise b)"

definition rows_ok :: "Transaction list \<Rightarrow> bool" where
  "rows_ok ts \<longleftrightarrow> distinct (map txID ts) \<and>
     (\<forall>t \<in> set ts. txn_row_ok t \<and> (txType t = ''top_up'' \<longrightarrow> txDirection t = ''credit''))"

definition ledger :: "(uuid \<Rightarrow> int) \<Rightarrow> 'b wallet \<Rightarrow> bool" where
  "ledger d w \<longleftrightarrow> rows_ok (transactions w) \<and>
     (\<forall>u. pending_out w u = open_out (transactions w) u + d u)"

abbreviation ledger_inv :: "'b wallet \<Rightarrow> bool" where
  "ledger_inv \<equiv> ledger (\<lambda>_. 0)"

text \<open>A row of this user, amount and identifier whose debit is still open.\<close>

definition pending_row :: "uuid \<Rightarrow> uuid \<Rightarrow> int \<Rightarrow> 'b wallet \<Rightarrow> bool" where
  "pending_row id0 u a w \<longleftrightarrow> (\<exists>t \<in> set (transactions w). txID t = id0 \<and> txUserID t = u \<and>
     txDirection t = ''debit'' \<and> txStatus t = ''pending'' \<and> txAmountPaise t = a)"

text \<open>No debit has this identifier.\<close>

definition credit_id :: "uuid \<Rightarrow> 'b wallet \<Rightarrow> bool" where
  "credit_id id0 w \<longleftrightarrow> (\<forall>t \<in> set (transactions w). txID t = id0 \<longrightarrow> txDirection t = ''credit'')"

lemma env_free_ledger [simp]: "env_free (ledger d)"
  and env_free_pending_row [simp]: "env_free (pending_row id0 u a)"
  and env_free_credit_id [simp]: "env_free (credit_id id0)"
  by (simp_all add: env_free_def ledger_def pending_out_def pending_row_def credit_id_def)

lemma open_amount_nonneg: "rows_ok ts \<Longrightarrow> t \<in> set ts \<Longrightarrow> 0 \<le> open_amount t"
  by (fastforce simp: rows_ok_def open_amount_def txn_row_ok_def)

lemma open_out_nonneg: "rows_ok ts \<Longrightarrow> 0 \<le> open_out ts u"
  unfolding open_out_def by (rule sum_rows_nonneg) (simp add: open_amount_nonneg)

lemma pending_row_open_out:
  assumes "rows_ok (transactions w)" "pending_row id0 u a w"
  shows "a \<le> open_out (transactions w) u"
proof -
  from assms(2) obtain t where t: "t \<in> set (transactions w)" "txUserID t = u" "open_amount t = a"
    by (auto simp: pending_row_def open_amount_def)
  show ?thesis
    using sum_rows_member_le [OF t(1), of "\<lambda>t. if txUserID t = u then open_amount t else 0"]
      open_amount_nonneg [OF assms(1)] t(2,3) by (simp add: open_out_def)
qed

section \<open>Statements on balances\<close>

lemma keeps_diag: "(\<And>w0. keeps I (m w0)) \<Longrightarrow> keeps I (\<lambda>w. m w w)"
  by (simp add: keeps_def)

lemma keeps_balance_affected [keeps_intros]: "keeps I (balance_affected n)"
  by (simp add: balance_affected_def keeps_ok keeps_fail)

lemma update_balance_cases:
  assumes "update_balance u p f w = (r, w')"
  obtains ns where "r = Inr 0 \<or> (\<exists>e. r = Inl e)" "w' = w\<lparr>net := ns\<rparr>"
  | ns b b' where "balances w u = Some b" "p b" "f b = Some b'" "r = Inr 1 \<or> (\<exists>e. r = Inl e)"
      "w' = (w\<lparr>net := ns\<rparr>)\<lparr>balances := (balances w)(u \<mapsto> b'\<lparr>balUpdatedAt := clock w\<rparr>)\<rparr>"
proof -
  from db_call_cases [OF assms [unfolded update_balance_def]] show ?thesis
    by cases (auto split: option.splits if_splits intro: that)
qed

text \<open>Predicates of the transaction rows alone.\<close>

definition txn_only :: "('b wallet \<Rightarrow> bool) \<Rightarrow> bool" where
  "txn_only R \<longleftrightarrow> (\<forall>w w'. transactions w = transactions w' \<longrightarrow> R w = R w')"

lemma txn_onlyD: "txn_only R \<Longrightarrow> R w \<Longrightarrow> transactions w' = transactions w \<Longrightarrow> R w'"
  unfolding txn_only_def by metis

lemma txn_only_pending_row [simp]: "txn_only (pending_row id0 u a)"
  and txn_only_credit_id [simp]: "txn_only (credit_id id0)"
  and txn_only_True [simp]: "txn_only (\<lambda>_. True)"
  by (simp_all add: txn_only_def pending_row_def credit_id_def)

text \<open>The rule of one \<open>UPDATE\<close>: \<open>\<delta>\<close> is what it adds to \<^verbatim>\<open>pending_out_paise\<close>. On an
  error either nothing happened or all of it did.\<close>

lemma triple_update_balance:
  assumes R: "txn_only R" and P: "\<And>w. P w \<Longrightarrow> ledger d w \<and> R w"
    and f: "\<And>w b b'. P w \<Longrightarrow> balances w u = Some b \<Longrightarrow> p b \<Longrightarrow> f b = Some b' \<Longrightarrow>
      balPendingOutPaise b' = balPendingOutPaise b + \<delta>"
  shows "triple P (update_balance u p f)
     (\<lambda>n w. ledger (if n = 0 then d else d(u := d u + \<delta>)) w \<and> R w)
     (\<lambda>_ w. (ledger d w \<or> ledger (d(u := d u + \<delta>)) w) \<and> R w)"
proof -
  have "ledger d (w\<lparr>net := ns\<rparr>) \<and> R (w\<lparr>net := ns\<rparr>)" if "P w" for w ns
    using P [OF that] txn_onlyD [OF R, of w "w\<lparr>net := ns\<rparr>"] by (simp add: ledger_def pending_out_def)
  moreover have "R ((w\<lparr>net := ns\<rparr>)\<lparr>balances := bs\<rparr>)" if "P w" for w ns bs
    using P [OF that] txn_onlyD [OF R, of w] by simp
  moreover have "ledger (d(u := d u + \<delta>)) ((w\<lparr>net := ns\<rparr>)\<lparr>balances := (balances w)(u \<mapsto> b'\<lparr>balUpdatedAt := c\<rparr>)\<rparr>)"
    if "P w" "balances w u = Some b" "p b" "f b = Some b'" for w ns b b' c
    using P [OF that(1)] f [OF that] that(2)
    by (auto simp: ledger_def pending_out_def split: option.splits)
  ultimately show ?thesis
    by (intro tripleI; elim update_balance_cases; fastforce)
qed

text \<open>The invariants the operations carry along: the ledger and a fact about the rows.\<close>

definition ledger_like :: "('b wallet \<Rightarrow> bool) \<Rightarrow> bool" where
  "ledger_like I \<longleftrightarrow> (\<exists>d R. txn_only R \<and> I = (\<lambda>w. ledger d w \<and> R w))"

lemma ledger_like_ledger [simp]: "ledger_like (ledger d)"
  unfolding ledger_like_def by (rule exI [of _ d], rule exI [of _ "\<lambda>_. True"]) simp

lemma ledger_like_conj [simp]: "txn_only R \<Longrightarrow> ledger_like (\<lambda>w. ledger d w \<and> R w)"
  unfolding ledger_like_def by blast

lemma env_free_txn_only:
  assumes "txn_only R"
  shows "env_free R"
proof -
  have "R (w\<lparr>net := ns\<rparr>) = R w" "R (w\<lparr>idctr := n\<rparr>) = R w" for w ns n
    by (simp_all add: assms [unfolded txn_only_def, rule_format, of "w\<lparr>net := ns\<rparr>" w]
        assms [unfolded txn_only_def, rule_format, of "w\<lparr>idctr := n\<rparr>" w])
  then show ?thesis unfolding env_free_def by blast
qed

lemma env_free_ledger_like:
  assumes "ledger_like I"
  shows "env_free I"
proof -
  from assms obtain d R where "txn_only R" and I: "I = (\<lambda>w. ledger d w \<and> R w)"
    unfolding ledger_like_def by blast
  then show ?thesis
    unfolding I by (intro env_free_conj env_free_ledger env_free_txn_only)
qed

text \<open>A change of the state that touches neither rows nor balances keeps them.\<close>

lemma ledger_like_frame:
  "ledger_like I \<Longrightarrow> I w \<Longrightarrow> transactions w' = transactions w \<Longrightarrow> balances w' = balances w \<Longrightarrow> I w'"
  unfolding ledger_like_def by (auto simp: ledger_def pending_out_def dest: txn_onlyD)

lemma keeps_update_balance:
  assumes "ledger_like I"
    and "\<And>b b'. f b = Some b' \<Longrightarrow> balPendingOutPaise b' = balPendingOutPaise b"
  shows "keeps I (update_balance u p f)"
proof -
  from assms(1) obtain d R where R: "txn_only R" and I: "I = (\<lambda>w. ledger d w \<and> R w)"
    unfolding ledger_like_def by blast
  have "triple I (update_balance u p f)
     (\<lambda>n w. ledger (if n = 0 then d else d(u := d u + 0)) w \<and> R w)
     (\<lambda>_ w. (ledger d w \<or> ledger (d(u := d u + 0)) w) \<and> R w)"
    by (rule triple_update_balance) (use R assms(2) in \<open>auto simp: I\<close>)
  then show ?thesis
    by (simp add: if_split I cong: if_cong flip: keeps_triple)
qed

lemma keeps_read [keeps_intros]: "env_free I \<Longrightarrow> keeps I (db_call (get f))"
  by (intro keeps_db_call keeps_get)

text \<open>The statements that leave \<^verbatim>\<open>pending_out_paise\<close> alone.\<close>

lemma keeps_SetSynced [keeps_intros]: "ledger_like I \<Longrightarrow> keeps I (SetSynced u a)"
  unfolding SetSynced_def
  by (rule keeps_diag) (auto intro!: keeps_intros keeps_update_balance)

lemma keeps_tier_refused: "env_free I \<Longrightarrow> keeps I (tier_refused u)"
  unfolding tier_refused_def by (rule keeps_db_call) (simp_all add: keeps_def)

lemma keeps_balance_ops [keeps_intros]:
  assumes "ledger_like I"
  shows "keeps I (AdjustPendingIn u a)"
    and "keeps I (CreditAvailable u a)"
    and "keeps I (CreditAvailableTx u a)"
    and "keeps I (SetKYCTier u tier)"
    and "keeps I (Freeze u reason)"
    and "keeps I (Unfreeze u)"
  unfolding AdjustPendingIn_def CreditAvailable_def CreditAvailableTx_def
    SetKYCTier_def Freeze_def Unfreeze_def
  by (auto intro!: keeps_intros keeps_update_balance keeps_tier_refused env_free_ledger_like assms split: bind_splits)

lemma triple_DebitAvailableTx:
  "triple (ledger d) (DebitAvailableTx u a) (\<lambda>_. ledger (d(u := d u + a))) (\<lambda>_ _. True)"
proof -
  have "triple (ledger d) (wrapErr ''debit available'' (update_balance u
         (\<lambda>b. balAvailablePaise b \<ge> a \<and> \<not> balIsFrozen b)
         (\<lambda>b. do { x \<leftarrow> bigsub (balAvailablePaise b) a; p \<leftarrow> bigadd (balPendingOutPaise b) a;
            Some (b\<lparr>balAvailablePaise := x, balPendingOutPaise := p\<rparr>) })))
        (\<lambda>n w. ledger (if n = 0 then d else d(u := d u + a)) w) (\<lambda>_ _. True)"
    by (rule triple_wrapErr, rule triple_conseq,
        rule triple_update_balance [where P = "ledger d" and R = "\<lambda>_. True" and d = d and \<delta> = a])
      (auto split: bind_splits simp: bigadd_Some)
  then show ?thesis
    unfolding DebitAvailableTx_def require_def
    by (auto intro!: triple_andThen [where R = "\<lambda>n. ledger (if n = 0 then d else d(u := d u + a))"])
      (auto simp: triple_def go_simps split: prod.splits sum.splits option.splits)
qed

lemma triple_affected:
  assumes "triple P m (\<lambda>n w. (n = 0 \<longrightarrow> A w) \<and> (n \<noteq> 0 \<longrightarrow> B w)) E"
  shows "triple P (andThen (wrapErr l m) balance_affected) (\<lambda>_. B) (\<lambda>_ _. True)"
proof (rule triple_andThen)
  show "triple P (wrapErr l m) (\<lambda>n w. (n = 0 \<longrightarrow> A w) \<and> (n \<noteq> 0 \<longrightarrow> B w)) (\<lambda>_ _. True)"
    by (rule triple_wrapErr, rule triple_conseq [OF assms]) auto
qed (auto simp: triple_def go_simps balance_affected_def)

lemma triple_SettleDebitTx:
  assumes "a \<le> d u"
  shows "triple (ledger d) (SettleDebitTx u a) (\<lambda>_. ledger (d(u := d u - a))) (\<lambda>_ _. True)"
proof -
  have p: "a \<le> balPendingOutPaise b" if "ledger d w" "balances w u = Some b" for w b
    using that assms open_out_nonneg [of "transactions w" u]
    by (auto simp: ledger_def pending_out_def split: option.splits dest: spec [of _ u])
  have "triple (ledger d) (update_balance u (\<lambda>_. True)
       (\<lambda>b. do { p \<leftarrow> bigsub (balPendingOutPaise b) a; Some (b\<lparr>balPendingOutPaise := max p 0\<rparr>) }))
       (\<lambda>n w. ledger (if n = 0 then d else d(u := d u + - a)) w \<and> True)
       (\<lambda>_ w. (ledger d w \<or> ledger (d(u := d u + - a)) w) \<and> True)"
    by (rule triple_update_balance) (auto split: bind_splits simp: bigsub_Some max_def dest: p)
  then show ?thesis
    unfolding SettleDebitTx_def
    by (intro triple_affected [where A = "ledger d"]) (erule triple_conseq, auto)
qed

lemma triple_ReverseDebitTx:
  "triple (\<lambda>w. ledger_inv w \<and> pending_row id0 u a w) (ReverseDebitTx u a)
     (\<lambda>_ w. ledger ((\<lambda>_. 0)(u := - a)) w \<and> pending_row id0 u a w) (\<lambda>_ _. True)"
proof -
  let ?P = "\<lambda>w. ledger_inv w \<and> pending_row id0 u a w"
  have p: "a \<le> balPendingOutPaise b" if "ledger_inv w" "pending_row id0 u a w" "balances w u = Some b" for w b
    using that pending_row_open_out [of w id0 u a]
    by (auto simp: ledger_def pending_out_def split: option.splits dest: spec [of _ u])
  have "triple ?P (update_balance u (\<lambda>_. True)
       (\<lambda>b. do { x \<leftarrow> bigadd (balAvailablePaise b) a; p \<leftarrow> bigsub (balPendingOutPaise b) a;
          Some (b\<lparr>balAvailablePaise := x, balPendingOutPaise := max p 0\<rparr>) }))
       (\<lambda>n w. ledger (if n = 0 then (\<lambda>_. 0) else (\<lambda>_. 0)(u := 0 + - a)) w \<and> pending_row id0 u a w)
       (\<lambda>_ w. (ledger_inv w \<or> ledger ((\<lambda>_. 0)(u := 0 + - a)) w) \<and> pending_row id0 u a w)"
    by (rule triple_update_balance) (auto split: bind_splits simp: bigsub_Some max_def dest: p)
  then show ?thesis
    unfolding ReverseDebitTx_def
    by (intro triple_affected [where A = ledger_inv]) (erule triple_conseq, auto)
qed

section \<open>Statements on transactions\<close>

lemma open_out_append: "open_out (ts @ [t]) u = open_out ts u + (if txUserID t = u then open_amount t else 0)"
  by (simp add: open_out_def)

text \<open>The amount a new row adds to the open debits.\<close>

definition opens :: "CreateTransactionInput \<Rightarrow> int" where
  "opens i = (if ctiDirection i = ''debit'' \<and> ctiStatus i \<in> {[], ''pending'', ''pending_invite''}
     then ctiAmountPaise i else 0)"

lemma open_amount_txn_of_input: "open_amount (txn_of_input i id0 c) = opens i"
  by (auto simp: open_amount_def opens_def txn_of_input_def)

lemma triple_InsertTransaction:
  assumes "ctiType i = ''top_up'' \<longrightarrow> ctiDirection i = ''credit''"
  shows "triple (ledger d) (InsertTransaction i)
     (\<lambda>t w. ledger (d(ctiUserID i := d (ctiUserID i) - opens i)) w \<and>
        (\<exists>t' \<in> set (transactions w). t' = txn_of_input i (txID t) (txCreatedAt t)))
     (\<lambda>_ w. ledger d w \<or> ledger (d(ctiUserID i := d (ctiUserID i) - opens i)) w)"
proof -
  let ?d = "d(ctiUserID i := d (ctiUserID i) - opens i)"
  let ?Q = "\<lambda>t w. ledger ?d w \<and> (\<exists>t' \<in> set (transactions w). t' = txn_of_input i (txID t) (txCreatedAt t))"
  let ?m = "andThen gen_random_uuid (\<lambda>id0 w. let t = txn_of_input i id0 (clock w)
          in andThen (sql_insert_transaction t) (\<lambda>_. ok (t\<lparr>txMetadata := []\<rparr>)) w)"
  have "ledger ?d (w\<lparr>idctr := n, transactions := transactions w @ [txn_of_input i id0 c]\<rparr>)"
    if "ledger d w" "txn_row_ok (txn_of_input i id0 c)" "id0 \<notin> txID ` set (transactions w)" for w n id0 c
    using that assms
    by (auto simp: ledger_def rows_ok_def pending_out_def open_out_append open_amount_txn_of_input)
      (simp_all add: txn_of_input_def)
  then have "triple (ledger d) ?m ?Q (\<lambda>_. ledger d)"
    by (intro tripleI)
      (auto simp: go_simps gen_random_uuid_def sql_insert_transaction_def Let_def
        env_free_idctr [OF env_free_ledger] txn_of_input_def [of _ _ "clock w" for w]
        split: if_splits, auto simp: txn_of_input_def)
  then have "triple (ledger d) (db_call ?m) ?Q (\<lambda>_ w. ledger d w \<or> ledger ?d w)"
    by (rule triple_db_call [OF env_free_ledger]) auto
  then show ?thesis
    unfolding InsertTransaction_def require_def
    by (auto intro!: triple_wrapErr) (auto simp: triple_def fail_def)
qed

text \<open>A row whose status moves on.\<close>

lemma rows_ok_update:
  assumes "rows_ok ts" "\<And>t. txn_row_ok t \<Longrightarrow> txn_row_ok (g t)"
    and "\<And>t. txID (g t) = txID t \<and> txType (g t) = txType t \<and> txDirection (g t) = txDirection t"
  shows "rows_ok (update_rows p g ts)"
proof -
  have "map txID (update_rows p g ts) = map txID ts"
    by (rule map_update_rows) (simp add: assms(3))
  with assms show ?thesis by (fastforce simp: rows_ok_def in_update_rows split: if_splits)
qed

lemma open_out_update_credit:
  assumes "\<And>t. t \<in> set ts \<Longrightarrow> p t \<Longrightarrow> txDirection t = ''credit''"
    and "\<And>t. txUserID (g t) = txUserID t \<and> txDirection (g t) = txDirection t"
  shows "open_out (update_rows p g ts) u = open_out ts u"
  using assms(1) unfolding open_out_def
  by (induction ts) (auto simp: open_amount_def assms(2))

lemma open_out_update_same:
  assumes "\<And>t. open_amount (g t) = open_amount t \<and> txUserID (g t) = txUserID t"
  shows "open_out (update_rows p g ts) u = open_out ts u"
  unfolding open_out_def by (induction ts) (auto simp: assms)

lemma open_out_update_settle:
  assumes "rows_ok ts" "t \<in> set ts" "txID t = id0" "p t" "\<And>x. p x \<Longrightarrow> txID x = id0"
    and "\<And>x. open_amount (g x) = 0 \<and> txUserID (g x) = txUserID x"
  shows "open_out (update_rows p g ts) u = open_out ts u - (if txUserID t = u then open_amount t else 0)"
proof -
  have "sum_rows h (update_rows p g ts) = sum_rows h ts - h t + h (g t)" for h :: "Transaction \<Rightarrow> int"
    by (rule sum_update_rows [where k = txID]) (use assms in \<open>auto simp: rows_ok_def\<close>)
  then show ?thesis
    by (simp add: open_out_def assms(6))
qed

text \<open>\<^verbatim>\<open>MarkSettled\<close> on an open debit closes it: the column now runs ahead by the amount.\<close>

definition settle_rows ::
  "uuid \<Rightarrow> string \<Rightarrow> string option \<Rightarrow> string option \<Rightarrow> int \<Rightarrow> Transaction list \<Rightarrow> Transaction list" where
  "settle_rows id0 status bankRef reason c =
     update_rows (\<lambda>t. txID t = id0 \<and> txStatus t = ''pending'')
       (\<lambda>t. t\<lparr>txStatus := status,
          txBankTxnRef := (case bankRef of None \<Rightarrow> txBankTxnRef t | Some r \<Rightarrow> Some r),
          txFailureReason := reason, txSettledAt := Some c\<rparr>)"

lemma rows_ok_settle:
  "rows_ok ts \<Longrightarrow> status \<in> set txn_statuses \<Longrightarrow> rows_ok (settle_rows id0 status br fr c ts)"
  unfolding settle_rows_def by (rule rows_ok_update) (auto simp: txn_row_ok_def)

lemma ledger_settle_debit:
  assumes "ledger d w" "pending_row id0 u a w" "status \<in> {''succeeded'', ''failed'', ''reversed''}"
  shows "ledger (d(u := d u + a)) (w\<lparr>transactions := settle_rows id0 status br fr c (transactions w)\<rparr>)"
proof -
  from assms(2) obtain t where t: "t \<in> set (transactions w)" "txID t = id0" "txUserID t = u"
    "txDirection t = ''debit''" "txStatus t = ''pending''" "open_amount t = a"
    by (auto simp: pending_row_def open_amount_def)
  have "open_out (settle_rows id0 status br fr c (transactions w)) v
      = open_out (transactions w) v - (if txUserID t = v then open_amount t else 0)" for v
    unfolding settle_rows_def
    by (rule open_out_update_settle)
      (use assms(1,3) t in \<open>auto simp: ledger_def open_amount_def\<close>)
  moreover have "rows_ok (settle_rows id0 status br fr c (transactions w))"
    using assms by (intro rows_ok_settle) (auto simp: ledger_def txn_statuses_def)
  ultimately show ?thesis
    using assms(1) t by (auto simp: ledger_def pending_out_def)
qed

lemma ledger_settle_credit:
  assumes "ledger d w" "credit_id id0 w" "status \<in> set txn_statuses"
  shows "ledger d (w\<lparr>transactions := settle_rows id0 status br fr c (transactions w)\<rparr>)"
proof -
  have "open_out (settle_rows id0 status br fr c (transactions w)) v = open_out (transactions w) v" for v
    unfolding settle_rows_def
    by (rule open_out_update_credit) (use assms(2) in \<open>auto simp: credit_id_def\<close>)
  with assms show ?thesis
    by (auto simp: ledger_def pending_out_def rows_ok_settle)
qed

lemma triple_MarkSettled_gen:
  assumes "env_free P"
    and "\<And>w c. P w \<Longrightarrow> Q (w\<lparr>transactions := settle_rows id0 status br fr c (transactions w)\<rparr>)"
    and "env_free Q" "\<And>w. P w \<Longrightarrow> E w" "\<And>w. Q w \<Longrightarrow> E w"
  shows "triple P (MarkSettled id0 status br fr) (\<lambda>_. Q) (\<lambda>_. E)"
proof -
  let ?m = "\<lambda>w. let hit = (\<lambda>t. txID t = id0 \<and> txStatus t = ''pending'');
            rows = update_rows hit (\<lambda>t. t\<lparr>txStatus := status,
              txBankTxnRef := (case br of None \<Rightarrow> txBankTxnRef t | Some r \<Rightarrow> Some r),
              txFailureReason := fr, txSettledAt := Some (clock w)\<rparr>) (transactions w)
        in (Inr (length (filter hit (transactions w))), w\<lparr>transactions := rows\<rparr>)"
  have "triple P ?m (\<lambda>_. Q) (\<lambda>_. Q)"
    using assms(2) by (auto simp: triple_def settle_rows_def Let_def)
  then have 1: "triple P (wrapErr l (db_call ?m)) (\<lambda>_. Q) (\<lambda>_. E)" for l
    by (intro triple_wrapErr, elim triple_db_call [OF assms(1)]) (use assms in auto)
  have 2: "keeps Q (wrapErr l (db_call (get f)))" for l and f :: "_ \<Rightarrow> bool"
    by (intro keeps_intros keeps_db_call assms(3))
  have "triple Q (if n = 0 then
        andThen (wrapErr ''probe transaction'' (db_call (get (\<lambda>w. id0 \<in> txID ` set (transactions w)))))
          (\<lambda>found. if found then ok () else fail ErrTransactionNotFound)
      else ok ()) (\<lambda>_. Q) (\<lambda>_. E)" for n :: nat
    by (rule triple_conseq [where P' = Q and Q' = "\<lambda>_. Q" and E' = "\<lambda>_. Q"])
      (auto simp: keeps_triple assms(5) intro!: keeps_intros keeps_db_call assms(3))
  then show ?thesis
    unfolding MarkSettled_def
    using assms(4) by (intro triple_require triple_andThen [OF 1])
qed

lemma triple_MarkSettled_debit:
  assumes "status \<in> {''succeeded'', ''failed'', ''reversed''}"
  shows "triple (\<lambda>w. ledger d w \<and> pending_row id0 u a w) (MarkSettled id0 status br fr)
     (\<lambda>_. ledger (d(u := d u + a))) (\<lambda>_ _. True)"
  using assms by (intro triple_MarkSettled_gen) (auto intro!: env_free_conj ledger_settle_debit)

text \<open>Facts about the credits: the identifiers in a list belong to no debit.\<close>

definition credit_ids :: "uuid set \<Rightarrow> 'b wallet \<Rightarrow> bool" where
  "credit_ids A w \<longleftrightarrow> (\<forall>t \<in> set (transactions w). txID t \<in> A \<longrightarrow> txDirection t = ''credit'')"

lemma txn_only_credit_ids [simp]: "txn_only (credit_ids A)"
  by (simp add: txn_only_def credit_ids_def)

lemma credit_ids_update:
  assumes "credit_ids A w" "\<And>t. txID (g t) = txID t \<and> txDirection (g t) = txDirection t"
  shows "credit_ids A (w\<lparr>transactions := update_rows p g (transactions w)\<rparr>)"
  using assms by (fastforce simp: credit_ids_def in_update_rows split: if_splits)

lemma keeps_MarkSettled_credit:
  assumes "id0 \<in> A"
  shows "keeps (\<lambda>w. ledger d w \<and> credit_ids A w) (MarkSettled id0 status br fr)"
proof (cases "status \<in> set txn_statuses")
  case True
  show ?thesis
    unfolding keeps_triple [symmetric]
  proof (rule triple_MarkSettled_gen)
    fix w :: "'a wallet" and c
    assume "ledger d w \<and> credit_ids A w"
    moreover from this have "credit_id id0 w"
      using assms by (auto simp: credit_id_def credit_ids_def)
    ultimately show "ledger d (w\<lparr>transactions := settle_rows id0 status br fr c (transactions w)\<rparr>)
        \<and> credit_ids A (w\<lparr>transactions := settle_rows id0 status br fr c (transactions w)\<rparr>)"
      using True ledger_settle_credit [of d w id0 status br fr c]
      by (simp add: settle_rows_def credit_ids_update)
  qed (auto intro!: env_free_ledger_like)
next
  case False
  then show ?thesis
    by (auto simp: MarkSettled_def require_def txn_statuses_def keeps_fail)
qed

lemma keeps_SetUPIRef:
  "keeps (\<lambda>w. ledger d w \<and> credit_ids A w) (SetUPIRef id0 ref)"
proof -
  let ?I = "\<lambda>w. ledger d w \<and> credit_ids A w"
  have "?I (w\<lparr>transactions := update_rows p (\<lambda>t. t\<lparr>txUPITxnRef := Some ref\<rparr>) (transactions w)\<rparr>)"
    if "?I w" for w p
  proof -
    have "open_out (update_rows p (\<lambda>t. t\<lparr>txUPITxnRef := Some ref\<rparr>) (transactions w)) v
        = open_out (transactions w) v" for v
      by (rule open_out_update_same) (auto simp: open_amount_def)
    moreover have "rows_ok (update_rows p (\<lambda>t. t\<lparr>txUPITxnRef := Some ref\<rparr>) (transactions w))"
      using that by (intro rows_ok_update) (auto simp: ledger_def txn_row_ok_def)
    ultimately show ?thesis
      using that by (auto simp: ledger_def pending_out_def intro!: credit_ids_update)
  qed
  then have "keeps ?I (\<lambda>w. let hit = (\<lambda>t. txID t = id0 \<and> (txUPITxnRef t = None \<or> txUPITxnRef t = Some ref));
            rows = update_rows hit (\<lambda>t. t\<lparr>txUPITxnRef := Some ref\<rparr>) (transactions w)
        in (Inr (length (filter hit (transactions w))), w\<lparr>transactions := rows\<rparr>))"
    by (intro keepsI) (auto simp: Let_def)
  moreover have "env_free ?I" by (intro env_free_ledger_like ledger_like_conj) simp
  ultimately show ?thesis
    unfolding SetUPIRef_def
    by (auto intro!: keeps_intros keeps_db_call)
qed

section \<open>The operations that touch neither rows, balances nor the bank\<close>

definition framed :: "('b wallet \<Rightarrow> bool) \<Rightarrow> bool" where
  "framed I \<longleftrightarrow> env_free I \<and> (\<forall>w w'. transactions w' = transactions w \<longrightarrow> balances w' = balances w \<longrightarrow>
     bank w' = bank w \<longrightarrow> I w \<longrightarrow> I w')"

lemma framedD: "framed I \<Longrightarrow> I w \<Longrightarrow> transactions w' = transactions w \<Longrightarrow> balances w' = balances w \<Longrightarrow>
    bank w' = bank w \<Longrightarrow> I w'"
  unfolding framed_def by blast

lemma framed_env_free: "framed I \<Longrightarrow> env_free I"
  by (simp add: framed_def)

lemma ledger_like_framed: "ledger_like I \<Longrightarrow> framed I"
  by (auto simp: framed_def env_free_ledger_like intro: ledger_like_frame)

lemma framed_ledger [simp]:
  "framed (ledger d)"
  "txn_only R \<Longrightarrow> framed (\<lambda>w. ledger d w \<and> R w)"
  by (simp_all add: ledger_like_framed)

lemma keeps_frame:
  assumes "framed I"
    and "\<And>w r w'. m w = (r, w') \<Longrightarrow> transactions w' = transactions w \<and> balances w' = balances w \<and> bank w' = bank w"
  shows "keeps I m"
  by (rule keepsI) (use assms in \<open>blast intro: framedD\<close>)

lemma keeps_frame_db:
  assumes "framed I"
    and "\<And>w r w'. m w = (r, w') \<Longrightarrow> transactions w' = transactions w \<and> balances w' = balances w \<and> bank w' = bank w"
  shows "keeps I (db_call m)"
  by (intro keeps_db_call keeps_frame framed_env_free assms(1)) (rule assms(2))

lemma keeps_on_bank [keeps_intros]: "ledger_like I \<Longrightarrow> keeps I (on_bank m)"
  by (rule keepsI) (auto simp: on_bank_def split: prod.splits intro: ledger_like_frame)

lemma keeps_publish [keeps_intros]: "framed I \<Longrightarrow> keeps I (publish e)"
  unfolding publish_def by (intro keeps_logged keeps_frame_db) (auto simp: modify_def)

lemma keeps_RecordIdempotency [keeps_intros]: "framed I \<Longrightarrow> keeps I (RecordIdempotency k u op0 t b)"
  unfolding RecordIdempotency_def
  by (intro keeps_wrapErr keeps_frame_db) (auto split: option.splits)

lemma keeps_FindIdempotency [keeps_intros]: "framed I \<Longrightarrow> keeps I (FindIdempotency k u op0)"
  unfolding FindIdempotency_def by (intro keeps_intros framed_env_free)

lemma keeps_PurgeExpiredIdempotency [keeps_intros]: "framed I \<Longrightarrow> keeps I PurgeExpiredIdempotency"
  unfolding PurgeExpiredIdempotency_def
  by (intro keeps_wrapErr keeps_frame_db) (auto simp: modify_def)

lemma keeps_BumpRecipient [keeps_intros]: "framed I \<Longrightarrow> keeps I (BumpRecipient u ru rp l)"
  unfolding BumpRecipient_def
  by (intro keeps_require keeps_wrapErr keeps_frame_db) (auto simp: Let_def split: if_splits)

lemma keeps_upsert_kyc [keeps_intros]: "framed I \<Longrightarrow> keeps I (upsert_kyc u ins upd)"
  unfolding upsert_kyc_def by (intro keeps_frame_db) (auto simp: modify_def)

lemma keeps_kyc_ops [keeps_intros]:
  assumes "framed I"
  shows "keeps I (UpsertAadhaarVerified u ref)"
    and "keeps I (SetPANStatus u masked status)"
    and "keeps I (MarkAadhaarPending u)"
    and "keeps I (SetRejection u reason)"
    and "keeps I (store_GetKYC u)"
    and "keeps I (store_GetTransaction u id0)"
    and "keeps I (GetTransactionByID id0)"
    and "keeps I (store_GetBalance u)"
  unfolding UpsertAadhaarVerified_def SetPANStatus_def MarkAadhaarPending_def SetRejection_def
    store_GetKYC_def store_GetTransaction_def GetTransactionByID_def store_GetBalance_def
  by (auto intro!: keeps_intros assms framed_env_free split: option.splits)

lemma keeps_EnsureBalance [keeps_intros]: "ledger_like I \<Longrightarrow> keeps I (EnsureBalance u ref)"
proof -
  assume I: "ledger_like I"
  then obtain d R where "txn_only R" and eq: "I = (\<lambda>w. ledger d w \<and> R w)"
    unfolding ledger_like_def by blast
  then show ?thesis
    unfolding EnsureBalance_def
    by (intro keeps_db_call env_free_ledger_like I)
      (auto simp: eq keeps_def ledger_def pending_out_def Let_def split: option.splits;
        erule (1) txn_onlyD; simp)
qed

lemma keeps_GetBalance [keeps_intros]: "ledger_like I \<Longrightarrow> keeps I (GetBalance sv u)"
  unfolding GetBalance_def
  by (intro keeps_intros keeps_frame [of _ "modify f" for f]) (auto simp: modify_def ledger_like_framed)

lemma keeps_AssertWithinMonthlyLimit [keeps_intros]:
  "ledger_like I \<Longrightarrow> keeps I (AssertWithinMonthlyLimit sv u a)"
  unfolding AssertWithinMonthlyLimit_def by (intro keeps_intros)

lemma keeps_refreshFromBank [keeps_intros]: "ledger_like I \<Longrightarrow> keeps I (refreshFromBank sv u ref)"
  unfolding refreshFromBank_def by (intro keeps_intros)

lemma keeps_run_goroutine [keeps_intros]:
  assumes "ledger_like I"
  shows "keeps I (run_goroutine sv i)"
proof (rule keepsI)
  fix w r w'
  assume "I w" and m: "run_goroutine sv i w = (r, w')"
  then have "I (w\<lparr>goroutines := gs\<rparr>)" for gs by (auto intro: ledger_like_frame [OF assms])
  note run = keepsD2 [OF keeps_refreshFromBank [OF assms] this]
  show "I w'"
  proof (cases "i < length (goroutines w)")
    case True
    with m show ?thesis
      by (cases "goroutines w ! i") (auto simp: run_goroutine_def intro: run)
  qed (use m \<open>I w\<close> in \<open>simp add: run_goroutine_def\<close>)
qed

lemma keeps_idempotent [keeps_intros]:
  assumes "framed I" "\<And>r m. hit r = Some m \<Longrightarrow> keeps I m" "keeps I run"
  shows "keeps I (idempotent key u op0 hit run)"
  unfolding idempotent_def by (intro keeps_intros assms) (use assms(2) in auto)

lemma keeps_replays:
  assumes "framed I"
  shows "topup_replay sv ex = Some m \<Longrightarrow> keeps I m"
    and "send_replay u ex = Some m' \<Longrightarrow> keeps I m'"
    and "merchant_replay u ex = Some m'' \<Longrightarrow> keeps I m''"
  by (auto simp: topup_replay_def send_replay_def merchant_replay_def decode_cached_def
      topUpResultFromTransaction_def split: option.splits intro!: keeps_intros assms)

section \<open>Every operation of the service keeps the ledger\<close>

lemma keeps_InsertTransaction_credit [keeps_intros]:
  assumes "ctiDirection i = ''credit''"
  shows "keeps (ledger d) (InsertTransaction i)"
proof -
  have "triple (ledger d) (InsertTransaction i) (\<lambda>_. ledger d) (\<lambda>_. ledger d)"
    by (rule triple_conseq [OF triple_InsertTransaction]) (use assms in \<open>auto simp: opens_def\<close>)
  then show ?thesis by (simp add: keeps_triple)
qed

lemma new_input_simps [simp]:
  "ctiType (new_transaction_input u ty dir a) = ty"
  "ctiDirection (new_transaction_input u ty dir a) = dir"
  "ctiUserID (new_transaction_input u ty dir a) = u"
  "ctiAmountPaise (new_transaction_input u ty dir a) = a"
  by (simp_all add: new_transaction_input_def)

lemma keeps_StartTopUp: "keeps ledger_inv (StartTopUp sv u a key)"
  unfolding StartTopUp_def Let_def
  by (intro keeps_intros keeps_replays(1)) (auto simp: topup_input_def)

lemma triple_read:
  assumes "env_free P"
  shows "triple P (db_call (get f)) (\<lambda>x w. P w \<and> x = f w) (\<lambda>_. P)"
  by (rule triple_db_call [OF assms, where E = "\<lambda>_. P"]) (auto simp: triple_def get_def)

lemma triple_of_keeps:
  "keeps K m \<Longrightarrow> (\<And>w. P w \<Longrightarrow> K w) \<Longrightarrow> (\<And>w. K w \<Longrightarrow> I w) \<Longrightarrow> triple P m (\<lambda>_. I) (\<lambda>_. I)"
  by (rule triple_conseq [of K m "\<lambda>_. K" "\<lambda>_. K"]) (auto simp: keeps_triple)

lemma keeps_bind_triple:
  "triple I m R (\<lambda>_. I) \<Longrightarrow> (\<And>x. triple (R x) (f x) (\<lambda>_. I) (\<lambda>_. I)) \<Longrightarrow> keeps I (andThen m f)"
  unfolding keeps_triple [symmetric] by (rule triple_andThen)

lemma topup_rows_are_credits:
  assumes "ledger_inv w" "\<And>t. t \<in> T \<Longrightarrow> \<exists>t' \<in> set (transactions w). txID t' = txID t \<and> txType t' = ''top_up''"
  shows "credit_ids (txID ` T) w"
proof -
  have "txDirection t = ''credit''"
    if "t \<in> set (transactions w)" "s \<in> T" "txID t = txID s" for t s
  proof -
    from assms(2) [OF that(2)] obtain t' where t': "t' \<in> set (transactions w)" "txID t' = txID s"
      "txType t' = ''top_up''" by blast
    have "inj_on txID (set (transactions w))"
      using assms(1) by (simp add: ledger_def rows_ok_def distinct_map)
    then have "t' = t" using t' that by (metis inj_onD)
    then show ?thesis using t' assms(1) by (auto simp: ledger_def rows_ok_def)
  qed
  then show ?thesis by (auto simp: credit_ids_def)
qed

lemma triple_store_GetTransaction:
  "triple ledger_inv (store_GetTransaction u id0)
     (\<lambda>t w. ledger_inv w \<and> (txType t = ''top_up'' \<longrightarrow> credit_ids {id0} w)) (\<lambda>_. ledger_inv)"
proof -
  have "txType t = ''top_up'' \<longrightarrow> credit_ids {id0} w"
    if "ledger_inv w" "find (\<lambda>t. txID t = id0 \<and> txUserID t = u) (transactions w) = Some t" for w :: "'a wallet" and t
  proof
    from that(2) have t: "t \<in> set (transactions w)" "txID t = id0"
      by (auto simp: find_Some_iff)
    assume "txType t = ''top_up''"
    with t topup_rows_are_credits [OF that(1), of "{t}"] show "credit_ids {id0} w" by auto
  qed
  then show ?thesis
    unfolding store_GetTransaction_def
    by (intro triple_andThen [OF triple_read [OF env_free_ledger]])
      (auto simp: triple_def go_simps scanTransaction_def split: option.splits)
qed

lemma keeps_ConfirmTopUp: "keeps ledger_inv (ConfirmTopUp sv u id0 ref)"
proof -
  let ?K = "\<lambda>w. ledger_inv w \<and> credit_ids {id0} w"
  have K: "ledger_like ?K" by simp
  show ?thesis
    unfolding ConfirmTopUp_def confirm_commit_def
  proof (intro keeps_require keeps_bind_triple [OF triple_store_GetTransaction], goal_cases)
    case (1 t)
    show ?case
    proof (cases "txType t = ''top_up''")
      case True
      then show ?thesis
        by (intro triple_of_keeps [of ?K] keeps_intros keeps_SetUPIRef keeps_MarkSettled_credit K) auto
    qed (auto simp: triple_def fail_def)
  qed
qed

lemma keeps_expire_one:
  assumes "t \<in> set stale"
  shows "keeps (\<lambda>w. ledger_inv w \<and> credit_ids (txID ` set stale) w) (expire_one t n)"
  unfolding expire_one_def using assms
  by (intro keeps_attempt keeps_MarkSettled_credit keeps_sum keeps_ok keeps_balance_ops(1)
      keeps_andThen keeps_publish ledger_like_conj txn_only_credit_ids) auto

lemma triple_list_stale:
  "triple ledger_inv (wrapErr l (ListPendingTopUpsOlderThan c n))
     (\<lambda>stale w. ledger_inv w \<and> credit_ids (txID ` set stale) w) (\<lambda>_. ledger_inv)"
  unfolding ListPendingTopUpsOlderThan_def
proof (intro triple_wrapErr, rule triple_conseq [OF triple_read [OF env_free_ledger]])
  fix x and w :: "'a wallet"
  assume w: "ledger_inv w \<and> x = stale_topups c n (transactions w)"
  then have "credit_ids (txID ` set x) w"
    by (intro topup_rows_are_credits) (auto simp: scanTransaction_def dest!: in_stale_topups)
  with w show "ledger_inv w \<and> credit_ids (txID ` set x) w" by simp
qed

lemma keeps_ExpireStaleTopUps: "keeps ledger_inv (ExpireStaleTopUps sv)"
  unfolding ExpireStaleTopUps_def Let_def
proof (rule keeps_diag, rule keeps_bind_triple [OF triple_list_stale])
  fix stale :: "Transaction list"
  let ?K = "\<lambda>w :: 'b wallet. ledger_inv w \<and> credit_ids (txID ` set stale) w"
  have "keeps ?K (for_each stale expire_one 0)"
    by (intro keeps_for_each keeps_expire_one)
  then show "triple ?K (for_each stale expire_one 0) (\<lambda>_. ledger_inv) (\<lambda>_. ledger_inv)"
    by (rule triple_of_keeps) auto
qed

text \<open>The two transactions that open a debit, and the three that close one.\<close>

lemma upd_zero [simp]: "(\<lambda>_. 0)(u := 0 :: int) = (\<lambda>_. 0)"
  by auto

lemma debit_and_insert:
  assumes "ctiUserID i = u" "ctiType i \<noteq> ''top_up''" "ctiDirection i = ''debit''"
    and "ctiAmountPaise i = a" "ctiStatus i \<in> {''pending'', ''pending_invite''}"
    and "triple ledger_inv D (\<lambda>_. ledger ((\<lambda>_. 0)(u := a))) (\<lambda>_ _. True)"
  shows "triple ledger_inv (andThen D (\<lambda>_. wrapErr l (InsertTransaction i)))
     (\<lambda>t w. ledger_inv w \<and> (ctiStatus i = ''pending'' \<longrightarrow> pending_row (txID t) u a w)) (\<lambda>_ _. True)"
proof (rule triple_andThen [OF assms(6)], rule triple_wrapErr, rule triple_conseq [OF triple_InsertTransaction])
  show "ctiType i = ''top_up'' \<longrightarrow> ctiDirection i = ''credit''" using assms(2) by simp
  fix x :: Transaction and w :: "'a wallet"
  have "((\<lambda>_. 0)(u := a))(ctiUserID i := ((\<lambda>_. 0)(u := a)) (ctiUserID i) - opens i) = (\<lambda>_. 0)"
    using assms(1,3-5) by (auto simp: opens_def)
  moreover assume "ledger (((\<lambda>_. 0)(u := a))(ctiUserID i := ((\<lambda>_. 0)(u := a)) (ctiUserID i) - opens i)) w \<and>
        (\<exists>t' \<in> set (transactions w). t' = txn_of_input i (txID x) (txCreatedAt x))"
  ultimately show "ledger_inv w \<and> (ctiStatus i = ''pending'' \<longrightarrow> pending_row (txID x) u a w)"
    using assms(1,3,4)
    by (auto simp: pending_row_def intro!: bexI [of _ "txn_of_input i (txID x) (txCreatedAt x)"])
      (auto simp: txn_of_input_def)
qed auto

lemma triple_debit0:
  "triple ledger_inv (DebitAvailableTx u a) (\<lambda>_. ledger ((\<lambda>_. 0)(u := a))) (\<lambda>_ _. True)"
  using triple_DebitAvailableTx [of "\<lambda>_. 0" u a] by simp

lemma env_free_opened [simp]:
  "env_free (\<lambda>w. ledger_inv w \<and> (c \<longrightarrow> pending_row id0 u a w))"
  "env_free (\<lambda>w. ledger_inv w \<and> pending_row id0 u a w)"
  by (rule env_free_ledger_like, rule ledger_like_conj, cases c; simp add: txn_only_def pending_row_def)
    (rule env_free_ledger_like, rule ledger_like_conj, simp)

lemma triple_merchant_debit_tx:
  "triple ledger_inv (merchant_debit_tx u a ms mr key)
     (\<lambda>t w. ledger_inv w \<and> pending_row (txID t) u a w) (\<lambda>_. ledger_inv)"
  unfolding merchant_debit_tx_def
  by (rule triple_conseq, rule triple_in_tx [OF env_free_ledger debit_and_insert [where u = u and a = a]])
    (auto intro: triple_wrapErr triple_debit0 env_free_opened simp: merchant_input_def)

lemma triple_send_debit:
  "triple ledger_inv (send_debit u req)
     (\<lambda>t w. ledger_inv w \<and> pending_row (txID t) u (reqAmountPaise req) w) (\<lambda>_. ledger_inv)"
  unfolding send_debit_def
  by (rule triple_conseq, rule triple_in_tx [OF env_free_ledger debit_and_insert [where u = u and a = "reqAmountPaise req"]])
    (auto intro: triple_wrapErr triple_debit0 env_free_opened simp: send_input_def)

lemma triple_compensate:
  "triple (\<lambda>w. ledger_inv w \<and> pending_row id0 u a w) (compensateSendFailure u id0 a reason)
     (\<lambda>_. ledger_inv) (\<lambda>_. ledger_inv)"
proof -
  let ?P = "\<lambda>w :: 'a wallet. ledger_inv w \<and> pending_row id0 u a w"
  have "triple ?P (andThen (ReverseDebitTx u a) (\<lambda>_. MarkSettled id0 ''failed'' None (Some reason)))
      (\<lambda>_. ledger_inv) (\<lambda>_ _. True)"
  proof (rule triple_andThen [OF triple_ReverseDebitTx])
    show "triple (\<lambda>w :: 'a wallet. ledger ((\<lambda>_. 0)(u := - a)) w \<and> pending_row id0 u a w)
        (MarkSettled id0 ''failed'' None (Some reason)) (\<lambda>_. ledger_inv) (\<lambda>_ _. True)"
      by (rule triple_conseq [OF triple_MarkSettled_debit]) (auto simp: upd_zero)
  qed
  then have "triple ?P (in_tx lb (andThen (ReverseDebitTx u a)
      (\<lambda>_. MarkSettled id0 ''failed'' None (Some reason))) lc) (\<lambda>_. ledger_inv) (\<lambda>_. ledger_inv)" for lb lc
    by (rule triple_in_tx [rotated]) auto
  then show ?thesis
    unfolding compensateSendFailure_def by (rule triple_logged)
qed

lemma triple_merchant_settle_tx:
  "triple (\<lambda>w. ledger_inv w \<and> pending_row id0 u a w) (merchant_settle_tx u id0 a)
     (\<lambda>_. ledger_inv) (\<lambda>_. ledger_inv)"
  unfolding merchant_settle_tx_def
proof (rule triple_in_tx)
  show "triple (\<lambda>w :: 'a wallet. ledger_inv w \<and> pending_row id0 u a w)
     (andThen (wrapErr ''mark merchant succeeded''
          (MarkSettled id0 ''succeeded'' (Some (uuid_string id0)) None)) (\<lambda>_.
        wrapErr ''settle merchant debit'' (SettleDebitTx u a))) (\<lambda>_. ledger_inv) (\<lambda>_ _. True)"
  proof (rule triple_andThen; rule triple_wrapErr)
    show "triple (\<lambda>w :: 'a wallet. ledger ((\<lambda>_. 0)(u := a)) w) (SettleDebitTx u a)
        (\<lambda>_. ledger_inv) (\<lambda>_ _. True)"
      by (rule triple_conseq [OF triple_SettleDebitTx]) (auto simp: upd_zero)
  qed (rule triple_conseq [OF triple_MarkSettled_debit], auto)
qed auto

lemma triple_send_settle:
  "triple (\<lambda>w. ledger_inv w \<and> pending_row id0 u (reqAmountPaise req) w) (send_settle u rcpt id0 req)
     (\<lambda>_. ledger_inv) (\<lambda>_. ledger_inv)"
  unfolding send_settle_def Let_def
proof (rule triple_in_tx)
  let ?a = "reqAmountPaise req"
  have 1: "triple (\<lambda>w :: 'a wallet. ledger ((\<lambda>_. 0)(u := ?a)) w) (wrapErr l (SettleDebitTx u ?a))
        (\<lambda>_. ledger_inv) (\<lambda>_ _. True)" for l
    by (rule triple_wrapErr, rule triple_conseq [OF triple_SettleDebitTx]) (auto simp: upd_zero)
  have 2: "triple (\<lambda>w :: 'a wallet. ledger_inv w \<and> pending_row id0 u ?a w)
     (wrapErr l (MarkSettled id0 ''succeeded'' br fr)) (\<lambda>_. ledger ((\<lambda>_. 0)(u := ?a))) (\<lambda>_ _. True)" for l br fr
    by (rule triple_wrapErr, rule triple_conseq [OF triple_MarkSettled_debit]) auto
  have 3: "triple ledger_inv (andThen (wrapErr ''credit recipient'' (CreditAvailableTx rcpt ?a)) (\<lambda>_.
      wrapErr ''insert recipient tx'' (InsertTransaction (receive_input u rcpt req (uuid_string id0)))))
      (\<lambda>_. ledger_inv) (\<lambda>_ _. True)"
    by (rule triple_conseq [of ledger_inv _ "\<lambda>_. ledger_inv" "\<lambda>_. ledger_inv"])
      (auto simp: keeps_triple receive_input_def intro!: keeps_intros)
  show "triple (\<lambda>w :: 'a wallet. ledger_inv w \<and> pending_row id0 u ?a w)
     (andThen (wrapErr ''mark sender succeeded'' (MarkSettled id0 ''succeeded'' (Some (uuid_string id0)) None)) (\<lambda>_.
        andThen (wrapErr ''settle sender debit'' (SettleDebitTx u ?a)) (\<lambda>_.
        andThen (wrapErr ''credit recipient'' (CreditAvailableTx rcpt ?a)) (\<lambda>_.
        wrapErr ''insert recipient tx'' (InsertTransaction (receive_input u rcpt req (uuid_string id0)))))))
     (\<lambda>_. ledger_inv) (\<lambda>_ _. True)"
    by (rule triple_andThen [OF 2], rule triple_andThen [OF 1], rule 3)
qed auto

section \<open>The sagas\<close>

text \<open>After a debit that opened a row, the rest of a saga keeps that row open until it settles
  or compensates.\<close>

definition saga_rest :: "uuid \<Rightarrow> uuid \<Rightarrow> int \<Rightarrow> ('b wallet, 'r) io \<Rightarrow> bool" where
  "saga_rest id0 u a m \<longleftrightarrow>
     triple (\<lambda>w. ledger_inv w \<and> pending_row id0 u a w) m (\<lambda>_. ledger_inv) (\<lambda>_. ledger_inv)"

lemma saga_rest_step:
  assumes "keeps (\<lambda>w. ledger_inv w \<and> pending_row id0 u a w) m" "\<And>x. saga_rest id0 u a (f x)"
  shows "saga_rest id0 u a (andThen m f)"
proof -
  have "triple (\<lambda>w. ledger_inv w \<and> pending_row id0 u a w) m
      (\<lambda>_ w. ledger_inv w \<and> pending_row id0 u a w) (\<lambda>_. ledger_inv)"
    by (rule triple_conseq [OF assms(1) [folded keeps_triple]]) auto
  with assms(2) show ?thesis unfolding saga_rest_def by (blast intro: triple_andThen)
qed

lemma saga_rest_attempt:
  assumes "keeps (\<lambda>w. ledger_inv w \<and> pending_row id0 u a w) m" "\<And>r. saga_rest id0 u a (k r)"
  shows "saga_rest id0 u a (attempt m k)"
  unfolding saga_rest_def
proof (rule tripleI)
  fix w r w' assume w: "ledger_inv w \<and> pending_row id0 u a w" and m: "attempt m k w = (Inr r, w')"
  then obtain r1 w1 where "m w = (r1, w1)" "k r1 w1 = (Inr r, w')"
    by (auto simp: attempt_def split: prod.splits)
  with w assms show "ledger_inv w'"
    by (metis (mono_tags, lifting) keepsD2 saga_rest_def tripleD_ok)
next
  fix w r w' assume w: "ledger_inv w \<and> pending_row id0 u a w" and m: "attempt m k w = (Inl r, w')"
  then obtain r1 w1 where "m w = (r1, w1)" "k r1 w1 = (Inl r, w')"
    by (auto simp: attempt_def split: prod.splits)
  with w assms show "ledger_inv w'"
    by (metis (mono_tags, lifting) keepsD2 saga_rest_def tripleD_err)
qed

lemma saga_rest_end:
  assumes "saga_rest id0 u a m" "\<And>x. keeps ledger_inv (f x)"
  shows "saga_rest id0 u a (andThen m f)"
  using assms unfolding saga_rest_def by (intro triple_andThen [where R = "\<lambda>_. ledger_inv"]) (auto simp: keeps_triple)

lemmas saga_ends = triple_compensate [folded saga_rest_def] triple_merchant_settle_tx [folded saga_rest_def]
  triple_send_settle [folded saga_rest_def]

lemma keeps_saga:
  assumes "triple ledger_inv m (\<lambda>t w. ledger_inv w \<and> pending_row (txID t) u a w) (\<lambda>_. ledger_inv)"
    and "\<And>t. saga_rest (txID t) u a (f t)"
  shows "keeps ledger_inv (andThen m f)"
  using assms unfolding saga_rest_def by (intro keeps_bind_triple) auto

lemma keeps_MerchantDebit: "keeps ledger_inv (MerchantDebit sv u a ms mr key)"
  unfolding MerchantDebit_def merchant_run_def merchant_finish_def Let_def
  by (intro keeps_require keeps_idempotent keeps_replays ledger_like_ledger keeps_andThen
      keeps_AssertWithinMonthlyLimit keeps_GetBalance keeps_saga [OF triple_merchant_debit_tx]
      saga_rest_attempt keeps_on_bank ledger_like_conj txn_only_pending_row)
    (auto split: sum.splits intro!: saga_rest_end saga_ends keeps_intros)

lemma keeps_send_to_user: "keeps ledger_inv (send_to_user sv u rcpt b1 b2 phone req)"
  unfolding send_to_user_def send_finish_def Let_def
  by (intro keeps_saga [OF triple_send_debit] saga_rest_step keeps_publish
      saga_rest_attempt keeps_on_bank ledger_like_conj txn_only_pending_row)
    (auto split: sum.splits intro!: saga_rest_end saga_ends keeps_intros)

lemma keeps_sendToExternalPhone: "keeps ledger_inv (sendToExternalPhone u phone req)"
proof -
  have "triple ledger_inv (andThen (DebitAvailableTx u (reqAmountPaise req)) (\<lambda>_.
        wrapErr ''insert invite tx'' (InsertTransaction (invite_input u phone req))))
      (\<lambda>_. ledger_inv) (\<lambda>_ _. True)"
    by (rule triple_conseq [OF debit_and_insert [OF _ _ _ _ _ triple_debit0]])
      (auto simp: invite_input_def)
  then show ?thesis
    unfolding sendToExternalPhone_def Let_def
    by (intro keeps_andThen keeps_in_tx env_free_ledger) (auto intro!: keeps_intros)
qed

lemma keeps_Send: "keeps ledger_inv (Send sv u req)"
  unfolding Send_def Let_def
  by (intro keeps_intros keeps_replays keeps_send_to_user keeps_sendToExternalPhone) auto

lemma keeps_Refund: "keeps ledger_inv (Refund sv id0 a reason)"
proof -
  have "keeps ledger_inv (refund_tx t id0 a reason)" for t
    unfolding refund_tx_def
    by (intro keeps_in_tx env_free_ledger, rule triple_conseq [of ledger_inv _ "\<lambda>_. ledger_inv" "\<lambda>_. ledger_inv"])
      (auto simp: keeps_triple refund_input_def intro!: keeps_intros)
  then show ?thesis
    unfolding Refund_def Let_def by (intro keeps_intros) auto
qed

lemma keeps_kyc_service:
  shows "keeps ledger_inv (StartAadhaar rand u base redirect)"
    and "keeps ledger_inv (CompleteAadhaar u c st v)"
    and "keeps ledger_inv (SubmitPAN u p)"
  unfolding StartAadhaar_def CompleteAadhaar_def SubmitPAN_def Let_def
  by (auto intro!: keeps_intros split: option.splits)

end
