(* ===== verification/Wallet_System.thy ===== *)
theory Wallet_System
  imports Wallet_Ledger
begin

text \<open>
  wallet-service as a whole: the operations its handlers, its cron job (\<^verbatim>\<open>cmd/expirer\<close>) and
  its background refreshes run, one after the other in any order, against a network that may fail
  or lose replies, a clock that moves on and a bank that changes on its own. \<open>wallet_step\<close> is
  the step relation and \<open>wallet_reach\<close> the states it reaches from the empty schema.
\<close>

datatype request =
    DoGetBalance uuid
  | DoStartTopUp uuid int string
  | DoConfirmTopUp uuid uuid string
  | DoSend uuid SendRequest
  | DoMerchantDebit uuid int string string string
  | DoRefund uuid int string
  | DoStartAadhaar "goerr + nat list" uuid string string
  | DoCompleteAadhaar uuid string string "verifier option"
  | DoSubmitPAN uuid string
  | DoExpirer
  | DoRefresh nat
  | DoFreeze uuid string
  | DoUnfreeze uuid

text \<open>\<^verbatim>\<open>cmd/expirer\<close>: expire the stale top-ups, then purge the expired keys.\<close>

definition expirer_main :: "'b Service \<Rightarrow> ('b wallet, unit) io" where
  "expirer_main sv = andThen (ExpireStaleTopUps sv) (\<lambda>_. logged PurgeExpiredIdempotency)"

fun run_request :: "'b Service \<Rightarrow> request \<Rightarrow> 'b wallet \<Rightarrow> 'b wallet" where
  "run_request sv (DoGetBalance u) w = snd (GetBalance sv u w)"
| "run_request sv (DoStartTopUp u a k) w = snd (StartTopUp sv u a k w)"
| "run_request sv (DoConfirmTopUp u i r) w = snd (ConfirmTopUp sv u i r w)"
| "run_request sv (DoSend u r) w = snd (Send sv u r w)"
| "run_request sv (DoMerchantDebit u a s r k) w = snd (MerchantDebit sv u a s r k w)"
| "run_request sv (DoRefund i a r) w = snd (Refund sv i a r w)"
| "run_request sv (DoStartAadhaar rnd u b r) w = snd (StartAadhaar rnd u b r w)"
| "run_request sv (DoCompleteAadhaar u c s v) w = snd (CompleteAadhaar u c s v w)"
| "run_request sv (DoSubmitPAN u p) w = snd (SubmitPAN u p w)"
| "run_request sv DoExpirer w = snd (expirer_main sv w)"
| "run_request sv (DoRefresh i) w = snd (run_goroutine sv i w)"
| "run_request sv (DoFreeze u r) w = snd (Freeze u r w)"
| "run_request sv (DoUnfreeze u) w = snd (Unfreeze u w)"

definition wallet_init :: "'b \<Rightarrow> (nat \<Rightarrow> uuid) \<Rightarrow> int \<Rightarrow> 'b wallet" where
  "wallet_init b ids now0 = \<lparr>net = [], clock = now0, idgen = ids, idctr = 0, balances = Map.empty,
     transactions = [], idempotency = Map.empty, kyc_records = Map.empty, recipients = [],
     events = [], goroutines = [], bank = b\<rparr>"

inductive wallet_step :: "'b Service \<Rightarrow> 'b wallet \<Rightarrow> 'b wallet \<Rightarrow> bool" for sv where
  request: "wallet_step sv w (run_request sv r w)"
| network: "wallet_step sv w (w\<lparr>net := ns\<rparr>)"
| tick: "0 \<le> dt \<Longrightarrow> wallet_step sv w (w\<lparr>clock := clock w + dt\<rparr>)"
| bank_moves: "wallet_step sv w (w\<lparr>bank := b\<rparr>)"

inductive wallet_reach :: "'b Service \<Rightarrow> 'b wallet \<Rightarrow> bool" for sv where
  start: "wallet_reach sv (wallet_init b ids now0)"
| step: "wallet_reach sv w \<Longrightarrow> wallet_step sv w w' \<Longrightarrow> wallet_reach sv w'"

inductive_cases wallet_stepE: "wallet_step sv w w'"

lemma keeps_expirer_main: "keeps ledger_inv (expirer_main sv)"
  unfolding expirer_main_def
  by (intro keeps_andThen keeps_ExpireStaleTopUps keeps_logged keeps_PurgeExpiredIdempotency
      framed_ledger)

lemmas service_keeps =
  keeps_GetBalance [OF ledger_like_ledger] keeps_StartTopUp keeps_ConfirmTopUp keeps_Send
  keeps_MerchantDebit keeps_Refund keeps_kyc_service keeps_expirer_main
  keeps_run_goroutine [OF ledger_like_ledger] keeps_balance_ops(5,6) [OF ledger_like_ledger]

lemma run_request_ledger: "ledger_inv w \<Longrightarrow> ledger_inv (run_request sv r w)"
  by (cases r) (simp_all only: run_request.simps, (erule keepsD [rotated], rule service_keeps)+)

lemma wallet_step_ledger: "wallet_step sv w w' \<Longrightarrow> ledger_inv w \<Longrightarrow> ledger_inv w'"
  by (erule wallet_stepE) (auto intro: run_request_ledger ledger_like_frame [OF ledger_like_ledger])

lemma wallet_reach_ledger: "wallet_reach sv w \<Longrightarrow> ledger_inv w"
proof (induction rule: wallet_reach.induct)
  case (start b ids now0)
  then show ?case
    by (simp add: wallet_init_def ledger_def rows_ok_def pending_out_def open_out_def)
qed (rule wallet_step_ledger)

section \<open>A small service to run\<close>

text \<open>A service over the mock bank, and a state with two funded wallets, user 7 with 5000 paise
  (both in the mirror and at the bank) and user 8 with 100.\<close>

definition demo_sv :: "MockClient Service" where
  "demo_sv = \<lparr>svBank = mock_client, svCfg = service_New \<lparr>PartnerBankVPA = [], AppDisplayName = [],
     PoolBankRef = ''pool'', TopUpExpirySeconds = 0\<rparr>\<rparr>"

definition demo_balance :: "uuid \<Rightarrow> string \<Rightarrow> int \<Rightarrow> Balance" where
  "demo_balance u ref a = \<lparr>balUserID = u, balBankAccountRef = ref, balAvailablePaise = a,
     balPendingInPaise = 0, balPendingOutPaise = 0, balKYCTier = ''minimal'',
     balMonthlyLimitPaise = 1000000, balIsFrozen = False, balFrozenReason = None,
     balLastSyncedAt = 1000, balCreatedAt = 1000, balUpdatedAt = 1000\<rparr>"

definition demo_empty :: "MockClient wallet" where
  "demo_empty = wallet_init NewMockClient (\<lambda>n. 100 + of_nat n) 1000"

definition demo_funded :: "MockClient wallet" where
  "demo_funded = (wallet_init (SeedBalance ''acc-7'' 5000 (SeedBalance ''acc-8'' 100 NewMockClient))
     (\<lambda>n. 100 + of_nat n) 1000)\<lparr>balances := [7 \<mapsto> demo_balance 7 ''acc-7'' 5000, 8 \<mapsto> demo_balance 8 ''acc-8'' 100]\<rparr>"

lemmas demo_eval [go_eval] =
  demo_sv_def demo_balance_def demo_empty_def demo_funded_def wallet_init_def

definition demo_invite :: SendRequest where
  "demo_invite = \<lparr>reqRecipientUserID = None, reqRecipientPhone = ''9876543210'', reqAmountPaise = 300,
     reqLabel = [], reqIdempotencyKey = ''k2''\<rparr>"

definition demo_run :: "MockClient wallet" where
  "demo_run = foldl (\<lambda>w r. run_request demo_sv r w) demo_empty
     [DoStartTopUp 7 1000 ''k1'', DoConfirmTopUp 7 100 ''upi1'', DoSend 7 demo_invite]"

lemma demo_run_reach: "wallet_reach demo_sv demo_run"
  unfolding demo_run_def foldl.simps
  by (intro wallet_reach.step [OF _ wallet_step.request]) (simp add: demo_empty_def wallet_reach.start)

lemma demo_phone: "normalisePhone ''9876543210'' = ''9876543210''" "indianPhoneRE ''9876543210''"
  by (simp_all add: normalisePhone_def indianPhoneRE_def mobile10_def
      has_prefix_def trim_prefix_def remove_char_def is_digit_def code_def)

lemma demo_run_pending: "pending_out demo_run 7 = 300"
  by (simp add: demo_run_def demo_invite_def go_eval demo_phone pending_out_def)

text \<open>C1: in every state wallet-service can reach, whatever requests were served, whichever
  statements, commits and event publications failed or lost their reply and whatever the bank
  did, each user's \<^verbatim>\<open>pending_out_paise\<close> is exactly the sum of the amounts of that user's debits
  that are still pending or waiting for an invite.\<close>

theorem pending_out_is_open_debits:
  "wallet_reach sv w \<Longrightarrow> pending_out w u = open_out (transactions w) u"
  using wallet_reach_ledger [of sv w] by (simp add: ledger_def)

theorem pending_out_is_open_debits_witness:
  "wallet_reach demo_sv demo_run \<and> pending_out demo_run 7 = open_out (transactions demo_run) 7
     \<and> pending_out demo_run 7 = 300"
  using pending_out_is_open_debits [OF demo_run_reach, of 7] demo_run_reach demo_run_pending by simp

end
