(* ===== verification/Wallet_Saga.thy ===== *)
theory Wallet_Saga
  imports Wallet_System
begin

text \<open>
  Where the money is during a saga. \<open>money_at\<close> pins down the spendable balances of the mirror
  and the sub-accounts at the bank; each statement and each bank call moves it by a known amount,
  so that the sagas of \<^verbatim>\<open>send.go\<close> can end in a handful of places only, whatever the network
  does. The lemmas about operations that call the bank are proved once for every bank that meets
  the contract \<open>partner_bank\<close>, and used on \<^verbatim>\<open>MockClient\<close>.
\<close>

section \<open>The spendable balances and the bank\<close>

definition avail :: "'b wallet \<Rightarrow> uuid \<Rightarrow> int" where
  "avail w u = (case balances w u of None \<Rightarrow> 0 | Some b \<Rightarrow> balAvailablePaise b)"

text \<open>The sub-account a balance row points to.\<close>

definition account :: "'b wallet \<Rightarrow> uuid \<rightharpoonup> string" where
  "account w u = map_option balBankAccountRef (balances w u)"

text \<open>\<open>H\<close>: sub-accounts known so far; rows never change theirs.\<close>

definition money_at ::
  "('b \<Rightarrow> bool) \<Rightarrow> ('b \<Rightarrow> 'm) \<Rightarrow> (uuid \<rightharpoonup> string) \<Rightarrow> (uuid \<Rightarrow> int) \<Rightarrow> 'm \<Rightarrow> 'b wallet \<Rightarrow> bool" where
  "money_at binv bal H A \<beta> w \<longleftrightarrow> H \<subseteq>\<^sub>m account w \<and> avail w = A \<and> binv (bank w) \<and> bal (bank w) = \<beta>"

lemma money_forget: "money_at binv bal H A \<beta> w \<Longrightarrow> H' \<subseteq>\<^sub>m H \<Longrightarrow> money_at binv bal H' A \<beta> w"
  by (auto simp: money_at_def intro: map_le_trans)

lemma account_frame: "balances w' = balances w \<Longrightarrow> account w' = account w"
  by (simp add: account_def fun_eq_iff)

lemma account_bank [simp]: "account (w\<lparr>bank := b\<rparr>) = account w"
  by (simp add: account_def fun_eq_iff)

lemma account_update:
  "balances w u = Some b \<Longrightarrow> balBankAccountRef b' = balBankAccountRef b \<Longrightarrow>
     account ((w\<lparr>net := ns\<rparr>)\<lparr>balances := (balances w)(u \<mapsto> b'\<lparr>balUpdatedAt := c\<rparr>)\<rparr>) = account w"
  by (simp add: account_def fun_eq_iff)

lemma avail_frame: "balances w' = balances w \<Longrightarrow> avail w' = avail w"
  by (simp add: avail_def fun_eq_iff)

lemma avail_bank [simp]: "avail (w\<lparr>bank := b\<rparr>) = avail w"
  by (simp add: avail_def fun_eq_iff)

lemma framed_money [simp]: "framed (money_at binv bal H A \<beta>)"
  by (auto simp: framed_def env_free_def money_at_def avail_def account_def map_le_def dom_def)

lemma env_free_money [simp]: "env_free (money_at binv bal H A \<beta>)"
  by (rule framed_env_free) simp

text \<open>One \<open>UPDATE\<close> that adds \<open>\<delta>\<close> to \<^verbatim>\<open>available_paise\<close>.\<close>

lemma triple_update_avail:
  assumes "\<And>b b'. p b \<Longrightarrow> f b = Some b' \<Longrightarrow>
      balAvailablePaise b' = balAvailablePaise b + \<delta> \<and> balBankAccountRef b' = balBankAccountRef b"
  shows "triple (money_at binv bal H A \<beta>) (update_balance u p f)
     (\<lambda>n w. (n = 0 \<longrightarrow> money_at binv bal H A \<beta> w) \<and> (n \<noteq> 0 \<longrightarrow> money_at binv bal H (A(u := A u + \<delta>)) \<beta> w))
     (\<lambda>_ w. money_at binv bal H A \<beta> w \<or> money_at binv bal H (A(u := A u + \<delta>)) \<beta> w)"
proof -
  have "money_at binv bal H (A(u := A u + \<delta>)) \<beta>
      ((w\<lparr>net := ns\<rparr>)\<lparr>balances := (balances w)(u \<mapsto> b'\<lparr>balUpdatedAt := c\<rparr>)\<rparr>)"
    if "money_at binv bal H A \<beta> w" "balances w u = Some b" "p b" "f b = Some b'" for w ns b b' c
  proof -
    have "A = avail w" using that(1) by (simp add: money_at_def)
    then show ?thesis
      using assms [OF that(3,4)] that(1,2) by (simp add: money_at_def account_update avail_def fun_eq_iff)
  qed
  moreover have "money_at binv bal H A \<beta> (w\<lparr>net := ns\<rparr>)" if "money_at binv bal H A \<beta> w" for w ns
    using that by (simp add: env_free_net [OF env_free_money])
  ultimately show ?thesis
    by (intro tripleI; elim update_balance_cases; fastforce)
qed

lemma keeps_update_avail:
  assumes "\<And>b b'. f b = Some b' \<Longrightarrow>
      balAvailablePaise b' = balAvailablePaise b \<and> balBankAccountRef b' = balBankAccountRef b"
  shows "keeps (money_at binv bal H A \<beta>) (update_balance u p f)"
  unfolding keeps_triple [symmetric]
  by (rule triple_conseq [OF triple_update_avail [where \<delta> = 0]]) (use assms in auto)

lemma keeps_money_frame:
  assumes "\<And>w r w'. m w = (r, w') \<Longrightarrow> balances w' = balances w \<and> bank w' = bank w"
  shows "keeps (money_at binv bal H A \<beta>) m"
proof (rule keepsI)
  fix w r w' assume w: "money_at binv bal H A \<beta> w" and run: "m w = (r, w')"
  have e: "balances w' = balances w" "bank w' = bank w" using assms [OF run] by simp_all
  from w show "money_at binv bal H A \<beta> w'"
    by (simp only: money_at_def avail_frame [OF e(1)] account_frame [OF e(1)] e(2))
qed

lemma keeps_money_statements:
  shows "keeps (money_at binv bal H A \<beta>) (SettleDebitTx u a)"
    and "keeps (money_at binv bal H A \<beta>) (InsertTransaction i)"
    and "keeps (money_at binv bal H A \<beta>) (MarkSettled id0 st br fr)"
    and "keeps (money_at binv bal H A \<beta>) (EnsureBalance u ref)"
proof -
  show "keeps (money_at binv bal H A \<beta>) (SettleDebitTx u a)"
    unfolding SettleDebitTx_def
    by (intro keeps_intros keeps_update_avail) (auto split: bind_splits)
  show "keeps (money_at binv bal H A \<beta>) (InsertTransaction i)"
    unfolding InsertTransaction_def
    by (intro keeps_require keeps_wrapErr keeps_db_call env_free_money keeps_money_frame)
      (auto simp: go_simps gen_random_uuid_def sql_insert_transaction_def Let_def split: if_splits)
  have "keeps (money_at binv bal H A \<beta>) (db_call (\<lambda>w. let hit = (\<lambda>t. txID t = id0 \<and> txStatus t = ''pending'');
            rows = update_rows hit (\<lambda>t. t\<lparr>txStatus := st,
              txBankTxnRef := (case br of None \<Rightarrow> txBankTxnRef t | Some r \<Rightarrow> Some r),
              txFailureReason := fr, txSettledAt := Some (clock w)\<rparr>) (transactions w)
        in (Inr (length (filter hit (transactions w))), w\<lparr>transactions := rows\<rparr>)))"
    by (intro keeps_db_call env_free_money keeps_money_frame) (auto simp: Let_def)
  then show "keeps (money_at binv bal H A \<beta>) (MarkSettled id0 st br fr)"
    unfolding MarkSettled_def by (intro keeps_intros env_free_money)
  show "keeps (money_at binv bal H A \<beta>) (EnsureBalance u ref)"
    unfolding EnsureBalance_def
    by (intro keeps_db_call env_free_money)
      (auto simp: keeps_def money_at_def avail_def account_def map_le_def dom_def Let_def fun_eq_iff split: option.splits)
qed

lemma triple_credit_money:
  assumes "\<And>b b'. f b = Some b' \<Longrightarrow>
      balAvailablePaise b' = balAvailablePaise b + \<delta> \<and> balBankAccountRef b' = balBankAccountRef b"
  shows "triple (money_at binv bal H A \<beta>) (andThen (wrapErr l (update_balance u p f)) balance_affected)
     (\<lambda>_. money_at binv bal H (A(u := A u + \<delta>)) \<beta>) (\<lambda>_ _. True)"
  by (rule triple_affected [where A = "money_at binv bal H A \<beta>"], rule triple_conseq [OF triple_update_avail])
    (use assms in auto)

lemma triple_money_statements:
  shows "triple (money_at binv bal H A \<beta>) (DebitAvailableTx u a) (\<lambda>_. money_at binv bal H (A(u := A u - a)) \<beta>) (\<lambda>_ _. True)"
    and "triple (money_at binv bal H A \<beta>) (ReverseDebitTx u a) (\<lambda>_. money_at binv bal H (A(u := A u + a)) \<beta>) (\<lambda>_ _. True)"
    and "triple (money_at binv bal H A \<beta>) (CreditAvailableTx u a) (\<lambda>_. money_at binv bal H (A(u := A u + a)) \<beta>) (\<lambda>_ _. True)"
proof -
  have "triple (money_at binv bal H A \<beta>) (wrapErr ''debit available'' (update_balance u
         (\<lambda>b. balAvailablePaise b \<ge> a \<and> \<not> balIsFrozen b)
         (\<lambda>b. do { x \<leftarrow> bigsub (balAvailablePaise b) a; p \<leftarrow> bigadd (balPendingOutPaise b) a;
            Some (b\<lparr>balAvailablePaise := x, balPendingOutPaise := p\<rparr>) })))
        (\<lambda>n w. (n = 0 \<longrightarrow> money_at binv bal H A \<beta> w) \<and> (n \<noteq> 0 \<longrightarrow> money_at binv bal H (A(u := A u + - a)) \<beta> w))
        (\<lambda>_ _. True)"
    by (rule triple_wrapErr, rule triple_conseq [OF triple_update_avail])
      (auto split: bind_splits simp: bigsub_Some)
  then show "triple (money_at binv bal H A \<beta>) (DebitAvailableTx u a) (\<lambda>_. money_at binv bal H (A(u := A u - a)) \<beta>) (\<lambda>_ _. True)"
    unfolding DebitAvailableTx_def
    by (intro triple_require, elim triple_andThen)
      (auto simp: triple_def go_simps split: prod.splits sum.splits option.splits)
  show "triple (money_at binv bal H A \<beta>) (ReverseDebitTx u a) (\<lambda>_. money_at binv bal H (A(u := A u + a)) \<beta>) (\<lambda>_ _. True)"
    unfolding ReverseDebitTx_def
    by (rule triple_credit_money) (auto split: bind_splits simp: bigadd_Some)
  show "triple (money_at binv bal H A \<beta>) (CreditAvailableTx u a) (\<lambda>_. money_at binv bal H (A(u := A u + a)) \<beta>) (\<lambda>_ _. True)"
    unfolding CreditAvailableTx_def
    by (intro triple_require, rule triple_credit_money) (auto split: bind_splits simp: bigadd_Some)
qed

section \<open>The transactions of the sagas\<close>

text \<open>A debit and the row that records it, in one transaction.\<close>

lemma triple_debit_tx:
  assumes "triple P D (\<lambda>_. Q) (\<lambda>_ _. True)" "env_free P" "env_free Q" "keeps Q N"
  shows "triple P (in_tx lb (andThen (wrapErr l1 D) (\<lambda>_. wrapErr l2 N)) lc)
     (\<lambda>_. Q) (\<lambda>_ w. P w \<or> Q w)"
proof (rule triple_in_tx)
  have "triple Q N (\<lambda>_. Q) (\<lambda>_ _. True)"
    by (rule keeps_triple_True [OF assms(4)])
  then show "triple P (andThen (wrapErr l1 D) (\<lambda>_. wrapErr l2 N)) (\<lambda>_. Q) (\<lambda>_ _. True)"
    by (intro triple_andThen [where R = "\<lambda>_. Q"] triple_wrapErr assms(1))
qed (use assms in auto)

lemma money_merchant_debit_tx:
  "triple (money_at binv bal H A \<beta>) (merchant_debit_tx u a ms mr key)
     (\<lambda>_. money_at binv bal H (A(u := A u - a)) \<beta>)
     (\<lambda>_ w. money_at binv bal H A \<beta> w \<or> money_at binv bal H (A(u := A u - a)) \<beta> w)"
  unfolding merchant_debit_tx_def
  by (intro triple_debit_tx triple_money_statements keeps_money_statements env_free_money)

lemma money_send_debit:
  "triple (money_at binv bal H A \<beta>) (send_debit u req)
     (\<lambda>_. money_at binv bal H (A(u := A u - reqAmountPaise req)) \<beta>)
     (\<lambda>_ w. money_at binv bal H A \<beta> w \<or> money_at binv bal H (A(u := A u - reqAmountPaise req)) \<beta> w)"
  unfolding send_debit_def
  by (intro triple_debit_tx triple_money_statements keeps_money_statements env_free_money)

lemma money_compensate:
  "triple (money_at binv bal H A \<beta>) (compensateSendFailure u id0 a reason)
     (\<lambda>_ w. money_at binv bal H A \<beta> w \<or> money_at binv bal H (A(u := A u + a)) \<beta> w) E"
proof -
  let ?A = "A(u := A u + a)"
  have "triple (money_at binv bal H ?A \<beta>) (MarkSettled id0 st br fr) (\<lambda>_. money_at binv bal H ?A \<beta>) (\<lambda>_ _. True)" for st br fr
    by (intro keeps_triple_True keeps_money_statements)
  then have tx: "triple (money_at binv bal H A \<beta>)
     (in_tx lb (andThen (ReverseDebitTx u a) (\<lambda>_. MarkSettled id0 st br fr)) lc)
     (\<lambda>_. money_at binv bal H ?A \<beta>) (\<lambda>_ w. money_at binv bal H A \<beta> w \<or> money_at binv bal H ?A \<beta> w)" for lb lc st br fr
    by (intro triple_in_tx triple_andThen [OF triple_money_statements(2)]) auto
  show ?thesis
    unfolding compensateSendFailure_def
    by (intro triple_logged, rule triple_conseq [OF tx]) auto
qed

lemma money_merchant_settle_tx:
  "keeps (money_at binv bal H A \<beta>) (merchant_settle_tx u id0 a)"
  unfolding merchant_settle_tx_def
  by (intro keeps_in_tx env_free_money keeps_triple_True keeps_andThen keeps_wrapErr
      keeps_money_statements)

lemma money_send_settle:
  fixes A :: "uuid \<Rightarrow> int" and binv :: "'b \<Rightarrow> bool"
  defines "A' rcpt req \<equiv> A(rcpt := A rcpt + reqAmountPaise req)"
  shows "triple (money_at binv bal H A \<beta>) (send_settle u rcpt id0 req)
     (\<lambda>_. money_at binv bal H (A' rcpt req) \<beta>)
     (\<lambda>_ w. money_at binv bal H A \<beta> w \<or> money_at binv bal H (A' rcpt req) \<beta> w)"
proof -
  let ?Q = "money_at binv bal H (A' rcpt req) \<beta>"
  have ins: "triple ?Q (wrapErr l (InsertTransaction i)) (\<lambda>_. ?Q) (\<lambda>_ _. True)" for l i
    by (intro keeps_triple_True keeps_wrapErr keeps_money_statements)
  have st: "triple (money_at binv bal H A \<beta>) (wrapErr l m) (\<lambda>_. money_at binv bal H A \<beta>) (\<lambda>_ _. True)"
    if "keeps (money_at binv bal H A \<beta>) m" for l and m :: "('b wallet, unit) io"
    by (intro keeps_triple_True keeps_wrapErr that)
  show ?thesis
    unfolding send_settle_def Let_def
    by (intro triple_in_tx triple_andThen [OF st] triple_andThen [OF triple_wrapErr [OF triple_money_statements(3)]]
        keeps_money_statements)
      (use ins in \<open>auto simp: A'_def\<close>)
qed

section \<open>Sagas against any bank that keeps the contract\<close>

text \<open>\<open>spent\<close>: the mirror has given up \<open>a\<close> of \<open>u\<close>'s money and the bank has executed one transfer of
  it from \<open>u\<close>'s sub-account to \<open>t\<close>; \<open>sent\<close>: to that of \<open>v\<close>; \<open>delivered\<close>: and the mirror has credited
  \<open>v\<close>; \<open>reserved\<close>: the mirror has given it up and the bank has not moved.\<close>

definition reserved ::
  "('b \<Rightarrow> bool) \<Rightarrow> ('b \<Rightarrow> books) \<Rightarrow> (uuid \<Rightarrow> int) \<Rightarrow> books \<Rightarrow> uuid \<Rightarrow> int \<Rightarrow> 'b wallet \<Rightarrow> bool" where
  "reserved bi bl A \<beta> u a = money_at bi bl Map.empty (A(u := A u - a)) \<beta>"

definition spent ::
  "('b \<Rightarrow> bool) \<Rightarrow> ('b \<Rightarrow> books) \<Rightarrow> (uuid \<Rightarrow> int) \<Rightarrow> books \<Rightarrow> uuid \<Rightarrow> string \<Rightarrow> int \<Rightarrow> 'b wallet \<Rightarrow> bool" where
  "spent bi bl A \<beta> u t a w \<longleftrightarrow> (\<exists>f. money_at bi bl [u \<mapsto> f] (A(u := A u - a)) (transferred \<beta> f t a) w)"

definition sent ::
  "('b \<Rightarrow> bool) \<Rightarrow> ('b \<Rightarrow> books) \<Rightarrow> (uuid \<Rightarrow> int) \<Rightarrow> books \<Rightarrow> uuid \<Rightarrow> uuid \<Rightarrow> int \<Rightarrow> 'b wallet \<Rightarrow> bool" where
  "sent bi bl A \<beta> u v a w \<longleftrightarrow>
     (\<exists>f t. money_at bi bl [u \<mapsto> f, v \<mapsto> t] (A(u := A u - a)) (transferred \<beta> f t a) w)"

definition delivered ::
  "('b \<Rightarrow> bool) \<Rightarrow> ('b \<Rightarrow> books) \<Rightarrow> (uuid \<Rightarrow> int) \<Rightarrow> books \<Rightarrow> uuid \<Rightarrow> uuid \<Rightarrow> int \<Rightarrow> 'b wallet \<Rightarrow> bool" where
  "delivered bi bl A \<beta> u v a w \<longleftrightarrow>
     (\<exists>f t. money_at bi bl [u \<mapsto> f, v \<mapsto> t] (A(u := A u - a, v := A v + a)) (transferred \<beta> f t a) w)"

lemma triple_run_idempotent:
  assumes "framed P" "triple P run Q (\<lambda>_. E)" "\<And>w. P w \<Longrightarrow> E w"
  shows "triple (\<lambda>w. P w \<and> idempotency w key = None) (idempotent key u op0 hit run) Q (\<lambda>_. E)"
proof -
  have "\<exists>e w1. FindIdempotency key u op0 w = (Inl e, w1) \<and> P w1"
    if "P w" "idempotency w key = None" for w
  proof (cases "FindIdempotency key u op0 w")
    case (Pair r w1)
    have "\<exists>e. r = Inl e"
      using Pair that(2)
      by (auto simp: FindIdempotency_def go_simps db_call_def split: list.splits outcome.splits)
    moreover have "P w1" using keepsD2 [OF keeps_FindIdempotency [OF assms(1)] that(1) Pair] .
    ultimately show ?thesis using Pair by auto
  qed
  then show ?thesis
    unfolding idempotent_def attempt_def
    by (intro tripleI; fastforce simp: fail_def split: if_splits dest: tripleD_ok [OF assms(2)] tripleD_err [OF assms(2)]
        intro: assms(3))
qed

text \<open>A replay reads only.\<close>

lemma triple_replay_or_run:
  assumes "framed P" "triple P run Q (\<lambda>_. E)" "\<And>w. P w \<Longrightarrow> E w" "\<And>ex m. hit ex = Some m \<Longrightarrow> keeps P m"
  shows "triple P (idempotent key u op0 hit run) (\<lambda>x w. P w \<or> Q x w) (\<lambda>_. E)"
proof -
  have "triple P (case r of
         Inr existing \<Rightarrow> (case hit existing of Some m \<Rightarrow> m | None \<Rightarrow> run)
       | Inl e \<Rightarrow> if \<not> errors_is e ErrIdempotencyKeyNotFound then fail e else run)
      (\<lambda>x w. P w \<or> Q x w) (\<lambda>_. E)" for r
  proof -
    have "triple P run (\<lambda>x w. P w \<or> Q x w) (\<lambda>_. E)"
      by (rule triple_conseq [OF assms(2)]) auto
    moreover have "triple P (fail e) (\<lambda>x w. P w \<or> Q x w) (\<lambda>_. E)" for e
      using assms(3) by (simp add: triple_def fail_def)
    moreover have "triple P m (\<lambda>x w. P w \<or> Q x w) (\<lambda>_. E)" if "keeps P m" for m
      by (rule triple_conseq [OF that [folded keeps_triple]]) (auto intro: assms(3))
    ultimately show ?thesis
      using assms(4) by (auto split: sum.splits option.splits)
  qed
  moreover have "triple P (FindIdempotency key u op0) (\<lambda>_. P) (\<lambda>_. P)"
    by (simp add: keeps_triple keeps_FindIdempotency [OF assms(1)])
  ultimately show ?thesis
    unfolding idempotent_def by (intro triple_attempt)
qed

text \<open>Reading a balance, which opens it when there is none, tells the sub-account.\<close>

lemma triple_known:
  assumes "\<And>w. money_at binv bal H A \<beta> w \<Longrightarrow> case m w of
      (Inl e, w') \<Rightarrow> money_at binv bal H A \<beta> w'
    | (Inr b, w') \<Rightarrow> money_at binv bal H A \<beta> w' \<and> account w' u = Some (balBankAccountRef b)"
  shows "triple (money_at binv bal H A \<beta>) m (\<lambda>b. money_at binv bal (H(u \<mapsto> balBankAccountRef b)) A \<beta>)
     (\<lambda>_. money_at binv bal H A \<beta>)"
  using assms by (fastforce simp: triple_def money_at_def map_le_def split: prod.splits sum.splits)

context partner_bank
begin

abbreviation "M \<equiv> money_at binv bal"

lemma keeps_M_on_bank:
  "(\<And>b r b'. binv b \<Longrightarrow> m b = (r, b') \<Longrightarrow> bal b' = bal b \<and> binv b') \<Longrightarrow> keeps (M H A \<beta>) (on_bank m)"
  by (rule keepsI) (fastforce simp: on_bank_def money_at_def split: prod.splits)

lemma keeps_M_bank:
  shows "keeps (M H A \<beta>) (on_bank (OpenSubAccount bk u))"
    and "keeps (M H A \<beta>) (on_bank (BankGetBalance bk ref))"
    and "keeps (M H A \<beta>) (on_bank (VerifyUPIInbound bk up a))"
    and "keeps (M H A \<beta>) (on_bank (BankRefund bk ref a))"
  by (rule keeps_M_on_bank, erule (1) open_keeps balance_keeps verify_keeps refund_keeps)+

lemma money_Transfer:
  assumes "int64 (fst \<beta> t + a)"
  shows "triple (M H A \<beta>) (on_bank (Transfer bk f t a r)) (\<lambda>_. M H A (transferred \<beta> f t a)) (\<lambda>_. M H A \<beta>)"
proof (rule tripleI)
  fix w x w' assume w: "M H A \<beta> w" and "on_bank (Transfer bk f t a r) w = (Inr x, w')"
  then obtain b where b: "Transfer bk f t a r (bank w) = (Inr x, b)" "w' = w\<lparr>bank := b\<rparr>"
    by (auto simp: on_bank_def split: prod.splits)
  with w assms transfer_ok [OF _ b(1)] show "M H A (transferred \<beta> f t a) w'"
    by (auto simp: money_at_def)
next
  fix w x w' assume w: "M H A \<beta> w" and "on_bank (Transfer bk f t a r) w = (Inl x, w')"
  then obtain b where b: "Transfer bk f t a r (bank w) = (Inl x, b)" "w' = w\<lparr>bank := b\<rparr>"
    by (auto simp: on_bank_def split: prod.splits)
  with w transfer_err [OF _ b(1)] show "M H A \<beta> w'"
    by (auto simp: money_at_def)
qed

lemma known_store_GetBalance:
  "triple (M H A \<beta>) (store_GetBalance u) (\<lambda>b. M (H(u \<mapsto> balBankAccountRef b)) A \<beta>) (\<lambda>_. M H A \<beta>)"
proof (rule triple_known)
  fix w :: "'b wallet" assume "M H A \<beta> w"
  then have "M H A \<beta> (w\<lparr>net := ns\<rparr>)" for ns by (simp add: env_free_net [OF env_free_money])
  with \<open>M H A \<beta> w\<close> show "case store_GetBalance u w of
      (Inl e, w') \<Rightarrow> M H A \<beta> w' | (Inr b, w') \<Rightarrow> M H A \<beta> w' \<and> account w' u = Some (balBankAccountRef b)"
    by (auto simp: store_GetBalance_def andThen_def db_call_def get_def fail_def ok_def account_def
        split: list.splits outcome.splits option.splits)
qed

lemma known_EnsureBalance:
  "triple (M H A \<beta>) (EnsureBalance u ref) (\<lambda>b. M (H(u \<mapsto> balBankAccountRef b)) A \<beta>) (\<lambda>_. M H A \<beta>)"
proof (rule triple_known)
  fix w :: "'b wallet" assume w: "M H A \<beta> w"
  obtain r w' where run: "EnsureBalance u ref w = (r, w')" by force
  have "M H A \<beta> w'" using keepsD2 [OF keeps_money_statements(4) w run] .
  moreover have "account w' u = Some (balBankAccountRef b)" if "r = Inr b" for b
    using run that
    by (auto simp: EnsureBalance_def db_call_def Let_def account_def split: list.splits outcome.splits option.splits)
  ultimately show "case EnsureBalance u ref w of
      (Inl e, w') \<Rightarrow> M H A \<beta> w' | (Inr b, w') \<Rightarrow> M H A \<beta> w' \<and> account w' u = Some (balBankAccountRef b)"
    by (simp add: run split: sum.split)
qed

lemma known_GetBalance:
  assumes "svBank sv = bk"
  shows "triple (M H A \<beta>) (GetBalance sv u) (\<lambda>b. M (H(u \<mapsto> balBankAccountRef b)) A \<beta>) (\<lambda>_. M H A \<beta>)"
  unfolding GetBalance_def assms
proof (rule triple_andThen)
  show "triple (M H A \<beta>) (attempt (store_GetBalance u) (\<lambda>r. case r of Inr b \<Rightarrow> ok b
       | Inl e \<Rightarrow> if \<not> errors_is e ErrBalanceNotFound then fail (Wrap ''get balance'' e)
           else andThen (wrapErr ''open sub-account'' (on_bank (OpenSubAccount bk u)))
                  (\<lambda>ref. wrapErr ''ensure balance'' (EnsureBalance u ref))))
     (\<lambda>b. M (H(u \<mapsto> balBankAccountRef b)) A \<beta>) (\<lambda>_. M H A \<beta>)"
  proof (rule triple_attempt_split [OF known_store_GetBalance])
    fix e
    have "triple (M H A \<beta>) (fail x) Q (\<lambda>_. M H A \<beta>)" for x and Q :: "Balance \<Rightarrow> 'b wallet \<Rightarrow> bool"
      by (simp add: triple_fail)
    moreover have "triple (M H A \<beta>) (andThen (wrapErr l (on_bank (OpenSubAccount bk u)))
         (\<lambda>ref. wrapErr l' (EnsureBalance u ref))) (\<lambda>b. M (H(u \<mapsto> balBankAccountRef b)) A \<beta>) (\<lambda>_. M H A \<beta>)" for l l'
      by (intro triple_step keeps_wrapErr keeps_M_bank triple_wrapErr known_EnsureBalance)
    ultimately show "triple (M H A \<beta>) (case Inl e of Inr b \<Rightarrow> ok b
       | Inl e \<Rightarrow> if \<not> errors_is e ErrBalanceNotFound then fail (Wrap ''get balance'' e)
           else andThen (wrapErr ''open sub-account'' (on_bank (OpenSubAccount bk u)))
                  (\<lambda>ref. wrapErr ''ensure balance'' (EnsureBalance u ref)))
       (\<lambda>b. M (H(u \<mapsto> balBankAccountRef b)) A \<beta>) (\<lambda>_. M H A \<beta>)"
      by simp
  qed (simp add: triple_ok)
  fix b
  let ?I = "M (H(u \<mapsto> balBankAccountRef b)) A \<beta>"
  have "keeps ?I (modify (\<lambda>w. if clock w - balLastSyncedAt b > balanceLazyRefreshAge
       then w\<lparr>goroutines := goroutines w @ [(balUserID b, balBankAccountRef b)]\<rparr> else w))"
    by (rule keeps_money_frame) (auto simp: modify_def)
  then show "triple ?I (andThen (modify (\<lambda>w. if clock w - balLastSyncedAt b > balanceLazyRefreshAge
       then w\<lparr>goroutines := goroutines w @ [(balUserID b, balBankAccountRef b)]\<rparr> else w)) (\<lambda>_. ok b))
     (\<lambda>b. M (H(u \<mapsto> balBankAccountRef b)) A \<beta>) (\<lambda>_. M H A \<beta>)"
    by (auto simp: triple_def andThen_def modify_def ok_def keeps_def split: prod.splits)
qed

lemma keeps_M_GetBalance:
  assumes "svBank sv = bk"
  shows "keeps (M H A \<beta>) (GetBalance sv u)"
  unfolding GetBalance_def assms
  by (intro keeps_intros keeps_M_bank keeps_money_statements keeps_money_frame framed_money)
    (auto simp: modify_def)

lemma keeps_M_limit:
  "svBank sv = bk \<Longrightarrow> keeps (M H A \<beta>) (AssertWithinMonthlyLimit sv u a)"
  unfolding AssertWithinMonthlyLimit_def by (intro keeps_intros keeps_M_GetBalance)

text \<open>What follows a committed debit: the transfer, then either the compensation or the
  settlement and what comes after it, which moves no more money.\<close>

lemma triple_bank_phase:
  assumes "int64 (fst \<beta> t + a)"
    and "\<And>e. triple (M H A1 \<beta>) (ko e) Q (\<lambda>_. E)"
    and "triple (M H A1 (transferred \<beta> f t a)) good Q (\<lambda>_. E)"
  shows "triple (M H A1 \<beta>) (attempt (on_bank (Transfer bk f t a r))
      (\<lambda>x. case x of Inl e \<Rightarrow> ko e | Inr _ \<Rightarrow> good)) Q (\<lambda>_. E)"
  by (rule triple_attempt_split, rule money_Transfer [where \<beta> = \<beta>]) (simp_all add: assms)

text \<open>The compensation either went through or left the money reserved.\<close>

definition undone :: "(uuid \<Rightarrow> int) \<Rightarrow> books \<Rightarrow> uuid \<Rightarrow> int \<Rightarrow> 'b wallet \<Rightarrow> bool" where
  "undone A \<beta> u a w \<longleftrightarrow> M Map.empty A \<beta> w \<or> reserved binv bal A \<beta> u a w"

lemma keeps_undone: "(\<And>A \<beta>. keeps (M Map.empty A \<beta>) m) \<Longrightarrow> keeps (undone A \<beta> u a) m"
  unfolding undone_def reserved_def by (intro keeps_disj)

lemma undoneI: "M H A \<beta> w \<Longrightarrow> undone A \<beta> u a w" "M H (A(u := A u - a)) \<beta> w \<Longrightarrow> undone A \<beta> u a w"
  by (auto simp: undone_def reserved_def intro: money_forget)

lemma triple_compensate_undone:
  assumes "triple (undone A \<beta> u a) k Q (\<lambda>_. E)"
  shows "triple (M H (A(u := A u - a)) \<beta>)
     (andThen (compensateSendFailure u id0 a reason) (\<lambda>_. k)) Q (\<lambda>_. E)"
proof (rule triple_andThen [OF money_compensate])
  show "triple (\<lambda>w. M H (A(u := A u - a)) \<beta> w \<or>
        M H ((A(u := A u - a))(u := (A(u := A u - a)) u + a)) \<beta> w) k Q (\<lambda>_. E)"
    by (rule triple_conseq [OF assms]) (auto intro: undoneI)
qed

lemma undone_fail: "(\<And>w. undone A \<beta> u a w \<Longrightarrow> E w) \<Longrightarrow> triple (undone A \<beta> u a) (fail e) Q (\<lambda>_. E)"
  by (simp add: triple_def fail_def)

text \<open>Where a merchant debit can end.\<close>

lemma money_merchant_run:
  fixes A :: "uuid \<Rightarrow> int" and \<beta> :: books and u :: uuid and a :: int
  assumes sv: "svBank sv = bk" and "int64 (fst \<beta> (PoolBankRef (svCfg sv)) + a)"
  defines "S \<equiv> spent binv bal A \<beta> u (PoolBankRef (svCfg sv)) a"
  shows "triple (M Map.empty A \<beta>) (merchant_run sv u a ms mr key) (\<lambda>_. S) (\<lambda>_ w. undone A \<beta> u a w \<or> S w)"
proof -
  let ?E = "\<lambda>w. undone A \<beta> u a w \<or> S w"
  let ?A = "A(u := A u - a)" and ?H = "\<lambda>b. [u \<mapsto> balBankAccountRef b]"
  have start: "?E w" if "M H A \<beta> w" for w H using that by (simp add: undoneI(1))
  have S: "S w" if "M [u \<mapsto> f] ?A (transferred \<beta> f (PoolBankRef (svCfg sv)) a) w" for w f
    using that by (auto simp: S_def spent_def)
  have good: "triple (M [u \<mapsto> f] ?A (transferred \<beta> f (PoolBankRef (svCfg sv)) a)) (merchant_finish u a ms mr key t)
      (\<lambda>_. S) (\<lambda>_. ?E)" for f t
    unfolding merchant_finish_def Let_def
    by (intro triple_then_done keeps_andThen money_merchant_settle_tx keeps_publish keeps_logged
        keeps_RecordIdempotency keeps_ok framed_money) (auto dest: S)
  have bad: "triple (M H ?A \<beta>) (andThen (compensateSendFailure u i a r) (\<lambda>_. fail e)) (\<lambda>_. S) (\<lambda>_. ?E)" for H i r e
    by (intro triple_compensate_undone undone_fail) auto
  have debit: "triple (M H A \<beta>) (merchant_debit_tx u a ms mr key) (\<lambda>_. M H ?A \<beta>) (\<lambda>_. ?E)" for H
    by (rule triple_conseq [OF money_merchant_debit_tx]) (auto intro: undoneI)
  have balance: "triple (M Map.empty A \<beta>) (GetBalance sv u) (\<lambda>b. M (?H b) A \<beta>) (\<lambda>_. ?E)"
    by (rule triple_conseq [OF known_GetBalance [OF sv]]) (auto intro: undoneI)
  show ?thesis
    unfolding merchant_run_def sv
    by (intro triple_step [where I = "M Map.empty A \<beta>"] keeps_M_limit triple_andThen [OF balance] triple_require sv
        triple_andThen [OF debit] triple_bank_phase assms(2) bad good start)
qed

lemma money_MerchantDebit:
  fixes A :: "uuid \<Rightarrow> int" and \<beta> :: books and u :: uuid and a :: int
  assumes sv: "svBank sv = bk" and "int64 (fst \<beta> (PoolBankRef (svCfg sv)) + a)"
  defines "S \<equiv> spent binv bal A \<beta> u (PoolBankRef (svCfg sv)) a"
  shows "triple (M Map.empty A \<beta>) (MerchantDebit sv u a ms mr key) (\<lambda>_ w. M Map.empty A \<beta> w \<or> S w)
      (\<lambda>_ w. undone A \<beta> u a w \<or> S w)"
    and "triple (\<lambda>w. M Map.empty A \<beta> w \<and> idempotency w key = None) (MerchantDebit sv u a ms mr key) (\<lambda>_. S)
      (\<lambda>_ w. undone A \<beta> u a w \<or> S w)"
  unfolding MerchantDebit_def S_def
  by (intro triple_require triple_replay_or_run triple_run_idempotent money_merchant_run [where \<beta> = \<beta> and a = a, OF assms(1,2)] framed_money
      keeps_replays(3); simp add: undone_def)+

text \<open>Where a send to another user can end.\<close>

lemma money_send_finish:
  fixes A :: "uuid \<Rightarrow> int" and \<beta> :: books
  assumes "v \<noteq> u" "reqAmountPaise req = a"
  shows "triple (M [u \<mapsto> f, v \<mapsto> t] (A(u := A u - a)) (transferred \<beta> f t a)) (send_finish u v phone req x)
      (\<lambda>_. delivered binv bal A \<beta> u v a) (\<lambda>_ w. sent binv bal A \<beta> u v a w \<or> delivered binv bal A \<beta> u v a w)"
proof -
  let ?D = "M [u \<mapsto> f, v \<mapsto> t] (A(u := A u - a, v := A v + a)) (transferred \<beta> f t a)"
  have D: "delivered binv bal A \<beta> u v a w" if "?D w" for w
    using that unfolding delivered_def by blast
  have S: "sent binv bal A \<beta> u v a w" if "M [u \<mapsto> f, v \<mapsto> t] (A(u := A u - a)) (transferred \<beta> f t a) w" for w
    using that unfolding sent_def by blast
  have settle: "triple (M [u \<mapsto> f, v \<mapsto> t] (A(u := A u - a)) (transferred \<beta> f t a)) (send_settle u v i req) (\<lambda>_. ?D)
      (\<lambda>_ w. sent binv bal A \<beta> u v a w \<or> delivered binv bal A \<beta> u v a w)" for i
    by (rule triple_conseq [OF money_send_settle])
      (use assms D S in \<open>auto\<close>)
  show ?thesis
    unfolding send_finish_def Let_def
    by (intro triple_andThen [OF settle] triple_then_done [where I = ?D] keeps_andThen keeps_logged keeps_publish
        keeps_BumpRecipient keeps_RecordIdempotency keeps_ok framed_money) (simp_all add: D)
qed

lemma money_send_to_user:
  fixes A :: "uuid \<Rightarrow> int" and \<beta> :: books
  assumes sv: "svBank sv = bk" and "v \<noteq> u" "reqAmountPaise req = a"
    and "int64 (fst \<beta> (balBankAccountRef rb) + a)"
  shows "triple (M [u \<mapsto> balBankAccountRef sb, v \<mapsto> balBankAccountRef rb] A \<beta>) (send_to_user sv u v sb rb phone req)
      (\<lambda>_. delivered binv bal A \<beta> u v a)
      (\<lambda>_ w. undone A \<beta> u a w \<or> sent binv bal A \<beta> u v a w \<or> delivered binv bal A \<beta> u v a w)"
proof -
  let ?E = "\<lambda>w. undone A \<beta> u a w \<or> sent binv bal A \<beta> u v a w \<or> delivered binv bal A \<beta> u v a w"
  let ?A = "A(u := A u - a)" and ?H = "[u \<mapsto> balBankAccountRef sb, v \<mapsto> balBankAccountRef rb]"
  have debit: "triple (M ?H A \<beta>) (send_debit u req) (\<lambda>_. M ?H ?A \<beta>) (\<lambda>_. ?E)"
  proof (rule triple_conseq [OF money_send_debit [of binv bal ?H A \<beta> u req, unfolded assms(3)]])
    show "?E w" if "M ?H A \<beta> w \<or> M ?H ?A \<beta> w" for w
      using that undoneI by blast
  qed
  have good: "triple (M [u \<mapsto> f, v \<mapsto> t] ?A (transferred \<beta> f t a)) (send_finish u v phone req x)
      (\<lambda>_. delivered binv bal A \<beta> u v a) (\<lambda>_. ?E)" for f t x
    by (rule triple_conseq [OF money_send_finish [OF assms(2,3)]]) auto
  have bad: "triple (M ?H ?A \<beta>) (andThen (compensateSendFailure u i a r) (\<lambda>_. andThen (publish ev) (\<lambda>_. fail e)))
      Q (\<lambda>_. ?E)" for i r ev e and Q :: "SendResult \<Rightarrow> 'b wallet \<Rightarrow> bool"
    by (intro triple_compensate_undone triple_step [where I = "undone A \<beta> u a"] undone_fail keeps_undone
        keeps_publish framed_money) auto
  show ?thesis
    unfolding send_to_user_def sv assms(3)
    by (intro triple_andThen [OF debit] triple_step [where I = "M ?H ?A \<beta>"] keeps_publish framed_money
        triple_bank_phase assms(4) bad good) (auto intro: undoneI)
qed

lemma money_Send:
  fixes A :: "uuid \<Rightarrow> int" and \<beta> :: books and u v :: uuid and a :: int
  assumes sv: "svBank sv = bk" and rcpt: "reqRecipientUserID req = Some v" and a: "reqAmountPaise req = a"
    and fits: "\<And>t. int64 (fst \<beta> t + a)"
  defines "ko \<equiv> (\<lambda>w. undone A \<beta> u a w \<or> sent binv bal A \<beta> u v a w \<or> delivered binv bal A \<beta> u v a w)"
  shows "triple (M Map.empty A \<beta>) (Send sv u req)
      (\<lambda>_ w. M Map.empty A \<beta> w \<or> delivered binv bal A \<beta> u v a w) (\<lambda>_. ko)"
    and "triple (\<lambda>w. M Map.empty A \<beta> w \<and> idempotency w (reqIdempotencyKey req) = None) (Send sv u req)
      (\<lambda>_. delivered binv bal A \<beta> u v a) (\<lambda>_. ko)"
proof -
  let ?run = "\<lambda>phone. andThen (AssertWithinMonthlyLimit sv u (reqAmountPaise req)) (\<lambda>_.
        andThen (GetBalance sv u) (\<lambda>senderBalance.
        require (\<not> balAvailablePaise senderBalance < reqAmountPaise req)
          (Errorf ''invalid: insufficient balance'')
        (case reqRecipientUserID req of
           None \<Rightarrow> sendToExternalPhone u phone req
         | Some rcpt \<Rightarrow>
             andThen (wrapErr ''resolve recipient'' (GetBalance sv rcpt)) (\<lambda>recipientBalance.
             send_to_user sv u rcpt senderBalance recipientBalance phone req))))"
  have ko: "ko w" if "M H A \<beta> w" for w H using that by (simp add: ko_def undoneI(1))
  have own: "triple (M Map.empty A \<beta>) (GetBalance sv u) (\<lambda>b. M [u \<mapsto> balBankAccountRef b] A \<beta>) (\<lambda>_. ko)"
    by (rule triple_conseq [OF known_GetBalance [OF sv]]) (auto intro: ko)
  have other: "triple (M [u \<mapsto> r] A \<beta>) (wrapErr l (GetBalance sv v)) (\<lambda>b. M [u \<mapsto> r, v \<mapsto> balBankAccountRef b] A \<beta>) (\<lambda>_. ko)" for r l
    by (rule triple_wrapErr, rule triple_conseq [OF known_GetBalance [OF sv]]) (auto intro: ko)
  have run: "triple (M Map.empty A \<beta>) (?run phone) (\<lambda>_. delivered binv bal A \<beta> u v a) (\<lambda>_. ko)" if "v \<noteq> u" for phone
  proof -
    have user: "triple (M [u \<mapsto> balBankAccountRef sb, v \<mapsto> balBankAccountRef rb] A \<beta>) (send_to_user sv u v sb rb phone req)
        (\<lambda>_. delivered binv bal A \<beta> u v a) (\<lambda>_. ko)" for sb rb
      using money_send_to_user [OF sv that a fits] by (simp add: ko_def)
    show ?thesis
      unfolding rcpt option.case
      by (intro triple_step [where I = "M Map.empty A \<beta>"] keeps_M_limit [OF sv] triple_andThen [OF own] triple_andThen [OF other]
          triple_require user) (auto intro: ko)
  qed
  have replay: "send_replay u ex = Some m \<Longrightarrow> keeps (M Map.empty A \<beta>) m" for ex m
    by (rule keeps_replays(2) [OF framed_money])
  show "triple (M Map.empty A \<beta>) (Send sv u req) (\<lambda>_ w. M Map.empty A \<beta> w \<or> delivered binv bal A \<beta> u v a w) (\<lambda>_. ko)"
    unfolding Send_def Let_def
    by (intro triple_require triple_replay_or_run [OF framed_money run] replay)
      (use rcpt in \<open>auto intro: ko\<close>)
  show "triple (\<lambda>w. M Map.empty A \<beta> w \<and> idempotency w (reqIdempotencyKey req) = None) (Send sv u req)
      (\<lambda>_. delivered binv bal A \<beta> u v a) (\<lambda>_. ko)"
    unfolding Send_def Let_def
    by (intro triple_require triple_run_idempotent [OF framed_money run])
      (use rcpt in \<open>auto intro: ko\<close>)
qed

end

section \<open>On the mock bank\<close>

text \<open>What a wallet that \<open>money_at\<close> describes tells about the account of \<open>u\<close>.\<close>

lemma money_at_account: "money_at bi bl H A \<beta> w \<Longrightarrow> H u = Some f \<Longrightarrow> \<exists>b. balances w u = Some b \<and> balBankAccountRef b = f"
  by (fastforce simp: money_at_def map_le_def account_def dom_def)

lemma spentD:
  "spent bi bl A \<beta> u t a w \<Longrightarrow> avail w = A(u := A u - a) \<and>
     (\<exists>b. balances w u = Some b \<and> bl (bank w) = transferred \<beta> (balBankAccountRef b) t a)"
proof -
  assume "spent bi bl A \<beta> u t a w"
  then obtain f where f: "money_at bi bl [u \<mapsto> f] (A(u := A u - a)) (transferred \<beta> f t a) w"
    by (auto simp: spent_def)
  then obtain b where "balances w u = Some b" "balBankAccountRef b = f"
    using money_at_account [OF f, of u f] by auto
  with f show ?thesis by (simp add: money_at_def)
qed

lemma both_ends:
  assumes "money_at bi bl [u \<mapsto> f, v \<mapsto> t] A (transferred \<beta> f t a) w" "u \<noteq> v"
  shows "avail w = A \<and> (\<exists>b c. balances w u = Some b \<and> balances w v = Some c \<and>
     bl (bank w) = transferred \<beta> (balBankAccountRef b) (balBankAccountRef c) a)"
  using money_at_account [OF assms(1), of u f] money_at_account [OF assms(1), of v t] assms
  by (auto simp: money_at_def)

text \<open>C5: a merchant debit against the mock bank, whatever the network does to its statements,
  commits and publications, ends in one of three places: nothing has moved, in the mirror or in the
  bank's books; the user's spendable balance is down by the amount and the bank's books are as they
  were, with an error returned (the amount is held in an open debit); or the balance is down by the
  amount and the bank has executed exactly one transfer more, of exactly that amount, from the
  sub-account of the user's balance row to the pool account. If the key had not been recorded
  before, only the third is reported as a success.\<close>

theorem merchant_debit_outcomes:
  assumes "svBank sv = mock_client" "mock_inv (bank w)"
    and "int64 (mock_bal (bank w) (PoolBankRef (svCfg sv)) + a)"
    and "MerchantDebit sv u a ms mr key w = (r, w')"
  shows "avail w' = avail w \<and> mock_books (bank w') = mock_books (bank w) \<and> (idempotency w key = None \<longrightarrow> isl r)
    \<or> avail w' = (avail w)(u := avail w u - a) \<and> mock_books (bank w') = mock_books (bank w) \<and> isl r
    \<or> avail w' = (avail w)(u := avail w u - a) \<and>
       (\<exists>b. balances w' u = Some b \<and> mock_books (bank w') =
          transferred (mock_books (bank w)) (balBankAccountRef b) (PoolBankRef (svCfg sv)) a)"
proof -
  let ?A = "avail w" and ?\<beta> = "mock_books (bank w)"
  have M: "money_at mock_inv mock_books Map.empty ?A ?\<beta> w" using assms(2) by (simp add: money_at_def)
  have "int64 (fst ?\<beta> (PoolBankRef (svCfg sv)) + a)" using assms(3) by (simp add: mock_books_def)
  note T = mock.money_MerchantDebit [where \<beta> = ?\<beta> and a = a and A = ?A and u = u, OF assms(1) this]
  show ?thesis
  proof (cases r)
    case (Inl e)
    then show ?thesis
      using tripleD_err [OF T(1) M, of ms mr key e w'] assms(4) spentD [of mock_inv mock_books ?A ?\<beta> u _ a w']
      by (auto simp: mock.undone_def reserved_def money_at_def)
  next
    case (Inr x)
    then show ?thesis
      using tripleD_ok [OF T(1) M, of ms mr key x w'] tripleD_ok [OF T(2), of w key ms mr x w'] assms(4) M
        spentD [of mock_inv mock_books ?A ?\<beta> u _ a w']
      by (auto simp: money_at_def)
  qed
qed

definition demo_debit :: "(goerr + SendResult) \<times> MockClient wallet" where
  "demo_debit = MerchantDebit demo_sv 7 300 ''bill_pay'' ''r1'' ''k1'' demo_funded"

lemma demo_mock_inv: "mock_inv (bank demo_funded)"
  by (simp add: mock_inv_def go_eval)

lemma demo_debit_result:
  "fst demo_debit = Inr (send_result 100 ''succeeded'' 300)"
  by (simp add: demo_debit_def go_eval)

theorem merchant_debit_outcomes_witness:
  "avail (snd demo_debit) = (avail demo_funded)(7 := avail demo_funded 7 - 300)
     \<and> (\<exists>b. balances (snd demo_debit) 7 = Some b \<and> mock_books (bank (snd demo_debit)) =
          transferred (mock_books (bank demo_funded)) (balBankAccountRef b) ''pool'' 300)"
proof -
  have pool: "PoolBankRef (svCfg demo_sv) = ''pool''" and sv: "svBank demo_sv = mock_client"
    and new: "idempotency demo_funded ''k1'' = None"
    by (simp_all add: demo_sv_def service_New_def demo_funded_def wallet_init_def)
  have fits: "int64 (mock_bal (bank demo_funded) (PoolBankRef (svCfg demo_sv)) + 300)"
    by (simp add: go_eval)
  have run: "MerchantDebit demo_sv 7 300 ''bill_pay'' ''r1'' ''k1'' demo_funded = (fst demo_debit, snd demo_debit)"
    by (simp add: demo_debit_def)
  from merchant_debit_outcomes [OF sv demo_mock_inv fits run] show ?thesis
    by (simp add: demo_debit_result new pool)
qed

text \<open>C12: a send to another user of the platform never creates money in the mirror, whatever the
  network does, and ends in one of four places: nothing has moved; the sender's spendable balance is
  down by the amount and the bank's books are as they were, with an error; the sender is down and the
  bank has executed exactly one transfer more, of the amount, from the sub-account of the sender's
  row to that of the recipient's, with an error; or that and the recipient is up by the amount. Under
  a fresh key only the last is reported as a success. So the two spendable balances together never
  grow, and the recipient is never credited unless the bank moved the amount.\<close>

theorem send_conserves:
  assumes "svBank sv = mock_client" "mock_inv (bank w)" "0 < reqAmountPaise req"
    and "\<forall>t. int64 (mock_bal (bank w) t + reqAmountPaise req)"
    and "reqRecipientUserID req = Some v" "u \<noteq> v"
    and "Send sv u req w = (r, w')"
  shows "avail w' u + avail w' v \<le> avail w u + avail w v
    \<and> (avail w' = avail w \<and> mock_books (bank w') = mock_books (bank w) \<and>
         (idempotency w (reqIdempotencyKey req) = None \<longrightarrow> isl r)
      \<or> avail w' = (avail w)(u := avail w u - reqAmountPaise req) \<and>
         mock_books (bank w') = mock_books (bank w) \<and> isl r
      \<or> (\<exists>bu bv. balances w' u = Some bu \<and> balances w' v = Some bv \<and>
           mock_books (bank w') = transferred (mock_books (bank w)) (balBankAccountRef bu) (balBankAccountRef bv) (reqAmountPaise req)) \<and>
         (avail w' = (avail w)(u := avail w u - reqAmountPaise req) \<and> isl r
          \<or> avail w' = (avail w)(u := avail w u - reqAmountPaise req, v := avail w v + reqAmountPaise req)))"
proof -
  let ?A = "avail w" and ?\<beta> = "mock_books (bank w)" and ?a = "reqAmountPaise req"
  have M: "money_at mock_inv mock_books Map.empty ?A ?\<beta> w" using assms(2) by (simp add: money_at_def)
  have "int64 (fst ?\<beta> t + ?a)" for t using assms(4) by (simp add: mock_books_def)
  note T = mock.money_Send [where \<beta> = ?\<beta> and a = ?a and A = ?A and u = u, OF assms(1,5) refl this]
  have "(avail w' = ?A \<and> mock_books (bank w') = ?\<beta> \<and> (idempotency w (reqIdempotencyKey req) = None \<longrightarrow> isl r))
      \<or> (avail w' = ?A(u := ?A u - ?a) \<and> mock_books (bank w') = ?\<beta> \<and> isl r)
      \<or> (sent mock_inv mock_books ?A ?\<beta> u v ?a w' \<and> isl r) \<or> delivered mock_inv mock_books ?A ?\<beta> u v ?a w'"
  proof (cases r)
    case (Inl e)
    then show ?thesis
      using tripleD_err [OF T(1) M, of e w'] assms(7) by (auto simp: mock.undone_def reserved_def money_at_def)
  next
    case (Inr x)
    then show ?thesis
      using tripleD_ok [OF T(1) M, of x w'] tripleD_ok [OF T(2), of w x w'] assms(7) M by (auto simp: money_at_def)
  qed
  then show ?thesis
    using assms(3,6) both_ends [where u = u and v = v and w = w' and bi = mock_inv and bl = mock_books and \<beta> = ?\<beta> and a = ?a]
    by (elim disjE) (force simp: sent_def delivered_def)+
qed

definition demo_request :: SendRequest where
  "demo_request = \<lparr>reqRecipientUserID = Some 8, reqRecipientPhone = [], reqAmountPaise = 300,
     reqLabel = [], reqIdempotencyKey = ''k1''\<rparr>"

definition demo_send :: "(goerr + SendResult) \<times> MockClient wallet" where
  "demo_send = Send demo_sv 7 demo_request demo_funded"

lemma demo_send_result: "fst demo_send = Inr (send_result 100 ''succeeded'' 300)"
  by (simp add: demo_send_def demo_request_def normalisePhone_def go_eval)

lemma demo_mock_bal: "mock_bal (bank demo_funded) t \<in> {0, 100, 5000}"
  by (simp add: go_eval)

theorem send_conserves_witness:
  "avail (snd demo_send) = (avail demo_funded)(7 := avail demo_funded 7 - 300, 8 := avail demo_funded 8 + 300)
     \<and> (\<exists>bu bv. balances (snd demo_send) 7 = Some bu \<and> balances (snd demo_send) 8 = Some bv \<and>
          mock_books (bank (snd demo_send)) =
            transferred (mock_books (bank demo_funded)) (balBankAccountRef bu) (balBankAccountRef bv) 300)"
proof -
  have fits: "\<forall>t. int64 (mock_bal (bank demo_funded) t + reqAmountPaise demo_request)"
  proof
    fix t show "int64 (mock_bal (bank demo_funded) t + reqAmountPaise demo_request)"
      using demo_mock_bal [of t] by (auto simp: demo_request_def int64_def)
  qed
  have sv: "svBank demo_sv = mock_client" and new: "idempotency demo_funded ''k1'' = None"
    by (simp_all add: demo_sv_def demo_funded_def wallet_init_def)
  have run: "Send demo_sv 7 demo_request demo_funded = (fst demo_send, snd demo_send)"
    by (simp add: demo_send_def)
  have "0 < reqAmountPaise demo_request" "reqRecipientUserID demo_request = Some 8"
    by (simp_all add: demo_request_def)
  from send_conserves [OF sv demo_mock_inv this(1) fits this(2) _ run] show ?thesis
    by (simp add: demo_send_result new demo_request_def)
qed

end
