(* ===== verification/Wallet_History.thy ===== *)
theory Wallet_History
  imports Wallet_Saga
begin

text \<open>
  Two interfaces between the store and whoever reasons about its tables. \<open>row_invariant\<close>: a
  property of the transaction rows that survives an insert, a settlement and a UPI reference
  survives every operation of the service; instantiated with the history of the table, it shows
  that the audit log is append-only. \<open>balance_invariant\<close>: the same for the balance rows;
  instantiated with the KYC limits, it shows that tier and limit agree.
\<close>

section \<open>Invariants of the transaction rows\<close>

lemma keeps_in_tx_keeps: "env_free I \<Longrightarrow> keeps I m \<Longrightarrow> keeps I (in_tx lb m lc)"
  by (intro keeps_in_tx keeps_triple_True)

definition upi_rows :: "uuid \<Rightarrow> string \<Rightarrow> Transaction list \<Rightarrow> Transaction list" where
  "upi_rows id0 ref = update_rows (\<lambda>t. txID t = id0 \<and> (txUPITxnRef t = None \<or> txUPITxnRef t = Some ref))
     (\<lambda>t. t\<lparr>txUPITxnRef := Some ref\<rparr>)"

locale row_invariant =
  fixes R :: "Transaction list \<Rightarrow> bool"
  assumes insert_row: "R ts \<Longrightarrow> txID t \<notin> txID ` set ts \<Longrightarrow> txn_row_ok t \<Longrightarrow> R (ts @ [t])"
    and settle_row: "R ts \<Longrightarrow> status \<noteq> ''pending'' \<Longrightarrow> R (settle_rows id0 status br fr c ts)"
    and upi_row: "R ts \<Longrightarrow> R (upi_rows id0 ref ts)"
begin

abbreviation I :: "'b wallet \<Rightarrow> bool" where "I \<equiv> (\<lambda>w. R (transactions w))"

lemma framed_I [simp]: "framed I"
  by (auto simp: framed_def env_free_def)

lemma env_free_I [simp]: "env_free I"
  by (rule framed_env_free) simp

lemma keeps_same_rows: "(\<And>w r w'. m w = (r, w') \<Longrightarrow> transactions w' = transactions w) \<Longrightarrow> keeps I m"
  by (rule keepsI) metis

lemma keeps_I_update: "keeps I (update_balance u p f)"
  unfolding update_balance_def
  by (intro keeps_db_call env_free_I keeps_same_rows) (auto split: option.splits if_splits)

lemma keeps_I_bank: "keeps I (on_bank m)"
  by (rule keeps_same_rows) (auto simp: on_bank_def split: prod.splits)

lemma keeps_I_balance:
  "keeps I (SetSynced u a)" "keeps I (AdjustPendingIn u a)" "keeps I (CreditAvailable u a)"
  "keeps I (CreditAvailableTx u a)" "keeps I (SettleDebitTx u a)" "keeps I (ReverseDebitTx u a)"
  "keeps I (SetKYCTier u tier)" "keeps I (Freeze u reason)" "keeps I (Unfreeze u)"
  unfolding AdjustPendingIn_def CreditAvailable_def CreditAvailableTx_def SettleDebitTx_def
    ReverseDebitTx_def SetKYCTier_def Freeze_def Unfreeze_def SetSynced_def
  by (rule keeps_diag, intro keeps_intros keeps_I_update) (intro keeps_intros keeps_I_update keeps_tier_refused env_free_I)+

lemma keeps_I_debit: "keeps I (DebitAvailableTx u a)"
  unfolding DebitAvailableTx_def by (intro keeps_intros keeps_I_update env_free_I)

lemma keeps_I_ensure: "keeps I (EnsureBalance u ref)"
  unfolding EnsureBalance_def
  by (intro keeps_db_call env_free_I keeps_same_rows) (auto simp: Let_def)

lemma keeps_I_insert: "keeps I (InsertTransaction i)"
  unfolding InsertTransaction_def
  by (intro keeps_require keeps_wrapErr keeps_db_call env_free_I keepsI)
    (auto simp: go_simps gen_random_uuid_def sql_insert_transaction_def Let_def insert_row
      split: if_splits)

lemma keeps_I_mark: "keeps I (MarkSettled id0 status br fr)"
proof (cases "status = ''pending''")
  case False
  show ?thesis
    unfolding keeps_triple [symmetric]
    by (rule triple_MarkSettled_gen) (use False settle_row in auto)
qed (simp add: MarkSettled_def require_def keeps_fail)

lemma keeps_I_upi: "keeps I (SetUPIRef id0 ref)"
proof -
  have "keeps I (\<lambda>w. let hit = (\<lambda>t. txID t = id0 \<and> (txUPITxnRef t = None \<or> txUPITxnRef t = Some ref));
            rows = update_rows hit (\<lambda>t. t\<lparr>txUPITxnRef := Some ref\<rparr>) (transactions w)
        in (Inr (length (filter hit (transactions w))), w\<lparr>transactions := rows\<rparr>))"
    using upi_row [unfolded upi_rows_def] by (intro keepsI) (auto simp: Let_def)
  then show ?thesis
    unfolding SetUPIRef_def by (auto intro!: keeps_intros keeps_db_call)
qed

lemmas keeps_I_statements =
  keeps_I_balance keeps_I_debit keeps_I_ensure keeps_I_insert keeps_I_mark keeps_I_upi keeps_I_bank

lemma keeps_I_GetBalance: "keeps I (GetBalance sv u)"
  unfolding GetBalance_def
  by (intro keeps_intros keeps_I_statements framed_I keeps_same_rows) (auto simp: modify_def)

lemma keeps_I_limit: "keeps I (AssertWithinMonthlyLimit sv u a)"
  unfolding AssertWithinMonthlyLimit_def by (intro keeps_intros keeps_I_GetBalance)

lemma keeps_I_compensate: "keeps I (compensateSendFailure u id0 a reason)"
  unfolding compensateSendFailure_def
  by (intro keeps_logged keeps_in_tx_keeps env_free_I keeps_andThen keeps_I_statements)

lemma keeps_I_services:
  "keeps I (StartTopUp sv u a key)" "keeps I (ConfirmTopUp sv u id0 ref)"
  "keeps I (expirer_main sv)" "keeps I (Send sv u req)"
  "keeps I (MerchantDebit sv u a ms mr key)" "keeps I (Refund sv id0 a reason)"
  "keeps I (StartAadhaar rand u b r)" "keeps I (CompleteAadhaar u c s v)" "keeps I (SubmitPAN u p)"
  "keeps I (refreshFromBank sv u ref)"
proof -
  note steps = keeps_intros keeps_I_statements keeps_I_GetBalance keeps_I_limit keeps_I_compensate
    keeps_in_tx_keeps env_free_I framed_I
  note replays = keeps_replays [OF framed_I]
  show "keeps I (StartTopUp sv u a key)"
    unfolding StartTopUp_def Let_def by (intro steps) (erule replays)
  show "keeps I (ConfirmTopUp sv u id0 ref)"
    unfolding ConfirmTopUp_def confirm_commit_def by (intro steps)
  have one: "keeps I (expire_one t n)" for t n
    unfolding expire_one_def by (intro steps)
  have "keeps I (ExpireStaleTopUps sv)"
    unfolding ExpireStaleTopUps_def Let_def ListPendingTopUpsOlderThan_def
    by (rule keeps_diag) (intro steps one)
  then show "keeps I (expirer_main sv)"
    unfolding expirer_main_def by (intro steps)
  show "keeps I (Send sv u req)"
    unfolding Send_def send_to_user_def send_finish_def send_debit_def send_settle_def
      sendToExternalPhone_def Let_def by (intro steps) (erule replays)
  show "keeps I (MerchantDebit sv u a ms mr key)"
    unfolding MerchantDebit_def merchant_run_def merchant_finish_def merchant_debit_tx_def
      merchant_settle_tx_def Let_def by (intro steps) (erule replays)
  show "keeps I (Refund sv id0 a reason)"
    unfolding Refund_def refund_tx_def Let_def by (intro steps)
  show "keeps I (StartAadhaar rand u b r)" "keeps I (SubmitPAN u p)"
    unfolding StartAadhaar_def SubmitPAN_def Let_def by (intro steps)+
  show "keeps I (CompleteAadhaar u c s v)"
    unfolding CompleteAadhaar_def by (intro steps)
  show "keeps I (refreshFromBank sv u ref)"
    unfolding refreshFromBank_def by (intro steps)
qed

lemma run_request_rows: "R (transactions w) \<Longrightarrow> R (transactions (run_request sv r w))"
proof (cases r)
  case (DoRefresh i)
  assume "R (transactions w)"
  then have "R (transactions (w\<lparr>goroutines := gs\<rparr>))" for gs by simp
  from keepsD [OF keeps_I_services(10) this] \<open>R (transactions w)\<close> DoRefresh show ?thesis
    by (auto simp: run_goroutine_def split: prod.splits)
qed (simp_all only: run_request.simps,
    (erule keepsD [rotated], rule keeps_I_services keeps_I_GetBalance keeps_I_balance)+)

lemma wallet_step_rows: "wallet_step sv w w' \<Longrightarrow> R (transactions w) \<Longrightarrow> R (transactions w')"
  by (erule wallet_stepE) (simp_all add: run_request_rows)

end

section \<open>The audit log is append-only\<close>

text \<open>\<open>continues t t'\<close>: \<open>t'\<close> is a later version of the row \<open>t\<close>.\<close>

definition continues :: "Transaction \<Rightarrow> Transaction \<Rightarrow> bool" where
  "continues t t' \<longleftrightarrow>
     txID t' = txID t \<and> txUserID t' = txUserID t \<and> txType t' = txType t \<and>
     txDirection t' = txDirection t \<and> txAmountPaise t' = txAmountPaise t \<and>
     txCounterpartyUserID t' = txCounterpartyUserID t \<and> txMerchantService t' = txMerchantService t \<and>
     txMerchantRef t' = txMerchantRef t \<and> txIdempotencyKey t' = txIdempotencyKey t \<and>
     txCreatedAt t' = txCreatedAt t \<and>
     (txStatus t \<noteq> ''pending'' \<longrightarrow> txStatus t' = txStatus t \<and> txBankTxnRef t' = txBankTxnRef t \<and>
        txFailureReason t' = txFailureReason t \<and> txSettledAt t' = txSettledAt t) \<and>
     (txUPITxnRef t \<noteq> None \<longrightarrow> txUPITxnRef t' = txUPITxnRef t)"

definition extends_history :: "Transaction list \<Rightarrow> Transaction list \<Rightarrow> bool" where
  "extends_history h ts \<longleftrightarrow> (\<forall>t \<in> set h. \<exists>t' \<in> set ts. continues t t')"

lemma continues_refl [simp]: "continues t t"
  by (simp add: continues_def)

lemma extends_update:
  assumes "extends_history h ts" "\<And>t t'. continues t t' \<Longrightarrow> p t' \<Longrightarrow> continues t (g t')"
  shows "extends_history h (update_rows p g ts)"
  using assms unfolding extends_history_def in_update_rows [unfolded Bex_def] Bex_def by metis

interpretation history: row_invariant "extends_history h" for h
proof
  fix ts t assume "extends_history h ts"
  then show "extends_history h (ts @ [t])" by (auto simp: extends_history_def)
next
  fix ts status id0 br fr c assume "extends_history h ts"
  then show "extends_history h (settle_rows id0 status br fr c ts)"
    unfolding settle_rows_def by (rule extends_update) (auto simp: continues_def)
next
  fix ts id0 ref assume "extends_history h ts"
  then show "extends_history h (upi_rows id0 ref ts)"
    unfolding upi_rows_def by (rule extends_update) (auto simp: continues_def)
qed

text \<open>C15: the transaction log is append-only and its final states are final. Whatever requests,
  faults and bank events come between, every row of the log is still there later with the same
  user, type, direction, amount, counterparty and key, a row that had left \<^verbatim>\<open>pending\<close> keeps its
  status, bank reference, failure reason and settlement time, and a UPI reference once recorded
  is never replaced.\<close>

theorem history_append_only:
  "(wallet_step sv)\<^sup>*\<^sup>* w w' \<Longrightarrow> t \<in> set (transactions w) \<Longrightarrow>
     \<exists>t' \<in> set (transactions w'). continues t t'"
proof -
  assume steps: "(wallet_step sv)\<^sup>*\<^sup>* w w'" and t: "t \<in> set (transactions w)"
  have "extends_history (transactions w) (transactions w)"
    unfolding extends_history_def using continues_refl by blast
  with steps have "extends_history (transactions w) (transactions w')"
    by (induction rule: rtranclp_induct) (auto intro: history.wallet_step_rows)
  with t show ?thesis by (simp add: extends_history_def)
qed


lemma demo_run_row: "\<exists>t \<in> set (transactions demo_run). txStatus t = ''succeeded'' \<and> txID t = 100"
  by (simp add: demo_run_def demo_invite_def go_eval demo_phone)

theorem history_append_only_witness:
  "\<exists>t' \<in> set (transactions (run_request demo_sv DoExpirer demo_run)). txID t' = 100 \<and> txStatus t' = ''succeeded''"
proof -
  from demo_run_row obtain t where t: "t \<in> set (transactions demo_run)" "txStatus t = ''succeeded''" "txID t = 100"
    by blast
  have "(wallet_step demo_sv)\<^sup>*\<^sup>* demo_run (run_request demo_sv DoExpirer demo_run)"
    by (intro r_into_rtranclp wallet_step.request)
  from history_append_only [OF this t(1)] t(2,3) show ?thesis
    by (fastforce simp: continues_def)
qed

section \<open>Invariants of the balance rows\<close>

definition new_balance :: "uuid \<Rightarrow> string \<Rightarrow> int \<Rightarrow> Balance" where
  "new_balance u ref c = \<lparr>balUserID = u, balBankAccountRef = ref, balAvailablePaise = 0,
     balPendingInPaise = 0, balPendingOutPaise = 0, balKYCTier = ''minimal'',
     balMonthlyLimitPaise = 1000000, balIsFrozen = False, balFrozenReason = None,
     balLastSyncedAt = c, balCreatedAt = c, balUpdatedAt = c\<rparr>"

locale balance_invariant =
  fixes B :: "uuid \<Rightarrow> Balance \<Rightarrow> bool"
  assumes fresh: "B u (new_balance u ref c)"
    and amounts: "B u b \<Longrightarrow> B u (b\<lparr>balAvailablePaise := a, balPendingInPaise := i,
      balPendingOutPaise := p, balLastSyncedAt := s, balUpdatedAt := c\<rparr>)"
    and tier: "B u b \<Longrightarrow> B u (b\<lparr>balKYCTier := t, balMonthlyLimitPaise := MonthlyLimitForTier t\<rparr>)"
    and freeze: "B u b \<Longrightarrow> B u (b\<lparr>balIsFrozen := fz, balFrozenReason := fr\<rparr>)"
begin

definition J :: "'b wallet \<Rightarrow> bool" where
  "J w \<longleftrightarrow> (\<forall>u b. balances w u = Some b \<longrightarrow> B u b)"

lemma framed_J [simp]: "framed J"
  by (auto simp: framed_def env_free_def J_def)

lemma env_free_J [simp]: "env_free J"
  by (rule framed_env_free) simp

lemma B_touch: "B u b \<Longrightarrow> B u (b\<lparr>balUpdatedAt := c\<rparr>)"
  using amounts [where b = b and a = "balAvailablePaise b" and i = "balPendingInPaise b"
    and p = "balPendingOutPaise b" and s = "balLastSyncedAt b" and c = c] by simp

lemma B_amounts: "B u b \<Longrightarrow> B u (b\<lparr>balAvailablePaise := a\<rparr>)" "B u b \<Longrightarrow> B u (b\<lparr>balPendingInPaise := a\<rparr>)"
  "B u b \<Longrightarrow> B u (b\<lparr>balPendingOutPaise := a\<rparr>)" "B u b \<Longrightarrow> B u (b\<lparr>balLastSyncedAt := a\<rparr>)"
  using amounts [where b = b and a = a and i = "balPendingInPaise b" and p = "balPendingOutPaise b"
      and s = "balLastSyncedAt b" and c = "balUpdatedAt b"]
    amounts [where b = b and a = "balAvailablePaise b" and i = a and p = "balPendingOutPaise b"
      and s = "balLastSyncedAt b" and c = "balUpdatedAt b"]
    amounts [where b = b and a = "balAvailablePaise b" and i = "balPendingInPaise b" and p = a
      and s = "balLastSyncedAt b" and c = "balUpdatedAt b"]
    amounts [where b = b and a = "balAvailablePaise b" and i = "balPendingInPaise b"
      and p = "balPendingOutPaise b" and s = a and c = "balUpdatedAt b"]
  by simp_all

lemma keeps_J_update:
  assumes "\<And>b b'. B u b \<Longrightarrow> f b = Some b' \<Longrightarrow> B u b'"
  shows "keeps J (update_balance u p f)"
proof (rule keepsI)
  fix w r w' assume J: "J w" and "update_balance u p f w = (r, w')"
  from this(2) show "J w'"
  proof (cases rule: update_balance_cases)
    case (1 ns)
    with J show ?thesis by (simp add: J_def)
  next
    case (2 ns b b')
    with J have "B u b'" by (auto simp: J_def intro: assms)
    then have "B u (b'\<lparr>balUpdatedAt := clock w\<rparr>)" by (rule B_touch)
    with 2 J show ?thesis by (auto simp: J_def)
  qed
qed

lemma keeps_J_same: "(\<And>w r w'. m w = (r, w') \<Longrightarrow> balances w' = balances w) \<Longrightarrow> keeps J m"
  by (rule keepsI) (metis J_def)

lemma keeps_J_bank: "keeps J (on_bank m)"
  by (rule keeps_J_same) (auto simp: on_bank_def split: prod.splits)

lemma keeps_J_credits:
  "keeps J (AdjustPendingIn u a)" "keeps J (CreditAvailable u a)"
  "keeps J (CreditAvailableTx u a)" "keeps J (SettleDebitTx u a)" "keeps J (ReverseDebitTx u a)"
  "keeps J (SetKYCTier u tr)" "keeps J (Freeze u reason)" "keeps J (Unfreeze u)"
  unfolding AdjustPendingIn_def CreditAvailable_def CreditAvailableTx_def SettleDebitTx_def
    ReverseDebitTx_def SetKYCTier_def Freeze_def Unfreeze_def
  by (intro keeps_intros keeps_J_update keeps_tier_refused env_free_J; auto split: bind_splits intro!: B_amounts tier freeze)+

lemma keeps_J_synced: "keeps J (SetSynced u a)"
  unfolding SetSynced_def
  by (rule keeps_diag) (intro keeps_intros keeps_J_update; auto intro!: B_amounts)

lemma keeps_J_debit: "keeps J (DebitAvailableTx u a)"
  unfolding DebitAvailableTx_def
  by (intro keeps_intros keeps_J_update env_free_J; auto split: bind_splits intro!: B_amounts)

lemma keeps_J_ensure: "keeps J (EnsureBalance u ref)"
  unfolding EnsureBalance_def new_balance_def [symmetric]
  by (intro keeps_db_call env_free_J keepsI)
    (auto simp: J_def Let_def intro: fresh B_touch split: option.splits if_splits)

lemma keeps_J_txn:
  "keeps J (InsertTransaction i)" "keeps J (MarkSettled id0 status br fr)" "keeps J (SetUPIRef id0 ref)"
proof -
  show "keeps J (InsertTransaction i)"
    unfolding InsertTransaction_def
    by (intro keeps_require keeps_wrapErr keeps_db_call env_free_J keeps_J_same)
      (auto simp: go_simps gen_random_uuid_def sql_insert_transaction_def Let_def split: if_splits)
  have same: "keeps J (db_call (\<lambda>w. (Inr (n w), w\<lparr>transactions := rows w\<rparr>)))" for n rows
    by (intro keeps_db_call env_free_J keeps_J_same) auto
  show "keeps J (MarkSettled id0 status br fr)" "keeps J (SetUPIRef id0 ref)"
    unfolding MarkSettled_def SetUPIRef_def Let_def by (intro keeps_intros same env_free_J)+
qed

lemmas keeps_J_statements = keeps_J_credits keeps_J_synced keeps_J_debit keeps_J_ensure keeps_J_txn keeps_J_bank

lemma keeps_J_GetBalance: "keeps J (GetBalance sv u)"
  unfolding GetBalance_def
  by (intro keeps_intros keeps_J_statements framed_J keeps_J_same) (auto simp: modify_def)

lemma keeps_J_limit: "keeps J (AssertWithinMonthlyLimit sv u a)"
  unfolding AssertWithinMonthlyLimit_def by (intro keeps_intros keeps_J_GetBalance)

lemma keeps_J_compensate: "keeps J (compensateSendFailure u id0 a reason)"
  unfolding compensateSendFailure_def
  by (intro keeps_logged keeps_in_tx_keeps env_free_J keeps_andThen keeps_J_statements)

lemma keeps_J_services:
  "keeps J (StartTopUp sv u a key)" "keeps J (ConfirmTopUp sv u id0 ref)"
  "keeps J (expirer_main sv)" "keeps J (Send sv u req)"
  "keeps J (MerchantDebit sv u a ms mr key)" "keeps J (Refund sv id0 a reason)"
  "keeps J (StartAadhaar rand u b r)" "keeps J (CompleteAadhaar u c s v)" "keeps J (SubmitPAN u p)"
  "keeps J (refreshFromBank sv u ref)"
proof -
  note steps = keeps_intros keeps_J_statements keeps_J_GetBalance keeps_J_limit keeps_J_compensate
    keeps_in_tx_keeps env_free_J framed_J
  note replays = keeps_replays [OF framed_J]
  show "keeps J (StartTopUp sv u a key)"
    unfolding StartTopUp_def Let_def by (intro steps) (erule replays)
  show "keeps J (ConfirmTopUp sv u id0 ref)"
    unfolding ConfirmTopUp_def confirm_commit_def by (intro steps)
  have one: "keeps J (expire_one t n)" for t n
    unfolding expire_one_def by (intro steps)
  have "keeps J (ExpireStaleTopUps sv)"
    unfolding ExpireStaleTopUps_def Let_def ListPendingTopUpsOlderThan_def
    by (rule keeps_diag) (intro steps one)
  then show "keeps J (expirer_main sv)"
    unfolding expirer_main_def by (intro steps)
  show "keeps J (Send sv u req)"
    unfolding Send_def send_to_user_def send_finish_def send_debit_def send_settle_def
      sendToExternalPhone_def Let_def by (intro steps) (erule replays)
  show "keeps J (MerchantDebit sv u a ms mr key)"
    unfolding MerchantDebit_def merchant_run_def merchant_finish_def merchant_debit_tx_def
      merchant_settle_tx_def Let_def by (intro steps) (erule replays)
  show "keeps J (Refund sv id0 a reason)"
    unfolding Refund_def refund_tx_def Let_def by (intro steps)
  show "keeps J (StartAadhaar rand u b r)" "keeps J (SubmitPAN u p)"
    unfolding StartAadhaar_def SubmitPAN_def Let_def by (intro steps)+
  show "keeps J (CompleteAadhaar u c s v)"
    unfolding CompleteAadhaar_def by (intro steps)
  show "keeps J (refreshFromBank sv u ref)"
    unfolding refreshFromBank_def by (intro steps)
qed

lemma run_request_balances: "J w \<Longrightarrow> J (run_request sv r w)"
proof (cases r)
  case (DoRefresh i)
  assume J: "J w"
  then have "J (w\<lparr>goroutines := gs\<rparr>)" for gs by (simp add: J_def)
  from keepsD [OF keeps_J_services(10) this] J DoRefresh show ?thesis
    by (auto simp: run_goroutine_def split: prod.splits)
qed (simp_all only: run_request.simps,
    (erule keepsD [rotated], rule keeps_J_services keeps_J_GetBalance keeps_J_credits)+)

lemma wallet_reach_balances: "wallet_reach sv w \<Longrightarrow> J w"
proof (induction rule: wallet_reach.induct)
  case (start b ids now0)
  then show ?case by (simp add: J_def wallet_init_def)
next
  case (step w w')
  from step.hyps(2) show ?case
    by (cases rule: wallet_stepE) (use step.IH in \<open>auto simp: run_request_balances\<close>, auto simp: J_def)
qed

end

definition limit_matches_tier :: "uuid \<Rightarrow> Balance \<Rightarrow> bool" where
  "limit_matches_tier u b \<longleftrightarrow> balUserID b = u \<and> balMonthlyLimitPaise b = MonthlyLimitForTier (balKYCTier b)"

interpretation limits: balance_invariant limit_matches_tier
  by unfold_locales
    (simp_all add: limit_matches_tier_def new_balance_def MonthlyLimitForTier_def KYCFull_def KYCEnhanced_def)

text \<open>in every reachable state a balance row belongs to the user it is filed under, and its
  spending limit is the limit of its KYC tier, so it is at least 10,000 and at most 5 lakh rupees.\<close>

theorem limit_matches_kyc_tier:
  assumes "wallet_reach sv w" "balances w u = Some b"
  shows "balUserID b = u \<and> balMonthlyLimitPaise b = MonthlyLimitForTier (balKYCTier b)
    \<and> 1000000 \<le> balMonthlyLimitPaise b \<and> balMonthlyLimitPaise b \<le> 50000000"
  using limits.wallet_reach_balances [OF assms(1)] assms(2)
  by (auto simp: limits.J_def limit_matches_tier_def MonthlyLimitForTier_def)

theorem limit_matches_kyc_tier_witness:
  "map_option balMonthlyLimitPaise (balances demo_run 7) = Some 1000000"
proof -
  have "\<exists>b. balances demo_run 7 = Some b \<and> balKYCTier b = ''minimal''"
    by (simp add: demo_run_def demo_invite_def go_eval demo_phone)
  then obtain b where b: "balances demo_run 7 = Some b" "balKYCTier b = ''minimal''" by blast
  from limit_matches_kyc_tier [OF demo_run_reach b(1)] b show ?thesis
    by (simp add: MonthlyLimitForTier_def KYCFull_def KYCEnhanced_def)
qed

end
