(* ===== verification/Wallet_Behaviour.thy ===== *)
theory Wallet_Behaviour
  imports Wallet_History
begin

text \<open>
  The functional behaviour of the wallet's operations when the network is quiet, branch by branch:
  a debit the bank accepts and its replay, a debit the bank refuses, the guards, the two ends of
  a top-up, and the refunds.
\<close>

section \<open>Merchant debits\<close>

text \<open>Everything a merchant debit asks for before it moves money: well-formed arguments, an unused
  key, a balance row \<open>b\<close> that is not frozen, has the funds and the limit, and a fresh
  identifier.\<close>

definition debit_ready ::
  "uuid \<Rightarrow> int \<Rightarrow> string \<Rightarrow> string \<Rightarrow> string \<Rightarrow> 'b wallet \<Rightarrow> Balance \<Rightarrow> bool" where
  "debit_ready u a ms mr key w b \<longleftrightarrow>
     net w = [] \<and> key \<noteq> [] \<and> ms \<noteq> [] \<and> mr \<noteq> [] \<and> 0 < a \<and> idempotency w key = None \<and>
     balances w u = Some b \<and> \<not> balIsFrozen b \<and> a \<le> balMonthlyLimitPaise b \<and>
     a \<le> balAvailablePaise b \<and> int64 (balAvailablePaise b) \<and>
     0 \<le> balPendingOutPaise b \<and> int64 (balPendingOutPaise b + a) \<and>
     idgen w (idctr w) \<notin> txID ` set (transactions w)"

lemma update_fresh:
  "i \<notin> txID ` set ts \<Longrightarrow> update_rows (\<lambda>t. txID t = i \<and> P t) g ts = ts"
  by (rule update_rows_id) auto

lemma find_fresh: "i \<notin> txID ` set ts \<Longrightarrow> find (\<lambda>t. txID t = i \<and> P t) (ts @ rs) = find (\<lambda>t. txID t = i \<and> P t) rs"
  by (induction ts) auto

lemma filter_fresh: "i \<notin> txID ` set ts \<Longrightarrow> filter (\<lambda>t. txID t = i \<and> P t) ts = []"
  by (auto simp: filter_empty_conv)

lemmas quiet_run = debit_ready_def go_eval update_fresh find_fresh filter_fresh titleCase_def avail_def
  pending_out_def fun_eq_iff

lemma merchant_debit_compensated:
  assumes "debit_ready u a ms mr key w b"
    and "Transfer (svBank sv) (balBankAccountRef b) (PoolBankRef (svCfg sv)) a
      (uuid_string (idgen w (idctr w))) (bank w) = (Inl e, bk')"
  shows "\<exists>w'. MerchantDebit sv u a ms mr key w = (Inl (Wrap ''bank transfer'' e), w')
    \<and> avail w' = avail w \<and> pending_out w' = pending_out w \<and> bank w' = bk'
    \<and> idempotency w' = idempotency w \<and> events w' = events w
    \<and> (\<exists>t. transactions w' = transactions w @ [t] \<and> txID t = idgen w (idctr w) \<and> txUserID t = u
         \<and> txAmountPaise t = a \<and> txStatus t = ''failed'' \<and> txFailureReason t = Some (err_msg e))"
  using assms by (cases "clock w - balLastSyncedAt b > balanceLazyRefreshAge") (simp_all add: quiet_run)

text \<open>when the bank refuses the transfer, the debit is undone: the caller gets the bank's error,
  every balance is what it was, no key is recorded and nothing is published, and the log has one
  more row, failed, with the bank's reason.\<close>

theorem merchant_debit_refused:
  assumes "debit_ready u a ms mr key w b"
    and "Transfer (svBank sv) (balBankAccountRef b) (PoolBankRef (svCfg sv)) a
      (uuid_string (idgen w (idctr w))) (bank w) = (Inl e, bk')"
  shows "\<exists>w'. MerchantDebit sv u a ms mr key w = (Inl (Wrap ''bank transfer'' e), w')
    \<and> avail w' = avail w \<and> pending_out w' = pending_out w \<and> bank w' = bk'
    \<and> idempotency w' = idempotency w \<and> events w' = events w
    \<and> (\<exists>t. transactions w' = transactions w @ [t] \<and> txID t = idgen w (idctr w) \<and> txUserID t = u
         \<and> txAmountPaise t = a \<and> txStatus t = ''failed'' \<and> txFailureReason t = Some (err_msg e))"
  by (rule merchant_debit_compensated [OF assms])

definition demo_refusing :: "MockClient wallet" where
  "demo_refusing = demo_funded\<lparr>bank := FailNext ''acc-7'' (bank demo_funded)\<rparr>"

theorem merchant_debit_refused_witness:
  "\<exists>w'. MerchantDebit demo_sv 7 300 ''bill_pay'' ''r1'' ''k1'' demo_refusing
    = (Inl (Wrap ''bank transfer'' (Errorf ''bank mock: simulated transfer failure'')), w')
    \<and> avail w' 7 = 5000 \<and> pending_out w' 7 = 0"
proof -
  have ready: "debit_ready 7 300 ''bill_pay'' ''r1'' ''k1'' demo_refusing (demo_balance 7 ''acc-7'' 5000)"
    by (simp add: debit_ready_def demo_refusing_def go_eval)
  have refused: "Transfer (svBank demo_sv) (balBankAccountRef (demo_balance 7 ''acc-7'' 5000))
      (PoolBankRef (svCfg demo_sv)) 300 (uuid_string (idgen demo_refusing (idctr demo_refusing))) (bank demo_refusing)
    = (Inl (Errorf ''bank mock: simulated transfer failure''), (bank demo_refusing)\<lparr>mbFailNext := {}\<rparr>)"
    by (simp add: demo_refusing_def go_eval FailNext_def)
  have "avail demo_refusing 7 = 5000" "pending_out demo_refusing 7 = 0"
    by (simp_all add: demo_refusing_def avail_def pending_out_def go_eval)
  with merchant_debit_refused [OF ready refused] show ?thesis by auto
qed

text \<open>when the bank accepts, the debit succeeds and replaying it is free: the first call
  reports the new transaction as succeeded and takes the amount off the spendable balance; any
  second call with the same key by the same user within the next 24 hours, whatever amount and
  merchant it names, returns the same answer and changes nothing.\<close>

theorem merchant_debit_replay:
  assumes "debit_ready u a ms mr key w b"
    and "Transfer (svBank sv) (balBankAccountRef b) (PoolBankRef (svCfg sv)) a
      (uuid_string (idgen w (idctr w))) (bank w) = (Inr (), bk')"
    and "0 \<le> dt" "dt < day_us" "0 < a2" "ms2 \<noteq> []" "mr2 \<noteq> []"
  shows "\<exists>w'. MerchantDebit sv u a ms mr key w = (Inr (send_result (idgen w (idctr w)) ''succeeded'' a), w')
    \<and> avail w' = (avail w)(u := avail w u - a) \<and> pending_out w' = pending_out w
    \<and> MerchantDebit sv u a2 ms2 mr2 key (w'\<lparr>clock := clock w' + dt\<rparr>)
        = (Inr (send_result (idgen w (idctr w)) ''succeeded'' a), w'\<lparr>clock := clock w' + dt\<rparr>)"
  using assms by (cases "clock w - balLastSyncedAt b > balanceLazyRefreshAge") (simp_all add: quiet_run)


theorem merchant_debit_replay_witness:
  "\<exists>w'. MerchantDebit demo_sv 7 300 ''bill_pay'' ''r1'' ''k1'' demo_funded
      = (Inr (send_result 100 ''succeeded'' 300), w')
    \<and> MerchantDebit demo_sv 7 999 ''food'' ''r2'' ''k1'' (w'\<lparr>clock := clock w' + 60000000\<rparr>)
      = (Inr (send_result 100 ''succeeded'' 300), w'\<lparr>clock := clock w' + 60000000\<rparr>)"
proof -
  let ?b = "demo_balance 7 ''acc-7'' 5000"
  have ready: "debit_ready 7 300 ''bill_pay'' ''r1'' ''k1'' demo_funded ?b"
    by (simp add: debit_ready_def go_eval)
  have id0: "idgen demo_funded (idctr demo_funded) = 100" by (simp add: go_eval)
  obtain bk' where accepted: "Transfer (svBank demo_sv) (balBankAccountRef ?b)
      (PoolBankRef (svCfg demo_sv)) 300 (uuid_string (idgen demo_funded (idctr demo_funded))) (bank demo_funded)
    = (Inr (), bk')"
    by (simp add: go_eval)
  from merchant_debit_replay [OF ready accepted, of 60000000 999 "''food''" "''r2''"] show ?thesis
    by (auto simp: day_us_def id0)
qed

section \<open>Guards\<close>

text \<open>a wallet that is frozen, an amount above the limit of the KYC tier or above the spendable
  balance, and a missing key, amount or merchant are refused with the error the handler maps to a
  client error, and nothing is written: the tables, the bank and the event log are as before.\<close>

theorem merchant_debit_guards:
  assumes "net w = []" "idempotency w key = None" "balances w u = Some b"
    and "key = [] \<or> a \<le> 0 \<or> ms = [] \<or> mr = [] \<or> balIsFrozen b \<or> balMonthlyLimitPaise b < a
      \<or> balAvailablePaise b < a"
  shows "\<exists>e w'. MerchantDebit sv u a ms mr key w = (Inl e, w')
    \<and> (has_prefix (err_msg e) ''invalid: '' \<or> e = Errorf ''forbidden: wallet frozen'')
    \<and> balances w' = balances w \<and> transactions w' = transactions w \<and> bank w' = bank w
    \<and> events w' = events w \<and> idempotency w' = idempotency w"
  using assms
  by (cases "clock w - balLastSyncedAt b > balanceLazyRefreshAge") (auto simp: go_eval has_prefix_def)

theorem merchant_debit_guards_witness:
  "\<exists>e w'. MerchantDebit demo_sv 7 6000 ''bill_pay'' ''r1'' ''k1'' demo_funded = (Inl e, w')
     \<and> balances w' = balances demo_funded \<and> bank w' = bank demo_funded"
proof -
  have "net demo_funded = []" "idempotency demo_funded ''k1'' = None"
    "balances demo_funded 7 = Some (demo_balance 7 ''acc-7'' 5000)"
    by (simp_all add: go_eval)
  from merchant_debit_guards [OF this, of 6000 "''bill_pay''" "''r1''" demo_sv] show ?thesis
    by (auto simp: demo_balance_def)
qed

section \<open>Top-ups\<close>

text \<open>The row \<open>t\<close> of a top-up of user \<open>u\<close> in the table, with the rows around it, and the
  user's balance row.\<close>

definition topup_at :: "Transaction \<Rightarrow> Transaction list \<Rightarrow> Transaction list \<Rightarrow> Balance \<Rightarrow> 'b wallet \<Rightarrow> bool" where
  "topup_at t xs ys b w \<longleftrightarrow> net w = [] \<and> transactions w = xs @ t # ys \<and>
     txID t \<notin> txID ` set xs \<and> txID t \<notin> txID ` set ys \<and> txType t = ''top_up'' \<and>
     0 < txAmountPaise t \<and> balances w (txUserID t) = Some b \<and>
     int64 (balAvailablePaise b + txAmountPaise t) \<and> int64 (balPendingInPaise b - txAmountPaise t)"

definition confirmed :: "int \<Rightarrow> string \<Rightarrow> Transaction \<Rightarrow> Transaction" where
  "confirmed c ref t = t\<lparr>txStatus := ''succeeded'', txBankTxnRef := Some ref, txUPITxnRef := Some ref,
     txFailureReason := None, txSettledAt := Some c\<rparr>"

text \<open>confirming a pending top-up that the bank verifies credits the wallet once: the row is
  succeeded with the UPI reference, the spendable balance is up by the amount and the pending
  column down by it, and confirming it again, with this or another reference, returns the same
  row and changes nothing.\<close>

theorem confirm_topup_once:
  assumes "topup_at t xs ys b w" "txStatus t = ''pending''" "txUPITxnRef t = None"
    and "ref \<noteq> []" "ref2 \<noteq> []"
    and "VerifyUPIInbound (svBank sv) ref (txAmountPaise t) (bank w) = (Inr True, bk')"
  shows "\<exists>w'. ConfirmTopUp sv (txUserID t) (txID t) ref w
      = (Inr (scanTransaction (confirmed (clock w) ref t)), w')
    \<and> transactions w' = xs @ confirmed (clock w) ref t # ys
    \<and> avail w' = (avail w)(txUserID t := avail w (txUserID t) + txAmountPaise t)
    \<and> map_option balPendingInPaise (balances w' (txUserID t)) = Some (max (balPendingInPaise b - txAmountPaise t) 0)
    \<and> ConfirmTopUp sv (txUserID t) (txID t) ref2 w'
      = (Inr (scanTransaction (confirmed (clock w) ref t)), w')"
  using assms by (simp add: topup_at_def confirmed_def quiet_run)

definition demo_topup :: Transaction where
  "demo_topup = txn_of_input (topup_input 7 1000 ''k1'') 200 1000"

definition demo_topups :: "Transaction \<Rightarrow> MockClient wallet" where
  "demo_topups t = demo_funded\<lparr>transactions := [t]\<rparr>"

lemma demo_topup_fields:
  "txStatus demo_topup = ''pending''" "txUPITxnRef demo_topup = None" "txUserID demo_topup = 7"
  "txID demo_topup = 200" "txAmountPaise demo_topup = 1000" "txType demo_topup = ''top_up''"
  by (simp_all add: demo_topup_def go_eval)

lemma demo_topup_at:
  "txID t = 200 \<Longrightarrow> txType t = ''top_up'' \<Longrightarrow> txUserID t = 7 \<Longrightarrow> txAmountPaise t = 1000 \<Longrightarrow>
     topup_at t [] [] (demo_balance 7 ''acc-7'' 5000) (demo_topups t)"
  by (simp add: topup_at_def demo_topups_def go_eval)

lemma demo_verifies: "VerifyUPIInbound (svBank demo_sv) ''upi1'' 1000 m = (Inr True, m)"
  by (simp add: go_eval)

theorem confirm_topup_once_witness:
  "\<exists>w'. ConfirmTopUp demo_sv 7 200 ''upi1'' (demo_topups demo_topup)
      = (Inr (scanTransaction (confirmed 1000 ''upi1'' demo_topup)), w')
    \<and> ConfirmTopUp demo_sv 7 200 ''upi2'' w'
      = (Inr (scanTransaction (confirmed 1000 ''upi1'' demo_topup)), w')"
proof -
  note f = demo_topup_fields
  have "clock (demo_topups demo_topup) = 1000" by (simp add: demo_topups_def go_eval)
  with confirm_topup_once [OF demo_topup_at [OF f(4,6,3,5)] f(1,2), of "''upi1''" "''upi2''" demo_sv] f demo_verifies
  show ?thesis by auto
qed

text \<open>the guard against a second credit is the status read at the start only. When the row has
  left \<^verbatim>\<open>pending\<close> between that read and the write (a concurrent confirmation, or the expirer marking
  it failed), the confirmation that holds the old copy \<open>t\<close> reports success, leaves the row as it
  is, failed or already succeeded, and credits the wallet with the amount all the same.\<close>

theorem confirm_race_credits_again:
  assumes "topup_at r xs ys b w" "txStatus r \<noteq> ''pending''" "txUPITxnRef r \<in> {None, Some ref}"
    and "txID t = txID r" "txUserID t = txUserID r" "txAmountPaise t = txAmountPaise r" "txStatus t = ''pending''"
    and "VerifyUPIInbound (svBank sv) ref (txAmountPaise t) (bank w) = (Inr True, bk')"
  shows "\<exists>out w'. confirm_commit sv (txUserID t) (txID t) ref t w = (Inr out, w')
    \<and> txStatus out = txStatus r
    \<and> avail w' = (avail w)(txUserID r := avail w (txUserID r) + txAmountPaise r)"
  using assms by (auto simp: topup_at_def quiet_run)

definition demo_expired :: Transaction where
  "demo_expired = demo_topup\<lparr>txStatus := ''failed'', txFailureReason := Some ''expired_no_upi_credit''\<rparr>"

theorem confirm_race_credits_again_witness:
  "\<exists>out w'. confirm_commit demo_sv 7 200 ''upi1'' demo_topup (demo_topups demo_expired) = (Inr out, w')
    \<and> txStatus out = ''failed'' \<and> avail w' = (avail (demo_topups demo_expired))(7 := avail (demo_topups demo_expired) 7 + 1000)"
proof -
  note f = demo_topup_fields
  have r: "txID demo_expired = 200" "txType demo_expired = ''top_up''" "txUserID demo_expired = 7"
    "txAmountPaise demo_expired = 1000" "txStatus demo_expired = ''failed''" "txUPITxnRef demo_expired = None"
    by (simp_all add: demo_expired_def f)
  show ?thesis
    using confirm_race_credits_again [OF demo_topup_at [OF r(1-4)], of "''upi1''" demo_topup demo_sv] r f demo_verifies
    by simp
qed

section \<open>Refunds\<close>

text \<open>A debit that succeeded, with the rows before it, and its user's balance row.\<close>

definition refundable :: "Transaction \<Rightarrow> Balance \<Rightarrow> 'b wallet \<Rightarrow> bool" where
  "refundable t b w \<longleftrightarrow> net w = [] \<and> find (\<lambda>x. txID x = txID t) (transactions w) = Some t \<and>
     txStatus t = ''succeeded'' \<and> balances w (txUserID t) = Some b \<and>
     idgen w (idctr w) \<notin> txID ` set (transactions w)"

lemma find_append_Some: "find p xs = Some x \<Longrightarrow> find p (xs @ ys) = Some x"
  by (induction xs) auto

text \<open>a refund credits exactly its amount, records a succeeded refund row, leaves the original
  row alone, and is refused with no effect when it exceeds the original.\<close>

theorem refund_credits:
  assumes "refundable t b w" "0 < a" "int64 (balAvailablePaise b + a)"
    and "BankRefund (svBank sv) (case txBankTxnRef t of None \<Rightarrow> [] | Some r \<Rightarrow> r) a (bank w) = (Inr (), bk')"
  shows "if a \<le> txAmountPaise t
    then \<exists>w' r. Refund sv (txID t) a reason w = (Inr (send_result (idgen w (idctr w)) ''succeeded'' a), w')
      \<and> avail w' = (avail w)(txUserID t := avail w (txUserID t) + a) \<and> pending_out w' = pending_out w
      \<and> transactions w' = transactions w @ [r] \<and> txType r = ''refund'' \<and> txAmountPaise r = a
      \<and> txUserID r = txUserID t
    else Refund sv (txID t) a reason w = (Inl (Errorf ''invalid: refund exceeds original amount''), w)"
  using assms by (simp add: refundable_def quiet_run split: option.splits)

definition demo_paid :: Transaction where
  "demo_paid = (txn_of_input (merchant_input 7 400 ''food'' ''r1'' ''k1'') 200 1000)\<lparr>txStatus := ''succeeded''\<rparr>"

lemma demo_refundable: "refundable demo_paid (demo_balance 7 ''acc-7'' 5000) (demo_topups demo_paid)"
  by (simp add: refundable_def demo_topups_def demo_paid_def go_eval)

lemma demo_refunds: "\<exists>m'. BankRefund (svBank demo_sv) (case txBankTxnRef demo_paid of None \<Rightarrow> [] | Some r \<Rightarrow> r)
    (txAmountPaise demo_paid) m = (Inr (), m')"
  by (simp add: demo_paid_def go_eval)

lemma demo_paid_fields: "txAmountPaise demo_paid = 400" "txUserID demo_paid = 7" "txID demo_paid = 200"
  by (simp_all add: demo_paid_def go_eval)

theorem refund_credits_witness:
  "\<exists>w' r. Refund demo_sv 200 400 ''cancelled'' (demo_topups demo_paid) = (Inr r, w')
    \<and> avail w' 7 = avail (demo_topups demo_paid) 7 + 400"
proof -
  obtain m' where "BankRefund (svBank demo_sv) (case txBankTxnRef demo_paid of None \<Rightarrow> [] | Some r \<Rightarrow> r)
    400 (bank (demo_topups demo_paid)) = (Inr (), m')"
    using demo_refunds demo_paid_fields by metis
  from refund_credits [OF demo_refundable _ _ this, of "''cancelled''"] demo_paid_fields show ?thesis
    by (fastforce simp: demo_balance_def int64_def)
qed

text \<open>nothing relates refunds to each other: refunding the whole of the same transaction again
  succeeds again, so that two calls (a retry by the merchant service is enough) pay out twice the
  original amount.\<close>

theorem refund_twice_pays_twice:
  assumes "refundable t b w" "0 < txAmountPaise t" "int64 (balAvailablePaise b + 2 * txAmountPaise t)"
    and "int64 (balAvailablePaise b)" "idgen w (Suc (idctr w)) \<notin> txID ` set (transactions w)"
    and "idgen w (Suc (idctr w)) \<noteq> idgen w (idctr w)"
    and "\<forall>m. \<exists>m'. BankRefund (svBank sv) (case txBankTxnRef t of None \<Rightarrow> [] | Some r \<Rightarrow> r) (txAmountPaise t) m = (Inr (), m')"
  shows "\<exists>r1 w1 r2 w2. Refund sv (txID t) (txAmountPaise t) reason w = (Inr r1, w1)
    \<and> Refund sv (txID t) (txAmountPaise t) reason w1 = (Inr r2, w2)
    \<and> avail w2 (txUserID t) = avail w (txUserID t) + 2 * txAmountPaise t"
proof -
  let ?a = "txAmountPaise t" and ?ref = "case txBankTxnRef t of None \<Rightarrow> [] | Some r \<Rightarrow> r"
  have step: "int64 (balAvailablePaise b + ?a)"
    using assms(2,3,4) by (auto simp: int64_def)
  obtain m1 where "BankRefund (svBank sv) ?ref ?a (bank w) = (Inr (), m1)" using assms(7) by blast
  moreover obtain m2 where "BankRefund (svBank sv) ?ref ?a m1 = (Inr (), m2)" using assms(7) by blast
  ultimately show ?thesis
    using assms(1-6) step
    by (simp add: refundable_def quiet_run find_append_Some add.assoc split: option.splits)
qed

theorem refund_twice_pays_twice_witness:
  "\<exists>r1 w1 r2 w2. Refund demo_sv 200 400 ''cancelled'' (demo_topups demo_paid) = (Inr r1, w1)
    \<and> Refund demo_sv 200 400 ''cancelled'' w1 = (Inr r2, w2)
    \<and> avail w2 7 = avail (demo_topups demo_paid) 7 + 800"
proof -
  have "idgen (demo_topups demo_paid) (Suc (idctr (demo_topups demo_paid))) = 101"
    "idgen (demo_topups demo_paid) (idctr (demo_topups demo_paid)) = 100"
    "transactions (demo_topups demo_paid) = [demo_paid]"
    by (simp_all add: demo_topups_def go_eval)
  with refund_twice_pays_twice [OF demo_refundable, of demo_sv "''cancelled''"] demo_refunds demo_paid_fields
  show ?thesis by (simp add: demo_balance_def int64_def)
qed

section \<open>KYC\<close>

text \<open>the PAN a user submits never reaches the tables: the stored KYC row shows six crosses and
  the last four characters, and two PANs that end alike (in any case, with any white space
  around) leave the whole service in the same state, with the same answer.\<close>

theorem pan_is_masked:
  assumes "panRE (to_upper (trim_space p))" "panRE (to_upper (trim_space q))"
    and "drop 6 (to_upper (trim_space p)) = drop 6 (to_upper (trim_space q))"
  shows "SubmitPAN u p w = SubmitPAN u q w
    \<and> (net w = [] \<longrightarrow> (\<exists>k w'. SubmitPAN u p w = (Inr k, w') \<and> kyc_records w' u = Some k
         \<and> kycPANMasked k = Some (''XXXXXX'' @ drop 6 (to_upper (trim_space p)))
         \<and> kycPANStatus k = Some ''pending''))"
proof -
  have mask: "mask_pan x = ''XXXXXX'' @ drop 6 x" if "panRE x" for x
    using that by (simp add: mask_pan_def panRE_def)
  have run: "SubmitPAN u x w = andThen (wrapErr ''set pan'' (SetPANStatus u
      (''XXXXXX'' @ drop 6 (to_upper (trim_space x))) ''pending'')) (\<lambda>_. store_GetKYC u) w"
    if "panRE (to_upper (trim_space x))" for x
    using that by (simp add: SubmitPAN_def Let_def require_def mask)
  show ?thesis
    using run [OF assms(1)] run [OF assms(2)] assms(3) by (auto simp: go_eval split: option.splits)
qed

theorem pan_is_masked_witness:
  "SubmitPAN 7 ''abcde1234f'' demo_funded = SubmitPAN 7 '' ZZZZZ9234F '' demo_funded"
proof -
  have "panRE (to_upper (trim_space ''abcde1234f''))" "panRE (to_upper (trim_space '' ZZZZZ9234F ''))"
    "drop 6 (to_upper (trim_space ''abcde1234f'')) = drop 6 (to_upper (trim_space '' ZZZZZ9234F ''))"
    by (simp_all add: panRE_def to_upper_def trim_space_def is_space_def is_lower_def is_upper_def
        is_digit_def code_def char_of_def bit_Suc_0_iff)
  from pan_is_masked [OF this] show ?thesis by blast
qed

text \<open>completing Aadhaar verification for a user who already holds the enhanced tier lowers it:
  the KYC record keeps \<^verbatim>\<open>enhanced\<close>, and so does the answer, while the wallet drops to the full tier
  and its spending limit from 5 lakh to 2 lakh rupees.\<close>

theorem aadhaar_lowers_enhanced_tier:
  assumes "net w = []" "balances w u = Some b" "kyc_records w u = Some k" "kycTier k = KYCEnhanced"
    and "c \<noteq> []" "st \<noteq> []" "exchange c st = Inr assertion" "aaReference assertion \<noteq> []"
  shows "\<exists>k' w' b'. CompleteAadhaar u c st (Some exchange) w = (Inr k', w') \<and> kycTier k' = KYCEnhanced
    \<and> kyc_records w' u = Some k' \<and> balances w' u = Some b' \<and> balKYCTier b' = KYCFull
    \<and> balMonthlyLimitPaise b' = 20000000 \<and> MonthlyLimitForTier (kycTier k') = 50000000"
  using assms by (simp add: CompleteAadhaar_def go_eval)

definition demo_enhanced :: "MockClient wallet" where
  "demo_enhanced = demo_funded\<lparr>kyc_records := [7 \<mapsto> kyc_row 7 KYCEnhanced]\<rparr>"

theorem aadhaar_lowers_enhanced_tier_witness:
  "\<exists>k' w' b'. CompleteAadhaar 7 ''code'' ''state'' (Some (\<lambda>_ _. Inr \<lparr>aaReference = ''ref'', aaDocumentType = ''AADHAAR''\<rparr>))
      demo_enhanced = (Inr k', w') \<and> kycTier k' = KYCEnhanced \<and> balances w' 7 = Some b' \<and> balKYCTier b' = KYCFull"
proof -
  have "net demo_enhanced = []" "balances demo_enhanced 7 = Some (demo_balance 7 ''acc-7'' 5000)"
    "kyc_records demo_enhanced 7 = Some (kyc_row 7 KYCEnhanced)" "kycTier (kyc_row 7 KYCEnhanced) = KYCEnhanced"
    by (simp_all add: demo_enhanced_def go_eval)
  from aadhaar_lowers_enhanced_tier [OF this, of "''code''" "''state''"
      "\<lambda>_ _. Inr \<lparr>aaReference = ''ref'', aaDocumentType = ''AADHAAR''\<rparr>" "\<lparr>aaReference = ''ref'', aaDocumentType = ''AADHAAR''\<rparr>"]
  show ?thesis by auto
qed

section \<open>Telephone numbers\<close>

text \<open>normalising a mobile number written with spaces and dashes anywhere and the prefix +91,
  0091, 0 or none yields its ten digits, a form the service accepts and normalises no
  further. (A number written 91 without the plus keeps its prefix.)\<close>

theorem normalise_phone:
  assumes "mobile10 m" "remove_char (CHR ''-'') (remove_char (CHR '' '') raw) = p @ m"
    and "p \<in> {[], ''+91'', ''0091'', ''0''}" "raw \<noteq> []"
  shows "normalisePhone raw = m \<and> indianPhoneRE (normalisePhone raw) \<and> normalisePhone m = m"
proof -
  obtain d ds where m: "m = d # ds" "d \<in> set ''6789''" "list_all is_digit m" "length m = 10"
    using assms(1) by (cases m) (auto simp: mobile10_def)
  have "list_all (\<lambda>c. c \<noteq> CHR '' '' \<and> c \<noteq> CHR ''-'') m"
    using m(3) by (auto simp: list_all_iff is_digit_def code_def)
  then have clean: "remove_char (CHR '' '') m = m" "remove_char (CHR ''-'') m = m"
    by (simp_all add: remove_char_def list_all_iff filter_id_conv)
  have nop: "\<not> has_prefix m ''+91''" "\<not> has_prefix m ''0091''" "\<not> has_prefix m ''0''"
    using m(1,2) by (auto simp: has_prefix_def)
  have 1: "normalisePhone m = m"
    using assms(1) by (auto simp: normalisePhone_def Let_def clean trim_prefix_def nop mobile10_def)
  have 2: "normalisePhone raw = m"
    using assms(2-4) nop
    by (auto simp: normalisePhone_def Let_def trim_prefix_def has_prefix_def m(1))
  show ?thesis using 1 2 assms(1) by (simp add: indianPhoneRE_def has_prefix_def)
qed

theorem normalise_phone_witness: "normalisePhone ''+91 98765-43210'' = ''9876543210''"
proof -
  have "mobile10 ''9876543210''" by (simp add: mobile10_def is_digit_def code_def)
  moreover have "remove_char (CHR ''-'') (remove_char (CHR '' '') ''+91 98765-43210'') = ''+91'' @ ''9876543210''"
    by (simp add: remove_char_def)
  ultimately show ?thesis using normalise_phone by blast
qed

end
