(* ===== verification/Wallet_Listing.thy ===== *)
theory Wallet_Listing
  imports Wallet_Behaviour "HOL-Library.Multiset"
begin

text \<open>
  Three operations that walk over many rows or build text: the history pages of
  \<^verbatim>\<open>ListTransactions\<close>, the expirer of \<^verbatim>\<open>ExpireStaleTopUps\<close>, and the UPI link of
  \<^verbatim>\<open>buildUPIIntentURL\<close>.
\<close>

section \<open>History pages\<close>

text \<open>A client that follows the cursor until it is empty, at most \<open>k\<close> pages.\<close>

fun follow_pages ::
  "nat \<Rightarrow> codec \<Rightarrow> uuid \<Rightarrow> string \<Rightarrow> string \<Rightarrow> int \<Rightarrow> string \<Rightarrow> ('b wallet, Transaction list) io" where
  "follow_pages 0 cd u ty dir sz cursor = fail (Errorf ''too many pages'')"
| "follow_pages (Suc k) cd u ty dir sz cursor =
     andThen (ListHistory cd u \<lparr>hfType = ty, hfDirection = dir, hfCursor = cursor, hfLimit = sz\<rparr>) (\<lambda>pg.
       if hpNextCursor pg = [] then ok (hpItems pg)
       else andThen (follow_pages k cd u ty dir sz (hpNextCursor pg)) (\<lambda>rest. ok (hpItems pg @ rest)))"

abbreviation newest_first :: "Transaction list \<Rightarrow> bool" where
  "newest_first rows \<equiv> sorted_wrt (\<lambda>x y. txCreatedAt y < txCreatedAt x) rows"

lemma newest_first_rows:
  assumes "distinct (map txCreatedAt (ListTransactions_rows u ty dir before ts))"
  shows "newest_first (ListTransactions_rows u ty dir before ts)"
proof -
  let ?rs = "ListTransactions_rows u ty dir before ts"
  have "sorted (map (\<lambda>t. - txCreatedAt t) ?rs)" by (simp add: ListTransactions_rows_def)
  moreover have "distinct (map (\<lambda>t. - txCreatedAt t) ?rs)"
    using assms by (simp add: distinct_map inj_on_def)
  ultimately have "sorted_wrt (<) (map (\<lambda>t. - txCreatedAt t) ?rs)"
    by (simp add: strict_sorted_iff)
  then show ?thesis by (simp add: sorted_wrt_map)
qed

text \<open>What comes before the last row of a page is what that page left out.\<close>

lemma rows_after:
  assumes "newest_first rows" "0 < n" "n \<le> length rows"
  shows "filter (\<lambda>t. txCreatedAt t < txCreatedAt (rows ! (n - 1))) rows = drop n rows"
proof -
  have "take n rows = take (n - 1) rows @ [rows ! (n - 1)]"
    using assms(2,3) by (cases n) (auto simp: take_Suc_conv_app_nth)
  then have rows: "rows = take (n - 1) rows @ rows ! (n - 1) # drop n rows"
    by (metis append_Cons append_Nil append_assoc append_take_drop_id)
  have sw: "newest_first (take (n - 1) rows @ rows ! (n - 1) # drop n rows)"
    using assms(1) rows by simp
  have "filter (\<lambda>t. txCreatedAt t < txCreatedAt (rows ! (n - 1))) (take (n - 1) rows @ rows ! (n - 1) # drop n rows)
      = drop n rows"
    using sw by (auto simp: sorted_wrt_append filter_empty_conv filter_id_conv dest: less_asym')
  with rows show ?thesis by simp
qed

lemma rows_before:
  "ListTransactions_rows u ty dir (Some c) ts
     = filter (\<lambda>t. txCreatedAt t < c) (ListTransactions_rows u ty dir None ts)"
  unfolding ListTransactions_rows_def filter_sort filter_filter
  by (rule arg_cong [where f = "sort_key _"], rule filter_cong) auto

lemma rows_before_trans:
  "c \<le> d \<Longrightarrow> ListTransactions_rows u ty dir (Some c) ts
     = filter (\<lambda>t. txCreatedAt t < c) (ListTransactions_rows u ty dir (Some d) ts)"
  by (auto simp: rows_before intro: filter_cong)

lemma ListHistory_quiet:
  fixes u :: uuid and ty dir :: string
  assumes "net w = []" "1 \<le> sz" "sz \<le> 100" "cursor = [] \<and> before = None \<or> cursor \<noteq> [] \<and> parseTime cd cursor = before \<and> before \<noteq> None"
  defines "rows \<equiv> ListTransactions_rows u ty dir before (transactions w)"
  shows "ListHistory cd u \<lparr>hfType = ty, hfDirection = dir, hfCursor = cursor, hfLimit = sz\<rparr> w
    = (Inr \<lparr>hpItems = map scanTransaction (take (nat sz) rows),
        hpNextCursor = (if length rows > nat sz then formatTime cd (txCreatedAt (rows ! (nat sz - 1))) else [])\<rparr>, w)"
proof -
  let ?n = "nat sz" and ?out = "map scanTransaction (take (nat sz + 1) rows)"
  have out: "take ?n ?out = map scanTransaction (take ?n rows)" "(length ?out > ?n) = (length rows > ?n)"
    "length rows > ?n \<Longrightarrow> txCreatedAt (?out ! (?n - 1)) = txCreatedAt (rows ! (?n - 1))"
    "\<not> length rows > ?n \<Longrightarrow> ?out = map scanTransaction (take ?n rows)"
    using assms(2) by (auto simp: take_map scanTransaction_def)
  have cur: "(if cursor = [] then ok None
      else (case parseTime cd cursor of
              None \<Rightarrow> fail (Wrap ''invalid cursor'' (Errorf ''parsing time''))
            | Some c \<Rightarrow> ok (Some c))) w = (Inr before, w)"
    using assms(4) by (auto simp: ok_def)
  have lim: "page_limit sz = sz" using assms(2,3) by (simp add: page_limit_def)
  have "store_ListTransactions cd u ty dir cursor sz w
      = (if length ?out > ?n then ok (take ?n ?out, formatTime cd (txCreatedAt (?out ! (?n - 1)))) else ok (?out, [])) w"
    unfolding store_ListTransactions_def lim Let_def
    by (subst andThen_def, subst cur) (simp add: andThen_def wrapErr_def get_def assms(1) rows_def)
  then show ?thesis
    using out by (auto simp: ListHistory_def andThen_def wrapErr_def ok_def)
qed

text \<open>Rows by time, ties in any order; a walk over them that may pass over ties.\<close>

abbreviation by_time :: "Transaction list \<Rightarrow> bool" where
  "by_time rows \<equiv> sorted_wrt (\<lambda>x y. txCreatedAt y \<le> txCreatedAt x) rows"

definition walks :: "Transaction list \<Rightarrow> Transaction list \<Rightarrow> bool" where
  "walks rows got \<longleftrightarrow> by_time got \<and> mset got \<subseteq># mset rows
     \<and> (\<forall>t \<in> set rows. \<exists>t' \<in> set got. txCreatedAt t' = txCreatedAt t) \<and> (newest_first rows \<longrightarrow> got = rows)"

lemma by_time_rows: "by_time (ListTransactions_rows u ty dir before ts)"
proof -
  have "sorted (map (\<lambda>t. - txCreatedAt t) (ListTransactions_rows u ty dir before ts))"
    by (simp add: ListTransactions_rows_def)
  then show ?thesis by (simp add: sorted_wrt_map)
qed

lemma walks_refl: "by_time rows \<Longrightarrow> walks rows rows"
  by (auto simp: walks_def)

text \<open>One page, then a walk over the rows older than its last.\<close>

lemma walks_page:
  assumes "by_time rows" "0 < n" "n \<le> length rows"
  defines "c \<equiv> txCreatedAt (rows ! (n - 1))"
  assumes "walks (filter (\<lambda>t. txCreatedAt t < c) rows) got"
  shows "walks rows (take n rows @ got)"
proof -
  let ?old = "filter (\<lambda>t. txCreatedAt t < c) rows"
  have got: "by_time got" "mset got \<subseteq># mset ?old" "\<forall>t \<in> set ?old. \<exists>t' \<in> set got. txCreatedAt t' = txCreatedAt t"
    "newest_first ?old \<longrightarrow> got = ?old"
    using assms(5) unfolding walks_def by simp_all
  have last: "rows ! (n - 1) \<in> set (take n rows)"
    using assms(2,3) by (auto simp: in_set_conv_nth intro!: exI [of _ "n - 1"])
  have page: "c \<le> txCreatedAt t" if t: "t \<in> set (take n rows)" for t
  proof -
    obtain i where i: "i < n" "t = rows ! i" using t assms(3) by (auto simp: in_set_conv_nth)
    then have "i \<le> n - 1" "n - 1 < length rows" using assms(2,3) by simp_all
    with sorted_wrt_nth_less [OF assms(1), of i "n - 1"] i(2) show ?thesis
      unfolding c_def by (cases "i = n - 1") auto
  qed
  have rest: "txCreatedAt t \<le> c" if "t \<in> set (drop n rows)" for t
  proof -
    have "by_time (take n rows @ drop n rows)" using assms(1) by simp
    then have "\<forall>x \<in> set (take n rows). \<forall>y \<in> set (drop n rows). txCreatedAt y \<le> txCreatedAt x"
      unfolding sorted_wrt_append by blast
    with last that show ?thesis unfolding c_def by blast
  qed
  have "filter (\<lambda>t. txCreatedAt t < c) (take n rows) = []"
    using page by (auto simp: filter_empty_conv not_less)
  moreover have "?old = filter (\<lambda>t. txCreatedAt t < c) (take n rows) @ filter (\<lambda>t. txCreatedAt t < c) (drop n rows)"
    by (metis append_take_drop_id filter_append)
  ultimately have old: "?old = filter (\<lambda>t. txCreatedAt t < c) (drop n rows)" by simp
  have "set got \<subseteq> set ?old" using got(2) by (metis mset_subset_eqD set_mset_mset subsetI)
  then have below: "\<forall>y \<in> set got. txCreatedAt y < c" by auto
  have "by_time (take n rows @ got)"
    using assms(1) got(1) page below by (fastforce simp: sorted_wrt_append intro: sorted_wrt_take)
  moreover have "mset (take n rows @ got) \<subseteq># mset rows"
  proof -
    have "mset got \<subseteq># mset (drop n rows)"
      using got(2) unfolding old by (metis mset_filter multiset_filter_subset subset_mset.order_trans)
    then have "mset (take n rows) + mset got \<subseteq># mset (take n rows) + mset (drop n rows)" by simp
    also have "\<dots> = mset rows" by (metis append_take_drop_id mset_append)
    finally show ?thesis by simp
  qed
  moreover have "\<exists>t' \<in> set (take n rows @ got). txCreatedAt t' = txCreatedAt t" if "t \<in> set rows" for t
  proof (cases "t \<in> set (take n rows)")
    case False
    with that have "t \<in> set (drop n rows)" by (metis append_take_drop_id Un_iff set_append)
    with rest have "txCreatedAt t = c \<or> t \<in> set ?old" using that by force
    with got(3) last show ?thesis unfolding c_def by force
  qed auto
  moreover have "take n rows @ got = rows" if "newest_first rows"
  proof -
    have "?old = drop n rows" unfolding c_def by (rule rows_after [OF that assms(2,3)])
    with got(4) sorted_wrt_drop [OF that] show ?thesis by simp
  qed
  ultimately show ?thesis unfolding walks_def by blast
qed

lemma follow_pages_from:
  assumes "net w = []" "1 \<le> sz" "sz \<le> 100"
    and "\<forall>t \<in> set (transactions w). parseTime cd (formatTime cd (txCreatedAt t)) = Some (txCreatedAt t) \<and> formatTime cd (txCreatedAt t) \<noteq> []"
    and "cursor = [] \<and> before = None \<or> cursor \<noteq> [] \<and> parseTime cd cursor = before \<and> before \<noteq> None"
    and "length (ListTransactions_rows u ty dir before (transactions w)) < k"
  shows "\<exists>got. follow_pages k cd u ty dir sz cursor w = (Inr (map scanTransaction got), w)
    \<and> walks (ListTransactions_rows u ty dir before (transactions w)) got"
  using assms(5,6)
proof (induction k arbitrary: cursor before)
  case (Suc k)
  let ?rows = "ListTransactions_rows u ty dir before (transactions w)" and ?n = "nat sz"
  note page = ListHistory_quiet [OF assms(1-3) Suc.prems(1), of u ty dir]
  show ?case
  proof (cases "length ?rows > ?n")
    case False
    then show ?thesis
      by (intro exI [of _ ?rows]) (simp add: page andThen_def ok_def walks_refl by_time_rows)
  next
    case True
    let ?c = "txCreatedAt (?rows ! (?n - 1))"
    have in_rows: "?rows ! (?n - 1) \<in> set ?rows" using True by simp
    then have "?rows ! (?n - 1) \<in> set (transactions w)" by (auto simp: ListTransactions_rows_def)
    with assms(4) have cd: "parseTime cd (formatTime cd ?c) = Some ?c" "formatTime cd ?c \<noteq> []" by blast+
    have next_rows: "ListTransactions_rows u ty dir (Some ?c) (transactions w) = filter (\<lambda>t. txCreatedAt t < ?c) ?rows"
    proof (cases before)
      case None
      then show ?thesis by (simp add: rows_before)
    next
      case (Some d)
      have "?c < d" using in_rows by (simp add: Some ListTransactions_rows_def)
      then show ?thesis using rows_before_trans [of ?c d u ty dir] by (simp add: Some)
    qed
    have "length (filter (\<lambda>t. txCreatedAt t < ?c) ?rows) < length ?rows"
      using in_rows by (rule length_filter_less) simp
    then have "length (filter (\<lambda>t. txCreatedAt t < ?c) ?rows) < k" using Suc.prems(2) by simp
    with Suc.IH [of "formatTime cd ?c" "Some ?c", unfolded next_rows] cd obtain got where got:
      "follow_pages k cd u ty dir sz (formatTime cd ?c) w = (Inr (map scanTransaction got), w)"
      "walks (filter (\<lambda>t. txCreatedAt t < ?c) ?rows) got" by blast
    have "walks ?rows (take ?n ?rows @ got)"
      by (rule walks_page [OF by_time_rows _ _ got(2)]) (use True assms(2) in auto)
    with got(1) cd(2) True show ?thesis
      by (intro exI [of _ "take ?n ?rows @ got"]) (simp add: page andThen_def ok_def)
  qed
qed simp

text \<open>What a walk is to return.\<close>

definition matching :: "uuid \<Rightarrow> string \<Rightarrow> string \<Rightarrow> Transaction list \<Rightarrow> Transaction list" where
  "matching u ty dir = filter (\<lambda>t. txUserID t = u \<and> (ty \<noteq> [] \<longrightarrow> txType t = ty) \<and> (dir \<noteq> [] \<longrightarrow> txDirection t = dir))"

text \<open>C34: following the cursor from the first page ends, whatever the page size, having returned
  only transactions of the user that pass the filter, the newest first and none more often than it is
  stored. Of the times at which such a transaction was created each is among the rows returned; when
  no two of these transactions were created at the same instant, all of them are returned, each exactly
  once. (The cursor is a bare timestamp: rows that share the instant of the last row of a page are
  passed over.) The time codec must round-trip, on the times stored in the table only.\<close>

theorem pages_are_complete:
  assumes "net w = []" "1 \<le> sz" "sz \<le> 100"
    and "\<forall>t \<in> set (transactions w). parseTime cd (formatTime cd (txCreatedAt t)) = Some (txCreatedAt t)
      \<and> formatTime cd (txCreatedAt t) \<noteq> []"
  shows "\<exists>rows. follow_pages (Suc (length (transactions w))) cd u ty dir sz [] w = (Inr (map scanTransaction rows), w)
    \<and> sorted_wrt (\<lambda>x y. txCreatedAt y \<le> txCreatedAt x) rows \<and> mset rows \<subseteq># mset (matching u ty dir (transactions w))
    \<and> txCreatedAt ` set rows = txCreatedAt ` set (matching u ty dir (transactions w))
    \<and> (distinct (map txCreatedAt (matching u ty dir (transactions w))) \<longrightarrow> mset rows = mset (matching u ty dir (transactions w)))"
proof -
  let ?matching = "matching u ty dir (transactions w)"
  let ?rows = "ListTransactions_rows u ty dir None (transactions w)"
  have "length ?rows < Suc (length (transactions w))"
    by (simp add: ListTransactions_rows_def less_Suc_eq_le)
  from follow_pages_from [OF assms(1-4) _ this] obtain got where got:
    "follow_pages (Suc (length (transactions w))) cd u ty dir sz [] w = (Inr (map scanTransaction got), w)" "walks ?rows got"
    by blast
  have m: "mset ?rows = mset ?matching"
    unfolding ListTransactions_rows_def matching_def by (simp add: mset_sort)
  then have sets: "set ?rows = set ?matching" by (metis set_mset_mset)
  have sub: "set got \<subseteq> set ?matching"
    using got(2) m unfolding walks_def by (metis mset_subset_eqD set_mset_mset subsetI)
  have times: "txCreatedAt ` set got = txCreatedAt ` set ?matching"
  proof (intro equalityI subsetI)
    show "x \<in> txCreatedAt ` set ?matching" if "x \<in> txCreatedAt ` set got" for x
      using that sub by blast
    show "x \<in> txCreatedAt ` set got" if x: "x \<in> txCreatedAt ` set ?matching" for x
    proof -
      obtain t where t: "t \<in> set ?rows" "x = txCreatedAt t" using x unfolding sets by blast
      then obtain t' where "t' \<in> set got" "txCreatedAt t' = x" using got(2) unfolding walks_def by blast
      then show ?thesis by (metis imageI)
    qed
  qed
  have all: "mset got = mset ?matching" if "distinct (map txCreatedAt ?matching)"
  proof -
    have "mset (map txCreatedAt ?rows) = mset (map txCreatedAt ?matching)" using m by simp
    with that have "distinct (map txCreatedAt ?rows)" using mset_eq_imp_distinct_iff by blast
    with newest_first_rows got(2) m show ?thesis unfolding walks_def by auto
  qed
  have "by_time got" "mset got \<subseteq># mset ?matching" using got(2) m unfolding walks_def by simp_all
  with got(1) times all show ?thesis by blast
qed

text \<open>A codec that writes times in unary, and a user with two transactions.\<close>

definition demo_codec :: codec where
  "demo_codec = \<lparr>formatTime = (\<lambda>t. (if t < 0 then ''m'' else ''p'') @ replicate (nat \<bar>t\<bar>) (CHR ''x'')),
     parseTime = (\<lambda>s. if take 1 s = ''m'' then Some (- int (length s - 1)) else Some (int (length s - 1)))\<rparr>"

definition demo_two :: "MockClient wallet" where
  "demo_two = demo_funded\<lparr>transactions := [demo_topup, demo_paid\<lparr>txID := 201, txCreatedAt := 2000\<rparr>]\<rparr>"

theorem pages_are_complete_witness:
  "\<exists>rows. follow_pages 3 demo_codec 7 [] [] 1 [] demo_two = (Inr (map scanTransaction rows), demo_two)
     \<and> sorted_wrt (\<lambda>x y. txCreatedAt y \<le> txCreatedAt x) rows \<and> mset rows = mset (transactions demo_two)"
proof -
  have two: "net demo_two = []" "Suc (length (transactions demo_two)) = 3"
    by (simp_all add: demo_two_def go_eval)
  have codec: "\<forall>t \<in> set (transactions demo_two). parseTime demo_codec (formatTime demo_codec (txCreatedAt t)) = Some (txCreatedAt t)
      \<and> formatTime demo_codec (txCreatedAt t) \<noteq> []"
    by (simp add: demo_codec_def)
  have created: "txCreatedAt demo_topup = 1000" "txUserID demo_topup = 7" "txUserID demo_paid = 7"
    by (simp_all add: demo_topup_def demo_paid_def go_eval)
  have "filter (\<lambda>t. txUserID t = 7) (transactions demo_two) = transactions demo_two"
    "distinct (map txCreatedAt (transactions demo_two))"
    by (simp_all add: demo_two_def created)
  then show ?thesis
    using pages_are_complete [OF two(1) _ _ codec, of 1 7 "[]" "[]"] by (auto simp: two(2) matching_def)
qed

text \<open>Two rows of one instant, a page each: the second is passed over.\<close>

definition demo_tie :: "MockClient wallet" where
  "demo_tie = demo_funded\<lparr>transactions := [demo_topup, demo_paid\<lparr>txID := 201, txCreatedAt := 1000\<rparr>]\<rparr>"

lemma tie_at_page_end_skipped:
  "follow_pages 3 demo_codec 7 [] [] 1 [] demo_tie = (Inr [scanTransaction demo_topup], demo_tie)"
proof -
  have created: "txCreatedAt demo_topup = 1000" "txUserID demo_topup = 7" "txUserID demo_paid = 7"
    by (simp_all add: demo_topup_def demo_paid_def go_eval)
  have quiet: "net demo_tie = []" by (simp add: demo_tie_def go_eval)
  have rows: "ListTransactions_rows 7 [] [] None (transactions demo_tie) = [demo_topup, demo_paid\<lparr>txID := 201, txCreatedAt := 1000\<rparr>]"
    "ListTransactions_rows 7 [] [] (Some 1000) (transactions demo_tie) = []"
    by (simp_all add: ListTransactions_rows_def demo_tie_def created)
  have cd: "formatTime demo_codec 1000 \<noteq> []" "parseTime demo_codec (formatTime demo_codec 1000) = Some 1000"
    by (simp_all add: demo_codec_def)
  have first: "ListHistory demo_codec 7 \<lparr>hfType = [], hfDirection = [], hfCursor = [], hfLimit = 1\<rparr> demo_tie
      = (Inr \<lparr>hpItems = [scanTransaction demo_topup], hpNextCursor = formatTime demo_codec 1000\<rparr>, demo_tie)"
    by (simp add: ListHistory_quiet [OF quiet, where before = None] rows created)
  have second: "ListHistory demo_codec 7 \<lparr>hfType = [], hfDirection = [], hfCursor = formatTime demo_codec 1000, hfLimit = 1\<rparr> demo_tie
      = (Inr \<lparr>hpItems = [], hpNextCursor = []\<rparr>, demo_tie)"
    by (simp add: ListHistory_quiet [OF quiet, where before = "Some 1000"] cd rows)
  show ?thesis
    by (simp add: eval_nat_numeral andThen_def ok_def first second cd(1))
qed

section \<open>The expirer\<close>

definition expire_rows :: "Transaction list \<Rightarrow> int \<Rightarrow> Transaction list \<Rightarrow> Transaction list" where
  "expire_rows stale c ts =
     foldl (\<lambda>ts t. settle_rows (txID t) ''failed'' None (Some ''expired_no_upi_credit'') c ts) ts stale"

lemma expire_one_quiet:
  assumes "net w = []"
  shows "\<exists>m w'. expire_one t n w = (Inr m, w') \<and> net w' = [] \<and> clock w' = clock w \<and>
    transactions w' = settle_rows (txID t) ''failed'' None (Some ''expired_no_upi_credit'') (clock w) (transactions w)"
  using assms
  by (auto simp: expire_one_def go_eval settle_rows_def split: option.splits sum.splits prod.splits if_splits)

lemma expire_loop:
  assumes "net w = []"
  shows "\<exists>m w'. for_each stale expire_one n w = (Inr m, w') \<and> net w' = [] \<and> clock w' = clock w \<and>
    transactions w' = expire_rows stale (clock w) (transactions w)"
  using assms
proof (induction stale arbitrary: n w)
  case (Cons t stale)
  from expire_one_quiet [OF Cons.prems, of t n] obtain m w1 where 1: "expire_one t n w = (Inr m, w1)" "net w1 = []"
    "clock w1 = clock w" "transactions w1 = settle_rows (txID t) ''failed'' None (Some ''expired_no_upi_credit'') (clock w) (transactions w)"
    by blast
  from Cons.IH [OF 1(2), of m] 1 show ?case by (auto simp: andThen_def expire_rows_def)
qed (simp add: ok_def expire_rows_def)

lemma in_settle_rows:
  assumes "x \<in> set (settle_rows i status br fr c ts)"
  shows "x \<in> set ts \<and> \<not> (txID x = i \<and> txStatus x = ''pending'') \<or> txStatus x = status"
proof -
  from assms obtain r where r: "r \<in> set ts" and x: "x = (if txID r = i \<and> txStatus r = ''pending''
      then r\<lparr>txStatus := status, txBankTxnRef := (case br of None \<Rightarrow> txBankTxnRef r | Some r \<Rightarrow> Some r),
        txFailureReason := fr, txSettledAt := Some c\<rparr> else r)"
    unfolding settle_rows_def in_update_rows by blast
  show ?thesis
    using r x by (cases "txID r = i \<and> txStatus r = ''pending''") (simp_all del: de_Morgan_conj)
qed

lemma in_expire_rows:
  "x \<in> set (expire_rows stale c ts) \<Longrightarrow> txStatus x = ''pending'' \<Longrightarrow>
     x \<in> set ts \<and> txID x \<notin> txID ` set stale"
proof (induction stale arbitrary: ts)
  case (Cons t stale)
  then have "x \<in> set (settle_rows (txID t) ''failed'' None (Some ''expired_no_upi_credit'') c ts)"
    "txID x \<notin> txID ` set stale" by (auto simp: expire_rows_def)
  with Cons.prems(2) show ?case using in_settle_rows [of x] by fastforce
qed (simp add: expire_rows_def)

lemma expire_rows_keeps:
  "x \<in> set ts \<Longrightarrow> txID x \<notin> txID ` set stale \<Longrightarrow> x \<in> set (expire_rows stale c ts)"
proof (induction stale arbitrary: ts)
  case (Cons t stale)
  then have "x \<in> set (settle_rows (txID t) ''failed'' None (Some ''expired_no_upi_credit'') c ts)"
    by (auto simp: settle_rows_def in_update_rows)
  with Cons show ?case by (auto simp: expire_rows_def)
qed (simp add: expire_rows_def)

definition is_stale :: "int \<Rightarrow> Transaction \<Rightarrow> bool" where
  "is_stale cutoff t \<longleftrightarrow> txType t = ''top_up'' \<and> txStatus t = ''pending'' \<and> txCreatedAt t < cutoff"

lemma stale_topups_all:
  "length (filter (is_stale c) ts) \<le> 200 \<Longrightarrow>
     txID ` set (stale_topups c 200 ts) = txID ` {t \<in> set ts. is_stale c t}"
proof -
  assume "length (filter (is_stale c) ts) \<le> 200"
  then have "take 200 (sort_key txCreatedAt (filter (is_stale c) ts)) = sort_key txCreatedAt (filter (is_stale c) ts)"
    by (intro take_all) simp
  moreover have "stale_topups c 200 ts = map scanTransaction (take 200 (sort_key txCreatedAt (filter (is_stale c) ts)))"
    by (simp add: stale_topups_def is_stale_def [abs_def])
  ultimately show ?thesis by (auto simp: image_image scanTransaction_def)
qed

text \<open>one run of the expirer with a quiet network marks every stale top-up failed, provided
  there are at most 200 (the batch size): afterwards no pending top-up older than the cutoff is
  left, and every row that was not stale is untouched.\<close>

theorem expirer_clears_stale:
  assumes "net w = []" "distinct (map txID (transactions w))"
    and "length (filter (is_stale (clock w - seconds_us (TopUpExpirySeconds (svCfg sv)))) (transactions w)) \<le> 200"
  shows "\<exists>n w'. ExpireStaleTopUps sv w = (Inr n, w')
    \<and> (\<forall>t \<in> set (transactions w'). \<not> is_stale (clock w - seconds_us (TopUpExpirySeconds (svCfg sv))) t)
    \<and> (\<forall>t \<in> set (transactions w). is_stale (clock w - seconds_us (TopUpExpirySeconds (svCfg sv))) t
         \<or> t \<in> set (transactions w'))"
proof -
  let ?c = "clock w - seconds_us (TopUpExpirySeconds (svCfg sv))"
  let ?st = "stale_topups ?c 200 (transactions w)"
  from expire_loop [OF assms(1), of ?st 0] obtain n w' where loop: "for_each ?st expire_one 0 w = (Inr n, w')"
    "transactions w' = expire_rows ?st (clock w) (transactions w)" by blast
  have ids: "txID ` set ?st = txID ` {t \<in> set (transactions w). is_stale ?c t}"
    by (rule stale_topups_all [OF assms(3)])
  have "ExpireStaleTopUps sv w = (Inr n, w')"
    using assms(1) loop(1) by (simp add: ExpireStaleTopUps_def ListPendingTopUpsOlderThan_def go_simps Let_def)
  moreover have "\<not> is_stale ?c t" if "t \<in> set (transactions w')" for t
    using in_expire_rows [of t ?st] that ids loop(2) by (auto simp: is_stale_def)
  moreover have "is_stale ?c t \<or> t \<in> set (transactions w')" if "t \<in> set (transactions w)" for t
  proof (cases "txID t \<in> txID ` set ?st")
    case True
    with ids obtain s where s: "s \<in> set (transactions w)" "is_stale ?c s" "txID s = txID t" by auto
    have "inj_on txID (set (transactions w))" using assms(2) by (simp add: distinct_map)
    with s that have "s = t" by (metis inj_onD)
    with s(2) show ?thesis by simp
  next
    case False
    then show ?thesis using expire_rows_keeps [OF that] loop(2) by simp
  qed
  ultimately show ?thesis by blast
qed

definition demo_late :: "MockClient wallet" where
  "demo_late = (demo_topups demo_topup)\<lparr>clock := 10000000000\<rparr>"

theorem expirer_clears_stale_witness:
  "\<exists>n w'. ExpireStaleTopUps demo_sv demo_late = (Inr n, w') \<and> is_stale 8200000000 demo_topup
    \<and> (\<forall>t \<in> set (transactions w'). \<not> is_stale 8200000000 t)"
proof -
  have late: "net demo_late = []" "transactions demo_late = [demo_topup]"
    and cut: "clock demo_late - seconds_us (TopUpExpirySeconds (svCfg demo_sv)) = 8200000000"
    by (simp_all add: demo_late_def demo_topups_def go_eval)
  have "is_stale 8200000000 demo_topup" by (simp add: is_stale_def demo_topup_def go_eval)
  with expirer_clears_stale [of demo_late demo_sv] late show ?thesis by (auto simp: cut)
qed

section \<open>The UPI link\<close>

lemma query_escape_id: "list_all unreserved s \<Longrightarrow> query_escape s = s"
  by (induction s) (auto simp: query_escape_def)

lemma unreserved_digit_char: "d < 16 \<Longrightarrow> unreserved (digit_char d)"
  by (auto simp: unreserved_def digit_char_def is_digit_def is_lower_def code_def)

lemma unreserved_show_nat: "list_all unreserved (show_nat n)"
  by (induction n rule: show_nat.induct) (subst show_nat.simps, auto intro: unreserved_digit_char)

lemma unreserved_two_digits: "list_all unreserved (two_digits n)"
  unfolding two_digits_def
  by (auto simp: unreserved_show_nat nat_less_iff intro!: unreserved_digit_char) (auto simp: unreserved_def)

lemma unreserved_hex: "list_all unreserved (hex_digits k n)"
  by (induction k arbitrary: n) (auto intro: unreserved_digit_char)

lemma unreserved_uuid_string: "list_all unreserved (uuid_string u)"
  using unreserved_hex [of 32 "unat u"]
  by (auto simp: uuid_string_def Let_def list_all_iff dest!: in_set_takeD in_set_dropD) (auto simp: unreserved_def)

text \<open>the UPI link names exactly the amount of the top-up, in rupees with two decimals, for
  every amount below 2^52 paise (45 trillion rupees), although it is computed in double
  precision, and the transaction's identifier as its note.\<close>

theorem upi_link_exact:
  assumes "0 \<le> a" "a < 2 ^ 52"
  shows "buildUPIIntentURL vpa name a i = ''upi://pay?am='' @ show_nat (nat (a div 100)) @ ''.''
     @ [digit_char (nat (a div 10 mod 10)), digit_char (nat (a mod 10))]
     @ ''&cu=INR&pa='' @ query_escape vpa @ ''&pn='' @ query_escape name @ ''&tn='' @ uuid_string i"
proof -
  have lit: "query_escape s = s" if "s \<in> {''am'', ''cu'', ''pa'', ''pn'', ''tn'', ''INR''}" for s
    using that by (auto intro!: query_escape_id simp: unreserved_def is_lower_def is_upper_def code_def)
  show ?thesis
    unfolding buildUPIIntentURL_def paise_as_rupees_exact [OF assms]
    by (simp add: lit query_escape_id [OF unreserved_two_digits] query_escape_id [OF unreserved_uuid_string])
      (simp add: two_digits_def)
qed

theorem upi_link_exact_witness:
  "\<forall>i. buildUPIIntentURL ''v'' ''n'' 2999 i = ''upi://pay?am=29.99&cu=INR&pa=v&pn=n&tn='' @ uuid_string i"
proof
  fix i :: uuid
  show "buildUPIIntentURL ''v'' ''n'' 2999 i = ''upi://pay?am=29.99&cu=INR&pa=v&pn=n&tn='' @ uuid_string i"
    using upi_link_exact [of 2999 "''v''" "''n''" i]
    by (simp add: show_nat.simps digit_char_def query_escape_def unreserved_def is_lower_def code_def char_of_def bit_Suc_0_iff)
qed

end
