(* ===== verification/Go_Crypto.thy ===== *)
theory Go_Crypto
  imports Go_Strings "HOL-Library.Word"
begin

text \<open>
  The functions of \<^verbatim>\<open>crypto/sha256\<close>, \<^verbatim>\<open>crypto/hmac\<close>, \<^verbatim>\<open>encoding/hex\<close> and
  \<^verbatim>\<open>encoding/base64\<close> that the services use, on byte strings.
\<close>

unbundle bit_operations_syntax

section \<open>SHA-256\<close>

type_synonym u32 = "32 word"

text \<open>
  The constants of the hash are the first 32 bits after the binary point of the cube roots (for the
  rounds) and the square roots (for the initial value) of the first primes.  They are computed here
  from that description: the scaled integer root is taken bit by bit, and the conversion to a word
  drops its integer part.
\<close>

definition primes_below :: "nat \<Rightarrow> nat list" where
  "primes_below n = filter (\<lambda>p. \<forall>d \<in> set [2..<p]. p mod d \<noteq> 0) [2..<n]"

definition root_floor :: "nat \<Rightarrow> nat \<Rightarrow> nat" where
  "root_floor k n = foldl (\<lambda>r i. if (r + 2 ^ i) ^ k \<le> n then r + 2 ^ i else r) 0 (rev [0..<40])"

definition root_word :: "nat \<Rightarrow> nat \<Rightarrow> u32" where
  "root_word k p = of_nat (root_floor k (p * 2 ^ (32 * k)))"

definition sha_k :: "u32 list" where
  "sha_k = map (root_word 3) (primes_below 312)"

definition sha_init :: "u32 list" where
  "sha_init = map (root_word 2) (primes_below 20)"

definition rotr :: "nat \<Rightarrow> u32 \<Rightarrow> u32" where
  "rotr n x = drop_bit n x OR push_bit (32 - n) x"

text \<open>Padding to whole blocks of 64 bytes, and the big-endian words of a byte list.\<close>

definition sha_pad :: "nat list \<Rightarrow> nat list" where
  "sha_pad bs =
     (let n = length bs; z = (119 - n mod 64) mod 64
      in bs @ 128 # replicate z 0 @ map (\<lambda>i. (8 * n) div 256 ^ (7 - i) mod 256) [0..<8])"

fun be_words :: "nat list \<Rightarrow> u32 list" where
  "be_words (a # b # c # d # bs) = of_nat (((a * 256 + b) * 256 + c) * 256 + d) # be_words bs"
| "be_words _ = []"

text \<open>The message schedule, kept with its latest word first.\<close>

definition sha_next :: "u32 list \<Rightarrow> u32" where
  "sha_next rw =
     (let w2 = rw ! 1; w7 = rw ! 6; w15 = rw ! 14; w16 = rw ! 15;
          s0 = rotr 7 w15 XOR rotr 18 w15 XOR drop_bit 3 w15;
          s1 = rotr 17 w2 XOR rotr 19 w2 XOR drop_bit 10 w2
      in w16 + s0 + w7 + s1)"

fun sha_extend :: "nat \<Rightarrow> u32 list \<Rightarrow> u32 list" where
  "sha_extend 0 rw = rw"
| "sha_extend (Suc n) rw = sha_extend n (sha_next rw # rw)"

definition sha_round :: "u32 list \<Rightarrow> u32 \<times> u32 \<Rightarrow> u32 list" where
  "sha_round h kw = (case h of
     [a, b, c, d, e, f, g, h8] \<Rightarrow>
       let s1 = rotr 6 e XOR rotr 11 e XOR rotr 25 e;
           ch = (e AND f) XOR (NOT e AND g);
           t1 = h8 + s1 + ch + fst kw + snd kw;
           s0 = rotr 2 a XOR rotr 13 a XOR rotr 22 a;
           maj = (a AND b) XOR (a AND c) XOR (b AND c)
       in [t1 + s0 + maj, a, b, c, d + t1, e, f, g]
   | _ \<Rightarrow> h)"

definition sha_block :: "u32 list \<Rightarrow> u32 list \<Rightarrow> u32 list" where
  "sha_block h ws = map2 (+) h (foldl sha_round h (zip sha_k (rev (sha_extend 48 (rev ws)))))"

fun sha_blocks :: "nat \<Rightarrow> u32 list \<Rightarrow> u32 list \<Rightarrow> u32 list" where
  "sha_blocks 0 h ws = h"
| "sha_blocks (Suc n) h ws = sha_blocks n (sha_block h (take 16 ws)) (drop 16 ws)"

definition word_bytes :: "u32 \<Rightarrow> nat list" where
  "word_bytes w = map (\<lambda>i. unat w div 256 ^ (3 - i) mod 256) [0..<4]"

definition sha256 :: "nat list \<Rightarrow> nat list" where
  "sha256 bs =
     (let ws = be_words (sha_pad bs)
      in concat (map word_bytes (sha_blocks (length ws div 16) sha_init ws)))"

section \<open>HMAC-SHA256\<close>

definition hmac_sha256 :: "nat list \<Rightarrow> nat list \<Rightarrow> nat list" where
  "hmac_sha256 key msg =
     (let k0 = (if length key > 64 then sha256 key else key);
          k = k0 @ replicate (64 - length k0) 0
      in sha256 (map (\<lambda>b. b XOR 0x5c) k @ sha256 (map (\<lambda>b. b XOR 0x36) k @ msg)))"

definition bytes_of :: "string \<Rightarrow> nat list" where
  "bytes_of s = map code s"

definition hex_string :: "nat list \<Rightarrow> string" where
  "hex_string bs = concat (map (hex_digits 2) bs)"

definition hmac_hex :: "string \<Rightarrow> string \<Rightarrow> string" where
  "hmac_hex secret body = hex_string (hmac_sha256 (bytes_of secret) (bytes_of body))"

section \<open>Base 64\<close>

definition base64_char :: "nat \<Rightarrow> char" where
  "base64_char n = char_of (if n < 26 then 65 + n else if n < 52 then 71 + n
     else if n < 62 then n - 4 else if n = 62 then 43 else 47)"

fun base64_encode :: "string \<Rightarrow> string" where
  "base64_encode (a # b # c # s) =
     (let n = (code a * 256 + code b) * 256 + code c
      in base64_char (n div 262144) # base64_char (n div 4096 mod 64) # base64_char (n div 64 mod 64)
         # base64_char (n mod 64) # base64_encode s)"
| "base64_encode [a, b] =
     (let n = (code a * 256 + code b) * 4
      in [base64_char (n div 4096), base64_char (n div 64 mod 64), base64_char (n mod 64), CHR ''=''])"
| "base64_encode [a] =
     (let n = code a * 16 in [base64_char (n div 64), base64_char (n mod 64), CHR ''='', CHR ''=''])"
| "base64_encode [] = []"

end
