(* ===== verification/Go_Http.thy ===== *)
theory Go_Http
  imports Postgres Go_Json Go_Crypto
begin

text \<open>
  What the HTTP layers of the services share: requests as \<^verbatim>\<open>gin\<close> hands them to a handler,
  the response envelope of \<^verbatim>\<open>shared/api/response.go\<close>, the internal-key middleware of
  \<^verbatim>\<open>shared/middleware/internal_auth.go\<close>, and an HTTP call from one service to another.

  A request has its headers (names are case-insensitive), path parameters and query values, and
  the outcome of binding its JSON body to the handler's request struct. The parser
  \<^verbatim>\<open>uuid.Parse\<close> of the third-party package is the argument \<open>pu\<close> of the definitions that use it.
\<close>

section \<open>Requests and responses\<close>

record 'b http_request =
  rqHeaders :: "string \<Rightarrow> string" \<comment> \<open>by lower-case name, empty if absent\<close>
  rqParam :: "string \<Rightarrow> string"
  rqQuery :: "string \<Rightarrow> string"
  rqBody :: "goerr + 'b"

definition GetHeader :: "'b http_request \<Rightarrow> string \<Rightarrow> string" where
  "GetHeader rq k = rqHeaders rq (to_lower k)"

record APIError =
  apiCode :: string
  apiMessage :: string

record 'd response =
  rsStatus :: nat
  rsData :: "'d option"
  rsError :: "APIError option"

type_synonym ('w, 'd) handler = "'w \<Rightarrow> 'd response \<times> 'w"

definition JSONWithContext :: "nat \<Rightarrow> 'd \<Rightarrow> 'd response" where
  "JSONWithContext status d = \<lparr>rsStatus = status, rsData = Some d, rsError = None\<rparr>"

definition ErrorWithContext :: "nat \<Rightarrow> string \<Rightarrow> string \<Rightarrow> 'd response" where
  "ErrorWithContext status c msg =
     \<lparr>rsStatus = status, rsData = None, rsError = Some \<lparr>apiCode = c, apiMessage = msg\<rparr>\<rparr>"

text \<open>A step of a handler that either writes an error response, after which the handler
  returns, or delivers a value; and the answer once a response is decided.\<close>

definition bindOr :: "'d response + 'a \<Rightarrow> ('a \<Rightarrow> ('w, 'd) handler) \<Rightarrow> ('w, 'd) handler" where
  "bindOr r k = (\<lambda>w. case r of Inl e \<Rightarrow> (e, w) | Inr x \<Rightarrow> k x w)"

definition answer :: "'d response \<Rightarrow> ('w, 'd) handler" where
  "answer r = (\<lambda>w. (r, w))"

section \<open>Helpers every handler package has\<close>

definition getUserID :: "(string \<Rightarrow> uuid option) \<Rightarrow> 'b http_request \<Rightarrow> 'd response + uuid" where
  "getUserID pu rq =
     (let raw = GetHeader rq ''X-User-ID'';
          raw = (if raw = [] then GetHeader rq ''X-User-Id'' else raw)
      in if raw = [] then Inl (ErrorWithContext 401 ''AUTH_REQUIRED'' ''missing user id'')
         else case pu raw of
           None \<Rightarrow> Inl (ErrorWithContext 400 ''INVALID_ID'' ''invalid user id'')
         | Some i \<Rightarrow> Inr i)"

definition parse_id :: "(string \<Rightarrow> uuid option) \<Rightarrow> string \<Rightarrow> string \<Rightarrow> 'd response + uuid" where
  "parse_id pu raw msg = (case pu raw of
     None \<Rightarrow> Inl (ErrorWithContext 400 ''INVALID_ID'' msg) | Some i \<Rightarrow> Inr i)"

definition parseUUIDParam ::
  "(string \<Rightarrow> uuid option) \<Rightarrow> 'b http_request \<Rightarrow> string \<Rightarrow> 'd response + uuid" where
  "parseUUIDParam pu rq param = parse_id pu (rqParam rq param) (''invalid '' @ param)"

text \<open>\<^verbatim>\<open>if err := c.ShouldBindJSON(&req); err != nil { 400 INVALID_BODY }\<close>\<close>

definition bind_body :: "'b http_request \<Rightarrow> 'd response + 'b" where
  "bind_body rq = (case rqBody rq of
     Inl e \<Rightarrow> Inl (ErrorWithContext 400 ''INVALID_BODY'' (err_msg e)) | Inr b \<Rightarrow> Inr b)"

definition respondServiceError :: "goerr \<Rightarrow> nat \<Rightarrow> string \<Rightarrow> 'd response" where
  "respondServiceError e defaultStatus defaultCode =
     (let msg = err_msg e in
      case cut_prefix msg ''invalid: '' of
        Some detail \<Rightarrow> ErrorWithContext 400 ''INVALID_REQUEST'' detail
      | None \<Rightarrow> (case cut_prefix msg ''forbidden: '' of
          Some detail \<Rightarrow> ErrorWithContext 403 ''FORBIDDEN'' detail
        | None \<Rightarrow> (case cut_prefix msg ''not_found: '' of
            Some detail \<Rightarrow> ErrorWithContext 404 ''NOT_FOUND'' detail
          | None \<Rightarrow> ErrorWithContext defaultStatus defaultCode msg)))"

text \<open>\<^verbatim>\<open>out, err := svc.M(...); if err != nil { respondServiceError(...) }; JSON(status, out)\<close>\<close>

definition respond ::
  "nat \<Rightarrow> ('a \<Rightarrow> 'd) \<Rightarrow> nat \<Rightarrow> string \<Rightarrow> ('w, 'a) io \<Rightarrow> ('w, 'd) handler" where
  "respond okStatus enc errStatus errCode m = (\<lambda>w. case m w of
     (Inl e, w') \<Rightarrow> (respondServiceError e errStatus errCode, w')
   | (Inr x, w') \<Rightarrow> (JSONWithContext okStatus (enc x), w'))"

section \<open>The internal-key middleware\<close>

definition internalKeyHeader :: string where
  "internalKeyHeader = ''X-Internal-Service-Key''"

definition InjectInternalKey :: "string \<Rightarrow> 'b http_request \<Rightarrow> 'b http_request" where
  "InjectInternalKey secret rq = (if secret \<noteq> []
     then rq\<lparr>rqHeaders := (rqHeaders rq)(to_lower internalKeyHeader := secret)\<rparr> else rq)"

text \<open>\<open>None\<close> is the panic at start-up when no secret is configured.\<close>

definition RequireInternalKey ::
  "string \<Rightarrow> ('b http_request \<Rightarrow> ('w, 'd) handler \<Rightarrow> ('w, 'd) handler) option" where
  "RequireInternalKey secret = (if secret = [] then None
     else Some (\<lambda>rq next. if GetHeader rq internalKeyHeader \<noteq> secret
       then answer (ErrorWithContext 401 ''UNAUTHORIZED'' ''internal service key required'')
       else next))"

text \<open>The router's own answer to a path without a handler.\<close>

definition no_route :: "'d response" where
  "no_route = \<lparr>rsStatus = 404, rsData = None, rsError = None\<rparr>"

text \<open>A group of internal routes: registered only when a key is configured, behind the middleware.\<close>

definition internal_group :: "string \<Rightarrow> 'b http_request \<Rightarrow> ('w, 'd) handler \<Rightarrow> ('w, 'd) handler" where
  "internal_group secret rq next = (case RequireInternalKey secret of
     None \<Rightarrow> answer no_route | Some mw \<Rightarrow> mw rq next)"

section \<open>Decimal numbers in query strings\<close>

text \<open>\<^verbatim>\<open>strconv.Atoi\<close>: an optional sign and decimal digits, within 64 bits.\<close>

definition digits_value :: "string \<Rightarrow> int" where
  "digits_value s = foldl (\<lambda>n c. 10 * n + (int (code c) - 48)) 0 s"

definition Atoi :: "string \<Rightarrow> int option" where
  "Atoi s =
     (let neg = has_prefix s ''-'';
          d = (if neg \<or> has_prefix s ''+'' then tl s else s);
          v = (if neg then - digits_value d else digits_value d)
      in if d \<noteq> [] \<and> list_all is_digit d \<and> int64 v then Some v else None)"

section \<open>Calls to other servers\<close>

text \<open>A request of \<^verbatim>\<open>http.Client\<close>, with the headers the code sets and its JSON payload.\<close>

record wire_request =
  wrMethod :: string
  wrURL :: string
  wrHeaders :: "(string \<times> string) list"
  wrPayload :: "json option"

text \<open>What \<^verbatim>\<open>client.Do\<close> and \<^verbatim>\<open>io.ReadAll\<close> deliver: a transport error, a body that breaks off, or
  a status with the body, as text and as the JSON value it parses to.\<close>

datatype http_result = Unreachable string | Broken string | Replied nat string "json option"

text \<open>A server outside the repository is a function from a request and its own state to what the
  client observes, which includes not getting a reply to a request that was executed.
  \<open>srvBuild\<close> is the verdict of \<^verbatim>\<open>http.NewRequest\<close> on the URL.\<close>

record 'p server =
  srvBuild :: "string \<Rightarrow> goerr option"
  srvServe :: "wire_request \<Rightarrow> 'p \<Rightarrow> http_result \<times> 'p"

text \<open>\<^verbatim>\<open>truncate(s, n)\<close>, which every client package has.\<close>

definition truncate_text :: "string \<Rightarrow> nat \<Rightarrow> string" where
  "truncate_text s n = (if length s \<le> n then s else take n s @ ''...'')"

text \<open>One exchange; \<open>labels\<close> are those of the wrapped errors (building the request, sending it,
  reading the body) and \<open>refuse\<close> turns a status and a body into an error or not.\<close>

definition http_exchange ::
  "'p server \<Rightarrow> string \<times> string \<times> string \<Rightarrow> (nat \<Rightarrow> string \<Rightarrow> goerr option) \<Rightarrow> wire_request \<Rightarrow>
     ('p, string \<times> json option) io" where
  "http_exchange srv labels refuse rq = (case srvBuild srv (wrURL rq) of
     Some e \<Rightarrow> fail (Wrap (fst labels) e)
   | None \<Rightarrow> (\<lambda>p. case srvServe srv rq p of (res, p') \<Rightarrow>
       ((case res of
           Unreachable s \<Rightarrow> Inl (Wrap (fst (snd labels)) (Errorf s))
         | Broken s \<Rightarrow> Inl (Wrap (snd (snd labels)) (Errorf s))
         | Replied status txt j \<Rightarrow> (case refuse status txt of Some e \<Rightarrow> Inl e | None \<Rightarrow> Inr (txt, j))), p')))"

text \<open>\<^verbatim>\<open>json.Unmarshal(body, &x)\<close> with the label of its error; \<open>d\<close> decodes the document.\<close>

definition decode_body :: "string \<Rightarrow> (json \<Rightarrow> 'a option) \<Rightarrow> json option \<Rightarrow> ('p, 'a) io" where
  "decode_body lbl d j = (case Option.bind j d of
     None \<Rightarrow> fail (Wrap lbl (Errorf ''json: cannot unmarshal'')) | Some x \<Rightarrow> ok x)"

lemmas go_http_eval [go_eval] =
  GetHeader_def JSONWithContext_def ErrorWithContext_def bindOr_def answer_def getUserID_def parse_id_def
  parseUUIDParam_def bind_body_def respondServiceError_def respond_def RequireInternalKey_def no_route_def
  internal_group_def
  http_exchange_def decode_body_def

lemma respond_state: "snd (respond a f b c m w) = snd (m w)"
  by (simp add: respond_def split: prod.split sum.split)

lemma bindOr_simps [simp]:
  "bindOr (Inl e) k w = (e, w)" "bindOr (Inr x) k w = k x w"
  by (simp_all add: bindOr_def)

lemma answer_apply [simp]: "answer r w = (r, w)"
  by (simp add: answer_def)

lemma keeps_respond: "keeps I m \<Longrightarrow> I w \<Longrightarrow> I (snd (respond a f b c m w))"
  by (simp add: respond_state keepsD)

text \<open>Requests without credentials are answered without running the handler.\<close>

lemma to_lower_user_id: "to_lower ''X-User-Id'' = to_lower ''X-User-ID''"
  by (simp add: to_lower_def is_upper_def code_def char_of_def bit_simps)

lemma getUserID_refuses:
  assumes "GetHeader rq ''X-User-ID'' = [] \<or> pu (GetHeader rq ''X-User-ID'') = None"
  shows "\<exists>r. bindOr (getUserID pu rq) k w = (r, w)
    \<and> (rsStatus r = 400 \<or> rsStatus r = 401 \<or> rsStatus r = 404) \<and> rsData r = None"
  using assms
  by (cases "GetHeader rq ''X-User-ID'' = []")
    (auto simp: getUserID_def GetHeader_def to_lower_user_id ErrorWithContext_def Let_def)

lemma internal_group_refuses:
  "secret = [] \<or> GetHeader rq internalKeyHeader \<noteq> secret \<Longrightarrow>
     \<exists>r. internal_group secret rq next w = (r, w)
       \<and> (rsStatus r = 400 \<or> rsStatus r = 401 \<or> rsStatus r = 404) \<and> rsData r = None"
  by (auto simp: internal_group_def RequireInternalKey_def no_route_def ErrorWithContext_def)

text \<open>Which status an error of the service layer becomes.\<close>

lemma respondServiceError_invalid:
  "has_prefix (err_msg e) ''invalid: '' \<Longrightarrow> rsStatus (respondServiceError e s c) = 400"
  by (simp add: respondServiceError_def cut_prefix_def ErrorWithContext_def Let_def)

lemma respondServiceError_default:
  "\<not> has_prefix (err_msg e) ''invalid: '' \<Longrightarrow> \<not> has_prefix (err_msg e) ''forbidden: '' \<Longrightarrow>
     \<not> has_prefix (err_msg e) ''not_found: '' \<Longrightarrow>
     respondServiceError e s c = ErrorWithContext s c (err_msg e)"
  by (simp add: respondServiceError_def cut_prefix_def Let_def)

end
