(* ===== verification/Wallet_Http.thy ===== *)
theory Wallet_Http
  imports Wallet_Listing Go_Http
begin

text \<open>
  The HTTP layer of wallet-service (\<^verbatim>\<open>internal/http\<close>): one definition per handler, from the
  headers and the bound body to the response, and the routing with its internal-key gate.
\<close>

section \<open>Request bodies and response data\<close>

record internalDebitRequest =
  idrUserID :: string
  idrAmountPaise :: int
  idrMerchantService :: string
  idrMerchantRef :: string
  idrIdempotencyKey :: string

record internalRefundRequest =
  irrOriginalTransactionID :: string
  irrAmountPaise :: int
  irrReason :: string

record topUpRequest =
  turqAmountPaise :: int
  turqIdempotencyKey :: string

record sendRequest =
  wireRecipientUserID :: "string option"
  wireRecipientPhone :: string
  wireAmountPaise :: int
  wireLabel :: string
  wireIdempotencyKey :: string

record balanceResponse =
  brAvailablePaise :: int
  brPendingInPaise :: int
  brPendingOutPaise :: int
  brKYCTier :: string
  brMonthlyLimitPaise :: int
  brIsFrozen :: bool

datatype wallet_data =
    BalanceData Balance
  | BalanceView balanceResponse
  | TopUpData TopUpResult
  | TransactionData Transaction
  | SendData SendResult
  | PageData HistoryPage
  | RecipientsData "Recipient list"
  | KYCData KYCRecord
  | AadhaarData AadhaarStartResult

record 'b Handler =
  hdSvc :: "'b Service"
  hdInternalKey :: string
  hdDigilockerBaseURL :: string
  hdDigilockerRedirect :: string
  hdAadhaarVerifier :: "verifier option"

section \<open>Balance, top-ups and sends\<close>

definition balance_view :: "Balance \<Rightarrow> balanceResponse" where
  "balance_view b = \<lparr>brAvailablePaise = balAvailablePaise b, brPendingInPaise = balPendingInPaise b,
     brPendingOutPaise = balPendingOutPaise b, brKYCTier = balKYCTier b,
     brMonthlyLimitPaise = balMonthlyLimitPaise b, brIsFrozen = balIsFrozen b\<rparr>"

definition http_GetBalance ::
  "'b Handler \<Rightarrow> (string \<Rightarrow> uuid option) \<Rightarrow> unit http_request \<Rightarrow> ('b wallet, wallet_data) handler" where
  "http_GetBalance h pu rq =
     bindOr (getUserID pu rq) (\<lambda>u.
     respond 200 (BalanceView \<circ> balance_view) 500 ''BALANCE_ERROR'' (GetBalance (hdSvc h) u))"

definition key_or_header :: "string \<Rightarrow> 'r http_request \<Rightarrow> string" where
  "key_or_header k rq = (if k = [] then GetHeader rq ''Idempotency-Key'' else k)"

definition PostTopUp ::
  "'b Handler \<Rightarrow> (string \<Rightarrow> uuid option) \<Rightarrow> topUpRequest http_request \<Rightarrow> ('b wallet, wallet_data) handler" where
  "PostTopUp h pu rq =
     bindOr (getUserID pu rq) (\<lambda>u.
     bindOr (bind_body rq) (\<lambda>req.
     respond 200 TopUpData 500 ''TOPUP_FAILED''
       (StartTopUp (hdSvc h) u (turqAmountPaise req) (key_or_header (turqIdempotencyKey req) rq))))"

definition PostConfirmTopUp ::
  "'b Handler \<Rightarrow> (string \<Rightarrow> uuid option) \<Rightarrow> string http_request \<Rightarrow> ('b wallet, wallet_data) handler" where
  "PostConfirmTopUp h pu rq =
     bindOr (getUserID pu rq) (\<lambda>u.
     bindOr (parseUUIDParam pu rq ''id'') (\<lambda>i.
     bindOr (bind_body rq) (\<lambda>upiTxnRef.
     respond 200 TransactionData 500 ''TOPUP_CONFIRM_FAILED'' (ConfirmTopUp (hdSvc h) u i upiTxnRef))))"

definition GetTopUp ::
  "'b Handler \<Rightarrow> (string \<Rightarrow> uuid option) \<Rightarrow> unit http_request \<Rightarrow> ('b wallet, wallet_data) handler" where
  "GetTopUp h pu rq =
     bindOr (getUserID pu rq) (\<lambda>u.
     bindOr (parseUUIDParam pu rq ''id'') (\<lambda>i.
     respond 200 TransactionData 404 ''NOT_FOUND'' (GetTransactionDetail u i)))"

definition PostSend ::
  "'b Handler \<Rightarrow> (string \<Rightarrow> uuid option) \<Rightarrow> sendRequest http_request \<Rightarrow> ('b wallet, wallet_data) handler" where
  "PostSend h pu rq =
     bindOr (getUserID pu rq) (\<lambda>senderID.
     bindOr (bind_body rq) (\<lambda>req.
     bindOr (case wireRecipientUserID req of
        None \<Rightarrow> Inr None
      | Some raw \<Rightarrow> if raw = [] then Inr None
          else (case pu raw of
             None \<Rightarrow> Inl (ErrorWithContext 400 ''INVALID_ID'' ''invalid recipient_user_id'')
           | Some i \<Rightarrow> Inr (Some i))) (\<lambda>rcpt.
     respond 200 SendData 500 ''SEND_FAILED'' (Send (hdSvc h) senderID
       \<lparr>reqRecipientUserID = rcpt, reqRecipientPhone = wireRecipientPhone req,
        reqAmountPaise = wireAmountPaise req, reqLabel = wireLabel req,
        reqIdempotencyKey = key_or_header (wireIdempotencyKey req) rq\<rparr>))))"

section \<open>History\<close>

definition http_ListTransactions ::
  "'b Handler \<Rightarrow> codec \<Rightarrow> (string \<Rightarrow> uuid option) \<Rightarrow> unit http_request \<Rightarrow> ('b wallet, wallet_data) handler" where
  "http_ListTransactions h cd pu rq =
     bindOr (getUserID pu rq) (\<lambda>u.
     let limit = (case Atoi (rqQuery rq ''limit'') of
           Some v \<Rightarrow> if rqQuery rq ''limit'' \<noteq> [] \<and> v > 0 \<and> v \<le> 100 then v else 50
         | None \<Rightarrow> 50)
     in respond 200 PageData 500 ''HISTORY_ERROR'' (ListHistory cd u
          \<lparr>hfType = rqQuery rq ''type'', hfDirection = rqQuery rq ''direction'',
           hfCursor = rqQuery rq ''cursor'', hfLimit = limit\<rparr>))"

definition http_GetTransactionDetail ::
  "'b Handler \<Rightarrow> (string \<Rightarrow> uuid option) \<Rightarrow> unit http_request \<Rightarrow> ('b wallet, wallet_data) handler" where
  "http_GetTransactionDetail h pu rq =
     bindOr (getUserID pu rq) (\<lambda>u.
     bindOr (parseUUIDParam pu rq ''id'') (\<lambda>i.
     respond 200 TransactionData 404 ''NOT_FOUND'' (GetTransactionDetail u i)))"

definition http_ListRecipients ::
  "'b Handler \<Rightarrow> (string \<Rightarrow> uuid option) \<Rightarrow> unit http_request \<Rightarrow> ('b wallet, wallet_data) handler" where
  "http_ListRecipients h pu rq =
     bindOr (getUserID pu rq) (\<lambda>u.
     respond 200 RecipientsData 500 ''RECIPIENTS_ERROR'' (ListFrequentRecipients u))"

section \<open>KYC\<close>

definition http_GetKYC ::
  "'b Handler \<Rightarrow> (string \<Rightarrow> uuid option) \<Rightarrow> unit http_request \<Rightarrow> ('b wallet, wallet_data) handler" where
  "http_GetKYC h pu rq =
     bindOr (getUserID pu rq) (\<lambda>u. respond 200 KYCData 500 ''KYC_ERROR'' (GetKYC u))"

definition digilocker_off :: "'d response" where
  "digilocker_off = ErrorWithContext 503 ''DIGILOCKER_NOT_CONFIGURED'' ''digilocker integration not configured''"

definition http_StartAadhaar ::
  "'b Handler \<Rightarrow> goerr + nat list \<Rightarrow> (string \<Rightarrow> uuid option) \<Rightarrow> unit http_request \<Rightarrow> ('b wallet, wallet_data) handler" where
  "http_StartAadhaar h rand pu rq =
     bindOr (getUserID pu rq) (\<lambda>u.
     if hdDigilockerBaseURL h = [] \<or> hdAadhaarVerifier h = None then answer digilocker_off
     else respond 200 AadhaarData 500 ''KYC_START_FAILED''
       (StartAadhaar rand u (hdDigilockerBaseURL h) (hdDigilockerRedirect h)))"

definition AadhaarCallback ::
  "'b Handler \<Rightarrow> (string \<Rightarrow> uuid option) \<Rightarrow> (string \<times> string) http_request \<Rightarrow> ('b wallet, wallet_data) handler" where
  "AadhaarCallback h pu rq =
     bindOr (getUserID pu rq) (\<lambda>u.
     if hdAadhaarVerifier h = None then answer digilocker_off
     else bindOr (bind_body rq) (\<lambda>(c, state).
       respond 200 KYCData 502 ''DIGILOCKER_FAILED'' (CompleteAadhaar u c state (hdAadhaarVerifier h))))"

definition http_SubmitPAN ::
  "'b Handler \<Rightarrow> (string \<Rightarrow> uuid option) \<Rightarrow> string http_request \<Rightarrow> ('b wallet, wallet_data) handler" where
  "http_SubmitPAN h pu rq =
     bindOr (getUserID pu rq) (\<lambda>u.
     bindOr (bind_body rq) (\<lambda>pan. respond 200 KYCData 400 ''INVALID_PAN'' (SubmitPAN u pan)))"

section \<open>Internal endpoints\<close>

definition InternalDebit ::
  "'b Handler \<Rightarrow> (string \<Rightarrow> uuid option) \<Rightarrow> internalDebitRequest http_request \<Rightarrow> ('b wallet, wallet_data) handler" where
  "InternalDebit h pu rq =
     bindOr (bind_body rq) (\<lambda>req.
     bindOr (parse_id pu (idrUserID req) ''invalid user_id'') (\<lambda>u.
     respond 200 SendData 500 ''DEBIT_FAILED'' (MerchantDebit (hdSvc h) u (idrAmountPaise req)
       (idrMerchantService req) (idrMerchantRef req) (idrIdempotencyKey req))))"

definition InternalRefund ::
  "'b Handler \<Rightarrow> (string \<Rightarrow> uuid option) \<Rightarrow> internalRefundRequest http_request \<Rightarrow> ('b wallet, wallet_data) handler" where
  "InternalRefund h pu rq =
     bindOr (bind_body rq) (\<lambda>req.
     bindOr (parse_id pu (irrOriginalTransactionID req) ''invalid original_transaction_id'') (\<lambda>i.
     respond 200 SendData 500 ''REFUND_FAILED'' (Refund (hdSvc h) i (irrAmountPaise req) (irrReason req))))"

definition InternalBalance ::
  "'b Handler \<Rightarrow> (string \<Rightarrow> uuid option) \<Rightarrow> unit http_request \<Rightarrow> ('b wallet, wallet_data) handler" where
  "InternalBalance h pu rq =
     bindOr (parseUUIDParam pu rq ''user_id'') (\<lambda>u.
     respond 200 BalanceData 500 ''BALANCE_ERROR'' (GetBalance (hdSvc h) u))"

section \<open>Routing\<close>

text \<open>A request, by the route it is for.\<close>

datatype wallet_call =
    GET_balance "unit http_request"
  | POST_top_up "topUpRequest http_request"
  | POST_top_up_confirm "string http_request"
  | GET_top_up "unit http_request"
  | POST_send "sendRequest http_request"
  | GET_transactions "unit http_request"
  | GET_transaction "unit http_request"
  | GET_recipients "unit http_request"
  | GET_kyc "unit http_request"
  | POST_aadhaar_start "goerr + nat list" "unit http_request"
  | POST_aadhaar_callback "(string \<times> string) http_request"
  | POST_pan "string http_request"
  | POST_internal_debit "internalDebitRequest http_request"
  | POST_internal_refund "internalRefundRequest http_request"
  | GET_internal_balance "unit http_request"

text \<open>Internal routes exist only when a key is configured, behind \<^verbatim>\<open>RequireInternalKey\<close>.\<close>

definition gated :: "'b Handler \<Rightarrow> 'r http_request \<Rightarrow> ('w, 'd) handler \<Rightarrow> ('w, 'd) handler" where
  "gated h = internal_group (hdInternalKey h)"

fun RegisterRoutes ::
  "'b Handler \<Rightarrow> codec \<Rightarrow> (string \<Rightarrow> uuid option) \<Rightarrow> wallet_call \<Rightarrow> ('b wallet, wallet_data) handler" where
  "RegisterRoutes h cd pu (GET_balance rq) = http_GetBalance h pu rq"
| "RegisterRoutes h cd pu (POST_top_up rq) = PostTopUp h pu rq"
| "RegisterRoutes h cd pu (POST_top_up_confirm rq) = PostConfirmTopUp h pu rq"
| "RegisterRoutes h cd pu (GET_top_up rq) = GetTopUp h pu rq"
| "RegisterRoutes h cd pu (POST_send rq) = PostSend h pu rq"
| "RegisterRoutes h cd pu (GET_transactions rq) = http_ListTransactions h cd pu rq"
| "RegisterRoutes h cd pu (GET_transaction rq) = http_GetTransactionDetail h pu rq"
| "RegisterRoutes h cd pu (GET_recipients rq) = http_ListRecipients h pu rq"
| "RegisterRoutes h cd pu (GET_kyc rq) = http_GetKYC h pu rq"
| "RegisterRoutes h cd pu (POST_aadhaar_start rand rq) = http_StartAadhaar h rand pu rq"
| "RegisterRoutes h cd pu (POST_aadhaar_callback rq) = AadhaarCallback h pu rq"
| "RegisterRoutes h cd pu (POST_pan rq) = http_SubmitPAN h pu rq"
| "RegisterRoutes h cd pu (POST_internal_debit rq) = gated h rq (InternalDebit h pu rq)"
| "RegisterRoutes h cd pu (POST_internal_refund rq) = gated h rq (InternalRefund h pu rq)"
| "RegisterRoutes h cd pu (GET_internal_balance rq) = gated h rq (InternalBalance h pu rq)"

lemmas wallet_http_eval [go_eval] =
  http_GetBalance_def key_or_header_def PostTopUp_def PostConfirmTopUp_def GetTopUp_def PostSend_def
  http_ListTransactions_def http_GetTransactionDetail_def http_ListRecipients_def http_GetKYC_def
  http_StartAadhaar_def AadhaarCallback_def http_SubmitPAN_def InternalDebit_def InternalRefund_def
  InternalBalance_def gated_def

text \<open>A handler over the small service and requests to it.\<close>

definition demo_handler :: "MockClient Handler" where
  "demo_handler = \<lparr>hdSvc = demo_sv, hdInternalKey = ''secret'', hdDigilockerBaseURL = [],
     hdDigilockerRedirect = [], hdAadhaarVerifier = None\<rparr>"

definition demo_pu :: "string \<Rightarrow> uuid option" where
  "demo_pu s = (if s = ''7'' then Some 7 else if s = ''9'' then Some 9 else None)"

definition demo_request :: "'r \<Rightarrow> 'r http_request" where
  "demo_request b = \<lparr>rqHeaders = \<lambda>_. ''7'', rqParam = \<lambda>_. ''9'', rqQuery = \<lambda>_. [], rqBody = Inr b\<rparr>"

lemma demo_user: "getUserID demo_pu (demo_request x) = Inr 7"
  by (simp add: getUserID_def GetHeader_def demo_request_def demo_pu_def)

lemma demo_fields:
  "rqBody (demo_request x) = Inr x" "rqParam (demo_request x) k = ''9''"
  "net demo_funded = []" "transactions demo_funded = []"
  by (simp_all add: demo_request_def demo_funded_def wallet_init_def)

section \<open>What a caller without credentials can do\<close>

fun call_headers :: "wallet_call \<Rightarrow> string \<Rightarrow> string" where
  "call_headers (GET_balance rq) = GetHeader rq"
| "call_headers (POST_top_up rq) = GetHeader rq"
| "call_headers (POST_top_up_confirm rq) = GetHeader rq"
| "call_headers (GET_top_up rq) = GetHeader rq"
| "call_headers (POST_send rq) = GetHeader rq"
| "call_headers (GET_transactions rq) = GetHeader rq"
| "call_headers (GET_transaction rq) = GetHeader rq"
| "call_headers (GET_recipients rq) = GetHeader rq"
| "call_headers (GET_kyc rq) = GetHeader rq"
| "call_headers (POST_aadhaar_start rand rq) = GetHeader rq"
| "call_headers (POST_aadhaar_callback rq) = GetHeader rq"
| "call_headers (POST_pan rq) = GetHeader rq"
| "call_headers (POST_internal_debit rq) = GetHeader rq"
| "call_headers (POST_internal_refund rq) = GetHeader rq"
| "call_headers (GET_internal_balance rq) = GetHeader rq"

fun is_internal :: "wallet_call \<Rightarrow> bool" where
  "is_internal (POST_internal_debit rq) = True"
| "is_internal (POST_internal_refund rq) = True"
| "is_internal (GET_internal_balance rq) = True"
| "is_internal _ = False"

definition authorised :: "'b Handler \<Rightarrow> (string \<Rightarrow> uuid option) \<Rightarrow> wallet_call \<Rightarrow> bool" where
  "authorised h pu c \<longleftrightarrow> (if is_internal c
     then hdInternalKey h \<noteq> [] \<and> call_headers c internalKeyHeader = hdInternalKey h
     else call_headers c ''X-User-ID'' \<noteq> [] \<and> pu (call_headers c ''X-User-ID'') \<noteq> None)"

lemma gated_refuses:
  "hdInternalKey h = [] \<or> GetHeader rq internalKeyHeader \<noteq> hdInternalKey h \<Longrightarrow>
     \<exists>r. gated h rq next w = (r, w) \<and> (rsStatus r = 400 \<or> rsStatus r = 401 \<or> rsStatus r = 404)
       \<and> rsData r = None"
  by (simp add: gated_def internal_group_refuses)

lemmas wallet_handlers =
  http_GetBalance_def PostTopUp_def PostConfirmTopUp_def GetTopUp_def PostSend_def
  http_ListTransactions_def http_GetTransactionDetail_def http_ListRecipients_def http_GetKYC_def
  http_StartAadhaar_def AadhaarCallback_def http_SubmitPAN_def

text \<open>C35: without credentials nothing happens. A call on a user route whose \<^verbatim>\<open>X-User-ID\<close> header
  is missing or is no UUID, and a call on an internal route with another internal key than the
  configured one, or with none configured, is answered 400, 401 or 404 without data, and leaves the
  whole state (tables, bank, events, network) as it was.\<close>

theorem unauthorised_calls_do_nothing:
  assumes "\<not> authorised h pu c"
  shows "\<exists>r. RegisterRoutes h cd pu c w = (r, w) \<and> rsStatus r \<in> {400, 401, 404} \<and> rsData r = None"
proof (cases "is_internal c")
  case True
  then show ?thesis
    using assms by (cases c) (simp_all add: authorised_def gated_refuses)
next
  case False
  then have "call_headers c ''X-User-ID'' = [] \<or> pu (call_headers c ''X-User-ID'') = None"
    using assms by (simp add: authorised_def)
  then show ?thesis
    using False by (cases c) (simp_all add: wallet_handlers getUserID_refuses)
qed

theorem unauthorised_calls_do_nothing_witness:
  "\<forall>cd. \<exists>r. RegisterRoutes demo_handler cd demo_pu (POST_internal_refund (demo_request
        \<lparr>irrOriginalTransactionID = ''t'', irrAmountPaise = 500, irrReason = []\<rparr>)) demo_funded
      = (r, demo_funded) \<and> rsStatus r \<in> {400, 401, 404} \<and> rsData r = None"
  by (intro allI unauthorised_calls_do_nothing)
    (simp add: authorised_def GetHeader_def demo_handler_def demo_request_def)

section \<open>What each exchange asks of the service\<close>

definition only_net :: "'b wallet \<Rightarrow> 'b wallet \<Rightarrow> bool" where
  "only_net w w' \<longleftrightarrow> (\<exists>ns. w' = w\<lparr>net := ns\<rparr>)"

lemma only_net_refl [simp]: "only_net w w"
  unfolding only_net_def by (rule exI [of _ "net w"]) simp

lemma keeps_db_get: "keeps (only_net w0) (db_call (get f))"
  by (rule keepsI)
    (auto simp: only_net_def db_call_def get_def split: list.splits outcome.splits)

lemma keeps_only_net:
  "keeps (only_net w0) (store_GetTransaction u i)"
  "keeps (only_net w0) (GetTransactionDetail u i)"
  "keeps (only_net w0) (ListHistory cd u f)"
  "keeps (only_net w0) (ListFrequentRecipients u)"
  "keeps (only_net w0) (GetKYC u)"
  unfolding GetTransactionDetail_def store_GetTransaction_def ListHistory_def
    store_ListTransactions_def ListFrequentRecipients_def store_ListRecipients_def GetKYC_def
    store_GetKYC_def Let_def case_prod_unfold
  by (intro keeps_intros keeps_db_get)+

lemma only_net_run [simp]:
  "only_net w (snd (GetTransactionDetail u i w))"
  "only_net w (snd (ListHistory cd u f w))"
  "only_net w (snd (ListFrequentRecipients u w))"
  "only_net w (snd (GetKYC u w))"
  by (rule keepsD [of "only_net w"], rule keeps_only_net, simp)+

text \<open>The table of the routes: the operation a call asks for, with its arguments. The acting user is
  the one the gateway names in \<^verbatim>\<open>X-User-ID\<close>, or, for a caller that holds the internal key, the one
  in the body; identifiers must parse; there is no operation behind a call that does not meet this,
  nor behind the routes that only read.\<close>

definition caller :: "(string \<Rightarrow> uuid option) \<Rightarrow> 'r http_request \<Rightarrow> uuid option" where
  "caller pu rq = (if GetHeader rq ''X-User-ID'' = [] then None else pu (GetHeader rq ''X-User-ID''))"

definition payload :: "'r http_request \<Rightarrow> 'r option" where
  "payload rq = (case rqBody rq of Inl e \<Rightarrow> None | Inr b \<Rightarrow> Some b)"

definition trusted :: "'b Handler \<Rightarrow> 'r http_request \<Rightarrow> bool" where
  "trusted h rq \<longleftrightarrow> hdInternalKey h \<noteq> [] \<and> GetHeader rq internalKeyHeader = hdInternalKey h"

definition recipient :: "(string \<Rightarrow> uuid option) \<Rightarrow> string option \<Rightarrow> uuid option option" where
  "recipient pu raw = (if raw = None \<or> raw = Some [] then Some None else map_option Some (pu (the raw)))"

fun call_request :: "'b Handler \<Rightarrow> (string \<Rightarrow> uuid option) \<Rightarrow> wallet_call \<Rightarrow> request option" where
  "call_request h pu (GET_balance rq) = map_option DoGetBalance (caller pu rq)"
| "call_request h pu (POST_top_up rq) = do { u \<leftarrow> caller pu rq; b \<leftarrow> payload rq;
     Some (DoStartTopUp u (turqAmountPaise b) (key_or_header (turqIdempotencyKey b) rq)) }"
| "call_request h pu (POST_top_up_confirm rq) = do { u \<leftarrow> caller pu rq; i \<leftarrow> pu (rqParam rq ''id'');
     upi \<leftarrow> payload rq; Some (DoConfirmTopUp u i upi) }"
| "call_request h pu (POST_send rq) = do { u \<leftarrow> caller pu rq; b \<leftarrow> payload rq;
     v \<leftarrow> recipient pu (wireRecipientUserID b);
     Some (DoSend u \<lparr>reqRecipientUserID = v, reqRecipientPhone = wireRecipientPhone b,
       reqAmountPaise = wireAmountPaise b, reqLabel = wireLabel b,
       reqIdempotencyKey = key_or_header (wireIdempotencyKey b) rq\<rparr>) }"
| "call_request h pu (POST_aadhaar_start rand rq) = do { u \<leftarrow> caller pu rq;
     if hdDigilockerBaseURL h = [] \<or> hdAadhaarVerifier h = None then None
     else Some (DoStartAadhaar rand u (hdDigilockerBaseURL h) (hdDigilockerRedirect h)) }"
| "call_request h pu (POST_aadhaar_callback rq) = do { u \<leftarrow> caller pu rq;
     if hdAadhaarVerifier h = None then None else do { b \<leftarrow> payload rq;
     Some (DoCompleteAadhaar u (fst b) (snd b) (hdAadhaarVerifier h)) } }"
| "call_request h pu (POST_pan rq) = do { u \<leftarrow> caller pu rq; pan \<leftarrow> payload rq; Some (DoSubmitPAN u pan) }"
| "call_request h pu (POST_internal_debit rq) = (if \<not> trusted h rq then None else do { b \<leftarrow> payload rq;
     u \<leftarrow> pu (idrUserID b); Some (DoMerchantDebit u (idrAmountPaise b) (idrMerchantService b)
       (idrMerchantRef b) (idrIdempotencyKey b)) })"
| "call_request h pu (POST_internal_refund rq) = (if \<not> trusted h rq then None else do { b \<leftarrow> payload rq;
     i \<leftarrow> pu (irrOriginalTransactionID b); Some (DoRefund i (irrAmountPaise b) (irrReason b)) })"
| "call_request h pu (GET_internal_balance rq) = (if \<not> trusted h rq then None
     else map_option DoGetBalance (pu (rqParam rq ''user_id'')))"
| "call_request h pu _ = None"

fun reads_only :: "wallet_call \<Rightarrow> bool" where
  "reads_only (GET_top_up rq) = True"
| "reads_only (GET_transactions rq) = True"
| "reads_only (GET_transaction rq) = True"
| "reads_only (GET_recipients rq) = True"
| "reads_only (GET_kyc rq) = True"
| "reads_only _ = False"

text \<open>Whether the service reports a success.\<close>

fun request_ok :: "'b Service \<Rightarrow> request \<Rightarrow> 'b wallet \<Rightarrow> bool" where
  "request_ok sv (DoGetBalance u) w = (\<not> isl (fst (GetBalance sv u w)))"
| "request_ok sv (DoStartTopUp u a k) w = (\<not> isl (fst (StartTopUp sv u a k w)))"
| "request_ok sv (DoConfirmTopUp u i r) w = (\<not> isl (fst (ConfirmTopUp sv u i r w)))"
| "request_ok sv (DoSend u r) w = (\<not> isl (fst (Send sv u r w)))"
| "request_ok sv (DoMerchantDebit u a s r k) w = (\<not> isl (fst (MerchantDebit sv u a s r k w)))"
| "request_ok sv (DoRefund i a r) w = (\<not> isl (fst (Refund sv i a r w)))"
| "request_ok sv (DoStartAadhaar rnd u b r) w = (\<not> isl (fst (StartAadhaar rnd u b r w)))"
| "request_ok sv (DoCompleteAadhaar u c s v) w = (\<not> isl (fst (CompleteAadhaar u c s v w)))"
| "request_ok sv (DoSubmitPAN u p) w = (\<not> isl (fst (SubmitPAN u p w)))"
| "request_ok sv _ w = True"

lemma respond_status: "es \<noteq> 200 \<Longrightarrow> rsStatus (fst (respond 200 f es c m w)) = 200 \<longleftrightarrow> \<not> isl (fst (m w))"
  by (auto simp: respond_def respondServiceError_def ErrorWithContext_def JSONWithContext_def Let_def
      split: prod.split sum.split option.split)

text \<open>An exchange that fits the table: \<open>q\<close> is the operation asked for, \<open>x\<close> what happened.\<close>

definition fits ::
  "'b Service \<Rightarrow> request option \<Rightarrow> 'b wallet \<Rightarrow> wallet_data response \<times> 'b wallet \<Rightarrow> bool" where
  "fits sv q w x = (case q of
     Some r \<Rightarrow> snd x = run_request sv r w \<and> (rsStatus (fst x) = 200 \<longleftrightarrow> request_ok sv r w)
   | None \<Rightarrow> snd x = w \<and> rsStatus (fst x) \<in> {400, 401, 404, 503})"

lemma fits_refused: "rsStatus e \<in> {400, 401, 404, 503} \<Longrightarrow> fits sv None w (e, w)"
  by (simp add: fits_def)

lemma fits_caller:
  assumes "\<And>u. fits sv (f u) w (k u w)"
  shows "fits sv (do { u \<leftarrow> caller pu rq; f u }) w (bindOr (getUserID pu rq) k w)"
proof (cases "caller pu rq")
  case None
  then have "GetHeader rq ''X-User-ID'' = [] \<or> pu (GetHeader rq ''X-User-ID'') = None"
    by (auto simp: caller_def split: if_splits)
  then have "\<exists>r. bindOr (getUserID pu rq) k w = (r, w)
      \<and> (rsStatus r = 400 \<or> rsStatus r = 401 \<or> rsStatus r = 404) \<and> rsData r = None"
    by (rule getUserID_refuses)
  with None show ?thesis by (auto simp: fits_def)
next
  case (Some u)
  then have "getUserID pu rq = (Inr u :: wallet_data response + uuid)"
    by (auto simp: caller_def getUserID_def split: if_splits)
  with Some assms show ?thesis by simp
qed

lemma fits_body:
  "(\<And>b. fits sv (f b) w (k b w)) \<Longrightarrow> fits sv (do { b \<leftarrow> payload rq; f b }) w (bindOr (bind_body rq) k w)"
  by (simp add: payload_def bind_body_def fits_refused ErrorWithContext_def split: sum.split)

lemma fits_id:
  "(\<And>i. fits sv (f i) w (k i w)) \<Longrightarrow> fits sv (do { i \<leftarrow> pu raw; f i }) w (bindOr (parse_id pu raw msg) k w)"
  by (simp add: parse_id_def fits_refused ErrorWithContext_def split: option.split)

lemma fits_gated:
  "fits sv q w (next w) \<Longrightarrow> fits sv (if \<not> trusted h rq then None else q) w (gated h rq next w)"
proof (cases "trusted h rq")
  case True
  assume "fits sv q w (next w)"
  with True show ?thesis by (simp add: trusted_def gated_def internal_group_def RequireInternalKey_def)
next
  case False
  then obtain r where "gated h rq next w = (r, w)" "rsStatus r = 400 \<or> rsStatus r = 401 \<or> rsStatus r = 404"
    using gated_refuses [of h rq "next" w] by (auto simp: trusted_def)
  with False show ?thesis by (auto simp: fits_def)
qed

lemma fits_respond:
  "snd (m w) = run_request sv r w \<Longrightarrow> \<not> isl (fst (m w)) \<longleftrightarrow> request_ok sv r w \<Longrightarrow> es \<noteq> 200 \<Longrightarrow>
     fits sv (Some r) w (respond 200 f es c m w)"
  by (simp add: fits_def respond_state respond_status)

lemma fits_recipient:
  "(\<And>v. fits sv (f v) w (k v w)) \<Longrightarrow> fits sv (do { v \<leftarrow> recipient pu raw; f v }) w
     (bindOr (case raw of None \<Rightarrow> Inr None
        | Some raw \<Rightarrow> if raw = [] then Inr None
            else (case pu raw of None \<Rightarrow> Inl (ErrorWithContext 400 ''INVALID_ID'' msg) | Some i \<Rightarrow> Inr (Some i))) k w)"
  by (auto simp: recipient_def fits_refused ErrorWithContext_def split: option.split)

lemma map_option_do: "map_option f q = do { x \<leftarrow> q; Some (f x) }"
  by (cases q) simp_all

lemmas fits_intros = fits_caller fits_body fits_id fits_gated fits_recipient

lemma calls_fit:
  "\<not> reads_only c \<Longrightarrow> fits (hdSvc h) (call_request h pu c) w (RegisterRoutes h cd pu c w)"
proof (cases c)
  case (POST_aadhaar_start rand rq)
  then show ?thesis
    by (simp only: call_request.simps RegisterRoutes.simps http_StartAadhaar_def)
      (intro fits_intros, auto simp: answer_def digilocker_off_def ErrorWithContext_def intro!: fits_refused fits_respond)
next
  case (POST_aadhaar_callback rq)
  then show ?thesis
    by (simp only: call_request.simps RegisterRoutes.simps AadhaarCallback_def)
      (intro fits_caller, cases "hdAadhaarVerifier h = None",
        auto simp: answer_def digilocker_off_def ErrorWithContext_def case_prod_unfold
          intro!: fits_refused fits_body fits_respond)
qed (simp_all only: call_request.simps RegisterRoutes.simps map_option_do wallet_handlers InternalDebit_def
    InternalRefund_def InternalBalance_def parseUUIDParam_def reads_only.simps simp_thms,
    (intro fits_intros fits_respond; simp)+)

lemma bindOr_only_net: "(\<And>x. only_net w (snd (k x w))) \<Longrightarrow> only_net w (snd (bindOr r k w))"
  by (cases r) simp_all

lemma reads_keep: "reads_only c \<Longrightarrow> only_net w (snd (RegisterRoutes h cd pu c w))"
  by (cases c) (auto simp: wallet_handlers Let_def respond_state intro!: bindOr_only_net)

text \<open>So an exchange is one step of the service, and its invariants hold of the running server.\<close>

corollary exchange_is_step: "wallet_step (hdSvc h) w (snd (RegisterRoutes h cd pu c w))"
proof (cases "reads_only c")
  case True
  from reads_keep [OF this, of w h cd pu] show ?thesis
    by (auto simp: only_net_def intro: wallet_step.network)
next
  case False
  have "wallet_step (hdSvc h) w w" using wallet_step.network [of "hdSvc h" w "net w"] by simp
  with calls_fit [OF False, of h pu w cd] show ?thesis
    by (auto simp: fits_def intro: wallet_step.request split: option.splits)
qed

text \<open>C36: what an exchange over HTTP does, exactly. A call that the table maps to an operation runs
  that operation with those arguments, once, and nothing else, and is answered 200 if and only if the
  operation reports success. Any other call, one without the credentials, with a body or an identifier
  that does not parse, or to a part that is not configured, is refused with the state as it was; and
  the routes that only read leave all of it but the network's schedule as it was.\<close>

theorem http_refines_steps:
  "case RegisterRoutes h cd pu c w of (resp, w') \<Rightarrow>
     (case call_request h pu c of
        Some r \<Rightarrow> w' = run_request (hdSvc h) r w \<and> (rsStatus resp = 200 \<longleftrightarrow> request_ok (hdSvc h) r w)
      | None \<Rightarrow> if reads_only c then only_net w w' else w' = w \<and> rsStatus resp \<in> {400, 401, 404, 503})"
proof (cases "reads_only c")
  case True
  then have "call_request h pu c = None" by (cases c) simp_all
  with True reads_keep [OF True, of w h cd pu] show ?thesis
    by (cases "RegisterRoutes h cd pu c w") simp
next
  case False
  from calls_fit [OF this, of h pu w cd] False show ?thesis
    by (cases "RegisterRoutes h cd pu c w") (simp add: fits_def split: option.splits)
qed

text \<open>The header names user 7 as the sender, the body user 9 as the recipient and no key: the key is
  taken from the \<^verbatim>\<open>Idempotency-Key\<close> header.\<close>

definition demo_wire_send :: sendRequest where
  "demo_wire_send = \<lparr>wireRecipientUserID = Some ''9'', wireRecipientPhone = [], wireAmountPaise = 300,
     wireLabel = [], wireIdempotencyKey = []\<rparr>"

theorem http_refines_steps_witness:
  "\<forall>cd. snd (RegisterRoutes demo_handler cd demo_pu (POST_send (demo_request demo_wire_send)) demo_funded)
     = snd (Send demo_sv 7 \<lparr>reqRecipientUserID = Some 9, reqRecipientPhone = [], reqAmountPaise = 300,
         reqLabel = [], reqIdempotencyKey = ''7''\<rparr> demo_funded)"
proof
  fix cd
  have "call_request demo_handler demo_pu (POST_send (demo_request demo_wire_send)) =
      Some (DoSend 7 \<lparr>reqRecipientUserID = Some 9, reqRecipientPhone = [], reqAmountPaise = 300,
         reqLabel = [], reqIdempotencyKey = ''7''\<rparr>)"
    by (simp add: caller_def payload_def recipient_def key_or_header_def GetHeader_def demo_request_def
        demo_wire_send_def demo_pu_def)
  with http_refines_steps [where h = demo_handler and cd = cd and pu = demo_pu and w = demo_funded
      and c = "POST_send (demo_request demo_wire_send)"]
  show "snd (RegisterRoutes demo_handler cd demo_pu (POST_send (demo_request demo_wire_send)) demo_funded)
     = snd (Send demo_sv 7 \<lparr>reqRecipientUserID = Some 9, reqRecipientPhone = [], reqAmountPaise = 300,
         reqLabel = [], reqIdempotencyKey = ''7''\<rparr> demo_funded)"
    by (simp add: demo_handler_def del: RegisterRoutes.simps split: prod.splits)
qed

section \<open>Identifiers that are not there\<close>

text \<open>an identifier the service does not know is the caller's mistake, but only the two routes
  that read a transaction report it as 404. Refunding or confirming an unknown transaction is
  answered 500: the message of the store's sentinel is \<^verbatim>\<open>transaction: not found\<close>, which does not
  begin with the prefix \<^verbatim>\<open>not_found: \<close> that \<open>respondServiceError\<close> looks for.\<close>

theorem unknown_ids_are_server_errors:
  assumes "net w = []" "\<forall>t \<in> set (transactions w). txID t \<noteq> i" "rqBody rq = Inr req"
    and "pu (irrOriginalTransactionID req) = Some i" "0 < irrAmountPaise req"
    and "rqBody cq = Inr ref" "ref \<noteq> []" "getUserID pu cq = (Inr u :: wallet_data response + uuid)"
    and "pu (rqParam cq ''id'') = Some i"
    and "getUserID pu gq = (Inr u :: wallet_data response + uuid)" "pu (rqParam gq ''id'') = Some i"
  shows "InternalRefund h pu rq w = (ErrorWithContext 500 ''REFUND_FAILED'' ''transaction: not found'', w)
    \<and> PostConfirmTopUp h pu cq w = (ErrorWithContext 500 ''TOPUP_CONFIRM_FAILED'' ''transaction: not found'', w)
    \<and> http_GetTransactionDetail h pu gq w = (ErrorWithContext 404 ''NOT_FOUND'' ''transaction: not found'', w)"
proof -
  have none: "find (\<lambda>t. txID t = i) (transactions w) = None"
    "find (\<lambda>t. txID t = i \<and> txUserID t = u) (transactions w) = None"
    using assms(2) by (auto simp: find_None_iff)
  have msg: "(respondServiceError ErrTransactionNotFound s c :: wallet_data response)
      = ErrorWithContext s c ''transaction: not found''" for s c
    by (simp add: respondServiceError_def cut_prefix_def has_prefix_def ErrTransactionNotFound_def)
  show ?thesis
    using assms none msg
    by (simp add: InternalRefund_def PostConfirmTopUp_def http_GetTransactionDetail_def bind_body_def
        parse_id_def parseUUIDParam_def respond_def Refund_def ConfirmTopUp_def GetTransactionDetail_def
        GetTransactionByID_def store_GetTransaction_def require_def andThen_def get_def fail_def)
qed

theorem unknown_ids_are_server_errors_witness:
  "InternalRefund demo_handler demo_pu (demo_request \<lparr>irrOriginalTransactionID = ''9'',
       irrAmountPaise = 500, irrReason = []\<rparr>) demo_funded
     = (ErrorWithContext 500 ''REFUND_FAILED'' ''transaction: not found'', demo_funded)"
  using unknown_ids_are_server_errors [of demo_funded 9 "demo_request \<lparr>irrOriginalTransactionID = ''9'',
      irrAmountPaise = 500, irrReason = []\<rparr>" _ demo_pu "demo_request ''upi''" "''upi''" 7
      "demo_request ()" demo_handler]
  by (simp add: demo_user demo_fields demo_pu_def)

end
