(* ===== verification/Wallet_Icici.thy ===== *)
theory Wallet_Icici
  imports Wallet_Listing Go_Http
begin

text \<open>
  The production bank client of wallet-service (\<^verbatim>\<open>internal/bank/icici.go\<close>) as an implementation of
  the \<^verbatim>\<open>BankClient\<close> record. The partner's server is not part of the repository: it is the
  argument \<open>pt\<close>, any server that the HTTP client can talk to.
\<close>

section \<open>The client\<close>

record HTTPClient =
  hcBaseURL :: string
  hcApiKey :: string
  hcBcID :: string

definition NewHTTPClient :: "string \<Rightarrow> string \<Rightarrow> string \<Rightarrow> HTTPClient" where
  "NewHTTPClient baseURL apiKey bcID = \<lparr>hcBaseURL = baseURL, hcApiKey = apiKey, hcBcID = bcID\<rparr>"

definition icici_do ::
  "'p server \<Rightarrow> HTTPClient \<Rightarrow> string \<Rightarrow> string \<Rightarrow> json option \<Rightarrow> ('p, json option) io" where
  "icici_do pt h method path body =
     require (hcBaseURL h \<noteq> []) (Errorf ''icici: base_url not configured'')
     (andThen (http_exchange pt (''icici: build request'', ''icici: partner unreachable'', ''icici: read body'')
        (\<lambda>status txt. if status \<ge> 400
           then Some (Errorf (''icici: bank returned status '' @ show_nat status @ '': '' @ truncate_text txt 200))
           else None)
        \<lparr>wrMethod = method, wrURL = hcBaseURL h @ path,
         wrHeaders = (''Content-Type'', ''application/json'') #
           (if hcApiKey h = [] then [] else [(''Authorization'', ''Bearer '' @ hcApiKey h)]),
         wrPayload = body\<rparr>) (\<lambda>(txt, j). ok j))"

text \<open>\<^verbatim>\<open>json.Unmarshal(resp, &parsed)\<close> of one field, with the label of its error.\<close>

definition icici_field ::
  "string \<Rightarrow> string \<Rightarrow> (json \<Rightarrow> 'a option) \<Rightarrow> 'a \<Rightarrow> json option \<Rightarrow> ('p, 'a) io" where
  "icici_field lbl k d zero resp = decode_body (''icici: decode '' @ lbl) (json_field k d zero) resp"

section \<open>The operations\<close>

definition openSubAccountRequest :: "string \<Rightarrow> uuid \<Rightarrow> json" where
  "openSubAccountRequest bc u = JObject [(''bc_id'', JStr bc), (''user_id'', JStr (uuid_string u))]"

definition icici_OpenSubAccount :: "'p server \<Rightarrow> HTTPClient \<Rightarrow> uuid \<Rightarrow> ('p, string) io" where
  "icici_OpenSubAccount pt h u =
     require (u \<noteq> 0) (Errorf ''icici: invalid user id'')
     (andThen (icici_do pt h ''POST'' ''/v1/bc/ppi/sub-accounts'' (Some (openSubAccountRequest (hcBcID h) u))) (\<lambda>resp.
      andThen (icici_field ''open'' ''status'' as_str [] resp) (\<lambda>_.
      andThen (icici_field ''open'' ''reference'' as_str [] resp) (\<lambda>ref.
      require (ref \<noteq> []) (Errorf ''icici: bank returned empty reference'') (ok ref)))))"

definition icici_GetBalance :: "'p server \<Rightarrow> HTTPClient \<Rightarrow> string \<Rightarrow> ('p, int) io" where
  "icici_GetBalance pt h ref =
     require (ref \<noteq> []) (Errorf ''icici: ref required'')
     (andThen (icici_do pt h ''GET'' (''/v1/bc/ppi/sub-accounts/'' @ ref @ ''/balance'') None) (\<lambda>resp.
      andThen (icici_field ''balance'' ''reference'' as_str [] resp) (\<lambda>_.
      icici_field ''balance'' ''balance_paise'' as_int 0 resp)))"

definition transferRequest :: "string \<Rightarrow> string \<Rightarrow> string \<Rightarrow> int \<Rightarrow> string \<Rightarrow> json" where
  "transferRequest bc fromRef toRef amountPaise txnRef = JObject
     [(''bc_id'', JStr bc), (''from_ref'', JStr fromRef), (''to_ref'', JStr toRef),
      (''amount_paise'', JInt amountPaise), (''bc_txn_ref'', JStr txnRef)]"

definition icici_Transfer ::
  "'p server \<Rightarrow> HTTPClient \<Rightarrow> string \<Rightarrow> string \<Rightarrow> int \<Rightarrow> string \<Rightarrow> ('p, unit) io" where
  "icici_Transfer pt h fromRef toRef amountPaise txnRef =
     require (\<not> (fromRef = [] \<or> toRef = [])) (Errorf ''icici: refs required'')
     (require (amountPaise > 0) (Errorf ''icici: amount must be positive'')
     (andThen (icici_do pt h ''POST'' ''/v1/bc/ppi/transfers''
         (Some (transferRequest (hcBcID h) fromRef toRef amountPaise txnRef))) (\<lambda>resp.
      andThen (icici_field ''transfer'' ''bank_txn_ref'' as_str [] resp) (\<lambda>_.
      andThen (icici_field ''transfer'' ''status'' as_str [] resp) (\<lambda>status.
      require (\<not> (status \<noteq> ''succeeded'' \<and> status \<noteq> ''settled''))
        (Errorf (''icici: transfer status '' @ go_quote status)) (ok ()))))))"

definition verifyUPIRequest :: "string \<Rightarrow> string \<Rightarrow> int \<Rightarrow> json" where
  "verifyUPIRequest bc ref expected = JObject
     [(''bc_id'', JStr bc), (''upi_txn_ref'', JStr ref), (''expected_amount_paise'', JInt expected)]"

definition icici_VerifyUPIInbound :: "'p server \<Rightarrow> HTTPClient \<Rightarrow> string \<Rightarrow> int \<Rightarrow> ('p, bool) io" where
  "icici_VerifyUPIInbound pt h upiTxnRef expectedAmountPaise =
     require (upiTxnRef \<noteq> []) (Errorf ''icici: upi_txn_ref required'')
     (andThen (icici_do pt h ''POST'' ''/v1/bc/ppi/upi/verify''
         (Some (verifyUPIRequest (hcBcID h) upiTxnRef expectedAmountPaise))) (\<lambda>resp.
      andThen (icici_field ''verify'' ''status'' as_str [] resp) (\<lambda>_.
      icici_field ''verify'' ''verified'' as_bool False resp)))"

definition refundRequest :: "string \<Rightarrow> string \<Rightarrow> int \<Rightarrow> json" where
  "refundRequest bc ref amountPaise = JObject
     [(''bc_id'', JStr bc), (''original_txn_ref'', JStr ref), (''amount_paise'', JInt amountPaise)]"

definition icici_Refund :: "'p server \<Rightarrow> HTTPClient \<Rightarrow> string \<Rightarrow> int \<Rightarrow> ('p, unit) io" where
  "icici_Refund pt h originalTxnRef amountPaise =
     require (originalTxnRef \<noteq> []) (Errorf ''icici: original_txn_ref required'')
     (require (amountPaise > 0) (Errorf ''icici: amount must be positive'')
     (andThen (icici_do pt h ''POST'' ''/v1/bc/ppi/refunds''
         (Some (refundRequest (hcBcID h) originalTxnRef amountPaise))) (\<lambda>resp.
      andThen (icici_field ''refund'' ''bank_refund_ref'' as_str [] resp) (\<lambda>_.
      andThen (icici_field ''refund'' ''status'' as_str [] resp) (\<lambda>status.
      require (\<not> (status \<noteq> ''succeeded'' \<and> status \<noteq> ''settled''))
        (Errorf (''icici: refund status '' @ go_quote status)) (ok ()))))))"

definition icici_client :: "'p server \<Rightarrow> HTTPClient \<Rightarrow> 'p BankClient" where
  "icici_client pt h = \<lparr>OpenSubAccount = icici_OpenSubAccount pt h, BankGetBalance = icici_GetBalance pt h,
     Transfer = icici_Transfer pt h, VerifyUPIInbound = icici_VerifyUPIInbound pt h,
     BankRefund = icici_Refund pt h\<rparr>"

section \<open>What an answer of the client says about the partner\<close>

definition transfer_call :: "HTTPClient \<Rightarrow> string \<Rightarrow> string \<Rightarrow> int \<Rightarrow> string \<Rightarrow> wire_request" where
  "transfer_call h f t a r = \<lparr>wrMethod = ''POST'', wrURL = hcBaseURL h @ ''/v1/bc/ppi/transfers'',
     wrHeaders = (''Content-Type'', ''application/json'') #
       (if hcApiKey h = [] then [] else [(''Authorization'', ''Bearer '' @ hcApiKey h)]),
     wrPayload = Some (transferRequest (hcBcID h) f t a r)\<rparr>"

definition says_done :: "http_result \<Rightarrow> bool" where
  "says_done r \<longleftrightarrow> (case r of Replied st txt (Some j) \<Rightarrow> st < 400 \<and> (\<exists>ref. json_field ''bank_txn_ref'' as_str [] j = Some ref)
       \<and> json_field ''status'' as_str [] j \<in> {Some ''succeeded'', Some ''settled''}
     | _ \<Rightarrow> False)"

lemma icici_Transfer_run:
  assumes "f \<noteq> []" "t \<noteq> []" "0 < a" "hcBaseURL h \<noteq> []"
    and "srvBuild pt (hcBaseURL h @ ''/v1/bc/ppi/transfers'') = None"
    and "srvServe pt (transfer_call h f t a r) p = (res, p')"
  shows "if says_done res then icici_Transfer pt h f t a r p = (Inr (), p')
    else \<exists>e. icici_Transfer pt h f t a r p = (Inl e, p')"
proof -
  have do: "icici_do pt h ''POST'' ''/v1/bc/ppi/transfers'' (Some (transferRequest (hcBcID h) f t a r)) p
      = (case res of Unreachable s \<Rightarrow> Inl (Wrap ''icici: partner unreachable'' (Errorf s))
           | Broken s \<Rightarrow> Inl (Wrap ''icici: read body'' (Errorf s))
           | Replied status txt j \<Rightarrow> if status \<ge> 400
               then Inl (Errorf (''icici: bank returned status '' @ show_nat status @ '': '' @ truncate_text txt 200))
               else Inr j, p')"
    using assms(4-6)
    by (simp add: icici_do_def require_def andThen_def ok_def http_exchange_def transfer_call_def split: http_result.split)
  show ?thesis
    using assms(1-3)
    by (cases res)
      (auto simp: icici_Transfer_def go_simps do says_done_def icici_field_def decode_body_def bind_eq_Some_conv
        split: option.splits)
qed

text \<open>any transfer whose outcome the service does not learn is taken back in the ledger.
  Whatever the partner did with the request (\<open>p'\<close> is the state it is left in), when the reply is
  anything but a status below 400 with \<^verbatim>\<open>succeeded\<close> or \<^verbatim>\<open>settled\<close> (a timeout, a body that breaks
  off, \<^verbatim>\<open>pending\<close>), the merchant debit reports an error, the user's spendable balance is back
  where it was and the row is failed: if the partner did move the money, it has left the user's
  account at the bank while the mirror says it has not.\<close>

theorem unknown_bank_outcome_reverses_debit:
  assumes ready: "debit_ready u a ms mr key w b" and client: "svBank sv = icici_client pt h"
    and refs: "balBankAccountRef b \<noteq> []" "PoolBankRef (svCfg sv) \<noteq> []" "hcBaseURL h \<noteq> []"
      "srvBuild pt (hcBaseURL h @ ''/v1/bc/ppi/transfers'') = None"
    and reply: "srvServe pt (transfer_call h (balBankAccountRef b) (PoolBankRef (svCfg sv)) a
      (uuid_string (idgen w (idctr w)))) (bank w) = (res, p')" "\<not> says_done res"
  shows "\<exists>e w'. MerchantDebit sv u a ms mr key w = (Inl e, w') \<and> bank w' = p'
    \<and> avail w' = avail w \<and> pending_out w' = pending_out w
    \<and> (\<exists>t. transactions w' = transactions w @ [t] \<and> txID t = idgen w (idctr w) \<and> txStatus t = ''failed'')"
proof -
  have "0 < a" using ready by (simp add: debit_ready_def)
  then obtain e where "Transfer (svBank sv) (balBankAccountRef b) (PoolBankRef (svCfg sv)) a
      (uuid_string (idgen w (idctr w))) (bank w) = (Inl e, p')"
    using icici_Transfer_run [OF refs(1,2) _ refs(3,4) reply(1)] reply(2)
    by (auto simp: client icici_client_def)
  from merchant_debit_compensated [OF ready this] show ?thesis by blast
qed

text \<open>A partner that keeps the number of paise it has moved out of the user's account, executes
  every transfer and loses every reply.\<close>

definition mute_partner :: "int server" where
  "mute_partner = \<lparr>srvBuild = (\<lambda>_. None), srvServe = (\<lambda>rq moved0. (Unreachable ''timeout'',
     case wrPayload rq of None \<Rightarrow> moved0
     | Some j \<Rightarrow> moved0 + (case json_field ''amount_paise'' as_int 0 j of None \<Rightarrow> 0 | Some a \<Rightarrow> a)))\<rparr>"

definition mute_sv :: "int Service" where
  "mute_sv = \<lparr>svBank = icici_client mute_partner (NewHTTPClient ''https://bank'' [] ''bc''),
     svCfg = svCfg demo_sv\<rparr>"

definition mute_wallet :: "int wallet" where
  "mute_wallet = (wallet_init 0 (\<lambda>n. 100 + of_nat n) 1000)\<lparr>balances := [7 \<mapsto> demo_balance 7 ''acc-7'' 5000]\<rparr>"

theorem unknown_bank_outcome_reverses_debit_witness:
  "\<exists>e w'. MerchantDebit mute_sv 7 300 ''bill_pay'' ''r1'' ''k1'' mute_wallet = (Inl e, w')
    \<and> bank w' = 300 \<and> avail w' 7 = 5000"
proof -
  let ?b = "demo_balance 7 ''acc-7'' 5000"
  have ready: "debit_ready 7 300 ''bill_pay'' ''r1'' ''k1'' mute_wallet ?b"
    by (simp add: debit_ready_def mute_wallet_def go_eval)
  have reply: "srvServe mute_partner (transfer_call (NewHTTPClient ''https://bank'' [] ''bc'') (balBankAccountRef ?b)
      (PoolBankRef (svCfg mute_sv)) 300 (uuid_string (idgen mute_wallet (idctr mute_wallet)))) (bank mute_wallet)
    = (Unreachable ''timeout'', 300)"
    by (simp add: mute_partner_def transfer_call_def transferRequest_def json_field_def as_int_def
        mute_wallet_def wallet_init_def)
  have client: "svBank mute_sv = icici_client mute_partner (NewHTTPClient ''https://bank'' [] ''bc'')"
    by (simp add: mute_sv_def)
  have refs: "balBankAccountRef ?b \<noteq> []" "PoolBankRef (svCfg mute_sv) \<noteq> []"
    "hcBaseURL (NewHTTPClient ''https://bank'' [] ''bc'') \<noteq> []"
    "srvBuild mute_partner (hcBaseURL (NewHTTPClient ''https://bank'' [] ''bc'') @ ''/v1/bc/ppi/transfers'') = None"
    by (simp_all add: demo_balance_def mute_sv_def demo_sv_def service_New_def NewHTTPClient_def mute_partner_def)
  have lost: "\<not> says_done (Unreachable ''timeout'')" by (simp add: says_done_def)
  have "avail mute_wallet 7 = 5000" by (simp add: mute_wallet_def avail_def go_eval)
  with unknown_bank_outcome_reverses_debit [OF ready client refs reply lost] show ?thesis
    by (elim exE conjE) (intro exI conjI, assumption, simp, simp)
qed

end
