(* ===== verification/Billpay_Store.thy ===== *)
theory Billpay_Store
  imports Postgres Go_Json Go_Time
begin

text \<open>
  The tables of bill-pay-service (\<^verbatim>\<open>database/setup.sql\<close>) and the store methods a payment goes
  through (\<^verbatim>\<open>internal/store\<close>: payments, idempotency keys, providers). One definition per method,
  the SQL text being the update it performs; the constraints of the schema are checked where a row
  is inserted. \<open>DATE\<close> columns are day numbers, \<open>TIMESTAMPTZ\<close> columns microseconds.
\<close>

section \<open>Rows (store.go)\<close>

record Category =
  catID :: string
  catName :: string
  catIcon :: string
  catSortOrder :: int
  catIsActive :: bool

record Provider =
  prvID :: uuid
  prvSetuBillerID :: string
  prvCategoryID :: string
  prvName :: string
  prvShortName :: "string option"
  prvLogoURL :: "string option"
  prvStates :: "string list"
  prvCustomerParams :: json
  prvBillFetchSupported :: bool
  prvIsActive :: bool
  prvLastSyncedAt :: int

record Account =
  accID :: uuid
  accUserID :: uuid
  accProviderID :: uuid
  accIdentifier :: string
  accExtraParams :: "(string \<times> string) list"
  accLabel :: string
  accIsDefault :: bool
  accAutopayEnabled :: bool
  accCreatedAt :: int
  accDeletedAt :: "int option"

record Bill =
  bilID :: uuid
  bilAccountID :: uuid
  bilAmountPaise :: int
  bilPeriodStart :: "int option"
  bilPeriodEnd :: "int option"
  bilDueDate :: "int option"
  bilNumber :: "string option"
  bilCustomerName :: "string option"
  bilSetuBillRef :: "string option"
  bilStatus :: string
  bilFetchedAt :: int
  bilPaidAt :: "int option"
  bilPaymentID :: "uuid option"

record Payment =
  payID :: uuid
  payUserID :: uuid
  payAccountID :: "uuid option"
  payProviderID :: uuid
  payAmountPaise :: int
  payFeePaise :: int
  payMethod :: string
  payWalletTxnID :: "uuid option"
  payUPITxnRef :: "string option"
  paySetuPaymentRef :: "string option"
  payStatus :: string
  payFailureReason :: "string option"
  payReceiptNumber :: "string option"
  payBillID :: "uuid option"
  payIdempotencyKey :: "string option"
  payCreatedAt :: int
  paySettledAt :: "int option"

record PayIdempotency =
  pidKey :: string
  pidUserID :: uuid
  pidPaymentID :: "uuid option"
  pidResponseBody :: "json option"
  pidCreatedAt :: int
  pidExpiresAt :: int

record Reminder =
  remID :: uuid
  remAccountID :: uuid
  remUserID :: uuid
  remDaysBeforeDue :: int
  remChannels :: "string list"
  remIsActive :: bool
  remLastSentAt :: "int option"
  remCreatedAt :: int

record ScheduledPayment =
  schID :: uuid
  schUserID :: uuid
  schAccountID :: uuid
  schAmountPaise :: "int option"
  schPaymentMethod :: string
  schKind :: string
  schNextRunDate :: int
  schLastRunAt :: "int option"
  schIsActive :: bool
  schCreatedAt :: int

text \<open>The data allowance of a plan, a \<open>NUMERIC(5,2)\<close>, is kept in hundredths of a gigabyte.\<close>

record MobilePlan =
  mplID :: uuid
  mplOperator :: string
  mplCircle :: string
  mplAmountPaise :: int
  mplValidityDays :: "int option"
  mplDataGBPerDay :: "int option"
  mplTalktimePaise :: "int option"
  mplSMSCountPerDay :: "int option"
  mplDescription :: "string option"
  mplCategory :: "string option"
  mplIsActive :: bool
  mplLastSyncedAt :: int

text \<open>Events of the billpay-events topic (\<^verbatim>\<open>EventPublisher\<close>), with their arguments.\<close>

datatype billpay_event =
    PaymentInitiated uuid uuid uuid int string
  | PaymentSucceeded uuid uuid uuid int string string
  | PaymentFailed uuid uuid uuid int string
  | PaymentRefunded uuid uuid int string
  | BillFetched uuid uuid uuid int string
  | BillDueSoon uuid uuid uuid string int "string list"
  | ScheduledExecuted uuid uuid uuid int
  | ScheduledFailed uuid uuid string
  | AccountAdded uuid uuid uuid
  | AccountRemoved uuid uuid

text \<open>The state of bill-pay-service: its tables, the events it has published, and the two services
  it calls, the wallet (\<open>'v\<close>) and Setu (\<open>'s\<close>).\<close>

record ('v, 's) billpay = env +
  categories :: "Category list"
  providers :: "Provider list"
  accounts :: "Account list"
  bills :: "Bill list"
  payments :: "Payment list"
  pay_keys :: "string \<rightharpoonup> PayIdempotency"
  reminders :: "Reminder list"
  scheduled :: "ScheduledPayment list"
  mobile_plans :: "MobilePlan list"
  bp_events :: "billpay_event list"
  wallet_side :: 'v
  setu_side :: 's

definition MaskIdentifier :: "string \<Rightarrow> string" where
  "MaskIdentifier s =
     (if length s \<le> 4 then ''XXXX''
      else map (\<lambda>i. if i < length s - 4 then CHR ''X'' else s ! i) [0..<length s])"

section \<open>Constraint violations\<close>

definition check_violation :: goerr where
  "check_violation = Errorf ''ERROR: check constraint (SQLSTATE 23514)''"

definition unique_violation :: goerr where
  "unique_violation = Errorf ''ERROR: duplicate key (SQLSTATE 23505)''"

definition foreign_key_violation :: goerr where
  "foreign_key_violation = Errorf ''ERROR: foreign key (SQLSTATE 23503)''"

definition references :: "('r \<Rightarrow> uuid) \<Rightarrow> 'r list \<Rightarrow> uuid option \<Rightarrow> bool" where
  "references k rows r \<longleftrightarrow> (case r of None \<Rightarrow> True | Some i \<Rightarrow> i \<in> k ` set rows)"

section \<open>Payments (payments.go)\<close>

definition ErrPaymentNotFound :: goerr where
  "ErrPaymentNotFound = ErrVar ''ErrPaymentNotFound'' ''payment: not found''"

record CreatePaymentInput =
  cpiUserID :: uuid
  cpiAccountID :: "uuid option"
  cpiProviderID :: uuid
  cpiAmountPaise :: int
  cpiFeePaise :: int
  cpiPaymentMethod :: string
  cpiBillID :: "uuid option"
  cpiIdempotencyKey :: string

definition pay_methods :: "string list" where
  "pay_methods = [''wallet'', ''upi'', ''card'']"

definition payment_of_input :: "CreatePaymentInput \<Rightarrow> uuid \<Rightarrow> int \<Rightarrow> Payment" where
  "payment_of_input i id0 now0 =
     \<lparr>payID = id0, payUserID = cpiUserID i, payAccountID = cpiAccountID i,
      payProviderID = cpiProviderID i, payAmountPaise = cpiAmountPaise i, payFeePaise = cpiFeePaise i,
      payMethod = cpiPaymentMethod i, payWalletTxnID = None, payUPITxnRef = None,
      paySetuPaymentRef = None, payStatus = ''initiated'', payFailureReason = None,
      payReceiptNumber = None, payBillID = cpiBillID i, payIdempotencyKey = Some (cpiIdempotencyKey i),
      payCreatedAt = now0, paySettledAt = None\<rparr>"

text \<open>The constraints of \<^verbatim>\<open>billpay.payments\<close>: checks, primary key, unique idempotency key and
  the references to accounts, providers and bills.\<close>

definition sql_insert_payment :: "Payment \<Rightarrow> (('v, 's) billpay, unit) io" where
  "sql_insert_payment p = (\<lambda>w.
     if payAmountPaise p \<le> 0 \<or> payMethod p \<notin> set pay_methods then (Inl check_violation, w)
     else if payID p \<in> payID ` set (payments w)
       \<or> (payIdempotencyKey p \<noteq> None \<and> payIdempotencyKey p \<in> payIdempotencyKey ` set (payments w))
     then (Inl unique_violation, w)
     else if references accID (accounts w) (payAccountID p)
       \<and> references prvID (providers w) (Some (payProviderID p))
       \<and> references bilID (bills w) (payBillID p)
     then (Inr (), w\<lparr>payments := payments w @ [p]\<rparr>)
     else (Inl foreign_key_violation, w))"

definition InsertPayment :: "CreatePaymentInput \<Rightarrow> (('v, 's) billpay, Payment) io" where
  "InsertPayment i =
     require (\<not> (cpiUserID i = 0 \<or> cpiProviderID i = 0)) (Errorf ''insert payment: missing required ids'')
     (require (cpiAmountPaise i > 0) (Errorf ''insert payment: amount must be positive'')
     (require (cpiPaymentMethod i \<in> set pay_methods)
        (Errorf (''insert payment: invalid payment_method '' @ go_quote (cpiPaymentMethod i)))
     (require (cpiIdempotencyKey i \<noteq> []) (Errorf ''insert payment: idempotency_key required'')
     (wrapErr ''insert payment'' (db_call (
        andThen gen_random_uuid (\<lambda>id0 w.
          let p = payment_of_input i id0 (clock w)
          in andThen (sql_insert_payment p) (\<lambda>_. ok p) w)))))))"

text \<open>The row a lookup finds, or \<^verbatim>\<open>ErrPaymentNotFound\<close>.\<close>

definition select_payment :: "string \<Rightarrow> (Payment \<Rightarrow> bool) \<Rightarrow> (('v, 's) billpay, Payment) io" where
  "select_payment lbl c =
     andThen (wrapErr lbl (db_call (get (\<lambda>w. find c (payments w))))) (\<lambda>r.
       case r of None \<Rightarrow> fail ErrPaymentNotFound | Some p \<Rightarrow> ok p)"

definition store_GetPayment :: "uuid \<Rightarrow> uuid \<Rightarrow> (('v, 's) billpay, Payment) io" where
  "store_GetPayment u i = select_payment ''get payment'' (\<lambda>p. payID p = i \<and> payUserID p = u)"

definition GetPaymentByID :: "uuid \<Rightarrow> (('v, 's) billpay, Payment) io" where
  "GetPaymentByID i = select_payment ''get payment by id'' (\<lambda>p. payID p = i)"

text \<open>The statement has no \<^verbatim>\<open>ORDER BY\<close> and the reference no unique index: of several rows with the reference
  the model takes the first inserted. The theorems about webhooks name the row the query finds.\<close>

definition GetPaymentBySetuRef :: "string \<Rightarrow> (('v, 's) billpay, Payment) io" where
  "GetPaymentBySetuRef ref =
     select_payment ''get payment by setu ref'' (\<lambda>p. paySetuPaymentRef p = Some ref)"

text \<open>\<^verbatim>\<open>UPDATE billpay.payments SET f WHERE c\<close>, of which only the error is inspected.\<close>

definition update_payments ::
  "string \<Rightarrow> (Payment \<Rightarrow> bool) \<Rightarrow> (int \<Rightarrow> Payment \<Rightarrow> Payment) \<Rightarrow> (('v, 's) billpay, unit) io" where
  "update_payments lbl c f = wrapErr lbl (db_call (modify (\<lambda>w.
     w\<lparr>payments := update_rows c (f (clock w)) (payments w)\<rparr>)))"

definition MarkPaymentSubmitted :: "uuid \<Rightarrow> string \<Rightarrow> (('v, 's) billpay, unit) io" where
  "MarkPaymentSubmitted i setuRef = update_payments ''mark payment submitted''
     (\<lambda>p. payID p = i \<and> payStatus p = ''initiated'')
     (\<lambda>now0 p. p\<lparr>payStatus := ''submitted'', paySetuPaymentRef := Some setuRef\<rparr>)"

definition open_payment :: "Payment \<Rightarrow> bool" where
  "open_payment p \<longleftrightarrow> payStatus p \<in> {''initiated'', ''submitted''}"

definition MarkPaymentSucceeded :: "uuid \<Rightarrow> string \<Rightarrow> (('v, 's) billpay, unit) io" where
  "MarkPaymentSucceeded i receiptNumber = update_payments ''mark payment succeeded''
     (\<lambda>p. payID p = i \<and> open_payment p)
     (\<lambda>now0 p. p\<lparr>payStatus := ''succeeded'',
        payReceiptNumber := (if receiptNumber = [] then payReceiptNumber p else Some receiptNumber),
        paySettledAt := Some now0\<rparr>)"

definition MarkPaymentFailed :: "uuid \<Rightarrow> string \<Rightarrow> (('v, 's) billpay, unit) io" where
  "MarkPaymentFailed i reason = update_payments ''mark payment failed''
     (\<lambda>p. payID p = i \<and> open_payment p)
     (\<lambda>now0 p. p\<lparr>payStatus := ''failed'', payFailureReason := Some reason, paySettledAt := Some now0\<rparr>)"

definition MarkPaymentRefunded :: "uuid \<Rightarrow> string \<Rightarrow> (('v, 's) billpay, unit) io" where
  "MarkPaymentRefunded i reason = update_payments ''mark payment refunded''
     (\<lambda>p. payID p = i \<and> payStatus p \<in> {''succeeded'', ''failed''})
     (\<lambda>now0 p. p\<lparr>payStatus := ''refunded'',
        payFailureReason := (if reason = [] then payFailureReason p else Some reason)\<rparr>)"

definition AttachWalletTxn :: "uuid \<Rightarrow> uuid \<Rightarrow> (('v, 's) billpay, unit) io" where
  "AttachWalletTxn i walletTxnID = update_payments ''attach wallet txn''
     (\<lambda>p. payID p = i \<and> payWalletTxnID p = None)
     (\<lambda>now0 p. p\<lparr>payWalletTxnID := Some walletTxnID\<rparr>)"

text \<open>The cursor is cast by the database (\<open>$3::timestamptz\<close>): \<open>pg\<close> is that cast. Rows with
  the same \<^verbatim>\<open>created_at\<close> come in the order of insertion.\<close>

definition payments_page ::
  "uuid \<Rightarrow> string \<Rightarrow> int option \<Rightarrow> nat \<Rightarrow> Payment list \<Rightarrow> Payment list" where
  "payments_page u status before n ps =
     take n (sort_key (\<lambda>p. - payCreatedAt p)
       (filter (\<lambda>p. payUserID p = u \<and> (status = [] \<or> payStatus p = status)
          \<and> (case before of None \<Rightarrow> True | Some c \<Rightarrow> payCreatedAt p < c)) ps))"

definition ListPaymentsByUser ::
  "(string \<Rightarrow> int option) \<Rightarrow> uuid \<Rightarrow> string \<Rightarrow> string \<Rightarrow> int \<Rightarrow> (('v, 's) billpay, Payment list) io" where
  "ListPaymentsByUser pg u status cursor limit0 =
     (let n = nat (if limit0 \<le> 0 \<or> limit0 > 100 then 25 else limit0) in
      wrapErr ''list payments'' (db_call (\<lambda>w.
        if cursor = [] then (Inr (payments_page u status None n (payments w)), w)
        else (case pg cursor of
           None \<Rightarrow> (Inl (Errorf ''ERROR: invalid input syntax for type timestamp (SQLSTATE 22007)''), w)
         | Some c \<Rightarrow> (Inr (payments_page u status (Some c) n (payments w)), w)))))"

section \<open>Idempotency keys (idempotency.go)\<close>

definition ErrKeyMismatch :: goerr where
  "ErrKeyMismatch = ErrVar ''ErrIdempotencyMismatch'' ''idempotency: key reused by different user''"

definition ErrKeyNotFound :: goerr where
  "ErrKeyNotFound = ErrVar ''ErrIdempotencyKeyNotFound'' ''idempotency: key not found''"

definition FindPayKey :: "string \<Rightarrow> uuid \<Rightarrow> (('v, 's) billpay, PayIdempotency) io" where
  "FindPayKey key u =
     andThen (wrapErr ''find idempotency'' (db_call (get (\<lambda>w.
        case pay_keys w key of
          None \<Rightarrow> None | Some r \<Rightarrow> if pidExpiresAt r > clock w then Some r else None)))) (\<lambda>r.
      case r of
        None \<Rightarrow> fail ErrKeyNotFound
      | Some r \<Rightarrow> if pidUserID r \<noteq> u then fail ErrKeyMismatch else ok r)"

definition RecordPayKey ::
  "string \<Rightarrow> uuid \<Rightarrow> uuid option \<Rightarrow> json \<Rightarrow> (('v, 's) billpay, unit) io" where
  "RecordPayKey key u pid body =
     wrapErr ''record idempotency'' (db_call (\<lambda>w.
       case pay_keys w key of
         Some r \<Rightarrow> (Inr (), w)
       | None \<Rightarrow> (Inr (), w\<lparr>pay_keys := (pay_keys w)(key \<mapsto>
           \<lparr>pidKey = key, pidUserID = u, pidPaymentID = pid, pidResponseBody = Some body,
            pidCreatedAt = clock w, pidExpiresAt = clock w + day_us\<rparr>)\<rparr>)))"

definition PurgeExpiredPayKeys :: "(('v, 's) billpay, unit) io" where
  "PurgeExpiredPayKeys =
     wrapErr ''purge expired idempotency'' (db_call (modify (\<lambda>w.
       w\<lparr>pay_keys := (\<lambda>k. case pay_keys w k of
            None \<Rightarrow> None | Some r \<Rightarrow> if pidExpiresAt r < clock w then None else Some r)\<rparr>)))"

lemmas billpay_store_eval [go_eval] =
  check_violation_def unique_violation_def foreign_key_violation_def references_def
  ErrPaymentNotFound_def pay_methods_def payment_of_input_def sql_insert_payment_def InsertPayment_def
  select_payment_def store_GetPayment_def GetPaymentByID_def GetPaymentBySetuRef_def
  update_payments_def MarkPaymentSubmitted_def open_payment_def MarkPaymentSucceeded_def
  MarkPaymentFailed_def MarkPaymentRefunded_def AttachWalletTxn_def ErrKeyMismatch_def
  ErrKeyNotFound_def FindPayKey_def RecordPayKey_def PurgeExpiredPayKeys_def day_us_def

end
