(* ===== verification/Billpay_Tables.thy ===== *)
theory Billpay_Tables
  imports Billpay_Store "HOL-Library.Char_ord" "HOL-Library.List_Lexorder"
begin

text \<open>
  The store methods of bill-pay-service for everything around a payment (\<^verbatim>\<open>internal/store\<close>): the
  catalog of providers, saved accounts and their bills, reminders, scheduled payments and mobile
  plans. Text columns are ordered byte by byte; where the SQL orders by a key only, rows with
  equal keys come in the order of insertion. Dates given as text are read in the ISO form.
\<close>

section \<open>Providers and categories (providers.go)\<close>

definition ErrProviderNotFound :: goerr where
  "ErrProviderNotFound = ErrVar ''ErrProviderNotFound'' ''provider: not found''"

definition ErrCategoryNotFound :: goerr where
  "ErrCategoryNotFound = ErrVar ''ErrCategoryNotFound'' ''category: not found''"

definition store_ListCategories :: "(('v, 's) billpay, Category list) io" where
  "store_ListCategories = wrapErr ''list categories'' (db_call (get (\<lambda>w.
     sort_key catSortOrder (sort_key catName (filter catIsActive (categories w))))))"

definition GetCategory :: "string \<Rightarrow> (('v, 's) billpay, Category) io" where
  "GetCategory i = andThen (wrapErr ''get category'' (db_call (get (\<lambda>w. find (\<lambda>c. catID c = i) (categories w))))) (\<lambda>r.
     case r of None \<Rightarrow> fail ErrCategoryNotFound | Some c \<Rightarrow> ok c)"

definition store_ListProviders ::
  "string \<Rightarrow> string \<Rightarrow> int \<Rightarrow> (('v, 's) billpay, Provider list) io" where
  "store_ListProviders category state limit0 =
     (let n = nat (if limit0 \<le> 0 \<or> limit0 > 200 then 100 else limit0) in
      wrapErr ''list providers'' (db_call (get (\<lambda>w.
        take n (sort_key prvName (filter (\<lambda>p. prvIsActive p
          \<and> (category = [] \<or> prvCategoryID p = category)
          \<and> (state = [] \<or> prvStates p = [] \<or> state \<in> set (prvStates p))) (providers w)))))))"

definition store_GetProvider :: "uuid \<Rightarrow> (('v, 's) billpay, Provider) io" where
  "store_GetProvider i = andThen (wrapErr ''get provider'' (db_call (get (\<lambda>w. find (\<lambda>p. prvID p = i) (providers w))))) (\<lambda>r.
     case r of None \<Rightarrow> fail ErrProviderNotFound | Some p \<Rightarrow> ok p)"

definition GetProviderBySetuID :: "string \<Rightarrow> (('v, 's) billpay, Provider) io" where
  "GetProviderBySetuID setuID =
     andThen (wrapErr ''get provider by setu id'' (db_call (get (\<lambda>w. find (\<lambda>p. prvSetuBillerID p = setuID) (providers w))))) (\<lambda>r.
     case r of None \<Rightarrow> fail ErrProviderNotFound | Some p \<Rightarrow> ok p)"

record UpsertProviderInput =
  upiSetuBillerID :: string
  upiCategoryID :: string
  upiName :: string
  upiShortName :: "string option"
  upiLogoURL :: "string option"
  upiStates :: "string list"
  upiCustomerParams :: json
  upiBillFetchSupported :: bool

definition provider_of_input :: "UpsertProviderInput \<Rightarrow> uuid \<Rightarrow> int \<Rightarrow> Provider" where
  "provider_of_input i id0 now0 =
     \<lparr>prvID = id0, prvSetuBillerID = upiSetuBillerID i, prvCategoryID = upiCategoryID i,
      prvName = upiName i, prvShortName = upiShortName i, prvLogoURL = upiLogoURL i,
      prvStates = upiStates i, prvCustomerParams = upiCustomerParams i,
      prvBillFetchSupported = upiBillFetchSupported i, prvIsActive = True, prvLastSyncedAt = now0\<rparr>"

text \<open>\<open>ON CONFLICT (setu_biller_id) DO UPDATE\<close> leaves the identifier and \<^verbatim>\<open>is_active\<close> alone.\<close>

definition UpsertProvider :: "UpsertProviderInput \<Rightarrow> (('v, 's) billpay, uuid) io" where
  "UpsertProvider i =
     require (\<not> (upiSetuBillerID i = [] \<or> upiCategoryID i = [] \<or> upiName i = []))
       (Errorf ''upsert provider: missing required fields'')
     (wrapErr ''upsert provider'' (db_call (andThen gen_random_uuid (\<lambda>id0 w.
        let new = provider_of_input i id0 (clock w);
            same = (\<lambda>p. prvSetuBillerID p = upiSetuBillerID i)
        in if upiCategoryID i \<notin> catID ` set (categories w) then (Inl foreign_key_violation, w)
           else (case find same (providers w) of
             Some p \<Rightarrow> (Inr (prvID p), w\<lparr>providers := update_rows same
                 (\<lambda>p. new\<lparr>prvID := prvID p, prvIsActive := prvIsActive p\<rparr>) (providers w)\<rparr>)
           | None \<Rightarrow> if id0 \<in> prvID ` set (providers w) then (Inl unique_violation, w)
               else (Inr id0, w\<lparr>providers := providers w @ [new]\<rparr>))))))"

section \<open>Accounts (accounts.go)\<close>

definition ErrAccountNotFound :: goerr where
  "ErrAccountNotFound = ErrVar ''ErrAccountNotFound'' ''account: not found''"

record CreateAccountInput =
  caiUserID :: uuid
  caiProviderID :: uuid
  caiIdentifier :: string
  caiExtraParams :: "(string \<times> string) list"
  caiLabel :: string

definition account_of_input :: "CreateAccountInput \<Rightarrow> uuid \<Rightarrow> int \<Rightarrow> Account" where
  "account_of_input i id0 now0 =
     \<lparr>accID = id0, accUserID = caiUserID i, accProviderID = caiProviderID i,
      accIdentifier = caiIdentifier i, accExtraParams = caiExtraParams i, accLabel = caiLabel i,
      accIsDefault = False, accAutopayEnabled = False, accCreatedAt = now0, accDeletedAt = None\<rparr>"

definition same_account :: "CreateAccountInput \<Rightarrow> Account \<Rightarrow> bool" where
  "same_account i a \<longleftrightarrow> accUserID a = caiUserID i \<and> accProviderID a = caiProviderID i
     \<and> accIdentifier a = caiIdentifier i"

definition store_CreateAccount :: "CreateAccountInput \<Rightarrow> (('v, 's) billpay, Account) io" where
  "store_CreateAccount i =
     require (\<not> (caiUserID i = 0 \<or> caiProviderID i = 0)) (Errorf ''create account: missing required ids'')
     (require (caiIdentifier i \<noteq> []) (Errorf ''create account: identifier required'')
     (require (caiLabel i \<noteq> []) (Errorf ''create account: label required'')
     (wrapErr ''insert account'' (db_call (andThen gen_random_uuid (\<lambda>id0 w.
        let new = account_of_input i id0 (clock w);
            redo = (\<lambda>a. a\<lparr>accLabel := caiLabel i, accExtraParams := caiExtraParams i, accDeletedAt := None\<rparr>)
        in if caiProviderID i \<notin> prvID ` set (providers w) then (Inl foreign_key_violation, w)
           else (case find (same_account i) (accounts w) of
             Some a \<Rightarrow> (Inr (redo a), w\<lparr>accounts := update_rows (same_account i) redo (accounts w)\<rparr>)
           | None \<Rightarrow> if id0 \<in> accID ` set (accounts w) then (Inl unique_violation, w)
               else (Inr new, w\<lparr>accounts := accounts w @ [new]\<rparr>))))))))"

definition live_account :: "uuid \<Rightarrow> uuid \<Rightarrow> Account \<Rightarrow> bool" where
  "live_account u i a \<longleftrightarrow> accID a = i \<and> accUserID a = u \<and> accDeletedAt a = None"

definition ListAccountsByUser :: "uuid \<Rightarrow> (('v, 's) billpay, Account list) io" where
  "ListAccountsByUser u = wrapErr ''list accounts'' (db_call (get (\<lambda>w.
     sort_key (\<lambda>a. if accIsDefault a then 0 else 1 :: int) (sort_key (\<lambda>a. - accCreatedAt a)
       (filter (\<lambda>a. accUserID a = u \<and> accDeletedAt a = None) (accounts w))))))"

definition select_account :: "string \<Rightarrow> (Account \<Rightarrow> bool) \<Rightarrow> (('v, 's) billpay, Account) io" where
  "select_account lbl c =
     andThen (wrapErr lbl (db_call (get (\<lambda>w. find c (accounts w))))) (\<lambda>r.
       case r of None \<Rightarrow> fail ErrAccountNotFound | Some a \<Rightarrow> ok a)"

definition store_GetAccount :: "uuid \<Rightarrow> uuid \<Rightarrow> (('v, 's) billpay, Account) io" where
  "store_GetAccount u i = select_account ''get account'' (live_account u i)"

definition GetAccountByID :: "uuid \<Rightarrow> (('v, 's) billpay, Account) io" where
  "GetAccountByID i = select_account ''get account by id'' (\<lambda>a. accID a = i)"

record UpdateAccountInput =
  uaiLabel :: "string option"
  uaiIsDefault :: "bool option"
  uaiAutopayEnabled :: "bool option"

definition coalesce :: "'a option \<Rightarrow> 'a \<Rightarrow> 'a" where
  "coalesce x d = (case x of None \<Rightarrow> d | Some y \<Rightarrow> y)"

definition patch_account :: "UpdateAccountInput \<Rightarrow> Account \<Rightarrow> Account" where
  "patch_account i a = a\<lparr>accLabel := coalesce (uaiLabel i) (accLabel a),
     accIsDefault := coalesce (uaiIsDefault i) (accIsDefault a),
     accAutopayEnabled := coalesce (uaiAutopayEnabled i) (accAutopayEnabled a)\<rparr>"

definition store_UpdateAccount ::
  "uuid \<Rightarrow> uuid \<Rightarrow> UpdateAccountInput \<Rightarrow> (('v, 's) billpay, Account) io" where
  "store_UpdateAccount u i patch =
     andThen (wrapErr ''update account'' (db_call (\<lambda>w.
        (Inr (map_option (patch_account patch) (find (live_account u i) (accounts w))),
         w\<lparr>accounts := update_rows (live_account u i) (patch_account patch) (accounts w)\<rparr>)))) (\<lambda>r.
     case r of None \<Rightarrow> fail ErrAccountNotFound | Some a \<Rightarrow> ok a)"

definition SoftDeleteAccount :: "uuid \<Rightarrow> uuid \<Rightarrow> (('v, 's) billpay, unit) io" where
  "SoftDeleteAccount u i =
     andThen (wrapErr ''soft delete account'' (db_call (\<lambda>w.
        (Inr (length (filter (live_account u i) (accounts w))),
         w\<lparr>accounts := update_rows (live_account u i) (\<lambda>a. a\<lparr>accDeletedAt := Some (clock w)\<rparr>) (accounts w)\<rparr>)))) (\<lambda>n.
      if n = 0 then
        andThen (wrapErr ''probe account'' (db_call (get (\<lambda>w.
            list_ex (\<lambda>a. accID a = i \<and> accUserID a = u) (accounts w))))) (\<lambda>found.
          if found then ok () else fail ErrAccountNotFound)
      else ok ())"

section \<open>Bills (accounts.go)\<close>

record InsertBillInput =
  ibiAccountID :: uuid
  ibiBillAmountPaise :: int
  ibiBillPeriodStart :: "string option"
  ibiBillPeriodEnd :: "string option"
  ibiBillDueDate :: "string option"
  ibiBillNumber :: "string option"
  ibiCustomerName :: "string option"
  ibiSetuBillRef :: "string option"

text \<open>\<open>NULLIF($n,'')::date\<close>: the null date, a date, or the error of the cast.\<close>

definition date_column :: "string option \<Rightarrow> goerr + int option" where
  "date_column s = (case s of
     None \<Rightarrow> Inr None
   | Some t \<Rightarrow> if t = [] then Inr None
       else (case parseDate t of
          None \<Rightarrow> Inl (Errorf ''ERROR: invalid input syntax for type date (SQLSTATE 22007)'')
        | Some d \<Rightarrow> Inr (Some d)))"

definition bill_of_input ::
  "InsertBillInput \<Rightarrow> int option \<Rightarrow> int option \<Rightarrow> int option \<Rightarrow> uuid \<Rightarrow> int \<Rightarrow> Bill" where
  "bill_of_input i start0 end0 due id0 now0 =
     \<lparr>bilID = id0, bilAccountID = ibiAccountID i, bilAmountPaise = ibiBillAmountPaise i,
      bilPeriodStart = start0, bilPeriodEnd = end0, bilDueDate = due, bilNumber = ibiBillNumber i,
      bilCustomerName = ibiCustomerName i, bilSetuBillRef = ibiSetuBillRef i, bilStatus = ''fetched'',
      bilFetchedAt = now0, bilPaidAt = None, bilPaymentID = None\<rparr>"

definition sql_insert_bill :: "Bill \<Rightarrow> (('v, 's) billpay, Bill) io" where
  "sql_insert_bill b = (\<lambda>w.
     if bilAccountID b \<notin> accID ` set (accounts w) then (Inl foreign_key_violation, w)
     else if bilID b \<in> bilID ` set (bills w) then (Inl unique_violation, w)
     else (Inr b, w\<lparr>bills := bills w @ [b]\<rparr>))"

definition InsertBill :: "InsertBillInput \<Rightarrow> (('v, 's) billpay, Bill) io" where
  "InsertBill i =
     require (ibiAccountID i \<noteq> 0) (Errorf ''insert bill: account id required'')
     (require (\<not> ibiBillAmountPaise i < 0) (Errorf ''insert bill: amount may not be negative'')
     (wrapErr ''insert bill'' (db_call (andThen gen_random_uuid (\<lambda>id0 w.
        (case (date_column (ibiBillPeriodStart i), date_column (ibiBillPeriodEnd i), date_column (ibiBillDueDate i)) of
           (Inr start0, Inr end0, Inr due) \<Rightarrow>
             sql_insert_bill (bill_of_input i start0 end0 due id0 (clock w)) w
         | (Inl e, _, _) \<Rightarrow> (Inl e, w)
         | (_, Inl e, _) \<Rightarrow> (Inl e, w)
         | (_, _, Inl e) \<Rightarrow> (Inl e, w)))))))"

definition GetBill :: "uuid \<Rightarrow> (('v, 's) billpay, Bill) io" where
  "GetBill i = andThen (wrapErr ''get bill'' (db_call (get (\<lambda>w. find (\<lambda>b. bilID b = i) (bills w))))) (\<lambda>r.
     case r of None \<Rightarrow> fail (Errorf ''bill: not found'') | Some b \<Rightarrow> ok b)"

definition MarkBillPaid :: "uuid \<Rightarrow> uuid \<Rightarrow> (('v, 's) billpay, unit) io" where
  "MarkBillPaid i pid = wrapErr ''mark bill paid'' (db_call (modify (\<lambda>w.
     w\<lparr>bills := update_rows (\<lambda>b. bilID b = i \<and> bilStatus b = ''fetched'')
        (\<lambda>b. b\<lparr>bilStatus := ''paid'', bilPaidAt := Some (clock w), bilPaymentID := Some pid\<rparr>) (bills w)\<rparr>)))"

section \<open>Reminders (reminders.go)\<close>

definition ErrReminderNotFound :: goerr where
  "ErrReminderNotFound = ErrVar ''ErrReminderNotFound'' ''reminder: not found''"

record CreateReminderInput =
  criAccountID :: uuid
  criUserID :: uuid
  criDaysBeforeDue :: int
  criChannels :: "string list"

definition store_CreateReminder :: "CreateReminderInput \<Rightarrow> (('v, 's) billpay, Reminder) io" where
  "store_CreateReminder i =
     (let days = (if criDaysBeforeDue i \<le> 0 then 3 else criDaysBeforeDue i);
          chans = (if criChannels i = [] then [''push''] else criChannels i)
      in require (\<not> (criUserID i = 0 \<or> criAccountID i = 0)) (Errorf ''create reminder: missing required ids'')
        (require (\<not> days > 30) (Errorf ''create reminder: days_before_due must be <= 30'')
        (case find (\<lambda>c. c \<notin> {''push'', ''sms'', ''email''}) chans of
           Some c \<Rightarrow> fail (Errorf (''create reminder: invalid channel '' @ go_quote c))
         | None \<Rightarrow> wrapErr ''insert reminder'' (db_call (andThen gen_random_uuid (\<lambda>id0 w.
             let r = \<lparr>remID = id0, remAccountID = criAccountID i, remUserID = criUserID i,
                      remDaysBeforeDue = days, remChannels = chans, remIsActive = True,
                      remLastSentAt = None, remCreatedAt = clock w\<rparr>
             in if criAccountID i \<notin> accID ` set (accounts w) then (Inl foreign_key_violation, w)
                else if id0 \<in> remID ` set (reminders w) then (Inl unique_violation, w)
                else (Inr r, w\<lparr>reminders := reminders w @ [r]\<rparr>)))))))"

definition ListRemindersByUser :: "uuid \<Rightarrow> (('v, 's) billpay, Reminder list) io" where
  "ListRemindersByUser u = wrapErr ''list reminders'' (db_call (get (\<lambda>w.
     sort_key (\<lambda>r. - remCreatedAt r) (filter (\<lambda>r. remUserID r = u \<and> remIsActive r) (reminders w)))))"

definition store_DeleteReminder :: "uuid \<Rightarrow> uuid \<Rightarrow> (('v, 's) billpay, unit) io" where
  "store_DeleteReminder u i =
     andThen (wrapErr ''delete reminder'' (db_call (\<lambda>w.
        let hit = (\<lambda>r. remID r = i \<and> remUserID r = u \<and> remIsActive r)
        in (Inr (length (filter hit (reminders w))),
            w\<lparr>reminders := update_rows hit (\<lambda>r. r\<lparr>remIsActive := False\<rparr>) (reminders w)\<rparr>)))) (\<lambda>n.
      if n = 0 then
        andThen (wrapErr ''probe reminder'' (db_call (get (\<lambda>w.
            list_ex (\<lambda>r. remID r = i \<and> remUserID r = u) (reminders w))))) (\<lambda>found.
          if found then ok () else fail ErrReminderNotFound)
      else ok ())"

record DueReminderRow =
  drrReminderID :: uuid
  drrUserID :: uuid
  drrAccountID :: uuid
  drrChannels :: "string list"
  drrDaysBeforeDue :: int
  drrBillID :: uuid
  drrBillDueDate :: int
  drrBillAmount :: int
  drrProviderName :: string
  drrIdentifier :: string

text \<open>The latest bill of an account that is still to be paid, and the row the join makes of a
  reminder, if it makes one.\<close>

definition latest_bill :: "uuid \<Rightarrow> Bill list \<Rightarrow> Bill option" where
  "latest_bill acc bs = (case sort_key (\<lambda>b. - bilFetchedAt b)
       (filter (\<lambda>b. bilAccountID b = acc \<and> bilStatus b = ''fetched'') bs) of
     [] \<Rightarrow> None | b # _ \<Rightarrow> Some b)"

definition due_row :: "int \<Rightarrow> ('v, 's) billpay \<Rightarrow> Reminder \<Rightarrow> DueReminderRow option" where
  "due_row today w r = do {
     a \<leftarrow> find (\<lambda>a. accID a = remAccountID r \<and> accDeletedAt a = None) (accounts w);
     p \<leftarrow> find (\<lambda>p. prvID p = accProviderID a) (providers w);
     b \<leftarrow> latest_bill (remAccountID r) (bills w);
     due \<leftarrow> bilDueDate b;
     if remIsActive r \<and> today \<le> due \<and> due \<le> today + remDaysBeforeDue r
        \<and> (case remLastSentAt r of None \<Rightarrow> True | Some t \<Rightarrow> date_of t < today)
     then Some \<lparr>drrReminderID = remID r, drrUserID = remUserID r, drrAccountID = remAccountID r,
        drrChannels = remChannels r, drrDaysBeforeDue = remDaysBeforeDue r, drrBillID = bilID b,
        drrBillDueDate = due, drrBillAmount = bilAmountPaise b, drrProviderName = prvName p,
        drrIdentifier = accIdentifier a\<rparr>
     else None }"

definition ListDueReminders :: "int \<Rightarrow> (('v, 's) billpay, DueReminderRow list) io" where
  "ListDueReminders now0 = wrapErr ''list due reminders'' (db_call (get (\<lambda>w.
     List.map_filter (due_row (date_of now0) w) (reminders w))))"

definition MarkReminderSent :: "uuid \<Rightarrow> (('v, 's) billpay, unit) io" where
  "MarkReminderSent i = wrapErr ''mark reminder sent'' (db_call (modify (\<lambda>w.
     w\<lparr>reminders := update_rows (\<lambda>r. remID r = i) (\<lambda>r. r\<lparr>remLastSentAt := Some (clock w)\<rparr>) (reminders w)\<rparr>)))"

section \<open>Scheduled payments (scheduled.go)\<close>

definition ErrScheduledNotFound :: goerr where
  "ErrScheduledNotFound = ErrVar ''ErrScheduledNotFound'' ''scheduled: not found''"

record CreateScheduledInput =
  csiUserID :: uuid
  csiAccountID :: uuid
  csiAmountPaise :: "int option"
  csiPaymentMethod :: string
  csiScheduleKind :: string
  csiNextRunDate :: int

definition scheduled_of_input :: "CreateScheduledInput \<Rightarrow> uuid \<Rightarrow> int \<Rightarrow> ScheduledPayment" where
  "scheduled_of_input i id0 now0 =
     \<lparr>schID = id0, schUserID = csiUserID i, schAccountID = csiAccountID i, schAmountPaise = csiAmountPaise i,
      schPaymentMethod = csiPaymentMethod i, schKind = csiScheduleKind i, schNextRunDate = csiNextRunDate i,
      schLastRunAt = None, schIsActive = True, schCreatedAt = now0\<rparr>"

definition store_CreateScheduled :: "CreateScheduledInput \<Rightarrow> (('v, 's) billpay, ScheduledPayment) io" where
  "store_CreateScheduled i =
     require (\<not> (csiUserID i = 0 \<or> csiAccountID i = 0)) (Errorf ''create scheduled: missing required ids'')
     (require (csiScheduleKind i \<in> {''one_off'', ''monthly''})
        (Errorf (''create scheduled: invalid schedule_kind '' @ go_quote (csiScheduleKind i)))
     (require (csiPaymentMethod i \<in> {''wallet'', ''upi''})
        (Errorf (''create scheduled: invalid payment_method '' @ go_quote (csiPaymentMethod i)))
     (require (csiNextRunDate i \<noteq> zero_date) (Errorf ''create scheduled: next_run_date required'')
     (wrapErr ''insert scheduled'' (db_call (andThen gen_random_uuid (\<lambda>id0 w.
        let s = scheduled_of_input i id0 (clock w)
        in if csiAccountID i \<notin> accID ` set (accounts w) then (Inl foreign_key_violation, w)
           else if id0 \<in> schID ` set (scheduled w) then (Inl unique_violation, w)
           else (Inr s, w\<lparr>scheduled := scheduled w @ [s]\<rparr>))))))))"

definition ListScheduledByUser :: "uuid \<Rightarrow> (('v, 's) billpay, ScheduledPayment list) io" where
  "ListScheduledByUser u = wrapErr ''list scheduled'' (db_call (get (\<lambda>w.
     sort_key (\<lambda>s. if schIsActive s then 0 else 1 :: int)
       (sort_key schNextRunDate (filter (\<lambda>s. schUserID s = u) (scheduled w))))))"

definition due_scheduled :: "int \<Rightarrow> ScheduledPayment list \<Rightarrow> ScheduledPayment list" where
  "due_scheduled today ss =
     take 500 (sort_key schNextRunDate (filter (\<lambda>s. schIsActive s \<and> schNextRunDate s \<le> today) ss))"

definition ListDueScheduled :: "int \<Rightarrow> (('v, 's) billpay, ScheduledPayment list) io" where
  "ListDueScheduled now0 = wrapErr ''list due scheduled'' (db_call (get (\<lambda>w.
     due_scheduled (date_of now0) (scheduled w))))"

definition store_UpdateScheduledActive ::
  "uuid \<Rightarrow> uuid \<Rightarrow> bool \<Rightarrow> (('v, 's) billpay, ScheduledPayment) io" where
  "store_UpdateScheduledActive u i active =
     andThen (wrapErr ''update scheduled'' (db_call (\<lambda>w.
        let hit = (\<lambda>s. schID s = i \<and> schUserID s = u)
        in (Inr (map_option (\<lambda>s. s\<lparr>schIsActive := active\<rparr>) (find hit (scheduled w))),
            w\<lparr>scheduled := update_rows hit (\<lambda>s. s\<lparr>schIsActive := active\<rparr>) (scheduled w)\<rparr>)))) (\<lambda>r.
     case r of None \<Rightarrow> fail ErrScheduledNotFound | Some s \<Rightarrow> ok s)"

definition advance :: "int \<Rightarrow> ScheduledPayment \<Rightarrow> ScheduledPayment" where
  "advance now0 s = s\<lparr>schLastRunAt := Some now0,
     schNextRunDate := (if schKind s = ''monthly'' then schNextRunDate s + 30 else schNextRunDate s),
     schIsActive := (if schKind s = ''one_off'' then False else schIsActive s)\<rparr>"

definition AdvanceScheduled :: "uuid \<Rightarrow> (('v, 's) billpay, unit) io" where
  "AdvanceScheduled i = wrapErr ''advance scheduled'' (db_call (modify (\<lambda>w.
     w\<lparr>scheduled := update_rows (\<lambda>s. schID s = i) (advance (clock w)) (scheduled w)\<rparr>)))"

definition store_DeleteScheduled :: "uuid \<Rightarrow> uuid \<Rightarrow> (('v, 's) billpay, unit) io" where
  "store_DeleteScheduled u i =
     andThen (wrapErr ''delete scheduled'' (db_call (\<lambda>w.
        let hit = (\<lambda>s. schID s = i \<and> schUserID s = u)
        in (Inr (length (filter hit (scheduled w))),
            w\<lparr>scheduled := filter (\<lambda>s. \<not> hit s) (scheduled w)\<rparr>)))) (\<lambda>n.
      if n = 0 then fail ErrScheduledNotFound else ok ())"

section \<open>Mobile plans\<close>

record UpsertMobilePlanInput =
  umiOperator :: string
  umiCircle :: string
  umiPlanAmountPaise :: int
  umiValidityDays :: "int option"
  umiDataGBPerDay :: "int option"
  umiTalktimePaise :: "int option"
  umiSMSCountPerDay :: "int option"
  umiDescription :: "string option"
  umiCategory :: "string option"

definition plan_of_input :: "string \<Rightarrow> string \<Rightarrow> UpsertMobilePlanInput \<Rightarrow> uuid \<Rightarrow> int \<Rightarrow> MobilePlan" where
  "plan_of_input operator circle i id0 now0 =
     \<lparr>mplID = id0, mplOperator = operator, mplCircle = circle, mplAmountPaise = umiPlanAmountPaise i,
      mplValidityDays = umiValidityDays i, mplDataGBPerDay = umiDataGBPerDay i,
      mplTalktimePaise = umiTalktimePaise i, mplSMSCountPerDay = umiSMSCountPerDay i,
      mplDescription = umiDescription i, mplCategory = umiCategory i, mplIsActive = True,
      mplLastSyncedAt = now0\<rparr>"

definition sql_insert_plan :: "string \<Rightarrow> string \<Rightarrow> UpsertMobilePlanInput \<Rightarrow> (('v, 's) billpay, unit) io" where
  "sql_insert_plan operator circle i = db_call (andThen gen_random_uuid (\<lambda>id0 w.
     if id0 \<in> mplID ` set (mobile_plans w) then (Inl unique_violation, w)
     else (Inr (), w\<lparr>mobile_plans := mobile_plans w @ [plan_of_input operator circle i id0 (clock w)]\<rparr>)))"

definition UpsertMobilePlan :: "UpsertMobilePlanInput \<Rightarrow> (('v, 's) billpay, unit) io" where
  "UpsertMobilePlan i =
     require (\<not> (umiOperator i = [] \<or> umiCircle i = [])) (Errorf ''upsert mobile plan: operator and circle required'')
     (require (umiPlanAmountPaise i > 0) (Errorf ''upsert mobile plan: amount must be positive'')
     (wrapErr ''insert mobile plan'' (sql_insert_plan (umiOperator i) (umiCircle i) i)))"

definition ReplaceMobilePlans ::
  "string \<Rightarrow> string \<Rightarrow> UpsertMobilePlanInput list \<Rightarrow> (('v, 's) billpay, unit) io" where
  "ReplaceMobilePlans operator circle plans =
     require (\<not> (operator = [] \<or> circle = [])) (Errorf ''replace mobile plans: operator and circle required'')
     (in_tx ''begin replace plans''
       (andThen (wrapErr ''delete old plans'' (db_call (modify (\<lambda>w.
          w\<lparr>mobile_plans := filter (\<lambda>p. \<not> (mplOperator p = operator \<and> mplCircle p = circle)) (mobile_plans w)\<rparr>)))) (\<lambda>_.
        for_each plans (\<lambda>p _. if umiPlanAmountPaise p \<le> 0 then ok ()
          else wrapErr ''insert plan'' (sql_insert_plan operator circle p)) ()))
       ''commit replace plans'')"

definition plans_of :: "string \<Rightarrow> string \<Rightarrow> MobilePlan list \<Rightarrow> MobilePlan list" where
  "plans_of operator circle ps = sort_key mplAmountPaise
     (filter (\<lambda>p. mplIsActive p \<and> mplOperator p = operator \<and> mplCircle p = circle) ps)"

definition store_ListMobilePlans :: "string \<Rightarrow> string \<Rightarrow> (('v, 's) billpay, MobilePlan list) io" where
  "store_ListMobilePlans operator circle =
     require (\<not> (operator = [] \<or> circle = [])) (Errorf ''list mobile plans: operator and circle required'')
     (wrapErr ''list mobile plans'' (db_call (get (\<lambda>w. plans_of operator circle (mobile_plans w)))))"

lemmas billpay_tables_eval [go_eval] =
  ErrProviderNotFound_def ErrCategoryNotFound_def store_GetProvider_def GetProviderBySetuID_def
  provider_of_input_def UpsertProvider_def ErrAccountNotFound_def account_of_input_def same_account_def
  store_CreateAccount_def live_account_def select_account_def store_GetAccount_def GetAccountByID_def
  coalesce_def patch_account_def store_UpdateAccount_def SoftDeleteAccount_def date_column_def
  bill_of_input_def sql_insert_bill_def InsertBill_def GetBill_def MarkBillPaid_def
  ErrReminderNotFound_def store_CreateReminder_def MarkReminderSent_def ErrScheduledNotFound_def
  scheduled_of_input_def store_CreateScheduled_def advance_def AdvanceScheduled_def

end
