(* ===== verification/Billpay_Setu.thy ===== *)
theory Billpay_Setu
  imports Go_Http Go_Time
begin

text \<open>
  The Setu integration of bill-pay-service (\<^verbatim>\<open>internal/setu\<close>): the \<^verbatim>\<open>SetuClient\<close> interface as
  a record of operations over the state \<open>'s\<close> of the other side, the in-memory \<^verbatim>\<open>MockClient\<close>, the
  production \<^verbatim>\<open>HTTPClient\<close> over any server, and the webhook signature. Where a method calls
  \<^verbatim>\<open>time.Now()\<close>, the time is an argument.
\<close>

section \<open>The interface (client.go)\<close>

record CustomerParamSpec =
  cpsID :: string
  cpsName :: string
  cpsRegex :: string
  cpsType :: string
  cpsRequired :: bool

record Biller =
  blrSetuBillerID :: string
  blrName :: string
  blrShortName :: string
  blrLogoURL :: string
  blrCategoryID :: string
  blrStates :: "string list"
  blrCustomerParams :: "CustomerParamSpec list"
  blrBillFetchSupported :: bool

record SetuBill =
  sbSetuBillRef :: string
  sbAmountPaise :: int
  sbBillNumber :: string
  sbCustomerName :: string
  sbBillPeriodStart :: string
  sbBillPeriodEnd :: string
  sbBillDueDate :: string
  sbFetchedAt :: int

record PaymentRequest =
  prqSetuBillerID :: string
  prqIdentifier :: string
  prqExtraParams :: "(string \<times> string) list"
  prqAmountPaise :: int
  prqSetuBillRef :: string
  prqIdempotencyKey :: string
  prqPaymentChannel :: string
  prqAtPostPaymentID :: string

record PaymentResponse =
  prsSetuPaymentRef :: string
  prsStatus :: string
  prsReceiptNumber :: string
  prsFailureReason :: string

record PaymentStatus =
  pstSetuPaymentRef :: string
  pstStatus :: string
  pstReceiptNumber :: string
  pstFailureReason :: string

record SetuPlan =
  splOperator :: string
  splCircle :: string
  splAmountPaise :: int
  splValidityDays :: int
  splDataGBPerDay :: int
  splTalktimePaise :: int
  splSMSCountPerDay :: int
  splDescription :: string
  splCategory :: string

record 's SetuClient =
  ListBillers :: "string \<Rightarrow> ('s, Biller list) io"
  SetuFetchBill :: "int \<Rightarrow> string \<Rightarrow> string \<Rightarrow> (string \<times> string) list \<Rightarrow> ('s, SetuBill option) io"
  SubmitPayment :: "PaymentRequest \<Rightarrow> ('s, PaymentResponse) io"
  GetPaymentStatus :: "string \<Rightarrow> ('s, PaymentStatus) io"
  SetuDetectOperatorCircle :: "string \<Rightarrow> ('s, string \<times> string) io"
  SetuListMobilePlans :: "string \<Rightarrow> string \<Rightarrow> ('s, SetuPlan list) io"
  VerifyWebhookSignature :: "string \<Rightarrow> string \<Rightarrow> ('s, unit) io"

section \<open>The webhook signature (mock.go)\<close>

text \<open>\<open>sig\<close> is the value of the \<^verbatim>\<open>X-Setu-Signature\<close> header.\<close>

definition verifyHMACSHA256 :: "string \<Rightarrow> string \<Rightarrow> string \<Rightarrow> ('s, unit) io" where
  "verifyHMACSHA256 sig body secret =
     require (secret \<noteq> []) (Errorf ''webhook secret not configured'')
     (let got = trim_space sig in
      require (got \<noteq> []) (Errorf ''missing X-Setu-Signature header'')
      (require (to_lower got = hmac_hex secret body) (Errorf ''invalid webhook signature'') (ok ())))"

section \<open>MockClient (mock.go)\<close>

record SetuMock =
  smBillers :: "string \<rightharpoonup> Biller list"
  smBills :: "string \<rightharpoonup> SetuBill"
  smPlans :: "string \<rightharpoonup> SetuPlan list"
  smSubmissions :: "PaymentRequest list"
  smStatusByRef :: "string \<rightharpoonup> PaymentStatus"
  smWebhookSecret :: string

definition seedDefaults :: "SetuMock \<Rightarrow> SetuMock" where
  "seedDefaults m = m\<lparr>
     smBillers := (smBillers m)(
       ''electricity'' \<mapsto> [\<lparr>blrSetuBillerID = ''BSESRJ'', blrName = ''BSES Rajdhani'', blrShortName = [],
          blrLogoURL = [], blrCategoryID = ''electricity'', blrStates = [''DL''],
          blrCustomerParams = [\<lparr>cpsID = ''consumer_number'', cpsName = ''Consumer Number'',
             cpsRegex = ''^[0-9]{10,12}$'', cpsType = [], cpsRequired = True\<rparr>],
          blrBillFetchSupported = True\<rparr>],
       ''mobile_postpaid'' \<mapsto> [\<lparr>blrSetuBillerID = ''AIRTELPP'', blrName = ''Airtel Postpaid'', blrShortName = [],
          blrLogoURL = [], blrCategoryID = ''mobile_postpaid'', blrStates = [],
          blrCustomerParams = [\<lparr>cpsID = ''phone'', cpsName = ''Phone Number'',
             cpsRegex = ''^[6-9][0-9]{9}$'', cpsType = [], cpsRequired = True\<rparr>],
          blrBillFetchSupported = True\<rparr>]),
     smPlans := (smPlans m)(''airtel|KA'' \<mapsto> [
       \<lparr>splOperator = ''airtel'', splCircle = ''KA'', splAmountPaise = 24900, splValidityDays = 28,
        splDataGBPerDay = 150, splTalktimePaise = 0, splSMSCountPerDay = 100,
        splDescription = ''1.5 GB/day, unlimited calls'', splCategory = ''unlimited''\<rparr>,
       \<lparr>splOperator = ''airtel'', splCircle = ''KA'', splAmountPaise = 49900, splValidityDays = 84,
        splDataGBPerDay = 200, splTalktimePaise = 0, splSMSCountPerDay = 0,
        splDescription = ''2 GB/day, 84-day validity'', splCategory = ''unlimited''\<rparr>])\<rparr>"

definition NewSetuMock :: SetuMock where
  "NewSetuMock = seedDefaults \<lparr>smBillers = Map.empty, smBills = Map.empty, smPlans = Map.empty,
     smSubmissions = [], smStatusByRef = Map.empty, smWebhookSecret = ''mock-webhook-secret''\<rparr>"

definition SetWebhookSecret :: "string \<Rightarrow> SetuMock \<Rightarrow> SetuMock" where
  "SetWebhookSecret secret m = m\<lparr>smWebhookSecret := secret\<rparr>"

definition SeedBill :: "string \<Rightarrow> SetuBill \<Rightarrow> SetuMock \<Rightarrow> SetuMock" where
  "SeedBill identifier b m = m\<lparr>smBills := (smBills m)(identifier \<mapsto> b)\<rparr>"

definition SeedBillers :: "string \<Rightarrow> Biller list \<Rightarrow> SetuMock \<Rightarrow> SetuMock" where
  "SeedBillers category bs m = m\<lparr>smBillers := (smBillers m)(category \<mapsto> bs)\<rparr>"

definition SeedPlans :: "string \<Rightarrow> string \<Rightarrow> SetuPlan list \<Rightarrow> SetuMock \<Rightarrow> SetuMock" where
  "SeedPlans operator circle ps m = m\<lparr>smPlans := (smPlans m)(operator @ ''|'' @ circle \<mapsto> ps)\<rparr>"

definition SetStatus :: "string \<Rightarrow> PaymentStatus \<Rightarrow> SetuMock \<Rightarrow> SetuMock" where
  "SetStatus ref st m = m\<lparr>smStatusByRef := (smStatusByRef m)(ref \<mapsto> st)\<rparr>"

definition smock_ListBillers :: "string \<Rightarrow> (SetuMock, Biller list) io" where
  "smock_ListBillers category = get (\<lambda>m. case smBillers m category of None \<Rightarrow> [] | Some bs \<Rightarrow> bs)"

definition smock_FetchBill ::
  "int \<Rightarrow> string \<Rightarrow> string \<Rightarrow> (string \<times> string) list \<Rightarrow> (SetuMock, SetuBill option) io" where
  "smock_FetchBill now0 billerID identifier params =
     (if identifier = ''fail-fetch'' then fail (Errorf ''setu mock: simulated fetch failure'')
      else if identifier = ''no-bill'' then ok None
      else get (\<lambda>m. case smBills m identifier of
        Some b \<Rightarrow> Some b
      | None \<Rightarrow> Some \<lparr>sbSetuBillRef = ''mock-bill-'' @ billerID @ ''-'' @ identifier, sbAmountPaise = 150000,
          sbBillNumber = ''BN-'' @ billerID, sbCustomerName = ''Test Customer'',
          sbBillPeriodStart = formatDate (add_months (-1) (date_of now0)),
          sbBillPeriodEnd = formatDate (date_of now0), sbBillDueDate = formatDate (date_of now0 + 7),
          sbFetchedAt = now0\<rparr>))"

definition smock_SubmitPayment :: "PaymentRequest \<Rightarrow> (SetuMock, PaymentResponse) io" where
  "smock_SubmitPayment req =
     (if prqAtPostPaymentID req = ''fail-submit'' then fail (Errorf ''setu mock: simulated submit failure'')
      else (\<lambda>m.
        let m1 = m\<lparr>smSubmissions := smSubmissions m @ [req]\<rparr>;
            ref = ''setu-pay-'' @ prqAtPostPaymentID req;
            receipt = ''RRN'' @ prqAtPostPaymentID req
        in if prqSetuBillerID req = ''submit-fails-bbps''
           then (Inr \<lparr>prsSetuPaymentRef = [], prsStatus = ''failed'', prsReceiptNumber = [],
                   prsFailureReason = ''biller declined''\<rparr>, m1)
           else (Inr \<lparr>prsSetuPaymentRef = ref, prsStatus = ''submitted'', prsReceiptNumber = receipt,
                   prsFailureReason = []\<rparr>,
                 SetStatus ref \<lparr>pstSetuPaymentRef = ref, pstStatus = ''submitted'', pstReceiptNumber = receipt,
                   pstFailureReason = []\<rparr> m1)))"

definition smock_GetPaymentStatus :: "string \<Rightarrow> (SetuMock, PaymentStatus) io" where
  "smock_GetPaymentStatus ref =
     (if ref = ''ref-fail'' then fail (Errorf ''setu mock: simulated status failure'')
      else get (\<lambda>m. case smStatusByRef m ref of
        Some s \<Rightarrow> s
      | None \<Rightarrow> \<lparr>pstSetuPaymentRef = ref, pstStatus = ''submitted'', pstReceiptNumber = [], pstFailureReason = []\<rparr>))"

definition smock_DetectOperatorCircle :: "string \<Rightarrow> (SetuMock, string \<times> string) io" where
  "smock_DetectOperatorCircle phone =
     (if phone = [] then fail (Errorf ''setu mock: phone required'')
      else if phone = ''fail'' then fail (Errorf ''setu mock: simulated detect failure'')
      else ok (if hd phone = CHR ''7'' then ''jio'' else if hd phone = CHR ''8'' then ''airtel''
               else if hd phone = CHR ''9'' then ''vi'' else ''bsnl'', ''KA''))"

definition smock_ListMobilePlans :: "string \<Rightarrow> string \<Rightarrow> (SetuMock, SetuPlan list) io" where
  "smock_ListMobilePlans operator circle =
     get (\<lambda>m. case smPlans m (operator @ ''|'' @ circle) of None \<Rightarrow> [] | Some ps \<Rightarrow> ps)"

definition smock_VerifyWebhookSignature :: "string \<Rightarrow> string \<Rightarrow> (SetuMock, unit) io" where
  "smock_VerifyWebhookSignature sig body = (\<lambda>m. verifyHMACSHA256 sig body (smWebhookSecret m) m)"

definition setu_mock :: "SetuMock SetuClient" where
  "setu_mock = \<lparr>ListBillers = smock_ListBillers, SetuFetchBill = smock_FetchBill,
     SubmitPayment = smock_SubmitPayment, GetPaymentStatus = smock_GetPaymentStatus,
     SetuDetectOperatorCircle = smock_DetectOperatorCircle, SetuListMobilePlans = smock_ListMobilePlans,
     VerifyWebhookSignature = smock_VerifyWebhookSignature\<rparr>"

section \<open>HTTPClient (http.go)\<close>

record SetuHTTP =
  shBaseURL :: string
  shClientID :: string
  shClientSecret :: string
  shWebhookSecret :: string

definition NewSetuHTTP :: "string \<Rightarrow> string \<Rightarrow> string \<Rightarrow> string \<Rightarrow> SetuHTTP" where
  "NewSetuHTTP baseURL clientID clientSecret webhookSecret =
     \<lparr>shBaseURL = trim_right (CHR ''/'') (if baseURL = [] then ''https://prod.setu.co'' else baseURL),
      shClientID = clientID, shClientSecret = clientSecret, shWebhookSecret = webhookSecret\<rparr>"

definition setu_do ::
  "'p server \<Rightarrow> SetuHTTP \<Rightarrow> string \<Rightarrow> string \<Rightarrow> json option \<Rightarrow> ('p, json option) io" where
  "setu_do srv c method u payload =
     andThen (http_exchange srv (''new request'', ''setu http call'', ''read setu body'')
       (\<lambda>status txt. if status \<ge> 300
          then Some (Errorf (''setu http '' @ show_nat status @ '': '' @ truncate_text txt 256)) else None)
       \<lparr>wrMethod = method, wrURL = u,
        wrHeaders = [(''Accept'', ''application/json'')] @
          (if payload = None then [] else [(''Content-Type'', ''application/json'')]) @
          (if shClientID c = [] \<and> shClientSecret c = [] then []
           else [(''Authorization'', ''Basic '' @ base64_encode (shClientID c @ '':'' @ shClientSecret c))]),
        wrPayload = payload\<rparr>) (\<lambda>(txt, j). ok j)"

definition unmarshal_CustomerParamSpec :: "json \<Rightarrow> CustomerParamSpec option" where
  "unmarshal_CustomerParamSpec j = do {
     i \<leftarrow> json_field ''id'' as_str [] j; n \<leftarrow> json_field ''name'' as_str [] j;
     r \<leftarrow> json_field ''regex'' as_str [] j; t \<leftarrow> json_field ''type'' as_str [] j;
     q \<leftarrow> json_field ''required'' as_bool False j;
     Some \<lparr>cpsID = i, cpsName = n, cpsRegex = r, cpsType = t, cpsRequired = q\<rparr> }"

definition unmarshal_Biller :: "json \<Rightarrow> Biller option" where
  "unmarshal_Biller j = do {
     i \<leftarrow> json_field ''setu_biller_id'' as_str [] j; n \<leftarrow> json_field ''name'' as_str [] j;
     s \<leftarrow> json_field ''short_name'' as_str [] j; l \<leftarrow> json_field ''logo_url'' as_str [] j;
     c \<leftarrow> json_field ''category_id'' as_str [] j; st \<leftarrow> json_field ''states'' (as_list as_str) [] j;
     ps \<leftarrow> json_field ''customer_params'' (as_list unmarshal_CustomerParamSpec) [] j;
     f \<leftarrow> json_field ''bill_fetch_supported'' as_bool False j;
     Some \<lparr>blrSetuBillerID = i, blrName = n, blrShortName = s, blrLogoURL = l, blrCategoryID = c,
       blrStates = st, blrCustomerParams = ps, blrBillFetchSupported = f\<rparr> }"

definition shttp_ListBillers :: "'p server \<Rightarrow> SetuHTTP \<Rightarrow> string \<Rightarrow> ('p, Biller list) io" where
  "shttp_ListBillers srv c category =
     andThen (setu_do srv c ''GET''
       (shBaseURL c @ ''/api/bbps/billers?'' @ url_encode [(''category'', category)]) None) (\<lambda>body.
     decode_body ''decode billers'' (json_field ''billers'' (as_list unmarshal_Biller) []) body)"

definition unmarshal_SetuBill :: "json \<Rightarrow> SetuBill option" where
  "unmarshal_SetuBill j = do {
     r \<leftarrow> json_field ''setu_bill_ref'' as_str [] j; a \<leftarrow> json_field ''amount_paise'' as_int 0 j;
     n \<leftarrow> json_field ''bill_number'' as_str [] j; cn \<leftarrow> json_field ''customer_name'' as_str [] j;
     s \<leftarrow> json_field ''bill_period_start'' as_str [] j; e \<leftarrow> json_field ''bill_period_end'' as_str [] j;
     d \<leftarrow> json_field ''bill_due_date'' as_str [] j; f \<leftarrow> json_field ''fetched_at'' as_time zero_time j;
     Some \<lparr>sbSetuBillRef = r, sbAmountPaise = a, sbBillNumber = n, sbCustomerName = cn,
       sbBillPeriodStart = s, sbBillPeriodEnd = e, sbBillDueDate = d, sbFetchedAt = f\<rparr> }"

definition shttp_FetchBill ::
  "'p server \<Rightarrow> SetuHTTP \<Rightarrow> int \<Rightarrow> string \<Rightarrow> string \<Rightarrow> (string \<times> string) list \<Rightarrow> ('p, SetuBill option) io" where
  "shttp_FetchBill srv c now0 billerID identifier params =
     andThen (setu_do srv c ''POST'' (shBaseURL c @ ''/api/bbps/bills/fetch'')
       (Some (JObject [(''biller_id'', JStr billerID), (''identifier'', JStr identifier),
          (''params'', string_map params)]))) (\<lambda>body.
     andThen (decode_body ''decode bill'' unmarshal_SetuBill body) (\<lambda>b.
     if sbSetuBillRef b = [] then ok None
     else ok (Some (if sbFetchedAt b = zero_time then b\<lparr>sbFetchedAt := now0\<rparr> else b))))"

definition omitempty :: "string \<Rightarrow> string \<Rightarrow> (string \<times> json) list" where
  "omitempty k v = (if v = [] then [] else [(k, JStr v)])"

definition marshal_PaymentRequest :: "PaymentRequest \<Rightarrow> json" where
  "marshal_PaymentRequest r = JObject
     ([(''setu_biller_id'', JStr (prqSetuBillerID r)), (''identifier'', JStr (prqIdentifier r))] @
      (if prqExtraParams r = [] then [] else [(''extra_params'', string_map (prqExtraParams r))]) @
      [(''amount_paise'', JInt (prqAmountPaise r))] @ omitempty ''setu_bill_ref'' (prqSetuBillRef r) @
      [(''idempotency_key'', JStr (prqIdempotencyKey r)), (''payment_channel'', JStr (prqPaymentChannel r)),
       (''atpost_payment_id'', JStr (prqAtPostPaymentID r))])"

definition unmarshal_PaymentResponse :: "json \<Rightarrow> PaymentResponse option" where
  "unmarshal_PaymentResponse j = do {
     r \<leftarrow> json_field ''setu_payment_ref'' as_str [] j; s \<leftarrow> json_field ''status'' as_str [] j;
     n \<leftarrow> json_field ''receipt_number'' as_str [] j; f \<leftarrow> json_field ''failure_reason'' as_str [] j;
     Some \<lparr>prsSetuPaymentRef = r, prsStatus = s, prsReceiptNumber = n, prsFailureReason = f\<rparr> }"

definition shttp_SubmitPayment :: "'p server \<Rightarrow> SetuHTTP \<Rightarrow> PaymentRequest \<Rightarrow> ('p, PaymentResponse) io" where
  "shttp_SubmitPayment srv c req =
     andThen (setu_do srv c ''POST'' (shBaseURL c @ ''/api/bbps/payments'') (Some (marshal_PaymentRequest req))) (\<lambda>body.
     decode_body ''decode payment response'' unmarshal_PaymentResponse body)"

definition unmarshal_PaymentStatus :: "json \<Rightarrow> PaymentStatus option" where
  "unmarshal_PaymentStatus j = do {
     r \<leftarrow> json_field ''setu_payment_ref'' as_str [] j; s \<leftarrow> json_field ''status'' as_str [] j;
     n \<leftarrow> json_field ''receipt_number'' as_str [] j; f \<leftarrow> json_field ''failure_reason'' as_str [] j;
     Some \<lparr>pstSetuPaymentRef = r, pstStatus = s, pstReceiptNumber = n, pstFailureReason = f\<rparr> }"

definition shttp_GetPaymentStatus :: "'p server \<Rightarrow> SetuHTTP \<Rightarrow> string \<Rightarrow> ('p, PaymentStatus) io" where
  "shttp_GetPaymentStatus srv c ref =
     andThen (setu_do srv c ''GET'' (shBaseURL c @ ''/api/bbps/payments/'' @ path_escape ref @ ''/status'') None) (\<lambda>body.
     decode_body ''decode status'' unmarshal_PaymentStatus body)"

definition shttp_DetectOperatorCircle :: "'p server \<Rightarrow> SetuHTTP \<Rightarrow> string \<Rightarrow> ('p, string \<times> string) io" where
  "shttp_DetectOperatorCircle srv c phone =
     andThen (setu_do srv c ''GET'' (shBaseURL c @ ''/api/recharge/detect?'' @ url_encode [(''phone'', phone)]) None) (\<lambda>body.
     andThen (decode_body ''decode detect'' (\<lambda>j. do {
        op \<leftarrow> json_field ''operator'' as_str [] j; cir \<leftarrow> json_field ''circle'' as_str [] j; Some (op, cir) }) body) (\<lambda>(op, cir).
     require (\<not> (op = [] \<or> cir = [])) (Errorf ''setu: detect returned empty operator/circle'') (ok (op, cir))))"

definition unmarshal_SetuPlan :: "json \<Rightarrow> SetuPlan option" where
  "unmarshal_SetuPlan j = do {
     op \<leftarrow> json_field ''operator'' as_str [] j; cir \<leftarrow> json_field ''circle'' as_str [] j;
     a \<leftarrow> json_field ''amount_paise'' as_int 0 j; v \<leftarrow> json_field ''validity_days'' as_int 0 j;
     d \<leftarrow> json_field ''data_gb_per_day'' as_dec 0 j; t \<leftarrow> json_field ''talktime_paise'' as_int 0 j;
     s \<leftarrow> json_field ''sms_count_per_day'' as_int 0 j; ds \<leftarrow> json_field ''description'' as_str [] j;
     ct \<leftarrow> json_field ''category'' as_str [] j;
     Some \<lparr>splOperator = op, splCircle = cir, splAmountPaise = a, splValidityDays = v, splDataGBPerDay = d,
       splTalktimePaise = t, splSMSCountPerDay = s, splDescription = ds, splCategory = ct\<rparr> }"

definition shttp_ListMobilePlans :: "'p server \<Rightarrow> SetuHTTP \<Rightarrow> string \<Rightarrow> string \<Rightarrow> ('p, SetuPlan list) io" where
  "shttp_ListMobilePlans srv c operator circle =
     andThen (setu_do srv c ''GET'' (shBaseURL c @ ''/api/recharge/plans?'' @
        url_encode [(''circle'', circle), (''operator'', operator)]) None) (\<lambda>body.
     decode_body ''decode plans'' (json_field ''plans'' (as_list unmarshal_SetuPlan) []) body)"

definition setu_http :: "'p server \<Rightarrow> SetuHTTP \<Rightarrow> 'p SetuClient" where
  "setu_http srv c = \<lparr>ListBillers = shttp_ListBillers srv c, SetuFetchBill = shttp_FetchBill srv c,
     SubmitPayment = shttp_SubmitPayment srv c, GetPaymentStatus = shttp_GetPaymentStatus srv c,
     SetuDetectOperatorCircle = shttp_DetectOperatorCircle srv c,
     SetuListMobilePlans = shttp_ListMobilePlans srv c,
     VerifyWebhookSignature = (\<lambda>sig body. verifyHMACSHA256 sig body (shWebhookSecret c))\<rparr>"

lemmas billpay_setu_eval [go_eval] =
  setu_mock_def smock_SubmitPayment_def smock_FetchBill_def smock_DetectOperatorCircle_def
  smock_GetPaymentStatus_def smock_ListMobilePlans_def smock_ListBillers_def SetStatus_def
  smock_VerifyWebhookSignature_def NewSetuMock_def seedDefaults_def

end
