(* ===== verification/Billpay_Wallet.thy ===== *)
theory Billpay_Wallet
  imports Go_Http
begin

text \<open>
  The wallet integration of bill-pay-service (\<^verbatim>\<open>internal/wallet/client.go\<close>): the
  \<^verbatim>\<open>WalletClient\<close> interface as a record of operations over the state \<open>'v\<close> of the wallet's side,
  the recording \<^verbatim>\<open>MockClient\<close>, the production \<^verbatim>\<open>HTTPClient\<close> over any server, and the contract
  \<open>wallet_client\<close> that bill-pay-service relies on.
\<close>

section \<open>The interface\<close>

record DebitResult =
  drTransactionID :: uuid
  drStatus :: string
  drAmountPaise :: int

record 'v WalletClient =
  DebitForBillPay :: "uuid \<Rightarrow> int \<Rightarrow> uuid \<Rightarrow> string \<Rightarrow> ('v, DebitResult) io"
  RefundForBillPay :: "uuid \<Rightarrow> int \<Rightarrow> string \<Rightarrow> ('v, unit) io"

section \<open>HTTPClient\<close>

record WalletHTTP =
  whBaseURL :: string
  whInternalKey :: string

definition NewWalletHTTP :: "string \<Rightarrow> string \<Rightarrow> WalletHTTP" where
  "NewWalletHTTP baseURL internalKey =
     \<lparr>whBaseURL = trim_right (CHR ''/'') (if baseURL = [] then ''http://wallet-service:8114'' else baseURL),
      whInternalKey = internalKey\<rparr>"

definition whttp_post :: "'p server \<Rightarrow> WalletHTTP \<Rightarrow> string \<Rightarrow> json \<Rightarrow> ('p, string \<times> json option) io" where
  "whttp_post srv c path payload =
     http_exchange srv (''new request'', ''wallet call'', ''read wallet body'')
       (\<lambda>status txt. if status \<ge> 300
          then Some (Errorf (''wallet http '' @ show_nat status @ '': '' @ truncate_text txt 200)) else None)
       \<lparr>wrMethod = ''POST'', wrURL = whBaseURL c @ path,
        wrHeaders = [(''Content-Type'', ''application/json''), (''Accept'', ''application/json'')] @
          (if whInternalKey c = [] then [] else [(internalKeyHeader, whInternalKey c)]),
        wrPayload = Some payload\<rparr>"

definition marshal_debitRequest :: "uuid \<Rightarrow> int \<Rightarrow> uuid \<Rightarrow> string \<Rightarrow> json" where
  "marshal_debitRequest u amountPaise paymentID key = JObject
     [(''user_id'', JStr (uuid_string u)), (''amount_paise'', JInt amountPaise),
      (''merchant_service'', JStr ''bill_pay''), (''merchant_ref'', JStr (uuid_string paymentID)),
      (''idempotency_key'', JStr key)]"

definition unmarshal_DebitResult :: "json \<Rightarrow> DebitResult option" where
  "unmarshal_DebitResult j = do {
     i \<leftarrow> json_field ''transaction_id'' as_uuid 0 j; s \<leftarrow> json_field ''status'' as_str [] j;
     a \<leftarrow> json_field ''amount_paise'' as_int 0 j;
     Some \<lparr>drTransactionID = i, drStatus = s, drAmountPaise = a\<rparr> }"

text \<open>\<^verbatim>\<open>debitEnvelope\<close>: the \<^verbatim>\<open>data\<close> of the standard envelope, a nil pointer where it is missing,
  and an \<^verbatim>\<open>error\<close> that has to decode too.\<close>

definition unmarshal_debitEnvelope :: "json \<Rightarrow> DebitResult option option" where
  "unmarshal_debitEnvelope j = do {
     d \<leftarrow> json_field ''data'' (map_option Some \<circ> unmarshal_DebitResult) None j;
     e \<leftarrow> json_field ''error'' (\<lambda>x. do {
            c \<leftarrow> json_field ''code'' as_str [] x; msg \<leftarrow> json_field ''message'' as_str [] x; Some () }) () j;
     Some d }"

definition whttp_DebitForBillPay ::
  "'p server \<Rightarrow> WalletHTTP \<Rightarrow> uuid \<Rightarrow> int \<Rightarrow> uuid \<Rightarrow> string \<Rightarrow> ('p, DebitResult) io" where
  "whttp_DebitForBillPay srv c u amountPaise paymentID key =
     require (u \<noteq> 0) (Errorf ''wallet: user id required'')
    (require (\<not> amountPaise \<le> 0) (Errorf ''wallet: amount must be positive'')
    (require (key \<noteq> []) (Errorf ''wallet: idempotency_key required'')
    (andThen (whttp_post srv c ''/v1/wallet/internal/debit''
        (marshal_debitRequest u amountPaise paymentID key)) (\<lambda>(txt, body).
     case Option.bind body unmarshal_DebitResult of
       Some direct \<Rightarrow> if drTransactionID direct \<noteq> 0 then ok direct
         else (case Option.bind body unmarshal_debitEnvelope of
             Some (Some d) \<Rightarrow> ok d
           | _ \<Rightarrow> fail (Errorf (''wallet: unexpected debit response: '' @ truncate_text txt 200)))
     | None \<Rightarrow> (case Option.bind body unmarshal_debitEnvelope of
           Some (Some d) \<Rightarrow> ok d
         | _ \<Rightarrow> fail (Errorf (''wallet: unexpected debit response: '' @ truncate_text txt 200)))))))"

definition marshal_refundRequest :: "uuid \<Rightarrow> int \<Rightarrow> string \<Rightarrow> json" where
  "marshal_refundRequest originalWalletTxnID amountPaise reason = JObject
     [(''original_transaction_id'', JStr (uuid_string originalWalletTxnID)),
      (''amount_paise'', JInt amountPaise), (''reason'', JStr reason)]"

definition whttp_RefundForBillPay ::
  "'p server \<Rightarrow> WalletHTTP \<Rightarrow> uuid \<Rightarrow> int \<Rightarrow> string \<Rightarrow> ('p, unit) io" where
  "whttp_RefundForBillPay srv c originalWalletTxnID amountPaise reason =
     require (originalWalletTxnID \<noteq> 0) (Errorf ''wallet: original wallet txn id required'')
    (require (\<not> amountPaise \<le> 0) (Errorf ''wallet: refund amount must be positive'')
    (andThen (whttp_post srv c ''/v1/wallet/internal/refund''
        (marshal_refundRequest originalWalletTxnID amountPaise reason)) (\<lambda>_. ok ())))"

definition wallet_http :: "'p server \<Rightarrow> WalletHTTP \<Rightarrow> 'p WalletClient" where
  "wallet_http srv c =
     \<lparr>DebitForBillPay = whttp_DebitForBillPay srv c, RefundForBillPay = whttp_RefundForBillPay srv c\<rparr>"

section \<open>MockClient\<close>

record DebitCall =
  dcUserID :: uuid
  dcAmountPaise :: int
  dcPaymentID :: uuid
  dcIdempotencyKey :: string

record RefundCall =
  rcOriginalWalletTxnID :: uuid
  rcAmountPaise :: int
  rcReason :: string

record WalletMock =
  wmFailDebit :: bool
  wmFailRefund :: bool
  wmDebits :: "DebitCall list"
  wmRefunds :: "RefundCall list"
  wmDebitTxnID :: uuid

text \<open>\<open>i\<close> is the value of \<^verbatim>\<open>uuid.New()\<close>.\<close>

definition NewWalletMock :: "uuid \<Rightarrow> WalletMock" where
  "NewWalletMock i = \<lparr>wmFailDebit = False, wmFailRefund = False, wmDebits = [], wmRefunds = [], wmDebitTxnID = i\<rparr>"

definition FailDebit :: "WalletMock \<Rightarrow> WalletMock" where
  "FailDebit m = m\<lparr>wmFailDebit := True\<rparr>"

definition FailRefund :: "WalletMock \<Rightarrow> WalletMock" where
  "FailRefund m = m\<lparr>wmFailRefund := True\<rparr>"

definition SetDebitTxnID :: "uuid \<Rightarrow> WalletMock \<Rightarrow> WalletMock" where
  "SetDebitTxnID i m = m\<lparr>wmDebitTxnID := i\<rparr>"

definition wmock_DebitForBillPay :: "uuid \<Rightarrow> int \<Rightarrow> uuid \<Rightarrow> string \<Rightarrow> (WalletMock, DebitResult) io" where
  "wmock_DebitForBillPay u amountPaise paymentID key = (\<lambda>m.
     if wmFailDebit m
     then (Inl (Errorf ''wallet mock: simulated debit failure''), m\<lparr>wmFailDebit := False\<rparr>)
     else (Inr \<lparr>drTransactionID = wmDebitTxnID m, drStatus = ''succeeded'', drAmountPaise = amountPaise\<rparr>,
       m\<lparr>wmDebits := wmDebits m @ [\<lparr>dcUserID = u, dcAmountPaise = amountPaise, dcPaymentID = paymentID,
          dcIdempotencyKey = key\<rparr>]\<rparr>))"

definition wmock_RefundForBillPay :: "uuid \<Rightarrow> int \<Rightarrow> string \<Rightarrow> (WalletMock, unit) io" where
  "wmock_RefundForBillPay originalWalletTxnID amountPaise reason = (\<lambda>m.
     if wmFailRefund m
     then (Inl (Errorf ''wallet mock: simulated refund failure''), m\<lparr>wmFailRefund := False\<rparr>)
     else (Inr (), m\<lparr>wmRefunds := wmRefunds m @ [\<lparr>rcOriginalWalletTxnID = originalWalletTxnID,
          rcAmountPaise = amountPaise, rcReason = reason\<rparr>]\<rparr>))"

definition wallet_mock :: "WalletMock WalletClient" where
  "wallet_mock = \<lparr>DebitForBillPay = wmock_DebitForBillPay, RefundForBillPay = wmock_RefundForBillPay\<rparr>"

lemmas billpay_wallet_eval [go_eval] =
  wallet_mock_def wmock_DebitForBillPay_def wmock_RefundForBillPay_def NewWalletMock_def FailDebit_def
  FailRefund_def SetDebitTxnID_def

section \<open>The contract\<close>

text \<open>What bill-pay-service relies on. \<open>funds v u\<close> is what \<open>u\<close> can spend and \<open>owner v\<close> maps
  the wallet transactions to their users. A debit of \<open>u\<close> takes the amount from \<open>u\<close> or nothing
  (nothing on a replay; on an error either, since the reply can be lost), and one that succeeds
  names a transaction of \<open>u\<close>. A refund pays the amount to the owner of the transaction it names,
  or nothing. Neither touches anybody else's money, and transactions keep their owners.\<close>

locale wallet_client =
  fixes wc :: "'v WalletClient"
    and winv :: "'v \<Rightarrow> bool"
    and funds :: "'v \<Rightarrow> uuid \<Rightarrow> int"
    and owner :: "'v \<Rightarrow> uuid \<Rightarrow> uuid option"
  assumes debit: "winv v \<Longrightarrow> DebitForBillPay wc u a p k v = (r, v') \<Longrightarrow>
      winv v' \<and> owner v \<subseteq>\<^sub>m owner v' \<and> (funds v' = funds v \<or> funds v' = (funds v)(u := funds v u - a))"
    and debited: "winv v \<Longrightarrow> DebitForBillPay wc u a p k v = (Inr d, v') \<Longrightarrow>
      owner v' (drTransactionID d) = Some u"
    and refund: "winv v \<Longrightarrow> RefundForBillPay wc t a reason v = (res, v') \<Longrightarrow>
      winv v' \<and> owner v \<subseteq>\<^sub>m owner v' \<and>
      (funds v' = funds v \<or> (\<exists>u. owner v t = Some u \<and> funds v' = (funds v)(u := funds v u + a)))"

end
