(* ===== verification/Billpay_Service.thy ===== *)
theory Billpay_Service
  imports Billpay_Tables Billpay_Setu Billpay_Wallet
begin

text \<open>
  The business layer of bill-pay-service (\<^verbatim>\<open>internal/service\<close>), translated method by method: the
  payment saga with its guards, replay, compensation and best-effort steps (\<^verbatim>\<open>pay.go\<close>), the
  webhook (\<^verbatim>\<open>payments.go\<close>), recharges, saved accounts and bills, the provider catalog, reminders and
  scheduled payments with their cron loops. \<open>sv\<close> holds the two clients and the configuration. The
  time of a cron run is an argument; dates are taken in UTC.
\<close>

section \<open>The service (billpay.go)\<close>

record BillpayConfig =
  DefaultMobileCircle :: string

record ('v, 's) BillpayService =
  bsSetu :: "'s SetuClient"
  bsWallet :: "'v WalletClient"
  bsCfg :: BillpayConfig

definition bp_New :: "'s SetuClient \<Rightarrow> 'v WalletClient \<Rightarrow> BillpayConfig \<Rightarrow> ('v, 's) BillpayService" where
  "bp_New sc wc cfg = \<lparr>bsSetu = sc, bsWallet = wc,
     bsCfg = (if DefaultMobileCircle cfg = [] then cfg\<lparr>DefaultMobileCircle := ''KA''\<rparr> else cfg)\<rparr>"

definition on_wallet :: "('v, 'a) io \<Rightarrow> (('v, 's) billpay, 'a) io" where
  "on_wallet m = (\<lambda>w. case m (wallet_side w) of (r, v) \<Rightarrow> (r, w\<lparr>wallet_side := v\<rparr>))"

definition on_setu :: "('s, 'a) io \<Rightarrow> (('v, 's) billpay, 'a) io" where
  "on_setu m = (\<lambda>w. case m (setu_side w) of (r, s) \<Rightarrow> (r, w\<lparr>setu_side := s\<rparr>))"

text \<open>\<^verbatim>\<open>producer.PublishX(...)\<close>, and the form whose error is only logged.\<close>

definition emit :: "billpay_event \<Rightarrow> (('v, 's) billpay, unit) io" where
  "emit e = db_call (modify (\<lambda>w. w\<lparr>bp_events := bp_events w @ [e]\<rparr>))"

definition bp_publish :: "billpay_event \<Rightarrow> (('v, 's) billpay, unit) io" where
  "bp_publish e = logged (emit e)"

definition marshalCustomerParams :: "CustomerParamSpec list \<Rightarrow> json" where
  "marshalCustomerParams specs = JArray (map (\<lambda>c. JObject
     ([(''id'', JStr (cpsID c)), (''name'', JStr (cpsName c))] @ omitempty ''regex'' (cpsRegex c) @
      omitempty ''type'' (cpsType c) @ [(''required'', JBool (cpsRequired c))])) specs)"

definition optString :: "string \<Rightarrow> string option" where
  "optString s = (if s = [] then None else Some s)"

section \<open>Paying (pay.go)\<close>

record PayRequest =
  prAccountID :: "uuid option"
  prProviderID :: uuid
  prIdentifier :: string
  prAmountPaise :: int
  prPaymentMethod :: string
  prIdempotencyKey :: string
  prBillID :: "uuid option"
  prExtraParams :: "(string \<times> string) list"

record PayResult =
  presPaymentID :: uuid
  presStatus :: string
  presAmountPaise :: int
  presSetuPaymentRef :: string
  presReceiptNumber :: string

definition marshal_PayResult :: "PayResult \<Rightarrow> json" where
  "marshal_PayResult r = JObject
     ([(''payment_id'', JUUID (presPaymentID r)), (''status'', JStr (presStatus r)),
       (''amount_paise'', JInt (presAmountPaise r))] @
      omitempty ''setu_payment_ref'' (presSetuPaymentRef r) @ omitempty ''receipt_number'' (presReceiptNumber r))"

definition unmarshal_PayResult :: "json \<Rightarrow> PayResult option" where
  "unmarshal_PayResult j = do {
     i \<leftarrow> json_field ''payment_id'' as_uuid 0 j; s \<leftarrow> json_field ''status'' as_str [] j;
     a \<leftarrow> json_field ''amount_paise'' as_int 0 j; r \<leftarrow> json_field ''setu_payment_ref'' as_str [] j;
     n \<leftarrow> json_field ''receipt_number'' as_str [] j;
     Some \<lparr>presPaymentID = i, presStatus = s, presAmountPaise = a, presSetuPaymentRef = r, presReceiptNumber = n\<rparr> }"

lemma unmarshal_marshal_PayResult [simp]: "unmarshal_PayResult (marshal_PayResult r) = Some r"
  by (cases r) (simp add: unmarshal_PayResult_def marshal_PayResult_def omitempty_def go_json_eval)

definition resultFromPayment :: "Payment \<Rightarrow> PayResult" where
  "resultFromPayment p = \<lparr>presPaymentID = payID p, presStatus = payStatus p, presAmountPaise = payAmountPaise p,
     presSetuPaymentRef = (case paySetuPaymentRef p of None \<Rightarrow> [] | Some r \<Rightarrow> r),
     presReceiptNumber = (case payReceiptNumber p of None \<Rightarrow> [] | Some r \<Rightarrow> r)\<rparr>"

text \<open>The saga compensation.\<close>

definition failPaymentAndRefund ::
  "('v, 's) BillpayService \<Rightarrow> Payment \<Rightarrow> uuid option \<Rightarrow> string \<Rightarrow> (('v, 's) billpay, unit) io" where
  "failPaymentAndRefund sv pmt walletTxnID reason =
     andThen (logged (MarkPaymentFailed (payID pmt) reason)) (\<lambda>_.
     andThen (case walletTxnID of
         None \<Rightarrow> ok ()
       | Some t \<Rightarrow> attempt (on_wallet (RefundForBillPay (bsWallet sv) t (payAmountPaise pmt) ''billpay_setu_failed'')) (\<lambda>r.
           case r of
             Inl e \<Rightarrow> ok ()
           | Inr _ \<Rightarrow> bp_publish (PaymentRefunded (payUserID pmt) (payID pmt) (payAmountPaise pmt) ''setu_failed''))) (\<lambda>_.
     bp_publish (PaymentFailed (payUserID pmt) (payID pmt) (payProviderID pmt) (payAmountPaise pmt) reason)))"

text \<open>Step 1: what a recorded key answers; \<open>None\<close> if it answers nothing.\<close>

definition pay_replay :: "PayIdempotency \<Rightarrow> (('v, 's) billpay, PayResult) io option" where
  "pay_replay existing = (case pidResponseBody existing of
     Some body \<Rightarrow> Some (case unmarshal_PayResult body of
         None \<Rightarrow> fail (Wrap ''decode cached idempotency body'' (Errorf ''json: cannot unmarshal''))
       | Some r \<Rightarrow> ok r)
   | None \<Rightarrow> (case pidPaymentID existing of
       Some i \<Rightarrow> Some (andThen (GetPaymentByID i) (\<lambda>p. ok (resultFromPayment p)))
     | None \<Rightarrow> None))"

text \<open>Step 2: the provider, and the saved account if one is given.\<close>

definition pay_provider :: "uuid \<Rightarrow> PayRequest \<Rightarrow> (('v, 's) billpay, Provider) io" where
  "pay_provider u req =
     andThen (store_GetProvider (prProviderID req)) (\<lambda>prov.
     require (prvIsActive prov) (Errorf ''invalid: provider is not active'')
     (case prAccountID req of
        None \<Rightarrow> ok prov
      | Some a \<Rightarrow> andThen (store_GetAccount u a) (\<lambda>acc.
          require (accProviderID acc = prvID prov) (Errorf ''invalid: account does not belong to provider'')
          (ok prov))))"

text \<open>Step 3: the wallet pre-debit under the derived key, for a payment id of its own.\<close>

definition wallet_key :: "string \<Rightarrow> string" where
  "wallet_key key = key @ '':wallet''"

definition pay_debit ::
  "('v, 's) BillpayService \<Rightarrow> uuid \<Rightarrow> PayRequest \<Rightarrow> (('v, 's) billpay, uuid option) io" where
  "pay_debit sv u req =
     (if prPaymentMethod req = ''wallet'' then
        andThen gen_random_uuid (\<lambda>stagedPaymentID.
        andThen (wrapErr ''wallet debit failed'' (on_wallet (DebitForBillPay (bsWallet sv) u (prAmountPaise req)
           stagedPaymentID (wallet_key (prIdempotencyKey req))))) (\<lambda>dr.
        ok (Some (drTransactionID dr))))
      else ok None)"

definition pay_input :: "uuid \<Rightarrow> Provider \<Rightarrow> PayRequest \<Rightarrow> CreatePaymentInput" where
  "pay_input u prov req = \<lparr>cpiUserID = u, cpiAccountID = prAccountID req, cpiProviderID = prvID prov,
     cpiAmountPaise = prAmountPaise req, cpiFeePaise = 0, cpiPaymentMethod = prPaymentMethod req,
     cpiBillID = prBillID req, cpiIdempotencyKey = prIdempotencyKey req\<rparr>"

text \<open>Step 4: the payment row, or the wallet's money back.\<close>

definition pay_insert ::
  "('v, 's) BillpayService \<Rightarrow> uuid \<Rightarrow> Provider \<Rightarrow> uuid option \<Rightarrow> PayRequest \<Rightarrow> (('v, 's) billpay, Payment) io" where
  "pay_insert sv u prov walletTxnID req =
     attempt (InsertPayment (pay_input u prov req)) (\<lambda>r.
       case r of
         Inl e \<Rightarrow>
           andThen (case walletTxnID of
               None \<Rightarrow> ok ()
             | Some t \<Rightarrow> logged (on_wallet (RefundForBillPay (bsWallet sv) t (prAmountPaise req) ''billpay_insert_failed''))) (\<lambda>_.
           fail (Wrap ''insert payment'' e))
       | Inr pmt \<Rightarrow>
           andThen (case walletTxnID of
               None \<Rightarrow> ok () | Some t \<Rightarrow> logged (AttachWalletTxn (payID pmt) t)) (\<lambda>_.
           andThen (bp_publish (PaymentInitiated u (payID pmt) (prvID prov) (prAmountPaise req) (prPaymentMethod req))) (\<lambda>_.
           ok pmt)))"

text \<open>The reference of the bill that is paid, if it can be read.\<close>

definition pay_bill_ref :: "uuid option \<Rightarrow> (('v, 's) billpay, string) io" where
  "pay_bill_ref b = (case b of
     None \<Rightarrow> ok []
   | Some i \<Rightarrow> attempt (GetBill i) (\<lambda>r. case r of
       Inl e \<Rightarrow> ok []
     | Inr bill \<Rightarrow> ok (case bilSetuBillRef bill of None \<Rightarrow> [] | Some ref \<Rightarrow> ref)))"

definition setu_request :: "Provider \<Rightarrow> PayRequest \<Rightarrow> Payment \<Rightarrow> string \<Rightarrow> PaymentRequest" where
  "setu_request prov req pmt ref = \<lparr>prqSetuBillerID = prvSetuBillerID prov, prqIdentifier = prIdentifier req,
     prqExtraParams = prExtraParams req, prqAmountPaise = prAmountPaise req, prqSetuBillRef = ref,
     prqIdempotencyKey = prIdempotencyKey req, prqPaymentChannel = prPaymentMethod req,
     prqAtPostPaymentID = uuid_string (payID pmt)\<rparr>"

text \<open>Steps 5 and 6: submit to Setu, then compensate or mark the row and record the answer.\<close>

definition pay_accepted ::
  "uuid \<Rightarrow> PayRequest \<Rightarrow> Payment \<Rightarrow> PaymentResponse \<Rightarrow> (('v, 's) billpay, PayResult) io" where
  "pay_accepted u req pmt resp =
     andThen (logged (MarkPaymentSubmitted (payID pmt) (prsSetuPaymentRef resp))) (\<lambda>_.
     let res = \<lparr>presPaymentID = payID pmt, presStatus = ''submitted'', presAmountPaise = payAmountPaise pmt,
           presSetuPaymentRef = prsSetuPaymentRef resp, presReceiptNumber = prsReceiptNumber resp\<rparr>
     in andThen (logged (RecordPayKey (prIdempotencyKey req) u (Some (payID pmt)) (marshal_PayResult res))) (\<lambda>_.
        ok res))"

definition pay_submit ::
  "('v, 's) BillpayService \<Rightarrow> uuid \<Rightarrow> Provider \<Rightarrow> uuid option \<Rightarrow> PayRequest \<Rightarrow> Payment \<Rightarrow>
     (('v, 's) billpay, PayResult) io" where
  "pay_submit sv u prov walletTxnID req pmt =
     andThen (pay_bill_ref (prBillID req)) (\<lambda>ref.
     attempt (on_setu (SubmitPayment (bsSetu sv) (setu_request prov req pmt ref))) (\<lambda>r.
       case r of
         Inl e \<Rightarrow>
           andThen (failPaymentAndRefund sv pmt walletTxnID (''setu_submit_error: '' @ err_msg e)) (\<lambda>_.
           fail (Wrap ''setu submit'' e))
       | Inr resp \<Rightarrow>
           if prsStatus resp = ''failed'' then
             andThen (failPaymentAndRefund sv pmt walletTxnID (prsFailureReason resp)) (\<lambda>_.
             ok \<lparr>presPaymentID = payID pmt, presStatus = ''failed'', presAmountPaise = payAmountPaise pmt,
               presSetuPaymentRef = [], presReceiptNumber = []\<rparr>)
           else pay_accepted u req pmt resp))"

definition pay_run ::
  "('v, 's) BillpayService \<Rightarrow> uuid \<Rightarrow> PayRequest \<Rightarrow> (('v, 's) billpay, PayResult) io" where
  "pay_run sv u req =
     andThen (pay_provider u req) (\<lambda>prov.
     andThen (pay_debit sv u req) (\<lambda>walletTxnID.
     andThen (pay_insert sv u prov walletTxnID req) (\<lambda>pmt.
     pay_submit sv u prov walletTxnID req pmt)))"

definition Pay ::
  "('v, 's) BillpayService \<Rightarrow> uuid \<Rightarrow> PayRequest \<Rightarrow> (('v, 's) billpay, PayResult) io" where
  "Pay sv u req =
     require (u \<noteq> 0) (Errorf ''invalid: user id required'')
    (require (prIdempotencyKey req \<noteq> []) (Errorf ''invalid: idempotency_key required'')
    (require (\<not> prAmountPaise req \<le> 0) (Errorf ''invalid: amount must be positive'')
    (require (prProviderID req \<noteq> 0) (Errorf ''invalid: provider_id required'')
    (require (prIdentifier req \<noteq> []) (Errorf ''invalid: identifier required'')
    (require (prPaymentMethod req \<in> set pay_methods)
       (Errorf ''invalid: payment_method must be wallet|upi|card'')
    (attempt (FindPayKey (prIdempotencyKey req) u) (\<lambda>r.
       case r of
         Inr existing \<Rightarrow> (case pay_replay existing of Some m \<Rightarrow> m | None \<Rightarrow> pay_run sv u req)
       | Inl e \<Rightarrow> if \<not> errors_is e ErrKeyNotFound then fail e else pay_run sv u req)))))))"

section \<open>Payments and the webhook (payments.go)\<close>

definition GetPayment :: "uuid \<Rightarrow> uuid \<Rightarrow> (('v, 's) billpay, Payment) io" where
  "GetPayment u i = require (\<not> (u = 0 \<or> i = 0)) (Errorf ''invalid: ids required'') (store_GetPayment u i)"

definition ListPayments ::
  "(string \<Rightarrow> int option) \<Rightarrow> uuid \<Rightarrow> string \<Rightarrow> string \<Rightarrow> int \<Rightarrow> (('v, 's) billpay, Payment list) io" where
  "ListPayments pg u status cursor limit0 =
     require (u \<noteq> 0) (Errorf ''invalid: user id required'') (ListPaymentsByUser pg u status cursor limit0)"

record SetuWebhookEvent =
  sweSetuPaymentRef :: string
  sweStatus :: string
  sweReceiptNumber :: string
  sweFailureReason :: string

definition webhook_succeeded :: "SetuWebhookEvent \<Rightarrow> Payment \<Rightarrow> (('v, 's) billpay, unit) io" where
  "webhook_succeeded evt pmt =
     andThen (MarkPaymentSucceeded (payID pmt) (sweReceiptNumber evt)) (\<lambda>_.
     andThen (case payBillID pmt of None \<Rightarrow> ok () | Some b \<Rightarrow> logged (MarkBillPaid b (payID pmt))) (\<lambda>_.
     bp_publish (PaymentSucceeded (payUserID pmt) (payID pmt) (payProviderID pmt) (payAmountPaise pmt)
       (sweReceiptNumber evt) (sweSetuPaymentRef evt))))"

definition webhook_failed ::
  "('v, 's) BillpayService \<Rightarrow> SetuWebhookEvent \<Rightarrow> Payment \<Rightarrow> (('v, 's) billpay, unit) io" where
  "webhook_failed sv evt pmt =
     (let reason = (if sweFailureReason evt = [] then ''setu_webhook_failed'' else sweFailureReason evt) in
      andThen (MarkPaymentFailed (payID pmt) reason) (\<lambda>_.
      andThen (case payWalletTxnID pmt of
          Some t \<Rightarrow> if payMethod pmt = ''wallet'' then
              andThen (wrapErr ''wallet refund'' (on_wallet (RefundForBillPay (bsWallet sv) t (payAmountPaise pmt)
                 ''billpay_webhook_failed''))) (\<lambda>_.
              bp_publish (PaymentRefunded (payUserID pmt) (payID pmt) (payAmountPaise pmt) ''setu_webhook_failed''))
            else ok ()
        | None \<Rightarrow> ok ()) (\<lambda>_.
      bp_publish (PaymentFailed (payUserID pmt) (payID pmt) (payProviderID pmt) (payAmountPaise pmt) reason))))"

definition HandleSetuWebhook ::
  "('v, 's) BillpayService \<Rightarrow> SetuWebhookEvent \<Rightarrow> (('v, 's) billpay, unit) io" where
  "HandleSetuWebhook sv evt =
     require (sweSetuPaymentRef evt \<noteq> []) (Errorf ''invalid: setu_payment_ref required'')
    (require (\<not> (sweStatus evt \<noteq> ''succeeded'' \<and> sweStatus evt \<noteq> ''failed''))
       (Errorf ''invalid: status must be succeeded|failed'')
    (andThen (wrapErr ''payment lookup'' (GetPaymentBySetuRef (sweSetuPaymentRef evt))) (\<lambda>pmt.
     if payStatus pmt = ''succeeded'' \<or> payStatus pmt = ''refunded'' then ok ()
     else if sweStatus evt = ''succeeded'' then webhook_succeeded evt pmt
     else webhook_failed sv evt pmt)))"

section \<open>Catalog (providers.go)\<close>

definition ListCategories :: "(('v, 's) billpay, Category list) io" where
  "ListCategories = store_ListCategories"

definition ListProviders :: "string \<Rightarrow> string \<Rightarrow> int \<Rightarrow> (('v, 's) billpay, Provider list) io" where
  "ListProviders category state limit0 =
     store_ListProviders (trim_space category) (trim_space (to_upper state)) limit0"

definition GetProvider :: "uuid \<Rightarrow> (('v, 's) billpay, Provider) io" where
  "GetProvider i = require (i \<noteq> 0) (Errorf ''invalid: provider id required'') (store_GetProvider i)"

definition provider_input :: "Biller \<Rightarrow> UpsertProviderInput" where
  "provider_input b = \<lparr>upiSetuBillerID = blrSetuBillerID b, upiCategoryID = blrCategoryID b, upiName = blrName b,
     upiShortName = optString (blrShortName b), upiLogoURL = optString (blrLogoURL b), upiStates = blrStates b,
     upiCustomerParams = marshalCustomerParams (blrCustomerParams b),
     upiBillFetchSupported = blrBillFetchSupported b\<rparr>"

definition SyncProvidersForCategory ::
  "('v, 's) BillpayService \<Rightarrow> string \<Rightarrow> (('v, 's) billpay, nat) io" where
  "SyncProvidersForCategory sv category =
     andThen (wrapErr ''setu list billers'' (on_setu (ListBillers (bsSetu sv) category))) (\<lambda>billers.
     for_each billers (\<lambda>b count.
       andThen (wrapErr ''upsert provider'' (UpsertProvider (provider_input b))) (\<lambda>_. ok (Suc count))) 0)"

section \<open>Accounts and bills (accounts.go)\<close>

record CreateAccountRequest =
  carProviderID :: uuid
  carIdentifier :: string
  carExtraParams :: "(string \<times> string) list"
  carLabel :: string

definition CreateAccount :: "uuid \<Rightarrow> CreateAccountRequest \<Rightarrow> (('v, 's) billpay, Account) io" where
  "CreateAccount u req =
     require (u \<noteq> 0) (Errorf ''invalid: user id required'')
    (require (carProviderID req \<noteq> 0) (Errorf ''invalid: provider_id required'')
    (require (carIdentifier req \<noteq> []) (Errorf ''invalid: identifier required'')
    (require (carLabel req \<noteq> []) (Errorf ''invalid: label required'')
    (andThen (store_GetProvider (carProviderID req)) (\<lambda>prov.
     require (prvIsActive prov) (Errorf ''invalid: provider is not active'')
    (andThen (store_CreateAccount \<lparr>caiUserID = u, caiProviderID = carProviderID req,
        caiIdentifier = carIdentifier req, caiExtraParams = carExtraParams req, caiLabel = carLabel req\<rparr>) (\<lambda>acc.
     andThen (bp_publish (AccountAdded u (accID acc) (carProviderID req))) (\<lambda>_.
     ok acc)))))))) "

definition ListAccounts :: "uuid \<Rightarrow> (('v, 's) billpay, Account list) io" where
  "ListAccounts u = require (u \<noteq> 0) (Errorf ''invalid: user id required'') (ListAccountsByUser u)"

definition UpdateAccount :: "uuid \<Rightarrow> uuid \<Rightarrow> UpdateAccountInput \<Rightarrow> (('v, 's) billpay, Account) io" where
  "UpdateAccount u i req =
     require (\<not> (u = 0 \<or> i = 0)) (Errorf ''invalid: ids required'')
     (if uaiLabel req = None \<and> uaiIsDefault req = None \<and> uaiAutopayEnabled req = None
      then store_GetAccount u i else store_UpdateAccount u i req)"

definition DeleteAccount :: "uuid \<Rightarrow> uuid \<Rightarrow> (('v, 's) billpay, unit) io" where
  "DeleteAccount u i =
     require (\<not> (u = 0 \<or> i = 0)) (Errorf ''invalid: ids required'')
     (andThen (SoftDeleteAccount u i) (\<lambda>_. bp_publish (AccountRemoved u i)))"

definition bill_input :: "uuid \<Rightarrow> SetuBill \<Rightarrow> InsertBillInput" where
  "bill_input acc b = \<lparr>ibiAccountID = acc, ibiBillAmountPaise = sbAmountPaise b,
     ibiBillPeriodStart = optString (sbBillPeriodStart b), ibiBillPeriodEnd = optString (sbBillPeriodEnd b),
     ibiBillDueDate = optString (sbBillDueDate b), ibiBillNumber = optString (sbBillNumber b),
     ibiCustomerName = optString (sbCustomerName b), ibiSetuBillRef = optString (sbSetuBillRef b)\<rparr>"

definition FetchBill :: "('v, 's) BillpayService \<Rightarrow> uuid \<Rightarrow> uuid \<Rightarrow> (('v, 's) billpay, Bill) io" where
  "FetchBill sv u i =
     require (\<not> (u = 0 \<or> i = 0)) (Errorf ''invalid: ids required'')
    (andThen (store_GetAccount u i) (\<lambda>acc.
     andThen (store_GetProvider (accProviderID acc)) (\<lambda>prov.
     require (prvBillFetchSupported prov) (Errorf ''invalid: provider does not support bill fetch'')
    (andThen (wrapErr ''fetch bill from setu'' (\<lambda>w. on_setu (SetuFetchBill (bsSetu sv) (clock w)
        (prvSetuBillerID prov) (accIdentifier acc) (accExtraParams acc)) w)) (\<lambda>r.
     case r of
       None \<Rightarrow> fail (Errorf ''not_found: no current bill for this account'')
     | Some setuBill \<Rightarrow>
         andThen (InsertBill (bill_input (accID acc) setuBill)) (\<lambda>bill.
         andThen (bp_publish (BillFetched u (accID acc) (bilID bill) (bilAmountPaise bill) (sbBillDueDate setuBill))) (\<lambda>_.
         ok bill)))))))"

section \<open>Recharges (recharge.go)\<close>

text \<open>\<^verbatim>\<open>^(?:\+?91|0)?[6-9][0-9]{9}$\<close>\<close>

definition indianMobileRE :: "string \<Rightarrow> bool" where
  "indianMobileRE s \<longleftrightarrow>
     list_ex (\<lambda>p. has_prefix s p \<and> mobile10 (drop (length p) s)) [''+91'', ''91'', ''0'', []]"

definition bp_normalisePhone :: "string \<Rightarrow> string" where
  "bp_normalisePhone raw =
     (if raw = [] then []
      else
        let s = remove_char (CHR '' '') raw;
            s = remove_char (CHR ''-'') s;
            s = trim_prefix s ''+91'';
            s = trim_prefix s ''0091''
        in if has_prefix s ''0'' then tl s else s)"

record RechargeMobileRequest =
  rmrPhone :: string
  rmrOperator :: string
  rmrCircle :: string
  rmrAmountPaise :: int
  rmrPlanID :: "uuid option"
  rmrPaymentMethod :: string
  rmrIdempotencyKey :: string

text \<open>The operator and the circle: those of the request, or Setu's.\<close>

definition recharge_operator ::
  "('v, 's) BillpayService \<Rightarrow> string \<Rightarrow> RechargeMobileRequest \<Rightarrow> (('v, 's) billpay, string \<times> string) io" where
  "recharge_operator sv phone req =
     (let operator = to_lower (trim_space (rmrOperator req)) in
      if operator = [] then
        andThen (wrapErr ''detect operator'' (on_setu (SetuDetectOperatorCircle (bsSetu sv) phone))) (\<lambda>(o1, c).
        ok (to_lower o1, if rmrCircle req = [] then c else rmrCircle req))
      else ok (operator, rmrCircle req))"

definition RechargeMobile ::
  "('v, 's) BillpayService \<Rightarrow> uuid \<Rightarrow> RechargeMobileRequest \<Rightarrow> (('v, 's) billpay, PayResult) io" where
  "RechargeMobile sv u req =
     require (u \<noteq> 0) (Errorf ''invalid: user id required'')
    (let phone = bp_normalisePhone (rmrPhone req) in
     require (\<not> (phone = [] \<or> \<not> indianMobileRE phone)) (Errorf ''invalid: phone must be a 10-digit Indian mobile'')
    (require (\<not> rmrAmountPaise req \<le> 0) (Errorf ''invalid: amount must be positive'')
    (require (rmrIdempotencyKey req \<noteq> []) (Errorf ''invalid: idempotency_key required'')
    (require (rmrPaymentMethod req \<in> set pay_methods) (Errorf ''invalid: payment_method must be wallet|upi|card'')
    (andThen (recharge_operator sv phone req) (\<lambda>(op, circle).
     attempt (GetProviderBySetuID op) (\<lambda>r. case r of
       Inl e \<Rightarrow> fail (Errorf (''not_found: no recharge provider for operator '' @ go_quote op))
     | Inr prov \<Rightarrow> Pay sv u \<lparr>prAccountID = None, prProviderID = prvID prov, prIdentifier = phone,
         prAmountPaise = rmrAmountPaise req, prPaymentMethod = rmrPaymentMethod req,
         prIdempotencyKey = rmrIdempotencyKey req, prBillID = None,
         prExtraParams = [(''operator'', op), (''circle'', to_upper (trim_space circle))]\<rparr>)))))))"

definition DetectOperatorCircle ::
  "('v, 's) BillpayService \<Rightarrow> string \<Rightarrow> (('v, 's) billpay, string \<times> string) io" where
  "DetectOperatorCircle sv raw =
     (let phone = bp_normalisePhone raw in
      require (\<not> (phone = [] \<or> \<not> indianMobileRE phone)) (Errorf ''invalid: phone must be a 10-digit Indian mobile'')
      (on_setu (SetuDetectOperatorCircle (bsSetu sv) phone)))"

definition positive :: "int \<Rightarrow> int option" where
  "positive n = (if n > 0 then Some n else None)"

definition plan_input :: "string \<Rightarrow> string \<Rightarrow> SetuPlan \<Rightarrow> UpsertMobilePlanInput" where
  "plan_input op cir p = \<lparr>umiOperator = op, umiCircle = cir, umiPlanAmountPaise = splAmountPaise p,
     umiValidityDays = positive (splValidityDays p), umiDataGBPerDay = positive (splDataGBPerDay p),
     umiTalktimePaise = positive (splTalktimePaise p), umiSMSCountPerDay = positive (splSMSCountPerDay p),
     umiDescription = optString (splDescription p), umiCategory = optString (splCategory p)\<rparr>"

definition ListMobilePlans ::
  "('v, 's) BillpayService \<Rightarrow> string \<Rightarrow> string \<Rightarrow> (('v, 's) billpay, MobilePlan list) io" where
  "ListMobilePlans sv operator circle =
     (let op = to_lower (trim_space operator); cir = to_upper (trim_space circle) in
      require (\<not> (op = [] \<or> cir = [])) (Errorf ''invalid: operator and circle required'')
     (andThen (store_ListMobilePlans op cir) (\<lambda>cached.
      if cached \<noteq> [] then ok cached
      else andThen (wrapErr ''setu list plans'' (on_setu (SetuListMobilePlans (bsSetu sv) op cir))) (\<lambda>live.
        andThen (ReplaceMobilePlans op cir (map (plan_input op cir) live)) (\<lambda>_.
        store_ListMobilePlans op cir)))))"

section \<open>Reminders (reminders.go)\<close>

record CreateReminderRequest =
  crrAccountID :: uuid
  crrDaysBeforeDue :: int
  crrChannels :: "string list"

definition CreateReminder :: "uuid \<Rightarrow> CreateReminderRequest \<Rightarrow> (('v, 's) billpay, Reminder) io" where
  "CreateReminder u req =
     require (u \<noteq> 0) (Errorf ''invalid: user id required'')
    (require (crrAccountID req \<noteq> 0) (Errorf ''invalid: account_id required'')
    (andThen (store_GetAccount u (crrAccountID req)) (\<lambda>_.
     store_CreateReminder \<lparr>criAccountID = crrAccountID req, criUserID = u,
       criDaysBeforeDue = crrDaysBeforeDue req, criChannels = crrChannels req\<rparr>)))"

definition ListReminders :: "uuid \<Rightarrow> (('v, 's) billpay, Reminder list) io" where
  "ListReminders u = require (u \<noteq> 0) (Errorf ''invalid: user id required'') (ListRemindersByUser u)"

definition DeleteReminder :: "uuid \<Rightarrow> uuid \<Rightarrow> (('v, 's) billpay, unit) io" where
  "DeleteReminder u i =
     require (\<not> (u = 0 \<or> i = 0)) (Errorf ''invalid: ids required'') (store_DeleteReminder u i)"

definition remind_one :: "DueReminderRow \<Rightarrow> nat \<Rightarrow> (('v, 's) billpay, nat) io" where
  "remind_one r count =
     attempt (emit (BillDueSoon (drrUserID r) (drrAccountID r) (drrBillID r) (formatDate (drrBillDueDate r))
        (drrBillAmount r) (drrChannels r))) (\<lambda>res.
       case res of
         Inl e \<Rightarrow> ok count
       | Inr _ \<Rightarrow> andThen (logged (MarkReminderSent (drrReminderID r))) (\<lambda>_. ok (Suc count)))"

definition RunReminderCron :: "int \<Rightarrow> (('v, 's) billpay, nat) io" where
  "RunReminderCron today =
     andThen (ListDueReminders today) (\<lambda>due. for_each due remind_one 0)"

section \<open>Scheduled payments (scheduled.go)\<close>

record CreateScheduledRequest =
  csrAccountID :: uuid
  csrAmountPaise :: "int option"
  csrPaymentMethod :: string
  csrScheduleKind :: string
  csrNextRunDate :: string

definition CreateScheduled :: "uuid \<Rightarrow> CreateScheduledRequest \<Rightarrow> (('v, 's) billpay, ScheduledPayment) io" where
  "CreateScheduled u req =
     require (u \<noteq> 0) (Errorf ''invalid: user id required'')
    (andThen (store_GetAccount u (csrAccountID req)) (\<lambda>_.
     case parseDate (csrNextRunDate req) of
       None \<Rightarrow> fail (Errorf ''invalid: next_run_date must be YYYY-MM-DD'')
     | Some d \<Rightarrow> store_CreateScheduled \<lparr>csiUserID = u, csiAccountID = csrAccountID req,
         csiAmountPaise = csrAmountPaise req, csiPaymentMethod = csrPaymentMethod req,
         csiScheduleKind = csrScheduleKind req, csiNextRunDate = d\<rparr>))"

definition ListScheduled :: "uuid \<Rightarrow> (('v, 's) billpay, ScheduledPayment list) io" where
  "ListScheduled u = require (u \<noteq> 0) (Errorf ''invalid: user id required'') (ListScheduledByUser u)"

definition UpdateScheduledActive :: "uuid \<Rightarrow> uuid \<Rightarrow> bool \<Rightarrow> (('v, 's) billpay, ScheduledPayment) io" where
  "UpdateScheduledActive u i active =
     require (\<not> (u = 0 \<or> i = 0)) (Errorf ''invalid: ids required'') (store_UpdateScheduledActive u i active)"

definition DeleteScheduled :: "uuid \<Rightarrow> uuid \<Rightarrow> (('v, 's) billpay, unit) io" where
  "DeleteScheduled u i =
     require (\<not> (u = 0 \<or> i = 0)) (Errorf ''invalid: ids required'') (store_DeleteScheduled u i)"

definition failScheduled :: "ScheduledPayment \<Rightarrow> string \<Rightarrow> (('v, 's) billpay, unit) io" where
  "failScheduled sp reason = bp_publish (ScheduledFailed (schUserID sp) (schID sp) reason)"

definition scheduledIdempotencyKey :: "uuid \<Rightarrow> int \<Rightarrow> string" where
  "scheduledIdempotencyKey i runDate = ''sched-'' @ hex_string (take 16 (sha256 (bytes_of
     (''billpay.scheduled:'' @ uuid_string i @ '':'' @ formatDate (date_of runDate)))))"

text \<open>The body of the loop up to the payment; the message of its error is the reason the loop
  publishes.\<close>

definition scheduled_amount ::
  "('v, 's) BillpayService \<Rightarrow> ScheduledPayment \<Rightarrow> Account \<Rightarrow> (('v, 's) billpay, int) io" where
  "scheduled_amount sv sp acc =
     (case schAmountPaise sp of
        Some a \<Rightarrow> if a > 0 then ok a
          else andThen (wrapErr ''fetch_bill'' (FetchBill sv (accUserID acc) (accID acc))) (\<lambda>b. ok (bilAmountPaise b))
      | None \<Rightarrow> andThen (wrapErr ''fetch_bill'' (FetchBill sv (accUserID acc) (accID acc))) (\<lambda>b. ok (bilAmountPaise b)))"

definition scheduled_pay ::
  "('v, 's) BillpayService \<Rightarrow> int \<Rightarrow> ScheduledPayment \<Rightarrow> (('v, 's) billpay, uuid \<times> uuid \<times> int) io" where
  "scheduled_pay sv today sp =
     andThen (wrapErr ''get_account'' (GetAccountByID (schAccountID sp))) (\<lambda>acc.
     andThen (wrapErr ''get_provider'' (store_GetProvider (accProviderID acc))) (\<lambda>prov.
     andThen (scheduled_amount sv sp acc) (\<lambda>amount.
     require (\<not> amount \<le> 0) (Errorf ''no_billable_amount'')
    (andThen (wrapErr ''pay'' (Pay sv (accUserID acc) \<lparr>prAccountID = Some (accID acc), prProviderID = prvID prov,
         prIdentifier = accIdentifier acc, prAmountPaise = amount, prPaymentMethod = schPaymentMethod sp,
         prIdempotencyKey = scheduledIdempotencyKey (schID sp) today, prBillID = None, prExtraParams = []\<rparr>)) (\<lambda>res.
     ok (accUserID acc, presPaymentID res, amount))))))"

definition run_scheduled_one ::
  "('v, 's) BillpayService \<Rightarrow> int \<Rightarrow> ScheduledPayment \<Rightarrow> nat \<times> nat \<Rightarrow> (('v, 's) billpay, nat \<times> nat) io" where
  "run_scheduled_one sv today sp = (\<lambda>(executed, failed).
     attempt (scheduled_pay sv today sp) (\<lambda>r. case r of
       Inl e \<Rightarrow> andThen (failScheduled sp (err_msg e)) (\<lambda>_. ok (executed, Suc failed))
     | Inr (u, paymentID, amount) \<Rightarrow>
         andThen (logged (AdvanceScheduled (schID sp))) (\<lambda>_.
         andThen (bp_publish (ScheduledExecuted u (schID sp) paymentID amount)) (\<lambda>_.
         ok (Suc executed, failed)))))"

definition RunScheduledCron ::
  "('v, 's) BillpayService \<Rightarrow> int \<Rightarrow> (('v, 's) billpay, nat \<times> nat) io" where
  "RunScheduledCron sv today =
     andThen (ListDueScheduled today) (\<lambda>due. for_each due (run_scheduled_one sv today) (0, 0))"

lemmas billpay_service_eval [go_eval] =
  bp_New_def on_wallet_def on_setu_def emit_def bp_publish_def optString_def resultFromPayment_def
  failPaymentAndRefund_def pay_replay_def pay_provider_def wallet_key_def pay_debit_def pay_input_def
  pay_insert_def pay_bill_ref_def setu_request_def pay_accepted_def pay_submit_def pay_run_def Pay_def
  webhook_succeeded_def webhook_failed_def HandleSetuWebhook_def CreateAccount_def FetchBill_def bill_input_def
  remind_one_def RunReminderCron_def CreateScheduled_def failScheduled_def scheduled_amount_def
  scheduled_pay_def run_scheduled_one_def RunScheduledCron_def

end
