(* ===== verification/Billpay_Http.thy ===== *)
theory Billpay_Http
  imports Billpay_Service
begin

text \<open>
  The HTTP layer of bill-pay-service (\<^verbatim>\<open>internal/http\<close>): one definition per handler and the
  routing. \<open>pu\<close> is \<^verbatim>\<open>uuid.Parse\<close> and \<open>pg\<close> the database's cast of a cursor.
\<close>

section \<open>Request bodies and response data\<close>

record payRequestWire =
  wpAccountID :: string
  wpProviderID :: string
  wpIdentifier :: string
  wpAmountPaise :: int
  wpPaymentMethod :: string
  wpIdempotencyKey :: string
  wpBillID :: string
  wpExtraParams :: "(string \<times> string) list"

record rechargeMobileWire =
  wmPhone :: string
  wmOperator :: string
  wmCircle :: string
  wmAmountPaise :: int
  wmPlanID :: string
  wmPaymentMethod :: string
  wmIdempotencyKey :: string

datatype billpay_data =
    CategoriesData "Category list"
  | ProvidersData "Provider list"
  | ProviderData Provider
  | AccountsData "Account list"
  | AccountData Account
  | BillData Bill
  | PayData PayResult
  | PaymentsData "Payment list"
  | PaymentData Payment
  | OperatorCircleData string string
  | PlansData "MobilePlan list"
  | RemindersData "Reminder list"
  | ReminderData Reminder
  | ScheduledListData "ScheduledPayment list"
  | ScheduledData ScheduledPayment
  | DeletedData
  | WebhookOkData

record ('v, 's) BillpayHandler =
  bhSvc :: "('v, 's) BillpayService"
  bhInternalKey :: string

text \<open>\<^verbatim>\<open>if v := c.Query("limit"); v != ""\<close> and so on, with the default of the handler.\<close>

definition query_limit :: "'b http_request \<Rightarrow> int \<Rightarrow> int" where
  "query_limit rq d = (let v = rqQuery rq ''limit'' in
     if v = [] then d else (case Atoi v of Some n \<Rightarrow> if n > 0 then n else d | None \<Rightarrow> d))"

text \<open>An optional identifier in a body.\<close>

definition optional_id :: "(string \<Rightarrow> uuid option) \<Rightarrow> string \<Rightarrow> string \<Rightarrow> 'd response + uuid option" where
  "optional_id pu raw msg = (if raw = [] then Inr None
     else (case parse_id pu raw msg of Inl r \<Rightarrow> Inl r | Inr i \<Rightarrow> Inr (Some i)))"

section \<open>Catalog\<close>

definition http_GetCategories :: "unit http_request \<Rightarrow> (('v, 's) billpay, billpay_data) handler" where
  "http_GetCategories rq = respond 200 CategoriesData 500 ''CATEGORIES_ERROR'' ListCategories"

definition http_ListProviders :: "unit http_request \<Rightarrow> (('v, 's) billpay, billpay_data) handler" where
  "http_ListProviders rq = respond 200 ProvidersData 500 ''PROVIDERS_ERROR''
     (ListProviders (rqQuery rq ''category'') (rqQuery rq ''state'') (query_limit rq 100))"

definition http_GetProvider ::
  "(string \<Rightarrow> uuid option) \<Rightarrow> unit http_request \<Rightarrow> (('v, 's) billpay, billpay_data) handler" where
  "http_GetProvider pu rq =
     bindOr (parseUUIDParam pu rq ''id'') (\<lambda>i.
     respond 200 ProviderData 404 ''PROVIDER_NOT_FOUND'' (GetProvider i))"

section \<open>Accounts\<close>

definition http_CreateAccount ::
  "(string \<Rightarrow> uuid option) \<Rightarrow> CreateAccountRequest http_request \<Rightarrow> (('v, 's) billpay, billpay_data) handler" where
  "http_CreateAccount pu rq =
     bindOr (getUserID pu rq) (\<lambda>u.
     bindOr (bind_body rq) (\<lambda>req.
     respond 201 AccountData 500 ''ACCOUNT_CREATE_FAILED'' (CreateAccount u req)))"

definition http_ListAccounts ::
  "(string \<Rightarrow> uuid option) \<Rightarrow> unit http_request \<Rightarrow> (('v, 's) billpay, billpay_data) handler" where
  "http_ListAccounts pu rq =
     bindOr (getUserID pu rq) (\<lambda>u. respond 200 AccountsData 500 ''ACCOUNTS_ERROR'' (ListAccounts u))"

definition PatchAccount ::
  "(string \<Rightarrow> uuid option) \<Rightarrow> UpdateAccountInput http_request \<Rightarrow> (('v, 's) billpay, billpay_data) handler" where
  "PatchAccount pu rq =
     bindOr (getUserID pu rq) (\<lambda>u.
     bindOr (parseUUIDParam pu rq ''id'') (\<lambda>i.
     bindOr (bind_body rq) (\<lambda>req.
     respond 200 AccountData 500 ''ACCOUNT_UPDATE_FAILED'' (UpdateAccount u i req))))"

definition http_DeleteAccount ::
  "(string \<Rightarrow> uuid option) \<Rightarrow> unit http_request \<Rightarrow> (('v, 's) billpay, billpay_data) handler" where
  "http_DeleteAccount pu rq =
     bindOr (getUserID pu rq) (\<lambda>u.
     bindOr (parseUUIDParam pu rq ''id'') (\<lambda>i.
     respond 200 (\<lambda>_. DeletedData) 500 ''ACCOUNT_DELETE_FAILED'' (DeleteAccount u i)))"

definition GetAccountBill ::
  "('v, 's) BillpayHandler \<Rightarrow> (string \<Rightarrow> uuid option) \<Rightarrow> unit http_request \<Rightarrow> (('v, 's) billpay, billpay_data) handler" where
  "GetAccountBill h pu rq =
     bindOr (getUserID pu rq) (\<lambda>u.
     bindOr (parseUUIDParam pu rq ''id'') (\<lambda>i.
     respond 200 BillData 502 ''BILL_FETCH_FAILED'' (FetchBill (bhSvc h) u i)))"

section \<open>Paying\<close>

definition PostPay ::
  "('v, 's) BillpayHandler \<Rightarrow> (string \<Rightarrow> uuid option) \<Rightarrow> payRequestWire http_request \<Rightarrow>
     (('v, 's) billpay, billpay_data) handler" where
  "PostPay h pu rq =
     bindOr (getUserID pu rq) (\<lambda>u.
     bindOr (bind_body rq) (\<lambda>req.
     bindOr (parse_id pu (wpProviderID req) ''invalid provider_id'') (\<lambda>provID.
     bindOr (optional_id pu (wpAccountID req) ''invalid account_id'') (\<lambda>acc.
     bindOr (optional_id pu (wpBillID req) ''invalid bill_id'') (\<lambda>bill.
     respond 200 PayData 502 ''PAY_FAILED'' (Pay (bhSvc h) u
       \<lparr>prAccountID = acc, prProviderID = provID, prIdentifier = wpIdentifier req,
        prAmountPaise = wpAmountPaise req, prPaymentMethod = wpPaymentMethod req,
        prIdempotencyKey = wpIdempotencyKey req, prBillID = bill, prExtraParams = wpExtraParams req\<rparr>))))))"

definition http_ListPayments ::
  "(string \<Rightarrow> int option) \<Rightarrow> (string \<Rightarrow> uuid option) \<Rightarrow> unit http_request \<Rightarrow>
     (('v, 's) billpay, billpay_data) handler" where
  "http_ListPayments pg pu rq =
     bindOr (getUserID pu rq) (\<lambda>u. respond 200 PaymentsData 500 ''PAYMENTS_ERROR''
       (ListPayments pg u (rqQuery rq ''status'') (rqQuery rq ''cursor'') (query_limit rq 25)))"

definition http_GetPayment ::
  "(string \<Rightarrow> uuid option) \<Rightarrow> unit http_request \<Rightarrow> (('v, 's) billpay, billpay_data) handler" where
  "http_GetPayment pu rq =
     bindOr (getUserID pu rq) (\<lambda>u.
     bindOr (parseUUIDParam pu rq ''id'') (\<lambda>i.
     respond 200 PaymentData 404 ''PAYMENT_NOT_FOUND'' (GetPayment u i)))"

section \<open>Recharges\<close>

definition PostRechargeMobile ::
  "('v, 's) BillpayHandler \<Rightarrow> (string \<Rightarrow> uuid option) \<Rightarrow> rechargeMobileWire http_request \<Rightarrow>
     (('v, 's) billpay, billpay_data) handler" where
  "PostRechargeMobile h pu rq =
     bindOr (getUserID pu rq) (\<lambda>u.
     bindOr (bind_body rq) (\<lambda>req.
     bindOr (optional_id pu (wmPlanID req) ''invalid plan_id'') (\<lambda>plan.
     respond 200 PayData 502 ''RECHARGE_FAILED'' (RechargeMobile (bhSvc h) u
       \<lparr>rmrPhone = wmPhone req, rmrOperator = wmOperator req, rmrCircle = wmCircle req,
        rmrAmountPaise = wmAmountPaise req, rmrPlanID = plan, rmrPaymentMethod = wmPaymentMethod req,
        rmrIdempotencyKey = wmIdempotencyKey req\<rparr>))))"

definition GetOperatorCircle ::
  "('v, 's) BillpayHandler \<Rightarrow> unit http_request \<Rightarrow> (('v, 's) billpay, billpay_data) handler" where
  "GetOperatorCircle h rq = respond 200 (\<lambda>(op, cir). OperatorCircleData op cir) 502 ''DETECT_FAILED''
     (DetectOperatorCircle (bhSvc h) (rqQuery rq ''phone''))"

definition GetMobilePlans ::
  "('v, 's) BillpayHandler \<Rightarrow> unit http_request \<Rightarrow> (('v, 's) billpay, billpay_data) handler" where
  "GetMobilePlans h rq = respond 200 PlansData 502 ''PLANS_FAILED''
     (ListMobilePlans (bhSvc h) (rqQuery rq ''operator'') (rqQuery rq ''circle''))"

section \<open>Reminders and scheduled payments\<close>

definition http_ListReminders ::
  "(string \<Rightarrow> uuid option) \<Rightarrow> unit http_request \<Rightarrow> (('v, 's) billpay, billpay_data) handler" where
  "http_ListReminders pu rq =
     bindOr (getUserID pu rq) (\<lambda>u. respond 200 RemindersData 500 ''REMINDERS_ERROR'' (ListReminders u))"

definition http_CreateReminder ::
  "(string \<Rightarrow> uuid option) \<Rightarrow> CreateReminderRequest http_request \<Rightarrow> (('v, 's) billpay, billpay_data) handler" where
  "http_CreateReminder pu rq =
     bindOr (getUserID pu rq) (\<lambda>u.
     bindOr (bind_body rq) (\<lambda>req.
     respond 201 ReminderData 500 ''REMINDER_CREATE_FAILED'' (CreateReminder u req)))"

definition http_DeleteReminder ::
  "(string \<Rightarrow> uuid option) \<Rightarrow> unit http_request \<Rightarrow> (('v, 's) billpay, billpay_data) handler" where
  "http_DeleteReminder pu rq =
     bindOr (getUserID pu rq) (\<lambda>u.
     bindOr (parseUUIDParam pu rq ''id'') (\<lambda>i.
     respond 200 (\<lambda>_. DeletedData) 500 ''REMINDER_DELETE_FAILED'' (DeleteReminder u i)))"

definition http_ListScheduled ::
  "(string \<Rightarrow> uuid option) \<Rightarrow> unit http_request \<Rightarrow> (('v, 's) billpay, billpay_data) handler" where
  "http_ListScheduled pu rq =
     bindOr (getUserID pu rq) (\<lambda>u. respond 200 ScheduledListData 500 ''SCHEDULED_ERROR'' (ListScheduled u))"

definition http_CreateScheduled ::
  "(string \<Rightarrow> uuid option) \<Rightarrow> CreateScheduledRequest http_request \<Rightarrow> (('v, 's) billpay, billpay_data) handler" where
  "http_CreateScheduled pu rq =
     bindOr (getUserID pu rq) (\<lambda>u.
     bindOr (bind_body rq) (\<lambda>req.
     respond 201 ScheduledData 500 ''SCHEDULED_CREATE_FAILED'' (CreateScheduled u req)))"

definition PatchScheduled ::
  "(string \<Rightarrow> uuid option) \<Rightarrow> bool option http_request \<Rightarrow> (('v, 's) billpay, billpay_data) handler" where
  "PatchScheduled pu rq =
     bindOr (getUserID pu rq) (\<lambda>u.
     bindOr (parseUUIDParam pu rq ''id'') (\<lambda>i.
     bindOr (bind_body rq) (\<lambda>req.
     case req of
       None \<Rightarrow> answer (ErrorWithContext 400 ''INVALID_REQUEST'' ''is_active required'')
     | Some active \<Rightarrow> respond 200 ScheduledData 500 ''SCHEDULED_UPDATE_FAILED'' (UpdateScheduledActive u i active))))"

definition http_DeleteScheduled ::
  "(string \<Rightarrow> uuid option) \<Rightarrow> unit http_request \<Rightarrow> (('v, 's) billpay, billpay_data) handler" where
  "http_DeleteScheduled pu rq =
     bindOr (getUserID pu rq) (\<lambda>u.
     bindOr (parseUUIDParam pu rq ''id'') (\<lambda>i.
     respond 200 (\<lambda>_. DeletedData) 500 ''SCHEDULED_DELETE_FAILED'' (DeleteScheduled u i)))"

section \<open>The Setu webhook\<close>

text \<open>The body is read as text, for the signature, with the JSON value it parses to.\<close>

definition unmarshal_SetuWebhookEvent :: "json \<Rightarrow> SetuWebhookEvent option" where
  "unmarshal_SetuWebhookEvent j = do {
     r \<leftarrow> json_field ''setu_payment_ref'' as_str [] j; s \<leftarrow> json_field ''status'' as_str [] j;
     n \<leftarrow> json_field ''receipt_number'' as_str [] j; f \<leftarrow> json_field ''failure_reason'' as_str [] j;
     Some \<lparr>sweSetuPaymentRef = r, sweStatus = s, sweReceiptNumber = n, sweFailureReason = f\<rparr> }"

definition SetuWebhook ::
  "('v, 's) BillpayHandler \<Rightarrow> (string \<times> json option) http_request \<Rightarrow> (('v, 's) billpay, billpay_data) handler" where
  "SetuWebhook h rq = (case rqBody rq of
     Inl e \<Rightarrow> answer (ErrorWithContext 400 ''READ_BODY_FAILED'' (err_msg e))
   | Inr (body, j) \<Rightarrow> (\<lambda>w.
       case on_setu (VerifyWebhookSignature (bsSetu (bhSvc h)) (GetHeader rq ''X-Setu-Signature'') body) w of
         (Inl e, w') \<Rightarrow> (ErrorWithContext 401 ''INVALID_SIGNATURE'' (err_msg e), w')
       | (Inr _, w') \<Rightarrow> (case Option.bind j unmarshal_SetuWebhookEvent of
             None \<Rightarrow> (ErrorWithContext 400 ''INVALID_BODY'' ''json: cannot unmarshal'', w')
           | Some evt \<Rightarrow> respond 200 (\<lambda>_. WebhookOkData) 500 ''WEBHOOK_PROCESS_FAILED''
               (HandleSetuWebhook (bhSvc h) evt) w')))"

section \<open>Routing\<close>

datatype billpay_call =
    GET_categories "unit http_request"
  | GET_providers "unit http_request"
  | GET_provider "unit http_request"
  | GET_accounts "unit http_request"
  | POST_accounts "CreateAccountRequest http_request"
  | PATCH_account "UpdateAccountInput http_request"
  | DELETE_account "unit http_request"
  | GET_account_bill "unit http_request"
  | POST_pay "payRequestWire http_request"
  | GET_payments "unit http_request"
  | GET_payment "unit http_request"
  | POST_recharge_mobile "rechargeMobileWire http_request"
  | GET_operator_circle "unit http_request"
  | GET_plans "unit http_request"
  | GET_reminders "unit http_request"
  | POST_reminders "CreateReminderRequest http_request"
  | DELETE_reminder "unit http_request"
  | GET_scheduled "unit http_request"
  | POST_scheduled "CreateScheduledRequest http_request"
  | PATCH_scheduled "bool option http_request"
  | DELETE_scheduled "unit http_request"
  | POST_setu_webhook "(string \<times> json option) http_request"

fun bp_RegisterRoutes ::
  "('v, 's) BillpayHandler \<Rightarrow> (string \<Rightarrow> int option) \<Rightarrow> (string \<Rightarrow> uuid option) \<Rightarrow> billpay_call \<Rightarrow>
     (('v, 's) billpay, billpay_data) handler" where
  "bp_RegisterRoutes h pg pu (GET_categories rq) = http_GetCategories rq"
| "bp_RegisterRoutes h pg pu (GET_providers rq) = http_ListProviders rq"
| "bp_RegisterRoutes h pg pu (GET_provider rq) = http_GetProvider pu rq"
| "bp_RegisterRoutes h pg pu (GET_accounts rq) = http_ListAccounts pu rq"
| "bp_RegisterRoutes h pg pu (POST_accounts rq) = http_CreateAccount pu rq"
| "bp_RegisterRoutes h pg pu (PATCH_account rq) = PatchAccount pu rq"
| "bp_RegisterRoutes h pg pu (DELETE_account rq) = http_DeleteAccount pu rq"
| "bp_RegisterRoutes h pg pu (GET_account_bill rq) = GetAccountBill h pu rq"
| "bp_RegisterRoutes h pg pu (POST_pay rq) = PostPay h pu rq"
| "bp_RegisterRoutes h pg pu (GET_payments rq) = http_ListPayments pg pu rq"
| "bp_RegisterRoutes h pg pu (GET_payment rq) = http_GetPayment pu rq"
| "bp_RegisterRoutes h pg pu (POST_recharge_mobile rq) = PostRechargeMobile h pu rq"
| "bp_RegisterRoutes h pg pu (GET_operator_circle rq) = GetOperatorCircle h rq"
| "bp_RegisterRoutes h pg pu (GET_plans rq) = GetMobilePlans h rq"
| "bp_RegisterRoutes h pg pu (GET_reminders rq) = http_ListReminders pu rq"
| "bp_RegisterRoutes h pg pu (POST_reminders rq) = http_CreateReminder pu rq"
| "bp_RegisterRoutes h pg pu (DELETE_reminder rq) = http_DeleteReminder pu rq"
| "bp_RegisterRoutes h pg pu (GET_scheduled rq) = http_ListScheduled pu rq"
| "bp_RegisterRoutes h pg pu (POST_scheduled rq) = http_CreateScheduled pu rq"
| "bp_RegisterRoutes h pg pu (PATCH_scheduled rq) = PatchScheduled pu rq"
| "bp_RegisterRoutes h pg pu (DELETE_scheduled rq) = http_DeleteScheduled pu rq"
| "bp_RegisterRoutes h pg pu (POST_setu_webhook rq) = internal_group (bhInternalKey h) rq (SetuWebhook h rq)"

lemmas billpay_handlers =
  http_GetCategories_def http_ListProviders_def http_GetProvider_def http_CreateAccount_def
  http_ListAccounts_def PatchAccount_def http_DeleteAccount_def GetAccountBill_def PostPay_def
  http_ListPayments_def http_GetPayment_def PostRechargeMobile_def GetOperatorCircle_def
  GetMobilePlans_def http_ListReminders_def http_CreateReminder_def http_DeleteReminder_def
  http_ListScheduled_def http_CreateScheduled_def PatchScheduled_def http_DeleteScheduled_def

end
