(* ===== verification/Billpay_System.thy ===== *)
theory Billpay_System
  imports Billpay_Http
begin

text \<open>
  bill-pay-service as a whole, one request, cron run or move of a neighbour after the other
  (\<open>billpay_step\<close>), and what no step can do to its payments. \<open>quiet_op\<close> are the operations
  that leave the payment rows and the wallet alone; \<open>billpay_invariant\<close> lists what a predicate on
  these two has to survive for every route and cron job to keep it, and \<open>payment_rows\<close> is the
  special case of a predicate on the rows, from what each statement of \<^verbatim>\<open>payments.go\<close> does to them.
\<close>

section \<open>Frames\<close>

text \<open>An invariant of the payment rows and of the wallet: nothing else of the state matters.\<close>

definition bp_framed :: "(('v, 's) billpay \<Rightarrow> bool) \<Rightarrow> bool" where
  "bp_framed I \<longleftrightarrow> (\<forall>w w'. payments w' = payments w \<longrightarrow> wallet_side w' = wallet_side w \<longrightarrow> I w \<longrightarrow> I w')"

lemma bp_framedD:
  "bp_framed I \<Longrightarrow> I w \<Longrightarrow> payments w' = payments w \<Longrightarrow> wallet_side w' = wallet_side w \<Longrightarrow> I w'"
  unfolding bp_framed_def by blast

lemma bp_framedI:
  "(\<And>w w'. payments w' = payments w \<Longrightarrow> wallet_side w' = wallet_side w \<Longrightarrow> I w' = I w) \<Longrightarrow> bp_framed I"
  unfolding bp_framed_def by blast

lemma bp_framed_env_free:
  assumes "bp_framed I"
  shows "env_free I"
proof -
  have eq: "I w' = I w" if "payments w' = payments w" "wallet_side w' = wallet_side w" for w w'
    using bp_framedD [OF assms, of w w'] bp_framedD [OF assms, of w' w] that by auto
  have "I (w\<lparr>net := ns\<rparr>) = I w" "I (w\<lparr>idctr := n\<rparr>) = I w" for w ns n
    by (rule eq; simp)+
  then show ?thesis unfolding env_free_def by blast
qed

text \<open>Operations that touch neither.\<close>

definition quiet_op :: "(('v, 's) billpay, 'a) io \<Rightarrow> bool" where
  "quiet_op m \<longleftrightarrow> (\<forall>w. payments (snd (m w)) = payments w \<and> wallet_side (snd (m w)) = wallet_side w)"

lemma quiet_opI:
  "(\<And>w r w'. m w = (r, w') \<Longrightarrow> payments w' = payments w \<and> wallet_side w' = wallet_side w) \<Longrightarrow> quiet_op m"
  unfolding quiet_op_def by (metis prod.collapse)

lemma quiet_opD: "quiet_op m \<Longrightarrow> m w = (r, w') \<Longrightarrow> payments w' = payments w \<and> wallet_side w' = wallet_side w"
  unfolding quiet_op_def by (metis snd_conv)

lemma keeps_quiet: "bp_framed I \<Longrightarrow> quiet_op m \<Longrightarrow> keeps I m"
  by (rule keepsI) (auto dest: quiet_opD bp_framedD)

named_theorems quiet_intros

lemma quiet_combinators [quiet_intros]:
  "quiet_op (ok x)" "quiet_op (fail e)" "quiet_op (get f)" "quiet_op gen_random_uuid"
  by (auto simp: quiet_op_def go_simps gen_random_uuid_def)

lemma quiet_keeps: "quiet_op m \<longleftrightarrow> (\<forall>ps v. keeps (\<lambda>w. payments w = ps \<and> wallet_side w = v) m)"
  unfolding quiet_op_def keeps_def by blast

lemma quiet_steps [quiet_intros]:
  "quiet_op m \<Longrightarrow> (\<And>x. quiet_op (f x)) \<Longrightarrow> quiet_op (andThen m f)"
  "quiet_op m \<Longrightarrow> (\<And>r. quiet_op (k r)) \<Longrightarrow> quiet_op (attempt m k)"
  "quiet_op m \<Longrightarrow> quiet_op (logged m)"
  "quiet_op m \<Longrightarrow> quiet_op (wrapErr p m)"
  "quiet_op m \<Longrightarrow> quiet_op (require c e m)"
  "quiet_op m \<Longrightarrow> quiet_op m' \<Longrightarrow> quiet_op (if c then m else m')"
  "quiet_op m1 \<Longrightarrow> (\<And>y. quiet_op (g y)) \<Longrightarrow> quiet_op (case x of None \<Rightarrow> m1 | Some y \<Rightarrow> g y)"
  "(\<And>e. quiet_op (a e)) \<Longrightarrow> (\<And>y. quiet_op (b y)) \<Longrightarrow> quiet_op (case z of Inl e \<Rightarrow> a e | Inr y \<Rightarrow> b y)"
  "(\<And>x acc. quiet_op (body x acc)) \<Longrightarrow> quiet_op (for_each xs body acc)"
  unfolding quiet_keeps by (auto intro!: keeps_intros)

lemma quiet_db_call [quiet_intros]: "quiet_op m \<Longrightarrow> quiet_op (db_call m)"
  unfolding quiet_keeps by (auto intro!: keeps_db_call simp: env_free_def)

lemma quiet_in_tx [quiet_intros]: "quiet_op m \<Longrightarrow> quiet_op (in_tx lb m lc)"
  unfolding quiet_keeps
  by (intro allI keeps_in_tx, simp add: env_free_def)
    (auto simp: keeps_def triple_def split: prod.splits sum.splits, (metis snd_conv)+)

lemma quiet_on_setu [quiet_intros]: "quiet_op (on_setu m)" "quiet_op (\<lambda>w. on_setu (g w) w)"
  by (rule quiet_opI, auto simp: on_setu_def split: prod.splits)+

lemma quiet_modify [quiet_intros]:
  "(\<And>w. payments (f w) = payments w \<and> wallet_side (f w) = wallet_side w) \<Longrightarrow> quiet_op (modify f)"
  by (simp add: quiet_op_def modify_def)

lemma quiet_tables [quiet_intros]:
  "quiet_op (emit e)" "quiet_op (bp_publish e)" "quiet_op (failScheduled sp reason)"
  "quiet_op (FindPayKey k u)" "quiet_op PurgeExpiredPayKeys" "quiet_op (GetBill i)"
  "quiet_op (select_payment l c)" "quiet_op (select_account l ca)"
  "quiet_op (store_GetProvider i)" "quiet_op (GetProviderBySetuID si)"
  "quiet_op store_ListCategories" "quiet_op (store_ListProviders cat st n)" "quiet_op (ListAccountsByUser u)"
  "quiet_op (ListRemindersByUser u)" "quiet_op (MarkReminderSent i)" "quiet_op (ListDueReminders t)"
  "quiet_op (ListDueScheduled t)" "quiet_op (AdvanceScheduled i)" "quiet_op (MarkBillPaid i j)"
  "quiet_op (ListScheduledByUser u)" "quiet_op (store_ListMobilePlans op cir)"
  unfolding bp_publish_def failScheduled_def emit_def FindPayKey_def PurgeExpiredPayKeys_def GetBill_def
    select_payment_def select_account_def store_GetProvider_def GetProviderBySetuID_def store_ListCategories_def
    store_ListProviders_def ListAccountsByUser_def ListRemindersByUser_def MarkReminderSent_def
    ListDueReminders_def ListDueScheduled_def AdvanceScheduled_def MarkBillPaid_def ListScheduledByUser_def
    store_ListMobilePlans_def Let_def
  by (intro quiet_intros; simp)+

lemma quiet_inserts [quiet_intros]:
  "quiet_op (RecordPayKey k u pid body)"
  "quiet_op (ListPaymentsByUser pg u st c n)"
  "quiet_op (store_CreateAccount ia)" "quiet_op (store_UpdateAccount u i ua)" "quiet_op (SoftDeleteAccount u i)"
  "quiet_op (InsertBill ib)" "quiet_op (store_CreateReminder ir)" "quiet_op (store_DeleteReminder u i)"
  "quiet_op (store_CreateScheduled isc)" "quiet_op (store_UpdateScheduledActive u i act)"
  "quiet_op (store_DeleteScheduled u i)" "quiet_op (UpsertProvider ip)" "quiet_op (sql_insert_plan op cir pl)"
  "quiet_op (ReplaceMobilePlans op cir pls)"
proof -
  show "quiet_op (RecordPayKey k u pid body)"
    unfolding RecordPayKey_def by (intro quiet_intros quiet_opI) (auto split: option.splits)
  show "quiet_op (ListPaymentsByUser pg u st c n)"
    unfolding ListPaymentsByUser_def Let_def by (intro quiet_intros quiet_opI) (auto split: option.splits if_splits)
  show "quiet_op (store_CreateAccount ia)"
    unfolding store_CreateAccount_def Let_def
    by (intro quiet_intros) (auto intro!: quiet_opI split: option.splits if_splits)
  show "quiet_op (store_UpdateAccount u i ua)" "quiet_op (SoftDeleteAccount u i)"
    unfolding store_UpdateAccount_def SoftDeleteAccount_def
    by (intro quiet_intros; auto intro!: quiet_opI)+
  show "quiet_op (InsertBill ib)"
    unfolding InsertBill_def
    by (intro quiet_intros) (auto intro!: quiet_opI simp: sql_insert_bill_def split: sum.splits if_splits)
  show "quiet_op (store_CreateReminder ir)" "quiet_op (store_DeleteReminder u i)"
    unfolding store_CreateReminder_def store_DeleteReminder_def Let_def
    by (intro quiet_intros; auto intro!: quiet_opI split: if_splits)+
  show "quiet_op (store_CreateScheduled isc)" "quiet_op (store_UpdateScheduledActive u i act)" "quiet_op (store_DeleteScheduled u i)"
    unfolding store_CreateScheduled_def store_UpdateScheduledActive_def store_DeleteScheduled_def Let_def
    by (intro quiet_intros; auto intro!: quiet_opI split: if_splits)+
  show "quiet_op (UpsertProvider ip)"
    unfolding UpsertProvider_def Let_def
    by (intro quiet_intros) (auto intro!: quiet_opI split: option.splits if_splits)
  show plan: "quiet_op (sql_insert_plan op cir pl)" for pl
    unfolding sql_insert_plan_def by (intro quiet_intros) (auto intro!: quiet_opI split: if_splits)
  show "quiet_op (ReplaceMobilePlans op cir pls)"
    unfolding ReplaceMobilePlans_def by (intro quiet_intros plan) simp_all
qed


lemma quiet_services [quiet_intros]:
  "quiet_op ListCategories" "quiet_op (ListProviders cat st n)" "quiet_op (GetProvider i)"
  "quiet_op (SyncProvidersForCategory sv cat)" "quiet_op (CreateAccount u ca)" "quiet_op (ListAccounts u)"
  "quiet_op (UpdateAccount u i ua)" "quiet_op (DeleteAccount u i)" "quiet_op (FetchBill sv u i)"
  "quiet_op (GetPayment u i)" "quiet_op (ListPayments pg u stat c n)" "quiet_op (DetectOperatorCircle sv ph)"
  "quiet_op (ListMobilePlans sv op cir)" "quiet_op (CreateReminder u rr)" "quiet_op (ListReminders u)"
  "quiet_op (DeleteReminder u i)" "quiet_op (RunReminderCron t)" "quiet_op (CreateScheduled u sr)"
  "quiet_op (ListScheduled u)" "quiet_op (UpdateScheduledActive u i act)" "quiet_op (DeleteScheduled u i)"
  "quiet_op (pay_provider u req)" "quiet_op (pay_bill_ref b)" "quiet_op (recharge_operator sv ph rm)"
  "quiet_op (scheduled_amount sv sp acc)" "quiet_op (GetAccountByID i)" "quiet_op (GetPaymentByID i)"
  "quiet_op (GetPaymentBySetuRef ref)"
proof -
  show fetch: "quiet_op (FetchBill sv u i)" for u i
    unfolding FetchBill_def store_GetAccount_def by (intro quiet_intros)
  show "quiet_op (RunReminderCron t)"
    unfolding RunReminderCron_def remind_one_def by (intro quiet_intros)
  show "quiet_op (CreateScheduled u sr)" "quiet_op (pay_provider u req)" "quiet_op (recharge_operator sv ph rm)"
    "quiet_op (SyncProvidersForCategory sv cat)"
    unfolding CreateScheduled_def store_GetAccount_def pay_provider_def recharge_operator_def
      SyncProvidersForCategory_def Let_def case_prod_unfold
    by (intro quiet_intros)+
  show "quiet_op (GetAccountByID i)" "quiet_op (GetPaymentByID i)" "quiet_op (GetPaymentBySetuRef ref)"
    "quiet_op (scheduled_amount sv sp acc)"
    unfolding GetAccountByID_def GetPaymentByID_def GetPaymentBySetuRef_def scheduled_amount_def
    by (intro quiet_intros fetch)+
qed (unfold ListCategories_def ListProviders_def GetProvider_def CreateAccount_def ListAccounts_def
    UpdateAccount_def store_GetAccount_def DeleteAccount_def GetPayment_def store_GetPayment_def ListPayments_def
    DetectOperatorCircle_def ListMobilePlans_def CreateReminder_def ListReminders_def DeleteReminder_def
    ListScheduled_def UpdateScheduledActive_def DeleteScheduled_def pay_bill_ref_def Let_def, (intro quiet_intros)+)


lemma quiet_replay: "pay_replay ex = Some m \<Longrightarrow> quiet_op m"
  unfolding pay_replay_def by (auto split: option.splits intro!: quiet_intros)

section \<open>Invariants of payments and wallet\<close>

locale billpay_invariant =
  fixes I :: "('v, 's) billpay \<Rightarrow> bool"
    and sv :: "('v, 's) BillpayService"
  assumes framed: "bp_framed I"
    and pay_run: "keeps I (pay_run sv u req)"
    and mark_failed: "keeps I (MarkPaymentFailed i reason)"
    and mark_succeeded: "keeps I (MarkPaymentSucceeded i receipt)"
    and refund: "keeps I (on_wallet (RefundForBillPay (bsWallet sv) t a reason))"
begin

lemma keeps_quiet_op: "quiet_op m \<Longrightarrow> keeps I m"
  by (rule keeps_quiet [OF framed])

lemma keeps_Pay: "keeps I (Pay sv u req)"
proof -
  have "keeps I m" if "pay_replay ex = Some m" for ex and m :: "(('v, 's) billpay, PayResult) io"
    by (rule keeps_quiet_op [OF quiet_replay [OF that]])
  then show ?thesis
    unfolding Pay_def by (intro keeps_intros pay_run keeps_quiet_op [OF quiet_tables(4)])
qed

lemma keeps_HandleSetuWebhook: "keeps I (HandleSetuWebhook sv evt)"
  unfolding HandleSetuWebhook_def webhook_succeeded_def webhook_failed_def Let_def
  by (intro keeps_intros mark_failed mark_succeeded refund keeps_quiet_op quiet_intros)

lemma keeps_RechargeMobile: "keeps I (RechargeMobile sv u rm)"
  unfolding RechargeMobile_def Let_def case_prod_unfold
  by (intro keeps_intros keeps_Pay keeps_quiet_op quiet_intros)

lemma keeps_RunScheduledCron: "keeps I (RunScheduledCron sv today)"
  unfolding RunScheduledCron_def run_scheduled_one_def scheduled_pay_def case_prod_unfold
  by (intro keeps_intros keeps_Pay keeps_quiet_op quiet_intros)

lemma respond_keeps: "keeps I m \<Longrightarrow> I w \<Longrightarrow> I (snd (respond a f b c m w))"
  by (rule keeps_respond)

lemma bindOr_keeps: "(\<And>x. I (snd (k x w))) \<Longrightarrow> I w \<Longrightarrow> I (snd (bindOr r k w))"
  by (cases r) simp_all

lemma keeps_SetuWebhook:
  assumes "bhSvc h = sv" "I w"
  shows "I (snd (internal_group key rq (SetuWebhook h rq') w))"
proof -
  have v: "I (snd (on_setu m w))" for m :: "('s, unit) io"
    by (rule keepsD [OF keeps_quiet_op [OF quiet_on_setu(1)] assms(2)])
  have "I (snd (SetuWebhook h rq' w))"
  proof (cases "rqBody rq'")
    case (Inr b)
    obtain r w1 where r: "on_setu (VerifyWebhookSignature (bsSetu sv) (GetHeader rq' ''X-Setu-Signature'') (fst b)) w = (r, w1)"
      by force
    then have "I w1" using v [of "VerifyWebhookSignature (bsSetu sv) (GetHeader rq' ''X-Setu-Signature'') (fst b)"] by simp
    with Inr r show ?thesis
      by (cases b; cases r)
        (auto simp: SetuWebhook_def assms(1) split: option.splits intro: keeps_respond keeps_HandleSetuWebhook)
  qed (use assms in \<open>simp add: SetuWebhook_def\<close>)
  with assms(2) show ?thesis by (simp add: internal_group_def RequireInternalKey_def)
qed

lemma routes_keep:
  assumes "bhSvc h = sv" "I w"
  shows "I (snd (bp_RegisterRoutes h pg pu c w))"
  using assms(2)
  by (cases c)
    (auto simp: billpay_handlers assms(1) intro!: bindOr_keeps respond_keeps
      intro: keeps_Pay keeps_RechargeMobile keeps_SetuWebhook [OF assms(1)] quiet_services [THEN keeps_quiet_op]
      split: option.splits)

end


section \<open>bill-pay-service as a whole\<close>

text \<open>A step: a request on any route, a run of one of the cron jobs, a change of the network's
  plans or of the clock, or a move of the other two services: Setu is arbitrary, the wallet moves
  by \<open>vs\<close>.\<close>

inductive billpay_step ::
  "('v \<Rightarrow> 'v \<Rightarrow> bool) \<Rightarrow> ('v, 's) BillpayHandler \<Rightarrow> (string \<Rightarrow> int option) \<Rightarrow> (string \<Rightarrow> uuid option) \<Rightarrow>
     ('v, 's) billpay \<Rightarrow> ('v, 's) billpay \<Rightarrow> bool" for vs h pg pu where
  request: "billpay_step vs h pg pu w (snd (bp_RegisterRoutes h pg pu c w))"
| scheduler_cron: "billpay_step vs h pg pu w (snd (RunScheduledCron (bhSvc h) today w))"
| reminder_cron: "billpay_step vs h pg pu w (snd (RunReminderCron today w))"
| provider_sync: "billpay_step vs h pg pu w (snd (SyncProvidersForCategory (bhSvc h) category w))"
| key_purge: "billpay_step vs h pg pu w (snd (PurgeExpiredPayKeys w))"
| network: "billpay_step vs h pg pu w (w\<lparr>net := ns\<rparr>)"
| tick: "0 \<le> dt \<Longrightarrow> billpay_step vs h pg pu w (w\<lparr>clock := clock w + dt\<rparr>)"
| setu_moves: "billpay_step vs h pg pu w (w\<lparr>setu_side := s\<rparr>)"
| wallet_moves: "vs (wallet_side w) v \<Longrightarrow> billpay_step vs h pg pu w (w\<lparr>wallet_side := v\<rparr>)"

inductive_cases billpay_stepE: "billpay_step vs h pg pu w w'"

context billpay_invariant
begin

lemma billpay_step_keeps:
  assumes "billpay_step vs h pg pu w w'" "bhSvc h = sv" "I w"
    and "\<And>v. vs (wallet_side w) v \<Longrightarrow> I (w\<lparr>wallet_side := v\<rparr>)"
  shows "I w'"
proof -
  have q: "I (snd (m w))" if "quiet_op m" for m :: "(('v, 's) billpay, 'x) io"
    by (rule keepsD [OF keeps_quiet_op [OF that] assms(3)])
  show ?thesis
    using assms(1)
    by (rule billpay_stepE)
      (auto simp: assms(2) routes_keep [OF assms(2,3)] keepsD [OF keeps_RunScheduledCron assms(3)]
        assms(4) intro: q quiet_intros bp_framedD [OF framed assms(3)])
qed

end

section \<open>Invariants of the payment rows\<close>

text \<open>What the database guarantees of a row it inserts.\<close>

definition fresh_payment :: "Payment list \<Rightarrow> Payment \<Rightarrow> bool" where
  "fresh_payment ps p \<longleftrightarrow> payID p \<notin> payID ` set ps \<and> payIdempotencyKey p \<notin> payIdempotencyKey ` set ps
     \<and> payIdempotencyKey p \<noteq> None \<and> 0 < payAmountPaise p \<and> payMethod p \<in> set pay_methods
     \<and> payStatus p = ''initiated'' \<and> payWalletTxnID p = None \<and> paySetuPaymentRef p = None
     \<and> paySettledAt p = None \<and> payReceiptNumber p = None \<and> payFailureReason p = None"

lemma triple_InsertPayment:
  assumes "bp_framed P" "\<And>w p. P w \<Longrightarrow> fresh_payment (payments w) p \<Longrightarrow> payUserID p = cpiUserID i \<Longrightarrow>
      Q p (w\<lparr>payments := payments w @ [p]\<rparr>)"
    and "\<And>p. bp_framed (Q p)" "\<And>p w. Q p w \<Longrightarrow> E w" "\<And>w. P w \<Longrightarrow> E w"
  shows "triple P (InsertPayment i) Q (\<lambda>_. E)"
proof -
  have "triple P (andThen gen_random_uuid (\<lambda>id0 w.
          let p = payment_of_input i id0 (clock w)
          in andThen (sql_insert_payment p) (\<lambda>_. ok p) w)) Q (\<lambda>_. E)"
  proof (rule tripleI)
    fix w p w' assume w: "P w" and "andThen gen_random_uuid (\<lambda>id0 w.
          let p = payment_of_input i id0 (clock w)
          in andThen (sql_insert_payment p) (\<lambda>_. ok p) w) w = (Inr p, w')"
    then obtain id0 where p: "p = payment_of_input i id0 (clock w)" "fresh_payment (payments w) p"
      and w': "w' = (w\<lparr>payments := payments w @ [p]\<rparr>)\<lparr>idctr := Suc (idctr w)\<rparr>"
      by (auto simp: go_simps gen_random_uuid_def sql_insert_payment_def Let_def fresh_payment_def
          payment_of_input_def split: if_splits)
    from p have "Q p (w\<lparr>payments := payments w @ [p]\<rparr>)"
      by (intro assms(2) w) (simp_all add: payment_of_input_def)
    with assms(3) show "Q p w'" unfolding w' by (rule bp_framedD) simp_all
  next
    fix w e w' assume w: "P w" and "andThen gen_random_uuid (\<lambda>id0 w.
          let p = payment_of_input i id0 (clock w)
          in andThen (sql_insert_payment p) (\<lambda>_. ok p) w) w = (Inl e, w')"
    then have "payments w' = payments w \<and> wallet_side w' = wallet_side w"
      by (auto simp: go_simps gen_random_uuid_def sql_insert_payment_def Let_def split: if_splits)
    then have "P w'" using bp_framedD [OF assms(1) w] by simp
    then show "E w'" by (rule assms(5))
  qed
  then show ?thesis
    unfolding InsertPayment_def
    by (intro triple_require triple_wrapErr triple_db_call [OF bp_framed_env_free [OF assms(1)]]) (use assms in auto)
qed

locale payment_rows =
  fixes R :: "Payment list \<Rightarrow> bool"
  assumes insert: "R ps \<Longrightarrow> fresh_payment ps p \<Longrightarrow> R (ps @ [p])"
    and submit: "R ps \<Longrightarrow> R (update_rows (\<lambda>p. payID p = i \<and> payStatus p = ''initiated'')
      (\<lambda>p. p\<lparr>payStatus := ''submitted'', paySetuPaymentRef := Some ref\<rparr>) ps)"
    and succeed: "R ps \<Longrightarrow> R (update_rows (\<lambda>p. payID p = i \<and> open_payment p)
      (\<lambda>p. p\<lparr>payStatus := ''succeeded'', payReceiptNumber := (if receipt = [] then payReceiptNumber p else Some receipt),
         paySettledAt := Some c\<rparr>) ps)"
    and failed: "R ps \<Longrightarrow> R (update_rows (\<lambda>p. payID p = i \<and> open_payment p)
      (\<lambda>p. p\<lparr>payStatus := ''failed'', payFailureReason := Some reason, paySettledAt := Some c\<rparr>) ps)"
    and attach: "R ps \<Longrightarrow> R (update_rows (\<lambda>p. payID p = i \<and> payWalletTxnID p = None)
      (\<lambda>p. p\<lparr>payWalletTxnID := Some t\<rparr>) ps)"
begin

abbreviation rows_inv :: "('v, 's) billpay \<Rightarrow> bool" where "rows_inv \<equiv> \<lambda>w. R (payments w)"

lemma framed_rows: "bp_framed rows_inv"
  by (simp add: bp_framed_def)

lemma keeps_update:
  assumes "\<And>c ps. R ps \<Longrightarrow> R (update_rows p (f c) ps)"
  shows "keeps rows_inv (update_payments lbl p f)"
  unfolding update_payments_def
  by (intro keeps_wrapErr keeps_db_call bp_framed_env_free [OF framed_rows] keeps_modify) (simp add: assms)

lemma keeps_marks:
  "keeps rows_inv (MarkPaymentSubmitted i ref)" "keeps rows_inv (MarkPaymentSucceeded i receipt)"
  "keeps rows_inv (MarkPaymentFailed i reason)" "keeps rows_inv (AttachWalletTxn i t)"
  unfolding MarkPaymentSubmitted_def MarkPaymentSucceeded_def MarkPaymentFailed_def AttachWalletTxn_def
  by (intro keeps_update submit succeed failed attach; assumption)+

lemma keeps_insert: "keeps rows_inv (InsertPayment i)"
  unfolding keeps_triple [symmetric]
  by (rule triple_InsertPayment [where Q = "\<lambda>_. rows_inv"]) (auto simp: framed_rows insert)

lemma keeps_on_wallet: "keeps rows_inv (on_wallet m)"
  by (rule keepsI) (auto simp: on_wallet_def split: prod.splits)

lemma keeps_rows_quiet: "quiet_op m \<Longrightarrow> keeps rows_inv m"
  by (rule keeps_quiet [OF framed_rows])

lemma keeps_rows_pay_run: "keeps rows_inv (pay_run sv u req)"
  unfolding pay_run_def pay_debit_def pay_insert_def pay_submit_def pay_accepted_def failPaymentAndRefund_def Let_def
  by (intro keeps_intros keeps_marks keeps_insert keeps_on_wallet keeps_rows_quiet quiet_intros)

lemma rows_billpay_invariant: "billpay_invariant rows_inv sv"
  by unfold_locales (rule framed_rows keeps_rows_pay_run keeps_marks keeps_on_wallet)+

end

sublocale payment_rows \<subseteq> rows: billpay_invariant rows_inv sv for sv :: "('v, 's) BillpayService"
  by (rule rows_billpay_invariant)

section \<open>A payment only moves forward\<close>

text \<open>\<open>later_payment p p'\<close>: \<open>p'\<close> is a later version of the row \<open>p\<close>.\<close>

definition status_rank :: "string \<Rightarrow> nat" where
  "status_rank s = (if s = ''initiated'' then 0 else if s = ''submitted'' then 1 else 2)"

definition later_payment :: "Payment \<Rightarrow> Payment \<Rightarrow> bool" where
  "later_payment p p' \<longleftrightarrow>
     payID p' = payID p \<and> payUserID p' = payUserID p \<and> payAccountID p' = payAccountID p \<and>
     payProviderID p' = payProviderID p \<and> payAmountPaise p' = payAmountPaise p \<and>
     payFeePaise p' = payFeePaise p \<and> payMethod p' = payMethod p \<and> payBillID p' = payBillID p \<and>
     payIdempotencyKey p' = payIdempotencyKey p \<and> payCreatedAt p' = payCreatedAt p \<and>
     (payWalletTxnID p \<noteq> None \<longrightarrow> payWalletTxnID p' = payWalletTxnID p) \<and>
     status_rank (payStatus p) \<le> status_rank (payStatus p') \<and>
     (payStatus p \<noteq> ''initiated'' \<longrightarrow> paySetuPaymentRef p' = paySetuPaymentRef p) \<and>
     (\<not> open_payment p \<longrightarrow> payStatus p' = payStatus p \<and> payFailureReason p' = payFailureReason p \<and>
        payReceiptNumber p' = payReceiptNumber p \<and> paySettledAt p' = paySettledAt p)"

lemma later_refl [simp]: "later_payment p p"
  by (simp add: later_payment_def)

definition extends_payments :: "Payment list \<Rightarrow> Payment list \<Rightarrow> bool" where
  "extends_payments ps qs \<longleftrightarrow> (\<forall>p \<in> set ps. \<exists>q \<in> set qs. later_payment p q)"

lemma extends_payments_update:
  assumes "extends_payments ps qs" "\<And>p q. later_payment p q \<Longrightarrow> c q \<Longrightarrow> later_payment p (g q)"
  shows "extends_payments ps (update_rows c g qs)"
  using assms unfolding extends_payments_def in_update_rows [unfolded Bex_def] Bex_def by metis

lemmas later_simps = later_payment_def open_payment_def status_rank_def

interpretation payment_history: payment_rows "extends_payments h" for h
proof
  fix ps p assume "extends_payments h ps"
  then show "extends_payments h (ps @ [p])" by (auto simp: extends_payments_def)
next
  fix ps i ref assume "extends_payments h ps"
  then show "extends_payments h (update_rows (\<lambda>p. payID p = i \<and> payStatus p = ''initiated'')
      (\<lambda>p. p\<lparr>payStatus := ''submitted'', paySetuPaymentRef := Some ref\<rparr>) ps)"
    by (rule extends_payments_update) (auto simp: later_simps split: if_splits)
next
  fix ps i receipt c assume "extends_payments h ps"
  then show "extends_payments h (update_rows (\<lambda>p. payID p = i \<and> open_payment p)
      (\<lambda>p. p\<lparr>payStatus := ''succeeded'', payReceiptNumber := (if receipt = [] then payReceiptNumber p else Some receipt),
         paySettledAt := Some c\<rparr>) ps)"
    by (rule extends_payments_update) (auto simp: later_simps split: if_splits)
next
  fix ps i reason c assume "extends_payments h ps"
  then show "extends_payments h (update_rows (\<lambda>p. payID p = i \<and> open_payment p)
      (\<lambda>p. p\<lparr>payStatus := ''failed'', payFailureReason := Some reason, paySettledAt := Some c\<rparr>) ps)"
    by (rule extends_payments_update) (auto simp: later_simps split: if_splits)
next
  fix ps i t assume "extends_payments h ps"
  then show "extends_payments h (update_rows (\<lambda>p. payID p = i \<and> payWalletTxnID p = None)
      (\<lambda>p. p\<lparr>payWalletTxnID := Some t\<rparr>) ps)"
    by (rule extends_payments_update) (auto simp: later_payment_def open_payment_def)
qed

text \<open>C8: a payment only moves forward. Along any run of bill-pay-service, whatever requests, jobs and
  webhooks it serves and whatever fails, no payment row disappears; its payer, amount, method,
  provider and key never change; its status never goes back; a wallet transaction once attached and a
  Setu reference once noted are never replaced; and a row that has succeeded or failed keeps its
  outcome, receipt, reason and time for good.\<close>

theorem payments_only_move_forward:
  assumes "(billpay_step vs h pg pu)\<^sup>*\<^sup>* w w'" "p \<in> set (payments w)"
  shows "\<exists>p' \<in> set (payments w'). later_payment p p'"
proof -
  have "extends_payments (payments w) (payments w)"
    unfolding extends_payments_def using later_refl by blast
  with assms(1) have "extends_payments (payments w) (payments w')"
    by (induction rule: rtranclp_induct)
      (auto intro: payment_history.rows.billpay_step_keeps [OF _ refl])
  with assms(2) show ?thesis by (simp add: extends_payments_def)
qed

section \<open>Well-formed rows\<close>

definition payment_ok :: "Payment \<Rightarrow> bool" where
  "payment_ok p \<longleftrightarrow> 0 < payAmountPaise p \<and> payMethod p \<in> set pay_methods \<and> payIdempotencyKey p \<noteq> None
     \<and> payStatus p \<in> {''initiated'', ''submitted'', ''succeeded'', ''failed''}
     \<and> (payStatus p = ''initiated'' \<longrightarrow> paySetuPaymentRef p = None)
     \<and> (payStatus p = ''submitted'' \<longrightarrow> paySetuPaymentRef p \<noteq> None)
     \<and> (paySettledAt p \<noteq> None \<longleftrightarrow> payStatus p \<in> {''succeeded'', ''failed''})
     \<and> (payReceiptNumber p \<noteq> None \<longrightarrow> payStatus p = ''succeeded'')
     \<and> (payFailureReason p \<noteq> None \<longleftrightarrow> payStatus p = ''failed'')"

definition payments_ok :: "Payment list \<Rightarrow> bool" where
  "payments_ok ps \<longleftrightarrow> distinct (map payID ps) \<and> distinct (map payIdempotencyKey ps) \<and> (\<forall>p \<in> set ps. payment_ok p)"

lemma payments_ok_update:
  assumes "payments_ok ps" "\<And>p. payment_ok p \<Longrightarrow> c p \<Longrightarrow> payment_ok (g p)"
    and "\<And>p. payID (g p) = payID p \<and> payIdempotencyKey (g p) = payIdempotencyKey p"
  shows "payments_ok (update_rows c g ps)"
proof -
  have "map payID (update_rows c g ps) = map payID ps"
    "map payIdempotencyKey (update_rows c g ps) = map payIdempotencyKey ps"
    by (rule map_update_rows, simp add: assms(3))+
  with assms(1,2) show ?thesis by (auto simp: payments_ok_def in_update_rows)
qed

interpretation payment_types: payment_rows payments_ok
proof
  fix ps p assume "payments_ok ps" "fresh_payment ps p"
  then show "payments_ok (ps @ [p])"
    by (auto simp: payments_ok_def fresh_payment_def payment_ok_def)
next
  fix ps i ref assume "payments_ok ps"
  then show "payments_ok (update_rows (\<lambda>p. payID p = i \<and> payStatus p = ''initiated'')
      (\<lambda>p. p\<lparr>payStatus := ''submitted'', paySetuPaymentRef := Some ref\<rparr>) ps)"
    by (rule payments_ok_update) (auto simp: payment_ok_def)
next
  fix ps i receipt c assume "payments_ok ps"
  then show "payments_ok (update_rows (\<lambda>p. payID p = i \<and> open_payment p)
      (\<lambda>p. p\<lparr>payStatus := ''succeeded'', payReceiptNumber := (if receipt = [] then payReceiptNumber p else Some receipt),
         paySettledAt := Some c\<rparr>) ps)"
    by (rule payments_ok_update) (auto simp: payment_ok_def open_payment_def)
next
  fix ps i reason c assume "payments_ok ps"
  then show "payments_ok (update_rows (\<lambda>p. payID p = i \<and> open_payment p)
      (\<lambda>p. p\<lparr>payStatus := ''failed'', payFailureReason := Some reason, paySettledAt := Some c\<rparr>) ps)"
    by (rule payments_ok_update) (auto simp: payment_ok_def open_payment_def)
next
  fix ps i t assume "payments_ok ps"
  then show "payments_ok (update_rows (\<lambda>p. payID p = i \<and> payWalletTxnID p = None)
      (\<lambda>p. p\<lparr>payWalletTxnID := Some t\<rparr>) ps)"
    by (rule payments_ok_update) (auto simp: payment_ok_def)
qed

text \<open>C31: the rows are well-formed in every state that is reached: identifiers and idempotency keys
  are distinct, amounts are positive, the method is one of the three, the status is one of four
  (never \<^verbatim>\<open>refunded\<close>, which the service has no path to), a submitted row has its Setu reference, and
  settlement time, receipt and failure reason are there exactly when the status says so.\<close>

theorem payments_well_formed:
  assumes "(billpay_step vs h pg pu)\<^sup>*\<^sup>* w w'" "payments_ok (payments w)"
  shows "payments_ok (payments w')"
  using assms
  by (induction rule: rtranclp_induct) (auto intro: payment_types.rows.billpay_step_keeps [OF _ refl])

end
