(* ===== verification/Billpay_Link.thy ===== *)
theory Billpay_Link
  imports Wallet_Http Billpay_Wallet
begin

text \<open>
  wallet-service as bill-pay-service sees it: the two internal routes behind an HTTP connection
  that may fail or lose replies. On this server the production wallet client meets the contract
  \<open>wallet_client\<close>, so what bill-pay-service proves under the contract holds of the two services
  together.

  \<open>render\<close> turns a JSON document into its text, which the client only quotes in errors; \<open>pu\<close> is
  \<^verbatim>\<open>uuid.Parse\<close>.
\<close>

section \<open>The server side of a call\<close>

text \<open>\<open>lkNet\<close> holds the outcomes of the coming exchanges, as \<open>net\<close> does for statements: a
  lost reply is one the request was executed for.\<close>

record 'b wallet_link =
  lkNet :: "outcome list"
  lkWallet :: "'b wallet"

definition wire_headers :: "(string \<times> string) list \<Rightarrow> string \<Rightarrow> string" where
  "wire_headers hs k = (case map_of (map (\<lambda>(n, v). (to_lower n, v)) hs) k of None \<Rightarrow> [] | Some v \<Rightarrow> v)"

definition json_request :: "(json \<Rightarrow> 'r option) \<Rightarrow> wire_request \<Rightarrow> 'r http_request" where
  "json_request d rq = \<lparr>rqHeaders = wire_headers (wrHeaders rq), rqParam = \<lambda>_. [], rqQuery = \<lambda>_. [],
     rqBody = (case wrPayload rq of
        None \<Rightarrow> Inl (Errorf ''EOF'')
      | Some j \<Rightarrow> (case d j of None \<Rightarrow> Inl (Errorf ''json: cannot unmarshal'') | Some r \<Rightarrow> Inr r))\<rparr>"

definition unmarshal_internalDebitRequest :: "json \<Rightarrow> internalDebitRequest option" where
  "unmarshal_internalDebitRequest j = do {
     u \<leftarrow> json_field ''user_id'' as_str [] j; a \<leftarrow> json_field ''amount_paise'' as_int 0 j;
     s \<leftarrow> json_field ''merchant_service'' as_str [] j; m \<leftarrow> json_field ''merchant_ref'' as_str [] j;
     k \<leftarrow> json_field ''idempotency_key'' as_str [] j;
     Some \<lparr>idrUserID = u, idrAmountPaise = a, idrMerchantService = s, idrMerchantRef = m, idrIdempotencyKey = k\<rparr> }"

definition unmarshal_internalRefundRequest :: "json \<Rightarrow> internalRefundRequest option" where
  "unmarshal_internalRefundRequest j = do {
     i \<leftarrow> json_field ''original_transaction_id'' as_str [] j; a \<leftarrow> json_field ''amount_paise'' as_int 0 j;
     r \<leftarrow> json_field ''reason'' as_str [] j;
     Some \<lparr>irrOriginalTransactionID = i, irrAmountPaise = a, irrReason = r\<rparr> }"

text \<open>The envelope as it is written: \<^verbatim>\<open>data\<close> and \<^verbatim>\<open>error\<close> only where present, \<^verbatim>\<open>meta\<close> always
  (its request id is not modelled). The internal routes answer with a \<open>SendResult\<close>.\<close>

definition marshal_response :: "('d \<Rightarrow> json) \<Rightarrow> 'd response \<Rightarrow> json" where
  "marshal_response enc r = JObject
     ((case rsData r of None \<Rightarrow> [] | Some d \<Rightarrow> [(''data'', enc d)]) @
      (case rsError r of None \<Rightarrow> []
       | Some e \<Rightarrow> [(''error'', JObject [(''code'', JStr (apiCode e)), (''message'', JStr (apiMessage e))])]) @
      [(''meta'', JObject [])])"

fun internal_data :: "wallet_data \<Rightarrow> json" where
  "internal_data (SendData r) = marshal_SendResult r"
| "internal_data _ = JObject []"

text \<open>The router: \<open>None\<close> is a path bill-pay-service does not call.\<close>

definition link_route :: "string \<Rightarrow> wire_request \<Rightarrow> wallet_call option" where
  "link_route base rq = (if wrMethod rq \<noteq> ''POST'' then None
     else if wrURL rq = base @ ''/v1/wallet/internal/debit''
     then Some (POST_internal_debit (json_request unmarshal_internalDebitRequest rq))
     else if wrURL rq = base @ ''/v1/wallet/internal/refund''
     then Some (POST_internal_refund (json_request unmarshal_internalRefundRequest rq))
     else None)"

definition link_reply :: "(json \<Rightarrow> string) \<Rightarrow> wallet_data response \<Rightarrow> http_result" where
  "link_reply render r = (if r = no_route then Replied 404 ''404 page not found'' None
     else Replied (rsStatus r) (render (marshal_response internal_data r))
       (Some (marshal_response internal_data r)))"

definition link_serve ::
  "'b Handler \<Rightarrow> codec \<Rightarrow> (string \<Rightarrow> uuid option) \<Rightarrow> (json \<Rightarrow> string) \<Rightarrow> string \<Rightarrow>
     wire_request \<Rightarrow> 'b wallet_link \<Rightarrow> http_result \<times> 'b wallet_link" where
  "link_serve h cd pu render base rq l =
     (let (r, w) = (case link_route base rq of
              None \<Rightarrow> (no_route, lkWallet l)
            | Some c \<Rightarrow> RegisterRoutes h cd pu c (lkWallet l));
          res = link_reply render r
      in case lkNet l of
           [] \<Rightarrow> (res, l\<lparr>lkWallet := w\<rparr>)
         | oc # ns \<Rightarrow> (case oc of
               Up \<Rightarrow> (res, \<lparr>lkNet = ns, lkWallet = w\<rparr>)
             | Refused s \<Rightarrow> (Unreachable s, l\<lparr>lkNet := ns\<rparr>)
             | Lost s \<Rightarrow> (Unreachable s, \<lparr>lkNet = ns, lkWallet = w\<rparr>)))"

definition link_server ::
  "'b Handler \<Rightarrow> codec \<Rightarrow> (string \<Rightarrow> uuid option) \<Rightarrow> (json \<Rightarrow> string) \<Rightarrow> string \<Rightarrow> 'b wallet_link server" where
  "link_server h cd pu render base =
     \<lparr>srvBuild = \<lambda>_. None, srvServe = link_serve h cd pu render base\<rparr>"

lemmas billpay_link_eval [go_eval] =
  link_server_def link_serve_def link_reply_def link_route_def marshal_response_def
  json_request_def wire_headers_def unmarshal_internalDebitRequest_def unmarshal_internalRefundRequest_def

section \<open>The mirror without the bank\<close>

text \<open>\<open>funds_are A\<close> looks at the spendable balances only; whatever the bank does keeps it.\<close>

abbreviation funds_are :: "(uuid \<Rightarrow> int) \<Rightarrow> 'b wallet \<Rightarrow> bool" where
  "funds_are A \<equiv> money_at (\<lambda>_. True) (\<lambda>_. ()) Map.empty A ()"

lemma funds_are_iff: "funds_are A w \<longleftrightarrow> avail w = A"
  by (simp add: money_at_def)

lemma keeps_funds_on_bank: "keeps (funds_are A) (on_bank m)"
  by (rule keepsI) (auto simp: on_bank_def funds_are_iff split: prod.splits)

lemma keeps_funds_GetBalance: "keeps (funds_are A) (GetBalance sv u)"
  unfolding GetBalance_def
  by (intro keeps_intros keeps_funds_on_bank keeps_money_statements keeps_money_frame framed_money)
    (auto simp: modify_def)

lemma keeps_funds_limit: "keeps (funds_are A) (AssertWithinMonthlyLimit sv u a)"
  unfolding AssertWithinMonthlyLimit_def by (intro keeps_intros keeps_funds_GetBalance)

lemma funds_merchant_run:
  fixes sv :: "'b Service"
  shows "triple (funds_are A) (merchant_run sv u a ms mr key) (\<lambda>_. funds_are (A(u := A u - a)))
     (\<lambda>_ w. funds_are A w \<or> funds_are (A(u := A u - a)) w)"
proof -
  let ?A = "A(u := A u - a)"
  let ?E = "\<lambda>w. funds_are A w \<or> funds_are ?A w"
  have good: "triple (funds_are ?A) (merchant_finish u a ms mr key t) (\<lambda>_. funds_are ?A) (\<lambda>_. ?E)" for t
  proof -
    have "keeps (funds_are ?A) (merchant_finish u a ms mr key t)"
      unfolding merchant_finish_def Let_def
      by (intro keeps_intros money_merchant_settle_tx framed_money)
    then show ?thesis by (rule triple_then_done) auto
  qed
  have bad: "triple (funds_are ?A) (andThen (compensateSendFailure u i a r) (\<lambda>_. fail e)) Q (\<lambda>_. ?E)" for i r e Q
    by (rule triple_andThen [OF money_compensate]) (auto simp: triple_def fail_def)
  have debit: "triple (funds_are A) (merchant_debit_tx u a ms mr key) (\<lambda>_. funds_are ?A) (\<lambda>_. ?E)"
    by (rule triple_conseq [OF money_merchant_debit_tx]) auto
  have bank: "triple (funds_are ?A) (on_bank m) (\<lambda>_. funds_are ?A) (\<lambda>_. funds_are ?A)" for m :: "('b, 'c) io"
    by (simp add: keeps_triple keeps_funds_on_bank)
  show ?thesis
    unfolding merchant_run_def
    by (rule triple_step [OF keeps_funds_limit], simp, rule triple_step [OF keeps_funds_GetBalance], simp,
        intro triple_require triple_andThen [OF debit] triple_attempt [OF bank])
      (auto split: sum.splits intro: good bad)
qed

lemma funds_MerchantDebit:
  assumes "MerchantDebit sv u a ms mr key w = (r, w')"
  shows "avail w' = avail w \<or> avail w' = (avail w)(u := avail w u - a)"
proof -
  let ?A = "(avail w)(u := avail w u - a)"
  have "triple (funds_are (avail w)) (MerchantDebit sv u a ms mr key)
      (\<lambda>_ w'. funds_are (avail w) w' \<or> funds_are ?A w') (\<lambda>_ w'. funds_are (avail w) w' \<or> funds_are ?A w')"
    unfolding MerchantDebit_def
    by (intro triple_require triple_replay_or_run funds_merchant_run framed_money keeps_replays(3)) auto
  from tripleD_ok [OF this, of w _ w'] tripleD_err [OF this, of w _ w'] assms show ?thesis
    by (cases r) (auto simp: funds_are_iff)
qed



text \<open>\<open>u\<close> is the user of the transaction \<open>i\<close>.\<close>

definition owned :: "uuid \<Rightarrow> uuid \<Rightarrow> Transaction list \<Rightarrow> bool" where
  "owned u i ts \<longleftrightarrow> (\<exists>t \<in> set ts. txID t = i \<and> txUserID t = u)"

lemma owned_update:
  assumes "owned u i ts" "\<And>t. txID (g t) = txID t \<and> txUserID (g t) = txUserID t"
  shows "owned u i (update_rows p g ts)"
  using assms unfolding owned_def in_update_rows [unfolded Bex_def] Bex_def by metis

interpretation owned: row_invariant "owned u i" for u i
proof
  fix ts t assume "owned u i ts"
  then show "owned u i (ts @ [t])" by (auto simp: owned_def)
next
  fix ts status id0 br fr c assume "owned u i ts"
  then show "owned u i (settle_rows id0 status br fr c ts)"
    unfolding settle_rows_def by (rule owned_update) simp
next
  fix ts id0 ref assume "owned u i ts"
  then show "owned u i (upi_rows id0 ref ts)"
    unfolding upi_rows_def by (rule owned_update) simp
qed

lemma owned_GetTransactionByID:
  "triple (\<lambda>w. funds_are A w \<and> transactions w = ts) (GetTransactionByID i)
     (\<lambda>t w. funds_are A w \<and> owned (txUserID t) i ts) (\<lambda>_. funds_are A)"
proof -
  let ?P = "\<lambda>w. funds_are A w \<and> transactions w = ts"
  have P: "env_free ?P" by (auto simp: env_free_def funds_are_iff avail_def)
  have "owned (txUserID t) i ts" if "find (\<lambda>t. txID t = i) ts = Some t" for t
    using that by (auto simp: owned_def find_Some_iff intro: nth_mem)
  then show ?thesis
    unfolding GetTransactionByID_def
    by (intro triple_andThen [where R = "\<lambda>x w. ?P w \<and> x = find (\<lambda>t. txID t = i) ts"]
        triple_conseq [OF triple_read [OF P]])
      (auto simp: triple_def go_simps scanTransaction_def split: option.splits)
qed

lemma funds_refund_tx:
  "triple (funds_are A) (refund_tx t i a reason) (\<lambda>_. funds_are (A(txUserID t := A (txUserID t) + a)))
     (\<lambda>_ w. funds_are A w \<or> funds_are (A(txUserID t := A (txUserID t) + a)) w)"
  unfolding refund_tx_def
  by (intro triple_debit_tx triple_money_statements keeps_money_statements env_free_money)

lemma funds_Refund:
  assumes "Refund sv i a reason w = (r, w')"
  shows "avail w' = avail w \<or> (\<exists>u. owned u i (transactions w) \<and>
      avail w' = (avail w)(u := avail w u + a))"
proof -
  let ?A = "avail w" and ?ts = "transactions w"
  let ?E = "\<lambda>w'. funds_are ?A w' \<or> (\<exists>u. owned u i ?ts \<and> funds_are (?A(u := ?A u + a)) w')"
  have pay: "triple (funds_are ?A) (andThen (refund_tx t i a reason) (\<lambda>t'.
      andThen (publish (e t')) (\<lambda>_. ok (f t')))) (\<lambda>_. ?E) (\<lambda>_. ?E)" if t: "owned (txUserID t) i ?ts" for t e f
  proof -
    have refund: "triple (funds_are ?A) (refund_tx t i a reason)
       (\<lambda>_. funds_are (?A(txUserID t := ?A (txUserID t) + a))) (\<lambda>_. ?E)"
      by (rule triple_conseq [OF funds_refund_tx]) (use t in auto)
    show ?thesis
      by (rule triple_andThen [OF refund], rule triple_then_done)
        (use t in \<open>auto intro!: keeps_intros framed_money\<close>)
  qed
  have "triple (\<lambda>w. funds_are ?A w \<and> transactions w = ?ts) (Refund sv i a reason) (\<lambda>_. ?E) (\<lambda>_. ?E)"
    unfolding Refund_def
  proof (intro triple_require triple_andThen [where R = "\<lambda>t w. funds_are ?A w \<and> owned (txUserID t) i ?ts"])
    show "triple (\<lambda>w. funds_are ?A w \<and> transactions w = ?ts) (GetTransactionByID i)
        (\<lambda>t w. funds_are ?A w \<and> owned (txUserID t) i ?ts) (\<lambda>_. ?E)"
      by (rule triple_conseq [OF owned_GetTransactionByID]) auto
    fix t
    show "triple (\<lambda>w. funds_are ?A w \<and> owned (txUserID t) i ?ts)
       (if txStatus t \<noteq> ''succeeded''
        then fail (Errorf (''invalid: original transaction is not succeeded (status='' @ txStatus t @ '')''))
        else if a > txAmountPaise t then fail (Errorf ''invalid: refund exceeds original amount'')
        else let ref = (case txBankTxnRef t of None \<Rightarrow> [] | Some r \<Rightarrow> r)
          in andThen (wrapErr ''bank refund'' (on_bank (BankRefund (svBank sv) ref a))) (\<lambda>_.
             andThen (refund_tx t i a reason) (\<lambda>t'.
             andThen (publish (RefundIssued (txUserID t) (txID t') i a reason)) (\<lambda>_.
             ok (send_result (txID t') ''succeeded'' a))))) (\<lambda>_. ?E) (\<lambda>_. ?E)"
    proof (cases "owned (txUserID t) i ?ts")
      case True
      have stop: "triple (funds_are ?A) (fail e) (\<lambda>_. ?E) (\<lambda>_. ?E)" for e and x :: SendResult
        by (simp add: triple_def fail_def)
      show ?thesis
        using True
        by (auto simp: Let_def intro!: stop triple_step [OF keeps_wrapErr [OF keeps_funds_on_bank]] pay)
    qed (simp add: triple_def)
  qed auto
  from tripleD_ok [OF this, of w _ w'] tripleD_err [OF this, of w _ w'] assms show ?thesis
    by (cases r) (auto simp: funds_are_iff)
qed


text \<open>A successful debit names a transaction of the user it debited.\<close>

abbreviation always :: "'w \<Rightarrow> bool" where "always \<equiv> \<lambda>_. True"

lemma always_any [simp]: "triple always m (\<lambda>_. always) (\<lambda>_. always)" "triple P (fail e) Q (\<lambda>_. always)"
  by (auto simp: triple_def fail_def split: prod.splits sum.splits)

lemma always_step: "(\<And>x. triple always (f x) Q (\<lambda>_. always)) \<Longrightarrow> triple always (andThen m f) Q (\<lambda>_. always)"
  by (rule triple_andThen [OF always_any(1)])

lemma owned_insert:
  "triple always (InsertTransaction i) (\<lambda>t w. owned (ctiUserID i) (txID t) (transactions w)) (\<lambda>_. always)"
proof -
  have "triple always (andThen gen_random_uuid (\<lambda>id0 w. let t = txn_of_input i id0 (clock w)
          in andThen (sql_insert_transaction t) (\<lambda>_. ok (t\<lparr>txMetadata := []\<rparr>)) w))
      (\<lambda>t w. owned (ctiUserID i) (txID t) (transactions w)) (\<lambda>_. always)"
    by (rule tripleI)
      (auto simp: go_simps gen_random_uuid_def sql_insert_transaction_def Let_def owned_def
        txn_of_input_def split: if_splits)
  then show ?thesis
    unfolding InsertTransaction_def
    by (intro triple_require triple_wrapErr) (auto intro: triple_db_call [where E = "\<lambda>_. always"] simp: env_free_def)
qed

lemma owned_debit_tx:
  "triple always (merchant_debit_tx u a ms mr key) (\<lambda>t w. owned u (txID t) (transactions w)) (\<lambda>_. always)"
proof -
  have "ctiUserID (merchant_input u a ms mr key) = u" by (simp add: merchant_input_def)
  with owned_insert [of "merchant_input u a ms mr key"] show ?thesis
    unfolding merchant_debit_tx_def
    by (intro triple_in_tx always_step triple_wrapErr) (auto simp: env_free_def)
qed

lemma owned_merchant_run:
  "triple always (merchant_run sv u a ms mr key) (\<lambda>x w. owned u (srTransactionID x) (transactions w)) (\<lambda>_. always)"
proof -
  note keep = owned.keeps_I_statements owned.env_free_I owned.framed_I
  have finish: "triple (\<lambda>w. owned u (txID t) (transactions w)) (merchant_finish u a ms mr key t)
      (\<lambda>x w. owned u (srTransactionID x) (transactions w)) (\<lambda>_. always)" for t
    unfolding merchant_finish_def merchant_settle_tx_def Let_def
    by (intro triple_step [where I = "\<lambda>w. owned u (txID t) (transactions w)"] keeps_intros keeps_in_tx_keeps keep)
      (auto simp: triple_def ok_def send_result_def)
  have bank: "triple (\<lambda>w. owned u i (transactions w)) (on_bank m) (\<lambda>_ w. owned u i (transactions w))
      (\<lambda>_ w. owned u i (transactions w))" for i and m :: "('b, 'c) io"
    by (simp add: keeps_triple owned.keeps_I_bank)
  have ko: "triple P (andThen m (\<lambda>_. fail e)) Q (\<lambda>_. always)" for P Q e and m :: "('b wallet, unit) io"
    by (auto simp: triple_def andThen_def fail_def split: prod.splits sum.splits)
  show ?thesis
    unfolding merchant_run_def
    by (intro always_step triple_require triple_andThen [OF owned_debit_tx] triple_attempt [OF bank])
      (auto split: sum.splits intro: ko finish)
qed

lemma owned_MerchantDebit:
  assumes "MerchantDebit sv u a ms mr key w = (Inr x, w')"
  shows "owned u (srTransactionID x) (transactions w')"
proof -
  have replay: "triple always m (\<lambda>x w. owned u (srTransactionID x) (transactions w)) (\<lambda>_. always)"
    if "merchant_replay u ex = Some m" for ex m
  proof -
    have "triple always (store_GetTransaction u i) (\<lambda>t w. owned u (txID t) (transactions w)) (\<lambda>_. always)" for i
      unfolding store_GetTransaction_def
      by (rule triple_andThen [where R = "\<lambda>r w. r = find (\<lambda>t. txID t = i \<and> txUserID t = u) (transactions w)"],
          rule triple_conseq [OF triple_read [where P = always]])
       (auto simp: env_free_def triple_def go_simps scanTransaction_def owned_def find_Some_iff
          intro: nth_mem split: option.splits)
    then show ?thesis
      using that unfolding merchant_replay_def
      by (auto split: option.splits intro!: triple_andThen [where R = "\<lambda>t w. owned u (txID t) (transactions w)"])
        (auto simp: send_result_def ok_def triple_def)
  qed
  have "triple always (MerchantDebit sv u a ms mr key) (\<lambda>x w. owned u (srTransactionID x) (transactions w)) (\<lambda>_. always)"
    unfolding MerchantDebit_def idempotent_def
    by (intro triple_require triple_attempt [OF always_any(1)])
      (auto split: sum.splits option.splits intro: owned_merchant_run replay)
  from tripleD_ok [OF this _ assms] show ?thesis by simp
qed


section \<open>A call over the connection\<close>

definition parses_uuids :: "(string \<Rightarrow> uuid option) \<Rightarrow> bool" where
  "parses_uuids pu \<longleftrightarrow> (\<forall>u. pu (uuid_string u) = Some u)"

lemma to_lower_header: "to_lower internalKeyHeader = ''x-internal-service-key''"
  by (simp add: internalKeyHeader_def to_lower_def is_upper_def code_def char_of_def bit_simps)

lemma to_lower_others: "to_lower ''Content-Type'' \<noteq> ''x-internal-service-key''" "to_lower ''Accept'' \<noteq> ''x-internal-service-key''"
  by (simp_all add: to_lower_def is_upper_def code_def char_of_def bit_simps)

lemma decode_internal_requests:
  "unmarshal_internalDebitRequest (marshal_debitRequest u a p k) = Some \<lparr>idrUserID = uuid_string u,
     idrAmountPaise = a, idrMerchantService = ''bill_pay'', idrMerchantRef = uuid_string p, idrIdempotencyKey = k\<rparr>"
  "unmarshal_internalRefundRequest (marshal_refundRequest t a reason) = Some \<lparr>irrOriginalTransactionID = uuid_string t,
     irrAmountPaise = a, irrReason = reason\<rparr>"
  by (simp_all add: unmarshal_internalDebitRequest_def unmarshal_internalRefundRequest_def
      marshal_debitRequest_def marshal_refundRequest_def go_json_eval)

lemma error_status: "300 \<le> rsStatus (respondServiceError e 500 c)"
  by (auto simp: respondServiceError_def ErrorWithContext_def Let_def split: option.splits)

definition debit_of_send :: "SendResult \<Rightarrow> DebitResult" where
  "debit_of_send r = \<lparr>drTransactionID = srTransactionID r, drStatus = srStatus r, drAmountPaise = srAmountPaise r\<rparr>"

lemma decode_debit_reply:
  "unmarshal_DebitResult (marshal_response internal_data (JSONWithContext st (SendData r)))
     = Some \<lparr>drTransactionID = 0, drStatus = [], drAmountPaise = 0\<rparr>"
  "unmarshal_debitEnvelope (marshal_response internal_data (JSONWithContext st (SendData r)))
     = Some (Some (debit_of_send r))"
  by (simp_all add: unmarshal_DebitResult_def unmarshal_debitEnvelope_def marshal_response_def
      JSONWithContext_def marshal_SendResult_def debit_of_send_def go_json_eval)

text \<open>The two routes, on the requests the client builds.\<close>

lemma link_debit_route:
  assumes "parses_uuids pu" "wrHeaders rq = [(''Content-Type'', ''application/json''), (''Accept'', ''application/json'')] @
          (if key = [] then [] else [(internalKeyHeader, key)])"
    "wrPayload rq = Some (marshal_debitRequest u a p k)"
  shows "RegisterRoutes h cd pu (POST_internal_debit (json_request unmarshal_internalDebitRequest rq)) w =
    (if hdInternalKey h = [] then (no_route, w)
     else if key \<noteq> hdInternalKey h
     then (ErrorWithContext 401 ''UNAUTHORIZED'' ''internal service key required'', w)
     else respond 200 SendData 500 ''DEBIT_FAILED'' (MerchantDebit (hdSvc h) u a ''bill_pay'' (uuid_string p) k) w)"
  using assms to_lower_others
  by (auto simp: gated_def internal_group_def RequireInternalKey_def GetHeader_def json_request_def wire_headers_def to_lower_header
      InternalDebit_def bind_body_def parse_id_def decode_internal_requests parses_uuids_def)

lemma link_refund_route:
  assumes "parses_uuids pu" "wrHeaders rq = [(''Content-Type'', ''application/json''), (''Accept'', ''application/json'')] @
          (if key = [] then [] else [(internalKeyHeader, key)])"
    "wrPayload rq = Some (marshal_refundRequest t a reason)"
  shows "RegisterRoutes h cd pu (POST_internal_refund (json_request unmarshal_internalRefundRequest rq)) w =
    (if hdInternalKey h = [] then (no_route, w)
     else if key \<noteq> hdInternalKey h
     then (ErrorWithContext 401 ''UNAUTHORIZED'' ''internal service key required'', w)
     else respond 200 SendData 500 ''REFUND_FAILED'' (Refund (hdSvc h) t a reason) w)"
  using assms to_lower_others
  by (auto simp: gated_def internal_group_def RequireInternalKey_def GetHeader_def json_request_def wire_headers_def to_lower_header
      InternalRefund_def bind_body_def parse_id_def decode_internal_requests parses_uuids_def)


text \<open>One exchange over the connection: either the service did not run the operation and the
  client has an error, or it ran once, and a success is the service's own answer.\<close>

definition ran :: "('b wallet, SendResult) io \<Rightarrow> 'b wallet_link \<Rightarrow> goerr + 'x \<Rightarrow> 'b wallet_link \<Rightarrow> (SendResult \<Rightarrow> 'x) \<Rightarrow> bool" where
  "ran m l r l' f \<longleftrightarrow>
     (isl r \<and> lkWallet l' = lkWallet l) \<or>
     (\<exists>res. m (lkWallet l) = (res, lkWallet l') \<and> (\<forall>x. r = Inr x \<longrightarrow> (\<exists>sr. res = Inr sr \<and> x = f sr)))"

definition reply_body :: "(json \<Rightarrow> string) \<Rightarrow> SendResult \<Rightarrow> string \<times> json option" where
  "reply_body render sr = (let j = marshal_response internal_data (JSONWithContext 200 (SendData sr)) in (render j, Some j))"

lemma link_exchange:
  assumes route: "link_route base rq = Some c"
    and routes: "\<And>w. RegisterRoutes h cd pu c w = (no_route, w)
      \<or> RegisterRoutes h cd pu c w = (ErrorWithContext 401 ecode msg, w)
      \<or> RegisterRoutes h cd pu c w = respond 200 SendData 500 ec m w"
    and x: "http_exchange (link_server h cd pu render base) labels
       (\<lambda>status txt. if status \<ge> 300 then Some (err status txt) else None) rq l = (r, l')"
  shows "ran m l r l' (reply_body render)"
proof -
  have srv: "srvBuild (link_server h cd pu render base) u = None"
    "srvServe (link_server h cd pu render base) = link_serve h cd pu render base" for u
    by (simp_all add: link_server_def)
  obtain res w where m: "m (lkWallet l) = (res, w)" by force
  have nr: "(JSONWithContext 200 d :: wallet_data response) \<noteq> no_route" "(ErrorWithContext s c0 t :: wallet_data response) \<noteq> no_route" for d s c0 t
    by (simp_all add: JSONWithContext_def no_route_def ErrorWithContext_def)
  consider "RegisterRoutes h cd pu c (lkWallet l) = (no_route, lkWallet l)"
    | "RegisterRoutes h cd pu c (lkWallet l) = (ErrorWithContext 401 ecode msg, lkWallet l)"
    | "RegisterRoutes h cd pu c (lkWallet l) = respond 200 SendData 500 ec m (lkWallet l)"
    using routes by blast
  then show ?thesis
  proof cases
    case 1
    with x route show ?thesis
      by (auto simp: ran_def http_exchange_def srv link_serve_def link_reply_def Let_def
          split: list.splits outcome.splits)
  next
    case 2
    with x route nr show ?thesis
      by (auto simp: ran_def http_exchange_def srv link_serve_def link_reply_def Let_def
          split: list.splits outcome.splits)
        (auto simp: ErrorWithContext_def)
  next
    case 3
    show ?thesis
    proof (cases res)
      case (Inl e)
      then have "RegisterRoutes h cd pu c (lkWallet l) = (respondServiceError e 500 ec, w)"
        using 3 m by (simp add: respond_def)
      moreover have "300 \<le> rsStatus (respondServiceError e 500 ec :: wallet_data response)"
        by (rule error_status)
      ultimately show ?thesis
        using x route m Inl
        by (auto simp: ran_def http_exchange_def srv link_serve_def link_reply_def Let_def
            split: list.splits outcome.splits if_splits)
    next
      case (Inr sr)
      then have "RegisterRoutes h cd pu c (lkWallet l) = (JSONWithContext 200 (SendData sr), w)"
        using 3 m by (simp add: respond_def)
      moreover have "rsStatus (JSONWithContext 200 (SendData sr)) = 200" by (simp add: JSONWithContext_def)
      ultimately show ?thesis
        using x route m Inr nr
        by (auto simp: ran_def http_exchange_def srv link_serve_def link_reply_def reply_body_def Let_def
            split: list.splits outcome.splits if_splits)
    qed
  qed
qed

lemma link_debit_exchange:
  assumes "parses_uuids pu"
    and "whttp_post (link_server h cd pu render (whBaseURL c)) c ''/v1/wallet/internal/debit''
       (marshal_debitRequest u a p k) l = (r, l')"
  shows "ran (MerchantDebit (hdSvc h) u a ''bill_pay'' (uuid_string p) k) l r l' (reply_body render)"
  using assms(2) unfolding whttp_post_def
  by (rule link_exchange [rotated 2, where ecode = "''UNAUTHORIZED''" and msg = "''internal service key required''"
      and ec = "''DEBIT_FAILED''"])
    (simp_all add: link_route_def, subst (1 2 3) link_debit_route [OF assms(1), where key = "whInternalKey c" and u = u and a = a and p = p and k = k], auto)

lemma link_refund_exchange:
  assumes "parses_uuids pu"
    and "whttp_post (link_server h cd pu render (whBaseURL c)) c ''/v1/wallet/internal/refund''
       (marshal_refundRequest t a reason) l = (r, l')"
  shows "ran (Refund (hdSvc h) t a reason) l r l' (reply_body render)"
  using assms(2) unfolding whttp_post_def
  by (rule link_exchange [rotated 2, where ecode = "''UNAUTHORIZED''" and msg = "''internal service key required''"
      and ec = "''REFUND_FAILED''"])
    (simp_all add: link_route_def, subst (1 2 3) link_refund_route [OF assms(1), where key = "whInternalKey c" and t = t and a = a and reason = reason], auto)

theorem link_debit:
  assumes "parses_uuids pu"
    and "whttp_DebitForBillPay (link_server h cd pu render (whBaseURL c)) c u a p k l = (r, l')"
  shows "ran (MerchantDebit (hdSvc h) u a ''bill_pay'' (uuid_string p) k) l r l' debit_of_send"
proof -
  let ?post = "whttp_post (link_server h cd pu render (whBaseURL c)) c ''/v1/wallet/internal/debit''
       (marshal_debitRequest u a p k) l"
  obtain r0 l0 where post: "?post = (r0, l0)" by force
  note x = link_debit_exchange [OF assms(1) post]
  show ?thesis
  proof (cases "u \<noteq> 0 \<and> \<not> a \<le> 0 \<and> k \<noteq> []")
    case True
    with assms(2) post x show ?thesis
      by (cases r0) (auto simp: whttp_DebitForBillPay_def require_def andThen_def ran_def reply_body_def Let_def
          decode_debit_reply ok_def split: prod.splits)
  next
    case False
    with assms(2) show ?thesis
      by (auto simp: whttp_DebitForBillPay_def require_def fail_def ran_def split: if_splits)
  qed
qed

lemma link_refund:
  assumes "parses_uuids pu"
    and "whttp_RefundForBillPay (link_server h cd pu render (whBaseURL c)) c t a reason l = (r, l')"
  shows "ran (Refund (hdSvc h) t a reason) l r l' (\<lambda>_. ())"
proof -
  let ?post = "whttp_post (link_server h cd pu render (whBaseURL c)) c ''/v1/wallet/internal/refund''
       (marshal_refundRequest t a reason) l"
  obtain r0 l0 where post: "?post = (r0, l0)" by force
  note x = link_refund_exchange [OF assms(1) post]
  show ?thesis
  proof (cases "t \<noteq> 0 \<and> \<not> a \<le> 0")
    case True
    with assms(2) post x show ?thesis
      by (cases r0) (auto simp: whttp_RefundForBillPay_def require_def andThen_def ran_def ok_def)
  next
    case False
    with assms(2) show ?thesis
      by (auto simp: whttp_RefundForBillPay_def require_def fail_def ran_def split: if_splits)
  qed
qed

section \<open>The contract holds\<close>

definition tx_owner :: "'b wallet \<Rightarrow> uuid \<Rightarrow> uuid option" where
  "tx_owner w i = map_option txUserID (find (\<lambda>t. txID t = i) (transactions w))"

lemma tx_owner_owned:
  assumes "ledger_inv w"
  shows "tx_owner w i = Some u \<longleftrightarrow> owned u i (transactions w)"
proof -
  have inj: "inj_on txID (set (transactions w))"
    using assms by (simp add: ledger_def rows_ok_def distinct_map)
  show ?thesis
  proof
    assume "tx_owner w i = Some u"
    then show "owned u i (transactions w)"
      by (auto simp: tx_owner_def owned_def find_Some_iff intro: nth_mem)
  next
    assume "owned u i (transactions w)"
    then obtain t where t: "t \<in> set (transactions w)" "txID t = i" "txUserID t = u"
      by (auto simp: owned_def)
    then obtain t' where "find (\<lambda>t. txID t = i) (transactions w) = Some t'"
      by (cases "find (\<lambda>t. txID t = i) (transactions w)") (auto simp: find_None_iff)
    moreover from this have "t' \<in> set (transactions w)" "txID t' = i"
      by (auto simp: find_Some_iff)
    ultimately show "tx_owner w i = Some u"
      using t inj by (auto simp: tx_owner_def dest: inj_onD)
  qed
qed

lemma tx_owner_extends:
  assumes "ledger_inv w" "ledger_inv w'" "\<And>u i. owned u i (transactions w) \<Longrightarrow> owned u i (transactions w')"
  shows "tx_owner w \<subseteq>\<^sub>m tx_owner w'"
  using assms by (auto simp: map_le_def dom_def) (metis tx_owner_owned)

lemma bill_pay_link:
  assumes parses: "parses_uuids pu"
  shows "wallet_client (wallet_http (link_server h cd pu render (whBaseURL c)) c)
     (\<lambda>l. ledger_inv (lkWallet l)) (\<lambda>l. avail (lkWallet l)) (\<lambda>l. tx_owner (lkWallet l))"
proof
  fix v v' :: "'a wallet_link" and u a p k r
  assume w: "ledger_inv (lkWallet v)"
    and "DebitForBillPay (wallet_http (link_server h cd pu render (whBaseURL c)) c) u a p k v = (r, v')"
  then have "whttp_DebitForBillPay (link_server h cd pu render (whBaseURL c)) c u a p k v = (r, v')"
    by (simp add: wallet_http_def)
  from link_debit [OF parses this]
  show "ledger_inv (lkWallet v') \<and> tx_owner (lkWallet v) \<subseteq>\<^sub>m tx_owner (lkWallet v') \<and>
      (avail (lkWallet v') = avail (lkWallet v) \<or> avail (lkWallet v') = (avail (lkWallet v))(u := avail (lkWallet v) u - a))"
    unfolding ran_def
  proof (elim disjE exE conjE)
    fix res assume m: "MerchantDebit (hdSvc h) u a ''bill_pay'' (uuid_string p) k (lkWallet v) = (res, lkWallet v')"
    have i: "ledger_inv (lkWallet v')" by (rule keepsD2 [OF keeps_MerchantDebit w m])
    moreover have "tx_owner (lkWallet v) \<subseteq>\<^sub>m tx_owner (lkWallet v')"
      by (rule tx_owner_extends [OF w i]) (rule keepsD2 [OF owned.keeps_I_services(5) _ m])
    ultimately show ?thesis using funds_MerchantDebit [OF m] by blast
  qed (use w in simp)
next
  fix v v' :: "'a wallet_link" and u a p k d
  assume w: "ledger_inv (lkWallet v)"
    and "DebitForBillPay (wallet_http (link_server h cd pu render (whBaseURL c)) c) u a p k v = (Inr d, v')"
  then have "whttp_DebitForBillPay (link_server h cd pu render (whBaseURL c)) c u a p k v = (Inr d, v')"
    by (simp add: wallet_http_def)
  from link_debit [OF parses this] obtain sr where
    m: "MerchantDebit (hdSvc h) u a ''bill_pay'' (uuid_string p) k (lkWallet v) = (Inr sr, lkWallet v')"
    and d: "d = debit_of_send sr"
    by (auto simp: ran_def)
  have "ledger_inv (lkWallet v')" by (rule keepsD2 [OF keeps_MerchantDebit w m])
  then show "tx_owner (lkWallet v') (drTransactionID d) = Some u"
    using owned_MerchantDebit [OF m] by (simp add: d debit_of_send_def tx_owner_owned)
next
  fix v v' :: "'a wallet_link" and t a reason res
  assume w: "ledger_inv (lkWallet v)"
    and "RefundForBillPay (wallet_http (link_server h cd pu render (whBaseURL c)) c) t a reason v = (res, v')"
  then have "whttp_RefundForBillPay (link_server h cd pu render (whBaseURL c)) c t a reason v = (res, v')"
    by (simp add: wallet_http_def)
  from link_refund [OF parses this]
  show "ledger_inv (lkWallet v') \<and> tx_owner (lkWallet v) \<subseteq>\<^sub>m tx_owner (lkWallet v') \<and>
      (avail (lkWallet v') = avail (lkWallet v) \<or>
       (\<exists>u. tx_owner (lkWallet v) t = Some u \<and> avail (lkWallet v') = (avail (lkWallet v))(u := avail (lkWallet v) u + a)))"
    unfolding ran_def
  proof (elim disjE exE conjE)
    fix res assume m: "Refund (hdSvc h) t a reason (lkWallet v) = (res, lkWallet v')"
    have i: "ledger_inv (lkWallet v')" by (rule keepsD2 [OF keeps_Refund w m])
    moreover have "tx_owner (lkWallet v) \<subseteq>\<^sub>m tx_owner (lkWallet v')"
      by (rule tx_owner_extends [OF w i]) (rule keepsD2 [OF owned.keeps_I_services(6) _ m])
    ultimately show ?thesis using funds_Refund [OF m] by (auto simp: tx_owner_owned [OF w])
  qed (use w in simp)
qed


text \<open>A parser of the canonical form.\<close>

definition hex_value :: "char \<Rightarrow> nat" where
  "hex_value c = (if is_digit c then code c - 48 else code c - 87)"

definition canonical_uuid :: "string \<Rightarrow> uuid option" where
  "canonical_uuid s = (if length s \<noteq> 36 then None
     else Some (of_nat (foldl (\<lambda>v c. 16 * v + hex_value c) 0 (filter (\<lambda>c. c \<noteq> CHR ''-'') s))))"

lemma hex_value_digit: "n < 16 \<Longrightarrow> hex_value (digit_char n) = n"
  by (auto simp: hex_value_def digit_char_def is_digit_def code_def)

lemma hex_value_digits: "foldl (\<lambda>v c. 16 * v + hex_value c) 0 (hex_digits k n) = n mod 16 ^ k"
proof (induction k arbitrary: n)
  case (Suc k)
  then show ?case by (simp add: hex_value_digit mod_mult2_eq)
qed simp

lemma hex_no_dash: "filter (\<lambda>c. c \<noteq> CHR ''-'') (hex_digits k n) = hex_digits k n"
proof -
  have "digit_char (n mod 16) \<noteq> CHR ''-''" for n
    by (auto simp: digit_char_def code_def dest!: arg_cong [where f = "of_char :: char \<Rightarrow> nat"])
  then show ?thesis by (induction k arbitrary: n) auto
qed

lemma canonical_uuid_parses: "parses_uuids canonical_uuid"
  unfolding parses_uuids_def
proof
  fix u :: uuid
  define h where "h = hex_digits 32 (unat u)"
  have split: "take 8 h @ take 4 (drop 8 h) @ take 4 (drop 12 h) @ take 4 (drop 16 h) @ drop 20 h = h"
  proof -
    have "drop n h = take 4 (drop n h) @ drop (4 + n) h" for n
      by (metis append_take_drop_id drop_drop)
    from this [of 8] this [of 12] this [of 16] append_take_drop_id [of 8 h] show ?thesis by simp
  qed
  have "CHR ''-'' \<notin> set h"
    using hex_no_dash [of 32 "unat u"] unfolding h_def filter_id_conv by blast
  then have keep: "filter (\<lambda>c. c \<noteq> CHR ''-'') xs = xs" if "set xs \<subseteq> set h" for xs
    using that by (auto simp: filter_id_conv)
  have sub: "set (take m (drop n h)) \<subseteq> set h" "set (take m h) \<subseteq> set h" "set (drop n h) \<subseteq> set h" for m n
    by (auto dest: in_set_takeD in_set_dropD)
  have "filter (\<lambda>c. c \<noteq> CHR ''-'') (uuid_string u) = h"
    unfolding uuid_string_def h_def [symmetric] Let_def
    by (simp only: filter_append keep [OF sub(1)] keep [OF sub(2)] keep [OF sub(3)])
      (use split in simp)
  moreover have "unat u < 16 ^ 32"
    using unsigned_less [of u, where 'a = nat] by simp
  ultimately show "canonical_uuid (uuid_string u) = Some u"
    by (simp add: canonical_uuid_def length_uuid_string hex_value_digits h_def)
qed

interpretation link: wallet_client
  "wallet_http (link_server h cd canonical_uuid render (whBaseURL c)) c"
  "\<lambda>l. ledger_inv (lkWallet l)" "\<lambda>l. avail (lkWallet l)" "\<lambda>l. tx_owner (lkWallet l)"
  for h cd render c
  by (rule bill_pay_link [OF canonical_uuid_parses])

text \<open>With the connection up and the keys agreeing the client reports what the service answers.\<close>

lemma link_debit_up:
  assumes "parses_uuids pu" "lkNet l = []" "whInternalKey c = hdInternalKey h" "hdInternalKey h \<noteq> []"
    and "u \<noteq> 0" "0 < a" "k \<noteq> []"
    and "MerchantDebit (hdSvc h) u a ''bill_pay'' (uuid_string p) k (lkWallet l) = (Inr sr, w)"
  shows "whttp_DebitForBillPay (link_server h cd pu render (whBaseURL c)) c u a p k l
     = (Inr (debit_of_send sr), l\<lparr>lkWallet := w\<rparr>)"
proof -
  let ?rq = "\<lparr>wrMethod = ''POST'', wrURL = whBaseURL c @ ''/v1/wallet/internal/debit'',
        wrHeaders = [(''Content-Type'', ''application/json''), (''Accept'', ''application/json'')] @
          (if whInternalKey c = [] then [] else [(internalKeyHeader, whInternalKey c)]),
        wrPayload = Some (marshal_debitRequest u a p k)\<rparr>"
  have "RegisterRoutes h cd pu (POST_internal_debit (json_request unmarshal_internalDebitRequest ?rq)) (lkWallet l)
      = (JSONWithContext 200 (SendData sr), w)"
    by (subst link_debit_route [OF assms(1), where key = "whInternalKey c" and u = u and a = a and p = p and k = k])
      (use assms in \<open>simp_all add: respond_def\<close>)
  moreover have "(JSONWithContext 200 (SendData sr) :: wallet_data response) \<noteq> no_route"
    "rsStatus (JSONWithContext 200 (SendData sr)) = 200"
    by (simp_all add: JSONWithContext_def no_route_def)
  ultimately show ?thesis
    using assms
    by (simp add: whttp_DebitForBillPay_def require_def andThen_def whttp_post_def http_exchange_def
        link_server_def link_serve_def link_route_def link_reply_def Let_def decode_debit_reply ok_def)
qed

lemma link_refund_up:
  assumes "parses_uuids pu" "lkNet l = []" "whInternalKey c = hdInternalKey h" "hdInternalKey h \<noteq> []"
    and "t \<noteq> 0" "0 < a" "Refund (hdSvc h) t a reason (lkWallet l) = (Inr sr, w)"
  shows "whttp_RefundForBillPay (link_server h cd pu render (whBaseURL c)) c t a reason l = (Inr (), l\<lparr>lkWallet := w\<rparr>)"
proof -
  let ?rq = "\<lparr>wrMethod = ''POST'', wrURL = whBaseURL c @ ''/v1/wallet/internal/refund'',
        wrHeaders = [(''Content-Type'', ''application/json''), (''Accept'', ''application/json'')] @
          (if whInternalKey c = [] then [] else [(internalKeyHeader, whInternalKey c)]),
        wrPayload = Some (marshal_refundRequest t a reason)\<rparr>"
  have "RegisterRoutes h cd pu (POST_internal_refund (json_request unmarshal_internalRefundRequest ?rq)) (lkWallet l)
      = (JSONWithContext 200 (SendData sr), w)"
    by (subst link_refund_route [OF assms(1), where key = "whInternalKey c" and t = t and a = a and reason = reason])
      (use assms in \<open>simp_all add: respond_def\<close>)
  moreover have "(JSONWithContext 200 (SendData sr) :: wallet_data response) \<noteq> no_route"
    "rsStatus (JSONWithContext 200 (SendData sr)) = 200"
    by (simp_all add: JSONWithContext_def no_route_def)
  ultimately show ?thesis
    using assms
    by (simp add: whttp_RefundForBillPay_def require_def andThen_def whttp_post_def http_exchange_def
        link_server_def link_serve_def link_route_def link_reply_def Let_def ok_def)
qed

definition demo_link :: "MockClient wallet_link" where
  "demo_link = \<lparr>lkNet = [], lkWallet = demo_funded\<rparr>"

definition demo_wallet_client :: WalletHTTP where
  "demo_wallet_client = NewWalletHTTP [] ''secret''"

text \<open>C16: bill-pay-service's debit over HTTP is wallet-service's merchant debit. Whatever the
  connection does, either the client gets an error and the wallet is as it was, or
  \<open>MerchantDebit\<close> ran exactly once, for the user, amount, payment and key of the call, and if the
  client reports a success then its transaction, status and amount are those the service returned.\<close>

theorem link_debit_is_merchant_debit:
  assumes "parses_uuids pu"
    and "whttp_DebitForBillPay (link_server h cd pu render (whBaseURL c)) c u a p k l = (r, l')"
  shows "isl r \<and> lkWallet l' = lkWallet l \<or>
    (\<exists>res. MerchantDebit (hdSvc h) u a ''bill_pay'' (uuid_string p) k (lkWallet l) = (res, lkWallet l') \<and>
      (\<forall>d. r = Inr d \<longrightarrow> (\<exists>sr. res = Inr sr \<and> drTransactionID d = srTransactionID sr \<and>
         drStatus d = srStatus sr \<and> drAmountPaise d = srAmountPaise sr)))"
  using link_debit [OF assms] unfolding ran_def
proof (elim disjE exE conjE)
  fix res assume "MerchantDebit (hdSvc h) u a ''bill_pay'' (uuid_string p) k (lkWallet l) = (res, lkWallet l')"
    and "\<forall>x. r = Inr x \<longrightarrow> (\<exists>sr. res = Inr sr \<and> x = debit_of_send sr)"
  then show ?thesis
    by (intro disjI2 exI [of _ res]) (auto simp: debit_of_send_def)
qed simp

lemma demo_link_debit:
  "\<exists>l'. whttp_DebitForBillPay (link_server demo_handler cd canonical_uuid (\<lambda>_. []) (whBaseURL demo_wallet_client))
      demo_wallet_client 7 300 55 ''k1'' demo_link
    = (Inr \<lparr>drTransactionID = 100, drStatus = ''succeeded'', drAmountPaise = 300\<rparr>, l')"
proof -
  have "fst (MerchantDebit demo_sv 7 300 ''bill_pay'' (uuid_string 55) ''k1'' demo_funded)
      = Inr (send_result 100 ''succeeded'' 300)"
    by (simp add: go_eval)
  then obtain w where "MerchantDebit (hdSvc demo_handler) 7 300 ''bill_pay'' (uuid_string 55) ''k1'' (lkWallet demo_link)
      = (Inr (send_result 100 ''succeeded'' 300), w)"
    by (cases "MerchantDebit demo_sv 7 300 ''bill_pay'' (uuid_string 55) ''k1'' demo_funded")
      (auto simp: demo_handler_def demo_link_def)
  then have "whttp_DebitForBillPay (link_server demo_handler cd canonical_uuid (\<lambda>_. []) (whBaseURL demo_wallet_client))
      demo_wallet_client 7 300 55 ''k1'' demo_link
      = (Inr (debit_of_send (send_result 100 ''succeeded'' 300)), demo_link\<lparr>lkWallet := w\<rparr>)"
    by (intro link_debit_up canonical_uuid_parses)
      (simp_all add: demo_link_def demo_wallet_client_def NewWalletHTTP_def demo_handler_def)
  then show ?thesis by (simp add: debit_of_send_def send_result_def)
qed

theorem link_debit_is_merchant_debit_witness:
  "\<forall>cd. \<exists>l' sr. whttp_DebitForBillPay (link_server demo_handler cd canonical_uuid (\<lambda>_. []) (whBaseURL demo_wallet_client))
      demo_wallet_client 7 300 55 ''k1'' demo_link
    = (Inr \<lparr>drTransactionID = 100, drStatus = ''succeeded'', drAmountPaise = 300\<rparr>, l')
    \<and> MerchantDebit demo_sv 7 300 ''bill_pay'' (uuid_string 55) ''k1'' demo_funded = (Inr sr, lkWallet l')
    \<and> srTransactionID sr = 100"
proof
  fix cd
  from demo_link_debit [of cd] obtain l' where
    r: "whttp_DebitForBillPay (link_server demo_handler cd canonical_uuid (\<lambda>_. []) (whBaseURL demo_wallet_client))
      demo_wallet_client 7 300 55 ''k1'' demo_link
    = (Inr \<lparr>drTransactionID = 100, drStatus = ''succeeded'', drAmountPaise = 300\<rparr>, l')" by blast
  from link_debit_is_merchant_debit [OF canonical_uuid_parses r] show "\<exists>l' sr.
      whttp_DebitForBillPay (link_server demo_handler cd canonical_uuid (\<lambda>_. []) (whBaseURL demo_wallet_client))
      demo_wallet_client 7 300 55 ''k1'' demo_link
    = (Inr \<lparr>drTransactionID = 100, drStatus = ''succeeded'', drAmountPaise = 300\<rparr>, l')
    \<and> MerchantDebit demo_sv 7 300 ''bill_pay'' (uuid_string 55) ''k1'' demo_funded = (Inr sr, lkWallet l')
    \<and> srTransactionID sr = 100"
    using r by (auto simp: demo_link_def demo_handler_def)
qed

end
