(* ===== verification/Billpay_Money.thy ===== *)
theory Billpay_Money
  imports Billpay_System Billpay_Link
begin

text \<open>
  Whose money a bill payment moves. Everything up to the last section is proved against the
  contract \<open>wallet_client\<close>: the wallet transaction on a payment row belongs to the payer, and a run
  of \<open>Pay\<close> moves nobody else's funds. \<open>wallet_system\<close> adds a wallet that also moves on its own.
  The last section instantiates both with wallet-service behind the HTTP connection.
\<close>

section \<open>The transaction on a row is the payer's\<close>

context wallet_client
begin

definition owns_all :: "('v, 's) billpay \<Rightarrow> bool" where
  "owns_all w \<longleftrightarrow> winv (wallet_side w) \<and>
     (\<forall>p \<in> set (payments w). \<forall>t. payWalletTxnID p = Some t \<longrightarrow> owner (wallet_side w) t = Some (payUserID p))"

definition holds_for :: "uuid \<Rightarrow> uuid option \<Rightarrow> ('v, 's) billpay \<Rightarrow> bool" where
  "holds_for u x w \<longleftrightarrow> (\<forall>t. x = Some t \<longrightarrow> owner (wallet_side w) t = Some u)"

lemma framed_owns [simp]:
  "bp_framed owns_all" "bp_framed (holds_for u x)" "bp_framed (\<lambda>w. owns_all w \<and> holds_for u x w)"
proof -
  show o: "bp_framed owns_all"
    by (rule bp_framedI, unfold owns_all_def, simp)
  show h: "bp_framed (holds_for u x)"
    by (rule bp_framedI, unfold holds_for_def, simp)
  from o h show "bp_framed (\<lambda>w. owns_all w \<and> holds_for u x w)"
    unfolding bp_framed_def by blast
qed

lemma wallet_call_extends:
  assumes "owns_all w" "winv v" "owner (wallet_side w) \<subseteq>\<^sub>m owner v"
  shows "owns_all (w\<lparr>wallet_side := v\<rparr>)" "holds_for u x w \<Longrightarrow> holds_for u x (w\<lparr>wallet_side := v\<rparr>)"
proof -
  have keep: "owner v t = Some z" if "owner (wallet_side w) t = Some z" for t z
  proof -
    have "t \<in> dom (owner (wallet_side w))" using that by (rule domI)
    with assms(3) have "owner (wallet_side w) t = owner v t" unfolding map_le_def by blast
    with that show ?thesis by simp
  qed
  show "owns_all (w\<lparr>wallet_side := v\<rparr>)"
    unfolding owns_all_def
  proof (intro conjI ballI allI impI)
    fix p t assume "p \<in> set (payments (w\<lparr>wallet_side := v\<rparr>))" "payWalletTxnID p = Some t"
    then have "owner (wallet_side w) t = Some (payUserID p)"
      using assms(1) by (simp add: owns_all_def)
    then show "owner (wallet_side (w\<lparr>wallet_side := v\<rparr>)) t = Some (payUserID p)"
      by (simp add: keep)
  qed (use assms(2) in simp)
  show "holds_for u x (w\<lparr>wallet_side := v\<rparr>)" if "holds_for u x w"
    using that keep by (simp add: holds_for_def)
qed

lemma owns_refund: "keeps (\<lambda>w. owns_all w \<and> holds_for u x w) (on_wallet (RefundForBillPay wc t a reason))"
proof (rule keepsI)
  fix w r w' assume w: "owns_all w \<and> holds_for u x w"
    and "on_wallet (RefundForBillPay wc t a reason) w = (r, w')"
  then obtain v where v: "RefundForBillPay wc t a reason (wallet_side w) = (r, v)" "w' = w\<lparr>wallet_side := v\<rparr>"
    by (auto simp: on_wallet_def split: prod.splits)
  with refund [of "wallet_side w" t a reason r v] w wallet_call_extends [of w v] show "owns_all w' \<and> holds_for u x w'"
    by (auto simp: owns_all_def)
qed

lemma owns_debit:
  "triple owns_all (on_wallet (DebitForBillPay wc u a p k))
     (\<lambda>d w. owns_all w \<and> holds_for u (Some (drTransactionID d)) w) (\<lambda>_. owns_all)"
proof (rule tripleI)
  fix w d w' assume w: "owns_all w" and "on_wallet (DebitForBillPay wc u a p k) w = (Inr d, w')"
  then obtain v where v: "DebitForBillPay wc u a p k (wallet_side w) = (Inr d, v)" "w' = w\<lparr>wallet_side := v\<rparr>"
    by (auto simp: on_wallet_def split: prod.splits)
  with debit [of "wallet_side w" u a p k "Inr d" v] debited [of "wallet_side w" u a p k d v] w wallet_call_extends [of w v]
  show "owns_all w' \<and> holds_for u (Some (drTransactionID d)) w'"
    by (auto simp: owns_all_def holds_for_def)
next
  fix w e w' assume w: "owns_all w" and "on_wallet (DebitForBillPay wc u a p k) w = (Inl e, w')"
  then obtain v where v: "DebitForBillPay wc u a p k (wallet_side w) = (Inl e, v)" "w' = w\<lparr>wallet_side := v\<rparr>"
    by (auto simp: on_wallet_def split: prod.splits)
  with debit [of "wallet_side w" u a p k "Inl e" v] w wallet_call_extends [of w v] show "owns_all w'"
    by (auto simp: owns_all_def)
qed

lemma owns_update:
  assumes "\<And>c p. payUserID (f c p) = payUserID p \<and> payWalletTxnID (f c p) = payWalletTxnID p"
  shows "keeps (\<lambda>w. owns_all w \<and> holds_for u x w) (update_payments lbl c f)"
  unfolding update_payments_def
  by (intro keeps_wrapErr keeps_db_call bp_framed_env_free framed_owns keeps_modify)
    (auto simp: owns_all_def holds_for_def in_update_rows assms split: if_splits)

lemma owns_marks:
  "keeps (\<lambda>w. owns_all w \<and> holds_for u x w) (MarkPaymentSubmitted i ref)"
  "keeps (\<lambda>w. owns_all w \<and> holds_for u x w) (MarkPaymentSucceeded i receipt)"
  "keeps (\<lambda>w. owns_all w \<and> holds_for u x w) (MarkPaymentFailed i reason)"
  unfolding MarkPaymentSubmitted_def MarkPaymentSucceeded_def MarkPaymentFailed_def
  by (intro owns_update; simp)+

lemma holds_none [simp]: "holds_for u None w"
  by (simp add: holds_for_def)

lemma owns_pay_insert:
  assumes "bsWallet sv = wc"
  shows "triple (\<lambda>w. owns_all w \<and> holds_for u x w) (pay_insert sv u prov x req)
     (\<lambda>_ w. owns_all w \<and> holds_for u x w) (\<lambda>_. owns_all)"
proof -
  let ?P = "\<lambda>w. owns_all w \<and> holds_for u x w"
  let ?Q = "\<lambda>p w. ?P w \<and> (\<forall>q \<in> set (payments w). payID q = payID p \<longrightarrow> payUserID q = u)"
  have fq: "bp_framed (?Q p)" for p
    by (rule bp_framedI) (simp only: owns_all_def holds_for_def)
  have ins: "triple ?P (InsertPayment (pay_input u prov req)) ?Q (\<lambda>_. ?P)"
  proof (rule triple_InsertPayment)
    fix w p assume "?P w" "fresh_payment (payments w) p" "payUserID p = cpiUserID (pay_input u prov req)"
    then show "?Q p (w\<lparr>payments := payments w @ [p]\<rparr>)"
      by (auto simp: owns_all_def holds_for_def fresh_payment_def pay_input_def image_iff)
  qed (rule fq framed_owns | simp)+
  have att: "keeps (?Q p) (logged (AttachWalletTxn (payID p) t))" if "x = Some t" for p t
    unfolding AttachWalletTxn_def update_payments_def
    by (intro keeps_logged keeps_wrapErr keeps_db_call bp_framed_env_free fq keeps_modify)
      (use that in \<open>auto simp: owns_all_def holds_for_def in_update_rows split: if_splits\<close>)
  have good: "triple (?Q p) (andThen (case x of None \<Rightarrow> ok () | Some t \<Rightarrow> logged (AttachWalletTxn (payID p) t)) (\<lambda>_.
           andThen (bp_publish e) (\<lambda>_. ok p))) (\<lambda>_. ?P) (\<lambda>_. owns_all)" for p e
    by (rule triple_then_done [where I = "?Q p"],
        intro keeps_andThen keeps_option keeps_ok att keeps_quiet [OF fq] quiet_intros)
      (assumption | simp)+
  have bad: "triple ?P (andThen (case x of None \<Rightarrow> ok ()
             | Some t \<Rightarrow> logged (on_wallet (RefundForBillPay (bsWallet sv) t a reason))) (\<lambda>_. fail e)) (\<lambda>_. ?P) (\<lambda>_. owns_all)" for e a reason
    by (rule triple_then_done [where I = ?P]) (auto simp: assms intro!: keeps_intros owns_refund split: option.splits)
  show ?thesis
    unfolding pay_insert_def
    by (rule triple_attempt_split [OF ins]) (unfold sum.case, rule good, rule bad)
qed

lemma owns_pay_run:
  assumes "bsWallet sv = wc"
  shows "keeps owns_all (pay_run sv u req)"
proof -
  let ?P = "\<lambda>x w. owns_all w \<and> holds_for u x w"
  have q: "keeps (?P x) m" if "quiet_op m" for x and m :: "(('v, 's) billpay, 'x) io"
    by (rule keeps_quiet [OF framed_owns(3) that])
  have deb: "triple owns_all (pay_debit sv u req) ?P (\<lambda>_. owns_all)"
  proof (cases "prPaymentMethod req = ''wallet''")
    case True
    have "triple owns_all (wrapErr ''wallet debit failed'' (on_wallet (DebitForBillPay wc u a p k)))
       (\<lambda>d w. owns_all w \<and> holds_for u (Some (drTransactionID d)) w) (\<lambda>_. owns_all)" for a p k
      by (rule triple_wrapErr [OF owns_debit])
    then show ?thesis
      unfolding pay_debit_def assms using True
      by (auto intro!: triple_step keeps_quiet [OF framed_owns(1)] quiet_intros triple_andThen [OF triple_wrapErr [OF owns_debit]])
        (auto simp: triple_def ok_def)
  next
    case False
    then show ?thesis by (simp add: pay_debit_def triple_def ok_def)
  qed
  have sub: "keeps (?P x) (pay_submit sv u prov x req pmt)" for x prov pmt
    unfolding pay_submit_def pay_accepted_def failPaymentAndRefund_def assms Let_def
    by (intro keeps_intros owns_marks owns_refund q quiet_intros)
  have rest: "triple (?P x) (andThen (pay_insert sv u prov x req) (\<lambda>pmt. pay_submit sv u prov x req pmt))
      (\<lambda>_. owns_all) (\<lambda>_. owns_all)" for x prov
    by (rule triple_andThen [OF owns_pay_insert [OF assms]], rule triple_then_done [OF sub]) auto
  show ?thesis
    unfolding keeps_triple [symmetric] pay_run_def
    by (rule triple_step [OF keeps_quiet [OF framed_owns(1)]], rule quiet_services, simp)
      (rule triple_andThen [OF deb], rule rest)
qed

lemma owns_invariant:
  assumes "bsWallet sv = wc"
  shows "billpay_invariant owns_all sv"
proof -
  have h: "(\<lambda>w. owns_all w \<and> holds_for 0 None w) = owns_all" by (simp add: fun_eq_iff)
  show ?thesis
    using owns_marks [where u = 0 and x = None] owns_refund [where u = 0 and x = None] owns_pay_run [OF assms]
    by unfold_locales (simp_all add: h assms)
qed


section \<open>A payment moves the payer's money only\<close>

text \<open>Where the payer's money can be: \<open>funds_off f u D x w\<close> says that the funds are \<open>f\<close> but for an
  amount of \<open>D\<close> added to \<open>u\<close>, and that the transaction \<open>x\<close>, if any, is \<open>u\<close>'s.\<close>

definition funds_off :: "(uuid \<Rightarrow> int) \<Rightarrow> uuid \<Rightarrow> int set \<Rightarrow> uuid option \<Rightarrow> ('v, 's) billpay \<Rightarrow> bool" where
  "funds_off f u D x w \<longleftrightarrow> winv (wallet_side w) \<and> holds_for u x w \<and>
     (\<exists>d \<in> D. funds (wallet_side w) = f(u := f u + d))"

lemma framed_funds_off [simp]: "bp_framed (funds_off f u D x)"
  by (rule bp_framedI, unfold funds_off_def holds_for_def, simp)

lemma funds_off_mono: "funds_off f u D x w \<Longrightarrow> D \<subseteq> D' \<Longrightarrow> funds_off f u D' x w"
  by (auto simp: funds_off_def)

lemma funds_off_rows: "funds_off f u D x (w\<lparr>payments := ps\<rparr>) = funds_off f u D x w"
  by (simp add: funds_off_def holds_for_def)

lemma keeps_off_quiet: "quiet_op m \<Longrightarrow> keeps (funds_off f u D x) m"
  by (rule keeps_quiet [OF framed_funds_off])

lemma keeps_off_payments:
  "keeps (funds_off f u D x) (InsertPayment i)" "keeps (funds_off f u D x) (MarkPaymentSubmitted j ref)"
  "keeps (funds_off f u D x) (MarkPaymentSucceeded j receipt)" "keeps (funds_off f u D x) (MarkPaymentFailed j reason)"
  "keeps (funds_off f u D x) (AttachWalletTxn j t)"
proof -
  show "keeps (funds_off f u D x) (InsertPayment i)"
    unfolding keeps_triple [symmetric]
    by (rule triple_InsertPayment [where Q = "\<lambda>_. funds_off f u D x"]) (simp_all add: funds_off_rows)
  have "keeps (funds_off f u D x) (update_payments lbl c g)" for lbl c g
    unfolding update_payments_def
    by (intro keeps_wrapErr keeps_db_call bp_framed_env_free framed_funds_off keeps_modify) (simp add: funds_off_rows)
  then show "keeps (funds_off f u D x) (MarkPaymentSubmitted j ref)" "keeps (funds_off f u D x) (MarkPaymentSucceeded j receipt)"
    "keeps (funds_off f u D x) (MarkPaymentFailed j reason)" "keeps (funds_off f u D x) (AttachWalletTxn j t)"
    by (simp_all add: MarkPaymentSubmitted_def MarkPaymentSucceeded_def MarkPaymentFailed_def AttachWalletTxn_def)
qed

lemma off_refund:
  assumes "x = Some t"
  shows "triple (funds_off f u D x) (on_wallet (RefundForBillPay wc t a reason))
     (\<lambda>_. funds_off f u (D \<union> (\<lambda>d. d + a) ` D) x) (\<lambda>_. funds_off f u (D \<union> (\<lambda>d. d + a) ` D) x)"
proof -
  have "funds_off f u (D \<union> (\<lambda>d. d + a) ` D) x w'"
    if w: "funds_off f u D x w" and "on_wallet (RefundForBillPay wc t a reason) w = (r, w')" for w r w'
  proof -
    from that(2) obtain v where v: "RefundForBillPay wc t a reason (wallet_side w) = (r, v)" "w' = w\<lparr>wallet_side := v\<rparr>"
      by (auto simp: on_wallet_def split: prod.splits)
    from w assms have o: "owner (wallet_side w) t = Some u" by (simp add: funds_off_def holds_for_def)
    from refund [OF _ v(1)] w have r: "winv v" "owner (wallet_side w) \<subseteq>\<^sub>m owner v"
      "funds v = funds (wallet_side w) \<or> funds v = (funds (wallet_side w))(u := funds (wallet_side w) u + a)"
      using o by (auto simp: funds_off_def)
    have "owner v t = Some u" using r(2) o unfolding map_le_def by (metis domI)
    moreover from w obtain d where d: "d \<in> D" "funds (wallet_side w) = f(u := f u + d)" by (auto simp: funds_off_def)
    then have "\<exists>d \<in> D \<union> (\<lambda>d. d + a) ` D. funds v = f(u := f u + d)"
      using r(3)
    proof (elim disjE)
      assume "funds v = (funds (wallet_side w))(u := funds (wallet_side w) u + a)"
      then have "funds v = f(u := f u + (d + a))" using d(2) by (simp add: add.assoc)
      with d(1) show ?thesis by blast
    qed auto
    ultimately show ?thesis using r(1) assms by (simp add: funds_off_def holds_for_def v(2))
  qed
  then show ?thesis by (intro tripleI) blast+
qed

lemma off_debit:
  "triple (funds_off f u {0} None) (on_wallet (DebitForBillPay wc u a p k))
     (\<lambda>d. funds_off f u {- a, 0} (Some (drTransactionID d))) (\<lambda>_. funds_off f u {- a, 0} None)"
proof (rule tripleI)
  fix w d w' assume w: "funds_off f u {0} None w" and "on_wallet (DebitForBillPay wc u a p k) w = (Inr d, w')"
  then obtain v where v: "DebitForBillPay wc u a p k (wallet_side w) = (Inr d, v)" "w' = w\<lparr>wallet_side := v\<rparr>"
    by (auto simp: on_wallet_def split: prod.splits)
  with debit [of "wallet_side w" u a p k "Inr d" v] debited [of "wallet_side w" u a p k d v] w
  show "funds_off f u {- a, 0} (Some (drTransactionID d)) w'"
    by (auto simp: funds_off_def holds_for_def)
next
  fix w e w' assume w: "funds_off f u {0} None w" and "on_wallet (DebitForBillPay wc u a p k) w = (Inl e, w')"
  then obtain v where v: "DebitForBillPay wc u a p k (wallet_side w) = (Inl e, v)" "w' = w\<lparr>wallet_side := v\<rparr>"
    by (auto simp: on_wallet_def split: prod.splits)
  with debit [of "wallet_side w" u a p k "Inl e" v] w
  show "funds_off f u {- a, 0} None w'"
    by (auto simp: funds_off_def holds_for_def)
qed

text \<open>What a paid or compensated payment leaves behind.\<close>

definition paid :: "(uuid \<Rightarrow> int) \<Rightarrow> uuid \<Rightarrow> int \<Rightarrow> ('v, 's) billpay \<Rightarrow> bool" where
  "paid f u a w \<longleftrightarrow> (\<exists>x. funds_off f u {- a, 0} x w)"

definition settled :: "(uuid \<Rightarrow> int) \<Rightarrow> uuid \<Rightarrow> int \<Rightarrow> ('v, 's) billpay \<Rightarrow> bool" where
  "settled f u a w \<longleftrightarrow> (\<exists>x. funds_off f u {- a, 0, a} x w)"

lemma settled_intros: "funds_off f u {- a, 0} x w \<Longrightarrow> settled f u a w" "paid f u a w \<Longrightarrow> settled f u a w"
  "funds_off f u {- a, 0, a} x w \<Longrightarrow> settled f u a w"
  by (auto simp: settled_def paid_def intro: funds_off_mono)

lemma refund_settles:
  "x = Some t \<Longrightarrow> triple (funds_off f u {- a, 0} x) (on_wallet (RefundForBillPay wc t a reason))
     (\<lambda>_. funds_off f u {- a, 0, a} x) (\<lambda>_. funds_off f u {- a, 0, a} x)"
proof -
  have "{- a, 0} \<union> (\<lambda>d. d + a) ` {- a, 0} = {- a, 0, a}" by auto
  with off_refund [of x t f u "{- a, 0}" a reason] show "x = Some t \<Longrightarrow> ?thesis" by simp
qed

lemma off_compensate:
  assumes "bsWallet sv = wc" "payAmountPaise pmt = a"
  shows "triple (funds_off f u {- a, 0} x) (failPaymentAndRefund sv pmt x reason)
     (\<lambda>_. settled f u a) (\<lambda>_. settled f u a)"
proof -
  have pub: "triple (funds_off f u {- a, 0, a} x) (bp_publish e) (\<lambda>_. settled f u a) (\<lambda>_. settled f u a)" for e
    by (rule triple_then_done [OF keeps_off_quiet]) (auto intro: quiet_intros settled_intros)
  have pub0: "triple (funds_off f u {- a, 0} x) (bp_publish e) (\<lambda>_. settled f u a) (\<lambda>_. settled f u a)" for e
    by (rule triple_then_done [OF keeps_off_quiet]) (auto intro: quiet_intros settled_intros)
  have ref: "triple (funds_off f u {- a, 0} x) (attempt (on_wallet (RefundForBillPay wc t a rs)) (\<lambda>r.
           case r of Inl e \<Rightarrow> ok () | Inr _ \<Rightarrow> bp_publish e')) (\<lambda>_. funds_off f u {- a, 0, a} x) (\<lambda>_. settled f u a)"
    if "x = Some t" for t rs e'
    by (rule triple_attempt_split [OF refund_settles [OF that]])
      (auto intro!: triple_then_done [OF keeps_off_quiet] quiet_intros settled_intros)
  have "triple (funds_off f u {- a, 0} x) (andThen (case x of None \<Rightarrow> ok ()
       | Some t \<Rightarrow> attempt (on_wallet (RefundForBillPay wc t a rs)) (\<lambda>r. case r of Inl e \<Rightarrow> ok () | Inr _ \<Rightarrow> bp_publish e'))
      (\<lambda>_. bp_publish e)) (\<lambda>_. settled f u a) (\<lambda>_. settled f u a)" for rs e e'
  proof (cases x)
    case None
    then show ?thesis using pub0 by (simp add: andThen_def ok_def)
  next
    case (Some t)
    show ?thesis
      using triple_andThen [OF ref [OF Some] pub] by (simp add: Some)
  qed
  then show ?thesis
    unfolding failPaymentAndRefund_def assms
    by (intro triple_step [OF keeps_logged [OF keeps_off_payments(4)]]) (erule settled_intros)
qed

text \<open>A payment that is run, after the guards and the replay check.\<close>

lemma off_pay_insert:
  assumes "bsWallet sv = wc" "prAmountPaise req = a"
  shows "triple (funds_off f u {- a, 0} x) (pay_insert sv u prov x req)
     (\<lambda>pmt w. funds_off f u {- a, 0} x w \<and> payAmountPaise pmt = a) (\<lambda>_. settled f u a)"
proof -
  let ?F = "funds_off f u {- a, 0} x"
  have ins: "triple ?F (InsertPayment (pay_input u prov req)) (\<lambda>p w. ?F w \<and> payAmountPaise p = a) (\<lambda>_. ?F)"
  proof (rule tripleI)
    fix w p w' assume w: "?F w" and i: "InsertPayment (pay_input u prov req) w = (Inr p, w')"
    from i have "payAmountPaise p = a"
      by (auto simp: InsertPayment_def require_def wrapErr_def db_call_def go_simps gen_random_uuid_def
          sql_insert_payment_def payment_of_input_def pay_input_def Let_def assms
          split: if_splits list.splits outcome.splits prod.splits sum.splits)
    with keepsD2 [OF keeps_off_payments(1) w i] show "?F w' \<and> payAmountPaise p = a" by simp
  qed (erule keepsD2 [OF keeps_off_payments(1)])
  have att: "keeps ?F (case x of None \<Rightarrow> ok () | Some t \<Rightarrow> logged (AttachWalletTxn (payID p) t))" for p
    by (intro keeps_option keeps_ok keeps_logged keeps_off_payments)
  have good: "triple (\<lambda>w. ?F w \<and> payAmountPaise p = a) (andThen (case x of None \<Rightarrow> ok () | Some t \<Rightarrow> logged (AttachWalletTxn (payID p) t)) (\<lambda>_.
           andThen (bp_publish e) (\<lambda>_. ok p))) (\<lambda>pmt w. ?F w \<and> payAmountPaise pmt = a) (\<lambda>_. settled f u a)" for p e
    by (rule triple_pure, rule triple_step [OF att settled_intros(1)], assumption,
        rule triple_step [OF keeps_off_quiet settled_intros(1)], rule quiet_intros, assumption, rule triple_ok) simp
  have bad: "triple ?F (andThen (case x of None \<Rightarrow> ok ()
             | Some t \<Rightarrow> logged (on_wallet (RefundForBillPay wc t a reason))) (\<lambda>_. fail e)) Q (\<lambda>_. settled f u a)"
    for e reason and Q :: "Payment \<Rightarrow> ('v, 's) billpay \<Rightarrow> bool"
  proof (cases x)
    case None
    then show ?thesis by (simp add: triple_def andThen_def ok_def fail_def settled_intros)
  next
    case (Some t)
    have "triple ?F (logged (on_wallet (RefundForBillPay wc t a reason))) (\<lambda>_. funds_off f u {- a, 0, a} x) (\<lambda>_. settled f u a)"
      by (rule triple_logged [OF refund_settles [OF Some]])
    then show ?thesis
      unfolding Some option.case assms
      by (rule triple_andThen) (rule triple_fail, erule settled_intros)
  qed
  show ?thesis
    unfolding pay_insert_def assms
    by (rule triple_attempt_split [OF ins]) (unfold sum.case, rule good, rule bad)
qed

lemma off_pay_submit:
  assumes "bsWallet sv = wc" "payAmountPaise pmt = a"
  shows "triple (funds_off f u {- a, 0} x) (pay_submit sv u prov x req pmt)
     (\<lambda>r w. settled f u a w \<and> (presStatus r \<noteq> ''failed'' \<longrightarrow> paid f u a w)) (\<lambda>_. settled f u a)"
proof -
  let ?F = "funds_off f u {- a, 0} x"
  let ?Q = "\<lambda>r w. settled f u a w \<and> (presStatus r \<noteq> ''failed'' \<longrightarrow> paid f u a w)"
  have setu: "triple ?F (on_setu m) (\<lambda>_. ?F) (\<lambda>_. ?F)" for m :: "('s, PaymentResponse) io"
    by (simp add: keeps_triple keeps_off_quiet quiet_intros)
  have acc: "triple ?F (pay_accepted u req pmt resp) ?Q (\<lambda>_. settled f u a)" for resp
  proof -
    have "keeps ?F (pay_accepted u req pmt resp)"
      unfolding pay_accepted_def Let_def
      by (intro keeps_intros keeps_off_payments keeps_off_quiet quiet_intros)
    then have t: "triple ?F (pay_accepted u req pmt resp) (\<lambda>_. ?F) (\<lambda>_. ?F)"
      by (simp only: keeps_triple)
    show ?thesis
      by (rule triple_conseq [OF t]) (auto simp: paid_def intro: settled_intros)
  qed
  have ko: "triple ?F (andThen (failPaymentAndRefund sv pmt x reason) (\<lambda>_. fail e)) ?Q (\<lambda>_. settled f u a)"
    "triple ?F (andThen (failPaymentAndRefund sv pmt x reason) (\<lambda>_. ok \<lparr>presPaymentID = payID pmt, presStatus = ''failed'',
        presAmountPaise = a, presSetuPaymentRef = [], presReceiptNumber = []\<rparr>)) ?Q (\<lambda>_. settled f u a)" for reason e
    by (rule triple_andThen [OF off_compensate [OF assms]], rule triple_fail, simp,
        rule triple_andThen [OF off_compensate [OF assms]], rule triple_ok, simp)
  have "triple ?F (case r of
         Inl e \<Rightarrow> andThen (failPaymentAndRefund sv pmt x (''setu_submit_error: '' @ err_msg e)) (\<lambda>_. fail (Wrap ''setu submit'' e))
       | Inr resp \<Rightarrow>
           if prsStatus resp = ''failed'' then
             andThen (failPaymentAndRefund sv pmt x (prsFailureReason resp)) (\<lambda>_.
             ok \<lparr>presPaymentID = payID pmt, presStatus = ''failed'', presAmountPaise = a,
               presSetuPaymentRef = [], presReceiptNumber = []\<rparr>)
           else pay_accepted u req pmt resp) ?Q (\<lambda>_. settled f u a)" for r
  proof (cases r)
    case (Inl e)
    show ?thesis unfolding Inl sum.case by (rule ko(1))
  next
    case (Inr resp)
    show ?thesis unfolding Inr sum.case by (cases "prsStatus resp = ''failed''") (simp only: if_True if_False simp_thms, rule ko(2) acc)+
  qed
  then show ?thesis
    unfolding pay_submit_def assms
    by (intro triple_step [OF keeps_off_quiet settled_intros(1)] triple_attempt [OF setu] quiet_services) assumption+
qed

lemma off_pay_run:
  assumes "bsWallet sv = wc" "prAmountPaise req = a"
  shows "triple (funds_off f u {0} None) (pay_run sv u req)
     (\<lambda>r w. settled f u a w \<and> (presStatus r \<noteq> ''failed'' \<longrightarrow> paid f u a w)) (\<lambda>_. settled f u a)"
proof -
  have zero: "settled f u a w" if "funds_off f u {0} x w" for x w
    using that by (auto simp: settled_def intro: funds_off_mono)
  have deb: "triple (funds_off f u {0} None) (pay_debit sv u req) (\<lambda>x. funds_off f u {- a, 0} x) (\<lambda>_. settled f u a)"
  proof (cases "prPaymentMethod req = ''wallet''")
    case True
    have "triple (funds_off f u {0} None) (wrapErr l (on_wallet (DebitForBillPay wc u a p k)))
       (\<lambda>d. funds_off f u {- a, 0} (Some (drTransactionID d))) (\<lambda>_. settled f u a)" for l p k
      by (rule triple_wrapErr, rule triple_conseq [OF off_debit]) (auto intro: settled_intros)
    then have "triple (funds_off f u {0} None) (andThen (wrapErr l (on_wallet (DebitForBillPay wc u a p k)))
        (\<lambda>d. ok (Some (drTransactionID d)))) (\<lambda>x. funds_off f u {- a, 0} x) (\<lambda>_. settled f u a)" for l p k
      by (rule triple_andThen) (simp add: triple_def ok_def)
    then show ?thesis
      unfolding pay_debit_def assms using True
      by (simp, intro triple_step [OF keeps_off_quiet [OF quiet_combinators(4)]]) (erule zero, simp)
  next
    case False
    then show ?thesis by (auto simp: pay_debit_def triple_def ok_def intro: funds_off_mono)
  qed
  show ?thesis
    unfolding pay_run_def
    by (rule triple_step [OF keeps_off_quiet], rule quiet_intros, erule zero,
        rule triple_andThen [OF deb], rule triple_andThen [OF off_pay_insert [OF assms]])
      (rule triple_pure, rule off_pay_submit [OF assms(1)])
qed

lemma off_Pay:
  assumes "bsWallet sv = wc" "prAmountPaise req = a"
  shows "triple (funds_off f u {0} None) (Pay sv u req)
     (\<lambda>r w. settled f u a w \<and> (presStatus r \<noteq> ''failed'' \<longrightarrow> paid f u a w)) (\<lambda>_. settled f u a)"
proof -
  let ?F = "funds_off f u {0} None"
  let ?Q = "\<lambda>r w. settled f u a w \<and> (presStatus r \<noteq> ''failed'' \<longrightarrow> paid f u a w)"
  have zero: "?F w \<Longrightarrow> settled f u a w" "?F w \<Longrightarrow> paid f u a w" for w
    by (auto simp: settled_def paid_def intro!: exI [of _ None] elim!: funds_off_mono)
  have err: "triple ?F (fail e) ?Q (\<lambda>_. settled f u a)" for e
    by (rule triple_fail) (erule zero)
  have replay: "triple ?F m ?Q (\<lambda>_. settled f u a)" if "pay_replay ex = Some m" for ex and m :: "(('v, 's) billpay, PayResult) io"
  proof -
    have "triple ?F m (\<lambda>_. ?F) (\<lambda>_. ?F)"
      by (simp only: keeps_triple keeps_off_quiet quiet_replay [OF that])
    then show ?thesis by (rule triple_conseq) (auto intro: zero)
  qed
  have find: "triple ?F (FindPayKey k u) (\<lambda>_. ?F) (\<lambda>_. ?F)" for k
    by (simp only: keeps_triple) (rule keeps_off_quiet, rule quiet_intros)
  show ?thesis
    unfolding Pay_def
    by (intro triple_require triple_attempt [OF find] zero)
      (auto split: sum.split option.split intro: err replay off_pay_run [OF assms])
qed

end

text \<open>A wallet that also moves on its own, by \<open>vs\<close>.\<close>

locale wallet_system = wallet_client +
  fixes vs :: "'a \<Rightarrow> 'a \<Rightarrow> bool"
  assumes moves: "winv v \<Longrightarrow> vs v v' \<Longrightarrow> winv v' \<and> owner v \<subseteq>\<^sub>m owner v'"
begin

lemma reach_owns:
  assumes "(billpay_step vs h pg pu)\<^sup>*\<^sup>* w w'" "bsWallet (bhSvc h) = wc" "owns_all w"
  shows "owns_all w'"
  using assms(1,3)
proof (induction rule: rtranclp_induct)
  case (step w1 w2)
  then have "owns_all w1" by simp
  then have "owns_all (w1\<lparr>wallet_side := v\<rparr>)" if "vs (wallet_side w1) v" for v
    using wallet_call_extends(1) [of w1 v] moves [OF _ that] by (simp add: owns_all_def)
  with billpay_invariant.billpay_step_keeps [OF owns_invariant [OF assms(2)] step.hyps(2) refl \<open>owns_all w1\<close>]
  show ?case by blast
qed

end

section \<open>Over the connection to wallet-service\<close>

text \<open>What happens to the wallet while bill-pay-service is not calling: the weather of the
  connection changes and wallet-service makes steps of its own.\<close>

inductive link_moves :: "'b Service \<Rightarrow> 'b wallet_link \<Rightarrow> 'b wallet_link \<Rightarrow> bool" for sv where
  weather: "link_moves sv l (l\<lparr>lkNet := ns\<rparr>)"
| wallet_moves: "wallet_step sv (lkWallet l) w \<Longrightarrow> link_moves sv l (l\<lparr>lkWallet := w\<rparr>)"

lemma bill_pay_system:
  assumes "parses_uuids pu"
  shows "wallet_system (wallet_http (link_server h cd pu render (whBaseURL c)) c)
     (\<lambda>l. ledger_inv (lkWallet l)) (\<lambda>l. avail (lkWallet l)) (\<lambda>l. tx_owner (lkWallet l)) (link_moves (hdSvc h))"
proof (rule wallet_system.intro [OF bill_pay_link [OF assms]], unfold_locales)
  fix l l' :: "'a wallet_link"
  assume l: "ledger_inv (lkWallet l)" and "link_moves (hdSvc h) l l'"
  from this(2) show "ledger_inv (lkWallet l') \<and> tx_owner (lkWallet l) \<subseteq>\<^sub>m tx_owner (lkWallet l')"
  proof (cases rule: link_moves.cases)
    case (wallet_moves w)
    from l wallet_moves(2) have w: "ledger_inv w" by (rule wallet_step_ledger [rotated])
    have "tx_owner (lkWallet l) \<subseteq>\<^sub>m tx_owner w"
      by (rule tx_owner_extends [OF l w]) (rule owned.wallet_step_rows [OF wallet_moves(2)])
    with w wallet_moves(1) show ?thesis by simp
  qed (use l in simp)
qed

interpretation linked: wallet_system
  "wallet_http (link_server h cd canonical_uuid render (whBaseURL c)) c"
  "\<lambda>l. ledger_inv (lkWallet l)" "\<lambda>l. avail (lkWallet l)" "\<lambda>l. tx_owner (lkWallet l)" "link_moves (hdSvc h)"
  for h cd render c
  by (rule bill_pay_system [OF canonical_uuid_parses])

end
