(* ===== verification/Billpay_Behaviour.thy ===== *)
theory Billpay_Behaviour
  imports Billpay_Money Wallet_Behaviour
begin

text \<open>
  The functional behaviour of \<^verbatim>\<open>Pay\<close> on a quiet network: a wallet payment that Setu accepts, with
  its replay; one that Setu declines, with its compensation; and what a second try after a decline
  does. The stages of the saga are run one by one (\<open>pay_runs\<close>, \<open>debit_runs\<close>, \<open>insert_runs\<close>,
  \<open>submit_accepted\<close>, \<open>submit_declined\<close>) and put together in \<open>pay_until_submit\<close>.
\<close>

section \<open>A small shop to run\<close>

text \<open>User 7 has saved the account 12 with the provider 11, whose identifier at Setu is \<open>biller\<close>.\<close>

definition demo_provider :: "string \<Rightarrow> Provider" where
  "demo_provider biller = \<lparr>prvID = 11, prvSetuBillerID = biller, prvCategoryID = ''electricity'',
     prvName = ''BESCOM'', prvShortName = None, prvLogoURL = None, prvStates = [], prvCustomerParams = JArray [],
     prvBillFetchSupported = True, prvIsActive = True, prvLastSyncedAt = 0\<rparr>"

definition demo_account :: Account where
  "demo_account = \<lparr>accID = 12, accUserID = 7, accProviderID = 11, accIdentifier = ''9900112233'',
     accExtraParams = [], accLabel = ''home'', accIsDefault = False, accAutopayEnabled = False,
     accCreatedAt = 0, accDeletedAt = None\<rparr>"

definition demo_shop :: "string \<Rightarrow> 'v \<Rightarrow> ('v, SetuMock) billpay" where
  "demo_shop biller v = \<lparr>net = [], clock = 1000, idgen = (\<lambda>n. 200 + of_nat n), idctr = 0,
     categories = [], providers = [demo_provider biller], accounts = [demo_account], bills = [],
     payments = [], pay_keys = Map.empty, reminders = [], scheduled = [], mobile_plans = [],
     bp_events = [], wallet_side = v, setu_side = NewSetuMock\<rparr>"

definition demo_billpay :: "'v WalletClient \<Rightarrow> ('v, SetuMock) BillpayService" where
  "demo_billpay wc = bp_New setu_mock wc \<lparr>DefaultMobileCircle = []\<rparr>"

definition demo_order :: PayRequest where
  "demo_order = \<lparr>prAccountID = Some 12, prProviderID = 11, prIdentifier = ''9900112233'', prAmountPaise = 300,
     prPaymentMethod = ''wallet'', prIdempotencyKey = ''k1'', prBillID = None, prExtraParams = []\<rparr>"

lemmas demo_shop_eval = demo_provider_def demo_account_def demo_shop_def demo_billpay_def demo_order_def

lemma uuid_string_ne [simp]: "length s \<noteq> 36 \<Longrightarrow> uuid_string u \<noteq> s"
  using length_uuid_string [of u] by metis


section \<open>Ready to pay\<close>

text \<open>Everything \<^verbatim>\<open>Pay\<close> asks for before it moves money: well-formed arguments, a key that answers
  nothing, an active provider \<open>prov\<close>, and a saved account, if one is named, that is the caller's and
  the provider's.\<close>

definition well_formed_order :: "uuid \<Rightarrow> PayRequest \<Rightarrow> bool" where
  "well_formed_order u req \<longleftrightarrow> u \<noteq> 0 \<and> prIdempotencyKey req \<noteq> [] \<and> 0 < prAmountPaise req \<and>
     prProviderID req \<noteq> 0 \<and> prIdentifier req \<noteq> [] \<and> prPaymentMethod req \<in> set pay_methods"

definition pay_ready :: "uuid \<Rightarrow> PayRequest \<Rightarrow> Provider \<Rightarrow> ('v, 's) billpay \<Rightarrow> bool" where
  "pay_ready u req prov w \<longleftrightarrow> net w = [] \<and> well_formed_order u req \<and>
     pay_keys w (prIdempotencyKey req) = None \<and>
     find (\<lambda>p. prvID p = prProviderID req) (providers w) = Some prov \<and> prvIsActive prov \<and>
     (case prAccountID req of None \<Rightarrow> True
      | Some a \<Rightarrow> \<exists>acc. find (live_account u a) (accounts w) = Some acc \<and> accProviderID acc = prvID prov)"

text \<open>What the row needs beyond that: identifiers and key not taken, a bill that exists.\<close>

definition row_ready :: "uuid \<Rightarrow> PayRequest \<Rightarrow> uuid \<Rightarrow> ('v, 's) billpay \<Rightarrow> bool" where
  "row_ready u req i w \<longleftrightarrow> i \<notin> payID ` set (payments w) \<and>
     Some (prIdempotencyKey req) \<notin> payIdempotencyKey ` set (payments w) \<and>
     references bilID (bills w) (prBillID req)"

lemma find_in: "find P xs = Some x \<Longrightarrow> x \<in> set xs \<and> P x"
  by (metis find_Some_iff nth_mem)

lemma pay_runs:
  assumes "pay_ready u req prov w"
  shows "Pay sv u req w = andThen (pay_debit sv u req) (\<lambda>t.
     andThen (pay_insert sv u prov t req) (pay_submit sv u prov t req)) w"
  using assms
  by (cases "prAccountID req")
    (auto simp: pay_ready_def well_formed_order_def Pay_def pay_run_def pay_provider_def FindPayKey_def
      ErrKeyNotFound_def store_GetProvider_def store_GetAccount_def select_account_def go_simps)

lemma debit_runs:
  assumes "prPaymentMethod req = ''wallet''"
    and "DebitForBillPay (bsWallet sv) u (prAmountPaise req) (idgen w (idctr w))
      (wallet_key (prIdempotencyKey req)) (wallet_side w) = (Inr d, v)"
  shows "pay_debit sv u req w = (Inr (Some (drTransactionID d)), w\<lparr>wallet_side := v, idctr := Suc (idctr w)\<rparr>)"
  using assms by (simp add: pay_debit_def gen_random_uuid_def on_wallet_def go_simps)

text \<open>The row \<^verbatim>\<open>Pay\<close> inserts, with the transaction attached.\<close>

definition paid_row :: "uuid \<Rightarrow> PayRequest \<Rightarrow> Provider \<Rightarrow> uuid option \<Rightarrow> uuid \<Rightarrow> int \<Rightarrow> Payment" where
  "paid_row u req prov t i now0 = (payment_of_input (pay_input u prov req) i now0)\<lparr>payWalletTxnID := t\<rparr>"

lemma update_rows_fresh:
  "i \<notin> payID ` set ps \<Longrightarrow> update_rows (\<lambda>p. payID p = i \<and> C p) g ps = ps"
  by (rule update_rows_id) auto

lemma insert_runs:
  assumes "pay_ready u req prov w" "row_ready u req (idgen w (idctr w)) w"
  shows "pay_insert sv u prov (Some t) req w = (Inr (payment_of_input (pay_input u prov req) (idgen w (idctr w)) (clock w)),
     w\<lparr>idctr := Suc (idctr w), payments := payments w @ [paid_row u req prov (Some t) (idgen w (idctr w)) (clock w)],
       bp_events := bp_events w @ [PaymentInitiated u (idgen w (idctr w)) (prvID prov) (prAmountPaise req) (prPaymentMethod req)]\<rparr>)"
proof -
  have refs: "references accID (accounts w) (prAccountID req)" "prvID prov \<in> prvID ` set (providers w)" "prvID prov \<noteq> 0"
    using assms(1)
    by (auto simp: pay_ready_def well_formed_order_def references_def live_account_def dest!: find_in split: option.splits)
  show ?thesis
    using assms refs
    by (simp add: pay_ready_def well_formed_order_def row_ready_def pay_insert_def InsertPayment_def sql_insert_payment_def pay_input_def
        payment_of_input_def gen_random_uuid_def AttachWalletTxn_def update_payments_def update_rows_append
        update_rows_fresh bp_publish_def emit_def paid_row_def references_def Let_def go_simps image_iff)
qed

definition bill_ref :: "uuid option \<Rightarrow> Bill list \<Rightarrow> string" where
  "bill_ref b bs = (case Option.bind b (\<lambda>i. find (\<lambda>x. bilID x = i) bs) of
     None \<Rightarrow> [] | Some bill \<Rightarrow> (case bilSetuBillRef bill of None \<Rightarrow> [] | Some ref \<Rightarrow> ref))"

lemma bill_ref_runs: "net w = [] \<Longrightarrow> pay_bill_ref b w = (Inr (bill_ref b (bills w)), w)"
  by (simp add: pay_bill_ref_def bill_ref_def GetBill_def go_simps split: option.splits)

text \<open>The request Setu gets for the payment \<open>i\<close>.\<close>

definition setu_order :: "Provider \<Rightarrow> PayRequest \<Rightarrow> uuid \<Rightarrow> Bill list \<Rightarrow> PaymentRequest" where
  "setu_order prov req i bs = \<lparr>prqSetuBillerID = prvSetuBillerID prov, prqIdentifier = prIdentifier req,
     prqExtraParams = prExtraParams req, prqAmountPaise = prAmountPaise req, prqSetuBillRef = bill_ref (prBillID req) bs,
     prqIdempotencyKey = prIdempotencyKey req, prqPaymentChannel = prPaymentMethod req,
     prqAtPostPaymentID = uuid_string i\<rparr>"

lemma setu_request_order:
  "setu_request prov req p (bill_ref (prBillID req) bs) = setu_order prov req (payID p) bs"
  by (simp add: setu_request_def setu_order_def)

text \<open>The state after the row is in, and the two ways on from there.\<close>

lemma submit_accepted:
  assumes "net w = []" "pay_keys w (prIdempotencyKey req) = None" "payments w = ps @ [paid_row u req prov t i now0]"
    and "i \<notin> payID ` set ps"
    and "SubmitPayment (bsSetu sv) (setu_order prov req i (bills w)) (setu_side w) = (Inr resp, s)" "prsStatus resp \<noteq> ''failed''"
  shows "\<exists>w'. pay_submit sv u prov t req (payment_of_input (pay_input u prov req) i now0) w =
      (Inr \<lparr>presPaymentID = i, presStatus = ''submitted'', presAmountPaise = prAmountPaise req,
          presSetuPaymentRef = prsSetuPaymentRef resp, presReceiptNumber = prsReceiptNumber resp\<rparr>, w')
     \<and> w' = w\<lparr>setu_side := s,
         payments := ps @ [(paid_row u req prov t i now0)\<lparr>payStatus := ''submitted'', paySetuPaymentRef := Some (prsSetuPaymentRef resp)\<rparr>],
         pay_keys := (pay_keys w)(prIdempotencyKey req \<mapsto> \<lparr>pidKey = prIdempotencyKey req, pidUserID = u, pidPaymentID = Some i,
            pidResponseBody = Some (marshal_PayResult \<lparr>presPaymentID = i, presStatus = ''submitted'', presAmountPaise = prAmountPaise req,
              presSetuPaymentRef = prsSetuPaymentRef resp, presReceiptNumber = prsReceiptNumber resp\<rparr>),
            pidCreatedAt = clock w, pidExpiresAt = clock w + day_us\<rparr>)\<rparr>"
  using assms
  by (simp add: pay_submit_def pay_accepted_def on_setu_def MarkPaymentSubmitted_def update_payments_def
      RecordPayKey_def update_rows_append update_rows_fresh paid_row_def payment_of_input_def
      pay_input_def bill_ref_runs setu_request_order go_simps Let_def)

definition declined :: "goerr + PaymentResponse \<Rightarrow> bool" where
  "declined res \<longleftrightarrow> (case res of Inl e \<Rightarrow> True | Inr resp \<Rightarrow> prsStatus resp = ''failed'')"

definition decline_reason :: "goerr + PaymentResponse \<Rightarrow> string" where
  "decline_reason res = (case res of Inl e \<Rightarrow> ''setu_submit_error: '' @ err_msg e | Inr resp \<Rightarrow> prsFailureReason resp)"

definition decline_answer :: "uuid \<Rightarrow> int \<Rightarrow> goerr + PaymentResponse \<Rightarrow> goerr + PayResult" where
  "decline_answer i a res = (case res of
     Inl e \<Rightarrow> Inl (Wrap ''setu submit'' e)
   | Inr resp \<Rightarrow> Inr \<lparr>presPaymentID = i, presStatus = ''failed'', presAmountPaise = a,
          presSetuPaymentRef = [], presReceiptNumber = []\<rparr>)"

lemma submit_declined:
  assumes "net w = []" "payments w = ps @ [paid_row u req prov (Some t) i now0]" "i \<notin> payID ` set ps"
    and "SubmitPayment (bsSetu sv) (setu_order prov req i (bills w)) (setu_side w) = (res, s)" "declined res"
    and "RefundForBillPay (bsWallet sv) t (prAmountPaise req) ''billpay_setu_failed'' (wallet_side w) = (Inr (), v)"
  shows "pay_submit sv u prov (Some t) req (payment_of_input (pay_input u prov req) i now0) w =
      (decline_answer i (prAmountPaise req) res,
       w\<lparr>setu_side := s, wallet_side := v,
         payments := ps @ [(paid_row u req prov (Some t) i now0)\<lparr>payStatus := ''failed'',
            payFailureReason := Some (decline_reason res), paySettledAt := Some (clock w)\<rparr>],
         bp_events := bp_events w @ [PaymentRefunded u i (prAmountPaise req) ''setu_failed'',
            PaymentFailed u i (prvID prov) (prAmountPaise req) (decline_reason res)]\<rparr>)"
  using assms
  by (cases res)
    (simp_all add: pay_submit_def failPaymentAndRefund_def on_setu_def on_wallet_def MarkPaymentFailed_def update_payments_def
      open_payment_def update_rows_append update_rows_fresh paid_row_def payment_of_input_def bp_publish_def emit_def
      pay_input_def bill_ref_runs setu_request_order declined_def decline_reason_def decline_answer_def go_simps Let_def)

lemma pay_ready_after [simp]:
  "pay_ready u req prov (w\<lparr>wallet_side := v, idctr := n\<rparr>) = pay_ready u req prov w"
  by (simp add: pay_ready_def split: option.split)

lemma pay_until_submit:
  assumes "pay_ready u req prov w" "prPaymentMethod req = ''wallet''"
    and "DebitForBillPay (bsWallet sv) u (prAmountPaise req) (idgen w (idctr w))
      (wallet_key (prIdempotencyKey req)) (wallet_side w) = (Inr d, v)"
    and i: "i = idgen w (Suc (idctr w))" "row_ready u req i w"
  shows "Pay sv u req w = pay_submit sv u prov (Some (drTransactionID d)) req
      (payment_of_input (pay_input u prov req) i (clock w))
      (w\<lparr>wallet_side := v, idctr := Suc (Suc (idctr w)),
         payments := payments w @ [paid_row u req prov (Some (drTransactionID d)) i (clock w)],
         bp_events := bp_events w @ [PaymentInitiated u i (prvID prov) (prAmountPaise req) ''wallet'']\<rparr>)"
proof -
  let ?w = "w\<lparr>wallet_side := v, idctr := Suc (idctr w)\<rparr>"
  have "row_ready u req (idgen ?w (idctr ?w)) ?w" "pay_ready u req prov ?w"
    using i assms(1) by (simp_all add: row_ready_def)
  from insert_runs [OF this(2,1), of sv "drTransactionID d"] show ?thesis
    unfolding pay_runs [OF assms(1)] by (simp add: andThen_def debit_runs [OF assms(2,3)] assms(2) i(1))
qed

lemma pay_declined:
  assumes "pay_ready u req prov w" "prPaymentMethod req = ''wallet''"
    and "DebitForBillPay (bsWallet sv) u (prAmountPaise req) (idgen w (idctr w))
      (wallet_key (prIdempotencyKey req)) (wallet_side w) = (Inr d, v1)"
    and "i = idgen w (Suc (idctr w))" "row_ready u req i w"
    and "SubmitPayment (bsSetu sv) (setu_order prov req i (bills w)) (setu_side w) = (res, s)" "declined res"
    and "RefundForBillPay (bsWallet sv) (drTransactionID d) (prAmountPaise req) ''billpay_setu_failed'' v1 = (Inr (), v2)"
  shows "Pay sv u req w = (decline_answer i (prAmountPaise req) res,
     w\<lparr>idctr := Suc (Suc (idctr w)), wallet_side := v2, setu_side := s,
       payments := payments w @ [(paid_row u req prov (Some (drTransactionID d)) i (clock w))\<lparr>payStatus := ''failed'',
            payFailureReason := Some (decline_reason res), paySettledAt := Some (clock w)\<rparr>],
       bp_events := bp_events w @ [PaymentInitiated u i (prvID prov) (prAmountPaise req) ''wallet'',
          PaymentRefunded u i (prAmountPaise req) ''setu_failed'',
          PaymentFailed u i (prvID prov) (prAmountPaise req) (decline_reason res)]\<rparr>)"
proof -
  let ?t = "Some (drTransactionID d)"
  let ?w = "w\<lparr>wallet_side := v1, idctr := Suc (Suc (idctr w)),
         payments := payments w @ [paid_row u req prov ?t i (clock w)],
         bp_events := bp_events w @ [PaymentInitiated u i (prvID prov) (prAmountPaise req) ''wallet'']\<rparr>"
  have "net ?w = []" "payments ?w = payments w @ [paid_row u req prov ?t i (clock w)]" "i \<notin> payID ` set (payments w)"
    "SubmitPayment (bsSetu sv) (setu_order prov req i (bills ?w)) (setu_side ?w) = (res, s)"
    "RefundForBillPay (bsWallet sv) (drTransactionID d) (prAmountPaise req) ''billpay_setu_failed'' (wallet_side ?w) = (Inr (), v2)"
    using assms(1,5,6,8) by (simp_all add: pay_ready_def row_ready_def)
  note run = submit_declined [OF this(1-4) assms(7) this(5)]
  show ?thesis
    unfolding pay_until_submit [OF assms(1-5)] run by simp
qed

section \<open>Paying from the wallet\<close>

text \<open>C23: a wallet payment that Setu accepts. The wallet is debited once, for the amount, under the
  derived key; one row is added, submitted, with the wallet transaction and Setu's reference on it;
  one event is published. A second call with the same key by the same user within 24 hours, whatever
  else it asks for, gets the same answer and changes nothing, on any network that is up.\<close>

theorem wallet_payment_submitted:
  assumes "pay_ready u req prov w" "prPaymentMethod req = ''wallet''"
    and "DebitForBillPay (bsWallet sv) u (prAmountPaise req) (idgen w (idctr w))
      (wallet_key (prIdempotencyKey req)) (wallet_side w) = (Inr d, v)"
    and "i = idgen w (Suc (idctr w))" "row_ready u req i w"
    and "SubmitPayment (bsSetu sv) (setu_order prov req i (bills w)) (setu_side w) = (Inr resp, s)"
      "prsStatus resp \<noteq> ''failed''"
    and "well_formed_order u req2" "prIdempotencyKey req2 = prIdempotencyKey req" "0 \<le> dt" "dt < day_us"
  shows "\<exists>w' row. Pay sv u req w = (Inr \<lparr>presPaymentID = i, presStatus = ''submitted'', presAmountPaise = prAmountPaise req,
          presSetuPaymentRef = prsSetuPaymentRef resp, presReceiptNumber = prsReceiptNumber resp\<rparr>, w')
     \<and> wallet_side w' = v \<and> setu_side w' = s \<and> payments w' = payments w @ [row]
     \<and> payID row = i \<and> payUserID row = u \<and> payAmountPaise row = prAmountPaise req \<and> payStatus row = ''submitted''
     \<and> payWalletTxnID row = Some (drTransactionID d) \<and> paySetuPaymentRef row = Some (prsSetuPaymentRef resp)
     \<and> bp_events w' = bp_events w @ [PaymentInitiated u i (prvID prov) (prAmountPaise req) ''wallet'']
     \<and> Pay sv u req2 (w'\<lparr>clock := clock w' + dt\<rparr>) = (fst (Pay sv u req w), w'\<lparr>clock := clock w' + dt\<rparr>)"
proof -
  let ?t = "Some (drTransactionID d)"
  let ?w = "w\<lparr>wallet_side := v, idctr := Suc (Suc (idctr w)),
         payments := payments w @ [paid_row u req prov ?t i (clock w)],
         bp_events := bp_events w @ [PaymentInitiated u i (prvID prov) (prAmountPaise req) ''wallet'']\<rparr>"
  have w: "net ?w = []" "pay_keys ?w (prIdempotencyKey req) = None"
    "payments ?w = payments w @ [paid_row u req prov ?t i (clock w)]" "i \<notin> payID ` set (payments w)"
    "SubmitPayment (bsSetu sv) (setu_order prov req i (bills ?w)) (setu_side ?w) = (Inr resp, s)"
    using assms(1,5,6) by (simp_all add: pay_ready_def row_ready_def)
  have pay: "Pay sv u req w = pay_submit sv u prov ?t req (payment_of_input (pay_input u prov req) i (clock w)) ?w"
    by (rule pay_until_submit [OF assms(1-5)])
  obtain w' where w': "Pay sv u req w = (Inr \<lparr>presPaymentID = i, presStatus = ''submitted'', presAmountPaise = prAmountPaise req,
          presSetuPaymentRef = prsSetuPaymentRef resp, presReceiptNumber = prsReceiptNumber resp\<rparr>, w')"
    and eq: "w' = ?w\<lparr>setu_side := s,
         payments := payments w @ [(paid_row u req prov ?t i (clock w))\<lparr>payStatus := ''submitted'', paySetuPaymentRef := Some (prsSetuPaymentRef resp)\<rparr>],
         pay_keys := (pay_keys ?w)(prIdempotencyKey req \<mapsto> \<lparr>pidKey = prIdempotencyKey req, pidUserID = u, pidPaymentID = Some i,
            pidResponseBody = Some (marshal_PayResult \<lparr>presPaymentID = i, presStatus = ''submitted'', presAmountPaise = prAmountPaise req,
              presSetuPaymentRef = prsSetuPaymentRef resp, presReceiptNumber = prsReceiptNumber resp\<rparr>),
            pidCreatedAt = clock ?w, pidExpiresAt = clock ?w + day_us\<rparr>)\<rparr>"
    using submit_accepted [OF w assms(7)] unfolding pay by blast
  have "Pay sv u req2 (w'\<lparr>clock := clock w' + dt\<rparr>) = (fst (Pay sv u req w), w'\<lparr>clock := clock w' + dt\<rparr>)"
    using assms(8-11) w(1) unfolding w' eq
    by (simp add: well_formed_order_def Pay_def FindPayKey_def pay_replay_def go_simps)
  then show ?thesis
    by (intro exI [of _ w'] exI [of _ "(paid_row u req prov ?t i (clock w))\<lparr>payStatus := ''submitted'', paySetuPaymentRef := Some (prsSetuPaymentRef resp)\<rparr>"])
      (simp add: w' eq paid_row_def payment_of_input_def pay_input_def)
qed

text \<open>C24: a wallet payment that Setu declines, or that cannot be submitted, is compensated: the
  wallet is asked once for the amount back, the row is failed with the reason, the events tell of
  the refund and of the failure, and no key is recorded.\<close>

theorem wallet_payment_compensated:
  assumes "pay_ready u req prov w" "prPaymentMethod req = ''wallet''"
    and "DebitForBillPay (bsWallet sv) u (prAmountPaise req) (idgen w (idctr w))
      (wallet_key (prIdempotencyKey req)) (wallet_side w) = (Inr d, v1)"
    and "i = idgen w (Suc (idctr w))" "row_ready u req i w"
    and "SubmitPayment (bsSetu sv) (setu_order prov req i (bills w)) (setu_side w) = (res, s)" "declined res"
    and "RefundForBillPay (bsWallet sv) (drTransactionID d) (prAmountPaise req) ''billpay_setu_failed'' v1 = (Inr (), v2)"
  shows "\<exists>w' row. Pay sv u req w = (decline_answer i (prAmountPaise req) res, w')
     \<and> wallet_side w' = v2 \<and> setu_side w' = s \<and> payments w' = payments w @ [row]
     \<and> payStatus row = ''failed'' \<and> payFailureReason row = Some (decline_reason res)
     \<and> payWalletTxnID row = Some (drTransactionID d) \<and> payIdempotencyKey row = Some (prIdempotencyKey req)
     \<and> pay_keys w' = pay_keys w
     \<and> bp_events w' = bp_events w @ [PaymentInitiated u i (prvID prov) (prAmountPaise req) ''wallet'',
          PaymentRefunded u i (prAmountPaise req) ''setu_failed'',
          PaymentFailed u i (prvID prov) (prAmountPaise req) (decline_reason res)]"
  unfolding pay_declined [OF assms] by (simp add: paid_row_def payment_of_input_def pay_input_def)

lemma demo_ready:
  "pay_ready 7 demo_order (demo_provider biller) (demo_shop biller v)"
  "row_ready 7 demo_order 201 (demo_shop biller v)"
  "idgen (demo_shop biller v) (idctr (demo_shop biller v)) = 200"
  "idgen (demo_shop biller v) (Suc (idctr (demo_shop biller v))) = 201"
  by (simp_all add: demo_shop_eval pay_ready_def well_formed_order_def row_ready_def live_account_def pay_methods_def references_def)

lemma demo_order_simps [simp]:
  "prPaymentMethod demo_order = ''wallet''" "prAmountPaise demo_order = 300" "prIdempotencyKey demo_order = ''k1''"
  "wallet_side (demo_shop biller v) = v" "payments (demo_shop biller v) = []" "bp_events (demo_shop biller v) = []"
  "bsWallet (demo_billpay wc) = wc" "bsSetu (demo_billpay wc) = setu_mock" "pay_keys (demo_shop biller v) = Map.empty"
  by (simp_all add: demo_order_def demo_shop_def demo_billpay_def bp_New_def)

lemma demo_debits: "DebitForBillPay wallet_mock u a p k (NewWalletMock 50) =
    (Inr \<lparr>drTransactionID = 50, drStatus = ''succeeded'', drAmountPaise = a\<rparr>,
     (NewWalletMock 50)\<lparr>wmDebits := [\<lparr>dcUserID = u, dcAmountPaise = a, dcPaymentID = p, dcIdempotencyKey = k\<rparr>]\<rparr>)"
  by (simp add: go_eval)

lemma demo_accepts: "biller \<noteq> ''submit-fails-bbps'' \<Longrightarrow>
    \<exists>s. SubmitPayment setu_mock (setu_order (demo_provider biller) demo_order 201 bs) m =
      (Inr \<lparr>prsSetuPaymentRef = ''setu-pay-'' @ uuid_string 201, prsStatus = ''submitted'',
         prsReceiptNumber = ''RRN'' @ uuid_string 201, prsFailureReason = []\<rparr>, s)"
  by (simp add: go_eval setu_order_def demo_provider_def)

lemma demo_declines: "\<exists>s. SubmitPayment setu_mock (setu_order (demo_provider ''submit-fails-bbps'') demo_order 201 bs) m =
      (Inr \<lparr>prsSetuPaymentRef = [], prsStatus = ''failed'', prsReceiptNumber = [], prsFailureReason = ''biller declined''\<rparr>, s)"
  by (simp add: go_eval setu_order_def demo_provider_def)

theorem wallet_payment_submitted_witness:
  "\<exists>w' row. Pay (demo_billpay wallet_mock) 7 demo_order (demo_shop ''bescom'' (NewWalletMock 50)) =
      (Inr \<lparr>presPaymentID = 201, presStatus = ''submitted'', presAmountPaise = 300,
          presSetuPaymentRef = ''setu-pay-'' @ uuid_string 201, presReceiptNumber = ''RRN'' @ uuid_string 201\<rparr>, w')
     \<and> payments w' = [row] \<and> payStatus row = ''submitted'' \<and> length (wmDebits (wallet_side w')) = 1
     \<and> snd (Pay (demo_billpay wallet_mock) 7 demo_order (w'\<lparr>clock := clock w' + 60\<rparr>)) = w'\<lparr>clock := clock w' + 60\<rparr>"
proof -
  let ?w = "demo_shop ''bescom'' (NewWalletMock 50)"
  have debit: "DebitForBillPay (bsWallet (demo_billpay wallet_mock)) 7 (prAmountPaise demo_order) (idgen ?w (idctr ?w))
      (wallet_key (prIdempotencyKey demo_order)) (wallet_side ?w) =
    (Inr \<lparr>drTransactionID = 50, drStatus = ''succeeded'', drAmountPaise = 300\<rparr>,
     (NewWalletMock 50)\<lparr>wmDebits := [\<lparr>dcUserID = 7, dcAmountPaise = 300, dcPaymentID = 200, dcIdempotencyKey = ''k1:wallet''\<rparr>]\<rparr>)"
    using demo_debits [of 7 300 200 "''k1:wallet''"] demo_ready(3) [of "''bescom''" "NewWalletMock 50"] by (simp add: wallet_key_def)
  obtain s where accepts: "SubmitPayment (bsSetu (demo_billpay wallet_mock)) (setu_order (demo_provider ''bescom'') demo_order 201 (bills ?w)) (setu_side ?w) =
      (Inr \<lparr>prsSetuPaymentRef = ''setu-pay-'' @ uuid_string 201, prsStatus = ''submitted'',
         prsReceiptNumber = ''RRN'' @ uuid_string 201, prsFailureReason = []\<rparr>, s)"
    using demo_accepts [of "''bescom''"] by fastforce
  have "well_formed_order 7 demo_order" using demo_ready(1) [of "''bescom''" "()"] by (simp add: pay_ready_def)
  from wallet_payment_submitted [OF demo_ready(1) _ debit _ demo_ready(2) accepts _ this, of 60]
  show ?thesis by (fastforce simp: demo_ready day_us_def)
qed

theorem wallet_payment_compensated_witness:
  "\<exists>w' row. Pay (demo_billpay wallet_mock) 7 demo_order (demo_shop ''submit-fails-bbps'' (NewWalletMock 50)) =
      (Inr \<lparr>presPaymentID = 201, presStatus = ''failed'', presAmountPaise = 300, presSetuPaymentRef = [], presReceiptNumber = []\<rparr>, w')
     \<and> payments w' = [row] \<and> payFailureReason row = Some ''biller declined'' \<and> pay_keys w' = Map.empty
     \<and> length (wmRefunds (wallet_side w')) = 1"
proof -
  let ?w = "demo_shop ''submit-fails-bbps'' (NewWalletMock 50)"
  let ?v = "(NewWalletMock 50)\<lparr>wmDebits := [\<lparr>dcUserID = 7, dcAmountPaise = 300, dcPaymentID = 200, dcIdempotencyKey = ''k1:wallet''\<rparr>]\<rparr>"
  have debit: "DebitForBillPay (bsWallet (demo_billpay wallet_mock)) 7 (prAmountPaise demo_order) (idgen ?w (idctr ?w))
      (wallet_key (prIdempotencyKey demo_order)) (wallet_side ?w) =
    (Inr \<lparr>drTransactionID = 50, drStatus = ''succeeded'', drAmountPaise = 300\<rparr>, ?v)"
    using demo_debits [of 7 300 200 "''k1:wallet''"] demo_ready(3) [of "''submit-fails-bbps''" "NewWalletMock 50"] by (simp add: wallet_key_def)
  obtain s where declines: "SubmitPayment (bsSetu (demo_billpay wallet_mock)) (setu_order (demo_provider ''submit-fails-bbps'') demo_order 201 (bills ?w)) (setu_side ?w) =
      (Inr \<lparr>prsSetuPaymentRef = [], prsStatus = ''failed'', prsReceiptNumber = [], prsFailureReason = ''biller declined''\<rparr>, s)"
    using demo_declines by fastforce
  have refund: "RefundForBillPay (bsWallet (demo_billpay wallet_mock)) 50 300 ''billpay_setu_failed'' ?v =
    (Inr (), ?v\<lparr>wmRefunds := [\<lparr>rcOriginalWalletTxnID = 50, rcAmountPaise = 300, rcReason = ''billpay_setu_failed''\<rparr>]\<rparr>)"
    by (simp add: go_eval)
  from wallet_payment_compensated [OF demo_ready(1) _ debit _ demo_ready(2) declines] refund
  show ?thesis by (fastforce simp: demo_ready declined_def decline_reason_def decline_answer_def)
qed

section \<open>Trying again after a decline\<close>

text \<open>The wallet has the debit \<open>t\<close> of \<open>u\<close> on record under the key, not expired.\<close>

definition debit_recorded :: "string \<Rightarrow> uuid \<Rightarrow> Transaction \<Rightarrow> 'b wallet \<Rightarrow> bool" where
  "debit_recorded key u t w \<longleftrightarrow> txUserID t = u \<and> find (\<lambda>x. txID x = txID t \<and> txUserID x = u) (transactions w) = Some t \<and>
     (\<exists>r. idempotency w key = Some r \<and> idemUserID r = u \<and> idemOperation r = ''merchant_pay'' \<and>
        idemTransactionID r = Some (txID t) \<and> clock w < idemExpiresAt r)"

lemma recorded_debit_replays:
  assumes "net w = []" "debit_recorded key u t w" "key \<noteq> []" "ms \<noteq> []" "mr \<noteq> []" "0 < a"
  shows "MerchantDebit sv u a ms mr key w = (Inr (send_result (txID t) (txStatus t) (txAmountPaise t)), w)"
  using assms by (auto simp: debit_recorded_def go_eval)

lemma refund_pays:
  assumes "refundable t b w" "0 < a" "a \<le> txAmountPaise t" "int64 (balAvailablePaise b + a)"
    and "BankRefund (svBank sv) (case txBankTxnRef t of None \<Rightarrow> [] | Some r \<Rightarrow> r) a (bank w) = (Inr (), bk')"
  shows "\<exists>x w'. Refund sv (txID t) a reason w = (Inr x, w') \<and>
     avail w' = (avail w)(txUserID t := avail w (txUserID t) + a)"
  using assms by (simp add: refundable_def quiet_run split: option.splits)

lemma insert_refused:
  assumes "pay_ready u req prov w" "Some (prIdempotencyKey req) \<in> payIdempotencyKey ` set (payments w)"
    and "RefundForBillPay (bsWallet sv) t (prAmountPaise req) ''billpay_insert_failed'' (wallet_side w) = (Inr (), v)"
  shows "pay_insert sv u prov (Some t) req w = (Inl (Wrap ''insert payment'' (Wrap ''insert payment'' unique_violation)),
     w\<lparr>wallet_side := v, idctr := Suc (idctr w)\<rparr>)"
proof -
  have "prvID prov \<noteq> 0"
    using assms(1) by (auto simp: pay_ready_def well_formed_order_def dest!: find_in)
  then show ?thesis
    using assms
    by (auto simp: pay_ready_def well_formed_order_def pay_insert_def InsertPayment_def sql_insert_payment_def
        pay_input_def payment_of_input_def gen_random_uuid_def on_wallet_def Let_def go_simps)
qed

text \<open>C25: trying a declined payment again pays the payer. The key of a payment that failed is in
  the payments table but not among the recorded keys, so a second \<open>Pay\<close> with it passes the replay
  check; wallet-service recognises the derived key and answers with the first debit without taking
  anything; the row cannot be inserted a second time; and the compensation refunds the debit, which
  was already refunded when the payment failed. The payer ends up with the amount on top, the caller
  gets an error, and no row or event records it.\<close>

theorem retry_of_failed_payment_pays_out:
  assumes "pay_ready u req prov w" "prPaymentMethod req = ''wallet''"
    and "p \<in> set (payments w)" "payIdempotencyKey p = Some (prIdempotencyKey req)"
    and "parses_uuids pu" "bsWallet sv = wallet_http (link_server h cd pu render (whBaseURL c)) c"
      "whInternalKey c = hdInternalKey h" "hdInternalKey h \<noteq> []" "lkNet (wallet_side w) = []"
    and "debit_recorded (wallet_key (prIdempotencyKey req)) u t (lkWallet (wallet_side w))"
      "refundable t b (lkWallet (wallet_side w))" "txID t \<noteq> 0" "txAmountPaise t = prAmountPaise req"
      "int64 (balAvailablePaise b + prAmountPaise req)"
    and "BankRefund (svBank (hdSvc h)) (case txBankTxnRef t of None \<Rightarrow> [] | Some r \<Rightarrow> r) (prAmountPaise req)
      (bank (lkWallet (wallet_side w))) = (Inr (), bk')"
  shows "\<exists>w'. Pay sv u req w = (Inl (Wrap ''insert payment'' (Wrap ''insert payment'' unique_violation)), w')
     \<and> avail (lkWallet (wallet_side w')) = (avail (lkWallet (wallet_side w)))(u := avail (lkWallet (wallet_side w)) u + prAmountPaise req)
     \<and> payments w' = payments w \<and> bp_events w' = bp_events w \<and> pay_keys w' = pay_keys w"
proof -
  let ?wl = "lkWallet (wallet_side w)" and ?a = "prAmountPaise req" and ?key = "wallet_key (prIdempotencyKey req)"
  have order: "u \<noteq> 0" "0 < ?a" "?key \<noteq> []"
    using assms(1) by (auto simp: pay_ready_def well_formed_order_def wallet_key_def)
  have tu: "txUserID t = u" using assms(10) by (simp add: debit_recorded_def)
  have "uuid_string (idgen w (idctr w)) \<noteq> []" by simp
  with assms(10,11) order have "MerchantDebit (hdSvc h) u ?a ''bill_pay'' (uuid_string (idgen w (idctr w))) ?key ?wl
      = (Inr (send_result (txID t) (txStatus t) (txAmountPaise t)), ?wl)"
    by (intro recorded_debit_replays) (simp_all add: refundable_def)
  from link_debit_up [OF assms(5,9,7,8) order(1,2,3) this, of cd render]
  have debit: "DebitForBillPay (bsWallet sv) u ?a (idgen w (idctr w)) ?key (wallet_side w) =
      (Inr (debit_of_send (send_result (txID t) (txStatus t) (txAmountPaise t))), wallet_side w)"
    by (simp add: assms(6) wallet_http_def)
  obtain x wl' where wl': "Refund (hdSvc h) (txID t) ?a ''billpay_insert_failed'' ?wl = (Inr x, wl')"
    "avail wl' = (avail ?wl)(u := avail ?wl u + ?a)"
    using refund_pays [OF assms(11) order(2) _ assms(14,15), of "''billpay_insert_failed''"] assms(13) tu by auto
  from link_refund_up [OF assms(5,9,7,8) assms(12) order(2) wl'(1), of cd render]
  have refund: "RefundForBillPay (bsWallet sv) (txID t) ?a ''billpay_insert_failed'' (wallet_side w) =
      (Inr (), (wallet_side w)\<lparr>lkWallet := wl'\<rparr>)"
    by (simp add: assms(6) wallet_http_def)
  let ?w = "w\<lparr>wallet_side := wallet_side w, idctr := Suc (idctr w)\<rparr>"
  have "pay_insert sv u prov (Some (txID t)) req ?w =
     (Inl (Wrap ''insert payment'' (Wrap ''insert payment'' unique_violation)),
      ?w\<lparr>wallet_side := (wallet_side w)\<lparr>lkWallet := wl'\<rparr>, idctr := Suc (idctr ?w)\<rparr>)"
  proof (rule insert_refused)
    show "pay_ready u req prov ?w" using assms(1) by (simp only: pay_ready_after)
    have "Some (prIdempotencyKey req) \<in> payIdempotencyKey ` set (payments w)"
      using assms(3) by (rule rev_image_eqI) (simp add: assms(4))
    then show "Some (prIdempotencyKey req) \<in> payIdempotencyKey ` set (payments ?w)" by simp
  qed (use refund in simp)
  then show ?thesis
    unfolding pay_runs [OF assms(1)]
    by (simp add: andThen_def debit_runs [OF assms(2) debit] debit_of_send_def send_result_def wl'(2))
qed

text \<open>The wallet of user 7 after a declined payment: debited, then refunded.\<close>

definition demo_debited_wallet :: "MockClient wallet" where
  "demo_debited_wallet = snd (MerchantDebit demo_sv 7 300 ''bill_pay'' (uuid_string 200) ''k1:wallet'' demo_funded)"

definition demo_declined_wallet :: "MockClient wallet" where
  "demo_declined_wallet = snd (Refund demo_sv 100 300 ''billpay_setu_failed'' demo_debited_wallet)"

lemma demo_debit_then_refund:
  "MerchantDebit demo_sv 7 300 ''bill_pay'' (uuid_string 200) ''k1:wallet'' demo_funded =
     (Inr (send_result 100 ''succeeded'' 300), demo_debited_wallet)"
  "\<exists>x. Refund demo_sv 100 300 ''billpay_setu_failed'' demo_debited_wallet = (Inr x, demo_declined_wallet)"
  unfolding demo_declined_wallet_def demo_debited_wallet_def by (simp_all add: go_eval)

lemma demo_declined_wallet_facts:
  "\<exists>t. debit_recorded ''k1:wallet'' 7 t demo_declined_wallet \<and> txID t = 100 \<and> txAmountPaise t = 300 \<and> txStatus t = ''succeeded''
     \<and> find (\<lambda>x. txID x = 100) (transactions demo_declined_wallet) = Some t
     \<and> (case txBankTxnRef t of None \<Rightarrow> [] | Some r \<Rightarrow> r) \<noteq> ''fail-refund''"
  "net demo_declined_wallet = []" "avail demo_declined_wallet 7 = 5000"
  "idgen demo_declined_wallet (idctr demo_declined_wallet) = 102" "txID ` set (transactions demo_declined_wallet) = {100, 101}"
  "\<exists>b. balances demo_declined_wallet 7 = Some b \<and> balAvailablePaise b = 5000"
  unfolding demo_declined_wallet_def demo_debited_wallet_def by (simp_all add: go_eval debit_recorded_def avail_def titleCase_def)


definition demo_linked :: "codec \<Rightarrow> (MockClient wallet_link, SetuMock) BillpayService" where
  "demo_linked cd = demo_billpay (wallet_http (link_server demo_handler cd canonical_uuid (\<lambda>_. []) (whBaseURL demo_wallet_client)) demo_wallet_client)"

text \<open>The payment of \<open>demo_order\<close> to a biller that declines.\<close>

definition demo_failed :: "codec \<Rightarrow> (MockClient wallet_link, SetuMock) billpay" where
  "demo_failed cd = snd (Pay (demo_linked cd) 7 demo_order (demo_shop ''submit-fails-bbps'' demo_link))"

lemma demo_failed_run:
  "\<exists>s. Pay (demo_linked cd) 7 demo_order (demo_shop ''submit-fails-bbps'' demo_link) =
     (Inr \<lparr>presPaymentID = 201, presStatus = ''failed'', presAmountPaise = 300, presSetuPaymentRef = [], presReceiptNumber = []\<rparr>,
      (demo_shop ''submit-fails-bbps'' demo_link)\<lparr>idctr := 2, wallet_side := demo_link\<lparr>lkWallet := demo_declined_wallet\<rparr>, setu_side := s,
       payments := [(paid_row 7 demo_order (demo_provider ''submit-fails-bbps'') (Some 100) 201 1000)\<lparr>payStatus := ''failed'',
            payFailureReason := Some ''biller declined'', paySettledAt := Some 1000\<rparr>],
       bp_events := [PaymentInitiated 7 201 11 300 ''wallet'',
          PaymentRefunded 7 201 300 ''setu_failed'', PaymentFailed 7 201 11 300 ''biller declined'']\<rparr>)"
proof -
  let ?w = "demo_shop ''submit-fails-bbps'' demo_link"
  let ?wc = "wallet_http (link_server demo_handler cd canonical_uuid (\<lambda>_. []) (whBaseURL demo_wallet_client)) demo_wallet_client"
  let ?w1 = demo_debited_wallet
  have up: "lkNet demo_link = []" "whInternalKey demo_wallet_client = hdInternalKey demo_handler" "hdInternalKey demo_handler \<noteq> []"
    "hdSvc demo_handler = demo_sv" "lkWallet demo_link = demo_funded"
    by (simp_all add: demo_link_def demo_wallet_client_def NewWalletHTTP_def demo_handler_def)
  have "DebitForBillPay ?wc 7 300 200 ''k1:wallet'' demo_link = (Inr (debit_of_send (send_result 100 ''succeeded'' 300)), demo_link\<lparr>lkWallet := ?w1\<rparr>)"
    unfolding wallet_http_def WalletClient.simps
    by (rule link_debit_up [OF canonical_uuid_parses up(1-3)]) (simp_all add: up demo_debit_then_refund(1))
  then have debit: "DebitForBillPay (bsWallet (demo_linked cd)) 7 (prAmountPaise demo_order) (idgen ?w (idctr ?w))
      (wallet_key (prIdempotencyKey demo_order)) (wallet_side ?w) = (Inr (debit_of_send (send_result 100 ''succeeded'' 300)), demo_link\<lparr>lkWallet := ?w1\<rparr>)"
    by (simp add: demo_linked_def wallet_key_def demo_ready)
  obtain x where x: "Refund demo_sv 100 300 ''billpay_setu_failed'' ?w1 = (Inr x, demo_declined_wallet)"
    using demo_debit_then_refund(2) by blast
  have "RefundForBillPay ?wc 100 300 ''billpay_setu_failed'' (demo_link\<lparr>lkWallet := ?w1\<rparr>) = (Inr (), (demo_link\<lparr>lkWallet := ?w1\<rparr>)\<lparr>lkWallet := demo_declined_wallet\<rparr>)"
    unfolding wallet_http_def WalletClient.simps
    by (rule link_refund_up [OF canonical_uuid_parses _ up(2,3)]) (simp_all add: up x)
  then have refund: "RefundForBillPay (bsWallet (demo_linked cd)) (drTransactionID (debit_of_send (send_result 100 ''succeeded'' 300)))
      (prAmountPaise demo_order) ''billpay_setu_failed'' (demo_link\<lparr>lkWallet := ?w1\<rparr>) = (Inr (), demo_link\<lparr>lkWallet := demo_declined_wallet\<rparr>)"
    by (simp add: demo_linked_def debit_of_send_def send_result_def)
  obtain s where declines: "SubmitPayment (bsSetu (demo_linked cd)) (setu_order (demo_provider ''submit-fails-bbps'') demo_order 201 (bills ?w)) (setu_side ?w) =
      (Inr \<lparr>prsSetuPaymentRef = [], prsStatus = ''failed'', prsReceiptNumber = [], prsFailureReason = ''biller declined''\<rparr>, s)"
    using demo_declines unfolding demo_linked_def by fastforce
  have shop: "clock ?w = 1000" "idctr ?w = 0" "prvID (demo_provider b) = 11" for b
    by (simp_all add: demo_shop_def demo_provider_def)
  have "201 = idgen ?w (Suc (idctr ?w))" by (simp add: demo_ready)
  from pay_declined [OF demo_ready(1) _ debit this demo_ready(2) declines _ refund] show ?thesis
    by (simp add: declined_def decline_reason_def decline_answer_def debit_of_send_def send_result_def shop numeral_2_eq_2) blast
qed

theorem retry_of_failed_payment_pays_out_witness:
  "\<forall>cd. avail (lkWallet (wallet_side (demo_failed cd))) 7 = 5000 \<and>
     (\<exists>e w'. Pay (demo_linked cd) 7 demo_order (demo_failed cd) = (Inl e, w') \<and> avail (lkWallet (wallet_side w')) 7 = 5300)"
proof
  fix cd
  let ?w = "demo_failed cd" and ?prov = "demo_provider ''submit-fails-bbps''"
  obtain s where w: "?w = (demo_shop ''submit-fails-bbps'' demo_link)\<lparr>idctr := 2, wallet_side := demo_link\<lparr>lkWallet := demo_declined_wallet\<rparr>, setu_side := s,
       payments := [(paid_row 7 demo_order ?prov (Some 100) 201 1000)\<lparr>payStatus := ''failed'',
            payFailureReason := Some ''biller declined'', paySettledAt := Some 1000\<rparr>],
       bp_events := [PaymentInitiated 7 201 11 300 ''wallet'',
          PaymentRefunded 7 201 300 ''setu_failed'', PaymentFailed 7 201 11 300 ''biller declined'']\<rparr>"
    using demo_failed_run [of cd] by (auto simp: demo_failed_def)
  have ready: "pay_ready 7 demo_order ?prov ?w"
    unfolding w by (simp add: demo_shop_eval pay_ready_def well_formed_order_def live_account_def pay_methods_def)
  obtain t where t: "debit_recorded ''k1:wallet'' 7 t demo_declined_wallet" "txID t = 100" "txAmountPaise t = 300" "txStatus t = ''succeeded''"
    "find (\<lambda>x. txID x = 100) (transactions demo_declined_wallet) = Some t"
    "(case txBankTxnRef t of None \<Rightarrow> [] | Some r \<Rightarrow> r) \<noteq> ''fail-refund''"
    using demo_declined_wallet_facts(1) by blast
  obtain b where b: "balances demo_declined_wallet 7 = Some b" "balAvailablePaise b = 5000"
    using demo_declined_wallet_facts(6) by blast
  have wl: "lkWallet (wallet_side ?w) = demo_declined_wallet" "lkNet (wallet_side ?w) = []" unfolding w by (simp_all add: demo_link_def)
  have "txUserID t = 7" using t(1) by (simp add: debit_recorded_def)
  then have refundable: "refundable t b (lkWallet (wallet_side ?w))"
    using t b by (simp add: refundable_def wl demo_declined_wallet_facts)
  obtain bk' where bank: "BankRefund (svBank (hdSvc demo_handler)) (case txBankTxnRef t of None \<Rightarrow> [] | Some r \<Rightarrow> r) (prAmountPaise demo_order)
      (bank (lkWallet (wallet_side ?w))) = (Inr (), bk')"
    using t(6) by (simp add: demo_handler_def go_eval)
  have key: "whInternalKey demo_wallet_client = hdInternalKey demo_handler" "hdInternalKey demo_handler \<noteq> []"
    by (simp_all add: demo_wallet_client_def NewWalletHTTP_def demo_handler_def)
  let ?p = "(paid_row 7 demo_order ?prov (Some 100) 201 1000)\<lparr>payStatus := ''failed'', payFailureReason := Some ''biller declined'', paySettledAt := Some 1000\<rparr>"
  have p: "?p \<in> set (payments ?w)" "payIdempotencyKey ?p = Some (prIdempotencyKey demo_order)"
    unfolding w by (simp_all add: paid_row_def payment_of_input_def pay_input_def)
  have "debit_recorded (wallet_key (prIdempotencyKey demo_order)) 7 t (lkWallet (wallet_side ?w))"
    using t(1) by (simp add: wl wallet_key_def)
  from retry_of_failed_payment_pays_out [OF ready _ p canonical_uuid_parses _ key wl(2) this refundable _ _ _ bank, of "demo_linked cd" cd "\<lambda>_. []"]
  obtain e w' where "Pay (demo_linked cd) 7 demo_order ?w = (Inl e, w')" "avail (lkWallet (wallet_side w')) 7 = 5300"
    using t b demo_declined_wallet_facts(3) wl(1) by (fastforce simp: demo_linked_def int64_def)
  then show "avail (lkWallet (wallet_side ?w)) 7 = 5000 \<and> (\<exists>e w'. Pay (demo_linked cd) 7 demo_order ?w = (Inl e, w') \<and> avail (lkWallet (wallet_side w')) 7 = 5300)"
    by (simp add: wl demo_declined_wallet_facts(3))
qed

end
