(* ===== verification/Billpay_Webhook.thy ===== *)
theory Billpay_Webhook
  imports Billpay_Behaviour
begin

text \<open>
  The Setu webhook: what an event does to the payment it is about, by the status the row has
  reached, and who can send one. An event finds its row through Setu's reference (\<open>refers_to\<close>); with
  distinct identifiers, which every reachable state has, the updates it makes touch that row only.
\<close>

section \<open>The row an event is about\<close>

text \<open>The payment \<open>p\<close> is the one the reference finds, and no other row has its identifier.\<close>

definition refers_to :: "SetuWebhookEvent \<Rightarrow> Payment \<Rightarrow> ('v, 's) billpay \<Rightarrow> bool" where
  "refers_to evt p w \<longleftrightarrow> net w = [] \<and> sweSetuPaymentRef evt \<noteq> [] \<and>
     find (\<lambda>x. paySetuPaymentRef x = Some (sweSetuPaymentRef evt)) (payments w) = Some p \<and>
     distinct (map payID (payments w))"

lemma find_update_rows:
  assumes "\<And>x. P (g x) = P x"
  shows "find P (update_rows c g xs) = map_option (\<lambda>x. if c x then g x else x) (find P xs)"
  by (induction xs) (auto simp: assms)

lemma distinct_row: "distinct (map payID ps) \<Longrightarrow> p \<in> set ps \<Longrightarrow> q \<in> set ps \<Longrightarrow> payID q = payID p \<Longrightarrow> q = p"
  by (auto simp: distinct_map inj_on_def)

lemma closed_rows_stay:
  assumes "refers_to evt p w" "\<not> open_payment p"
  shows "update_rows (\<lambda>x. payID x = payID p \<and> open_payment x) g (payments w) = payments w"
  using assms by (intro update_rows_id) (auto simp: refers_to_def dest!: find_in dest: distinct_row)

lemma webhook_finds:
  assumes "refers_to evt p w" "sweStatus evt \<in> {''succeeded'', ''failed''}"
  shows "HandleSetuWebhook sv evt w =
    (if payStatus p = ''succeeded'' \<or> payStatus p = ''refunded'' then ok ()
     else if sweStatus evt = ''succeeded'' then webhook_succeeded evt p
     else webhook_failed sv evt p) w"
  using assms by (auto simp: refers_to_def HandleSetuWebhook_def GetPaymentBySetuRef_def select_payment_def go_simps)

section \<open>Success settles\<close>

text \<open>With distinct identifiers the guarded update writes the row of \<open>p\<close> and no other.\<close>

lemma only_the_row:
  assumes "refers_to evt p w" "open_payment p"
  shows "update_rows (\<lambda>x. payID x = payID p \<and> open_payment x) g (payments w)
    = map (\<lambda>x. if payID x = payID p then g x else x) (payments w)"
proof -
  have "open_payment x" if "x \<in> set (payments w)" "payID x = payID p" for x
    using assms that by (auto simp: refers_to_def dest!: find_in dest: distinct_row)
  then show ?thesis by (auto simp: update_rows_def)
qed

text \<open>C28: the first success Setu reports for an open payment settles it, and this is all it does:
  the row of that payment becomes succeeded with the receipt and the time and every other row stays
  as it is; the bill it pays, if it was waiting, is marked paid at that time by this payment and
  every other bill stays as it is; the success is published once; the wallet, Setu and the rest of
  the state are left alone. After that no event about the payment, success or failure, changes
  anything.\<close>

theorem webhook_success_settles:
  assumes "refers_to evt p w" "open_payment p" "sweStatus evt = ''succeeded''" "sweReceiptNumber evt \<noteq> []"
    and "sweSetuPaymentRef evt2 = sweSetuPaymentRef evt" "sweStatus evt2 \<in> {''succeeded'', ''failed''}"
  shows "\<exists>w'. HandleSetuWebhook sv evt w = (Inr (), w')
     \<and> w' = w\<lparr>payments := map (\<lambda>x. if payID x = payID p
            then x\<lparr>payStatus := ''succeeded'', payReceiptNumber := Some (sweReceiptNumber evt), paySettledAt := Some (clock w)\<rparr>
            else x) (payments w),
          bills := map (\<lambda>b. if payBillID p = Some (bilID b) \<and> bilStatus b = ''fetched''
            then b\<lparr>bilStatus := ''paid'', bilPaidAt := Some (clock w), bilPaymentID := Some (payID p)\<rparr>
            else b) (bills w),
          bp_events := bp_events w @ [PaymentSucceeded (payUserID p) (payID p) (payProviderID p) (payAmountPaise p)
            (sweReceiptNumber evt) (sweSetuPaymentRef evt)]\<rparr>
     \<and> HandleSetuWebhook sv evt2 w' = (Inr (), w')"
proof -
  let ?g = "\<lambda>x. x\<lparr>payStatus := ''succeeded'', payReceiptNumber := Some (sweReceiptNumber evt), paySettledAt := Some (clock w)\<rparr>"
  let ?ps = "map (\<lambda>x. if payID x = payID p then ?g x else x) (payments w)"
  let ?bs = "map (\<lambda>b. if payBillID p = Some (bilID b) \<and> bilStatus b = ''fetched''
        then b\<lparr>bilStatus := ''paid'', bilPaidAt := Some (clock w), bilPaymentID := Some (payID p)\<rparr> else b) (bills w)"
  let ?w = "w\<lparr>payments := ?ps, bills := ?bs, bp_events := bp_events w @ [PaymentSucceeded (payUserID p) (payID p) (payProviderID p) (payAmountPaise p)
          (sweReceiptNumber evt) (sweSetuPaymentRef evt)]\<rparr>"
  have p: "p \<in> set (payments w)" "net w = []" using assms(1) by (auto simp: refers_to_def dest: find_in)
  have st: "payStatus p \<noteq> ''succeeded''" "payStatus p \<noteq> ''refunded''" using assms(2) by (auto simp: open_payment_def)
  have bs: "?bs = bills w" if "payBillID p = None" using that by (auto intro: map_idI)
  have bs': "?bs = update_rows (\<lambda>b. bilID b = i \<and> bilStatus b = ''fetched'')
        (\<lambda>b. b\<lparr>bilStatus := ''paid'', bilPaidAt := Some (clock w), bilPaymentID := Some (payID p)\<rparr>) (bills w)"
    if "payBillID p = Some i" for i
    using that by (auto simp: update_rows_def)
  have run: "HandleSetuWebhook sv evt w = (Inr (), ?w)"
  proof (cases "payBillID p")
    case None
    with assms(3,4) st p(2) show ?thesis
      by (simp add: webhook_finds [OF assms(1)] webhook_succeeded_def MarkPaymentSucceeded_def update_payments_def
          only_the_row [OF assms(1,2)] bp_publish_def emit_def go_simps cong: if_cong)
  next
    case (Some i)
    with assms(3,4) st p(2) show ?thesis
      unfolding bs' [OF Some]
      by (simp add: webhook_finds [OF assms(1)] webhook_succeeded_def MarkPaymentSucceeded_def
          update_payments_def only_the_row [OF assms(1,2)] MarkBillPaid_def bp_publish_def emit_def go_simps cong: if_cong)
  qed
  have found: "find (\<lambda>x. paySetuPaymentRef x = Some (sweSetuPaymentRef evt)) ?ps = Some (?g p)"
    using assms(1) find_update_rows [of "\<lambda>x. paySetuPaymentRef x = Some (sweSetuPaymentRef evt)" ?g "\<lambda>x. payID x = payID p" "payments w"]
    by (simp add: refers_to_def update_rows_def)
  have "map payID ?ps = map payID (payments w)" by simp
  moreover have "distinct (map payID (payments w))" "sweSetuPaymentRef evt \<noteq> []" using assms(1) by (simp_all add: refers_to_def)
  moreover have "net ?w = []" "payments ?w = ?ps" using p(2) by simp_all
  ultimately have "refers_to evt2 (?g p) ?w"
    unfolding refers_to_def assms(5) using found by (simp only: simp_thms)
  from webhook_finds [OF this assms(6)] have "HandleSetuWebhook sv evt2 ?w = (Inr (), ?w)"
    by (simp add: ok_def)
  with run show ?thesis by blast
qed

section \<open>Failure after failure\<close>

text \<open>a failure event is not idempotent. When the row has already failed (because Setu declined
  the submission or reported the failure before) a further failure event refunds the wallet again:
  on wallet-service itself the payer receives the amount once more, while the row stays as it is.\<close>

theorem repeated_failure_pays_out:
  assumes "refers_to evt p w" "sweStatus evt = ''failed''" "payStatus p = ''failed''"
    and "payMethod p = ''wallet''" "payWalletTxnID p = Some (txID t)" "payUserID p = txUserID t"
    and "parses_uuids pu" "bsWallet sv = wallet_http (link_server h cd pu render (whBaseURL c)) c"
      "whInternalKey c = hdInternalKey h" "hdInternalKey h \<noteq> []" "lkNet (wallet_side w) = []"
    and "refundable t b (lkWallet (wallet_side w))" "txID t \<noteq> 0" "0 < payAmountPaise p" "payAmountPaise p \<le> txAmountPaise t"
      "int64 (balAvailablePaise b + payAmountPaise p)"
    and "BankRefund (svBank (hdSvc h)) (case txBankTxnRef t of None \<Rightarrow> [] | Some r \<Rightarrow> r) (payAmountPaise p)
      (bank (lkWallet (wallet_side w))) = (Inr (), bk')"
  shows "\<exists>w'. HandleSetuWebhook sv evt w = (Inr (), w') \<and> payments w' = payments w
     \<and> avail (lkWallet (wallet_side w')) = (avail (lkWallet (wallet_side w)))
         (payUserID p := avail (lkWallet (wallet_side w)) (payUserID p) + payAmountPaise p)"
proof -
  let ?wl = "lkWallet (wallet_side w)" and ?a = "payAmountPaise p"
  obtain x wl' where wl': "Refund (hdSvc h) (txID t) ?a ''billpay_webhook_failed'' ?wl = (Inr x, wl')"
    "avail wl' = (avail ?wl)(payUserID p := avail ?wl (payUserID p) + ?a)"
    using refund_pays [OF assms(12,14,15,16,17), of "''billpay_webhook_failed''"] assms(6) by auto
  from link_refund_up [OF assms(7,11,9,10,13,14) wl'(1), of cd render]
  have refund: "RefundForBillPay (bsWallet sv) (txID t) ?a ''billpay_webhook_failed'' (wallet_side w) =
      (Inr (), (wallet_side w)\<lparr>lkWallet := wl'\<rparr>)"
    by (simp add: assms(8) wallet_http_def)
  have "\<not> open_payment p" using assms(3) by (simp add: open_payment_def)
  note stay = closed_rows_stay [OF assms(1) this]
  have "net w = []" using assms(1) by (simp add: refers_to_def)
  then show ?thesis
    using assms(2-5) refund
    by (simp add: webhook_finds [OF assms(1)] webhook_failed_def MarkPaymentFailed_def update_payments_def stay on_wallet_def
        bp_publish_def emit_def Let_def go_simps wl'(2))
qed

section \<open>Success after failure\<close>

text \<open>a success that arrives after the failure is half believed: the row stays failed, although
  its bill is marked paid by it and the success is published.\<close>

theorem late_success_leaves_row_failed:
  assumes "refers_to evt p w" "sweStatus evt = ''succeeded''" "payStatus p = ''failed''"
    and "payBillID p = Some i" "bill \<in> set (bills w)" "bilID bill = i" "bilStatus bill = ''fetched''"
  shows "\<exists>w'. HandleSetuWebhook sv evt w = (Inr (), w') \<and> payments w' = payments w
     \<and> bill\<lparr>bilStatus := ''paid'', bilPaidAt := Some (clock w), bilPaymentID := Some (payID p)\<rparr> \<in> set (bills w')
     \<and> bp_events w' = bp_events w @ [PaymentSucceeded (payUserID p) (payID p) (payProviderID p) (payAmountPaise p)
          (sweReceiptNumber evt) (sweSetuPaymentRef evt)]"
proof -
  have "\<not> open_payment p" using assms(3) by (simp add: open_payment_def)
  note stay = closed_rows_stay [OF assms(1) this]
  have "net w = []" using assms(1) by (simp add: refers_to_def)
  moreover have "bill\<lparr>bilStatus := ''paid'', bilPaidAt := Some (clock w), bilPaymentID := Some (payID p)\<rparr>
      \<in> set (update_rows (\<lambda>b. bilID b = i \<and> bilStatus b = ''fetched'')
        (\<lambda>b. b\<lparr>bilStatus := ''paid'', bilPaidAt := Some (clock w), bilPaymentID := Some (payID p)\<rparr>) (bills w))"
    unfolding in_update_rows by (rule bexI [OF _ assms(5)]) (simp add: assms(6,7))
  ultimately show ?thesis
    using assms(2,3,4)
    by (simp add: webhook_finds [OF assms(1)] webhook_succeeded_def MarkPaymentSucceeded_def update_payments_def stay
        MarkBillPaid_def bp_publish_def emit_def go_simps)
qed

section \<open>Who may report\<close>

text \<open>C29: nobody without both secrets can make the webhook do anything. Unless the internal key is
  configured and presented, the webhook secret is configured, the signature header is the hex
  HMAC-SHA256 of the raw body under it (case and surrounding white space aside) and the body parses
  as an event, the call is refused with a client error and the whole state is as it was.\<close>

definition signed_event :: "string \<Rightarrow> (string \<times> json option) http_request \<Rightarrow> bool" where
  "signed_event secret rq \<longleftrightarrow> secret \<noteq> [] \<and> (\<exists>body j evt. rqBody rq = Inr (body, Some j) \<and>
     unmarshal_SetuWebhookEvent j = Some evt \<and>
     to_lower (trim_space (GetHeader rq ''X-Setu-Signature'')) = hmac_hex secret body)"

theorem webhook_needs_both_secrets:
  assumes "VerifyWebhookSignature (bsSetu (bhSvc h)) = (\<lambda>sig body. verifyHMACSHA256 sig body secret)"
    and "bhInternalKey h = [] \<or> GetHeader rq internalKeyHeader \<noteq> bhInternalKey h \<or> \<not> signed_event secret rq"
  shows "\<exists>r. bp_RegisterRoutes h pg pu (POST_setu_webhook rq) w = (r, w) \<and> rsStatus r \<in> {400, 401, 404} \<and> rsData r = None"
proof (cases "bhInternalKey h = [] \<or> GetHeader rq internalKeyHeader \<noteq> bhInternalKey h")
  case True
  from internal_group_refuses [OF this, of "SetuWebhook h rq" w] show ?thesis by auto
next
  case False
  with assms(2) have unsigned: "\<not> signed_event secret rq" by blast
  have "\<exists>r. SetuWebhook h rq w = (r, w) \<and> rsStatus r \<in> {400, 401, 404} \<and> rsData r = None"
  proof (cases "rqBody rq")
    case (Inr b)
    obtain body j where b: "rqBody rq = Inr (body, j)" using Inr by (cases b) simp
    show ?thesis
      using unsigned
      by (cases j; cases "Option.bind j unmarshal_SetuWebhookEvent")
        (auto simp: SetuWebhook_def signed_event_def b assms(1) on_setu_def verifyHMACSHA256_def require_def ok_def fail_def
          Let_def ErrorWithContext_def)
  qed (simp add: SetuWebhook_def ErrorWithContext_def)
  with False show ?thesis by (simp add: internal_group_def RequireInternalKey_def)
qed

section \<open>Events about the shop's payment\<close>

text \<open>The row of \<open>demo_order\<close> in a status, with reference and wallet transaction.\<close>

definition demo_row :: "string \<Rightarrow> uuid option \<Rightarrow> Payment" where
  "demo_row status bill = (paid_row 7 demo_order (demo_provider ''bescom'') (Some 100) 201 1000)\<lparr>payStatus := status,
     paySetuPaymentRef := Some ''ref-1'', payBillID := bill\<rparr>"

definition demo_bill :: Bill where
  "demo_bill = \<lparr>bilID = 13, bilAccountID = 12, bilAmountPaise = 300, bilPeriodStart = None, bilPeriodEnd = None,
     bilDueDate = None, bilNumber = None, bilCustomerName = None, bilSetuBillRef = None, bilStatus = ''fetched'',
     bilFetchedAt = 0, bilPaidAt = None, bilPaymentID = None\<rparr>"

definition demo_at :: "Payment \<Rightarrow> 'v \<Rightarrow> ('v, SetuMock) billpay" where
  "demo_at p v = (demo_shop ''bescom'' v)\<lparr>payments := [p], bills := [demo_bill]\<rparr>"

definition demo_event :: "string \<Rightarrow> SetuWebhookEvent" where
  "demo_event status = \<lparr>sweSetuPaymentRef = ''ref-1'', sweStatus = status, sweReceiptNumber = ''RRN1'', sweFailureReason = []\<rparr>"

lemma demo_row_simps [simp]:
  "payID (demo_row st b) = 201" "payStatus (demo_row st b) = st" "paySetuPaymentRef (demo_row st b) = Some ''ref-1''"
  "payBillID (demo_row st b) = b" "payMethod (demo_row st b) = ''wallet''" "payWalletTxnID (demo_row st b) = Some 100"
  "payUserID (demo_row st b) = 7" "payAmountPaise (demo_row st b) = 300"
  by (simp_all add: demo_row_def paid_row_def payment_of_input_def pay_input_def demo_order_def)

lemma demo_refers: "refers_to (demo_event st) (demo_row st' b) (demo_at (demo_row st' b) v)"
  by (simp add: refers_to_def demo_event_def demo_at_def demo_shop_def)

lemma demo_event_simps [simp]:
  "sweStatus (demo_event st) = st" "sweSetuPaymentRef (demo_event st) = ''ref-1''" "sweReceiptNumber (demo_event st) = ''RRN1''"
  "wallet_side (demo_at p v) = v" "payments (demo_at p v) = [p]" "bills (demo_at p v) = [demo_bill]"
  by (simp_all add: demo_event_def demo_at_def demo_shop_def)

theorem webhook_success_settles_witness:
  "\<exists>w'. HandleSetuWebhook (demo_billpay wallet_mock) (demo_event ''succeeded'')
      (demo_at (demo_row ''submitted'' (Some 13)) (NewWalletMock 50)) = (Inr (), w')
     \<and> payments w' = [(demo_row ''submitted'' (Some 13))
          \<lparr>payStatus := ''succeeded'', payReceiptNumber := Some ''RRN1'', paySettledAt := Some 1000\<rparr>]
     \<and> bills w' = [demo_bill\<lparr>bilStatus := ''paid'', bilPaidAt := Some 1000, bilPaymentID := Some 201\<rparr>]
     \<and> HandleSetuWebhook (demo_billpay wallet_mock) (demo_event ''failed'') w' = (Inr (), w')"
proof -
  have open_row: "open_payment (demo_row ''submitted'' (Some 13))" by (simp add: open_payment_def)
  have "clock (demo_at p v) = 1000" for p and v :: WalletMock by (simp add: demo_at_def demo_shop_def)
  with webhook_success_settles [OF demo_refers [of "''succeeded''" _ _ "NewWalletMock 50"] open_row, of "demo_event ''failed''" "demo_billpay wallet_mock"]
  show ?thesis by (auto simp: demo_bill_def)
qed

theorem repeated_failure_pays_out_witness:
  "\<forall>cd. \<exists>w'. HandleSetuWebhook (demo_linked cd) (demo_event ''failed'')
       (demo_at (demo_row ''failed'' None) (demo_link\<lparr>lkWallet := demo_declined_wallet\<rparr>)) = (Inr (), w')
     \<and> avail demo_declined_wallet 7 = 5000 \<and> avail (lkWallet (wallet_side w')) 7 = 5300"
proof
  fix cd
  let ?l = "demo_link\<lparr>lkWallet := demo_declined_wallet\<rparr>"
  obtain t b where t: "txID t = 100" "txAmountPaise t = 300" "txUserID t = 7" "refundable t b demo_declined_wallet" "balAvailablePaise b = 5000"
    "(case txBankTxnRef t of None \<Rightarrow> [] | Some r \<Rightarrow> r) \<noteq> ''fail-refund''"
  proof -
    obtain t b where "debit_recorded ''k1:wallet'' 7 t demo_declined_wallet" "txID t = 100" "txAmountPaise t = 300" "txStatus t = ''succeeded''"
      "find (\<lambda>x. txID x = 100) (transactions demo_declined_wallet) = Some t" "(case txBankTxnRef t of None \<Rightarrow> [] | Some r \<Rightarrow> r) \<noteq> ''fail-refund''"
      "balances demo_declined_wallet 7 = Some b" "balAvailablePaise b = 5000"
      using demo_declined_wallet_facts(1,6) by blast
    then show ?thesis
      by (intro that [of t b]) (simp_all add: debit_recorded_def refundable_def demo_declined_wallet_facts)
  qed
  obtain bk' where bank: "BankRefund (svBank (hdSvc demo_handler)) (case txBankTxnRef t of None \<Rightarrow> [] | Some r \<Rightarrow> r) 300
      (bank demo_declined_wallet) = (Inr (), bk')"
    using t(6) by (simp add: demo_handler_def go_eval)
  have key: "whInternalKey demo_wallet_client = hdInternalKey demo_handler" "hdInternalKey demo_handler \<noteq> []" "lkNet ?l = []"
    by (simp_all add: demo_wallet_client_def NewWalletHTTP_def demo_handler_def demo_link_def)
  show "\<exists>w'. HandleSetuWebhook (demo_linked cd) (demo_event ''failed'') (demo_at (demo_row ''failed'' None) ?l) = (Inr (), w')
     \<and> avail demo_declined_wallet 7 = 5000 \<and> avail (lkWallet (wallet_side w')) 7 = 5300"
    using repeated_failure_pays_out [OF demo_refers [of "''failed''" "''failed''" None ?l] _ _ _ _ _ canonical_uuid_parses _ key(1,2) _ _ _ _ _ _ _,
        of t "demo_linked cd" cd "\<lambda>_. []" b bk'] t bank key(3)
    by (simp add: demo_linked_def demo_declined_wallet_facts(3) int64_def) (auto simp: demo_linked_def)
qed

theorem late_success_leaves_row_failed_witness:
  "\<exists>w'. HandleSetuWebhook (demo_billpay wallet_mock) (demo_event ''succeeded'')
      (demo_at (demo_row ''failed'' (Some 13)) (NewWalletMock 50)) = (Inr (), w')
     \<and> payments w' = [demo_row ''failed'' (Some 13)] \<and> (\<exists>bill \<in> set (bills w'). bilStatus bill = ''paid'')"
proof -
  have "bilID demo_bill = 13" "bilStatus demo_bill = ''fetched''" "demo_bill \<in> set (bills (demo_at (demo_row ''failed'' (Some 13)) (NewWalletMock 50)))"
    by (simp_all add: demo_bill_def demo_at_def)
  from late_success_leaves_row_failed [OF demo_refers _ _ _ this(3,1,2), of "''succeeded''" "demo_billpay wallet_mock"]
  obtain w' where "HandleSetuWebhook (demo_billpay wallet_mock) (demo_event ''succeeded'')
      (demo_at (demo_row ''failed'' (Some 13)) (NewWalletMock 50)) = (Inr (), w')" "payments w' = [demo_row ''failed'' (Some 13)]"
    "demo_bill\<lparr>bilStatus := ''paid'', bilPaidAt := Some 1000, bilPaymentID := Some 201\<rparr> \<in> set (bills w')"
    by (auto simp: demo_at_def demo_shop_def)
  then show ?thesis by force
qed

definition demo_setu_server :: "SetuMock server" where
  "demo_setu_server = \<lparr>srvBuild = (\<lambda>_. None), srvServe = (\<lambda>rq p. (Unreachable ''down'', p))\<rparr>"

definition demo_webhook_handler :: "(WalletMock, SetuMock) BillpayHandler" where
  "demo_webhook_handler = \<lparr>bhSvc = bp_New (setu_http demo_setu_server (NewSetuHTTP [] [] [] ''s3'')) wallet_mock
     \<lparr>DefaultMobileCircle = []\<rparr>, bhInternalKey = ''secret''\<rparr>"

text \<open>The internal key is presented, but nothing is signed with a configured secret.\<close>

definition demo_unsigned :: "(string \<times> json option) http_request" where
  "demo_unsigned = \<lparr>rqHeaders = (\<lambda>k. if k = to_lower internalKeyHeader then ''secret'' else []), rqParam = (\<lambda>_. []),
     rqQuery = (\<lambda>_. []), rqBody = Inr (''{}'', None)\<rparr>"

theorem webhook_needs_both_secrets_witness:
  "GetHeader demo_unsigned internalKeyHeader = bhInternalKey demo_webhook_handler \<and>
     (\<forall>pg pu. \<exists>r. bp_RegisterRoutes demo_webhook_handler pg pu (POST_setu_webhook demo_unsigned)
        (demo_shop ''bescom'' ((NewWalletMock 50))) = (r, demo_shop ''bescom'' (NewWalletMock 50)) \<and> rsStatus r \<in> {400, 401, 404})"
proof -
  have "VerifyWebhookSignature (bsSetu (bhSvc demo_webhook_handler)) = (\<lambda>sig body. verifyHMACSHA256 sig body ''s3'')"
    by (simp add: demo_webhook_handler_def bp_New_def setu_http_def NewSetuHTTP_def)
  moreover have "\<not> signed_event ''s3'' demo_unsigned" by (simp add: signed_event_def demo_unsigned_def)
  moreover have "GetHeader demo_unsigned internalKeyHeader = bhInternalKey demo_webhook_handler"
    by (simp add: GetHeader_def demo_unsigned_def demo_webhook_handler_def)
  ultimately show ?thesis using webhook_needs_both_secrets by blast
qed

end
