(* ===== verification/Billpay_Jobs.thy ===== *)
theory Billpay_Jobs
  imports Billpay_Behaviour
begin

text \<open>
  The cron jobs and the small functions around a payment: the scheduler counts every due schedule
  and does not pay twice on a day, reminders go out once a day, masked identifiers, the dates of
  schedules on their way through text, and the replacement of cached plans.
\<close>

section \<open>The scheduler\<close>

lemma scheduled_one_counts:
  "\<exists>e' f' w'. run_scheduled_one sv today sp (e, f) w = (Inr (e', f'), w') \<and> e' + f' = Suc (e + f)"
  by (auto simp: run_scheduled_one_def attempt_def failScheduled_def bp_publish_def logged_def andThen_def ok_def
      split: prod.split sum.split)

lemma scheduled_all_count:
  "\<exists>e' f' w'. for_each due (run_scheduled_one sv today) (e, f) w = (Inr (e', f'), w') \<and> e' + f' = e + f + length due"
proof (induction due arbitrary: e f w)
  case (Cons sp due)
  obtain e1 f1 w1 where "run_scheduled_one sv today sp (e, f) w = (Inr (e1, f1), w1)" "e1 + f1 = Suc (e + f)"
    using scheduled_one_counts by blast
  moreover obtain e2 f2 w2 where "for_each due (run_scheduled_one sv today) (e1, f1) w1 = (Inr (e2, f2), w2)"
    "e2 + f2 = e1 + f1 + length due"
    using Cons.IH by blast
  ultimately show ?case by (simp add: andThen_def)
qed (simp add: ok_def)

text \<open>C32: a run of the scheduler that gets its list always comes to an end and accounts for every
  entry of it, whatever the network, Setu and the wallet do afterwards: executed and failed add up to
  the number of schedules that were due, at most 500.\<close>

theorem scheduler_accounts_for_all:
  assumes "net w = Up # ns"
  shows "\<exists>executed failed w'. RunScheduledCron sv today w = (Inr (executed, failed), w')
     \<and> executed + failed = length (due_scheduled (date_of today) (scheduled w)) \<and> executed + failed \<le> 500"
proof -
  let ?due = "due_scheduled (date_of today) (scheduled w)"
  obtain e f w' where "for_each ?due (run_scheduled_one sv today) (0, 0) (w\<lparr>net := ns\<rparr>) = (Inr (e, f), w')" "e + f = length ?due"
    using scheduled_all_count [of ?due sv today 0 0 "w\<lparr>net := ns\<rparr>"] by auto
  moreover have "length ?due \<le> 500" by (simp add: due_scheduled_def)
  ultimately show ?thesis
    using assms by (simp add: RunScheduledCron_def ListDueScheduled_def go_simps db_call_def)
qed

definition demo_schedule :: ScheduledPayment where
  "demo_schedule = \<lparr>schID = 14, schUserID = 7, schAccountID = 12, schAmountPaise = Some 300, schPaymentMethod = ''wallet'',
     schKind = ''monthly'', schNextRunDate = 0, schLastRunAt = None, schIsActive = True, schCreatedAt = 0\<rparr>"

theorem scheduler_accounts_for_all_witness:
  "\<exists>executed failed w'. RunScheduledCron (demo_billpay wallet_mock) 5
     ((demo_shop ''bescom'' (NewWalletMock 50))\<lparr>net := [Up, Refused ''gone''], scheduled := [demo_schedule]\<rparr>) = (Inr (executed, failed), w')
     \<and> executed + failed = 1"
proof -
  let ?w = "(demo_shop ''bescom'' (NewWalletMock 50))\<lparr>net := [Up, Refused ''gone''], scheduled := [demo_schedule]\<rparr>"
  have "length (due_scheduled (date_of 5) (scheduled ?w)) = 1"
    by (simp add: due_scheduled_def demo_schedule_def date_of_def day_us_def)
  with scheduler_accounts_for_all [of ?w "[Refused ''gone'']" "demo_billpay wallet_mock" 5] show ?thesis by auto
qed

text \<open>the scheduler does not pay twice on one day. When the payment of a schedule is already
  recorded under the key of the day, running the schedule again counts it as executed but touches
  neither the payments nor the wallet nor Setu.\<close>

theorem scheduler_rerun_is_free:
  assumes "net w = []" "find (\<lambda>a. accID a = schAccountID sp) (accounts w) = Some acc"
    and "find (\<lambda>p. prvID p = accProviderID acc) (providers w) = Some prov"
    and "schAmountPaise sp = Some a" "0 < a" "accUserID acc \<noteq> 0" "prvID prov \<noteq> 0" "accIdentifier acc \<noteq> []"
    and "schPaymentMethod sp \<in> set pay_methods"
    and "pay_keys w (scheduledIdempotencyKey (schID sp) today) = Some r" "pidUserID r = accUserID acc"
      "clock w < pidExpiresAt r" "pidResponseBody r = Some (marshal_PayResult res)"
  shows "\<exists>w'. run_scheduled_one sv today sp (executed, failed) w = (Inr (Suc executed, failed), w')
     \<and> payments w' = payments w \<and> wallet_side w' = wallet_side w \<and> setu_side w' = setu_side w"
proof -
  have "scheduledIdempotencyKey (schID sp) today \<noteq> []" by (simp add: scheduledIdempotencyKey_def)
  then show ?thesis
    using assms
    by (simp add: run_scheduled_one_def scheduled_pay_def scheduled_amount_def GetAccountByID_def select_account_def
        store_GetProvider_def Pay_def FindPayKey_def pay_replay_def AdvanceScheduled_def bp_publish_def emit_def go_simps)
qed

theorem scheduler_rerun_is_free_witness:
  "\<exists>res w'. run_scheduled_one (demo_billpay wallet_mock) 5 demo_schedule (0, 0)
     ((demo_shop ''bescom'' (NewWalletMock 50))\<lparr>pay_keys := [scheduledIdempotencyKey 14 5 \<mapsto> \<lparr>pidKey = [], pidUserID = 7,
        pidPaymentID = Some 201, pidResponseBody = Some (marshal_PayResult res), pidCreatedAt = 0, pidExpiresAt = 2000\<rparr>]\<rparr>)
     = (Inr (1, 0), w') \<and> payments w' = [] \<and> wmDebits (wallet_side w') = []"
proof -
  let ?res = "\<lparr>presPaymentID = 201, presStatus = ''submitted'', presAmountPaise = 300, presSetuPaymentRef = [], presReceiptNumber = []\<rparr>"
  let ?r = "\<lparr>pidKey = [], pidUserID = 7, pidPaymentID = Some 201, pidResponseBody = Some (marshal_PayResult ?res), pidCreatedAt = 0, pidExpiresAt = 2000\<rparr>"
  let ?w = "(demo_shop ''bescom'' (NewWalletMock 50))\<lparr>pay_keys := [scheduledIdempotencyKey 14 5 \<mapsto> ?r]\<rparr>"
  have "net ?w = []" "find (\<lambda>a. accID a = schAccountID demo_schedule) (accounts ?w) = Some demo_account"
    "find (\<lambda>p. prvID p = accProviderID demo_account) (providers ?w) = Some (demo_provider ''bescom'')"
    "schAmountPaise demo_schedule = Some 300" "(0::int) < 300" "accUserID demo_account \<noteq> 0" "prvID (demo_provider ''bescom'') \<noteq> 0"
    "accIdentifier demo_account \<noteq> []" "schPaymentMethod demo_schedule \<in> set pay_methods"
    "pay_keys ?w (scheduledIdempotencyKey (schID demo_schedule) 5) = Some ?r" "pidUserID ?r = accUserID demo_account"
    "clock ?w < pidExpiresAt ?r" "pidResponseBody ?r = Some (marshal_PayResult ?res)"
    by (simp_all add: demo_shop_def demo_account_def demo_provider_def demo_schedule_def pay_methods_def)
  from scheduler_rerun_is_free [OF this, of "demo_billpay wallet_mock" 0 0] show ?thesis
    by (intro exI [of _ ?res]) (auto simp: NewWalletMock_def)
qed

section \<open>The reminders\<close>

definition reminder_event :: "DueReminderRow \<Rightarrow> billpay_event" where
  "reminder_event r = BillDueSoon (drrUserID r) (drrAccountID r) (drrBillID r) (formatDate (drrBillDueDate r))
     (drrBillAmount r) (drrChannels r)"

definition mark_sent :: "uuid set \<Rightarrow> int \<Rightarrow> Reminder list \<Rightarrow> Reminder list" where
  "mark_sent ids c = update_rows (\<lambda>r. remID r \<in> ids) (\<lambda>r. r\<lparr>remLastSentAt := Some c\<rparr>)"

lemma mark_sent_step:
  "mark_sent ids c (update_rows (\<lambda>r. remID r = i) (\<lambda>r. r\<lparr>remLastSentAt := Some c\<rparr>) rs) = mark_sent (insert i ids) c rs"
  by (simp add: mark_sent_def update_rows_def comp_def)

lemma mark_sent_none [simp]: "mark_sent {} c rs = rs"
  by (simp add: mark_sent_def update_rows_def)

lemma remind_all:
  "net w = [] \<Longrightarrow> for_each due remind_one n w = (Inr (n + length due),
     w\<lparr>reminders := mark_sent (drrReminderID ` set due) (clock w) (reminders w), bp_events := bp_events w @ map reminder_event due\<rparr>)"
proof (induction due arbitrary: n w)
  case (Cons r due)
  let ?w = "w\<lparr>reminders := update_rows (\<lambda>x. remID x = drrReminderID r) (\<lambda>x. x\<lparr>remLastSentAt := Some (clock w)\<rparr>) (reminders w),
      bp_events := bp_events w @ [reminder_event r]\<rparr>"
  have "remind_one r n w = (Inr (Suc n), ?w)"
    using Cons.prems by (simp add: remind_one_def emit_def MarkReminderSent_def reminder_event_def go_simps)
  moreover have "net ?w = []" using Cons.prems by simp
  ultimately show ?case
    using Cons.IH [of ?w "Suc n"] by (simp add: andThen_def mark_sent_step)
qed (simp add: ok_def)

lemma due_rowD: "due_row today w r = Some d \<Longrightarrow> drrReminderID d = remID r"
  by (auto simp: due_row_def Option.bind_eq_Some_conv split: if_splits)

text \<open>reminders go out once a day. On a quiet network a run publishes one event for each due
  reminder and reports their number; a second run on the same day publishes nothing and changes
  nothing.\<close>

theorem reminders_once_a_day:
  assumes "net w = []" "date_of today \<le> date_of (clock w)"
  shows "\<exists>w'. RunReminderCron today w = (Inr (length (List.map_filter (due_row (date_of today) w) (reminders w))), w')
     \<and> bp_events w' = bp_events w @ map reminder_event (List.map_filter (due_row (date_of today) w) (reminders w))
     \<and> RunReminderCron today w' = (Inr 0, w')"
proof -
  let ?due = "List.map_filter (due_row (date_of today) w) (reminders w)"
  let ?w = "w\<lparr>reminders := mark_sent (drrReminderID ` set ?due) (clock w) (reminders w), bp_events := bp_events w @ map reminder_event ?due\<rparr>"
  have run: "RunReminderCron today w = (Inr (length ?due), ?w)"
    using remind_all [OF assms(1), of ?due 0] assms(1) by (simp add: RunReminderCron_def ListDueReminders_def go_simps)
  have same: "due_row (date_of today) ?w r = due_row (date_of today) w r" for r
    by (simp add: due_row_def)
  have "due_row (date_of today) ?w r = None" if "r \<in> set (reminders ?w)" for r
  proof -
    from that obtain r0 where r0: "r0 \<in> set (reminders w)"
      and r: "r = (if remID r0 \<in> drrReminderID ` set ?due then r0\<lparr>remLastSentAt := Some (clock w)\<rparr> else r0)"
      by (auto simp: mark_sent_def in_update_rows)
    show ?thesis
    proof (cases "remID r0 \<in> drrReminderID ` set ?due")
      case True
      with r have "remLastSentAt r = Some (clock w)" by simp
      with assms(2) show ?thesis
        unfolding same by (auto simp: due_row_def Option.bind_eq_None_conv split: option.splits)
    next
      case False
      have "due_row (date_of today) w r0 = None"
      proof (rule ccontr)
        assume "due_row (date_of today) w r0 \<noteq> None"
        then obtain d where d: "due_row (date_of today) w r0 = Some d" by blast
        then have "d \<in> set ?due" using r0 by (force simp: List.map_filter_def)
        with due_rowD [OF d] False show False by force
      qed
      with False r show ?thesis by (simp add: same)
    qed
  qed
  then have none: "List.map_filter (due_row (date_of today) ?w) (reminders ?w) = []"
    by (auto simp: List.map_filter_def filter_empty_conv)
  have "RunReminderCron today ?w = (Inr 0, ?w)"
    using assms(1) none by (simp add: RunReminderCron_def ListDueReminders_def go_simps)
  with run show ?thesis by simp
qed

definition demo_reminded :: "(WalletMock, SetuMock) billpay" where
  "demo_reminded = (demo_shop ''bescom'' (NewWalletMock 50))\<lparr>clock := 2 * day_us + 5,
     bills := [\<lparr>bilID = 13, bilAccountID = 12, bilAmountPaise = 300, bilPeriodStart = None, bilPeriodEnd = None,
       bilDueDate = Some 4, bilNumber = None, bilCustomerName = None, bilSetuBillRef = None, bilStatus = ''fetched'',
       bilFetchedAt = 0, bilPaidAt = None, bilPaymentID = None\<rparr>],
     reminders := [\<lparr>remID = 15, remAccountID = 12, remUserID = 7, remDaysBeforeDue = 3, remChannels = [''push''],
       remIsActive = True, remLastSentAt = Some 0, remCreatedAt = 0\<rparr>]\<rparr>"

theorem reminders_once_a_day_witness:
  "\<exists>w'. RunReminderCron (2 * day_us) demo_reminded = (Inr 1, w') \<and> length (bp_events w') = 1
     \<and> RunReminderCron (2 * day_us) w' = (Inr 0, w')"
proof -
  have "net demo_reminded = []" "date_of (2 * day_us) \<le> date_of (clock demo_reminded)"
    by (simp_all add: demo_reminded_def demo_shop_def date_of_def day_us_def)
  moreover have "length (List.map_filter (due_row (date_of (2 * day_us)) demo_reminded) (reminders demo_reminded)) = 1"
    by (simp add: demo_reminded_def demo_shop_def demo_account_def demo_provider_def due_row_def latest_bill_def date_of_def day_us_def
        List.map_filter_def)
  moreover have "bp_events demo_reminded = []" by (simp add: demo_reminded_def)
  ultimately show ?thesis using reminders_once_a_day [of demo_reminded "2 * day_us"] by auto
qed

section \<open>Masked identifiers\<close>

text \<open>\<^verbatim>\<open>MaskIdentifier\<close> is what its name says: an identifier of more than four characters is
  shown as its last four behind as many crosses as there are characters before them, and a shorter
  one is not shown at all.\<close>

theorem mask_shows_last_four:
  "MaskIdentifier s = (if length s \<le> 4 then ''XXXX''
     else replicate (length s - 4) (CHR ''X'') @ drop (length s - 4) s)"
  by (rule nth_equalityI) (auto simp: MaskIdentifier_def nth_append)

section \<open>Dates of schedules\<close>

text \<open>the date a schedule is created with survives the way through the text of the request: it
  is the date of the stored row, so that the day's run finds the schedule and no earlier run does.\<close>

theorem schedule_date_roundtrip:
  assumes "net w = []" "u \<noteq> 0" "acc \<noteq> 0" "find (live_account u acc) (accounts w) = Some a"
    and "csrAccountID req = acc" "csrScheduleKind req \<in> {''one_off'', ''monthly''}" "csrPaymentMethod req \<in> {''wallet'', ''upi''}"
    and "csrNextRunDate req = formatDate d" "0 \<le> year_of d" "year_of d \<le> 9999" "d \<noteq> zero_date"
    and "idgen w (idctr w) \<notin> schID ` set (scheduled w)" "length (scheduled w) < 500"
  shows "\<exists>s w'. CreateScheduled u req w = (Inr s, w') \<and> formatDate (schNextRunDate s) = csrNextRunDate req
     \<and> s \<in> set (due_scheduled d (scheduled w')) \<and> (\<forall>day < d. s \<notin> set (due_scheduled day (scheduled w')))"
proof -
  let ?s = "scheduled_of_input \<lparr>csiUserID = u, csiAccountID = acc, csiAmountPaise = csrAmountPaise req,
      csiPaymentMethod = csrPaymentMethod req, csiScheduleKind = csrScheduleKind req, csiNextRunDate = d\<rparr> (idgen w (idctr w)) (clock w)"
  have "acc \<in> accID ` set (accounts w)"
    using assms(4) by (auto simp: live_account_def dest!: find_in)
  then have run: "CreateScheduled u req w = (Inr ?s, w\<lparr>idctr := Suc (idctr w), scheduled := scheduled w @ [?s]\<rparr>)"
    using assms(1-8,11,12)
    by (simp add: CreateScheduled_def store_GetAccount_def select_account_def parse_format_date [OF assms(9,10)]
        store_CreateScheduled_def gen_random_uuid_def Let_def go_simps)
  have due: "s \<in> set (due_scheduled day (scheduled w @ [s])) \<longleftrightarrow> schNextRunDate s \<le> day \<and> schIsActive s" for s day
  proof -
    have "length (filter P (scheduled w @ [s])) \<le> 500" for P
      using assms(13) length_filter_le [of P "scheduled w @ [s]"] by simp
    then have "due_scheduled day (scheduled w @ [s]) = sort_key schNextRunDate (filter (\<lambda>s. schIsActive s \<and> schNextRunDate s \<le> day) (scheduled w @ [s]))"
      unfolding due_scheduled_def by (intro take_all) (simp only: length_sort)
    then show ?thesis by (simp only: set_sort set_filter) auto
  qed
  have s: "schNextRunDate ?s = d" "schIsActive ?s" by (simp_all add: scheduled_of_input_def)
  have sch: "scheduled (w\<lparr>idctr := Suc (idctr w), scheduled := scheduled w @ [?s]\<rparr>) = scheduled w @ [?s]" by simp
  show ?thesis
    by (rule exI, rule exI, rule conjI, rule run, unfold sch due s(1) assms(8)) (simp add: s(2))
qed

theorem schedule_date_roundtrip_witness:
  "\<exists>s w'. CreateScheduled 7 \<lparr>csrAccountID = 12, csrAmountPaise = None, csrPaymentMethod = ''upi'', csrScheduleKind = ''monthly'',
       csrNextRunDate = formatDate 19000\<rparr> (demo_shop ''bescom'' (NewWalletMock 50)) = (Inr s, w')
     \<and> formatDate (schNextRunDate s) = formatDate 19000 \<and> s \<in> set (due_scheduled 19000 (scheduled w'))"
proof -
  let ?w = "demo_shop ''bescom'' (NewWalletMock 50)"
  let ?req = "\<lparr>csrAccountID = 12, csrAmountPaise = None, csrPaymentMethod = ''upi'', csrScheduleKind = ''monthly'', csrNextRunDate = formatDate 19000\<rparr>"
  have y: "year_of 19000 = 2022" by (rule year_of_unique) (simp_all add: days_before_year_def epoch_day_def leap_def)
  have "net ?w = []" "(7::uuid) \<noteq> 0" "(12::uuid) \<noteq> 0" "find (live_account 7 12) (accounts ?w) = Some demo_account"
    "csrAccountID ?req = 12" "csrScheduleKind ?req \<in> {''one_off'', ''monthly''}" "csrPaymentMethod ?req \<in> {''wallet'', ''upi''}"
    "csrNextRunDate ?req = formatDate 19000" "0 \<le> year_of 19000" "year_of 19000 \<le> 9999" "(19000::int) \<noteq> zero_date"
    "idgen ?w (idctr ?w) \<notin> schID ` set (scheduled ?w)" "length (scheduled ?w) < 500"
    by (simp_all add: y demo_shop_def demo_account_def live_account_def zero_date_def day_number_def days_before_year_def days_before_month_def epoch_day_def)
  from schedule_date_roundtrip [OF this] show ?thesis by auto
qed

section \<open>Plans\<close>

text \<open>The rows made from the inputs that have a price.\<close>

definition plan_rows :: "string \<Rightarrow> string \<Rightarrow> int \<Rightarrow> UpsertMobilePlanInput list \<Rightarrow> MobilePlan list \<Rightarrow> bool" where
  "plan_rows operator circle c plans rows \<longleftrightarrow>
     list_all2 (\<lambda>p r. \<exists>i. r = plan_of_input operator circle p i c) (filter (\<lambda>p. 0 < umiPlanAmountPaise p) plans) rows"

definition other_plans :: "string \<Rightarrow> string \<Rightarrow> MobilePlan list \<Rightarrow> MobilePlan list" where
  "other_plans operator circle = filter (\<lambda>p. \<not> (mplOperator p = operator \<and> mplCircle p = circle))"

lemma triple_insert_plan:
  "triple (\<lambda>w. clock w = c \<and> mobile_plans w = ms) (sql_insert_plan operator circle p)
     (\<lambda>_ w. clock w = c \<and> (\<exists>i. mobile_plans w = ms @ [plan_of_input operator circle p i c])) (\<lambda>_ _. True)"
  unfolding sql_insert_plan_def
  by (rule triple_db_call [where E = "\<lambda>_ _. True"])
    (auto simp: env_free_def triple_def gen_random_uuid_def go_simps)

definition insert_plans :: "string \<Rightarrow> string \<Rightarrow> string \<Rightarrow> UpsertMobilePlanInput list \<Rightarrow> (('v, 's) billpay, unit) io" where
  "insert_plans lbl operator circle plans = for_each plans (\<lambda>p _. if umiPlanAmountPaise p \<le> 0 then ok ()
     else wrapErr lbl (sql_insert_plan operator circle p)) ()"

lemma plan_rows_append:
  "plan_rows operator circle c [p] rows \<Longrightarrow> plan_rows operator circle c plans rows' \<Longrightarrow>
     plan_rows operator circle c (p # plans) (rows @ rows')"
  using list_all2_appendI [of _ "filter (\<lambda>p. 0 < umiPlanAmountPaise p) [p]" rows "filter (\<lambda>p. 0 < umiPlanAmountPaise p) plans" rows']
  by (simp only: plan_rows_def filter_append [symmetric] append_Cons append_Nil)

lemma triple_insert_plans:
  "triple (\<lambda>w. clock w = c \<and> mobile_plans w = ms)
     (insert_plans lbl operator circle plans :: (('v, 's) billpay, unit) io)
     (\<lambda>_ w. clock w = c \<and> (\<exists>rows. mobile_plans w = ms @ rows \<and> plan_rows operator circle c plans rows)) (\<lambda>_ _. True)"
proof (induction plans arbitrary: ms)
  case Nil
  then show ?case by (simp add: insert_plans_def triple_def ok_def plan_rows_def)
next
  case (Cons p plans)
  let ?step = "(if umiPlanAmountPaise p \<le> 0 then ok () else wrapErr lbl (sql_insert_plan operator circle p)) :: (('v, 's) billpay, unit) io"
  let ?R = "\<lambda>_ w. clock w = c \<and> (\<exists>rows. mobile_plans w = ms @ rows \<and> plan_rows operator circle c [p] rows)"
  have step: "triple (\<lambda>w. clock w = c \<and> mobile_plans w = ms) ?step ?R (\<lambda>_ _. True)"
  proof (cases "umiPlanAmountPaise p \<le> 0")
    case True
    then show ?thesis by (simp add: triple_def ok_def plan_rows_def)
  next
    case False
    have "triple (\<lambda>w. clock w = c \<and> mobile_plans w = ms) (wrapErr lbl (sql_insert_plan operator circle p) :: (('v, 's) billpay, unit) io) ?R (\<lambda>_ _. True)"
      by (rule triple_wrapErr, rule triple_conseq [OF triple_insert_plan]) (use False in \<open>auto simp: plan_rows_def\<close>)
    with False show ?thesis by simp
  qed
  have rest: "triple (?R x) (insert_plans lbl operator circle plans :: (('v, 's) billpay, unit) io)
     (\<lambda>_ w. clock w = c \<and> (\<exists>rows. mobile_plans w = ms @ rows \<and> plan_rows operator circle c (p # plans) rows)) (\<lambda>_ _. True)" for x :: unit
  proof (rule tripleI)
    fix w :: "('v, 's) billpay" and r w' assume w: "?R x w" and run: "insert_plans lbl operator circle plans w = (Inr r, w')"
    then obtain rows where rows: "mobile_plans w = ms @ rows" "plan_rows operator circle c [p] rows" "clock w = c" by blast
    from tripleD_ok [OF Cons.IH [of "ms @ rows"] _ run] rows obtain rows' where
      "clock w' = c" "mobile_plans w' = (ms @ rows) @ rows'" "plan_rows operator circle c plans rows'" by blast
    with rows show "clock w' = c \<and> (\<exists>rows. mobile_plans w' = ms @ rows \<and> plan_rows operator circle c (p # plans) rows)"
      by (intro conjI exI [of _ "rows @ rows'"]) (auto intro: plan_rows_append)
  qed simp
  show ?case
    unfolding insert_plans_def for_each.simps
    by (rule triple_andThen [OF step]) (case_tac x, simp only: rest [unfolded insert_plans_def])
qed

text \<open>the plans of an operator and circle are replaced as a whole or not at all, whatever
  statement fails or loses its reply: either every plan row is what it was, and the caller has an
  error; or the old rows of the operator and circle are gone, those of others are untouched and
  every plan with a price has its row.\<close>

theorem plans_replaced_atomically:
  "case ReplaceMobilePlans operator circle plans w of (r, w') \<Rightarrow>
    (isl r \<and> mobile_plans w' = mobile_plans w) \<or>
    (\<exists>rows. mobile_plans w' = other_plans operator circle (mobile_plans w) @ rows \<and> plan_rows operator circle (clock w) plans rows)"
proof -
  obtain r w' where run: "ReplaceMobilePlans operator circle plans w = (r, w')" by force
  let ?P = "\<lambda>v. clock v = clock w \<and> mobile_plans v = mobile_plans w"
  let ?D = "\<lambda>v. clock v = clock w \<and> mobile_plans v = other_plans operator circle (mobile_plans w)"
  let ?Q = "\<lambda>v. clock v = clock w \<and> (\<exists>rows. mobile_plans v = other_plans operator circle (mobile_plans w) @ rows \<and> plan_rows operator circle (clock w) plans rows)"
  let ?E = "\<lambda>v. ?P v \<or> ?Q v"
  have del: "triple ?P (wrapErr ''delete old plans'' (db_call (modify (\<lambda>w.
          w\<lparr>mobile_plans := filter (\<lambda>p. \<not> (mplOperator p = operator \<and> mplCircle p = circle)) (mobile_plans w)\<rparr>)))) (\<lambda>_. ?D) (\<lambda>_ _. True)"
    by (rule triple_wrapErr, rule triple_db_call [where E = "\<lambda>_ _. True"]) (auto simp: env_free_def triple_def other_plans_def go_simps)
  have "triple ?P (ReplaceMobilePlans operator circle plans) (\<lambda>_. ?Q) (\<lambda>_. ?E)"
    unfolding ReplaceMobilePlans_def
  proof (intro triple_require triple_in_tx)
    show "triple ?P (andThen (wrapErr ''delete old plans'' (db_call (modify (\<lambda>w.
          w\<lparr>mobile_plans := filter (\<lambda>p. \<not> (mplOperator p = operator \<and> mplCircle p = circle)) (mobile_plans w)\<rparr>)))) (\<lambda>_.
        for_each plans (\<lambda>p _. if umiPlanAmountPaise p \<le> 0 then ok ()
          else wrapErr ''insert plan'' (sql_insert_plan operator circle p)) ())) (\<lambda>_. ?Q) (\<lambda>_ _. True)"
      by (rule triple_andThen [OF del]) (rule triple_insert_plans [unfolded insert_plans_def])
  qed (simp_all add: env_free_def)
  note tr = this
  have "(isl r \<and> mobile_plans w' = mobile_plans w) \<or>
    (\<exists>rows. mobile_plans w' = other_plans operator circle (mobile_plans w) @ rows \<and> plan_rows operator circle (clock w) plans rows)"
  proof (cases r)
    case (Inl e)
    from tripleD_err [OF tr _ run [unfolded Inl]] have "?E w'" by blast
    with Inl show ?thesis by (auto simp: isl_def)
  next
    case (Inr x)
    from tripleD_ok [OF tr _ run [unfolded Inr]] have "?Q w'" by blast
    then show ?thesis by blast
  qed
  with run show ?thesis by simp
qed

end
