(* ===== verification/Billpay_History.thy ===== *)
theory Billpay_History
  imports Billpay_Behaviour
begin

text \<open>
  Whole histories of bill-pay-service over the real wallet-service: the state the shop of
  \<open>Billpay_Behaviour\<close> reaches through its HTTP route, and the two properties about money that combine
  the contract of \<open>Billpay_Money\<close> with the ledger of wallet-service.
\<close>

section \<open>Histories\<close>

text \<open>A run of the shop that pays: the first request of \<open>demo_order\<close>, over the connection to wallet-service.\<close>

definition demo_bp_handler :: "codec \<Rightarrow> (MockClient wallet_link, SetuMock) BillpayHandler" where
  "demo_bp_handler cd = \<lparr>bhSvc = demo_linked cd, bhInternalKey = ''secret''\<rparr>"

definition demo_post_pay :: billpay_call where
  "demo_post_pay = POST_pay \<lparr>rqHeaders = (\<lambda>k. if k = to_lower ''X-User-ID'' then uuid_string 7 else []), rqParam = (\<lambda>_. []),
     rqQuery = (\<lambda>_. []), rqBody = Inr \<lparr>wpAccountID = uuid_string 12, wpProviderID = uuid_string 11,
       wpIdentifier = ''9900112233'', wpAmountPaise = 300, wpPaymentMethod = ''wallet'', wpIdempotencyKey = ''k1'',
       wpBillID = [], wpExtraParams = []\<rparr>\<rparr>"

lemma demo_post_pays:
  "snd (bp_RegisterRoutes (demo_bp_handler cd) pg canonical_uuid demo_post_pay w) = snd (Pay (demo_linked cd) 7 demo_order w)"
  using canonical_uuid_parses [unfolded parses_uuids_def]
  by (simp add: demo_post_pay_def PostPay_def getUserID_def GetHeader_def bind_body_def parse_id_def optional_id_def
      demo_bp_handler_def respond_state demo_order_def)

lemma demo_pay_step:
  "(billpay_step vs (demo_bp_handler cd) pg canonical_uuid)\<^sup>*\<^sup>* w (snd (Pay (demo_linked cd) 7 demo_order w))"
  using billpay_step.request [of vs "demo_bp_handler cd" pg canonical_uuid w demo_post_pay]
  by (simp add: demo_post_pays r_into_rtranclp)

lemma demo_failed_facts:
  "demo_failed cd = snd (Pay (demo_linked cd) 7 demo_order (demo_shop ''submit-fails-bbps'' demo_link))"
  "\<exists>p. payments (demo_failed cd) = [p] \<and> payStatus p = ''failed'' \<and> payWalletTxnID p = Some 100 \<and> payUserID p = 7 \<and> payID p = 201"
  using demo_failed_run [of cd] by (auto simp: demo_failed_def paid_row_def payment_of_input_def pay_input_def)

theorem payments_only_move_forward_witness:
  "\<forall>cd pg. \<exists>w' p. (billpay_step (link_moves demo_sv) (demo_bp_handler cd) pg canonical_uuid)\<^sup>*\<^sup>* (demo_failed cd) w' \<and>
     p \<in> set (payments (demo_failed cd)) \<and> (\<exists>p' \<in> set (payments w'). later_payment p p' \<and> payStatus p' = ''failed'')"
proof (intro allI)
  fix cd pg
  let ?w' = "snd (Pay (demo_linked cd) 7 demo_order (demo_failed cd))"
  have steps: "(billpay_step (link_moves demo_sv) (demo_bp_handler cd) pg canonical_uuid)\<^sup>*\<^sup>* (demo_failed cd) ?w'" by (rule demo_pay_step)
  obtain p where p: "p \<in> set (payments (demo_failed cd))" "payStatus p = ''failed''" using demo_failed_facts(2) [of cd] by auto
  from payments_only_move_forward [OF steps p(1)] p steps
  show "\<exists>w' p. (billpay_step (link_moves demo_sv) (demo_bp_handler cd) pg canonical_uuid)\<^sup>*\<^sup>* (demo_failed cd) w' \<and>
     p \<in> set (payments (demo_failed cd)) \<and> (\<exists>p' \<in> set (payments w'). later_payment p p' \<and> payStatus p' = ''failed'')"
    by (auto simp: later_payment_def open_payment_def)
qed

theorem payments_well_formed_witness:
  "\<forall>cd pg. (billpay_step (link_moves demo_sv) (demo_bp_handler cd) pg canonical_uuid)\<^sup>*\<^sup>* (demo_shop ''submit-fails-bbps'' demo_link) (demo_failed cd)
     \<and> payments_ok (payments (demo_failed cd)) \<and> payments (demo_failed cd) \<noteq> []"
proof (intro allI conjI)
  fix cd pg
  show steps: "(billpay_step (link_moves demo_sv) (demo_bp_handler cd) pg canonical_uuid)\<^sup>*\<^sup>* (demo_shop ''submit-fails-bbps'' demo_link) (demo_failed cd)"
    unfolding demo_failed_def by (rule demo_pay_step)
  show "payments_ok (payments (demo_failed cd))"
    by (rule payments_well_formed [OF steps]) (simp add: payments_ok_def)
  show "payments (demo_failed cd) \<noteq> []" using demo_failed_facts(2) [of cd] by auto
qed

lemma demo_ledger: "ledger_inv (lkWallet (wallet_side (demo_shop biller demo_link)))"
  by (simp add: demo_link_def demo_funded_def wallet_init_def ledger_def rows_ok_def pending_out_def open_out_def demo_balance_def)

section \<open>Whose money\<close>

text \<open>C3: in every state bill-pay-service reaches over the real wallet-service, whatever either of
  them serves and whatever fails in between, the wallet transaction noted on a payment is a
  transaction of the payer: no later refund of a payment can go to somebody else.\<close>

theorem payments_name_the_payers_transactions:
  assumes "parses_uuids pu" "bsWallet (bhSvc h) = wallet_http (link_server wh cd pu render (whBaseURL c)) c"
    and "(billpay_step (link_moves (hdSvc wh)) h pg pu)\<^sup>*\<^sup>* w w'" "payments w = []" "ledger_inv (lkWallet (wallet_side w))"
    and "p \<in> set (payments w')" "payWalletTxnID p = Some i"
  shows "\<exists>t \<in> set (transactions (lkWallet (wallet_side w'))). txID t = i \<and> txUserID t = payUserID p"
proof -
  note sys = bill_pay_system [OF assms(1), of wh cd render c]
  note cl = wallet_system.axioms(1) [OF sys]
  have "wallet_client.owns_all (\<lambda>l. ledger_inv (lkWallet l)) (\<lambda>l. tx_owner (lkWallet l)) w"
    by (simp add: wallet_client.owns_all_def [OF cl] assms(4,5))
  from wallet_system.reach_owns [OF sys assms(3,2) this]
  have "tx_owner (lkWallet (wallet_side w')) i = Some (payUserID p)"
    using assms(6,7) by (simp add: wallet_client.owns_all_def [OF cl])
  then show ?thesis by (auto simp: tx_owner_def dest!: find_in)
qed

theorem payments_name_the_payers_transactions_witness:
  "\<forall>cd. \<exists>p. p \<in> set (payments (demo_failed cd)) \<and> payWalletTxnID p = Some 100 \<and>
     (\<exists>t \<in> set (transactions (lkWallet (wallet_side (demo_failed cd)))). txID t = 100 \<and> txUserID t = payUserID p)"
proof
  fix cd
  obtain p where p: "p \<in> set (payments (demo_failed cd))" "payWalletTxnID p = Some 100" using demo_failed_facts(2) [of cd] by auto
  have steps: "(billpay_step (link_moves (hdSvc demo_handler)) (demo_bp_handler cd) (\<lambda>_. None) canonical_uuid)\<^sup>*\<^sup>*
      (demo_shop ''submit-fails-bbps'' demo_link) (demo_failed cd)"
    unfolding demo_failed_def by (rule demo_pay_step)
  have "bsWallet (bhSvc (demo_bp_handler cd)) = wallet_http (link_server demo_handler cd canonical_uuid (\<lambda>_. []) (whBaseURL demo_wallet_client)) demo_wallet_client"
    by (simp add: demo_bp_handler_def demo_linked_def)
  from payments_name_the_payers_transactions [OF canonical_uuid_parses this steps _ demo_ledger p] p
  show "\<exists>p. p \<in> set (payments (demo_failed cd)) \<and> payWalletTxnID p = Some 100 \<and>
     (\<exists>t \<in> set (transactions (lkWallet (wallet_side (demo_failed cd)))). txID t = 100 \<and> txUserID t = payUserID p)"
    by auto
qed

text \<open>C4: a call of \<open>Pay\<close> moves nobody's money but the payer's, by exactly the amount or not at all,
  whatever fails on the way: the payer ends with the amount less, the same, or (see above) the amount
  more; and when the call reports a payment that has not failed, the payer has not gained.\<close>

theorem pay_moves_only_the_payers_money:
  assumes "parses_uuids pu" "bsWallet sv = wallet_http (link_server wh cd pu render (whBaseURL c)) c"
    and "ledger_inv (lkWallet (wallet_side w))" "Pay sv u req w = (r, w')"
  shows "\<exists>d \<in> {- prAmountPaise req, 0, prAmountPaise req}.
     avail (lkWallet (wallet_side w')) = (avail (lkWallet (wallet_side w)))(u := avail (lkWallet (wallet_side w)) u + d)
     \<and> (\<forall>res. r = Inr res \<longrightarrow> presStatus res \<noteq> ''failed'' \<longrightarrow> d \<le> 0)"
proof -
  let ?a = "prAmountPaise req" and ?f = "avail (lkWallet (wallet_side w))"
  note cl = bill_pay_link [OF assms(1), of wh cd render c]
  let ?off = "wallet_client.funds_off (\<lambda>l. ledger_inv (lkWallet l)) (\<lambda>l. avail (lkWallet l)) (\<lambda>l. tx_owner (lkWallet l)) ?f u"
  have start: "?off {0} None w"
    using assms(3) by (simp add: wallet_client.funds_off_def [OF cl] wallet_client.holds_for_def [OF cl])
  note tr = wallet_client.off_Pay [OF cl assms(2) refl, of ?f u req]
  show ?thesis
  proof (cases r)
    case (Inl e)
    from tripleD_err [OF tr start assms(4) [unfolded Inl]] show ?thesis
      using Inl by (auto simp: wallet_client.settled_def [OF cl] wallet_client.funds_off_def [OF cl])
  next
    case (Inr res)
    have "0 < ?a"
      using assms(4) unfolding Inr by (auto simp: Pay_def require_def fail_def split: if_splits)
    with tripleD_ok [OF tr start assms(4) [unfolded Inr]] show ?thesis
      using Inr
      by (cases "presStatus res = ''failed''")
        (auto simp: wallet_client.settled_def [OF cl] wallet_client.paid_def [OF cl] wallet_client.funds_off_def [OF cl])
  qed
qed

theorem pay_moves_only_the_payers_money_witness:
  "\<forall>cd. \<exists>r w'. Pay (demo_linked cd) 7 demo_order (demo_shop ''submit-fails-bbps'' demo_link) = (r, w') \<and>
     avail (lkWallet (wallet_side w')) 8 = avail demo_funded 8"
proof
  fix cd
  let ?w = "demo_shop ''submit-fails-bbps'' demo_link"
  obtain r w' where run: "Pay (demo_linked cd) 7 demo_order ?w = (r, w')" by force
  have "bsWallet (demo_linked cd) = wallet_http (link_server demo_handler cd canonical_uuid (\<lambda>_. []) (whBaseURL demo_wallet_client)) demo_wallet_client"
    by (simp add: demo_linked_def)
  from pay_moves_only_the_payers_money [OF canonical_uuid_parses this demo_ledger run]
  have "avail (lkWallet (wallet_side w')) 8 = avail demo_funded 8" by (auto simp: demo_link_def)
  with run show "\<exists>r w'. Pay (demo_linked cd) 7 demo_order ?w = (r, w') \<and> avail (lkWallet (wallet_side w')) 8 = avail demo_funded 8"
    by blast
qed

end
