(* ===== verification/Payments_Store.thy ===== *)
theory Payments_Store
  imports Postgres Go_Float
begin

text \<open>
  The tables of payments-service (\<^verbatim>\<open>database/setup.sql\<close> and its migrations) and the methods of
  \<^verbatim>\<open>internal/store/postgres/store.go\<close>, one definition each; the constraints of the schema are
  checked where a row is written. Times are microseconds. The column \<^verbatim>\<open>amount\<close> is a
  \<^verbatim>\<open>NUMERIC(12,2)\<close>: how the driver and the server turn a \<^verbatim>\<open>float64\<close> into one is the argument
  \<open>num\<close> (the number of hundredths, \<open>None\<close> for a value that does not fit). \<^verbatim>\<open>provider_ref\<close> is
  nullable, but every statement of the service writes a string, so it is one here.
\<close>

section \<open>Rows\<close>

record PaymentIntent =
  piID :: uuid
  piPayerID :: uuid
  piPayeeID :: uuid
  piReferenceType :: string
  piReferenceID :: uuid
  piAmount :: rat \<comment> \<open>the \<^verbatim>\<open>float64\<close> in rupees, deprecated\<close>
  piAmountMinorRaw :: int
  piCurrency :: string
  piMethod :: string
  piStatus :: string
  piProviderRef :: string
  piUPIIntentURL :: string
  piIdempotencyKey :: string
  piRefundedAmountMinor :: int
  piCreatedAt :: int
  piUpdatedAt :: int

record AuditEntry =
  audIntentID :: uuid
  audEvent :: string
  audOldStatus :: "string option"
  audNewStatus :: string
  audActorID :: uuid
  audMetadata :: "(int \<times> int) option" \<comment> \<open>\<^verbatim>\<open>amount_minor\<close> and \<^verbatim>\<open>refunded_total_minor\<close>\<close>
  audCreatedAt :: int

record Hold =
  hldID :: uuid
  hldIntentID :: uuid
  hldAmount :: int
  hldCurrency :: string
  hldCondition :: string
  hldReleasedAt :: "int option"
  hldReleasedBy :: "string option"
  hldCreatedAt :: int

record WebhookEvent =
  wevEventID :: string
  wevEventType :: string
  wevProviderRef :: string
  wevReceivedAt :: int

record AppliedRefund =
  aprRefundRef :: string
  aprIntentID :: uuid
  aprAmountMinor :: int
  aprAppliedAt :: int

record CreateIntentResult =
  cirIntent :: PaymentIntent
  cirWasExisting :: bool

text \<open>What is published on the topic \<^verbatim>\<open>social.events.v1\<close>: the event type, the message key (which
  is also the actor when it is an identifier), and the payload, a whole intent or the bare keys.\<close>

datatype event_payload = IntentPayload PaymentIntent | BareKeys string string string

record intent_event =
  ievType :: string
  ievKey :: string
  ievPayload :: event_payload

text \<open>The state of payments-service, with the payment provider (\<open>'g\<close>) on the other side.\<close>

record 'g paysvc = env +
  intents :: "PaymentIntent list"
  audit_log :: "AuditEntry list"
  holds :: "Hold list"
  webhook_events :: "WebhookEvent list"
  refunds_applied :: "AppliedRefund list"
  intent_events :: "intent_event list"
  gateway_side :: 'g

section \<open>Amounts\<close>

definition AmountMinor :: "PaymentIntent \<Rightarrow> int" where
  "AmountMinor p = (if piAmountMinorRaw p > 0 then piAmountMinorRaw p
     else float_to_int64 (math_Round (fl64 (piAmount p * 100))))"

section \<open>Errors\<close>

definition ErrNotRefundable :: goerr where
  "ErrNotRefundable = ErrVar ''ErrNotRefundable'' ''payment intent is not in a refundable state''"

definition ErrIntentNotFound :: goerr where
  "ErrIntentNotFound = ErrVar ''ErrPaymentNotFound'' ''payment intent not found''"

definition ErrInvalidStatusTransition :: goerr where
  "ErrInvalidStatusTransition = ErrVar ''ErrInvalidStatusTransition'' ''invalid payment status transition''"

definition intent_check_violation :: goerr where
  "intent_check_violation = Errorf ''ERROR: check constraint (SQLSTATE 23514)''"

definition intent_unique_violation :: goerr where
  "intent_unique_violation = Errorf ''ERROR: duplicate key (SQLSTATE 23505)''"

definition intent_foreign_key_violation :: goerr where
  "intent_foreign_key_violation = Errorf ''ERROR: foreign key (SQLSTATE 23503)''"

definition numeric_overflow :: goerr where
  "numeric_overflow = Errorf ''ERROR: numeric field overflow (SQLSTATE 22003)''"

section \<open>Constraints of the schema\<close>

definition intent_methods :: "string list" where
  "intent_methods = [''upi'', ''card'', ''wallet'', ''cod'', ''escrow'']"

definition intent_statuses :: "string list" where
  "intent_statuses = [''pending'', ''processing'', ''succeeded'', ''failed'', ''refunded'',
     ''partially_refunded'', ''disputed'']"

definition sql_insert_audit :: "AuditEntry \<Rightarrow> ('g paysvc, unit) io" where
  "sql_insert_audit a = (\<lambda>w. if audIntentID a \<in> piID ` set (intents w)
     then (Inr (), w\<lparr>audit_log := audit_log w @ [a]\<rparr>) else (Inl intent_foreign_key_violation, w))"

text \<open>\<^verbatim>\<open>UPDATE payments.payment_intents SET status = st, f WHERE c\<close> and the number of rows it
  changed; the status check applies to each changed row.\<close>

definition sql_update_intents ::
  "string \<Rightarrow> (PaymentIntent \<Rightarrow> bool) \<Rightarrow> (int \<Rightarrow> PaymentIntent \<Rightarrow> PaymentIntent) \<Rightarrow> ('g paysvc, nat) io" where
  "sql_update_intents st c f = (\<lambda>w.
     let n = length (filter c (intents w)) in
     if n \<noteq> 0 \<and> st \<notin> set intent_statuses then (Inl intent_check_violation, w)
     else (Inr n, w\<lparr>intents := update_rows c (\<lambda>p. (f (clock w) p)\<lparr>piStatus := st\<rparr>) (intents w)\<rparr>))"

section \<open>Creating an intent\<close>

definition intent_of_input :: "PaymentIntent \<Rightarrow> uuid \<Rightarrow> int \<Rightarrow> int \<Rightarrow> PaymentIntent" where
  "intent_of_input i id0 hundredths now0 = i\<lparr>piID := id0, piAmount := fl64 (of_int hundredths / 100),
     piStatus := ''pending'', piUPIIntentURL := [], piRefundedAmountMinor := 0,
     piCreatedAt := now0, piUpdatedAt := now0\<rparr>"

text \<open>The \<^verbatim>\<open>INSERT ... ON CONFLICT (idempotency_key) DO UPDATE ... RETURNING\<close>: a row with the key is
  returned as it is. The columns that are not returned (the refunded total and the UPI link) keep
  the values of the caller's struct.\<close>

definition sql_insert_intent ::
  "(rat \<Rightarrow> int option) \<Rightarrow> PaymentIntent \<Rightarrow> ('g paysvc, PaymentIntent) io" where
  "sql_insert_intent num i = andThen gen_random_uuid (\<lambda>id0 w.
     case num (piAmount i) of
       None \<Rightarrow> (Inl numeric_overflow, w)
     | Some h \<Rightarrow>
         (let p = intent_of_input i id0 h (clock w);
              returned = (\<lambda>r. r\<lparr>piUPIIntentURL := piUPIIntentURL i, piRefundedAmountMinor := piRefundedAmountMinor i\<rparr>)
          in if piMethod i \<notin> set intent_methods then (Inl intent_check_violation, w)
             else case find (\<lambda>r. piIdempotencyKey r = piIdempotencyKey i) (intents w) of
               Some r \<Rightarrow> (Inr (returned r), w)
             | None \<Rightarrow> if id0 \<in> piID ` set (intents w) then (Inl intent_unique_violation, w)
                 else (Inr (returned p), w\<lparr>intents := intents w @ [p]\<rparr>)))"

definition initiated_entry :: "PaymentIntent \<Rightarrow> int \<Rightarrow> AuditEntry" where
  "initiated_entry p now0 = \<lparr>audIntentID = piID p, audEvent = ''initiated'', audOldStatus = None,
     audNewStatus = ''pending'', audActorID = piPayerID p, audMetadata = None, audCreatedAt = now0\<rparr>"

text \<open>\<^verbatim>\<open>time.Since(in.CreatedAt) > time.Second\<close> is what tells a replay from a new intent.
  The clock does not move within a call, so that an insertion that itself takes more than a second, which
  the code reports as a replay without an audit entry, is not among the model's runs.\<close>

definition CreateIntent ::
  "(rat \<Rightarrow> int option) \<Rightarrow> PaymentIntent \<Rightarrow> ('g paysvc, CreateIntentResult) io" where
  "CreateIntent num i = plain_tx
     (andThen (db_call (sql_insert_intent num i)) (\<lambda>p.
      andThen (get clock) (\<lambda>now0.
      let old = now0 - piCreatedAt p > 1000000 in
      andThen (if old then ok () else db_call (\<lambda>w. sql_insert_audit (initiated_entry p (clock w)) w)) (\<lambda>_.
      ok \<lparr>cirIntent = p, cirWasExisting = old\<rparr>))))"

section \<open>Reading intents\<close>

definition scan_one :: "('g paysvc \<Rightarrow> PaymentIntent option) \<Rightarrow> ('g paysvc, PaymentIntent) io" where
  "scan_one q = andThen (db_call (get q)) (\<lambda>r. case r of None \<Rightarrow> fail pgx_ErrNoRows | Some p \<Rightarrow> ok p)"

definition store_GetIntent :: "uuid \<Rightarrow> ('g paysvc, PaymentIntent) io" where
  "store_GetIntent i = scan_one (\<lambda>w. find (\<lambda>p. piID p = i) (intents w))"

text \<open>\<^verbatim>\<open>ORDER BY updated_at DESC LIMIT 1\<close>; rows updated at the same time come in the order of
  insertion.\<close>

definition latest_with_ref :: "string \<Rightarrow> PaymentIntent list \<Rightarrow> PaymentIntent option" where
  "latest_with_ref ref ps = (case sort_key (\<lambda>p. - piUpdatedAt p) (filter (\<lambda>p. piProviderRef p = ref) ps) of
     [] \<Rightarrow> None | p # _ \<Rightarrow> Some p)"

definition GetIntentByProviderRef :: "string \<Rightarrow> ('g paysvc, PaymentIntent) io" where
  "GetIntentByProviderRef ref = require (ref \<noteq> []) ErrIntentNotFound
     (scan_one (\<lambda>w. latest_with_ref ref (intents w)))"

definition store_ListByReference :: "string \<Rightarrow> uuid \<Rightarrow> ('g paysvc, PaymentIntent list) io" where
  "store_ListByReference refType refID = db_call (get (\<lambda>w.
     take 100 (sort_key (\<lambda>p. - piCreatedAt p)
       (filter (\<lambda>p. piReferenceType p = refType \<and> piReferenceID p = refID) (intents w)))))"

section \<open>Status updates\<close>

definition touch :: "int \<Rightarrow> PaymentIntent \<Rightarrow> PaymentIntent" where
  "touch now0 p = p\<lparr>piUpdatedAt := now0\<rparr>"

text \<open>The new provider reference, unless it is empty.\<close>

definition refer :: "string \<Rightarrow> int \<Rightarrow> PaymentIntent \<Rightarrow> PaymentIntent" where
  "refer ref now0 p = touch now0 (p\<lparr>piProviderRef := (if ref \<noteq> [] then ref else piProviderRef p)\<rparr>)"

definition changed_entry :: "uuid \<Rightarrow> string \<Rightarrow> string \<Rightarrow> uuid \<Rightarrow> int \<Rightarrow> AuditEntry" where
  "changed_entry i old new actor now0 = \<lparr>audIntentID = i, audEvent = ''status_changed'', audOldStatus = Some old,
     audNewStatus = new, audActorID = actor, audMetadata = None, audCreatedAt = now0\<rparr>"

definition store_UpdateStatus ::
  "uuid \<Rightarrow> string \<Rightarrow> string \<Rightarrow> string \<Rightarrow> uuid \<Rightarrow> ('g paysvc, unit) io" where
  "store_UpdateStatus i oldStatus newStatus providerRef actorID = plain_tx
     (andThen (db_call (sql_update_intents newStatus (\<lambda>p. piID p = i \<and> piStatus p = oldStatus)
        (refer providerRef))) (\<lambda>n.
      require (n \<noteq> 0) ErrIntentNotFound
      (db_call (\<lambda>w. sql_insert_audit (changed_entry i oldStatus newStatus actorID (clock w)) w))))"

definition validStatusTransitions :: "(string \<times> string list) list" where
  "validStatusTransitions =
    [(''pending'', [''processing'', ''succeeded'', ''failed'', ''cancelled'']),
     (''processing'', [''succeeded'', ''failed'']),
     (''succeeded'', [''refunded'', ''partially_refunded'']),
     (''partially_refunded'', [''refunded'', ''partially_refunded'']),
     (''failed'', []),
     (''refunded'', []),
     (''cancelled'', [])]"

definition allowedCurrent :: "string \<Rightarrow> string list" where
  "allowedCurrent newStatus = map fst (filter (\<lambda>(from0, edges). newStatus \<in> set edges) validStatusTransitions)"

definition store_UpdateStatusByProviderRef ::
  "string \<Rightarrow> string \<Rightarrow> string \<Rightarrow> ('g paysvc, unit) io" where
  "store_UpdateStatusByProviderRef providerRef newStatus paymentID =
     require (allowedCurrent newStatus \<noteq> [])
       (Tag ErrInvalidStatusTransition (''unknown target status '' @ go_quote newStatus))
     (andThen (db_call (sql_update_intents newStatus
        (\<lambda>p. piProviderRef p = providerRef \<and> piStatus p \<in> set (allowedCurrent newStatus))
        (refer paymentID))) (\<lambda>n.
      if n \<noteq> 0 then ok ()
      else attempt (db_call (get (\<lambda>w. length (filter (\<lambda>p. piProviderRef p = providerRef) (intents w))))) (\<lambda>r.
        case r of
          Inl e \<Rightarrow> fail ErrIntentNotFound
        | Inr cnt \<Rightarrow> fail (if cnt = 0 then ErrIntentNotFound else ErrInvalidStatusTransition))))"

section \<open>Refunds\<close>

text \<open>The deprecated blanket refund, which no caller in the repository uses any more.\<close>

definition store_InitiateRefund :: "uuid \<Rightarrow> ('g paysvc, unit) io" where
  "store_InitiateRefund i =
     andThen (db_call (sql_update_intents ''refunded'' (\<lambda>p. piID p = i \<and> piStatus p = ''succeeded'') touch))
       (\<lambda>n. require (n \<noteq> 0) ErrNotRefundable (ok ()))"

definition refundable_intent :: "uuid \<Rightarrow> PaymentIntent \<Rightarrow> bool" where
  "refundable_intent i p \<longleftrightarrow> piID p = i \<and> piStatus p \<in> {''succeeded'', ''partially_refunded''}"

definition refund_case :: "int \<Rightarrow> int \<Rightarrow> string" where
  "refund_case tot cap = (if tot \<ge> cap then ''refunded'' else ''partially_refunded'')"

text \<open>The update's own arithmetic is \<^verbatim>\<open>BIGINT\<close>: a sum out of range is an error of the statement.\<close>

definition sql_apply_refund :: "uuid \<Rightarrow> int \<Rightarrow> int \<Rightarrow> ('g paysvc, string \<times> int) io" where
  "sql_apply_refund i amount cap = (\<lambda>w. case find (refundable_intent i) (intents w) of
     None \<Rightarrow> (Inl pgx_ErrNoRows, w)
   | Some p \<Rightarrow> (case bigadd (piRefundedAmountMinor p) amount of
       None \<Rightarrow> (Inl bigint_out_of_range, w)
     | Some tot \<Rightarrow> if tot \<le> cap
         then (Inr (refund_case tot cap, tot), w\<lparr>intents := update_rows (refundable_intent i)
           (\<lambda>p. touch (clock w) (p\<lparr>piRefundedAmountMinor := tot, piStatus := refund_case tot cap\<rparr>)) (intents w)\<rparr>)
         else (Inl pgx_ErrNoRows, w)))"

definition refund_entry :: "uuid \<Rightarrow> string \<Rightarrow> uuid \<Rightarrow> int \<Rightarrow> int \<Rightarrow> int \<Rightarrow> AuditEntry" where
  "refund_entry i new actor amount tot now0 = \<lparr>audIntentID = i, audEvent = ''refund_applied'',
     audOldStatus = Some ''succeeded'', audNewStatus = new, audActorID = actor,
     audMetadata = Some (amount, tot), audCreatedAt = now0\<rparr>"

definition ApplyRefund :: "uuid \<Rightarrow> int \<Rightarrow> int \<Rightarrow> uuid \<Rightarrow> ('g paysvc, string \<times> int) io" where
  "ApplyRefund i amountMinor intentAmountMinor actorID =
     require (amountMinor > 0) (Errorf ''refund amount must be positive'')
     (plain_tx
       (attempt (db_call (sql_apply_refund i amountMinor intentAmountMinor)) (\<lambda>r. case r of
          Inl e \<Rightarrow> fail (if errors_is e pgx_ErrNoRows then ErrNotRefundable else e)
        | Inr (newStatus, tot) \<Rightarrow>
            andThen (db_call (\<lambda>w. sql_insert_audit (refund_entry i newStatus actorID amountMinor tot (clock w)) w)) (\<lambda>_.
            ok (newStatus, tot)))))"

definition RecordRefundIfFresh :: "string \<Rightarrow> uuid \<Rightarrow> int \<Rightarrow> ('g paysvc, bool) io" where
  "RecordRefundIfFresh ref i amountMinor =
     require (ref \<noteq> []) (Errorf ''refund_provider_ref must be non-empty'')
     (require (amountMinor > 0) (Errorf ''amount_minor must be positive'')
     (db_call (\<lambda>w. if ref \<in> aprRefundRef ` set (refunds_applied w) then (Inr False, w)
        else (Inr True, w\<lparr>refunds_applied := refunds_applied w @
          [\<lparr>aprRefundRef = ref, aprIntentID = i, aprAmountMinor = amountMinor, aprAppliedAt = clock w\<rparr>]\<rparr>))))"

section \<open>Webhook events and holds\<close>

definition RecordWebhookEventIfNew :: "string \<Rightarrow> string \<Rightarrow> string \<Rightarrow> ('g paysvc, bool) io" where
  "RecordWebhookEventIfNew eventID eventType providerRef =
     (if eventID = [] then ok True
      else db_call (\<lambda>w. if eventID \<in> wevEventID ` set (webhook_events w) then (Inr False, w)
        else (Inr True, w\<lparr>webhook_events := webhook_events w @
          [\<lparr>wevEventID = eventID, wevEventType = eventType, wevProviderRef = providerRef, wevReceivedAt = clock w\<rparr>]\<rparr>)))"

definition hold_conditions :: "string list" where
  "hold_conditions = [''order_delivered'', ''dispute_resolved'', ''manual'']"

definition CreateHold :: "uuid \<Rightarrow> int \<Rightarrow> string \<Rightarrow> string \<Rightarrow> ('g paysvc, unit) io" where
  "CreateHold i amount currency condition = db_call (andThen gen_random_uuid (\<lambda>id0 w.
     if amount \<le> 0 \<or> condition \<notin> set hold_conditions then (Inl intent_check_violation, w)
     else if id0 \<in> hldID ` set (holds w) then (Inl intent_unique_violation, w)
     else if i \<notin> piID ` set (intents w) then (Inl intent_foreign_key_violation, w)
     else (Inr (), w\<lparr>holds := holds w @ [\<lparr>hldID = id0, hldIntentID = i, hldAmount = amount,
       hldCurrency = currency, hldCondition = condition, hldReleasedAt = None, hldReleasedBy = None,
       hldCreatedAt = clock w\<rparr>]\<rparr>)))"

definition open_hold :: "uuid \<Rightarrow> Hold \<Rightarrow> bool" where
  "open_hold i h \<longleftrightarrow> hldIntentID h = i \<and> hldReleasedAt h = None"

definition store_ReleaseHold :: "uuid \<Rightarrow> string \<Rightarrow> ('g paysvc, unit) io" where
  "store_ReleaseHold i releasedBy =
     andThen (db_call (\<lambda>w. (Inr (length (filter (open_hold i) (holds w))),
        w\<lparr>holds := update_rows (open_hold i)
          (\<lambda>h. h\<lparr>hldReleasedAt := Some (clock w), hldReleasedBy := Some releasedBy\<rparr>) (holds w)\<rparr>))) (\<lambda>n.
      require (n \<noteq> 0) (Errorf (''no active hold found for intent '' @ uuid_string i)) (ok ()))"

lemmas payments_store_eval [go_eval] =
  unlabelled_def plain_tx_def
  float_to_int64_def ErrNotRefundable_def ErrIntentNotFound_def ErrInvalidStatusTransition_def
  pgx_ErrNoRows_def intent_check_violation_def intent_unique_violation_def
  intent_foreign_key_violation_def numeric_overflow_def intent_methods_def intent_statuses_def
  sql_insert_audit_def sql_update_intents_def intent_of_input_def sql_insert_intent_def
  initiated_entry_def CreateIntent_def scan_one_def store_GetIntent_def latest_with_ref_def
  GetIntentByProviderRef_def store_ListByReference_def touch_def refer_def changed_entry_def
  store_UpdateStatus_def validStatusTransitions_def allowedCurrent_def store_UpdateStatusByProviderRef_def
  store_InitiateRefund_def refundable_intent_def refund_case_def sql_apply_refund_def refund_entry_def
  ApplyRefund_def RecordRefundIfFresh_def RecordWebhookEventIfNew_def hold_conditions_def
  CreateHold_def open_hold_def store_ReleaseHold_def

end
