(* ===== verification/Payments_Gateway.thy ===== *)
theory Payments_Gateway
  imports Payments_Store Go_Http
begin

text \<open>
  The payment providers of payments-service (\<^verbatim>\<open>internal/gateway\<close>): the \<^verbatim>\<open>PaymentGateway\<close> interface
  as a record of operations over the provider's state, the Razorpay client over any server, and the
  stub. The Razorpay client ignores the errors of decoding a reply, so the replies it handles carry
  whatever part of the body was readable.
\<close>

section \<open>The interface (gateway.go)\<close>

record GatewayOrder =
  gorID :: string
  gorAmount :: int
  gorCurrency :: string
  gorReceipt :: string

record GatewayRefund =
  grfID :: string
  grfPaymentID :: string
  grfAmount :: int
  grfStatus :: string

record GatewayPayment =
  gpyID :: string
  gpyOrderID :: string
  gpyAmount :: int
  gpyCurrency :: string
  gpyStatus :: string

record 'g PaymentGateway =
  CreateOrder :: "int \<Rightarrow> string \<Rightarrow> string \<Rightarrow> ('g, GatewayOrder) io"
  VerifySignature :: "string \<Rightarrow> string \<Rightarrow> string \<Rightarrow> bool"
  gw_InitiateRefund :: "string \<Rightarrow> int \<Rightarrow> ('g, GatewayRefund) io"
  FetchPayment :: "string \<Rightarrow> ('g, GatewayPayment) io"

section \<open>Razorpay (razorpay.go)\<close>

record RazorpayGateway =
  rzpKeyID :: string
  rzpKeySecret :: string

text \<open>What one exchange delivers: no response, or a status with the body's text and the JSON value
  it parses to, if it does.\<close>

datatype rzp_result = NoResponse string | Response nat string "json option"

type_synonym 'p rzp_server = "wire_request \<Rightarrow> 'p \<Rightarrow> rzp_result \<times> 'p"

definition razorpayBaseURL :: string where
  "razorpayBaseURL = ''https://api.razorpay.com/v1''"

definition basic_auth :: "RazorpayGateway \<Rightarrow> string \<times> string" where
  "basic_auth g = (''Authorization'', ''Basic '' @ base64_encode (rzpKeyID g @ '':'' @ rzpKeySecret g))"

definition json_header :: "string \<times> string" where
  "json_header = (''Content-Type'', ''application/json'')"

text \<open>A field of a decoded struct when the decoder's error is ignored: what is missing, of another
  type or unreadable keeps its zero value.\<close>

definition lenient :: "string \<Rightarrow> (json \<Rightarrow> 'a option) \<Rightarrow> 'a \<Rightarrow> json option \<Rightarrow> 'a" where
  "lenient k d zero j = (case j of
     Some (JObject fs) \<Rightarrow> (case Option.bind (map_of fs k) d of Some x \<Rightarrow> x | None \<Rightarrow> zero)
   | _ \<Rightarrow> zero)"

definition member :: "string \<Rightarrow> json option \<Rightarrow> json option" where
  "member k j = (case j of Some (JObject fs) \<Rightarrow> map_of fs k | _ \<Rightarrow> None)"

definition as_int64 :: "json \<Rightarrow> int option" where
  "as_int64 j = (case j of JInt i \<Rightarrow> if int64 i then Some i else None | _ \<Rightarrow> None)"

definition rzp_CreateOrder ::
  "RazorpayGateway \<Rightarrow> 'p rzp_server \<Rightarrow> int \<Rightarrow> string \<Rightarrow> string \<Rightarrow> ('p, GatewayOrder) io" where
  "rzp_CreateOrder g srv amount currency receipt = (\<lambda>p.
     case srv \<lparr>wrMethod = ''POST'', wrURL = razorpayBaseURL @ ''/orders'', wrHeaders = [basic_auth g, json_header],
       wrPayload = Some (JObject [(''amount'', JInt amount), (''currency'', JStr currency), (''receipt'', JStr receipt)])\<rparr> p of
       (NoResponse s, p') \<Rightarrow> (Inl (Errorf s), p')
     | (Response status txt j, p') \<Rightarrow>
         ((if status \<ge> 400 then Inl (Errorf (''razorpay: create order failed with status '' @ show_nat status))
           else Inr \<lparr>gorID = lenient ''id'' as_str [] j, gorAmount = lenient ''amount'' as_int64 0 j,
             gorCurrency = lenient ''currency'' as_str [] j, gorReceipt = lenient ''receipt'' as_str [] j\<rparr>), p'))"

definition rzp_VerifySignature :: "RazorpayGateway \<Rightarrow> string \<Rightarrow> string \<Rightarrow> string \<Rightarrow> bool" where
  "rzp_VerifySignature g orderID paymentID signature \<longleftrightarrow>
     hmac_hex (rzpKeySecret g) (orderID @ ''|'' @ paymentID) = signature"

text \<open>The identifier goes into the path as it is.\<close>

definition rzp_InitiateRefund ::
  "RazorpayGateway \<Rightarrow> 'p rzp_server \<Rightarrow> string \<Rightarrow> int \<Rightarrow> ('p, GatewayRefund) io" where
  "rzp_InitiateRefund g srv paymentID amount = (\<lambda>p.
     case srv \<lparr>wrMethod = ''POST'', wrURL = razorpayBaseURL @ ''/payments/'' @ paymentID @ ''/refund'',
       wrHeaders = [basic_auth g, json_header], wrPayload = Some (JObject [(''amount'', JInt amount)])\<rparr> p of
       (NoResponse s, p') \<Rightarrow> (Inl (Errorf s), p')
     | (Response status txt j, p') \<Rightarrow>
         ((if status \<ge> 400 then Inl (Errorf (''razorpay: refund failed with status '' @ show_nat status @ '': '' @ txt))
           else Inr \<lparr>grfID = lenient ''id'' as_str [] j, grfPaymentID = paymentID,
             grfAmount = lenient ''amount'' as_int64 0 j, grfStatus = ''processed''\<rparr>), p'))"

definition rzp_FetchPayment :: "RazorpayGateway \<Rightarrow> 'p rzp_server \<Rightarrow> string \<Rightarrow> ('p, GatewayPayment) io" where
  "rzp_FetchPayment g srv paymentID = (\<lambda>p.
     case srv \<lparr>wrMethod = ''GET'', wrURL = razorpayBaseURL @ ''/payments/'' @ paymentID,
       wrHeaders = [basic_auth g], wrPayload = None\<rparr> p of
       (NoResponse s, p') \<Rightarrow> (Inl (Errorf s), p')
     | (Response status txt j, p') \<Rightarrow>
         (Inr \<lparr>gpyID = lenient ''id'' as_str [] j, gpyOrderID = lenient ''order_id'' as_str [] j,
           gpyAmount = lenient ''amount'' as_int64 0 j, gpyCurrency = [], gpyStatus = lenient ''status'' as_str [] j\<rparr>, p'))"

definition NewRazorpayGateway :: "RazorpayGateway \<Rightarrow> 'p rzp_server \<Rightarrow> 'p PaymentGateway" where
  "NewRazorpayGateway g srv = \<lparr>CreateOrder = rzp_CreateOrder g srv, VerifySignature = rzp_VerifySignature g,
     gw_InitiateRefund = rzp_InitiateRefund g srv, FetchPayment = rzp_FetchPayment g srv\<rparr>"

section \<open>The stub (stub.go)\<close>

text \<open>Its only state is the clock it reads, in nanoseconds.\<close>

definition StubGateway :: "int PaymentGateway" where
  "StubGateway = \<lparr>
     CreateOrder = (\<lambda>amount currency receipt now0. (Inr \<lparr>gorID = ''order_stub_'' @ show_int now0,
       gorAmount = amount, gorCurrency = currency, gorReceipt = receipt\<rparr>, now0)),
     VerifySignature = (\<lambda>_ _ _. True),
     gw_InitiateRefund = (\<lambda>paymentID amount now0. (Inr \<lparr>grfID = ''rfnd_stub_'' @ show_int now0,
       grfPaymentID = paymentID, grfAmount = amount, grfStatus = ''processed''\<rparr>, now0)),
     FetchPayment = (\<lambda>paymentID. ok \<lparr>gpyID = paymentID, gpyOrderID = [], gpyAmount = 0, gpyCurrency = [],
       gpyStatus = ''captured''\<rparr>)\<rparr>"

lemmas payments_gateway_eval [go_eval] =
  lenient_def member_def as_int64_def rzp_CreateOrder_def rzp_VerifySignature_def rzp_InitiateRefund_def
  rzp_FetchPayment_def NewRazorpayGateway_def StubGateway_def

end
