(* ===== verification/Payments_Service.thy ===== *)
theory Payments_Service
  imports Payments_Gateway
begin

text \<open>
  The business layer of payments-service (\<^verbatim>\<open>internal/service/service.go\<close>), translated function by
  function: initiating, verifying, updating and refunding payment intents, escrow holds, and what
  the webhook of the provider calls. \<open>sv\<close> holds the gateway (\<open>None\<close> for a nil one) and the
  driver's conversion of amounts (see \<open>Payments_Store\<close>).
\<close>

record 'g PaymentsService =
  psGateway :: "'g PaymentGateway option"
  psNumeric :: "rat \<Rightarrow> int option"

definition on_gateway :: "('g, 'a) io \<Rightarrow> ('g paysvc, 'a) io" where
  "on_gateway m = (\<lambda>w. case m (gateway_side w) of (r, g) \<Rightarrow> (r, w\<lparr>gateway_side := g\<rparr>))"

text \<open>\<^verbatim>\<open>publishEvent\<close>: an error of the broker is only logged.\<close>

definition publishEvent :: "string \<Rightarrow> string \<Rightarrow> event_payload \<Rightarrow> ('g paysvc, unit) io" where
  "publishEvent eventType key payload = logged (db_call (modify (\<lambda>w.
     w\<lparr>intent_events := intent_events w @ [\<lparr>ievType = eventType, ievKey = key, ievPayload = payload\<rparr>]\<rparr>)))"

definition orDefault :: "string \<Rightarrow> string \<Rightarrow> string" where
  "orDefault s d = (if s = [] then d else s)"

definition rupeesToPaise :: "rat \<Rightarrow> int" where
  "rupeesToPaise amountRupees = float_to_int64 (math_Round (fl64 (amountRupees * 100)))"

section \<open>Initiating a payment\<close>

record InitiateInput =
  iniPayerID :: uuid
  iniPayeeID :: uuid
  iniReferenceType :: string
  iniReferenceID :: uuid
  iniAmount :: rat
  iniAmountMinor :: int
  iniCurrency :: string
  iniMethod :: string
  iniIdempotencyKey :: string

text \<open>The amount in paise and its mirror in rupees, once at the entry point.\<close>

definition resolve_amount :: "InitiateInput \<Rightarrow> goerr + int \<times> rat" where
  "resolve_amount i =
     (let positive = Errorf ''amount must be positive'';
          m = (if iniAmountMinor i = 0 then rupeesToPaise (iniAmount i) else iniAmountMinor i)
      in if iniAmountMinor i = 0 \<and> iniAmount i \<le> 0 then Inl positive
         else if m \<le> 0 then Inl positive
         else Inr (m, if iniAmount i \<le> 0 then fl64 (fl64 (of_int m) / 100) else iniAmount i))"

text \<open>The order at the gateway; a failure is logged and leaves the reference empty.\<close>

definition gateway_order :: "'g PaymentsService \<Rightarrow> string \<Rightarrow> int \<Rightarrow> string \<Rightarrow> ('g paysvc, string) io" where
  "gateway_order sv meth amountMinor key = (case psGateway sv of
     Some gw \<Rightarrow> if meth \<noteq> ''cod'' \<and> meth \<noteq> ''wallet''
       then attempt (on_gateway (CreateOrder gw amountMinor ''INR'' key)) (\<lambda>r.
         ok (case r of Inl e \<Rightarrow> [] | Inr order \<Rightarrow> gorID order))
       else ok []
   | None \<Rightarrow> ok [])"

definition new_intent :: "InitiateInput \<Rightarrow> int \<Rightarrow> rat \<Rightarrow> string \<Rightarrow> string \<Rightarrow> PaymentIntent" where
  "new_intent i amountMinor amountRupees providerRef key =
     \<lparr>piID = 0, piPayerID = iniPayerID i, piPayeeID = iniPayeeID i, piReferenceType = iniReferenceType i,
      piReferenceID = iniReferenceID i, piAmount = amountRupees, piAmountMinorRaw = amountMinor,
      piCurrency = orDefault (iniCurrency i) ''INR'', piMethod = iniMethod i, piStatus = [],
      piProviderRef = providerRef, piUPIIntentURL = [], piIdempotencyKey = key,
      piRefundedAmountMinor = 0, piCreatedAt = 0, piUpdatedAt = 0\<rparr>"

definition InitiatePayment :: "'g PaymentsService \<Rightarrow> InitiateInput \<Rightarrow> ('g paysvc, PaymentIntent) io" where
  "InitiatePayment sv i = (case resolve_amount i of
     Inl e \<Rightarrow> fail e
   | Inr (amountMinor, amountRupees) \<Rightarrow>
       require (iniMethod i \<in> {''upi'', ''card'', ''wallet'', ''cod'', ''escrow''})
         (Errorf (''invalid payment method: '' @ iniMethod i))
       (andThen (if iniIdempotencyKey i = [] then andThen gen_random_uuid (\<lambda>k. ok (uuid_string k))
          else ok (iniIdempotencyKey i)) (\<lambda>key.
        andThen (gateway_order sv (iniMethod i) amountMinor key) (\<lambda>providerRef.
        andThen (CreateIntent (psNumeric sv) (new_intent i amountMinor amountRupees providerRef key)) (\<lambda>res.
        if cirWasExisting res then ok (cirIntent res)
        else
          andThen (if iniMethod i = ''escrow''
             then logged (CreateHold (piID (cirIntent res)) amountMinor (orDefault (iniCurrency i) ''INR'') ''order_delivered'')
             else ok ()) (\<lambda>_.
          andThen (publishEvent ''payment.initiated'' (uuid_string (piPayerID (cirIntent res)))
             (IntentPayload (cirIntent res))) (\<lambda>_.
          ok (cirIntent res))))))))"

section \<open>Reading and updating\<close>

definition GetIntent :: "uuid \<Rightarrow> ('g paysvc, PaymentIntent) io" where
  "GetIntent i = store_GetIntent i"

definition UpdateStatus ::
  "uuid \<Rightarrow> string \<Rightarrow> string \<Rightarrow> string \<Rightarrow> uuid \<Rightarrow> ('g paysvc, PaymentIntent) io" where
  "UpdateStatus i oldStatus newStatus providerRef actorID =
     andThen (store_UpdateStatus i oldStatus newStatus providerRef actorID) (\<lambda>_.
     andThen (store_GetIntent i) (\<lambda>intent.
     andThen (publishEvent (if newStatus = ''succeeded'' then ''payment.succeeded''
         else if newStatus = ''failed'' then ''payment.failed'' else ''payment.status_changed'')
       (uuid_string actorID) (IntentPayload intent)) (\<lambda>_. ok intent)))"

definition ListByReference :: "string \<Rightarrow> uuid \<Rightarrow> ('g paysvc, PaymentIntent list) io" where
  "ListByReference refType refID = store_ListByReference refType refID"

section \<open>Refunds\<close>

definition ErrSignatureVerificationFailed :: goerr where
  "ErrSignatureVerificationFailed = ErrVar ''ErrSignatureVerificationFailed'' ''razorpay signature verification failed''"

definition ErrAmountMismatch :: goerr where
  "ErrAmountMismatch = ErrVar ''ErrAmountMismatch'' ''payment amount does not match intent''"

definition ErrProviderRefMismatch :: goerr where
  "ErrProviderRefMismatch = ErrVar ''ErrProviderRefMismatch'' ''razorpay order id does not match intent''"

definition ErrGatewayNotConfigured :: goerr where
  "ErrGatewayNotConfigured = ErrVar ''ErrGatewayNotConfigured'' ''payment gateway not configured''"

definition ErrRefundNotAuthorized :: goerr where
  "ErrRefundNotAuthorized = ErrVar ''ErrRefundNotAuthorized'' ''not authorized to refund this payment''"

definition ErrRefundAmountExceedsIntent :: goerr where
  "ErrRefundAmountExceedsIntent = ErrVar ''ErrRefundAmountExceedsIntent'' ''refund amount exceeds intent''"

definition ErrHoldReleaseNotAuthorized :: goerr where
  "ErrHoldReleaseNotAuthorized = ErrVar ''ErrHoldReleaseNotAuthorized'' ''not authorized to release this hold''"

text \<open>The refund to apply and the cap, or the reason why not.\<close>

definition resolveRefundAmount :: "PaymentIntent \<Rightarrow> uuid \<Rightarrow> int \<Rightarrow> goerr + int \<times> int" where
  "resolveRefundAmount intent actorID amountMinor =
     (if piStatus intent \<noteq> ''succeeded'' \<and> piStatus intent \<noteq> ''partially_refunded''
      then Inl (Errorf (''can only refund succeeded payments, current status: '' @ piStatus intent))
      else if actorID \<noteq> piPayerID intent \<and> actorID \<noteq> piPayeeID intent then Inl ErrRefundNotAuthorized
      else
        let cap = AmountMinor intent;
            remaining = wrap64 (cap - piRefundedAmountMinor intent)
        in if remaining \<le> 0 then Inl (Errorf ''intent already fully refunded'')
           else let refundMinor = (if amountMinor = 0 then remaining else amountMinor)
           in if refundMinor < 0 then Inl (Errorf ''refund amount must be non-negative'')
              else if refundMinor > remaining then Inl ErrRefundAmountExceedsIntent
              else Inr (refundMinor, cap))"

definition computeRefundStatus :: "int \<Rightarrow> int \<Rightarrow> int \<Rightarrow> string" where
  "computeRefundStatus currentRefundedMinor refundMinor intentAmountMinor =
     (if wrap64 (currentRefundedMinor + refundMinor) \<ge> intentAmountMinor then ''refunded''
      else ''partially_refunded'')"

text \<open>The gateway's part of a refund; its error is only logged.\<close>

definition refund_at_gateway :: "'g PaymentsService \<Rightarrow> PaymentIntent \<Rightarrow> int \<Rightarrow> ('g paysvc, unit) io" where
  "refund_at_gateway sv intent refundMinor = (case psGateway sv of
     Some gw \<Rightarrow> if piProviderRef intent \<noteq> [] \<and> piMethod intent \<noteq> ''cod'' \<and> piMethod intent \<noteq> ''wallet''
       then logged (on_gateway (gw_InitiateRefund gw (piProviderRef intent) refundMinor)) else ok ()
   | None \<Rightarrow> ok ())"

definition refunded_intent :: "PaymentIntent \<Rightarrow> string \<times> int \<Rightarrow> PaymentIntent" where
  "refunded_intent intent r = intent\<lparr>piStatus := fst r, piRefundedAmountMinor := snd r\<rparr>"

definition InitiateRefund ::
  "'g PaymentsService \<Rightarrow> uuid \<Rightarrow> uuid \<Rightarrow> int \<Rightarrow> string \<Rightarrow> ('g paysvc, PaymentIntent) io" where
  "InitiateRefund sv i actorID amountMinor reason =
     andThen (store_GetIntent i) (\<lambda>intent.
     case resolveRefundAmount intent actorID amountMinor of
       Inl e \<Rightarrow> fail e
     | Inr (refundMinor, cap) \<Rightarrow>
         andThen (ApplyRefund i refundMinor cap actorID) (\<lambda>r.
         andThen (refund_at_gateway sv intent refundMinor) (\<lambda>_.
         let intent' = refunded_intent intent r in
         andThen (publishEvent ''payment.refunded'' (uuid_string actorID) (IntentPayload intent')) (\<lambda>_.
         ok intent'))))"

section \<open>Verification\<close>

record VerifyResult =
  vrfVerified :: bool
  vrfIntentID :: uuid
  vrfStatus :: string
  vrfAmountMinor :: int
  vrfProviderRef :: string

definition VerifyIntent ::
  "'g PaymentsService \<Rightarrow> uuid \<Rightarrow> string \<Rightarrow> string \<Rightarrow> string \<Rightarrow> int \<Rightarrow> ('g paysvc, VerifyResult) io" where
  "VerifyIntent sv i rzpOrderID rzpPaymentID rzpSignature amountMinor =
     andThen (store_GetIntent i) (\<lambda>intent.
     case psGateway sv of
       None \<Rightarrow> fail ErrGatewayNotConfigured
     | Some gw \<Rightarrow>
         let intentAmountMinor = AmountMinor intent in
         require (\<not> (piProviderRef intent = [] \<or> piProviderRef intent \<noteq> rzpOrderID)) ErrProviderRefMismatch
        (require (\<not> (amountMinor > 0 \<and> amountMinor \<noteq> intentAmountMinor)) ErrAmountMismatch
        (require (VerifySignature gw rzpOrderID rzpPaymentID rzpSignature) ErrSignatureVerificationFailed
        (andThen (logged (store_UpdateStatus i ''pending'' ''succeeded'' rzpPaymentID (piPayerID intent))) (\<lambda>_.
         andThen (store_GetIntent i) (\<lambda>current.
         ok \<lparr>vrfVerified = True, vrfIntentID = i, vrfStatus = piStatus current,
             vrfAmountMinor = intentAmountMinor, vrfProviderRef = piProviderRef current\<rparr>))))))"

section \<open>Escrow\<close>

text \<open>\<open>pu\<close> is \<^verbatim>\<open>uuid.Parse\<close>.\<close>

definition ReleaseHold :: "(string \<Rightarrow> uuid option) \<Rightarrow> uuid \<Rightarrow> string \<Rightarrow> ('g paysvc, unit) io" where
  "ReleaseHold pu intentID releasedBy =
     andThen (store_GetIntent intentID) (\<lambda>intent.
     case pu releasedBy of
       None \<Rightarrow> fail ErrHoldReleaseNotAuthorized
     | Some actor \<Rightarrow>
         require (\<not> (actor \<noteq> piPayeeID intent \<and> actor \<noteq> piPayerID intent)) ErrHoldReleaseNotAuthorized
         (store_ReleaseHold intentID releasedBy))"

section \<open>The webhook\<close>

definition MarkWebhookSeen :: "string \<Rightarrow> string \<Rightarrow> string \<Rightarrow> ('g paysvc, bool) io" where
  "MarkWebhookSeen eventID eventType providerRef = RecordWebhookEventIfNew eventID eventType providerRef"

definition status_event :: "string \<Rightarrow> string" where
  "status_event newStatus = (if newStatus = ''succeeded'' then ''payment.succeeded''
     else if newStatus = ''failed'' then ''payment.failed''
     else if newStatus = ''refunded'' then ''payment.refunded'' else ''payment.status_changed'')"

definition UpdateStatusByProviderRef :: "string \<Rightarrow> string \<Rightarrow> string \<Rightarrow> ('g paysvc, unit) io" where
  "UpdateStatusByProviderRef providerRef newStatus paymentID =
     attempt (store_UpdateStatusByProviderRef providerRef newStatus paymentID) (\<lambda>r. case r of
       Inl e \<Rightarrow> ok ()
     | Inr _ \<Rightarrow> attempt (GetIntentByProviderRef providerRef) (\<lambda>l. publishEvent (status_event newStatus) []
         (case l of Inr intent \<Rightarrow> IntentPayload intent
          | Inl e \<Rightarrow> BareKeys providerRef paymentID newStatus)))"

definition ApplyWebhookRefund :: "string \<Rightarrow> string \<Rightarrow> int \<Rightarrow> ('g paysvc, unit) io" where
  "ApplyWebhookRefund paymentProviderRef refundProviderRef amountMinor =
     (if amountMinor \<le> 0 then ok ()
      else attempt (GetIntentByProviderRef paymentProviderRef) (\<lambda>r. case r of
        Inl e \<Rightarrow> ok ()
      | Inr intent \<Rightarrow> attempt (RecordRefundIfFresh refundProviderRef (piID intent) amountMinor) (\<lambda>f. case f of
          Inl e \<Rightarrow> ok ()
        | Inr fresh \<Rightarrow>
            if \<not> fresh then ok ()
            else
              let cap = AmountMinor intent in
              if amountMinor > wrap64 (cap - piRefundedAmountMinor intent) then ok ()
              else attempt (ApplyRefund (piID intent) amountMinor cap 0) (\<lambda>a. case a of
                Inl e \<Rightarrow> ok ()
              | Inr res \<Rightarrow> publishEvent ''payment.refunded'' [] (IntentPayload (refunded_intent intent res))))))"

lemmas payments_service_eval [go_eval] =
  on_gateway_def publishEvent_def orDefault_def rupeesToPaise_def resolve_amount_def gateway_order_def
  new_intent_def InitiatePayment_def GetIntent_def UpdateStatus_def ListByReference_def
  ErrSignatureVerificationFailed_def ErrAmountMismatch_def ErrProviderRefMismatch_def
  ErrGatewayNotConfigured_def ErrRefundNotAuthorized_def ErrRefundAmountExceedsIntent_def
  ErrHoldReleaseNotAuthorized_def resolveRefundAmount_def computeRefundStatus_def refund_at_gateway_def
  refunded_intent_def InitiateRefund_def VerifyIntent_def ReleaseHold_def MarkWebhookSeen_def
  status_event_def UpdateStatusByProviderRef_def ApplyWebhookRefund_def

end
