(* ===== verification/Payments_Http.thy ===== *)
theory Payments_Http
  imports Payments_Service
begin

text \<open>
  The HTTP layer of payments-service (\<^verbatim>\<open>internal/http/handler.go\<close>), one definition per handler, the
  routing with the webhook outside the internal-key gate, and the start-up configuration of
  \<^verbatim>\<open>cmd/server/main.go\<close>. \<open>pu\<close> is \<^verbatim>\<open>uuid.Parse\<close>. A handler that only sets a status code answers
  without data and without an error object.
\<close>

section \<open>Requests and responses\<close>

record initiateBody =
  inbPayeeID :: string
  inbReferenceType :: string
  inbReferenceID :: string
  inbAmount :: rat
  inbAmountMinor :: int
  inbCurrency :: string
  inbMethod :: string
  inbIdempotencyKey :: string

record statusBody =
  stbOldStatus :: string
  stbNewStatus :: string
  stbProviderRef :: string

record refundBody =
  rfbReason :: string
  rfbAmountMinor :: int

record verifyBody =
  vfbOrderID :: string
  vfbPaymentID :: string
  vfbSignature :: string
  vfbAmountMinor :: int

datatype payments_data = IntentData PaymentIntent | IntentsData "PaymentIntent list" | VerifyData VerifyResult

record 'g PaymentsHandler =
  phSvc :: "'g PaymentsService"
  phInternalKey :: string
  phWebhookSecret :: string

definition status_only :: "nat \<Rightarrow> 'd response" where
  "status_only n = \<lparr>rsStatus = n, rsData = None, rsError = None\<rparr>"

text \<open>\<^verbatim>\<open>out, err := svc.M(...); if err != nil { ErrorWithContext(status, code, err.Error()) }\<close>\<close>

definition reply ::
  "nat \<Rightarrow> ('a \<Rightarrow> 'd) \<Rightarrow> nat \<Rightarrow> string \<Rightarrow> ('w, 'a) io \<Rightarrow> ('w, 'd) handler" where
  "reply okStatus enc errStatus errCode m = (\<lambda>w. case m w of
     (Inl e, w') \<Rightarrow> (ErrorWithContext errStatus errCode (err_msg e), w')
   | (Inr x, w') \<Rightarrow> (JSONWithContext okStatus (enc x), w'))"

definition intent_user :: "(string \<Rightarrow> uuid option) \<Rightarrow> 'b http_request \<Rightarrow> 'd response + uuid" where
  "intent_user pu rq =
     (let str = GetHeader rq ''X-User-Id'' in
      if str = [] then Inl (ErrorWithContext 401 ''UNAUTHORIZED'' ''missing user id'')
      else case pu str of
        None \<Rightarrow> Inl (ErrorWithContext 401 ''UNAUTHORIZED'' ''invalid user id'')
      | Some i \<Rightarrow> Inr i)"

text \<open>The identifier of a path, and one whose parse error is ignored.\<close>

definition intent_param :: "(string \<Rightarrow> uuid option) \<Rightarrow> 'b http_request \<Rightarrow> string \<Rightarrow> 'd response + uuid" where
  "intent_param pu rq k = parse_id pu (rqParam rq k) ''invalid intent id''"

definition uuid_or_nil :: "(string \<Rightarrow> uuid option) \<Rightarrow> string \<Rightarrow> uuid" where
  "uuid_or_nil pu s = (case pu s of None \<Rightarrow> 0 | Some i \<Rightarrow> i)"

section \<open>Handlers\<close>

definition http_InitiatePayment ::
  "'g PaymentsHandler \<Rightarrow> (string \<Rightarrow> uuid option) \<Rightarrow> initiateBody http_request \<Rightarrow> ('g paysvc, payments_data) handler" where
  "http_InitiatePayment h pu rq =
     bindOr (intent_user pu rq) (\<lambda>u.
     bindOr (bind_body rq) (\<lambda>b.
     if inbAmount b \<le> 0 \<and> inbAmountMinor b \<le> 0
     then answer (ErrorWithContext 400 ''INVALID_BODY'' ''amount or amount_minor must be positive'')
     else reply 201 IntentData 400 ''INITIATE_FAILED''
       (andThen (if inbIdempotencyKey b = [] then andThen gen_random_uuid (\<lambda>k. ok (uuid_string k))
          else ok (inbIdempotencyKey b)) (\<lambda>key.
        InitiatePayment (phSvc h)
          \<lparr>iniPayerID = u, iniPayeeID = uuid_or_nil pu (inbPayeeID b), iniReferenceType = inbReferenceType b,
           iniReferenceID = uuid_or_nil pu (inbReferenceID b), iniAmount = inbAmount b,
           iniAmountMinor = inbAmountMinor b, iniCurrency = inbCurrency b, iniMethod = inbMethod b,
           iniIdempotencyKey = key\<rparr>))))"

definition http_GetIntent ::
  "(string \<Rightarrow> uuid option) \<Rightarrow> unit http_request \<Rightarrow> ('g paysvc, payments_data) handler" where
  "http_GetIntent pu rq =
     bindOr (intent_user pu rq) (\<lambda>_.
     bindOr (intent_param pu rq ''id'') (\<lambda>i w. case GetIntent i w of
       (Inl e, w') \<Rightarrow> (ErrorWithContext 404 ''NOT_FOUND'' ''intent not found'', w')
     | (Inr p, w') \<Rightarrow> (JSONWithContext 200 (IntentData p), w')))"

definition http_UpdateStatus ::
  "(string \<Rightarrow> uuid option) \<Rightarrow> statusBody http_request \<Rightarrow> ('g paysvc, payments_data) handler" where
  "http_UpdateStatus pu rq =
     bindOr (intent_user pu rq) (\<lambda>u.
     bindOr (intent_param pu rq ''id'') (\<lambda>i.
     bindOr (bind_body rq) (\<lambda>b.
     reply 200 IntentData 400 ''UPDATE_FAILED''
       (UpdateStatus i (stbOldStatus b) (stbNewStatus b) (stbProviderRef b) u))))"

text \<open>The error of binding the body is ignored: an absent body means a full refund without a reason,
  and from one that binds in part (\<open>Inr\<close>) the fields that were filled in are used.\<close>

definition http_InitiateRefund ::
  "'g PaymentsHandler \<Rightarrow> (string \<Rightarrow> uuid option) \<Rightarrow> refundBody http_request \<Rightarrow> ('g paysvc, payments_data) handler" where
  "http_InitiateRefund h pu rq =
     bindOr (intent_user pu rq) (\<lambda>u.
     bindOr (intent_param pu rq ''id'') (\<lambda>i.
     let b = (case rqBody rq of Inl e \<Rightarrow> \<lparr>rfbReason = [], rfbAmountMinor = 0\<rparr> | Inr b \<Rightarrow> b) in
     reply 200 IntentData 400 ''REFUND_FAILED''
       (InitiateRefund (phSvc h) i u (rfbAmountMinor b) (rfbReason b))))"

definition http_VerifyIntent ::
  "'g PaymentsHandler \<Rightarrow> (string \<Rightarrow> uuid option) \<Rightarrow> verifyBody http_request \<Rightarrow> ('g paysvc, payments_data) handler" where
  "http_VerifyIntent h pu rq =
     bindOr (intent_param pu rq ''id'') (\<lambda>i.
     bindOr (bind_body rq) (\<lambda>b.
     reply 200 VerifyData 400 ''VERIFY_FAILED''
       (VerifyIntent (phSvc h) i (vfbOrderID b) (vfbPaymentID b) (vfbSignature b) (vfbAmountMinor b))))"

definition http_ListByReference ::
  "(string \<Rightarrow> uuid option) \<Rightarrow> unit http_request \<Rightarrow> ('g paysvc, payments_data) handler" where
  "http_ListByReference pu rq =
     bindOr (intent_user pu rq) (\<lambda>_.
     let refType = rqQuery rq ''ref_type''; refIDStr = rqQuery rq ''ref_id'' in
     if refType = [] \<or> refIDStr = []
     then answer (ErrorWithContext 400 ''MISSING_PARAMS'' ''ref_type and ref_id required'')
     else (case pu refIDStr of
         None \<Rightarrow> answer (ErrorWithContext 400 ''INVALID_REF_ID'' ''invalid ref_id'')
       | Some refID \<Rightarrow> reply 200 IntentsData 500 ''FETCH_FAILED'' (ListByReference refType refID)))"

definition http_ReleaseHold ::
  "(string \<Rightarrow> uuid option) \<Rightarrow> unit http_request \<Rightarrow> ('g paysvc, payments_data) handler" where
  "http_ReleaseHold pu rq =
     bindOr (intent_param pu rq ''intentId'') (\<lambda>i w.
       case ReleaseHold pu i (GetHeader rq ''X-User-Id'') w of
         (Inl e, w') \<Rightarrow> (ErrorWithContext 400 ''HOLD_RELEASE_FAILED'' (err_msg e), w')
       | (Inr _, w') \<Rightarrow> (status_only 204, w'))"

section \<open>The webhook\<close>

definition verifyRazorpaySignature :: "string \<Rightarrow> string \<Rightarrow> string \<Rightarrow> bool" where
  "verifyRazorpaySignature body signature secret \<longleftrightarrow> signature \<noteq> [] \<and> hmac_hex secret body = signature"

text \<open>The envelope is decoded strictly, the entities in its payload leniently.\<close>

record razorpay_event =
  rzeEvent :: string
  rzeEventID :: string
  rzePaymentID :: string
  rzeOrderID :: string
  rzeRefundID :: string
  rzeRefundAmount :: int

definition unmarshal_razorpay_event :: "json \<Rightarrow> razorpay_event option" where
  "unmarshal_razorpay_event j = do {
     ev \<leftarrow> json_field ''event'' as_str [] j;
     eid \<leftarrow> json_field ''id'' as_str [] j;
     (let payload = member ''payload'' (Some j);
          payment = member ''entity'' (member ''payment'' payload);
          refund = member ''entity'' (member ''refund'' payload)
      in Some \<lparr>rzeEvent = ev, rzeEventID = eid, rzePaymentID = lenient ''id'' as_str [] payment,
           rzeOrderID = lenient ''order_id'' as_str [] payment, rzeRefundID = lenient ''id'' as_str [] refund,
           rzeRefundAmount = lenient ''amount'' as_int64 0 refund\<rparr>) }"

text \<open>What an event that is not a duplicate does.\<close>

definition dispatch_event :: "razorpay_event \<Rightarrow> ('g paysvc, unit) io" where
  "dispatch_event ev =
     (if rzeEvent ev = ''payment.captured''
      then UpdateStatusByProviderRef (rzeOrderID ev) ''succeeded'' (rzePaymentID ev)
      else if rzeEvent ev = ''payment.failed''
      then UpdateStatusByProviderRef (rzeOrderID ev) ''failed'' (rzePaymentID ev)
      else if rzeEvent ev = ''refund.processed'' \<or> rzeEvent ev = ''refund.created''
      then ApplyWebhookRefund (rzeOrderID ev) (rzeRefundID ev) (rzeRefundAmount ev)
      else ok ())"

text \<open>An error of the duplicate check is logged; the flag it returns with is then \<open>False\<close>.\<close>

definition handle_event :: "razorpay_event \<Rightarrow> ('g paysvc, unit) io" where
  "handle_event ev =
     attempt (MarkWebhookSeen (rzeEventID ev) (rzeEvent ev) (rzeOrderID ev)) (\<lambda>r.
       let fresh = (case r of Inl e \<Rightarrow> False | Inr f \<Rightarrow> f) in
       if \<not> fresh then ok () else dispatch_event ev)"

text \<open>The body is read as text, for the signature, with the JSON value it parses to.\<close>

definition HandleWebhook ::
  "'g PaymentsHandler \<Rightarrow> (string \<times> json option) http_request \<Rightarrow> ('g paysvc, payments_data) handler" where
  "HandleWebhook h rq = (case rqBody rq of
     Inl e \<Rightarrow> answer (status_only 400)
   | Inr (body, j) \<Rightarrow>
       if phWebhookSecret h \<noteq> []
         \<and> \<not> verifyRazorpaySignature body (GetHeader rq ''X-Razorpay-Signature'') (phWebhookSecret h)
       then answer (status_only 401)
       else (case Option.bind j unmarshal_razorpay_event of
           None \<Rightarrow> answer (status_only 400)
         | Some ev \<Rightarrow> (\<lambda>w. (status_only 200, snd (handle_event ev w)))))"

section \<open>Routing\<close>

text \<open>The gate is installed only when a key is configured.\<close>

definition v1_group :: "string \<Rightarrow> 'b http_request \<Rightarrow> ('w, 'd) handler \<Rightarrow> ('w, 'd) handler" where
  "v1_group key rq next = (if key \<noteq> [] then internal_group key rq next else next)"

datatype payments_call =
    POST_webhook "(string \<times> json option) http_request"
  | POST_intents "initiateBody http_request"
  | GET_intent "unit http_request"
  | PATCH_intent_status "statusBody http_request"
  | POST_intent_verify "verifyBody http_request"
  | POST_intent_refund "refundBody http_request"
  | GET_intents "unit http_request"
  | POST_hold_release "unit http_request"

fun ps_RegisterRoutes ::
  "'g PaymentsHandler \<Rightarrow> (string \<Rightarrow> uuid option) \<Rightarrow> payments_call \<Rightarrow> ('g paysvc, payments_data) handler" where
  "ps_RegisterRoutes h pu (POST_webhook rq) = HandleWebhook h rq"
| "ps_RegisterRoutes h pu (POST_intents rq) = v1_group (phInternalKey h) rq (http_InitiatePayment h pu rq)"
| "ps_RegisterRoutes h pu (GET_intent rq) = v1_group (phInternalKey h) rq (http_GetIntent pu rq)"
| "ps_RegisterRoutes h pu (PATCH_intent_status rq) = v1_group (phInternalKey h) rq (http_UpdateStatus pu rq)"
| "ps_RegisterRoutes h pu (POST_intent_verify rq) = v1_group (phInternalKey h) rq (http_VerifyIntent h pu rq)"
| "ps_RegisterRoutes h pu (POST_intent_refund rq) = v1_group (phInternalKey h) rq (http_InitiateRefund h pu rq)"
| "ps_RegisterRoutes h pu (GET_intents rq) = v1_group (phInternalKey h) rq (http_ListByReference pu rq)"
| "ps_RegisterRoutes h pu (POST_hold_release rq) = v1_group (phInternalKey h) rq (http_ReleaseHold pu rq)"

section \<open>Start-up (main.go)\<close>

text \<open>Which gateway and secrets the process runs with, by its environment variables; \<open>None\<close> is
  \<^verbatim>\<open>os.Exit(1)\<close>.\<close>

datatype gateway_choice = UseRazorpay RazorpayGateway | UseStub

definition select_gateway :: "(string \<Rightarrow> string) \<Rightarrow> gateway_choice option" where
  "select_gateway getenv =
     (if getenv ''RAZORPAY_KEY_ID'' \<noteq> []
      then Some (UseRazorpay \<lparr>rzpKeyID = getenv ''RAZORPAY_KEY_ID'', rzpKeySecret = getenv ''RAZORPAY_KEY_SECRET''\<rparr>)
      else if getenv ''PAYMENTS_ALLOW_STUB'' = ''true'' then Some UseStub
      else None)"

definition payments_config :: "(string \<Rightarrow> string) \<Rightarrow> (gateway_choice \<times> string \<times> string) option" where
  "payments_config getenv = (case select_gateway getenv of
     None \<Rightarrow> None
   | Some gw \<Rightarrow>
       let webhookSecret = getenv ''RAZORPAY_WEBHOOK_SECRET'' in
       if webhookSecret = [] \<and> getenv ''PAYMENTS_ALLOW_STUB'' \<noteq> ''true'' then None
       else Some (gw, webhookSecret, getenv ''INTERNAL_SERVICE_KEY''))"

lemmas payments_http_eval [go_eval] =
  status_only_def reply_def intent_user_def intent_param_def uuid_or_nil_def http_InitiatePayment_def
  http_GetIntent_def http_UpdateStatus_def http_InitiateRefund_def http_VerifyIntent_def
  http_ListByReference_def http_ReleaseHold_def unmarshal_razorpay_event_def dispatch_event_def
  handle_event_def HandleWebhook_def v1_group_def

end
