(* ===== verification/Payments_System.thy ===== *)
theory Payments_System
  imports Payments_Http
begin

text \<open>
  payments-service as a whole, one request or one store call of a concurrent request after the
  other (\<open>ps_step\<close>). \<open>intents_invariant\<close> lists what a predicate on the intents and their audit log
  has to survive, statement by statement of \<^verbatim>\<open>store.go\<close>, for every step to keep it.
\<close>

section \<open>Frames\<close>

definition books :: "'g paysvc \<Rightarrow> PaymentIntent list \<times> AuditEntry list" where
  "books w = (intents w, audit_log w)"

lemma env_blind_books [simp]: "env_blind books"
  by (simp add: env_blind_def books_def)

lemma books_simps [simp]:
  "books (w\<lparr>net := ns\<rparr>) = books w" "books (w\<lparr>idctr := n\<rparr>) = books w" "books (w\<lparr>clock := t\<rparr>) = books w"
  "books (w\<lparr>idgen := g\<rparr>) = books w" "books (w\<lparr>holds := hs\<rparr>) = books w"
  "books (w\<lparr>webhook_events := es\<rparr>) = books w" "books (w\<lparr>refunds_applied := rs\<rparr>) = books w"
  "books (w\<lparr>intent_events := evs\<rparr>) = books w" "books (w\<lparr>gateway_side := gs\<rparr>) = books w"
  by (simp_all add: books_def)

text \<open>Operations that change neither an intent nor the audit log.\<close>

lemma stable_gateway [stable_intros]: "stable books (on_gateway m)"
  by (rule stableI) (auto simp: on_gateway_def split: prod.splits)

lemma stable_publish [stable_intros]: "stable books (publishEvent t k p)"
  unfolding publishEvent_def by (intro stable_intros stable_db_call stable_modify) simp_all

lemma stable_scan [stable_intros]: "stable books (scan_one q)"
  unfolding scan_one_def by (intro stable_intros stable_db_call) simp

lemma stable_reads [stable_intros]:
  "stable books (store_GetIntent i)" "stable books (GetIntentByProviderRef ref)"
  "stable books (store_ListByReference t r)"
  unfolding store_GetIntent_def GetIntentByProviderRef_def store_ListByReference_def
  by (intro stable_intros stable_db_call; simp)+

lemma stable_uuid [stable_intros]: "stable books gen_random_uuid"
  by (rule stable_gen_random_uuid) simp

lemma stable_inserts [stable_intros]:
  "stable books (RecordRefundIfFresh ref i a)" "stable books (RecordWebhookEventIfNew e t r)"
  "stable books (CreateHold i a c d)" "stable books (store_ReleaseHold i by0)"
proof -
  show "stable books (RecordRefundIfFresh ref i a)" "stable books (RecordWebhookEventIfNew e t r)"
    unfolding RecordRefundIfFresh_def RecordWebhookEventIfNew_def
    by (intro stable_intros stable_db_call stableI; auto split: if_splits)+
  show "stable books (CreateHold i a c d)"
    unfolding CreateHold_def
    by (intro stable_intros stable_db_call) (auto intro!: stableI split: if_splits)
  show "stable books (store_ReleaseHold i by0)"
    unfolding store_ReleaseHold_def
    by (intro stable_intros stable_db_call stableI) auto
qed

lemma stable_services [stable_intros]:
  "stable books (gateway_order sv m a k)" "stable books (refund_at_gateway sv p a)"
  "stable books (ReleaseHold pu i by0)" "stable books (MarkWebhookSeen e t r)"
  "stable books (GetIntent i)" "stable books (ListByReference t j)"
  unfolding gateway_order_def refund_at_gateway_def ReleaseHold_def MarkWebhookSeen_def GetIntent_def
    ListByReference_def Let_def
  by (intro stable_intros)+

section \<open>Steps\<close>

text \<open>
  A step is a request on any route that \<open>allow\<close> admits, one store call of a request that runs
  concurrently, or a move of the environment: the network's plans, the clock, the provider. The
  store calls that depend on an earlier read come with what stays true of that read: a refund is
  applied with the amount of the intent as its cap. The others are complete requests themselves or
  touch neither intents nor audit log.
\<close>

inductive ps_step ::
  "(payments_call \<Rightarrow> bool) \<Rightarrow> 'g PaymentsHandler \<Rightarrow> (string \<Rightarrow> uuid option) \<Rightarrow>
     'g paysvc \<Rightarrow> 'g paysvc \<Rightarrow> bool" for allow h pu where
  request: "allow c \<Longrightarrow> ps_step allow h pu w (snd (ps_RegisterRoutes h pu c w))"
| concurrent_refund: "p \<in> set (intents w) \<Longrightarrow>
    ps_step allow h pu w (snd (ApplyRefund (piID p) amount (AmountMinor p) actor w))"
| concurrent_verify: "ps_step allow h pu w (snd (store_UpdateStatus i ''pending'' ''succeeded'' ref actor w))"
| network: "ps_step allow h pu w (w\<lparr>net := ns\<rparr>)"
| tick: "0 \<le> dt \<Longrightarrow> ps_step allow h pu w (w\<lparr>clock := clock w + dt\<rparr>)"
| provider_moves: "ps_step allow h pu w (w\<lparr>gateway_side := gs\<rparr>)"

inductive_cases ps_stepE: "ps_step allow h pu w w'"

definition ps_run ::
  "(payments_call \<Rightarrow> bool) \<Rightarrow> 'g PaymentsHandler \<Rightarrow> (string \<Rightarrow> uuid option) \<Rightarrow>
     'g paysvc \<Rightarrow> 'g paysvc \<Rightarrow> bool" where
  "ps_run allow h pu = (ps_step allow h pu)\<^sup>*\<^sup>*"

definition ps_initial :: "'g paysvc \<Rightarrow> bool" where
  "ps_initial w \<longleftrightarrow> intents w = [] \<and> audit_log w = [] \<and> holds w = [] \<and> webhook_events w = []
     \<and> refunds_applied w = [] \<and> intent_events w = []"

section \<open>Invariants of the intents and their log\<close>

locale intents_invariant =
  fixes I :: "'g paysvc \<Rightarrow> bool"
    and allow :: "payments_call \<Rightarrow> bool"
  assumes framed: "books w' = books w \<Longrightarrow> I w \<Longrightarrow> I w'"
    and create: "0 < piAmountMinorRaw inp \<Longrightarrow> piRefundedAmountMinor inp = 0 \<Longrightarrow> keeps I (CreateIntent num inp)"
    and refund: "I w \<Longrightarrow> p \<in> set (intents w) \<Longrightarrow>
      I (snd (ApplyRefund (piID p) amount (AmountMinor p) actor w))"
    and by_ref: "st \<in> {''succeeded'', ''failed''} \<Longrightarrow> keeps I (store_UpdateStatusByProviderRef ref st pid)"
    and verified: "keeps I (store_UpdateStatus i ''pending'' ''succeeded'' ref actor)"
    and patched: "allow (PATCH_intent_status rq) \<Longrightarrow> keeps I (store_UpdateStatus i old new ref actor)"
begin

lemma keeps_stable: "stable books m \<Longrightarrow> keeps I m"
  by (rule keepsI) (metis stableD framed)

text \<open>An intent that was read is still there when nothing in between touched the books.\<close>

lemma read_then:
  assumes read: "\<And>w r w'. I w \<Longrightarrow> m w = (Inr r, w') \<Longrightarrow> r \<in> set (intents w') \<and> C r"
    and st: "stable books m"
    and k: "\<And>p. C p \<Longrightarrow> triple (\<lambda>w. I w \<and> p \<in> set (intents w)) (f p) (\<lambda>_. I) (\<lambda>_. I)"
  shows "keeps I (andThen m f)" "(\<And>e. keeps I (g (Inl e))) \<Longrightarrow> (\<And>p. g (Inr p) = f p) \<Longrightarrow> keeps I (attempt m g)"
proof -
  have 1: "triple I m (\<lambda>p w. (I w \<and> p \<in> set (intents w)) \<and> C p) (\<lambda>_. I)"
    by (rule tripleI) (use read stableD [OF st] framed in blast)+
  have 2: "triple (\<lambda>w. (I w \<and> p \<in> set (intents w)) \<and> C p) (f p) (\<lambda>_. I) (\<lambda>_. I)" for p
    by (rule triple_pure) (rule k)
  show "keeps I (andThen m f)"
    by (subst keeps_triple [symmetric], rule triple_andThen [OF 1]) (rule 2)
  show "keeps I (attempt m g)" if "\<And>e. keeps I (g (Inl e))" "\<And>p. g (Inr p) = f p"
    by (subst keeps_triple [symmetric], rule triple_attempt_split [OF 1]) (use that 2 in \<open>simp_all add: keeps_triple\<close>)
qed

lemma member_stable:
  "stable books m \<Longrightarrow> keeps (\<lambda>w. I w \<and> p \<in> set (intents w)) m"
  by (rule keepsI) (metis stableD framed books_def fst_conv)

lemma refund_member:
  "triple (\<lambda>w. I w \<and> p \<in> set (intents w)) (ApplyRefund (piID p) amount (AmountMinor p) actor) (\<lambda>_. I) (\<lambda>_. I)"
proof (rule tripleI)
  show "I w'" if "I w \<and> p \<in> set (intents w)" "ApplyRefund (piID p) amount (AmountMinor p) actor w = (Inr r, w')" for w r w'
    using refund [of w p amount actor] that by simp
  show "I w'" if "I w \<and> p \<in> set (intents w)" "ApplyRefund (piID p) amount (AmountMinor p) actor w = (Inl e, w')" for w e w'
    using refund [of w p amount actor] that by simp
qed

lemma keeps_InitiatePayment: "keeps I (InitiatePayment sv i)"
proof -
  have "0 < m" if "resolve_amount i = Inr (m, x)" for m x
    using that by (auto simp: resolve_amount_def Let_def split: if_splits)
  then have "keeps I (CreateIntent num (new_intent i m x ref key))" if "resolve_amount i = Inr (m, x)" for m x num ref key
    using that by (intro create) (auto simp: new_intent_def)
  then show ?thesis
    unfolding InitiatePayment_def case_prod_unfold
    by (intro keeps_intros; auto intro!: keeps_stable stable_intros keeps_intros)
qed

lemma resolve_cap: "resolveRefundAmount p actor a = Inr (m, cap) \<Longrightarrow> cap = AmountMinor p"
  by (auto simp: resolveRefundAmount_def Let_def split: if_splits)

lemma keeps_InitiateRefund: "keeps I (InitiateRefund sv i actor a reason)"
  unfolding InitiateRefund_def
proof (rule read_then(1) [where C = "\<lambda>p. piID p = i"])
  show "stable books (store_GetIntent i)" by (rule stable_intros)
  show "r \<in> set (intents w') \<and> piID r = i" if "store_GetIntent i w = (Inr r, w')" for w r w'
  proof -
    have "intents w' = intents w"
      using stableD [OF stable_reads(1) that] by (simp add: books_def)
    with that show ?thesis
      by (auto simp: store_GetIntent_def scan_one_def andThen_def fail_def ok_def db_call_def get_def find_Some_iff
          split: prod.splits sum.splits option.splits list.splits outcome.splits)
  qed
  show "triple (\<lambda>w. I w \<and> p \<in> set (intents w)) (case resolveRefundAmount p actor a of
       Inl e \<Rightarrow> fail e
     | Inr (m, cap) \<Rightarrow> andThen (ApplyRefund i m cap actor) (\<lambda>r.
         andThen (refund_at_gateway sv p m) (\<lambda>_.
         let q = refunded_intent p r in
         andThen (publishEvent ''payment.refunded'' (uuid_string actor) (IntentPayload q)) (\<lambda>_. ok q)))) (\<lambda>_. I) (\<lambda>_. I)"
    if "piID p = i" for p
  proof (cases "resolveRefundAmount p actor a")
    case (Inr mc)
    obtain m cap where mc: "mc = (m, cap)" by (cases mc)
    show ?thesis
      unfolding Inr mc sum.case prod.case that [symmetric] resolve_cap [OF Inr [unfolded mc]] Let_def
      by (rule triple_andThen [OF refund_member]) (unfold keeps_triple, intro keeps_intros keeps_stable stable_intros)
  qed (simp add: triple_def fail_def)
qed

lemma read_by_ref:
  assumes "GetIntentByProviderRef ref w = (Inr p, w')"
  shows "p \<in> set (intents w')"
proof -
  have "p \<in> set (intents w)"
    using assms
    by (auto simp: GetIntentByProviderRef_def require_def scan_one_def andThen_def fail_def ok_def db_call_def get_def
        latest_with_ref_def split: prod.splits sum.splits option.splits list.splits outcome.splits if_splits
        dest!: arg_cong [where f = set])
  with stableD [OF stable_reads(2) assms] show ?thesis by (simp add: books_def)
qed

lemma keeps_ApplyWebhookRefund: "keeps I (ApplyWebhookRefund ref rref a)"
  unfolding ApplyWebhookRefund_def Let_def
proof (rule keeps_if [OF keeps_ok read_then(2) [where C = "\<lambda>_. True", rotated]])
  show "stable books (GetIntentByProviderRef ref)" by (rule stable_intros)
  fix p
  let ?P = "\<lambda>w. I w \<and> p \<in> set (intents w)"
  have rec0: "keeps ?P (RecordRefundIfFresh rref (piID p) a)" for a
    by (intro member_stable stable_intros)
  show "triple ?P (attempt (RecordRefundIfFresh rref (piID p) a) (\<lambda>f. case f of
          Inl e \<Rightarrow> ok ()
        | Inr fresh \<Rightarrow> if \<not> fresh then ok ()
            else if a > wrap64 (AmountMinor p - piRefundedAmountMinor p) then ok ()
              else attempt (ApplyRefund (piID p) a (AmountMinor p) 0) (\<lambda>r. case r of
                Inl e \<Rightarrow> ok ()
              | Inr res \<Rightarrow> publishEvent ''payment.refunded'' [] (IntentPayload (refunded_intent p res))))) (\<lambda>_. I) (\<lambda>_. I)"
    by (rule triple_attempt [OF rec0 [folded keeps_triple]])
      (auto intro!: triple_ok triple_attempt [OF refund_member] keeps_stable stable_intros
        simp: keeps_triple split: sum.split)
qed (auto dest: read_by_ref intro: keeps_ok)

lemma keeps_handle_event: "keeps I (handle_event ev)"
  unfolding handle_event_def dispatch_event_def UpdateStatusByProviderRef_def Let_def
  by (intro keeps_intros keeps_ApplyWebhookRefund by_ref; (intro keeps_stable stable_intros keeps_intros)?) simp_all

lemma keeps_VerifyIntent: "keeps I (VerifyIntent sv i ord pid sig a)"
  unfolding VerifyIntent_def Let_def
  by (intro keeps_intros verified keeps_stable stable_intros)

lemma reply_keeps: "keeps I m \<Longrightarrow> I w \<Longrightarrow> I (snd (reply a f b c m w))"
  by (auto simp: reply_def split: prod.split sum.split dest: keepsD2)

lemma bindOr_keeps: "(\<And>x. I (snd (k x w))) \<Longrightarrow> I w \<Longrightarrow> I (snd (bindOr r k w))"
  by (cases r) simp_all

lemma v1_group_keeps: "I (snd (next w)) \<Longrightarrow> I w \<Longrightarrow> I (snd (v1_group key rq next w))"
  by (auto simp: v1_group_def internal_group_def RequireInternalKey_def)

lemma routes_keep:
  assumes "allow c" "I w"
  shows "I (snd (ps_RegisterRoutes h pu c w))"
proof (cases c)
  case (POST_webhook rq)
  then show ?thesis
    using assms by (auto simp: HandleWebhook_def intro: keepsD [OF keeps_handle_event] split: sum.split option.split prod.split)
next
  case (POST_intents rq)
  then show ?thesis
    using assms by (auto simp: http_InitiatePayment_def intro!: v1_group_keeps bindOr_keeps reply_keeps keeps_andThen
        keeps_InitiatePayment keeps_stable [OF stable_uuid] keeps_ok)
next
  case (GET_intent rq)
  have "I w'" if "GetIntent i w = (r, w')" for i r w'
    using keepsD2 [OF keeps_stable [OF stable_services(5)] assms(2) that] .
  with GET_intent assms show ?thesis
    by (auto simp: http_GetIntent_def intro!: v1_group_keeps bindOr_keeps split: prod.split sum.split)
next
  case (PATCH_intent_status rq)
  then have "keeps I (UpdateStatus i old new ref actor)" for i old new ref actor
    unfolding UpdateStatus_def
    by (intro keeps_andThen patched [of rq] keeps_stable [OF stable_publish] keeps_stable [OF stable_reads(1)] keeps_ok)
      (use assms in simp)
  with PATCH_intent_status assms show ?thesis
    by (auto simp: http_UpdateStatus_def intro!: v1_group_keeps bindOr_keeps reply_keeps)
next
  case (POST_hold_release rq)
  have "I w'" if "ReleaseHold pu i by0 w = (r, w')" for i by0 r w'
    using keepsD2 [OF keeps_stable [OF stable_services(3)] assms(2) that] .
  with POST_hold_release assms show ?thesis
    by (auto simp: http_ReleaseHold_def intro!: v1_group_keeps bindOr_keeps split: prod.split sum.split)
qed (use assms in \<open>auto simp: http_VerifyIntent_def http_InitiateRefund_def http_ListByReference_def Let_def
    intro!: v1_group_keeps bindOr_keeps reply_keeps keeps_VerifyIntent keeps_InitiateRefund keeps_stable
      stable_services(6) split: option.split\<close>)

lemma step_keeps: "ps_step allow h pu w w' \<Longrightarrow> I w \<Longrightarrow> I w'"
  by (erule ps_stepE) (auto intro: routes_keep refund keepsD [OF verified] framed)

lemma run_keeps: "ps_run allow h pu w w' \<Longrightarrow> I w \<Longrightarrow> I w'"
  unfolding ps_run_def by (induction rule: rtranclp_induct) (auto intro: step_keeps)

end

end
