(* ===== verification/Payments_Ledger.thy ===== *)
theory Payments_Ledger
  imports Payments_System
begin

text \<open>
  The abstract ledger of payments-service: \<open>ledger_step\<close> says which single changes of the intents
  and their audit log there are. Every store call performs at most one of them, whatever the
  network does to its statements, so that every run of the service is a run of the ledger
  (\<open>payments_refine_ledger\<close>). Invariants are proved on the ledger and carried over.
\<close>

section \<open>The ledger\<close>

text \<open>What is true of an intent when it is inserted, and of an entry that books nothing.\<close>

definition fresh_intent :: "PaymentIntent list \<Rightarrow> PaymentIntent \<Rightarrow> bool" where
  "fresh_intent ps p \<longleftrightarrow> piID p \<notin> piID ` set ps \<and> piIdempotencyKey p \<notin> piIdempotencyKey ` set ps
     \<and> 0 < piAmountMinorRaw p \<and> piRefundedAmountMinor p = 0 \<and> piStatus p = ''pending''
     \<and> piMethod p \<in> set intent_methods"

definition plain_entry :: "PaymentIntent list \<Rightarrow> AuditEntry \<Rightarrow> bool" where
  "plain_entry ps a \<longleftrightarrow> audIntentID a \<in> piID ` set ps \<and> audMetadata a = None"

definition by_ref_rows :: "string \<Rightarrow> string \<Rightarrow> PaymentIntent \<Rightarrow> bool" where
  "by_ref_rows ref st p \<longleftrightarrow> piProviderRef p = ref \<and> piStatus p \<in> set (allowedCurrent st)"

definition by_id_rows :: "uuid \<Rightarrow> string \<Rightarrow> PaymentIntent \<Rightarrow> bool" where
  "by_id_rows i old p \<longleftrightarrow> piID p = i \<and> piStatus p = old"

definition set_status :: "string \<Rightarrow> string \<Rightarrow> int \<Rightarrow> PaymentIntent \<Rightarrow> PaymentIntent" where
  "set_status st ref now0 p = (refer ref now0 p)\<lparr>piStatus := st\<rparr>"

definition book_refund :: "int \<Rightarrow> int \<Rightarrow> int \<Rightarrow> PaymentIntent \<Rightarrow> PaymentIntent" where
  "book_refund tot cap now0 p = touch now0 (p\<lparr>piRefundedAmountMinor := tot, piStatus := refund_case tot cap\<rparr>)"

text \<open>\<open>manual\<close> says whether the status route is in use, which sets any status.\<close>

inductive ledger_step ::
  "bool \<Rightarrow> PaymentIntent list \<times> AuditEntry list \<Rightarrow> PaymentIntent list \<times> AuditEntry list \<Rightarrow> bool" for manual where
  new_intent: "fresh_intent ps p \<Longrightarrow> plain_entry (ps @ [p]) a \<Longrightarrow> ledger_step manual (ps, as) (ps @ [p], as @ [a])"
| noted: "plain_entry ps a \<Longrightarrow> ledger_step manual (ps, as) (ps, as @ [a])"
| by_reference: "st \<in> {''succeeded'', ''failed''} \<Longrightarrow>
    ledger_step manual (ps, as) (update_rows (by_ref_rows ref st) (set_status st pid now0) ps, as)"
| by_identity: "manual \<or> (old = ''pending'' \<and> st = ''succeeded'') \<Longrightarrow> st \<in> set intent_statuses \<Longrightarrow>
    plain_entry ps a \<Longrightarrow>
    ledger_step manual (ps, as) (update_rows (by_id_rows i old) (set_status st ref now0) ps, as @ [a])"
| refund_booked: "find (refundable_intent (piID p)) ps = Some q \<Longrightarrow> p \<in> set ps \<Longrightarrow> 0 < amount \<Longrightarrow>
    tot = piRefundedAmountMinor q + amount \<Longrightarrow> tot \<le> AmountMinor p \<Longrightarrow>
    ledger_step manual (ps, as)
      (update_rows (refundable_intent (piID p)) (book_refund tot (AmountMinor p) now0) ps,
       as @ [refund_entry (piID p) (refund_case tot (AmountMinor p)) actor amount tot now0])"

inductive_cases ledger_stepE: "ledger_step manual b b'"

lemma set_status_id [simp]: "piID (set_status st ref now0 p) = piID p"
  and book_refund_id [simp]: "piID (book_refund tot cap now0 p) = piID p"
  by (simp_all add: set_status_def refer_def touch_def book_refund_def)

section \<open>The store calls refine the ledger\<close>

lemma audit_InrE:
  assumes "db_call (\<lambda>w. sql_insert_audit (a (clock w)) w) w = (Inr x, w')"
  shows "intents w' = intents w" "audit_log w' = audit_log w @ [a (clock w)]"
    "audIntentID (a (clock w)) \<in> piID ` set (intents w)"
  using assms by (auto elim!: db_call_InrE simp: sql_insert_audit_def split: if_splits)

lemma update_InrE:
  assumes "db_call (sql_update_intents st c f) w = (Inr n, w')"
  shows "intents w' = update_rows c (\<lambda>p. (f (clock w) p)\<lparr>piStatus := st\<rparr>) (intents w)"
    "audit_log w' = audit_log w" "clock w' = clock w" "n = length (filter c (intents w))"
    "n \<noteq> 0 \<longrightarrow> st \<in> set intent_statuses"
  using assms by (auto elim!: db_call_InrE simp: sql_update_intents_def Let_def split: if_splits)

lemma insert_InrE:
  assumes "db_call (sql_insert_intent num i) w = (Inr p, w')" "0 < piAmountMinorRaw i" "piRefundedAmountMinor i = 0"
  obtains r where "r \<in> set (intents w)" "intents w' = intents w" "audit_log w' = audit_log w" "piID p = piID r"
    "clock w' = clock w"
  | q where "fresh_intent (intents w) q" "intents w' = intents w @ [q]" "audit_log w' = audit_log w"
    "piID p = piID q" "piCreatedAt p = clock w" "clock w' = clock w"
proof -
  obtain ns where ns: "sql_insert_intent num i (w\<lparr>net := ns\<rparr>) = (Inr p, w')"
    using assms(1) by (rule db_call_InrE)
  note m = ns [unfolded sql_insert_intent_def gen_random_uuid_def andThen_def Let_def, simplified]
  then obtain h where h: "num (piAmount i) = Some h" by (cases "num (piAmount i)") auto
  show ?thesis
  proof (cases "find (\<lambda>r. piIdempotencyKey r = piIdempotencyKey i) (intents w)")
    case (Some r)
    moreover have "r \<in> set (intents w)" using Some by (auto simp: find_Some_iff)
    ultimately show ?thesis using m h by (intro that(1) [of r]) (auto split: if_splits)
  next
    case None
    moreover have "piIdempotencyKey i \<notin> piIdempotencyKey ` set (intents w)"
      using None by (auto simp: find_None_iff)
    ultimately show ?thesis using m h assms(2,3)
      by (intro that(2) [of "intent_of_input i (idgen w (idctr w)) h (clock w)"])
        (auto simp: fresh_intent_def intent_of_input_def split: if_splits)
  qed
qed

lemma CreateIntent_ledger:
  assumes "CreateIntent num i w = (r, w')" "0 < piAmountMinorRaw i" "piRefundedAmountMinor i = 0"
  shows "books w' = books w \<or> ledger_step manual (books w) (books w')"
  using assms(1)[unfolded CreateIntent_def] env_blind_books
proof (cases rule: plain_tx_effect)
  case (2 ns x w1)
  from 2(1) obtain p wa where p: "db_call (sql_insert_intent num i) (w\<lparr>net := ns\<rparr>) = (Inr p, wa)"
    and q: "andThen (get clock) (\<lambda>now0.
      let old = now0 - piCreatedAt p > 1000000 in
      andThen (if old then ok () else db_call (\<lambda>w. sql_insert_audit (initiated_entry p (clock w)) w)) (\<lambda>_.
      ok \<lparr>cirIntent = p, cirWasExisting = old\<rparr>)) wa = (Inr x, w1)"
    by (rule andThen_InrE)
  from q have rest: "andThen (if clock wa - piCreatedAt p > 1000000 then ok () else
      db_call (\<lambda>w. sql_insert_audit (initiated_entry p (clock w)) w))
      (\<lambda>_. ok \<lparr>cirIntent = p, cirWasExisting = clock wa - piCreatedAt p > 1000000\<rparr>) wa = (Inr x, w1)"
    by (simp add: andThen_get Let_def)
  have tail: "(clock wa - piCreatedAt p > 1000000 \<and> books w1 = books wa)
      \<or> (intents w1 = intents wa \<and> audit_log w1 = audit_log wa @ [initiated_entry p (clock wa)]
          \<and> plain_entry (intents wa) (initiated_entry p (clock wa)))"
    using rest by (auto elim!: andThen_InrE dest: audit_InrE simp: ok_def plain_entry_def initiated_entry_def split: if_splits)
  from p assms(2,3) show ?thesis
  proof (cases rule: insert_InrE)
    case (1 q)
    then show ?thesis using tail 2(2) by (auto simp: books_def intro: noted)
  next
    case (2 q)
    then show ?thesis using tail \<open>books w' = books w1\<close> by (auto simp: books_def intro: new_intent)
  qed
qed simp

lemma store_UpdateStatus_ledger:
  assumes "store_UpdateStatus i old st ref actor w = (r, w')" "manual \<or> (old = ''pending'' \<and> st = ''succeeded'')"
  shows "books w' = books w \<or> ledger_step manual (books w) (books w')"
  using assms(1)[unfolded store_UpdateStatus_def] env_blind_books
proof (cases rule: plain_tx_effect)
  case (2 ns x w1)
  then obtain n wa where n: "db_call (sql_update_intents st (\<lambda>p. piID p = i \<and> piStatus p = old) (refer ref)) (w\<lparr>net := ns\<rparr>) = (Inr n, wa)"
    and a: "db_call (\<lambda>w. sql_insert_audit (changed_entry i old st actor (clock w)) w) wa = (Inr x, w1)" and "n \<noteq> 0"
    by (auto elim!: andThen_InrE require_InrE)
  note u = update_InrE [OF n] and v = audit_InrE [OF a]
  have "intents wa = update_rows (by_id_rows i old) (set_status st ref (clock w)) (intents w)"
    using u(1) by (simp add: by_id_rows_def [abs_def] set_status_def [abs_def])
  moreover have "piID ` set (update_rows (by_id_rows i old) (set_status st ref (clock w)) (intents w)) = piID ` set (intents w)"
    using map_update_rows [of "by_id_rows i old" piID "set_status st ref (clock w)" "intents w"]
    by (metis (no_types, lifting) list.set_map set_status_id)
  ultimately have "ledger_step manual (intents w, audit_log w)
      (intents wa, audit_log w @ [changed_entry i old st actor (clock wa)])"
    using assms(2) u(5) \<open>n \<noteq> 0\<close> v(3) by (auto intro!: by_identity simp: plain_entry_def changed_entry_def)
  then show ?thesis using 2(2) u(2) v by (simp add: books_def)
qed simp

lemma by_ref_ledger:
  fixes w :: "'a paysvc"
  assumes "store_UpdateStatusByProviderRef ref st pid w = (r, w')" "st \<in> {''succeeded'', ''failed''}"
  shows "books w' = books w \<or> ledger_step manual (books w) (books w')"
proof -
  have st: "allowedCurrent st \<noteq> []" using assms(2) by (auto simp: allowedCurrent_def validStatusTransitions_def)
  let ?u = "db_call (sql_update_intents st (by_ref_rows ref st) (refer pid))"
  obtain ru wu where u: "?u w = (ru, wu)" by force
  define k :: "nat \<Rightarrow> ('a paysvc, unit) io" where "k n = (if n \<noteq> 0 then ok () else
      attempt (db_call (get (\<lambda>w. length (filter (\<lambda>p. piProviderRef p = ref) (intents w))))) (\<lambda>r.
        case r of Inl e \<Rightarrow> fail ErrIntentNotFound
        | Inr cnt \<Rightarrow> fail (if cnt = 0 then ErrIntentNotFound else ErrInvalidStatusTransition)))" for n
  have "stable books (k n)" for n
    unfolding k_def by (intro stable_intros stable_db_call) simp
  moreover have "andThen ?u k w = (r, w')"
    using assms(1) st by (simp add: store_UpdateStatusByProviderRef_def require_def by_ref_rows_def [abs_def] k_def [abs_def])
  ultimately have w': "books w' = books wu"
    using stable_tail [of books k ?u w] u by simp
  from u show ?thesis
  proof (cases rule: db_call_cases)
    case (1 ns e)
    then show ?thesis using w' by simp
  next
    case (2 ns r')
    then have "books wu = books w \<or> intents wu = update_rows (by_ref_rows ref st) (set_status st pid (clock w)) (intents w)
        \<and> audit_log wu = audit_log w"
      by (auto simp: sql_update_intents_def Let_def set_status_def [abs_def] split: if_splits)
    then show ?thesis using w' assms(2) by (auto simp: books_def intro: by_reference)
  qed
qed

lemma ApplyRefund_ledger:
  assumes "ApplyRefund (piID p) amount (AmountMinor p) actor w = (r, w')" "p \<in> set (intents w)"
  shows "books w' = books w \<or> ledger_step manual (books w) (books w')"
proof (cases "amount > 0")
  case True
  then have "plain_tx (attempt (db_call (sql_apply_refund (piID p) amount (AmountMinor p))) (\<lambda>r. case r of
          Inl e \<Rightarrow> fail (if errors_is e pgx_ErrNoRows then ErrNotRefundable else e)
        | Inr (newStatus, tot) \<Rightarrow>
            andThen (db_call (\<lambda>w. sql_insert_audit (refund_entry (piID p) newStatus actor amount tot (clock w)) w)) (\<lambda>_.
            ok (newStatus, tot)))) w = (r, w')"
    using assms(1) by (simp add: ApplyRefund_def require_def)
  from this env_blind_books show ?thesis
  proof (cases rule: plain_tx_effect)
    case (2 ns x w1)
    then obtain st tot wa where s: "db_call (sql_apply_refund (piID p) amount (AmountMinor p)) (w\<lparr>net := ns\<rparr>) = (Inr (st, tot), wa)"
      and a: "db_call (\<lambda>w. sql_insert_audit (refund_entry (piID p) st actor amount tot (clock w)) w) wa = (Inr (), w1)"
      by (auto elim!: attempt_InrE andThen_InrE simp: fail_def ok_def split: sum.splits)
    from s obtain q where q: "find (refundable_intent (piID p)) (intents w) = Some q" "tot = piRefundedAmountMinor q + amount"
        "tot \<le> AmountMinor p" "st = refund_case tot (AmountMinor p)"
        "intents wa = update_rows (refundable_intent (piID p)) (book_refund tot (AmountMinor p) (clock w)) (intents w)"
        "audit_log wa = audit_log w" "clock wa = clock w"
      by (auto elim!: db_call_InrE simp: sql_apply_refund_def bigadd_Some book_refund_def [abs_def] split: option.splits if_splits)
    then show ?thesis using audit_InrE [OF a] 2(2) assms(2) True by (auto simp: books_def intro!: refund_booked)
  qed simp
qed (use assms in \<open>simp add: ApplyRefund_def require_def fail_def\<close>)

section \<open>Runs of the service are runs of the ledger\<close>

definition automatic :: "payments_call \<Rightarrow> bool" where
  "automatic c = (case c of PATCH_intent_status rq \<Rightarrow> False | _ \<Rightarrow> True)"

lemma ledger_invariant:
  assumes step: "\<And>b b'. J b \<Longrightarrow> ledger_step manual b b' \<Longrightarrow> J b'"
    and manual: "\<And>rq. allow (PATCH_intent_status rq) \<Longrightarrow> manual"
  shows "intents_invariant (\<lambda>w. J (books w)) allow"
proof
  have J: "J (books w')" if "J (books w)" "books w' = books w \<or> ledger_step manual (books w) (books w')"
    for w w' :: "'z paysvc"
    using that step by metis
  show "J (books w')" if "books w' = books w" "J (books w)" for w w' :: "'z paysvc"
    using that by simp
  show "keeps (\<lambda>w. J (books w)) (CreateIntent num i)" if "0 < piAmountMinorRaw i" "piRefundedAmountMinor i = 0" for num i
    by (rule keepsI) (use J CreateIntent_ledger that in blast)
  show "J (books (snd (ApplyRefund (piID p) a (AmountMinor p) actor w)))" if "J (books w)" "p \<in> set (intents w)"
    for w :: "'z paysvc" and p a actor
    by (rule J [OF that(1)], rule ApplyRefund_ledger [OF prod.collapse [symmetric] that(2)])
  show "keeps (\<lambda>w. J (books w)) (store_UpdateStatusByProviderRef ref st pid)" if "st \<in> {''succeeded'', ''failed''}" for ref st pid
    by (rule keepsI) (use J by_ref_ledger that in blast)
  show "keeps (\<lambda>w. J (books w)) (store_UpdateStatus i ''pending'' ''succeeded'' ref actor)" for i ref actor
    by (rule keepsI) (use J store_UpdateStatus_ledger in blast)
  show "keeps (\<lambda>w. J (books w)) (store_UpdateStatus i old new ref actor)" if "allow (PATCH_intent_status rq)" for rq i old new ref actor
    by (rule keepsI) (use J store_UpdateStatus_ledger manual [OF that] in blast)
qed

interpretation every_run: intents_invariant "\<lambda>w. (ledger_step True)\<^sup>*\<^sup>* b0 (books w)" allow for b0 allow
  by (rule ledger_invariant [where manual = True]) auto

interpretation automatic_run: intents_invariant "\<lambda>w. (ledger_step False)\<^sup>*\<^sup>* b0 (books w)" automatic for b0
  by (rule ledger_invariant [where manual = False]) (auto simp: automatic_def)

lemma runs_keep:
  assumes "J (books w)"
  shows "ps_run allow h pu w w' \<Longrightarrow> (\<And>b b'. J b \<Longrightarrow> ledger_step True b b' \<Longrightarrow> J b') \<Longrightarrow> J (books w')"
    and "ps_run automatic h pu w w' \<Longrightarrow> (\<And>b b'. J b \<Longrightarrow> ledger_step False b b' \<Longrightarrow> J b') \<Longrightarrow> J (books w')"
proof -
  have *: "(ledger_step m)\<^sup>*\<^sup>* b b' \<Longrightarrow> J b \<Longrightarrow> (\<And>b b'. J b \<Longrightarrow> ledger_step m b b' \<Longrightarrow> J b') \<Longrightarrow> J b'" for m b b'
    by (induction rule: rtranclp_induct) blast+
  show "J (books w')" if "ps_run allow h pu w w'" "\<And>b b'. J b \<Longrightarrow> ledger_step True b b' \<Longrightarrow> J b'"
    using every_run.run_keeps [OF that(1), of "books w"] assms that(2) * by blast
  show "J (books w')" if "ps_run automatic h pu w w'" "\<And>b b'. J b \<Longrightarrow> ledger_step False b b' \<Longrightarrow> J b'"
    using automatic_run.run_keeps [OF that(1), of "books w"] assms that(2) * by blast
qed

text \<open>C6: payments-service refines an abstract ledger: whatever sequence of requests, store calls of
  concurrent requests, lost replies and refused statements a run consists of, its intents and audit
  log change only by steps of the ledger, and as long as the status route is not used they change
  only by automatic steps: a new intent, a note, a settlement by provider reference, a verified
  pending intent, a booked refund.\<close>

theorem payments_refine_ledger:
  assumes "ps_run allow h pu w w'"
  shows "(ledger_step True)\<^sup>*\<^sup>* (books w) (books w')
    \<and> (allow = automatic \<longrightarrow> (ledger_step False)\<^sup>*\<^sup>* (books w) (books w'))"
  using every_run.run_keeps [OF assms, of "books w"] automatic_run.run_keeps [of h pu w w' "books w"] assms by auto

end
