(* ===== verification/Payments_Refunds.thy ===== *)
theory Payments_Refunds
  imports Payments_Ledger
begin

text \<open>
  What holds of the payment intents in every run: refunds are booked within the amount and the
  refunded total is the sum of the booked refunds; without the status route, statuses say what the
  totals say and move along the state machine of \<^verbatim>\<open>validStatusTransitions\<close>. Then the refund call
  itself: who may refund how much, and what one call does.
\<close>

section \<open>The books\<close>

definition entry_amount :: "uuid \<Rightarrow> AuditEntry \<Rightarrow> int" where
  "entry_amount i a = (if audIntentID a = i then (case audMetadata a of None \<Rightarrow> 0 | Some m \<Rightarrow> fst m) else 0)"

definition booked :: "uuid \<Rightarrow> AuditEntry list \<Rightarrow> int" where
  "booked i as = sum_rows (entry_amount i) as"

definition intent_ok :: "AuditEntry list \<Rightarrow> PaymentIntent \<Rightarrow> bool" where
  "intent_ok as p \<longleftrightarrow> 0 < piAmountMinorRaw p \<and> 0 \<le> piRefundedAmountMinor p
     \<and> piRefundedAmountMinor p \<le> piAmountMinorRaw p \<and> piRefundedAmountMinor p = booked (piID p) as
     \<and> piMethod p \<in> set intent_methods \<and> piStatus p \<in> set intent_statuses"

definition books_ok :: "PaymentIntent list \<times> AuditEntry list \<Rightarrow> bool" where
  "books_ok b \<longleftrightarrow> distinct (map piID (fst b)) \<and> distinct (map piIdempotencyKey (fst b))
     \<and> (\<forall>a \<in> set (snd b). audIntentID a \<in> piID ` set (fst b)) \<and> (\<forall>p \<in> set (fst b). intent_ok (snd b) p)"

lemma booked_append [simp]: "booked i (as @ [a]) = booked i as + entry_amount i a"
  by (simp add: booked_def)

lemma booked_none: "(\<And>a. a \<in> set as \<Longrightarrow> audIntentID a \<noteq> i) \<Longrightarrow> booked i as = 0"
  by (induction as) (auto simp: booked_def entry_amount_def)

lemma plain_entry_amount [simp]: "plain_entry ps a \<Longrightarrow> entry_amount i a = 0"
  by (simp add: plain_entry_def entry_amount_def)

lemma set_status_fields [simp]:
  "piAmountMinorRaw (set_status st ref t p) = piAmountMinorRaw p"
  "piRefundedAmountMinor (set_status st ref t p) = piRefundedAmountMinor p"
  "piMethod (set_status st ref t p) = piMethod p" "piIdempotencyKey (set_status st ref t p) = piIdempotencyKey p"
  "piPayerID (set_status st ref t p) = piPayerID p" "piPayeeID (set_status st ref t p) = piPayeeID p"
  "piReferenceType (set_status st ref t p) = piReferenceType p" "piReferenceID (set_status st ref t p) = piReferenceID p"
  "piStatus (set_status st ref t p) = st"
  by (simp_all add: set_status_def refer_def touch_def)

lemma book_refund_fields [simp]:
  "piAmountMinorRaw (book_refund tot cap t p) = piAmountMinorRaw p"
  "piRefundedAmountMinor (book_refund tot cap t p) = tot"
  "piMethod (book_refund tot cap t p) = piMethod p" "piIdempotencyKey (book_refund tot cap t p) = piIdempotencyKey p"
  "piPayerID (book_refund tot cap t p) = piPayerID p" "piPayeeID (book_refund tot cap t p) = piPayeeID p"
  "piReferenceType (book_refund tot cap t p) = piReferenceType p" "piReferenceID (book_refund tot cap t p) = piReferenceID p"
  "piStatus (book_refund tot cap t p) = refund_case tot cap"
  by (simp_all add: book_refund_def touch_def)

lemma keys_update:
  assumes "\<And>p. piID (f p) = piID p" "\<And>p. piIdempotencyKey (f p) = piIdempotencyKey p"
  shows "map piID (update_rows c f ps) = map piID ps"
    "map piIdempotencyKey (update_rows c f ps) = map piIdempotencyKey ps"
    "piID ` set (update_rows c f ps) = piID ` set ps"
proof -
  show 1: "map piID (update_rows c f ps) = map piID ps"
    "map piIdempotencyKey (update_rows c f ps) = map piIdempotencyKey ps"
    by (rule map_update_rows; simp add: assms)+
  show "piID ` set (update_rows c f ps) = piID ` set ps"
    using 1(1) by (metis list.set_map)
qed

lemma same_id:
  "distinct (map piID ps) \<Longrightarrow> p \<in> set ps \<Longrightarrow> q \<in> set ps \<Longrightarrow> piID p = piID q \<Longrightarrow> p = q"
  by (meson distinct_map inj_onD)

lemma find_refundable:
  "find (refundable_intent i) ps = Some q \<Longrightarrow> q \<in> set ps \<and> refundable_intent i q"
  by (auto simp: find_Some_iff)

lemma set_status_ok:
  "intent_ok as p \<Longrightarrow> st \<in> set intent_statuses \<Longrightarrow> intent_ok as (set_status st ref t p)"
  by (simp add: intent_ok_def)

lemma intent_ok_entry: "intent_ok as p \<Longrightarrow> entry_amount (piID p) a = 0 \<Longrightarrow> intent_ok (as @ [a]) p"
  by (simp add: intent_ok_def)

lemma books_ok_step:
  assumes "books_ok b" "ledger_step m b b'"
  shows "books_ok b'"
  using assms(2)
proof cases
  case (new_intent ps p a as)
  then have "booked (piID p) as = 0"
    using assms(1) by (intro booked_none) (metis books_ok_def fresh_intent_def fst_conv snd_conv)
  then show ?thesis
    using assms(1) new_intent by (auto simp: books_ok_def intent_ok_def fresh_intent_def plain_entry_def intent_statuses_def
        entry_amount_def)
next
  case (noted ps a as)
  then show ?thesis using assms(1) by (auto simp: books_ok_def intent_ok_def plain_entry_def entry_amount_def)
next
  case (by_reference st ps as ref pid now0)
  then have "st \<in> set intent_statuses" by (auto simp: intent_statuses_def)
  then show ?thesis
    using assms(1) by_reference by (auto simp: books_ok_def keys_update in_update_rows intro!: set_status_ok)
next
  case (by_identity old st ps a as i ref now0)
  then show ?thesis
    using assms(1)
    by (auto simp: books_ok_def keys_update in_update_rows plain_entry_def intro!: set_status_ok intent_ok_entry)
      (auto simp: entry_amount_def)
next
  case (refund_booked p ps q amount tot as now0 actor)
  then have q: "q \<in> set ps" "piID q = piID p" by (auto dest: find_refundable simp: refundable_intent_def)
  with assms(1) refund_booked have "q = p" by (auto simp: books_ok_def dest: same_id)
  let ?as = "as @ [refund_entry (piID p) (refund_case tot (AmountMinor p)) actor amount tot now0]"
  have other: "r = p" if "r \<in> set ps" "refundable_intent (piID p) r" for r
    using that assms(1) refund_booked by (auto simp: books_ok_def refundable_intent_def dest: same_id)
  have amt: "entry_amount j (refund_entry i st actor x y t) = (if i = j then x else 0)" for i j st x y t
    by (simp add: entry_amount_def refund_entry_def)
  have p: "intent_ok as p" and cap: "AmountMinor p = piAmountMinorRaw p"
    using assms(1) refund_booked by (auto simp: books_ok_def intent_ok_def AmountMinor_def)
  have rf: "refundable_intent (piID p) p" using refund_booked(3) \<open>q = p\<close> by (auto dest: find_refundable)
  have "intent_ok ?as r" if "r \<in> set (update_rows (refundable_intent (piID p)) (book_refund tot (AmountMinor p) now0) ps)" for r
  proof -
    from that obtain r0 where r0: "r0 \<in> set ps"
      "r = (if refundable_intent (piID p) r0 then book_refund tot (AmountMinor p) now0 r0 else r0)"
      by (auto simp: in_update_rows)
    show ?thesis
    proof (cases "refundable_intent (piID p) r0")
      case True
      with r0 other [OF r0(1) True] have "r = book_refund tot (AmountMinor p) now0 p" by simp
      with p cap refund_booked \<open>q = p\<close> show ?thesis
        by (auto simp: intent_ok_def amt refund_case_def intent_statuses_def)
    next
      case False
      then have "piID r0 \<noteq> piID p"
        using assms(1) refund_booked r0(1) rf by (auto simp: books_ok_def dest: same_id)
      moreover have "intent_ok as r0" using assms(1) refund_booked r0 by (auto simp: books_ok_def)
      ultimately show ?thesis using r0 False by (auto simp: intent_ok_def amt)
    qed
  qed
  then show ?thesis
    using assms(1) refund_booked by (auto simp: books_ok_def keys_update refund_entry_def)
qed

lemma books_ok_initial: "ps_initial w \<Longrightarrow> books_ok (books w)"
  by (simp add: ps_initial_def books_def books_ok_def)

lemma books_ok_run: "ps_initial w0 \<Longrightarrow> ps_run allow h pu w0 w \<Longrightarrow> books_ok (books w)"
  using runs_keep(1) [of books_ok w0, OF books_ok_initial] books_ok_step by blast

text \<open>C2: In every reachable state, with requests interleaved at their store calls and any failures of
  the network, the refunds booked against a payment intent stay between zero and its amount, and the
  refunded total on the intent is exactly the sum of the refunds in the audit log.\<close>

theorem refunds_stay_within_payment:
  assumes "ps_initial w0" "ps_run allow h pu w0 w" "p \<in> set (intents w)"
  shows "0 \<le> piRefundedAmountMinor p \<and> piRefundedAmountMinor p \<le> AmountMinor p
    \<and> piRefundedAmountMinor p = booked (piID p) (audit_log w) \<and> 0 < AmountMinor p"
  using books_ok_run [OF assms(1,2)] assms(3)
  by (auto simp: books_ok_def books_def intent_ok_def AmountMinor_def)

section \<open>Statuses\<close>

definition status_ok :: "PaymentIntent \<Rightarrow> bool" where
  "status_ok p \<longleftrightarrow>
     (piStatus p \<in> {''pending'', ''succeeded'', ''failed''} \<and> piRefundedAmountMinor p = 0)
     \<or> (piStatus p = ''partially_refunded'' \<and> 0 < piRefundedAmountMinor p \<and> piRefundedAmountMinor p < piAmountMinorRaw p)
     \<or> (piStatus p = ''refunded'' \<and> piRefundedAmountMinor p = piAmountMinorRaw p)"

definition statuses_ok :: "PaymentIntent list \<times> AuditEntry list \<Rightarrow> bool" where
  "statuses_ok b \<longleftrightarrow> books_ok b \<and> (\<forall>p \<in> set (fst b). status_ok p)"

definition open_status :: "string \<Rightarrow> bool" where
  "open_status st \<longleftrightarrow> st = ''pending'' \<or> st = ''processing''"

lemma by_ref_open:
  assumes "by_ref_rows ref st p" "st \<in> {''succeeded'', ''failed''}"
  shows "open_status (piStatus p)"
proof -
  have "set (allowedCurrent ''succeeded'') = {''pending'', ''processing''}"
    "set (allowedCurrent ''failed'') = {''pending'', ''processing''}"
    by (simp_all add: allowedCurrent_def validStatusTransitions_def)
  with assms show ?thesis by (auto simp only: by_ref_rows_def open_status_def)
qed

lemma status_ok_unrefunded: "status_ok p \<Longrightarrow> open_status (piStatus p) \<Longrightarrow> piRefundedAmountMinor p = 0"
  by (elim open_status_def [THEN iffD1, elim_format] disjE) (simp_all add: status_ok_def)

lemma status_ok_settled:
  assumes "status_ok p" "open_status (piStatus p)" "st \<in> {''succeeded'', ''failed''}"
  shows "status_ok (set_status st ref t p)"
  using status_ok_unrefunded [OF assms(1,2)] assms(3) by (simp add: status_ok_def)

lemma statuses_ok_step:
  assumes "statuses_ok b" "ledger_step False b b'"
  shows "statuses_ok b'"
proof -
  have b': "books_ok b'" using books_ok_step [OF _ assms(2)] assms(1) by (simp add: statuses_ok_def)
  from assms(2) have "\<forall>p \<in> set (fst b'). status_ok p"
  proof cases
    case (by_reference st ps as ref pid now0)
    have "status_ok r" if "r \<in> set ps" for r using that assms(1) by_reference by (simp add: statuses_ok_def)
    then show ?thesis
      using by_reference(3) by_ref_open status_ok_settled
      unfolding by_reference(2) fst_conv by (metis in_update_rows)
  next
    case (refund_booked p ps q amount tot as now0 actor)
    then have "q \<in> set ps" "refundable_intent (piID p) q" by (auto dest: find_refundable)
    with assms(1) refund_booked have "q = p" by (auto simp: statuses_ok_def books_ok_def refundable_intent_def dest: same_id)
    moreover have "intent_ok as p" using assms(1) refund_booked by (auto simp: statuses_ok_def books_ok_def)
    moreover have "status_ok (book_refund tot (AmountMinor p) now0 r)" if "r \<in> set ps" "refundable_intent (piID p) r" for r
    proof -
      have "r = p" using that assms(1) refund_booked by (auto simp: statuses_ok_def books_ok_def refundable_intent_def dest: same_id)
      then show ?thesis
        using \<open>intent_ok as p\<close> \<open>q = p\<close> refund_booked by (auto simp: status_ok_def refund_case_def intent_ok_def AmountMinor_def)
    qed
    ultimately show ?thesis
      using assms(1) refund_booked by (auto simp: statuses_ok_def in_update_rows)
  next
    case (by_identity old st ps a as i ref now0)
    have "status_ok r" if "r \<in> set ps" for r using that assms(1) by_identity by (simp add: statuses_ok_def)
    then have "status_ok (set_status st ref now0 r)" if "by_id_rows i old r" "r \<in> set ps" for r
      using that by_identity(3) status_ok_settled [of r st] by (simp add: by_id_rows_def open_status_def)
    then show ?thesis
      using assms(1) unfolding by_identity(1,2) statuses_ok_def fst_conv by (metis in_update_rows)
  qed (use assms(1) in \<open>auto simp: statuses_ok_def status_ok_def fresh_intent_def\<close>)
  with b' show ?thesis by (simp add: statuses_ok_def)
qed

text \<open>C14: As long as the status route is not used, the status of an intent says what has been
  refunded: nothing for a pending, succeeded or failed one, a part of the amount for a partially
  refunded one, all of it for a refunded one; no other status occurs.\<close>

theorem statuses_tell_the_refunds:
  assumes "ps_initial w0" "ps_run automatic h pu w0 w" "p \<in> set (intents w)"
  shows "status_ok p"
proof -
  have "statuses_ok (books w0)" using books_ok_initial [OF assms(1)] assms(1)
    by (simp add: statuses_ok_def ps_initial_def books_def)
  then have "statuses_ok (books w)"
    using runs_keep(2) [of statuses_ok w0] assms(2) statuses_ok_step by blast
  with assms(3) show ?thesis by (simp add: statuses_ok_def books_def)
qed

section \<open>The state machine\<close>

definition status_edge :: "string \<Rightarrow> string \<Rightarrow> bool" where
  "status_edge a b \<longleftrightarrow> (case map_of validStatusTransitions a of None \<Rightarrow> False | Some bs \<Rightarrow> b \<in> set bs)"

definition moved_on :: "PaymentIntent \<Rightarrow> PaymentIntent \<Rightarrow> bool" where
  "moved_on p q \<longleftrightarrow> piID q = piID p \<and> piPayerID q = piPayerID p \<and> piPayeeID q = piPayeeID p
     \<and> piReferenceType q = piReferenceType p \<and> piReferenceID q = piReferenceID p
     \<and> piAmountMinorRaw q = piAmountMinorRaw p \<and> piMethod q = piMethod p \<and> piIdempotencyKey q = piIdempotencyKey p
     \<and> piRefundedAmountMinor p \<le> piRefundedAmountMinor q \<and> status_edge\<^sup>*\<^sup>* (piStatus p) (piStatus q)"

lemma moved_on_refl: "moved_on p p"
  by (simp add: moved_on_def)

lemma moved_on_trans: "moved_on p q \<Longrightarrow> moved_on q r \<Longrightarrow> moved_on p r"
  by (auto simp: moved_on_def intro: rtranclp_trans)

lemma final_status: "status_edge\<^sup>*\<^sup>* a b \<Longrightarrow> a \<in> {''failed'', ''refunded'', ''cancelled''} \<Longrightarrow> b = a"
  by (erule converse_rtranclpE) (auto simp: status_edge_def validStatusTransitions_def)

definition rows_move_on :: "PaymentIntent list \<Rightarrow> PaymentIntent list \<times> AuditEntry list \<Rightarrow> bool" where
  "rows_move_on ps b \<longleftrightarrow> books_ok b \<and> (\<forall>p \<in> set ps. \<exists>q \<in> set (fst b). moved_on p q)"

lemma update_moves_on:
  assumes "\<And>q. q \<in> set qs \<Longrightarrow> c q \<Longrightarrow> moved_on q (f q)" "\<forall>p \<in> set ps. \<exists>q \<in> set qs. moved_on p q"
  shows "\<forall>p \<in> set ps. \<exists>q \<in> set (update_rows c f qs). moved_on p q"
proof
  fix p assume "p \<in> set ps"
  then obtain q where q: "q \<in> set qs" "moved_on p q" using assms(2) by blast
  then have "(if c q then f q else q) \<in> set (update_rows c f qs)" by (auto simp: in_update_rows)
  moreover have "moved_on p (if c q then f q else q)" using q assms(1) moved_on_trans by auto
  ultimately show "\<exists>q \<in> set (update_rows c f qs). moved_on p q" by blast
qed

lemma rows_move_on_step:
  assumes "rows_move_on ps b" "ledger_step False b b'"
  shows "rows_move_on ps b'"
proof -
  have b': "books_ok b'" using books_ok_step [OF _ assms(2)] assms(1) by (simp add: rows_move_on_def)
  have old: "\<forall>p \<in> set ps. \<exists>q \<in> set (fst b). moved_on p q" using assms(1) by (simp add: rows_move_on_def)
  from assms(2) have "\<forall>p \<in> set ps. \<exists>q \<in> set (fst b'). moved_on p q"
  proof cases
    case (by_reference st qs as ref pid now0)
    have "moved_on q (set_status st pid now0 q)" if "by_ref_rows ref st q" for q
      using that by_reference(3)
      by (auto simp: moved_on_def by_ref_rows_def allowedCurrent_def status_edge_def validStatusTransitions_def
          intro!: r_into_rtranclp)
    then show ?thesis using old by_reference by (auto intro!: update_moves_on [rule_format])
  next
    case (by_identity old0 st qs a as i ref now0)
    have "moved_on q (set_status st ref now0 q)" if "by_id_rows i old0 q" for q
      using that by_identity(3)
      by (auto simp: moved_on_def by_id_rows_def status_edge_def validStatusTransitions_def intro!: r_into_rtranclp)
    then show ?thesis using old by_identity by (auto intro!: update_moves_on [rule_format])
  next
    case (refund_booked p qs q amount tot as now0 actor)
    have "moved_on r (book_refund tot (AmountMinor p) now0 r)" if "r \<in> set qs" "refundable_intent (piID p) r" for r
    proof -
      have "r = q" using that refund_booked assms(1)
        by (auto simp: rows_move_on_def books_ok_def refundable_intent_def dest!: find_refundable dest: same_id)
      then show ?thesis
        using that refund_booked
        by (auto simp: moved_on_def refundable_intent_def refund_case_def status_edge_def validStatusTransitions_def
            intro!: r_into_rtranclp)
    qed
    then show ?thesis using old refund_booked by (auto intro!: update_moves_on [rule_format])
  qed (use old in auto)
  with b' show ?thesis by (simp add: rows_move_on_def)
qed

text \<open>C13: As long as the status route is not used, no intent is ever lost, its parties, amount, method,
  reference and key never change, its refunded total never shrinks, and its status only moves along
  the edges of \<^verbatim>\<open>validStatusTransitions\<close>; failed and refunded intents keep their status for good.\<close>

theorem intents_follow_the_machine:
  assumes "ps_initial w0" "ps_run automatic h pu w0 w" "ps_run automatic h pu w w'" "p \<in> set (intents w)"
  shows "\<exists>q \<in> set (intents w'). moved_on p q
    \<and> (piStatus p \<in> {''failed'', ''refunded''} \<longrightarrow> piStatus q = piStatus p)"
proof -
  have "rows_move_on (intents w) (books w)"
    using books_ok_run [OF assms(1,2)] moved_on_refl by (auto simp: rows_move_on_def books_def)
  then have "rows_move_on (intents w) (books w')"
    using runs_keep(2) [of "rows_move_on (intents w)" w] assms(3) rows_move_on_step by blast
  then obtain q where "q \<in> set (intents w')" "moved_on p q"
    using assms(4) by (auto simp: rows_move_on_def books_def)
  then show ?thesis using final_status by (auto simp: moved_on_def)
qed

end
