(* ===== verification/Payments_Behaviour.thy ===== *)
theory Payments_Behaviour
  imports Payments_Refunds
begin

text \<open>
  What single calls of payments-service do: a refund and a verification, an initiation and its
  replay, and the conversion of amounts. The gateway is arbitrary; the network is arbitrary where a
  statement does not say that it is quiet.
\<close>

section \<open>Reading with a quiet network\<close>

lemma quiet_GetIntent:
  "net w = [] \<Longrightarrow> distinct (map piID (intents w)) \<Longrightarrow> p \<in> set (intents w) \<Longrightarrow> store_GetIntent (piID p) w = (Inr p, w)"
proof -
  assume a: "net w = []" "distinct (map piID (intents w))" "p \<in> set (intents w)"
  obtain q where q: "find (\<lambda>q. piID q = piID p) (intents w) = Some q"
    using a(3) by (cases "find (\<lambda>q. piID q = piID p) (intents w)") (auto simp: find_None_iff)
  then have "q \<in> set (intents w)" "piID q = piID p" by (auto simp: find_Some_iff)
  with a q have "q = p" by (auto dest: same_id)
  with a q show ?thesis by (simp add: store_GetIntent_def scan_one_def andThen_def get_def ok_def)
qed

lemma read_intent:
  assumes "store_GetIntent i w = (Inr p, w')"
  shows "p \<in> set (intents w)" "piID p = i" "books w' = books w"
proof -
  show "p \<in> set (intents w)" "piID p = i"
    using assms
    by (auto simp: store_GetIntent_def scan_one_def andThen_def fail_def ok_def db_call_def get_def find_Some_iff
        split: prod.splits sum.splits option.splits list.splits outcome.splits)
  show "books w' = books w" using stableD [OF stable_reads(1) assms] .
qed

lemma find_refundable_row:
  assumes "distinct (map piID ps)" "p \<in> set ps" "refundable_intent (piID p) p"
  shows "find (refundable_intent (piID p)) ps = Some p"
proof -
  obtain q where q: "find (refundable_intent (piID p)) ps = Some q"
    using assms by (cases "find (refundable_intent (piID p)) ps") (auto simp: find_None_iff)
  with assms have "q = p" by (auto dest!: find_refundable dest: same_id simp: refundable_intent_def)
  with q show ?thesis by simp
qed

lemma publish_runs:
  "net w = [] \<Longrightarrow> publishEvent t k p w = (Inr (), w\<lparr>intent_events := intent_events w @ [\<lparr>ievType = t, ievKey = k, ievPayload = p\<rparr>]\<rparr>)"
  by (simp add: publishEvent_def logged_def modify_def)

lemma ApplyRefund_runs:
  assumes "net w = []" "distinct (map piID (intents w))" "p \<in> set (intents w)" "refundable_intent (piID p) p"
    and "0 < a" "piRefundedAmountMinor p + a \<le> cap" "0 \<le> piRefundedAmountMinor p" "int64 cap"
  defines "tot \<equiv> piRefundedAmountMinor p + a"
  shows "ApplyRefund (piID p) a cap actor w = (Inr (refund_case tot cap, tot),
    w\<lparr>intents := update_rows (refundable_intent (piID p)) (book_refund tot cap (clock w)) (intents w),
      audit_log := audit_log w @ [refund_entry (piID p) (refund_case tot cap) actor a tot (clock w)]\<rparr>)"
proof -
  have "bigadd (piRefundedAmountMinor p) a = Some tot"
    using assms by (auto simp: bigadd_def int64_def)
  moreover have "piID p \<in> piID ` set (update_rows (refundable_intent (piID p)) (book_refund tot cap (clock w)) (intents w))"
    using assms(3) by (simp add: keys_update)
  moreover have "piRefundedAmountMinor p + a \<le> cap" by fact
  ultimately show ?thesis
    using assms(1,5) find_refundable_row [OF assms(2-4)]
    unfolding ApplyRefund_def require_def
    by (simp add: plain_tx_up(1) attempt_def sql_apply_refund_def book_refund_def [abs_def] andThen_def ok_def
        sql_insert_audit_def refund_entry_def tot_def)
qed

section \<open>Refunds\<close>

text \<open>Who may refund what: the conditions of \<^verbatim>\<open>resolveRefundAmount\<close> spelled out.\<close>

definition may_refund :: "PaymentIntent \<Rightarrow> uuid \<Rightarrow> int \<Rightarrow> bool" where
  "may_refund p actor a \<longleftrightarrow> piStatus p \<in> {''succeeded'', ''partially_refunded''}
     \<and> actor \<in> {piPayerID p, piPayeeID p} \<and> piRefundedAmountMinor p < AmountMinor p
     \<and> 0 \<le> a \<and> piRefundedAmountMinor p + a \<le> AmountMinor p"

definition refund_due :: "PaymentIntent \<Rightarrow> int \<Rightarrow> int" where
  "refund_due p a = (if a = 0 then AmountMinor p - piRefundedAmountMinor p else a)"

lemma resolve_refund:
  assumes "0 \<le> piRefundedAmountMinor p" "piRefundedAmountMinor p \<le> AmountMinor p" "int64 (AmountMinor p)"
  shows "may_refund p actor a \<Longrightarrow> resolveRefundAmount p actor a = Inr (refund_due p a, AmountMinor p)"
    and "\<not> may_refund p actor a \<Longrightarrow> \<exists>e. resolveRefundAmount p actor a = Inl e"
proof -
  have "wrap64 (AmountMinor p - piRefundedAmountMinor p) = AmountMinor p - piRefundedAmountMinor p"
    using assms by (intro wrap64_id) (auto simp: int64_def)
  then show "may_refund p actor a \<Longrightarrow> resolveRefundAmount p actor a = Inr (refund_due p a, AmountMinor p)"
    and "\<not> may_refund p actor a \<Longrightarrow> \<exists>e. resolveRefundAmount p actor a = Inl e"
    using assms by (auto simp: resolveRefundAmount_def may_refund_def refund_due_def Let_def)
qed

lemma gateway_refund_runs:
  "\<exists>g. refund_at_gateway sv p a w = (Inr (), w\<lparr>gateway_side := g\<rparr>)"
proof -
  have "\<exists>g. (Inr (), w) = (Inr (), w\<lparr>gateway_side := g\<rparr>)" by (rule exI [of _ "gateway_side w"]) simp
  then show ?thesis
    by (auto simp: refund_at_gateway_def logged_def on_gateway_def ok_def split: option.split prod.split)
qed

text \<open>C7: A refund call on a consistent database with a quiet network: it succeeds exactly when a
  party of the payment asks for no more than what is left of a succeeded or partially refunded
  payment; then the amount asked for (all that is left, for zero) is added to the refunded total, the
  status becomes refunded or partially refunded accordingly, one audit entry records it and one
  payment.refunded event carries the updated intent. Otherwise nothing at all changes.\<close>

theorem refund_call:
  assumes "net w = []" "books_ok (books w)" "p \<in> set (intents w)" "int64 (AmountMinor p)"
  shows "case InitiateRefund sv (piID p) actor a reason w of
      (Inl e, w') \<Rightarrow> \<not> may_refund p actor a \<and> w' = w
    | (Inr q, w') \<Rightarrow> may_refund p actor a
        \<and> piRefundedAmountMinor q = piRefundedAmountMinor p + refund_due p a
        \<and> piStatus q = (if piRefundedAmountMinor q = AmountMinor p then ''refunded'' else ''partially_refunded'')
        \<and> intents w' = update_rows (refundable_intent (piID p)) (book_refund (piRefundedAmountMinor q) (AmountMinor p) (clock w)) (intents w)
        \<and> audit_log w' = audit_log w @ [refund_entry (piID p) (piStatus q) actor (refund_due p a) (piRefundedAmountMinor q) (clock w)]
        \<and> intent_events w' = intent_events w @ [\<lparr>ievType = ''payment.refunded'', ievKey = uuid_string actor, ievPayload = IntentPayload q\<rparr>]"
proof -
  have ok: "distinct (map piID (intents w))" "intent_ok (audit_log w) p"
    using assms(2,3) by (auto simp: books_ok_def books_def)
  then have amt: "0 \<le> piRefundedAmountMinor p" "piRefundedAmountMinor p \<le> AmountMinor p"
    by (auto simp: intent_ok_def AmountMinor_def)
  note read = quiet_GetIntent [OF assms(1) ok(1) assms(3)]
  show ?thesis
  proof (cases "may_refund p actor a")
    case True
    define tot where "tot = piRefundedAmountMinor p + refund_due p a"
    have due: "0 < refund_due p a" "tot \<le> AmountMinor p" "refundable_intent (piID p) p"
      using True by (auto simp: may_refund_def refund_due_def tot_def refundable_intent_def)
    define w1 where "w1 = w\<lparr>intents := update_rows (refundable_intent (piID p)) (book_refund tot (AmountMinor p) (clock w)) (intents w),
      audit_log := audit_log w @ [refund_entry (piID p) (refund_case tot (AmountMinor p)) actor (refund_due p a) tot (clock w)]\<rparr>"
    have "ApplyRefund (piID p) (refund_due p a) (AmountMinor p) actor w = (Inr (refund_case tot (AmountMinor p), tot), w1)"
      using ApplyRefund_runs [OF assms(1) ok(1) assms(3) due(3,1) _ amt(1) assms(4)] due(2)
      by (simp add: w1_def tot_def)
    moreover obtain g where "refund_at_gateway sv p (refund_due p a) w1 = (Inr (), w1\<lparr>gateway_side := g\<rparr>)"
      using gateway_refund_runs [of sv p "refund_due p a" w1] by (elim exE)
    moreover have "net (w1\<lparr>gateway_side := g\<rparr>) = []" using assms(1) by (simp add: w1_def)
    ultimately show ?thesis
      using True read resolve_refund(1) [OF amt assms(4) True] due(2)
      by (simp add: InitiateRefund_def andThen_def publish_runs ok_def Let_def refunded_intent_def)
        (simp add: w1_def refund_case_def tot_def)
  next
    case False
    then show ?thesis
      using read resolve_refund(2) [OF amt assms(4) False] by (auto simp: InitiateRefund_def andThen_def fail_def)
  qed
qed

text \<open>Whatever the network does, a refund asked for by someone who is neither payer nor payee is an
  error that changes neither intents nor audit log and never reaches the payment provider.\<close>

theorem strangers_cannot_refund:
  assumes "distinct (map piID (intents w))" "p \<in> set (intents w)" "actor \<notin> {piPayerID p, piPayeeID p}"
  shows "\<exists>e w'. InitiateRefund sv (piID p) actor a reason w = (Inl e, w')
    \<and> books w' = books w \<and> gateway_side w' = gateway_side w \<and> intent_events w' = intent_events w"
proof -
  obtain r w1 where r: "store_GetIntent (piID p) w = (r, w1)" by force
  have w1: "\<exists>ns. w1 = w\<lparr>net := ns\<rparr>"
  proof -
    have "w1 = w \<or> (\<exists>ns. w1 = w\<lparr>net := ns\<rparr>)"
      using r by (auto simp: store_GetIntent_def scan_one_def andThen_def fail_def ok_def db_call_def get_def
          split: prod.splits sum.splits option.splits list.splits outcome.splits)
    moreover have "w = w\<lparr>net := net w\<rparr>" by simp
    ultimately show ?thesis by metis
  qed
  show ?thesis
  proof (cases r)
    case (Inl e)
    then show ?thesis using r w1 by (auto simp: InitiateRefund_def andThen_def)
  next
    case (Inr q)
    with r read_intent [of "piID p" w q w1] have "q = p" using assms(1,2) by (auto dest: same_id)
    moreover have "\<exists>e. resolveRefundAmount p actor a = Inl e"
      using assms(3) by (auto simp: resolveRefundAmount_def)
    ultimately show ?thesis using r w1 Inr by (auto simp: InitiateRefund_def andThen_def fail_def)
  qed
qed

text \<open>C33: The pure helper computeRefundStatus and the CASE expression of the refund statement agree:
  whenever a refund is applied, whatever the network does, the status it reports is what the helper
  computes from the row's total, and the reported total is the row's plus the refund.\<close>

theorem refund_status_agrees:
  assumes "ApplyRefund i a cap actor w = (Inr (st, tot), w')" "find (refundable_intent i) (intents w) = Some p"
  shows "st = computeRefundStatus (piRefundedAmountMinor p) a cap \<and> tot = piRefundedAmountMinor p + a \<and> tot \<le> cap"
proof -
  from assms(1) have "plain_tx (attempt (db_call (sql_apply_refund i a cap)) (\<lambda>r. case r of
          Inl e \<Rightarrow> fail (if errors_is e pgx_ErrNoRows then ErrNotRefundable else e)
        | Inr (newStatus, tot) \<Rightarrow>
            andThen (db_call (\<lambda>w. sql_insert_audit (refund_entry i newStatus actor a tot (clock w)) w)) (\<lambda>_.
            ok (newStatus, tot)))) w = (Inr (st, tot), w')"
    by (auto simp: ApplyRefund_def elim: require_InrE)
  from this env_blind_books show ?thesis
  proof (cases rule: plain_tx_effect)
    case (2 ns x w1)
    then show ?thesis
      using assms(2)
      by (auto elim!: attempt_InrE andThen_InrE db_call_InrE simp: ok_def fail_def sql_apply_refund_def bigadd_Some
          computeRefundStatus_def refund_case_def wrap64_id split: sum.splits option.splits if_splits)
  qed simp
qed

section \<open>Verification\<close>

text \<open>What a verification call has to present.\<close>

definition proof_of_payment ::
  "'g PaymentsService \<Rightarrow> PaymentIntent \<Rightarrow> string \<Rightarrow> string \<Rightarrow> string \<Rightarrow> int \<Rightarrow> bool" where
  "proof_of_payment sv p orderID paymentID signature a \<longleftrightarrow> piProviderRef p = orderID \<and> orderID \<noteq> []
     \<and> (0 < a \<longrightarrow> a = AmountMinor p)
     \<and> (\<exists>gw. psGateway sv = Some gw \<and> VerifySignature gw orderID paymentID signature)"

lemma verified_update:
  assumes "store_UpdateStatus i old st ref actor w = (r, w')"
  shows "books w' = books w \<or> intents w' = update_rows (by_id_rows i old) (set_status st ref (clock w)) (intents w)"
  using assms[unfolded store_UpdateStatus_def] env_blind_books
proof (cases rule: plain_tx_effect)
  case (2 ns x w1)
  then obtain n wa where n: "db_call (sql_update_intents st (\<lambda>p. piID p = i \<and> piStatus p = old) (refer ref)) (w\<lparr>net := ns\<rparr>) = (Inr n, wa)"
    and a: "db_call (\<lambda>w. sql_insert_audit (changed_entry i old st actor (clock w)) w) wa = (Inr x, w1)"
    by (auto elim!: andThen_InrE require_InrE)
  then show ?thesis
    using 2(2) update_InrE(1) [OF n] audit_InrE(1) [OF a]
    by (simp add: books_def by_id_rows_def [abs_def] set_status_def [abs_def])
qed simp

lemma read_clock: "store_GetIntent i w = (r, w') \<Longrightarrow> clock w' = clock w"
  by (auto simp: store_GetIntent_def scan_one_def andThen_def fail_def ok_def db_call_def get_def
      split: prod.splits sum.splits option.splits list.splits outcome.splits)

text \<open>C26: A verification confirms nothing without a proof of payment: under any behaviour of the
  network, if the call answers with a result or changes any intent, then the caller named the order
  stored on the intent, the amount (when given) is the intent's and the gateway accepts the
  signature; and all it ever changes is this one intent, from pending to succeeded.\<close>

theorem verify_needs_proof_of_payment:
  assumes "distinct (map piID (intents w))" "VerifyIntent sv i orderID paymentID signature a w = (r, w')"
    and "r = Inr v \<or> books w' \<noteq> books w"
  shows "\<exists>p \<in> set (intents w). piID p = i \<and> proof_of_payment sv p orderID paymentID signature a
    \<and> (books w' = books w \<or> intents w' =
        update_rows (by_id_rows i ''pending'') (set_status ''succeeded'' paymentID (clock w)) (intents w))
    \<and> (r = Inr v \<longrightarrow> vrfVerified v \<and> vrfIntentID v = i \<and> vrfAmountMinor v = AmountMinor p)"
proof -
  obtain r0 w1 where r0: "store_GetIntent i w = (r0, w1)" by force
  have w1: "books w1 = books w" using stableD [OF stable_reads(1) r0] .
  show ?thesis
  proof (cases r0)
    case (Inl e)
    with assms(2,3) r0 w1 show ?thesis by (auto simp: VerifyIntent_def andThen_def)
  next
    case (Inr p)
    note p = read_intent(1,2) [OF r0 [unfolded Inr]]
    obtain gw where gw: "psGateway sv = Some gw"
      and proof0: "piProviderRef p = orderID" "orderID \<noteq> []" "0 < a \<longrightarrow> a = AmountMinor p"
        "VerifySignature gw orderID paymentID signature"
      using assms(2,3) r0 Inr w1
      by (auto simp: VerifyIntent_def andThen_def [of "store_GetIntent i"] Let_def require_def fail_def split: option.splits if_splits)
    let ?u = "store_UpdateStatus i ''pending'' ''succeeded'' paymentID (piPayerID p)"
    obtain ru w2 where u: "?u w1 = (ru, w2)" by force
    obtain r3 w3 where g: "store_GetIntent i w2 = (r3, w3)" by force
    have w': "w' = w3" and r: "r = (case r3 of Inl e \<Rightarrow> Inl e | Inr c \<Rightarrow> Inr \<lparr>vrfVerified = True, vrfIntentID = i,
        vrfStatus = piStatus c, vrfAmountMinor = AmountMinor p, vrfProviderRef = piProviderRef c\<rparr>)"
      using assms(2) r0 Inr gw proof0 u g
      by (auto simp: VerifyIntent_def andThen_def Let_def require_def logged_def ok_def split: sum.splits if_splits)
    have "books w2 = books w \<or> intents w2 = update_rows (by_id_rows i ''pending'') (set_status ''succeeded'' paymentID (clock w)) (intents w)"
      using verified_update [OF u] w1 read_clock [OF r0] by (simp add: books_def)
    then have "books w' = books w \<or> intents w' = update_rows (by_id_rows i ''pending'') (set_status ''succeeded'' paymentID (clock w)) (intents w)"
      using stableD [OF stable_reads(1) g] w' by (auto simp: books_def)
    moreover have "r = Inr v \<longrightarrow> vrfVerified v \<and> vrfIntentID v = i \<and> vrfAmountMinor v = AmountMinor p"
      using r by (auto split: sum.splits)
    ultimately show ?thesis using p gw proof0 by (auto simp: proof_of_payment_def)
  qed
qed

section \<open>Amounts\<close>

lemma paise_through_float:
  assumes "0 < m" "m < 2 ^ 50"
  shows "math_Round (fl64 (fl64 (fl64 (of_int m) / 100) * 100)) = m"
proof (rule math_Round_unique)
  define x :: rat where "x = of_int m / 100"
  define y where "y = fl64 x"
  have "0 < x" using assms(1) by (simp add: x_def)
  have m: "of_int m < (2::rat) ^ 50"
    using assms(2) by (metis of_int_less_iff of_int_numeral of_int_power)
  have y: "\<bar>y - x\<bar> \<le> x / 2 ^ 53" using fl64_close [OF \<open>0 < x\<close>] by (simp add: y_def)
  then have y0: "0 < y" "y \<le> 2 * x" using \<open>0 < x\<close> by (auto simp: abs_if split: if_splits)
  have "\<bar>fl64 (y * 100) - y * 100\<bar> \<le> y * 100 / 2 ^ 53" using fl64_close [of "y * 100"] y0 by simp
  moreover have "y * 100 / 2 ^ 53 \<le> 2 * of_int m / 2 ^ 53" using y0 by (simp add: x_def divide_right_mono)
  moreover have "\<bar>y * 100 - of_int m\<bar> \<le> of_int m / 2 ^ 53"
  proof -
    have "\<bar>y * 100 - of_int m\<bar> = \<bar>y - x\<bar> * 100"
      using abs_mult [of "y - x" 100] by (simp add: x_def left_diff_distrib)
    also have "\<dots> \<le> x / 2 ^ 53 * 100" using y by (intro mult_right_mono) auto
    also have "\<dots> = of_int m / 2 ^ 53" by (simp add: x_def)
    finally show ?thesis .
  qed
  ultimately have "\<bar>fl64 (y * 100) - of_int m\<bar> \<le> 3 * of_int m / 2 ^ 53" by (simp add: abs_if split: if_splits)
  also have "\<dots> < 1 / 2" using m by simp
  finally have "\<bar>fl64 (y * 100) - of_int m\<bar> < 1 / 2" .
  moreover have "fl64 (of_int m) = of_int m" using assms by (intro fl64_of_int) auto
  ultimately show "\<bar>fl64 (fl64 (fl64 (of_int m) / 100) * 100) - of_int m\<bar> < 1 / 2"
    by (simp add: y_def x_def)
qed

text \<open>An amount survives the float mirror: for every amount of up to 2^50 paise given in paise alone,
  the mirror in rupees that the service computes converts back to exactly that amount, both when a
  caller sends the mirror and when it is read from a row that predates the paise column.\<close>

theorem paise_roundtrip:
  assumes "0 < m" "m < 2 ^ 50" "iniAmountMinor i = m" "iniAmount i = 0"
  shows "\<exists>mirror. resolve_amount i = Inr (m, mirror) \<and> rupeesToPaise mirror = m
    \<and> resolve_amount (i\<lparr>iniAmountMinor := 0, iniAmount := mirror\<rparr>) = Inr (m, mirror)
    \<and> (\<forall>p. piAmountMinorRaw p = 0 \<longrightarrow> piAmount p = mirror \<longrightarrow> AmountMinor p = m)"
proof -
  define mirror where "mirror = fl64 (fl64 (of_int m) / 100)"
  have 1: "rupeesToPaise mirror = m"
    using paise_through_float [OF assms(1,2)] assms(1,2)
    by (simp add: rupeesToPaise_def mirror_def float_to_int64_def int64_def)
  have "0 < mirror"
  proof -
    define x :: rat where "x = of_int m / 100"
    have "0 < x" using assms(1) by (simp add: x_def)
    moreover have "fl64 (of_int m) = of_int m" using assms by (intro fl64_of_int) auto
    ultimately show ?thesis
      using fl64_close [of x] by (auto simp: mirror_def x_def abs_if split: if_splits)
  qed
  with 1 assms show ?thesis
    by (auto simp: resolve_amount_def Let_def AmountMinor_def rupeesToPaise_def mirror_def)
qed

section \<open>Initiating twice with one key\<close>

lemma gateway_order_runs: "\<exists>ref g. gateway_order sv meth m key w = (Inr ref, w\<lparr>gateway_side := g\<rparr>)"
proof -
  have "\<exists>g. w = w\<lparr>gateway_side := g\<rparr>" by (rule exI [of _ "gateway_side w"]) simp
  then show ?thesis
    by (auto simp: gateway_order_def attempt_def on_gateway_def ok_def split: option.split prod.split sum.split)
qed

lemma andThen_value: "m w = (Inr x, w') \<Longrightarrow> andThen m f w = f x w'"
  by (simp add: andThen_def)

lemma andThen_ok: "andThen (ok x) f w = f x w"
  by (simp add: andThen_def ok_def)

text \<open>What the caller gets back for a row that is already there.\<close>

definition returned_row :: "PaymentIntent \<Rightarrow> PaymentIntent" where
  "returned_row p = p\<lparr>piUPIIntentURL := [], piRefundedAmountMinor := 0\<rparr>"

definition known_key :: "'g PaymentsService \<Rightarrow> InitiateInput \<Rightarrow> PaymentIntent \<Rightarrow> 'g paysvc \<Rightarrow> bool" where
  "known_key sv i p w \<longleftrightarrow> net w = [] \<and> iniIdempotencyKey i \<noteq> [] \<and> iniMethod i \<in> set intent_methods
     \<and> find (\<lambda>r. piIdempotencyKey r = iniIdempotencyKey i) (intents w) = Some p
     \<and> (\<exists>m x. resolve_amount i = Inr (m, x) \<and> psNumeric sv x \<noteq> None)"

lemma CreateIntent_known:
  assumes "net w = []" "piMethod i \<in> set intent_methods" "num (piAmount i) \<noteq> None"
    and "find (\<lambda>r. piIdempotencyKey r = piIdempotencyKey i) (intents w) = Some p"
    and "piUPIIntentURL i = []" "piRefundedAmountMinor i = 0"
  defines "old \<equiv> clock w - piCreatedAt p > 1000000"
  shows "CreateIntent num i w = (Inr \<lparr>cirIntent = returned_row p, cirWasExisting = old\<rparr>,
    w\<lparr>idctr := Suc (idctr w), audit_log := audit_log w @ (if old then [] else [initiated_entry p (clock w)])\<rparr>)"
proof -
  obtain h where h: "num (piAmount i) = Some h" using assms(3) by blast
  have "p \<in> set (intents w)" using assms(4) by (auto simp: find_Some_iff)
  then show ?thesis
    using assms h unfolding CreateIntent_def
    by (auto intro!: plain_tx_up(1) simp: andThen_def sql_insert_intent_def gen_random_uuid_def ok_def get_def Let_def
        returned_row_def sql_insert_audit_def initiated_entry_def)
qed

lemma initiate_known:
  assumes "known_key sv i p w" "resolve_amount i = Inr (m, x)"
  defines "old \<equiv> clock w - piCreatedAt p > 1000000"
  obtains g where "InitiatePayment sv i w = (if old then ok (returned_row p) else
      andThen (if iniMethod i = ''escrow'' then logged (CreateHold (piID p) m (orDefault (iniCurrency i) ''INR'') ''order_delivered'') else ok ()) (\<lambda>_.
      andThen (publishEvent ''payment.initiated'' (uuid_string (piPayerID p)) (IntentPayload (returned_row p))) (\<lambda>_.
      ok (returned_row p))))
    (w\<lparr>idctr := Suc (idctr w), audit_log := audit_log w @ (if old then [] else [initiated_entry p (clock w)]), gateway_side := g\<rparr>)"
proof -
  obtain ref g where g: "gateway_order sv (iniMethod i) m (iniIdempotencyKey i) w = (Inr ref, w\<lparr>gateway_side := g\<rparr>)"
    using gateway_order_runs [of sv "iniMethod i" m "iniIdempotencyKey i" w] by (elim exE)
  have k: "net (w\<lparr>gateway_side := g\<rparr>) = []" "iniIdempotencyKey i \<noteq> []" "iniMethod i \<in> set intent_methods"
    "find (\<lambda>r. piIdempotencyKey r = iniIdempotencyKey i) (intents (w\<lparr>gateway_side := g\<rparr>)) = Some p" "psNumeric sv x \<noteq> None"
    using assms(1,2) by (auto simp: known_key_def)
  have ci: "CreateIntent (psNumeric sv) (new_intent i m x ref (iniIdempotencyKey i)) (w\<lparr>gateway_side := g\<rparr>) =
    (Inr \<lparr>cirIntent = returned_row p, cirWasExisting = old\<rparr>,
     w\<lparr>idctr := Suc (idctr w), audit_log := audit_log w @ (if old then [] else [initiated_entry p (clock w)]), gateway_side := g\<rparr>)"
    using CreateIntent_known [of "w\<lparr>gateway_side := g\<rparr>" "new_intent i m x ref (iniIdempotencyKey i)" "psNumeric sv" p] k
    by (simp add: new_intent_def old_def)
  have "iniMethod i \<in> {''upi'', ''card'', ''wallet'', ''cod'', ''escrow''}"
    using k(3) by (simp add: intent_methods_def)
  then have "InitiatePayment sv i w = (if old then ok (returned_row p) else
      andThen (if iniMethod i = ''escrow'' then logged (CreateHold (piID p) m (orDefault (iniCurrency i) ''INR'') ''order_delivered'') else ok ()) (\<lambda>_.
      andThen (publishEvent ''payment.initiated'' (uuid_string (piPayerID p)) (IntentPayload (returned_row p))) (\<lambda>_.
      ok (returned_row p))))
    (w\<lparr>idctr := Suc (idctr w), audit_log := audit_log w @ (if old then [] else [initiated_entry p (clock w)]), gateway_side := g\<rparr>)"
    using k(2) assms(2)
    by (simp add: InitiatePayment_def require_def andThen_ok andThen_value [where m = "gateway_order sv (iniMethod i) m (iniIdempotencyKey i)" and w = w, OF g]
        andThen_value [where m = "CreateIntent (psNumeric sv) (new_intent i m x ref (iniIdempotencyKey i))", OF ci] returned_row_def)
  then show ?thesis by (rule that)
qed

text \<open>A second initiation with a key that is more than a second old returns the intent the key
  belongs to, whoever asks and whatever amount, payee or method is asked for, and books nothing: no
  intent, audit entry, hold or event. (The refunded total in the answer is always zero.)\<close>

theorem key_replay_returns_first_intent:
  assumes "known_key sv i p w" "piCreatedAt p + 1000000 < clock w"
  shows "\<exists>w'. InitiatePayment sv i w = (Inr (returned_row p), w') \<and> books w' = books w
    \<and> holds w' = holds w \<and> intent_events w' = intent_events w"
proof -
  obtain m x where r: "resolve_amount i = Inr (m, x)" using assms(1) by (auto simp: known_key_def)
  show ?thesis
    by (rule initiate_known [OF assms(1) r]) (use assms(2) in \<open>auto simp: ok_def books_def\<close>)
qed

text \<open>Within a second of the first call a retry with the same key counts as new: an escrow payment
  gets a second hold, of the amount the retry asks for, a second audit entry says that it was
  initiated, and the event payment.initiated goes out again.\<close>

theorem quick_retry_holds_twice:
  assumes "known_key sv i p w" "clock w \<le> piCreatedAt p + 1000000" "iniMethod i = ''escrow''"
    and "resolve_amount i = Inr (m, x)" "idgen w (Suc (idctr w)) \<notin> hldID ` set (holds w)"
  shows "\<exists>w' h. InitiatePayment sv i w = (Inr (returned_row p), w')
    \<and> holds w' = holds w @ [h] \<and> hldIntentID h = piID p \<and> hldAmount h = m \<and> hldReleasedAt h = None
    \<and> audit_log w' = audit_log w @ [initiated_entry p (clock w)]
    \<and> intent_events w' = intent_events w @
        [\<lparr>ievType = ''payment.initiated'', ievKey = uuid_string (piPayerID p), ievPayload = IntentPayload (returned_row p)\<rparr>]"
proof -
  have m: "0 < m" using assms(4) by (auto simp: resolve_amount_def Let_def split: if_splits)
  have p: "piID p \<in> piID ` set (intents w)" "net w = []"
    using assms(1) by (auto simp: known_key_def find_Some_iff)
  show ?thesis
    by (rule initiate_known [OF assms(1,4)])
      (use assms(2,3,5) m p in \<open>auto simp: andThen_def logged_def CreateHold_def gen_random_uuid_def hold_conditions_def
        publish_runs ok_def\<close>)
qed

section \<open>The status route\<close>

text \<open>The status route knows neither the state machine nor the parties: any user behind the
  internal key moves any intent from its current status to any status the database admits, a
  refunded payment back to succeeded, say.\<close>

theorem status_route_sets_any_status:
  assumes "net w = []" "books_ok (books w)" "p \<in> set (intents w)"
    and "new \<in> set intent_statuses"
    and "phInternalKey h = [] \<or> GetHeader rq internalKeyHeader = phInternalKey h"
    and "GetHeader rq ''X-User-Id'' \<noteq> []" "pu (GetHeader rq ''X-User-Id'') = Some u"
    and "pu (rqParam rq ''id'') = Some (piID p)"
    and "rqBody rq = Inr \<lparr>stbOldStatus = piStatus p, stbNewStatus = new, stbProviderRef = []\<rparr>"
  shows "\<exists>q w'. ps_RegisterRoutes h pu (PATCH_intent_status rq) w = (JSONWithContext 200 (IntentData q), w')
    \<and> q \<in> set (intents w') \<and> piID q = piID p \<and> piStatus q = new
    \<and> piRefundedAmountMinor q = piRefundedAmountMinor p"
proof -
  define a where "a = changed_entry (piID p) (piStatus p) new u (clock w)"
  define w1 where "w1 = w\<lparr>intents := update_rows (by_id_rows (piID p) (piStatus p)) (set_status new [] (clock w)) (intents w),
     audit_log := audit_log w @ [a]\<rparr>"
  define q where "q = set_status new [] (clock w) p"
  have d: "distinct (map piID (intents w))" using assms(2) by (simp add: books_ok_def books_def)
  have row: "by_id_rows (piID p) (piStatus p) p" by (simp add: by_id_rows_def)
  then have q: "q \<in> set (intents w1)" "piID q = piID p" using assms(3) by (auto simp: w1_def q_def in_update_rows)
  have d1: "distinct (map piID (intents w1))" using d by (simp add: w1_def keys_update)
  have n: "length (filter (by_id_rows (piID p) (piStatus p)) (intents w)) \<noteq> 0"
    using assms(3) row by (auto simp: filter_empty_conv)
  have "store_UpdateStatus (piID p) (piStatus p) new [] u w = (Inr (), w1)"
    unfolding store_UpdateStatus_def
  proof (rule plain_tx_up(1))
    have "piID p \<in> piID ` set (update_rows (by_id_rows (piID p) (piStatus p)) (set_status new [] (clock w)) (intents w))"
      using assms(3) by (simp add: keys_update)
    then show "andThen (db_call (sql_update_intents new (\<lambda>r. piID r = piID p \<and> piStatus r = piStatus p) (refer [])))
      (\<lambda>n. require (n \<noteq> 0) ErrIntentNotFound (db_call (\<lambda>w. sql_insert_audit (changed_entry (piID p) (piStatus p) new u (clock w)) w))) w
      = (Inr (), w1)"
      using assms(1,4) n
      by (simp add: andThen_def sql_update_intents_def by_id_rows_def [abs_def] set_status_def [abs_def] Let_def require_def
          sql_insert_audit_def changed_entry_def w1_def a_def)
  qed (use assms(1) in \<open>simp_all add: w1_def\<close>)
  moreover have "store_GetIntent (piID p) w1 = (Inr q, w1)"
    using quiet_GetIntent [OF _ d1 q(1)] q(2) assms(1) by (simp add: w1_def)
  moreover have "net w1 = []" using assms(1) by (simp add: w1_def)
  ultimately have "\<exists>w'. UpdateStatus (piID p) (piStatus p) new [] u w = (Inr q, w') \<and> intents w' = intents w1"
    by (simp add: UpdateStatus_def andThen_def publish_runs ok_def)
  then obtain w' where "UpdateStatus (piID p) (piStatus p) new [] u w = (Inr q, w')" "intents w' = intents w1" by blast
  moreover have "piStatus q = new" "piRefundedAmountMinor q = piRefundedAmountMinor p" by (simp_all add: q_def)
  ultimately show ?thesis
    using assms(5-9) q
    by (auto simp: v1_group_def internal_group_def RequireInternalKey_def http_UpdateStatus_def intent_user_def intent_param_def
        parse_id_def bind_body_def reply_def Let_def)
qed

end
