(* ===== verification/Payments_Webhook.thy ===== *)
theory Payments_Webhook
  imports Payments_Behaviour
begin

text \<open>
  The webhook of payments-service: who can use it, what a repeated delivery does, what is lost when
  the duplicate check fails, and what a captured payment does to the reference by which later events
  and verifications look it up.
\<close>

section \<open>Authenticity\<close>

text \<open>C30: A deployment that does not allow the stub gateway only starts with Razorpay and a webhook
  secret, and then a webhook call whose signature header is missing or not the HMAC of the raw body
  under that secret is answered 401 (or 400 if the body cannot be read) and changes nothing.\<close>

theorem webhook_needs_signature:
  assumes "payments_config getenv = Some (gw, secret, key)" "getenv ''PAYMENTS_ALLOW_STUB'' \<noteq> ''true''"
    and "phWebhookSecret h = secret"
    and "\<forall>body j. rqBody rq = Inr (body, j) \<longrightarrow> GetHeader rq ''X-Razorpay-Signature'' = []
      \<or> GetHeader rq ''X-Razorpay-Signature'' \<noteq> hmac_hex secret body"
  shows "(\<exists>g. gw = UseRazorpay g) \<and> secret \<noteq> []
    \<and> (\<exists>r. ps_RegisterRoutes h pu (POST_webhook rq) w = (r, w) \<and> rsStatus r \<in> {400, 401} \<and> rsData r = None)"
proof -
  have "(\<exists>g. gw = UseRazorpay g) \<and> secret \<noteq> []"
    using assms(1,2) by (auto simp: payments_config_def select_gateway_def Let_def split: if_splits)
  moreover have "\<exists>r. HandleWebhook h rq w = (r, w) \<and> rsStatus r \<in> {400, 401} \<and> rsData r = None"
    using assms(3,4) calculation
    by (cases "rqBody rq") (auto simp: HandleWebhook_def status_only_def verifyRazorpaySignature_def)
  ultimately show ?thesis by simp
qed

section \<open>Repeated deliveries\<close>

text \<open>An event counts once. After a first delivery, whatever it did, the event's identifier is
  recorded, and in every later state in which it still is, the same delivery changes nothing but the
  state of the network, even if its duplicate check fails.\<close>

theorem webhook_event_once:
  fixes w :: "'a paysvc"
  assumes "rzeEventID ev \<noteq> []" "net w = []"
  defines "w1 \<equiv> snd (handle_event ev w)"
  shows "rzeEventID ev \<in> wevEventID ` set (webhook_events w1)
    \<and> (\<forall>w2 :: 'a paysvc. set (webhook_events w1) \<subseteq> set (webhook_events w2) \<longrightarrow>
        (\<exists>ns. handle_event ev w2 = (Inr (), w2\<lparr>net := ns\<rparr>)))"
proof -
  have seen: "\<exists>ns. handle_event ev v = (Inr (), v\<lparr>net := ns\<rparr>)"
    if "rzeEventID ev \<in> wevEventID ` set (webhook_events v)" for v :: "'a paysvc"
  proof -
    have "\<exists>ns. v = v\<lparr>net := ns\<rparr>" by (rule exI [of _ "net v"]) simp
    then show ?thesis
      using that assms(1)
      by (auto simp: handle_event_def MarkWebhookSeen_def RecordWebhookEventIfNew_def attempt_def ok_def db_call_def Let_def
          split: list.split outcome.split)
  qed
  have stab: "stable (webhook_events :: 'a paysvc \<Rightarrow> _) (dispatch_event ev)"
  proof -
    have [simp]: "env_blind (webhook_events :: 'a paysvc \<Rightarrow> _)" by (simp add: env_blind_def)
    show ?thesis
      unfolding dispatch_event_def UpdateStatusByProviderRef_def ApplyWebhookRefund_def store_UpdateStatusByProviderRef_def
        GetIntentByProviderRef_def scan_one_def ApplyRefund_def RecordRefundIfFresh_def publishEvent_def Let_def case_prod_unfold
      by (intro stable_intros stable_db_call stable_plain_tx stable_modify; auto intro!: stableI
          simp: sql_update_intents_def sql_apply_refund_def sql_insert_audit_def Let_def split: option.splits if_splits)
  qed
  have "rzeEventID ev \<in> wevEventID ` set (webhook_events w1)"
  proof (cases "rzeEventID ev \<in> wevEventID ` set (webhook_events w)")
    case True
    then show ?thesis using seen [OF True] by (auto simp: w1_def)
  next
    case False
    define v where "v = w\<lparr>webhook_events := webhook_events w @
      [\<lparr>wevEventID = rzeEventID ev, wevEventType = rzeEvent ev, wevProviderRef = rzeOrderID ev, wevReceivedAt = clock w\<rparr>]\<rparr>"
    have "handle_event ev w = dispatch_event ev v"
      using False assms(1,2)
      by (simp add: handle_event_def MarkWebhookSeen_def RecordWebhookEventIfNew_def attempt_def v_def)
    then show ?thesis using stab by (simp add: w1_def stable_def v_def)
  qed
  then show ?thesis using seen by (meson image_mono subsetD)
qed


section \<open>Lost events\<close>

text \<open>If the statement of the duplicate check fails, an authentic event is acknowledged with 200 and
  nothing else happens: it is neither applied nor recorded, although the code says that it processes
  it anyway. As Razorpay does not deliver an acknowledged event again, a captured payment stays
  pending.\<close>

theorem failed_check_drops_event:
  assumes "net w = Refused s # ns" "rqBody rq = Inr (body, j)"
    and "phWebhookSecret h = [] \<or> verifyRazorpaySignature body (GetHeader rq ''X-Razorpay-Signature'') (phWebhookSecret h)"
    and "Option.bind j unmarshal_razorpay_event = Some ev" "rzeEventID ev \<noteq> []"
  shows "ps_RegisterRoutes h pu (POST_webhook rq) w = (status_only 200, w\<lparr>net := ns\<rparr>)"
  using assms
  by (auto simp: HandleWebhook_def handle_event_def MarkWebhookSeen_def RecordWebhookEventIfNew_def attempt_def db_call_def
      ok_def Let_def)

section \<open>References\<close>

lemma by_ref_runs:
  assumes "net w = []" "st \<in> {''succeeded'', ''failed''}" "p \<in> set (intents w)" "by_ref_rows ref st p"
  shows "store_UpdateStatusByProviderRef ref st pid w =
    (Inr (), w\<lparr>intents := update_rows (by_ref_rows ref st) (set_status st pid (clock w)) (intents w)\<rparr>)"
proof -
  have "allowedCurrent st \<noteq> []" using assms(2) by (auto simp: allowedCurrent_def validStatusTransitions_def)
  moreover have "filter (by_ref_rows ref st) (intents w) \<noteq> []" using assms(3,4) by (auto simp: filter_empty_conv)
  moreover have "st \<in> set intent_statuses" using assms(2) by (auto simp: intent_statuses_def)
  ultimately show ?thesis
    using assms(1)
    by (simp add: store_UpdateStatusByProviderRef_def require_def andThen_def sql_update_intents_def Let_def ok_def
        by_ref_rows_def [abs_def] set_status_def [abs_def])
qed

lemma no_such_ref:
  "net w = [] \<Longrightarrow> (\<And>p. p \<in> set (intents w) \<Longrightarrow> piProviderRef p \<noteq> ref) \<Longrightarrow> \<exists>e. GetIntentByProviderRef ref w = (Inl e, w)"
proof -
  assume a: "net w = []" "\<And>p. p \<in> set (intents w) \<Longrightarrow> piProviderRef p \<noteq> ref"
  then have "filter (\<lambda>p. piProviderRef p = ref) (intents w) = []" by (simp add: filter_empty_conv)
  with a(1) show ?thesis
    by (simp add: GetIntentByProviderRef_def require_def scan_one_def andThen_def get_def latest_with_ref_def fail_def)
qed

text \<open>Capturing a payment overwrites the order reference it was found by with the payment identifier.
  So the event payment.succeeded goes out with the bare keys instead of the intent, a later refund
  event of the provider, which names the order, finds no intent and is dropped, and a verification
  of the same order is refused.\<close>

theorem captured_payment_loses_its_order:
  assumes "net w = []" "books_ok (books w)" "p \<in> set (intents w)" "open_status (piStatus p)"
    and "piProviderRef p = orderID" "orderID \<noteq> []" "paymentID \<noteq> []" "paymentID \<noteq> orderID"
    and "\<forall>q \<in> set (intents w). piProviderRef q = orderID \<longrightarrow> q = p"
  shows "\<exists>w1. UpdateStatusByProviderRef orderID ''succeeded'' paymentID w = (Inr (), w1)
    \<and> (\<exists>q \<in> set (intents w1). piID q = piID p \<and> piStatus q = ''succeeded'' \<and> piProviderRef q = paymentID)
    \<and> intent_events w1 = intent_events w @
        [\<lparr>ievType = ''payment.succeeded'', ievKey = [], ievPayload = BareKeys orderID paymentID ''succeeded''\<rparr>]
    \<and> (\<forall>refundRef a. ApplyWebhookRefund orderID refundRef a w1 = (Inr (), w1))
    \<and> (\<forall>sv sig a. psGateway sv \<noteq> None \<longrightarrow> VerifyIntent sv (piID p) orderID paymentID sig a w1 = (Inl ErrProviderRefMismatch, w1))"
proof -
  have row: "by_ref_rows orderID ''succeeded'' p"
    using assms(4,5) by (auto simp: by_ref_rows_def open_status_def allowedCurrent_def validStatusTransitions_def)
  define q where "q = set_status ''succeeded'' paymentID (clock w) p"
  define v where "v = w\<lparr>intents := update_rows (by_ref_rows orderID ''succeeded'') (set_status ''succeeded'' paymentID (clock w)) (intents w)\<rparr>"
  define w1 where "w1 = v\<lparr>intent_events := intent_events w @
    [\<lparr>ievType = ''payment.succeeded'', ievKey = [], ievPayload = BareKeys orderID paymentID ''succeeded''\<rparr>]\<rparr>"
  have q: "q \<in> set (intents v)" "piID q = piID p" "piStatus q = ''succeeded''" "piProviderRef q = paymentID"
    using assms(3,7) row by (auto simp: v_def q_def in_update_rows set_status_def refer_def touch_def)
  have none: "piProviderRef r \<noteq> orderID" if "r \<in> set (intents v)" for r
  proof -
    from that obtain r0 where r0: "r0 \<in> set (intents w)"
      "r = (if by_ref_rows orderID ''succeeded'' r0 then set_status ''succeeded'' paymentID (clock w) r0 else r0)"
      by (auto simp: v_def in_update_rows)
    then show ?thesis
      using assms(7-9) row
      by (cases "by_ref_rows orderID ''succeeded'' r0") (auto simp: set_status_def refer_def touch_def)
  qed
  have net: "net v = []" "net w1 = []" using assms(1) by (simp_all add: v_def w1_def)
  have "UpdateStatusByProviderRef orderID ''succeeded'' paymentID w = (Inr (), w1)"
    using by_ref_runs [OF assms(1) _ assms(3) row, of paymentID] no_such_ref [OF net(1) none]
    by (auto simp: UpdateStatusByProviderRef_def attempt_def publish_runs [OF net(1)] status_event_def w1_def simp flip: v_def)
      (simp add: v_def)
  moreover have "ApplyWebhookRefund orderID refundRef a w1 = (Inr (), w1)" for refundRef a
    using no_such_ref [OF net(2), of orderID] none
    by (auto simp: ApplyWebhookRefund_def attempt_def ok_def w1_def)
  moreover have "VerifyIntent sv (piID p) orderID paymentID sig a w1 = (Inl ErrProviderRefMismatch, w1)"
    if "psGateway sv \<noteq> None" for sv :: "'a PaymentsService" and sig a
  proof -
    have "distinct (map piID (intents w1))"
      using assms(2) by (simp add: w1_def v_def keys_update books_ok_def books_def)
    then have "store_GetIntent (piID p) w1 = (Inr q, w1)"
      using quiet_GetIntent [OF net(2), of q] q by (simp add: w1_def)
    then show ?thesis
      using that q(4) assms(8) by (auto simp: VerifyIntent_def andThen_def require_def fail_def Let_def)
  qed
  ultimately show ?thesis
    using q by (intro exI [of _ w1]) (auto simp: w1_def v_def)
qed

text \<open>A captured event that names no order settles every open intent without a provider reference,
  which are those paid in cash or from the wallet, whoever they belong to: they all become
  succeeded and take over the payment identifier.\<close>

theorem orderless_capture_settles_cash_intents:
  fixes w :: "'a paysvc"
  assumes "net w = []" "p \<in> set (intents w)" "open_status (piStatus p)" "piProviderRef p = []"
    and "rzeEvent ev = ''payment.captured''" "rzeOrderID ev = []"
    and "rzeEventID ev \<notin> wevEventID ` set (webhook_events w)"
  shows "\<exists>q \<in> set (intents (snd (handle_event ev w))). piID q = piID p \<and> piStatus q = ''succeeded''
    \<and> (rzePaymentID ev \<noteq> [] \<longrightarrow> piProviderRef q = rzePaymentID ev)"
proof -
  define v where "v = (if rzeEventID ev = [] then w else w\<lparr>webhook_events := webhook_events w @
      [\<lparr>wevEventID = rzeEventID ev, wevEventType = rzeEvent ev, wevProviderRef = rzeOrderID ev, wevReceivedAt = clock w\<rparr>]\<rparr>)"
  have v: "net v = []" "intents v = intents w" "clock v = clock w" using assms(1) by (simp_all add: v_def)
  have "handle_event ev w = dispatch_event ev v"
    using assms(1,7) by (simp add: handle_event_def MarkWebhookSeen_def RecordWebhookEventIfNew_def attempt_def ok_def v_def)
  then have h: "handle_event ev w = UpdateStatusByProviderRef [] ''succeeded'' (rzePaymentID ev) v"
    using assms(5,6) by (simp add: dispatch_event_def)
  have row: "by_ref_rows [] ''succeeded'' p"
    using assms(3,4) by (auto simp: by_ref_rows_def open_status_def allowedCurrent_def validStatusTransitions_def)
  define u where "u = v\<lparr>intents := update_rows (by_ref_rows [] ''succeeded'') (set_status ''succeeded'' (rzePaymentID ev) (clock w)) (intents w)\<rparr>"
  have st: "store_UpdateStatusByProviderRef [] ''succeeded'' (rzePaymentID ev) v = (Inr (), u)"
    using by_ref_runs [of v "''succeeded''" p "[]"] v assms(2) row by (simp add: u_def)
  have "stable (books :: 'a paysvc \<Rightarrow> _) (attempt (GetIntentByProviderRef []) (\<lambda>l. publishEvent (status_event ''succeeded'') []
         (case l of Inr intent \<Rightarrow> IntentPayload intent | Inl e \<Rightarrow> BareKeys [] (rzePaymentID ev) ''succeeded'')))"
    by (intro stable_intros)
  then have "books (snd (attempt (GetIntentByProviderRef []) (\<lambda>l. publishEvent (status_event ''succeeded'') []
         (case l of Inr intent \<Rightarrow> IntentPayload intent | Inl e \<Rightarrow> BareKeys [] (rzePaymentID ev) ''succeeded'')) u)) = books u"
    by (simp add: stable_def)
  then have "intents (snd (handle_event ev w)) = intents u"
    using st by (simp add: h UpdateStatusByProviderRef_def attempt_def [of "store_UpdateStatusByProviderRef _ _ _"] books_def)
  moreover have "set_status ''succeeded'' (rzePaymentID ev) (clock w) p \<in> set (intents u)"
    using assms(2) row by (auto simp: u_def in_update_rows)
  ultimately show ?thesis
    by (intro bexI [of _ "set_status ''succeeded'' (rzePaymentID ev) (clock w) p"])
      (auto simp: set_status_def refer_def touch_def)
qed

end
