(* ===== verification/Payments_Examples.thy ===== *)
theory Payments_Examples
  imports Payments_Webhook
begin

text \<open>
  A run of payments-service on the stub gateway: a payment of 100 rupees is initiated, captured by
  the provider's webhook and refunded in part. The properties of the service are instantiated on it.
\<close>

section \<open>The run\<close>

definition demo_payments_pu :: "string \<Rightarrow> uuid option" where
  "demo_payments_pu s = (if s = ''payer'' then Some 11 else if s = ''payee'' then Some 22
     else if s = ''intent'' then Some 500 else None)"

definition demo_payments_handler :: "int PaymentsHandler" where
  "demo_payments_handler = \<lparr>phSvc = \<lparr>psGateway = Some StubGateway, psNumeric = (\<lambda>_. Some 10000)\<rparr>,
     phInternalKey = [], phWebhookSecret = []\<rparr>"

definition demo_start :: "int paysvc" where
  "demo_start = \<lparr>net = [], clock = 0, idgen = (\<lambda>n. 500 + of_nat n), idctr = 0, intents = [], audit_log = [],
     holds = [], webhook_events = [], refunds_applied = [], intent_events = [], gateway_side = 7\<rparr>"

definition demo_payments_request :: "'b \<Rightarrow> 'b http_request" where
  "demo_payments_request b = \<lparr>rqHeaders = (\<lambda>_. ''payer''), rqParam = (\<lambda>_. ''intent''), rqQuery = (\<lambda>_. []), rqBody = Inr b\<rparr>"

definition demo_order_id :: string where
  "demo_order_id = ''order_stub_'' @ show_int 7"

definition demo_body :: initiateBody where
  "demo_body = \<lparr>inbPayeeID = ''payee'', inbReferenceType = ''order'', inbReferenceID = [], inbAmount = 100,
     inbAmountMinor = 10000, inbCurrency = [], inbMethod = ''upi'', inbIdempotencyKey = ''k1''\<rparr>"

definition demo_intent :: PaymentIntent where
  "demo_intent = \<lparr>piID = 500, piPayerID = 11, piPayeeID = 22, piReferenceType = ''order'', piReferenceID = 0,
     piAmount = fl64 (of_int 10000 / 100), piAmountMinorRaw = 10000, piCurrency = ''INR'', piMethod = ''upi'',
     piStatus = ''pending'', piProviderRef = demo_order_id, piUPIIntentURL = [], piIdempotencyKey = ''k1'',
     piRefundedAmountMinor = 0, piCreatedAt = 0, piUpdatedAt = 0\<rparr>"

definition demo_razorpay_event :: "string \<Rightarrow> string \<Rightarrow> event_payload \<Rightarrow> intent_event" where
  "demo_razorpay_event t k p = \<lparr>ievType = t, ievKey = k, ievPayload = p\<rparr>"

definition demo_initiated :: "int paysvc" where
  "demo_initiated = demo_start\<lparr>idctr := 1, intents := [demo_intent], audit_log := [initiated_entry demo_intent 0],
     intent_events := [demo_razorpay_event ''payment.initiated'' (uuid_string 11) (IntentPayload demo_intent)]\<rparr>"

lemma demo_initiates:
  "ps_RegisterRoutes demo_payments_handler demo_payments_pu (POST_intents (demo_payments_request demo_body)) demo_start =
     (JSONWithContext 201 (IntentData demo_intent), demo_initiated)"
  by (simp add: payments_http_eval payments_service_eval payments_store_eval payments_gateway_eval go_http_eval io_defs
      postgres_eval demo_payments_handler_def demo_payments_request_def demo_body_def demo_start_def demo_initiated_def demo_intent_def
      demo_payments_pu_def demo_order_id_def demo_razorpay_event_def)

definition demo_captured_event :: "string \<times> json option" where
  "demo_captured_event = ([], Some (JObject [(''event'', JStr ''payment.captured''), (''id'', JStr ''evt_1''),
     (''payload'', JObject [(''payment'', JObject [(''entity'',
        JObject [(''id'', JStr ''pay_1''), (''order_id'', JStr demo_order_id)])])])]))"

definition demo_paid_intent :: PaymentIntent where
  "demo_paid_intent = demo_intent\<lparr>piStatus := ''succeeded'', piProviderRef := ''pay_1''\<rparr>"

definition demo_captured :: "int paysvc" where
  "demo_captured = demo_initiated\<lparr>intents := [demo_paid_intent],
     webhook_events := [\<lparr>wevEventID = ''evt_1'', wevEventType = ''payment.captured'', wevProviderRef = demo_order_id, wevReceivedAt = 0\<rparr>],
     intent_events := intent_events demo_initiated @ [demo_razorpay_event ''payment.succeeded'' [] (BareKeys demo_order_id ''pay_1'' ''succeeded'')]\<rparr>"

lemma demo_order_fields: "demo_order_id \<noteq> []" "demo_order_id \<noteq> ''pay_1''" "''pay_1'' \<noteq> demo_order_id"
  by (simp_all add: demo_order_id_def)

lemma demo_captures:
  "ps_RegisterRoutes demo_payments_handler demo_payments_pu (POST_webhook (demo_payments_request demo_captured_event)) demo_initiated =
     (status_only 200, demo_captured)"
  by (simp add: payments_http_eval payments_service_eval payments_store_eval payments_gateway_eval go_http_eval io_defs
      postgres_eval go_json_eval demo_payments_handler_def demo_payments_request_def demo_start_def demo_initiated_def demo_intent_def
      demo_captured_event_def demo_captured_def demo_paid_intent_def demo_razorpay_event_def demo_order_fields)

definition demo_refunded_intent :: PaymentIntent where
  "demo_refunded_intent = demo_paid_intent\<lparr>piStatus := ''partially_refunded'', piRefundedAmountMinor := 4000\<rparr>"

definition demo_refunded :: "int paysvc" where
  "demo_refunded = demo_captured\<lparr>intents := [demo_refunded_intent],
     audit_log := audit_log demo_captured @ [refund_entry 500 ''partially_refunded'' 11 4000 4000 0],
     intent_events := intent_events demo_captured @ [demo_razorpay_event ''payment.refunded'' (uuid_string 11) (IntentPayload demo_refunded_intent)]\<rparr>"

lemma demo_refund_booked:
  "ps_RegisterRoutes demo_payments_handler demo_payments_pu (POST_intent_refund (demo_payments_request \<lparr>rfbReason = [], rfbAmountMinor = 4000\<rparr>)) demo_captured =
     (JSONWithContext 200 (IntentData demo_refunded_intent), demo_refunded)"
  by (simp add: payments_http_eval payments_service_eval payments_store_eval payments_gateway_eval go_http_eval io_defs
      postgres_eval demo_payments_handler_def demo_payments_request_def demo_start_def demo_initiated_def demo_intent_def demo_payments_pu_def
      demo_captured_def demo_paid_intent_def demo_razorpay_event_def demo_refunded_def demo_refunded_intent_def AmountMinor_def
      wrap64_def initiated_entry_def)

lemma demo_steps:
  "ps_step automatic demo_payments_handler demo_payments_pu demo_start demo_initiated"
  "ps_step automatic demo_payments_handler demo_payments_pu demo_initiated demo_captured"
  "ps_step automatic demo_payments_handler demo_payments_pu demo_captured demo_refunded"
  using ps_step.request [of automatic "POST_intents (demo_payments_request demo_body)" demo_payments_handler demo_payments_pu demo_start]
    ps_step.request [of automatic "POST_webhook (demo_payments_request demo_captured_event)" demo_payments_handler demo_payments_pu demo_initiated]
    ps_step.request [of automatic "POST_intent_refund (demo_payments_request \<lparr>rfbReason = [], rfbAmountMinor = 4000\<rparr>)"
      demo_payments_handler demo_payments_pu demo_captured]
  by (simp_all add: demo_initiates demo_captures demo_refund_booked automatic_def del: ps_RegisterRoutes.simps)

lemma demo_runs:
  "ps_run automatic demo_payments_handler demo_payments_pu demo_start demo_captured"
  "ps_run automatic demo_payments_handler demo_payments_pu demo_captured demo_refunded"
  "ps_run automatic demo_payments_handler demo_payments_pu demo_start demo_refunded"
  using demo_steps unfolding ps_run_def by (auto intro: rtranclp.rtrancl_into_rtrancl)

lemma demo_initial: "ps_initial demo_start"
  by (simp add: ps_initial_def demo_start_def)

lemma demo_rows:
  "intents demo_initiated = [demo_intent]" "intents demo_captured = [demo_paid_intent]"
  "intents demo_refunded = [demo_refunded_intent]" "net demo_initiated = []" "net demo_captured = []"
  "audit_log demo_refunded = [initiated_entry demo_intent 0, refund_entry 500 ''partially_refunded'' 11 4000 4000 0]"
  by (simp_all add: demo_initiated_def demo_captured_def demo_refunded_def demo_start_def)

lemma demo_intent_fields:
  "piStatus demo_intent = ''pending''" "piID demo_intent = 500" "piAmountMinorRaw demo_intent = 10000"
  "piProviderRef demo_intent = demo_order_id" "piRefundedAmountMinor demo_intent = 0" "piIdempotencyKey demo_intent = ''k1''"
  "piPayerID demo_intent = 11" "piPayeeID demo_intent = 22" "piCreatedAt demo_intent = 0"
  "piStatus demo_paid_intent = ''succeeded''" "piID demo_paid_intent = 500" "piAmountMinorRaw demo_paid_intent = 10000"
  "piRefundedAmountMinor demo_paid_intent = 0" "piPayerID demo_paid_intent = 11" "piPayeeID demo_paid_intent = 22"
  "piStatus demo_refunded_intent = ''partially_refunded''" "piID demo_refunded_intent = 500"
  "piAmountMinorRaw demo_refunded_intent = 10000" "piRefundedAmountMinor demo_refunded_intent = 4000"
  by (simp_all add: demo_intent_def demo_paid_intent_def demo_refunded_intent_def)

lemma demo_amounts: "AmountMinor demo_intent = 10000" "AmountMinor demo_paid_intent = 10000" "AmountMinor demo_refunded_intent = 10000"
  by (simp_all add: AmountMinor_def demo_intent_fields)

lemma demo_books: "books_ok (books demo_initiated)" "books_ok (books demo_captured)"
  using books_ok_run [OF demo_initial demo_runs(1)] books_ok_run [OF demo_initial, of automatic demo_payments_handler demo_payments_pu demo_initiated]
    demo_steps(1) by (auto simp: ps_run_def)

section \<open>Witnesses\<close>

theorem payments_refine_ledger_witness:
  "(ledger_step False)\<^sup>*\<^sup>* (books demo_start) (books demo_refunded)"
  using payments_refine_ledger [OF demo_runs(3)] by simp

theorem refunds_stay_within_payment_witness:
  "0 \<le> piRefundedAmountMinor demo_refunded_intent
     \<and> piRefundedAmountMinor demo_refunded_intent \<le> AmountMinor demo_refunded_intent
     \<and> piRefundedAmountMinor demo_refunded_intent = booked (piID demo_refunded_intent) (audit_log demo_refunded)
     \<and> 0 < AmountMinor demo_refunded_intent"
  by (rule refunds_stay_within_payment [OF demo_initial demo_runs(3)]) (simp add: demo_rows)

theorem statuses_tell_the_refunds_witness: "status_ok demo_refunded_intent"
  by (rule statuses_tell_the_refunds [OF demo_initial demo_runs(3)]) (simp add: demo_rows)

theorem intents_follow_the_machine_witness:
  "moved_on demo_paid_intent demo_refunded_intent"
  using intents_follow_the_machine [OF demo_initial demo_runs(1,2), of demo_paid_intent] by (simp add: demo_rows)

theorem refund_call_witness:
  "\<exists>q w'. InitiateRefund (phSvc demo_payments_handler) 500 22 0 [] demo_captured = (Inr q, w')
    \<and> piRefundedAmountMinor q = 10000 \<and> piStatus q = ''refunded''"
proof -
  have "may_refund demo_paid_intent 22 0" by (simp add: may_refund_def demo_intent_fields demo_amounts)
  moreover have "demo_paid_intent \<in> set (intents demo_captured)" by (simp add: demo_rows)
  moreover have "int64 (AmountMinor demo_paid_intent)" by (simp add: demo_amounts int64_def)
  ultimately show ?thesis
    using refund_call [OF demo_rows(5) demo_books(2), where p = demo_paid_intent and sv = "phSvc demo_payments_handler"
        and actor = 22 and a = 0 and reason = "[]"]
    by (auto simp: demo_intent_fields demo_amounts refund_due_def split: prod.splits sum.splits)
qed

theorem strangers_cannot_refund_witness:
  "\<exists>e w'. InitiateRefund (phSvc demo_payments_handler) 500 33 0 [] demo_captured = (Inl e, w')
    \<and> books w' = books demo_captured \<and> gateway_side w' = gateway_side demo_captured
    \<and> intent_events w' = intent_events demo_captured"
  using strangers_cannot_refund [where w = demo_captured and p = demo_paid_intent and actor = 33
      and sv = "phSvc demo_payments_handler" and a = 0 and reason = "[]"]
  by (simp add: demo_rows demo_intent_fields)

theorem refund_status_agrees_witness:
  "fst (ApplyRefund 500 4000 10000 11 demo_captured) = Inr (''partially_refunded'', 4000)
     \<and> ''partially_refunded'' = computeRefundStatus 0 4000 10000"
proof -
  have a: "ApplyRefund 500 4000 10000 11 demo_captured = (Inr (''partially_refunded'', 4000),
      snd (ApplyRefund 500 4000 10000 11 demo_captured))"
    using ApplyRefund_runs [of demo_captured demo_paid_intent 4000 10000 11] demo_books(2)
    by (simp add: demo_rows demo_intent_fields books_ok_def books_def refundable_intent_def int64_def refund_case_def)
  have "find (refundable_intent 500) (intents demo_captured) = Some demo_paid_intent"
    by (simp add: demo_rows demo_intent_fields refundable_intent_def)
  from refund_status_agrees [OF a this] show ?thesis by (subst a) (simp add: demo_intent_fields)
qed

theorem verify_needs_proof_of_payment_witness:
  "\<exists>v w'. VerifyIntent (phSvc demo_payments_handler) 500 demo_order_id ''pay_1'' [] 10000 demo_initiated = (Inr v, w') \<and> vrfAmountMinor v = 10000"
proof -
  have "\<exists>v w'. VerifyIntent (phSvc demo_payments_handler) 500 demo_order_id ''pay_1'' [] 10000 demo_initiated = (Inr v, w')"
    by (simp add: payments_service_eval payments_store_eval payments_gateway_eval io_defs
      postgres_eval demo_payments_handler_def demo_start_def demo_initiated_def demo_intent_def demo_order_fields AmountMinor_def initiated_entry_def)
  then obtain v w' where v: "VerifyIntent (phSvc demo_payments_handler) 500 demo_order_id ''pay_1'' [] 10000 demo_initiated = (Inr v, w')" by blast
  have "distinct (map piID (intents demo_initiated))" by (simp add: demo_rows)
  from verify_needs_proof_of_payment [OF this v, of v] have "vrfAmountMinor v = 10000"
    by (auto simp: demo_rows demo_amounts)
  with v show ?thesis by blast
qed

theorem paise_roundtrip_witness:
  "\<exists>mirror. rupeesToPaise mirror = 10050"
  using paise_roundtrip [of 10050 "\<lparr>iniPayerID = 1, iniPayeeID = 2, iniReferenceType = [], iniReferenceID = 3, iniAmount = 0,
    iniAmountMinor = 10050, iniCurrency = [], iniMethod = ''upi'', iniIdempotencyKey = []\<rparr>"] by auto

definition demo_retry :: "string \<Rightarrow> InitiateInput" where
  "demo_retry meth = \<lparr>iniPayerID = 33, iniPayeeID = 44, iniReferenceType = [], iniReferenceID = 3, iniAmount = 5,
    iniAmountMinor = 500, iniCurrency = [], iniMethod = meth, iniIdempotencyKey = ''k1''\<rparr>"

lemma demo_known:
  "meth \<in> set intent_methods \<Longrightarrow> known_key (phSvc demo_payments_handler) (demo_retry meth) demo_intent (demo_initiated\<lparr>clock := t\<rparr>)"
  by (simp add: known_key_def demo_retry_def demo_rows demo_intent_fields resolve_amount_def demo_payments_handler_def)

theorem key_replay_returns_first_intent_witness:
  "\<exists>w'. InitiatePayment (phSvc demo_payments_handler) (demo_retry ''upi'') (demo_initiated\<lparr>clock := 2000000\<rparr>) = (Inr (returned_row demo_intent), w')
    \<and> books w' = books demo_initiated \<and> holds w' = [] \<and> length (intent_events w') = 1"
  using key_replay_returns_first_intent [OF demo_known [of "''upi''" 2000000]]
  by (auto simp: demo_intent_fields intent_methods_def demo_initiated_def demo_start_def books_def)

theorem quick_retry_holds_twice_witness:
  "\<exists>w' h. InitiatePayment (phSvc demo_payments_handler) (demo_retry ''escrow'') (demo_initiated\<lparr>clock := 1000\<rparr>) = (Inr (returned_row demo_intent), w')
    \<and> holds w' = [h] \<and> hldAmount h = 500"
  using quick_retry_holds_twice [OF demo_known [of "''escrow''" 1000], of 500 5]
  by (auto simp: demo_intent_fields intent_methods_def demo_retry_def resolve_amount_def demo_initiated_def demo_start_def)

theorem status_route_sets_any_status_witness:
  "\<exists>q w'. ps_RegisterRoutes demo_payments_handler demo_payments_pu (PATCH_intent_status (demo_payments_request
      \<lparr>stbOldStatus = ''succeeded'', stbNewStatus = ''pending'', stbProviderRef = []\<rparr>)) demo_captured
      = (JSONWithContext 200 (IntentData q), w') \<and> piStatus q = ''pending''"
  using status_route_sets_any_status [OF demo_rows(5) demo_books(2), of demo_paid_intent "''pending''" demo_payments_handler
      "demo_payments_request \<lparr>stbOldStatus = ''succeeded'', stbNewStatus = ''pending'', stbProviderRef = []\<rparr>" demo_payments_pu 11]
  by (auto simp: demo_rows demo_intent_fields intent_statuses_def demo_payments_handler_def demo_payments_request_def demo_payments_pu_def GetHeader_def)

definition demo_getenv :: "string \<Rightarrow> string" where
  "demo_getenv k = (if k = ''RAZORPAY_KEY_ID'' then ''id'' else if k = ''RAZORPAY_KEY_SECRET'' then ''s1''
     else if k = ''RAZORPAY_WEBHOOK_SECRET'' then ''s2'' else [])"

theorem webhook_needs_signature_witness:
  "\<exists>r. ps_RegisterRoutes (demo_payments_handler\<lparr>phWebhookSecret := ''s2''\<rparr>) demo_payments_pu
      (POST_webhook ((demo_payments_request demo_captured_event)\<lparr>rqHeaders := (\<lambda>_. [])\<rparr>)) demo_initiated = (r, demo_initiated)"
proof -
  have c: "payments_config demo_getenv = Some (UseRazorpay \<lparr>rzpKeyID = ''id'', rzpKeySecret = ''s1''\<rparr>, ''s2'', [])"
    by (simp add: payments_config_def select_gateway_def demo_getenv_def)
  show ?thesis
    using webhook_needs_signature [OF c, of "demo_payments_handler\<lparr>phWebhookSecret := ''s2''\<rparr>"
        "(demo_payments_request demo_captured_event)\<lparr>rqHeaders := (\<lambda>_. [])\<rparr>" demo_payments_pu demo_initiated]
    by (auto simp: demo_getenv_def demo_payments_request_def GetHeader_def)
qed

definition demo_captured_fields :: razorpay_event where
  "demo_captured_fields = \<lparr>rzeEvent = ''payment.captured'', rzeEventID = ''evt_1'', rzePaymentID = ''pay_1'',
     rzeOrderID = demo_order_id, rzeRefundID = [], rzeRefundAmount = 0\<rparr>"

theorem webhook_event_once_witness:
  "\<exists>ns. handle_event demo_captured_fields (snd (handle_event demo_captured_fields demo_initiated)) =
     (Inr (), (snd (handle_event demo_captured_fields demo_initiated))\<lparr>net := ns\<rparr>)"
  using webhook_event_once [of demo_captured_fields demo_initiated] by (simp add: demo_captured_fields_def demo_rows)


theorem failed_check_drops_event_witness:
  "ps_RegisterRoutes demo_payments_handler demo_payments_pu (POST_webhook (demo_payments_request demo_captured_event)) (demo_initiated\<lparr>net := [Refused ''down'']\<rparr>)
     = (status_only 200, demo_initiated)"
proof -
  have "unmarshal_razorpay_event (the (snd demo_captured_event)) = Some demo_captured_fields"
    by (simp add: payments_http_eval go_json_eval payments_gateway_eval demo_captured_event_def demo_captured_fields_def)
  moreover have "demo_initiated\<lparr>net := []\<rparr> = demo_initiated" by (simp add: demo_initiated_def demo_start_def)
  ultimately show ?thesis
    using failed_check_drops_event [of "demo_initiated\<lparr>net := [Refused ''down'']\<rparr>" "''down''" "[]" "demo_payments_request demo_captured_event"
        "fst demo_captured_event" "snd demo_captured_event" demo_payments_handler demo_captured_fields demo_payments_pu]
    by (simp add: demo_payments_request_def demo_payments_handler_def demo_captured_event_def demo_captured_fields_def)
qed

theorem captured_payment_loses_its_order_witness:
  "\<exists>w1. UpdateStatusByProviderRef demo_order_id ''succeeded'' ''pay_1'' demo_initiated = (Inr (), w1)
    \<and> ApplyWebhookRefund demo_order_id ''rfnd_1'' 4000 w1 = (Inr (), w1)"
  using captured_payment_loses_its_order [OF demo_rows(4) demo_books(1), of demo_intent demo_order_id "''pay_1''"]
  by (auto simp: demo_rows demo_intent_fields demo_order_fields open_status_def)

definition demo_cash :: "uuid \<Rightarrow> PaymentIntent" where
  "demo_cash i = demo_intent\<lparr>piID := i, piMethod := ''cod'', piProviderRef := []\<rparr>"

theorem orderless_capture_settles_cash_intents_witness:
  "\<exists>q \<in> set (intents (snd (handle_event (demo_captured_fields\<lparr>rzeOrderID := []\<rparr>) (demo_start\<lparr>intents := [demo_cash 1, demo_cash 2]\<rparr>)))).
     piID q = 2 \<and> piStatus q = ''succeeded''"
  using orderless_capture_settles_cash_intents [of "demo_start\<lparr>intents := [demo_cash 1, demo_cash 2]\<rparr>" "demo_cash 2"
      "demo_captured_fields\<lparr>rzeOrderID := []\<rparr>"]
  by (auto simp: demo_start_def demo_cash_def demo_intent_fields open_status_def demo_captured_fields_def)

end
