(* ===== verification/Rider_Otp.thy ===== *)
theory Rider_Otp
  imports Postgres Go_Crypto
begin

text \<open>
  The codes that start a ride (\<^verbatim>\<open>internal/otp/otp.go\<close> and \<^verbatim>\<open>generateOTPAndHash\<close> of
  \<^verbatim>\<open>internal/service/ride.go\<close>): PBKDF2 over HMAC-SHA256, its textual form with
  \<^verbatim>\<open>base64.RawStdEncoding\<close>, and the generation of a code. Bytes are numbers below 256.
  \<^verbatim>\<open>rand.Read\<close> draws on the state: the outcome of each call is fixed by the environment, an error
  or the bytes it fills in.
\<close>

section \<open>Randomness\<close>

record randenv = env +
  entropy :: "nat \<Rightarrow> goerr + (nat \<Rightarrow> nat)"
  randctr :: nat

definition rand_Read :: "nat \<Rightarrow> ('z randenv_scheme, nat list) io" where
  "rand_Read n = (\<lambda>w. ((case entropy w (randctr w) of
       Inl e \<Rightarrow> Inl e | Inr f \<Rightarrow> Inr (map (\<lambda>i. f i mod 256) [0..<n])), w\<lparr>randctr := Suc (randctr w)\<rparr>))"

section \<open>Base 64 without padding\<close>

fun raw64_encode :: "nat list \<Rightarrow> string" where
  "raw64_encode (a # b # c # s) =
     (let n = (a * 256 + b) * 256 + c
      in base64_char (n div 262144) # base64_char (n div 4096 mod 64) # base64_char (n div 64 mod 64)
         # base64_char (n mod 64) # raw64_encode s)"
| "raw64_encode [a, b] =
     (let n = (a * 256 + b) * 4 in [base64_char (n div 4096), base64_char (n div 64 mod 64), base64_char (n mod 64)])"
| "raw64_encode [a] = (let n = a * 16 in [base64_char (n div 64), base64_char (n mod 64)])"
| "raw64_encode [] = []"

definition base64_digit :: "char \<Rightarrow> nat option" where
  "base64_digit c = find (\<lambda>n. base64_char n = c) [0..<64]"

fun raw64_bytes :: "nat list \<Rightarrow> nat list option" where
  "raw64_bytes (p # q # r # s # xs) =
     (let n = ((p * 64 + q) * 64 + r) * 64 + s
      in map_option (\<lambda>bs. n div 65536 # n div 256 mod 256 # n mod 256 # bs) (raw64_bytes xs))"
| "raw64_bytes [p, q, r] = (let n = (p * 64 + q) * 64 + r in Some [n div 1024, n div 4 mod 256])"
| "raw64_bytes [p, q] = Some [(p * 64 + q) div 16]"
| "raw64_bytes [p] = None"
| "raw64_bytes [] = Some []"

text \<open>Line breaks are skipped; any other character outside the alphabet is an error.\<close>

definition raw64_decode :: "string \<Rightarrow> nat list option" where
  "raw64_decode s =
     (let ds = map base64_digit (filter (\<lambda>c. code c \<noteq> 10 \<and> code c \<noteq> 13) s)
      in if None \<in> set ds then None else raw64_bytes (map the ds))"

section \<open>The derived key\<close>

definition Iterations :: nat where
  "Iterations = 25000"

definition saltLen :: nat where
  "saltLen = 16"

definition keyLen :: nat where
  "keyLen = 32"

definition be32 :: "nat \<Rightarrow> nat list" where
  "be32 n = map (\<lambda>i. n div 256 ^ (3 - i) mod 256) [0..<4]"

text \<open>One block: the exclusive or of the chain \<open>u\<^sub>1 = PRF(salt || index)\<close>, \<open>u\<^sub>i\<^sub>+\<^sub>1 = PRF(u\<^sub>i)\<close>.\<close>

definition pbkdf2_step :: "nat list \<Rightarrow> nat list \<times> nat list \<Rightarrow> nat list \<times> nat list" where
  "pbkdf2_step password = (\<lambda>(u, t). let u' = hmac_sha256 password u in (u', map2 (\<lambda>x y. x XOR y) t u'))"

definition pbkdf2_block :: "nat list \<Rightarrow> nat list \<Rightarrow> nat \<Rightarrow> nat \<Rightarrow> nat list" where
  "pbkdf2_block password salt iter blockIdx =
     (let u = hmac_sha256 password (salt @ be32 blockIdx)
      in snd ((pbkdf2_step password ^^ (iter - 1)) (u, u)))"

definition pbkdf2HMAC :: "nat list \<Rightarrow> nat list \<Rightarrow> nat \<Rightarrow> nat \<Rightarrow> nat list" where
  "pbkdf2HMAC password salt iter klen =
     (let numBlocks = (klen + 32 - 1) div 32
      in take klen (concat (map (pbkdf2_block password salt iter) [1..<numBlocks + 1])))"

section \<open>Hashing and comparing\<close>

definition ErrMismatchedHashAndPassword :: goerr where
  "ErrMismatchedHashAndPassword = ErrVar ''ErrMismatchedHashAndPassword''
     ''rider/otp: hashedPassword is not the hash of the given password''"

definition ErrInvalidHash :: goerr where
  "ErrInvalidHash = ErrVar ''ErrInvalidHash'' ''rider/otp: invalid hash format''"

definition hash_text :: "nat list \<Rightarrow> nat list \<Rightarrow> string" where
  "hash_text salt derived = ''r1$'' @ raw64_encode salt @ ''$'' @ raw64_encode derived"

definition GenerateFromPassword :: "string \<Rightarrow> ('z randenv_scheme, string) io" where
  "GenerateFromPassword password = require (password \<noteq> []) (Errorf ''rider/otp: empty password'')
     (andThen (rand_Read saltLen) (\<lambda>salt.
      ok (hash_text salt (pbkdf2HMAC (bytes_of password) salt Iterations keyLen))))"

text \<open>\<^verbatim>\<open>strings.Split(s, c)\<close> for a one-byte separator.\<close>

fun split_byte :: "char \<Rightarrow> string \<Rightarrow> string list" where
  "split_byte c [] = [[]]"
| "split_byte c (x # xs) = (if x = c then [] # split_byte c xs
     else (case split_byte c xs of [] \<Rightarrow> [[x]] | p # ps \<Rightarrow> (x # p) # ps))"

text \<open>\<open>None\<close> is the nil error.\<close>

definition CompareHashAndPassword :: "string \<Rightarrow> string \<Rightarrow> goerr option" where
  "CompareHashAndPassword hashed password = (case split_byte (CHR ''$'') hashed of
     [version, saltText, wantText] \<Rightarrow>
       if version \<noteq> ''r1'' then Some ErrInvalidHash
       else (case (raw64_decode saltText, raw64_decode wantText) of
         (Some salt, Some want) \<Rightarrow>
           if pbkdf2HMAC (bytes_of password) salt Iterations (length want) = want then None
           else Some ErrMismatchedHashAndPassword
       | _ \<Rightarrow> Some ErrInvalidHash)
   | _ \<Rightarrow> Some ErrInvalidHash)"

section \<open>Codes\<close>

text \<open>\<^verbatim>\<open>for len(plain) < 4 { plain = "0" + plain }\<close>\<close>

definition pad4 :: "string \<Rightarrow> string" where
  "pad4 s = replicate (4 - length s) (CHR ''0'') @ s"

definition otp_code :: "nat list \<Rightarrow> string" where
  "otp_code buf = pad4 (show_nat (foldl (\<lambda>n b. 256 * n + b) 0 buf mod 10000))"

definition generateOTPAndHash :: "('z randenv_scheme, string \<times> string) io" where
  "generateOTPAndHash = andThen (rand_Read 4) (\<lambda>buf.
     andThen (GenerateFromPassword (otp_code buf)) (\<lambda>h. ok (otp_code buf, h)))"

section \<open>The text of a hash is read back\<close>

lemma code_base64_char:
  "n < 64 \<Longrightarrow> code (base64_char n) = (if n < 26 then 65 + n else if n < 52 then 71 + n
     else if n < 62 then n - 4 else if n = 62 then 43 else 47)"
  by (simp add: base64_char_def code_def)

lemma base64_char_inj: "n < 64 \<Longrightarrow> m < 64 \<Longrightarrow> base64_char n = base64_char m \<Longrightarrow> n = m"
proof -
  assume n: "n < 64" "m < 64" and "base64_char n = base64_char m"
  then have "code (base64_char n) = code (base64_char m)" by simp
  then show "n = m"
    unfolding code_base64_char [OF n(1)] code_base64_char [OF n(2)] using n by (simp split: if_splits)
qed

lemma base64_digit_char [simp]:
  assumes "n < 64"
  shows "base64_digit (base64_char n) = Some n"
proof -
  have "\<exists>i < length [0..<64]. base64_char ([0..<64] ! i) = base64_char n \<and> n = [0..<64] ! i
      \<and> (\<forall>j < i. base64_char ([0..<64] ! j) \<noteq> base64_char n)"
  proof (intro exI [of _ n] conjI allI impI)
    fix j assume "j < n"
    then show "base64_char ([0..<64] ! j) \<noteq> base64_char n" using base64_char_inj [of j n] assms by auto
  qed (use assms in simp_all)
  then show ?thesis by (simp add: base64_digit_def find_Some_iff)
qed

lemma raw64_text:
  assumes "\<forall>b \<in> set bs. b < 256"
  shows "\<exists>ds. raw64_encode bs = map base64_char ds \<and> (\<forall>d \<in> set ds. d < 64) \<and> raw64_bytes ds = Some bs"
  using assms
proof (induction bs rule: raw64_encode.induct)
  case (1 a b c s)
  define n where "n = (a * 256 + b) * 256 + c"
  have ab: "a < 256" "b < 256" "c < 256" using 1 by simp_all
  obtain ds where ds: "raw64_encode s = map base64_char ds" "\<forall>d \<in> set ds. d < 64" "raw64_bytes ds = Some s"
    using 1 by auto
  have "n mod 256 = c" unfolding n_def mod_mult_self3 using ab(3) by simp
  moreover have "n div 256 = a * 256 + b" using ab(3) by (simp add: n_def)
  moreover have "n div 65536 = n div 256 div 256" by (simp flip: div_mult2_eq)
  ultimately have n: "n div 65536 = a" "n div 256 mod 256 = b" "n mod 256 = c" "n < 16777216"
    using ab by (simp_all add: n_def)
  have join: "((n div 262144 * 64 + n div 4096 mod 64) * 64 + n div 64 mod 64) * 64 + n mod 64 = n"
    using div_mult_mod_eq [of n 64] div_mult_mod_eq [of "n div 64" 64] div_mult_mod_eq [of "n div 4096" 64]
    by (simp flip: div_mult2_eq)
  have enc: "raw64_encode (a # b # c # s) = base64_char (n div 262144) # base64_char (n div 4096 mod 64)
      # base64_char (n div 64 mod 64) # base64_char (n mod 64) # raw64_encode s"
    by (simp only: raw64_encode.simps Let_def n_def [symmetric])
  have "n div 262144 < 64" using n(4) by (simp add: less_mult_imp_div_less)
  then show ?case
    unfolding enc using ds n(1-3) join
    by (intro exI [of _ "n div 262144 # n div 4096 mod 64 # n div 64 mod 64 # n mod 64 # ds"])
      (simp add: Let_def)
next
  case (2 a b)
  define n where "n = (a * 256 + b) * 4"
  have ab: "a < 256" "b < 256" using 2 by simp_all
  have n: "n div 1024 = a" "n div 4 mod 256 = b" "n < 262144"
    using ab by (simp_all add: n_def div_mult2_eq)
  have join: "(n div 4096 * 64 + n div 64 mod 64) * 64 + n mod 64 = n"
    using div_mult_mod_eq [of n 64] div_mult_mod_eq [of "n div 64" 64]
    by (simp flip: div_mult2_eq)
  have enc: "raw64_encode [a, b] = [base64_char (n div 4096), base64_char (n div 64 mod 64), base64_char (n mod 64)]"
    by (simp only: raw64_encode.simps Let_def n_def [symmetric])
  have "n div 4096 < 64" using n(3) by (simp add: less_mult_imp_div_less)
  then show ?case
    unfolding enc using n(1,2) join
    by (intro exI [of _ "[n div 4096, n div 64 mod 64, n mod 64]"]) (simp add: Let_def)
next
  case (3 a)
  then have "a * 16 div 64 < 64" "(a * 16 div 64 * 64 + a * 16 mod 64) div 16 = a"
    using div_mult_mod_eq [of "a * 16" 64] by simp_all
  then show ?case
    by (intro exI [of _ "[a * 16 div 64, a * 16 mod 64]"]) (simp add: Let_def)
qed simp

lemma raw64_roundtrip:
  assumes "\<forall>b \<in> set bs. b < 256"
  shows "raw64_decode (raw64_encode bs) = Some bs" "CHR ''$'' \<notin> set (raw64_encode bs)"
proof -
  obtain ds where ds: "raw64_encode bs = map base64_char ds" "\<forall>d \<in> set ds. d < 64" "raw64_bytes ds = Some bs"
    using raw64_text [OF assms] by blast
  have "\<forall>c \<in> set (map base64_char ds). 43 \<le> code c" using ds(2) by (auto simp: code_base64_char)
  moreover have "code (CHR ''$'') = 36" by (simp add: code_def)
  ultimately show "CHR ''$'' \<notin> set (raw64_encode bs)" unfolding ds(1) by force
  have "filter (\<lambda>c. code c \<noteq> 10 \<and> code c \<noteq> 13) (map base64_char ds) = map base64_char ds"
    using ds(2) by (auto simp: filter_id_conv code_base64_char)
  moreover have "map base64_digit (map base64_char ds) = map Some ds"
    using ds(2) by simp
  moreover have "map the (map Some ds) = ds" by (simp add: comp_def)
  ultimately show "raw64_decode (raw64_encode bs) = Some bs"
    unfolding raw64_decode_def ds(1) using ds(3) by (simp only: Let_def) auto
qed

lemma split_byte_plain: "c \<notin> set s \<Longrightarrow> split_byte c s = [s]"
  by (induction s) auto

lemma split_byte_append: "c \<notin> set s \<Longrightarrow> split_byte c (s @ c # t) = s # split_byte c t"
  by (induction s) auto

lemma split_hash_text:
  assumes "\<forall>b \<in> set salt. b < 256" "\<forall>b \<in> set derived. b < 256"
  shows "split_byte (CHR ''$'') (hash_text salt derived) = [''r1'', raw64_encode salt, raw64_encode derived]"
  using split_byte_append [of "CHR ''$''" "''r1''" "raw64_encode salt @ CHR ''$'' # raw64_encode derived"]
    split_byte_append [of "CHR ''$''" "raw64_encode salt" "raw64_encode derived"]
    split_byte_plain [of "CHR ''$''" "raw64_encode derived"] raw64_roundtrip(2) [OF assms(1)] raw64_roundtrip(2) [OF assms(2)]
  by (simp add: hash_text_def)

section \<open>A code is recognised\<close>

definition byte_list :: "nat list \<Rightarrow> bool" where
  "byte_list bs \<longleftrightarrow> (\<forall>b \<in> set bs. b < 256)"

lemma length_sha_round: "length (sha_round h kw) = length h"
  by (auto simp: sha_round_def Let_def split: list.split)

lemma length_sha_block: "length (sha_block h ws) = length h"
proof -
  have "length (foldl sha_round h kws) = length h" for kws
    by (induction kws arbitrary: h) (simp_all add: length_sha_round)
  then show ?thesis by (simp add: sha_block_def)
qed

lemma length_sha_blocks: "length (sha_blocks n h ws) = length h"
  by (induction n arbitrary: h ws) (simp_all add: length_sha_block)

lemma length_sha_init: "length sha_init = 8"
proof -
  have "primes_below 20 = [2, 3, 5, 7, 11, 13, 17, 19]" by code_simp
  then show ?thesis by (simp add: sha_init_def)
qed

lemma length_sha256: "length (sha256 bs) = 32"
proof -
  have "length (concat (map word_bytes ws)) = 4 * length ws" for ws
    by (induction ws) (simp_all add: word_bytes_def)
  then show ?thesis by (simp add: sha256_def Let_def length_sha_blocks length_sha_init)
qed

lemma byte_list_sha256: "byte_list (sha256 bs)"
  by (auto simp: byte_list_def sha256_def Let_def word_bytes_def)

lemma hmac_bytes: "length (hmac_sha256 key msg) = 32" "byte_list (hmac_sha256 key msg)"
  by (simp_all add: hmac_sha256_def Let_def length_sha256 byte_list_sha256)

lemma xor_byte: "a < 256 \<Longrightarrow> b < 256 \<Longrightarrow> (a XOR b :: nat) < 256"
  using take_bit_xor [of 8 a b] take_bit_nat_eq_self_iff [of 8 a] take_bit_nat_eq_self_iff [of 8 b]
    take_bit_nat_eq_self_iff [of 8 "a XOR b"] by simp

lemma byte_list_map2_xor: "byte_list xs \<Longrightarrow> byte_list ys \<Longrightarrow> byte_list (map2 (\<lambda>x y. x XOR y) xs ys)"
  by (auto simp: byte_list_def dest: set_zip_leftD set_zip_rightD intro!: xor_byte)

lemma pbkdf2_step_bytes:
  "length (snd p) = 32 \<Longrightarrow> length (snd (pbkdf2_step password p)) = 32"
  "byte_list (snd p) \<Longrightarrow> byte_list (snd (pbkdf2_step password p))"
  by (cases p; simp add: pbkdf2_step_def Let_def hmac_bytes byte_list_map2_xor)+

lemma pbkdf2_block_bytes:
  "length (pbkdf2_block password salt iter i) = 32" "byte_list (pbkdf2_block password salt iter i)"
proof -
  define u where "u = hmac_sha256 password (salt @ be32 i)"
  have "length (snd ((pbkdf2_step password ^^ k) (u, u))) = 32 \<and> byte_list (snd ((pbkdf2_step password ^^ k) (u, u)))" for k
  proof (induction k)
    case (Suc k)
    then show ?case by (simp add: pbkdf2_step_bytes)
  qed (simp add: u_def hmac_bytes)
  then show "length (pbkdf2_block password salt iter i) = 32" "byte_list (pbkdf2_block password salt iter i)"
    by (simp_all add: pbkdf2_block_def u_def Let_def)
qed

lemma derived_key: "pbkdf2HMAC password salt iter keyLen = pbkdf2_block password salt iter 1"
  by (simp add: pbkdf2HMAC_def keyLen_def pbkdf2_block_bytes(1))

lemma compare_own_hash:
  assumes "byte_list salt"
  shows "CompareHashAndPassword (hash_text salt (pbkdf2HMAC (bytes_of password) salt Iterations keyLen)) attempt'
    = (if pbkdf2HMAC (bytes_of attempt') salt Iterations keyLen = pbkdf2HMAC (bytes_of password) salt Iterations keyLen
       then None else Some ErrMismatchedHashAndPassword)"
proof -
  let ?d = "pbkdf2HMAC (bytes_of password) salt Iterations keyLen"
  have d: "byte_list ?d" "length ?d = keyLen"
    unfolding derived_key by (simp_all add: pbkdf2_block_bytes keyLen_def)
  show ?thesis
    using split_hash_text [of salt ?d] raw64_roundtrip(1) [of salt] raw64_roundtrip(1) [of ?d] assms d
    by (simp add: CompareHashAndPassword_def byte_list_def)
qed

lemma rand_Read_bytes: "rand_Read n w = (Inr bs, w') \<Longrightarrow> length bs = n \<and> byte_list bs"
  by (auto simp: rand_Read_def byte_list_def split: sum.splits)

lemma show_nat_digits: "list_all is_digit (show_nat n)"
proof (induction n rule: show_nat.induct)
  case (1 n)
  have "is_digit (digit_char d)" if "d < 10" for d
    using that by (simp add: is_digit_def digit_char_def code_def)
  then show ?case using 1 by (simp add: show_nat.simps [of n])
qed

lemma length_show_nat: "n < 10 ^ k \<Longrightarrow> 0 < k \<Longrightarrow> length (show_nat n) \<le> k"
proof (induction n arbitrary: k rule: show_nat.induct)
  case (1 n)
  show ?case
  proof (cases "n < 10")
    case False
    obtain j where j: "k = Suc j" "0 < j"
      using 1(2,3) False by (cases k; cases "k - 1") auto
    then have "n div 10 < 10 ^ j" using 1(2) by (simp add: less_mult_imp_div_less mult.commute)
    then show ?thesis using 1(1) [OF False, of j] False j by (simp add: show_nat.simps [of n])
  qed (use 1(3) in \<open>simp add: show_nat.simps [of n]\<close>)
qed

lemma otp_code_shape: "length (otp_code buf) = 4" "list_all is_digit (otp_code buf)"
proof -
  define n where "n = foldl (\<lambda>n b. 256 * n + b) 0 buf mod 10000"
  have "length (show_nat n) \<le> 4" by (rule length_show_nat) (simp_all add: n_def)
  then show "length (otp_code buf) = 4" "list_all is_digit (otp_code buf)"
    using show_nat_digits [of n]
    by (auto simp: otp_code_def pad4_def list_all_iff is_digit_def code_def simp flip: n_def)
qed

lemma generated_code:
  assumes "generateOTPAndHash w = (Inr (plain, hash), w')"
  shows "length plain = 4 \<and> list_all is_digit plain \<and> CompareHashAndPassword hash plain = None
    \<and> (\<exists>salt. length salt = saltLen \<and> (\<forall>x. CompareHashAndPassword hash x =
          (if pbkdf2HMAC (bytes_of x) salt Iterations keyLen = pbkdf2HMAC (bytes_of plain) salt Iterations keyLen
           then None else Some ErrMismatchedHashAndPassword)))"
proof -
  obtain buf salt w1 w2 where "rand_Read 4 w = (Inr buf, w1)" and salt: "rand_Read saltLen w1 = (Inr salt, w2)"
    and plain: "plain = otp_code buf"
    and hash: "hash = hash_text salt (pbkdf2HMAC (bytes_of plain) salt Iterations keyLen)"
    using assms
    by (auto simp: generateOTPAndHash_def GenerateFromPassword_def go_simps split: prod.splits sum.splits if_splits)
  then show ?thesis
    using otp_code_shape [of buf] compare_own_hash rand_Read_bytes [OF salt] by auto
qed

text \<open>C39: a generated code has four digits, and its hash is accepted for exactly those attempts whose
  key derived with the hash's salt is the code's own, for the code itself in particular.\<close>

theorem otp_roundtrip:
  assumes "generateOTPAndHash w = (Inr (plain, hash), w')"
  shows "length plain = 4 \<and> list_all is_digit plain \<and> CompareHashAndPassword hash plain = None
    \<and> (\<exists>salt. length salt = saltLen \<and> (\<forall>x. CompareHashAndPassword hash x =
          (if pbkdf2HMAC (bytes_of x) salt Iterations keyLen = pbkdf2HMAC (bytes_of plain) salt Iterations keyLen
           then None else Some ErrMismatchedHashAndPassword)))"
  using assms by (rule generated_code)

definition demo_dice :: randenv where
  "demo_dice = \<lparr>net = [], clock = 0, idgen = of_nat, idctr = 1,
     entropy = (\<lambda>k. Inr (\<lambda>i. if k = 0 \<and> i < 3 then 0 else 42)), randctr = 0\<rparr>"

theorem otp_roundtrip_witness:
  "\<exists>hash w'. generateOTPAndHash demo_dice = (Inr (''0042'', hash), w') \<and> CompareHashAndPassword hash ''0042'' = None"
proof -
  have "rand_Read 4 demo_dice = (Inr [0, 0, 0, 42], demo_dice\<lparr>randctr := 1\<rparr>)"
    by (simp add: rand_Read_def demo_dice_def upt_rec)
  moreover have "otp_code [0, 0, 0, 42] = ''0042''"
    by code_simp
  ultimately obtain hash w' where "generateOTPAndHash demo_dice = (Inr (''0042'', hash), w')"
    by (simp add: generateOTPAndHash_def GenerateFromPassword_def go_simps rand_Read_def [of saltLen] demo_dice_def)
  with otp_roundtrip [OF this] show ?thesis by blast
qed

end
