(* ===== verification/Rider_Store.thy ===== *)
theory Rider_Store
  imports Postgres Go_Float Rider_Otp
begin

text \<open>
  The tables of rider-service that a ride touches (\<^verbatim>\<open>database/setup.sql\<close>) and the store methods on
  rides, offers, payments of rides, idempotency keys, fare rules and partner locations
  (\<^verbatim>\<open>internal/store/{rides,offers,ride_payments,idempotency,fare_rules,locations}.go\<close>), one definition
  each; the constraints of the schema are checked where a row is written. Times are microseconds.

  A row is the struct the service scans, extended with the columns it does not scan: \<open>truncate\<close> is
  the scan. How the driver and the server turn a \<^verbatim>\<open>float64\<close> into a \<^verbatim>\<open>NUMERIC(p, s)\<close> column and
  back is the argument \<open>num\<close> (\<open>None\<close> for a value that does not fit). The points of a ride are
  stored as PostGIS geographies of two doubles; the service checks their ranges first.
\<close>

section \<open>Rows\<close>

record Ride =
  rdID :: uuid
  rdCustomerUserID :: uuid
  rdPartnerID :: "uuid option"
  rdVehicleID :: "uuid option"
  rdCityID :: "uuid option"
  rdVehicleType :: string
  rdStatus :: string
  rdPickupAddress :: string
  rdPickupLat :: rat
  rdPickupLng :: rat
  rdDropAddress :: string
  rdDropLat :: rat
  rdDropLng :: rat
  rdEstimatedDistanceKM :: "rat option"
  rdEstimatedDurationMin :: "rat option"
  rdEstimatedFare :: "rat option"
  rdPaymentMethod :: "string option"
  rdOTPExpiresAt :: "int option"
  rdRequestedAt :: int
  rdCreatedAt :: int
  rdUpdatedAt :: int

record ride_row = Ride +
  rwOTPHash :: "string option"
  rwScheduledFor :: "int option"
  rwScheduledLeadMin :: int
  rwActivatedAt :: "int option"
  rwAssignedAt :: "int option"
  rwPartnerArrivingAt :: "int option"
  rwArrivedAt :: "int option"
  rwStartedAt :: "int option"
  rwCompletedAt :: "int option"
  rwCancelledAt :: "int option"
  rwFinalDistanceKM :: "rat option"
  rwFinalDurationMin :: "rat option"
  rwFinalFare :: "rat option"
  rwFinalFarePaise :: "int option"
  rwFlaggedForReview :: bool
  rwCancellationFeePaise :: "int option"
  rwCancellationReason :: "string option"
  rwCancelledByKind :: "string option"
  rwRating :: "int option"
  rwRatingComment :: "string option"
  rwShareToken :: "string option"
  rwNoShowReportedAt :: "int option"
  rwNoShowBy :: "uuid option"
  rwRatingVisibility :: string
  rwRatingHiddenBy :: "uuid option"
  rwRatingHiddenAt :: "int option"
  rwPartnerResponse :: "string option"
  rwPartnerRespondedAt :: "int option"

record RideStatusHistory =
  hsID :: uuid
  hsRideID :: uuid
  hsFromStatus :: "string option"
  hsToStatus :: string
  hsActorKind :: string
  hsActorUserID :: "uuid option"
  hsReason :: "string option"
  hsCreatedAt :: int

record RideOffer =
  ofID :: uuid
  ofRideID :: uuid
  ofPartnerID :: uuid
  ofScore :: rat
  ofDistanceKM :: "rat option"
  ofExpiresAt :: int
  ofStatus :: string
  ofDecidedAt :: "int option"
  ofCreatedAt :: int

record offer_row = RideOffer +
  owRejectReason :: "string option"

record RidePayment =
  rpyID :: uuid
  rpyRideID :: uuid
  rpyPartnerID :: uuid
  rpyAmountPaise :: int
  rpyPaymentMethod :: string
  rpyStatus :: string
  rpyWalletTxnID :: "uuid option"
  rpyUPITxnRef :: "string option"
  rpyCreatedAt :: int
  rpySettledAt :: "int option"

record SubscribeResult =
  srsPaymentID :: uuid
  srsSubscriptionID :: "uuid option"
  srsStatus :: string
  srsAmountPaise :: int
  srsUPIIntentURL :: string
  srsExpiresAt :: "int option"

text \<open>The bodies recorded under a key, before \<^verbatim>\<open>json.Marshal\<close>.\<close>

datatype idem_body = RideBody Ride | SubscribeBody SubscribeResult

record RideIdem =
  rkKey :: string
  rkUserID :: uuid
  rkOperation :: string
  rkResourceID :: "uuid option"
  rkResponseBody :: "idem_body option"
  rkCreatedAt :: int
  rkExpiresAt :: int

record Partner =
  ptID :: uuid
  ptUserID :: uuid
  ptPartnerType :: string
  ptFleetOwnerID :: "uuid option"
  ptFullName :: string
  ptPhone :: string
  ptEmail :: "string option"
  ptProfilePhotoURL :: "string option"
  ptCityID :: "uuid option"
  ptStatus :: string
  ptKYCStatus :: string
  ptBankStatus :: string
  ptRating :: rat
  ptTotalRidesCompleted :: int
  ptTotalRidesCancelled :: int
  ptAcceptanceRate :: rat
  ptCancellationRate :: rat
  ptFraudScore :: rat
  ptIsOnline :: bool
  ptApprovedAt :: "int option"
  ptCreatedAt :: int
  ptUpdatedAt :: int

record partner_row = Partner +
  pwLastOnlineAt :: "int option"
  pwLastOfflineAt :: "int option"
  pwRejectCount30d :: int
  pwDeletedAt :: "int option"

record PartnerDocument =
  pdID :: uuid
  pdPartnerID :: uuid
  pdDocumentType :: string
  pdDocumentNumber :: "string option"
  pdFileURL :: string
  pdStatus :: string
  pdRejectionReason :: "string option"
  pdExpiresAt :: "int option"
  pdCreatedAt :: int
  pdUpdatedAt :: int

record AadhaarVerification =
  avPartnerID :: uuid
  avDigiLockerRef :: string
  avDocTypeHash :: string
  avIssuedAt :: int
  avCreatedAt :: int

record City =
  cyID :: uuid
  cyName :: string
  cyState :: "string option"
  cyCountry :: string
  cyCurrencyCode :: string
  cyIsActive :: bool
  cyCreatedAt :: int
  cyUpdatedAt :: int

record Vehicle =
  vhID :: uuid
  vhPartnerID :: uuid
  vhVehicleType :: string
  vhRegistrationNumber :: string
  vhBrand :: "string option"
  vhModel :: "string option"
  vhColor :: "string option"
  vhManufactureYear :: "int option"
  vhSeatCount :: "int option"
  vhFuelType :: "string option"
  vhIsEV :: bool
  vhStatus :: string
  vhIsActive :: bool
  vhCreatedAt :: int
  vhUpdatedAt :: int

record vehicle_row = Vehicle +
  vwDeletedAt :: "int option"

record VehicleDocument =
  vdID :: uuid
  vdVehicleID :: uuid
  vdDocumentType :: string
  vdDocumentNumber :: "string option"
  vdFileURL :: string
  vdStatus :: string
  vdRejectionReason :: "string option"
  vdExpiresAt :: "int option"
  vdCreatedAt :: int
  vdUpdatedAt :: int

record SubscriptionPlan =
  plID :: uuid
  plCode :: string
  plName :: string
  plDescription :: "string option"
  plPriceAmount :: rat
  plCurrencyCode :: string
  plBillingPeriodDays :: int
  plLeadLimit :: "int option"
  plFairUseLimit :: "int option"
  plPriorityWeight :: int
  plIsUnlimited :: bool
  plIsFleetPlan :: bool
  plMaxDrivers :: "int option"
  plGracePeriodDays :: int
  plIsActive :: bool

record PartnerSubscription =
  suID :: uuid
  suPartnerID :: uuid
  suPlanID :: uuid
  suStatus :: string
  suStartsAt :: int
  suExpiresAt :: int
  suGraceEndsAt :: "int option"
  suLeadsUsed :: int
  suFairUseUsed :: int
  suAutoRenew :: bool
  suCancelledAt :: "int option"
  suCreatedAt :: int
  suUpdatedAt :: int

record sub_row = PartnerSubscription +
  swRenewalAttemptedAt :: "int option"
  swRenewalFailureCount :: int

record SubscriptionPayment =
  sbpID :: uuid
  sbpPartnerID :: uuid
  sbpSubscriptionID :: "uuid option"
  sbpPlanID :: uuid
  sbpAmount :: rat
  sbpCurrencyCode :: string
  sbpPaymentMethod :: string
  sbpPaymentReference :: "string option"
  sbpPaymentProofURL :: "string option"
  sbpWalletTxnID :: "uuid option"
  sbpStatus :: string
  sbpRejectionReason :: "string option"
  sbpVerifiedAt :: "int option"
  sbpCreatedAt :: int
  sbpUpdatedAt :: int

text \<open>The date in \<^verbatim>\<open>expires_at\<close> is a number of days.\<close>

record DocReminderSent =
  rmdID :: uuid
  rmdPartnerID :: uuid
  rmdDocumentID :: uuid
  rmdExpiresOn :: int
  rmdBucket :: string
  rmdSentAt :: int

record CronRun =
  cronID :: uuid
  cronJob :: string
  cronStartedAt :: int
  cronFinishedAt :: "int option"
  cronStatus :: string
  cronRowsProcessed :: int
  cronErrorSummary :: "string option"

record PartnerLocation =
  locPartnerID :: uuid
  locLastLat :: rat
  locLastLng :: rat
  locLastGeohash :: string
  locLastSpeedMPS :: "rat option"
  locLastHeading :: "rat option"
  locIsOnline :: bool
  locUpdatedAt :: int

record FareRule =
  frID :: uuid
  frCityID :: uuid
  frVehicleType :: string
  frBaseFare :: rat
  frPerKMFare :: rat
  frPerMinuteFare :: rat
  frMinimumFare :: rat
  frPlatformFee :: rat
  frNightMultiplier :: rat
  frPeakMultiplier :: rat
  frCancellationFee :: rat
  frIsActive :: bool
  frStartsAt :: int

section \<open>Events\<close>

text \<open>What is published: on the topic \<^verbatim>\<open>rider-events\<close>, and as a realtime frame or an outbox message
  with its topic and event type.\<close>

datatype rider_event =
    PublishRideRequested uuid uuid string string
  | PublishRideOffered uuid uuid uuid rat int
  | PublishRideOfferRejected uuid uuid uuid string
  | PublishRideAssigned uuid uuid uuid uuid uuid
  | PublishRideArriving uuid uuid uuid
  | PublishRideArrived uuid uuid uuid
  | PublishRideStarted uuid uuid uuid
  | PublishRideCompleted uuid uuid rat int int string string bool int
  | PublishRideCancelled uuid string string string int int
  | PublishRideExpired uuid
  | PublishRideRated uuid uuid int
  | PublishPartnerOnline uuid
  | PublishPartnerOffline uuid
  | PublishAdminAction uuid string string uuid string
  | PublishPartnerCreated uuid uuid string string
  | PublishPartnerKYCSubmitted uuid uuid string
  | PublishPartnerVehicleAdded uuid uuid string string
  | PublishPartnerStatusChange string uuid string string uuid
  | PublishDocumentExpiring uuid uuid string string int string int
  | PublishSubscriptionPaymentSubmitted uuid uuid uuid rat string string
  | PublishSubscriptionPaymentVerified uuid uuid uuid rat string string
  | PublishSubscriptionActivated uuid uuid uuid string int int
  | PublishSubscriptionGracePeriod uuid uuid uuid int "int option" int
  | PublishSubscriptionExpired uuid uuid uuid int "int option" int
  | PublishSubscriptionRenewed uuid uuid uuid int int uuid int
  | PublishSubscriptionRenewalFailed uuid uuid uuid int int bool string int

datatype frame_data = RideFrame Ride | OfferFrame RideOffer | NoShowFrame uuid uuid string

record rider_frame =
  fmTopic :: string
  fmEventType :: string
  fmData :: frame_data

text \<open>The state, with the wallet (\<open>'v\<close>) and the Redis and DigiLocker servers (\<open>'r\<close>) on the other side.\<close>

record ('v, 'r) rider = randenv +
  rides :: "ride_row list"
  ride_history :: "RideStatusHistory list"
  ride_offers :: "offer_row list"
  ride_payments :: "RidePayment list"
  ride_idem :: "RideIdem list"
  ride_partners :: "partner_row list"
  ride_vehicles :: "vehicle_row list"
  partner_docs :: "PartnerDocument list"
  vehicle_docs :: "VehicleDocument list"
  aadhaar_checks :: "AadhaarVerification list"
  ride_plans :: "SubscriptionPlan list"
  ride_subs :: "sub_row list"
  sub_payments :: "SubscriptionPayment list"
  rider_reminders :: "DocReminderSent list"
  cron_runs :: "CronRun list"
  ride_locations :: "PartnerLocation list"
  fare_rules :: "FareRule list"
  ride_cities :: "City list"
  rider_events :: "rider_event list"
  rider_frames :: "rider_frame list"
  rider_outbox :: "rider_frame list"
  rider_wallet :: 'v
  rider_redis :: 'r

section \<open>Errors\<close>

definition ErrRideNotFound :: goerr where
  "ErrRideNotFound = ErrVar ''ErrRideNotFound'' ''ride: not found''"

definition ErrInvalidTransition :: goerr where
  "ErrInvalidTransition = ErrVar ''ErrInvalidTransition'' ''ride: invalid status transition''"

definition ErrOfferNotFound :: goerr where
  "ErrOfferNotFound = ErrVar ''ErrOfferNotFound'' ''offer: not found''"

definition ErrOfferAlreadyDecided :: goerr where
  "ErrOfferAlreadyDecided = ErrVar ''ErrOfferAlreadyDecided'' ''offer: already decided''"

definition ErrRidePaymentNotFound :: goerr where
  "ErrRidePaymentNotFound = ErrVar ''ErrRidePaymentNotFound'' ''ride_payment: not found''"

definition ErrRideKeyMismatch :: goerr where
  "ErrRideKeyMismatch = ErrVar ''ErrIdempotencyMismatch'' ''idempotency: key reused with different operation''"

definition ErrRideKeyNotFound :: goerr where
  "ErrRideKeyNotFound = ErrVar ''ErrIdempotencyKeyNotFound'' ''idempotency: key not found''"

definition ErrPartnerNotFound :: goerr where
  "ErrPartnerNotFound = ErrVar ''ErrPartnerNotFound'' ''partner: not found''"

definition ErrFareRuleNotFound :: goerr where
  "ErrFareRuleNotFound = ErrVar ''ErrFareRuleNotFound'' ''fare_rule: not found''"

text \<open>An error the server reports, by its state.\<close>

definition sqlstate :: "string \<Rightarrow> goerr" where
  "sqlstate c = Errorf (''ERROR (SQLSTATE '' @ c @ '')'')"

section \<open>The schema\<close>

definition rider_ride_status :: "string list" where
  "rider_ride_status = [''requested'', ''searching_partner'', ''partner_assigned'', ''partner_arriving'',
     ''arrived'', ''otp_verified'', ''in_progress'', ''completed'', ''cancelled_by_customer'',
     ''cancelled_by_partner'', ''cancelled_by_admin'', ''expired'', ''failed'', ''scheduled'']"

definition rider_vehicle_type :: "string list" where
  "rider_vehicle_type = [''bike'', ''auto'', ''mini_cab'', ''sedan'', ''suv'', ''premium'', ''ev_bike'', ''ev_car'']"

text \<open>A nullable \<^verbatim>\<open>NUMERIC\<close> parameter.\<close>

type_synonym numeric = "nat \<Rightarrow> nat \<Rightarrow> rat \<Rightarrow> rat option"

definition num_null :: "numeric \<Rightarrow> nat \<Rightarrow> nat \<Rightarrow> rat option \<Rightarrow> rat option option" where
  "num_null num p s x = (case x of None \<Rightarrow> Some None | Some y \<Rightarrow> map_option Some (num p s y))"

text \<open>\<^verbatim>\<open>UPDATE rider_rides SET ... WHERE c\<close> with the number of rows it changed.\<close>

definition sql_update_rides ::
  "(ride_row \<Rightarrow> bool) \<Rightarrow> (int \<Rightarrow> ride_row \<Rightarrow> ride_row) \<Rightarrow> (('v, 'r) rider, nat) io" where
  "sql_update_rides c f = (\<lambda>w. (Inr (length (filter c (rides w))),
     w\<lparr>rides := update_rows c (f (clock w)) (rides w)\<rparr>))"

text \<open>\<^verbatim>\<open>tag.RowsAffected() == 0\<close> is the error \<open>e\<close>.\<close>

definition must_change :: "goerr \<Rightarrow> (('v, 'r) rider, nat) io \<Rightarrow> (('v, 'r) rider, unit) io" where
  "must_change e m = andThen m (\<lambda>n. require (n \<noteq> 0) e (ok ()))"

text \<open>A query for one row, with the error that replaces \<^verbatim>\<open>pgx.ErrNoRows\<close>.\<close>

definition query_row :: "(('v, 'r) rider \<Rightarrow> 'a option) \<Rightarrow> goerr \<Rightarrow> (('v, 'r) rider, 'a) io" where
  "query_row q e = andThen (db_call (get q)) (\<lambda>r. case r of None \<Rightarrow> fail e | Some x \<Rightarrow> ok x)"

section \<open>Rides\<close>

record CreateRideInput =
  criCustomerUserID :: uuid
  criCityID :: "uuid option"
  criVehicleType :: string
  criPickupAddress :: string
  criPickupLat :: rat
  criPickupLng :: rat
  criDropAddress :: string
  criDropLat :: rat
  criDropLng :: rat
  criEstimatedDistanceKM :: "rat option"
  criEstimatedDurationMin :: "rat option"
  criEstimatedFare :: "rat option"
  criPaymentMethod :: "string option"
  criScheduledFor :: "int option"

text \<open>The inserted row; the columns the statement does not name have their defaults.\<close>

definition ride_of_input ::
  "CreateRideInput \<Rightarrow> uuid \<Rightarrow> string \<Rightarrow> rat option \<Rightarrow> rat option \<Rightarrow> rat option \<Rightarrow> int \<Rightarrow> ride_row" where
  "ride_of_input i id0 status dist0 dur fare now0 =
     \<lparr>rdID = id0, rdCustomerUserID = criCustomerUserID i, rdPartnerID = None, rdVehicleID = None,
      rdCityID = criCityID i, rdVehicleType = criVehicleType i, rdStatus = status,
      rdPickupAddress = criPickupAddress i, rdPickupLat = criPickupLat i, rdPickupLng = criPickupLng i,
      rdDropAddress = criDropAddress i, rdDropLat = criDropLat i, rdDropLng = criDropLng i,
      rdEstimatedDistanceKM = dist0, rdEstimatedDurationMin = dur, rdEstimatedFare = fare,
      rdPaymentMethod = criPaymentMethod i, rdOTPExpiresAt = None, rdRequestedAt = now0, rdCreatedAt = now0,
      rdUpdatedAt = now0, rwOTPHash = None, rwScheduledFor = criScheduledFor i, rwScheduledLeadMin = 15,
      rwActivatedAt = None, rwAssignedAt = None, rwPartnerArrivingAt = None, rwArrivedAt = None,
      rwStartedAt = None, rwCompletedAt = None, rwCancelledAt = None, rwFinalDistanceKM = None,
      rwFinalDurationMin = None, rwFinalFare = None, rwFinalFarePaise = None, rwFlaggedForReview = False,
      rwCancellationFeePaise = None, rwCancellationReason = None, rwCancelledByKind = None, rwRating = None,
      rwRatingComment = None, rwShareToken = None, rwNoShowReportedAt = None, rwNoShowBy = None,
      rwRatingVisibility = ''public'', rwRatingHiddenBy = None, rwRatingHiddenAt = None, rwPartnerResponse = None,
      rwPartnerRespondedAt = None\<rparr>"

definition sql_insert_ride :: "numeric \<Rightarrow> CreateRideInput \<Rightarrow> string \<Rightarrow> (('v, 'r) rider, Ride) io" where
  "sql_insert_ride num i status = andThen gen_random_uuid (\<lambda>id0 w.
     if criVehicleType i \<notin> set rider_vehicle_type \<or> status \<notin> set rider_ride_status then (Inl (sqlstate ''22P02''), w)
     else case (num_null num 10 2 (criEstimatedDistanceKM i), num_null num 10 2 (criEstimatedDurationMin i),
         num_null num 12 2 (criEstimatedFare i)) of
       (Some d, Some t, Some f) \<Rightarrow>
         (let r = ride_of_input i id0 status d t f (clock w) in
          if (case criPaymentMethod i of None \<Rightarrow> False | Some p \<Rightarrow> char_length p > 40) then (Inl (sqlstate ''22001''), w)
          else if id0 \<in> rdID ` set (rides w) then (Inl (sqlstate ''23505''), w)
          else if (case criCityID i of None \<Rightarrow> False | Some c \<Rightarrow> c \<notin> cyID ` set (ride_cities w)) then (Inl (sqlstate ''23503''), w)
          else (Inr (Ride.truncate r), w\<lparr>rides := rides w @ [r]\<rparr>))
     | _ \<Rightarrow> (Inl (sqlstate ''22003''), w))"

definition store_CreateRide :: "numeric \<Rightarrow> CreateRideInput \<Rightarrow> (('v, 'r) rider, Ride) io" where
  "store_CreateRide num i = andThen (get clock) (\<lambda>now0.
     db_call (sql_insert_ride num i
       (case criScheduledFor i of Some t \<Rightarrow> if t > now0 then ''scheduled'' else ''requested'' | None \<Rightarrow> ''requested'')))"

definition due_for_activation :: "int \<Rightarrow> ride_row \<Rightarrow> bool" where
  "due_for_activation now0 r \<longleftrightarrow> rdStatus r = ''scheduled'' \<and>
     (case rwScheduledFor r of None \<Rightarrow> False | Some t \<Rightarrow> t - rwScheduledLeadMin r * 60000000 \<le> now0)"

definition ListScheduledRidesDue :: "int \<Rightarrow> (('v, 'r) rider, Ride list) io" where
  "ListScheduledRidesDue batch = wrapErr ''list scheduled rides due'' (db_call (get (\<lambda>w.
     map Ride.truncate (take (nat (if batch \<le> 0 then 25 else batch))
       (sort_key (\<lambda>r. the (rwScheduledFor r)) (filter (due_for_activation (clock w)) (rides w)))))))"

definition ActivateScheduledRide :: "uuid \<Rightarrow> (('v, 'r) rider, unit) io" where
  "ActivateScheduledRide i = must_change ErrRideNotFound (wrapErr ''activate scheduled'' (db_call
     (sql_update_rides (\<lambda>r. rdID r = i \<and> rdStatus r = ''scheduled'')
       (\<lambda>now0 r. r\<lparr>rdStatus := ''requested'', rwActivatedAt := Some now0\<rparr>))))"

definition store_GetRide :: "uuid \<Rightarrow> (('v, 'r) rider, Ride) io" where
  "store_GetRide i = query_row (\<lambda>w. map_option Ride.truncate (find (\<lambda>r. rdID r = i) (rides w))) ErrRideNotFound"

text \<open>\<^verbatim>\<open>ORDER BY created_at DESC LIMIT n\<close>; rows of the same instant come in the order of insertion.\<close>

definition latest_rides :: "nat \<Rightarrow> ride_row list \<Rightarrow> Ride list" where
  "latest_rides n rs = map Ride.truncate (take n (sort_key (\<lambda>r. - rdCreatedAt r) rs))"

definition ListRidesByCustomer :: "uuid \<Rightarrow> int \<Rightarrow> (('v, 'r) rider, Ride list) io" where
  "ListRidesByCustomer customerID n0 = wrapErr ''list rides'' (db_call (get (\<lambda>w.
     latest_rides (nat (if n0 \<le> 0 \<or> n0 > 200 then 50 else n0))
       (filter (\<lambda>r. rdCustomerUserID r = customerID) (rides w)))))"

text \<open>The casts to the enum are applied to the parameters, whether a row matches or not.\<close>

definition TransitionRide :: "uuid \<Rightarrow> string \<Rightarrow> string \<Rightarrow> (('v, 'r) rider, unit) io" where
  "TransitionRide i old new = must_change ErrInvalidTransition (wrapErr ''transition ride'' (db_call (\<lambda>w.
     if old \<notin> set rider_ride_status \<or> new \<notin> set rider_ride_status then (Inl (sqlstate ''22P02''), w)
     else sql_update_rides (\<lambda>r. rdID r = i \<and> rdStatus r = old)
       (\<lambda>now0 r. r\<lparr>rdStatus := new, rdUpdatedAt := now0\<rparr>) w)))"

definition sql_insert_history :: "RideStatusHistory \<Rightarrow> (('v, 'r) rider, unit) io" where
  "sql_insert_history h = andThen gen_random_uuid (\<lambda>id0 w.
     if id0 \<in> hsID ` set (ride_history w) then (Inl (sqlstate ''23505''), w)
     else if hsRideID h \<notin> rdID ` set (rides w) then (Inl (sqlstate ''23503''), w)
     else (Inr (), w\<lparr>ride_history := ride_history w @ [h\<lparr>hsID := id0, hsCreatedAt := clock w\<rparr>]\<rparr>))"

definition AppendStatusHistory ::
  "uuid \<Rightarrow> string option \<Rightarrow> string \<Rightarrow> string \<Rightarrow> uuid option \<Rightarrow> string option \<Rightarrow> (('v, 'r) rider, unit) io" where
  "AppendStatusHistory i old new actorKind actorUserID reason =
     wrapErr ''append status history'' (db_call (sql_insert_history
       \<lparr>hsID = 0, hsRideID = i, hsFromStatus = old, hsToStatus = new, hsActorKind = actorKind,
        hsActorUserID = actorUserID, hsReason = reason, hsCreatedAt = 0\<rparr>))"

definition ListRideStatusHistory :: "uuid \<Rightarrow> (('v, 'r) rider, RideStatusHistory list) io" where
  "ListRideStatusHistory i = wrapErr ''list ride status history'' (db_call (get (\<lambda>w.
     sort_key hsCreatedAt (filter (\<lambda>h. hsRideID h = i) (ride_history w)))))"

text \<open>The foreign keys are checked when a row gets the new values.\<close>

definition AssignRidePartner :: "uuid \<Rightarrow> uuid \<Rightarrow> uuid \<Rightarrow> string \<Rightarrow> int \<Rightarrow> (('v, 'r) rider, unit) io" where
  "AssignRidePartner i partnerID vehicleID otpHash otpExpires =
     must_change ErrRideNotFound (wrapErr ''assign ride partner'' (db_call (\<lambda>w.
       if i \<in> rdID ` set (rides w) \<and>
          (partnerID \<notin> ptID ` set (ride_partners w) \<or> vehicleID \<notin> vhID ` set (ride_vehicles w))
       then (Inl (sqlstate ''23503''), w)
       else sql_update_rides (\<lambda>r. rdID r = i)
         (\<lambda>now0 r. r\<lparr>rdPartnerID := Some partnerID, rdVehicleID := Some vehicleID, rwOTPHash := Some otpHash,
            rdOTPExpiresAt := Some otpExpires, rwAssignedAt := Some now0, rdUpdatedAt := now0\<rparr>) w)))"

text \<open>The three stamps ignore the number of changed rows.\<close>

definition stamp_ride :: "uuid \<Rightarrow> (int \<Rightarrow> ride_row \<Rightarrow> ride_row) \<Rightarrow> (('v, 'r) rider, unit) io" where
  "stamp_ride i f = andThen (db_call (sql_update_rides (\<lambda>r. rdID r = i)
     (\<lambda>now0 r. (f now0 r)\<lparr>rdUpdatedAt := now0\<rparr>))) (\<lambda>_. ok ())"

definition SetArrivingAt :: "uuid \<Rightarrow> (('v, 'r) rider, unit) io" where
  "SetArrivingAt i = stamp_ride i (\<lambda>now0 r. r\<lparr>rwPartnerArrivingAt := Some now0\<rparr>)"

definition SetArrivedAt :: "uuid \<Rightarrow> (('v, 'r) rider, unit) io" where
  "SetArrivedAt i = stamp_ride i (\<lambda>now0 r. r\<lparr>rwArrivedAt := Some now0\<rparr>)"

definition SetStartedAt :: "uuid \<Rightarrow> (('v, 'r) rider, unit) io" where
  "SetStartedAt i = stamp_ride i (\<lambda>now0 r. r\<lparr>rwStartedAt := Some now0\<rparr>)"

record CompleteRideInput =
  cpiRideID :: uuid
  cpiFinalDistanceKM :: rat
  cpiFinalDurationMin :: int
  cpiFinalFareINR :: rat
  cpiFinalFarePaise :: int
  cpiFlaggedForReview :: bool

definition FinalizeRide :: "numeric \<Rightarrow> CompleteRideInput \<Rightarrow> (('v, 'r) rider, unit) io" where
  "FinalizeRide num i = must_change ErrRideNotFound (wrapErr ''finalize ride'' (db_call (\<lambda>w.
     case (num 10 2 (cpiFinalDistanceKM i), num 10 2 (of_int (cpiFinalDurationMin i)), num 12 2 (cpiFinalFareINR i)) of
       (Some d, Some t, Some f) \<Rightarrow> sql_update_rides (\<lambda>r. rdID r = cpiRideID i)
         (\<lambda>now0 r. r\<lparr>rwFinalDistanceKM := Some d, rwFinalDurationMin := Some t, rwFinalFare := Some f,
            rwFinalFarePaise := Some (cpiFinalFarePaise i), rwFlaggedForReview := cpiFlaggedForReview i,
            rwCompletedAt := Some now0, rdUpdatedAt := now0\<rparr>) w
     | _ \<Rightarrow> if cpiRideID i \<in> rdID ` set (rides w) then (Inl (sqlstate ''22003''), w) else (Inr 0, w))))"

record CancelRideInput =
  cniRideID :: uuid
  cniCancellationFeePaise :: int
  cniReason :: string
  cniCancelledByKind :: string

definition MarkRideCancelled :: "CancelRideInput \<Rightarrow> (('v, 'r) rider, unit) io" where
  "MarkRideCancelled i = must_change ErrRideNotFound (wrapErr ''mark ride cancelled'' (db_call
     (sql_update_rides (\<lambda>r. rdID r = cniRideID i)
       (\<lambda>now0 r. r\<lparr>rwCancellationFeePaise := Some (cniCancellationFeePaise i),
          rwCancellationReason := Some (cniReason i), rwCancelledByKind := Some (cniCancelledByKind i),
          rwCancelledAt := Some now0, rdUpdatedAt := now0\<rparr>))))"

definition SetRating :: "uuid \<Rightarrow> int \<Rightarrow> string option \<Rightarrow> (('v, 'r) rider, unit) io" where
  "SetRating i rating comment = must_change ErrRideNotFound (wrapErr ''set rating'' (db_call
     (sql_update_rides (\<lambda>r. rdID r = i)
       (\<lambda>now0 r. r\<lparr>rwRating := Some rating, rwRatingComment := comment, rdUpdatedAt := now0\<rparr>))))"

text \<open>Moderation of ratings (\<^verbatim>\<open>rating_mod.go\<close>).\<close>

definition HideRideRating :: "uuid \<Rightarrow> uuid \<Rightarrow> string \<Rightarrow> (('v, 'r) rider, unit) io" where
  "HideRideRating adminID rideID visibility =
     require (\<not> (visibility \<noteq> ''hidden'' \<and> visibility \<noteq> ''flagged'' \<and> visibility \<noteq> ''public''))
       (Errorf (''invalid visibility: '' @ visibility))
    (must_change pgx_ErrNoRows (wrapErr ''hide rating'' (db_call
      (sql_update_rides (\<lambda>r. rdID r = rideID \<and> rwRating r \<noteq> None)
        (\<lambda>now0 r. r\<lparr>rwRatingVisibility := visibility,
           rwRatingHiddenBy := (if visibility = ''public'' then None else Some adminID),
           rwRatingHiddenAt := (if visibility = ''public'' then None else Some now0)\<rparr>)))))"

definition AddPartnerResponse :: "uuid \<Rightarrow> uuid \<Rightarrow> string \<Rightarrow> (('v, 'r) rider, unit) io" where
  "AddPartnerResponse partnerID rideID response = must_change pgx_ErrNoRows (db_call
     (sql_update_rides (\<lambda>r. rdID r = rideID \<and> rdPartnerID r = Some partnerID \<and> rwRating r \<noteq> None)
       (\<lambda>now0 r. r\<lparr>rwPartnerResponse := Some response, rwPartnerRespondedAt := Some now0\<rparr>)))"

definition SetShareToken :: "uuid \<Rightarrow> string \<Rightarrow> (('v, 'r) rider, string) io" where
  "SetShareToken i token =
     (\<lambda>w. case db_call (\<lambda>w.
         (Inr (map_option (\<lambda>r. case rwShareToken r of None \<Rightarrow> token | Some t \<Rightarrow> t) (find (\<lambda>r. rdID r = i) (rides w))),
          w\<lparr>rides := update_rows (\<lambda>r. rdID r = i)
            (\<lambda>r. r\<lparr>rwShareToken := Some (case rwShareToken r of None \<Rightarrow> token | Some t \<Rightarrow> t), rdUpdatedAt := clock w\<rparr>)
            (rides w)\<rparr>)) w of
       (Inl e, w') \<Rightarrow> (Inl (Wrap ''set share token'' e), w')
     | (Inr None, w') \<Rightarrow> (Inl ErrRideNotFound, w')
     | (Inr (Some t), w') \<Rightarrow> (Inr t, w'))"

definition GetRideWithOTP :: "uuid \<Rightarrow> (('v, 'r) rider, Ride \<times> string option \<times> int option) io" where
  "GetRideWithOTP i = query_row (\<lambda>w. map_option (\<lambda>r. (Ride.truncate r, rwOTPHash r, rdOTPExpiresAt r))
     (find (\<lambda>r. rdID r = i) (rides w))) ErrRideNotFound"

definition ListStaleRides :: "int \<Rightarrow> (('v, 'r) rider, Ride list) io" where
  "ListStaleRides olderThan = wrapErr ''list stale rides'' (db_call (get (\<lambda>w.
     map Ride.truncate (take 200 (sort_key rdCreatedAt (filter (\<lambda>r.
       rdStatus r \<in> {''requested'', ''searching_partner''} \<and>
       rdCreatedAt r < clock w - olderThan div 1000000 * 1000000) (rides w)))))))"

definition ListRidesByPartner :: "uuid \<Rightarrow> int \<Rightarrow> int \<Rightarrow> (('v, 'r) rider, Ride list) io" where
  "ListRidesByPartner partnerID since n0 = wrapErr ''list rides by partner'' (db_call (get (\<lambda>w.
     latest_rides (nat (if n0 \<le> 0 \<or> n0 > 500 then 100 else n0))
       (filter (\<lambda>r. rdPartnerID r = Some partnerID \<and> rdCreatedAt r \<ge> since) (rides w)))))"

definition earned_since :: "uuid \<Rightarrow> int \<Rightarrow> ride_row list \<Rightarrow> ride_row list" where
  "earned_since partnerID since = filter (\<lambda>r. rdPartnerID r = Some partnerID \<and> rdStatus r = ''completed'' \<and>
     (case rwCompletedAt r of None \<Rightarrow> False | Some t \<Rightarrow> t \<ge> since))"

definition fare_total :: "ride_row list \<Rightarrow> int" where
  "fare_total rs = sum_rows (\<lambda>r. case rwFinalFarePaise r of None \<Rightarrow> 0 | Some p \<Rightarrow> p) rs"

definition PartnerEarnings :: "uuid \<Rightarrow> int \<Rightarrow> (('v, 'r) rider, nat \<times> int) io" where
  "PartnerEarnings partnerID since = wrapErr ''partner earnings'' (db_call (\<lambda>w.
     let rs = earned_since partnerID since (rides w) in
     if int64 (fare_total rs) then (Inr (length rs, fare_total rs), w) else (Inl bigint_out_of_range, w)))"

end
