(* ===== verification/Rider_Matcher.thy ===== *)
theory Rider_Matcher
  imports Go_Float "HOL-Library.Multiset"
begin

text \<open>
  The matcher of rider-service (\<^verbatim>\<open>internal/matcher/matcher.go\<close>): the hard filters, the score of a
  candidate in \<^verbatim>\<open>float64\<close> arithmetic, the ranking (\<^verbatim>\<open>sort.SliceStable\<close>) and the batch that
  gets the offers. A duration and an instant are microseconds.
\<close>

record PartnerCandidate =
  pcPartnerID :: string
  pcUserID :: string
  pcVehicleID :: string
  pcVehicleType :: string
  pcCityID :: string
  pcPartnerStatus :: string
  pcKYCStatus :: string
  pcVehicleStatus :: string
  pcSubscriptionStatus :: string
  pcIsOnline :: bool
  pcIsUnlimitedPlan :: bool
  pcLeadsUsedThisMonth :: int
  pcLeadAllotment :: int
  pcPlanPriorityWeight :: int
  pcRating :: rat
  pcAcceptanceRate :: rat
  pcCancellationRate :: rat
  pcFraudScore :: rat
  pcDistanceKM :: rat
  pcIdleSecs :: int

record RideRequest =
  rrqVehicleType :: string
  rrqCityID :: string

section \<open>Hard filters\<close>

datatype HardFilterReason =
    ReasonPartnerNotApproved | ReasonKYCNotApproved | ReasonVehicleNotApproved
  | ReasonNoActiveSubscription | ReasonOffline | ReasonVehicleTypeMismatch | ReasonCityMismatch
  | ReasonLeadCapExhausted

text \<open>\<^verbatim>\<open>strings.EqualFold\<close> on ASCII text; it compares vehicle types, whose labels are ASCII in the schema
  and in \<^verbatim>\<open>allowedVehicleTypes\<close>. Unicode folding of other text is left out.\<close>

definition EqualFold :: "string \<Rightarrow> string \<Rightarrow> bool" where
  "EqualFold a b \<longleftrightarrow> to_lower a = to_lower b"

definition disqualify :: "RideRequest \<Rightarrow> PartnerCandidate \<Rightarrow> HardFilterReason option" where
  "disqualify req c =
     (if pcPartnerStatus c \<noteq> ''approved'' then Some ReasonPartnerNotApproved
      else if pcKYCStatus c \<noteq> ''approved'' then Some ReasonKYCNotApproved
      else if pcVehicleStatus c \<noteq> ''approved'' then Some ReasonVehicleNotApproved
      else if pcSubscriptionStatus c \<notin> {''trial'', ''active'', ''grace_period''} then Some ReasonNoActiveSubscription
      else if \<not> pcIsOnline c then Some ReasonOffline
      else if \<not> EqualFold (pcVehicleType c) (rrqVehicleType req) then Some ReasonVehicleTypeMismatch
      else if rrqCityID req \<noteq> [] \<and> pcCityID c \<noteq> [] \<and> pcCityID c \<noteq> rrqCityID req then Some ReasonCityMismatch
      else if \<not> pcIsUnlimitedPlan c \<and> pcLeadAllotment c > 0 \<and> pcLeadsUsedThisMonth c \<ge> pcLeadAllotment c
        then Some ReasonLeadCapExhausted
      else None)"

fun FilterCandidates ::
  "RideRequest \<Rightarrow> PartnerCandidate list \<Rightarrow> PartnerCandidate list \<times> HardFilterReason list" where
  "FilterCandidates req [] = ([], [])"
| "FilterCandidates req (c # cs) = (let (kept, rejected) = FilterCandidates req cs in
     case disqualify req c of Some r \<Rightarrow> (kept, r # rejected) | None \<Rightarrow> (c # kept, rejected))"

section \<open>Scores\<close>

text \<open>A component of the breakdown. A zero that a negative factor produced is the negative zero,
  which \<^verbatim>\<open>FormatFloat\<close> prints with its sign although it is not less than zero.\<close>

definition formatComponent :: "string \<Rightarrow> bool \<Rightarrow> rat \<Rightarrow> string" where
  "formatComponent lbl negated value =
     lbl @ ''='' @ (if value < 0 then [] else ''+'') @
       (if value = 0 \<and> negated then ''-'' else []) @ sprintf_2f value"

definition idle_bonus :: "int \<Rightarrow> rat" where
  "idle_bonus secs = (let b = fl64 (fl64 (of_int secs) * fl64 (5 / 100)) in if b > 30 then 30 else b)"

definition plan_component :: "PartnerCandidate \<Rightarrow> rat" where
  "plan_component c = fl64 (fl64 (of_int (pcPlanPriorityWeight c)) * 100)"

text \<open>The components after the first, in the order they are added.\<close>

definition soft_components :: "PartnerCandidate \<Rightarrow> rat list" where
  "soft_components c =
     [fl64 (pcRating c * 20), fl64 (pcAcceptanceRate c * (1 / 2)), fl64 (- pcCancellationRate c),
      fl64 (-2 * pcFraudScore c), fl64 (-10 * pcDistanceKM c), idle_bonus (pcIdleSecs c)]"

definition Score :: "PartnerCandidate \<Rightarrow> rat \<times> string list" where
  "Score c = (foldl (\<lambda>t x. fl64 (t + x)) (plan_component c) (soft_components c),
     map2 (\<lambda>(lbl, neg) x. formatComponent lbl neg x)
       [(''plan'', False), (''rating'', False), (''acceptance'', False), (''cancellation'', True),
        (''fraud'', True), (''distance'', True), (''idle'', False)]
       (plan_component c # soft_components c))"

record ScoredCandidate =
  scCandidate :: PartnerCandidate
  scScore :: rat
  scReasons :: "string list"

definition scored :: "PartnerCandidate \<Rightarrow> ScoredCandidate" where
  "scored c = \<lparr>scCandidate = c, scScore = fst (Score c), scReasons = snd (Score c)\<rparr>"

text \<open>\<open>sort_key\<close> is a stable sort, as \<^verbatim>\<open>sort.SliceStable\<close> is.\<close>

definition Rank :: "PartnerCandidate list \<Rightarrow> ScoredCandidate list" where
  "Rank cs = sort_key (\<lambda>s. - scScore s) (map scored cs)"

section \<open>The batch\<close>

record OfferResult =
  orSelected :: "ScoredCandidate list"
  orRemaining :: "ScoredCandidate list"
  orBatchSize :: int
  orExpiresAt :: int

definition BatchOffer :: "ScoredCandidate list \<Rightarrow> int \<Rightarrow> int \<Rightarrow> int \<Rightarrow> OfferResult" where
  "BatchOffer cs batchSize timer now0 =
     (let n = (if batchSize \<le> 0 then 5 else batchSize);
          t = (if timer \<le> 0 then 15 * 1000000 else timer)
      in if int (length cs) \<le> n
         then \<lparr>orSelected = cs, orRemaining = [], orBatchSize = n, orExpiresAt = now0 + t\<rparr>
         else \<lparr>orSelected = take (nat n) cs, orRemaining = drop (nat n) cs, orBatchSize = n,
           orExpiresAt = now0 + t\<rparr>)"

section \<open>Who gets an offer\<close>

lemma FilterCandidates_filter:
  "fst (FilterCandidates req cs) = filter (\<lambda>c. disqualify req c = None) cs"
  "snd (FilterCandidates req cs) = map (\<lambda>c. the (disqualify req c)) (filter (\<lambda>c. disqualify req c \<noteq> None) cs)"
  by (induction cs) (auto split: prod.splits option.splits)

lemma Rank_stable:
  "map scCandidate (filter (\<lambda>s. scScore s = x) (Rank cs)) = filter (\<lambda>c. fst (Score c) = x) cs"
proof -
  have "filter (\<lambda>s. scScore s = x) (Rank cs) = filter (\<lambda>s. scScore s = x) (map scored cs)"
    using sort_key_stable [of "\<lambda>s. - scScore s" "- x" "map scored cs"] by (simp add: Rank_def)
  then show ?thesis by (simp add: filter_map comp_def scored_def)
qed

lemma Rank_sorted: "sorted_wrt (\<lambda>a b. scScore b \<le> scScore a) (Rank cs)"
proof -
  have "sorted (map (\<lambda>s. - scScore s) (Rank cs))" by (simp add: Rank_def)
  then show ?thesis by (simp add: sorted_map)
qed

lemma BatchOffer_split:
  "orSelected (BatchOffer cs n t now0) @ orRemaining (BatchOffer cs n t now0) = cs"
  "length (orSelected (BatchOffer cs n t now0)) = min (length cs) (if n \<le> 0 then 5 else nat n)"
  by (auto simp: BatchOffer_def Let_def)

definition offered :: "RideRequest \<Rightarrow> PartnerCandidate list \<Rightarrow> int \<Rightarrow> int \<Rightarrow> int \<Rightarrow> PartnerCandidate list" where
  "offered req cs n t now0 = map scCandidate (orSelected (BatchOffer (Rank (fst (FilterCandidates req cs))) n t now0))"

text \<open>C37: a batch of offers goes to the best candidates: the offered and the passed-over candidates
  are together exactly those the hard filters keep, as many as the batch holds are offered, no one
  passed over scores higher than anyone offered, and among equal scores the earlier ones come first.\<close>

theorem batch_goes_to_the_best:
  fixes req :: RideRequest and cs :: "PartnerCandidate list"
  defines "kept \<equiv> filter (\<lambda>c. disqualify req c = None) cs"
  shows "\<exists>rest. mset (offered req cs n t now0 @ rest) = mset kept
     \<and> length (offered req cs n t now0) = min (length kept) (if n \<le> 0 then 5 else nat n)
     \<and> sorted_wrt (\<lambda>a b. fst (Score b) \<le> fst (Score a)) (offered req cs n t now0 @ rest)
     \<and> (\<forall>x. filter (\<lambda>c. fst (Score c) = x) (offered req cs n t now0 @ rest) = filter (\<lambda>c. fst (Score c) = x) kept)"
proof (intro exI conjI allI)
  let ?b = "BatchOffer (Rank kept) n t now0"
  let ?rest = "map scCandidate (orRemaining ?b)"
  have of: "offered req cs n t now0 = map scCandidate (orSelected ?b)"
    by (simp add: offered_def FilterCandidates_filter(1) kept_def)
  have all: "offered req cs n t now0 @ ?rest = map scCandidate (Rank kept)"
    unfolding of map_append [symmetric] BatchOffer_split(1) ..
  have score: "s \<in> set (Rank kept) \<Longrightarrow> scScore s = fst (Score (scCandidate s))" for s
    by (auto simp: Rank_def scored_def)
  show "mset (offered req cs n t now0 @ ?rest) = mset kept"
    unfolding all by (simp add: Rank_def multiset.map_comp comp_def scored_def)
  show "length (offered req cs n t now0) = min (length kept) (if n \<le> 0 then 5 else nat n)"
    by (simp add: of BatchOffer_split(2) Rank_def)
  show "sorted_wrt (\<lambda>a b. fst (Score b) \<le> fst (Score a)) (offered req cs n t now0 @ ?rest)"
    unfolding all sorted_wrt_map
    by (rule sorted_wrt_mono_rel [OF _ Rank_sorted]) (simp add: score)
  fix x
  show "filter (\<lambda>c. fst (Score c) = x) (offered req cs n t now0 @ ?rest) = filter (\<lambda>c. fst (Score c) = x) kept"
    unfolding all using Rank_stable [of x kept] score
    by (simp add: filter_map comp_def cong: filter_cong)
qed

section \<open>A better plan outweighs everything else\<close>

lemma fl64_near:
  assumes "\<bar>x\<bar> \<le> 1000000"
  shows "x - 1 / 1000 \<le> fl64 x \<and> fl64 x \<le> x + 1 / 1000"
proof -
  have pos: "y - 1 / 1000 \<le> fl64_pos y \<and> fl64_pos y \<le> y + 1 / 1000" if "0 < y" "y \<le> 1000000" for y
  proof -
    have "\<bar>fl64_pos y - y\<bar> \<le> y / 2 ^ 53" using fl64_close [OF that(1)] that(1) by (simp only: fl64_def) simp
    also have "\<dots> \<le> 1 / 1000" using that by simp
    finally show ?thesis unfolding abs_le_iff by linarith
  qed
  show ?thesis
  proof (cases x "0 :: rat" rule: linorder_cases)
    case less
    then show ?thesis using pos [of "- x"] assms by (simp add: fl64_def)
  next
    case greater
    then show ?thesis using pos [of x] assms by (simp add: fl64_def)
  qed (simp add: fl64_def)
qed

text \<open>The ranges the columns have.\<close>

definition in_range :: "PartnerCandidate \<Rightarrow> bool" where
  "in_range c \<longleftrightarrow> 0 \<le> pcPlanPriorityWeight c \<and> pcPlanPriorityWeight c \<le> 1000
     \<and> 0 \<le> pcRating c \<and> pcRating c \<le> 5 \<and> 0 \<le> pcAcceptanceRate c \<and> pcAcceptanceRate c \<le> 100
     \<and> 0 \<le> pcCancellationRate c \<and> pcCancellationRate c \<le> 100
     \<and> 0 \<le> pcFraudScore c \<and> pcFraudScore c \<le> 100 \<and> 0 \<le> pcDistanceKM c \<and> pcDistanceKM c \<le> 20
     \<and> 0 \<le> pcIdleSecs c \<and> pcIdleSecs c \<le> 1000000"

lemma plan_component_exact: "0 \<le> pcPlanPriorityWeight c \<Longrightarrow> pcPlanPriorityWeight c \<le> 1000 \<Longrightarrow>
    plan_component c = of_int (100 * pcPlanPriorityWeight c)"
  using fl64_of_int [of "pcPlanPriorityWeight c"] fl64_of_int [of "100 * pcPlanPriorityWeight c"]
  by (simp add: plan_component_def mult.commute)

lemma idle_bonus_range:
  assumes "0 \<le> n" "n \<le> 1000000"
  shows "- 1 / 1000 \<le> idle_bonus n" "idle_bonus n \<le> 30"
proof -
  define f where "f = fl64 (5 / 100)"
  have f: "0 \<le> f" "f \<le> 1 / 10" using fl64_near [of "5 / 100"] by (simp_all add: f_def)
  have n: "fl64 (of_int n) = of_int n" using fl64_of_int [of n] assms by simp
  have le: "(of_int n :: rat) \<le> 1000000" using assms(2) by (metis of_int_le_iff of_int_numeral)
  have "0 \<le> of_int n * f" using f(1) assms(1) by simp
  moreover have "of_int n * f \<le> 1000000 * (1 / 10)" using f le assms(1) by (intro mult_mono) simp_all
  ultimately have "- 1 / 1000 \<le> fl64 (of_int n * f)" using fl64_near [of "of_int n * f"] by simp
  then show "- 1 / 1000 \<le> idle_bonus n" "idle_bonus n \<le> 30" by (simp_all add: idle_bonus_def n f_def Let_def)
qed

lemma soft_sum:
  assumes "0 \<le> p" "p \<le> 100000" "- 1 / 100 \<le> a" "a \<le> 101" "- 1 / 100 \<le> b" "b \<le> 51"
    "- 101 \<le> c" "c \<le> 1 / 100" "- 201 \<le> d" "d \<le> 1 / 100" "- 201 \<le> e" "e \<le> 1 / 100" "- 1 / 100 \<le> i" "i \<le> 30"
  shows "p - 504 \<le> foldl (\<lambda>t x. fl64 (t + x)) p [a, b, c, d, e, i]"
    "foldl (\<lambda>t x. fl64 (t + x)) p [a, b, c, d, e, i] \<le> p + 183"
proof -
  define t1 t2 t3 t4 t5 t6 where "t1 = fl64 (p + a)" and "t2 = fl64 (t1 + b)" and "t3 = fl64 (t2 + c)"
    and "t4 = fl64 (t3 + d)" and "t5 = fl64 (t4 + e)" and "t6 = fl64 (t5 + i)"
  have 1: "p + a - 1 / 1000 \<le> t1" "t1 \<le> p + a + 1 / 1000"
    using fl64_near [of "p + a"] assms(1-4) by (simp_all add: t1_def abs_le_iff)
  have 2: "t1 + b - 1 / 1000 \<le> t2" "t2 \<le> t1 + b + 1 / 1000"
    using fl64_near [of "t1 + b"] assms(1-6) 1 by (simp_all add: t2_def abs_le_iff)
  have 3: "t2 + c - 1 / 1000 \<le> t3" "t3 \<le> t2 + c + 1 / 1000"
    using fl64_near [of "t2 + c"] assms(1-8) 1 2 by (simp_all add: t3_def abs_le_iff)
  have 4: "t3 + d - 1 / 1000 \<le> t4" "t4 \<le> t3 + d + 1 / 1000"
    using fl64_near [of "t3 + d"] assms(1-10) 1 2 3 by (simp_all add: t4_def abs_le_iff)
  have 5: "t4 + e - 1 / 1000 \<le> t5" "t5 \<le> t4 + e + 1 / 1000"
    using fl64_near [of "t4 + e"] assms(1-12) 1 2 3 4 by (simp_all add: t5_def abs_le_iff)
  have 6: "t5 + i - 1 / 1000 \<le> t6" "t6 \<le> t5 + i + 1 / 1000"
    using fl64_near [of "t5 + i"] assms 1 2 3 4 5 by (simp_all add: t6_def abs_le_iff)
  have t6: "foldl (\<lambda>t x. fl64 (t + x)) p [a, b, c, d, e, i] = t6"
    by (simp add: t1_def t2_def t3_def t4_def t5_def t6_def)
  show "p - 504 \<le> foldl (\<lambda>t x. fl64 (t + x)) p [a, b, c, d, e, i]"
    "foldl (\<lambda>t x. fl64 (t + x)) p [a, b, c, d, e, i] \<le> p + 183"
    unfolding t6 using 1 2 3 4 5 6 assms by linarith+
qed

lemma score_range:
  assumes "in_range c"
  shows "of_int (100 * pcPlanPriorityWeight c) - 504 \<le> fst (Score c)"
    "fst (Score c) \<le> of_int (100 * pcPlanPriorityWeight c) + 183"
proof -
  note r = assms [unfolded in_range_def]
  define a b c' d e i where "a = fl64 (pcRating c * 20)" and "b = fl64 (pcAcceptanceRate c * (1 / 2))"
    and "c' = fl64 (- pcCancellationRate c)" and "d = fl64 (-2 * pcFraudScore c)"
    and "e = fl64 (-10 * pcDistanceKM c)" and "i = idle_bonus (pcIdleSecs c)"
  have p: "plan_component c = of_int (100 * pcPlanPriorityWeight c)" using r by (simp add: plan_component_exact)
  have w: "0 \<le> (of_int (100 * pcPlanPriorityWeight c) :: rat)" "(of_int (100 * pcPlanPriorityWeight c) :: rat) \<le> 100000"
    using r of_int_le_iff [of 0 "100 * pcPlanPriorityWeight c", where 'a = rat]
      of_int_le_iff [of "100 * pcPlanPriorityWeight c" 100000, where 'a = rat] by simp_all
  have ab: "- 1 / 100 \<le> a" "a \<le> 101" "- 1 / 100 \<le> b" "b \<le> 51"
    using r fl64_near [of "pcRating c * 20"] fl64_near [of "pcAcceptanceRate c * (1 / 2)"]
    by (simp_all add: a_def b_def abs_le_iff)
  have cd: "- 101 \<le> c'" "c' \<le> 1 / 100" "- 201 \<le> d" "d \<le> 1 / 100" "- 201 \<le> e" "e \<le> 1 / 100"
    using r fl64_near [of "- pcCancellationRate c"] fl64_near [of "-2 * pcFraudScore c"]
      fl64_near [of "-10 * pcDistanceKM c"]
    by (simp_all add: c'_def d_def e_def abs_le_iff)
  have i: "- 1 / 100 \<le> i" "i \<le> 30"
    using r idle_bonus_range [of "pcIdleSecs c"] by (simp_all add: i_def)
  have "fst (Score c) = foldl (\<lambda>t x. fl64 (t + x)) (of_int (100 * pcPlanPriorityWeight c)) [a, b, c', d, e, i]"
    by (simp only: Score_def fst_conv p soft_components_def a_def b_def c'_def d_def e_def i_def)
  then show "of_int (100 * pcPlanPriorityWeight c) - 504 \<le> fst (Score c)"
    "fst (Score c) \<le> of_int (100 * pcPlanPriorityWeight c) + 183"
    using soft_sum [OF w ab cd i] by (simp_all only:)
qed

text \<open>seven points of plan weight (the plans on offer are at least twenty apart) outweigh
  rating, acceptance, cancellations, fraud, distance and idle time together, rounding included.\<close>

theorem better_plan_wins:
  assumes "in_range a" "in_range b" "pcPlanPriorityWeight b + 7 \<le> pcPlanPriorityWeight a"
  shows "fst (Score b) < fst (Score a)"
proof -
  have "(of_int (100 * pcPlanPriorityWeight b) :: rat) + 700 \<le> of_int (100 * pcPlanPriorityWeight a)"
    using assms(3) of_int_le_iff [of "100 * pcPlanPriorityWeight b + 700" "100 * pcPlanPriorityWeight a", where 'a = rat]
    by simp
  then show ?thesis using score_range(1) [OF assms(1)] score_range(2) [OF assms(2)] by linarith
qed

definition demo_candidate :: "string \<Rightarrow> int \<Rightarrow> rat \<Rightarrow> PartnerCandidate" where
  "demo_candidate p plan km = \<lparr>pcPartnerID = p, pcUserID = ''u'', pcVehicleID = ''v'', pcVehicleType = ''auto'',
     pcCityID = ''c'', pcPartnerStatus = ''approved'', pcKYCStatus = ''approved'', pcVehicleStatus = ''approved'',
     pcSubscriptionStatus = ''active'', pcIsOnline = True, pcIsUnlimitedPlan = False, pcLeadsUsedThisMonth = 3,
     pcLeadAllotment = 100, pcPlanPriorityWeight = plan, pcRating = 4, pcAcceptanceRate = 90,
     pcCancellationRate = 5, pcFraudScore = 0, pcDistanceKM = km, pcIdleSecs = 60\<rparr>"

theorem better_plan_wins_witness:
  "fst (Score (demo_candidate ''near basic'' 80 0)) < fst (Score (demo_candidate ''far plus'' 100 20))"
  by (rule better_plan_wins) (simp_all add: demo_candidate_def in_range_def)

end
