(* ===== verification/Rider_Tables.thy ===== *)
theory Rider_Tables
  imports Rider_Store Rider_Matcher
begin

text \<open>
  The other store methods of rider-service behind a ride: offers, payments of rides, idempotency
  keys, fare rules, and what the matcher reads of partners, vehicles, subscriptions and locations
  (\<^verbatim>\<open>internal/store/{offers,ride_payments,idempotency,fare_rules,partners,vehicles,locations,
  matcher_candidates}.go\<close>). Of a partner, a vehicle, a subscription and a plan the rows keep the
  columns these methods and their callers look at.
\<close>

section \<open>Offers\<close>

record CreateOfferInput =
  coiRideID :: uuid
  coiPartnerID :: uuid
  coiScore :: rat
  coiDistanceKM :: "rat option"
  coiExpiresAt :: int

definition store_GetOffer :: "uuid \<Rightarrow> (('v, 'r) rider, RideOffer) io" where
  "store_GetOffer i = query_row (\<lambda>w. map_option RideOffer.truncate (find (\<lambda>o0. ofID o0 = i) (ride_offers w))) ErrOfferNotFound"

definition GetOfferByRidePartner :: "uuid \<Rightarrow> uuid \<Rightarrow> (('v, 'r) rider, RideOffer) io" where
  "GetOfferByRidePartner rideID partnerID = query_row (\<lambda>w. map_option RideOffer.truncate
     (find (\<lambda>o0. ofRideID o0 = rideID \<and> ofPartnerID o0 = partnerID) (ride_offers w))) ErrOfferNotFound"

definition offer_of_input :: "CreateOfferInput \<Rightarrow> uuid \<Rightarrow> rat \<Rightarrow> rat option \<Rightarrow> int \<Rightarrow> offer_row" where
  "offer_of_input i id0 score km now0 = \<lparr>ofID = id0, ofRideID = coiRideID i, ofPartnerID = coiPartnerID i,
     ofScore = score, ofDistanceKM = km, ofExpiresAt = coiExpiresAt i, ofStatus = ''sent'', ofDecidedAt = None,
     ofCreatedAt = now0, owRejectReason = None\<rparr>"

text \<open>\<^verbatim>\<open>INSERT ... ON CONFLICT (ride_id, partner_id) DO NOTHING RETURNING\<close>; \<open>None\<close> is no row.\<close>

definition sql_insert_offer :: "numeric \<Rightarrow> CreateOfferInput \<Rightarrow> (('v, 'r) rider, RideOffer option) io" where
  "sql_insert_offer num i = andThen gen_random_uuid (\<lambda>id0 w.
     case (num 10 2 (coiScore i), num_null num 8 2 (coiDistanceKM i)) of
       (Some s, Some d) \<Rightarrow>
         (let r = offer_of_input i id0 s d (clock w) in
          if \<exists>o0 \<in> set (ride_offers w). ofRideID o0 = coiRideID i \<and> ofPartnerID o0 = coiPartnerID i then (Inr None, w)
          else if id0 \<in> ofID ` set (ride_offers w) then (Inl (sqlstate ''23505''), w)
          else if coiRideID i \<notin> rdID ` set (rides w) \<or> coiPartnerID i \<notin> ptID ` set (ride_partners w)
            then (Inl (sqlstate ''23503''), w)
          else (Inr (Some (RideOffer.truncate r)), w\<lparr>ride_offers := ride_offers w @ [r]\<rparr>))
     | _ \<Rightarrow> (Inl (sqlstate ''22003''), w))"

definition CreateRideOffer :: "numeric \<Rightarrow> CreateOfferInput \<Rightarrow> (('v, 'r) rider, RideOffer) io" where
  "CreateRideOffer num i = andThen (wrapErr ''create offer'' (db_call (sql_insert_offer num i))) (\<lambda>r. case r of
     Some o0 \<Rightarrow> ok o0 | None \<Rightarrow> GetOfferByRidePartner (coiRideID i) (coiPartnerID i))"

definition ListPendingOffersForPartner :: "uuid \<Rightarrow> (('v, 'r) rider, RideOffer list) io" where
  "ListPendingOffersForPartner partnerID = wrapErr ''list pending offers'' (db_call (get (\<lambda>w.
     map RideOffer.truncate (take 50 (sort_key (\<lambda>o0. - ofCreatedAt o0) (filter (\<lambda>o0.
       ofPartnerID o0 = partnerID \<and> ofStatus o0 = ''sent'' \<and> ofExpiresAt o0 > clock w) (ride_offers w)))))))"

definition ListOffersForRide :: "uuid \<Rightarrow> (('v, 'r) rider, RideOffer list) io" where
  "ListOffersForRide rideID = wrapErr ''list offers for ride'' (db_call (get (\<lambda>w.
     map RideOffer.truncate (sort_key ofCreatedAt (filter (\<lambda>o0. ofRideID o0 = rideID) (ride_offers w))))))"

definition sql_update_offers ::
  "(offer_row \<Rightarrow> bool) \<Rightarrow> (int \<Rightarrow> offer_row \<Rightarrow> offer_row) \<Rightarrow> (('v, 'r) rider, nat) io" where
  "sql_update_offers c f = (\<lambda>w. (Inr (length (filter c (ride_offers w))),
     w\<lparr>ride_offers := update_rows c (f (clock w)) (ride_offers w)\<rparr>))"

definition decide :: "string \<Rightarrow> int \<Rightarrow> offer_row \<Rightarrow> offer_row" where
  "decide st now0 o0 = o0\<lparr>ofStatus := st, ofDecidedAt := Some now0\<rparr>"

definition lock_offer :: "uuid \<Rightarrow> uuid \<Rightarrow> (('v, 'r) rider, RideOffer) io" where
  "lock_offer offerID partnerID =
     andThen (wrapErr ''lock offer'' (db_call (get (\<lambda>w. find (\<lambda>o0. ofID o0 = offerID \<and> ofPartnerID o0 = partnerID) (ride_offers w)))))
       (\<lambda>r. case r of None \<Rightarrow> fail ErrOfferNotFound | Some o0 \<Rightarrow> ok (RideOffer.truncate o0))"

text \<open>\<^verbatim>\<open>UPDATE ... RETURNING\<close> scanned into one offer; without a row the scan fails.\<close>

definition accept_offer :: "uuid \<Rightarrow> (('v, 'r) rider, RideOffer) io" where
  "accept_offer offerID = wrapErr ''accept offer''
     (andThen (db_call (sql_update_offers (\<lambda>o0. ofID o0 = offerID) (decide ''accepted''))) (\<lambda>_.
      andThen (get (\<lambda>w. find (\<lambda>o0. ofID o0 = offerID) (ride_offers w))) (\<lambda>r.
      case r of None \<Rightarrow> fail pgx_ErrNoRows | Some o0 \<Rightarrow> ok (RideOffer.truncate o0))))"

definition AcceptOfferTx :: "uuid \<Rightarrow> uuid \<Rightarrow> (('v, 'r) rider, RideOffer) io" where
  "AcceptOfferTx offerID partnerID = in_tx ''begin tx''
     (andThen (lock_offer offerID partnerID) (\<lambda>offer.
      require (ofStatus offer = ''sent'') ErrOfferAlreadyDecided
     (andThen (get clock) (\<lambda>now0.
      require (ofExpiresAt offer > now0) ErrOfferAlreadyDecided
     (andThen (accept_offer offerID) (\<lambda>updated.
      andThen (wrapErr ''supersede siblings'' (db_call (sql_update_offers
        (\<lambda>o0. ofRideID o0 = ofRideID offer \<and> ofID o0 \<noteq> offerID \<and> ofStatus o0 = ''sent'') (decide ''superseded'')))) (\<lambda>_.
      ok updated)))))))
     ''commit accept''"

definition int32 :: "int \<Rightarrow> bool" where
  "int32 x \<longleftrightarrow> - (2 ^ 31) \<le> x \<and> x < 2 ^ 31"

text \<open>\<^verbatim>\<open>UPDATE rider_partners SET n = n + 1, ... WHERE id = $1\<close>; \<open>n\<close> is an \<^verbatim>\<open>INT\<close>.\<close>

definition sql_bump_partner ::
  "uuid \<Rightarrow> (partner_row \<Rightarrow> int) \<Rightarrow> (int \<Rightarrow> partner_row \<Rightarrow> partner_row) \<Rightarrow> (('v, 'r) rider, unit) io" where
  "sql_bump_partner i n f = (\<lambda>w.
     if \<exists>p \<in> set (ride_partners w). ptID p = i \<and> \<not> int32 (n p + 1) then (Inl (sqlstate ''22003''), w)
     else (Inr (), w\<lparr>ride_partners := update_rows (\<lambda>p. ptID p = i) (f (clock w)) (ride_partners w)\<rparr>))"

definition store_RejectOffer :: "uuid \<Rightarrow> uuid \<Rightarrow> string \<Rightarrow> (('v, 'r) rider, unit) io" where
  "store_RejectOffer offerID partnerID reason =
     (let c = (\<lambda>o0. ofID o0 = offerID \<and> ofPartnerID o0 = partnerID \<and> ofStatus o0 = ''sent'') in
      plain_tx
       (andThen (wrapErr ''reject offer'' (db_call (\<lambda>w.
          if char_length reason > 120 \<and> (\<exists>o0 \<in> set (ride_offers w). c o0) then (Inl (sqlstate ''22001''), w)
          else sql_update_offers c
            (\<lambda>now0 o0. (decide ''rejected'' now0 o0)\<lparr>owRejectReason := (if reason = [] then None else Some reason)\<rparr>) w))) (\<lambda>n.
        require (n \<noteq> 0) ErrOfferAlreadyDecided
       (wrapErr ''bump reject count'' (db_call (sql_bump_partner partnerID pwRejectCount30d
          (\<lambda>_ p. p\<lparr>pwRejectCount30d := pwRejectCount30d p + 1\<rparr>)))))))"

text \<open>A literal of the statement that is not a label of the enum makes the server refuse it.\<close>

definition sql_no_show :: "uuid \<Rightarrow> uuid \<Rightarrow> string \<Rightarrow> (('v, 'r) rider, nat) io" where
  "sql_no_show rideID partnerID reason = (\<lambda>w.
     let from = [''partner_assigned'', ''partner_arriving'', ''partner_arrived''] in
     if set (''cancelled'' # from) \<subseteq> set rider_ride_status
     then sql_update_rides (\<lambda>r. rdID r = rideID \<and> rdPartnerID r = Some partnerID \<and> rdStatus r \<in> set from)
       (\<lambda>now0 r. r\<lparr>rdStatus := ''cancelled'', rwNoShowReportedAt := Some now0, rwNoShowBy := Some partnerID,
          rwCancellationReason := Some (if reason = [] then ''customer_no_show'' else reason)\<rparr>) w
     else (Inl (sqlstate ''22P02''), w))"

definition store_MarkRideNoShow :: "uuid \<Rightarrow> uuid \<Rightarrow> string \<Rightarrow> (('v, 'r) rider, unit) io" where
  "store_MarkRideNoShow rideID partnerID reason = plain_tx
     (andThen (wrapErr ''mark no_show'' (db_call (sql_no_show rideID partnerID reason))) (\<lambda>n.
      require (n \<noteq> 0) (Errorf ''ride not in a state allowing no_show'') (ok ())))"

definition store_ExpireStaleOffers :: "(('v, 'r) rider, nat) io" where
  "store_ExpireStaleOffers = wrapErr ''expire offers'' (db_call (\<lambda>w.
     sql_update_offers (\<lambda>o0. ofStatus o0 = ''sent'' \<and> ofExpiresAt o0 \<le> clock w) (decide ''expired'') w))"

definition CountOffersForRide :: "uuid \<Rightarrow> (('v, 'r) rider, string \<Rightarrow> nat) io" where
  "CountOffersForRide rideID = wrapErr ''count offers'' (db_call (get (\<lambda>w st.
     length (filter (\<lambda>o0. ofRideID o0 = rideID \<and> ofStatus o0 = st) (ride_offers w)))))"

section \<open>Payments of rides\<close>

record CreateRidePaymentInput =
  cpyRideID :: uuid
  cpyPartnerID :: uuid
  cpyAmountPaise :: int
  cpyPaymentMethod :: string
  cpyStatus :: string

definition payment_of_ride :: "CreateRidePaymentInput \<Rightarrow> uuid \<Rightarrow> string \<Rightarrow> int \<Rightarrow> RidePayment" where
  "payment_of_ride i id0 st now0 = \<lparr>rpyID = id0, rpyRideID = cpyRideID i, rpyPartnerID = cpyPartnerID i,
     rpyAmountPaise = cpyAmountPaise i, rpyPaymentMethod = cpyPaymentMethod i, rpyStatus = st,
     rpyWalletTxnID = None, rpyUPITxnRef = None, rpyCreatedAt = now0, rpySettledAt = None\<rparr>"

definition CreateRidePayment :: "CreateRidePaymentInput \<Rightarrow> (('v, 'r) rider, RidePayment) io" where
  "CreateRidePayment i =
     (let st = (if cpyStatus i = [] then ''pending'' else cpyStatus i) in
      db_call (andThen gen_random_uuid (\<lambda>id0 w.
        let p = payment_of_ride i id0 st (clock w) in
        if cpyPaymentMethod i \<notin> {''cash'', ''wallet'', ''upi''} \<or>
           st \<notin> {''pending'', ''succeeded'', ''failed'', ''refunded''} then (Inl (sqlstate ''23514''), w)
        else if id0 \<in> rpyID ` set (ride_payments w) then (Inl (sqlstate ''23505''), w)
        else if cpyRideID i \<notin> rdID ` set (rides w) \<or> cpyPartnerID i \<notin> ptID ` set (ride_partners w)
          then (Inl (sqlstate ''23503''), w)
        else (Inr p, w\<lparr>ride_payments := ride_payments w @ [p]\<rparr>))))"

definition or_else :: "'a option \<Rightarrow> 'a option \<Rightarrow> 'a option" where
  "or_else x y = (case x of None \<Rightarrow> y | Some v \<Rightarrow> Some v)"

definition MarkRidePaymentSucceeded :: "uuid \<Rightarrow> uuid option \<Rightarrow> string option \<Rightarrow> (('v, 'r) rider, RidePayment) io" where
  "MarkRidePaymentSucceeded i walletTxnID upiRef =
     andThen (db_call (\<lambda>w. let ps = update_rows (\<lambda>p. rpyID p = i) (\<lambda>p. p\<lparr>rpyStatus := ''succeeded'',
           rpyWalletTxnID := or_else walletTxnID (rpyWalletTxnID p), rpyUPITxnRef := or_else upiRef (rpyUPITxnRef p),
           rpySettledAt := Some (clock w)\<rparr>) (ride_payments w)
        in (Inr (find (\<lambda>p. rpyID p = i) ps), w\<lparr>ride_payments := ps\<rparr>))) (\<lambda>r.
     case r of None \<Rightarrow> fail ErrRidePaymentNotFound | Some p \<Rightarrow> ok p)"

definition MarkRidePaymentFailed :: "uuid \<Rightarrow> (('v, 'r) rider, unit) io" where
  "MarkRidePaymentFailed i = must_change ErrRidePaymentNotFound (wrapErr ''mark ride payment failed''
     (db_call (\<lambda>w. (Inr (length (filter (\<lambda>p. rpyID p = i) (ride_payments w))),
        w\<lparr>ride_payments := update_rows (\<lambda>p. rpyID p = i)
          (\<lambda>p. p\<lparr>rpyStatus := ''failed'', rpySettledAt := Some (clock w)\<rparr>) (ride_payments w)\<rparr>))))"

definition GetRidePayment :: "uuid \<Rightarrow> (('v, 'r) rider, RidePayment) io" where
  "GetRidePayment i = query_row (\<lambda>w. find (\<lambda>p. rpyID p = i) (ride_payments w)) ErrRidePaymentNotFound"

definition GetRidePaymentByRide :: "uuid \<Rightarrow> (('v, 'r) rider, RidePayment) io" where
  "GetRidePaymentByRide rideID = query_row (\<lambda>w.
     case sort_key (\<lambda>p. - rpyCreatedAt p) (filter (\<lambda>p. rpyRideID p = rideID) (ride_payments w)) of
       [] \<Rightarrow> None | p # _ \<Rightarrow> Some p) ErrRidePaymentNotFound"

definition live_sub :: "sub_row \<Rightarrow> bool" where
  "live_sub s \<longleftrightarrow> suStatus s \<in> {''trial'', ''active'', ''grace_period''}"

text \<open>\<^verbatim>\<open>ORDER BY expires_at DESC LIMIT 1\<close> among the live subscriptions of a partner.\<close>

definition current_sub :: "uuid \<Rightarrow> sub_row list \<Rightarrow> sub_row option" where
  "current_sub partnerID ss =
     (case sort_key (\<lambda>s. - suExpiresAt s) (filter (\<lambda>s. suPartnerID s = partnerID \<and> live_sub s) ss) of
       [] \<Rightarrow> None | s # _ \<Rightarrow> Some s)"

definition IncrementSubscriptionLeadsUsed :: "uuid \<Rightarrow> (('v, 'r) rider, int) io" where
  "IncrementSubscriptionLeadsUsed partnerID = wrapErr ''increment leads_used'' (db_call (\<lambda>w.
     case current_sub partnerID (ride_subs w) of
       None \<Rightarrow> (Inr 0, w)
     | Some s \<Rightarrow> if \<not> int32 (suLeadsUsed s + 1) then (Inl (sqlstate ''22003''), w)
         else (Inr (suLeadsUsed s + 1), w\<lparr>ride_subs := update_rows (\<lambda>x. suID x = suID s)
           (\<lambda>x. x\<lparr>suLeadsUsed := suLeadsUsed x + 1, suUpdatedAt := clock w\<rparr>) (ride_subs w)\<rparr>)))"

text \<open>\<^verbatim>\<open>ROUND((a::numeric / n) * 100, 2)\<close>, as the double it is read as.\<close>

definition percent :: "int \<Rightarrow> int \<Rightarrow> rat" where
  "percent a n = (if n > 0 then fl64 (of_int (math_Round (10000 * of_int a / of_int n)) / 100) else 0)"

definition IncrementPartnerCancelled :: "uuid \<Rightarrow> (('v, 'r) rider, unit) io" where
  "IncrementPartnerCancelled i = db_call (sql_bump_partner i ptTotalRidesCancelled
     (\<lambda>now0 p. p\<lparr>ptTotalRidesCancelled := ptTotalRidesCancelled p + 1,
        ptCancellationRate := percent (ptTotalRidesCancelled p + 1)
          (ptTotalRidesCancelled p + 1 + ptTotalRidesCompleted p), ptUpdatedAt := now0\<rparr>))"

definition IncrementPartnerCompleted :: "uuid \<Rightarrow> (('v, 'r) rider, unit) io" where
  "IncrementPartnerCompleted i = db_call (sql_bump_partner i ptTotalRidesCompleted
     (\<lambda>now0 p. p\<lparr>ptTotalRidesCompleted := ptTotalRidesCompleted p + 1,
        ptCancellationRate := percent (ptTotalRidesCancelled p)
          (ptTotalRidesCompleted p + 1 + ptTotalRidesCancelled p), ptUpdatedAt := now0\<rparr>))"

definition rated_lately :: "uuid \<Rightarrow> int \<Rightarrow> ride_row list \<Rightarrow> int list" where
  "rated_lately partnerID now0 rs = map (\<lambda>r. the (rwRating r)) (filter (\<lambda>r. rdPartnerID r = Some partnerID \<and>
     rwRating r \<noteq> None \<and> (case rwCompletedAt r of None \<Rightarrow> False | Some t \<Rightarrow> t \<ge> now0 - 30 * 86400000000)) rs)"

definition average2 :: "int list \<Rightarrow> rat" where
  "average2 xs = (if xs = [] then 0
     else fl64 (of_int (math_Round (100 * of_int (sum_list xs) / of_nat (length xs))) / 100))"

definition UpdatePartnerRating :: "uuid \<Rightarrow> (('v, 'r) rider, unit) io" where
  "UpdatePartnerRating i = db_call (\<lambda>w. (Inr (), w\<lparr>ride_partners := update_rows (\<lambda>p. ptID p = i)
     (\<lambda>p. p\<lparr>ptRating := average2 (rated_lately i (clock w) (rides w)), ptUpdatedAt := clock w\<rparr>) (ride_partners w)\<rparr>))"

section \<open>Idempotency keys\<close>

definition FindRideKey :: "string \<Rightarrow> uuid \<Rightarrow> string \<Rightarrow> (('v, 'r) rider, RideIdem) io" where
  "FindRideKey key userID operation =
     andThen (wrapErr ''find idempotency'' (db_call (get (\<lambda>w.
       find (\<lambda>k. rkKey k = key \<and> rkExpiresAt k > clock w) (ride_idem w))))) (\<lambda>r. case r of
       None \<Rightarrow> fail ErrRideKeyNotFound
     | Some rec \<Rightarrow> require (rkUserID rec = userID \<and> rkOperation rec = operation) ErrRideKeyMismatch (ok rec))"

definition RecordRideKey :: "string \<Rightarrow> uuid \<Rightarrow> string \<Rightarrow> uuid option \<Rightarrow> idem_body option \<Rightarrow> (('v, 'r) rider, unit) io" where
  "RecordRideKey key userID operation resourceID body = wrapErr ''record idempotency'' (db_call (\<lambda>w.
     if key \<in> rkKey ` set (ride_idem w) then (Inr (), w)
     else (Inr (), w\<lparr>ride_idem := ride_idem w @ [\<lparr>rkKey = key, rkUserID = userID, rkOperation = operation,
       rkResourceID = resourceID, rkResponseBody = body, rkCreatedAt = clock w,
       rkExpiresAt = clock w + 86400000000\<rparr>]\<rparr>)))"

definition PurgeExpiredRideKeys :: "(('v, 'r) rider, nat) io" where
  "PurgeExpiredRideKeys = wrapErr ''purge expired idempotency'' (db_call (\<lambda>w.
     (Inr (length (filter (\<lambda>k. rkExpiresAt k < clock w) (ride_idem w))),
      w\<lparr>ride_idem := filter (\<lambda>k. \<not> rkExpiresAt k < clock w) (ride_idem w)\<rparr>)))"

section \<open>Fare rules\<close>

definition current_rule :: "uuid \<Rightarrow> string \<Rightarrow> FareRule list \<Rightarrow> FareRule option" where
  "current_rule cityID vehicleType fs =
     (case sort_key (\<lambda>f. - frStartsAt f) (filter (\<lambda>f. frCityID f = cityID \<and> frVehicleType f = vehicleType \<and> frIsActive f) fs) of
       [] \<Rightarrow> None | f # _ \<Rightarrow> Some f)"

definition GetFareRule :: "uuid \<Rightarrow> string \<Rightarrow> (('v, 'r) rider, FareRule) io" where
  "GetFareRule cityID vehicleType =
     andThen (db_call (\<lambda>w. if vehicleType \<notin> set rider_vehicle_type then (Inl (sqlstate ''22P02''), w)
        else (Inr (current_rule cityID vehicleType (fare_rules w)), w))) (\<lambda>r.
     case r of None \<Rightarrow> fail ErrFareRuleNotFound | Some f \<Rightarrow> ok f)"

section \<open>Partners, vehicles and locations\<close>

definition GetPartnerByUserID :: "uuid \<Rightarrow> (('v, 'r) rider, Partner) io" where
  "GetPartnerByUserID userID = query_row (\<lambda>w. map_option Partner.truncate
     (find (\<lambda>p. ptUserID p = userID \<and> pwDeletedAt p = None) (ride_partners w))) ErrPartnerNotFound"

definition ListVehiclesByPartner :: "uuid \<Rightarrow> (('v, 'r) rider, Vehicle list) io" where
  "ListVehiclesByPartner partnerID = wrapErr ''list vehicles'' (db_call (get (\<lambda>w.
     map Vehicle.truncate (sort_key (\<lambda>v. - vhCreatedAt v)
       (filter (\<lambda>v. vhPartnerID v = partnerID \<and> vwDeletedAt v = None) (ride_vehicles w))))))"

record UpsertPartnerLocationInput =
  upiPartnerID :: uuid
  upiLastLat :: rat
  upiLastLng :: rat
  upiLastGeohash :: string
  upiLastSpeedMPS :: "rat option"
  upiLastHeading :: "rat option"
  upiIsOnline :: bool

definition UpsertPartnerLocation :: "numeric \<Rightarrow> UpsertPartnerLocationInput \<Rightarrow> (('v, 'r) rider, unit) io" where
  "UpsertPartnerLocation num i = wrapErr ''upsert partner location'' (db_call (\<lambda>w.
     case (num 9 6 (upiLastLat i), num 9 6 (upiLastLng i), num_null num 6 2 (upiLastSpeedMPS i),
         num_null num 5 2 (upiLastHeading i)) of
       (Some lat, Some lng, Some sp, Some hd0) \<Rightarrow>
         (let l = \<lparr>locPartnerID = upiPartnerID i, locLastLat = lat, locLastLng = lng,
              locLastGeohash = upiLastGeohash i, locLastSpeedMPS = sp, locLastHeading = hd0,
              locIsOnline = upiIsOnline i, locUpdatedAt = clock w\<rparr>
          in if upiPartnerID i \<in> locPartnerID ` set (ride_locations w)
             then (Inr (), w\<lparr>ride_locations := update_rows (\<lambda>x. locPartnerID x = upiPartnerID i) (\<lambda>_. l) (ride_locations w)\<rparr>)
             else if upiPartnerID i \<notin> ptID ` set (ride_partners w) then (Inl (sqlstate ''23503''), w)
             else (Inr (), w\<lparr>ride_locations := ride_locations w @ [l]\<rparr>))
     | _ \<Rightarrow> (Inl (sqlstate ''22003''), w)))"

definition SetPartnerOnlineFlag :: "uuid \<Rightarrow> bool \<Rightarrow> (('v, 'r) rider, unit) io" where
  "SetPartnerOnlineFlag partnerID online =
     andThen (wrapErr ''set partner online flag'' (db_call (\<lambda>w.
       if partnerID \<in> locPartnerID ` set (ride_locations w)
       then (Inr (), w\<lparr>ride_locations := update_rows (\<lambda>l. locPartnerID l = partnerID)
          (\<lambda>l. l\<lparr>locIsOnline := online, locUpdatedAt := clock w\<rparr>) (ride_locations w)\<rparr>)
       else if partnerID \<notin> ptID ` set (ride_partners w) then (Inl (sqlstate ''23503''), w)
       else (Inr (), w\<lparr>ride_locations := ride_locations w @ [\<lparr>locPartnerID = partnerID, locLastLat = 0,
          locLastLng = 0, locLastGeohash = [], locLastSpeedMPS = None, locLastHeading = None,
          locIsOnline = online, locUpdatedAt = clock w\<rparr>]\<rparr>)))) (\<lambda>_.
     wrapErr ''sync partner online'' (db_call (\<lambda>w. (Inr (), w\<lparr>ride_partners :=
       update_rows (\<lambda>p. ptID p = partnerID)
         (\<lambda>p. p\<lparr>ptIsOnline := online, ptUpdatedAt := clock w,
            pwLastOnlineAt := (if online then Some (clock w) else pwLastOnlineAt p),
            pwLastOfflineAt := (if online then pwLastOfflineAt p else Some (clock w))\<rparr>) (ride_partners w)\<rparr>))))"

text \<open>\<^verbatim>\<open>last_geohash LIKE p || '%'\<close>; a geohash has no wildcard characters.\<close>

definition FindOnlinePartnersByGeohash :: "string list \<Rightarrow> int \<Rightarrow> (('v, 'r) rider, PartnerLocation list) io" where
  "FindOnlinePartnersByGeohash prefixes n0 =
     (if prefixes = [] then ok []
      else wrapErr ''find online partners'' (db_call (get (\<lambda>w.
        take (nat (if n0 \<le> 0 \<or> n0 > 200 then 50 else n0)) (sort_key (\<lambda>l. - locUpdatedAt l)
          (filter (\<lambda>l. locIsOnline l \<and> (\<exists>p \<in> set prefixes. has_prefix (locLastGeohash l) p)) (ride_locations w)))))))"

section \<open>Candidates for the matcher\<close>

definition uuid_or_empty :: "uuid option \<Rightarrow> string" where
  "uuid_or_empty x = (case x of None \<Rightarrow> [] | Some u \<Rightarrow> uuid_string u)"

text \<open>The vehicle that stands for a partner: an approved one if there is one, then the newest.\<close>

definition primary_vehicle :: "uuid \<Rightarrow> vehicle_row list \<Rightarrow> vehicle_row option" where
  "primary_vehicle partnerID vs =
     (case sort_key (\<lambda>v. if vhStatus v = ''approved'' then 0 else 1 :: nat) (sort_key (\<lambda>v. - vhCreatedAt v)
         (filter (\<lambda>v. vhPartnerID v = partnerID \<and> vwDeletedAt v = None \<and> vhIsActive v) vs)) of
       [] \<Rightarrow> None | v # _ \<Rightarrow> Some v)"

text \<open>\<^verbatim>\<open>EXTRACT(EPOCH FROM d)::int\<close> rounds to the nearest second, ties away from zero.\<close>

definition candidate_of :: "('v, 'r) rider \<Rightarrow> partner_row \<Rightarrow> PartnerCandidate" where
  "candidate_of w p =
     (let v = primary_vehicle (ptID p) (ride_vehicles w); s = current_sub (ptID p) (ride_subs w);
          plan = Option.bind s (\<lambda>s. find (\<lambda>pl. plID pl = suPlanID s) (ride_plans w));
          loc = find (\<lambda>l. locPartnerID l = ptID p) (ride_locations w)
      in \<lparr>pcPartnerID = uuid_string (ptID p), pcUserID = uuid_string (ptUserID p),
          pcVehicleID = uuid_or_empty (map_option vhID v),
          pcVehicleType = (case v of None \<Rightarrow> [] | Some v \<Rightarrow> vhVehicleType v),
          pcCityID = uuid_or_empty (ptCityID p), pcPartnerStatus = ptStatus p, pcKYCStatus = ptKYCStatus p,
          pcVehicleStatus = (case v of None \<Rightarrow> ''pending'' | Some v \<Rightarrow> vhStatus v),
          pcSubscriptionStatus = (case s of None \<Rightarrow> ''expired'' | Some s \<Rightarrow> suStatus s),
          pcIsOnline = (case loc of None \<Rightarrow> False | Some l \<Rightarrow> locIsOnline l),
          pcIsUnlimitedPlan = (case plan of None \<Rightarrow> False | Some pl \<Rightarrow> plIsUnlimited pl),
          pcLeadsUsedThisMonth = (case s of None \<Rightarrow> 0 | Some s \<Rightarrow> suLeadsUsed s),
          pcLeadAllotment = (case Option.bind plan plLeadLimit of None \<Rightarrow> 0 | Some n \<Rightarrow> n),
          pcPlanPriorityWeight = (case plan of None \<Rightarrow> 0 | Some pl \<Rightarrow> plPriorityWeight pl),
          pcRating = ptRating p, pcAcceptanceRate = ptAcceptanceRate p, pcCancellationRate = ptCancellationRate p,
          pcFraudScore = ptFraudScore p, pcDistanceKM = 0,
          pcIdleSecs = (case pwLastOnlineAt p of None \<Rightarrow> 0 | Some t \<Rightarrow> math_Round (of_int (clock w - t) / 1000000))\<rparr>)"

text \<open>One row per partner; no order is asked for, the table's is taken.\<close>

definition LoadMatcherCandidates :: "uuid list \<Rightarrow> (('v, 'r) rider, PartnerCandidate list) io" where
  "LoadMatcherCandidates partnerIDs =
     (if partnerIDs = [] then ok []
      else wrapErr ''load matcher candidates'' (db_call (get (\<lambda>w.
        map (candidate_of w) (filter (\<lambda>p. ptID p \<in> set partnerIDs) (ride_partners w))))))"

end
