(* ===== verification/Rider_Geo.thy ===== *)
theory Rider_Geo
  imports Go_Float
begin

text \<open>
  The geographic helpers of rider-service (\<^verbatim>\<open>internal/geo/geohash.go\<close>): geohashes by bisection in
  \<^verbatim>\<open>float64\<close> arithmetic, and the great-circle distance. The trigonometric functions of
  \<^verbatim>\<open>math\<close>, whose last bits depend on the platform, are arguments (\<open>libm\<close>). The bisection is
  exact for the precisions the code admits, so the centre of a cell is encoded as that cell.
\<close>

section \<open>Bisection\<close>

text \<open>A cell: the ranges of latitude and longitude, and the axis the next bit is for.\<close>

record geocell =
  latRange :: "rat \<times> rat"
  lngRange :: "rat \<times> rat"
  evenBit :: bool

definition whole_earth :: geocell where
  "whole_earth = \<lparr>latRange = (-90, 90), lngRange = (-180, 180), evenBit = True\<rparr>"

definition midpoint :: "rat \<times> rat \<Rightarrow> rat" where
  "midpoint r = fl64 (fl64 (fst r + snd r) / 2)"

definition half_range :: "bool \<Rightarrow> rat \<times> rat \<Rightarrow> rat \<times> rat" where
  "half_range upper r = (if upper then (midpoint r, snd r) else (fst r, midpoint r))"

text \<open>One bit: the longitude on even steps, the latitude on odd ones.\<close>

definition refine_cell :: "bool \<Rightarrow> geocell \<Rightarrow> geocell" where
  "refine_cell b c = (if evenBit c then c\<lparr>lngRange := half_range b (lngRange c), evenBit := False\<rparr>
     else c\<lparr>latRange := half_range b (latRange c), evenBit := True\<rparr>)"

section \<open>Encoding\<close>

definition geo_base32 :: string where
  "geo_base32 = ''0123456789bcdefghjkmnpqrstuvwxyz''"

record geoloop =
  glCell :: geocell
  glBits :: nat
  glBitVal :: nat
  glOut :: string

definition upper_half :: "rat \<Rightarrow> rat \<Rightarrow> geocell \<Rightarrow> bool" where
  "upper_half lat lng c = (if evenBit c then lng \<ge> midpoint (lngRange c) else lat \<ge> midpoint (latRange c))"

text \<open>One pass of the loop; the fifth bit completes a character.\<close>

definition geo_pass :: "rat \<Rightarrow> rat \<Rightarrow> geoloop \<Rightarrow> geoloop" where
  "geo_pass lat lng l =
     (let b = upper_half lat lng (glCell l);
          v = 2 * glBitVal l + (if b then 1 else 0);
          l' = l\<lparr>glCell := refine_cell b (glCell l)\<rparr>
      in if glBits l + 1 = 5 then l'\<lparr>glOut := glOut l @ [geo_base32 ! v], glBits := 0, glBitVal := 0\<rparr>
         else l'\<lparr>glBits := glBits l + 1, glBitVal := v\<rparr>)"

definition geo_start :: geoloop where
  "geo_start = \<lparr>glCell = whole_earth, glBits = 0, glBitVal = 0, glOut = []\<rparr>"

text \<open>The loop ends with the character that makes \<open>out\<close> long enough, after five passes for each.\<close>

definition geo_Encode :: "rat \<Rightarrow> rat \<Rightarrow> int \<Rightarrow> string" where
  "geo_Encode lat lng precision =
     (let p = (if precision \<le> 0 then 6 else if precision > 12 then 12 else nat precision)
      in glOut ((geo_pass lat lng ^^ (5 * p)) geo_start))"

section \<open>Decoding\<close>

definition geo_indexOf :: "string \<Rightarrow> char \<Rightarrow> int" where
  "geo_indexOf s b = (case find (\<lambda>i. s ! i = b) [0..<length s] of None \<Rightarrow> -1 | Some i \<Rightarrow> int i)"

definition decode_char :: "nat \<Rightarrow> geocell \<Rightarrow> geocell" where
  "decode_char idx c = foldl (\<lambda>c k. refine_cell (idx div 2 ^ k mod 2 = 1) c) c [4, 3, 2, 1, 0]"

text \<open>\<open>None\<close> is the early return on a character outside the alphabet.\<close>

fun decode_cell :: "string \<Rightarrow> geocell \<Rightarrow> geocell option" where
  "decode_cell [] c = Some c"
| "decode_cell (x # xs) c =
     (let idx = geo_indexOf geo_base32 x in if idx < 0 then None else decode_cell xs (decode_char (nat idx) c))"

definition decodeCenter :: "string \<Rightarrow> rat \<times> rat" where
  "decodeCenter gh = (case decode_cell gh whole_earth of
     None \<Rightarrow> (0, 0) | Some c \<Rightarrow> (midpoint (latRange c), midpoint (lngRange c)))"

section \<open>Neighbouring cells\<close>

definition stepSize :: "nat \<Rightarrow> rat \<times> rat" where
  "stepSize precision =
     (if precision = 1 then (23, 45) else if precision = 2 then (fl64 (28 / 10), fl64 (56 / 10))
      else if precision = 3 then (fl64 (7 / 10), fl64 (7 / 10))
      else if precision = 4 then (fl64 (87 / 1000), fl64 (18 / 100))
      else if precision = 5 then (fl64 (22 / 1000), fl64 (22 / 1000))
      else if precision = 6 then (fl64 (55 / 10000), fl64 (11 / 1000))
      else if precision = 7 then (fl64 (68 / 100000), fl64 (68 / 100000))
      else (fl64 (1 / 10000), fl64 (1 / 10000)))"

definition geo_Neighbors :: "string \<Rightarrow> string list" where
  "geo_Neighbors gh =
     (if gh = [] then []
      else let (lat, lng) = decodeCenter gh; (dLat, dLng) = stepSize (length gh)
           in foldl (\<lambda>out n. if n \<in> set out then out else out @ [n]) []
                [geo_Encode (fl64 (lat + a * dLat)) (fl64 (lng + b * dLng)) (int (length gh)).
                   a \<leftarrow> [-1, 0, 1], b \<leftarrow> [-1, 0, 1]])"

section \<open>Distance\<close>

record libm =
  mathSin :: "rat \<Rightarrow> rat"
  mathCos :: "rat \<Rightarrow> rat"
  mathAtan2 :: "rat \<Rightarrow> rat \<Rightarrow> rat"
  mathSqrt :: "rat \<Rightarrow> rat"

definition mathPi :: rat where
  "mathPi = 884279719003555 / 2 ^ 48"

definition degToRad :: "rat \<Rightarrow> rat" where
  "degToRad d = fl64 (fl64 (d * mathPi) / 180)"

definition HaversineKM :: "libm \<Rightarrow> rat \<Rightarrow> rat \<Rightarrow> rat \<Rightarrow> rat \<Rightarrow> rat" where
  "HaversineKM m lat1 lng1 lat2 lng2 =
     (let dLat = degToRad (fl64 (lat2 - lat1)); dLng = degToRad (fl64 (lng2 - lng1));
          s1 = mathSin m (fl64 (dLat / 2)); s2 = mathSin m (fl64 (dLng / 2));
          a = fl64 (fl64 (s1 * s1) +
            fl64 (fl64 (fl64 (mathCos m (degToRad lat1) * mathCos m (degToRad lat2)) * s2) * s2));
          c = fl64 (2 * mathAtan2 m (mathSqrt m a) (mathSqrt m (fl64 (1 - a))))
      in fl64 (6371 * c))"

section \<open>Bisection is exact\<close>

lemma pow2_mono: "a \<le> b \<Longrightarrow> pow2 a \<le> pow2 b"
proof -
  assume "a \<le> b"
  then have "1 \<le> pow2 (b - a)" by (simp add: pow2_def)
  then have "pow2 a * 1 \<le> pow2 a * pow2 (b - a)" by (intro mult_left_mono) (simp_all add: less_imp_le)
  then show ?thesis by (simp flip: pow2_add)
qed

lemma fl64_dyadic:
  assumes "\<bar>n\<bar> < 2 ^ 53"
  shows "fl64 (of_int n / 2 ^ j) = of_int n / 2 ^ j"
proof -
  have pos: "fl64_pos (of_int n / 2 ^ j) = of_int n / 2 ^ j" if n: "0 < n" "n < 2 ^ 53" for n :: int
  proof -
    define x :: rat where "x = of_int n / 2 ^ j"
    define e where "e = ulp_exp x"
    have x: "0 < x" using n by (simp add: x_def)
    have le: "2 ^ 52 * pow2 e \<le> x" using ulp_exp_le [OF x] by (simp add: e_def)
    have j: "pow2 (- int j) = 1 / 2 ^ j" by (cases "j = 0") (simp_all add: pow2_def)
    have e: "e \<le> - int j"
    proof (rule ccontr)
      assume "\<not> e \<le> - int j"
      then have "pow2 (- int j + 1) \<le> pow2 e" by (intro pow2_mono) simp
      moreover have "pow2 (- int j + 1) = pow2 (- int j) * 2"
        by (simp only: pow2_add) (simp add: pow2_def [of 1])
      ultimately have "2 * (1 / 2 ^ j) \<le> pow2 e" using j by simp
      then have "2 ^ 53 * (1 / 2 ^ j) \<le> x" using le by simp
      then have "(2 ^ 53 :: rat) \<le> of_int n" by (simp add: x_def field_simps)
      then have "2 ^ 53 \<le> n" by (metis of_int_le_iff of_int_numeral of_int_power)
      with n show False by simp
    qed
    define d where "d = nat (- int j - e)"
    have "- int j = int d + e" using e by (simp add: d_def)
    then have "1 / 2 ^ j = (2 ^ d :: rat) * pow2 e"
      using j pow2_add [of "int d" e] by (simp add: pow2_def [of "int d"])
    moreover have "x = of_int n * (1 / 2 ^ j)" by (simp add: x_def)
    ultimately have "x = of_int n * (2 ^ d * pow2 e)" by (simp only:)
    then have "x = of_int (n * 2 ^ d) * pow2 e" by (simp add: mult.assoc)
    then show ?thesis
      unfolding fl64_pos_def x_def [symmetric] e_def [symmetric] Let_def
      by (simp del: of_int_mult of_int_power)
  qed
  show ?thesis
    using pos [of n] pos [of "- n"] assms 
    by (cases n "0 :: int" rule: linorder_cases)
      (auto simp: fl64_def divide_less_0_iff zero_less_divide_iff)
qed

text \<open>The ends of a range after \<open>k\<close> halvings.\<close>

definition on_grid :: "nat \<Rightarrow> rat \<Rightarrow> bool" where
  "on_grid k x \<longleftrightarrow> (\<exists>a. x = of_int (45 * a) / 2 ^ k \<and> \<bar>a\<bar> \<le> 4 * 2 ^ k)"

lemma on_grid_Suc: "on_grid k x \<Longrightarrow> on_grid (Suc k) x"
  unfolding on_grid_def
proof (elim exE conjE)
  fix a assume "x = of_int (45 * a) / 2 ^ k" "\<bar>a\<bar> \<le> 4 * 2 ^ k"
  then show "\<exists>b. x = of_int (45 * b) / 2 ^ Suc k \<and> \<bar>b\<bar> \<le> 4 * 2 ^ Suc k"
    by (intro exI [of _ "2 * a"]) (simp add: abs_mult)
qed

lemma midpoint_exact:
  assumes "on_grid k (fst r)" "on_grid k (snd r)" "k \<le> 30"
  shows "midpoint r = (fst r + snd r) / 2" "on_grid (Suc k) (midpoint r)"
proof -
  obtain a b where ab: "fst r = of_int (45 * a) / 2 ^ k" "snd r = of_int (45 * b) / 2 ^ k"
    "\<bar>a\<bar> \<le> 4 * 2 ^ k" "\<bar>b\<bar> \<le> 4 * 2 ^ k"
    using assms(1,2) unfolding on_grid_def by blast
  define n where "n = 45 * (a + b)"
  have "(2 :: int) ^ k \<le> 2 ^ 30" using assms(3) by (intro power_increasing) simp_all
  then have n: "\<bar>n\<bar> < 2 ^ 53" using ab(3,4) by (simp add: n_def)
  have s: "fst r + snd r = of_int n / 2 ^ k" by (simp add: ab(1,2) n_def add_divide_distrib)
  have "fl64 (fst r + snd r) / 2 = of_int n / 2 ^ Suc k" by (simp add: s fl64_dyadic [OF n])
  then have m: "midpoint r = of_int n / 2 ^ Suc k" by (simp only: midpoint_def fl64_dyadic [OF n])
  then show "midpoint r = (fst r + snd r) / 2" by (simp add: s)
  show "on_grid (Suc k) (midpoint r)"
    unfolding on_grid_def by (rule exI [of _ "a + b"]) (use m ab(3,4) in \<open>simp add: n_def\<close>)
qed

text \<open>A cell after \<open>n\<close> bits: its ranges are proper and lie on the grid.\<close>

definition good_range :: "nat \<Rightarrow> rat \<times> rat \<Rightarrow> bool" where
  "good_range k r \<longleftrightarrow> fst r < snd r \<and> on_grid k (fst r) \<and> on_grid k (snd r)"

definition good_cell :: "nat \<Rightarrow> geocell \<Rightarrow> bool" where
  "good_cell n c \<longleftrightarrow> good_range (n div 2) (latRange c) \<and> good_range (Suc n div 2) (lngRange c) \<and> evenBit c = even n"

lemma good_range_Suc: "good_range k r \<Longrightarrow> good_range (Suc k) r"
  by (simp add: good_range_def on_grid_Suc)

lemma midpoint_between:
  assumes "good_range k r" "k \<le> 30"
  shows "fst r < midpoint r" "midpoint r < snd r"
  using assms midpoint_exact(1) [of k r] by (auto simp: good_range_def)

lemma good_half_range: "good_range k r \<Longrightarrow> k \<le> 30 \<Longrightarrow> good_range (Suc k) (half_range b r)"
  using midpoint_between [of k r] midpoint_exact(2) [of k r]
  by (auto simp: good_range_def half_range_def on_grid_Suc)

lemma good_refine:
  assumes "good_cell n c" "n < 60"
  shows "good_cell (Suc n) (refine_cell b c)"
proof (cases "even n")
  case True
  then have "Suc (Suc n) div 2 = Suc (Suc n div 2)" "Suc n div 2 = n div 2" by (auto elim: evenE)
  with assms True show ?thesis
    by (auto simp: good_cell_def refine_cell_def intro!: good_half_range)
next
  case False
  then have "Suc (Suc n) div 2 = Suc n div 2" "Suc n div 2 = Suc (n div 2)" by (auto elim: oddE)
  with assms False show ?thesis
    by (auto simp: good_cell_def refine_cell_def intro!: good_half_range)
qed

lemma good_whole_earth: "good_cell 0 whole_earth"
proof -
  have "on_grid 0 (-90)" "on_grid 0 90" "on_grid 0 (-180)" "on_grid 0 180"
    unfolding on_grid_def
    by (rule exI [of _ "-2"], simp) (rule exI [of _ 2], simp, rule exI [of _ "-4"], simp, rule exI [of _ 4], simp)
  then show ?thesis by (simp add: good_cell_def good_range_def whole_earth_def)
qed

section \<open>The centre of a cell encodes as the cell\<close>

definition inside :: "rat \<Rightarrow> rat \<Rightarrow> geocell \<Rightarrow> bool" where
  "inside lat lng c \<longleftrightarrow> fst (latRange c) \<le> lat \<and> lat < snd (latRange c)
     \<and> fst (lngRange c) \<le> lng \<and> lng < snd (lngRange c)"

lemma inside_refine:
  assumes "good_cell n c" "n < 60" "inside lat lng (refine_cell b c)"
  shows "inside lat lng c" "upper_half lat lng c = b"
proof -
  have "n div 2 \<le> 30" "Suc n div 2 \<le> 30" using assms(2) by simp_all
  with assms(1) have "fst (latRange c) < midpoint (latRange c)" "midpoint (latRange c) < snd (latRange c)"
    "fst (lngRange c) < midpoint (lngRange c)" "midpoint (lngRange c) < snd (lngRange c)"
    by (auto simp: good_cell_def dest: midpoint_between)
  with assms(3) show "inside lat lng c" "upper_half lat lng c = b"
    by (auto simp: inside_def refine_cell_def upper_half_def half_range_def split: if_splits)
qed

text \<open>Passes that take given bits.\<close>

definition refine_cells :: "bool list \<Rightarrow> geocell \<Rightarrow> geocell" where
  "refine_cells bs c = foldl (\<lambda>c b. refine_cell b c) c bs"

lemma good_refine_cells: "good_cell n c \<Longrightarrow> n + length bs \<le> 60 \<Longrightarrow> good_cell (n + length bs) (refine_cells bs c)"
  unfolding refine_cells_def
  by (induction bs arbitrary: n c) (use good_refine in fastforce)+

lemma geo_pass_bits:
  assumes "good_cell n c" "n + length bs \<le> 60" "inside lat lng (refine_cells bs c)" "k + length bs \<le> 4"
  shows "inside lat lng c \<and> (geo_pass lat lng ^^ length bs) \<lparr>glCell = c, glBits = k, glBitVal = v, glOut = out\<rparr>
     = \<lparr>glCell = refine_cells bs c, glBits = k + length bs,
        glBitVal = foldl (\<lambda>v b. 2 * v + (if b then 1 else 0)) v bs, glOut = out\<rparr>"
  using assms
proof (induction bs arbitrary: n c k v)
  case (Cons b bs)
  from Cons.prems have i: "inside lat lng (refine_cell b c)"
    using Cons.IH [of "Suc n" "refine_cell b c" "Suc k" "2 * v + (if b then 1 else 0)"] good_refine [of n c b]
    by (simp add: refine_cells_def)
  have b: "inside lat lng c" "upper_half lat lng c = b"
    using inside_refine [OF Cons.prems(1) _ i] Cons.prems(2) by simp_all
  have "geo_pass lat lng \<lparr>glCell = c, glBits = k, glBitVal = v, glOut = out\<rparr>
      = \<lparr>glCell = refine_cell b c, glBits = Suc k, glBitVal = 2 * v + (if b then 1 else 0), glOut = out\<rparr>"
    using Cons.prems(4) by (simp add: geo_pass_def b(2) Let_def)
  then show ?case
    using Cons.IH [of "Suc n" "refine_cell b c" "Suc k" "2 * v + (if b then 1 else 0)"] good_refine [of n c b]
      Cons.prems b(1)
    by (simp add: refine_cells_def funpow_swap1)
qed (simp add: refine_cells_def)

definition char_bits :: "nat \<Rightarrow> bool list" where
  "char_bits idx = map (\<lambda>k. idx div 2 ^ k mod 2 = 1) [4, 3, 2, 1, 0]"

lemma decode_char_bits: "decode_char idx c = refine_cells (char_bits idx) c"
  by (simp add: decode_char_def refine_cells_def char_bits_def)

lemma char_bits_value:
  "idx < 32 \<Longrightarrow> foldl (\<lambda>v b. 2 * v + (if b then 1 else 0)) 0 (char_bits idx) = idx"
proof -
  have "\<forall>i \<in> set [0..<32]. foldl (\<lambda>v b. 2 * v + (if b then 1 else 0)) (0::nat) (char_bits i) = i"
    by (simp add: char_bits_def upt_rec)
  then show "idx < 32 \<Longrightarrow> ?thesis" by simp
qed

lemma good_decode_char: "good_cell n c \<Longrightarrow> n + 5 \<le> 60 \<Longrightarrow> good_cell (n + 5) (decode_char i c)"
proof -
  have "length (char_bits i) = 5" by (simp add: char_bits_def)
  then show "good_cell n c \<Longrightarrow> n + 5 \<le> 60 \<Longrightarrow> ?thesis"
    using good_refine_cells [of n c "char_bits i"] by (simp only: decode_char_bits)
qed

lemma geo_char:
  assumes "good_cell n c" "n + 5 \<le> 60" "inside lat lng (decode_char idx c)" "idx < 32"
  shows "inside lat lng c"
    and "(geo_pass lat lng ^^ 5) \<lparr>glCell = c, glBits = 0, glBitVal = 0, glOut = out\<rparr>
      = \<lparr>glCell = decode_char idx c, glBits = 0, glBitVal = 0, glOut = out @ [geo_base32 ! idx]\<rparr>"
proof -
  define bs b where "bs = butlast (char_bits idx)" and "b = last (char_bits idx)"
  have bits: "char_bits idx = bs @ [b]" "length bs = 4" by (simp_all add: bs_def b_def char_bits_def)
  have good: "good_cell (n + 4) (refine_cells bs c)" using good_refine_cells [OF assms(1), of bs] assms(2) bits by simp
  have dec: "decode_char idx c = refine_cell b (refine_cells bs c)"
    by (simp add: decode_char_bits bits refine_cells_def)
  have i: "inside lat lng (refine_cells bs c)" "upper_half lat lng (refine_cells bs c) = b"
    using inside_refine [OF good, of lat lng b] assms(2,3) dec by simp_all
  have four: "inside lat lng c \<and> (geo_pass lat lng ^^ 4) \<lparr>glCell = c, glBits = 0, glBitVal = 0, glOut = out\<rparr>
      = \<lparr>glCell = refine_cells bs c, glBits = 4,
         glBitVal = foldl (\<lambda>v b. 2 * v + (if b then 1 else 0)) 0 bs, glOut = out\<rparr>"
    using geo_pass_bits [OF assms(1), of bs lat lng 0 0 out] assms(2) bits i(1) by simp
  then show "inside lat lng c" ..
  have "2 * foldl (\<lambda>v b. 2 * v + (if b then 1 else 0)) 0 bs + (if b then 1 else 0) = idx"
    using char_bits_value [OF assms(4)] by (simp add: bits)
  with four i(2) dec show "(geo_pass lat lng ^^ 5) \<lparr>glCell = c, glBits = 0, glBitVal = 0, glOut = out\<rparr>
      = \<lparr>glCell = decode_char idx c, glBits = 0, glBitVal = 0, glOut = out @ [geo_base32 ! idx]\<rparr>"
    by (simp add: numeral_eq_Suc geo_pass_def Let_def)
qed

lemma geo_indexOf_Some:
  assumes "0 \<le> geo_indexOf s x"
  shows "s ! nat (geo_indexOf s x) = x" "nat (geo_indexOf s x) < length s"
proof -
  obtain i where i: "find (\<lambda>i. s ! i = x) [0..<length s] = Some i"
    using assms by (cases "find (\<lambda>i. s ! i = x) [0..<length s]") (simp_all add: geo_indexOf_def)
  then have "i < length s" "s ! i = x" by (auto simp: find_Some_iff)
  with i show "s ! nat (geo_indexOf s x) = x" "nat (geo_indexOf s x) < length s"
    by (simp_all add: geo_indexOf_def)
qed

lemma geo_indexOf_member: "x \<in> set s \<Longrightarrow> 0 \<le> geo_indexOf s x"
  by (auto simp: geo_indexOf_def find_None_iff in_set_conv_nth split: option.splits)

lemma decode_cell_good:
  assumes "decode_cell gh c = Some c'" "good_cell n c" "n + 5 * length gh \<le> 60"
  shows "good_cell (n + 5 * length gh) c'"
  using assms
proof (induction gh arbitrary: n c)
  case (Cons x gh)
  define i where "i = nat (geo_indexOf geo_base32 x)"
  have "good_cell (n + 5) (decode_char i c)" using good_decode_char [OF Cons.prems(2)] Cons.prems(3) by simp
  then show ?case
    using Cons.IH [of "decode_char i c" "n + 5"] Cons.prems by (auto simp: Let_def i_def add.assoc split: if_splits)
qed simp

lemma decode_then_encode:
  assumes "decode_cell gh c = Some c'" "good_cell n c" "n + 5 * length gh \<le> 60" "inside lat lng c'"
  shows "inside lat lng c \<and> (geo_pass lat lng ^^ (5 * length gh)) \<lparr>glCell = c, glBits = 0, glBitVal = 0, glOut = out\<rparr>
    = \<lparr>glCell = c', glBits = 0, glBitVal = 0, glOut = out @ gh\<rparr>"
  using assms
proof (induction gh arbitrary: n c out)
  case (Cons x gh)
  define i where "i = nat (geo_indexOf geo_base32 x)"
  have idx: "0 \<le> geo_indexOf geo_base32 x" and rest: "decode_cell gh (decode_char i c) = Some c'"
    using Cons.prems(1) by (auto simp: Let_def i_def split: if_splits)
  have x: "geo_base32 ! i = x" "i < 32"
    using geo_indexOf_Some [OF idx] by (simp_all add: i_def geo_base32_def)
  have good: "good_cell (n + 5) (decode_char i c)" using good_decode_char [OF Cons.prems(2)] Cons.prems(3) by simp
  have "n + 5 + 5 * length gh \<le> 60" using Cons.prems(3) by simp
  note IH = Cons.IH [OF rest good this Cons.prems(4), of "out @ [x]"]
  have in_char: "inside lat lng (decode_char i c)" using IH by simp
  have five: "inside lat lng c"
    "(geo_pass lat lng ^^ 5) \<lparr>glCell = c, glBits = 0, glBitVal = 0, glOut = out\<rparr>
      = \<lparr>glCell = decode_char i c, glBits = 0, glBitVal = 0, glOut = out @ [x]\<rparr>"
    using geo_char(1) [OF Cons.prems(2) _ in_char x(2)] geo_char(2) [OF Cons.prems(2) _ in_char x(2), of out]
      Cons.prems(3) x(1) by simp_all
  have "(geo_pass lat lng ^^ (5 * length (x # gh))) l = (geo_pass lat lng ^^ (5 * length gh)) ((geo_pass lat lng ^^ 5) l)" for l
  proof -
    have "5 * length (x # gh) = 5 * length gh + 5" by simp
    then show ?thesis by (simp only: funpow_add comp_apply)
  qed
  then show ?case using five IH Cons.prems(3) by simp
qed simp

lemma decode_cell_Some: "set gh \<subseteq> set geo_base32 \<Longrightarrow> \<exists>c'. decode_cell gh c = Some c'"
  by (induction gh arbitrary: c) (auto simp: Let_def dest: geo_indexOf_member)

text \<open>C38: a geohash of at most twelve characters is the encoding, at its own precision, of the centre
  it decodes to: the bisection in doubles loses nothing.\<close>

theorem geohash_roundtrip:
  assumes "1 \<le> length gh" "length gh \<le> 12" "set gh \<subseteq> set geo_base32"
  shows "geo_Encode (fst (decodeCenter gh)) (snd (decodeCenter gh)) (int (length gh)) = gh"
proof -
  obtain c where c: "decode_cell gh whole_earth = Some c" using decode_cell_Some [OF assms(3)] by blast
  have "good_cell (5 * length gh) c" using decode_cell_good [OF c good_whole_earth] assms(2) by simp
  then have "inside (midpoint (latRange c)) (midpoint (lngRange c)) c"
    using assms(2) midpoint_between [of "5 * length gh div 2" "latRange c"]
      midpoint_between [of "Suc (5 * length gh) div 2" "lngRange c"]
    by (auto simp: good_cell_def inside_def less_imp_le)
  then show ?thesis
    using decode_then_encode [OF c good_whole_earth, of _ _ "[]"] assms(1,2) c
    by (auto simp: geo_Encode_def geo_start_def decodeCenter_def Let_def)
qed

theorem geohash_roundtrip_witness:
  "geo_Encode (fst (decodeCenter ''tdr1y3'')) (snd (decodeCenter ''tdr1y3'')) 6 = ''tdr1y3''"
  using geohash_roundtrip [of "''tdr1y3''"] by (simp add: geo_base32_def)

end
