(* ===== verification/Rider_Fares.thy ===== *)
theory Rider_Fares
  imports Rider_Tables Rider_Geo
begin

text \<open>
  Prices of rides (\<^verbatim>\<open>internal/service/fares.go\<close> and the arithmetic of \<^verbatim>\<open>CompleteRide\<close> and
  \<^verbatim>\<open>computeCancellationFeePaise\<close> in \<^verbatim>\<open>internal/service/ride.go\<close>), in \<^verbatim>\<open>float64\<close>.
\<close>

definition round2 :: "rat \<Rightarrow> rat" where
  "round2 v = fl64 (of_int (math_Round (fl64 (v * 100))) / 100)"

definition validLatLng :: "rat \<Rightarrow> rat \<Rightarrow> bool" where
  "validLatLng lat lng \<longleftrightarrow> lat \<ge> -90 \<and> lat \<le> 90 \<and> lng \<ge> -180 \<and> lng \<le> 180 \<and> \<not> (lat = 0 \<and> lng = 0)"

definition allowedVehicleTypes :: "string list" where
  "allowedVehicleTypes = [''bike'', ''auto'', ''mini_cab'', ''sedan'', ''suv'', ''premium'', ''ev_bike'', ''ev_car'']"

definition ErrBadVehicleType :: goerr where
  "ErrBadVehicleType = Errorf
     ''invalid: vehicle_type must be one of bike, auto, mini_cab, sedan, suv, premium, ev_bike, ev_car''"

definition ErrBadCoordinates :: goerr where
  "ErrBadCoordinates = Errorf ''invalid: pickup and drop coordinates must be valid''"

section \<open>Estimates\<close>

text \<open>\<^verbatim>\<open>Config\<close> as \<^verbatim>\<open>New\<close> leaves it, with the mathematical functions of the platform.\<close>

record FareConfig =
  fcWindingFactor :: rat
  fcAverageSpeedKMPH :: rat
  fcLibm :: libm

definition default_config :: "rat \<Rightarrow> rat \<Rightarrow> libm \<Rightarrow> FareConfig" where
  "default_config winding speed m = \<lparr>fcWindingFactor = (if winding \<le> 0 then fl64 (14 / 10) else winding),
     fcAverageSpeedKMPH = (if speed \<le> 0 then 22 else speed), fcLibm = m\<rparr>"

definition haversineKM :: "libm \<Rightarrow> rat \<Rightarrow> rat \<Rightarrow> rat \<Rightarrow> rat \<Rightarrow> rat" where
  "haversineKM m lat1 lng1 lat2 lng2 =
     (let dLat = degToRad (fl64 (lat2 - lat1)); dLng = degToRad (fl64 (lng2 - lng1));
          s1 = mathSin m (fl64 (dLat / 2)); s2 = mathSin m (fl64 (dLng / 2));
          a = fl64 (fl64 (s1 * s1) +
            fl64 (fl64 (fl64 (mathCos m (degToRad lat1) * mathCos m (degToRad lat2)) * s2) * s2));
          c = fl64 (2 * mathAtan2 m (mathSqrt m a) (mathSqrt m (fl64 (1 - a))))
      in fl64 (6371 * c))"

record FareEstimateRequest =
  feqPickupLat :: rat
  feqPickupLng :: rat
  feqDropLat :: rat
  feqDropLng :: rat
  feqVehicleType :: string
  feqCityID :: uuid
  feqSurgeMultiplier :: rat

record FareEstimateResult =
  ferEstimatedDistanceKM :: rat
  ferEstimatedDurationMin :: rat
  ferFareEstimatePaise :: int
  ferSurgeMultiplier :: rat
  ferVehicleType :: string
  ferETAToPickupSeconds :: int
  ferBaseFareINR :: rat
  ferPerKMINR :: rat
  ferPerMinuteINR :: rat
  ferMinimumFareINR :: rat
  ferFareEstimateINR :: rat

text \<open>\<open>base + perKM * km + perMinute * min\<close>, but at least the minimum.\<close>

definition metered :: "FareRule \<Rightarrow> rat \<Rightarrow> rat \<Rightarrow> rat" where
  "metered rule km minutes =
     (let raw = fl64 (fl64 (frBaseFare rule + fl64 (frPerKMFare rule * km)) + fl64 (frPerMinuteFare rule * minutes))
      in if raw < frMinimumFare rule then frMinimumFare rule else raw)"

definition to_paise :: "rat \<Rightarrow> int" where
  "to_paise inr = float_to_int64 (math_Round (fl64 (inr * 100)))"

definition estimate_of :: "FareConfig \<Rightarrow> FareEstimateRequest \<Rightarrow> FareRule \<Rightarrow> FareEstimateResult" where
  "estimate_of cfg req rule =
     (let straightKM = haversineKM (fcLibm cfg) (feqPickupLat req) (feqPickupLng req) (feqDropLat req) (feqDropLng req);
          distanceKM = fl64 (straightKM * fcWindingFactor cfg);
          speed = (if fcAverageSpeedKMPH cfg \<le> 0 then 22 else fcAverageSpeedKMPH cfg);
          durationMin = fl64 (fl64 (distanceKM / speed) * 60);
          surge = (if feqSurgeMultiplier req \<le> 0 then 1 else feqSurgeMultiplier req);
          rawINR = fl64 (metered rule distanceKM durationMin * surge)
      in \<lparr>ferEstimatedDistanceKM = round2 distanceKM, ferEstimatedDurationMin = round2 durationMin,
          ferFareEstimatePaise = to_paise rawINR, ferSurgeMultiplier = surge,
          ferVehicleType = feqVehicleType req, ferETAToPickupSeconds = 300, ferBaseFareINR = frBaseFare rule,
          ferPerKMINR = frPerKMFare rule, ferPerMinuteINR = frPerMinuteFare rule,
          ferMinimumFareINR = frMinimumFare rule, ferFareEstimateINR = round2 rawINR\<rparr>)"

definition EstimateFare :: "FareConfig \<Rightarrow> FareEstimateRequest \<Rightarrow> (('v, 'r) rider, FareEstimateResult) io" where
  "EstimateFare cfg req =
     require (feqVehicleType req \<in> set allowedVehicleTypes) ErrBadVehicleType
    (require (feqCityID req \<noteq> 0) (Errorf ''invalid: city_id required'')
    (require (validLatLng (feqPickupLat req) (feqPickupLng req) \<and> validLatLng (feqDropLat req) (feqDropLng req))
       ErrBadCoordinates
    (attempt (GetFareRule (feqCityID req) (feqVehicleType req)) (\<lambda>r. case r of
       Inl e \<Rightarrow> if errors_is e ErrFareRuleNotFound
         then fail (Errorf ''not_found: no fare rule for this city + vehicle type'') else fail e
     | Inr rule \<Rightarrow> ok (estimate_of cfg req rule)))))"

section \<open>The final fare\<close>

text \<open>The metered fare at the larger of the two multipliers, and the mark for review.\<close>

definition final_fare_inr :: "FareRule \<Rightarrow> rat \<Rightarrow> int \<Rightarrow> rat" where
  "final_fare_inr rule km minutes =
     (let mult = max (frNightMultiplier rule) (frPeakMultiplier rule);
          mult = (if mult \<le> 0 then 1 else mult)
      in fl64 (metered rule km (fl64 (of_int minutes)) * mult))"

definition over_estimate :: "rat option \<Rightarrow> rat \<Rightarrow> bool" where
  "over_estimate estimate inr = (case estimate of None \<Rightarrow> False
     | Some e \<Rightarrow> e > 0 \<and> inr > fl64 (3 / 2 * e))"

section \<open>Cancellation fees\<close>

definition computeCancellationFeePaise :: "Ride \<Rightarrow> int" where
  "computeCancellationFeePaise r =
     (let st = rdStatus r in
      if st \<in> {''requested'', ''searching_partner'', ''partner_assigned''} then 0
      else if st = ''partner_arriving'' then 1500
      else if st = ''arrived'' then 5000
      else if st \<in> {''otp_verified'', ''in_progress''} then
        (case rdEstimatedFare r of
           None \<Rightarrow> 5000
         | Some est \<Rightarrow> let paise = to_paise (fl64 (est * fl64 (1 / 10))) in if paise > 10000 then 10000 else paise)
      else 0)"

lemma fl64_pos_nonneg: "0 < x \<Longrightarrow> 0 \<le> fl64 x"
proof -
  assume x: "0 < x"
  then have "x / 2 ^ 53 \<le> x" by simp
  then show "0 \<le> fl64 x" using fl64_close [OF x] by (simp add: abs_if split: if_splits)
qed

lemma fl64_nonneg: "0 \<le> x \<Longrightarrow> 0 \<le> fl64 x"
  using fl64_pos_nonneg [of x] by (cases "x = 0") (simp_all add: fl64_def)

lemma math_Round_near: "0 \<le> x \<Longrightarrow> of_int (math_Round x) \<le> x + 1 / 2 \<and> x - 1 / 2 \<le> of_int (math_Round x)"
  unfolding math_Round_def using floor_correct [of "x + 1 / 2"] by (simp add: not_less)

lemma tenth_of_fare:
  assumes "0 \<le> x" "x \<le> 100000"
  shows "0 \<le> to_paise (fl64 (x * fl64 (1 / 10)))" "\<bar>of_int (to_paise (fl64 (x * fl64 (1 / 10)))) - 10 * x\<bar> \<le> 1"
proof -
  define t where "t = fl64 (1 / 10)"
  have t: "\<bar>t - 1 / 10\<bar> \<le> 1 / 10 / 2 ^ 53" using fl64_close [of "1 / 10"] by (simp add: t_def)
  then have t0: "0 \<le> t" by (simp add: abs_if split: if_splits)
  define y where "y = fl64 (x * t)"
  have xt: "\<bar>x * t - x / 10\<bar> \<le> 1 / 1000000"
  proof -
    have "x * t - x / 10 = x * (t - 1 / 10)" by (simp add: right_diff_distrib)
    then have "\<bar>x * t - x / 10\<bar> = x * \<bar>t - 1 / 10\<bar>" using assms(1) by (simp only: abs_mult abs_of_nonneg)
    also have "\<dots> \<le> 100000 * (1 / 10 / 2 ^ 53)" using t assms by (intro mult_mono) simp_all
    also have "\<dots> \<le> 1 / 1000000" by simp
    finally show ?thesis .
  qed
  have near: "\<bar>fl64 z - z\<bar> \<le> 1 / 1000000" if "0 \<le> z" "z \<le> 2000000" for z
  proof (cases "z = 0")
    case False
    then have "\<bar>fl64 z - z\<bar> \<le> z / 2 ^ 53" using fl64_close [of z] that by simp
    also have "\<dots> \<le> 1 / 1000000" using that by simp
    finally show ?thesis .
  qed (simp add: fl64_def)
  have y: "\<bar>y - x * t\<bar> \<le> 1 / 1000000"
    unfolding y_def
  proof (rule near)
    show "0 \<le> x * t" using assms(1) t0 by simp
    show "x * t \<le> 2000000" using abs_le_D1 [OF xt] assms(2) by linarith
  qed
  have y0: "0 \<le> y" unfolding y_def by (rule fl64_nonneg) (use assms t0 in simp)
  have y100: "\<bar>fl64 (y * 100) - y * 100\<bar> \<le> 1 / 1000000"
  proof (rule near)
    show "0 \<le> y * 100" using y0 by simp
    show "y * 100 \<le> 2000000" using abs_le_D1 [OF y] abs_le_D1 [OF xt] assms(2) by linarith
  qed
  define z where "z = fl64 (y * 100)"
  have z0: "0 \<le> z" unfolding z_def by (rule fl64_nonneg) (use y0 in simp)
  have z: "\<bar>z - 10 * x\<bar> \<le> 1 / 4" unfolding z_def abs_le_iff using abs_le_D1 [OF y] abs_le_D2 [OF y] abs_le_D1 [OF y100] abs_le_D2 [OF y100] abs_le_D1 [OF xt] abs_le_D2 [OF xt] by (intro conjI; linarith)
  have r: "of_int (math_Round z) \<le> z + 1 / 2" "z - 1 / 2 \<le> of_int (math_Round z)"
    using math_Round_near [OF z0] by simp_all
  have "z \<le> 1000001" using abs_le_D1 [OF z] assms(2) by linarith
  then have up: "(of_int (math_Round z) :: rat) \<le> of_int 2000000" using r(1) by simp
  have low: "0 \<le> math_Round z" using z0 by (simp add: math_Round_def)
  have "int64 (math_Round z)" using low up unfolding of_int_le_iff by (simp add: int64_def)
  then have p: "to_paise (fl64 (x * fl64 (1 / 10))) = math_Round z"
    by (simp add: to_paise_def float_to_int64_def z_def y_def t_def)
  show "0 \<le> to_paise (fl64 (x * fl64 (1 / 10)))" using low by (simp only: p)
  show "\<bar>of_int (to_paise (fl64 (x * fl64 (1 / 10)))) - 10 * x\<bar> \<le> 1"
    unfolding p abs_le_iff using r abs_le_D1 [OF z] abs_le_D2 [OF z] by (intro conjI; linarith)
qed

lemma fee_by_status:
  "rdStatus r \<in> {''requested'', ''searching_partner'', ''partner_assigned''} \<Longrightarrow> computeCancellationFeePaise r = 0"
  "rdStatus r = ''partner_arriving'' \<Longrightarrow> computeCancellationFeePaise r = 1500"
  "rdStatus r = ''arrived'' \<Longrightarrow> computeCancellationFeePaise r = 5000"
  "rdStatus r \<in> {''otp_verified'', ''in_progress''} \<Longrightarrow> computeCancellationFeePaise r =
     (case rdEstimatedFare r of None \<Rightarrow> 5000 | Some x \<Rightarrow> min (to_paise (fl64 (x * fl64 (1 / 10)))) 10000)"
  by (auto simp: computeCancellationFeePaise_def Let_def min_def split: option.split)

text \<open>the fee for cancelling is nothing before the partner sets out, 15 rupees while the partner
  arrives and 50 once there; after that it is a tenth of the estimated fare to within a paisa, at
  most 100 rupees (50 without an estimate), and never negative.\<close>

theorem cancellation_fee:
  assumes "\<And>x. rdEstimatedFare r = Some x \<Longrightarrow> 0 \<le> x \<and> x \<le> 100000"
  shows "(rdStatus r \<in> {''requested'', ''searching_partner'', ''partner_assigned''} \<longrightarrow> computeCancellationFeePaise r = 0)
    \<and> (rdStatus r = ''partner_arriving'' \<longrightarrow> computeCancellationFeePaise r = 1500)
    \<and> (rdStatus r = ''arrived'' \<longrightarrow> computeCancellationFeePaise r = 5000)
    \<and> (rdStatus r \<in> {''otp_verified'', ''in_progress''} \<longrightarrow>
         0 \<le> computeCancellationFeePaise r \<and> computeCancellationFeePaise r \<le> 10000
         \<and> (case rdEstimatedFare r of None \<Rightarrow> computeCancellationFeePaise r = 5000
            | Some x \<Rightarrow> computeCancellationFeePaise r = 10000 \<or> \<bar>of_int (computeCancellationFeePaise r) - 10 * x\<bar> \<le> 1))"
proof (intro conjI impI)
  assume st: "rdStatus r \<in> {''otp_verified'', ''in_progress''}"
  note fee = fee_by_status(4) [OF st]
  show "0 \<le> computeCancellationFeePaise r" "computeCancellationFeePaise r \<le> 10000"
    "case rdEstimatedFare r of None \<Rightarrow> computeCancellationFeePaise r = 5000
     | Some x \<Rightarrow> computeCancellationFeePaise r = 10000 \<or> \<bar>of_int (computeCancellationFeePaise r) - 10 * x\<bar> \<le> 1"
    unfolding fee using assms tenth_of_fare by (auto simp: min_def split: option.split)
qed (simp_all add: fee_by_status)

end
