(* ===== verification/Rider_Wallet.thy ===== *)
theory Rider_Wallet
  imports Billpay_Wallet
begin

text \<open>
  The wallet integration of rider-service (\<^verbatim>\<open>internal/wallet/client.go\<close>): the \<^verbatim>\<open>Client\<close> interface as
  a record of operations over the state \<open>'v\<close> of the wallet's side, the HTTP client over any server,
  and the recording mock. The answer of a debit is decoded like bill-pay-service decodes it.
\<close>

section \<open>The interface\<close>

record 'v RiderWallet =
  DebitForSubscription :: "uuid \<Rightarrow> int \<Rightarrow> uuid \<Rightarrow> string \<Rightarrow> ('v, DebitResult) io"
  RefundSubscription :: "uuid \<Rightarrow> int \<Rightarrow> string \<Rightarrow> ('v, unit) io"

section \<open>HTTPClient\<close>

record RiderHTTP =
  rhBaseURL :: string
  rhInternalKey :: string

definition NewRiderHTTP :: "string \<Rightarrow> string \<Rightarrow> RiderHTTP" where
  "NewRiderHTTP baseURL internalKey =
     \<lparr>rhBaseURL = trim_right (CHR ''/'') (if baseURL = [] then ''http://wallet-service:8114'' else baseURL),
      rhInternalKey = internalKey\<rparr>"

definition rhttp_post :: "'p server \<Rightarrow> RiderHTTP \<Rightarrow> string \<Rightarrow> json \<Rightarrow> ('p, string \<times> json option) io" where
  "rhttp_post srv c path payload =
     http_exchange srv (''new request'', ''wallet call'', ''read wallet body'')
       (\<lambda>status txt. if status \<ge> 300
          then Some (Errorf (''wallet http '' @ show_nat status @ '': '' @ truncate_text txt 200)) else None)
       \<lparr>wrMethod = ''POST'', wrURL = rhBaseURL c @ path,
        wrHeaders = [(''Content-Type'', ''application/json''), (''Accept'', ''application/json'')] @
          (if rhInternalKey c = [] then [] else [(internalKeyHeader, rhInternalKey c)]),
        wrPayload = Some payload\<rparr>"

definition rider_debitRequest :: "uuid \<Rightarrow> int \<Rightarrow> uuid \<Rightarrow> string \<Rightarrow> json" where
  "rider_debitRequest u amountPaise paymentID key = JObject
     [(''user_id'', JStr (uuid_string u)), (''amount_paise'', JInt amountPaise),
      (''merchant_service'', JStr ''rider''), (''merchant_ref'', JStr (uuid_string paymentID)),
      (''idempotency_key'', JStr key)]"

definition rhttp_DebitForSubscription ::
  "'p server \<Rightarrow> RiderHTTP \<Rightarrow> uuid \<Rightarrow> int \<Rightarrow> uuid \<Rightarrow> string \<Rightarrow> ('p, DebitResult) io" where
  "rhttp_DebitForSubscription srv c u amountPaise paymentID key =
     require (u \<noteq> 0) (Errorf ''wallet: partner user id required'')
    (require (\<not> amountPaise \<le> 0) (Errorf ''wallet: amount must be positive'')
    (require (key \<noteq> []) (Errorf ''wallet: idempotency_key required'')
    (andThen (rhttp_post srv c ''/v1/wallet/internal/debit''
        (rider_debitRequest u amountPaise paymentID key)) (\<lambda>(txt, body).
     let unexpected = Errorf (''wallet: unexpected debit response: '' @ truncate_text txt 200);
         enveloped = (case Option.bind body unmarshal_debitEnvelope of
             Some (Some d) \<Rightarrow> ok d | _ \<Rightarrow> fail unexpected)
     in case Option.bind body unmarshal_DebitResult of
       Some direct \<Rightarrow> if drTransactionID direct \<noteq> 0 then ok direct else enveloped
     | None \<Rightarrow> enveloped))))"

definition rhttp_RefundSubscription ::
  "'p server \<Rightarrow> RiderHTTP \<Rightarrow> uuid \<Rightarrow> int \<Rightarrow> string \<Rightarrow> ('p, unit) io" where
  "rhttp_RefundSubscription srv c originalWalletTxnID amountPaise reason =
     require (originalWalletTxnID \<noteq> 0) (Errorf ''wallet: original wallet txn id required'')
    (require (\<not> amountPaise \<le> 0) (Errorf ''wallet: refund amount must be positive'')
    (andThen (rhttp_post srv c ''/v1/wallet/internal/refund'' (JObject
       [(''original_transaction_id'', JStr (uuid_string originalWalletTxnID)),
        (''amount_paise'', JInt amountPaise), (''reason'', JStr reason)])) (\<lambda>_. ok ())))"

definition rider_http :: "'p server \<Rightarrow> RiderHTTP \<Rightarrow> 'p RiderWallet" where
  "rider_http srv c = \<lparr>DebitForSubscription = rhttp_DebitForSubscription srv c,
     RefundSubscription = rhttp_RefundSubscription srv c\<rparr>"

section \<open>MockClient\<close>

record RiderMock =
  rmFailDebit :: bool
  rmFailRefund :: bool
  rmDebits :: "DebitCall list"
  rmRefunds :: "RefundCall list"
  rmDebitTxnID :: uuid

text \<open>\<open>i\<close> is the value of \<^verbatim>\<open>uuid.New()\<close>.\<close>

definition NewRiderMock :: "uuid \<Rightarrow> RiderMock" where
  "NewRiderMock i = \<lparr>rmFailDebit = False, rmFailRefund = False, rmDebits = [], rmRefunds = [], rmDebitTxnID = i\<rparr>"

definition rmock_DebitForSubscription :: "uuid \<Rightarrow> int \<Rightarrow> uuid \<Rightarrow> string \<Rightarrow> (RiderMock, DebitResult) io" where
  "rmock_DebitForSubscription u amountPaise paymentID key = (\<lambda>m.
     if rmFailDebit m
     then (Inl (Errorf ''wallet mock: simulated debit failure''), m\<lparr>rmFailDebit := False\<rparr>)
     else (Inr \<lparr>drTransactionID = rmDebitTxnID m, drStatus = ''succeeded'', drAmountPaise = amountPaise\<rparr>,
       m\<lparr>rmDebits := rmDebits m @ [\<lparr>dcUserID = u, dcAmountPaise = amountPaise, dcPaymentID = paymentID,
          dcIdempotencyKey = key\<rparr>]\<rparr>))"

definition rmock_RefundSubscription :: "uuid \<Rightarrow> int \<Rightarrow> string \<Rightarrow> (RiderMock, unit) io" where
  "rmock_RefundSubscription originalWalletTxnID amountPaise reason = (\<lambda>m.
     if rmFailRefund m
     then (Inl (Errorf ''wallet mock: simulated refund failure''), m\<lparr>rmFailRefund := False\<rparr>)
     else (Inr (), m\<lparr>rmRefunds := rmRefunds m @ [\<lparr>rcOriginalWalletTxnID = originalWalletTxnID,
          rcAmountPaise = amountPaise, rcReason = reason\<rparr>]\<rparr>))"

definition rider_mock :: "RiderMock RiderWallet" where
  "rider_mock = \<lparr>DebitForSubscription = rmock_DebitForSubscription, RefundSubscription = rmock_RefundSubscription\<rparr>"

lemmas rider_wallet_eval [go_eval] =
  rider_mock_def rmock_DebitForSubscription_def rmock_RefundSubscription_def NewRiderMock_def

end
