(* ===== verification/Rider_Digilocker.thy ===== *)
theory Rider_Digilocker
  imports Go_Http Go_Time Rider_Otp
begin

text \<open>
  The DigiLocker integration of rider-service (\<^verbatim>\<open>internal/digilocker/client.go\<close>): the assertion that
  leaves the package, the \<^verbatim>\<open>Client\<close> interface over the state \<open>'p\<close> of the partner's server, the mock
  and the HTTP client. The first argument of \<open>ExchangeCode\<close> is the value of \<^verbatim>\<open>time.Now()\<close>.
\<close>

section \<open>The interface\<close>

record Assertion =
  asReference :: string
  asDocumentType :: string
  asIssuedAt :: int

definition HashDocumentType :: "string \<Rightarrow> string" where
  "HashDocumentType docType = hex_string (sha256 (bytes_of docType))"

record 'p DigiLocker =
  ExchangeCode :: "int \<Rightarrow> string \<Rightarrow> string \<Rightarrow> ('p, Assertion) io"

section \<open>MockClient\<close>

definition dmock_ExchangeCode :: "int \<Rightarrow> string \<Rightarrow> string \<Rightarrow> ('p, Assertion) io" where
  "dmock_ExchangeCode now0 code0 state =
     require (code0 \<noteq> []) (Errorf ''invalid: code required'')
    (require (code0 \<noteq> ''fail'') (Errorf ''digilocker mock: simulated failure'')
    (ok \<lparr>asReference = ''mock-ref-'' @ code0, asDocumentType = ''AADHAAR-XML'', asIssuedAt = now0\<rparr>))"

definition digilocker_mock :: "'p DigiLocker" where
  "digilocker_mock = \<lparr>ExchangeCode = dmock_ExchangeCode\<rparr>"

section \<open>HTTPClient\<close>

record DigiHTTP =
  dhBaseURL :: string
  dhApiKey :: string
  dhSandbox :: bool

record partnerExchangeResponse =
  perReference :: string
  perDocumentType :: string
  perIssuedAt :: string

definition unmarshal_exchange :: "json \<Rightarrow> partnerExchangeResponse option" where
  "unmarshal_exchange j =
     Option.bind (json_field ''reference'' as_str [] j) (\<lambda>r.
     Option.bind (json_field ''document_type'' as_str [] j) (\<lambda>d.
     map_option (\<lambda>i. \<lparr>perReference = r, perDocumentType = d, perIssuedAt = i\<rparr>) (json_field ''issued_at'' as_str [] j)))"

text \<open>\<^verbatim>\<open>time.Parse(time.RFC3339, s)\<close>, in microseconds: a date, \<^verbatim>\<open>T\<close>, a time with an optional fraction of a
  second, and \<^verbatim>\<open>Z\<close> or an offset.\<close>

definition two_digits :: "string \<Rightarrow> int option" where
  "two_digits s = (if length s = 2 \<and> list_all is_digit s then Some (int (dec_value s)) else None)"

definition parse_clock :: "string \<Rightarrow> int option" where
  "parse_clock s = (case (two_digits (take 2 s), two_digits (take 2 (drop 3 s)), two_digits (take 2 (drop 6 s))) of
     (Some h, Some m, Some sec) \<Rightarrow>
       if length s = 8 \<and> s ! 2 = CHR '':'' \<and> s ! 5 = CHR '':'' \<and> h < 24 \<and> m < 60 \<and> sec < 60
       then Some (((h * 60 + m) * 60 + sec) * 1000000) else None
   | _ \<Rightarrow> None)"

definition parse_zone :: "string \<Rightarrow> int option" where
  "parse_zone s = (if s = ''Z'' then Some 0
     else (case (two_digits (take 2 (drop 1 s)), two_digits (take 2 (drop 4 s))) of
         (Some h, Some m) \<Rightarrow> if length s = 6 \<and> (hd s = CHR ''+'' \<or> hd s = CHR ''-'') \<and> s ! 3 = CHR '':'' \<and> h \<le> 24 \<and> m \<le> 60
            then Some ((if hd s = CHR ''-'' then - 1 else 1) * (h * 60 + m) * 60000000) else None
       | _ \<Rightarrow> None))"

definition fraction_us :: "string \<Rightarrow> int" where
  "fraction_us ds = int (dec_value (take 6 (ds @ ''000000'')))"

definition parseRFC3339 :: "string \<Rightarrow> int option" where
  "parseRFC3339 s =
     (let r = drop 19 s;
          frac = (if r \<noteq> [] \<and> (hd r = CHR ''.'' \<or> hd r = CHR '','') then takeWhile is_digit (tl r) else []);
          z = (if frac = [] then r else drop (Suc (length frac)) r)
      in case (parseDate (take 10 s), parse_clock (take 8 (drop 11 s)), parse_zone z) of
         (Some d, Some t, Some off) \<Rightarrow>
           if s ! 10 = CHR ''T'' then Some (d * day_us + t + fraction_us frac - off) else None
       | _ \<Rightarrow> None)"

definition dhttp_ExchangeCode :: "'p server \<Rightarrow> DigiHTTP \<Rightarrow> int \<Rightarrow> string \<Rightarrow> string \<Rightarrow> ('p, Assertion) io" where
  "dhttp_ExchangeCode srv h now0 code0 state =
     require (dhBaseURL h \<noteq> []) (Errorf ''digilocker: base_url not configured'')
    (require (code0 \<noteq> [] \<and> state \<noteq> []) (Errorf ''digilocker: code and state required'')
    (andThen (http_exchange srv (''digilocker: build request'', ''digilocker: partner unreachable'', ''digilocker: decode response'')
       (\<lambda>status txt. if status \<ge> 400 then Some (Errorf (''digilocker: partner returned status '' @ show_nat status)) else None)
       \<lparr>wrMethod = ''POST'', wrURL = dhBaseURL h @ ''/v1/aadhaar/exchange'',
        wrHeaders = [(''Content-Type'', ''application/json'')]
          @ (if dhApiKey h = [] then [] else [(''Authorization'', ''Bearer '' @ dhApiKey h)])
          @ (if dhSandbox h then [(''X-Setu-Mode'', ''sandbox'')] else []),
        wrPayload = Some (JObject [(''code'', JStr code0), (''state'', JStr state)])\<rparr>) (\<lambda>(txt, body).
     andThen (decode_body ''digilocker: decode response'' unmarshal_exchange body) (\<lambda>parsed.
     require (perReference parsed \<noteq> []) (Errorf ''digilocker: partner returned empty reference'')
       (ok \<lparr>asReference = perReference parsed,
          asDocumentType = (if perDocumentType parsed = [] then ''AADHAAR-XML'' else perDocumentType parsed),
          asIssuedAt = (if perIssuedAt parsed = [] then now0
            else (case parseRFC3339 (perIssuedAt parsed) of Some t \<Rightarrow> t | None \<Rightarrow> now0))\<rparr>)))))"

definition digilocker_http :: "'p server \<Rightarrow> DigiHTTP \<Rightarrow> 'p DigiLocker" where
  "digilocker_http srv h = \<lparr>ExchangeCode = dhttp_ExchangeCode srv h\<rparr>"

end
