(* ===== verification/Rider_Service.thy ===== *)
theory Rider_Service
  imports Rider_Fares Rider_Wallet Rider_Digilocker
begin

text \<open>
  The ride lifecycle of rider-service (\<^verbatim>\<open>internal/service/{ride,rides,offer,no_show,
  scheduled_worker,location,admin}.go\<close>), translated function by function. \<open>sv\<close> holds what the
  \<^verbatim>\<open>Service\<close> struct is wired with. Publishing on Kafka, on the realtime channel and to the
  outbox is best effort everywhere: an error is only logged.
\<close>

section \<open>The service struct\<close>

record 'r RedisClient =
  GeoSearchLocation :: "string \<Rightarrow> rat \<Rightarrow> rat \<Rightarrow> rat \<Rightarrow> ('r, (string \<times> rat) list) io" \<comment> \<open>key, longitude, latitude, radius\<close>
  GeoAdd :: "string \<Rightarrow> string \<Rightarrow> rat \<Rightarrow> rat \<Rightarrow> ('r, unit) io"
  ExpireKey :: "string \<Rightarrow> int \<Rightarrow> ('r, unit) io"
  ZRem :: "string \<Rightarrow> string \<Rightarrow> ('r, unit) io"
  RedisSet :: "string \<Rightarrow> string \<Rightarrow> int \<Rightarrow> ('r, unit) io" \<comment> \<open>key, value, time to live\<close>
  RedisGet :: "string \<Rightarrow> ('r, string) io"
  RedisDel :: "string \<Rightarrow> ('r, unit) io"

text \<open>\<open>'r\<close> is what Redis and the DigiLocker partner keep; \<open>rsvGetenv\<close> is \<^verbatim>\<open>os.Getenv\<close>.\<close>

record ('v, 'r) RiderService =
  rsvNum :: numeric
  rsvWallet :: "'v RiderWallet option"
  rsvRedis :: "'r RedisClient option"
  rsvDigiLocker :: "'r DigiLocker option"
  rsvConfig :: FareConfig
  rsvRealtime :: bool
  rsvOutbox :: bool
  rsvParseUUID :: "string \<Rightarrow> uuid option"
  rsvGetenv :: "string \<Rightarrow> string"

definition on_rider_wallet :: "('v, 'a) io \<Rightarrow> (('v, 'r) rider, 'a) io" where
  "on_rider_wallet m = (\<lambda>w. case m (rider_wallet w) of (r, v) \<Rightarrow> (r, w\<lparr>rider_wallet := v\<rparr>))"

definition on_redis :: "('r, 'a) io \<Rightarrow> (('v, 'r) rider, 'a) io" where
  "on_redis m = (\<lambda>w. case m (rider_redis w) of (r, v) \<Rightarrow> (r, w\<lparr>rider_redis := v\<rparr>))"

definition redis_Nil :: goerr where
  "redis_Nil = ErrVar ''Nil'' ''redis: nil''"

definition rider_publish :: "rider_event \<Rightarrow> (('v, 'r) rider, unit) io" where
  "rider_publish ev = logged (db_call (modify (\<lambda>w. w\<lparr>rider_events := rider_events w @ [ev]\<rparr>)))"

definition publishRealtime :: "('v, 'r) RiderService \<Rightarrow> string \<Rightarrow> string \<Rightarrow> frame_data \<Rightarrow> (('v, 'r) rider, unit) io" where
  "publishRealtime sv topic eventType data = (if \<not> rsvRealtime sv then ok ()
     else logged (db_call (modify (\<lambda>w. w\<lparr>rider_frames := rider_frames w @
       [\<lparr>fmTopic = topic, fmEventType = eventType, fmData = data\<rparr>]\<rparr>))))"

definition rider_emit :: "('v, 'r) RiderService \<Rightarrow> string \<Rightarrow> string \<Rightarrow> frame_data \<Rightarrow> (('v, 'r) rider, unit) io" where
  "rider_emit sv topic eventType data = andThen (publishRealtime sv topic eventType data) (\<lambda>_.
     if \<not> rsvOutbox sv then ok ()
     else logged (db_call (modify (\<lambda>w. w\<lparr>rider_outbox := rider_outbox w @
       [\<lparr>fmTopic = topic, fmEventType = eventType, fmData = data\<rparr>]\<rparr>))))"

definition ride_topic :: "uuid \<Rightarrow> string" where
  "ride_topic i = ''rider.ride.'' @ uuid_string i"

section \<open>The state machine\<close>

definition allowedRideTransitions :: "string \<Rightarrow> string list option" where
  "allowedRideTransitions = map_of
     [(''requested'', [''searching_partner'', ''cancelled_by_customer'', ''cancelled_by_admin'', ''expired'', ''failed'']),
      (''searching_partner'', [''partner_assigned'', ''cancelled_by_customer'', ''cancelled_by_admin'', ''expired'', ''failed'']),
      (''partner_assigned'', [''partner_arriving'', ''cancelled_by_customer'', ''cancelled_by_partner'', ''cancelled_by_admin'', ''failed'']),
      (''partner_arriving'', [''arrived'', ''cancelled_by_customer'', ''cancelled_by_partner'', ''cancelled_by_admin'', ''failed'']),
      (''arrived'', [''otp_verified'', ''cancelled_by_customer'', ''cancelled_by_partner'', ''cancelled_by_admin'', ''failed'']),
      (''otp_verified'', [''in_progress'', ''failed'']),
      (''in_progress'', [''completed'', ''cancelled_by_customer'', ''cancelled_by_partner'', ''cancelled_by_admin'', ''failed''])]"

definition validRideTransition :: "string \<Rightarrow> string \<Rightarrow> goerr option" where
  "validRideTransition old new =
     (if old = new then Some (Errorf (''invalid_transition: already in '' @ new))
      else case allowedRideTransitions old of
        None \<Rightarrow> Some (Errorf (''invalid_transition: '' @ old @ '' is terminal''))
      | Some allowed \<Rightarrow> if new \<in> set allowed then None
          else Some (Errorf (''invalid_transition: '' @ old @ '' -> '' @ new @ '' not allowed'')))"

definition ErrInvalidRideTransition :: goerr where
  "ErrInvalidRideTransition = ErrVar ''ErrInvalidRideTransition'' ''ride: invalid state transition''"

text \<open>The caller's copy of the ride is returned with its new status.\<close>

definition transitionRide ::
  "Ride \<Rightarrow> string \<Rightarrow> string \<Rightarrow> uuid option \<Rightarrow> string option \<Rightarrow> (('v, 'r) rider, Ride) io" where
  "transitionRide ride new actorKind actorUserID reason =
     (case validRideTransition (rdStatus ride) new of
        Some e \<Rightarrow> fail (Tag ErrInvalidRideTransition (err_msg e))
      | None \<Rightarrow> attempt (TransitionRide (rdID ride) (rdStatus ride) new) (\<lambda>r. case r of
          Inl e \<Rightarrow> fail (if errors_is e ErrInvalidTransition then ErrInvalidRideTransition else e)
        | Inr _ \<Rightarrow> andThen (logged (AppendStatusHistory (rdID ride) (Some (rdStatus ride)) new actorKind actorUserID reason))
            (\<lambda>_. ok (ride\<lparr>rdStatus := new\<rparr>))))"

section \<open>Looking things up\<close>

text \<open>\<^verbatim>\<open>if errors.Is(err, e) { return fmt.Errorf(msg) }; return err\<close>.\<close>

definition or_not_found :: "goerr \<Rightarrow> string \<Rightarrow> (('v, 'r) rider, 'a) io \<Rightarrow> (('v, 'r) rider, 'a) io" where
  "or_not_found e msg m = attempt m (\<lambda>r. case r of
     Inl x \<Rightarrow> fail (if errors_is x e then Errorf msg else x) | Inr y \<Rightarrow> ok y)"

definition find_ride :: "uuid \<Rightarrow> (('v, 'r) rider, Ride) io" where
  "find_ride i = or_not_found ErrRideNotFound ''not_found: ride'' (store_GetRide i)"

definition find_partner :: "uuid \<Rightarrow> (('v, 'r) rider, Partner) io" where
  "find_partner u = or_not_found ErrPartnerNotFound ''not_found: partner'' (GetPartnerByUserID u)"

definition loadRideForPartner :: "uuid \<Rightarrow> uuid \<Rightarrow> (('v, 'r) rider, Ride \<times> Partner) io" where
  "loadRideForPartner partnerUserID rideID =
     andThen (find_ride rideID) (\<lambda>ride.
     andThen (find_partner partnerUserID) (\<lambda>partner.
     require (rdPartnerID ride = Some (ptID partner)) (Errorf ''forbidden: ride not assigned to this partner'')
       (ok (ride, partner))))"

section \<open>Booking\<close>

record CreateRideRequest =
  crqPickupAddress :: string
  crqPickupLat :: rat
  crqPickupLng :: rat
  crqDropAddress :: string
  crqDropLat :: rat
  crqDropLng :: rat
  crqVehicleType :: string
  crqCityID :: "uuid option"
  crqPaymentMethod :: string
  crqIdempotencyKey :: string
  crqScheduledFor :: "int option"

definition CreateRideOperation :: string where
  "CreateRideOperation = ''ride_create''"

text \<open>The estimate is carried on the ride when there is one; its error is only logged.\<close>

definition ride_estimate ::
  "('v, 'r) RiderService \<Rightarrow> CreateRideRequest \<Rightarrow> (('v, 'r) rider, FareEstimateResult option) io" where
  "ride_estimate sv req = (case crqCityID req of
     None \<Rightarrow> ok None
   | Some c \<Rightarrow> attempt (EstimateFare (rsvConfig sv) \<lparr>feqPickupLat = crqPickupLat req, feqPickupLng = crqPickupLng req,
         feqDropLat = crqDropLat req, feqDropLng = crqDropLng req, feqVehicleType = crqVehicleType req,
         feqCityID = c, feqSurgeMultiplier = 0\<rparr>) (\<lambda>r. ok (case r of Inl e \<Rightarrow> None | Inr est \<Rightarrow> Some est)))"

definition ride_input :: "uuid \<Rightarrow> CreateRideRequest \<Rightarrow> FareEstimateResult option \<Rightarrow> CreateRideInput" where
  "ride_input customerID req est =
     \<lparr>criCustomerUserID = customerID, criCityID = crqCityID req, criVehicleType = crqVehicleType req,
      criPickupAddress = crqPickupAddress req, criPickupLat = crqPickupLat req, criPickupLng = crqPickupLng req,
      criDropAddress = crqDropAddress req, criDropLat = crqDropLat req, criDropLng = crqDropLng req,
      criEstimatedDistanceKM = map_option ferEstimatedDistanceKM est,
      criEstimatedDurationMin = map_option ferEstimatedDurationMin est,
      criEstimatedFare = map_option ferFareEstimateINR est,
      criPaymentMethod = Some (if crqPaymentMethod req = [] then ''cash'' else crqPaymentMethod req),
      criScheduledFor = crqScheduledFor req\<rparr>"

definition announce_ride :: "('v, 'r) RiderService \<Rightarrow> Ride \<Rightarrow> (('v, 'r) rider, unit) io" where
  "announce_ride sv ride =
     andThen (rider_publish (PublishRideRequested (rdID ride) (rdCustomerUserID ride) (rdVehicleType ride)
        (uuid_or_empty (rdCityID ride)))) (\<lambda>_.
     andThen (rider_emit sv (ride_topic (rdID ride)) ''rider.ride.requested'' (RideFrame ride)) (\<lambda>_.
     publishRealtime sv ''rider.admin.live_rides'' ''rider.ride.requested'' (RideFrame ride)))"

definition CreateRide :: "('v, 'r) RiderService \<Rightarrow> uuid \<Rightarrow> CreateRideRequest \<Rightarrow> (('v, 'r) rider, Ride) io" where
  "CreateRide sv customerID req =
     require (customerID \<noteq> 0) (Errorf ''invalid: customer id required'')
    (require (crqVehicleType req \<in> set allowedVehicleTypes) ErrBadVehicleType
    (require (validLatLng (crqPickupLat req) (crqPickupLng req) \<and> validLatLng (crqDropLat req) (crqDropLng req))
       ErrBadCoordinates
    (require (trim_space (crqPickupAddress req) \<noteq> [] \<and> trim_space (crqDropAddress req) \<noteq> [])
       (Errorf ''invalid: pickup_address and drop_address required'')
    (require (crqIdempotencyKey req \<noteq> []) (Errorf ''invalid: idempotency_key required'')
    (attempt (FindRideKey (crqIdempotencyKey req) customerID CreateRideOperation) (\<lambda>k.
     let fresh =
       andThen (ride_estimate sv req) (\<lambda>est.
       andThen (wrapErr ''create ride'' (store_CreateRide (rsvNum sv) (ride_input customerID req est))) (\<lambda>ride.
       andThen (if rdStatus ride = ''scheduled''
          then rider_emit sv (ride_topic (rdID ride)) ''rider.ride.scheduled'' (RideFrame ride)
          else announce_ride sv ride) (\<lambda>_.
       andThen (logged (RecordRideKey (crqIdempotencyKey req) customerID CreateRideOperation (Some (rdID ride)) (Some (RideBody ride))))
         (\<lambda>_. ok ride))))
     in case k of
       Inr rec \<Rightarrow> (case rkResourceID rec of Some i \<Rightarrow> store_GetRide i | None \<Rightarrow> fresh)
     | Inl e \<Rightarrow> if errors_is e ErrRideKeyNotFound then fresh else fail e))))))"

definition GetRide :: "uuid \<Rightarrow> uuid \<Rightarrow> (('v, 'r) rider, Ride) io" where
  "GetRide customerID rideID = andThen (find_ride rideID) (\<lambda>r.
     require (rdCustomerUserID r = customerID) (Errorf ''forbidden: ride does not belong to user'') (ok r))"

definition ListMyRides :: "uuid \<Rightarrow> int \<Rightarrow> (('v, 'r) rider, Ride list) io" where
  "ListMyRides customerID n0 = require (customerID \<noteq> 0) (Errorf ''invalid: customer id required'')
     (ListRidesByCustomer customerID n0)"

text \<open>One pass of the worker that puts scheduled rides on the market.\<close>

definition activatePass :: "('v, 'r) RiderService \<Rightarrow> (('v, 'r) rider, unit) io" where
  "activatePass sv = logged (andThen (ListScheduledRidesDue 25) (\<lambda>rs.
     for_each rs (\<lambda>ride _. logged (andThen (ActivateScheduledRide (rdID ride)) (\<lambda>_.
       andThen (store_GetRide (rdID ride)) (announce_ride sv)))) ()))"

section \<open>Matching\<close>

record MatchRideOptions =
  mroBatchSize :: int
  mroOfferTimer :: int
  mroInitialRadiusKM :: rat
  mroMaxRadiusKM :: rat
  mroGeohashPrecision :: int
  mroMaxCandidatesScan :: int

definition no_options :: MatchRideOptions where
  "no_options = \<lparr>mroBatchSize = 0, mroOfferTimer = 0, mroInitialRadiusKM = 0, mroMaxRadiusKM = 0,
     mroGeohashPrecision = 0, mroMaxCandidatesScan = 0\<rparr>"

definition option_defaults :: "MatchRideOptions \<Rightarrow> MatchRideOptions" where
  "option_defaults o0 =
     \<lparr>mroBatchSize = (if mroBatchSize o0 \<le> 0 then 5 else mroBatchSize o0),
      mroOfferTimer = (if mroOfferTimer o0 \<le> 0 then 15000000 else mroOfferTimer o0),
      mroInitialRadiusKM = (if mroInitialRadiusKM o0 \<le> 0 then 5 else mroInitialRadiusKM o0),
      mroMaxRadiusKM = (if mroMaxRadiusKM o0 \<le> 0 then 20 else mroMaxRadiusKM o0),
      mroGeohashPrecision = (if mroGeohashPrecision o0 \<le> 0 then 6 else mroGeohashPrecision o0),
      mroMaxCandidatesScan = (if mroMaxCandidatesScan o0 \<le> 0 then 50 else mroMaxCandidatesScan o0)\<rparr>"

definition redisOnlineKey :: "string \<Rightarrow> string" where
  "redisOnlineKey cityID = (if cityID = [] then ''rider:online'' else ''rider:online:'' @ cityID)"

lemma radius_halves:
  fixes radius maxKM :: rat
  assumes "0 < radius \<and> radius \<le> maxKM"
  shows "\<lfloor>maxKM / (radius * 2)\<rfloor> < \<lfloor>maxKM / radius\<rfloor>"
proof -
  define q where "q = maxKM / radius"
  have q: "1 \<le> q" using assms by (simp add: q_def)
  have "maxKM / (radius * 2) = q / 2" by (simp add: q_def)
  moreover have "\<lfloor>q / 2\<rfloor> < \<lfloor>q\<rfloor>"
  proof (cases "q < 2")
    case True
    with q have "\<lfloor>q / 2\<rfloor> = 0" "\<lfloor>q\<rfloor> = 1" by (simp_all add: floor_eq_iff)
    then show ?thesis by simp
  next
    case False
    then have "\<lfloor>q / 2\<rfloor> \<le> \<lfloor>q - 1\<rfloor>" by (intro floor_mono) simp
    then show ?thesis by simp
  qed
  ultimately show ?thesis by (simp add: q_def)
qed

text \<open>The expanding search. The radius doubles, exactly, until it passes the maximum.\<close>

function discoverLoop ::
  "'r RedisClient \<Rightarrow> string \<Rightarrow> rat \<Rightarrow> rat \<Rightarrow> rat \<Rightarrow> rat \<Rightarrow> (('v, 'r) rider, (string \<times> rat) list) io" where
  "discoverLoop rdb key lat lng radius maxKM =
     (if 0 < radius \<and> radius \<le> maxKM
      then attempt (on_redis (GeoSearchLocation rdb key lng lat radius)) (\<lambda>res. case res of
          Inl e \<Rightarrow> if errors_is e redis_Nil then discoverLoop rdb key lat lng (radius * 2) maxKM else ok []
        | Inr items \<Rightarrow> if items \<noteq> [] then ok items else discoverLoop rdb key lat lng (radius * 2) maxKM)
      else ok [])"
  by pat_completeness auto

termination
  by (relation "measure (\<lambda>(rdb, key, lat, lng, radius, maxKM). nat \<lfloor>maxKM / radius\<rfloor>)")
    (simp_all add: radius_halves)

declare discoverLoop.simps [simp del]

definition discoverFromRedis ::
  "('v, 'r) RiderService \<Rightarrow> string \<Rightarrow> rat \<Rightarrow> rat \<Rightarrow> rat \<Rightarrow> rat \<Rightarrow> (('v, 'r) rider, (string \<times> rat) list) io" where
  "discoverFromRedis sv cityID lat lng initialKM maxKM = (case rsvRedis sv of
     None \<Rightarrow> ok []
   | Some rdb \<Rightarrow> discoverLoop rdb (redisOnlineKey cityID) lat lng (if initialKM \<le> 0 then 5 else initialKM) maxKM)"

text \<open>The partners around the pickup with their distances, from Redis or from the durable mirror.\<close>

definition nearby_partners ::
  "('v, 'r) RiderService \<Rightarrow> Ride \<Rightarrow> MatchRideOptions \<Rightarrow> (('v, 'r) rider, (string \<times> rat) list) io" where
  "nearby_partners sv ride opts =
     andThen (discoverFromRedis sv (uuid_or_empty (rdCityID ride)) (rdPickupLat ride) (rdPickupLng ride)
        (mroInitialRadiusKM opts) (mroMaxRadiusKM opts)) (\<lambda>found.
     if found \<noteq> [] then ok found
     else
       let gh = geo_Encode (rdPickupLat ride) (rdPickupLng ride) (mroGeohashPrecision opts);
           neighbors = (if geo_Neighbors gh = [] then [gh] else geo_Neighbors gh)
       in andThen (wrapErr ''postgres geohash lookup'' (FindOnlinePartnersByGeohash neighbors (mroMaxCandidatesScan opts)))
            (\<lambda>locs. ok (map (\<lambda>l. (uuid_string (locPartnerID l),
               HaversineKM (fcLibm (rsvConfig sv)) (rdPickupLat ride) (rdPickupLng ride) (locLastLat l) (locLastLng l))) locs)))"

text \<open>In a map filled in order, the last entry of a key counts.\<close>

definition findNearbyCandidates ::
  "('v, 'r) RiderService \<Rightarrow> Ride \<Rightarrow> MatchRideOptions \<Rightarrow> (('v, 'r) rider, PartnerCandidate list) io" where
  "findNearbyCandidates sv ride opts =
     andThen (nearby_partners sv ride opts) (\<lambda>found.
     if found = [] then ok []
     else andThen (LoadMatcherCandidates (List.map_filter (\<lambda>(i, d). rsvParseUUID sv i) found)) (\<lambda>cands.
       ok (map (\<lambda>c. case map_of (rev found) (pcPartnerID c) of None \<Rightarrow> c | Some d \<Rightarrow> c\<lparr>pcDistanceKM := d\<rparr>) cands)))"

record MatchRideResult =
  mrsOffersCreated :: nat
  mrsBatchExpires :: "int option"
  mrsNoCandidates :: bool

text \<open>One offer of the batch; \<open>n\<close> counts those sent so far.\<close>

definition send_offer ::
  "('v, 'r) RiderService \<Rightarrow> uuid \<Rightarrow> int \<Rightarrow> ScoredCandidate \<Rightarrow> nat \<Rightarrow> (('v, 'r) rider, nat) io" where
  "send_offer sv rideID expires sc n = (case rsvParseUUID sv (pcPartnerID (scCandidate sc)) of
     None \<Rightarrow> ok n
   | Some pid \<Rightarrow> attempt (CreateRideOffer (rsvNum sv) \<lparr>coiRideID = rideID, coiPartnerID = pid, coiScore = scScore sc,
         coiDistanceKM = Some (pcDistanceKM (scCandidate sc)), coiExpiresAt = expires\<rparr>) (\<lambda>r. case r of
       Inl e \<Rightarrow> ok n
     | Inr offer \<Rightarrow>
         andThen (rider_publish (PublishRideOffered rideID (ofID offer) pid (scScore sc) expires)) (\<lambda>_.
         andThen (rider_emit sv (''rider.partner.'' @ uuid_string pid @ ''.offers'') ''rider.ride.offered'' (OfferFrame offer)) (\<lambda>_.
         ok (Suc n)))))"

definition MatchRide :: "('v, 'r) RiderService \<Rightarrow> uuid \<Rightarrow> MatchRideOptions \<Rightarrow> (('v, 'r) rider, MatchRideResult) io" where
  "MatchRide sv rideID opts0 =
     (let opts = option_defaults opts0 in
      andThen (find_ride rideID) (\<lambda>ride.
      andThen (if rdStatus ride = ''requested'' then transitionRide ride ''searching_partner'' ''system'' None None
         else if rdStatus ride \<noteq> ''searching_partner''
           then fail (Errorf (''invalid: ride is in '' @ rdStatus ride @ ''; matcher only runs in requested/searching_partner''))
         else ok ride) (\<lambda>ride.
      andThen (wrapErr ''find candidates'' (findNearbyCandidates sv ride opts)) (\<lambda>candidates.
      let kept = fst (FilterCandidates \<lparr>rrqVehicleType = rdVehicleType ride, rrqCityID = uuid_or_empty (rdCityID ride)\<rparr> candidates)
      in if kept = [] then ok \<lparr>mrsOffersCreated = 0, mrsBatchExpires = None, mrsNoCandidates = True\<rparr>
         else andThen (get clock) (\<lambda>now0.
           let batch = BatchOffer (Rank kept) (mroBatchSize opts) (mroOfferTimer opts) now0 in
           andThen (for_each (orSelected batch) (send_offer sv rideID (orExpiresAt batch)) 0) (\<lambda>n.
           ok \<lparr>mrsOffersCreated = n, mrsBatchExpires = Some (orExpiresAt batch), mrsNoCandidates = False\<rparr>))))))"

section \<open>Offers\<close>

record AcceptOfferResult =
  aorRideID :: uuid
  aorPartnerID :: uuid
  aorOTP :: string
  aorOTPExpiry :: int

definition approved_vehicle :: "Vehicle list \<Rightarrow> uuid" where
  "approved_vehicle vs = (case find (\<lambda>v. vhStatus v = ''approved'' \<and> vhIsActive v) vs of None \<Rightarrow> 0 | Some v \<Rightarrow> vhID v)"

text \<open>What follows the acceptance: the vehicle, the code, the ride.\<close>

definition announce_assignment ::
  "('v, 'r) RiderService \<Rightarrow> Partner \<Rightarrow> uuid \<Rightarrow> uuid \<Rightarrow> Ride \<Rightarrow> (('v, 'r) rider, unit) io" where
  "announce_assignment sv partner vehicleID offerID ride =
     andThen (logged (IncrementSubscriptionLeadsUsed (ptID partner))) (\<lambda>_.
     andThen (rider_publish (PublishRideAssigned (rdID ride) (rdCustomerUserID ride) (ptID partner) vehicleID offerID)) (\<lambda>_.
     andThen (rider_emit sv (ride_topic (rdID ride)) ''rider.ride.assigned'' (RideFrame ride)) (\<lambda>_.
     publishRealtime sv ''rider.admin.live_rides'' ''rider.ride.assigned'' (RideFrame ride))))"

definition assign_ride ::
  "('v, 'r) RiderService \<Rightarrow> Partner \<Rightarrow> uuid \<Rightarrow> RideOffer \<Rightarrow> uuid \<Rightarrow> (('v, 'r) rider, AcceptOfferResult) io" where
  "assign_ride sv partner offerID updated vehicleID =
     andThen (wrapErr ''generate otp'' generateOTPAndHash) (\<lambda>(otpPlain, otpHash).
     andThen (get clock) (\<lambda>now0.
     let otpExpiry = now0 + 30 * 60000000 in
     andThen (wrapErr ''assign partner'' (AssignRidePartner (ofRideID updated) (ptID partner) vehicleID otpHash otpExpiry)) (\<lambda>_.
     andThen (store_GetRide (ofRideID updated)) (\<lambda>ride.
     andThen (transitionRide ride ''partner_assigned'' ''partner'' (Some (ptUserID partner)) None) (\<lambda>ride.
     andThen (announce_assignment sv partner vehicleID offerID ride) (\<lambda>_.
     ok \<lparr>aorRideID = rdID ride, aorPartnerID = ptID partner, aorOTP = otpPlain, aorOTPExpiry = otpExpiry\<rparr>))))))"

definition decide_offer :: "uuid \<Rightarrow> uuid \<Rightarrow> (('v, 'r) rider, RideOffer) io" where
  "decide_offer offerID partnerID = attempt (AcceptOfferTx offerID partnerID) (\<lambda>r. case r of
     Inl e \<Rightarrow> fail (if errors_is e ErrOfferAlreadyDecided then Errorf ''conflict: offer already decided''
       else if errors_is e ErrOfferNotFound then Errorf ''not_found: offer'' else e)
   | Inr o0 \<Rightarrow> ok o0)"

definition AcceptOffer :: "('v, 'r) RiderService \<Rightarrow> uuid \<Rightarrow> uuid \<Rightarrow> (('v, 'r) rider, AcceptOfferResult) io" where
  "AcceptOffer sv partnerUserID offerID =
     require (partnerUserID \<noteq> 0 \<and> offerID \<noteq> 0) (Errorf ''invalid: partner user id and offer id required'')
    (andThen (find_partner partnerUserID) (\<lambda>partner.
     andThen (decide_offer offerID (ptID partner)) (\<lambda>updated.
     andThen (wrapErr ''list vehicles'' (ListVehiclesByPartner (ptID partner))) (\<lambda>vehicles.
     require (approved_vehicle vehicles \<noteq> 0) (Errorf ''invalid: partner has no approved vehicle'')
       (assign_ride sv partner offerID updated (approved_vehicle vehicles))))))"

definition ListIncomingOffers :: "uuid \<Rightarrow> (('v, 'r) rider, RideOffer list) io" where
  "ListIncomingOffers partnerUserID =
     require (partnerUserID \<noteq> 0) (Errorf ''invalid: partner user id required'')
    (andThen (find_partner partnerUserID) (\<lambda>partner. ListPendingOffersForPartner (ptID partner)))"

definition RejectOffer :: "('v, 'r) RiderService \<Rightarrow> uuid \<Rightarrow> uuid \<Rightarrow> string \<Rightarrow> (('v, 'r) rider, unit) io" where
  "RejectOffer sv partnerUserID offerID reason =
     andThen (find_partner partnerUserID) (\<lambda>partner.
     andThen (or_not_found ErrOfferNotFound ''not_found: offer'' (store_GetOffer offerID)) (\<lambda>offer.
     require (ofPartnerID offer = ptID partner) (Errorf ''forbidden: offer not addressed to this partner'')
    (andThen (attempt (store_RejectOffer offerID (ptID partner) reason) (\<lambda>r. case r of
        Inl e \<Rightarrow> fail (if errors_is e ErrOfferAlreadyDecided then Errorf ''conflict: offer already decided'' else e)
      | Inr _ \<Rightarrow> ok ())) (\<lambda>_.
     andThen (rider_publish (PublishRideOfferRejected (ofRideID offer) offerID (ptID partner) reason)) (\<lambda>_.
     attempt (CountOffersForRide (ofRideID offer)) (\<lambda>counts. case counts of
       Inl e \<Rightarrow> ok ()
     | Inr f \<Rightarrow> if f ''sent'' = 0 then logged (MatchRide sv (ofRideID offer) no_options) else ok ()))))))"

definition ExpireStaleOffers :: "(('v, 'r) rider, nat) io" where
  "ExpireStaleOffers = wrapErr ''expire stale offers'' store_ExpireStaleOffers"

definition ExpireStaleRides :: "int \<Rightarrow> (('v, 'r) rider, nat) io" where
  "ExpireStaleRides olderThan =
     andThen (ListStaleRides (if olderThan \<le> 0 then 300000000 else olderThan)) (\<lambda>rs.
     for_each rs (\<lambda>r n. attempt (transitionRide r ''expired'' ''system'' None (Some ''stale_no_match'')) (\<lambda>x. case x of
       Inl e \<Rightarrow> ok n
     | Inr _ \<Rightarrow> andThen (rider_publish (PublishRideExpired (rdID r))) (\<lambda>_. ok (Suc n)))) 0)"

definition TransitionRideForJob :: "uuid \<Rightarrow> string \<Rightarrow> string \<Rightarrow> (('v, 'r) rider, unit) io" where
  "TransitionRideForJob rideID target reason =
     andThen (find_ride rideID) (\<lambda>ride.
     andThen (transitionRide ride target ''system'' None (if reason = [] then None else Some reason)) (\<lambda>_. ok ()))"

section \<open>On the way\<close>

definition MarkArriving :: "('v, 'r) RiderService \<Rightarrow> uuid \<Rightarrow> uuid \<Rightarrow> (('v, 'r) rider, unit) io" where
  "MarkArriving sv partnerUserID rideID =
     andThen (loadRideForPartner partnerUserID rideID) (\<lambda>(ride, partner).
     andThen (wrapErr ''set arriving'' (SetArrivingAt rideID)) (\<lambda>_.
     andThen (transitionRide ride ''partner_arriving'' ''partner'' (Some (ptUserID partner)) None) (\<lambda>ride.
     andThen (rider_publish (PublishRideArriving rideID (rdCustomerUserID ride) (ptID partner))) (\<lambda>_.
     publishRealtime sv (ride_topic rideID) ''rider.ride.arriving'' (RideFrame ride)))))"

definition MarkArrived :: "('v, 'r) RiderService \<Rightarrow> uuid \<Rightarrow> uuid \<Rightarrow> (('v, 'r) rider, unit) io" where
  "MarkArrived sv partnerUserID rideID =
     andThen (loadRideForPartner partnerUserID rideID) (\<lambda>(ride, partner).
     andThen (wrapErr ''set arrived'' (SetArrivedAt rideID)) (\<lambda>_.
     andThen (transitionRide ride ''arrived'' ''partner'' (Some (ptUserID partner)) None) (\<lambda>ride.
     andThen (rider_publish (PublishRideArrived rideID (rdCustomerUserID ride) (ptID partner))) (\<lambda>_.
     publishRealtime sv (ride_topic rideID) ''rider.ride.arrived'' (RideFrame ride)))))"

text \<open>The check of the code, before anything is written.\<close>

definition check_otp :: "string option \<Rightarrow> int option \<Rightarrow> int \<Rightarrow> string \<Rightarrow> goerr option" where
  "check_otp otpHash otpExpiry now0 otpPlain = (case otpHash of
     None \<Rightarrow> Some (Errorf ''invalid: ride has no OTP set'')
   | Some h \<Rightarrow>
       if h = [] then Some (Errorf ''invalid: ride has no OTP set'')
       else if (case otpExpiry of None \<Rightarrow> False | Some t \<Rightarrow> t < now0) then Some (Errorf ''forbidden: otp expired'')
       else (case CompareHashAndPassword h (trim_space otpPlain) of
         None \<Rightarrow> None
       | Some e \<Rightarrow> if errors_is e ErrMismatchedHashAndPassword then Some (Errorf ''forbidden: otp mismatch'')
           else Some (Wrap ''verify otp'' e)))"

text \<open>The two transitions of a ride whose code was right.\<close>

definition start_verified :: "('v, 'r) RiderService \<Rightarrow> uuid \<Rightarrow> Ride \<Rightarrow> Partner \<Rightarrow> (('v, 'r) rider, unit) io" where
  "start_verified sv rideID ride partner =
     andThen (transitionRide ride ''otp_verified'' ''partner'' (Some (ptUserID partner)) None) (\<lambda>ride.
     andThen (wrapErr ''set started'' (SetStartedAt rideID)) (\<lambda>_.
     andThen (transitionRide ride ''in_progress'' ''partner'' (Some (ptUserID partner)) None) (\<lambda>ride.
     andThen (rider_publish (PublishRideStarted rideID (rdCustomerUserID ride) (ptID partner))) (\<lambda>_.
     publishRealtime sv (ride_topic rideID) ''rider.ride.started'' (RideFrame ride)))))"

definition StartRide :: "('v, 'r) RiderService \<Rightarrow> uuid \<Rightarrow> uuid \<Rightarrow> string \<Rightarrow> (('v, 'r) rider, unit) io" where
  "StartRide sv partnerUserID rideID otpPlain =
     require (trim_space otpPlain \<noteq> []) (Errorf ''invalid: otp required'')
    (andThen (loadRideForPartner partnerUserID rideID) (\<lambda>(ride, partner).
     andThen (GetRideWithOTP rideID) (\<lambda>(_, otpHash, otpExpiry).
     andThen (get clock) (\<lambda>now0.
     case check_otp otpHash otpExpiry now0 otpPlain of
       Some e \<Rightarrow> fail e
     | None \<Rightarrow> start_verified sv rideID ride partner))))"

section \<open>Completion\<close>

record CompleteRideRequest =
  cprFinalDistanceKM :: rat
  cprFinalDurationMin :: int
  cprIdempotencyKey :: string

definition complete_input :: "uuid \<Rightarrow> Ride \<Rightarrow> FareRule \<Rightarrow> CompleteRideRequest \<Rightarrow> CompleteRideInput" where
  "complete_input rideID ride rule req =
     (let inr = final_fare_inr rule (cprFinalDistanceKM req) (cprFinalDurationMin req)
      in \<lparr>cpiRideID = rideID, cpiFinalDistanceKM = cprFinalDistanceKM req,
          cpiFinalDurationMin = cprFinalDurationMin req, cpiFinalFareINR = inr, cpiFinalFarePaise = to_paise inr,
          cpiFlaggedForReview = over_estimate (rdEstimatedFare ride) inr\<rparr>)"

definition ride_method :: "Ride \<Rightarrow> string" where
  "ride_method ride = (case rdPaymentMethod ride of None \<Rightarrow> ''cash'' | Some p \<Rightarrow> if p = [] then ''cash'' else p)"

text \<open>The switch on the method. When the debit fails the row is marked failed, but the caller's
  copy of the payment stays as it was.\<close>

definition settle_ride ::
  "('v, 'r) RiderService \<Rightarrow> string \<Rightarrow> uuid \<Rightarrow> int \<Rightarrow> RidePayment \<Rightarrow> (('v, 'r) rider, RidePayment) io" where
  "settle_ride sv method0 customerID finalPaise pay =
     (if method0 = ''cash'' then MarkRidePaymentSucceeded (rpyID pay) None None
      else if method0 = ''wallet'' then (case rsvWallet sv of
          None \<Rightarrow> ok pay
        | Some wc \<Rightarrow> if finalPaise > 0
            then attempt (on_rider_wallet (DebitForSubscription wc customerID finalPaise (rpyID pay)
                (''ride-complete-'' @ uuid_string (rpyID pay)))) (\<lambda>d. case d of
              Inl e \<Rightarrow> andThen (logged (MarkRidePaymentFailed (rpyID pay))) (\<lambda>_. ok pay)
            | Inr debit \<Rightarrow> MarkRidePaymentSucceeded (rpyID pay) (Some (drTransactionID debit)) None)
            else ok pay)
      else ok pay)"

text \<open>What follows the transition to \<^verbatim>\<open>completed\<close>.\<close>

definition bill_ride ::
  "('v, 'r) RiderService \<Rightarrow> uuid \<Rightarrow> CompleteRideRequest \<Rightarrow> CompleteRideInput \<Rightarrow> uuid \<Rightarrow> Ride \<Rightarrow> Partner \<Rightarrow>
   (('v, 'r) rider, RidePayment) io" where
  "bill_ride sv partnerUserID req i rideID ride partner =
     andThen (wrapErr ''create payment'' (CreateRidePayment \<lparr>cpyRideID = rideID, cpyPartnerID = ptID partner,
        cpyAmountPaise = cpiFinalFarePaise i, cpyPaymentMethod = ride_method ride, cpyStatus = ''pending''\<rparr>)) (\<lambda>pay.
     andThen (settle_ride sv (ride_method ride) (rdCustomerUserID ride) (cpiFinalFarePaise i) pay) (\<lambda>pay.
     andThen (logged (IncrementPartnerCompleted (ptID partner))) (\<lambda>_.
     andThen (get clock) (\<lambda>now0.
     andThen (rider_publish (PublishRideCompleted rideID (ptID partner) (cprFinalDistanceKM req)
        (cprFinalDurationMin req) (cpiFinalFarePaise i) (ride_method ride) (rpyStatus pay)
        (cpiFlaggedForReview i) now0)) (\<lambda>_.
     andThen (logged (RecordRideKey (cprIdempotencyKey req) partnerUserID ''ride_complete'' (Some (rpyID pay)) None)) (\<lambda>_.
     ok pay))))))"

definition complete_fresh ::
  "('v, 'r) RiderService \<Rightarrow> uuid \<Rightarrow> uuid \<Rightarrow> CompleteRideRequest \<Rightarrow> (('v, 'r) rider, RidePayment) io" where
  "complete_fresh sv partnerUserID rideID req =
     andThen (loadRideForPartner partnerUserID rideID) (\<lambda>(ride, partner).
     case rdCityID ride of
       None \<Rightarrow> fail (Errorf ''invalid: ride has no city for fare lookup'')
     | Some city \<Rightarrow>
         andThen (wrapErr ''fare rule lookup'' (GetFareRule city (rdVehicleType ride))) (\<lambda>rule.
         let i = complete_input rideID ride rule req in
         andThen (wrapErr ''finalize ride'' (FinalizeRide (rsvNum sv) i)) (\<lambda>_.
         andThen (transitionRide ride ''completed'' ''partner'' (Some (ptUserID partner)) None) (\<lambda>ride.
         bill_ride sv partnerUserID req i rideID ride partner))))"

definition CompleteRide ::
  "('v, 'r) RiderService \<Rightarrow> uuid \<Rightarrow> uuid \<Rightarrow> CompleteRideRequest \<Rightarrow> (('v, 'r) rider, RidePayment) io" where
  "CompleteRide sv partnerUserID rideID req =
     require (cprIdempotencyKey req \<noteq> []) (Errorf ''invalid: idempotency_key required'')
    (require (\<not> (cprFinalDistanceKM req < 0 \<or> cprFinalDurationMin req < 0))
       (Errorf ''invalid: final telemetry must be non-negative'')
    (attempt (FindRideKey (cprIdempotencyKey req) partnerUserID ''ride_complete'') (\<lambda>k. case k of
       Inr rec \<Rightarrow> (case rkResourceID rec of Some i \<Rightarrow> GetRidePayment i | None \<Rightarrow> complete_fresh sv partnerUserID rideID req)
     | Inl e \<Rightarrow> if errors_is e ErrRideKeyNotFound then complete_fresh sv partnerUserID rideID req else fail e)))"

section \<open>Cancellation\<close>

record CancelRideRequest =
  cnrReason :: string
  cnrIdempotencyKey :: string

definition may_cancel :: "Ride \<Rightarrow> uuid \<Rightarrow> string \<Rightarrow> (('v, 'r) rider, unit) io" where
  "may_cancel ride actorUserID by0 =
     (if by0 = ''customer'' then require (rdCustomerUserID ride = actorUserID)
        (Errorf ''forbidden: ride does not belong to user'') (ok ())
      else if by0 = ''partner'' then
        require (rdPartnerID ride \<noteq> None) (Errorf ''forbidden: ride has no partner assigned'')
        (attempt (GetPartnerByUserID actorUserID) (\<lambda>r. case r of
           Inl e \<Rightarrow> fail (Errorf ''not_found: partner'')
         | Inr partner \<Rightarrow> require (rdPartnerID ride = Some (ptID partner))
             (Errorf ''forbidden: ride not assigned to this partner'') (ok ())))
      else ok ())"

text \<open>A customer who has to pay a fee has it debited; an error is only logged.\<close>

definition charge_fee ::
  "('v, 'r) RiderService \<Rightarrow> Ride \<Rightarrow> uuid \<Rightarrow> uuid \<Rightarrow> string \<Rightarrow> int \<Rightarrow> string \<Rightarrow> (('v, 'r) rider, unit) io" where
  "charge_fee sv ride actorUserID rideID by0 feePaise key = (case rsvWallet sv of
     Some wc \<Rightarrow> if by0 = ''customer'' \<and> feePaise > 0 \<and> rdPartnerID ride \<noteq> None
       then logged (on_rider_wallet (DebitForSubscription wc actorUserID feePaise rideID
         (if key = [] then ''ride-cancel-'' @ uuid_string rideID else key)))
       else ok ()
   | None \<Rightarrow> ok ())"

definition cancel_target :: "string \<Rightarrow> string" where
  "cancel_target by0 = (if by0 = ''system'' then ''expired'' else ''cancelled_by_'' @ by0)"

text \<open>What follows the transition.\<close>

definition book_cancellation ::
  "('v, 'r) RiderService \<Rightarrow> uuid \<Rightarrow> uuid \<Rightarrow> string \<Rightarrow> CancelRideRequest \<Rightarrow> int \<Rightarrow> Ride \<Rightarrow> (('v, 'r) rider, Ride) io" where
  "book_cancellation sv actorUserID rideID by0 req feePaise ride =
     andThen (MarkRideCancelled \<lparr>cniRideID = rideID, cniCancellationFeePaise = feePaise,
        cniReason = cnrReason req, cniCancelledByKind = by0\<rparr>) (\<lambda>_.
     andThen (case rdPartnerID ride of
          Some p \<Rightarrow> if by0 = ''partner'' then logged (IncrementPartnerCancelled p) else ok ()
        | None \<Rightarrow> ok ()) (\<lambda>_.
     andThen (charge_fee sv ride actorUserID rideID by0 feePaise (cnrIdempotencyKey req)) (\<lambda>_.
     andThen (get clock) (\<lambda>now0.
     andThen (rider_publish (PublishRideCancelled rideID by0
        (uuid_or_empty (if actorUserID \<noteq> 0 then Some actorUserID else None)) (cnrReason req) feePaise now0)) (\<lambda>_.
     ok ride)))))"

definition CancelRide ::
  "('v, 'r) RiderService \<Rightarrow> uuid \<Rightarrow> uuid \<Rightarrow> string \<Rightarrow> CancelRideRequest \<Rightarrow> (('v, 'r) rider, Ride) io" where
  "CancelRide sv actorUserID rideID by0 req =
     require (by0 \<in> {''customer'', ''partner'', ''admin'', ''system''})
       (Errorf ''invalid: by must be customer | partner | admin | system'')
    (andThen (find_ride rideID) (\<lambda>ride.
     andThen (may_cancel ride actorUserID by0) (\<lambda>_.
     andThen (transitionRide ride (cancel_target by0) by0 (if actorUserID \<noteq> 0 then Some actorUserID else None)
        (if cnrReason req = [] then None else Some (cnrReason req))) (\<lambda>ride'.
     book_cancellation sv actorUserID rideID by0 req (computeCancellationFeePaise ride) ride'))))"

definition AdminCancelRide :: "('v, 'r) RiderService \<Rightarrow> uuid \<Rightarrow> uuid \<Rightarrow> string \<Rightarrow> (('v, 'r) rider, Ride) io" where
  "AdminCancelRide sv rideID adminID reason =
     require (trim_space reason \<noteq> []) (Errorf ''invalid: reason required'')
    (andThen (CancelRide sv adminID rideID ''admin'' \<lparr>cnrReason = trim_space reason, cnrIdempotencyKey = []\<rparr>) (\<lambda>out.
     andThen (rider_publish (PublishAdminAction adminID ''ride.cancel'' ''ride'' rideID (trim_space reason))) (\<lambda>_. ok out)))"

definition MarkRideNoShow :: "('v, 'r) RiderService \<Rightarrow> uuid \<Rightarrow> uuid \<Rightarrow> string \<Rightarrow> (('v, 'r) rider, unit) io" where
  "MarkRideNoShow sv partnerUserID rideID reason =
     andThen (find_partner partnerUserID) (\<lambda>partner.
     andThen (store_MarkRideNoShow rideID (ptID partner) reason) (\<lambda>_.
     andThen (get clock) (\<lambda>now0.
     andThen (rider_publish (PublishRideCancelled rideID ''partner'' (uuid_string (ptID partner)) ''customer_no_show'' 0 now0)) (\<lambda>_.
     publishRealtime sv (ride_topic rideID) ''rider.ride.no_show'' (NoShowFrame rideID (ptID partner) reason)))))"

section \<open>Rating and sharing\<close>

record RateRideRequest =
  rrrRating :: int
  rrrComment :: string

definition RateRide :: "uuid \<Rightarrow> uuid \<Rightarrow> RateRideRequest \<Rightarrow> (('v, 'r) rider, unit) io" where
  "RateRide customerID rideID req =
     require (\<not> (rrrRating req < 1 \<or> rrrRating req > 5)) (Errorf ''invalid: rating must be 1..5'')
    (andThen (find_ride rideID) (\<lambda>ride.
     require (rdCustomerUserID ride = customerID) (Errorf ''forbidden: ride does not belong to user'')
    (require (rdStatus ride = ''completed'') (Errorf ''invalid: only completed rides can be rated'')
    (let c = trim_space (rrrComment req) in
     andThen (wrapErr ''set rating'' (SetRating rideID (rrrRating req) (if c = [] then None else Some c))) (\<lambda>_.
     case rdPartnerID ride of
       None \<Rightarrow> ok ()
     | Some p \<Rightarrow> andThen (logged (UpdatePartnerRating p)) (\<lambda>_. rider_publish (PublishRideRated rideID p (rrrRating req))))))))"

text \<open>Moderation of a rating by the console, and the partner's reply to it (\<^verbatim>\<open>rating_mod.go\<close>).\<close>

definition AdminHideRideRating :: "uuid \<Rightarrow> uuid \<Rightarrow> string \<Rightarrow> (('v, 'r) rider, unit) io" where
  "AdminHideRideRating adminID rideID visibility = HideRideRating adminID rideID visibility"

definition PartnerRespondToRating :: "uuid \<Rightarrow> uuid \<Rightarrow> string \<Rightarrow> (('v, 'r) rider, unit) io" where
  "PartnerRespondToRating partnerUserID rideID response =
     require (\<not> length response > 1000) (Errorf ''invalid: response longer than 1000 chars'')
    (require (response \<noteq> []) (Errorf ''invalid: response required'')
    (andThen (find_partner partnerUserID) (\<lambda>partner. AddPartnerResponse (ptID partner) rideID response)))"

record ShareRideResult =
  shrToken :: string
  shrURL :: string

text \<open>\<^verbatim>\<open>hexEncode\<close>.\<close>

definition ShareRide :: "uuid \<Rightarrow> uuid \<Rightarrow> string \<Rightarrow> (('v, 'r) rider, ShareRideResult) io" where
  "ShareRide customerID rideID baseURL =
     andThen (find_ride rideID) (\<lambda>ride.
     require (rdCustomerUserID ride = customerID) (Errorf ''forbidden: ride does not belong to user'')
    (andThen (wrapErr ''generate token'' (rand_Read 16)) (\<lambda>tokenBytes.
     andThen (wrapErr ''set share token'' (SetShareToken rideID (hex_string tokenBytes))) (\<lambda>stored.
     ok \<lparr>shrToken = stored, shrURL = (if baseURL \<noteq> [] then trim_right (CHR ''/'') baseURL @ ''/share/'' @ stored
       else stored)\<rparr>))))"

section \<open>Where the partners are\<close>

record UpdateLocationRequest =
  ulrLat :: rat
  ulrLng :: rat
  ulrSpeed :: "rat option"
  ulrHeading :: "rat option"

definition UpdateLocation :: "('v, 'r) RiderService \<Rightarrow> uuid \<Rightarrow> UpdateLocationRequest \<Rightarrow> (('v, 'r) rider, unit) io" where
  "UpdateLocation sv partnerUserID req =
     require (validLatLng (ulrLat req) (ulrLng req)) (Errorf ''invalid: lat/lng out of range'')
    (andThen (find_partner partnerUserID) (\<lambda>partner.
     andThen (wrapErr ''upsert location'' (UpsertPartnerLocation (rsvNum sv)
        \<lparr>upiPartnerID = ptID partner, upiLastLat = ulrLat req, upiLastLng = ulrLng req,
         upiLastGeohash = geo_Encode (ulrLat req) (ulrLng req) 6, upiLastSpeedMPS = ulrSpeed req,
         upiLastHeading = ulrHeading req, upiIsOnline = ptIsOnline partner\<rparr>)) (\<lambda>_.
     case rsvRedis sv of
       Some rdb \<Rightarrow> if ptIsOnline partner
         then let key = redisOnlineKey (uuid_or_empty (ptCityID partner)) in
           attempt (on_redis (GeoAdd rdb key (uuid_string (ptID partner)) (ulrLng req) (ulrLat req))) (\<lambda>r. case r of
             Inl e \<Rightarrow> ok ()
           | Inr _ \<Rightarrow> logged (on_redis (ExpireKey rdb key 240000000)))
         else ok ()
     | None \<Rightarrow> ok ())))"

definition GoOffline :: "('v, 'r) RiderService \<Rightarrow> uuid \<Rightarrow> (('v, 'r) rider, unit) io" where
  "GoOffline sv partnerUserID =
     andThen (find_partner partnerUserID) (\<lambda>partner.
     andThen (wrapErr ''set offline'' (SetPartnerOnlineFlag (ptID partner) False)) (\<lambda>_.
     andThen (case (rsvRedis sv, ptCityID partner) of
          (Some rdb, Some city) \<Rightarrow>
            andThen (logged (on_redis (ZRem rdb (redisOnlineKey (uuid_string city)) (uuid_string (ptID partner))))) (\<lambda>_.
            logged (on_redis (ZRem rdb ''rider:online'' (uuid_string (ptID partner)))))
        | _ \<Rightarrow> ok ()) (\<lambda>_.
     rider_publish (PublishPartnerOffline (ptID partner)))))"

end
