(* ===== verification/Rider_Plans.thy ===== *)
theory Rider_Plans
  imports Rider_Tables Go_Time
begin

text \<open>
  The store methods of rider-service on plans, subscriptions and their payments, on the reminders that
  were sent and on the runs of background jobs
  (\<^verbatim>\<open>internal/store/{subscriptions,subscription_jobs,reminders,cron_runs}.go\<close>), with the look-up of a
  partner by id. Durations are microseconds; days and time zones are those of a session in UTC.
\<close>

section \<open>Errors and enums\<close>

definition ErrPlanNotFound :: goerr where
  "ErrPlanNotFound = ErrVar ''ErrPlanNotFound'' ''subscription_plan: not found''"

definition ErrSubscriptionNotFound :: goerr where
  "ErrSubscriptionNotFound = ErrVar ''ErrSubscriptionNotFound'' ''subscription: not found''"

definition ErrSubPaymentNotFound :: goerr where
  "ErrSubPaymentNotFound = ErrVar ''ErrPaymentNotFound'' ''subscription_payment: not found''"

definition ErrCronRunNotFound :: goerr where
  "ErrCronRunNotFound = ErrVar ''ErrCronRunNotFound'' ''cron_run: not found''"

definition rider_payment_status :: "string list" where
  "rider_payment_status = [''pending'', ''submitted'', ''verified'', ''rejected'', ''refunded'', ''failed'']"

definition rider_subscription_status :: "string list" where
  "rider_subscription_status = [''trial'', ''active'', ''grace_period'', ''expired'', ''cancelled'', ''suspended'']"

definition hour_us :: int where
  "hour_us = 3600000000"

section \<open>Plans\<close>

definition ListActivePlans :: "(('v, 'r) rider, SubscriptionPlan list) io" where
  "ListActivePlans = wrapErr ''list plans'' (db_call (get (\<lambda>w.
     sort_key plPriceAmount (filter plIsActive (ride_plans w)))))"

definition GetPlan :: "uuid \<Rightarrow> (('v, 'r) rider, SubscriptionPlan) io" where
  "GetPlan i = query_row (\<lambda>w. find (\<lambda>p. plID p = i) (ride_plans w)) ErrPlanNotFound"

definition GetPlanByCode :: "string \<Rightarrow> (('v, 'r) rider, SubscriptionPlan) io" where
  "GetPlanByCode c = query_row (\<lambda>w. find (\<lambda>p. plCode p = c) (ride_plans w)) ErrPlanNotFound"

section \<open>Payments of subscriptions\<close>

record CreateSubscriptionPaymentInput =
  cspPartnerID :: uuid
  cspPlanID :: uuid
  cspAmount :: rat
  cspCurrencyCode :: string
  cspPaymentMethod :: string
  cspPaymentReference :: "string option"
  cspStatus :: string

definition sub_payment_of :: "CreateSubscriptionPaymentInput \<Rightarrow> uuid \<Rightarrow> rat \<Rightarrow> int \<Rightarrow> SubscriptionPayment" where
  "sub_payment_of i id0 amount now0 = \<lparr>sbpID = id0, sbpPartnerID = cspPartnerID i, sbpSubscriptionID = None,
     sbpPlanID = cspPlanID i, sbpAmount = amount,
     sbpCurrencyCode = (if cspCurrencyCode i = [] then ''INR'' else cspCurrencyCode i),
     sbpPaymentMethod = cspPaymentMethod i, sbpPaymentReference = cspPaymentReference i, sbpPaymentProofURL = None,
     sbpWalletTxnID = None, sbpStatus = (if cspStatus i = [] then ''pending'' else cspStatus i),
     sbpRejectionReason = None, sbpVerifiedAt = None, sbpCreatedAt = now0, sbpUpdatedAt = now0\<rparr>"

text \<open>A value longer than its \<^verbatim>\<open>VARCHAR(n)\<close>.\<close>

definition too_long :: "SubscriptionPayment \<Rightarrow> bool" where
  "too_long p \<longleftrightarrow> char_length (sbpCurrencyCode p) > 10 \<or> char_length (sbpPaymentMethod p) > 60
     \<or> (case sbpPaymentReference p of None \<Rightarrow> False | Some r \<Rightarrow> char_length r > 160)"

definition sql_insert_sub_payment :: "SubscriptionPayment \<Rightarrow> (('v, 'r) rider, SubscriptionPayment) io" where
  "sql_insert_sub_payment p = (\<lambda>w.
     if too_long p then (Inl (sqlstate ''22001''), w)
     else if sbpID p \<in> sbpID ` set (sub_payments w) then (Inl (sqlstate ''23505''), w)
     else if sbpPartnerID p \<notin> ptID ` set (ride_partners w) \<or> sbpPlanID p \<notin> plID ` set (ride_plans w)
       then (Inl (sqlstate ''23503''), w)
     else (Inr p, w\<lparr>sub_payments := sub_payments w @ [p]\<rparr>))"

definition CreateSubscriptionPayment ::
  "numeric \<Rightarrow> CreateSubscriptionPaymentInput \<Rightarrow> (('v, 'r) rider, SubscriptionPayment) io" where
  "CreateSubscriptionPayment num i = db_call (andThen gen_random_uuid (\<lambda>id0 w.
     if (if cspStatus i = [] then ''pending'' else cspStatus i) \<notin> set rider_payment_status
     then (Inl (sqlstate ''22P02''), w)
     else (case num 12 2 (cspAmount i) of
         None \<Rightarrow> (Inl (sqlstate ''22003''), w)
       | Some a \<Rightarrow> sql_insert_sub_payment (sub_payment_of i id0 a (clock w)) w)))"

text \<open>\<^verbatim>\<open>UPDATE rider_subscription_payments SET ... WHERE id = $1 RETURNING ...\<close>; \<open>f\<close> has the time of the
  statement.\<close>

definition sql_update_sub_payment ::
  "uuid \<Rightarrow> (int \<Rightarrow> SubscriptionPayment \<Rightarrow> SubscriptionPayment) \<Rightarrow> (('v, 'r) rider, SubscriptionPayment option) io" where
  "sql_update_sub_payment i f = (\<lambda>w.
     let ps = update_rows (\<lambda>p. sbpID p = i) (\<lambda>p. (f (clock w) p)\<lparr>sbpUpdatedAt := clock w\<rparr>) (sub_payments w)
     in (Inr (find (\<lambda>p. sbpID p = i) ps), w\<lparr>sub_payments := ps\<rparr>))"

definition sub_payment_row :: "(('v, 'r) rider, SubscriptionPayment option) io \<Rightarrow> (('v, 'r) rider, SubscriptionPayment) io" where
  "sub_payment_row m = andThen (db_call m) (\<lambda>r. case r of None \<Rightarrow> fail ErrSubPaymentNotFound | Some p \<Rightarrow> ok p)"

definition MarkSubPaymentVerified ::
  "uuid \<Rightarrow> uuid option \<Rightarrow> uuid option \<Rightarrow> (('v, 'r) rider, SubscriptionPayment) io" where
  "MarkSubPaymentVerified i walletTxnID subscriptionID = sub_payment_row (\<lambda>w.
     if i \<in> sbpID ` set (sub_payments w) \<and> (\<exists>s. subscriptionID = Some s \<and> s \<notin> suID ` set (ride_subs w))
     then (Inl (sqlstate ''23503''), w)
     else sql_update_sub_payment i (\<lambda>now0 p. p\<lparr>sbpStatus := ''verified'',
        sbpWalletTxnID := or_else walletTxnID (sbpWalletTxnID p),
        sbpSubscriptionID := or_else subscriptionID (sbpSubscriptionID p), sbpVerifiedAt := Some now0\<rparr>) w)"

definition MarkSubPaymentFailed :: "uuid \<Rightarrow> string \<Rightarrow> (('v, 'r) rider, unit) io" where
  "MarkSubPaymentFailed i reason =
     andThen (wrapErr ''mark payment failed'' (db_call (sql_update_sub_payment i
       (\<lambda>_ p. p\<lparr>sbpStatus := ''failed'', sbpRejectionReason := Some reason\<rparr>)))) (\<lambda>r.
     require (r \<noteq> None) ErrSubPaymentNotFound (ok ()))"

definition AttachPaymentProof :: "uuid \<Rightarrow> string \<Rightarrow> (('v, 'r) rider, SubscriptionPayment) io" where
  "AttachPaymentProof i proofURL = sub_payment_row (sql_update_sub_payment i
     (\<lambda>_ p. p\<lparr>sbpPaymentProofURL := Some proofURL, sbpStatus := ''submitted''\<rparr>))"

definition GetSubscriptionPayment :: "uuid \<Rightarrow> (('v, 'r) rider, SubscriptionPayment) io" where
  "GetSubscriptionPayment i = query_row (\<lambda>w. find (\<lambda>p. sbpID p = i) (sub_payments w)) ErrSubPaymentNotFound"

section \<open>Subscriptions\<close>

record CreateSubscriptionInput =
  csiPartnerID :: uuid
  csiPlanID :: uuid
  csiStatus :: string
  csiStartsAt :: int
  csiExpiresAt :: int

definition sub_of_input :: "CreateSubscriptionInput \<Rightarrow> uuid \<Rightarrow> int \<Rightarrow> sub_row" where
  "sub_of_input i id0 now0 = \<lparr>suID = id0, suPartnerID = csiPartnerID i, suPlanID = csiPlanID i,
     suStatus = (if csiStatus i = [] then ''active'' else csiStatus i), suStartsAt = csiStartsAt i,
     suExpiresAt = csiExpiresAt i, suGraceEndsAt = None, suLeadsUsed = 0, suFairUseUsed = 0, suAutoRenew = False,
     suCancelledAt = None, suCreatedAt = now0, suUpdatedAt = now0, swRenewalAttemptedAt = None,
     swRenewalFailureCount = 0\<rparr>"

definition CreateSubscription :: "CreateSubscriptionInput \<Rightarrow> (('v, 'r) rider, PartnerSubscription) io" where
  "CreateSubscription i = db_call (andThen gen_random_uuid (\<lambda>id0 w.
     let s = sub_of_input i id0 (clock w) in
     if suStatus s \<notin> set rider_subscription_status then (Inl (sqlstate ''22P02''), w)
     else if id0 \<in> suID ` set (ride_subs w) then (Inl (sqlstate ''23505''), w)
     else if csiPartnerID i \<notin> ptID ` set (ride_partners w) \<or> csiPlanID i \<notin> plID ` set (ride_plans w)
       then (Inl (sqlstate ''23503''), w)
     else (Inr (PartnerSubscription.truncate s), w\<lparr>ride_subs := ride_subs w @ [s]\<rparr>)))"

definition GetActiveSubscription :: "uuid \<Rightarrow> (('v, 'r) rider, PartnerSubscription) io" where
  "GetActiveSubscription partnerID = query_row (\<lambda>w. map_option PartnerSubscription.truncate
     (current_sub partnerID (ride_subs w))) ErrSubscriptionNotFound"

definition GetSubscription :: "uuid \<Rightarrow> (('v, 'r) rider, PartnerSubscription) io" where
  "GetSubscription i = query_row (\<lambda>w. map_option PartnerSubscription.truncate
     (find (\<lambda>s. suID s = i) (ride_subs w))) ErrSubscriptionNotFound"

section \<open>What the jobs do to subscriptions\<close>

text \<open>\<^verbatim>\<open>int(d.Seconds())\<close>, back in microseconds.\<close>

definition whole_seconds :: "int \<Rightarrow> int" where
  "whole_seconds d = d div 1000000 * 1000000"

definition ListExpiringSubscriptions :: "int \<Rightarrow> (('v, 'r) rider, PartnerSubscription list) io" where
  "ListExpiringSubscriptions window =
     (let window = (if window \<le> 0 then day_us else window) in
      wrapErr ''list expiring subscriptions'' (db_call (get (\<lambda>w. map PartnerSubscription.truncate (take 1000
        (sort_key suExpiresAt (filter (\<lambda>s. suStatus s = ''active'' \<and> suExpiresAt s \<le> clock w + whole_seconds window
           \<and> suExpiresAt s > clock w) (ride_subs w))))))))"

definition plan_of_sub :: "SubscriptionPlan list \<Rightarrow> sub_row \<Rightarrow> SubscriptionPlan option" where
  "plan_of_sub ps s = find (\<lambda>p. plID p = suPlanID s) ps"

text \<open>\<^verbatim>\<open>UPDATE ... FROM rider_subscription_plans p WHERE s.plan_id = p.id AND c RETURNING ...\<close>: the rows that
  were changed, in the order of the table.\<close>

definition sql_flip_subs ::
  "(SubscriptionPlan list \<Rightarrow> int \<Rightarrow> sub_row \<Rightarrow> bool) \<Rightarrow> (SubscriptionPlan list \<Rightarrow> int \<Rightarrow> sub_row \<Rightarrow> sub_row) \<Rightarrow>
   (('v, 'r) rider, PartnerSubscription list) io" where
  "sql_flip_subs c f = (\<lambda>w. let plans = ride_plans w; now0 = clock w in
     (Inr (map (\<lambda>s. PartnerSubscription.truncate (f plans now0 s)) (filter (c plans now0) (ride_subs w))),
      w\<lparr>ride_subs := update_rows (c plans now0) (f plans now0) (ride_subs w)\<rparr>))"

definition falls_due :: "SubscriptionPlan list \<Rightarrow> int \<Rightarrow> sub_row \<Rightarrow> bool" where
  "falls_due plans now0 s \<longleftrightarrow> plan_of_sub plans s \<noteq> None \<and> suStatus s \<in> {''trial'', ''active''} \<and> suExpiresAt s \<le> now0"

definition to_grace :: "SubscriptionPlan list \<Rightarrow> int \<Rightarrow> sub_row \<Rightarrow> sub_row" where
  "to_grace plans now0 s = s\<lparr>suStatus := ''grace_period'',
     suGraceEndsAt := map_option (\<lambda>p. suExpiresAt s + plGracePeriodDays p * day_us) (plan_of_sub plans s),
     suUpdatedAt := now0\<rparr>"

definition FlipToGracePeriod :: "(('v, 'r) rider, PartnerSubscription list) io" where
  "FlipToGracePeriod = wrapErr ''flip to grace period'' (db_call (sql_flip_subs falls_due to_grace))"

definition grace_is_over :: "SubscriptionPlan list \<Rightarrow> int \<Rightarrow> sub_row \<Rightarrow> bool" where
  "grace_is_over plans now0 s \<longleftrightarrow> suStatus s = ''grace_period'' \<and> (case suGraceEndsAt s of None \<Rightarrow> False | Some t \<Rightarrow> t \<le> now0)"

definition to_expired :: "SubscriptionPlan list \<Rightarrow> int \<Rightarrow> sub_row \<Rightarrow> sub_row" where
  "to_expired plans now0 s = s\<lparr>suStatus := ''expired'', suUpdatedAt := now0\<rparr>"

definition FlipToExpired :: "(('v, 'r) rider, PartnerSubscription list) io" where
  "FlipToExpired = wrapErr ''flip to expired'' (db_call (sql_flip_subs grace_is_over to_expired))"

definition renewal_due :: "int \<Rightarrow> int \<Rightarrow> int \<Rightarrow> sub_row \<Rightarrow> bool" where
  "renewal_due window cooldown now0 s \<longleftrightarrow> suAutoRenew s \<and> suStatus s \<in> {''active'', ''grace_period''}
     \<and> suExpiresAt s \<le> now0 + whole_seconds window
     \<and> (case swRenewalAttemptedAt s of None \<Rightarrow> True | Some t \<Rightarrow> t \<le> now0 - whole_seconds cooldown)"

definition ListAutoRenewCandidates :: "int \<Rightarrow> int \<Rightarrow> (('v, 'r) rider, PartnerSubscription list) io" where
  "ListAutoRenewCandidates window cooldown =
     (let window = (if window \<le> 0 then 12 * hour_us else window); cooldown = (if cooldown \<le> 0 then hour_us else cooldown) in
      wrapErr ''list auto-renew candidates'' (db_call (get (\<lambda>w. map PartnerSubscription.truncate (take 500
        (sort_key suExpiresAt (filter (renewal_due window cooldown (clock w)) (ride_subs w))))))))"

definition sql_update_sub :: "uuid \<Rightarrow> (sub_row \<Rightarrow> sub_row) \<Rightarrow> (('v, 'r) rider, sub_row option) io" where
  "sql_update_sub i f = (\<lambda>w. let ss = update_rows (\<lambda>s. suID s = i) f (ride_subs w)
     in (Inr (find (\<lambda>s. suID s = i) ss), w\<lparr>ride_subs := ss\<rparr>))"

definition MarkRenewalAttempted :: "uuid \<Rightarrow> (('v, 'r) rider, unit) io" where
  "MarkRenewalAttempted i = andThen (wrapErr ''mark renewal attempted'' (db_call (\<lambda>w. sql_update_sub i
     (\<lambda>s. s\<lparr>swRenewalAttemptedAt := Some (clock w), suUpdatedAt := clock w\<rparr>) w))) (\<lambda>r.
     require (r \<noteq> None) ErrSubscriptionNotFound (ok ()))"

definition renewed_until :: "int \<Rightarrow> SubscriptionPlan \<Rightarrow> sub_row \<Rightarrow> int" where
  "renewed_until now0 p s = (if suExpiresAt s < now0 then now0 else suExpiresAt s) + plBillingPeriodDays p * day_us"

definition renew_row :: "int \<Rightarrow> SubscriptionPlan \<Rightarrow> sub_row \<Rightarrow> sub_row" where
  "renew_row now0 p s = s\<lparr>suStatus := ''active'', suExpiresAt := renewed_until now0 p s, suGraceEndsAt := None,
     swRenewalFailureCount := 0, swRenewalAttemptedAt := Some now0, suUpdatedAt := now0\<rparr>"

definition RenewSubscription :: "uuid \<Rightarrow> (('v, 'r) rider, int) io" where
  "RenewSubscription i =
     andThen (wrapErr ''renew subscription'' (db_call (\<lambda>w. sql_update_sub i (\<lambda>s. case plan_of_sub (ride_plans w) s of
         None \<Rightarrow> s | Some p \<Rightarrow> renew_row (clock w) p s) w))) (\<lambda>r.
     andThen (get ride_plans) (\<lambda>plans.
     case r of Some s \<Rightarrow> require (plan_of_sub plans s \<noteq> None) ErrSubscriptionNotFound (ok (suExpiresAt s))
     | None \<Rightarrow> fail ErrSubscriptionNotFound))"

definition IncrementRenewalFailure :: "uuid \<Rightarrow> int \<Rightarrow> (('v, 'r) rider, int \<times> bool) io" where
  "IncrementRenewalFailure i autoDisableAt =
     (let most = (if autoDisableAt \<le> 0 then 3 else autoDisableAt) in
      andThen (wrapErr ''increment renewal failure'' (db_call (\<lambda>w.
        if \<exists>s \<in> set (ride_subs w). suID s = i \<and> \<not> int32 (swRenewalFailureCount s + 1) then (Inl (sqlstate ''22003''), w)
        else sql_update_sub i (\<lambda>s. s\<lparr>swRenewalFailureCount := swRenewalFailureCount s + 1,
          swRenewalAttemptedAt := Some (clock w),
          suAutoRenew := (if swRenewalFailureCount s + 1 \<ge> most then False else suAutoRenew s), suUpdatedAt := clock w\<rparr>) w))) (\<lambda>r.
      case r of None \<Rightarrow> fail ErrSubscriptionNotFound
      | Some s \<Rightarrow> ok (swRenewalFailureCount s, \<not> suAutoRenew s \<and> swRenewalFailureCount s \<ge> most)))"

record RidesStuckFilter =
  rsfStatus :: string
  rsfOlderThan :: int
  rsfLimit :: int

definition ListStuckRides :: "RidesStuckFilter \<Rightarrow> (('v, 'r) rider, Ride list) io" where
  "ListStuckRides f =
     (let n = (if rsfLimit f \<le> 0 \<or> rsfLimit f > 500 then 200 else rsfLimit f) in
      wrapErr ''list stuck rides'' (db_call (\<lambda>w.
        if rsfStatus f \<notin> set rider_ride_status then (Inl (sqlstate ''22P02''), w)
        else (Inr (map Ride.truncate (take (nat n) (sort_key rdUpdatedAt (filter (\<lambda>r. rdStatus r = rsfStatus f
           \<and> rdUpdatedAt r \<le> clock w - whole_seconds (rsfOlderThan f)) (rides w))))), w))))"

section \<open>Reminders that were sent\<close>

text \<open>\<open>False\<close> when the bucket of the document is on record already.\<close>

definition sub_MarkReminderSent :: "uuid \<Rightarrow> uuid \<Rightarrow> int \<Rightarrow> string \<Rightarrow> (('v, 'r) rider, bool) io" where
  "sub_MarkReminderSent partnerID documentID expiresAt bucket =
     require (partnerID \<noteq> 0 \<and> documentID \<noteq> 0) (Errorf ''doc reminder: partner_id + document_id required'')
    (require (bucket \<noteq> []) (Errorf ''doc reminder: bucket required'')
    (wrapErr ''mark reminder sent'' (db_call (andThen gen_random_uuid (\<lambda>id0 w.
       if \<exists>r \<in> set (rider_reminders w). rmdDocumentID r = documentID \<and> rmdBucket r = bucket then (Inr False, w)
       else if id0 \<in> rmdID ` set (rider_reminders w) then (Inl (sqlstate ''23505''), w)
       else if partnerID \<notin> ptID ` set (ride_partners w) then (Inl (sqlstate ''23503''), w)
       else (Inr True, w\<lparr>rider_reminders := rider_reminders w @ [\<lparr>rmdID = id0, rmdPartnerID = partnerID,
         rmdDocumentID = documentID, rmdExpiresOn = expiresAt div day_us, rmdBucket = bucket, rmdSentAt = clock w\<rparr>]\<rparr>))))))"

definition HasReminderSent :: "uuid \<Rightarrow> string \<Rightarrow> (('v, 'r) rider, bool) io" where
  "HasReminderSent documentID bucket = wrapErr ''has reminder sent'' (db_call (get (\<lambda>w.
     \<exists>r \<in> set (rider_reminders w). rmdDocumentID r = documentID \<and> rmdBucket r = bucket)))"

section \<open>Runs of background jobs\<close>

definition StartCronRun :: "string \<Rightarrow> (('v, 'r) rider, uuid) io" where
  "StartCronRun job =
     require (job \<noteq> []) (Errorf ''cron_run: job required'')
    (wrapErr ''start cron run'' (db_call (andThen gen_random_uuid (\<lambda>id0 w.
       if id0 \<in> cronID ` set (cron_runs w) then (Inl (sqlstate ''23505''), w)
       else (Inr id0, w\<lparr>cron_runs := cron_runs w @ [\<lparr>cronID = id0, cronJob = job, cronStartedAt = clock w,
         cronFinishedAt = None, cronStatus = ''running'', cronRowsProcessed = 0, cronErrorSummary = None\<rparr>]\<rparr>)))))"

definition truncateErr :: "string \<Rightarrow> nat \<Rightarrow> string" where
  "truncateErr s n = (if length s \<le> n then s else take n s @ ''...[truncated]'')"

definition FinishCronRun :: "uuid \<Rightarrow> nat \<Rightarrow> goerr option \<Rightarrow> (('v, 'r) rider, unit) io" where
  "FinishCronRun i n jobErr =
     require (i \<noteq> 0) (Errorf ''cron_run: id required'')
    (andThen (wrapErr ''finish cron run'' (db_call (\<lambda>w. (Inr (length (filter (\<lambda>c. cronID c = i) (cron_runs w))),
       w\<lparr>cron_runs := update_rows (\<lambda>c. cronID c = i) (\<lambda>c. c\<lparr>cronFinishedAt := Some (clock w),
         cronStatus := (if jobErr = None then ''succeeded'' else ''failed''), cronRowsProcessed := int n,
         cronErrorSummary := map_option (\<lambda>e. truncateErr (err_msg e) 1024) jobErr\<rparr>) (cron_runs w)\<rparr>)))) (\<lambda>k.
     require (k \<noteq> 0) ErrCronRunNotFound (ok ())))"

definition HasRunningCronRun :: "string \<Rightarrow> int \<Rightarrow> (('v, 'r) rider, bool) io" where
  "HasRunningCronRun job window =
     (let window = (if window \<le> 0 then 2 * hour_us else window) in
      wrapErr ''has running cron run'' (db_call (get (\<lambda>w. \<exists>c \<in> set (cron_runs w). cronJob c = job
        \<and> cronStatus c = ''running'' \<and> cronStartedAt c \<ge> clock w - whole_seconds window))))"

record CronRunFilter =
  crfJob :: string
  crfSince :: "int option"
  crfLimit :: int
  crfOffset :: int

definition ListCronRuns :: "CronRunFilter \<Rightarrow> (('v, 'r) rider, CronRun list) io" where
  "ListCronRuns f =
     (let n = (if crfLimit f \<le> 0 \<or> crfLimit f > 500 then 100 else crfLimit f); off = max 0 (crfOffset f) in
      wrapErr ''list cron runs'' (db_call (get (\<lambda>w. take (nat n) (drop (nat off) (sort_key (\<lambda>c. - cronStartedAt c)
        (filter (\<lambda>c. (crfJob f = [] \<or> cronJob c = crfJob f)
           \<and> (case crfSince f of None \<Rightarrow> True | Some t \<Rightarrow> cronStartedAt c \<ge> t)) (cron_runs w))))))))"

definition GetCronRun :: "uuid \<Rightarrow> (('v, 'r) rider, CronRun) io" where
  "GetCronRun i = query_row (\<lambda>w. find (\<lambda>c. cronID c = i) (cron_runs w)) ErrCronRunNotFound"

section \<open>Partners by id\<close>

definition GetPartner :: "uuid \<Rightarrow> (('v, 'r) rider, Partner) io" where
  "GetPartner i = query_row (\<lambda>w. map_option Partner.truncate
     (find (\<lambda>p. ptID p = i \<and> pwDeletedAt p = None) (ride_partners w))) ErrPartnerNotFound"

end
