(* ===== verification/Rider_Subscriptions.thy ===== *)
theory Rider_Subscriptions
  imports Rider_Service Rider_Plans
begin

text \<open>
  Subscriptions of partners (\<^verbatim>\<open>internal/service/subscription.go\<close> and the payments part of
  \<^verbatim>\<open>internal/service/admin.go\<close>), the background jobs that remind of, end and renew them
  (\<^verbatim>\<open>internal/service/jobs/subscription_expiry.go\<close>), and one tick of the job runner
  (\<^verbatim>\<open>internal/cron/runner.go\<close>). A job is an operation that always answers, with the number of rows it
  processed and the error it returned beside it.
\<close>

section \<open>Subscribing\<close>

definition SubscribeOperation :: string where
  "SubscribeOperation = ''subscribe''"

definition allowedPaymentMethods :: "string list" where
  "allowedPaymentMethods = [''wallet'', ''upi'', ''manual'']"

definition GetMyPartner :: "uuid \<Rightarrow> (('v, 'r) rider, Partner) io" where
  "GetMyPartner userID =
     require (userID \<noteq> 0) (Errorf ''invalid: user_id required'')
       (or_not_found ErrPartnerNotFound ''not_found: no partner profile'' (GetPartnerByUserID userID))"

definition ListPlans :: "(('v, 'r) rider, SubscriptionPlan list) io" where
  "ListPlans = ListActivePlans"

definition GetMySubscription :: "uuid \<Rightarrow> (('v, 'r) rider, PartnerSubscription) io" where
  "GetMySubscription userID = andThen (GetMyPartner userID) (\<lambda>p.
     or_not_found ErrSubscriptionNotFound ''not_found: no active subscription'' (GetActiveSubscription (ptID p)))"

definition plan_status :: "SubscriptionPlan \<Rightarrow> string" where
  "plan_status plan = (if plCode plan = ''trial_7d'' \<or> plPriceAmount plan = 0 then ''trial'' else ''active'')"

definition activateSubscriptionWithPlan ::
  "Partner \<Rightarrow> SubscriptionPlan \<Rightarrow> uuid \<Rightarrow> uuid option \<Rightarrow> (('v, 'r) rider, PartnerSubscription) io" where
  "activateSubscriptionWithPlan partner plan paymentID walletTxnID =
     andThen (get clock) (\<lambda>now0.
     andThen (wrapErr ''create subscription'' (CreateSubscription \<lparr>csiPartnerID = ptID partner, csiPlanID = plID plan,
        csiStatus = plan_status plan, csiStartsAt = now0, csiExpiresAt = now0 + plBillingPeriodDays plan * day_us\<rparr>)) (\<lambda>sub.
     andThen (wrapErr ''mark payment verified'' (MarkSubPaymentVerified paymentID walletTxnID (Some (suID sub)))) (\<lambda>_.
     andThen (rider_publish (PublishSubscriptionPaymentVerified paymentID (ptID partner) (plID plan) (plPriceAmount plan)
        (plCurrencyCode plan) ''wallet'')) (\<lambda>_.
     andThen (rider_publish (PublishSubscriptionActivated (suID sub) (ptID partner) (plID plan) (suStatus sub)
        (suStartsAt sub) (suExpiresAt sub))) (\<lambda>_.
     ok sub)))))"

definition buildUPIIntent :: "int \<Rightarrow> uuid \<Rightarrow> string" where
  "buildUPIIntent amountPaise paymentID = ''upi://pay?'' @ url_encode
     [(''am'', sprintf_2f (fl64 (fl64 (of_int amountPaise) / 100))), (''cu'', ''INR''),
      (''pa'', ''atpostwallet@partnerbank''), (''pn'', ''AtPost Mopedu''), (''tn'', ''Mopedu Subscription''),
      (''tr'', ''rider-'' @ uuid_string paymentID)]"

definition with_sub :: "SubscribeResult \<Rightarrow> PartnerSubscription \<Rightarrow> SubscribeResult" where
  "with_sub res sub = res\<lparr>srsSubscriptionID := Some (suID sub), srsStatus := suStatus sub, srsExpiresAt := Some (suExpiresAt sub)\<rparr>"

text \<open>The wallet branch: nothing to pay, or a debit that is refunded when the activation fails.\<close>

definition activate_free ::
  "Partner \<Rightarrow> SubscriptionPlan \<Rightarrow> SubscribeResult \<Rightarrow> (('v, 'r) rider, SubscribeResult) io" where
  "activate_free partner plan res =
     attempt (activateSubscriptionWithPlan partner plan (srsPaymentID res) None) (\<lambda>r. case r of
       Inl e \<Rightarrow> andThen (logged (MarkSubPaymentFailed (srsPaymentID res) (err_msg e))) (\<lambda>_. fail e)
     | Inr sub \<Rightarrow> ok (with_sub res sub))"

definition activate_debited ::
  "'v RiderWallet \<Rightarrow> Partner \<Rightarrow> SubscriptionPlan \<Rightarrow> SubscribeResult \<Rightarrow> uuid \<Rightarrow> (('v, 'r) rider, SubscribeResult) io" where
  "activate_debited wc partner plan res txn =
     attempt (activateSubscriptionWithPlan partner plan (srsPaymentID res) (Some txn)) (\<lambda>r. case r of
       Inl e \<Rightarrow>
         andThen (logged (on_rider_wallet (RefundSubscription wc txn (srsAmountPaise res) ''rider activation failed''))) (\<lambda>_.
         andThen (logged (MarkSubPaymentFailed (srsPaymentID res) (err_msg e))) (\<lambda>_. fail e))
     | Inr sub \<Rightarrow> ok (with_sub res sub))"

definition debit_and_activate ::
  "'v RiderWallet \<Rightarrow> Partner \<Rightarrow> SubscriptionPlan \<Rightarrow> string \<Rightarrow> SubscribeResult \<Rightarrow> (('v, 'r) rider, SubscribeResult) io" where
  "debit_and_activate wc partner plan key res =
     attempt (on_rider_wallet (DebitForSubscription wc (ptUserID partner) (srsAmountPaise res) (srsPaymentID res) key)) (\<lambda>d. case d of
       Inl e \<Rightarrow> andThen (logged (MarkSubPaymentFailed (srsPaymentID res) (err_msg e))) (\<lambda>_. fail (Wrap ''wallet debit'' e))
     | Inr debit \<Rightarrow> activate_debited wc partner plan res (drTransactionID debit))"

definition pay_subscription ::
  "('v, 'r) RiderService \<Rightarrow> string \<Rightarrow> Partner \<Rightarrow> SubscriptionPlan \<Rightarrow> string \<Rightarrow> SubscribeResult \<Rightarrow>
   (('v, 'r) rider, SubscribeResult) io" where
  "pay_subscription sv paymentMethod partner plan key res =
     (if paymentMethod = ''wallet'' then
        (if srsAmountPaise res = 0 then activate_free partner plan res
         else (case rsvWallet sv of
             None \<Rightarrow> fail (Errorf ''wallet client not configured'')
           | Some wc \<Rightarrow> debit_and_activate wc partner plan key res))
      else if paymentMethod = ''upi''
        then ok (res\<lparr>srsUPIIntentURL := buildUPIIntent (srsAmountPaise res) (srsPaymentID res), srsStatus := ''pending''\<rparr>)
      else if paymentMethod = ''manual'' then ok (res\<lparr>srsStatus := ''pending''\<rparr>)
      else ok res)"

definition subscribe_fresh ::
  "('v, 'r) RiderService \<Rightarrow> uuid \<Rightarrow> uuid \<Rightarrow> string \<Rightarrow> string \<Rightarrow> (('v, 'r) rider, SubscribeResult) io" where
  "subscribe_fresh sv userID planID paymentMethod key =
     andThen (GetMyPartner userID) (\<lambda>partner.
     andThen (or_not_found ErrPlanNotFound ''invalid: plan_id not found'' (GetPlan planID)) (\<lambda>plan.
     require (plIsActive plan) (Errorf ''invalid: plan is not active'')
    (require (\<not> (ptStatus partner = ''suspended'' \<or> ptStatus partner = ''blocked''))
       (Errorf ''forbidden: partner is suspended or blocked'')
    (andThen (wrapErr ''create payment'' (CreateSubscriptionPayment (rsvNum sv) \<lparr>cspPartnerID = ptID partner,
        cspPlanID = plID plan, cspAmount = plPriceAmount plan, cspCurrencyCode = plCurrencyCode plan,
        cspPaymentMethod = paymentMethod, cspPaymentReference = None, cspStatus = ''pending''\<rparr>)) (\<lambda>payment.
     andThen (rider_publish (PublishSubscriptionPaymentSubmitted (sbpID payment) (ptID partner) (plID plan)
        (plPriceAmount plan) (plCurrencyCode plan) paymentMethod)) (\<lambda>_.
     andThen (pay_subscription sv paymentMethod partner plan key \<lparr>srsPaymentID = sbpID payment, srsSubscriptionID = None,
        srsStatus = ''pending'', srsAmountPaise = to_paise (plPriceAmount plan), srsUPIIntentURL = [], srsExpiresAt = None\<rparr>) (\<lambda>res.
     andThen (logged (RecordRideKey key userID SubscribeOperation (Some (sbpID payment)) (Some (SubscribeBody res)))) (\<lambda>_.
     ok res))))))))"

text \<open>A replay answers with the body on record. A body of another kind, or without a payment id, is not
  decoded to one and the request runs again.\<close>

definition cached_subscription :: "RideIdem \<Rightarrow> SubscribeResult option" where
  "cached_subscription rec = (case rkResponseBody rec of
     Some (SubscribeBody res) \<Rightarrow> if srsPaymentID res \<noteq> 0 then Some res else None | _ \<Rightarrow> None)"

definition Subscribe ::
  "('v, 'r) RiderService \<Rightarrow> uuid \<Rightarrow> uuid \<Rightarrow> string \<Rightarrow> string \<Rightarrow> (('v, 'r) rider, SubscribeResult) io" where
  "Subscribe sv userID planID paymentMethod key =
     require (userID \<noteq> 0) (Errorf ''invalid: user_id required'')
    (require (planID \<noteq> 0) (Errorf ''invalid: plan_id required'')
    (require (paymentMethod \<in> set allowedPaymentMethods) (Errorf ''invalid: payment_method must be wallet, upi, or manual'')
    (require (key \<noteq> []) (Errorf ''invalid: idempotency_key required'')
    (attempt (FindRideKey key userID SubscribeOperation) (\<lambda>k. case k of
       Inr rec \<Rightarrow> (case cached_subscription rec of Some res \<Rightarrow> ok res | None \<Rightarrow> subscribe_fresh sv userID planID paymentMethod key)
     | Inl e \<Rightarrow> if errors_is e ErrRideKeyNotFound then subscribe_fresh sv userID planID paymentMethod key else fail e)))))"

section \<open>Proofs and the back office\<close>

definition SubmitPaymentProof :: "uuid \<Rightarrow> uuid \<Rightarrow> string \<Rightarrow> (('v, 'r) rider, SubscriptionPayment) io" where
  "SubmitPaymentProof userID paymentID fileURL =
     require (trim_space fileURL \<noteq> []) (Errorf ''invalid: file_url required'')
    (andThen (or_not_found ErrSubPaymentNotFound ''not_found: payment'' (GetSubscriptionPayment paymentID)) (\<lambda>pay.
     andThen (GetPartner (sbpPartnerID pay)) (\<lambda>partner.
     require (ptUserID partner = userID) (Errorf ''forbidden: payment does not belong to user'')
    (require (sbpStatus pay = ''pending'' \<or> sbpStatus pay = ''submitted'')
       (Errorf (''invalid: payment is in terminal state '' @ [CHR 0x22] @ sbpStatus pay @ [CHR 0x22]))
       (AttachPaymentProof paymentID fileURL)))))"

definition ActivateSubscription :: "uuid \<Rightarrow> (('v, 'r) rider, PartnerSubscription) io" where
  "ActivateSubscription paymentID =
     andThen (or_not_found ErrSubPaymentNotFound ''not_found: payment'' (GetSubscriptionPayment paymentID)) (\<lambda>pay.
     andThen (GetPartner (sbpPartnerID pay)) (\<lambda>partner.
     andThen (GetPlan (sbpPlanID pay)) (\<lambda>plan.
     activateSubscriptionWithPlan partner plan (sbpID pay) (sbpWalletTxnID pay))))"

definition VerifySubscriptionPayment :: "uuid \<Rightarrow> uuid \<Rightarrow> (('v, 'r) rider, PartnerSubscription) io" where
  "VerifySubscriptionPayment paymentID adminID =
     andThen (ActivateSubscription paymentID) (\<lambda>sub.
     andThen (rider_publish (PublishAdminAction adminID ''payment.verify'' ''payment'' paymentID [])) (\<lambda>_. ok sub))"

definition RejectSubscriptionPayment :: "uuid \<Rightarrow> uuid \<Rightarrow> string \<Rightarrow> (('v, 'r) rider, unit) io" where
  "RejectSubscriptionPayment paymentID adminID reason =
     require (trim_space reason \<noteq> []) (Errorf ''invalid: reason required'')
    (attempt (GetSubscriptionPayment paymentID) (\<lambda>r. case r of
       Inl _ \<Rightarrow> fail (Errorf ''not_found: payment'')
     | Inr pay \<Rightarrow>
         andThen (MarkSubPaymentFailed paymentID (trim_space reason)) (\<lambda>_.
         andThen (rider_publish (PublishSubscriptionPaymentSubmitted paymentID (sbpPartnerID pay) (sbpPlanID pay)
            (sbpAmount pay) (sbpCurrencyCode pay) (sbpPaymentMethod pay))) (\<lambda>_.
         rider_publish (PublishAdminAction adminID ''payment.reject'' ''payment'' paymentID (trim_space reason))))))"

section \<open>Jobs\<close>

type_synonym ('v, 'r) job = "(('v, 'r) rider, nat \<times> goerr option) io"

text \<open>\<^verbatim>\<open>if pub != nil { ... }\<close>.\<close>

definition job_publish :: "bool \<Rightarrow> rider_event \<Rightarrow> (('v, 'r) rider, unit) io" where
  "job_publish pub ev = (if pub then rider_publish ev else ok ())"

text \<open>\<^verbatim>\<open>if err != nil { return n, err }\<close>.\<close>

definition or_job_error :: "nat \<Rightarrow> (('v, 'r) rider, 'a) io \<Rightarrow> ('a \<Rightarrow> ('v, 'r) job) \<Rightarrow> ('v, 'r) job" where
  "or_job_error n m k = attempt m (\<lambda>r. case r of Inl e \<Rightarrow> ok (n, Some e) | Inr x \<Rightarrow> k x)"

definition sub_bucket :: "int \<Rightarrow> string option" where
  "sub_bucket until = (if until \<le> day_us then Some ''1d'' else if until \<le> 3 * day_us then Some ''3d''
     else if until \<le> 7 * day_us then Some ''7d'' else None)"

definition remind_subscription :: "bool \<Rightarrow> int \<Rightarrow> PartnerSubscription \<Rightarrow> nat \<Rightarrow> (('v, 'r) rider, nat) io" where
  "remind_subscription pub now0 s sent = (case sub_bucket (suExpiresAt s - now0) of
     None \<Rightarrow> ok sent
   | Some bucket \<Rightarrow> attempt (sub_MarkReminderSent (suPartnerID s) (suID s) (suExpiresAt s) (''sub:'' @ bucket)) (\<lambda>r. case r of
       Inr True \<Rightarrow> andThen (get clock) (\<lambda>t.
         andThen (job_publish pub (PublishSubscriptionGracePeriod (suID s) (suPartnerID s) (suPlanID s) (suExpiresAt s) None t))
           (\<lambda>_. ok (Suc sent)))
     | _ \<Rightarrow> ok sent))"

definition RunSubscriptionExpiryChecker :: "bool \<Rightarrow> ('v, 'r) job" where
  "RunSubscriptionExpiryChecker pub = or_job_error 0 (ListExpiringSubscriptions (7 * day_us)) (\<lambda>subs.
     andThen (get clock) (\<lambda>now0.
     andThen (for_each subs (remind_subscription pub now0) 0) (\<lambda>sent. ok (sent, None))))"

definition RunGracePeriodTransition :: "bool \<Rightarrow> ('v, 'r) job" where
  "RunGracePeriodTransition pub =
     or_job_error 0 (wrapErr ''flip to grace'' FlipToGracePeriod) (\<lambda>flippedToGrace.
     or_job_error (length flippedToGrace) (wrapErr ''flip to expired'' FlipToExpired) (\<lambda>flippedToExpired.
     andThen (for_each flippedToGrace (\<lambda>s _. andThen (get clock) (\<lambda>t. job_publish pub
       (PublishSubscriptionGracePeriod (suID s) (suPartnerID s) (suPlanID s) (suExpiresAt s) (suGraceEndsAt s) t))) ()) (\<lambda>_.
     andThen (for_each flippedToExpired (\<lambda>s _. andThen (get clock) (\<lambda>t. job_publish pub
       (PublishSubscriptionExpired (suID s) (suPartnerID s) (suPlanID s) (suExpiresAt s) (suGraceEndsAt s) t))) ()) (\<lambda>_.
     ok (length flippedToGrace + length flippedToExpired, None)))))"

text \<open>\<^verbatim>\<open>int64(x * 100)\<close> drops the fraction.\<close>

definition whole_paise :: "rat \<Rightarrow> int" where
  "whole_paise x = (let y = fl64 (x * 100) in float_to_int64 (if y < 0 then \<lceil>y\<rceil> else \<lfloor>y\<rfloor>))"

definition renewal_key :: "PartnerSubscription \<Rightarrow> string" where
  "renewal_key s = ''rider-auto-renew-'' @ uuid_string (suID s) @ ''-'' @ show_int (suExpiresAt s div 1000000)"

definition renewal_failed :: "bool \<Rightarrow> PartnerSubscription \<Rightarrow> int \<Rightarrow> goerr \<Rightarrow> nat \<Rightarrow> (('v, 'r) rider, nat) io" where
  "renewal_failed pub s amountPaise derr processed =
     attempt (IncrementRenewalFailure (suID s) 3) (\<lambda>r.
     let (newCount, autoDisabled) = (case r of Inl _ \<Rightarrow> (0, False) | Inr x \<Rightarrow> x) in
     andThen (get clock) (\<lambda>t.
     andThen (job_publish pub (PublishSubscriptionRenewalFailed (suID s) (suPartnerID s) (suPlanID s) amountPaise newCount
        autoDisabled (err_msg derr) t)) (\<lambda>_. ok (Suc processed))))"

definition renewal_paid :: "bool \<Rightarrow> PartnerSubscription \<Rightarrow> int \<Rightarrow> uuid \<Rightarrow> nat \<Rightarrow> (('v, 'r) rider, nat) io" where
  "renewal_paid pub s amountPaise txn processed =
     attempt (RenewSubscription (suID s)) (\<lambda>r. case r of
       Inl _ \<Rightarrow> andThen (logged (MarkRenewalAttempted (suID s))) (\<lambda>_. ok processed)
     | Inr newExpiry \<Rightarrow> andThen (get clock) (\<lambda>t.
         andThen (job_publish pub (PublishSubscriptionRenewed (suID s) (suPartnerID s) (suPlanID s) amountPaise newExpiry txn t))
           (\<lambda>_. ok (Suc processed))))"

definition renew_one ::
  "'v RiderWallet \<Rightarrow> bool \<Rightarrow> PartnerSubscription \<Rightarrow> nat \<Rightarrow> (('v, 'r) rider, nat) io" where
  "renew_one wc pub s processed = attempt (GetPlan (suPlanID s)) (\<lambda>p. case p of
     Inl _ \<Rightarrow> ok processed
   | Inr plan \<Rightarrow> attempt (GetPartner (suPartnerID s)) (\<lambda>q. case q of
       Inl _ \<Rightarrow> ok processed
     | Inr partner \<Rightarrow>
         attempt (on_rider_wallet (DebitForSubscription wc (ptUserID partner) (whole_paise (plPriceAmount plan)) (suID s)
            (renewal_key s))) (\<lambda>d. case d of
           Inl derr \<Rightarrow> renewal_failed pub s (whole_paise (plPriceAmount plan)) derr processed
         | Inr debit \<Rightarrow> renewal_paid pub s (whole_paise (plPriceAmount plan)) (drTransactionID debit) processed)))"

definition RunSubscriptionAutoRenewal :: "'v RiderWallet option \<Rightarrow> bool \<Rightarrow> ('v, 'r) job" where
  "RunSubscriptionAutoRenewal w pub = (case w of
     None \<Rightarrow> ok (0, Some (Errorf ''subscription auto-renewal: store + wallet required''))
   | Some wc \<Rightarrow> or_job_error 0 (ListAutoRenewCandidates (12 * hour_us) hour_us) (\<lambda>candidates.
       andThen (for_each candidates (renew_one wc pub) 0) (\<lambda>processed. ok (processed, None))))"

section \<open>The job runner\<close>

record ('v, 'r) jobEntry =
  jeName :: string
  jeSkipIfRunning :: bool
  jeMaxRunningAge :: int
  jeFn :: "('v, 'r) job"

text \<open>One tick, for a job that is or is not in flight in this process.\<close>

definition run_and_record :: "('v, 'r) jobEntry \<Rightarrow> (('v, 'r) rider, unit) io" where
  "run_and_record j = attempt (StartCronRun (jeName j)) (\<lambda>r. case r of
     Inl _ \<Rightarrow> ok ()
   | Inr runID \<Rightarrow> andThen (jeFn j) (\<lambda>(rows, jobErr). logged (FinishCronRun runID rows jobErr)))"

definition runOnce :: "bool \<Rightarrow> ('v, 'r) jobEntry \<Rightarrow> (('v, 'r) rider, unit) io" where
  "runOnce inFlight j =
     (if inFlight then ok ()
      else if jeSkipIfRunning j then attempt (HasRunningCronRun (jeName j) (jeMaxRunningAge j)) (\<lambda>busy. case busy of
          Inr True \<Rightarrow> ok () | _ \<Rightarrow> run_and_record j)
      else run_and_record j)"

end
