(* ===== verification/Rider_Register.thy ===== *)
theory Rider_Register
  imports Rider_Plans
begin

text \<open>
  The register of rider-service: the store methods on partners, their vehicles, documents and Aadhaar
  assertions, on cities and fare rules, and what the back office reads and decides
  (\<^verbatim>\<open>internal/store/{partners,vehicles,documents,locations,fare_rules,cities,reminders,admin}.go\<close>).
\<close>

section \<open>Errors, enums and limits of columns\<close>

definition ErrVehicleNotFound :: goerr where
  "ErrVehicleNotFound = ErrVar ''ErrVehicleNotFound'' ''vehicle: not found''"

definition ErrVehicleNotFoundAdmin :: goerr where
  "ErrVehicleNotFoundAdmin = ErrVar ''ErrVehicleNotFoundAdmin'' ''vehicle: not found''"

definition ErrDocumentNotFound :: goerr where
  "ErrDocumentNotFound = ErrVar ''ErrDocumentNotFound'' ''document: not found''"

definition ErrCityNotFound :: goerr where
  "ErrCityNotFound = ErrVar ''ErrCityNotFound'' ''city: not found''"

definition ErrPartnerLocationNotFound :: goerr where
  "ErrPartnerLocationNotFound = ErrVar ''ErrPartnerLocationNotFound'' ''partner_location: not found''"

definition rider_partner_type :: "string list" where
  "rider_partner_type = [''individual_driver'', ''owner_driver'', ''fleet_owner'', ''fleet_driver'']"

definition rider_partner_status :: "string list" where
  "rider_partner_status = [''draft'', ''pending_verification'', ''approved'', ''suspended'', ''blocked'', ''inactive'', ''rejected'']"

definition rider_verification_status :: "string list" where
  "rider_verification_status = [''draft'', ''pending'', ''approved'', ''rejected'', ''expired'']"

definition rider_document_type :: "string list" where
  "rider_document_type = [''aadhaar'', ''pan'', ''driving_license'', ''profile_photo'', ''police_verification'',
     ''vehicle_rc'', ''vehicle_insurance'', ''pollution_certificate'', ''permit'', ''fitness_certificate'',
     ''bank_proof'', ''other'']"

text \<open>A violated unique index, with its name in the message.\<close>

definition unique_violation :: "string \<Rightarrow> goerr" where
  "unique_violation c = Errorf (''ERROR: duplicate key value violates unique constraint '' @ [CHR 0x22] @ c @ [CHR 0x22]
     @ '' (SQLSTATE 23505)'')"

definition longer :: "nat \<Rightarrow> string option \<Rightarrow> bool" where
  "longer n x \<longleftrightarrow> (case x of None \<Rightarrow> False | Some s \<Rightarrow> char_length s > n)"

definition no_city :: "City list \<Rightarrow> uuid option \<Rightarrow> bool" where
  "no_city cs x \<longleftrightarrow> (case x of None \<Rightarrow> False | Some c \<Rightarrow> c \<notin> cyID ` set cs)"

text \<open>\<^verbatim>\<open>UPDATE ... WHERE c RETURNING ...\<close> on one row of a table.\<close>

definition returning :: "goerr \<Rightarrow> (('v, 'r) rider, 'a option) io \<Rightarrow> (('v, 'r) rider, 'a) io" where
  "returning e m = andThen (db_call m) (\<lambda>r. case r of None \<Rightarrow> fail e | Some x \<Rightarrow> ok x)"

section \<open>Partners\<close>

record CreatePartnerInput =
  cptUserID :: uuid
  cptPartnerType :: string
  cptFullName :: string
  cptPhone :: string
  cptEmail :: "string option"
  cptCityID :: "uuid option"

definition partner_of_input :: "CreatePartnerInput \<Rightarrow> uuid \<Rightarrow> int \<Rightarrow> partner_row" where
  "partner_of_input i id0 now0 = \<lparr>ptID = id0, ptUserID = cptUserID i, ptPartnerType = cptPartnerType i, ptFleetOwnerID = None,
     ptFullName = cptFullName i, ptPhone = cptPhone i, ptEmail = cptEmail i, ptProfilePhotoURL = None, ptCityID = cptCityID i,
     ptStatus = ''draft'', ptKYCStatus = ''draft'', ptBankStatus = ''draft'', ptRating = 0, ptTotalRidesCompleted = 0,
     ptTotalRidesCancelled = 0, ptAcceptanceRate = 0, ptCancellationRate = 0, ptFraudScore = 0, ptIsOnline = False,
     ptApprovedAt = None, ptCreatedAt = now0, ptUpdatedAt = now0, pwLastOnlineAt = None, pwLastOfflineAt = None,
     pwRejectCount30d = 0, pwDeletedAt = None\<rparr>"

definition sql_insert_partner :: "partner_row \<Rightarrow> (('v, 'r) rider, Partner) io" where
  "sql_insert_partner p = (\<lambda>w.
     if ptPartnerType p \<notin> set rider_partner_type then (Inl (sqlstate ''22P02''), w)
     else if char_length (ptFullName p) > 160 \<or> char_length (ptPhone p) > 30 \<or> longer 160 (ptEmail p) then (Inl (sqlstate ''22001''), w)
     else if ptID p \<in> ptID ` set (ride_partners w) then (Inl (unique_violation ''rider_partners_pkey''), w)
     else if \<exists>q \<in> set (ride_partners w). ptUserID q = ptUserID p \<and> pwDeletedAt q = None
       then (Inl (unique_violation ''ux_rider_partners_user_id_active''), w)
     else if no_city (ride_cities w) (ptCityID p) then (Inl (sqlstate ''23503''), w)
     else (Inr (Partner.truncate p), w\<lparr>ride_partners := ride_partners w @ [p]\<rparr>))"

definition CreatePartner :: "CreatePartnerInput \<Rightarrow> (('v, 'r) rider, Partner) io" where
  "CreatePartner i = db_call (andThen gen_random_uuid (\<lambda>id0 w. sql_insert_partner (partner_of_input i id0 (clock w)) w))"

record UpdatePartnerProfileInput =
  uppFullName :: "string option"
  uppEmail :: "string option"
  uppProfilePhotoURL :: "string option"
  uppCityID :: "uuid option"

definition patch_partner :: "UpdatePartnerProfileInput \<Rightarrow> int \<Rightarrow> partner_row \<Rightarrow> partner_row" where
  "patch_partner i now0 p = p\<lparr>ptFullName := (case uppFullName i of None \<Rightarrow> ptFullName p | Some x \<Rightarrow> x),
     ptEmail := or_else (uppEmail i) (ptEmail p), ptProfilePhotoURL := or_else (uppProfilePhotoURL i) (ptProfilePhotoURL p),
     ptCityID := or_else (uppCityID i) (ptCityID p), ptUpdatedAt := now0\<rparr>"

definition store_UpdatePartnerProfile :: "uuid \<Rightarrow> UpdatePartnerProfileInput \<Rightarrow> (('v, 'r) rider, Partner) io" where
  "store_UpdatePartnerProfile i inp = returning ErrPartnerNotFound (\<lambda>w.
     let c = (\<lambda>p. ptID p = i \<and> pwDeletedAt p = None);
         ps = update_rows c (patch_partner inp (clock w)) (ride_partners w)
     in if (\<exists>p \<in> set (ride_partners w). c p) \<and> (longer 160 (uppFullName inp) \<or> longer 160 (uppEmail inp))
        then (Inl (sqlstate ''22001''), w)
        else if (\<exists>p \<in> set (ride_partners w). c p) \<and> no_city (ride_cities w) (uppCityID inp) then (Inl (sqlstate ''23503''), w)
        else (Inr (map_option Partner.truncate (find c ps)), w\<lparr>ride_partners := ps\<rparr>))"

definition sql_update_partners ::
  "(partner_row \<Rightarrow> bool) \<Rightarrow> (partner_row \<Rightarrow> partner_row) \<Rightarrow> (('v, 'r) rider, nat) io" where
  "sql_update_partners c f = (\<lambda>w. (Inr (length (filter c (ride_partners w))),
     w\<lparr>ride_partners := update_rows c (\<lambda>p. (f p)\<lparr>ptUpdatedAt := clock w\<rparr>) (ride_partners w)\<rparr>))"

definition UpdatePartnerStatus :: "uuid \<Rightarrow> string \<Rightarrow> (('v, 'r) rider, unit) io" where
  "UpdatePartnerStatus i status = must_change ErrPartnerNotFound (wrapErr ''update partner status'' (db_call (\<lambda>w.
     if status \<notin> set rider_partner_status then (Inl (sqlstate ''22P02''), w)
     else sql_update_partners (\<lambda>p. ptID p = i) (\<lambda>p. p\<lparr>ptStatus := status\<rparr>) w)))"

definition UpdatePartnerKYCStatus :: "uuid \<Rightarrow> string \<Rightarrow> (('v, 'r) rider, unit) io" where
  "UpdatePartnerKYCStatus i status = must_change ErrPartnerNotFound (wrapErr ''update partner kyc status'' (db_call (\<lambda>w.
     if status \<notin> set rider_verification_status then (Inl (sqlstate ''22P02''), w)
     else sql_update_partners (\<lambda>p. ptID p = i) (\<lambda>p. p\<lparr>ptKYCStatus := status\<rparr>) w)))"

definition SetPartnerApprovedAt :: "uuid \<Rightarrow> (('v, 'r) rider, unit) io" where
  "SetPartnerApprovedAt i = must_change ErrPartnerNotFound (wrapErr ''approve partner'' (db_call (\<lambda>w.
     sql_update_partners (\<lambda>p. ptID p = i \<and> pwDeletedAt p = None)
       (\<lambda>p. p\<lparr>ptStatus := ''approved'', ptKYCStatus := ''approved'', ptApprovedAt := Some (clock w)\<rparr>) w)))"

definition RecordAadhaarVerification :: "uuid \<Rightarrow> string \<Rightarrow> string \<Rightarrow> int \<Rightarrow> (('v, 'r) rider, unit) io" where
  "RecordAadhaarVerification partnerID ref docHash issuedAt = wrapErr ''record aadhaar verification'' (db_call (\<lambda>w.
     if partnerID \<in> avPartnerID ` set (aadhaar_checks w)
     then (Inr (), w\<lparr>aadhaar_checks := update_rows (\<lambda>v. avPartnerID v = partnerID)
        (\<lambda>v. v\<lparr>avDigiLockerRef := ref, avDocTypeHash := docHash, avIssuedAt := issuedAt * 1000000\<rparr>) (aadhaar_checks w)\<rparr>)
     else if partnerID \<notin> ptID ` set (ride_partners w) then (Inl (sqlstate ''23503''), w)
     else (Inr (), w\<lparr>aadhaar_checks := aadhaar_checks w @ [\<lparr>avPartnerID = partnerID, avDigiLockerRef = ref,
        avDocTypeHash = docHash, avIssuedAt = issuedAt * 1000000, avCreatedAt = clock w\<rparr>]\<rparr>)))"

definition GetAadhaarVerification :: "uuid \<Rightarrow> (('v, 'r) rider, AadhaarVerification) io" where
  "GetAadhaarVerification partnerID =
     andThen (wrapErr ''get aadhaar verification'' (db_call (get (\<lambda>w. find (\<lambda>v. avPartnerID v = partnerID) (aadhaar_checks w)))))
       (\<lambda>r. case r of None \<Rightarrow> fail ErrPartnerNotFound | Some v \<Rightarrow> ok v)"

definition GetPartnerLocation :: "uuid \<Rightarrow> (('v, 'r) rider, PartnerLocation) io" where
  "GetPartnerLocation partnerID =
     andThen (wrapErr ''get partner location'' (db_call (get (\<lambda>w. find (\<lambda>l. locPartnerID l = partnerID) (ride_locations w)))))
       (\<lambda>r. case r of None \<Rightarrow> fail ErrPartnerLocationNotFound | Some l \<Rightarrow> ok l)"

definition GetCity :: "uuid \<Rightarrow> (('v, 'r) rider, City) io" where
  "GetCity i = attempt (db_call (get (\<lambda>w. find (\<lambda>c. cyID c = i) (ride_cities w)))) (\<lambda>r. case r of
     Inl e \<Rightarrow> fail (Wrap ''get city'' e) | Inr None \<Rightarrow> fail ErrCityNotFound | Inr (Some c) \<Rightarrow> ok c)"

section \<open>Vehicles\<close>

record CreateVehicleInput =
  cvhPartnerID :: uuid
  cvhVehicleType :: string
  cvhRegistrationNumber :: string
  cvhBrand :: "string option"
  cvhModel :: "string option"
  cvhColor :: "string option"
  cvhManufactureYear :: "int option"
  cvhSeatCount :: "int option"
  cvhFuelType :: "string option"
  cvhIsEV :: bool

definition vehicle_of_input :: "CreateVehicleInput \<Rightarrow> uuid \<Rightarrow> int \<Rightarrow> vehicle_row" where
  "vehicle_of_input i id0 now0 = \<lparr>vhID = id0, vhPartnerID = cvhPartnerID i, vhVehicleType = cvhVehicleType i,
     vhRegistrationNumber = cvhRegistrationNumber i, vhBrand = cvhBrand i, vhModel = cvhModel i, vhColor = cvhColor i,
     vhManufactureYear = cvhManufactureYear i, vhSeatCount = cvhSeatCount i, vhFuelType = cvhFuelType i, vhIsEV = cvhIsEV i,
     vhStatus = ''pending'', vhIsActive = True, vhCreatedAt = now0, vhUpdatedAt = now0, vwDeletedAt = None\<rparr>"

text \<open>A number that does not fit the \<^verbatim>\<open>INT\<close> of its column.\<close>

definition beyond_int4 :: "int option \<Rightarrow> bool" where
  "beyond_int4 x \<longleftrightarrow> (case x of None \<Rightarrow> False | Some n \<Rightarrow> \<not> int32 n)"

definition sql_insert_vehicle :: "vehicle_row \<Rightarrow> (('v, 'r) rider, Vehicle) io" where
  "sql_insert_vehicle v = (\<lambda>w.
     if beyond_int4 (vhManufactureYear v) \<or> beyond_int4 (vhSeatCount v) then (Inl (sqlstate ''22003''), w)
     else if vhVehicleType v \<notin> set rider_vehicle_type then (Inl (sqlstate ''22P02''), w)
     else if char_length (vhRegistrationNumber v) > 40 \<or> longer 100 (vhBrand v) \<or> longer 100 (vhModel v) \<or> longer 60 (vhColor v)
       \<or> longer 40 (vhFuelType v) then (Inl (sqlstate ''22001''), w)
     else if vhID v \<in> vhID ` set (ride_vehicles w) then (Inl (unique_violation ''rider_vehicles_pkey''), w)
     else if \<exists>x \<in> set (ride_vehicles w). vhRegistrationNumber x = vhRegistrationNumber v \<and> vwDeletedAt x = None
       then (Inl (unique_violation ''ux_rider_vehicle_registration_active''), w)
     else if vhPartnerID v \<notin> ptID ` set (ride_partners w) then (Inl (sqlstate ''23503''), w)
     else (Inr (Vehicle.truncate v), w\<lparr>ride_vehicles := ride_vehicles w @ [v]\<rparr>))"

definition CreateVehicle :: "CreateVehicleInput \<Rightarrow> (('v, 'r) rider, Vehicle) io" where
  "CreateVehicle i = db_call (andThen gen_random_uuid (\<lambda>id0 w. sql_insert_vehicle (vehicle_of_input i id0 (clock w)) w))"

definition GetVehicle :: "uuid \<Rightarrow> (('v, 'r) rider, Vehicle) io" where
  "GetVehicle i = query_row (\<lambda>w. map_option Vehicle.truncate
     (find (\<lambda>v. vhID v = i \<and> vwDeletedAt v = None) (ride_vehicles w))) ErrVehicleNotFound"

definition SetVehicleStatus :: "uuid \<Rightarrow> string \<Rightarrow> (('v, 'r) rider, unit) io" where
  "SetVehicleStatus i status = must_change ErrVehicleNotFoundAdmin (wrapErr ''set vehicle status'' (db_call (\<lambda>w.
     if status \<notin> set rider_verification_status then (Inl (sqlstate ''22P02''), w)
     else (Inr (length (filter (\<lambda>v. vhID v = i) (ride_vehicles w))), w\<lparr>ride_vehicles :=
       update_rows (\<lambda>v. vhID v = i) (\<lambda>v. v\<lparr>vhStatus := status, vhUpdatedAt := clock w\<rparr>) (ride_vehicles w)\<rparr>))))"

section \<open>Documents\<close>

record CreatePartnerDocumentInput =
  cpdPartnerID :: uuid
  cpdDocumentType :: string
  cpdDocumentNumber :: "string option"
  cpdFileURL :: string
  cpdExpiresAt :: "int option"

definition CreatePartnerDocument :: "CreatePartnerDocumentInput \<Rightarrow> (('v, 'r) rider, PartnerDocument) io" where
  "CreatePartnerDocument i = db_call (andThen gen_random_uuid (\<lambda>id0 w.
     let d = \<lparr>pdID = id0, pdPartnerID = cpdPartnerID i, pdDocumentType = cpdDocumentType i,
        pdDocumentNumber = cpdDocumentNumber i, pdFileURL = cpdFileURL i, pdStatus = ''pending'', pdRejectionReason = None,
        pdExpiresAt = cpdExpiresAt i, pdCreatedAt = clock w, pdUpdatedAt = clock w\<rparr>
     in if cpdDocumentType i \<notin> set rider_document_type then (Inl (sqlstate ''22P02''), w)
        else if longer 120 (cpdDocumentNumber i) then (Inl (sqlstate ''22001''), w)
        else if id0 \<in> pdID ` set (partner_docs w) then (Inl (unique_violation ''rider_partner_documents_pkey''), w)
        else if cpdPartnerID i \<notin> ptID ` set (ride_partners w) then (Inl (sqlstate ''23503''), w)
        else (Inr d, w\<lparr>partner_docs := partner_docs w @ [d]\<rparr>)))"

definition store_ListPartnerDocuments :: "uuid \<Rightarrow> (('v, 'r) rider, PartnerDocument list) io" where
  "store_ListPartnerDocuments partnerID = wrapErr ''list partner docs'' (db_call (get (\<lambda>w.
     sort_key (\<lambda>d. - pdCreatedAt d) (filter (\<lambda>d. pdPartnerID d = partnerID) (partner_docs w)))))"

record CreateVehicleDocumentInput =
  cvdVehicleID :: uuid
  cvdDocumentType :: string
  cvdDocumentNumber :: "string option"
  cvdFileURL :: string
  cvdExpiresAt :: "int option"

definition CreateVehicleDocument :: "CreateVehicleDocumentInput \<Rightarrow> (('v, 'r) rider, VehicleDocument) io" where
  "CreateVehicleDocument i = db_call (andThen gen_random_uuid (\<lambda>id0 w.
     let d = \<lparr>vdID = id0, vdVehicleID = cvdVehicleID i, vdDocumentType = cvdDocumentType i,
        vdDocumentNumber = cvdDocumentNumber i, vdFileURL = cvdFileURL i, vdStatus = ''pending'', vdRejectionReason = None,
        vdExpiresAt = cvdExpiresAt i, vdCreatedAt = clock w, vdUpdatedAt = clock w\<rparr>
     in if cvdDocumentType i \<notin> set rider_document_type then (Inl (sqlstate ''22P02''), w)
        else if longer 120 (cvdDocumentNumber i) then (Inl (sqlstate ''22001''), w)
        else if id0 \<in> vdID ` set (vehicle_docs w) then (Inl (unique_violation ''rider_vehicle_documents_pkey''), w)
        else if cvdVehicleID i \<notin> vhID ` set (ride_vehicles w) then (Inl (sqlstate ''23503''), w)
        else (Inr d, w\<lparr>vehicle_docs := vehicle_docs w @ [d]\<rparr>)))"

definition lapsed :: "int \<Rightarrow> string \<Rightarrow> int option \<Rightarrow> bool" where
  "lapsed now0 status expires \<longleftrightarrow> status = ''approved'' \<and> (case expires of None \<Rightarrow> False | Some t \<Rightarrow> t \<le> now0)"

definition CountExpiredApprovedPartnerDocs :: "uuid \<Rightarrow> (('v, 'r) rider, nat) io" where
  "CountExpiredApprovedPartnerDocs partnerID = wrapErr ''count expired partner docs'' (db_call (get (\<lambda>w. length (filter
     (\<lambda>d. pdPartnerID d = partnerID \<and> lapsed (clock w) (pdStatus d) (pdExpiresAt d)) (partner_docs w)))))"

definition CountExpiredApprovedVehicleDocs :: "uuid \<Rightarrow> (('v, 'r) rider, nat) io" where
  "CountExpiredApprovedVehicleDocs vehicleID = wrapErr ''count expired vehicle docs'' (db_call (get (\<lambda>w. length (filter
     (\<lambda>d. vdVehicleID d = vehicleID \<and> lapsed (clock w) (vdStatus d) (vdExpiresAt d)) (vehicle_docs w)))))"

definition store_ListVehicleDocuments :: "uuid \<Rightarrow> (('v, 'r) rider, VehicleDocument list) io" where
  "store_ListVehicleDocuments vehicleID = wrapErr ''list vehicle docs'' (db_call (get (\<lambda>w.
     sort_key (\<lambda>d. - vdCreatedAt d) (filter (\<lambda>d. vdVehicleID d = vehicleID) (vehicle_docs w)))))"

definition GetPartnerDocument :: "uuid \<Rightarrow> (('v, 'r) rider, PartnerDocument) io" where
  "GetPartnerDocument i = query_row (\<lambda>w. find (\<lambda>d. pdID d = i) (partner_docs w)) ErrDocumentNotFound"

definition SetPartnerDocumentStatus :: "uuid \<Rightarrow> string \<Rightarrow> string option \<Rightarrow> (('v, 'r) rider, PartnerDocument) io" where
  "SetPartnerDocumentStatus i status reason = returning ErrDocumentNotFound (\<lambda>w.
     let ds = update_rows (\<lambda>d. pdID d = i) (\<lambda>d. d\<lparr>pdStatus := status, pdRejectionReason := reason, pdUpdatedAt := clock w\<rparr>)
        (partner_docs w)
     in if status \<notin> set rider_verification_status then (Inl (sqlstate ''22P02''), w)
        else (Inr (find (\<lambda>d. pdID d = i) ds), w\<lparr>partner_docs := ds\<rparr>))"

record ExpiringDocument =
  exDocumentID :: uuid
  exPartnerID :: uuid
  exOwnerKind :: string
  exDocumentKind :: string
  exExpiresAt :: int

definition expires_by :: "int \<Rightarrow> int option \<Rightarrow> bool" where
  "expires_by t x \<longleftrightarrow> (case x of None \<Rightarrow> False | Some e \<Rightarrow> e \<le> t)"

definition expiring_docs :: "int \<Rightarrow> ('v, 'r) rider \<Rightarrow> ExpiringDocument list" where
  "expiring_docs t w =
     map (\<lambda>d. \<lparr>exDocumentID = pdID d, exPartnerID = pdPartnerID d, exOwnerKind = ''partner'',
        exDocumentKind = pdDocumentType d, exExpiresAt = the (pdExpiresAt d)\<rparr>)
       (filter (\<lambda>d. expires_by t (pdExpiresAt d)) (partner_docs w))
   @ concat (map (\<lambda>d. map (\<lambda>v. \<lparr>exDocumentID = vdID d, exPartnerID = vhPartnerID v, exOwnerKind = ''vehicle'',
        exDocumentKind = vdDocumentType d, exExpiresAt = the (vdExpiresAt d)\<rparr>)
         (filter (\<lambda>v. vhID v = vdVehicleID d) (ride_vehicles w)))
       (filter (\<lambda>d. expires_by t (vdExpiresAt d)) (vehicle_docs w)))"

definition ListExpiringDocuments :: "int \<Rightarrow> (('v, 'r) rider, ExpiringDocument list) io" where
  "ListExpiringDocuments window =
     (let window = (if window \<le> 0 then 30 * day_us else window) in
      wrapErr ''list expiring documents'' (db_call (get (\<lambda>w.
        take 5000 (sort_key exExpiresAt (expiring_docs (clock w + whole_seconds window) w))))))"

end
