(* ===== verification/Rider_Onboarding.thy ===== *)
theory Rider_Onboarding
  imports Rider_Subscriptions Rider_Register
begin

text \<open>
  How a partner gets on the road: the profile, documents and Aadhaar assertion
  (\<^verbatim>\<open>internal/service/{partner,documents}.go\<close>), vehicles (\<^verbatim>\<open>vehicles.go\<close>), the gate before going online
  (\<^verbatim>\<open>location.go\<close>), the decisions of the back office on partners, documents and vehicles (\<^verbatim>\<open>admin.go\<close>),
  and the job that reminds of expiring documents (\<^verbatim>\<open>jobs/document_expiry.go\<close>).
\<close>

section \<open>Profiles\<close>

definition allowedPartnerTypes :: "string list" where
  "allowedPartnerTypes = [''individual_driver'', ''owner_driver'', ''fleet_owner'', ''fleet_driver'']"

record CreatePartnerRequest =
  cprPartnerType :: string
  cprFullName :: string
  cprPhone :: string
  cprEmail :: "string option"
  cprCityID :: "uuid option"

definition known_city :: "uuid option \<Rightarrow> (('v, 'r) rider, 'a) io \<Rightarrow> (('v, 'r) rider, 'a) io" where
  "known_city c m = (case c of None \<Rightarrow> m | Some i \<Rightarrow> attempt (GetCity i) (\<lambda>r. case r of
     Inl _ \<Rightarrow> fail (Errorf ''invalid: city_id not found'') | Inr _ \<Rightarrow> m))"

definition register_partner :: "uuid \<Rightarrow> CreatePartnerRequest \<Rightarrow> (('v, 'r) rider, Partner) io" where
  "register_partner userID req = known_city (cprCityID req)
     (andThen (wrapErr ''create partner'' (CreatePartner \<lparr>cptUserID = userID, cptPartnerType = cprPartnerType req,
        cptFullName = trim_space (cprFullName req), cptPhone = trim_space (cprPhone req), cptEmail = cprEmail req,
        cptCityID = cprCityID req\<rparr>)) (\<lambda>p.
      andThen (rider_publish (PublishPartnerCreated (ptID p) (ptUserID p) (ptPartnerType p) (uuid_or_empty (ptCityID p)))) (\<lambda>_.
      ok p)))"

definition CreatePartnerProfile :: "uuid \<Rightarrow> CreatePartnerRequest \<Rightarrow> (('v, 'r) rider, Partner) io" where
  "CreatePartnerProfile userID req =
     require (userID \<noteq> 0) (Errorf ''invalid: user_id required'')
    (require (cprPartnerType req \<in> set allowedPartnerTypes)
       (Errorf ''invalid: partner_type must be one of individual_driver, owner_driver, fleet_owner, fleet_driver'')
    (require (trim_space (cprFullName req) \<noteq> []) (Errorf ''invalid: full_name required'')
    (require (trim_space (cprPhone req) \<noteq> []) (Errorf ''invalid: phone required'')
    (attempt (GetPartnerByUserID userID) (\<lambda>r. case r of
       Inr existing \<Rightarrow> ok existing
     | Inl e \<Rightarrow> if errors_is e ErrPartnerNotFound then register_partner userID req else fail e)))))"

record UpdatePartnerProfileRequest =
  uprFullName :: "string option"
  uprEmail :: "string option"
  uprProfilePhotoURL :: "string option"
  uprCityID :: "uuid option"

definition UpdatePartnerProfile :: "uuid \<Rightarrow> UpdatePartnerProfileRequest \<Rightarrow> (('v, 'r) rider, Partner) io" where
  "UpdatePartnerProfile userID req = andThen (GetMyPartner userID) (\<lambda>p. known_city (uprCityID req)
     (store_UpdatePartnerProfile (ptID p) \<lparr>uppFullName = uprFullName req, uppEmail = uprEmail req,
        uppProfilePhotoURL = uprProfilePhotoURL req, uppCityID = uprCityID req\<rparr>))"

section \<open>Documents of a partner\<close>

definition allowedDocumentTypes :: "string list" where
  "allowedDocumentTypes = [''aadhaar'', ''pan'', ''driving_license'', ''profile_photo'', ''police_verification'',
     ''vehicle_rc'', ''vehicle_insurance'', ''pollution_certificate'', ''permit'', ''fitness_certificate'',
     ''bank_proof'', ''other'']"

record SubmitKYCDocumentRequest =
  skdDocumentType :: string
  skdDocumentNumber :: "string option"
  skdFileURL :: string
  skdExpiresAt :: "int option"

text \<open>The first document moves a draft on.\<close>

definition leave_draft :: "Partner \<Rightarrow> (('v, 'r) rider, unit) io" where
  "leave_draft p = (if ptStatus p = ''draft''
     then andThen (wrapErr ''update partner status'' (UpdatePartnerStatus (ptID p) ''pending_verification'')) (\<lambda>_.
        wrapErr ''update kyc status'' (UpdatePartnerKYCStatus (ptID p) ''pending''))
     else ok ())"

definition SubmitKYCDocument ::
  "uuid \<Rightarrow> uuid \<Rightarrow> SubmitKYCDocumentRequest \<Rightarrow> (('v, 'r) rider, PartnerDocument) io" where
  "SubmitKYCDocument userID partnerID req =
     require (skdDocumentType req \<in> set allowedDocumentTypes) (Errorf ''invalid: document_type must be a known rider_document_type'')
    (require (trim_space (skdFileURL req) \<noteq> []) (Errorf ''invalid: file_url required'')
    (andThen (or_not_found ErrPartnerNotFound ''not_found: partner'' (GetPartner partnerID)) (\<lambda>p.
     require (ptUserID p = userID) (Errorf ''forbidden: partner does not belong to user'')
    (let aadhaar = (skdDocumentType req = ''aadhaar'') in
     andThen (if aadhaar then logged (GetAadhaarVerification partnerID) else ok ()) (\<lambda>_.
     andThen (wrapErr ''create partner document'' (CreatePartnerDocument \<lparr>cpdPartnerID = partnerID,
        cpdDocumentType = skdDocumentType req, cpdDocumentNumber = (if aadhaar then None else skdDocumentNumber req),
        cpdFileURL = skdFileURL req, cpdExpiresAt = skdExpiresAt req\<rparr>)) (\<lambda>doc.
     andThen (leave_draft p) (\<lambda>_.
     andThen (rider_publish (PublishPartnerKYCSubmitted partnerID (pdID doc) (pdDocumentType doc))) (\<lambda>_.
     ok doc))))))))"

definition ListPartnerDocuments :: "uuid \<Rightarrow> (('v, 'r) rider, PartnerDocument list) io" where
  "ListPartnerDocuments userID = andThen (GetMyPartner userID) (\<lambda>p. store_ListPartnerDocuments (ptID p))"

section \<open>The Aadhaar flow\<close>

record AadhaarFlowStart =
  afsDigiLockerAuthorizeURL :: string
  afsState :: string

record AadhaarFlowResult =
  afrVerified :: bool
  afrIssuedAt :: int

definition digilockerStateTTL :: int where
  "digilockerStateTTL = 600000000"

definition riderStateKey :: "string \<Rightarrow> string" where
  "riderStateKey state = ''rider:digilocker:state:'' @ state"

text \<open>\<^verbatim>\<open>base64.RawURLEncoding\<close>.\<close>

definition raw_url_encode :: "nat list \<Rightarrow> string" where
  "raw_url_encode bs = map (\<lambda>c. if c = CHR ''+'' then CHR ''-'' else if c = CHR ''/'' then CHR ''_'' else c) (raw64_encode bs)"

definition generateState :: "(('v, 'r) rider, string) io" where
  "generateState = andThen (wrapErr ''generate state'' (rand_Read 32)) (\<lambda>buf. ok (raw_url_encode buf))"

definition authorize_url :: "(string \<Rightarrow> string) \<Rightarrow> string \<Rightarrow> string" where
  "authorize_url getenv state =
     (if getenv ''DIGILOCKER_AUTHORIZE_URL'' = [] then ''https://api.digitallocker.gov.in/public/oauth2/1/authorize''
      else getenv ''DIGILOCKER_AUTHORIZE_URL'') @ ''?'' @ url_encode
       [(''client_id'', getenv ''DIGILOCKER_CLIENT_ID''), (''redirect_uri'', getenv ''DIGILOCKER_REDIRECT_URI''),
        (''response_type'', ''code''), (''scope'', ''aadhaar''), (''state'', state)]"

definition StartAadhaarFlow :: "('v, 'r) RiderService \<Rightarrow> uuid \<Rightarrow> uuid \<Rightarrow> (('v, 'r) rider, AadhaarFlowStart) io" where
  "StartAadhaarFlow sv userID partnerID = andThen (GetPartner partnerID) (\<lambda>p.
     require (ptUserID p = userID) (Errorf ''forbidden: partner does not belong to user'')
    (andThen generateState (\<lambda>state.
     andThen (case rsvRedis sv of None \<Rightarrow> ok ()
        | Some rdb \<Rightarrow> wrapErr ''persist state'' (on_redis (RedisSet rdb (riderStateKey state) (uuid_string partnerID) digilockerStateTTL))) (\<lambda>_.
     ok \<lparr>afsDigiLockerAuthorizeURL = authorize_url (rsvGetenv sv) state, afsState = state\<rparr>))))"

definition check_state :: "'r RedisClient \<Rightarrow> uuid \<Rightarrow> string \<Rightarrow> (('v, 'r) rider, unit) io" where
  "check_state rdb partnerID state = attempt (on_redis (RedisGet rdb (riderStateKey state))) (\<lambda>r. case r of
     Inl e \<Rightarrow> fail (if errors_is e redis_Nil then Errorf ''forbidden: state expired or invalid'' else Wrap ''lookup state'' e)
   | Inr stored \<Rightarrow> require (stored = uuid_string partnerID) (Errorf ''forbidden: state does not match partner'')
       (logged (on_redis (RedisDel rdb (riderStateKey state)))))"

definition exchange_and_record ::
  "'r DigiLocker \<Rightarrow> uuid \<Rightarrow> string \<Rightarrow> string \<Rightarrow> (('v, 'r) rider, AadhaarFlowResult) io" where
  "exchange_and_record dl partnerID code0 state = andThen (get clock) (\<lambda>now0.
     andThen (wrapErr ''digilocker exchange'' (on_redis (ExchangeCode dl now0 code0 state))) (\<lambda>a.
     require (asReference a \<noteq> []) (Errorf ''digilocker: empty assertion'')
    (andThen (wrapErr ''persist verification'' (RecordAadhaarVerification partnerID (asReference a)
        (HashDocumentType (asDocumentType a)) (asIssuedAt a div 1000000))) (\<lambda>_.
     ok \<lparr>afrVerified = True, afrIssuedAt = asIssuedAt a\<rparr>))))"

definition CompleteAadhaarFlow ::
  "('v, 'r) RiderService \<Rightarrow> uuid \<Rightarrow> uuid \<Rightarrow> string \<Rightarrow> string \<Rightarrow> (('v, 'r) rider, AadhaarFlowResult) io" where
  "CompleteAadhaarFlow sv userID partnerID code0 state =
     require (userID \<noteq> 0 \<and> partnerID \<noteq> 0) (Errorf ''invalid: user_id and partner_id required'')
    (require (code0 \<noteq> [] \<and> state \<noteq> []) (Errorf ''invalid: code and state required'')
    (andThen (GetPartner partnerID) (\<lambda>p.
     require (ptUserID p = userID) (Errorf ''forbidden: partner does not belong to user'')
    (andThen (case rsvRedis sv of None \<Rightarrow> ok () | Some rdb \<Rightarrow> check_state rdb partnerID state) (\<lambda>_.
     case rsvDigiLocker sv of None \<Rightarrow> fail (Errorf ''digilocker client not configured'')
     | Some dl \<Rightarrow> exchange_and_record dl partnerID code0 state)))))"

section \<open>Vehicles\<close>

record AddVehicleRequest =
  avrVehicleType :: string
  avrRegistrationNumber :: string
  avrBrand :: "string option"
  avrModel :: "string option"
  avrColor :: "string option"
  avrManufactureYear :: "int option"
  avrSeatCount :: "int option"
  avrFuelType :: "string option"
  avrIsEV :: bool

text \<open>\<^verbatim>\<open>strings.Contains\<close>.\<close>

definition str_contains :: "string \<Rightarrow> string \<Rightarrow> bool" where
  "str_contains s t \<longleftrightarrow> list_ex (\<lambda>k. has_prefix (drop k s) t) [0..<Suc (length s)]"

definition vehicle_input :: "uuid \<Rightarrow> string \<Rightarrow> AddVehicleRequest \<Rightarrow> CreateVehicleInput" where
  "vehicle_input partnerID reg req = \<lparr>cvhPartnerID = partnerID, cvhVehicleType = avrVehicleType req, cvhRegistrationNumber = reg,
     cvhBrand = avrBrand req, cvhModel = avrModel req, cvhColor = avrColor req, cvhManufactureYear = avrManufactureYear req,
     cvhSeatCount = avrSeatCount req, cvhFuelType = avrFuelType req, cvhIsEV = avrIsEV req\<rparr>"

definition AddVehicle :: "uuid \<Rightarrow> uuid \<Rightarrow> AddVehicleRequest \<Rightarrow> (('v, 'r) rider, Vehicle) io" where
  "AddVehicle userID partnerID req =
     require (avrVehicleType req \<in> set allowedVehicleTypes)
       (Errorf ''invalid: vehicle_type must be one of bike, auto, mini_cab, sedan, suv, premium, ev_bike, ev_car'')
    (let reg = to_upper (trim_space (avrRegistrationNumber req)) in
     require (reg \<noteq> []) (Errorf ''invalid: registration_number required'')
    (andThen (or_not_found ErrPartnerNotFound ''not_found: partner'' (GetPartner partnerID)) (\<lambda>p.
     require (ptUserID p = userID) (Errorf ''forbidden: partner does not belong to user'')
    (attempt (CreateVehicle (vehicle_input partnerID reg req)) (\<lambda>r. case r of
       Inl e \<Rightarrow> fail (if str_contains (err_msg e) ''ux_rider_vehicle_registration_active''
          then Errorf ''invalid: registration_number already registered'' else Wrap ''create vehicle'' e)
     | Inr v \<Rightarrow> andThen (rider_publish (PublishPartnerVehicleAdded partnerID (vhID v) (vhVehicleType v) (vhRegistrationNumber v)))
         (\<lambda>_. ok v))))))"

definition ListMyVehicles :: "uuid \<Rightarrow> (('v, 'r) rider, Vehicle list) io" where
  "ListMyVehicles userID = andThen (GetMyPartner userID) (\<lambda>p. ListVehiclesByPartner (ptID p))"

record SubmitVehicleDocumentRequest =
  svdDocumentType :: string
  svdDocumentNumber :: "string option"
  svdFileURL :: string
  svdExpiresAt :: "int option"

definition SubmitVehicleDocument ::
  "uuid \<Rightarrow> uuid \<Rightarrow> SubmitVehicleDocumentRequest \<Rightarrow> (('v, 'r) rider, VehicleDocument) io" where
  "SubmitVehicleDocument userID vehicleID req =
     require (svdDocumentType req \<in> set allowedDocumentTypes) (Errorf ''invalid: document_type must be a known rider_document_type'')
    (require (trim_space (svdFileURL req) \<noteq> []) (Errorf ''invalid: file_url required'')
    (andThen (or_not_found ErrVehicleNotFound ''not_found: vehicle'' (GetVehicle vehicleID)) (\<lambda>v.
     andThen (GetPartner (vhPartnerID v)) (\<lambda>p.
     require (ptUserID p = userID) (Errorf ''forbidden: vehicle does not belong to user'')
       (wrapErr ''create vehicle document'' (CreateVehicleDocument \<lparr>cvdVehicleID = vehicleID, cvdDocumentType = svdDocumentType req,
          cvdDocumentNumber = svdDocumentNumber req, cvdFileURL = svdFileURL req, cvdExpiresAt = svdExpiresAt req\<rparr>))))))"

definition ListVehicleDocuments :: "uuid \<Rightarrow> uuid \<Rightarrow> (('v, 'r) rider, VehicleDocument list) io" where
  "ListVehicleDocuments userID vehicleID = andThen (GetVehicle vehicleID) (\<lambda>v. andThen (GetPartner (vhPartnerID v)) (\<lambda>p.
     require (ptUserID p = userID) (Errorf ''forbidden: vehicle does not belong to user'') (store_ListVehicleDocuments vehicleID)))"

section \<open>Going online\<close>

definition em_dash :: string where
  "em_dash = [CHR 0xE2, CHR 0x80, CHR 0x94]"

definition none_lapsed :: "string \<Rightarrow> string \<Rightarrow> (('v, 'r) rider, nat) io \<Rightarrow> (('v, 'r) rider, 'a) io \<Rightarrow> (('v, 'r) rider, 'a) io" where
  "none_lapsed lbl what c m = andThen (wrapErr lbl c) (\<lambda>n.
     require (n = 0) (Errorf (''forbidden: '' @ show_nat n @ '' '' @ what @ '' document(s) expired '' @ em_dash @ '' please re-upload'')) m)"

definition live_statuses :: "string list" where
  "live_statuses = [''trial'', ''active'', ''grace_period'']"

definition with_subscription :: "Partner \<Rightarrow> (('v, 'r) rider, 'a) io \<Rightarrow> (('v, 'r) rider, 'a) io" where
  "with_subscription partner m =
     andThen (or_not_found ErrSubscriptionNotFound ''forbidden: no active subscription'' (GetActiveSubscription (ptID partner))) (\<lambda>sub.
     require (suStatus sub \<in> set live_statuses) (Errorf (''forbidden: subscription is '' @ suStatus sub)) m)"

definition GoOnline :: "uuid \<Rightarrow> (('v, 'r) rider, unit) io" where
  "GoOnline partnerUserID =
     andThen (or_not_found ErrPartnerNotFound ''not_found: partner'' (GetPartnerByUserID partnerUserID)) (\<lambda>partner.
     require (ptStatus partner = ''approved'') (Errorf ''forbidden: partner not approved'')
    (require (ptKYCStatus partner = ''approved'') (Errorf ''forbidden: kyc not approved'')
    (none_lapsed ''check expired partner docs'' ''kyc'' (CountExpiredApprovedPartnerDocs (ptID partner))
    (andThen (ListVehiclesByPartner (ptID partner)) (\<lambda>vehicles.
     case find (\<lambda>v. vhStatus v = ''approved'' \<and> vhIsActive v) vehicles of
       None \<Rightarrow> fail (Errorf ''forbidden: no approved vehicle'')
     | Some v \<Rightarrow>
         none_lapsed ''check expired vehicle docs'' ''vehicle'' (CountExpiredApprovedVehicleDocs (vhID v))
        (with_subscription partner
        (andThen (wrapErr ''set online'' (SetPartnerOnlineFlag (ptID partner) True)) (\<lambda>_.
         rider_publish (PublishPartnerOnline (ptID partner))))))))))"

section \<open>Decisions of the back office\<close>

definition emitAdminAction :: "uuid \<Rightarrow> string \<Rightarrow> string \<Rightarrow> uuid \<Rightarrow> string \<Rightarrow> (('v, 'r) rider, unit) io" where
  "emitAdminAction adminID action targetKind targetID reason =
     rider_publish (PublishAdminAction adminID action targetKind targetID reason)"

definition GetPartnerForAdmin :: "uuid \<Rightarrow> (('v, 'r) rider, Partner) io" where
  "GetPartnerForAdmin partnerID = or_not_found ErrPartnerNotFound ''not_found: partner'' (GetPartner partnerID)"

definition ApprovePartner :: "uuid \<Rightarrow> uuid \<Rightarrow> (('v, 'r) rider, Partner) io" where
  "ApprovePartner partnerID adminID =
     andThen (or_not_found ErrPartnerNotFound ''not_found: partner'' (SetPartnerApprovedAt partnerID)) (\<lambda>_.
     andThen (GetPartner partnerID) (\<lambda>p.
     andThen (rider_publish (PublishPartnerStatusChange ''rider.partner.approved'' partnerID ''approved'' [] adminID)) (\<lambda>_.
     andThen (emitAdminAction adminID ''partner.approve'' ''partner'' partnerID []) (\<lambda>_. ok p))))"

text \<open>Rejecting, suspending and blocking differ in the status, the event and the action.\<close>

definition demote_partner ::
  "string \<Rightarrow> string \<Rightarrow> string \<Rightarrow> uuid \<Rightarrow> uuid \<Rightarrow> string \<Rightarrow> (('v, 'r) rider, unit) io" where
  "demote_partner status event action partnerID adminID reason =
     require (trim_space reason \<noteq> []) (Errorf ''invalid: reason required'')
    (andThen (or_not_found ErrPartnerNotFound ''not_found: partner'' (UpdatePartnerStatus partnerID status)) (\<lambda>_.
     andThen (rider_publish (PublishPartnerStatusChange event partnerID status reason adminID)) (\<lambda>_.
     emitAdminAction adminID action ''partner'' partnerID reason)))"

definition RejectPartner :: "uuid \<Rightarrow> uuid \<Rightarrow> string \<Rightarrow> (('v, 'r) rider, unit) io" where
  "RejectPartner = demote_partner ''rejected'' ''rider.partner.kyc_rejected'' ''partner.reject''"

definition SuspendPartner :: "uuid \<Rightarrow> uuid \<Rightarrow> string \<Rightarrow> (('v, 'r) rider, unit) io" where
  "SuspendPartner = demote_partner ''suspended'' ''rider.partner.suspended'' ''partner.suspend''"

definition BlockPartner :: "uuid \<Rightarrow> uuid \<Rightarrow> string \<Rightarrow> (('v, 'r) rider, unit) io" where
  "BlockPartner = demote_partner ''blocked'' ''rider.partner.blocked'' ''partner.block''"

definition VerifyDocument :: "uuid \<Rightarrow> uuid \<Rightarrow> (('v, 'r) rider, PartnerDocument) io" where
  "VerifyDocument docID adminID =
     andThen (or_not_found ErrDocumentNotFound ''not_found: document'' (SetPartnerDocumentStatus docID ''approved'' None)) (\<lambda>d.
     andThen (emitAdminAction adminID ''document.verify'' ''document'' docID []) (\<lambda>_. ok d))"

definition RejectDocument :: "uuid \<Rightarrow> uuid \<Rightarrow> string \<Rightarrow> (('v, 'r) rider, PartnerDocument) io" where
  "RejectDocument docID adminID reason =
     (let r = trim_space reason in
      require (r \<noteq> []) (Errorf ''invalid: reason required'')
     (andThen (or_not_found ErrDocumentNotFound ''not_found: document'' (SetPartnerDocumentStatus docID ''rejected'' (Some r))) (\<lambda>d.
      andThen (emitAdminAction adminID ''document.reject'' ''document'' docID r) (\<lambda>_. ok d))))"

definition VerifyVehicle :: "uuid \<Rightarrow> uuid \<Rightarrow> (('v, 'r) rider, unit) io" where
  "VerifyVehicle vehicleID adminID =
     andThen (or_not_found ErrVehicleNotFoundAdmin ''not_found: vehicle'' (SetVehicleStatus vehicleID ''approved'')) (\<lambda>_.
     emitAdminAction adminID ''vehicle.verify'' ''vehicle'' vehicleID [])"

definition RejectVehicle :: "uuid \<Rightarrow> uuid \<Rightarrow> string \<Rightarrow> (('v, 'r) rider, unit) io" where
  "RejectVehicle vehicleID adminID reason =
     (let r = trim_space reason in
      require (r \<noteq> []) (Errorf ''invalid: reason required'')
     (andThen (or_not_found ErrVehicleNotFoundAdmin ''not_found: vehicle'' (SetVehicleStatus vehicleID ''rejected'')) (\<lambda>_.
      emitAdminAction adminID ''vehicle.reject'' ''vehicle'' vehicleID r)))"

section \<open>Reminders of expiring documents\<close>

definition docExpiryBuckets :: "(string \<times> int) list" where
  "docExpiryBuckets = [(''expired'', 0), (''1d'', day_us), (''3d'', 3 * day_us), (''7d'', 7 * day_us), (''14d'', 14 * day_us),
     (''30d'', 30 * day_us)]"

definition pickDocBucket :: "int \<Rightarrow> string" where
  "pickDocBucket until = (if until \<le> 0 then ''expired''
     else (case find (\<lambda>(name, le). name \<noteq> ''expired'' \<and> until \<le> le) docExpiryBuckets of None \<Rightarrow> [] | Some (name, _) \<Rightarrow> name))"

definition remind_document :: "bool \<Rightarrow> int \<Rightarrow> ExpiringDocument \<Rightarrow> nat \<Rightarrow> (('v, 'r) rider, nat) io" where
  "remind_document pub now0 d sent =
     (let bucket = pickDocBucket (exExpiresAt d - now0) in
      if bucket = [] then ok sent
      else attempt (sub_MarkReminderSent (exPartnerID d) (exDocumentID d) (exExpiresAt d) bucket) (\<lambda>r. case r of
          Inr True \<Rightarrow> andThen (get clock) (\<lambda>t.
            andThen (job_publish pub (PublishDocumentExpiring (exPartnerID d) (exDocumentID d) (exDocumentKind d) (exOwnerKind d)
              (exExpiresAt d) bucket t)) (\<lambda>_. ok (Suc sent)))
        | _ \<Rightarrow> ok sent))"

definition RunDocumentExpiryReminder :: "bool \<Rightarrow> ('v, 'r) job" where
  "RunDocumentExpiryReminder pub = or_job_error 0 (ListExpiringDocuments (30 * day_us)) (\<lambda>docs.
     andThen (get clock) (\<lambda>now0.
     andThen (for_each docs (remind_document pub now0) 0) (\<lambda>sent. ok (sent, None))))"

end
