(* ===== verification/Rider_Machine.thy ===== *)
theory Rider_Machine
  imports Rider_Service
begin

text \<open>
  The rides of rider-service as a machine of its own: \<open>ride_step\<close> lists the single changes of the
  table there are. Every operation of the service, whatever the network, Redis and the wallet do, is
  a run of that machine, because each of its statements is at most one step. Concurrent requests
  interleave statements, so that their runs are runs of the machine too.
\<close>

section \<open>The machine\<close>

text \<open>What a booking fixes.\<close>

definition booking :: "ride_row \<Rightarrow> uuid \<times> uuid \<times> uuid option \<times> string \<times> string \<times> string \<times> rat option \<times> string option" where
  "booking r = (rdID r, rdCustomerUserID r, rdCityID r, rdVehicleType r, rdPickupAddress r, rdDropAddress r,
     rdEstimatedFare r, rdPaymentMethod r)"

text \<open>A booked ride starts out requested or scheduled; a scheduled ride becomes requested; from then
  on the table of transitions rules; everything else leaves booking and status alone.\<close>

inductive ride_step :: "ride_row list \<Rightarrow> ride_row list \<Rightarrow> bool" where
  booked: "rdID r \<notin> rdID ` set rs \<Longrightarrow> rdStatus r \<in> {''requested'', ''scheduled''} \<Longrightarrow> rdPartnerID r = None \<Longrightarrow>
     ride_step rs (rs @ [r])"
| moved: "validRideTransition old new = None \<or> old = ''scheduled'' \<and> new = ''requested'' \<Longrightarrow>
     (\<And>r. rdStatus r = old \<Longrightarrow> booking (f r) = booking r \<and> rdStatus (f r) = new) \<Longrightarrow>
     ride_step rs (update_rows (\<lambda>r. rdID r = i \<and> rdStatus r = old) f rs)"
| stamped: "(\<And>r. booking (f r) = booking r \<and> rdStatus (f r) = rdStatus r) \<Longrightarrow>
     ride_step rs (update_rows (\<lambda>r. rdID r = i) f rs)"

abbreviation ride_run :: "ride_row list \<Rightarrow> ride_row list \<Rightarrow> bool" where
  "ride_run \<equiv> ride_step\<^sup>*\<^sup>*"

lemma ride_run_step: "ride_run k rs \<Longrightarrow> ride_step rs rs' \<Longrightarrow> ride_run k rs'"
  by (rule rtranclp.rtrancl_into_rtrancl)

lemma stable_keeps: "stable part m \<Longrightarrow> keeps (\<lambda>w. P (part w)) m"
  by (simp add: stable_def keeps_def)

section \<open>Parts of the state that rides do not touch\<close>

text \<open>What identifies a partner and what was decided on them; rides change only figures beside it.\<close>

record partner_face =
  pfID :: uuid
  pfUser :: uuid
  pfStatus :: string
  pfKYC :: string
  pfGone :: bool

definition face :: "partner_row \<Rightarrow> partner_face" where
  "face p = \<lparr>pfID = ptID p, pfUser = ptUserID p, pfStatus = ptStatus p, pfKYC = ptKYCStatus p, pfGone = (pwDeletedAt p \<noteq> None)\<rparr>"

text \<open>A part that the statements on rides leave alone, those that write the table \<open>rides\<close> itself apart.\<close>

locale off_rides =
  fixes part :: "('v, 'r) rider \<Rightarrow> 'k"
  assumes blind: "env_blind part"
    and apart: "\<And>w x. part (w\<lparr>ride_history := x\<rparr>) = part w" "\<And>w x. part (w\<lparr>ride_offers := x\<rparr>) = part w"
      "\<And>w x. part (w\<lparr>ride_payments := x\<rparr>) = part w" "\<And>w x. part (w\<lparr>ride_idem := x\<rparr>) = part w"
      "\<And>w x. part (w\<lparr>ride_subs := x\<rparr>) = part w" "\<And>w x. part (w\<lparr>ride_locations := x\<rparr>) = part w"
      "\<And>w x. part (w\<lparr>rider_events := x\<rparr>) = part w" "\<And>w x. part (w\<lparr>rider_frames := x\<rparr>) = part w"
      "\<And>w x. part (w\<lparr>rider_outbox := x\<rparr>) = part w" "\<And>w x. part (w\<lparr>rider_wallet := x\<rparr>) = part w"
      "\<And>w x. part (w\<lparr>rider_redis := x\<rparr>) = part w" "\<And>w n. part (w\<lparr>randctr := n\<rparr>) = part w"
    and figures: "\<And>w c f. (\<And>p. face (f p) = face p) \<Longrightarrow> part (w\<lparr>ride_partners := update_rows c f (ride_partners w)\<rparr>) = part w"
begin

lemma env_free_part: "env_free (\<lambda>w. P (part w))"
  using blind by (simp add: env_free_def env_blind_def)

lemma off_db [stable_intros]: "stable part m \<Longrightarrow> stable part (db_call m)"
  by (rule stable_db_call [OF blind])

lemma off_plain_tx [stable_intros]: "stable part m \<Longrightarrow> stable part (plain_tx m)"
  by (rule stable_plain_tx [OF blind])

lemma off_in_tx [stable_intros]: "stable part m \<Longrightarrow> stable part (in_tx lb m lc)"
  unfolding stable_iff_keeps by (intro allI keeps_in_tx keeps_triple_True env_blind_free [OF blind]) auto

lemma off_basic [stable_intros]:
  "stable part (query_row q e)" "stable part m \<Longrightarrow> stable part (must_change er m)"
  "stable part gen_random_uuid" "stable part (rand_Read n)" "stable part (sql_update_offers c f)"
  "(\<And>t p. face (g t p) = face p) \<Longrightarrow> stable part (sql_bump_partner j num g)" "stable part (sql_no_show i j reason)"
  unfolding query_row_def must_change_def
  by (rule stable_intros stable_gen_random_uuid [OF blind] | assumption | simp add: stable_def apart figures rand_Read_def sql_update_offers_def
      sql_bump_partner_def sql_no_show_def rider_ride_status_def)+

lemma off_inserts [stable_intros]: "stable part (sql_insert_offer num oi)" "stable part (sql_insert_history h)"
  unfolding sql_insert_offer_def sql_insert_history_def
  by (intro stable_intros; auto simp: stable_def apart figures face_def Let_def split: option.splits prod.splits)+

lemma off_ride_reads [stable_intros]:
  "stable part (store_GetRide i)" "stable part (ListScheduledRidesDue n)" "stable part (ListRidesByCustomer u n)"
  "stable part (ListRideStatusHistory i)" "stable part (GetRideWithOTP i)" "stable part (ListStaleRides t)"
  "stable part (ListRidesByPartner p t n)" "stable part (PartnerEarnings p t)"
  unfolding store_GetRide_def ListScheduledRidesDue_def ListRidesByCustomer_def ListRideStatusHistory_def
    GetRideWithOTP_def ListStaleRides_def ListRidesByPartner_def PartnerEarnings_def
  by (intro stable_intros; simp add: stable_def apart figures face_def Let_def)+

lemma off_table_reads [stable_intros]:
  "stable part (FindRideKey k u opn)" "stable part (GetFareRule c ty)" "stable part (GetPartnerByUserID u)"
  "stable part (ListVehiclesByPartner p)" "stable part (GetRidePayment i)" "stable part (GetRidePaymentByRide i)"
  "stable part (FindOnlinePartnersByGeohash ps n)" "stable part (LoadMatcherCandidates us)"
  unfolding FindRideKey_def GetFareRule_def GetPartnerByUserID_def ListVehiclesByPartner_def GetRidePayment_def
    GetRidePaymentByRide_def FindOnlinePartnersByGeohash_def LoadMatcherCandidates_def
  by (intro stable_intros; simp add: stable_def apart figures face_def)+

lemma off_offers [stable_intros]:
  "stable part (store_GetOffer i)" "stable part (GetOfferByRidePartner i p)"
  "stable part (ListPendingOffersForPartner p)" "stable part (ListOffersForRide i)" "stable part (CountOffersForRide i)"
  "stable part store_ExpireStaleOffers"
  unfolding store_GetOffer_def GetOfferByRidePartner_def ListPendingOffersForPartner_def ListOffersForRide_def
    CountOffersForRide_def store_ExpireStaleOffers_def
  by (intro stable_intros; simp add: stable_def apart figures face_def sql_update_offers_def)+

lemma off_offer_writes [stable_intros]:
  "stable part (CreateRideOffer num oi)" "stable part (AcceptOfferTx i p)" "stable part (store_RejectOffer i p reason)"
  "stable part (store_MarkRideNoShow i p reason)"
  unfolding CreateRideOffer_def AcceptOfferTx_def store_RejectOffer_def store_MarkRideNoShow_def lock_offer_def
    accept_offer_def Let_def
  by (intro stable_intros; simp add: stable_def apart figures face_def sql_update_offers_def)+

lemma off_payments [stable_intros]:
  "stable part (AppendStatusHistory i old new kind actor reason)" "stable part (CreateRidePayment pi0)"
  "stable part (MarkRidePaymentSucceeded i t upi)" "stable part (MarkRidePaymentFailed i)"
  unfolding AppendStatusHistory_def CreateRidePayment_def MarkRidePaymentSucceeded_def MarkRidePaymentFailed_def Let_def
  by (intro stable_intros; simp add: stable_def apart figures face_def)+

lemma off_partners [stable_intros]:
  "stable part (IncrementSubscriptionLeadsUsed p)" "stable part (IncrementPartnerCancelled p)"
  "stable part (IncrementPartnerCompleted p)" "stable part (UpdatePartnerRating p)"
  "stable part (RecordRideKey k u opn res body)" "stable part PurgeExpiredRideKeys"
  "stable part (SetPartnerOnlineFlag p b0)"
  unfolding IncrementSubscriptionLeadsUsed_def IncrementPartnerCancelled_def IncrementPartnerCompleted_def
    UpdatePartnerRating_def RecordRideKey_def PurgeExpiredRideKeys_def SetPartnerOnlineFlag_def
  by (intro stable_intros; auto simp: stable_def apart figures face_def split: option.splits)+

lemma off_location [stable_intros]: "stable part (UpsertPartnerLocation num li)"
  unfolding UpsertPartnerLocation_def
  by (intro stable_intros) (auto simp: stable_def apart figures face_def Let_def split: option.splits prod.splits)

lemma off_outside [stable_intros]:
  "stable part (on_rider_wallet m)" "stable part (on_redis m')" "stable part (rider_publish ev)"
  "stable part (publishRealtime sv t e d)" "stable part (rider_emit sv t e d)"
proof -
  show "stable part (on_rider_wallet m)" "stable part (on_redis m')"
    by (auto intro!: stableI simp: on_rider_wallet_def on_redis_def apart split: prod.splits)
  show "stable part (rider_publish ev)" "stable part (publishRealtime sv t e d)" "stable part (rider_emit sv t e d)"
    unfolding rider_publish_def publishRealtime_def rider_emit_def
    by (intro stable_intros; simp add: stable_def apart modify_def)+
qed

lemma off_candidates [stable_intros]: "stable part (findNearbyCandidates sv ride opts)"
proof -
  have loop: "stable part (discoverLoop rdb key lat lng radius maxKM)" for rdb key lat lng radius maxKM
    by (induction rdb key lat lng radius maxKM rule: discoverLoop.induct, subst discoverLoop.simps)
      (intro stable_intros; blast)
  show ?thesis
    unfolding findNearbyCandidates_def nearby_partners_def discoverFromRedis_def Let_def
    by (intro stable_intros loop)
qed

end

lemma env_blind_rides [simp]: "env_blind rides"
  by (simp add: env_blind_def)

interpretation rides_off: off_rides rides
  by unfold_locales simp_all

section \<open>Operations that are runs of the machine\<close>

definition acts_by :: "('s \<Rightarrow> 'k) \<Rightarrow> ('k \<Rightarrow> 'k \<Rightarrow> bool) \<Rightarrow> ('s, 'a) io \<Rightarrow> bool" where
  "acts_by part step m \<longleftrightarrow> (\<forall>w. step\<^sup>*\<^sup>* (part w) (part (snd (m w))))"

abbreviation follows :: "(('v, 'r) rider, 'a) io \<Rightarrow> bool" where
  "follows \<equiv> acts_by rides ride_step"

named_theorems follows_intros

lemma acts_keeps: "acts_by part step m \<longleftrightarrow> (\<forall>k. keeps (\<lambda>w. step\<^sup>*\<^sup>* k (part w)) m)"
  unfolding acts_by_def keeps_def by (blast intro: rtranclp_trans)

lemma acts_stable: "stable part m \<Longrightarrow> acts_by part step m"
  by (simp add: acts_by_def stable_def)

lemmas follows_stable = acts_stable [where part = rides and step = ride_step]

lemma acts_combinators [follows_intros]:
  "acts_by part step m \<Longrightarrow> (\<And>x. acts_by part step (f x)) \<Longrightarrow> acts_by part step (andThen m f)"
  "acts_by part step m \<Longrightarrow> (\<And>r. acts_by part step (k r)) \<Longrightarrow> acts_by part step (attempt m k)"
  "acts_by part step m \<Longrightarrow> acts_by part step (logged m)"
  "acts_by part step m \<Longrightarrow> acts_by part step (wrapErr p m)"
  "(c \<Longrightarrow> acts_by part step m) \<Longrightarrow> acts_by part step (require c e m)"
  "(c \<Longrightarrow> acts_by part step m) \<Longrightarrow> (\<not> c \<Longrightarrow> acts_by part step m') \<Longrightarrow> acts_by part step (if c then m else m')"
  "acts_by part step m1 \<Longrightarrow> (\<And>y. acts_by part step (g y)) \<Longrightarrow> acts_by part step (case x of None \<Rightarrow> m1 | Some y \<Rightarrow> g y)"
  "(\<And>e. acts_by part step (a e)) \<Longrightarrow> (\<And>y. acts_by part step (b y)) \<Longrightarrow>
     acts_by part step (case z of Inl e \<Rightarrow> a e | Inr y \<Rightarrow> b y)"
  "(\<And>x y. acts_by part step (h x y)) \<Longrightarrow> acts_by part step (case pr of (x, y) \<Rightarrow> h x y)"
  "(\<And>x acc. acts_by part step (body x acc)) \<Longrightarrow> acts_by part step (for_each xs body acc)"
  unfolding acts_keeps by (auto intro!: keeps_intros split: prod.split)

lemma acts_db_call: "env_blind part \<Longrightarrow> acts_by part step m \<Longrightarrow> acts_by part step (db_call m)"
  unfolding acts_keeps by (intro allI keeps_db_call) (auto simp: env_free_def env_blind_def)

lemmas follows_db_call [follows_intros] = acts_db_call [OF env_blind_rides]

lemmas follows_reads [follows_intros] =
  stable_basic [where part = rides, THEN follows_stable] rides_off.off_basic(1,3,4) [THEN follows_stable]
  rides_off.off_ride_reads [THEN follows_stable] rides_off.off_table_reads [THEN follows_stable]
  rides_off.off_offers [THEN follows_stable] rides_off.off_offer_writes [THEN follows_stable]
  rides_off.off_payments [THEN follows_stable] rides_off.off_partners [THEN follows_stable]
  rides_off.off_location [THEN follows_stable] rides_off.off_outside [THEN follows_stable]
  rides_off.off_candidates [THEN follows_stable]

lemma follows_must_change [follows_intros]: "follows m \<Longrightarrow> follows (must_change e m)"
  unfolding must_change_def by (intro follows_intros)

lemma follows_find [follows_intros]: "follows (find_ride i)" "follows (find_partner u)" "follows (loadRideForPartner u i)"
  unfolding find_ride_def find_partner_def loadRideForPartner_def or_not_found_def by (intro follows_intros)+

text \<open>The statements that write a ride.\<close>

lemma follows_update:
  "(\<And>now0 r. booking (f now0 r) = booking r \<and> rdStatus (f now0 r) = rdStatus r) \<Longrightarrow>
   follows (sql_update_rides (\<lambda>r. rdID r = i) f)"
  by (auto simp: acts_by_def sql_update_rides_def intro!: ride_step.stamped)

text \<open>A guard that is narrower than the ride's identifier.\<close>

lemma follows_update_where:
  assumes "\<And>now0 r. booking (f now0 r) = booking r \<and> rdStatus (f now0 r) = rdStatus r"
  shows "follows (sql_update_rides (\<lambda>r. rdID r = i \<and> p r) f)"
proof -
  have "update_rows (\<lambda>r. rdID r = i \<and> p r) g rs = update_rows (\<lambda>r. rdID r = i) (\<lambda>r. if p r then g r else r) rs" for g rs
    by (auto simp: update_rows_def)
  then show ?thesis
    using assms by (auto simp: acts_by_def sql_update_rides_def intro!: ride_step.stamped)
qed

lemma follows_move:
  "validRideTransition old new = None \<or> old = ''scheduled'' \<and> new = ''requested'' \<Longrightarrow>
   (\<And>now0 r. booking (f now0 r) = booking r \<and> rdStatus (f now0 r) = new) \<Longrightarrow>
   follows (sql_update_rides (\<lambda>r. rdID r = i \<and> rdStatus r = old) f)"
  by (auto simp: acts_by_def sql_update_rides_def intro!: ride_step.moved)

lemma follows_lambda_if: "follows m \<Longrightarrow> follows m' \<Longrightarrow> follows (\<lambda>w. if c w then m w else m' w)"
  by (simp add: acts_by_def)

lemma follows_refused: "follows (\<lambda>w. (Inl e, w))" "follows (\<lambda>w. (Inr x, w))"
  by (simp_all add: acts_by_def)

lemma follows_writes [follows_intros]:
  "follows (ActivateScheduledRide i)" "follows (AssignRidePartner i p v h t)" "follows (SetArrivingAt i)"
  "follows (SetArrivedAt i)" "follows (SetStartedAt i)" "follows (MarkRideCancelled ci)" "follows (SetRating i n c)"
  unfolding ActivateScheduledRide_def AssignRidePartner_def SetArrivingAt_def SetArrivedAt_def SetStartedAt_def
    stamp_ride_def MarkRideCancelled_def SetRating_def
  by (intro follows_intros follows_lambda_if follows_refused follows_move follows_update; simp add: booking_def)+

lemma follows_moderation [follows_intros]:
  "follows (HideRideRating a i v)" "follows (AddPartnerResponse p i txt)"
  unfolding HideRideRating_def AddPartnerResponse_def
  by (intro follows_intros follows_update_where; simp add: booking_def)+

lemma follows_transition [follows_intros]:
  "validRideTransition old new = None \<Longrightarrow> follows (TransitionRide i old new)"
  unfolding TransitionRide_def
  by (intro follows_intros follows_lambda_if follows_refused follows_move; simp add: booking_def)

lemma follows_FinalizeRide [follows_intros]: "follows (FinalizeRide num fi)"
  unfolding FinalizeRide_def
  by (intro follows_intros)
    (auto simp: acts_by_def sql_update_rides_def booking_def intro!: ride_step.stamped split: option.split)

lemma follows_SetShareToken [follows_intros]: "follows (SetShareToken i tok :: (('v, 'r) rider, string) io)"
proof -
  let ?t = "\<lambda>r. case rwShareToken r of None \<Rightarrow> tok | Some t \<Rightarrow> t"
  let ?m = "db_call (\<lambda>w :: ('v, 'r) rider. (Inr (map_option ?t (find (\<lambda>r. rdID r = i) (rides w))),
      w\<lparr>rides := update_rows (\<lambda>r. rdID r = i) (\<lambda>r. r\<lparr>rwShareToken := Some (?t r), rdUpdatedAt := clock w\<rparr>) (rides w)\<rparr>))"
  have "follows ?m"
    by (intro follows_intros) (auto simp: acts_by_def booking_def intro!: ride_step.stamped)
  moreover have "snd (SetShareToken i tok w) = snd (?m w)" for w
    unfolding SetShareToken_def by (simp split: prod.split sum.split option.split)
  ultimately show ?thesis by (simp add: acts_by_def)
qed

lemma follows_CreateRide [follows_intros]: "follows (store_CreateRide num ci :: (('v, 'r) rider, Ride) io)"
proof -
  have "follows (sql_insert_ride num ci st :: (('v, 'r) rider, Ride) io)" if "st \<in> {''requested'', ''scheduled''}" for st
    unfolding sql_insert_ride_def
    by (intro follows_intros)
      (use that in \<open>auto simp: acts_by_def ride_of_input_def Let_def intro!: ride_step.booked split: option.split\<close>)
  then show ?thesis
    unfolding store_CreateRide_def by (intro follows_intros) (simp split: option.split)
qed

section \<open>The operations of the service\<close>

lemma follows_transitionRide [follows_intros]: "follows (transitionRide ride new kind actor reason)"
proof (cases "validRideTransition (rdStatus ride) new")
  case None
  then show ?thesis unfolding transitionRide_def by simp (intro follows_intros)
qed (simp add: transitionRide_def follows_reads)

lemma follows_booking [follows_intros]:
  "follows (ride_estimate sv req)" "follows (announce_ride sv ride)" "follows (CreateRide sv u req)"
  "follows (activatePass sv)"
  unfolding ride_estimate_def EstimateFare_def announce_ride_def CreateRide_def activatePass_def Let_def
  by (intro follows_intros)+

lemma follows_matching [follows_intros]: "follows (send_offer sv i t sc n)" "follows (MatchRide sv i opts)"
  unfolding send_offer_def MatchRide_def Let_def by (intro follows_intros)+

lemma follows_otp [follows_intros]: "follows generateOTPAndHash"
  unfolding generateOTPAndHash_def GenerateFromPassword_def by (intro follows_intros)

lemma follows_offers [follows_intros]:
  "follows (AcceptOffer sv u i)" "follows (ListIncomingOffers u)" "follows (RejectOffer sv u i reason)"
  "follows ExpireStaleOffers" "follows (ExpireStaleRides t)" "follows (TransitionRideForJob i target reason)"
  unfolding AcceptOffer_def assign_ride_def announce_assignment_def decide_offer_def ListIncomingOffers_def RejectOffer_def or_not_found_def ExpireStaleOffers_def
    ExpireStaleRides_def TransitionRideForJob_def Let_def
  by (intro follows_intros)+

lemma follows_way [follows_intros]:
  "follows (MarkArriving sv u i)" "follows (MarkArrived sv u i)" "follows (StartRide sv u i code0)"
  unfolding MarkArriving_def MarkArrived_def StartRide_def start_verified_def by (intro follows_intros)+

lemma follows_settle [follows_intros]: "follows (settle_ride sv method0 u paise pay)"
  unfolding settle_ride_def by (intro follows_intros)

lemma follows_complete [follows_intros]: "follows (CompleteRide sv u i creq)"
  unfolding CompleteRide_def complete_fresh_def bill_ride_def Let_def by (intro follows_intros)

lemma follows_cancel [follows_intros]:
  "follows (may_cancel ride u by0)" "follows (charge_fee sv ride u i by0 fee key)" "follows (CancelRide sv u i by0 cnr)"
  "follows (AdminCancelRide sv i u reason)" "follows (MarkRideNoShow sv u i reason)"
  unfolding may_cancel_def charge_fee_def CancelRide_def book_cancellation_def AdminCancelRide_def MarkRideNoShow_def Let_def
  by (intro follows_intros)+

lemma follows_after [follows_intros]:
  "follows (GetRide u i)" "follows (ListMyRides u n)" "follows (RateRide u i rrq)" "follows (ShareRide u i url)"
  "follows (AdminHideRideRating u i vis)" "follows (PartnerRespondToRating u i txt)"
  "follows (UpdateLocation sv u ulr)" "follows (GoOffline sv u)"
  unfolding GetRide_def ListMyRides_def RateRide_def AdminHideRideRating_def PartnerRespondToRating_def ShareRide_def UpdateLocation_def GoOffline_def Let_def
  by (intro follows_intros)+

section \<open>The service as a whole\<close>

text \<open>One request, pass of a worker or call of the admin console after the other; \<open>elsewhere\<close> is
  whatever leaves the table of rides alone: time, the network, the wallet, partners, plans and cities.\<close>

inductive rider_step :: "('v, 'r) RiderService \<Rightarrow> ('v, 'r) rider \<Rightarrow> ('v, 'r) rider \<Rightarrow> bool" for sv where
  create: "rider_step sv w (snd (CreateRide sv u req w))"
| activate: "rider_step sv w (snd (activatePass sv w))"
| match: "rider_step sv w (snd (MatchRide sv i opts w))"
| accept: "rider_step sv w (snd (AcceptOffer sv u i w))"
| reject: "rider_step sv w (snd (RejectOffer sv u i reason w))"
| expire_offers: "rider_step sv w (snd (ExpireStaleOffers w))"
| expire_rides: "rider_step sv w (snd (ExpireStaleRides t w))"
| job: "rider_step sv w (snd (TransitionRideForJob i target reason w))"
| arriving: "rider_step sv w (snd (MarkArriving sv u i w))"
| arrived: "rider_step sv w (snd (MarkArrived sv u i w))"
| start: "rider_step sv w (snd (StartRide sv u i code0 w))"
| complete: "rider_step sv w (snd (CompleteRide sv u i creq w))"
| cancel: "rider_step sv w (snd (CancelRide sv u i by0 cnr w))"
| admin_cancel: "rider_step sv w (snd (AdminCancelRide sv i u reason w))"
| no_show: "rider_step sv w (snd (MarkRideNoShow sv u i reason w))"
| rate: "rider_step sv w (snd (RateRide u i rrq w))"
| moderate: "rider_step sv w (snd (AdminHideRideRating u i vis w))"
| respond: "rider_step sv w (snd (PartnerRespondToRating u i txt w))"
| share: "rider_step sv w (snd (ShareRide u i url w))"
| location: "rider_step sv w (snd (UpdateLocation sv u ulr w))"
| offline: "rider_step sv w (snd (GoOffline sv u w))"
| elsewhere: "rides w' = rides w \<Longrightarrow> rider_step sv w w'"

lemma followsD: "follows m \<Longrightarrow> ride_run (rides w) (rides (snd (m w)))"
  by (simp add: acts_by_def)

lemma rider_step_runs: "rider_step sv w w' \<Longrightarrow> ride_run (rides w) (rides w')"
  by (cases rule: rider_step.cases, assumption) (auto intro!: followsD follows_intros)

lemma rider_steps_run: "(rider_step sv)\<^sup>*\<^sup>* w w' \<Longrightarrow> ride_run (rides w) (rides w')"
  by (induction rule: rtranclp_induct) (auto dest: rider_step_runs intro: rtranclp_trans)

text \<open>every request, worker pass and admin action, whatever the database's network, Redis and the
  wallet do in it, and any sequence of them, acts on the table of rides as a run of the machine
  \<open>ride_step\<close>: it books new rides, moves a ride along the table of transitions, or stamps
  columns other than booking and status.\<close>

theorem rider_runs_the_machine:
  assumes "(rider_step sv)\<^sup>*\<^sup>* w w'"
  shows "ride_run (rides w) (rides w')"
  using assms by (rule rider_steps_run)

section \<open>What the machine keeps\<close>

definition ride_edge :: "string \<Rightarrow> string \<Rightarrow> bool" where
  "ride_edge old new \<longleftrightarrow> validRideTransition old new = None \<or> old = ''scheduled'' \<and> new = ''requested''"

definition distinct_rides :: "ride_row list \<Rightarrow> bool" where
  "distinct_rides rs \<longleftrightarrow> distinct (map rdID rs)"

lemma booking_id: "booking r = booking r' \<Longrightarrow> rdID r = rdID r'"
  by (simp add: booking_def)

lemma update_rows_member: "r \<in> set rs \<Longrightarrow> (if c r then f r else r) \<in> set (update_rows c f rs)"
  by (auto simp: update_rows_def)

lemma ride_step_row:
  "ride_step rs rs' \<Longrightarrow> r \<in> set rs \<Longrightarrow>
     \<exists>r' \<in> set rs'. booking r' = booking r \<and> ride_edge\<^sup>*\<^sup>* (rdStatus r) (rdStatus r')"
proof (induction rule: ride_step.induct)
  case (booked r0 rs)
  then show ?case by auto
next
  case (moved old new f rs i)
  from moved(1) have "ride_edge old new" by (simp add: ride_edge_def)
  then show ?case
    using moved(2) by (intro bexI [OF _ update_rows_member [OF moved(3)]]) auto
next
  case (stamped f rs i)
  then show ?case by (intro bexI [OF _ update_rows_member [OF stamped(2)]]) auto
qed

lemma ride_step_distinct: "ride_step rs rs' \<Longrightarrow> distinct_rides rs \<Longrightarrow> distinct_rides rs'"
proof (induction rule: ride_step.induct)
  case (booked r rs)
  then show ?case by (auto simp: distinct_rides_def)
next
  case (moved old new f rs i)
  have "map rdID (update_rows (\<lambda>r. rdID r = i \<and> rdStatus r = old) f rs) = map rdID rs"
    using moved(2) by (auto simp: update_rows_def dest: booking_id)
  with moved(3) show ?case by (simp add: distinct_rides_def)
next
  case (stamped f rs i)
  have "map rdID (update_rows (\<lambda>r. rdID r = i) f rs) = map rdID rs"
    using stamped(1) by (auto simp: update_rows_def dest: booking_id)
  with stamped(2) show ?case by (simp add: distinct_rides_def)
qed

lemma ride_run_row:
  "ride_run rs rs' \<Longrightarrow> r \<in> set rs \<Longrightarrow> distinct_rides rs \<Longrightarrow>
     distinct_rides rs' \<and> (\<exists>r' \<in> set rs'. booking r' = booking r \<and> ride_edge\<^sup>*\<^sup>* (rdStatus r) (rdStatus r'))"
proof (induction rule: rtranclp_induct)
  case (step rs1 rs2)
  then obtain r1 where r1: "r1 \<in> set rs1" "booking r1 = booking r" "ride_edge\<^sup>*\<^sup>* (rdStatus r) (rdStatus r1)"
    by blast
  obtain r2 where "r2 \<in> set rs2" "booking r2 = booking r1" "ride_edge\<^sup>*\<^sup>* (rdStatus r1) (rdStatus r2)"
    using ride_step_row [OF step(2) r1(1)] by blast
  with r1 step ride_step_distinct [OF step(2)] show ?case by (metis rtranclp_trans)
qed auto

text \<open>A ride that is over stays as it is.\<close>

definition ride_over :: "string \<Rightarrow> bool" where
  "ride_over st \<longleftrightarrow> st \<noteq> ''scheduled'' \<and> allowedRideTransitions st = None"

lemma over_statuses:
  "ride_over ''completed'' \<and> ride_over ''cancelled_by_customer'' \<and> ride_over ''cancelled_by_partner''
   \<and> ride_over ''cancelled_by_admin'' \<and> ride_over ''expired'' \<and> ride_over ''failed''"
  by (simp add: ride_over_def allowedRideTransitions_def)

lemma over_edge: "ride_edge\<^sup>*\<^sup>* old new \<Longrightarrow> ride_over old \<Longrightarrow> new = old"
  by (induction rule: rtranclp_induct) (auto simp: ride_over_def ride_edge_def validRideTransition_def split: if_splits)

text \<open>C11: whatever is asked of the service, in whatever order and with whatever failures, the ids of
  rides stay distinct, no ride disappears, and no booking (customer, city, addresses, estimate, method
  of payment) changes; the status of a ride only moves along the table of transitions, and a ride that
  is completed, cancelled, expired or failed keeps that status for good.\<close>

theorem ride_lifecycle:
  assumes "(rider_step sv)\<^sup>*\<^sup>* w w'" and "distinct_rides (rides w)" and "r \<in> set (rides w)"
  shows "distinct_rides (rides w') \<and> (\<exists>r' \<in> set (rides w'). booking r' = booking r
     \<and> ride_edge\<^sup>*\<^sup>* (rdStatus r) (rdStatus r') \<and> (ride_over (rdStatus r) \<longrightarrow> rdStatus r' = rdStatus r))"
proof -
  have "ride_run (rides w) (rides w')" using assms(1) by (rule rider_steps_run)
  from ride_run_row [OF this assms(3,2)] over_edge show ?thesis by blast
qed

end
