(* ===== verification/Rider_Behaviour.thy ===== *)
theory Rider_Behaviour
  imports Rider_Machine
begin

text \<open>
  What the operations on a ride do and when: who can start a ride and with which code, what accepting an
  offer leaves behind, what completing and cancelling a ride record, and where the code falls short of
  what it means to do. The lemmas on \<open>effective\<close> follow an operation through its guards, whatever
  the network does: one that changes the rides or answers without an error has passed each of them.
\<close>

section \<open>Following an operation through its guards\<close>

definition effective :: "('s \<Rightarrow> 'k) \<Rightarrow> 's \<Rightarrow> goerr + 'a \<Rightarrow> 's \<Rightarrow> bool" where
  "effective part w r w' \<longleftrightarrow> part w' \<noteq> part w \<or> (\<exists>x. r = Inr x)"

lemma andThen_effective:
  assumes "andThen m f w = (r, w')" "effective part w r w'" "stable part m"
  obtains x w1 where "m w = (Inr x, w1)" "f x w1 = (r, w')" "effective part w1 r w'" "part w1 = part w"
proof -
  obtain r1 w1 where m: "m w = (r1, w1)" by force
  have part: "part w1 = part w" using stableD [OF assms(3) m] .
  show ?thesis
  proof (cases r1)
    case (Inl e)
    with assms(1,2) m part show ?thesis by (auto simp: andThen_def effective_def)
  next
    case (Inr x)
    with assms(1,2) m part show ?thesis by (intro that [of x w1]) (auto simp: andThen_def effective_def)
  qed
qed

lemma require_effective:
  assumes "require c e m w = (r, w')" "effective part w r w'"
  obtains "c" "m w = (r, w')"
  using assms by (auto simp: require_def fail_def effective_def split: if_splits)

lemma get_effective:
  assumes "andThen (get f) k w = (r, w')"
  shows "k (f w) w = (r, w')"
  using assms by (simp add: andThen_get)

text \<open>A query that answers has changed the network at most.\<close>

definition only_net :: "'z env_scheme \<Rightarrow> 'z env_scheme \<Rightarrow> bool" where
  "only_net w w' \<longleftrightarrow> (\<exists>ns. w' = w\<lparr>net := ns\<rparr>)"

lemma only_net_trans: "only_net w w1 \<Longrightarrow> only_net w1 w2 \<Longrightarrow> only_net w w2"
  by (auto simp: only_net_def)

lemma only_net_blind: "only_net w w' \<Longrightarrow> env_blind part \<Longrightarrow> part w' = part w"
  by (auto simp: only_net_def env_blind_def)

lemma get_InrE:
  assumes "db_call (get q) w = (Inr x, w')" "env_blind q"
  shows "x = q w \<and> only_net w w'"
proof -
  obtain ns where "get q (w\<lparr>net := ns\<rparr>) = (Inr x, w')" using assms(1) by (rule db_call_InrE)
  with assms(2) show ?thesis by (auto simp: get_def only_net_def env_blind_def)
qed

lemma query_row_InrE:
  assumes "query_row q e w = (Inr x, w')" "env_blind q"
  shows "q w = Some x \<and> only_net w w'"
proof -
  obtain y w1 where y: "db_call (get q) w = (Inr y, w1)" and c: "(case y of None \<Rightarrow> fail e | Some x \<Rightarrow> ok x) w1 = (Inr x, w')"
    using assms(1) unfolding query_row_def by (rule andThen_InrE)
  from get_InrE [OF y assms(2)] c show ?thesis by (auto simp: fail_def ok_def split: option.splits)
qed

lemma or_not_found_InrE: "or_not_found e msg m w = (Inr x, w') \<Longrightarrow> m w = (Inr x, w')"
  by (auto simp: or_not_found_def go_simps split: prod.splits sum.splits)

lemma find_ride_InrE:
  assumes "find_ride i w = (Inr ride, w')"
  obtains row where "find (\<lambda>r. rdID r = i) (rides w) = Some row" "ride = Ride.truncate row" "only_net w w'"
proof -
  have "query_row (\<lambda>w. map_option Ride.truncate (find (\<lambda>r. rdID r = i) (rides w))) ErrRideNotFound w = (Inr ride, w')"
    using or_not_found_InrE [OF assms [unfolded find_ride_def]] by (simp add: store_GetRide_def)
  from query_row_InrE [OF this] that show ?thesis by (auto simp: env_blind_def)
qed

lemma find_partner_InrE:
  assumes "find_partner u w = (Inr p, w')"
  obtains row where "find (\<lambda>p. ptUserID p = u \<and> pwDeletedAt p = None) (ride_partners w) = Some row"
    "p = Partner.truncate row" "only_net w w'"
proof -
  have "query_row (\<lambda>w. map_option Partner.truncate (find (\<lambda>p. ptUserID p = u \<and> pwDeletedAt p = None) (ride_partners w)))
      ErrPartnerNotFound w = (Inr p, w')"
    using or_not_found_InrE [OF assms [unfolded find_partner_def]] by (simp add: GetPartnerByUserID_def)
  from query_row_InrE [OF this] that show ?thesis by (auto simp: env_blind_def)
qed

text \<open>The ride of an id, and the partner a user is.\<close>

definition the_ride :: "uuid \<Rightarrow> ('v, 'r) rider \<Rightarrow> ride_row option" where
  "the_ride i w = find (\<lambda>r. rdID r = i) (rides w)"

definition the_partner :: "uuid \<Rightarrow> ('v, 'r) rider \<Rightarrow> partner_row option" where
  "the_partner u w = find (\<lambda>p. ptUserID p = u \<and> pwDeletedAt p = None) (ride_partners w)"

lemma blind_finds [simp]: "env_blind (the_ride i)" "env_blind (the_partner u)"
  by (simp_all add: env_blind_def the_ride_def the_partner_def)

lemma ride_truncate [simp]:
  "rdID (Ride.truncate r) = rdID r" "rdStatus (Ride.truncate r) = rdStatus r" "rdPartnerID (Ride.truncate r) = rdPartnerID r"
  "rdCustomerUserID (Ride.truncate r) = rdCustomerUserID r" "rdCityID (Ride.truncate r) = rdCityID r"
  "rdVehicleType (Ride.truncate r) = rdVehicleType r" "rdEstimatedFare (Ride.truncate r) = rdEstimatedFare r"
  "rdPaymentMethod (Ride.truncate r) = rdPaymentMethod r" "ptID (Partner.truncate p) = ptID p"
  "ptUserID (Partner.truncate p) = ptUserID p"
  by (simp_all add: Ride.truncate_def Partner.truncate_def)

lemma loadRideForPartner_InrE:
  assumes "loadRideForPartner u i w = (Inr x, w')"
  obtains row prow where "the_ride i w = Some row" "the_partner u w = Some prow"
    "x = (Ride.truncate row, Partner.truncate prow)" "rdPartnerID row = Some (ptID prow)" "only_net w w'"
proof -
  obtain ride w1 where 1: "find_ride i w = (Inr ride, w1)"
    and rest: "andThen (find_partner u) (\<lambda>p. require (rdPartnerID ride = Some (ptID p))
      (Errorf ''forbidden: ride not assigned to this partner'') (ok (ride, p))) w1 = (Inr x, w')"
    using assms unfolding loadRideForPartner_def by (rule andThen_InrE)
  obtain q w2 where 2: "find_partner u w1 = (Inr q, w2)"
    and 3: "require (rdPartnerID ride = Some (ptID q)) (Errorf ''forbidden: ride not assigned to this partner'') (ok (ride, q)) w2
      = (Inr x, w')"
    using rest by (rule andThen_InrE)
  from 3 have eq: "rdPartnerID ride = Some (ptID q)" "x = (ride, q)" "w' = w2"
    by (auto simp: require_def ok_def fail_def split: if_splits)
  obtain row where row: "the_ride i w = Some row" "ride = Ride.truncate row" "only_net w w1"
    using find_ride_InrE [OF 1] unfolding the_ride_def .
  obtain prow where p: "the_partner u w1 = Some prow" "q = Partner.truncate prow" "only_net w1 w2"
    using find_partner_InrE [OF 2] unfolding the_partner_def .
  from p(1) only_net_blind [OF row(3) blind_finds(2)] have "the_partner u w = Some prow" by simp
  with row p eq only_net_trans [OF row(3) p(3)] show ?thesis by (intro that) auto
qed

section \<open>Updates that answer\<close>

definition set_status :: "string \<Rightarrow> int \<Rightarrow> ride_row \<Rightarrow> ride_row" where
  "set_status new now0 r = r\<lparr>rdStatus := new, rdUpdatedAt := now0\<rparr>"

definition hit :: "(ride_row \<Rightarrow> bool) \<Rightarrow> ('v, 'r) rider \<Rightarrow> bool" where
  "hit c w \<longleftrightarrow> (\<exists>r \<in> set (rides w). c r)"

lemma must_update_InrE:
  assumes "must_change e (wrapErr l (db_call (sql_update_rides c f))) w = (Inr u, w')"
  shows "hit c w \<and> (\<exists>ns. w' = w\<lparr>net := ns, rides := update_rows c (f (clock w)) (rides w)\<rparr>)"
proof -
  obtain n w1 where 1: "wrapErr l (db_call (sql_update_rides c f)) w = (Inr n, w1)" and 2: "require (n \<noteq> 0) e (ok ()) w1 = (Inr u, w')"
    using assms unfolding must_change_def by (rule andThen_InrE)
  from 1 have "db_call (sql_update_rides c f) w = (Inr n, w1)" by (auto simp: wrapErr_def split: prod.splits sum.splits)
  then obtain ns where "sql_update_rides c f (w\<lparr>net := ns\<rparr>) = (Inr n, w1)" by (rule db_call_InrE)
  with 2 show ?thesis
    by (auto simp: sql_update_rides_def hit_def require_def ok_def fail_def filter_empty_conv split: if_splits)
qed

lemma stamp_InrE:
  assumes "stamp_ride i f w = (Inr u, w')"
  shows "rides w' = update_rows (\<lambda>r. rdID r = i) (\<lambda>r. (f (clock w) r)\<lparr>rdUpdatedAt := clock w\<rparr>) (rides w) \<and> clock w' = clock w"
proof -
  obtain n w1 where 1: "db_call (sql_update_rides (\<lambda>r. rdID r = i) (\<lambda>now0 r. (f now0 r)\<lparr>rdUpdatedAt := now0\<rparr>)) w = (Inr n, w1)"
    and 2: "ok () w1 = (Inr u, w')"
    using assms unfolding stamp_ride_def by (rule andThen_InrE)
  from 1 2 show ?thesis by (auto simp: sql_update_rides_def ok_def elim!: db_call_InrE)
qed

lemma TransitionRide_InrE:
  assumes "TransitionRide i old new w = (Inr u, w')"
  shows "hit (\<lambda>r. rdID r = i \<and> rdStatus r = old) w \<and> (\<exists>ns. w' = w\<lparr>net := ns,
    rides := update_rows (\<lambda>r. rdID r = i \<and> rdStatus r = old) (set_status new (clock w)) (rides w)\<rparr>)"
proof (cases "old \<notin> set rider_ride_status \<or> new \<notin> set rider_ride_status")
  case True
  then have "\<nexists>n w2. db_call (\<lambda>w. (Inl (sqlstate ''22P02''), w)) w = (Inr (n :: nat), w2)"
    by (auto elim: db_call_InrE)
  with assms True show ?thesis
    by (auto simp: TransitionRide_def must_change_def go_simps split: prod.splits sum.splits)
next
  case False
  with assms show ?thesis
    using must_update_InrE [where f = "\<lambda>now0 r. r\<lparr>rdStatus := new, rdUpdatedAt := now0\<rparr>"]
    by (simp add: TransitionRide_def set_status_def [abs_def])
qed

text \<open>What the rest of an operation, its log entries and messages, cannot touch.\<close>

definition ride_tables :: "('v, 'r) rider \<Rightarrow> ride_row list \<times> offer_row list \<times> RidePayment list \<times> int" where
  "ride_tables w = (rides w, ride_offers w, ride_payments w, clock w)"

lemma ride_tables_blind [simp]: "env_blind ride_tables"
  by (simp add: env_blind_def ride_tables_def)

lemma ride_tables_eq: "ride_tables w' = ride_tables w \<longleftrightarrow>
  rides w' = rides w \<and> ride_offers w' = ride_offers w \<and> ride_payments w' = ride_payments w \<and> clock w' = clock w"
  by (simp add: ride_tables_def)

lemma tables_db [stable_intros]: "stable ride_tables m \<Longrightarrow> stable ride_tables (db_call m)"
  by (rule stable_db_call [OF ride_tables_blind])

lemma tables_messages [stable_intros]:
  "stable ride_tables (AppendStatusHistory i old new kind actor reason)" "stable ride_tables (rider_publish ev)"
  "stable ride_tables (publishRealtime sv t e d)" "stable ride_tables (rider_emit sv t e d)"
  "stable ride_tables (IncrementSubscriptionLeadsUsed p)" "stable ride_tables (IncrementPartnerCompleted p)"
  "stable ride_tables (IncrementPartnerCancelled p)" "stable ride_tables (RecordRideKey k u opn res body)"
  "stable ride_tables (on_rider_wallet m)"
proof -
  have 1: "stable ride_tables gen_random_uuid" by (rule stable_gen_random_uuid [OF ride_tables_blind])
  show "stable ride_tables (AppendStatusHistory i old new kind actor reason)"
    unfolding AppendStatusHistory_def sql_insert_history_def
    by (intro stable_intros 1) (simp add: stable_def ride_tables_def)
  show "stable ride_tables (rider_publish ev)" "stable ride_tables (publishRealtime sv t e d)" "stable ride_tables (rider_emit sv t e d)"
    unfolding rider_publish_def publishRealtime_def rider_emit_def
    by (intro stable_intros; simp add: stable_def modify_def ride_tables_def)+
  show "stable ride_tables (IncrementSubscriptionLeadsUsed p)" "stable ride_tables (IncrementPartnerCompleted p)"
    "stable ride_tables (IncrementPartnerCancelled p)" "stable ride_tables (RecordRideKey k u opn res body)"
    unfolding IncrementSubscriptionLeadsUsed_def IncrementPartnerCompleted_def IncrementPartnerCancelled_def RecordRideKey_def
      sql_bump_partner_def
    by (intro stable_intros; simp add: stable_def ride_tables_def split: option.split)+
  show "stable ride_tables (on_rider_wallet m)"
    by (auto intro!: stableI simp: on_rider_wallet_def ride_tables_def split: prod.splits)
qed

lemma transitionRide_InrE:
  assumes "transitionRide ride new kind actor reason w = (Inr ride', w')"
  shows "validRideTransition (rdStatus ride) new = None \<and> ride' = ride\<lparr>rdStatus := new\<rparr>
    \<and> hit (\<lambda>r. rdID r = rdID ride \<and> rdStatus r = rdStatus ride) w
    \<and> rides w' = update_rows (\<lambda>r. rdID r = rdID ride \<and> rdStatus r = rdStatus ride) (set_status new (clock w)) (rides w)
    \<and> ride_offers w' = ride_offers w \<and> ride_payments w' = ride_payments w \<and> clock w' = clock w"
proof -
  have v: "validRideTransition (rdStatus ride) new = None"
    using assms by (auto simp: transitionRide_def fail_def split: option.splits)
  let ?log = "logged (AppendStatusHistory (rdID ride) (Some (rdStatus ride)) new kind actor reason)"
  obtain u w1 where t: "TransitionRide (rdID ride) (rdStatus ride) new w = (Inr u, w1)"
    and l: "andThen ?log (\<lambda>_. ok (ride\<lparr>rdStatus := new\<rparr>)) w1 = (Inr ride', w')"
    using assms v by (auto simp: transitionRide_def attempt_def fail_def split: prod.splits sum.splits)
  from l obtain y w2 where l2: "?log w1 = (Inr y, w2)" "ride' = ride\<lparr>rdStatus := new\<rparr>" "w' = w2"
    by (auto simp: ok_def elim: andThen_InrE)
  have "stable ride_tables ?log" by (intro stable_intros)
  from stableD [OF this l2(1)] TransitionRide_InrE [OF t] v l2 show ?thesis by (auto simp: ride_tables_eq)
qed

section \<open>Starting a ride\<close>

lemma valid_edges:
  assumes "validRideTransition old new = None"
  shows "(new = ''otp_verified'' \<longrightarrow> old = ''arrived'') \<and> (new = ''in_progress'' \<longrightarrow> old = ''otp_verified'')
    \<and> (new = ''partner_assigned'' \<longrightarrow> old = ''searching_partner'') \<and> (new = ''completed'' \<longrightarrow> old = ''in_progress'')"
    (is "?P old new")
proof -
  obtain xs where xs: "allowedRideTransitions old = Some xs" "new \<in> set xs"
    using assms by (auto simp: validRideTransition_def split: if_splits option.splits)
  define table where "table = [(''requested'', [''searching_partner'', ''cancelled_by_customer'', ''cancelled_by_admin'', ''expired'', ''failed'']),
      (''searching_partner'', [''partner_assigned'', ''cancelled_by_customer'', ''cancelled_by_admin'', ''expired'', ''failed'']),
      (''partner_assigned'', [''partner_arriving'', ''cancelled_by_customer'', ''cancelled_by_partner'', ''cancelled_by_admin'', ''failed'']),
      (''partner_arriving'', [''arrived'', ''cancelled_by_customer'', ''cancelled_by_partner'', ''cancelled_by_admin'', ''failed'']),
      (''arrived'', [''otp_verified'', ''cancelled_by_customer'', ''cancelled_by_partner'', ''cancelled_by_admin'', ''failed'']),
      (''otp_verified'', [''in_progress'', ''failed'']),
      (''in_progress'', [''completed'', ''cancelled_by_customer'', ''cancelled_by_partner'', ''cancelled_by_admin'', ''failed''])]"
  have "(old, xs) \<in> set table"
    using xs(1) unfolding allowedRideTransitions_def table_def by (rule map_of_SomeD)
  moreover have "list_all (\<lambda>(a, bs). list_all (\<lambda>b. ?P a b) bs) table"
    unfolding table_def by code_simp
  ultimately show ?thesis using xs(2) by (auto simp: list_all_iff)
qed

lemma distinct_ids_eq: "distinct_rides rs \<Longrightarrow> r \<in> set rs \<Longrightarrow> r' \<in> set rs \<Longrightarrow> rdID r = rdID r' \<Longrightarrow> r = r'"
  unfolding distinct_rides_def distinct_map by (meson inj_onD)

lemma the_ride_SomeD: "the_ride i w = Some r \<Longrightarrow> r \<in> set (rides w) \<and> rdID r = i"
  by (auto simp: the_ride_def find_Some_iff)

text \<open>When ids are distinct, the guard on the status of one row can be left out.\<close>

lemma update_guarded:
  assumes "distinct_rides (rides w)" "the_ride i w = Some row" "c row"
  shows "update_rows (\<lambda>r. rdID r = i \<and> c r) f (rides w) = update_rows (\<lambda>r. rdID r = i) f (rides w)"
proof -
  have "c r" if "r \<in> set (rides w)" "rdID r = i" for r
    using distinct_ids_eq [OF assms(1) that(1)] the_ride_SomeD [OF assms(2)] that(2) assms(3) by metis
  then show ?thesis by (simp add: update_rows_def)
qed

lemma GetRideWithOTP_InrE:
  assumes "GetRideWithOTP i w = (Inr y, w')"
  obtains row where "the_ride i w = Some row" "y = (Ride.truncate row, rwOTPHash row, rdOTPExpiresAt row)" "only_net w w'"
  using query_row_InrE [OF assms [unfolded GetRideWithOTP_def]] that by (auto simp: env_blind_def the_ride_def)

lemma only_net_tables: "only_net w w' \<Longrightarrow> ride_tables w' = ride_tables w"
  by (rule only_net_blind) simp_all

lemma check_otp_None:
  "check_otp h t now0 code0 = None \<longleftrightarrow> (\<exists>x. h = Some x \<and> x \<noteq> [] \<and> (\<forall>e. t = Some e \<longrightarrow> now0 \<le> e)
     \<and> CompareHashAndPassword x (trim_space code0) = None)"
  by (auto simp: check_otp_def split: option.splits if_splits)

lemma stable_find_partner_ride:
  "stable rides (find_ride i)" "stable rides (find_partner u)" "stable rides (loadRideForPartner u i)"
  unfolding find_ride_def find_partner_def loadRideForPartner_def or_not_found_def
  by (intro stable_intros; blast)+

lemma StartRide_guards:
  assumes "StartRide sv u i code0 w = (r, w')" "effective rides w r w'"
  obtains row p h w1 where "the_ride i w = Some row" "the_partner u w = Some p" "rdPartnerID row = Some (ptID p)"
    "rwOTPHash row = Some h" "\<forall>t. rdOTPExpiresAt row = Some t \<longrightarrow> clock w \<le> t"
    "CompareHashAndPassword h (trim_space code0) = None" "only_net w w1" "effective rides w1 r w'"
    "start_verified sv i (Ride.truncate row) (Partner.truncate p) w1 = (r, w')"
proof -
  let ?check = "\<lambda>ride partner (_, otpHash, otpExpiry). andThen (get clock) (\<lambda>now0. case check_otp otpHash otpExpiry now0 code0 of
      Some e \<Rightarrow> fail e | None \<Rightarrow> start_verified sv i ride partner)"
  have "andThen (loadRideForPartner u i) (\<lambda>(ride, partner). andThen (GetRideWithOTP i) (?check ride partner)) w = (r, w')"
    using assms(1,2) unfolding StartRide_def by (rule require_effective)
  then obtain x w1 where 1: "loadRideForPartner u i w = (Inr x, w1)" "effective rides w1 r w'"
    "(\<lambda>(ride, partner). andThen (GetRideWithOTP i) (?check ride partner)) x w1 = (r, w')"
    using assms(2) stable_find_partner_ride(3) by (rule andThen_effective)
  obtain row p where row: "the_ride i w = Some row" "x = (Ride.truncate row, Partner.truncate p)"
    "the_partner u w = Some p" "rdPartnerID row = Some (ptID p)" "only_net w w1"
    using loadRideForPartner_InrE [OF 1(1)] by metis
  have "andThen (GetRideWithOTP i) (?check (Ride.truncate row) (Partner.truncate p)) w1 = (r, w')"
    using 1(3) row(2) by simp
  then obtain y w2 where 2: "GetRideWithOTP i w1 = (Inr y, w2)" "effective rides w2 r w'"
    "?check (Ride.truncate row) (Partner.truncate p) y w2 = (r, w')"
    using 1(2) rides_off.off_ride_reads(5) by (rule andThen_effective)
  obtain row' where row': "the_ride i w1 = Some row'" "y = (Ride.truncate row', rwOTPHash row', rdOTPExpiresAt row')" "only_net w1 w2"
    using GetRideWithOTP_InrE [OF 2(1)] by metis
  have "row' = row" using row'(1) row(1) only_net_blind [OF row(5) blind_finds(1)] by simp
  have net: "only_net w w2" using row(5) row'(3) by (rule only_net_trans)
  have "(case check_otp (rwOTPHash row) (rdOTPExpiresAt row) (clock w) code0 of Some e \<Rightarrow> fail e
      | None \<Rightarrow> start_verified sv i (Ride.truncate row) (Partner.truncate p)) w2 = (r, w')"
    using 2(3) row'(2) \<open>row' = row\<close> only_net_tables [OF net]
    by (simp add: andThen_get ride_tables_eq)
  moreover from this 2(2) have ok: "check_otp (rwOTPHash row) (rdOTPExpiresAt row) (clock w) code0 = None"
    by (auto simp: fail_def effective_def split: option.splits)
  ultimately have "start_verified sv i (Ride.truncate row) (Partner.truncate p) w2 = (r, w')" by simp
  with ok row net 2(2) that show thesis by (auto simp: check_otp_None)
qed

lemma transition_effective:
  assumes "andThen (transitionRide ride new kind actor reason) f w = (r, w')" "effective part w r w'"
  shows "validRideTransition (rdStatus ride) new = None"
proof (rule ccontr)
  assume "validRideTransition (rdStatus ride) new \<noteq> None"
  then obtain e where "transitionRide ride new kind actor reason w = (Inl e, w)" by (auto simp: transitionRide_def fail_def)
  with assms show False by (auto simp: andThen_def effective_def)
qed

text \<open>C18: whatever the network does, a call of StartRide that changes any ride, or answers without an error,
  comes from the user whose partner is assigned to a ride that has arrived, with a code that matches the
  hash on the ride and has not expired; when it answers without an error, that ride, and no other, is in
  progress and started now.\<close>

theorem start_needs_the_code:
  assumes "StartRide sv u i code0 w = (r, w')" "effective rides w r w'" "distinct_rides (rides w)"
  shows "\<exists>row p h. the_ride i w = Some row \<and> the_partner u w = Some p \<and> rdPartnerID row = Some (ptID p)
    \<and> rdStatus row = ''arrived'' \<and> rwOTPHash row = Some h \<and> (\<forall>t. rdOTPExpiresAt row = Some t \<longrightarrow> clock w \<le> t)
    \<and> CompareHashAndPassword h (trim_space code0) = None
    \<and> (r = Inr () \<longrightarrow> rides w' = update_rows (\<lambda>r. rdID r = i)
        (\<lambda>r. r\<lparr>rdStatus := ''in_progress'', rwStartedAt := Some (clock w), rdUpdatedAt := clock w\<rparr>) (rides w))"
proof -
  obtain row p h w1 where row: "the_ride i w = Some row" "the_partner u w = Some p" "rdPartnerID row = Some (ptID p)"
    "rwOTPHash row = Some h" "\<forall>t. rdOTPExpiresAt row = Some t \<longrightarrow> clock w \<le> t"
    "CompareHashAndPassword h (trim_space code0) = None" "only_net w w1" "effective rides w1 r w'"
    and run: "start_verified sv i (Ride.truncate row) (Partner.truncate p) w1 = (r, w')"
    using StartRide_guards [OF assms(1,2)] .
  have w1: "rides w1 = rides w" "clock w1 = clock w" using only_net_tables [OF row(7)] by (simp_all add: ride_tables_eq)
  have "validRideTransition (rdStatus row) ''otp_verified'' = None"
    using transition_effective [OF run [unfolded start_verified_def] row(8)] by simp
  from valid_edges [OF this] have arrived: "rdStatus row = ''arrived''" by simp
  have "rides w' = update_rows (\<lambda>r. rdID r = i)
        (\<lambda>r. r\<lparr>rdStatus := ''in_progress'', rwStartedAt := Some (clock w), rdUpdatedAt := clock w\<rparr>) (rides w)" if "r = Inr ()"
  proof -
    have i: "rdID row = i" using the_ride_SomeD [OF row(1)] by simp
    let ?pub = "\<lambda>ride. andThen (rider_publish (PublishRideStarted i (rdCustomerUserID ride) (ptID p))) (\<lambda>_.
        publishRealtime sv (ride_topic i) ''rider.ride.started'' (RideFrame ride))"
    have run: "andThen (transitionRide (Ride.truncate row) ''otp_verified'' ''partner'' (Some (ptUserID p)) None) (\<lambda>ride.
        andThen (wrapErr ''set started'' (SetStartedAt i)) (\<lambda>_.
        andThen (transitionRide ride ''in_progress'' ''partner'' (Some (ptUserID p)) None) ?pub)) w1 = (Inr (), w')"
      using run that by (simp add: start_verified_def)
    obtain r2 w2 where t1: "transitionRide (Ride.truncate row) ''otp_verified'' ''partner'' (Some (ptUserID p)) None w1 = (Inr r2, w2)"
      and k1: "andThen (wrapErr ''set started'' (SetStartedAt i)) (\<lambda>_.
        andThen (transitionRide r2 ''in_progress'' ''partner'' (Some (ptUserID p)) None) ?pub) w2 = (Inr (), w')"
      using run by (rule andThen_InrE)
    obtain w3 where t2: "SetStartedAt i w2 = (Inr (), w3)"
      and k2: "andThen (transitionRide r2 ''in_progress'' ''partner'' (Some (ptUserID p)) None) ?pub w3 = (Inr (), w')"
      using k1 by (rule andThen_InrE) (auto simp: wrapErr_def split: prod.splits sum.splits)
    obtain r4 w4 where t3: "transitionRide r2 ''in_progress'' ''partner'' (Some (ptUserID p)) None w3 = (Inr r4, w4)"
      and k3: "?pub r4 w4 = (Inr (), w')"
      using k2 by (rule andThen_InrE)
    have "stable ride_tables (?pub r4)" by (intro stable_intros)
    from stableD [OF this k3] have w': "rides w' = rides w4" by (simp add: ride_tables_eq)
    note e1 = transitionRide_InrE [OF t1] and e3 = transitionRide_InrE [OF t3]
    have r2: "rdID r2 = i" "rdStatus r2 = ''otp_verified''" using e1 i by simp_all
    have s2: "rides w2 = update_rows (\<lambda>r. rdID r = i) (set_status ''otp_verified'' (clock w)) (rides w)" "clock w2 = clock w"
      using e1 i w1 update_guarded [OF assms(3) row(1), of "\<lambda>r. rdStatus r = rdStatus row"] by simp_all
    have s3: "rides w3 = update_rows (\<lambda>r. rdID r = i) (\<lambda>r. r\<lparr>rwStartedAt := Some (clock w), rdUpdatedAt := clock w\<rparr>) (rides w2)"
      "clock w3 = clock w"
      using stamp_InrE [OF t2 [unfolded SetStartedAt_def]] s2(2) by simp_all
    have "rides w4 = update_rows (\<lambda>r. rdID r = i \<and> rdStatus r = ''otp_verified'') (set_status ''in_progress'' (clock w)) (rides w3)"
      using e3 r2 s3(2) by simp
    then show ?thesis
      unfolding w' s3(1) s2(1) by (auto simp: update_rows_def set_status_def)
  qed
  with row arrived show ?thesis by blast
qed

section \<open>Accepting an offer\<close>

lemma in_tx_InrE:
  assumes "in_tx lb body lc w = (Inr x, w')"
  obtains ns ns' w1 where "body (w\<lparr>net := ns\<rparr>) = (Inr x, w1)" "w' = w1\<lparr>net := ns'\<rparr>"
proof -
  obtain u w0 where b: "wrapErr lb (db_call (ok ())) w = (Inr u, w0)"
    and t: "(\<lambda>w0. case body w0 of (Inl e, w) \<Rightarrow> (Inl e, rollback w0 w) | (Inr x, w) \<Rightarrow> commit lc w0 x w) w0 = (Inr x, w')"
    using assms unfolding in_tx_def by (rule andThen_InrE)
  obtain y w1 where body: "body w0 = (Inr y, w1)" and c: "commit lc w0 y w1 = (Inr x, w')"
    using t by (auto split: prod.splits sum.splits)
  from b have "db_call (ok ()) w = (Inr u, w0)" by (auto simp: wrapErr_def split: prod.splits sum.splits)
  then obtain ns where "w0 = w\<lparr>net := ns\<rparr>" by (auto simp: ok_def elim: db_call_InrE)
  moreover have "y = x \<and> (\<exists>ns'. w' = w1\<lparr>net := ns'\<rparr>)"
  proof (cases "net w1")
    case Nil
    then have "y = x" "w' = w1\<lparr>net := net w1\<rparr>" using c by (simp_all add: commit_def)
    then show ?thesis by blast
  next
    case (Cons oc ns)
    then show ?thesis using c by (auto simp: commit_def split: outcome.splits)
  qed
  ultimately show ?thesis using body that by blast
qed

lemma find_SomeD: "find c xs = Some x \<Longrightarrow> x \<in> set xs \<and> c x"
  by (auto simp: find_Some_iff)

text \<open>The offers after an acceptance: this one accepted, the open ones of the ride superseded.\<close>

definition offers_after :: "uuid \<Rightarrow> uuid \<Rightarrow> int \<Rightarrow> offer_row list \<Rightarrow> offer_row list" where
  "offers_after i rideID now0 = map (\<lambda>x. if ofID x = i then decide ''accepted'' now0 x
     else if ofRideID x = rideID \<and> ofStatus x = ''sent'' then decide ''superseded'' now0 x else x)"

definition distinct_offers :: "offer_row list \<Rightarrow> bool" where
  "distinct_offers os \<longleftrightarrow> distinct (map ofID os)"

lemma offer_truncate [simp]:
  "ofID (RideOffer.truncate x) = ofID x" "ofRideID (RideOffer.truncate x) = ofRideID x"
  "ofStatus (RideOffer.truncate x) = ofStatus x" "ofExpiresAt (RideOffer.truncate x) = ofExpiresAt x"
  "ofPartnerID (RideOffer.truncate x) = ofPartnerID x"
  by (simp_all add: RideOffer.truncate_def)

lemma sql_update_offers_InrE:
  assumes "db_call (sql_update_offers c f) w = (Inr n, w')"
  obtains ns where "w' = w\<lparr>net := ns, ride_offers := update_rows c (f (clock w)) (ride_offers w)\<rparr>"
  using assms by (auto simp: sql_update_offers_def elim!: db_call_InrE)

lemma wrapErr_InrE: "wrapErr l m w = (Inr x, w') \<Longrightarrow> m w = (Inr x, w')"
  by (auto simp: wrapErr_def split: prod.splits sum.splits)

lemma lock_offer_InrE:
  assumes "lock_offer i p w = (Inr x, w')"
  obtains row ns where "row \<in> set (ride_offers w)" "ofID row = i" "ofPartnerID row = p" "x = RideOffer.truncate row"
    "w' = w\<lparr>net := ns\<rparr>"
proof -
  let ?q = "\<lambda>w. find (\<lambda>x. ofID x = i \<and> ofPartnerID x = p) (ride_offers w)"
  obtain y w1 where 1: "wrapErr ''lock offer'' (db_call (get ?q)) w = (Inr y, w1)"
    and 2: "(case y of None \<Rightarrow> fail ErrOfferNotFound | Some o0 \<Rightarrow> ok (RideOffer.truncate o0)) w1 = (Inr x, w')"
    using assms unfolding lock_offer_def by (rule andThen_InrE)
  have "env_blind ?q" by (simp add: env_blind_def)
  from get_InrE [OF wrapErr_InrE [OF 1] this] have y: "y = ?q w" "only_net w w1" by simp_all
  from 2 obtain row where row: "y = Some row" "x = RideOffer.truncate row" "w' = w1"
    by (auto simp: fail_def ok_def split: option.splits)
  with y(1) have "row \<in> set (ride_offers w) \<and> ofID row = i \<and> ofPartnerID row = p"
    using find_SomeD [of "\<lambda>x. ofID x = i \<and> ofPartnerID x = p" "ride_offers w" row] by simp
  with row y(2) show ?thesis by (auto simp: only_net_def intro: that)
qed

lemma accept_offer_InrE:
  assumes "accept_offer i w = (Inr x, w')"
  obtains row ns where "row \<in> set (ride_offers w)" "ofID row = i"
    "x = RideOffer.truncate (decide ''accepted'' (clock w) row)"
    "w' = w\<lparr>net := ns, ride_offers := update_rows (\<lambda>y. ofID y = i) (decide ''accepted'' (clock w)) (ride_offers w)\<rparr>"
proof -
  let ?q = "\<lambda>w. find (\<lambda>x. ofID x = i) (ride_offers w)"
  have "andThen (db_call (sql_update_offers (\<lambda>o0. ofID o0 = i) (decide ''accepted''))) (\<lambda>_.
      andThen (get ?q) (\<lambda>r. case r of None \<Rightarrow> fail pgx_ErrNoRows | Some o0 \<Rightarrow> ok (RideOffer.truncate o0))) w = (Inr x, w')"
    using assms unfolding accept_offer_def by (rule wrapErr_InrE)
  then obtain n w1 where 1: "db_call (sql_update_offers (\<lambda>o0. ofID o0 = i) (decide ''accepted'')) w = (Inr n, w1)"
    and 2: "andThen (get ?q) (\<lambda>r. case r of None \<Rightarrow> fail pgx_ErrNoRows | Some o0 \<Rightarrow> ok (RideOffer.truncate o0)) w1 = (Inr x, w')"
    by (rule andThen_InrE)
  obtain ns where w1: "w1 = w\<lparr>net := ns, ride_offers := update_rows (\<lambda>y. ofID y = i) (decide ''accepted'' (clock w)) (ride_offers w)\<rparr>"
    using 1 by (rule sql_update_offers_InrE)
  obtain y where y: "?q w1 = Some y" "x = RideOffer.truncate y" "w' = w1"
    using 2 by (auto simp: andThen_get fail_def ok_def split: option.splits)
  from find_SomeD [OF y(1)] w1 obtain row where "row \<in> set (ride_offers w)" "ofID row = i" "y = decide ''accepted'' (clock w) row"
    by (auto simp: update_rows_def decide_def split: if_splits)
  with y w1 that show ?thesis by blast
qed

lemma AcceptOfferTx_InrE:
  assumes "AcceptOfferTx i p w = (Inr x, w')" "distinct_offers (ride_offers w)"
  obtains row ns where "row \<in> set (ride_offers w)" "ofID row = i" "ofPartnerID row = p" "ofStatus row = ''sent''"
    "clock w < ofExpiresAt row" "ofRideID x = ofRideID row"
    "w' = w\<lparr>net := ns, ride_offers := offers_after i (ofRideID row) (clock w) (ride_offers w)\<rparr>"
proof -
  let ?supersede = "\<lambda>offer. wrapErr ''supersede siblings'' (db_call (sql_update_offers
        (\<lambda>o0. ofRideID o0 = ofRideID offer \<and> ofID o0 \<noteq> i \<and> ofStatus o0 = ''sent'') (decide ''superseded'')))"
  obtain ns0 ns' w1 where body: "andThen (lock_offer i p) (\<lambda>offer.
      require (ofStatus offer = ''sent'') ErrOfferAlreadyDecided
     (andThen (get clock) (\<lambda>now0.
      require (ofExpiresAt offer > now0) ErrOfferAlreadyDecided
     (andThen (accept_offer i) (\<lambda>updated. andThen (?supersede offer) (\<lambda>_. ok updated)))))) (w\<lparr>net := ns0\<rparr>) = (Inr x, w1)"
    and w': "w' = w1\<lparr>net := ns'\<rparr>"
    using assms(1) unfolding AcceptOfferTx_def by (rule in_tx_InrE)
  obtain offer w2 where 2: "lock_offer i p (w\<lparr>net := ns0\<rparr>) = (Inr offer, w2)"
    and r2: "require (ofStatus offer = ''sent'') ErrOfferAlreadyDecided
     (andThen (get clock) (\<lambda>now0. require (ofExpiresAt offer > now0) ErrOfferAlreadyDecided
     (andThen (accept_offer i) (\<lambda>updated. andThen (?supersede offer) (\<lambda>_. ok updated))))) w2 = (Inr x, w1)"
    using body by (rule andThen_InrE)
  obtain row ns2 where row: "row \<in> set (ride_offers w)" "ofID row = i" "ofPartnerID row = p" "offer = RideOffer.truncate row"
    "w2 = w\<lparr>net := ns2\<rparr>"
    using lock_offer_InrE [OF 2] by simp blast
  from r2 row(4,5) have sent: "ofStatus row = ''sent''" "clock w < ofExpiresAt row"
    and r3: "andThen (accept_offer i) (\<lambda>updated. andThen (?supersede offer) (\<lambda>_. ok updated)) w2 = (Inr x, w1)"
    by (auto simp: require_def andThen_get fail_def split: if_splits)
  obtain updated w3 where 3: "accept_offer i w2 = (Inr updated, w3)" and r4: "andThen (?supersede offer) (\<lambda>_. ok updated) w3 = (Inr x, w1)"
    using r3 by (rule andThen_InrE)
  obtain row' ns3 where row': "row' \<in> set (ride_offers w)" "ofID row' = i" "updated = RideOffer.truncate (decide ''accepted'' (clock w) row')"
    and w3: "w3 = w\<lparr>net := ns3, ride_offers := update_rows (\<lambda>y. ofID y = i) (decide ''accepted'' (clock w)) (ride_offers w)\<rparr>"
    using accept_offer_InrE [OF 3] row(5) by simp blast
  have "row' = row" using row(1,2) row'(1,2) assms(2) by (metis distinct_map distinct_offers_def inj_onD)
  obtain n w4 where 4: "?supersede offer w3 = (Inr n, w4)" and "ok updated w4 = (Inr x, w1)"
    using r4 by (rule andThen_InrE)
  then have fin: "x = updated" "w1 = w4" by (simp_all add: ok_def)
  obtain ns4 where "w4 = w3\<lparr>net := ns4, ride_offers := update_rows
      (\<lambda>o0. ofRideID o0 = ofRideID offer \<and> ofID o0 \<noteq> i \<and> ofStatus o0 = ''sent'') (decide ''superseded'' (clock w3)) (ride_offers w3)\<rparr>"
    using wrapErr_InrE [OF 4] by (rule sql_update_offers_InrE)
  with w3 row(4) have "w4 = w\<lparr>net := ns4, ride_offers := offers_after i (ofRideID row) (clock w) (ride_offers w)\<rparr>"
    by (auto simp: offers_after_def update_rows_def decide_def)
  with row sent fin w' row' \<open>row' = row\<close> show ?thesis by (intro that [of row ns']) (simp_all add: decide_def)
qed

lemma tables_generate [stable_intros]: "stable ride_tables generateOTPAndHash"
  unfolding generateOTPAndHash_def GenerateFromPassword_def
  by (intro stable_intros) (simp_all add: stable_def rand_Read_def ride_tables_def case_prod_beta split: prod.split)

lemma decide_offer_InrE: "decide_offer i p w = (Inr x, w') \<Longrightarrow> AcceptOfferTx i p w = (Inr x, w')"
  by (auto simp: decide_offer_def attempt_def fail_def ok_def split: prod.splits sum.splits)

lemma ListVehicles_InrE:
  assumes "wrapErr l (ListVehiclesByPartner p) w = (Inr vs, w')" "approved_vehicle vs \<noteq> 0"
  obtains v where "v \<in> set (ride_vehicles w)" "vhPartnerID v = p" "vhStatus v = ''approved''" "vhIsActive v"
    "approved_vehicle vs = vhID v" "only_net w w'"
proof -
  let ?q = "\<lambda>w :: ('a, 'b) rider. map Vehicle.truncate (sort_key (\<lambda>v. - vhCreatedAt v)
       (filter (\<lambda>v. vhPartnerID v = p \<and> vwDeletedAt v = None) (ride_vehicles w)))"
  have "env_blind ?q" by (simp add: env_blind_def)
  then have vs: "vs = ?q w" "only_net w w'"
    using get_InrE [OF wrapErr_InrE [OF wrapErr_InrE [OF assms(1), unfolded ListVehiclesByPartner_def]]] by simp_all
  obtain x where x: "find (\<lambda>v. vhStatus v = ''approved'' \<and> vhIsActive v) vs = Some x" "approved_vehicle vs = vhID x"
    using assms(2) by (auto simp: approved_vehicle_def split: option.splits)
  from find_SomeD [OF x(1)] vs(1) obtain v where "v \<in> set (ride_vehicles w)" "vhPartnerID v = p" "x = Vehicle.truncate v"
    "vhStatus x = ''approved''" "vhIsActive x"
    by auto
  with x(2) vs(2) that show ?thesis by (simp add: Vehicle.truncate_def)
qed

lemma AssignRidePartner_InrE:
  assumes "AssignRidePartner i p v h t w = (Inr x, w')"
  shows "\<exists>ns. w' = w\<lparr>net := ns, rides := update_rows (\<lambda>r. rdID r = i)
    (\<lambda>r. r\<lparr>rdPartnerID := Some p, rdVehicleID := Some v, rwOTPHash := Some h, rdOTPExpiresAt := Some t,
       rwAssignedAt := Some (clock w), rdUpdatedAt := clock w\<rparr>) (rides w)\<rparr>"
proof -
  let ?m = "\<lambda>w. if i \<in> rdID ` set (rides w) \<and> (p \<notin> ptID ` set (ride_partners w) \<or> v \<notin> vhID ` set (ride_vehicles w))
       then (Inl (sqlstate ''23503''), w)
       else sql_update_rides (\<lambda>r. rdID r = i)
         (\<lambda>now0 r. r\<lparr>rdPartnerID := Some p, rdVehicleID := Some v, rwOTPHash := Some h,
            rdOTPExpiresAt := Some t, rwAssignedAt := Some now0, rdUpdatedAt := now0\<rparr>) w"
  obtain n w1 where "wrapErr ''assign ride partner'' (db_call ?m) w = (Inr n, w1)" and "require (n \<noteq> 0) ErrRideNotFound (ok ()) w1 = (Inr x, w')"
    using assms unfolding AssignRidePartner_def must_change_def by (rule andThen_InrE)
  moreover from this(1) obtain ns where "?m (w\<lparr>net := ns\<rparr>) = (Inr n, w1)"
    by (blast elim: db_call_InrE dest: wrapErr_InrE)
  ultimately show ?thesis
    by (auto simp: sql_update_rides_def require_def ok_def fail_def split: if_splits)
qed

lemma assign_ride_InrE:
  assumes "assign_ride sv partner i updated v w = (Inr res, w')" "distinct_rides (rides w)"
  obtains ride hash where "the_ride (ofRideID updated) w = Some ride" "rdStatus ride = ''searching_partner''"
    "rides w' = update_rows (\<lambda>r. rdID r = ofRideID updated) (\<lambda>r. r\<lparr>rdPartnerID := Some (ptID partner),
       rdVehicleID := Some v, rdStatus := ''partner_assigned'', rdOTPExpiresAt := Some (clock w + 1800000000),
       rdUpdatedAt := clock w, rwOTPHash := Some hash, rwAssignedAt := Some (clock w)\<rparr>) (rides w)"
    "ride_offers w' = ride_offers w" "ride_payments w' = ride_payments w"
    "aorRideID res = ofRideID updated" "aorPartnerID res = ptID partner" "aorOTPExpiry res = clock w + 1800000000"
    "length (aorOTP res) = 4" "CompareHashAndPassword hash (aorOTP res) = None"
proof -
  let ?i = "ofRideID updated"
  let ?ride = "\<lambda>otp. andThen (store_GetRide ?i) (\<lambda>ride.
     andThen (transitionRide ride ''partner_assigned'' ''partner'' (Some (ptUserID partner)) None) (\<lambda>ride.
     andThen (announce_assignment sv partner v i ride) (\<lambda>_.
     ok \<lparr>aorRideID = rdID ride, aorPartnerID = ptID partner, aorOTP = otp, aorOTPExpiry = clock w + 1800000000\<rparr>)))"
  obtain c w1 where 1: "wrapErr ''generate otp'' generateOTPAndHash w = (Inr c, w1)"
    and r1: "(\<lambda>(otp, h). andThen (get clock) (\<lambda>now0. let e = now0 + 30 * 60000000 in
       andThen (wrapErr ''assign partner'' (AssignRidePartner ?i (ptID partner) v h e)) (\<lambda>_.
       andThen (store_GetRide ?i) (\<lambda>ride.
       andThen (transitionRide ride ''partner_assigned'' ''partner'' (Some (ptUserID partner)) None) (\<lambda>ride.
       andThen (announce_assignment sv partner v i ride) (\<lambda>_.
       ok \<lparr>aorRideID = rdID ride, aorPartnerID = ptID partner, aorOTP = otp, aorOTPExpiry = e\<rparr>)))))) c w1 = (Inr res, w')"
    using assms(1) unfolding assign_ride_def by (rule andThen_InrE)
  obtain otp h where c: "c = (otp, h)" by force
  note gen = wrapErr_InrE [OF 1, unfolded c]
  have t1: "rides w1 = rides w" "ride_offers w1 = ride_offers w" "ride_payments w1 = ride_payments w" "clock w1 = clock w"
    using stableD [OF tables_generate gen] by (simp_all add: ride_tables_eq)
  have "andThen (wrapErr ''assign partner'' (AssignRidePartner ?i (ptID partner) v h (clock w + 1800000000))) (\<lambda>_. ?ride otp) w1
      = (Inr res, w')"
    using r1 t1 c by (simp add: andThen_get Let_def)
  then obtain u w2 where 2: "wrapErr ''assign partner'' (AssignRidePartner ?i (ptID partner) v h (clock w + 1800000000)) w1 = (Inr u, w2)"
    and r2: "?ride otp w2 = (Inr res, w')"
    by (rule andThen_InrE)
  let ?f = "\<lambda>r. r\<lparr>rdPartnerID := Some (ptID partner), rdVehicleID := Some v, rwOTPHash := Some h,
     rdOTPExpiresAt := Some (clock w + 1800000000), rwAssignedAt := Some (clock w), rdUpdatedAt := clock w\<rparr>"
  have t2: "rides w2 = update_rows (\<lambda>r. rdID r = ?i) ?f (rides w)" "ride_offers w2 = ride_offers w"
    "ride_payments w2 = ride_payments w" "clock w2 = clock w"
    using AssignRidePartner_InrE [OF wrapErr_InrE [OF 2]] t1 by auto
  obtain ride w3 where 3: "store_GetRide ?i w2 = (Inr ride, w3)"
    and r3: "andThen (transitionRide ride ''partner_assigned'' ''partner'' (Some (ptUserID partner)) None) (\<lambda>ride.
     andThen (announce_assignment sv partner v i ride) (\<lambda>_.
     ok \<lparr>aorRideID = rdID ride, aorPartnerID = ptID partner, aorOTP = otp, aorOTPExpiry = clock w + 1800000000\<rparr>)) w3 = (Inr res, w')"
    using r2 by (rule andThen_InrE)
  obtain row2 where row2: "the_ride ?i w2 = Some row2" "ride = Ride.truncate row2" "only_net w2 w3"
    using query_row_InrE [OF 3 [unfolded store_GetRide_def]] by (auto simp: env_blind_def the_ride_def)
  obtain ride' w4 where 4: "transitionRide ride ''partner_assigned'' ''partner'' (Some (ptUserID partner)) None w3 = (Inr ride', w4)"
    and r4: "andThen (announce_assignment sv partner v i ride') (\<lambda>_.
     ok \<lparr>aorRideID = rdID ride', aorPartnerID = ptID partner, aorOTP = otp, aorOTPExpiry = clock w + 1800000000\<rparr>) w4 = (Inr res, w')"
    using r3 by (rule andThen_InrE)
  obtain y w5 where 5: "announce_assignment sv partner v i ride' w4 = (Inr y, w5)"
    and res: "res = \<lparr>aorRideID = rdID ride', aorPartnerID = ptID partner, aorOTP = otp, aorOTPExpiry = clock w + 1800000000\<rparr>" "w' = w5"
    using r4 by (auto simp: ok_def elim: andThen_InrE)
  have "stable ride_tables (announce_assignment sv partner v i ride')"
    unfolding announce_assignment_def by (intro stable_intros)
  from stableD [OF this 5] res(2) have t5: "rides w' = rides w4" "ride_offers w' = ride_offers w4" "ride_payments w' = ride_payments w4"
    by (simp_all add: ride_tables_eq)
  have t3: "rides w3 = rides w2" "ride_offers w3 = ride_offers w2" "ride_payments w3 = ride_payments w2" "clock w3 = clock w2"
    using only_net_tables [OF row2(3)] by (simp_all add: ride_tables_eq)
  note e4 = transitionRide_InrE [OF 4]
  have "row2 \<in> set (rides w2)" "rdID row2 = ?i" using the_ride_SomeD [OF row2(1)] by simp_all
  then obtain row where row: "row \<in> set (rides w)" "rdID row = ?i" "row2 = ?f row"
    unfolding t2(1) by (auto simp: update_rows_def split: if_splits)
  have the: "the_ride ?i w = Some row"
    using row(1,2) assms(2) distinct_ids_eq the_ride_SomeD
    by (metis (mono_tags, lifting) find_None_iff option.exhaust the_ride_def)
  have st: "rdStatus row = ''searching_partner''"
    using valid_edges [of "rdStatus row" "''partner_assigned''"] e4 row(3) row2(2) by simp
  have "distinct_rides (rides w2)"
    using ride_step_distinct [OF ride_step.stamped [where rs = "rides w" and i = ?i and f = ?f]] assms(2)
    by (simp add: t2(1) booking_def)
  then have "rides w4 = update_rows (\<lambda>r. rdID r = ?i) (set_status ''partner_assigned'' (clock w)) (rides w2)"
    using e4 t3 t2(4) row2 row st update_guarded [of w2 ?i row2 "\<lambda>r. rdStatus r = ''searching_partner''"] by simp
  then have "rides w' = update_rows (\<lambda>r. rdID r = ?i) (\<lambda>r. r\<lparr>rdPartnerID := Some (ptID partner),
       rdVehicleID := Some v, rdStatus := ''partner_assigned'', rdOTPExpiresAt := Some (clock w + 1800000000),
       rdUpdatedAt := clock w, rwOTPHash := Some h, rwAssignedAt := Some (clock w)\<rparr>) (rides w)"
    unfolding t5(1) t2(1) by (auto simp: update_rows_def set_status_def)
  moreover have "rdID ride' = ?i" using e4 row2(2) row by simp
  ultimately show ?thesis
    using the st t2 t3 t5 e4 res(1) generated_code [OF gen] by (intro that [of row h]) simp_all
qed

text \<open>C17: an accepted offer: whatever the network does, when AcceptOffer answers without an error the
  offer was the caller's own, open and not expired; it is accepted and the other open offers of the ride
  are superseded; the ride, which was looking for a partner, has the partner with an approved vehicle of
  theirs; and the four-digit code in the answer is the one that matches the hash kept on the ride for the
  next 30 minutes. No other ride or offer changes.\<close>

theorem accepted_offer_assigns_the_ride:
  assumes "AcceptOffer sv u i w = (Inr res, w')" "distinct_rides (rides w)" "distinct_offers (ride_offers w)"
  shows "\<exists>p x v ride hash. the_partner u w = Some p
    \<and> x \<in> set (ride_offers w) \<and> ofID x = i \<and> ofPartnerID x = ptID p \<and> ofStatus x = ''sent'' \<and> clock w < ofExpiresAt x
    \<and> v \<in> set (ride_vehicles w) \<and> vhPartnerID v = ptID p \<and> vhStatus v = ''approved'' \<and> vhIsActive v
    \<and> the_ride (ofRideID x) w = Some ride \<and> rdStatus ride = ''searching_partner''
    \<and> ride_offers w' = offers_after i (ofRideID x) (clock w) (ride_offers w)
    \<and> rides w' = update_rows (\<lambda>r. rdID r = ofRideID x) (\<lambda>r. r\<lparr>rdPartnerID := Some (ptID p),
         rdVehicleID := Some (vhID v), rdStatus := ''partner_assigned'', rdOTPExpiresAt := Some (clock w + 1800000000),
         rdUpdatedAt := clock w, rwOTPHash := Some hash, rwAssignedAt := Some (clock w)\<rparr>) (rides w)
    \<and> aorRideID res = ofRideID x \<and> aorOTPExpiry res = clock w + 1800000000
    \<and> length (aorOTP res) = 4 \<and> CompareHashAndPassword hash (aorOTP res) = None"
proof -
  obtain prow w1 where 1: "find_partner u w = (Inr prow, w1)" and r1: "andThen (decide_offer i (ptID prow)) (\<lambda>updated.
     andThen (wrapErr ''list vehicles'' (ListVehiclesByPartner (ptID prow))) (\<lambda>vehicles.
     require (approved_vehicle vehicles \<noteq> 0) (Errorf ''invalid: partner has no approved vehicle'')
       (assign_ride sv prow i updated (approved_vehicle vehicles)))) w1 = (Inr res, w')"
    using assms(1) unfolding AcceptOffer_def by (rule require_InrE) (erule andThen_InrE, blast)
  obtain p where p: "the_partner u w = Some p" "prow = Partner.truncate p" "only_net w w1"
    using find_partner_InrE [OF 1] unfolding the_partner_def .
  obtain updated w2 where 2: "decide_offer i (ptID prow) w1 = (Inr updated, w2)"
    and r2: "andThen (wrapErr ''list vehicles'' (ListVehiclesByPartner (ptID prow))) (\<lambda>vehicles.
     require (approved_vehicle vehicles \<noteq> 0) (Errorf ''invalid: partner has no approved vehicle'')
       (assign_ride sv prow i updated (approved_vehicle vehicles))) w2 = (Inr res, w')"
    using r1 by (rule andThen_InrE)
  have w1: "ride_offers w1 = ride_offers w" "rides w1 = rides w" "clock w1 = clock w" "ride_vehicles w1 = ride_vehicles w"
    using p(3) by (auto simp: only_net_def)
  obtain x ns where x: "x \<in> set (ride_offers w)" "ofID x = i" "ofPartnerID x = ptID p" "ofStatus x = ''sent''"
    "clock w < ofExpiresAt x" "ofRideID updated = ofRideID x"
    "w2 = w1\<lparr>net := ns, ride_offers := offers_after i (ofRideID x) (clock w) (ride_offers w)\<rparr>"
    using AcceptOfferTx_InrE [OF decide_offer_InrE [OF 2]] assms(3) w1 p(2) by auto
  obtain vs w3 where 3: "wrapErr ''list vehicles'' (ListVehiclesByPartner (ptID prow)) w2 = (Inr vs, w3)"
    and r3: "require (approved_vehicle vs \<noteq> 0) (Errorf ''invalid: partner has no approved vehicle'')
       (assign_ride sv prow i updated (approved_vehicle vs)) w3 = (Inr res, w')"
    using r2 by (rule andThen_InrE)
  have ne: "approved_vehicle vs \<noteq> 0" and r4: "assign_ride sv prow i updated (approved_vehicle vs) w3 = (Inr res, w')"
    using r3 by (auto simp: require_def fail_def split: if_splits)
  obtain v where v: "v \<in> set (ride_vehicles w)" "vhPartnerID v = ptID p" "vhStatus v = ''approved''" "vhIsActive v"
    "approved_vehicle vs = vhID v" "only_net w2 w3"
    using ListVehicles_InrE [OF 3 ne] w1 x(7) p(2) by auto
  have w3: "rides w3 = rides w" "ride_offers w3 = ride_offers w2" "clock w3 = clock w"
    using v(6) x(7) w1 by (auto simp: only_net_def)
  have the: "the_ride (ofRideID x) w3 = the_ride (ofRideID x) w" by (simp add: the_ride_def w3)
  from assign_ride_InrE [OF r4] assms(2) w3(1) obtain ride hash where "the_ride (ofRideID x) w3 = Some ride"
    "rdStatus ride = ''searching_partner''"
    "rides w' = update_rows (\<lambda>r. rdID r = ofRideID x) (\<lambda>r. r\<lparr>rdPartnerID := Some (ptID p),
       rdVehicleID := Some (vhID v), rdStatus := ''partner_assigned'', rdOTPExpiresAt := Some (clock w + 1800000000),
       rdUpdatedAt := clock w, rwOTPHash := Some hash, rwAssignedAt := Some (clock w)\<rparr>) (rides w)"
    "ride_offers w' = ride_offers w3" "aorRideID res = ofRideID x" "aorOTPExpiry res = clock w + 1800000000"
    "length (aorOTP res) = 4" "CompareHashAndPassword hash (aorOTP res) = None"
    unfolding x(6) w3 v(5) p(2) ride_truncate by blast
  with p x v the w3 show ?thesis
    by (intro exI [of _ p] exI [of _ x] exI [of _ v] exI [of _ ride] exI [of _ hash]) simp
qed

text \<open>the acceptance is committed before the vehicle is looked up: when a partner without an
  approved vehicle accepts, the call is refused, but the offer stays accepted and the other partners'
  offers stay superseded, while the ride is still looking for a partner.\<close>

theorem accept_without_vehicle_closes_offers:
  assumes "net w = []" "u \<noteq> 0" "i \<noteq> 0" "the_partner u w = Some p"
    and "find (\<lambda>x. ofID x = i \<and> ofPartnerID x = ptID p) (ride_offers w) = Some x"
    and "ofStatus x = ''sent''" "clock w < ofExpiresAt x"
    and "\<forall>v \<in> set (ride_vehicles w). vhPartnerID v = ptID p \<longrightarrow> vhStatus v \<noteq> ''approved''"
  shows "AcceptOffer sv u i w = (Inl (Errorf ''invalid: partner has no approved vehicle''),
    w\<lparr>ride_offers := offers_after i (ofRideID x) (clock w) (ride_offers w)\<rparr>)"
proof -
  let ?w = "w\<lparr>ride_offers := offers_after i (ofRideID x) (clock w) (ride_offers w)\<rparr>"
  have x: "x \<in> set (ride_offers w)" "ofID x = i" using find_SomeD [OF assms(5)] by simp_all
  have partner: "find_partner u w = (Inr (Partner.truncate p), w)"
    using assms(1,4) by (simp add: find_partner_def or_not_found_def GetPartnerByUserID_def query_row_def the_partner_def io_defs)
  have "\<exists>y. find (\<lambda>y. ofID y = i) (update_rows (\<lambda>y. ofID y = i) (decide ''accepted'' (clock w)) (ride_offers w)) = Some y"
  proof (rule ccontr)
    assume "\<not> ?thesis"
    then have "\<forall>y \<in> set (update_rows (\<lambda>y. ofID y = i) (decide ''accepted'' (clock w)) (ride_offers w)). ofID y \<noteq> i"
      by (simp add: find_None_iff)
    moreover have "decide ''accepted'' (clock w) x \<in> set (update_rows (\<lambda>y. ofID y = i) (decide ''accepted'' (clock w)) (ride_offers w))"
      using x by (auto simp: update_rows_def)
    ultimately show False using x(2) by (auto simp: decide_def)
  qed
  then obtain y where y: "find (\<lambda>y. ofID y = i) (update_rows (\<lambda>y. ofID y = i) (decide ''accepted'' (clock w)) (ride_offers w)) = Some y" ..
  have upd: "update_rows (\<lambda>y. ofRideID y = ofRideID x \<and> ofID y \<noteq> i \<and> ofStatus y = ''sent'') (decide ''superseded'' (clock w))
      (update_rows (\<lambda>y. ofID y = i) (decide ''accepted'' (clock w)) (ride_offers w)) = offers_after i (ofRideID x) (clock w) (ride_offers w)"
    by (auto simp: offers_after_def update_rows_def decide_def)
  have "AcceptOfferTx i (ptID p) w = (Inr (RideOffer.truncate y), ?w)"
    using assms(1,5-7) y by (simp add: AcceptOfferTx_def in_tx_up lock_offer_def accept_offer_def sql_update_offers_def io_defs upd)
  then have decided: "decide_offer i (ptID p) w = (Inr (RideOffer.truncate y), ?w)"
    by (simp add: decide_offer_def io_defs)
  let ?vs = "map Vehicle.truncate (sort_key (\<lambda>v. - vhCreatedAt v)
       (filter (\<lambda>v. vhPartnerID v = ptID p \<and> vwDeletedAt v = None) (ride_vehicles w)))"
  have "find (\<lambda>v. vhStatus v = ''approved'' \<and> vhIsActive v) ?vs = None"
    using assms(8) by (auto simp: find_None_iff Vehicle.truncate_def)
  then have "approved_vehicle ?vs = 0" by (simp add: approved_vehicle_def)
  then show ?thesis
    using assms(1-3) partner decided
    by (simp add: AcceptOffer_def ListVehiclesByPartner_def io_defs)
qed

section \<open>A customer who does not show up\<close>

lemma no_show_refused:
  fixes w :: "('v, 'r) rider"
  shows "\<exists>e. fst (store_MarkRideNoShow i p reason w) = Inl e"
proof (rule ccontr)
  assume "\<not> ?thesis"
  then obtain x w' where "store_MarkRideNoShow i p reason w = (Inr x, w')" by (metis obj_sumE prod.collapse)
  then have "in_tx [] (andThen (wrapErr ''mark no_show'' (db_call (sql_no_show i p reason))) (\<lambda>n.
      require (n \<noteq> 0) (Errorf ''ride not in a state allowing no_show'') (ok ()))) [] w = (Inr x, w')"
    by (auto simp: store_MarkRideNoShow_def plain_tx_def split: prod.splits sum.splits)
  then obtain n and w1 w2 :: "('v, 'r) rider" where "wrapErr ''mark no_show'' (db_call (sql_no_show i p reason)) w1 = (Inr n, w2)"
    by (rule in_tx_InrE) (erule andThen_InrE, erule that)
  then obtain ns where "sql_no_show i p reason (w1\<lparr>net := ns\<rparr>) = (Inr n, w2)"
    by (blast dest: wrapErr_InrE elim: db_call_InrE)
  then show False by (simp add: sql_no_show_def rider_ride_status_def)
qed

text \<open>reporting a customer who does not show up never works: the statement names statuses that are
  not labels of the enum, so the server refuses it. Whatever the state and the network, the call fails,
  no ride changes and nothing is published.\<close>

theorem no_show_never_recorded:
  "(\<exists>e. fst (MarkRideNoShow sv u i reason w) = Inl e) \<and> rides (snd (MarkRideNoShow sv u i reason w)) = rides w
   \<and> rider_events (snd (MarkRideNoShow sv u i reason w)) = rider_events w"
proof -
  let ?part = "\<lambda>w :: ('a, 'b) rider. (rides w, rider_events w)"
  have blind: "env_blind ?part" by (simp add: env_blind_def)
  have fp: "stable ?part (find_partner u)"
    unfolding find_partner_def or_not_found_def GetPartnerByUserID_def query_row_def
    by (intro stable_intros stable_db_call [OF blind])
  have ns: "stable ?part (store_MarkRideNoShow i p reason)" for p
    unfolding store_MarkRideNoShow_def
    by (intro stable_intros stable_plain_tx [OF blind] stable_db_call [OF blind]) (simp add: stable_def sql_no_show_def rider_ride_status_def)
  obtain r w1 where 1: "find_partner u w = (r, w1)" by force
  have w1: "?part w1 = ?part w" by (rule stableD [OF fp 1])
  show ?thesis
  proof (cases r)
    case (Inl e)
    with 1 w1 show ?thesis by (simp add: MarkRideNoShow_def andThen_def)
  next
    case (Inr p)
    obtain e w2 where 2: "store_MarkRideNoShow i (ptID p) reason w1 = (Inl e, w2)"
      using no_show_refused [of i "ptID p" reason w1] by (metis prod.collapse)
    from stableD [OF ns this] w1 1 2 Inr show ?thesis by (simp add: MarkRideNoShow_def andThen_def)
  qed
qed

section \<open>Completing a ride\<close>

definition finalized :: "CompleteRideInput \<Rightarrow> rat \<Rightarrow> rat \<Rightarrow> rat \<Rightarrow> int \<Rightarrow> ride_row \<Rightarrow> ride_row" where
  "finalized c d t f now0 r = r\<lparr>rwFinalDistanceKM := Some d, rwFinalDurationMin := Some t, rwFinalFare := Some f,
     rwFinalFarePaise := Some (cpiFinalFarePaise c), rwFlaggedForReview := cpiFlaggedForReview c,
     rwCompletedAt := Some now0, rdUpdatedAt := now0\<rparr>"

lemma finalized_id [simp]:
  "rdID (finalized c d t f now0 r) = rdID r" "rdStatus (finalized c d t f now0 r) = rdStatus r"
  "booking (finalized c d t f now0 r) = booking r"
  by (simp_all add: finalized_def booking_def)

lemma FinalizeRide_InrE:
  assumes "FinalizeRide num c w = (Inr x, w')"
  obtains d t f ns where "num 10 2 (cpiFinalDistanceKM c) = Some d" "num 10 2 (of_int (cpiFinalDurationMin c)) = Some t"
    "num 12 2 (cpiFinalFareINR c) = Some f"
    "w' = w\<lparr>net := ns, rides := update_rows (\<lambda>r. rdID r = cpiRideID c) (finalized c d t f (clock w)) (rides w)\<rparr>"
proof -
  let ?m = "\<lambda>w. case (num 10 2 (cpiFinalDistanceKM c), num 10 2 (of_int (cpiFinalDurationMin c)), num 12 2 (cpiFinalFareINR c)) of
       (Some d, Some t, Some f) \<Rightarrow> sql_update_rides (\<lambda>r. rdID r = cpiRideID c)
         (\<lambda>now0 r. r\<lparr>rwFinalDistanceKM := Some d, rwFinalDurationMin := Some t, rwFinalFare := Some f,
            rwFinalFarePaise := Some (cpiFinalFarePaise c), rwFlaggedForReview := cpiFlaggedForReview c,
            rwCompletedAt := Some now0, rdUpdatedAt := now0\<rparr>) w
     | _ \<Rightarrow> if cpiRideID c \<in> rdID ` set (rides w) then (Inl (sqlstate ''22003''), w) else (Inr 0, w)"
  obtain n w1 where 1: "wrapErr ''finalize ride'' (db_call ?m) w = (Inr n, w1)" and 2: "require (n \<noteq> 0) ErrRideNotFound (ok ()) w1 = (Inr x, w')"
    using assms unfolding FinalizeRide_def must_change_def by (rule andThen_InrE)
  from wrapErr_InrE [OF 1] obtain ns where m: "?m (w\<lparr>net := ns\<rparr>) = (Inr n, w1)" by (rule db_call_InrE)
  from 2 have n: "n \<noteq> 0" "w' = w1" by (auto simp: require_def ok_def fail_def split: if_splits)
  show ?thesis
  proof (cases "num 10 2 (cpiFinalDistanceKM c) = None \<or> num 10 2 (of_int (cpiFinalDurationMin c)) = None
      \<or> num 12 2 (cpiFinalFareINR c) = None")
    case True
    with m n(1) show ?thesis by (auto split: option.splits if_splits)
  next
    case False
    then obtain d t f where nums: "num 10 2 (cpiFinalDistanceKM c) = Some d" "num 10 2 (of_int (cpiFinalDurationMin c)) = Some t"
      "num 12 2 (cpiFinalFareINR c) = Some f"
      by auto
    with m n(2) show ?thesis
      by (intro that [of d t f ns]) (simp_all add: sql_update_rides_def finalized_def [abs_def])
  qed
qed

lemma CreateRidePayment_InrE:
  assumes "CreateRidePayment c w = (Inr pay, w')"
  shows "ride_payments w' = ride_payments w @ [pay] \<and> rides w' = rides w \<and> ride_offers w' = ride_offers w \<and> clock w' = clock w
    \<and> rpyID pay \<notin> rpyID ` set (ride_payments w) \<and> cpyPaymentMethod c \<in> {''cash'', ''wallet'', ''upi''}
    \<and> pay = payment_of_ride c (rpyID pay) (if cpyStatus c = [] then ''pending'' else cpyStatus c) (clock w)"
proof -
  let ?st = "if cpyStatus c = [] then ''pending'' else cpyStatus c"
  obtain ns where "andThen gen_random_uuid (\<lambda>id0 w.
        let p = payment_of_ride c id0 ?st (clock w) in
        if cpyPaymentMethod c \<notin> {''cash'', ''wallet'', ''upi''} \<or>
           ?st \<notin> {''pending'', ''succeeded'', ''failed'', ''refunded''} then (Inl (sqlstate ''23514''), w)
        else if id0 \<in> rpyID ` set (ride_payments w) then (Inl (sqlstate ''23505''), w)
        else if cpyRideID c \<notin> rdID ` set (rides w) \<or> cpyPartnerID c \<notin> ptID ` set (ride_partners w)
          then (Inl (sqlstate ''23503''), w)
        else (Inr p, w\<lparr>ride_payments := ride_payments w @ [p]\<rparr>)) (w\<lparr>net := ns\<rparr>) = (Inr pay, w')"
    using assms unfolding CreateRidePayment_def Let_def by (rule db_call_InrE)
  then obtain id0 w1 where 1: "gen_random_uuid (w\<lparr>net := ns\<rparr>) = (Inr id0, w1)"
    and 2: "(if cpyPaymentMethod c \<notin> {''cash'', ''wallet'', ''upi''} \<or>
           ?st \<notin> {''pending'', ''succeeded'', ''failed'', ''refunded''} then (Inl (sqlstate ''23514''), w1)
        else if id0 \<in> rpyID ` set (ride_payments w1) then (Inl (sqlstate ''23505''), w1)
        else if cpyRideID c \<notin> rdID ` set (rides w1) \<or> cpyPartnerID c \<notin> ptID ` set (ride_partners w1)
          then (Inl (sqlstate ''23503''), w1)
        else (Inr (payment_of_ride c id0 ?st (clock w1)),
          w1\<lparr>ride_payments := ride_payments w1 @ [payment_of_ride c id0 ?st (clock w1)]\<rparr>)) = (Inr pay, w')"
    unfolding Let_def by (rule andThen_InrE)
  have "ride_tables w1 = ride_tables w"
    using 1 by (auto simp: gen_random_uuid_def ride_tables_def)
  then have w1: "rides w1 = rides w" "ride_offers w1 = ride_offers w" "ride_payments w1 = ride_payments w" "clock w1 = clock w"
    by (simp_all add: ride_tables_eq)
  have id: "rpyID (payment_of_ride c id0 ?st (clock w)) = id0" by (simp add: payment_of_ride_def)
  show ?thesis using 2 id unfolding w1 by (simp split: if_splits) (auto simp: w1)
qed

text \<open>An update of the last row, by an id no other row has.\<close>

lemma update_last:
  assumes "k \<notin> rpyID ` set ps" "rpyID q = k"
  shows "update_rows (\<lambda>p. rpyID p = k) f (ps @ [q]) = ps @ [f q]"
proof -
  have "\<forall>p \<in> set ps. rpyID p \<noteq> k" using assms(1) by blast
  with assms(2) show ?thesis by (auto simp: update_rows_def intro!: map_idI)
qed

lemma find_last: "k \<notin> rpyID ` set ps \<Longrightarrow> rpyID q = k \<Longrightarrow> find (\<lambda>p. rpyID p = k) (ps @ [q]) = Some q"
  by (induction ps) auto

text \<open>What a settlement cannot change of a payment.\<close>

definition bill :: "RidePayment \<Rightarrow> uuid \<times> uuid \<times> uuid \<times> int \<times> string" where
  "bill p = (rpyID p, rpyRideID p, rpyPartnerID p, rpyAmountPaise p, rpyPaymentMethod p)"

lemma MarkRidePaymentSucceeded_InrE:
  assumes "MarkRidePaymentSucceeded (rpyID pay) t upi w = (Inr q, w')" "ride_payments w = ps @ [pay]" "rpyID pay \<notin> rpyID ` set ps"
  shows "ride_payments w' = ps @ [q] \<and> bill q = bill pay \<and> rpyStatus q = ''succeeded'' \<and> rpySettledAt q = Some (clock w)
    \<and> rpyWalletTxnID q = or_else t (rpyWalletTxnID pay) \<and> rides w' = rides w"
proof -
  let ?f = "\<lambda>p. p\<lparr>rpyStatus := ''succeeded'', rpyWalletTxnID := or_else t (rpyWalletTxnID p),
     rpyUPITxnRef := or_else upi (rpyUPITxnRef p), rpySettledAt := Some (clock w)\<rparr>"
  let ?m = "\<lambda>w. let ps = update_rows (\<lambda>p. rpyID p = rpyID pay) (\<lambda>p. p\<lparr>rpyStatus := ''succeeded'',
       rpyWalletTxnID := or_else t (rpyWalletTxnID p), rpyUPITxnRef := or_else upi (rpyUPITxnRef p),
       rpySettledAt := Some (clock w)\<rparr>) (ride_payments w)
     in (Inr (find (\<lambda>p. rpyID p = rpyID pay) ps), w\<lparr>ride_payments := ps\<rparr>)"
  obtain y w1 where 1: "db_call ?m w = (Inr y, w1)" and 2: "(case y of None \<Rightarrow> fail ErrRidePaymentNotFound | Some p \<Rightarrow> ok p) w1 = (Inr q, w')"
    using assms(1) unfolding MarkRidePaymentSucceeded_def by (rule andThen_InrE)
  obtain ns where "?m (w\<lparr>net := ns\<rparr>) = (Inr y :: goerr + _, w1)" using 1 by (rule db_call_InrE)
  then have y: "y = Some (?f pay)" "w1 = w\<lparr>net := ns, ride_payments := ps @ [?f pay]\<rparr>"
    using assms(2,3) update_last [OF assms(3) refl, of ?f] find_last [OF assms(3), of "?f pay"] by (auto simp: Let_def)
  with 2 show ?thesis by (auto simp: ok_def bill_def)
qed

lemma db_call_ends:
  assumes "db_call m w = (r, w')"
  shows "\<exists>ns. w' = w\<lparr>net := ns\<rparr> \<or> w' = snd (m (w\<lparr>net := ns\<rparr>))"
proof (cases "net w")
  case Nil
  with assms have "m w = (r, w')" by (simp add: db_call_def)
  then show ?thesis by (intro exI [of _ "net w"]) simp
next
  case (Cons oc ns)
  with assms show ?thesis
    by (intro exI [of _ ns]) (cases oc; simp add: db_call_def; metis snd_conv)
qed

lemma MarkRidePaymentFailed_last:
  assumes "logged (MarkRidePaymentFailed (rpyID pay)) w = (r, w')" "ride_payments w = ps @ [pay]" "rpyID pay \<notin> rpyID ` set ps"
  shows "\<exists>q. ride_payments w' = ps @ [q] \<and> bill q = bill pay \<and> (q = pay \<or> rpyStatus q = ''failed'') \<and> rides w' = rides w"
proof -
  let ?f = "\<lambda>p. p\<lparr>rpyStatus := ''failed'', rpySettledAt := Some (clock w)\<rparr>"
  let ?m = "\<lambda>w. (Inr (length (filter (\<lambda>p. rpyID p = rpyID pay) (ride_payments w))),
        w\<lparr>ride_payments := update_rows (\<lambda>p. rpyID p = rpyID pay)
          (\<lambda>p. p\<lparr>rpyStatus := ''failed'', rpySettledAt := Some (clock w)\<rparr>) (ride_payments w)\<rparr>)"
  obtain y w1 where 1: "db_call ?m w = (y, w1)" by force
  have "w' = w1"
    using assms(1) 1 by (auto simp: logged_def attempt_def MarkRidePaymentFailed_def must_change_def wrapErr_def
      andThen_def require_def ok_def fail_def split: prod.splits sum.splits if_splits)
  moreover have "(\<exists>ns. w1 = w\<lparr>net := ns\<rparr>) \<or> (\<exists>ns. w1 = w\<lparr>net := ns, ride_payments := ps @ [?f pay]\<rparr>)"
    using db_call_ends [OF 1] assms(2) update_last [OF assms(3) refl, of ?f] by auto
  ultimately show ?thesis using assms(2) by (auto simp: bill_def)
qed

lemma settle_InrE:
  assumes "settle_ride sv m u paise pay w = (Inr pay', w')" "ride_payments w = ps @ [pay]" "rpyID pay \<notin> rpyID ` set ps"
    "rpyStatus pay = ''pending''"
  shows "\<exists>q. ride_payments w' = ps @ [q] \<and> bill q = bill pay \<and> bill pay' = bill pay \<and> rides w' = rides w
    \<and> (m = ''cash'' \<longrightarrow> rpyStatus pay' = ''succeeded'') \<and> (rpyStatus pay' = ''succeeded'' \<longrightarrow> pay' = q)
    \<and> (m = ''wallet'' \<and> rpyStatus q = ''succeeded'' \<longrightarrow> rpyWalletTxnID q \<noteq> None)
    \<and> (m \<noteq> ''cash'' \<and> m \<noteq> ''wallet'' \<longrightarrow> q = pay)"
proof -
  note mark = MarkRidePaymentSucceeded_InrE [OF _ _ assms(3)]
  have okw: "ok pay w = (Inr pay, w)" by (simp add: ok_def)
  consider (cash) "m = ''cash''" | (kept) "m \<noteq> ''cash''" "pay' = pay" "w' = w"
    | (wallet) dm and d :: "goerr + DebitResult" and w1 where "m = ''wallet''" "on_rider_wallet dm w = (d, w1)"
        "(case d of Inl e \<Rightarrow> andThen (logged (MarkRidePaymentFailed (rpyID pay))) (\<lambda>_. ok pay)
            | Inr debit \<Rightarrow> MarkRidePaymentSucceeded (rpyID pay) (Some (drTransactionID debit)) None) w1 = (Inr pay', w')"
    using assms(1) okw by (auto simp: settle_ride_def attempt_def split: if_splits option.splits prod.splits)
  then show ?thesis
  proof cases
    case cash
    then show ?thesis using assms(1) mark [of None None w pay' w'] assms(2) by (simp add: settle_ride_def)
  next
    case kept
    then show ?thesis using assms(2,4) by (intro exI [of _ pay]) simp
  next
    case wallet
    have "stable ride_tables (on_rider_wallet dm)" by (intro stable_intros)
    from stableD [OF this wallet(2)] have w1: "ride_payments w1 = ps @ [pay]" "rides w1 = rides w"
      using assms(2) by (simp_all add: ride_tables_eq)
    show ?thesis
    proof (cases d)
      case (Inr debit)
      with wallet(3) mark [of "Some (drTransactionID debit)" None w1 pay' w'] w1 wallet(1) show ?thesis
        by (simp add: or_else_def)
    next
      case (Inl e)
      with wallet(3) obtain r w2 where 2: "logged (MarkRidePaymentFailed (rpyID pay)) w1 = (r, w2)" and "pay' = pay" "w' = w2"
        by (auto simp: andThen_def ok_def split: prod.splits sum.splits)
      with MarkRidePaymentFailed_last [OF 2 w1(1) assms(3)] w1(2) assms(4) wallet(1) show ?thesis by auto
    qed
  qed
qed

lemma GetFareRule_InrE:
  assumes "GetFareRule city v w = (Inr rule, w')"
  shows "current_rule city v (fare_rules w) = Some rule \<and> only_net w w'"
proof -
  let ?m = "\<lambda>w. if v \<notin> set rider_vehicle_type then (Inl (sqlstate ''22P02''), w) else (Inr (current_rule city v (fare_rules w)), w)"
  obtain y w1 where 1: "db_call ?m w = (Inr y, w1)" and 2: "(case y of None \<Rightarrow> fail ErrFareRuleNotFound | Some f \<Rightarrow> ok f) w1 = (Inr rule, w')"
    using assms unfolding GetFareRule_def by (rule andThen_InrE)
  from 1 obtain ns where "?m (w\<lparr>net := ns\<rparr>) = (Inr y, w1)" by (rule db_call_InrE)
  with 2 show ?thesis by (auto simp: only_net_def fail_def ok_def split: if_splits option.splits)
qed

text \<open>What a completed ride is billed, as one predicate of the state before and after.\<close>

definition billed :: "ride_row \<Rightarrow> uuid \<Rightarrow> int \<Rightarrow> RidePayment \<Rightarrow> RidePayment list \<Rightarrow> RidePayment list \<Rightarrow> bool" where
  "billed ride partner paise pay ps ps' \<longleftrightarrow> (\<exists>q. ps' = ps @ [q] \<and> rpyID q \<notin> rpyID ` set ps
     \<and> bill q = bill pay \<and> bill pay = (rpyID pay, rdID ride, partner, paise, ride_method (Ride.truncate ride))
     \<and> ride_method (Ride.truncate ride) \<in> {''cash'', ''wallet'', ''upi''}
     \<and> (ride_method (Ride.truncate ride) = ''cash'' \<longrightarrow> rpyStatus q = ''succeeded'')
     \<and> (ride_method (Ride.truncate ride) = ''upi'' \<longrightarrow> rpyStatus q = ''pending'')
     \<and> (ride_method (Ride.truncate ride) = ''wallet'' \<and> rpyStatus q = ''succeeded'' \<longrightarrow> rpyWalletTxnID q \<noteq> None)
     \<and> (rpyStatus pay = ''succeeded'' \<longrightarrow> pay = q))"

lemma bill_ride_InrE:
  assumes "bill_ride sv u req c i ride partner w = (Inr pay, w')" "rdPaymentMethod ride = rdPaymentMethod row"
    "i = rdID row"
  shows "billed row (ptID partner) (cpiFinalFarePaise c) pay (ride_payments w) (ride_payments w') \<and> rides w' = rides w"
proof -
  have meth: "ride_method (Ride.truncate row) = ride_method ride" using assms(2) by (simp add: ride_method_def)
  let ?rest = "\<lambda>pay. andThen (logged (IncrementPartnerCompleted (ptID partner))) (\<lambda>_. andThen (get clock) (\<lambda>now0.
     andThen (rider_publish (PublishRideCompleted i (ptID partner) (cprFinalDistanceKM req)
        (cprFinalDurationMin req) (cpiFinalFarePaise c) (ride_method ride) (rpyStatus pay)
        (cpiFlaggedForReview c) now0)) (\<lambda>_.
     andThen (logged (RecordRideKey (cprIdempotencyKey req) u ''ride_complete'' (Some (rpyID pay)) None)) (\<lambda>_. ok pay))))"
  let ?settle = "settle_ride sv (ride_method ride) (rdCustomerUserID ride) (cpiFinalFarePaise c)"
  let ?in = "\<lparr>cpyRideID = i, cpyPartnerID = ptID partner, cpyAmountPaise = cpiFinalFarePaise c,
     cpyPaymentMethod = ride_method ride, cpyStatus = ''pending''\<rparr>"
  obtain p1 w1 where 1: "wrapErr ''create payment'' (CreateRidePayment ?in) w = (Inr p1, w1)"
    and r1: "andThen (?settle p1) ?rest w1 = (Inr pay, w')"
    using assms(1) unfolding bill_ride_def by (rule andThen_InrE)
  obtain p2 w2 where 2: "?settle p1 w1 = (Inr p2, w2)" and r2: "?rest p2 w2 = (Inr pay, w')"
    using r1 by (rule andThen_InrE)
  have "stable ride_tables (?rest p2)" by (intro stable_intros)
  from stableD [OF this r2] have w': "ride_payments w' = ride_payments w2" "rides w' = rides w2" by (simp_all add: ride_tables_eq)
  have pay: "p2 = pay" using r2 by (auto simp: andThen_def ok_def get_def split: prod.splits sum.splits)
  note c1 = CreateRidePayment_InrE [OF wrapErr_InrE [OF 1]]
  then obtain k where "p1 = payment_of_ride ?in k ''pending'' (clock w)" by auto
  then have p1: "rpyStatus p1 = ''pending''" "bill p1 = (rpyID p1, rdID row, ptID partner, cpiFinalFarePaise c, ride_method ride)"
    using assms(3) by (simp_all add: payment_of_ride_def bill_def)
  from settle_InrE [OF 2 _ _ p1(1), of "ride_payments w"] c1 obtain q where q: "ride_payments w2 = ride_payments w @ [q]"
    "bill q = bill p1" "bill p2 = bill p1" "rides w2 = rides w1" "ride_method ride = ''cash'' \<Longrightarrow> rpyStatus p2 = ''succeeded''"
    "rpyStatus p2 = ''succeeded'' \<Longrightarrow> p2 = q" "ride_method ride = ''wallet'' \<and> rpyStatus q = ''succeeded'' \<Longrightarrow> rpyWalletTxnID q \<noteq> None"
    "ride_method ride \<noteq> ''cash'' \<and> ride_method ride \<noteq> ''wallet'' \<Longrightarrow> q = p1"
    by blast
  have ids: "rpyID q = rpyID p1" "rpyID p2 = rpyID p1" using q(2,3) by (simp_all add: bill_def)
  have meths: "ride_method ride \<in> {''cash'', ''wallet'', ''upi''}" using c1 by simp
  have "billed row (ptID partner) (cpiFinalFarePaise c) pay (ride_payments w) (ride_payments w2)"
    unfolding billed_def meth
    using q ids c1 p1 pay meths by (intro exI [of _ q] conjI impI) simp_all
  with w' q(4) c1 show ?thesis by simp
qed

definition live_key :: "string \<Rightarrow> ('v, 'r) rider \<Rightarrow> RideIdem option" where
  "live_key key w = find (\<lambda>k. rkKey k = key \<and> rkExpiresAt k > clock w) (ride_idem w)"

lemma FindRideKey_none:
  assumes "FindRideKey key u opn w = (r, w')" "live_key key w = None"
  obtains e where "r = Inl e" "only_net w w'"
proof -
  let ?q = "\<lambda>w. find (\<lambda>k. rkKey k = key \<and> rkExpiresAt k > clock w) (ride_idem w)"
  obtain y w1 where 1: "db_call (get ?q) w = (y, w1)" by force
  have "only_net w w1" using db_call_ends [OF 1] by (auto simp: only_net_def get_def)
  moreover have "y = Inr x \<Longrightarrow> x = None" for x
    using get_InrE [of ?q w x w1] 1 assms(2) by (simp add: env_blind_def live_key_def)
  moreover have "w' = w1 \<and> (\<exists>e. r = Inl e)"
    using assms(1) 1 calculation(2) unfolding FindRideKey_def
    by (auto simp: andThen_def wrapErr_def fail_def split: prod.splits sum.splits)
  ultimately show ?thesis using that by blast
qed

lemma CompleteRide_fresh:
  assumes "CompleteRide sv u i req w = (Inr pay, w')" "live_key (cprIdempotencyKey req) w = None"
  obtains w1 where "only_net w w1" "complete_fresh sv u i req w1 = (Inr pay, w')"
proof -
  let ?k = "\<lambda>k. case k of
       Inr rec \<Rightarrow> (case rkResourceID rec of Some j \<Rightarrow> GetRidePayment j | None \<Rightarrow> complete_fresh sv u i req)
     | Inl e \<Rightarrow> if errors_is e ErrRideKeyNotFound then complete_fresh sv u i req else fail e"
  have "attempt (FindRideKey (cprIdempotencyKey req) u ''ride_complete'') ?k w = (Inr pay, w')"
    using assms(1) unfolding CompleteRide_def by (elim require_InrE)
  then obtain r w1 where 1: "FindRideKey (cprIdempotencyKey req) u ''ride_complete'' w = (r, w1)" and 2: "?k r w1 = (Inr pay, w')"
    by (rule attempt_InrE)
  obtain e where "r = Inl e" "only_net w w1" using FindRideKey_none [OF 1 assms(2)] .
  with 2 that show ?thesis by (auto simp: fail_def split: if_splits)
qed

lemma the_ride_status:
  "distinct_rides (rides w) \<Longrightarrow> the_ride i w = Some row \<Longrightarrow> r \<in> set (rides w) \<Longrightarrow> rdID r = i \<Longrightarrow> rdStatus r = rdStatus row"
  by (metis distinct_ids_eq the_ride_SomeD)

text \<open>What has been read before anything is written.\<close>

lemma complete_fresh_reads:
  assumes "complete_fresh sv u i req w = (Inr pay, w')"
  obtains row p city rule w2 where "the_ride i w = Some row" "the_partner u w = Some p" "rdPartnerID row = Some (ptID p)"
    "rdCityID row = Some city" "current_rule city (rdVehicleType row) (fare_rules w) = Some rule" "only_net w w2"
    "andThen (wrapErr ''finalize ride'' (FinalizeRide (rsvNum sv) (complete_input i (Ride.truncate row) rule req))) (\<lambda>_.
       andThen (transitionRide (Ride.truncate row) ''completed'' ''partner'' (Some (ptUserID p)) None) (\<lambda>ride.
       bill_ride sv u req (complete_input i (Ride.truncate row) rule req) i ride (Partner.truncate p))) w2 = (Inr pay, w')"
proof -
  obtain x w1 where 1: "loadRideForPartner u i w = (Inr x, w1)" and r1: "(\<lambda>(ride, partner). case rdCityID ride of
       None \<Rightarrow> fail (Errorf ''invalid: ride has no city for fare lookup'')
     | Some city \<Rightarrow> andThen (wrapErr ''fare rule lookup'' (GetFareRule city (rdVehicleType ride))) (\<lambda>rule.
         let c = complete_input i ride rule req in
         andThen (wrapErr ''finalize ride'' (FinalizeRide (rsvNum sv) c)) (\<lambda>_.
         andThen (transitionRide ride ''completed'' ''partner'' (Some (ptUserID partner)) None) (\<lambda>ride.
         bill_ride sv u req c i ride partner)))) x w1 = (Inr pay, w')"
    using assms unfolding complete_fresh_def by (rule andThen_InrE)
  obtain row p where row: "the_ride i w = Some row" "the_partner u w = Some p" "rdPartnerID row = Some (ptID p)"
    "x = (Ride.truncate row, Partner.truncate p)" "only_net w w1"
    using loadRideForPartner_InrE [OF 1] by metis
  obtain city where city: "rdCityID row = Some city"
    using r1 row(4) by (auto simp: fail_def split: option.splits)
  obtain rule w2 where 2: "wrapErr ''fare rule lookup'' (GetFareRule city (rdVehicleType (Ride.truncate row))) w1 = (Inr rule, w2)"
    and r2: "(let c = complete_input i (Ride.truncate row) rule req in andThen (wrapErr ''finalize ride'' (FinalizeRide (rsvNum sv) c)) (\<lambda>_.
         andThen (transitionRide (Ride.truncate row) ''completed'' ''partner'' (Some (ptUserID (Partner.truncate p))) None) (\<lambda>ride.
         bill_ride sv u req c i ride (Partner.truncate p)))) w2 = (Inr pay, w')"
    using r1 row(4) city by simp (erule andThen_InrE, simp)
  have rule: "current_rule city (rdVehicleType row) (fare_rules w1) = Some rule" "only_net w1 w2"
    using GetFareRule_InrE [OF wrapErr_InrE [OF 2]] by simp_all
  have "fare_rules w1 = fare_rules w" using row(5) by (auto simp: only_net_def)
  with row city rule r2 only_net_trans [OF row(5) rule(2)] show ?thesis by (intro that [of row p city rule w2]) (simp_all add: Let_def)
qed

text \<open>C9: a completed ride: whatever the network does, when CompleteRide answers without an error under a
  key that is not recorded, the caller's partner has the ride and it was in progress; it is completed now,
  with the fare of the city's rule for the telemetry in the request, flagged when that is far over the
  estimate; and exactly one payment is added, of that fare, by the method of the ride: cash is settled,
  UPI stays pending, and a wallet payment that succeeded names the wallet's transaction. An answer that
  says succeeded is the row itself. No other ride or payment changes.\<close>

theorem completed_ride_is_billed:
  assumes "CompleteRide sv u i req w = (Inr pay, w')" "live_key (cprIdempotencyKey req) w = None" "distinct_rides (rides w)"
  shows "\<exists>p ride city rule c d t f. the_partner u w = Some p \<and> the_ride i w = Some ride \<and> rdPartnerID ride = Some (ptID p)
    \<and> rdStatus ride = ''in_progress'' \<and> rdCityID ride = Some city
    \<and> current_rule city (rdVehicleType ride) (fare_rules w) = Some rule
    \<and> c = complete_input i (Ride.truncate ride) rule req \<and> rsvNum sv 12 2 (cpiFinalFareINR c) = Some f
    \<and> rides w' = update_rows (\<lambda>r. rdID r = i) (\<lambda>r. (finalized c d t f (clock w) r)\<lparr>rdStatus := ''completed''\<rparr>) (rides w)
    \<and> billed ride (ptID p) (cpiFinalFarePaise c) pay (ride_payments w) (ride_payments w')"
proof -
  obtain w0 where w0: "only_net w w0" "complete_fresh sv u i req w0 = (Inr pay, w')"
    using CompleteRide_fresh [OF assms(1,2)] .
  obtain row p city rule w2 where "the_ride i w0 = Some row" "the_partner u w0 = Some p" and p: "rdPartnerID row = Some (ptID p)"
    and city: "rdCityID row = Some city" "current_rule city (rdVehicleType row) (fare_rules w0) = Some rule" and w2: "only_net w0 w2"
    and r2: "andThen (wrapErr ''finalize ride'' (FinalizeRide (rsvNum sv) (complete_input i (Ride.truncate row) rule req))) (\<lambda>_.
       andThen (transitionRide (Ride.truncate row) ''completed'' ''partner'' (Some (ptUserID p)) None) (\<lambda>ride.
       bill_ride sv u req (complete_input i (Ride.truncate row) rule req) i ride (Partner.truncate p))) w2 = (Inr pay, w')"
    using complete_fresh_reads [OF w0(2)] .
  then have at: "the_ride i w = Some row" "the_partner u w = Some p" "fare_rules w0 = fare_rules w"
    using w0(1) by (auto simp: only_net_def the_ride_def the_partner_def)
  define c where "c = complete_input i (Ride.truncate row) rule req"
  have c: "cpiRideID c = i" by (simp add: c_def complete_input_def Let_def)
  have w2: "rides w2 = rides w" "ride_payments w2 = ride_payments w" "clock w2 = clock w"
    using only_net_tables [OF only_net_trans [OF w0(1) w2]] by (simp_all add: ride_tables_eq)
  have i: "rdID row = i" using the_ride_SomeD [OF at(1)] by simp
  obtain y w3 where 3: "wrapErr ''finalize ride'' (FinalizeRide (rsvNum sv) c) w2 = (Inr y, w3)"
    and r3: "andThen (transitionRide (Ride.truncate row) ''completed'' ''partner'' (Some (ptUserID p)) None) (\<lambda>ride.
         bill_ride sv u req c i ride (Partner.truncate p)) w3 = (Inr pay, w')"
    using r2 unfolding c_def [symmetric] by (rule andThen_InrE)
  obtain d t f ns where nums: "rsvNum sv 12 2 (cpiFinalFareINR c) = Some f"
    and w3: "w3 = w2\<lparr>net := ns, rides := update_rows (\<lambda>r. rdID r = i) (finalized c d t f (clock w)) (rides w)\<rparr>"
    using FinalizeRide_InrE [OF wrapErr_InrE [OF 3]] w2 c by metis
  obtain ride' w4 where 4: "transitionRide (Ride.truncate row) ''completed'' ''partner'' (Some (ptUserID p)) None w3 = (Inr ride', w4)"
    and r4: "bill_ride sv u req c i ride' (Partner.truncate p) w4 = (Inr pay, w')"
    using r3 by (rule andThen_InrE)
  note e4 = transitionRide_InrE [OF 4]
  have st: "rdStatus row = ''in_progress''" using valid_edges [of "rdStatus row" "''completed''"] e4 by simp
  have "rides w4 = update_rows (\<lambda>r. rdID r = i \<and> rdStatus r = ''in_progress'') (set_status ''completed'' (clock w))
      (update_rows (\<lambda>r. rdID r = i) (finalized c d t f (clock w)) (rides w))"
    using e4 i st w3 w2 by simp
  also have "\<dots> = update_rows (\<lambda>r. rdID r = i) (\<lambda>r. (finalized c d t f (clock w) r)\<lparr>rdStatus := ''completed''\<rparr>) (rides w)"
    using the_ride_status [OF assms(3) at(1)] st by (auto simp: update_rows_def set_status_def finalized_def)
  finally have "rides w4 = \<dots>" .
  moreover have "billed row (ptID p) (cpiFinalFarePaise c) pay (ride_payments w) (ride_payments w')" "rides w' = rides w4"
    using bill_ride_InrE [OF r4, of row] e4 w3 w2 i by simp_all
  ultimately show ?thesis using at p st city nums c_def by auto
qed

text \<open>The final figures are written before the guarded transition, so a ride that cannot be completed
  still gets them.\<close>

lemma FinalizeRide_up:
  assumes "net w = []" "cpiRideID c \<in> rdID ` set (rides w)" "num 10 2 (cpiFinalDistanceKM c) = Some d"
    "num 10 2 (of_int (cpiFinalDurationMin c)) = Some t" "num 12 2 (cpiFinalFareINR c) = Some f"
  shows "FinalizeRide num c w = (Inr (), w\<lparr>rides := update_rows (\<lambda>r. rdID r = cpiRideID c) (finalized c d t f (clock w)) (rides w)\<rparr>)"
proof -
  have "filter (\<lambda>r. rdID r = cpiRideID c) (rides w) \<noteq> []" using assms(2) by (auto simp: filter_empty_conv)
  with assms show ?thesis by (simp add: FinalizeRide_def must_change_def sql_update_rides_def io_defs finalized_def [abs_def])
qed

text \<open>completing a ride that is not in progress, with the services up and a new key, is refused, but
  not before the refused request has replaced the final distance, duration and fare of the ride and the
  time it was completed: a cancelled ride gets a fare, a completed and paid one another.\<close>

theorem complete_again_rewrites_fare:
  assumes "net w = []" "cprIdempotencyKey req \<noteq> []" "0 \<le> cprFinalDistanceKM req" "0 \<le> cprFinalDurationMin req"
    and "live_key (cprIdempotencyKey req) w = None" "the_partner u w = Some p" "the_ride i w = Some ride"
    and "rdPartnerID ride = Some (ptID p)" "rdStatus ride \<noteq> ''in_progress''" "rdCityID ride = Some city"
    and "rdVehicleType ride \<in> set rider_vehicle_type" "current_rule city (rdVehicleType ride) (fare_rules w) = Some rule"
    and "c = complete_input i (Ride.truncate ride) rule req" "rsvNum sv 10 2 (cpiFinalDistanceKM c) = Some d"
    and "rsvNum sv 10 2 (of_int (cpiFinalDurationMin c)) = Some t" "rsvNum sv 12 2 (cpiFinalFareINR c) = Some f"
  shows "\<exists>e. CompleteRide sv u i req w = (Inl e, w\<lparr>rides := update_rows (\<lambda>r. rdID r = i) (finalized c d t f (clock w)) (rides w)\<rparr>)"
proof -
  have load: "loadRideForPartner u i w = (Inr (Ride.truncate ride, Partner.truncate p), w)"
    using assms(1,6-8) by (simp add: loadRideForPartner_def find_ride_def find_partner_def or_not_found_def store_GetRide_def
      GetPartnerByUserID_def query_row_def the_partner_def the_ride_def io_defs)
  have rule: "GetFareRule city (rdVehicleType ride) w = (Inr rule, w)"
    using assms(1,11,12) by (simp add: GetFareRule_def io_defs)
  have id: "cpiRideID c = i" using assms(13) by (simp add: complete_input_def Let_def)
  then have "cpiRideID c \<in> rdID ` set (rides w)" using the_ride_SomeD [OF assms(7)] by (metis imageI)
  note final = FinalizeRide_up [where num = "rsvNum sv", OF assms(1) this assms(14-16), unfolded id]
  obtain e where "validRideTransition (rdStatus ride) ''completed'' = Some e"
    using valid_edges [of "rdStatus ride" "''completed''"] assms(9) by force
  then have "\<exists>e. complete_fresh sv u i req w = (Inl e, w\<lparr>rides := update_rows (\<lambda>r. rdID r = i) (finalized c d t f (clock w)) (rides w)\<rparr>)"
    using load rule final assms(10,13) by (simp add: complete_fresh_def Let_def transitionRide_def io_defs)
  then show ?thesis
    using assms(1-5) by (simp add: CompleteRide_def FindRideKey_def live_key_def io_defs ErrRideKeyNotFound_def)
qed

end
