(* ===== verification/Rider_Renewals.thy ===== *)
theory Rider_Renewals
  imports Rider_Subscriptions Rider_Behaviour
begin

text \<open>
  What subscribing and the jobs on subscriptions guarantee: what a request does to the wallet under any
  network, what an activated subscription leaves in the tables, that subscriptions are never lost or
  shortened, and what the end of a period does. The locale \<open>subs_apart\<close> states once which parts of the
  state the statements on subscriptions leave alone.
\<close>

section \<open>Parts of the state that subscriptions do not touch\<close>

locale subs_apart =
  fixes part :: "('v, 'r) rider \<Rightarrow> 'k"
  assumes blind: "env_blind part"
    and apart: "\<And>w ps. part (w\<lparr>sub_payments := ps\<rparr>) = part w" "\<And>w ss. part (w\<lparr>ride_subs := ss\<rparr>) = part w"
      "\<And>w ks. part (w\<lparr>ride_idem := ks\<rparr>) = part w" "\<And>w es. part (w\<lparr>rider_events := es\<rparr>) = part w"
      "\<And>w rs. part (w\<lparr>rider_reminders := rs\<rparr>) = part w"
begin

lemma db: "stable part m \<Longrightarrow> stable part (db_call m)"
  by (rule stable_db_call [OF blind])

lemma row: "stable part (query_row q e)"
  unfolding query_row_def by (intro stable_intros db)

lemma uuids: "stable part gen_random_uuid"
  by (rule stable_gen_random_uuid [OF blind])

lemma publish: "stable part (rider_publish ev)" "stable part (job_publish pub ev)"
  unfolding rider_publish_def job_publish_def by (intro stable_intros db stable_modify; simp add: apart)+

lemma reads:
  "stable part (GetMyPartner u)" "stable part (GetPartner i)" "stable part (GetPlan i)" "stable part (GetSubscriptionPayment i)"
  "stable part (ListActivePlans)" "stable part (GetActiveSubscription i)" "stable part (FindRideKey key u opn)"
  "stable part (ListExpiringSubscriptions t)" "stable part (ListAutoRenewCandidates t c)"
  unfolding GetMyPartner_def GetPartner_def GetPlan_def GetSubscriptionPayment_def ListActivePlans_def GetActiveSubscription_def
    FindRideKey_def ListExpiringSubscriptions_def ListAutoRenewCandidates_def GetPartnerByUserID_def or_not_found_def Let_def
  by (intro stable_intros row db)+

lemma not_found: "stable part m \<Longrightarrow> stable part (or_not_found e msg m)"
  unfolding or_not_found_def by (intro stable_intros)

lemma payment_updates: "stable part (sql_update_sub_payment i f)" "stable part (sql_update_sub i g)"
  by (simp_all add: stable_def sql_update_sub_payment_def sql_update_sub_def Let_def apart)

lemma update_with_clock: "stable part (\<lambda>w. sql_update_sub i (g w) w)"
  by (simp add: stable_def sql_update_sub_def Let_def apart)

lemma payments:
  "stable part (CreateSubscriptionPayment num ci)" "stable part (MarkSubPaymentVerified i t s)"
  "stable part (MarkSubPaymentFailed i reason)" "stable part (AttachPaymentProof i url)"
proof -
  show "stable part (CreateSubscriptionPayment num ci)"
    unfolding CreateSubscriptionPayment_def
    by (intro stable_intros db uuids) (simp add: stable_def sql_insert_sub_payment_def apart split: option.split)
  have "stable part (sql_update_sub_payment i f)" for f by (rule payment_updates)
  then show "stable part (MarkSubPaymentVerified i t s)" "stable part (MarkSubPaymentFailed i reason)"
      "stable part (AttachPaymentProof i url)"
    unfolding MarkSubPaymentVerified_def MarkSubPaymentFailed_def AttachPaymentProof_def sub_payment_row_def
    by (intro stable_intros db; simp add: stable_def)+
qed

lemma subscriptions:
  "stable part (CreateSubscription ci)" "stable part (RecordRideKey key u opn res body)" "stable part (RenewSubscription i)"
  "stable part (IncrementRenewalFailure i n)" "stable part (MarkRenewalAttempted i)" "stable part (sql_flip_subs c f)"
  "stable part (sub_MarkReminderSent p d t b)"
proof -
  show "stable part (CreateSubscription ci)"
    unfolding CreateSubscription_def by (intro stable_intros db uuids) (simp add: stable_def Let_def apart)
  show "stable part (RecordRideKey key u opn res body)"
    unfolding RecordRideKey_def by (intro stable_intros db) (simp add: stable_def apart)
  show "stable part (RenewSubscription i)" "stable part (MarkRenewalAttempted i)"
    unfolding RenewSubscription_def MarkRenewalAttempted_def by (intro stable_intros db update_with_clock)+
  have "stable part (\<lambda>w. if c w then (Inl e, w) else sql_update_sub i (g w) w)" for c :: "('v, 'r) rider \<Rightarrow> bool" and e g
    using update_with_clock [of i g] by (simp add: stable_def)
  then show "stable part (IncrementRenewalFailure i n)"
    unfolding IncrementRenewalFailure_def Let_def by (intro stable_intros db)
  show "stable part (sql_flip_subs c f)" by (simp add: stable_def sql_flip_subs_def Let_def apart)
  show "stable part (sub_MarkReminderSent p d t b)"
    unfolding sub_MarkReminderSent_def by (intro stable_intros db uuids) (simp add: stable_def apart)
qed

lemma activate: "stable part (activateSubscriptionWithPlan p pl i t)"
  unfolding activateSubscriptionWithPlan_def by (intro stable_intros payments subscriptions publish)

end

interpretation wallet_side: subs_apart rider_wallet
  by unfold_locales (simp_all add: env_blind_def)

interpretation rides_side: subs_apart ride_tables
  by unfold_locales (simp_all add: ride_tables_eq)

interpretation register_side: subs_apart "\<lambda>w. (ride_partners w, ride_plans w, clock w)"
  by unfold_locales (simp_all add: env_blind_def)

section \<open>What a request does to the wallet\<close>

text \<open>Everything the wallet can have seen: nothing, or one debit, which is kept for a subscription or
  followed by one refund.\<close>

definition wallet_seen ::
  "'v RiderWallet option \<Rightarrow> uuid \<Rightarrow> int \<Rightarrow> string \<Rightarrow> 'v \<Rightarrow> goerr + SubscribeResult \<Rightarrow> 'v \<Rightarrow> bool" where
  "wallet_seen wallet user amount key v r v' \<longleftrightarrow> v' = v \<or>
     (\<exists>wc i d v1. wallet = Some wc \<and> amount \<noteq> 0 \<and> DebitForSubscription wc user amount i key v = (d, v1) \<and> (case d of
        Inl e \<Rightarrow> r = Inl (Wrap ''wallet debit'' e) \<and> v' = v1
      | Inr x \<Rightarrow> (\<exists>res. r = Inr res \<and> srsSubscriptionID res \<noteq> None) \<and> v' = v1
          \<or> (\<exists>e. r = Inl e) \<and> v' = snd (RefundSubscription wc (drTransactionID x) amount ''rider activation failed'' v1)))"

lemma on_wallet: "on_rider_wallet m w = (r, w') \<Longrightarrow> m (rider_wallet w) = (r, rider_wallet w')"
  by (auto simp: on_rider_wallet_def split: prod.splits)

lemma failed_then:
  assumes "andThen (logged m) (\<lambda>_. fail e) w = (r, w')" "stable part m"
  shows "r = Inl e \<and> part w' = part w"
  using assms by (auto simp: andThen_def logged_def fail_def stable_def split: prod.splits) (metis snd_conv)

lemma activate_debited_wallet:
  assumes "activate_debited wc p pl res txn w = (r, w')"
  shows "(\<exists>res. r = Inr res \<and> srsSubscriptionID res \<noteq> None) \<and> rider_wallet w' = rider_wallet w
    \<or> (\<exists>e. r = Inl e) \<and> rider_wallet w' = snd (RefundSubscription wc txn (srsAmountPaise res) ''rider activation failed'' (rider_wallet w))"
proof -
  obtain a w1 where a: "activateSubscriptionWithPlan p pl (srsPaymentID res) (Some txn) w = (a, w1)" by force
  have w1: "rider_wallet w1 = rider_wallet w" using stableD [OF wallet_side.activate a] .
  show ?thesis
  proof (cases a)
    case (Inr sub)
    with assms a w1 show ?thesis by (auto simp: activate_debited_def attempt_def ok_def with_sub_def)
  next
    case (Inl e)
    let ?refund = "on_rider_wallet (RefundSubscription wc txn (srsAmountPaise res) ''rider activation failed'')"
    obtain b w2 where b: "?refund w1 = (b, w2)" by force
    have "andThen (logged (MarkSubPaymentFailed (srsPaymentID res) (err_msg e))) (\<lambda>_. fail e) w2 = (r, w')"
      using assms a Inl b by (simp add: activate_debited_def attempt_def andThen_def logged_def)
    from failed_then [OF this wallet_side.payments(3)] on_wallet [OF b] w1 show ?thesis by simp
  qed
qed

lemma pay_subscription_wallet:
  assumes "pay_subscription sv m p pl key res w = (r, w')"
  shows "rider_wallet w' = rider_wallet w \<or> m = ''wallet'' \<and>
    wallet_seen (rsvWallet sv) (ptUserID p) (srsAmountPaise res) key (rider_wallet w) r (rider_wallet w')"
proof -
  have free: "stable rider_wallet (activate_free p pl res)"
    unfolding activate_free_def by (intro stable_intros wallet_side.activate wallet_side.payments)
  consider (kept) "rider_wallet w' = rider_wallet w"
    | (wallet) wc where "m = ''wallet''" "rsvWallet sv = Some wc" "srsAmountPaise res \<noteq> 0" "debit_and_activate wc p pl key res w = (r, w')"
    using assms stableD [OF free, of w r w']
    by (auto simp: pay_subscription_def ok_def fail_def split: if_splits option.splits)
  then show ?thesis
  proof cases
    case kept
    then show ?thesis by simp
  next
    case wallet
    let ?debit = "DebitForSubscription wc (ptUserID p) (srsAmountPaise res) (srsPaymentID res) key"
    obtain d w1 where d: "on_rider_wallet ?debit w = (d, w1)" by force
    note seen = on_wallet [OF d]
    show ?thesis
    proof (cases d)
      case (Inl e)
      then have "andThen (logged (MarkSubPaymentFailed (srsPaymentID res) (err_msg e))) (\<lambda>_. fail (Wrap ''wallet debit'' e)) w1 = (r, w')"
        using wallet(4) d by (simp add: debit_and_activate_def attempt_def)
      from failed_then [OF this wallet_side.payments(3)] seen Inl wallet(1-3) show ?thesis
        unfolding wallet_seen_def by (intro disjI2 conjI exI [of _ wc] exI [of _ "srsPaymentID res"] exI [of _ d] exI [of _ "rider_wallet w1"]) simp_all
    next
      case (Inr x)
      then have "activate_debited wc p pl res (drTransactionID x) w1 = (r, w')"
        using wallet(4) d by (simp add: debit_and_activate_def attempt_def)
      from activate_debited_wallet [OF this] seen Inr wallet(1-3) show ?thesis
        unfolding wallet_seen_def by (intro disjI2 conjI exI [of _ wc] exI [of _ "srsPaymentID res"] exI [of _ d] exI [of _ "rider_wallet w1"]) simp_all
    qed
  qed
qed

text \<open>Backward rules: a step that keeps the part either stops the operation or hands its answer on.\<close>

lemma passes_andThen:
  assumes "stable part m" "\<And>r w'. part w' = part w \<Longrightarrow> Q (r, w')"
    and "\<And>x w1. m w = (Inr x, w1) \<Longrightarrow> part w1 = part w \<Longrightarrow> Q (f x w1)"
  shows "Q (andThen m f w)"
proof -
  obtain a w1 where m: "m w = (a, w1)" by force
  have "part w1 = part w" using stableD [OF assms(1) m] .
  with m assms(2,3) show ?thesis by (cases a) (simp_all add: andThen_def)
qed

lemma passes_require:
  assumes "\<And>r. Q (r, w)" "c \<Longrightarrow> Q (m w)"
  shows "Q (require c e m w)"
  using assms by (simp add: require_def fail_def)

lemma GetMyPartner_InrE:
  assumes "GetMyPartner u w = (Inr p, w')"
  obtains row where "the_partner u w = Some row" "p = Partner.truncate row" "only_net w w'" "ptUserID p = u"
proof -
  have "query_row (\<lambda>w. map_option Partner.truncate (find (\<lambda>p. ptUserID p = u \<and> pwDeletedAt p = None) (ride_partners w)))
      ErrPartnerNotFound w = (Inr p, w')"
    using assms unfolding GetMyPartner_def GetPartnerByUserID_def by (elim require_InrE) (rule or_not_found_InrE)
  from query_row_InrE [OF this] obtain row where "the_partner u w = Some row" "p = Partner.truncate row" "only_net w w'"
    by (auto simp: env_blind_def the_partner_def)
  with find_SomeD [of "\<lambda>p. ptUserID p = u \<and> pwDeletedAt p = None" "ride_partners w" row] that show ?thesis
    by (simp add: the_partner_def)
qed

definition the_plan :: "uuid \<Rightarrow> ('v, 'r) rider \<Rightarrow> SubscriptionPlan option" where
  "the_plan i w = find (\<lambda>p. plID p = i) (ride_plans w)"

lemma GetPlan_InrE:
  assumes "or_not_found e msg (GetPlan i) w = (Inr pl, w')"
  shows "the_plan i w = Some pl \<and> only_net w w'"
  using query_row_InrE [OF or_not_found_InrE [OF assms, unfolded GetPlan_def]] by (simp add: env_blind_def the_plan_def)

definition subscribed_wallet ::
  "('v, 'r) RiderService \<Rightarrow> uuid \<Rightarrow> uuid \<Rightarrow> string \<Rightarrow> string \<Rightarrow> ('v, 'r) rider \<Rightarrow> (goerr + SubscribeResult) \<times> ('v, 'r) rider \<Rightarrow> bool" where
  "subscribed_wallet sv u plan m key w z \<longleftrightarrow> (case z of (r, w') \<Rightarrow> rider_wallet w' = rider_wallet w
     \<or> (\<exists>pl. the_plan plan w = Some pl \<and> m = ''wallet'' \<and>
         wallet_seen (rsvWallet sv) u (to_paise (plPriceAmount pl)) key (rider_wallet w) r (rider_wallet w')))"

lemma subscribed_untouched: "rider_wallet w' = rider_wallet w \<Longrightarrow> subscribed_wallet sv u plan m key w (r, w')"
  by (simp add: subscribed_wallet_def)

lemma FindRideKey_net: "FindRideKey key u opn w = (r, w') \<Longrightarrow> only_net w w'"
proof -
  assume f: "FindRideKey key u opn w = (r, w')"
  let ?q = "\<lambda>w. find (\<lambda>k. rkKey k = key \<and> rkExpiresAt k > clock w) (ride_idem w)"
  obtain y w1 where 1: "db_call (get ?q) w = (y, w1)" by force
  have "only_net w w1" using db_call_ends [OF 1] by (auto simp: only_net_def get_def)
  moreover have "w' = w1"
    using f 1 unfolding FindRideKey_def
    by (auto simp: andThen_def wrapErr_def fail_def ok_def require_def split: prod.splits sum.splits option.splits if_splits)
  ultimately show ?thesis by simp
qed

lemma pay_and_record_wallet:
  assumes "the_plan plan w = Some pl" "ptUserID p = u" "rider_wallet w1 = rider_wallet w"
    and "srsAmountPaise res0 = to_paise (plPriceAmount pl)"
  shows "subscribed_wallet sv u plan m key w (andThen (pay_subscription sv m p pl key res0) (\<lambda>res.
     andThen (logged (RecordRideKey key u SubscribeOperation i (Some (SubscribeBody res)))) (\<lambda>_. ok res)) w1)"
proof -
  obtain a w2 where a: "pay_subscription sv m p pl key res0 w1 = (a, w2)" by force
  note paid = pay_subscription_wallet [OF a]
  show ?thesis
  proof (cases a)
    case (Inl e)
    with a paid assms show ?thesis by (auto simp: subscribed_wallet_def andThen_def)
  next
    case (Inr res)
    let ?rec = "logged (RecordRideKey key u SubscribeOperation i (Some (SubscribeBody res)))"
    obtain w3 where b: "?rec w2 = (Inr (), w3)"
      by (cases "RecordRideKey key u SubscribeOperation i (Some (SubscribeBody res)) w2") (simp add: logged_def)
    have "stable rider_wallet ?rec" by (intro stable_intros wallet_side.subscriptions)
    from stableD [OF this b] a b paid Inr assms show ?thesis
      by (simp add: subscribed_wallet_def andThen_def ok_def)
  qed
qed

lemma subscribe_fresh_wallet: "subscribed_wallet sv u plan m key w (subscribe_fresh sv u plan m key w)"
  unfolding subscribe_fresh_def
proof (rule passes_andThen [where Q = "subscribed_wallet sv u plan m key w" and part = rider_wallet], goal_cases)
  case 1
  show ?case by (rule wallet_side.reads)
next
  case (2 r w')
  then show ?case by (rule subscribed_untouched)
next
  case (3 p w1)
  from GetMyPartner_InrE [OF 3(1)] have u: "only_net w w1" "ptUserID p = u" by metis+
  note w1 = 3(2)
  show ?case
  proof (rule passes_andThen [where Q = "subscribed_wallet sv u plan m key w" and part = rider_wallet], goal_cases)
    case 1
    show ?case by (rule wallet_side.not_found [OF wallet_side.reads(3)])
  next
    case (2 r w')
    with w1 show ?case by (simp add: subscribed_untouched)
  next
    case (3 pl w2)
    have the: "the_plan plan w = Some pl" using GetPlan_InrE [OF 3(1)] u(1) by (auto simp: only_net_def the_plan_def)
    note w2 = 3(2)
    let ?Q = "subscribed_wallet sv u plan m key w"
    show ?case
      apply (rule passes_require [where Q = ?Q], simp add: subscribed_untouched w1 w2)
      apply (rule passes_require [where Q = ?Q], simp add: subscribed_untouched w1 w2)
      apply (rule passes_andThen [where Q = ?Q and part = rider_wallet])
        apply (intro stable_intros wallet_side.payments)
       apply (simp add: subscribed_untouched w1 w2)
      apply (rule passes_andThen [where Q = ?Q and part = rider_wallet])
        apply (rule wallet_side.publish)
       apply (simp add: subscribed_untouched w1 w2)
      apply (rule pay_and_record_wallet [OF the u(2)])
       apply (simp_all add: w1 w2)
      done
  qed
qed

text \<open>C10: what subscribing does to money, whatever the network does: a request leaves the wallet alone, or
  it pays by wallet and the wallet sees exactly one debit of the plan's price from the caller under the
  caller's key; a refused debit is the error it reports; after an accepted one either the answer names
  the subscription, or it is an error and the same amount has been sent back exactly once.\<close>

theorem subscribe_debits_or_refunds: "subscribed_wallet sv u plan m key w (Subscribe sv u plan m key w)"
proof -
  let ?Q = "subscribed_wallet sv u plan m key w"
  let ?k = "\<lambda>k. case k of
       Inr rec \<Rightarrow> (case cached_subscription rec of Some res \<Rightarrow> ok res | None \<Rightarrow> subscribe_fresh sv u plan m key)
     | Inl e \<Rightarrow> if errors_is e ErrRideKeyNotFound then subscribe_fresh sv u plan m key else fail e"
  obtain k w1 where k: "FindRideKey key u SubscribeOperation w = (k, w1)" by force
  have w1: "only_net w w1" by (rule FindRideKey_net [OF k])
  then have same: "the_plan plan w1 = the_plan plan w" "rider_wallet w1 = rider_wallet w" by (auto simp: only_net_def the_plan_def)
  have fresh: "?Q (subscribe_fresh sv u plan m key w1)"
    using subscribe_fresh_wallet [of sv u plan m key w1] unfolding subscribed_wallet_def same .
  have untouched: "?Q (r, w)" "?Q (r, w1)" for r by (simp_all add: subscribed_untouched same)
  have "?Q (?k k w1)"
    using fresh untouched(2) by (auto simp: ok_def fail_def split: sum.split option.split)
  then have "?Q (attempt (FindRideKey key u SubscribeOperation) ?k w)" using k by (simp add: attempt_def)
  then show ?thesis
    unfolding Subscribe_def by (intro passes_require [where Q = ?Q] untouched)
qed

section \<open>What a paid subscription leaves in the tables\<close>

text \<open>The tables a subscription is written to.\<close>

definition sub_tables :: "('v, 'r) rider \<Rightarrow> sub_row list \<times> SubscriptionPayment list \<times> int" where
  "sub_tables w = (ride_subs w, sub_payments w, clock w)"

lemma sub_tables_eq: "sub_tables w' = sub_tables w \<longleftrightarrow>
    ride_subs w' = ride_subs w \<and> sub_payments w' = sub_payments w \<and> clock w' = clock w"
  by (simp add: sub_tables_def)

lemma sub_tables_blind [simp]: "env_blind sub_tables"
  by (simp add: env_blind_def sub_tables_def)

lemma sub_tables_outside [stable_intros]:
  "stable sub_tables (rider_publish ev)" "stable sub_tables (RecordRideKey k u opn res body)" "stable sub_tables (on_rider_wallet m)"
proof -
  show "stable sub_tables (rider_publish ev)"
    unfolding rider_publish_def by (intro stable_intros stable_db_call [OF sub_tables_blind] stable_modify) (simp add: sub_tables_def)
  show "stable sub_tables (RecordRideKey k u opn res body)"
    unfolding RecordRideKey_def by (intro stable_intros stable_db_call [OF sub_tables_blind]) (simp add: stable_def sub_tables_def)
  show "stable sub_tables (on_rider_wallet m)"
    by (auto intro!: stableI simp: on_rider_wallet_def sub_tables_def split: prod.splits)
qed

lemma uuid_InrE:
  assumes "andThen gen_random_uuid f w = (r, w')"
  shows "f (idgen w (idctr w)) (w\<lparr>idctr := Suc (idctr w)\<rparr>) = (r, w')"
  using assms by (simp add: andThen_def gen_random_uuid_def)

lemma CreateSubscriptionPayment_InrE:
  assumes "CreateSubscriptionPayment num i w = (Inr p, w')"
  shows "sub_payments w' = sub_payments w @ [p] \<and> ride_subs w' = ride_subs w \<and> clock w' = clock w
    \<and> sbpID p \<notin> sbpID ` set (sub_payments w) \<and> (\<exists>a. num 12 2 (cspAmount i) = Some a \<and> p = sub_payment_of i (sbpID p) a (clock w))"
proof -
  let ?m = "\<lambda>id0 w. if (if cspStatus i = [] then ''pending'' else cspStatus i) \<notin> set rider_payment_status
     then (Inl (sqlstate ''22P02''), w)
     else (case num 12 2 (cspAmount i) of
         None \<Rightarrow> (Inl (sqlstate ''22003''), w)
       | Some a \<Rightarrow> sql_insert_sub_payment (sub_payment_of i id0 a (clock w)) w)"
  obtain ns where "andThen gen_random_uuid ?m (w\<lparr>net := ns\<rparr>) = (Inr p, w')"
    using assms unfolding CreateSubscriptionPayment_def by (rule db_call_InrE)
  from uuid_InrE [OF this] obtain a where a: "num 12 2 (cspAmount i) = Some a"
    and p: "sql_insert_sub_payment (sub_payment_of i (idgen w (idctr w)) a (clock w)) (w\<lparr>net := ns, idctr := Suc (idctr w)\<rparr>) = (Inr p, w')"
    by (auto split: if_splits option.splits)
  have id: "sbpID (sub_payment_of i k a t) = k" for k t by (simp add: sub_payment_of_def)
  from p a show ?thesis by (auto simp: sql_insert_sub_payment_def id split: if_splits)
qed

lemma CreateSubscription_InrE:
  assumes "CreateSubscription i w = (Inr s, w')"
  obtains sub where "ride_subs w' = ride_subs w @ [sub]" "s = PartnerSubscription.truncate sub" "sub_payments w' = sub_payments w"
    "clock w' = clock w" "sub = sub_of_input i (suID sub) (clock w)" "suID sub \<notin> suID ` set (ride_subs w)"
proof -
  let ?s = "sub_of_input i (idgen w (idctr w)) (clock w)"
  obtain ns where "andThen gen_random_uuid (\<lambda>id0 w. let s = sub_of_input i id0 (clock w) in
     if suStatus s \<notin> set rider_subscription_status then (Inl (sqlstate ''22P02''), w)
     else if id0 \<in> suID ` set (ride_subs w) then (Inl (sqlstate ''23505''), w)
     else if csiPartnerID i \<notin> ptID ` set (ride_partners w) \<or> csiPlanID i \<notin> plID ` set (ride_plans w)
       then (Inl (sqlstate ''23503''), w)
     else (Inr (PartnerSubscription.truncate s), w\<lparr>ride_subs := ride_subs w @ [s]\<rparr>)) (w\<lparr>net := ns\<rparr>) = (Inr s, w')"
    using assms unfolding CreateSubscription_def by (rule db_call_InrE)
  note run = uuid_InrE [OF this]
  have id: "suID ?s = idgen w (idctr w)" by (simp add: sub_of_input_def)
  from run have "s = PartnerSubscription.truncate ?s" "w' = w\<lparr>net := ns, idctr := Suc (idctr w), ride_subs := ride_subs w @ [?s]\<rparr>"
    "suID ?s \<notin> suID ` set (ride_subs w)"
    by (auto simp: Let_def id split: if_splits)
  then show ?thesis by (intro that [of ?s]) (simp_all add: id)
qed

lemma sub_payment_row_InrE:
  assumes "sub_payment_row m w = (Inr q, w')"
  obtains ns where "m (w\<lparr>net := ns\<rparr>) = (Inr (Some q), w')"
proof -
  obtain y w1 where 1: "db_call m w = (Inr y, w1)" and 2: "(case y of None \<Rightarrow> fail ErrSubPaymentNotFound | Some p \<Rightarrow> ok p) w1 = (Inr q, w')"
    using assms unfolding sub_payment_row_def by (rule andThen_InrE)
  from 1 obtain ns where ns: "m (w\<lparr>net := ns\<rparr>) = (Inr y, w1)" by (rule db_call_InrE)
  have "y = Some q" "w' = w1" using 2 by (auto simp: ok_def fail_def split: option.splits)
  with ns show ?thesis by (intro that) simp
qed

lemma MarkSubPaymentVerified_InrE:
  assumes "MarkSubPaymentVerified (sbpID p) t s w = (Inr q, w')" "sub_payments w = ps @ [p]" "sbpID p \<notin> sbpID ` set ps"
  shows "sub_payments w' = ps @ [p\<lparr>sbpStatus := ''verified'', sbpWalletTxnID := or_else t (sbpWalletTxnID p),
      sbpSubscriptionID := or_else s (sbpSubscriptionID p), sbpVerifiedAt := Some (clock w), sbpUpdatedAt := clock w\<rparr>]
    \<and> ride_subs w' = ride_subs w \<and> clock w' = clock w"
proof -
  have "\<forall>x \<in> set ps. sbpID x \<noteq> sbpID p" using assms(3) by (metis imageI)
  then have rest: "update_rows (\<lambda>x. sbpID x = sbpID p) f ps = ps" for f
    by (auto simp: update_rows_def intro!: map_idI)
  show ?thesis
  proof (rule sub_payment_row_InrE [OF assms(1) [unfolded MarkSubPaymentVerified_def]], goal_cases)
    case (1 ns)
    then show ?case by (simp add: sql_update_sub_payment_def Let_def assms(2) rest split: if_splits) auto
  qed
qed

lemma activate_InrE:
  assumes "activateSubscriptionWithPlan p pl (sbpID pay0) t w = (Inr s, w')" "sub_payments w = ps @ [pay0]" "sbpID pay0 \<notin> sbpID ` set ps"
  obtains sub where "ride_subs w' = ride_subs w @ [sub]" "s = PartnerSubscription.truncate sub"
    "sub = sub_of_input \<lparr>csiPartnerID = ptID p, csiPlanID = plID pl, csiStatus = plan_status pl, csiStartsAt = clock w,
        csiExpiresAt = clock w + plBillingPeriodDays pl * day_us\<rparr> (suID sub) (clock w)"
    "sub_payments w' = ps @ [pay0\<lparr>sbpStatus := ''verified'', sbpWalletTxnID := or_else t (sbpWalletTxnID pay0),
        sbpSubscriptionID := Some (suID sub), sbpVerifiedAt := Some (clock w), sbpUpdatedAt := clock w\<rparr>]"
proof -
  let ?i = "\<lparr>csiPartnerID = ptID p, csiPlanID = plID pl, csiStatus = plan_status pl, csiStartsAt = clock w,
        csiExpiresAt = clock w + plBillingPeriodDays pl * day_us\<rparr>"
  let ?pub = "\<lambda>sub. andThen (rider_publish (PublishSubscriptionPaymentVerified (sbpID pay0) (ptID p) (plID pl) (plPriceAmount pl)
        (plCurrencyCode pl) ''wallet'')) (\<lambda>_.
     andThen (rider_publish (PublishSubscriptionActivated (suID sub) (ptID p) (plID pl) (suStatus sub)
        (suStartsAt sub) (suExpiresAt sub))) (\<lambda>_. ok sub))"
  obtain s1 w1 where 1: "wrapErr ''create subscription'' (CreateSubscription ?i) w = (Inr s1, w1)"
    and r1: "andThen (wrapErr ''mark payment verified'' (MarkSubPaymentVerified (sbpID pay0) t (Some (suID s1)))) (\<lambda>_. ?pub s1) w1 = (Inr s, w')"
    using assms(1) unfolding activateSubscriptionWithPlan_def andThen_get by (rule andThen_InrE)
  obtain sub where sub: "ride_subs w1 = ride_subs w @ [sub]" "s1 = PartnerSubscription.truncate sub" "sub_payments w1 = sub_payments w"
    "clock w1 = clock w" "sub = sub_of_input ?i (suID sub) (clock w)"
    using CreateSubscription_InrE [OF wrapErr_InrE [OF 1]] by metis
  obtain q w2 where 2: "wrapErr ''mark payment verified'' (MarkSubPaymentVerified (sbpID pay0) t (Some (suID s1))) w1 = (Inr q, w2)"
    and r2: "?pub s1 w2 = (Inr s, w')"
    using r1 by (rule andThen_InrE)
  have id: "suID s1 = suID sub" using sub(2) by (simp add: PartnerSubscription.truncate_def)
  from MarkSubPaymentVerified_InrE [OF wrapErr_InrE [OF 2] _ assms(3), unfolded id] sub(1,3,4) assms(2)
  have w2: "ride_subs w2 = ride_subs w @ [sub]" "sub_payments w2 = ps @ [pay0\<lparr>sbpStatus := ''verified'',
      sbpWalletTxnID := or_else t (sbpWalletTxnID pay0), sbpSubscriptionID := Some (suID sub), sbpVerifiedAt := Some (clock w),
      sbpUpdatedAt := clock w\<rparr>]"
    by (simp_all add: or_else_def)
  have "stable sub_tables (?pub s1)" by (intro stable_intros)
  from stableD [OF this r2] have "ride_subs w' = ride_subs w2" "sub_payments w' = sub_payments w2" by (simp_all add: sub_tables_eq)
  moreover have "s = s1" using r2 by (auto simp: andThen_def ok_def split: prod.splits sum.splits)
  ultimately show ?thesis using w2 sub(2,5) by (intro that) simp_all
qed

text \<open>What an answer of the wallet branch says, and what it left: the last payment is the pending one, as
  the request made it.\<close>

definition pass_sold :: "Partner \<Rightarrow> SubscriptionPlan \<Rightarrow> int \<Rightarrow> SubscriptionPayment \<Rightarrow> SubscribeResult \<Rightarrow> sub_row \<Rightarrow> SubscriptionPayment \<Rightarrow> bool" where
  "pass_sold p pl now0 pay0 res sub pay \<longleftrightarrow> suPartnerID sub = ptID p \<and> suPlanID sub = plID pl \<and> suStatus sub = plan_status pl
     \<and> suStartsAt sub = now0 \<and> suExpiresAt sub = now0 + plBillingPeriodDays pl * day_us
     \<and> (\<exists>t. pay = pay0\<lparr>sbpStatus := ''verified'', sbpWalletTxnID := t, sbpSubscriptionID := Some (suID sub),
          sbpVerifiedAt := Some now0, sbpUpdatedAt := now0\<rparr> \<and> (t = None \<longleftrightarrow> to_paise (plPriceAmount pl) = 0))
     \<and> srsPaymentID res = sbpID pay0 \<and> srsSubscriptionID res = Some (suID sub) \<and> srsStatus res = plan_status pl
     \<and> srsExpiresAt res = Some (suExpiresAt sub) \<and> srsAmountPaise res = to_paise (plPriceAmount pl)"

lemma plan_status_set: "plan_status pl \<noteq> []"
  by (simp add: plan_status_def)

lemma activate_sells:
  assumes "activateSubscriptionWithPlan p pl (sbpID pay0) t w = (Inr s, w')" "sub_payments w = ps @ [pay0]" "sbpID pay0 \<notin> sbpID ` set ps"
    and "sbpWalletTxnID pay0 = None" "t = None \<longleftrightarrow> to_paise (plPriceAmount pl) = 0" "srsPaymentID res = sbpID pay0"
    and "srsAmountPaise res = to_paise (plPriceAmount pl)"
  shows "\<exists>sub pay. ride_subs w' = ride_subs w @ [sub] \<and> sub_payments w' = ps @ [pay] \<and> pass_sold p pl (clock w) pay0 (with_sub res s) sub pay"
proof -
  obtain sub where sub: "ride_subs w' = ride_subs w @ [sub]" "s = PartnerSubscription.truncate sub"
    "sub = sub_of_input \<lparr>csiPartnerID = ptID p, csiPlanID = plID pl, csiStatus = plan_status pl, csiStartsAt = clock w,
        csiExpiresAt = clock w + plBillingPeriodDays pl * day_us\<rparr> (suID sub) (clock w)"
    "sub_payments w' = ps @ [pay0\<lparr>sbpStatus := ''verified'', sbpWalletTxnID := or_else t (sbpWalletTxnID pay0),
        sbpSubscriptionID := Some (suID sub), sbpVerifiedAt := Some (clock w), sbpUpdatedAt := clock w\<rparr>]"
    using activate_InrE [OF assms(1-3)] .
  have "or_else t (sbpWalletTxnID pay0) = t" using assms(4) by (simp add: or_else_def split: option.split)
  moreover obtain k where k: "sub = sub_of_input \<lparr>csiPartnerID = ptID p, csiPlanID = plID pl, csiStatus = plan_status pl,
     csiStartsAt = clock w, csiExpiresAt = clock w + plBillingPeriodDays pl * day_us\<rparr> k (clock w)" using sub(3) ..
  then have "suPartnerID sub = ptID p" "suPlanID sub = plID pl" "suStatus sub = plan_status pl" "suStartsAt sub = clock w"
    "suExpiresAt sub = clock w + plBillingPeriodDays pl * day_us"
    by (simp_all add: sub_of_input_def plan_status_set)
  ultimately show ?thesis
    using sub(1,2,4) assms(4-7)
    by (intro exI [of _ sub] exI [of _ "pay0\<lparr>sbpStatus := ''verified'', sbpWalletTxnID := t, sbpSubscriptionID := Some (suID sub),
        sbpVerifiedAt := Some (clock w), sbpUpdatedAt := clock w\<rparr>"])
      (simp add: pass_sold_def with_sub_def PartnerSubscription.truncate_def, blast)
qed

lemma pay_subscription_sells:
  assumes "pay_subscription sv ''wallet'' p pl key res w = (Inr res', w')" "sub_payments w = ps @ [pay0]" "sbpID pay0 \<notin> sbpID ` set ps"
    and "sbpWalletTxnID pay0 = None" "srsPaymentID res = sbpID pay0" "srsAmountPaise res = to_paise (plPriceAmount pl)"
  shows "\<exists>sub pay. ride_subs w' = ride_subs w @ [sub] \<and> sub_payments w' = ps @ [pay] \<and> pass_sold p pl (clock w) pay0 res' sub pay"
proof (cases "to_paise (plPriceAmount pl) = 0")
  case True
  then have "activate_free p pl res w = (Inr res', w')" using assms(1,6) by (simp add: pay_subscription_def)
  then obtain s where "activateSubscriptionWithPlan p pl (sbpID pay0) None w = (Inr s, w')" "res' = with_sub res s"
    unfolding activate_free_def assms(5)
    by (elim attempt_InrE) (auto simp: andThen_def logged_def fail_def ok_def split: prod.splits sum.splits)
  with activate_sells [OF this(1) assms(2-4) _ assms(5,6)] True show ?thesis by simp
next
  case False
  then obtain wc where wc: "debit_and_activate wc p pl key res w = (Inr res', w')"
    using assms(1,6) by (auto simp: pay_subscription_def fail_def split: option.splits)
  let ?debit = "DebitForSubscription wc (ptUserID p) (srsAmountPaise res) (srsPaymentID res) key"
  obtain d w1 where d: "on_rider_wallet ?debit w = (Inr d, w1)" and r: "activate_debited wc p pl res (drTransactionID d) w1 = (Inr res', w')"
    using wc unfolding debit_and_activate_def
    by (elim attempt_InrE) (auto simp: andThen_def logged_def fail_def split: prod.splits sum.splits)
  have "ride_subs w1 = ride_subs w" "sub_payments w1 = sub_payments w" "clock w1 = clock w"
    using stableD [OF sub_tables_outside(3) d] by (simp_all add: sub_tables_eq)
  moreover obtain s where "activateSubscriptionWithPlan p pl (sbpID pay0) (Some (drTransactionID d)) w1 = (Inr s, w')" "res' = with_sub res s"
    using r unfolding activate_debited_def assms(5)
    by (elim attempt_InrE) (auto simp: andThen_def logged_def fail_def ok_def split: prod.splits sum.splits)
  ultimately show ?thesis
    using activate_sells [of p pl pay0 "Some (drTransactionID d)" w1 s w' ps res] assms(2-6) False by simp
qed

text \<open>The request from its payment row on.\<close>

definition sell_pass ::
  "('v, 'r) RiderService \<Rightarrow> uuid \<Rightarrow> string \<Rightarrow> string \<Rightarrow> Partner \<Rightarrow> SubscriptionPlan \<Rightarrow> (('v, 'r) rider, SubscribeResult) io" where
  "sell_pass sv u m key p pl =
     andThen (wrapErr ''create payment'' (CreateSubscriptionPayment (rsvNum sv) \<lparr>cspPartnerID = ptID p, cspPlanID = plID pl,
        cspAmount = plPriceAmount pl, cspCurrencyCode = plCurrencyCode pl, cspPaymentMethod = m, cspPaymentReference = None,
        cspStatus = ''pending''\<rparr>)) (\<lambda>payment.
     andThen (rider_publish (PublishSubscriptionPaymentSubmitted (sbpID payment) (ptID p) (plID pl)
        (plPriceAmount pl) (plCurrencyCode pl) m)) (\<lambda>_.
     andThen (pay_subscription sv m p pl key \<lparr>srsPaymentID = sbpID payment, srsSubscriptionID = None,
        srsStatus = ''pending'', srsAmountPaise = to_paise (plPriceAmount pl), srsUPIIntentURL = [], srsExpiresAt = None\<rparr>) (\<lambda>res.
     andThen (logged (RecordRideKey key u SubscribeOperation (Some (sbpID payment)) (Some (SubscribeBody res)))) (\<lambda>_. ok res))))"

lemma subscribe_fresh_eq:
  "subscribe_fresh sv u plan m key = andThen (GetMyPartner u) (\<lambda>p0.
     andThen (or_not_found ErrPlanNotFound ''invalid: plan_id not found'' (GetPlan plan)) (\<lambda>pl.
     require (plIsActive pl) (Errorf ''invalid: plan is not active'')
    (require (\<not> (ptStatus p0 = ''suspended'' \<or> ptStatus p0 = ''blocked'')) (Errorf ''forbidden: partner is suspended or blocked'')
    (sell_pass sv u m key p0 pl))))"
  by (simp add: subscribe_fresh_def sell_pass_def)

lemma subscribe_fresh_reads:
  assumes "subscribe_fresh sv u plan m key w = (Inr res, w')"
  obtains p pl w2 where "the_partner u w = Some p" "ptStatus p \<noteq> ''suspended''" "ptStatus p \<noteq> ''blocked''" "the_plan plan w = Some pl"
    "plIsActive pl" "only_net w w2" "sell_pass sv u m key (Partner.truncate p) pl w2 = (Inr res, w')"
proof -
  obtain p0 w1 where 1: "GetMyPartner u w = (Inr p0, w1)"
    and r1: "andThen (or_not_found ErrPlanNotFound ''invalid: plan_id not found'' (GetPlan plan)) (\<lambda>pl.
     require (plIsActive pl) (Errorf ''invalid: plan is not active'')
    (require (\<not> (ptStatus p0 = ''suspended'' \<or> ptStatus p0 = ''blocked'')) (Errorf ''forbidden: partner is suspended or blocked'')
    (sell_pass sv u m key p0 pl))) w1 = (Inr res, w')"
    using assms unfolding subscribe_fresh_eq by (auto elim: andThen_InrE)
  obtain p where p: "the_partner u w = Some p" "p0 = Partner.truncate p" "only_net w w1" using GetMyPartner_InrE [OF 1] by metis
  obtain pl w2 where 2: "or_not_found ErrPlanNotFound ''invalid: plan_id not found'' (GetPlan plan) w1 = (Inr pl, w2)"
    and r2: "plIsActive pl" "\<not> (ptStatus p0 = ''suspended'' \<or> ptStatus p0 = ''blocked'')" "sell_pass sv u m key p0 pl w2 = (Inr res, w')"
    using r1 by (elim andThen_InrE [of "or_not_found _ _ _"] require_InrE)
  from GetPlan_InrE [OF 2] p(3) have "the_plan plan w = Some pl" "only_net w w2" by (auto simp: only_net_def the_plan_def)
  with p r2 show ?thesis by (intro that [of p pl w2]) (simp_all add: Partner.truncate_def)
qed

lemma sell_pass_sells:
  assumes "sell_pass sv u ''wallet'' key p pl w = (Inr res, w')"
  shows "\<exists>pay0 sub pay. rsvNum sv 12 2 (plPriceAmount pl) = Some (sbpAmount pay0) \<and> sbpPartnerID pay0 = ptID p \<and> sbpPlanID pay0 = plID pl
    \<and> sbpID pay0 \<notin> sbpID ` set (sub_payments w) \<and> ride_subs w' = ride_subs w @ [sub] \<and> sub_payments w' = sub_payments w @ [pay]
    \<and> pass_sold p pl (clock w) pay0 res sub pay"
proof -
  let ?fin = "\<lambda>payment res. andThen (logged (RecordRideKey key u SubscribeOperation (Some (sbpID payment))
     (Some (SubscribeBody res)))) (\<lambda>_. ok res)"
  let ?pay = "\<lambda>payment. pay_subscription sv ''wallet'' p pl key \<lparr>srsPaymentID = sbpID payment, srsSubscriptionID = None,
        srsStatus = ''pending'', srsAmountPaise = to_paise (plPriceAmount pl), srsUPIIntentURL = [], srsExpiresAt = None\<rparr>"
  let ?in = "\<lparr>cspPartnerID = ptID p, cspPlanID = plID pl, cspAmount = plPriceAmount pl, cspCurrencyCode = plCurrencyCode pl,
        cspPaymentMethod = ''wallet'', cspPaymentReference = None, cspStatus = ''pending''\<rparr>"
  let ?pub = "\<lambda>payment. rider_publish (PublishSubscriptionPaymentSubmitted (sbpID payment) (ptID p) (plID pl)
        (plPriceAmount pl) (plCurrencyCode pl) ''wallet'')"
  obtain pay0 w3 where 3: "wrapErr ''create payment'' (CreateSubscriptionPayment (rsvNum sv) ?in) w = (Inr pay0, w3)"
    and r3: "andThen (?pub pay0) (\<lambda>_. andThen (?pay pay0) (?fin pay0)) w3 = (Inr res, w')"
    using assms unfolding sell_pass_def by (rule andThen_InrE)
  note c3 = CreateSubscriptionPayment_InrE [OF wrapErr_InrE [OF 3]]
  then obtain a k where "pay0 = sub_payment_of ?in k a (clock w)" "rsvNum sv 12 2 (plPriceAmount pl) = Some a" by auto
  then have pay0: "sbpWalletTxnID pay0 = None" "rsvNum sv 12 2 (plPriceAmount pl) = Some (sbpAmount pay0)" "sbpPartnerID pay0 = ptID p"
    "sbpPlanID pay0 = plID pl"
    by (simp_all add: sub_payment_of_def)
  obtain v w4 where 4: "?pub pay0 w3 = (Inr v, w4)" and r4: "andThen (?pay pay0) (?fin pay0) w4 = (Inr res, w')"
    using r3 by (rule andThen_InrE)
  have w4: "ride_subs w4 = ride_subs w" "sub_payments w4 = sub_payments w @ [pay0]" "clock w4 = clock w"
    using stableD [OF sub_tables_outside(1) 4] c3 by (simp_all add: sub_tables_eq)
  obtain res' w5 where 5: "?pay pay0 w4 = (Inr res', w5)" and r5: "?fin pay0 res' w5 = (Inr res, w')"
    using r4 by (rule andThen_InrE)
  have "stable sub_tables (?fin pay0 res')" by (intro stable_intros)
  from stableD [OF this r5] have w': "ride_subs w' = ride_subs w5" "sub_payments w' = sub_payments w5" by (simp_all add: sub_tables_eq)
  have "res' = res" using r5 by (auto simp: andThen_def logged_def ok_def split: prod.splits sum.splits)
  with pay_subscription_sells [OF 5 w4(2) _ pay0(1)] c3 w4 w' obtain sub pay where
    "ride_subs w' = ride_subs w @ [sub]" "sub_payments w' = sub_payments w @ [pay]" "pass_sold p pl (clock w) pay0 res sub pay"
    by auto
  with pay0 c3 show ?thesis by auto
qed

text \<open>C19: a subscription bought with the wallet: when Subscribe answers under a key that is not recorded, the
  caller is a partner in good standing and the plan is on sale; exactly one subscription has been added,
  the partner's to that plan, running from now for the period of the plan, and exactly one payment of the
  plan's price, verified and linked to the subscription, with a transaction of the wallet unless there
  was nothing to pay; the answer names both.\<close>

theorem subscription_bought:
  assumes "Subscribe sv u plan ''wallet'' key w = (Inr res, w')" "live_key key w = None"
  shows "\<exists>p pl pay0 sub pay. the_partner u w = Some p \<and> ptStatus p \<noteq> ''suspended'' \<and> ptStatus p \<noteq> ''blocked''
    \<and> the_plan plan w = Some pl \<and> plIsActive pl \<and> rsvNum sv 12 2 (plPriceAmount pl) = Some (sbpAmount pay0)
    \<and> sbpPartnerID pay0 = ptID p \<and> sbpPlanID pay0 = plID pl \<and> sbpID pay0 \<notin> sbpID ` set (sub_payments w)
    \<and> ride_subs w' = ride_subs w @ [sub] \<and> sub_payments w' = sub_payments w @ [pay]
    \<and> pass_sold (Partner.truncate p) pl (clock w) pay0 res sub pay"
proof -
  let ?k = "\<lambda>k. case k of
       Inr rec \<Rightarrow> (case cached_subscription rec of Some res \<Rightarrow> ok res | None \<Rightarrow> subscribe_fresh sv u plan ''wallet'' key)
     | Inl e \<Rightarrow> if errors_is e ErrRideKeyNotFound then subscribe_fresh sv u plan ''wallet'' key else fail e"
  have "attempt (FindRideKey key u SubscribeOperation) ?k w = (Inr res, w')"
    using assms(1) unfolding Subscribe_def by (elim require_InrE)
  then obtain r w0 where 0: "FindRideKey key u SubscribeOperation w = (r, w0)" and r0: "?k r w0 = (Inr res, w')"
    by (rule attempt_InrE)
  obtain e where "r = Inl e" and net0: "only_net w w0" using FindRideKey_none [OF 0 assms(2)] .
  with r0 have "subscribe_fresh sv u plan ''wallet'' key w0 = (Inr res, w')" by (auto simp: fail_def split: if_splits)
  then obtain p pl w2 where p: "the_partner u w0 = Some p" "ptStatus p \<noteq> ''suspended''" "ptStatus p \<noteq> ''blocked''"
    "the_plan plan w0 = Some pl" "plIsActive pl" and net2: "only_net w0 w2" and sell: "sell_pass sv u ''wallet'' key (Partner.truncate p) pl w2 = (Inr res, w')"
    by (rule subscribe_fresh_reads)
  have "ride_subs w2 = ride_subs w" "sub_payments w2 = sub_payments w" "clock w2 = clock w"
    using only_net_blind [OF only_net_trans [OF net0 net2] sub_tables_blind] by (simp_all add: sub_tables_eq)
  moreover have "the_partner u w = Some p" "the_plan plan w = Some pl"
    using p(1,4) net0 by (auto simp: only_net_def the_partner_def the_plan_def)
  ultimately show ?thesis using sell_pass_sells [OF sell] p(2,3,5) by (auto simp: Partner.truncate_def)
qed

end
