(* ===== verification/Rider_Standing.thy ===== *)
theory Rider_Standing
  imports Rider_Onboarding Rider_Renewals
begin

text \<open>
  The register of partners, vehicles and documents as a machine of its own (\<open>reg_step\<close>), which every
  operation of rider-service acts by, whatever its network, Redis, the wallet and DigiLocker do; and what
  that machine keeps: who is registered once, whose documents are whose, and that only the back office
  approves.
\<close>

section \<open>The machine\<close>

text \<open>What the register says of whom: partners by their faces, the rows of vehicles and documents.\<close>

type_synonym standing = "partner_face list \<times> vehicle_row list \<times> PartnerDocument list \<times> VehicleDocument list"

definition standing :: "('v, 'r) rider \<Rightarrow> standing" where
  "standing w = (map face (ride_partners w), ride_vehicles w, partner_docs w, vehicle_docs w)"

text \<open>The single changes; \<open>admin\<close> says whether the back office is at work.\<close>

inductive reg_step :: "bool \<Rightarrow> standing \<Rightarrow> standing \<Rightarrow> bool" for admin where
  enrolled: "i \<notin> pfID ` set ps \<Longrightarrow> (\<And>q. q \<in> set ps \<Longrightarrow> pfUser q = u \<Longrightarrow> pfGone q) \<Longrightarrow>
     reg_step admin (ps, vs, ds, es)
       (ps @ [\<lparr>pfID = i, pfUser = u, pfStatus = ''draft'', pfKYC = ''draft'', pfGone = False\<rparr>], vs, ds, es)"
| status_set: "admin \<or> s = ''pending_verification'' \<Longrightarrow>
     reg_step admin (ps, vs, ds, es) (update_rows (\<lambda>p. pfID p = i) (\<lambda>p. p\<lparr>pfStatus := s\<rparr>) ps, vs, ds, es)"
| kyc_pending: "reg_step admin (ps, vs, ds, es) (update_rows (\<lambda>p. pfID p = i) (\<lambda>p. p\<lparr>pfKYC := ''pending''\<rparr>) ps, vs, ds, es)"
| cleared: "admin \<Longrightarrow> reg_step admin (ps, vs, ds, es)
     (update_rows (\<lambda>p. pfID p = i \<and> \<not> pfGone p) (\<lambda>p. p\<lparr>pfStatus := ''approved'', pfKYC := ''approved''\<rparr>) ps, vs, ds, es)"
| vehicle_added: "vhID v \<notin> vhID ` set vs \<Longrightarrow>
     (\<And>x. x \<in> set vs \<Longrightarrow> vhRegistrationNumber x = vhRegistrationNumber v \<Longrightarrow> vwDeletedAt x \<noteq> None) \<Longrightarrow>
     vhPartnerID v \<in> pfID ` set ps \<Longrightarrow> vhStatus v = ''pending'' \<Longrightarrow> vwDeletedAt v = None \<Longrightarrow>
     reg_step admin (ps, vs, ds, es) (ps, vs @ [v], ds, es)"
| vehicle_judged: "admin \<Longrightarrow> reg_step admin (ps, vs, ds, es)
     (ps, update_rows (\<lambda>v. vhID v = i) (\<lambda>v. v\<lparr>vhStatus := s, vhUpdatedAt := t\<rparr>) vs, ds, es)"
| document_added: "pdID d \<notin> pdID ` set ds \<Longrightarrow> pdPartnerID d \<in> pfID ` set ps \<Longrightarrow> pdStatus d = ''pending'' \<Longrightarrow>
     (pdDocumentType d = ''aadhaar'' \<Longrightarrow> pdDocumentNumber d = None) \<Longrightarrow>
     reg_step admin (ps, vs, ds, es) (ps, vs, ds @ [d], es)"
| document_judged: "admin \<Longrightarrow> reg_step admin (ps, vs, ds, es)
     (ps, vs, update_rows (\<lambda>d. pdID d = i) (\<lambda>d. d\<lparr>pdStatus := s, pdRejectionReason := r, pdUpdatedAt := t\<rparr>) ds, es)"
| vehicle_document_added: "vdID d \<notin> vdID ` set es \<Longrightarrow> vdVehicleID d \<in> vhID ` set vs \<Longrightarrow> vdStatus d = ''pending'' \<Longrightarrow>
     reg_step admin (ps, vs, ds, es) (ps, vs, ds, es @ [d])"

abbreviation reg_by :: "bool \<Rightarrow> (('v, 'r) rider, 'a) io \<Rightarrow> bool" where
  "reg_by admin \<equiv> acts_by standing (reg_step admin)"

section \<open>Rides, subscriptions and jobs leave the register alone\<close>

lemma map_face_update: "(\<And>p. face (f p) = face p) \<Longrightarrow> map face (update_rows c f ps) = map face ps"
  by (simp add: update_rows_def)

lemma standing_eq [simp]:
  "standing (w\<lparr>ride_history := x1\<rparr>) = standing w" "standing (w\<lparr>ride_offers := x2\<rparr>) = standing w"
  "standing (w\<lparr>ride_payments := x3\<rparr>) = standing w" "standing (w\<lparr>ride_idem := x4\<rparr>) = standing w"
  "standing (w\<lparr>ride_subs := x5\<rparr>) = standing w" "standing (w\<lparr>ride_locations := x6\<rparr>) = standing w"
  "standing (w\<lparr>rider_events := x7\<rparr>) = standing w" "standing (w\<lparr>rider_frames := x8\<rparr>) = standing w"
  "standing (w\<lparr>rider_outbox := x9\<rparr>) = standing w" "standing (w\<lparr>rider_wallet := v\<rparr>) = standing w"
  "standing (w\<lparr>rider_redis := r\<rparr>) = standing w" "standing (w\<lparr>randctr := n\<rparr>) = standing w"
  "standing (w\<lparr>rides := y1\<rparr>) = standing w" "standing (w\<lparr>sub_payments := y2\<rparr>) = standing w"
  "standing (w\<lparr>rider_reminders := y3\<rparr>) = standing w" "standing (w\<lparr>cron_runs := y4\<rparr>) = standing w"
  "standing (w\<lparr>aadhaar_checks := y5\<rparr>) = standing w" "standing (w\<lparr>net := ns\<rparr>) = standing w" "standing (w\<lparr>idctr := k\<rparr>) = standing w"
  by (simp_all add: standing_def)

lemma standing_blind [simp]: "env_blind standing"
  by (simp add: env_blind_def)

interpretation standing_off: off_rides standing
  by unfold_locales (simp_all add: standing_def map_face_update)

interpretation standing_subs: subs_apart standing
  by unfold_locales simp_all

lemma stable_guarded: "stable part m \<Longrightarrow> stable part (\<lambda>w. if b w then (Inl e, w) else m w)"
  by (simp add: stable_def)

text \<open>The statements that write a ride.\<close>

lemma stable_ride_updates:
  "stable standing (sql_update_rides c f)" "stable standing (sql_insert_ride num ci st)"
proof -
  show "stable standing (sql_update_rides c f)" by (simp add: stable_def sql_update_rides_def)
  show "stable standing (sql_insert_ride num ci st)"
    unfolding sql_insert_ride_def
    by (intro stable_intros) (auto simp: stable_def Let_def split: option.splits prod.splits)
qed

lemma stable_ride_writes [stable_intros]:
  "stable standing (ActivateScheduledRide i)" "stable standing (AssignRidePartner i p v h t)" "stable standing (SetArrivingAt i)"
  "stable standing (SetArrivedAt i)" "stable standing (SetStartedAt i)" "stable standing (MarkRideCancelled cni)"
  "stable standing (SetRating i n c)" "stable standing (TransitionRide i old new)" "stable standing (FinalizeRide num fi)"
  "stable standing (HideRideRating a i vis)" "stable standing (AddPartnerResponse p i txt)"
  "stable standing (store_CreateRide num ci)"
proof -
  show "stable standing (AssignRidePartner i p v h t)" "stable standing (TransitionRide i old new)"
    unfolding AssignRidePartner_def TransitionRide_def by (intro stable_intros stable_guarded stable_ride_updates)+
  show "stable standing (HideRideRating a i vis)" "stable standing (AddPartnerResponse p i txt)"
    unfolding HideRideRating_def AddPartnerResponse_def by (intro stable_intros stable_ride_updates)+
  show "stable standing (FinalizeRide num fi)"
    unfolding FinalizeRide_def
    by (intro stable_intros) (auto simp: stable_def sql_update_rides_def split: option.splits)
  show "stable standing (ActivateScheduledRide i)" "stable standing (SetArrivingAt i)" "stable standing (SetArrivedAt i)"
    "stable standing (SetStartedAt i)" "stable standing (MarkRideCancelled cni)" "stable standing (SetRating i n c)"
    "stable standing (store_CreateRide num ci)"
    unfolding ActivateScheduledRide_def SetArrivingAt_def SetArrivedAt_def SetStartedAt_def stamp_ride_def MarkRideCancelled_def
      SetRating_def store_CreateRide_def
    by (intro stable_intros stable_ride_updates)+
qed

lemma stable_share_token [stable_intros]: "stable standing (SetShareToken i tok)"
proof (rule stableI)
  fix w :: "('a, 'b) rider" and r w'
  let ?t = "\<lambda>r. case rwShareToken r of None \<Rightarrow> tok | Some t \<Rightarrow> t"
  let ?m = "db_call (\<lambda>w :: ('a, 'b) rider. (Inr (map_option ?t (find (\<lambda>r. rdID r = i) (rides w))),
      w\<lparr>rides := update_rows (\<lambda>r. rdID r = i) (\<lambda>r. r\<lparr>rwShareToken := Some (?t r), rdUpdatedAt := clock w\<rparr>) (rides w)\<rparr>))"
  assume "SetShareToken i tok w = (r, w')"
  then have "w' = snd (?m w)"
    unfolding SetShareToken_def by (auto split: prod.splits sum.splits option.splits)
  moreover have "stable standing ?m" by (intro stable_intros) (simp add: stable_def)
  ultimately show "standing w' = standing w" by (simp add: stable_def)
qed

section \<open>The operations on rides\<close>

lemma stable_pair [stable_intros]: "(\<And>x y. stable part (h x y)) \<Longrightarrow> stable part (case pr of (x, y) \<Rightarrow> h x y)"
  by (cases pr) simp

lemma stable_bool [stable_intros]:
  "stable part m \<Longrightarrow> stable part m' \<Longrightarrow> stable part (case b of True \<Rightarrow> m | False \<Rightarrow> m')"
  by (cases b) simp_all

lemma stable_find [stable_intros]:
  "stable standing (find_ride i)" "stable standing (find_partner u)" "stable standing (loadRideForPartner u i)"
  unfolding find_ride_def find_partner_def loadRideForPartner_def or_not_found_def by (intro stable_intros)+

lemma stable_transition [stable_intros]: "stable standing (transitionRide ride new kind actor reason)"
proof (cases "validRideTransition (rdStatus ride) new")
  case None
  then show ?thesis unfolding transitionRide_def by simp (intro stable_intros)
qed (simp add: transitionRide_def stable_basic)

lemma stable_booking [stable_intros]:
  "stable standing (CreateRide sv u req)" "stable standing (activatePass sv)" "stable standing (MatchRide sv i opts)"
  unfolding ride_estimate_def EstimateFare_def announce_ride_def CreateRide_def activatePass_def send_offer_def MatchRide_def Let_def
  by (intro stable_intros)+

lemma stable_offers [stable_intros]:
  "stable standing (AcceptOffer sv u i)" "stable standing (ListIncomingOffers u)" "stable standing (RejectOffer sv u i reason)"
  "stable standing ExpireStaleOffers" "stable standing (ExpireStaleRides t)" "stable standing (TransitionRideForJob i target reason)"
  unfolding AcceptOffer_def assign_ride_def announce_assignment_def decide_offer_def ListIncomingOffers_def RejectOffer_def
    or_not_found_def ExpireStaleOffers_def ExpireStaleRides_def TransitionRideForJob_def generateOTPAndHash_def
    GenerateFromPassword_def Let_def
  by (intro stable_intros)+

lemma stable_way [stable_intros]:
  "stable standing (MarkArriving sv u i)" "stable standing (MarkArrived sv u i)" "stable standing (StartRide sv u i code0)"
  "stable standing (CompleteRide sv u i creq)"
  unfolding MarkArriving_def MarkArrived_def StartRide_def start_verified_def settle_ride_def CompleteRide_def complete_fresh_def
    bill_ride_def Let_def
  by (intro stable_intros)+

lemma stable_ends [stable_intros]:
  "stable standing (CancelRide sv u i by0 cnr)" "stable standing (AdminCancelRide sv i u reason)"
  "stable standing (MarkRideNoShow sv u i reason)" "stable standing (RateRide u i rrq)" "stable standing (ShareRide u i url)"
  "stable standing (AdminHideRideRating u i vis)" "stable standing (PartnerRespondToRating u i txt)"
  "stable standing (UpdateLocation sv u ulr)" "stable standing (GoOffline sv u)"
  unfolding may_cancel_def charge_fee_def CancelRide_def book_cancellation_def AdminCancelRide_def MarkRideNoShow_def RateRide_def
    AdminHideRideRating_def PartnerRespondToRating_def ShareRide_def UpdateLocation_def GoOffline_def Let_def
  by (intro stable_intros)+

section \<open>The operations on subscriptions\<close>

lemmas sub_steps = standing_subs.reads standing_subs.publish standing_subs.payments standing_subs.subscriptions
  standing_subs.not_found standing_subs.activate

lemma stable_subscribe [stable_intros]:
  "stable standing (Subscribe sv u pl m key)" "stable standing (SubmitPaymentProof u i url)"
  "stable standing (VerifySubscriptionPayment i a)" "stable standing (RejectSubscriptionPayment i a reason)"
  unfolding Subscribe_def subscribe_fresh_def pay_subscription_def activate_free_def debit_and_activate_def activate_debited_def
    SubmitPaymentProof_def VerifySubscriptionPayment_def ActivateSubscription_def RejectSubscriptionPayment_def
  by (intro stable_intros sub_steps)+

lemma stable_jobs [stable_intros]:
  "stable standing (RunSubscriptionExpiryChecker pub)" "stable standing (RunGracePeriodTransition pub)"
  "stable standing (RunSubscriptionAutoRenewal wc pub)" "stable standing (RunDocumentExpiryReminder pub)"
  unfolding RunSubscriptionExpiryChecker_def RunGracePeriodTransition_def RunSubscriptionAutoRenewal_def
    RunDocumentExpiryReminder_def or_job_error_def remind_subscription_def remind_document_def renew_one_def renewal_failed_def
    renewal_paid_def FlipToGracePeriod_def FlipToExpired_def ListExpiringDocuments_def Let_def
  by (intro stable_intros sub_steps)+

section \<open>The operations on the register\<close>

lemma stable_register_reads [stable_intros]:
  "stable standing (GetCity ci)" "stable standing (GetAadhaarVerification i)" "stable standing (GetVehicle v)"
  "stable standing (store_ListPartnerDocuments i)" "stable standing (store_ListVehicleDocuments v)"
  "stable standing (CountExpiredApprovedPartnerDocs i)" "stable standing (CountExpiredApprovedVehicleDocs v)"
  "stable standing (RecordAadhaarVerification i ref h t)"
  unfolding GetCity_def GetAadhaarVerification_def GetVehicle_def store_ListPartnerDocuments_def store_ListVehicleDocuments_def
    CountExpiredApprovedPartnerDocs_def CountExpiredApprovedVehicleDocs_def RecordAadhaarVerification_def
  by (intro stable_intros; simp add: stable_def split: option.split)+

lemma stable_flow [stable_intros]:
  "stable standing (StartAadhaarFlow sv u i)" "stable standing (CompleteAadhaarFlow sv u i code0 state)" "stable standing (GoOnline u)"
  unfolding StartAadhaarFlow_def generateState_def CompleteAadhaarFlow_def check_state_def exchange_and_record_def GoOnline_def
    none_lapsed_def with_subscription_def Let_def
  by (intro stable_intros sub_steps)+

lemma map_faces_update:
  "(\<And>x. c' (h x) = c x) \<Longrightarrow> (\<And>x. h (f x) = f' (h x)) \<Longrightarrow> map h (update_rows c f xs) = update_rows c' f' (map h xs)"
  by (simp add: update_rows_def)

lemma face_simps [simp]:
  "pfID (face p) = ptID p" "pfUser (face p) = ptUserID p" "pfStatus (face p) = ptStatus p" "pfKYC (face p) = ptKYCStatus p"
  "pfGone (face p) = (pwDeletedAt p \<noteq> None)"
  by (simp_all add: face_def)

named_theorems reg_intros "introduction rules for reg_by"

lemmas [reg_intros] = acts_combinators acts_db_call [OF standing_blind]

lemma reg_must_change [reg_intros]: "reg_by admin m \<Longrightarrow> reg_by admin (must_change e m)"
  unfolding must_change_def by (intro reg_intros) (simp_all add: acts_stable stable_basic)

lemma reg_returning [reg_intros]: "reg_by admin m \<Longrightarrow> reg_by admin (returning e m)"
  unfolding returning_def by (intro reg_intros) (simp_all add: acts_stable stable_basic)

lemma reg_new_id [reg_intros]: "reg_by admin gen_random_uuid"
  by (rule acts_stable [OF stable_gen_random_uuid [OF standing_blind]])

text \<open>A statement is a step or leaves the register alone.\<close>

lemma reg_statement:
  "(\<And>w. standing (snd (m w)) = standing w \<or> reg_step admin (standing w) (standing (snd (m w)))) \<Longrightarrow> reg_by admin m"
  by (metis acts_by_def r_into_rtranclp rtranclp.rtrancl_refl)

lemma reg_sql_insert_partner: "reg_by admin (\<lambda>w. sql_insert_partner (partner_of_input i id0 (clock w)) w)"
proof (rule reg_statement)
  fix w :: "('v, 'r) rider"
  let ?p = "partner_of_input i id0 (clock w)"
  have p: "face ?p = \<lparr>pfID = id0, pfUser = cptUserID i, pfStatus = ''draft'', pfKYC = ''draft'', pfGone = False\<rparr>"
    "ptID ?p = id0" "ptUserID ?p = cptUserID i"
    by (simp_all add: partner_of_input_def face_def)
  have "reg_step admin (map face ps, vs, ds, es) (map face ps @ [face ?p], vs, ds, es)"
    if "id0 \<notin> ptID ` set ps" "\<forall>q \<in> set ps. ptUserID q = cptUserID i \<longrightarrow> pwDeletedAt q \<noteq> None" for ps vs ds es
    unfolding p(1) by (rule reg_step.enrolled) (use that in auto)
  then show "standing (snd (sql_insert_partner ?p w)) = standing w \<or> reg_step admin (standing w) (standing (snd (sql_insert_partner ?p w)))"
    by (auto simp: sql_insert_partner_def standing_def p(2,3))
qed

lemma reg_update_partners:
  assumes "\<And>x. c' (face x) = c x" and "\<And>x t. face ((f x)\<lparr>ptUpdatedAt := t\<rparr>) = f' (face x)"
    and "\<And>ps vs ds es. reg_step admin (ps, vs, ds, es) (update_rows c' f' ps, vs, ds, es)"
  shows "reg_by admin (sql_update_partners c f)"
proof (rule reg_statement)
  fix w :: "('v, 'r) rider"
  have "map face (update_rows c (\<lambda>p. (f p)\<lparr>ptUpdatedAt := clock w\<rparr>) (ride_partners w)) = update_rows c' f' (map face (ride_partners w))"
    by (rule map_faces_update) (simp_all add: assms(1,2))
  with assms(3) show "standing (snd (sql_update_partners c f w)) = standing w \<or> reg_step admin (standing w) (standing (snd (sql_update_partners c f w)))"
    by (simp add: sql_update_partners_def standing_def)
qed

lemma reg_guarded: "reg_by admin m \<Longrightarrow> reg_by admin (\<lambda>w. if b w then (Inl e, w) else m w)"
  by (simp add: acts_by_def)

lemma reg_partner_status [reg_intros]:
  "admin \<or> s = ''pending_verification'' \<Longrightarrow> reg_by admin (UpdatePartnerStatus i s)"
  unfolding UpdatePartnerStatus_def
  by (intro reg_intros reg_guarded reg_update_partners [where c' = "\<lambda>p. pfID p = i" and f' = "\<lambda>p. p\<lparr>pfStatus := s\<rparr>"]
      reg_step.status_set) (simp_all add: face_def)

lemma reg_partner_kyc [reg_intros]: "reg_by admin (UpdatePartnerKYCStatus i ''pending'')"
  unfolding UpdatePartnerKYCStatus_def
  by (intro reg_intros reg_guarded reg_update_partners [where c' = "\<lambda>p. pfID p = i" and f' = "\<lambda>p. p\<lparr>pfKYC := ''pending''\<rparr>"]
      reg_step.kyc_pending) (simp_all add: face_def)

lemma reg_partner_approved [reg_intros]: "admin \<Longrightarrow> reg_by admin (SetPartnerApprovedAt i)"
  unfolding SetPartnerApprovedAt_def
proof (intro reg_intros reg_statement)
  fix w :: "('v, 'r) rider"
  let ?f = "\<lambda>p. p\<lparr>ptStatus := ''approved'', ptKYCStatus := ''approved'', ptApprovedAt := Some (clock w)\<rparr>"
  assume "admin"
  have "map face (update_rows (\<lambda>p. ptID p = i \<and> pwDeletedAt p = None) (\<lambda>p. (?f p)\<lparr>ptUpdatedAt := clock w\<rparr>) (ride_partners w))
      = update_rows (\<lambda>p. pfID p = i \<and> \<not> pfGone p) (\<lambda>p. p\<lparr>pfStatus := ''approved'', pfKYC := ''approved''\<rparr>) (map face (ride_partners w))"
    by (rule map_faces_update) (auto simp: face_def)
  with reg_step.cleared [OF \<open>admin\<close>]
  show "standing (snd (sql_update_partners (\<lambda>p. ptID p = i \<and> pwDeletedAt p = None) ?f w)) = standing w \<or>
      reg_step admin (standing w) (standing (snd (sql_update_partners (\<lambda>p. ptID p = i \<and> pwDeletedAt p = None) ?f w)))"
    by (simp add: sql_update_partners_def standing_def)
qed

lemma reg_partner_profile [reg_intros]:
  "reg_by admin (CreatePartner cpi)" "reg_by admin (store_UpdatePartnerProfile i upi)"
proof -
  show "reg_by admin (CreatePartner cpi)"
    unfolding CreatePartner_def by (intro reg_intros reg_sql_insert_partner)
  have "map face (update_rows c (patch_partner upi t) ps) = map face ps" for c t ps
    by (rule map_face_update) (simp add: patch_partner_def face_def)
  then show "reg_by admin (store_UpdatePartnerProfile i upi)"
    unfolding store_UpdatePartnerProfile_def
    by (intro reg_intros reg_statement) (simp add: Let_def standing_def)
qed

lemma reg_vehicle_writes [reg_intros]:
  "reg_by admin (CreateVehicle cvi)" "admin \<Longrightarrow> reg_by admin (SetVehicleStatus i s)"
proof -
  show "reg_by admin (CreateVehicle cvi)"
    unfolding CreateVehicle_def
    by (intro reg_intros reg_statement)
      (auto simp: sql_insert_vehicle_def vehicle_of_input_def standing_def image_image intro!: reg_step.vehicle_added)
  show "reg_by admin (SetVehicleStatus i s)" if admin
    unfolding SetVehicleStatus_def
    by (intro reg_intros reg_statement) (use that in \<open>simp add: standing_def reg_step.vehicle_judged\<close>)
qed

lemma reg_document_writes [reg_intros]:
  "(cpdDocumentType cdi = ''aadhaar'' \<Longrightarrow> cpdDocumentNumber cdi = None) \<Longrightarrow> reg_by admin (CreatePartnerDocument cdi)"
  "admin \<Longrightarrow> reg_by admin (SetPartnerDocumentStatus i s reason)"
  "reg_by admin (CreateVehicleDocument cvdi)"
proof -
  show "reg_by admin (CreatePartnerDocument cdi)" if "cpdDocumentType cdi = ''aadhaar'' \<Longrightarrow> cpdDocumentNumber cdi = None"
    unfolding CreatePartnerDocument_def Let_def
    by (intro reg_intros reg_statement) (use that in \<open>auto simp: standing_def image_image intro!: reg_step.document_added\<close>)
  show "reg_by admin (SetPartnerDocumentStatus i s reason)" if admin
    unfolding SetPartnerDocumentStatus_def Let_def
    by (intro reg_intros reg_statement) (use that in \<open>simp add: standing_def reg_step.document_judged\<close>)
  show "reg_by admin (CreateVehicleDocument cvdi)"
    unfolding CreateVehicleDocument_def Let_def
    by (intro reg_intros reg_statement) (simp add: standing_def image_image reg_step.vehicle_document_added)
qed

lemmas [reg_intros] = stable_basic [THEN acts_stable] standing_off.off_table_reads [THEN acts_stable]
  standing_off.off_outside [THEN acts_stable] stable_register_reads [THEN acts_stable] standing_subs.reads [THEN acts_stable]

lemma reg_not_found [reg_intros]: "reg_by admin m \<Longrightarrow> reg_by admin (or_not_found e1 e2 m)"
  unfolding or_not_found_def by (intro reg_intros)

lemma reg_known_city [reg_intros]: "reg_by admin m \<Longrightarrow> reg_by admin (known_city c m)"
  unfolding known_city_def by (intro reg_intros)

lemma reg_profile [reg_intros]:
  "reg_by admin (CreatePartnerProfile u cpr)" "reg_by admin (UpdatePartnerProfile u upr)" "reg_by admin (SubmitKYCDocument u i skd)"
  unfolding CreatePartnerProfile_def register_partner_def UpdatePartnerProfile_def SubmitKYCDocument_def leave_draft_def
    GetMyPartner_def Let_def
  by (intro reg_intros; simp)+

lemma reg_vehicles [reg_intros]: "reg_by admin (AddVehicle u i avr)" "reg_by admin (SubmitVehicleDocument u i svd)"
  unfolding AddVehicle_def SubmitVehicleDocument_def Let_def by (intro reg_intros)+

lemma reg_back_office [reg_intros]:
  assumes admin
  shows "reg_by admin (ApprovePartner i a)" "reg_by admin (RejectPartner i a reason)" "reg_by admin (SuspendPartner i a reason)"
    "reg_by admin (BlockPartner i a reason)" "reg_by admin (VerifyDocument i a)" "reg_by admin (RejectDocument i a reason)"
    "reg_by admin (VerifyVehicle i a)" "reg_by admin (RejectVehicle i a reason)"
  unfolding ApprovePartner_def RejectPartner_def SuspendPartner_def BlockPartner_def demote_partner_def VerifyDocument_def
    RejectDocument_def VerifyVehicle_def RejectVehicle_def emitAdminAction_def Let_def
  by (intro reg_intros; simp add: assms)+

section \<open>The service as a whole\<close>

text \<open>One request, pass of a job or decision of the back office after the other; \<open>elsewhere\<close> is
  whatever leaves the register alone: time, the network, the wallet, fares, plans and cities.\<close>

inductive register_step :: "('v, 'r) RiderService \<Rightarrow> bool \<Rightarrow> ('v, 'r) rider \<Rightarrow> ('v, 'r) rider \<Rightarrow> bool" for sv admin where
  create_profile: "register_step sv admin w (snd (CreatePartnerProfile u cpr w))"
| update_profile: "register_step sv admin w (snd (UpdatePartnerProfile u upr w))"
| submit_document: "register_step sv admin w (snd (SubmitKYCDocument u i skd w))"
| start_aadhaar: "register_step sv admin w (snd (StartAadhaarFlow sv u i w))"
| complete_aadhaar: "register_step sv admin w (snd (CompleteAadhaarFlow sv u i code0 state w))"
| add_vehicle: "register_step sv admin w (snd (AddVehicle u i avr w))"
| vehicle_document: "register_step sv admin w (snd (SubmitVehicleDocument u i svd w))"
| online: "register_step sv admin w (snd (GoOnline u w))"
| approve: "admin \<Longrightarrow> register_step sv admin w (snd (ApprovePartner i a w))"
| reject: "admin \<Longrightarrow> register_step sv admin w (snd (RejectPartner i a reason w))"
| suspend: "admin \<Longrightarrow> register_step sv admin w (snd (SuspendPartner i a reason w))"
| block: "admin \<Longrightarrow> register_step sv admin w (snd (BlockPartner i a reason w))"
| verify_document: "admin \<Longrightarrow> register_step sv admin w (snd (VerifyDocument i a w))"
| reject_document: "admin \<Longrightarrow> register_step sv admin w (snd (RejectDocument i a reason w))"
| verify_vehicle: "admin \<Longrightarrow> register_step sv admin w (snd (VerifyVehicle i a w))"
| reject_vehicle: "admin \<Longrightarrow> register_step sv admin w (snd (RejectVehicle i a reason w))"
| subscribe: "register_step sv admin w (snd (Subscribe sv u pl m key w))"
| proof_of_payment: "register_step sv admin w (snd (SubmitPaymentProof u i url w))"
| verify_payment: "register_step sv admin w (snd (VerifySubscriptionPayment i a w))"
| reject_payment: "register_step sv admin w (snd (RejectSubscriptionPayment i a reason w))"
| expiry_job: "register_step sv admin w (snd (RunSubscriptionExpiryChecker pub w))"
| grace_job: "register_step sv admin w (snd (RunGracePeriodTransition pub w))"
| renewal_job: "register_step sv admin w (snd (RunSubscriptionAutoRenewal wc pub w))"
| document_job: "register_step sv admin w (snd (RunDocumentExpiryReminder pub w))"
| book: "register_step sv admin w (snd (CreateRide sv u req w))"
| activate: "register_step sv admin w (snd (activatePass sv w))"
| match: "register_step sv admin w (snd (MatchRide sv i opts w))"
| accept: "register_step sv admin w (snd (AcceptOffer sv u i w))"
| decline: "register_step sv admin w (snd (RejectOffer sv u i reason w))"
| expire_offers: "register_step sv admin w (snd (ExpireStaleOffers w))"
| expire_rides: "register_step sv admin w (snd (ExpireStaleRides t w))"
| job: "register_step sv admin w (snd (TransitionRideForJob i target reason w))"
| arriving: "register_step sv admin w (snd (MarkArriving sv u i w))"
| arrived: "register_step sv admin w (snd (MarkArrived sv u i w))"
| start: "register_step sv admin w (snd (StartRide sv u i code0 w))"
| complete: "register_step sv admin w (snd (CompleteRide sv u i creq w))"
| cancel: "register_step sv admin w (snd (CancelRide sv u i by0 cnr w))"
| admin_cancel: "register_step sv admin w (snd (AdminCancelRide sv i u reason w))"
| no_show: "register_step sv admin w (snd (MarkRideNoShow sv u i reason w))"
| rate: "register_step sv admin w (snd (RateRide u i rrq w))"
| moderate: "register_step sv admin w (snd (AdminHideRideRating u i vis w))"
| respond: "register_step sv admin w (snd (PartnerRespondToRating u i txt w))"
| share: "register_step sv admin w (snd (ShareRide u i url w))"
| location: "register_step sv admin w (snd (UpdateLocation sv u ulr w))"
| offline: "register_step sv admin w (snd (GoOffline sv u w))"
| elsewhere: "standing w' = standing w \<Longrightarrow> register_step sv admin w w'"

lemmas stable_operations = stable_booking [THEN acts_stable] stable_offers [THEN acts_stable] stable_way [THEN acts_stable]
  stable_ends [THEN acts_stable] stable_subscribe [THEN acts_stable] stable_jobs [THEN acts_stable] stable_flow [THEN acts_stable]

lemma regD: "reg_by admin m \<Longrightarrow> (reg_step admin)\<^sup>*\<^sup>* (standing w) (standing (snd (m w)))"
  by (simp add: acts_by_def)

lemma register_step_runs: "register_step sv admin w w' \<Longrightarrow> (reg_step admin)\<^sup>*\<^sup>* (standing w) (standing w')"
  by (cases rule: register_step.cases, assumption) (auto intro!: regD reg_intros stable_operations)

text \<open>Every request, job and decision of the back office, whatever the database's network, Redis, the
  wallet and DigiLocker do in it, and any sequence of them, acts on partners, vehicles and documents as a
  run of the machine \<open>reg_step\<close>, in which only the back office approves, judges vehicles and documents.\<close>

lemma register_run: "(register_step sv admin)\<^sup>*\<^sup>* w w' \<Longrightarrow> (reg_step admin)\<^sup>*\<^sup>* (standing w) (standing w')"
  by (induction rule: rtranclp_induct) (auto dest: register_step_runs intro: rtranclp_trans)

section \<open>A register in order\<close>

text \<open>Everyone and everything is registered once, what is recorded is recorded of someone known, no number
  of an Aadhaar card is kept with the documents of partners, and documents of vehicles are undecided.\<close>

definition well_registered :: "standing \<Rightarrow> bool" where
  "well_registered = (\<lambda>(ps, vs, ds, es).
     distinct (map pfID ps) \<and> distinct (map pfUser (filter (\<lambda>p. \<not> pfGone p) ps))
   \<and> distinct (map vhID vs) \<and> distinct (map vhRegistrationNumber (filter (\<lambda>v. vwDeletedAt v = None) vs))
   \<and> (\<forall>v \<in> set vs. vhPartnerID v \<in> pfID ` set ps)
   \<and> distinct (map pdID ds)
   \<and> (\<forall>d \<in> set ds. pdPartnerID d \<in> pfID ` set ps \<and> (pdDocumentType d = ''aadhaar'' \<longrightarrow> pdDocumentNumber d = None))
   \<and> distinct (map vdID es) \<and> (\<forall>d \<in> set es. vdVehicleID d \<in> vhID ` set vs \<and> vdStatus d = ''pending''))"

text \<open>Updates of columns that a key or a filter does not look at.\<close>

lemma update_rows_unkeyed:
  assumes "\<And>x. h (f x) = h x" and "\<And>x. q (f x) = q x"
  shows "map h (update_rows c f xs) = map h xs" "map h (filter q (update_rows c f xs)) = map h (filter q xs)"
    "h ` set (update_rows c f xs) = h ` set xs"
proof -
  show map: "map h (update_rows c f xs) = map h xs" by (simp add: update_rows_def assms(1))
  show "map h (filter q (update_rows c f xs)) = map h (filter q xs)"
    by (induction xs) (simp_all add: update_rows_def assms)
  show "h ` set (update_rows c f xs) = h ` set xs" using map by (metis image_set)
qed

lemma ball_update_rows:
  "(\<And>x. P (f x) = P x) \<Longrightarrow> (\<forall>x \<in> set (update_rows c f xs). P x) \<longleftrightarrow> (\<forall>x \<in> set xs. P x)"
  by (induction xs) (simp_all add: update_rows_def)

lemma well_registered_step: "reg_step admin r r' \<Longrightarrow> well_registered r \<Longrightarrow> well_registered r'"
proof (induction rule: reg_step.induct)
  case (enrolled i ps u vs ds es)
  then show ?case by (auto simp: well_registered_def)
next
  case (vehicle_added v vs ps ds es)
  have "vhRegistrationNumber v \<notin> vhRegistrationNumber ` {x \<in> set vs. vwDeletedAt x = None}"
    using vehicle_added(2) by (auto simp: eq_commute)
  with vehicle_added show ?case by (simp add: well_registered_def)
next
  case (vehicle_judged ps vs ds es i s t)
  then show ?case
    by (simp add: well_registered_def update_rows_unkeyed ball_update_rows)
next
  case (document_judged ps vs ds i s r t es)
  then show ?case
    by (simp add: well_registered_def update_rows_unkeyed ball_update_rows)
qed (simp_all add: well_registered_def update_rows_unkeyed)

lemma well_registered_run: "(reg_step admin)\<^sup>*\<^sup>* r r' \<Longrightarrow> well_registered r \<Longrightarrow> well_registered r'"
  by (induction rule: rtranclp_induct) (auto dest: well_registered_step)

text \<open>C21: a register in order stays in order.\<close>

theorem register_stays_in_order:
  assumes "(register_step sv admin)\<^sup>*\<^sup>* w w'" and "well_registered (standing w)"
  shows "well_registered (standing w')"
  using well_registered_run [OF register_run [OF assms(1)] assms(2)] .

section \<open>Who approves\<close>

text \<open>What has been approved, by what it is and its id.\<close>

definition approvals :: "standing \<Rightarrow> (string \<times> uuid) set" where
  "approvals = (\<lambda>(ps, vs, ds, es).
     (\<lambda>p. (''partner'', pfID p)) ` {p \<in> set ps. pfStatus p = ''approved''}
   \<union> (\<lambda>p. (''kyc'', pfID p)) ` {p \<in> set ps. pfKYC p = ''approved''}
   \<union> (\<lambda>v. (''vehicle'', vhID v)) ` {v \<in> set vs. vhStatus v = ''approved''}
   \<union> (\<lambda>d. (''document'', pdID d)) ` {d \<in> set ds. pdStatus d = ''approved''}
   \<union> (\<lambda>d. (''vehicle_document'', vdID d)) ` {d \<in> set es. vdStatus d = ''approved''})"

lemma update_rows_image:
  "(\<And>x. Q (f x) \<Longrightarrow> Q x) \<Longrightarrow> (\<And>x. h (f x) = h x) \<Longrightarrow> h ` {x \<in> set (update_rows c f xs). Q x} \<subseteq> h ` {x \<in> set xs. Q x}"
  by (fastforce simp: update_rows_def)

lemma approvals_step: "reg_step admin r r' \<Longrightarrow> \<not> admin \<Longrightarrow> approvals r' \<subseteq> approvals r"
proof (induction rule: reg_step.induct)
  case (status_set s ps vs ds es i)
  then show ?case
    unfolding approvals_def prod.case by (intro Un_mono update_rows_image) auto
next
  case (kyc_pending ps vs ds es i)
  then show ?case
    unfolding approvals_def prod.case by (intro Un_mono update_rows_image) auto
qed (auto simp: approvals_def)

lemma approvals_run: "(reg_step admin)\<^sup>*\<^sup>* r r' \<Longrightarrow> \<not> admin \<Longrightarrow> approvals r' \<subseteq> approvals r"
  by (induction rule: rtranclp_induct) (auto dest: approvals_step )

text \<open>C22: without the back office, nobody's account or KYC, no vehicle and no document becomes approved,
  whatever partners and customers ask and the jobs do.\<close>

theorem only_the_back_office_approves:
  assumes "(register_step sv False)\<^sup>*\<^sup>* w w'"
  shows "approvals (standing w') \<subseteq> approvals (standing w)"
  using approvals_run [OF register_run [OF assms]] by simp

section \<open>Documents of vehicles\<close>

text \<open>C40: nothing in the service decides on the document of a vehicle, so that none ever lapses in the sense
  of the gate: from a register in order on, whenever the count of lapsed documents of a vehicle is answered
  it is 0, however long ago its insurance ran out.\<close>

theorem vehicle_documents_never_lapse:
  assumes "(register_step sv admin)\<^sup>*\<^sup>* w w'" and "well_registered (standing w)"
    and "fst (CountExpiredApprovedVehicleDocs v w') = Inr n"
  shows "n = 0"
proof -
  have "vdStatus d = ''pending''" if "d \<in> set (vehicle_docs w')" for d
    using well_registered_run [OF register_run [OF assms(1)] assms(2)] that by (simp add: well_registered_def standing_def)
  then have none: "filter (\<lambda>d. vdVehicleID d = v \<and> lapsed t (vdStatus d) (vdExpiresAt d)) (vehicle_docs w') = []" for t
    by (simp add: filter_empty_conv lapsed_def)
  show ?thesis
    using assms(3)
    by (auto simp: CountExpiredApprovedVehicleDocs_def wrapErr_def db_call_def get_def none split: list.splits outcome.splits prod.splits sum.splits)
qed

end
