(* ===== verification/Rider_Licence.thy ===== *)
theory Rider_Licence
  imports Rider_Standing
begin

text \<open>
  The gate before the road: who can go online, stated on the tables, and that \<open>GoOnline\<close> puts nobody
  else online. The argument is a Hoare proof over the reads of the handler: each leaves the tables as
  they were and answers from them.
\<close>

section \<open>The gate\<close>

definition road :: "('v, 'r) rider \<Rightarrow> partner_row list \<times> PartnerDocument list \<times> vehicle_row list \<times>
    VehicleDocument list \<times> sub_row list \<times> PartnerLocation list \<times> int" where
  "road w = (ride_partners w, partner_docs w, ride_vehicles w, vehicle_docs w, ride_subs w, ride_locations w, clock w)"

text \<open>A partner of the user who is approved, whose KYC is approved and has no lapsed document, with an approved
  and active vehicle whose documents have not lapsed, and a live subscription.\<close>

definition may_drive :: "uuid \<Rightarrow> ('v, 'r) rider \<Rightarrow> bool" where
  "may_drive u w \<longleftrightarrow> (\<exists>p \<in> set (ride_partners w).
       ptUserID p = u \<and> pwDeletedAt p = None \<and> ptStatus p = ''approved'' \<and> ptKYCStatus p = ''approved''
     \<and> (\<forall>d \<in> set (partner_docs w). pdPartnerID d = ptID p \<longrightarrow> \<not> lapsed (clock w) (pdStatus d) (pdExpiresAt d))
     \<and> (\<exists>v \<in> set (ride_vehicles w). vhPartnerID v = ptID p \<and> vwDeletedAt v = None \<and> vhStatus v = ''approved'' \<and> vhIsActive v
         \<and> (\<forall>d \<in> set (vehicle_docs w). vdVehicleID d = vhID v \<longrightarrow> \<not> lapsed (clock w) (vdStatus d) (vdExpiresAt d)))
     \<and> (\<exists>s \<in> set (ride_subs w). suPartnerID s = ptID p \<and> live_sub s))"

section \<open>Reading\<close>

text \<open>While the tables are \<open>k\<close>, a query either fails or answers from them.\<close>

abbreviation reads_as :: "'k \<Rightarrow> (('v, 'r) rider \<Rightarrow> 'k) \<Rightarrow> (('v, 'r) rider, 'a) io \<Rightarrow> ('a \<Rightarrow> bool) \<Rightarrow> bool" where
  "reads_as k part m Q \<equiv> triple (\<lambda>w. part w = k) m (\<lambda>x w. part w = k \<and> Q x) (\<lambda>_ w. part w = k)"

lemma road_blind [simp]: "env_blind road" "env_free (\<lambda>w. road w = k)"
  by (simp_all add: env_blind_def env_free_def road_def)

lemma reads_get:
  assumes "\<And>w. road w = k \<Longrightarrow> Q (f w)"
  shows "reads_as k road (db_call (get f)) Q"
  by (rule triple_db_call [where Q = "\<lambda>x w. road w = k \<and> Q x" and E = "\<lambda>_ w. road w = k"])
    (use assms in \<open>auto simp: triple_def get_def\<close>)

lemma reads_row:
  assumes "\<And>w x. road w = k \<Longrightarrow> q w = Some x \<Longrightarrow> Q x"
  shows "reads_as k road (query_row q e) Q"
  unfolding query_row_def
  by (rule triple_andThen [OF reads_get [where Q = "\<lambda>r. \<forall>x. r = Some x \<longrightarrow> Q x"]])
    (use assms in \<open>auto simp: triple_def ok_def fail_def split: option.split\<close>)

lemma reads_not_found:
  assumes "reads_as k part m Q"
  shows "reads_as k part (or_not_found e msg m) Q"
  unfolding or_not_found_def
  by (rule triple_attempt_split [OF assms]) (auto simp: triple_def ok_def fail_def)

text \<open>A handler that reads and goes on.\<close>

lemma reads_then:
  assumes "reads_as k part m Q" and "\<And>x. Q x \<Longrightarrow> triple (\<lambda>w. part w = k) (f x) (\<lambda>_ _. g) (\<lambda>_ w. part w = k \<or> g)"
  shows "triple (\<lambda>w. part w = k) (andThen m f) (\<lambda>_ _. g) (\<lambda>_ w. part w = k \<or> g)"
proof (rule triple_andThen)
  show "triple (\<lambda>w. part w = k) m (\<lambda>x w. part w = k \<and> Q x) (\<lambda>_ w. part w = k \<or> g)"
    by (rule triple_conseq [OF assms(1)]) auto
  show "triple (\<lambda>w. part w = k \<and> Q x) (f x) (\<lambda>_ _. g) (\<lambda>_ w. part w = k \<or> g)" for x
    by (rule triple_pure) (rule assms(2))
qed

lemma guarded_then:
  assumes "c \<Longrightarrow> triple (\<lambda>w. part w = k) m (\<lambda>_ _. g) (\<lambda>_ w. part w = k \<or> g)"
  shows "triple (\<lambda>w. part w = k) (require c e m) (\<lambda>_ _. g) (\<lambda>_ w. part w = k \<or> g)"
  by (rule triple_require) (use assms in auto)

section \<open>Going online\<close>

lemma reads_partner:
  "reads_as (road w0) road (GetPartnerByUserID u) (\<lambda>p. \<exists>p0 \<in> set (ride_partners w0).
     ptUserID p0 = u \<and> pwDeletedAt p0 = None \<and> p = Partner.truncate p0)"
  unfolding GetPartnerByUserID_def by (rule reads_row) (auto simp: road_def find_Some_iff)

lemma reads_vehicles:
  "reads_as (road w0) road (ListVehiclesByPartner i) (\<lambda>vs. \<forall>v \<in> set vs. \<exists>v0 \<in> set (ride_vehicles w0).
     vhPartnerID v0 = i \<and> vwDeletedAt v0 = None \<and> v = Vehicle.truncate v0)"
  unfolding ListVehiclesByPartner_def by (rule triple_wrapErr, rule reads_get) (auto simp: road_def)

lemma reads_lapsed:
  "reads_as (road w0) road (CountExpiredApprovedPartnerDocs i) (\<lambda>n. n = 0 \<longrightarrow>
     (\<forall>d \<in> set (partner_docs w0). pdPartnerID d = i \<longrightarrow> \<not> lapsed (clock w0) (pdStatus d) (pdExpiresAt d)))"
  "reads_as (road w0) road (CountExpiredApprovedVehicleDocs v) (\<lambda>n. n = 0 \<longrightarrow>
     (\<forall>d \<in> set (vehicle_docs w0). vdVehicleID d = v \<longrightarrow> \<not> lapsed (clock w0) (vdStatus d) (vdExpiresAt d)))"
  unfolding CountExpiredApprovedPartnerDocs_def CountExpiredApprovedVehicleDocs_def
  by (rule triple_wrapErr, rule reads_get, simp add: road_def filter_empty_conv)+

lemma reads_subscription:
  "reads_as (road w0) road (GetActiveSubscription i) (\<lambda>_. \<exists>s \<in> set (ride_subs w0). suPartnerID s = i \<and> live_sub s)"
proof -
  have "\<exists>s \<in> set ss. suPartnerID s = i \<and> live_sub s" if found: "current_sub i ss = Some s0" for ss s0
  proof -
    obtain rest where "sort_key (\<lambda>s. - suExpiresAt s) (filter (\<lambda>s. suPartnerID s = i \<and> live_sub s) ss) = s0 # rest"
      using found by (cases "sort_key (\<lambda>s. - suExpiresAt s) (filter (\<lambda>s. suPartnerID s = i \<and> live_sub s) ss)")
        (simp_all add: current_sub_def)
    from arg_cong [OF this, of set] show ?thesis by auto
  qed
  then show ?thesis
    unfolding GetActiveSubscription_def by (intro reads_row) (auto simp: road_def)
qed

lemma once_shown: "triple P m (\<lambda>_ _. True) (\<lambda>_ w. Q w \<or> True)"
  by (auto simp: triple_def split: prod.split sum.split)

lemma go_online_triple:
  "triple (\<lambda>w. road w = road w0) (GoOnline u) (\<lambda>_ _. may_drive u w0) (\<lambda>_ w. road w = road w0 \<or> may_drive u w0)"
  unfolding GoOnline_def none_lapsed_def with_subscription_def
proof (intro reads_then [OF reads_not_found [OF reads_partner]] guarded_then
    reads_then [OF triple_wrapErr [OF reads_lapsed(1)]] reads_then [OF reads_vehicles])
  fix partner n vehicles
  assume p: "\<exists>p0 \<in> set (ride_partners w0). ptUserID p0 = u \<and> pwDeletedAt p0 = None \<and> partner = Partner.truncate p0"
    and ok: "ptStatus partner = ''approved''" "ptKYCStatus partner = ''approved''"
    and docs: "n = 0 \<longrightarrow> (\<forall>d \<in> set (partner_docs w0). pdPartnerID d = ptID partner \<longrightarrow> \<not> lapsed (clock w0) (pdStatus d) (pdExpiresAt d))" "n = 0"
    and vs: "\<forall>v \<in> set vehicles. \<exists>v0 \<in> set (ride_vehicles w0). vhPartnerID v0 = ptID partner \<and> vwDeletedAt v0 = None \<and> v = Vehicle.truncate v0"
  show "triple (\<lambda>w. road w = road w0) (case find (\<lambda>v. vhStatus v = ''approved'' \<and> vhIsActive v) vehicles of
       None \<Rightarrow> fail (Errorf ''forbidden: no approved vehicle'')
     | Some v \<Rightarrow> andThen (wrapErr ''check expired vehicle docs'' (CountExpiredApprovedVehicleDocs (vhID v))) (\<lambda>n.
         require (n = 0) (Errorf (''forbidden: '' @ show_nat n @ '' '' @ ''vehicle'' @ '' document(s) expired '' @ em_dash @ '' please re-upload''))
        (andThen (or_not_found ErrSubscriptionNotFound ''forbidden: no active subscription'' (GetActiveSubscription (ptID partner))) (\<lambda>sub.
         require (suStatus sub \<in> set live_statuses) (Errorf (''forbidden: subscription is '' @ suStatus sub))
        (andThen (wrapErr ''set online'' (SetPartnerOnlineFlag (ptID partner) True)) (\<lambda>_.
         rider_publish (PublishPartnerOnline (ptID partner))))))))
     (\<lambda>_ _. may_drive u w0) (\<lambda>_ w. road w = road w0 \<or> may_drive u w0)"
  proof (cases "find (\<lambda>v. vhStatus v = ''approved'' \<and> vhIsActive v) vehicles")
    case (Some v)
    then have v: "v \<in> set vehicles" "vhStatus v = ''approved''" "vhIsActive v" by (auto simp: find_Some_iff)
    show ?thesis
      unfolding Some option.case
    proof (intro reads_then [OF triple_wrapErr [OF reads_lapsed(2)]] guarded_then reads_then [OF reads_not_found [OF reads_subscription]])
      fix m
      assume "m = 0 \<longrightarrow> (\<forall>d \<in> set (vehicle_docs w0). vdVehicleID d = vhID v \<longrightarrow> \<not> lapsed (clock w0) (vdStatus d) (vdExpiresAt d))" "m = 0"
        and "\<exists>s \<in> set (ride_subs w0). suPartnerID s = ptID partner \<and> live_sub s"
      with p ok docs vs v have "may_drive u w0"
        by (fastforce simp: may_drive_def Partner.truncate_def Vehicle.truncate_def)
      then show "triple (\<lambda>w. road w = road w0) (andThen (wrapErr ''set online'' (SetPartnerOnlineFlag (ptID partner) True)) (\<lambda>_.
         rider_publish (PublishPartnerOnline (ptID partner)))) (\<lambda>_ _. may_drive u w0) (\<lambda>_ w. road w = road w0 \<or> may_drive u w0)"
        using once_shown by simp
    qed
  qed (simp add: triple_fail)
qed

text \<open>C20: whoever goes online, and whoever's online flag, location or last time online changes in an attempt
  to (whatever the database answers and loses on the way), is a registered partner whose account and KYC
  are approved, none of whose approved documents has lapsed, who has an approved and active vehicle none of
  whose approved documents has lapsed, and a live subscription.\<close>

theorem going_online_is_gated:
  assumes "GoOnline u w = (r, w')"
    and "r = Inr () \<or> ride_partners w' \<noteq> ride_partners w \<or> ride_locations w' \<noteq> ride_locations w"
  shows "may_drive u w"
proof (cases r)
  case (Inl e)
  then have "road w' = road w \<or> may_drive u w" using tripleD_err [OF go_online_triple refl] assms(1) by blast
  then show ?thesis using assms(2) Inl by (auto simp: road_def)
next
  case (Inr x)
  then show ?thesis using tripleD_ok [OF go_online_triple refl] assms(1) by blast
qed

end
