(* ===== verification/Rider_Examples.thy ===== *)
theory Rider_Examples
  imports Rider_Licence
begin

text \<open>
  One ride with one partner and one plan on sale, on which the properties of rides, of subscriptions and
  of the register are instantiated.
\<close>

section \<open>A ride that has arrived\<close>

text \<open>The code of the ride is 0042, hashed without salt.\<close>

definition demo_hash :: string where
  "demo_hash = hash_text [] (pbkdf2HMAC (bytes_of ''0042'') [] Iterations keyLen)"

lemma demo_hash_matches: "CompareHashAndPassword demo_hash ''0042'' = None" "demo_hash \<noteq> []"
proof -
  show "CompareHashAndPassword demo_hash ''0042'' = None"
    unfolding demo_hash_def using compare_own_hash [of "[]" "''0042''" "''0042''"] by (simp add: byte_list_def)
qed (simp add: demo_hash_def hash_text_def)

definition demo_ride_input :: CreateRideInput where
  "demo_ride_input = \<lparr>criCustomerUserID = 70, criCityID = Some 9, criVehicleType = ''auto'',
     criPickupAddress = ''MG Road'', criPickupLat = 12, criPickupLng = 77, criDropAddress = ''Airport'',
     criDropLat = 13, criDropLng = 77, criEstimatedDistanceKM = None, criEstimatedDurationMin = None,
     criEstimatedFare = Some 200, criPaymentMethod = Some ''cash'', criScheduledFor = None\<rparr>"

definition demo_ride_at :: "string \<Rightarrow> ride_row" where
  "demo_ride_at st = (ride_of_input demo_ride_input 1 st None None (Some 200) 0)
     \<lparr>rdPartnerID := Some 5, rdVehicleID := Some 6, rwOTPHash := Some demo_hash, rdOTPExpiresAt := Some 1000\<rparr>"

definition demo_partner :: partner_row where
  "demo_partner = \<lparr>ptID = 5, ptUserID = 50, ptPartnerType = ''owner_driver'', ptFleetOwnerID = None,
     ptFullName = ''Asha'', ptPhone = ''9876543210'', ptEmail = None, ptProfilePhotoURL = None, ptCityID = Some 9, ptStatus = ''approved'', ptKYCStatus = ''approved'', ptBankStatus = ''draft'',
     ptRating = 5, ptTotalRidesCompleted = 0, ptTotalRidesCancelled = 0, ptAcceptanceRate = 1, ptCancellationRate = 0,
     ptFraudScore = 0, ptIsOnline = True, ptApprovedAt = Some 0, ptCreatedAt = 0, ptUpdatedAt = 0, pwLastOnlineAt = Some 0, pwLastOfflineAt = None, pwRejectCount30d = 0,
     pwDeletedAt = None\<rparr>"

definition demo_vehicle :: vehicle_row where
  "demo_vehicle = \<lparr>vhID = 6, vhPartnerID = 5, vhVehicleType = ''auto'', vhRegistrationNumber = ''KA01AB1234'', vhBrand = None,
     vhModel = None, vhColor = None, vhManufactureYear = None, vhSeatCount = None, vhFuelType = None, vhIsEV = False, vhStatus = ''approved'', vhIsActive = True,
     vhCreatedAt = 0, vhUpdatedAt = 0, vwDeletedAt = None\<rparr>"

definition demo_fare_rule :: FareRule where
  "demo_fare_rule = \<lparr>frID = 8, frCityID = 9, frVehicleType = ''auto'', frBaseFare = 30, frPerKMFare = 15,
     frPerMinuteFare = 1, frMinimumFare = 40, frPlatformFee = 0, frNightMultiplier = 1, frPeakMultiplier = 1, frCancellationFee = 0, frIsActive = True, frStartsAt = 0\<rparr>"

definition demo_town :: City where
  "demo_town = \<lparr>cyID = 9, cyName = ''Bengaluru'', cyState = Some ''Karnataka'', cyCountry = ''India'', cyCurrencyCode = ''INR'',
     cyIsActive = True, cyCreatedAt = 0, cyUpdatedAt = 0\<rparr>"

definition demo_city :: "string \<Rightarrow> (int, unit) rider" where
  "demo_city st = \<lparr>net = [], clock = 500, idgen = (\<lambda>n. 1000 + of_nat n), idctr = 0,
     entropy = (\<lambda>_. Inr (\<lambda>i. i)), randctr = 0, rides = [demo_ride_at st], ride_history = [], ride_offers = [],
     ride_payments = [], ride_idem = [], ride_partners = [demo_partner], ride_vehicles = [demo_vehicle], partner_docs = [], vehicle_docs = [], aadhaar_checks = [],
     ride_plans = [], ride_subs = [], sub_payments = [], rider_reminders = [], cron_runs = [], ride_locations = [], fare_rules = [demo_fare_rule], ride_cities = [demo_town],
     rider_events = [], rider_frames = [], rider_outbox = [], rider_wallet = 0, rider_redis = ()\<rparr>"

text \<open>A mathematics library good enough for distances of nought.\<close>

definition demo_libm :: libm where
  "demo_libm = \<lparr>mathSin = (\<lambda>_. 0), mathCos = (\<lambda>_. 1), mathAtan2 = (\<lambda>_ _. 0), mathSqrt = (\<lambda>_. 0)\<rparr>"

definition demo_numeric :: numeric where
  "demo_numeric p s x = Some x"

definition demo_rides :: "(int, unit) RiderService" where
  "demo_rides = \<lparr>rsvNum = demo_numeric, rsvWallet = None, rsvRedis = None, rsvDigiLocker = None, rsvConfig = default_config 0 0 demo_libm,
     rsvRealtime = True, rsvOutbox = True, rsvParseUUID = (\<lambda>_. Some 5), rsvGetenv = (\<lambda>_. [])\<rparr>"

lemmas demo_rides_defs = demo_city_def demo_ride_at_def demo_ride_input_def ride_of_input_def demo_partner_def
  demo_vehicle_def demo_fare_rule_def demo_rides_def demo_numeric_def

lemma demo_distinct: "distinct_rides (rides (demo_city st))" "the_ride 1 (demo_city st) = Some (demo_ride_at st)"
  by (simp_all add: distinct_rides_def the_ride_def demo_rides_defs)

lemmas rider_eval = CreateRide_def find_ride_def find_partner_def loadRideForPartner_def or_not_found_def store_GetRide_def
  GetPartnerByUserID_def query_row_def Ride.truncate_def Partner.truncate_def GetRideWithOTP_def transitionRide_def
  TransitionRide_def must_change_def sql_update_rides_def update_rows_def validRideTransition_def allowedRideTransitions_def
  rider_ride_status_def AppendStatusHistory_def sql_insert_history_def rider_publish_def publishRealtime_def rider_emit_def
  stamp_ride_def SetStartedAt_def SetArrivingAt_def SetArrivedAt_def

lemma demo_starts:
  "fst (StartRide demo_rides 50 1 '' 0042 '' (demo_city ''arrived'')) = Inr ()"
proof -
  have "trim_space '' 0042 '' = ''0042''" by code_simp
  then show ?thesis
    by (simp add: StartRide_def start_verified_def check_otp_def demo_hash_matches rider_eval demo_rides_defs io_defs postgres_eval)
qed

section \<open>The properties on it\<close>

lemma demo_start_changes:
  "effective rides (demo_city ''arrived'') (fst (StartRide demo_rides 50 1 '' 0042 '' (demo_city ''arrived'')))
     (snd (StartRide demo_rides 50 1 '' 0042 '' (demo_city ''arrived'')))"
  using demo_starts by (auto simp: effective_def)

theorem start_needs_the_code_witness:
  "rides (snd (StartRide demo_rides 50 1 '' 0042 '' (demo_city ''arrived''))) =
     [(demo_ride_at ''in_progress'')\<lparr>rwStartedAt := Some 500, rdUpdatedAt := 500\<rparr>]"
proof -
  have "rides (snd (StartRide demo_rides 50 1 '' 0042 '' (demo_city ''arrived''))) = update_rows (\<lambda>r. rdID r = 1)
      (\<lambda>r. r\<lparr>rdStatus := ''in_progress'', rwStartedAt := Some (clock (demo_city ''arrived'')),
        rdUpdatedAt := clock (demo_city ''arrived'')\<rparr>) (rides (demo_city ''arrived''))"
    using start_needs_the_code [OF prod.collapse [symmetric] demo_start_changes demo_distinct(1)] demo_starts by blast
  then show ?thesis by (simp add: update_rows_def demo_rides_defs)
qed

theorem rider_runs_the_machine_witness:
  "ride_run (rides (demo_city ''arrived'')) (rides (snd (CompleteRide demo_rides 50 1
     \<lparr>cprFinalDistanceKM = 4, cprFinalDurationMin = 10, cprIdempotencyKey = ''k''\<rparr> (demo_city ''arrived''))))"
  by (rule rider_runs_the_machine, rule r_into_rtranclp, rule rider_step.complete)

theorem ride_lifecycle_witness:
  "\<exists>r' \<in> set (rides (snd (CompleteRide demo_rides 50 1
     \<lparr>cprFinalDistanceKM = 4, cprFinalDurationMin = 10, cprIdempotencyKey = ''k''\<rparr> (demo_city ''expired'')))).
     booking r' = booking (demo_ride_at ''expired'') \<and> rdStatus r' = ''expired''"
proof -
  have "demo_ride_at ''expired'' \<in> set (rides (demo_city ''expired''))" "ride_over (rdStatus (demo_ride_at ''expired''))"
    using over_statuses by (simp_all add: demo_rides_defs)
  moreover have "rdStatus (demo_ride_at ''expired'') = ''expired''" by (simp add: demo_rides_defs)
  ultimately show ?thesis
    using ride_lifecycle [OF r_into_rtranclp [of "rider_step demo_rides", OF rider_step.complete] demo_distinct(1)] by metis
qed

theorem cancellation_fee_witness:
  "computeCancellationFeePaise (Ride.truncate (demo_ride_at ''partner_arriving'')) = 1500"
  using cancellation_fee [of "Ride.truncate (demo_ride_at ''partner_arriving'')"] by (simp add: demo_rides_defs)

section \<open>An offer for it\<close>

definition demo_offer :: "uuid \<Rightarrow> uuid \<Rightarrow> offer_row" where
  "demo_offer i p = \<lparr>ofID = i, ofRideID = 1, ofPartnerID = p, ofScore = 1, ofDistanceKM = None, ofExpiresAt = 600,
     ofStatus = ''sent'', ofDecidedAt = None, ofCreatedAt = 400, owRejectReason = None\<rparr>"

definition demo_offers :: "vehicle_row list \<Rightarrow> (int, unit) rider" where
  "demo_offers vs = (demo_city ''searching_partner'')\<lparr>ride_offers := [demo_offer 30 5, demo_offer 31 7], ride_vehicles := vs\<rparr>"

lemmas demo_offers_defs = demo_offers_def demo_offer_def demo_rides_defs

lemma demo_generate:
  "\<exists>otp hash. generateOTPAndHash (demo_offers vs\<lparr>ride_offers := os\<rparr>) =
     (Inr (otp, hash), demo_offers vs\<lparr>ride_offers := os, randctr := 2\<rparr>)"
proof -
  have "otp_code buf \<noteq> []" for buf using otp_code_shape [of buf] by auto
  then show ?thesis
    by (simp add: generateOTPAndHash_def GenerateFromPassword_def go_simps rand_Read_def demo_offers_def demo_city_def)
qed

lemma demo_accepted:
  "\<exists>res. fst (AcceptOffer demo_rides 50 30 (demo_offers [demo_vehicle])) = Inr res"
proof -
  let ?w = "demo_offers [demo_vehicle]"
  let ?os = "offers_after 30 1 500 (ride_offers ?w)"
  let ?x = "RideOffer.truncate (decide ''accepted'' 500 (demo_offer 30 5))"
  let ?w1 = "?w\<lparr>ride_offers := ?os\<rparr>" and ?w2 = "?w\<lparr>ride_offers := ?os, randctr := 2\<rparr>"
  have partner: "find_partner 50 ?w = (Inr (Partner.truncate demo_partner), ?w)"
    by (simp add: rider_eval demo_offers_defs io_defs)
  have decide: "decide_offer 30 5 ?w = (Inr ?x, ?w1)"
    by (simp add: decide_offer_def AcceptOfferTx_def in_tx_up lock_offer_def accept_offer_def sql_update_offers_def io_defs
      offers_after_def update_rows_def decide_def demo_offers_defs RideOffer.truncate_def)
  have vehicles: "ListVehiclesByPartner 5 ?w1 = (Inr [Vehicle.truncate demo_vehicle], ?w1)"
    by (simp add: ListVehiclesByPartner_def io_defs demo_offers_defs)
  have "approved_vehicle [Vehicle.truncate demo_vehicle] = 6"
    by (simp add: approved_vehicle_def Vehicle.truncate_def demo_vehicle_def)
  moreover have "\<exists>res. fst (assign_ride demo_rides (Partner.truncate demo_partner) 30 ?x 6 ?w1) = Inr res"
  proof -
    have clk: "clock ?w2 = 500" and part: "ptID demo_partner = 5" "ptUserID demo_partner = 50"
      by (simp_all add: demo_offers_def demo_city_def demo_partner_def)
    obtain otp hash where gen: "generateOTPAndHash ?w1 = (Inr (otp, hash), ?w2)" using demo_generate by blast
    then have eq: "assign_ride demo_rides (Partner.truncate demo_partner) 30 ?x 6 ?w1 =
       andThen (wrapErr ''assign partner'' (AssignRidePartner 1 5 6 hash 1800000500)) (\<lambda>_.
       andThen (store_GetRide 1) (\<lambda>ride.
       andThen (transitionRide ride ''partner_assigned'' ''partner'' (Some 50) None) (\<lambda>ride.
       andThen (announce_assignment demo_rides (Partner.truncate demo_partner) 6 30 ride) (\<lambda>_.
       ok \<lparr>aorRideID = rdID ride, aorPartnerID = 5, aorOTP = otp, aorOTPExpiry = 1800000500\<rparr>)))) ?w2"
      unfolding assign_ride_def
      by (subst andThen_def) (simp add: wrapErr_def [of "''generate otp''"] andThen_get decide_def demo_offer_def clk part)
    show ?thesis
      unfolding eq by (simp add: AssignRidePartner_def announce_assignment_def IncrementSubscriptionLeadsUsed_def
        current_sub_def rider_eval demo_offers_defs io_defs postgres_eval)
  qed
  ultimately show ?thesis
    using partner decide vehicles
    by (simp add: AcceptOffer_def io_defs demo_partner_def Partner.truncate_def)
qed

lemma demo_offers_distinct: "distinct_rides (rides (demo_offers vs))" "distinct_offers (ride_offers (demo_offers vs))"
  by (simp_all add: distinct_rides_def distinct_offers_def demo_offers_defs)

theorem accepted_offer_assigns_the_ride_witness:
  "\<exists>res. fst (AcceptOffer demo_rides 50 30 (demo_offers [demo_vehicle])) = Inr res \<and> aorRideID res = 1
   \<and> map ofStatus (ride_offers (snd (AcceptOffer demo_rides 50 30 (demo_offers [demo_vehicle])))) = [''accepted'', ''superseded'']
   \<and> map rdVehicleID (rides (snd (AcceptOffer demo_rides 50 30 (demo_offers [demo_vehicle])))) = [Some 6]"
proof -
  let ?w = "demo_offers [demo_vehicle]"
  obtain res where res: "fst (AcceptOffer demo_rides 50 30 ?w) = Inr res" using demo_accepted by blast
  then have "AcceptOffer demo_rides 50 30 ?w = (Inr res, snd (AcceptOffer demo_rides 50 30 ?w))" by (metis prod.collapse)
  from accepted_offer_assigns_the_ride [OF this demo_offers_distinct] obtain p :: partner_row and x v hash where
    x: "x \<in> set (ride_offers ?w)" "ofID x = 30" and v: "v \<in> set (ride_vehicles ?w)"
    and offers: "ride_offers (snd (AcceptOffer demo_rides 50 30 ?w)) = offers_after 30 (ofRideID x) (clock ?w) (ride_offers ?w)"
    and rides: "rides (snd (AcceptOffer demo_rides 50 30 ?w)) = update_rows (\<lambda>r. rdID r = ofRideID x)
        (\<lambda>r. r\<lparr>rdPartnerID := Some (ptID p), rdVehicleID := Some (vhID v), rdStatus := ''partner_assigned'',
           rdOTPExpiresAt := Some (clock ?w + 1800000000), rdUpdatedAt := clock ?w, rwOTPHash := Some hash,
           rwAssignedAt := Some (clock ?w)\<rparr>) (rides ?w)"
    and out: "aorRideID res = ofRideID x"
    by blast
  have "x = demo_offer 30 5" using x by (auto simp: demo_offers_def demo_offer_def)
  moreover have "v = demo_vehicle" using v by (simp add: demo_offers_def)
  ultimately show ?thesis
    using res offers rides out
    by (simp add: offers_after_def decide_def update_rows_def demo_offers_defs)
qed

theorem accept_without_vehicle_closes_offers_witness:
  "fst (AcceptOffer demo_rides 50 30 (demo_offers [])) = Inl (Errorf ''invalid: partner has no approved vehicle'') \<and>
   map ofStatus (ride_offers (snd (AcceptOffer demo_rides 50 30 (demo_offers [])))) = [''accepted'', ''superseded'']"
proof -
  have "AcceptOffer demo_rides 50 30 (demo_offers []) = (Inl (Errorf ''invalid: partner has no approved vehicle''),
    demo_offers []\<lparr>ride_offers := offers_after 30 (ofRideID (demo_offer 30 5)) (clock (demo_offers [])) (ride_offers (demo_offers []))\<rparr>)"
    by (rule accept_without_vehicle_closes_offers [where p = demo_partner]) (simp_all add: the_partner_def demo_offers_defs)
  then show ?thesis by (simp add: offers_after_def decide_def demo_offers_def demo_city_def demo_offer_def)
qed

section \<open>Its completion\<close>

definition demo_complete :: CompleteRideRequest where
  "demo_complete = \<lparr>cprFinalDistanceKM = 4, cprFinalDurationMin = 10, cprIdempotencyKey = ''k''\<rparr>"

lemma demo_fare:
  "complete_input 1 (Ride.truncate (demo_ride_at st)) demo_fare_rule demo_complete = \<lparr>cpiRideID = 1, cpiFinalDistanceKM = 4,
     cpiFinalDurationMin = 10, cpiFinalFareINR = 100, cpiFinalFarePaise = 10000, cpiFlaggedForReview = False\<rparr>"
proof -
  have n: "fl64 (numeral k) = numeral k" if "(numeral k :: int) < 2 ^ 53" for k
    using fl64_of_int [of "numeral k"] that by simp
  have "final_fare_inr demo_fare_rule 4 10 = 100"
    by (simp add: final_fare_inr_def metered_def demo_fare_rule_def n Let_def)
  moreover have "to_paise 100 = 10000"
    using math_Round_unique [of 10000 10000] by (simp add: to_paise_def n float_to_int64_def int64_def)
  moreover have "\<not> over_estimate (Some 200) 100" by (simp add: over_estimate_def n)
  moreover have "rdEstimatedFare (demo_ride_at st) = Some 200"
    by (simp add: demo_ride_at_def ride_of_input_def demo_ride_input_def)
  ultimately show ?thesis by (simp add: complete_input_def demo_complete_def Let_def)
qed

lemma demo_no_key: "live_key (cprIdempotencyKey demo_complete) (demo_city st) = None"
  by (simp add: live_key_def demo_city_def)

lemma demo_completes: "\<exists>pay. fst (CompleteRide demo_rides 50 1 demo_complete (demo_city ''in_progress'')) = Inr pay"
proof -
  let ?w = "demo_city ''in_progress''" and ?ride = "Ride.truncate (demo_ride_at ''in_progress'')"
  have load: "loadRideForPartner 50 1 ?w = (Inr (?ride, Partner.truncate demo_partner), ?w)"
    by (simp add: rider_eval demo_rides_defs io_defs)
  have rule: "GetFareRule 9 ''auto'' ?w = (Inr demo_fare_rule, ?w)"
    by (simp add: GetFareRule_def current_rule_def rider_vehicle_type_def demo_rides_defs io_defs)
  have at: "rdCityID ?ride = Some 9" "rdVehicleType ?ride = ''auto''"
    by (simp_all add: demo_ride_at_def ride_of_input_def demo_ride_input_def)
  have find: "FindRideKey ''k'' 50 ''ride_complete'' ?w = (Inl ErrRideKeyNotFound, ?w)"
    by (simp add: FindRideKey_def demo_city_def io_defs)
  have "CompleteRide demo_rides 50 1 demo_complete ?w = complete_fresh demo_rides 50 1 demo_complete ?w"
    using find by (simp add: CompleteRide_def demo_complete_def io_defs ErrRideKeyNotFound_def)
  also have "\<dots> = (let c = complete_input 1 ?ride demo_fare_rule demo_complete in
         andThen (wrapErr ''finalize ride'' (FinalizeRide (rsvNum demo_rides) c)) (\<lambda>_.
         andThen (transitionRide ?ride ''completed'' ''partner'' (Some (ptUserID (Partner.truncate demo_partner))) None) (\<lambda>ride.
         bill_ride demo_rides 50 demo_complete c 1 ride (Partner.truncate demo_partner))) ?w)"
    using load rule at by (simp add: complete_fresh_def Let_def andThen_def wrapErr_def del: ride_truncate)
  finally have eq: "CompleteRide demo_rides 50 1 demo_complete ?w = \<dots>" .
  show ?thesis
    unfolding eq demo_fare by (simp add: Let_def FinalizeRide_def bill_ride_def CreateRidePayment_def payment_of_ride_def settle_ride_def
      MarkRidePaymentSucceeded_def IncrementPartnerCompleted_def sql_bump_partner_def RecordRideKey_def ride_method_def or_else_def
      demo_complete_def rider_eval demo_rides_defs io_defs postgres_eval)
qed

theorem completed_ride_is_billed_witness:
  "map rpyAmountPaise (ride_payments (snd (CompleteRide demo_rides 50 1 demo_complete (demo_city ''in_progress'')))) = [10000]
   \<and> map rpyStatus (ride_payments (snd (CompleteRide demo_rides 50 1 demo_complete (demo_city ''in_progress'')))) = [''succeeded'']
   \<and> map rwFinalFarePaise (rides (snd (CompleteRide demo_rides 50 1 demo_complete (demo_city ''in_progress'')))) = [Some 10000]"
proof -
  let ?w = "demo_city ''in_progress''"
  let ?w' = "snd (CompleteRide demo_rides 50 1 demo_complete ?w)"
  obtain pay where "fst (CompleteRide demo_rides 50 1 demo_complete ?w) = Inr pay" using demo_completes by blast
  then have "CompleteRide demo_rides 50 1 demo_complete ?w = (Inr pay, ?w')" by (metis prod.collapse)
  from completed_ride_is_billed [OF this demo_no_key demo_distinct(1)] obtain p :: partner_row and ride city rule c d t f where
    ride: "the_ride 1 ?w = Some ride" and city: "rdCityID ride = Some city"
    and rule: "current_rule city (rdVehicleType ride) (fare_rules ?w) = Some rule"
    and c: "c = complete_input 1 (Ride.truncate ride) rule demo_complete"
    and rides: "rides ?w' = update_rows (\<lambda>r. rdID r = 1) (\<lambda>r. (finalized c d t f (clock ?w) r)\<lparr>rdStatus := ''completed''\<rparr>) (rides ?w)"
    and bill: "billed ride (ptID p) (cpiFinalFarePaise c) pay (ride_payments ?w) (ride_payments ?w')"
    by blast
  have r: "ride = demo_ride_at ''in_progress''" using ride demo_distinct(2) by simp
  have "rule = demo_fare_rule"
    using city rule unfolding r by (simp add: current_rule_def demo_ride_at_def ride_of_input_def demo_ride_input_def demo_city_def demo_fare_rule_def)
  then have c: "cpiFinalFarePaise c = 10000" using c r demo_fare by simp
  have "ride_method (Ride.truncate ride) = ''cash''" unfolding r by (simp add: ride_method_def Ride.truncate_def demo_rides_defs)
  with bill c have "map rpyAmountPaise (ride_payments ?w') = [10000]" "map rpyStatus (ride_payments ?w') = [''succeeded'']"
    by (auto simp: billed_def bill_def demo_city_def)
  moreover have "map rwFinalFarePaise (rides ?w') = [Some 10000]"
    using rides c by (simp add: update_rows_def finalized_def demo_rides_defs)
  ultimately show ?thesis by simp
qed

theorem complete_again_rewrites_fare_witness:
  "map (\<lambda>r. (rdStatus r, rwFinalFarePaise r)) (rides (snd (CompleteRide demo_rides 50 1 demo_complete
     (demo_city ''cancelled_by_customer'')))) = [(''cancelled_by_customer'', Some 10000)]"
proof -
  let ?w = "demo_city ''cancelled_by_customer''"
  let ?c = "complete_input 1 (Ride.truncate (demo_ride_at ''cancelled_by_customer'')) demo_fare_rule demo_complete"
  have "\<exists>e. CompleteRide demo_rides 50 1 demo_complete ?w = (Inl e,
      ?w\<lparr>rides := update_rows (\<lambda>r. rdID r = 1) (finalized ?c 4 10 100 (clock ?w)) (rides ?w)\<rparr>)"
    by (rule complete_again_rewrites_fare [where p = demo_partner, OF _ _ _ _ demo_no_key _ demo_distinct(2) _ _ _ _ _ refl])
      (simp_all add: demo_fare, simp_all add: demo_complete_def the_partner_def current_rule_def rider_vehicle_type_def demo_rides_defs)
  then show ?thesis
    by (auto simp: demo_fare update_rows_def finalized_def) (simp add: demo_rides_defs finalized_def)
qed

section \<open>A plan the partner buys\<close>

text \<open>A wallet that holds a balance.\<close>

definition demo_wallet :: "int RiderWallet" where
  "demo_wallet = \<lparr>DebitForSubscription = (\<lambda>_ a _ _ v. (Inr \<lparr>drTransactionID = 77, drStatus = ''succeeded'', drAmountPaise = a\<rparr>, v - a)),
     RefundSubscription = (\<lambda>_ a _ v. (Inr (), v + a))\<rparr>"

definition demo_plan :: SubscriptionPlan where
  "demo_plan = \<lparr>plID = 20, plCode = ''monthly'', plName = ''Monthly'', plDescription = None, plPriceAmount = 100,
     plCurrencyCode = ''INR'', plBillingPeriodDays = 30, plLeadLimit = None, plFairUseLimit = None, plPriorityWeight = 2,
     plIsUnlimited = False, plIsFleetPlan = False, plMaxDrivers = None, plGracePeriodDays = 3, plIsActive = True\<rparr>"

definition demo_shop :: "(int, unit) rider" where
  "demo_shop = (demo_city ''completed'')\<lparr>ride_plans := [demo_plan], rider_wallet := 50000\<rparr>"

definition demo_sales :: "(int, unit) RiderService" where
  "demo_sales = demo_rides\<lparr>rsvWallet := Some demo_wallet\<rparr>"

lemmas demo_shop_defs = demo_sales_def demo_shop_def demo_plan_def demo_wallet_def demo_rides_defs

lemma demo_price: "to_paise (plPriceAmount demo_plan) = 10000"
proof -
  have "fl64 (numeral k) = numeral k" if "(numeral k :: int) < 2 ^ 53" for k
    using fl64_of_int [of "numeral k"] that by simp
  then show ?thesis
    using math_Round_unique [of 10000 10000] by (simp add: to_paise_def float_to_int64_def int64_def demo_plan_def)
qed

lemma demo_buys: "\<exists>res. fst (Subscribe demo_sales 50 20 ''wallet'' ''k'' demo_shop) = Inr res"
proof -
  have find: "FindRideKey ''k'' 50 SubscribeOperation demo_shop = (Inl ErrRideKeyNotFound, demo_shop)"
    by (simp add: FindRideKey_def demo_shop_def demo_city_def io_defs)
  have partner: "GetMyPartner 50 demo_shop = (Inr (Partner.truncate demo_partner), demo_shop)"
    by (simp add: GetMyPartner_def rider_eval demo_shop_defs io_defs)
  have plan: "GetPlan 20 demo_shop = (Inr demo_plan, demo_shop)"
    by (simp add: GetPlan_def query_row_def demo_shop_defs io_defs)
  have standing: "plIsActive demo_plan" "ptStatus (Partner.truncate demo_partner) = ''approved''"
    by (simp_all add: demo_partner_def demo_plan_def Partner.truncate_def)
  have eq: "Subscribe demo_sales 50 20 ''wallet'' ''k'' demo_shop = sell_pass demo_sales 50 ''wallet'' ''k'' (Partner.truncate demo_partner) demo_plan demo_shop"
    using find partner plan standing
    by (simp add: Subscribe_def subscribe_fresh_eq allowedPaymentMethods_def io_defs or_not_found_def ErrRideKeyNotFound_def)
  show ?thesis
    unfolding eq sell_pass_def demo_price
    by (simp add: CreateSubscriptionPayment_def sub_payment_of_def sql_insert_sub_payment_def too_long_def rider_payment_status_def
      pay_subscription_def debit_and_activate_def activate_debited_def activateSubscriptionWithPlan_def CreateSubscription_def
      MarkSubPaymentVerified_def sub_payment_row_def sql_update_sub_payment_def sub_of_input_def plan_status_def or_else_def
      rider_subscription_status_def PartnerSubscription.truncate_def RecordRideKey_def on_rider_wallet_def rider_eval demo_shop_defs io_defs postgres_eval)
qed

theorem subscription_bought_witness:
  "map (\<lambda>s. (suPartnerID s, suStatus s, suExpiresAt s)) (ride_subs (snd (Subscribe demo_sales 50 20 ''wallet'' ''k'' demo_shop)))
     = [(5, ''active'', 2592000000500)]
   \<and> map sbpStatus (sub_payments (snd (Subscribe demo_sales 50 20 ''wallet'' ''k'' demo_shop))) = [''verified'']"
proof -
  let ?r = "Subscribe demo_sales 50 20 ''wallet'' ''k'' demo_shop"
  obtain res where "fst ?r = Inr res" using demo_buys by blast
  then have sold: "?r = (Inr res, snd ?r)" by (metis prod.collapse)
  have "live_key ''k'' demo_shop = None" by (simp add: live_key_def demo_shop_def demo_city_def)
  from subscription_bought [OF sold this] obtain p :: partner_row and pl pay0 sub pay where
    p: "the_partner 50 demo_shop = Some p" "the_plan 20 demo_shop = Some pl" "ride_subs (snd ?r) = ride_subs demo_shop @ [sub]"
      "sub_payments (snd ?r) = sub_payments demo_shop @ [pay]"
      "pass_sold (Partner.truncate p) pl (clock demo_shop) pay0 res sub pay"
    by blast
  have "p = demo_partner" "pl = demo_plan"
    using p(1,2) by (simp_all add: the_partner_def the_plan_def demo_shop_defs)
  then show ?thesis
    using p(3-5) by (auto simp: pass_sold_def plan_status_def day_us_def demo_shop_defs Partner.truncate_def)
qed

section \<open>A partner on the register\<close>

definition demo_insurance :: VehicleDocument where
  "demo_insurance = \<lparr>vdID = 40, vdVehicleID = 6, vdDocumentType = ''vehicle_insurance'', vdDocumentNumber = None,
     vdFileURL = ''s3://insurance'', vdStatus = ''pending'', vdRejectionReason = None, vdExpiresAt = Some 10, vdCreatedAt = 0,
     vdUpdatedAt = 0\<rparr>"

definition demo_sub :: sub_row where
  "demo_sub = \<lparr>suID = 21, suPartnerID = 5, suPlanID = 20, suStatus = ''active'', suStartsAt = 0, suExpiresAt = 10000,
     suGraceEndsAt = None, suLeadsUsed = 0, suFairUseUsed = 0, suAutoRenew = False, suCancelledAt = None, suCreatedAt = 0,
     suUpdatedAt = 0, swRenewalAttemptedAt = None, swRenewalFailureCount = 0\<rparr>"

text \<open>The insurance of the vehicle ran out long before the clock's 500.\<close>

definition demo_ready :: "(int, unit) rider" where
  "demo_ready = (demo_city ''completed'')\<lparr>ride_subs := [demo_sub], vehicle_docs := [demo_insurance]\<rparr>"

lemmas demo_ready_defs = demo_ready_def demo_sub_def demo_insurance_def demo_rides_defs

lemma demo_in_order: "well_registered (standing demo_ready)"
  by (simp add: well_registered_def standing_def demo_ready_defs)

theorem register_stays_in_order_witness:
  "well_registered (standing (snd (AddVehicle 50 5 \<lparr>avrVehicleType = ''auto'', avrRegistrationNumber = '' ka01ab1234 '',
     avrBrand = None, avrModel = None, avrColor = None, avrManufactureYear = None, avrSeatCount = None, avrFuelType = None,
     avrIsEV = False\<rparr> demo_ready)))"
  by (rule register_stays_in_order [of demo_rides False demo_ready], rule r_into_rtranclp, rule register_step.add_vehicle)
    (rule demo_in_order)

theorem only_the_back_office_approves_witness:
  "approvals (standing (snd (SubmitKYCDocument 50 5 \<lparr>skdDocumentType = ''pan'', skdDocumentNumber = Some ''P'',
     skdFileURL = ''s3://pan'', skdExpiresAt = None\<rparr> demo_ready))) \<subseteq> {(''partner'', 5), (''kyc'', 5), (''vehicle'', 6)}"
proof -
  have "approvals (standing demo_ready) = {(''partner'', 5), (''kyc'', 5), (''vehicle'', 6)}"
    by (simp add: approvals_def standing_def face_def demo_ready_defs insert_commute Collect_conv_if)
  then show ?thesis
    using only_the_back_office_approves [of demo_rides demo_ready, OF r_into_rtranclp, OF register_step.submit_document] by simp
qed

theorem vehicle_documents_never_lapse_witness:
  "fst (CountExpiredApprovedVehicleDocs 6 demo_ready) = Inr 0 \<and> vdExpiresAt demo_insurance = Some 10 \<and> clock demo_ready = 500"
proof -
  have "net demo_ready = []" by (simp add: demo_ready_def demo_city_def)
  then obtain n where "fst (CountExpiredApprovedVehicleDocs 6 demo_ready) = Inr n"
    by (simp add: CountExpiredApprovedVehicleDocs_def io_defs postgres_eval)
  with vehicle_documents_never_lapse [of demo_rides False demo_ready, OF rtranclp.rtrancl_refl demo_in_order]
  show ?thesis by (simp add: demo_ready_def demo_insurance_def demo_city_def)
qed

lemma demo_goes_online: "fst (GoOnline 50 demo_ready) = Inr ()"
  by (simp add: GoOnline_def none_lapsed_def with_subscription_def CountExpiredApprovedPartnerDocs_def ListVehiclesByPartner_def
    CountExpiredApprovedVehicleDocs_def GetActiveSubscription_def current_sub_def live_sub_def live_statuses_def lapsed_def
    SetPartnerOnlineFlag_def Vehicle.truncate_def PartnerSubscription.truncate_def rider_eval demo_ready_defs io_defs postgres_eval)

theorem going_online_is_gated_witness: "may_drive 50 demo_ready"
  by (rule going_online_is_gated [OF prod.collapse [symmetric]]) (simp add: demo_goes_online)

end
