(* ===== verification/Spec2Isabelle.thy ===== *)
theory Spec2Isabelle
  imports Wallet_Http Wallet_Icici Billpay_Webhook Billpay_Jobs Billpay_History Payments_Examples Rider_Examples
begin

text \<open>
  Verification of the money plane of the platform, three Go services under
  \<^verbatim>\<open>src/Architecture/services\<close> and the code they share, and of rider-service: its rides, and
  the registration and subscriptions of its partners.

  \<^bold>\<open>The program.\<close> wallet-service mirrors in Postgres the balances that a partner bank (ICICI) keeps
  for the users: top-ups over UPI, sends between users, debits and refunds for other services, KYC
  tiers with monthly limits. bill-pay-service pays bills through Setu, an aggregator, from the wallet
  or by other methods: it debits the wallet over wallet-service's internal HTTP routes, submits the
  payment to Setu, compensates by a refund when Setu declines, and learns the outcome from Setu's
  webhook; cron jobs run scheduled payments and reminders. payments-service keeps payment intents for
  the marketplace: it creates orders at Razorpay, learns about captures and refunds from Razorpay's
  webhook, verifies checkouts by signature, refunds and holds in escrow. The services share response
  envelopes and the internal-key gate of \<^verbatim>\<open>Architecture/shared\<close>.

  \<^bold>\<open>How code becomes definitions.\<close> A struct is a record, a Go function or method is a definition
  of the same name; where two layers or services use one name, the store's has the prefix
  \<open>store_\<close>, a handler's \<open>http_\<close>, a client's the client's (\<open>smock_\<close>, \<open>shttp_\<close>, \<open>whttp_\<close>, \<open>icici_\<close>,
  \<open>rzp_\<close>). An operation takes the service's state and returns a result (\<open>Inl\<close> for a non-nil error)
  with the state it left, on error paths too (\<open>io\<close> in \<open>Go_Prelude\<close>). A service's state extends
  \<open>env\<close> of \<open>Postgres\<close> (network, clock, identifiers) by its tables in order of insertion, the events
  it published, and the other side it talks to: the bank, the wallet, Setu or the payment provider,
  each of an arbitrary type. One SQL statement is one \<open>db_call\<close>, and constraints of the schema are
  errors of the statement. Amounts in paise are integers, with the 64-bit range checked where
  Postgres checks it (\<open>bigadd\<close>) and wrapped where Go wraps it (\<open>wrap64\<close>); times are microseconds,
  identifiers 128-bit words, floats the rationals that \<open>fl64\<close> rounds to.

  \<^bold>\<open>Faults and interleaving.\<close> Every round trip to the database, the event broker or a neighbour
  takes its outcome from \<open>net\<close>: it works, is refused, or works with its reply lost. Transactions roll
  back. The step relations (\<open>wallet_step\<close>, \<open>billpay_step\<close>, \<open>ps_step\<close>, \<open>rider_step\<close>,
  \<open>register_step\<close>) compose requests in any
  order with any later plan of the network, the passing of time and moves of the other side. In
  \<open>wallet_step\<close> and \<open>billpay_step\<close> requests do not overlap; where overlapping changes the outcome,
  theorems about the parts of an operation say how (\<open>confirm_race_credits_again\<close>). \<open>ps_step\<close> also has
  the store calls of concurrent requests as steps of their own.

  \<^bold>\<open>Shared theories.\<close> \<open>Go_Prelude\<close>: errors, operations and the rules \<open>keeps\<close> and \<open>triple\<close>, one for each
  combinator. \<open>Postgres\<close>: statements, transactions, \<open>stable\<close> parts of a state. \<open>Go_Strings\<close>,
  \<open>Go_Time\<close>, \<open>Go_Float\<close>, \<open>Go_Json\<close>: strings and identifiers, dates, \<open>float64\<close>, JSON.
  \<open>Go_Crypto\<close>: SHA-256, HMAC, hex, base64. \<open>Go_Http\<close>: requests, responses, the shared envelope
  (\<^verbatim>\<open>shared/api/response.go\<close>) and the gate (\<^verbatim>\<open>shared/middleware/internal_auth.go\<close>).

  \<^bold>\<open>wallet-service.\<close>
  \<^item> \<open>Wallet_Store\<close>, \<open>Wallet_Transactions\<close>: \<^verbatim>\<open>internal/store\<close>. \<open>Wallet_Bank\<close>, \<open>Wallet_Icici\<close>:
    \<^verbatim>\<open>internal/bank\<close>, with the contract \<open>partner_bank\<close> interpreted on the mock: a
    transfer that succeeds moves its amount and is the next entry of the bank's log, nothing else
    changes balances or log.
  \<^item> \<open>Wallet_Service\<close>, \<open>Wallet_KYC\<close>: \<^verbatim>\<open>internal/service\<close>. \<open>Wallet_Http\<close>: \<^verbatim>\<open>internal/http\<close>; an
    exchange runs exactly the operation that the table \<open>call_request\<close> reads from it, or none.
    \<open>Wallet_System\<close>: the service as a whole, with \<^verbatim>\<open>cmd/expirer\<close>.
  \<^item> Properties: the ledger invariant (\<open>Wallet_Ledger\<close>, \<open>Wallet_System\<close>): \<open>pending_out\<close> is the sum of the
    open debits. \<open>Wallet_Saga\<close>: debits and sends against an abstract account of where the money is, in the
    mirror (\<open>avail\<close>), in the sub-accounts the rows name (\<open>account\<close>) and in the bank's books.
    \<open>Wallet_History\<close>: \<open>row_invariant\<close> and \<open>balance_invariant\<close> say what a predicate on rows has to
    survive; the log is append-only, limits follow the KYC tier. \<open>Wallet_Behaviour\<close>: single
    operations, branch by branch. \<open>Wallet_Listing\<close>: history pages, complete but for ties at the end of a page.

  \<^bold>\<open>bill-pay-service.\<close>
  \<^item> \<open>Billpay_Store\<close>, \<open>Billpay_Tables\<close>: \<^verbatim>\<open>internal/store\<close>. \<open>Billpay_Setu\<close>: \<^verbatim>\<open>internal/setu\<close>.
    \<open>Billpay_Wallet\<close>: \<^verbatim>\<open>internal/wallet\<close>, with the contract \<open>wallet_client\<close>.
  \<^item> \<open>Billpay_Service\<close>: \<^verbatim>\<open>internal/service\<close>. \<open>Billpay_Http\<close>: \<^verbatim>\<open>internal/http\<close>. \<open>Billpay_System\<close>: the
    service as a whole and, from the contract \<open>billpay_invariant\<close>, what no run does to payments.
  \<^item> \<open>Billpay_Link\<close>: the two services composed. The production HTTP client, talking to the model of
    wallet-service over a faulty connection, meets \<open>wallet_client\<close> (a debit is one \<open>MerchantDebit\<close> or
    an error). \<open>Billpay_Money\<close>, \<open>Billpay_History\<close>: whose money a payment moves, over whole runs.
  \<^item> Properties of single operations: \<open>Billpay_Behaviour\<close> (payment, compensation, retry),
    \<open>Billpay_Webhook\<close> (outcomes, duplicates, authenticity), \<open>Billpay_Jobs\<close> (cron jobs, plans).

  \<^bold>\<open>payments-service.\<close>
  \<^item> \<open>Payments_Store\<close>: \<^verbatim>\<open>internal/store/postgres\<close>. \<open>Payments_Gateway\<close>: \<^verbatim>\<open>internal/gateway\<close>.
    \<open>Payments_Service\<close>: \<^verbatim>\<open>internal/service\<close>. \<open>Payments_Http\<close>: \<^verbatim>\<open>internal/http\<close> and the choice of
    gateway and secrets in \<^verbatim>\<open>cmd/server/main.go\<close>.
  \<^item> \<open>Payments_System\<close>: the service as a whole and the contract \<open>intents_invariant\<close>.
    \<open>Payments_Ledger\<close>: an abstract ledger (\<open>ledger_step\<close>) that every run refines.
    \<open>Payments_Refunds\<close>: what the ledger's steps keep: refunds within the amount, statuses that tell
    the refunds, the state machine.
  \<^item> Properties of single operations: \<open>Payments_Behaviour\<close> (refund, verification, replay, amounts),
    \<open>Payments_Webhook\<close> (authenticity, duplicates, lost events). \<open>Payments_Examples\<close>: a run on the stub
    gateway on which they are instantiated.

  \<^bold>\<open>rider-service.\<close> Partners from registration to the road, rides from booking to payment, and the
  passes partners buy to be given rides.
  \<^item> \<open>Rider_Store\<close>, \<open>Rider_Tables\<close>: \<^verbatim>\<open>internal/store\<close> on rides, \<open>Rider_Plans\<close> on subscriptions,
    reminders and job runs, \<open>Rider_Register\<close> on partners, vehicles and documents. \<open>Rider_Geo\<close>:
    \<^verbatim>\<open>internal/geo\<close>, \<open>Rider_Matcher\<close>: \<^verbatim>\<open>internal/matcher\<close>, \<open>Rider_Otp\<close>: \<^verbatim>\<open>internal/otp\<close>,
    \<open>Rider_Wallet\<close>: \<^verbatim>\<open>internal/wallet\<close>, \<open>Rider_Digilocker\<close>: \<^verbatim>\<open>internal/digilocker\<close>, \<open>Rider_Fares\<close>,
    \<open>Rider_Service\<close>, \<open>Rider_Subscriptions\<close>, \<open>Rider_Onboarding\<close>: \<^verbatim>\<open>internal/service\<close> with the jobs on
    subscriptions and documents and one tick of \<^verbatim>\<open>internal/cron\<close>.
  \<^item> \<open>Rider_Machine\<close>: an abstract machine of the table of rides (\<open>ride_step\<close>) that every run of the
    service (\<open>rider_step\<close>) refines, and what the machine keeps: bookings, the table of transitions,
    final statuses. The geohash round trip, the choice of candidates, codes and fees are proved beside
    their definitions. The contract \<open>off_rides\<close> says what statements on rides leave alone; it is
    interpreted on the table of rides itself and on the register.
  \<^item> \<open>Rider_Standing\<close>: an abstract machine of the register (\<open>reg_step\<close>) that every operation of the
    service (\<open>register_step\<close>) refines, rides and subscriptions among them, and what it keeps: a register
    in order, approvals by the back office alone, documents of vehicles that nobody decides on.
    \<open>Rider_Licence\<close>: who can go online.
  \<^item> \<open>Rider_Behaviour\<close>: who can start, take, complete and cancel a ride and with which effect;
    \<open>Rider_Renewals\<close>: what buying a subscription does to the wallet and to the tables, from the contract
    \<open>subs_apart\<close> (what statements on subscriptions leave alone), interpreted on the wallet, the rides and
    the register of partners. \<open>Rider_Examples\<close>: one ride, one plan and one register on which the
    properties are instantiated.

  \<^bold>\<open>Bounds.\<close> No definition of code uses fuel (the client of \<open>follow_pages\<close> is given a page more than
  there are rows, which is proved to be enough): loops run over lists that were read before (schedules, at most
  500; history pages, at most 1000 rows; intents of a reference, at most 100). Exactness of the
  conversion between paise and \<open>float64\<close> rupees is proved below \<open>2 ^ 50\<close> paise for the mirror of an
  intent and below \<open>2 ^ 52\<close> for UPI links, far above the limits of a wallet.

  \<^bold>\<open>Parameters.\<close> Not under \<open>src\<close> and therefore arguments: \<^verbatim>\<open>uuid.Parse\<close>, the conversion of a
  \<open>float64\<close> to \<open>NUMERIC\<close>, the servers of ICICI, Setu and Razorpay, the randomness of
  \<^verbatim>\<open>gen_random_uuid()\<close> (identifiers may collide) and of \<^verbatim>\<open>crypto/rand\<close>, Redis, DigiLocker, \<^verbatim>\<open>os.Getenv\<close>,
  and the trigonometric functions of \<^verbatim>\<open>math\<close>.

  \<^bold>\<open>Not modelled.\<close> The encoding of events for Kafka (the events themselves are in the state), pools,
  metrics, tracing and logging, process start-up apart from the configuration of payments-service;
  the request-id metadata of responses; the other services of the platform (marketplace, social,
  messaging, identity), which do not take part in these flows except as HTTP callers; of
  rider-service safety reports, complaints, chat, the lists and counts of the dashboard, the maintenance of
  cities, zones and fare rules, the jobs other than those on subscriptions and documents, the timers that
  start jobs, and the HTTP layer. Of Postgres: the order of rows that a statement leaves open (rows come
  in order of insertion) and the cutting of excess spaces by \<^verbatim>\<open>VARCHAR(n)\<close>; of Go: Unicode letter case,
  and the passing of time within one call.
\<close>

end
